(* ===== verification/Prelude.thy ===== *)
theory Prelude
  imports Main "HOL-Library.Sublist" "HOL-Library.List_Lexorder" "HOL-Library.Char_ord"
    "HOL-Library.Word" "HOL-Library.Multiset"
begin

section \<open>Prelude: the part of Go the code is written in\<close>

text \<open>
  A Go string is a sequence of bytes, and so is an Isabelle \<^typ>\<open>string\<close>: a \<^typ>\<open>char\<close> is
  one byte. This theory defines the functions of Go's packages \<open>strings\<close> and \<open>strconv\<close> the
  repository uses (\<open>TrimSpace\<close>, \<open>HasPrefix\<close>, \<open>TrimPrefix\<close>, \<open>Split\<close>, \<open>Join\<close>, \<open>Index\<close>,
  \<open>Count\<close>, \<open>Fields\<close>, \<open>Itoa\<close>, \<open>Atoi\<close>, the \<open>%q\<close> verb), the 64-bit \<open>int\<close> with its
  wrap-around, deduplication in order of first occurrence and the byte order of strings
  (\<open>List_Lexorder\<close> over \<open>Char_ord\<close>), with the generic lemmas all components share.
\<close>

named_theorems go_defs "definitions of the modelled operations"
named_theorems go_splits "case splits of the modelled result types"

subsection \<open>Bytes\<close>

abbreviation (input) newline :: char where "newline \<equiv> CHR 0x0A"
abbreviation (input) carriage :: char where "carriage \<equiv> CHR 0x0D"
abbreviation (input) tab :: char where "tab \<equiv> CHR 0x09"
abbreviation (input) blank :: char where "blank \<equiv> CHR 0x20"
abbreviation (input) slash :: char where "slash \<equiv> CHR ''/''"
abbreviation (input) backslash :: char where "backslash \<equiv> CHR 0x5C"
abbreviation (input) squote :: char where "squote \<equiv> CHR 0x27"
abbreviation (input) dquote :: char where "dquote \<equiv> CHR 0x22"

subsection \<open>Prefixes and suffixes\<close>

definition has_prefix :: "string \<Rightarrow> string \<Rightarrow> bool" where
  "has_prefix s p \<longleftrightarrow> prefix p s"

definition has_suffix :: "string \<Rightarrow> string \<Rightarrow> bool" where
  "has_suffix s p \<longleftrightarrow> prefix (rev p) (rev s)"

definition trim_prefix :: "string \<Rightarrow> string \<Rightarrow> string" where
  "trim_prefix s p = (if has_prefix s p then drop (length p) s else s)"

definition trim_suffix :: "string \<Rightarrow> string \<Rightarrow> string" where
  "trim_suffix s p = (if has_suffix s p then take (length s - length p) s else s)"

lemma has_prefix_simps [simp]:
  "has_prefix s []"
  "\<not> has_prefix [] (c # p)"
  "has_prefix (x # s) (c # p) \<longleftrightarrow> c = x \<and> has_prefix s p"
  by (auto simp: has_prefix_def)

lemma has_prefix_append [simp]: "has_prefix (p @ s) p"
  by (simp add: has_prefix_def)

lemma has_prefixE:
  assumes "has_prefix s p" obtains t where "s = p @ t"
  using assms by (auto simp: has_prefix_def prefix_def)

lemma has_prefix_iff: "has_prefix s p \<longleftrightarrow> (\<exists>t. s = p @ t)"
  by (auto simp: has_prefix_def prefix_def)

lemma trim_prefix_append [simp]: "trim_prefix (p @ s) p = s"
  by (simp add: trim_prefix_def)

lemma has_suffix_iff: "has_suffix s p \<longleftrightarrow> (\<exists>t. s = t @ p)"
  by (metis has_suffix_def prefix_def rev_append rev_rev_ident)

lemma has_suffix_append [simp]: "has_suffix (s @ p) p"
  by (auto simp: has_suffix_iff)

lemma trim_suffix_append [simp]: "trim_suffix (s @ p) p = s"
  by (simp add: trim_suffix_def)

lemma trim_suffix_Nil [simp]: "trim_suffix [] p = []"
  by (simp add: trim_suffix_def)

subsection \<open>TrimSpace\<close>

text \<open>
  The UTF-8 encodings of the runes for which \<open>unicode.IsSpace\<close> holds. \<open>TrimSpace\<close> drops
  whole encodings at both ends; an incomplete encoding is not a space.
\<close>

definition space_runes :: "string list" where
  "space_runes =
    [[CHR 0x09], [CHR 0x0A], [CHR 0x0B], [CHR 0x0C], [CHR 0x0D], [CHR 0x20],
     [CHR 0xC2, CHR 0x85], [CHR 0xC2, CHR 0xA0],
     [CHR 0xE1, CHR 0x9A, CHR 0x80],
     [CHR 0xE2, CHR 0x80, CHR 0x80], [CHR 0xE2, CHR 0x80, CHR 0x81],
     [CHR 0xE2, CHR 0x80, CHR 0x82], [CHR 0xE2, CHR 0x80, CHR 0x83],
     [CHR 0xE2, CHR 0x80, CHR 0x84], [CHR 0xE2, CHR 0x80, CHR 0x85],
     [CHR 0xE2, CHR 0x80, CHR 0x86], [CHR 0xE2, CHR 0x80, CHR 0x87],
     [CHR 0xE2, CHR 0x80, CHR 0x88], [CHR 0xE2, CHR 0x80, CHR 0x89],
     [CHR 0xE2, CHR 0x80, CHR 0x8A],
     [CHR 0xE2, CHR 0x80, CHR 0xA8], [CHR 0xE2, CHR 0x80, CHR 0xA9],
     [CHR 0xE2, CHR 0x80, CHR 0xAF], [CHR 0xE2, CHR 0x81, CHR 0x9F],
     [CHR 0xE3, CHR 0x80, CHR 0x80]]"

fun strip_one :: "string list \<Rightarrow> string \<Rightarrow> string option" where
  "strip_one [] s = None"
| "strip_one (r # rs) s =
     (if r \<noteq> [] \<and> prefix r s then Some (drop (length r) s) else strip_one rs s)"

lemma strip_one_Some:
  assumes "strip_one rs s = Some t"
  shows "length t < length s \<and> (\<exists>r\<in>set rs. r \<noteq> [] \<and> s = r @ t)"
  using assms
proof (induction rs)
  case (Cons r rs)
  show ?case
  proof (cases "r \<noteq> [] \<and> prefix r s")
    case True
    then obtain u where "s = r @ u" "r \<noteq> []" by (auto simp: prefix_def)
    with Cons.prems show ?thesis by auto
  next
    case False
    with Cons show ?thesis by (auto split: if_splits)
  qed
qed simp

lemma strip_one_None_iff: "strip_one rs s = None \<longleftrightarrow> (\<forall>r\<in>set rs. r \<noteq> [] \<longrightarrow> \<not> prefix r s)"
  by (induction rs) auto

function trim_runes :: "string list \<Rightarrow> string \<Rightarrow> string" where
  "trim_runes rs s = (case strip_one rs s of None \<Rightarrow> s | Some t \<Rightarrow> trim_runes rs t)"
  by pat_completeness auto
termination
  by (relation "measure (\<lambda>(rs, s). length s)") (auto dest: strip_one_Some)

declare trim_runes.simps [simp del]

lemma trim_runes_fix [simp]: "strip_one rs s = None \<Longrightarrow> trim_runes rs s = s"
  by (simp add: trim_runes.simps [of rs s])

lemma strip_one_trim_runes: "strip_one rs (trim_runes rs s) = None"
  by (induction rs s rule: trim_runes.induct)
    (metis (mono_tags, lifting) option.case_eq_if option.collapse option.discI trim_runes.simps)

lemma trim_runes_suffix: "suffix (trim_runes rs s) s"
proof (induction rs s rule: trim_runes.induct)
  case (1 rs s)
  show ?case
  proof (cases "strip_one rs s")
    case (Some t)
    then obtain r where "s = r @ t" using strip_one_Some by blast
    have "trim_runes rs s = trim_runes rs t"
      using Some by (subst trim_runes.simps) simp
    moreover have "suffix t s" using \<open>s = r @ t\<close> by (simp add: suffix_def)
    ultimately show ?thesis
      using 1 [OF Some] suffix_order.trans by metis
  qed simp
qed

lemma trim_runes_keeps:
  assumes "c \<in> set s" and "\<forall>r\<in>set rs. c \<notin> set r"
  shows "c \<in> set (trim_runes rs s)"
  using assms
proof (induction rs s rule: trim_runes.induct)
  case (1 rs s)
  show ?case
  proof (cases "strip_one rs s")
    case (Some t)
    then obtain r where "r \<in> set rs" "s = r @ t" using strip_one_Some by blast
    then have "c \<in> set t" using "1.prems" by auto
    then show ?thesis
      using 1 Some by (simp add: trim_runes.simps [of rs s])
  next
    case None
    with 1 show ?thesis by simp
  qed
qed

definition trim_space_left :: "string \<Rightarrow> string" where
  "trim_space_left s = trim_runes space_runes s"

definition trim_space_right :: "string \<Rightarrow> string" where
  "trim_space_right s = rev (trim_runes (map rev space_runes) (rev s))"

definition trim_space :: "string \<Rightarrow> string" where
  "trim_space s = trim_space_right (trim_space_left s)"

definition starts_with_space :: "string \<Rightarrow> bool" where
  "starts_with_space s \<longleftrightarrow> strip_one space_runes s \<noteq> None"

definition ends_with_space :: "string \<Rightarrow> bool" where
  "ends_with_space s \<longleftrightarrow> strip_one (map rev space_runes) (rev s) \<noteq> None"

lemma trim_space_left_prefix: "suffix (trim_space_left s) s"
  by (simp add: trim_space_left_def trim_runes_suffix)

lemma trim_space_right_prefix: "prefix (trim_space_right s) s"
  using trim_runes_suffix [of "map rev space_runes" "rev s"]
  by (simp add: trim_space_right_def suffix_to_prefix)

lemma not_starts_with_space_prefix:
  assumes "prefix t s" and "\<not> starts_with_space s"
  shows "\<not> starts_with_space t"
  using assms prefix_order.trans
  unfolding starts_with_space_def by (metis strip_one_None_iff)

lemma trim_space_ends:
  "\<not> starts_with_space (trim_space s)" "\<not> ends_with_space (trim_space s)"
proof -
  have "\<not> starts_with_space (trim_space_left s)"
    by (simp add: starts_with_space_def trim_space_left_def strip_one_trim_runes)
  then show "\<not> starts_with_space (trim_space s)"
    unfolding trim_space_def
    using trim_space_right_prefix not_starts_with_space_prefix by blast
  show "\<not> ends_with_space (trim_space s)"
    by (simp add: ends_with_space_def trim_space_def trim_space_right_def strip_one_trim_runes)
qed

lemma trim_space_fixI:
  "\<not> starts_with_space s \<Longrightarrow> \<not> ends_with_space s \<Longrightarrow> trim_space s = s"
  by (simp add: trim_space_def trim_space_left_def trim_space_right_def
      starts_with_space_def ends_with_space_def)

lemma trim_space_idem [simp]: "trim_space (trim_space s) = trim_space s"
  by (simp add: trim_space_ends trim_space_fixI)

lemma trim_space_Nil [simp]: "trim_space [] = []"
  by (rule trim_space_fixI)
    (simp_all add: starts_with_space_def ends_with_space_def space_runes_def)

lemma prefix_Cons_neq: "c \<noteq> d \<Longrightarrow> \<not> prefix (c # p) (d # s)"
  by simp

lemma starts_with_space_slash [simp]: "\<not> starts_with_space (CHR ''/'' # s)"
  by (simp add: starts_with_space_def space_runes_def)

lemma slash_not_in_space_runes: "\<forall>r\<in>set space_runes. CHR ''/'' \<notin> set r"
  by (simp add: space_runes_def)

lemma ends_with_space_iff: "ends_with_space s \<longleftrightarrow> (\<exists>r\<in>set space_runes. r \<noteq> [] \<and> suffix r s)"
  using strip_one_None_iff [of "map rev space_runes" "rev s"]
  by (auto simp: ends_with_space_def suffix_to_prefix)

lemma ends_with_space_slash [simp]: "ends_with_space (a @ CHR ''/'' # n) \<longleftrightarrow> ends_with_space n"
proof -
  have "suffix r (a @ CHR ''/'' # n) \<longleftrightarrow> suffix r n" if "CHR ''/'' \<notin> set r" for r
    using that by (auto simp: suffix_append suffix_Cons)
  then show ?thesis using slash_not_in_space_runes by (auto simp: ends_with_space_iff)
qed

lemma trim_space_slash:
  "\<exists>t. trim_space (CHR ''/'' # s) = CHR ''/'' # t \<and> prefix t s"
proof -
  let ?p = "CHR ''/'' # s"
  have l: "trim_space_left ?p = ?p"
    using starts_with_space_slash [of s] by (simp add: starts_with_space_def trim_space_left_def)
  have "CHR ''/'' \<in> set (trim_space_right ?p)"
    unfolding trim_space_right_def set_rev
    by (rule trim_runes_keeps) (use slash_not_in_space_runes in auto)
  moreover have "prefix (trim_space_right ?p) ?p" by (rule trim_space_right_prefix)
  ultimately show ?thesis by (cases "trim_space_right ?p") (auto simp: trim_space_def l)
qed

subsection \<open>Split, Join\<close>

text \<open>\<open>strings.Split(s, sep)\<close> for a separator of one byte; the result is never empty.\<close>

fun split_on :: "char \<Rightarrow> string \<Rightarrow> string list" where
  "split_on c [] = [[]]"
| "split_on c (x # xs) =
     (if x = c then [] # split_on c xs
      else (case split_on c xs of [] \<Rightarrow> [[x]] | w # ws \<Rightarrow> (x # w) # ws))"

fun join :: "string \<Rightarrow> string list \<Rightarrow> string" where
  "join sep [] = []"
| "join sep [w] = w"
| "join sep (w # v # ws) = w @ sep @ join sep (v # ws)"

lemma split_on_neq_Nil [simp]: "split_on c s \<noteq> []"
  by (induction s) (auto split: list.splits)

lemma split_on_no_sep: "w \<in> set (split_on c s) \<Longrightarrow> c \<notin> set w"
  by (induction s arbitrary: w) (auto split: if_splits list.splits)

lemma join_Cons: "ws \<noteq> [] \<Longrightarrow> join sep (w # ws) = w @ sep @ join sep ws"
  by (cases ws) auto

lemma join_split_on [simp]: "join [c] (split_on c s) = s"
proof (induction s)
  case (Cons x xs)
  show ?case
  proof (cases "x = c")
    case True
    then show ?thesis using Cons by (simp add: join_Cons)
  next
    case False
    obtain w ws where ws: "split_on c xs = w # ws" using split_on_neq_Nil by (meson neq_Nil_conv)
    with Cons False show ?thesis by (cases ws) auto
  qed
qed simp

lemma split_on_word [simp]: "c \<notin> set w \<Longrightarrow> split_on c w = [w]"
  by (induction w) auto

lemma split_on_append: "c \<notin> set w \<Longrightarrow> split_on c (w @ c # s) = w # split_on c s"
  by (induction w) auto

lemma split_on_join:
  "ws \<noteq> [] \<Longrightarrow> \<forall>w\<in>set ws. c \<notin> set w \<Longrightarrow> split_on c (join [c] ws) = ws"
proof (induction ws rule: induct_list012)
  case (3 w v ws)
  then show ?case by (simp add: split_on_append)
qed auto

lemma set_join: "set (join sep ws) \<subseteq> set sep \<union> \<Union> (set ` set ws)"
  by (induction sep ws rule: join.induct) auto

text \<open>\<open>strings.SplitN(s, sep, 2)\<close> for a separator of one byte.\<close>

fun split_n2 :: "char \<Rightarrow> string \<Rightarrow> string \<times> string option" where
  "split_n2 c [] = ([], None)"
| "split_n2 c (x # xs) =
     (if x = c then ([], Some xs) else (case split_n2 c xs of (a, b) \<Rightarrow> (x # a, b)))"

lemma split_n2_None: "split_n2 c s = (a, None) \<Longrightarrow> a = s \<and> c \<notin> set s"
  by (induction s arbitrary: a) (auto split: if_splits prod.splits)

lemma split_n2_Some: "split_n2 c s = (a, Some b) \<Longrightarrow> s = a @ c # b \<and> c \<notin> set a"
  by (induction s arbitrary: a) (auto split: if_splits prod.splits)

lemma split_n2_append [simp]: "c \<notin> set a \<Longrightarrow> split_n2 c (a @ c # b) = (a, Some b)"
  by (induction a) auto

subsection \<open>Searching in strings\<close>

text \<open>\<open>strings.Index\<close> (\<^const>\<open>None\<close> for \<open>-1\<close>), \<open>strings.Contains\<close>, \<open>strings.Count\<close>.\<close>

fun index_of :: "string \<Rightarrow> string \<Rightarrow> nat option" where
  "index_of sub [] = (if sub = [] then Some 0 else None)"
| "index_of sub (x # xs) =
     (if prefix sub (x # xs) then Some 0 else map_option Suc (index_of sub xs))"

definition contains :: "string \<Rightarrow> string \<Rightarrow> bool" where
  "contains s sub \<longleftrightarrow> index_of sub s \<noteq> None"

lemma contains_iff: "contains s sub \<longleftrightarrow> sublist sub s"
proof (induction s)
  case (Cons x xs)
  then show ?case by (auto simp: contains_def sublist_Cons_right)
qed (simp add: contains_def)

lemma contains_char: "contains s [c] \<longleftrightarrow> c \<in> set s"
proof (induction s)
  case (Cons x xs)
  then show ?case by (auto simp: contains_def)
qed (simp add: contains_def)

lemma index_of_bound: "index_of sub s = Some n \<Longrightarrow> n + length sub \<le> length s"
proof (induction s arbitrary: n)
  case (Cons x xs)
  then show ?case by (auto split: if_splits dest: prefix_length_le)
qed (simp split: if_splits)

lemma index_of_match: "index_of sub s = Some n \<Longrightarrow> prefix sub (drop n s)"
  by (induction s arbitrary: n) (auto split: if_splits)

text \<open>The number of non-overlapping occurrences; for the empty string Go counts the runes plus
  one, which for the byte strings the code passes (separators and non-empty needles) is unused.\<close>

function count_sub :: "string \<Rightarrow> string \<Rightarrow> nat" where
  "count_sub sub s =
     (if sub = [] then Suc (length s)
      else (case index_of sub s of None \<Rightarrow> 0
            | Some n \<Rightarrow> Suc (count_sub sub (drop (n + length sub) s))))"
  by pat_completeness auto
termination
proof (relation "measure (\<lambda>(sub, s). length s)", goal_cases)
  case (2 sub s n)
  then have "n + length sub \<le> length s" "0 < length sub" by (auto dest: index_of_bound)
  then have "length s - (n + length sub) < length s" by linarith
  then show ?case by simp
qed simp

declare count_sub.simps [simp del]

text \<open>\<open>strings.Fields\<close>: the maximal runs of bytes that start no space rune.\<close>

function fields_from :: "string \<Rightarrow> string \<Rightarrow> string list" where
  "fields_from acc [] = (if acc = [] then [] else [rev acc])"
| "fields_from acc (x # xs) =
     (case strip_one space_runes (x # xs) of
        Some t \<Rightarrow> (if acc = [] then [] else [rev acc]) @ fields_from [] t
      | None \<Rightarrow> fields_from (x # acc) xs)"
  by pat_completeness auto
termination
  by (relation "measure (\<lambda>(acc, s). length s)") (use strip_one_Some in fastforce)+

definition fields :: "string \<Rightarrow> string list" where
  "fields s = fields_from [] s"

text \<open>\<open>strings.ToLower\<close>, as far as a search for an ASCII needle can see it: outside ASCII only
  U+0130 and U+212A have an ASCII lower case, and every other rune is kept.\<close>

definition lower_byte :: "char \<Rightarrow> char" where
  "lower_byte c = (let n = (of_char c :: nat) in if 65 \<le> n \<and> n \<le> 90 then char_of (n + 32) else c)"

fun to_lower :: "string \<Rightarrow> string" where
  "to_lower (c # s) =
     (if c = CHR 0xC4 \<and> take 1 s = [CHR 0xB0] then CHR ''i'' # to_lower (drop 1 s)
      else if c = CHR 0xE2 \<and> take 2 s = [CHR 0x84, CHR 0xAA] then CHR ''k'' # to_lower (drop 2 s)
      else lower_byte c # to_lower s)"
| "to_lower [] = []"

subsection \<open>Numbers\<close>

definition digit_char :: "nat \<Rightarrow> char" where
  "digit_char n = char_of (48 + n)"

fun show_nat :: "nat \<Rightarrow> string" where
  "show_nat n = (if n < 10 then [digit_char n] else show_nat (n div 10) @ [digit_char (n mod 10)])"

declare show_nat.simps [simp del]

definition show_int :: "int \<Rightarrow> string" where
  "show_int i = (if i < 0 then CHR ''-'' # show_nat (nat (- i)) else show_nat (nat i))"

definition is_digit :: "char \<Rightarrow> bool" where
  "is_digit c \<longleftrightarrow> 48 \<le> (of_char c :: nat) \<and> (of_char c :: nat) \<le> 57"

definition digit_val :: "char \<Rightarrow> nat" where
  "digit_val c = of_char c - 48"

definition digits_val :: "string \<Rightarrow> nat" where
  "digits_val s = foldl (\<lambda>n c. 10 * n + digit_val c) 0 s"

text \<open>The 64-bit signed \<open>int\<close>: additions wrap around.\<close>

definition min_int :: int where "min_int = - (2 ^ 63)"
definition max_int :: int where "max_int = 2 ^ 63 - 1"

definition in_int_range :: "int \<Rightarrow> bool" where
  "in_int_range i \<longleftrightarrow> min_int \<le> i \<and> i \<le> max_int"

definition add_int :: "int \<Rightarrow> int \<Rightarrow> int" where
  "add_int a b = sint (word_of_int (a + b) :: 64 word)"

lemma add_int_in_range:
  assumes "in_int_range (a + b)" shows "add_int a b = a + b"
proof -
  have "add_int a b = (a + b + 2 ^ 63) mod 2 ^ 64 - 2 ^ 63"
    unfolding add_int_def int_word_sint by simp
  also have "\<dots> = a + b"
    using assms by (simp add: in_int_range_def min_int_def max_int_def)
  finally show ?thesis .
qed

text \<open>\<open>strconv.Atoi\<close>: an optional sign, at least one digit, a value in the range of \<open>int\<close>.\<close>

definition atoi :: "string \<Rightarrow> int option" where
  "atoi s =
    (let (neg, ds) = (case s of [] \<Rightarrow> (False, [])
                      | c # cs \<Rightarrow> if c = CHR ''-'' then (True, cs)
                                else if c = CHR ''+'' then (False, cs) else (False, s));
         v = (if neg then - int (digits_val ds) else int (digits_val ds))
     in if ds \<noteq> [] \<and> list_all is_digit ds \<and> in_int_range v then Some v else None)"

lemma atoi_in_range: "atoi s = Some v \<Longrightarrow> in_int_range v"
  by (auto simp: atoi_def Let_def split: if_splits list.splits)

lemma digit_char_is_digit: "n < 10 \<Longrightarrow> is_digit (digit_char n) \<and> digit_val (digit_char n) = n"
  by (auto simp: is_digit_def digit_val_def digit_char_def)

lemma digits_val_snoc: "digits_val (ds @ [c]) = 10 * digits_val ds + digit_val c"
  by (simp add: digits_val_def)

lemma show_nat_digits:
  "show_nat n \<noteq> [] \<and> list_all is_digit (show_nat n) \<and> digits_val (show_nat n) = n"
proof (induction n rule: show_nat.induct)
  case (1 n)
  show ?case
  proof (cases "n < 10")
    case True
    then show ?thesis
      using digit_char_is_digit [of n] by (subst (1 2 3) show_nat.simps) (simp add: digits_val_def)
  next
    case False
    then show ?thesis
      using 1 [OF False] digit_char_is_digit [of "n mod 10"]
      by (subst (1 2 3) show_nat.simps) (simp add: digits_val_snoc)
  qed
qed

lemma digit_not_sign: "is_digit c \<Longrightarrow> c \<noteq> CHR ''-'' \<and> c \<noteq> CHR ''+''"
  by (auto simp: is_digit_def)

lemma atoi_show_int:
  assumes "in_int_range i" shows "atoi (show_int i) = Some i"
proof (cases "i < 0")
  case True
  then show ?thesis
    using assms show_nat_digits [of "nat (- i)"] by (simp add: atoi_def show_int_def Let_def)
next
  case False
  obtain c cs where cs: "show_nat (nat i) = c # cs"
    using show_nat_digits [of "nat i"] by (cases "show_nat (nat i)") auto
  then have "c \<noteq> CHR ''-'' \<and> c \<noteq> CHR ''+''"
    using show_nat_digits [of "nat i"] digit_not_sign by simp
  then show ?thesis
    using assms False cs show_nat_digits [of "nat i"] by (simp add: atoi_def show_int_def Let_def)
qed

subsection \<open>The \<open>%q\<close> verb\<close>

text \<open>
  \<open>strconv.Quote\<close> on ASCII bytes. A byte above 127 is copied, as Go does for every printable
  rune; for the few unprintable ones Go writes an escape. It occurs in error texts only.
\<close>

definition hex_digit :: "nat \<Rightarrow> char" where
  "hex_digit n = (if n < 10 then char_of (48 + n) else char_of (87 + n))"

definition quote_char :: "char \<Rightarrow> string" where
  "quote_char c =
    (let n = (of_char c :: nat) in
     if c = CHR 0x22 \<or> c = CHR 0x5C then [CHR 0x5C, c]
     else if n = 7 then [CHR 0x5C, CHR ''a''] else if n = 8 then [CHR 0x5C, CHR ''b'']
     else if n = 9 then [CHR 0x5C, CHR ''t''] else if n = 10 then [CHR 0x5C, CHR ''n'']
     else if n = 11 then [CHR 0x5C, CHR ''v''] else if n = 12 then [CHR 0x5C, CHR ''f'']
     else if n = 13 then [CHR 0x5C, CHR ''r'']
     else if n < 32 \<or> n = 127 then [CHR 0x5C, CHR ''x'', hex_digit (n div 16), hex_digit (n mod 16)]
     else [c])"

definition go_quote :: "string \<Rightarrow> string" where
  "go_quote s = [CHR 0x22] @ concat (map quote_char s) @ [CHR 0x22]"

subsection \<open>Deduplication and sorting\<close>

text \<open>The code's \<open>seen\<close> loops keep the first occurrence of every element.\<close>

fun dedupe_from :: "'a list \<Rightarrow> 'a list \<Rightarrow> 'a list" where
  "dedupe_from seen [] = []"
| "dedupe_from seen (x # xs) =
     (if x \<in> set seen then dedupe_from seen xs else x # dedupe_from (x # seen) xs)"

abbreviation dedupe_first :: "'a list \<Rightarrow> 'a list" where
  "dedupe_first \<equiv> dedupe_from []"

lemma set_dedupe_from: "set (dedupe_from seen xs) = set xs - set seen"
  by (induction seen xs rule: dedupe_from.induct) auto

lemma distinct_dedupe_from: "distinct (dedupe_from seen xs)"
  by (induction seen xs rule: dedupe_from.induct) (auto simp: set_dedupe_from)

lemma dedupe_from_id: "distinct xs \<Longrightarrow> set xs \<inter> set seen = {} \<Longrightarrow> dedupe_from seen xs = xs"
  by (induction seen xs rule: dedupe_from.induct) auto

lemma dedupe_sorted_idem:
  "sort (dedupe_first (sort (dedupe_first xs))) = sort (dedupe_first (xs :: 'a :: linorder list))"
  by (simp add: dedupe_from_id distinct_dedupe_from sorted_sort_id)

text \<open>A stable insertion sort for a comparison given as a function, as \<open>sort.SliceStable\<close>.\<close>

fun insert_by :: "('a \<Rightarrow> 'a \<Rightarrow> bool) \<Rightarrow> 'a \<Rightarrow> 'a list \<Rightarrow> 'a list" where
  "insert_by lt x [] = [x]"
| "insert_by lt x (y # ys) = (if lt y x then y # insert_by lt x ys else x # y # ys)"

definition stable_sort_by :: "('a \<Rightarrow> 'a \<Rightarrow> bool) \<Rightarrow> 'a list \<Rightarrow> 'a list" where
  "stable_sort_by lt xs = foldr (insert_by lt) xs []"

lemma set_insert_by [simp]: "set (insert_by lt x ys) = insert x (set ys)"
  by (induction ys) auto

lemma mset_insert_by [simp]: "mset (insert_by lt x ys) = mset (x # ys)"
  by (induction ys) auto

lemma mset_stable_sort_by [simp]: "mset (stable_sort_by lt xs) = mset xs"
  unfolding stable_sort_by_def by (induction xs) auto

lemma set_stable_sort_by [simp]: "set (stable_sort_by lt xs) = set xs"
  unfolding stable_sort_by_def by (induction xs) auto

lemma distinct_insert_by: "distinct (insert_by lt x ys) \<longleftrightarrow> x \<notin> set ys \<and> distinct ys"
  by (induction ys) auto

lemma distinct_stable_sort_by [simp]: "distinct (stable_sort_by lt xs) \<longleftrightarrow> distinct xs"
proof -
  have "set (foldr (insert_by lt) xs []) = set xs" for xs
    by (induction xs) auto
  then show ?thesis
    unfolding stable_sort_by_def by (induction xs) (auto simp: distinct_insert_by)
qed

text \<open>A comparison \<open>sort.Slice\<close> may be given: asymmetric, and not being less is transitive.\<close>

definition weak_order :: "('a \<Rightarrow> 'a \<Rightarrow> bool) \<Rightarrow> bool" where
  "weak_order lt \<longleftrightarrow> (\<forall>a b. lt a b \<longrightarrow> \<not> lt b a) \<and> (\<forall>a b c. \<not> lt b a \<longrightarrow> \<not> lt c b \<longrightarrow> \<not> lt c a)"

lemma weak_order_key: "weak_order (\<lambda>a b. (key a :: 'b :: linorder) < key b)" "weak_order (\<lambda>a b. (key b :: 'b :: linorder) < key a)"
  unfolding weak_order_def by (meson leD leI less_imp_le order_trans)+

lemma sorted_insert_by:
  assumes "weak_order lt"
  shows "sorted_wrt (\<lambda>a b. \<not> lt b a) ys \<Longrightarrow> sorted_wrt (\<lambda>a b. \<not> lt b a) (insert_by lt x ys)"
proof (induction ys)
  case (Cons y ys)
  have asym: "lt y x \<Longrightarrow> \<not> lt x y" using assms unfolding weak_order_def by blast
  have trans: "\<not> lt y x \<Longrightarrow> \<not> lt z y \<Longrightarrow> \<not> lt z x" for z
    using assms unfolding weak_order_def by blast
  show ?case
    by (cases "lt y x") (use Cons asym trans in simp_all)
qed simp

lemma sorted_stable_sort_by: "weak_order lt \<Longrightarrow> sorted_wrt (\<lambda>a b. \<not> lt b a) (stable_sort_by lt xs)"
  unfolding stable_sort_by_def by (induction xs) (auto intro: sorted_insert_by)

subsection \<open>Go maps\<close>

text \<open>A Go map is a list of pairs in the order an iteration visits them; keys are distinct in every
  map the code builds. \<open>map_put\<close> is \<open>m[k] = v\<close>, \<open>map_of\<close> is the lookup.\<close>

type_synonym ('k, 'v) gomap = "('k \<times> 'v) list"

fun map_put :: "'k \<Rightarrow> 'v \<Rightarrow> ('k, 'v) gomap \<Rightarrow> ('k, 'v) gomap" where
  "map_put k v [] = [(k, v)]"
| "map_put k v (x # m) = (if fst x = k then (k, v) # m else x # map_put k v m)"

definition map_puts :: "('k, 'v) gomap \<Rightarrow> ('k, 'v) gomap \<Rightarrow> ('k, 'v) gomap" where
  "map_puts m xs = foldl (\<lambda>m x. map_put (fst x) (snd x) m) m xs"

definition map_keys :: "('k, 'v) gomap \<Rightarrow> 'k list" where
  "map_keys m = map fst m"

lemma map_of_map_put [simp]: "map_of (map_put k v m) = (map_of m)(k \<mapsto> v)"
  by (induction m) (auto simp: fun_upd_twist)

lemma set_map_put_keys [simp]: "fst ` set (map_put k v m) = insert k (fst ` set m)"
  by (induction m) auto

lemma distinct_map_put: "distinct (map fst m) \<Longrightarrow> distinct (map fst (map_put k v m))"
proof (induction m)
  case (Cons x m)
  have "fst x \<notin> set (map fst (map_put k v m))" if "fst x \<noteq> k"
    using that Cons.prems set_map_put_keys [of k v m] by (auto simp flip: set_map)
  then show ?case using Cons by auto
qed simp

lemma map_puts_simps [simp]:
  "map_puts m [] = m" "map_puts m (x # xs) = map_puts (map_put (fst x) (snd x) m) xs"
  "map_puts m (xs @ ys) = map_puts (map_puts m xs) ys"
  by (simp_all add: map_puts_def)

lemma map_of_map_puts: "map_of (map_puts m xs) = map_of m ++ map_of (rev xs)"
  by (induction xs arbitrary: m) (auto simp: map_add_def fun_eq_iff split: option.splits)

lemma map_of_rev: "distinct (map fst xs) \<Longrightarrow> map_of (rev xs) = map_of xs"
  by (rule sym, rule map_of_inject_set [THEN iffD2]) (auto simp flip: rev_map)

lemma distinct_map_puts: "distinct (map fst m) \<Longrightarrow> distinct (map fst (map_puts m xs))"
  by (induction xs arbitrary: m) (auto simp: distinct_map_put)

lemma map_of_map_puts_distinct:
  "distinct (map fst xs) \<Longrightarrow> map_of (map_puts m xs) = map_of m ++ map_of xs"
  by (simp add: map_of_map_puts map_of_rev)

end
