(* ===== verification/Go_Path.thy ===== *)
theory Go_Path
  imports Prelude
begin

section \<open>Paths: Go's package \<open>path\<close> and the kernel's virtual paths\<close>

text \<open>
  \<open>path.Clean\<close>, \<open>path.Join\<close>, \<open>path.Base\<close> and \<open>path.Dir\<close> on slash-separated byte strings, and the
  normalisation of virtual paths that \<open>pkg/engine\<close>, \<open>pkg/adapter/agentfs\<close>, \<open>pkg/mount\<close> and
  \<open>pkg/contract\<close> each define with the same body. The first group of lemmas says that the result of
  \<^emph>\<open>cleaning\<close> a rooted path is canonical (no empty, \<open>.\<close> or \<open>..\<close> component); the locale
  \<open>point_table\<close> holds what the longest-match lookups over normalised roots share.
\<close>

subsection \<open>Clean\<close>

fun clean_step :: "bool \<Rightarrow> string list \<Rightarrow> string \<Rightarrow> string list" where
  "clean_step rooted st c =
     (if c = [] \<or> c = ''.'' then st
      else if c = ''..'' then
        (case st of [] \<Rightarrow> (if rooted then [] else [''..''])
                  | t # ts \<Rightarrow> if t = ''..'' then ''..'' # st else ts)
      else c # st)"

definition clean_comps :: "bool \<Rightarrow> string list \<Rightarrow> string list" where
  "clean_comps rooted cs = rev (foldl (clean_step rooted) [] cs)"

definition path_clean :: "string \<Rightarrow> string" where
  "path_clean p =
     (if p = [] then ''.''
      else let rooted = (hd p = CHR ''/'');
               body = join ''/'' (clean_comps rooted (split_on (CHR ''/'') p))
           in if rooted then CHR ''/'' # body else if body = [] then ''.'' else body)"

definition path_join2 :: "string \<Rightarrow> string \<Rightarrow> string" where
  "path_join2 a b =
     (if a = [] \<and> b = [] then [] else if a = [] then path_clean b
      else path_clean (a @ ''/'' @ b))"

definition path_base :: "string \<Rightarrow> string" where
  "path_base p =
     (if p = [] then ''.''
      else let q = rev (dropWhile (\<lambda>c. c = CHR ''/'') (rev p))
           in if q = [] then ''/'' else last (split_on (CHR ''/'') q))"

definition path_dir :: "string \<Rightarrow> string" where
  "path_dir p = path_clean (rev (dropWhile (\<lambda>c. c \<noteq> CHR ''/'') (rev p)))"

subsection \<open>Canonical paths\<close>

definition good_comp :: "string \<Rightarrow> bool" where
  "good_comp c \<longleftrightarrow> c \<noteq> [] \<and> c \<noteq> ''.'' \<and> c \<noteq> ''..'' \<and> CHR ''/'' \<notin> set c"

text \<open>\<open>canonical p\<close>: \<open>p\<close> is \<open>/\<close> followed by good components separated by single slashes.\<close>

definition canonical :: "string \<Rightarrow> bool" where
  "canonical p \<longleftrightarrow> (\<exists>cs. p = CHR ''/'' # join ''/'' cs \<and> list_all good_comp cs)"

definition is_canonical :: "string \<Rightarrow> bool" where
  "is_canonical p \<longleftrightarrow> p = ''/'' \<or>
     (p \<noteq> [] \<and> hd p = CHR ''/'' \<and> list_all good_comp (split_on (CHR ''/'') (tl p)))"

lemma canonical_code: "canonical p \<longleftrightarrow> is_canonical p"
proof
  assume "canonical p"
  then obtain cs where p: "p = CHR ''/'' # join ''/'' cs" and good: "list_all good_comp cs"
    by (auto simp: canonical_def)
  show "is_canonical p"
  proof (cases "cs = []")
    case False
    have "\<forall>c\<in>set cs. CHR ''/'' \<notin> set c" using good by (auto simp: list_all_iff good_comp_def)
    with False good p show ?thesis by (simp add: is_canonical_def split_on_join)
  qed (simp add: p is_canonical_def)
next
  assume c: "is_canonical p"
  show "canonical p"
  proof (cases "p = ''/''")
    case True
    then show ?thesis by (auto simp: canonical_def intro: exI [of _ "[]"])
  next
    case False
    with c obtain b where "p = CHR ''/'' # b" "list_all good_comp (split_on (CHR ''/'') b)"
      by (cases p) (auto simp: is_canonical_def)
    then show ?thesis
      unfolding canonical_def by (metis join_split_on)
  qed
qed

lemma clean_step_good:
  assumes "list_all good_comp st" and "CHR ''/'' \<notin> set c"
  shows "list_all good_comp (clean_step True st c)"
  using assms by (cases st) (auto simp: good_comp_def)

lemma foldl_clean_step_good:
  "list_all good_comp st \<Longrightarrow> \<forall>c\<in>set cs. CHR ''/'' \<notin> set c \<Longrightarrow>
   list_all good_comp (foldl (clean_step True) st cs)"
proof (induction cs arbitrary: st)
  case (Cons c cs)
  then have "list_all good_comp (clean_step True st c)" by (intro clean_step_good) auto
  then show ?case using Cons by (simp del: clean_step.simps)
qed simp

lemma clean_comps_good:
  "\<forall>c\<in>set cs. CHR ''/'' \<notin> set c \<Longrightarrow> list_all good_comp (clean_comps True cs)"
  using foldl_clean_step_good [of "[]" cs] by (simp add: clean_comps_def)

lemma canonical_path_clean: "canonical (path_clean (CHR ''/'' # s))"
  unfolding canonical_def path_clean_def
  by (auto simp: Let_def intro!: exI clean_comps_good dest: split_on_no_sep)

lemma foldl_clean_step_id:
  "list_all good_comp cs \<Longrightarrow> foldl (clean_step rooted) st cs = rev cs @ st"
  by (induction cs arbitrary: st) (auto simp: good_comp_def)

lemma clean_comps_id: "list_all good_comp cs \<Longrightarrow> clean_comps rooted cs = cs"
  by (simp add: clean_comps_def foldl_clean_step_id)

lemma clean_comps_Nil [simp]: "clean_comps rooted ([] # cs) = clean_comps rooted cs"
  by (simp add: clean_comps_def)

lemma path_clean_canonical: "canonical p \<Longrightarrow> path_clean p = p"
proof -
  assume "canonical p"
  then obtain cs where p: "p = CHR ''/'' # join ''/'' cs" and good: "list_all good_comp cs"
    by (auto simp: canonical_def)
  show ?thesis
  proof (cases "cs = []")
    case True
    then show ?thesis by (simp add: p path_clean_def clean_comps_def)
  next
    case False
    have "\<forall>c\<in>set cs. CHR ''/'' \<notin> set c" using good by (auto simp: list_all_iff good_comp_def)
    with False good show ?thesis by (simp add: p path_clean_def split_on_join clean_comps_id)
  qed
qed

lemma path_clean_idem: "path_clean (path_clean (CHR ''/'' # s)) = path_clean (CHR ''/'' # s)"
  by (rule path_clean_canonical [OF canonical_path_clean])

lemma canonical_Cons: "canonical p \<Longrightarrow> \<exists>s. p = CHR ''/'' # s"
  by (auto simp: canonical_def)

lemma canonical_child:
  assumes "canonical p" and "p \<noteq> ''/''" and "good_comp c"
  shows "canonical (p @ ''/'' @ c)"
proof -
  obtain cs where p: "p = CHR ''/'' # join ''/'' cs" and good: "list_all good_comp cs"
    using assms(1) by (auto simp: canonical_def)
  have "join ''/'' (cs @ [c]) = join ''/'' cs @ ''/'' @ c" if "cs \<noteq> []" for cs
    using that by (induction cs rule: induct_list012) (auto simp: join_Cons)
  moreover have "cs \<noteq> []" using p assms(2) by auto
  ultimately show ?thesis
    using good assms(3) unfolding canonical_def
    by (intro exI [of _ "cs @ [c]"]) (simp add: p)
qed

subsection \<open>The virtual path normalisation\<close>

text \<open>
  \<open>normalizeAbsolutePath\<close> (engine), \<open>normalizeVirtualPath\<close> (agentfs), \<open>normalizeAbsPath\<close>
  (mount) and \<open>normalizeVirtualCommandPath\<close> (contract) have this one body.
\<close>

definition normalizeAbsolutePath :: "string \<Rightarrow> string" where
  "normalizeAbsolutePath raw =
     (let trimmed = trim_space raw in
      if trimmed = [] then ''/''
      else let cleaned = path_clean trimmed in
           if \<not> has_prefix cleaned ''/'' then CHR ''/'' # cleaned else cleaned)"

lemma normalizeAbsolutePath_Cons: "\<exists>t. normalizeAbsolutePath raw = CHR ''/'' # t"
  unfolding normalizeAbsolutePath_def Let_def
  by (cases "path_clean (trim_space raw)") auto

lemma normalizeAbsolutePath_canonical:
  assumes "has_prefix (trim_space raw) ''/''"
  shows "canonical (normalizeAbsolutePath raw)"
proof -
  obtain s where s: "trim_space raw = CHR ''/'' # s" using assms by (auto elim: has_prefixE)
  have c: "canonical (path_clean (CHR ''/'' # s))" by (rule canonical_path_clean)
  then obtain t where "path_clean (CHR ''/'' # s) = CHR ''/'' # t" using canonical_Cons by blast
  with c show ?thesis by (simp add: normalizeAbsolutePath_def s)
qed

lemma normalizeAbsolutePath_fix:
  assumes "canonical p" and "\<not> ends_with_space p"
  shows "normalizeAbsolutePath p = p"
proof -
  obtain s where s: "p = CHR ''/'' # s" using assms(1) canonical_Cons by blast
  have "trim_space p = p" using assms(2) by (simp add: s trim_space_fixI)
  with s assms(1) show ?thesis by (simp add: normalizeAbsolutePath_def path_clean_canonical)
qed

subsection \<open>Lookup over a table of roots\<close>

text \<open>
  \<open>under p q\<close>: the path \<open>q\<close> is the root \<open>p\<close> or lies below it, the test that mount points and
  filesystem zones are matched by.
\<close>

definition under :: "string \<Rightarrow> string \<Rightarrow> bool" where
  "under p q \<longleftrightarrow> q = p \<or> has_prefix q (p @ ''/'')"

lemma under_refl [simp]: "under p p" by (simp add: under_def)

lemma under_iff: "under p q \<longleftrightarrow> q = p \<or> (\<exists>t. q = p @ CHR ''/'' # t)"
  by (auto simp: under_def has_prefix_iff)

lemma under_trans: "under p q \<Longrightarrow> under q r \<Longrightarrow> under p r"
  by (auto simp: under_iff)

lemma under_length: "under p q \<Longrightarrow> length p \<le> length q"
  by (auto simp: under_iff)

lemma under_antisym: "under p q \<Longrightarrow> under q p \<Longrightarrow> p = q"
  by (auto simp: under_iff)

lemma under_prefix: "under p q \<Longrightarrow> prefix p q"
  by (auto simp: under_iff)

lemma under_same_length:
  assumes "under p r" and "under q r" and "length p = length q" shows "p = q"
  using assms under_prefix [of p r] under_prefix [of q r]
  by (metis prefix_length_prefix prefix_order.antisym order_refl)

lemma under_comparable:
  assumes "under p r" and "under q r" and "length p < length q" shows "under p q"
  using assms by (auto simp: under_iff append_eq_append_conv2 Cons_eq_append_conv)

text \<open>
  A component keeps a list of entries, each with a root, in the order of decreasing length of
  the root, and looks a path up by scanning for the first entry whose root it is under. The law
  the lookups rest on is that order; the entry found is then the one with the longest root.
\<close>

locale point_table =
  fixes point :: "'e \<Rightarrow> string"
    and table :: "'t \<Rightarrow> 'e list"
    and lookup :: "'t \<Rightarrow> string \<Rightarrow> 'e option"
    and valid :: "'t \<Rightarrow> bool"
  assumes table_order: "valid t \<Longrightarrow> sorted_wrt (\<lambda>a b. length (point b) \<le> length (point a)) (table t)"
    and table_points: "valid t \<Longrightarrow> distinct (map point (table t))"
    and lookup_find: "lookup t q = find (\<lambda>e. under (point e) q) (table t)"
begin

lemma lookup_under: "lookup t q = Some e \<Longrightarrow> e \<in> set (table t) \<and> under (point e) q"
  by (auto simp: lookup_find find_Some_iff)

lemma lookup_None: "lookup t q = None \<longleftrightarrow> (\<forall>e\<in>set (table t). \<not> under (point e) q)"
  by (auto simp: lookup_find find_None_iff)

lemma lookup_longest:
  assumes "valid t" and "lookup t q = Some e" and "e' \<in> set (table t)" and "under (point e') q"
  shows "length (point e') \<le> length (point e)"
proof -
  obtain i where i: "i < length (table t)" "e = table t ! i" and
    first: "\<forall>j<i. \<not> under (point (table t ! j)) q"
    using assms(2) by (auto simp: lookup_find find_Some_iff)
  obtain j where j: "j < length (table t)" "e' = table t ! j"
    using assms(3) by (auto simp: in_set_conv_nth)
  have "i \<le> j" using first j(2) assms(4) by (meson not_le)
  show ?thesis
  proof (cases "i = j")
    case False
    with \<open>i \<le> j\<close> have "i < j" by simp
    then show ?thesis
      using table_order [OF assms(1)] i j by (simp add: sorted_wrt_iff_nth_less)
  qed (simp add: i j)
qed

lemma lookup_nested:
  assumes "valid t" and "lookup t q = Some e" and "e' \<in> set (table t)" and "under (point e') q"
  shows "under (point e') (point e)"
  using assms lookup_longest [OF assms] lookup_under [OF assms(2)]
  by (metis le_neq_implies_less under_comparable under_refl under_same_length)

lemma lookup_unique:
  assumes "valid t" and "lookup t q = Some e" and "e' \<in> set (table t)" and "under (point e') q"
    and "length (point e') = length (point e)"
  shows "e' = e"
proof -
  have "point e' = point e"
    using assms lookup_under [OF assms(2)] by (metis under_same_length)
  then show ?thesis
    using assms(3) lookup_under [OF assms(2)] table_points [OF assms(1)]
    by (metis (no_types, lifting) distinct_map inj_on_def)
qed

lemma lookup_self:
  assumes "valid t" and "e \<in> set (table t)" shows "lookup t (point e) = Some e"
proof (cases "lookup t (point e)")
  case None
  then show ?thesis using assms(2) by (auto simp: lookup_None)
next
  case (Some e')
  then have "under (point e') (point e)" using lookup_under by blast
  moreover have "under (point e) (point e')" using lookup_nested [OF assms(1) Some assms(2)] by simp
  ultimately have "length (point e) = length (point e')" by (metis under_antisym)
  then have "e = e'" using lookup_unique [OF assms(1) Some assms(2)] by simp
  with Some show ?thesis by simp
qed

end

subsection \<open>Properties\<close>

text \<open>Every absolute path normalises to a canonical one: a slash and components none of which is
  empty, \<open>.\<close> or \<open>..\<close>, so no normalised path climbs out of the root.\<close>

theorem normalized_absolute_canonical:
  assumes "has_prefix (trim_space raw) ''/''" shows "is_canonical (normalizeAbsolutePath raw)"
  using normalizeAbsolutePath_canonical [OF assms] by (simp add: canonical_code)

theorem normalized_absolute_canonical_witness:
  "is_canonical (normalizeAbsolutePath ''/a/../../b//c/.'')"
proof (rule normalized_absolute_canonical)
  have "trim_space ''/a/../../b//c/.'' = ''/a/../../b//c/.''"
    by (rule trim_space_fixI) (simp_all add: ends_with_space_def space_runes_def)
  then show "has_prefix (trim_space ''/a/../../b//c/.'') ''/''" by simp
qed

text \<open>Without a leading slash the result need not be canonical, and a component that ends in a blank
  makes the normalisation change its own result.\<close>

lemma normalize_relative_dotdot: "normalizeAbsolutePath ''..'' = ''/..''"
proof -
  have "trim_space ''..'' = ''..''"
    by (rule trim_space_fixI) (simp_all add: starts_with_space_def ends_with_space_def space_runes_def)
  then show ?thesis by (simp add: normalizeAbsolutePath_def path_clean_def clean_comps_def)
qed

end
