(* ===== verification/Contract_Types.thy ===== *)
theory Contract_Types
  imports Go_Path
begin

section \<open>Error values, exit codes, path metadata and profiles (\<open>pkg/contract\<close>)\<close>

text \<open>
  Go errors are values: \<^emph>\<open>sentinels\<close> compared by \<open>errors.Is\<close>, the struct \<open>MountUnsupportedError\<close>
  that unwraps to \<open>ErrUnsupported\<close>, and texts made by \<open>fmt.Errorf\<close>, wrapping a cause with
  \<open>%w\<close> or not. \<open>go_error\<close> keeps exactly what the code can observe of them: the text, the
  sentinel and the mount detail. The theory also holds \<open>exit_codes.go\<close>, \<open>mount_unsupported.go\<close>,
  \<open>path_ops.go\<close>, \<open>path_access.go\<close> and \<open>compat_profile.go\<close>.
\<close>

subsection \<open>Exit codes\<close>

definition ExitCodeUsage :: int where "ExitCodeUsage = 2"
definition ExitCodeGeneral :: int where "ExitCodeGeneral = 1"
definition ExitCodeUnsupported :: int where "ExitCodeUnsupported = 127"

lemmas exit_code_defs = ExitCodeUsage_def ExitCodeGeneral_def ExitCodeUnsupported_def

subsection \<open>Errors\<close>

text \<open>\<open>MountLatencyClass\<close> is a string type; a mount may declare any value.\<close>

datatype MountLatencyClass =
  LatencyUnset | LocalFast | LocalHeavy | RemoteModerate | RemoteHigh | LatencyOther string

datatype go_error =
    ErrText string
  | ErrUnsupported
  | ErrExternalCommandNotFound
  | MountUnsupportedError string string MountLatencyClass string
  | ErrPolicyCeilingExceeded
  | ErrCanceled
  | ErrDeadlineExceeded
  | ErrWrap string go_error

fun error_text :: "go_error \<Rightarrow> string" where
  "error_text (ErrText m) = m"
| "error_text ErrUnsupported = ''simsh: unsupported operation''"
| "error_text ErrExternalCommandNotFound = ''simsh: external command not found''"
| "error_text (MountUnsupportedError _ _ _ detail) =
     (if detail = [] then ''simsh: unsupported operation''
      else ''simsh: unsupported operation: '' @ detail)"
| "error_text ErrPolicyCeilingExceeded = ''requested policy exceeds session ceiling''"
| "error_text ErrCanceled = ''context canceled''"
| "error_text ErrDeadlineExceeded = ''context deadline exceeded''"
| "error_text (ErrWrap m _) = m"

text \<open>\<open>errors.Is(err, ErrUnsupported)\<close>: the chain of causes ends in the sentinel.\<close>

fun is_unsupported :: "go_error \<Rightarrow> bool" where
  "is_unsupported ErrUnsupported = True"
| "is_unsupported (MountUnsupportedError _ _ _ _) = True"
| "is_unsupported (ErrWrap _ e) = is_unsupported e"
| "is_unsupported _ = False"

fun is_external_not_found :: "go_error \<Rightarrow> bool" where
  "is_external_not_found ErrExternalCommandNotFound = True"
| "is_external_not_found (ErrWrap _ e) = is_external_not_found e"
| "is_external_not_found _ = False"

fun is_canceled :: "go_error \<Rightarrow> bool" where
  "is_canceled ErrCanceled = True"
| "is_canceled (ErrWrap _ e) = is_canceled e"
| "is_canceled _ = False"

fun is_deadline :: "go_error \<Rightarrow> bool" where
  "is_deadline ErrDeadlineExceeded = True"
| "is_deadline (ErrWrap _ e) = is_deadline e"
| "is_deadline _ = False"

fun is_ceiling_exceeded :: "go_error \<Rightarrow> bool" where
  "is_ceiling_exceeded ErrPolicyCeilingExceeded = True"
| "is_ceiling_exceeded (ErrWrap _ e) = is_ceiling_exceeded e"
| "is_ceiling_exceeded _ = False"

text \<open>\<open>errors.As(err, &mountErr)\<close>, of which the code reads the latency class.\<close>

fun as_mount_error :: "go_error \<Rightarrow> MountLatencyClass option" where
  "as_mount_error (MountUnsupportedError _ _ lat _) = Some lat"
| "as_mount_error (ErrWrap _ e) = as_mount_error e"
| "as_mount_error _ = None"

definition AllowsUnsupportedFallback :: "go_error \<Rightarrow> bool" where
  "AllowsUnsupportedFallback err =
     (if \<not> is_unsupported err then False
      else if as_mount_error err = Some RemoteHigh then False else True)"

definition IsRemoteHighLatencyUnsupported :: "go_error \<Rightarrow> bool" where
  "IsRemoteHighLatencyUnsupported err \<longleftrightarrow> as_mount_error err = Some RemoteHigh"

lemma as_mount_error_unsupported: "as_mount_error e = Some l \<Longrightarrow> is_unsupported e"
  by (induction e) auto

subsection \<open>Path operations\<close>

datatype PathOp =
  PathOpRead | PathOpTransferSource | PathOpWrite | PathOpMkdir | PathOpRemove | PathOpOther string

subsection \<open>Path access and capabilities\<close>

definition PathAccessReadOnly :: string where "PathAccessReadOnly = ''ro''"
definition PathAccessReadWrite :: string where "PathAccessReadWrite = ''rw''"

definition NormalizePathAccess :: "string \<Rightarrow> string" where
  "NormalizePathAccess access =
     (if access = PathAccessReadOnly then PathAccessReadOnly
      else if access = PathAccessReadWrite then PathAccessReadWrite
      else PathAccessReadOnly)"

definition known_capabilities :: "string list" where
  "known_capabilities =
     [''read'', ''list'', ''describe'', ''search'', ''write'', ''append'', ''edit'', ''mkdir'', ''remove'']"

definition write_capabilities :: "string list" where
  "write_capabilities = [''write'', ''append'', ''edit'', ''mkdir'', ''remove'']"

definition NormalizePathCapabilities :: "string list \<Rightarrow> string list" where
  "NormalizePathCapabilities caps =
     (if caps = [] then [''describe'']
      else let out = dedupe_first (filter (\<lambda>c. c \<in> set known_capabilities) caps);
               out = (if out = [] then [''describe''] else out)
           in sort out)"

definition StripWriteCapabilities :: "string list \<Rightarrow> string list" where
  "StripWriteCapabilities caps =
     NormalizePathCapabilities (filter (\<lambda>c. c \<notin> set write_capabilities) caps)"

lemma set_NormalizePathCapabilities:
  "set (NormalizePathCapabilities caps) =
     (let k = set caps \<inter> set known_capabilities in if k = {} then {''describe''} else k)"
proof -
  let ?d = "dedupe_first (filter (\<lambda>c. c \<in> set known_capabilities) caps)"
  have d: "set ?d = set caps \<inter> set known_capabilities"
    by (simp add: set_dedupe_from) blast
  have e: "?d = [] \<longleftrightarrow> set caps \<inter> set known_capabilities = {}"
    using d by (metis set_empty)
  show ?thesis
  proof (cases "caps = []")
    case True
    then show ?thesis by (simp add: NormalizePathCapabilities_def)
  next
    case False
    then have "NormalizePathCapabilities caps = sort (if ?d = [] then [''describe''] else ?d)"
      by (simp only: NormalizePathCapabilities_def Let_def if_False)
    then show ?thesis using d e by (simp only: set_sort Let_def split: if_split) simp
  qed
qed

lemma sorted_NormalizePathCapabilities: "sorted (NormalizePathCapabilities caps)"
  by (auto simp: NormalizePathCapabilities_def Let_def)

lemma distinct_NormalizePathCapabilities: "distinct (NormalizePathCapabilities caps)"
  by (auto simp: NormalizePathCapabilities_def Let_def distinct_dedupe_from)

lemma describe_known: "''describe'' \<in> set known_capabilities - set write_capabilities"
  by (simp add: known_capabilities_def write_capabilities_def)

lemma NormalizePathCapabilities_known: "set (NormalizePathCapabilities caps) \<subseteq> set known_capabilities"
  using describe_known unfolding set_NormalizePathCapabilities Let_def by auto

lemma NormalizePathCapabilities_idem:
  "NormalizePathCapabilities (NormalizePathCapabilities caps) = NormalizePathCapabilities caps"
proof -
  let ?n = "NormalizePathCapabilities caps"
  have "?n \<noteq> []" using set_NormalizePathCapabilities [of caps] unfolding Let_def
    by (cases "set caps \<inter> set known_capabilities = {}") force+
  moreover have "filter (\<lambda>c. c \<in> set known_capabilities) ?n = ?n"
    using NormalizePathCapabilities_known by (auto simp: filter_id_conv)
  moreover have "dedupe_first ?n = ?n"
    by (simp add: dedupe_from_id distinct_NormalizePathCapabilities)
  ultimately show ?thesis
    by (subst NormalizePathCapabilities_def)
      (simp add: Let_def sorted_sort_id sorted_NormalizePathCapabilities)
qed

lemma set_StripWriteCapabilities:
  "set (StripWriteCapabilities caps) \<inter> set write_capabilities = {}"
  using describe_known
  unfolding StripWriteCapabilities_def set_NormalizePathCapabilities Let_def by auto

subsection \<open>Metadata\<close>

record PathMeta =
  pm_Exists :: bool
  pm_IsDir :: bool
  pm_Kind :: string
  pm_Access :: string
  pm_Capabilities :: "string list"
  pm_LineCount :: int
  pm_FrontMatterLines :: int
  pm_SpeakerRows :: int
  pm_UserRelevance :: string

subsection \<open>Compatibility profiles\<close>

text \<open>\<open>CompatibilityProfile\<close> is a string type; \<open>ParseProfile\<close> accepts four of its values.\<close>

type_synonym CompatibilityProfile = string

definition ProfileCoreStrict :: CompatibilityProfile where "ProfileCoreStrict = ''core-strict''"
definition ProfileBashPlus :: CompatibilityProfile where "ProfileBashPlus = ''bash-plus''"
definition ProfileZshLite :: CompatibilityProfile where "ProfileZshLite = ''zsh-lite''"

lemmas profile_defs = ProfileCoreStrict_def ProfileBashPlus_def ProfileZshLite_def

definition DefaultProfile :: CompatibilityProfile where "DefaultProfile = ProfileCoreStrict"

definition ParseProfile :: "string \<Rightarrow> go_error + CompatibilityProfile" where
  "ParseProfile raw =
     (if raw = [] \<or> raw = ProfileCoreStrict then Inr ProfileCoreStrict
      else if raw = ProfileBashPlus then Inr ProfileBashPlus
      else if raw = ProfileZshLite then Inr ProfileZshLite
      else Inl (ErrText (''unsupported profile '' @ go_quote raw)))"

record ProfileSpec =
  ps_Name :: CompatibilityProfile
  ps_Capabilities :: "string list"

definition ProfileByName :: "CompatibilityProfile \<Rightarrow> ProfileSpec" where
  "ProfileByName profile =
     (if profile = ProfileBashPlus
        then \<lparr>ps_Name = ProfileBashPlus, ps_Capabilities = [''compat:date'']\<rparr>
      else if profile = ProfileZshLite
        then \<lparr>ps_Name = ProfileZshLite, ps_Capabilities = [''compat:date'', ''glob:extended'']\<rparr>
      else \<lparr>ps_Name = ProfileCoreStrict, ps_Capabilities = []\<rparr>)"

lemma ProfileByName_parse:
  "ParseProfile raw = Inr p \<Longrightarrow> ps_Name (ProfileByName p) = p"
  by (auto simp: ParseProfile_def ProfileByName_def profile_defs split: if_splits)

subsection \<open>Properties\<close>

text \<open>Normalised capabilities are sorted, without duplicates, never empty and known to the
  kernel; they are the known ones of the declaration (or \<open>describe\<close> alone), and normalising again
  changes nothing.\<close>

theorem NormalizePathCapabilities_normal:
  "sorted (NormalizePathCapabilities caps) \<and> distinct (NormalizePathCapabilities caps) \<and>
   set (NormalizePathCapabilities caps) =
     (if set caps \<inter> set known_capabilities = {} then {''describe''} else set caps \<inter> set known_capabilities) \<and>
   NormalizePathCapabilities (NormalizePathCapabilities caps) = NormalizePathCapabilities caps"
  by (simp only: sorted_NormalizePathCapabilities distinct_NormalizePathCapabilities
      set_NormalizePathCapabilities NormalizePathCapabilities_idem Let_def simp_thms)

text \<open>Stripping the write capabilities leaves no capability to write, append, edit, create or
  remove, keeps every read capability that was declared, and invents none but \<open>describe\<close>.\<close>

theorem StripWriteCapabilities_read_only:
  "set (StripWriteCapabilities caps) \<inter> {''write'', ''append'', ''edit'', ''mkdir'', ''remove''} = {} \<and>
   set caps \<inter> {''read'', ''list'', ''describe'', ''search''} \<subseteq> set (StripWriteCapabilities caps) \<and>
   set (StripWriteCapabilities caps) \<subseteq> insert ''describe'' (set caps)"
proof -
  let ?kept = "set caps \<inter> {''read'', ''list'', ''describe'', ''search''}"
  have "set (filter (\<lambda>c. c \<notin> set write_capabilities) caps) \<inter> set known_capabilities = ?kept"
    by (auto simp: write_capabilities_def known_capabilities_def)
  then have s: "set (StripWriteCapabilities caps) = (if ?kept = {} then {''describe''} else ?kept)"
    unfolding StripWriteCapabilities_def set_NormalizePathCapabilities Let_def by simp
  show ?thesis
    unfolding s by (cases "?kept = {}") (simp, fastforce)
qed

fun wrapped :: "string list \<Rightarrow> go_error \<Rightarrow> go_error" where
  "wrapped [] e = e"
| "wrapped (m # ms) e = ErrWrap m (wrapped ms e)"

lemma wrapped_is [simp]: "is_unsupported (wrapped ms e) = is_unsupported e"
    "as_mount_error (wrapped ms e) = as_mount_error e"
  by (induction ms) auto

text \<open>An unsupported operation of a mount whose latency class is remote-high never takes a
  fallback, however often its error is wrapped on the way; every other unsupported error does.\<close>

theorem remote_high_no_fallback:
  "\<not> AllowsUnsupportedFallback (wrapped ms (MountUnsupportedError mp cap RemoteHigh detail)) \<and>
   AllowsUnsupportedFallback (wrapped ms ErrUnsupported) \<and>
   (AllowsUnsupportedFallback (wrapped ms (MountUnsupportedError mp cap lat detail)) \<longleftrightarrow> lat \<noteq> RemoteHigh)"
  by (simp add: AllowsUnsupportedFallback_def)

end
