(* ===== verification/Mount_Contract.thy ===== *)
theory Mount_Contract
  imports Contract_Types
begin

section \<open>The mount contract's data (\<open>pkg/contract/mount_contract.go\<close>)\<close>

text \<open>
  The profile a mount declares, the requests and results of the capabilities it may implement, and
  the mutations it may be asked for. The string types of the source become datatypes with one
  constructor per declared constant, one for the empty string where the code tests for it, and one
  for every other string. The mount itself is in \<open>Engine_State\<close>: its methods act on the state.
\<close>

datatype MountTruthModel = TruthUnset | TruthProjection | TruthFactual | TruthOther string

datatype MountMaterializationMode =
  MaterializationUnset | MaterializationSnapshot | MaterializationCached | MaterializationLive
  | MaterializationOther string

datatype MountWriteSemantics =
  MountWriteUnset | MountWriteReadOnly | MountWriteStaged | MountWriteThrough | MountWriteBack
  | MountWriteOther string

text \<open>Command classes are compared and sorted as strings.\<close>

type_synonym MountCLIClass = string

definition MountCLIList :: MountCLIClass where "MountCLIList = ''list''"
definition MountCLITree :: MountCLIClass where "MountCLITree = ''tree''"
definition MountCLIFind :: MountCLIClass where "MountCLIFind = ''find''"
definition MountCLIRead :: MountCLIClass where "MountCLIRead = ''read''"
definition MountCLIBulkRead :: MountCLIClass where "MountCLIBulkRead = ''bulk_read''"
definition MountCLIContentSearch :: MountCLIClass where "MountCLIContentSearch = ''content_search''"
definition MountCLIMutate :: MountCLIClass where "MountCLIMutate = ''mutate''"

lemmas cli_class_defs = MountCLIList_def MountCLITree_def MountCLIFind_def MountCLIRead_def
  MountCLIBulkRead_def MountCLIContentSearch_def MountCLIMutate_def

record MountConsistency =
  mc_PathReadAfterWrite :: bool
  mc_ListAfterWrite :: bool
  mc_SearchAfterWrite :: bool
  mc_RefreshRequired :: bool

text \<open>Of the service level objectives the code reads the four budgets; the latency figures and the
  three descriptive strings are only carried.\<close>

record MountSLO =
  slo_MaxBatchCount :: int
  slo_MaxBatchBytes :: int
  slo_MaxSearchPaths :: int
  slo_MaxRefreshTargets :: int

record MountProfile =
  mp_TruthModel :: MountTruthModel
  mp_MaterializationMode :: MountMaterializationMode
  mp_WriteSemantics :: MountWriteSemantics
  mp_LatencyClass :: MountLatencyClass
  mp_Consistency :: MountConsistency
  mp_SupportedCLIClasses :: "MountCLIClass list"
  mp_SLO :: MountSLO

record MountEntry =
  me_Path :: string
  me_Name :: string
  me_Meta :: PathMeta

record ListEntriesRequest =
  le_Dir :: string
  le_Recursive :: bool
  le_MaxDepth :: int

record EnumeratePathsRequest =
  en_Target :: string
  en_Recursive :: bool
  en_MaxDepth :: int

record MountContentEntry =
  ce_Path :: string
  ce_Content :: string

record ReadManyRequest =
  rm_Paths :: "string list"
  rm_MaxEntries :: int
  rm_MaxBytes :: int

datatype SearchCaseMode = SearchCaseUnset | SearchCaseSensitive | SearchCaseIgnore | SearchCaseSmart
  | SearchCaseOther string

record SearchRequest =
  sr_Pattern :: string
  sr_Regex :: bool
  sr_CaseMode :: SearchCaseMode
  sr_Targets :: "string list"
  sr_Globs :: "string list"
  sr_Before :: int
  sr_After :: int
  sr_MaxResults :: int
  sr_ListFiles :: bool

record SearchRecord =
  sc_Path :: string
  sc_Line :: int
  sc_Kind :: string
  sc_Text :: string

datatype MutationKind = MutationWriteFile | MutationAppend | MutationEdit | MutationMakeDir
  | MutationRemoveFile | MutationRemoveDir | MutationOther string

record MutationSpec =
  ms_Kind :: MutationKind
  ms_Path :: string
  ms_Content :: string
  ms_OldString :: string
  ms_NewString :: string
  ms_ReplaceAll :: bool

record MutationRecord =
  mr_Kind :: MutationKind
  mr_Path :: string
  mr_Status :: string
  mr_BytesWritten :: int

record RefreshRequest =
  rf_Targets :: "string list"
  rf_RequireNarrow :: bool

record RefreshResult =
  rr_EffectiveTargets :: "string list"
  rr_RefreshedTargets :: "string list"
  rr_RefusedTargets :: "string list"

record MountRuntimeStatus =
  rs_Freshness :: string
  rs_Materialization :: string
  rs_Detail :: string
  rs_StatusError :: string

definition NormalizeMountRuntimeStatus :: "MountRuntimeStatus \<Rightarrow> MountRuntimeStatus" where
  "NormalizeMountRuntimeStatus status =
     \<lparr>rs_Freshness = trim_space (rs_Freshness status),
      rs_Materialization = trim_space (rs_Materialization status),
      rs_Detail = trim_space (rs_Detail status),
      rs_StatusError = trim_space (rs_StatusError status)\<rparr>"

lemma NormalizeMountRuntimeStatus_idem:
  "NormalizeMountRuntimeStatus (NormalizeMountRuntimeStatus status) = NormalizeMountRuntimeStatus status"
  by (simp add: NormalizeMountRuntimeStatus_def)

end
