(* ===== verification/Safety_Policy.thy ===== *)
theory Safety_Policy
  imports Contract_Types
begin

section \<open>Execution policies and session ceilings (\<open>pkg/contract/safety_policy.go\<close>)\<close>

text \<open>
  An \<open>ExecutionPolicy\<close> bounds one execution; a session has a policy of its own, the \<^emph>\<open>ceiling\<close>,
  and \<open>EffectivePolicyWithinCeiling\<close> decides what a request may run with. The abstract
  specification is the set of effects a policy permits (\<open>permits\<close>: a write of so many bytes, a
  pipeline of such a depth, an output of such a size, a run of such a duration): a request that is
  accepted permits nothing its ceiling forbids, provided its numbers are not negative. The numeric
  fields are 64-bit integers and are only compared, so \<^typ>\<open>int\<close> is their model.
\<close>

datatype WriteMode =
  WriteModeUnset | WriteModeDisabled | WriteModeReadOnly | WriteModeWriteLimited | WriteModeFull
  | WriteModeOther string

fun write_mode_text :: "WriteMode \<Rightarrow> string" where
  "write_mode_text WriteModeUnset = []"
| "write_mode_text WriteModeDisabled = ''disabled''"
| "write_mode_text WriteModeReadOnly = ''read-only''"
| "write_mode_text WriteModeWriteLimited = ''write-limited''"
| "write_mode_text WriteModeFull = ''full''"
| "write_mode_text (WriteModeOther s) = s"

record ExecutionPolicy =
  ep_WriteMode :: WriteMode
  ep_MaxWriteBytes :: int
  ep_MaxPipelineDepth :: int
  ep_MaxOutputBytes :: int
  ep_Timeout :: int

definition DefaultPolicy :: ExecutionPolicy where
  "DefaultPolicy =
     \<lparr>ep_WriteMode = WriteModeReadOnly, ep_MaxWriteBytes = 1048576, ep_MaxPipelineDepth = 16,
      ep_MaxOutputBytes = 4194304, ep_Timeout = 15000000000\<rparr>"

definition PolicyPreset :: "string \<Rightarrow> go_error + ExecutionPolicy" where
  "PolicyPreset name =
     (let n = trim_space name; p = DefaultPolicy in
      if n = [] \<or> n = ''read-only'' then Inr (p\<lparr>ep_WriteMode := WriteModeReadOnly\<rparr>)
      else if n = ''disabled'' then Inr (p\<lparr>ep_WriteMode := WriteModeDisabled\<rparr>)
      else if n = ''write-limited'' then Inr (p\<lparr>ep_WriteMode := WriteModeWriteLimited\<rparr>)
      else if n = ''full'' then Inr (p\<lparr>ep_WriteMode := WriteModeFull\<rparr>)
      else Inl (ErrText (''unsupported policy '' @ go_quote name)))"

fun AllowWrite_mode :: "WriteMode \<Rightarrow> bool" where
  "AllowWrite_mode WriteModeFull = True"
| "AllowWrite_mode WriteModeWriteLimited = True"
| "AllowWrite_mode _ = False"

definition AllowWrite :: "ExecutionPolicy \<Rightarrow> bool" where
  "AllowWrite p = AllowWrite_mode (ep_WriteMode p)"

definition WithInheritedUnset :: "ExecutionPolicy \<Rightarrow> ExecutionPolicy \<Rightarrow> ExecutionPolicy" where
  "WithInheritedUnset p limit =
     \<lparr>ep_WriteMode = (if ep_WriteMode p = WriteModeUnset then ep_WriteMode limit else ep_WriteMode p),
      ep_MaxWriteBytes = (if ep_MaxWriteBytes p = 0 then ep_MaxWriteBytes limit else ep_MaxWriteBytes p),
      ep_MaxPipelineDepth =
        (if ep_MaxPipelineDepth p = 0 then ep_MaxPipelineDepth limit else ep_MaxPipelineDepth p),
      ep_MaxOutputBytes =
        (if ep_MaxOutputBytes p = 0 then ep_MaxOutputBytes limit else ep_MaxOutputBytes p),
      ep_Timeout = (if ep_Timeout p = 0 then ep_Timeout limit else ep_Timeout p)\<rparr>"

fun writeModeRank :: "WriteMode \<Rightarrow> int" where
  "writeModeRank WriteModeDisabled = 0"
| "writeModeRank WriteModeReadOnly = 1"
| "writeModeRank WriteModeWriteLimited = 2"
| "writeModeRank WriteModeFull = 3"
| "writeModeRank _ = 1"

text \<open>\<open>PolicyWithinCeiling\<close> returns an error or nil; nil is \<^term>\<open>None\<close>. A duration prints as
  \<open>time.Duration.String\<close> does, which is the argument \<open>dur\<close>.\<close>

definition ceiling_error :: "string \<Rightarrow> go_error" where
  "ceiling_error detail =
     ErrWrap (error_text ErrPolicyCeilingExceeded @ '': requested '' @ detail) ErrPolicyCeilingExceeded"

definition exceeds_text :: "string \<Rightarrow> string \<Rightarrow> string \<Rightarrow> string" where
  "exceeds_text what a b = what @ '' '' @ a @ '' exceeds session ceiling '' @ b"

definition PolicyWithinCeiling ::
  "(int \<Rightarrow> string) \<Rightarrow> ExecutionPolicy \<Rightarrow> ExecutionPolicy \<Rightarrow> go_error option" where
  "PolicyWithinCeiling dur r c =
     (if writeModeRank (ep_WriteMode r) > writeModeRank (ep_WriteMode c)
        then Some (ceiling_error (exceeds_text ''write mode''
               (go_quote (write_mode_text (ep_WriteMode r))) (go_quote (write_mode_text (ep_WriteMode c)))))
      else if ep_WriteMode c = WriteModeWriteLimited \<and> ep_WriteMode r = WriteModeWriteLimited \<and>
              ep_MaxWriteBytes c > 0 \<and> ep_MaxWriteBytes r > ep_MaxWriteBytes c
        then Some (ceiling_error (exceeds_text ''max_write_bytes''
               (show_int (ep_MaxWriteBytes r)) (show_int (ep_MaxWriteBytes c))))
      else if ep_MaxPipelineDepth c > 0 \<and> ep_MaxPipelineDepth r > ep_MaxPipelineDepth c
        then Some (ceiling_error (exceeds_text ''max_pipeline_depth''
               (show_int (ep_MaxPipelineDepth r)) (show_int (ep_MaxPipelineDepth c))))
      else if ep_MaxOutputBytes c > 0 \<and> ep_MaxOutputBytes r > ep_MaxOutputBytes c
        then Some (ceiling_error (exceeds_text ''max_output_bytes''
               (show_int (ep_MaxOutputBytes r)) (show_int (ep_MaxOutputBytes c))))
      else if ep_Timeout c > 0 \<and> ep_Timeout r > ep_Timeout c
        then Some (ceiling_error (exceeds_text ''timeout'' (dur (ep_Timeout r)) (dur (ep_Timeout c))))
      else None)"

definition EffectivePolicyWithinCeiling ::
  "(int \<Rightarrow> string) \<Rightarrow> ExecutionPolicy \<Rightarrow> ExecutionPolicy \<Rightarrow> go_error + ExecutionPolicy" where
  "EffectivePolicyWithinCeiling dur requested ceiling0 =
     (let ceiling = (if ep_WriteMode ceiling0 = WriteModeUnset then DefaultPolicy else ceiling0);
          effective = WithInheritedUnset requested ceiling;
          effective = (if ep_WriteMode effective = WriteModeUnset
                       then effective\<lparr>ep_WriteMode := ep_WriteMode ceiling\<rparr> else effective)
      in case PolicyWithinCeiling dur effective ceiling of
           Some err \<Rightarrow> Inl err
         | None \<Rightarrow> Inr effective)"

definition CheckWriteSize :: "ExecutionPolicy \<Rightarrow> int \<Rightarrow> go_error option" where
  "CheckWriteSize p contentLen =
     (if \<not> AllowWrite p then Some ErrUnsupported
      else if ep_WriteMode p = WriteModeWriteLimited \<and> ep_MaxWriteBytes p > 0 \<and>
              contentLen > ep_MaxWriteBytes p
        then Some (ErrText (''content size '' @ show_int contentLen @ '' exceeds write limit '' @
                            show_int (ep_MaxWriteBytes p)))
      else None)"

subsection \<open>The specification: what a policy permits\<close>

datatype effect = EffWrite nat | EffPipeline nat | EffOutput nat | EffRun nat

text \<open>The limits are read as the enforcing code reads them: a limit that is not positive is no limit.\<close>

definition within_limit :: "int \<Rightarrow> nat \<Rightarrow> bool" where
  "within_limit limit n \<longleftrightarrow> \<not> (limit > 0 \<and> int n > limit)"

fun permits :: "ExecutionPolicy \<Rightarrow> effect \<Rightarrow> bool" where
  "permits p (EffWrite n) = (CheckWriteSize p (int n) = None)"
| "permits p (EffPipeline n) = within_limit (ep_MaxPipelineDepth p) n"
| "permits p (EffOutput n) = within_limit (ep_MaxOutputBytes p) n"
| "permits p (EffRun n) = within_limit (ep_Timeout p) n"

definition non_negative :: "ExecutionPolicy \<Rightarrow> bool" where
  "non_negative p \<longleftrightarrow> 0 \<le> ep_MaxWriteBytes p \<and> 0 \<le> ep_MaxPipelineDepth p \<and>
     0 \<le> ep_MaxOutputBytes p \<and> 0 \<le> ep_Timeout p"

definition ceiling_of :: "ExecutionPolicy \<Rightarrow> ExecutionPolicy" where
  "ceiling_of c = (if ep_WriteMode c = WriteModeUnset then DefaultPolicy else c)"

lemma AllowWrite_rank: "AllowWrite_mode m \<longleftrightarrow> 2 \<le> writeModeRank m"
  by (cases m) auto

lemma effective_policyD:
  assumes "EffectivePolicyWithinCeiling dur r c = Inr e"
  shows "e = WithInheritedUnset r (ceiling_of c)" "PolicyWithinCeiling dur e (ceiling_of c) = None"
    "ep_WriteMode e \<noteq> WriteModeUnset"
proof -
  have "ep_WriteMode (ceiling_of c) \<noteq> WriteModeUnset"
    by (simp add: ceiling_of_def DefaultPolicy_def)
  then have m: "ep_WriteMode (WithInheritedUnset r (ceiling_of c)) \<noteq> WriteModeUnset"
    by (simp add: WithInheritedUnset_def)
  with assms show "e = WithInheritedUnset r (ceiling_of c)"
    "PolicyWithinCeiling dur e (ceiling_of c) = None"
    by (auto simp: EffectivePolicyWithinCeiling_def ceiling_of_def Let_def split: option.splits)
  with m show "ep_WriteMode e \<noteq> WriteModeUnset" by simp
qed

text \<open>One numeric limit: what the effective limit lets through, the ceiling lets through.\<close>

lemma limit_within:
  assumes "0 \<le> r" and "\<not> (c > 0 \<and> (if r = 0 then c else r) > c)"
    and "within_limit (if r = 0 then c else r) n"
  shows "within_limit c n"
  using assms by (auto simp: within_limit_def split: if_splits)

lemma WithInheritedUnset_self: "WithInheritedUnset p p = p"
  by (simp add: WithInheritedUnset_def)

lemma within_ceiling_limits:
  assumes "PolicyWithinCeiling dur r c = None"
  shows "\<not> (ep_MaxPipelineDepth c > 0 \<and> ep_MaxPipelineDepth r > ep_MaxPipelineDepth c)"
    "\<not> (ep_MaxOutputBytes c > 0 \<and> ep_MaxOutputBytes r > ep_MaxOutputBytes c)"
    "\<not> (ep_Timeout c > 0 \<and> ep_Timeout r > ep_Timeout c)"
    "writeModeRank (ep_WriteMode r) \<le> writeModeRank (ep_WriteMode c)"
    "ep_WriteMode c = WriteModeWriteLimited \<Longrightarrow> ep_WriteMode r = WriteModeWriteLimited \<Longrightarrow>
       \<not> (ep_MaxWriteBytes c > 0 \<and> ep_MaxWriteBytes r > ep_MaxWriteBytes c)"
  using assms by (auto simp: PolicyWithinCeiling_def split: if_splits)

lemma CheckWriteSize_None:
  "CheckWriteSize p n = None \<longleftrightarrow> AllowWrite p \<and>
     (ep_WriteMode p = WriteModeWriteLimited \<longrightarrow> \<not> (ep_MaxWriteBytes p > 0 \<and> n > ep_MaxWriteBytes p))"
  by (auto simp: CheckWriteSize_def)

lemma write_within:
  assumes e: "EffectivePolicyWithinCeiling dur r c = Inr e" and nn: "non_negative r"
    and ok: "CheckWriteSize e n = None"
  shows "CheckWriteSize (ceiling_of c) n = None"
proof -
  note d = effective_policyD [OF e]
  note w = within_ceiling_limits [OF d(2)]
  have aw: "AllowWrite e" using ok by (simp add: CheckWriteSize_None)
  then have ac: "AllowWrite (ceiling_of c)" using w(4) by (simp add: AllowWrite_def AllowWrite_rank)
  show ?thesis
  proof (cases "ep_WriteMode (ceiling_of c) = WriteModeWriteLimited")
    case True
    with aw w(4) have "ep_WriteMode e = WriteModeWriteLimited"
      by (cases "ep_WriteMode e") (auto simp: AllowWrite_def)
    then have "\<not> (ep_MaxWriteBytes e > 0 \<and> n > ep_MaxWriteBytes e)"
      "\<not> (ep_MaxWriteBytes (ceiling_of c) > 0 \<and> ep_MaxWriteBytes e > ep_MaxWriteBytes (ceiling_of c))"
      using ok w(5) True by (auto simp: CheckWriteSize_None)
    moreover have "ep_MaxWriteBytes e = (if ep_MaxWriteBytes r = 0
        then ep_MaxWriteBytes (ceiling_of c) else ep_MaxWriteBytes r)"
      by (simp add: d(1) WithInheritedUnset_def)
    ultimately show ?thesis
      using nn ac True by (auto simp: CheckWriteSize_None non_negative_def split: if_splits)
  qed (simp add: ac CheckWriteSize_None)
qed

lemma permits_within:
  assumes "EffectivePolicyWithinCeiling dur r c = Inr e" and "non_negative r" and "permits e x"
  shows "permits (ceiling_of c) x"
proof (cases x)
  case (EffWrite n)
  then show ?thesis using write_within assms by simp
next
  case (EffPipeline n)
  then show ?thesis
    using assms within_ceiling_limits(1) [OF effective_policyD(2) [OF assms(1)]] effective_policyD(1) [OF assms(1)]
      limit_within [of "ep_MaxPipelineDepth r" "ep_MaxPipelineDepth (ceiling_of c)" n]
    by (simp add: non_negative_def WithInheritedUnset_def)
next
  case (EffOutput n)
  then show ?thesis
    using assms within_ceiling_limits(2) [OF effective_policyD(2) [OF assms(1)]] effective_policyD(1) [OF assms(1)]
      limit_within [of "ep_MaxOutputBytes r" "ep_MaxOutputBytes (ceiling_of c)" n]
    by (simp add: non_negative_def WithInheritedUnset_def)
next
  case (EffRun n)
  then show ?thesis
    using assms within_ceiling_limits(3) [OF effective_policyD(2) [OF assms(1)]] effective_policyD(1) [OF assms(1)]
      limit_within [of "ep_Timeout r" "ep_Timeout (ceiling_of c)" n]
    by (simp add: non_negative_def WithInheritedUnset_def)
qed

lemma within_ceiling_errors:
  assumes "PolicyWithinCeiling dur r c = Some err"
    and "0 < ep_MaxWriteBytes r" and "0 < ep_MaxPipelineDepth r"
    and "0 < ep_MaxOutputBytes r" and "0 < ep_Timeout r"
    and "writeModeRank (ep_WriteMode r) \<le> writeModeRank (ep_WriteMode c)"
  shows "\<exists>x. permits r x \<and> \<not> permits c x"
proof -
  consider "ep_WriteMode c = WriteModeWriteLimited" "ep_WriteMode r = WriteModeWriteLimited"
      "ep_MaxWriteBytes c > 0" "ep_MaxWriteBytes r > ep_MaxWriteBytes c"
    | "ep_MaxPipelineDepth c > 0" "ep_MaxPipelineDepth r > ep_MaxPipelineDepth c"
    | "ep_MaxOutputBytes c > 0" "ep_MaxOutputBytes r > ep_MaxOutputBytes c"
    | "ep_Timeout c > 0" "ep_Timeout r > ep_Timeout c"
    using assms(1,6) by (auto simp: PolicyWithinCeiling_def split: if_splits)
  then show ?thesis
  proof cases
    case 1
    then have "permits r (EffWrite (nat (ep_MaxWriteBytes r))) \<and> \<not> permits c (EffWrite (nat (ep_MaxWriteBytes r)))"
      by (simp add: CheckWriteSize_def AllowWrite_def)
    then show ?thesis by blast
  next
    case 2
    then have "permits r (EffPipeline (nat (ep_MaxPipelineDepth r))) \<and>
        \<not> permits c (EffPipeline (nat (ep_MaxPipelineDepth r)))" by (simp add: within_limit_def)
    then show ?thesis by blast
  next
    case 3
    then have "permits r (EffOutput (nat (ep_MaxOutputBytes r))) \<and>
        \<not> permits c (EffOutput (nat (ep_MaxOutputBytes r)))" by (simp add: within_limit_def)
    then show ?thesis by blast
  next
    case 4
    then have "permits r (EffRun (nat (ep_Timeout r))) \<and> \<not> permits c (EffRun (nat (ep_Timeout r)))"
      by (simp add: within_limit_def)
    then show ?thesis by blast
  qed
qed

lemma ceiling_error_exceeded:
  "PolicyWithinCeiling dur r c = Some err \<Longrightarrow> is_ceiling_exceeded err"
  by (auto simp: PolicyWithinCeiling_def ceiling_error_def split: if_splits)

subsection \<open>Properties\<close>

definition limited_ceiling :: ExecutionPolicy where
  "limited_ceiling =
     \<lparr>ep_WriteMode = WriteModeWriteLimited, ep_MaxWriteBytes = 100, ep_MaxPipelineDepth = 4,
      ep_MaxOutputBytes = 0, ep_Timeout = 1000\<rparr>"

definition partial_request :: ExecutionPolicy where
  "partial_request =
     \<lparr>ep_WriteMode = WriteModeUnset, ep_MaxWriteBytes = 10, ep_MaxPipelineDepth = 0,
      ep_MaxOutputBytes = 77, ep_Timeout = 0\<rparr>"

text \<open>C20. A request accepted under a session ceiling, with no negative limit, permits nothing the
  ceiling forbids: no write, pipeline depth, output or duration.\<close>

theorem effective_policy_permits:
  assumes "EffectivePolicyWithinCeiling dur r c = Inr e" and "non_negative r" and "permits e x"
  shows "permits (ceiling_of c) x"
  using assms by (rule permits_within)

lemma partial_request_effective:
  "EffectivePolicyWithinCeiling show_int partial_request limited_ceiling =
     Inr \<lparr>ep_WriteMode = WriteModeWriteLimited, ep_MaxWriteBytes = 10, ep_MaxPipelineDepth = 4,
          ep_MaxOutputBytes = 77, ep_Timeout = 1000\<rparr>"
  by (simp add: EffectivePolicyWithinCeiling_def PolicyWithinCeiling_def WithInheritedUnset_def
      limited_ceiling_def partial_request_def)

theorem effective_policy_permits_witness: "permits (ceiling_of limited_ceiling) (EffWrite 7)"
  by (rule effective_policy_permits [OF partial_request_effective])
    (simp_all add: non_negative_def partial_request_def CheckWriteSize_def AllowWrite_def)

text \<open>A negative limit is no limit to the code that enforces it, but passes the comparison with the
  ceiling: without the second hypothesis the property fails.\<close>

lemma negative_limit_escapes:
  "\<exists>e. EffectivePolicyWithinCeiling show_int (partial_request\<lparr>ep_MaxWriteBytes := - 1\<rparr>) limited_ceiling = Inr e \<and>
     permits e (EffWrite 101) \<and> \<not> permits (ceiling_of limited_ceiling) (EffWrite 101)"
  by (simp add: EffectivePolicyWithinCeiling_def PolicyWithinCeiling_def WithInheritedUnset_def
      limited_ceiling_def partial_request_def ceiling_of_def CheckWriteSize_def AllowWrite_def)

text \<open>The decision is exact on fully specified requests: a request with a write mode and positive
  limits is accepted, and then runs unchanged, only if it permits nothing its ceiling forbids;
  otherwise the error is the ceiling error and, unless the write mode itself is too strong, some
  effect is permitted by the request and forbidden by the ceiling.\<close>

theorem effective_policy_exact:
  assumes "ep_WriteMode r \<noteq> WriteModeUnset" and "0 < ep_MaxWriteBytes r" and "0 < ep_MaxPipelineDepth r"
    and "0 < ep_MaxOutputBytes r" and "0 < ep_Timeout r"
  shows "case EffectivePolicyWithinCeiling dur r c of
      Inr e \<Rightarrow> e = r \<and> (\<forall>x. permits r x \<longrightarrow> permits (ceiling_of c) x)
    | Inl err \<Rightarrow> is_ceiling_exceeded err \<and>
        (writeModeRank (ep_WriteMode r) \<le> writeModeRank (ep_WriteMode (ceiling_of c)) \<longrightarrow>
          (\<exists>x. permits r x \<and> \<not> permits (ceiling_of c) x))"
proof -
  have inh: "WithInheritedUnset r k = r" for k using assms by (simp add: WithInheritedUnset_def)
  have eq: "EffectivePolicyWithinCeiling dur r c =
      (case PolicyWithinCeiling dur r (ceiling_of c) of Some err \<Rightarrow> Inl err | None \<Rightarrow> Inr r)"
    using assms by (simp add: EffectivePolicyWithinCeiling_def ceiling_of_def Let_def inh)
  show ?thesis
  proof (cases "PolicyWithinCeiling dur r (ceiling_of c)")
    case None
    have "non_negative r" using assms by (simp add: non_negative_def)
    moreover have "EffectivePolicyWithinCeiling dur r c = Inr r" by (simp add: eq None)
    ultimately show ?thesis using permits_within by auto
  next
    case (Some err)
    then show ?thesis
      using within_ceiling_errors [OF Some assms(2-5)] ceiling_error_exceeded by (simp add: eq)
  qed
qed

theorem effective_policy_exact_witness:
  "case EffectivePolicyWithinCeiling show_int DefaultPolicy limited_ceiling of
      Inr e \<Rightarrow> e = DefaultPolicy \<and> (\<forall>x. permits DefaultPolicy x \<longrightarrow> permits (ceiling_of limited_ceiling) x)
    | Inl err \<Rightarrow> is_ceiling_exceeded err \<and>
        (writeModeRank (ep_WriteMode DefaultPolicy) \<le> writeModeRank (ep_WriteMode (ceiling_of limited_ceiling)) \<longrightarrow>
          (\<exists>x. permits DefaultPolicy x \<and> \<not> permits (ceiling_of limited_ceiling) x))"
  by (rule effective_policy_exact) (simp_all add: DefaultPolicy_def)

end
