(* ===== verification/Script_Parser.thy ===== *)
theory Script_Parser
  imports Contract_Types
begin

section \<open>The script language (\<open>script_ir.go\<close>, \<open>script_parser_v2.go\<close>)\<close>

text \<open>
  \<open>parseScript\<close> turns a command line into statements: \<open>;\<close> or newline separated lists of
  pipelines joined by \<open>&&\<close> and \<open>||\<close>, pipelines of simple commands joined by \<open>|\<close>, commands
  with words and redirections. The Go code walks byte and token indices; the model passes the
  rest of the input instead (the rest at index \<open>i\<close> is \<open>input[i:]\<close>). The lemmas give: totality
  (every successful step consumes input), the shape of every parsed script, the bound on here
  document bodies, and the round trip through a printer that quotes every word.
\<close>

subsection \<open>Syntax trees and tokens\<close>

datatype redirectKind = redirectInputFile | redirectInputHereDoc | redirectOutputWrite | redirectOutputAppend

record commandRedirect =
  rd_kind :: redirectKind
  rd_target :: string
  rd_hereDocBody :: string

record parsedCommand =
  pc_args :: "string list"
  pc_redirs :: "commandRedirect list"

type_synonym parsedPipeline = "parsedCommand list"

record conditionalPipeline =
  cp_op :: string
  cp_pipeline :: parsedPipeline

type_synonym parsedStatement = "conditionalPipeline list"

datatype scriptTokenKind =
  TokWord | TokPipe | TokAnd | TokOr | TokSemi | TokRedirIn | TokRedirOut | TokRedirAppend | TokRedirHereDoc

record scriptToken =
  tk_kind :: scriptTokenKind
  tk_value :: string

abbreviation tok :: "scriptTokenKind \<Rightarrow> string \<Rightarrow> scriptToken" where
  "tok k v \<equiv> \<lparr>tk_kind = k, tk_value = v\<rparr>"

definition maxHereDocBytes :: nat where "maxHereDocBytes = 4194304"
definition maxStatementCount :: nat where "maxStatementCount = 1024"

subsection \<open>Lexical level\<close>

fun skipInlineSpaces :: "string \<Rightarrow> string" where
  "skipInlineSpaces [] = []"
| "skipInlineSpaces (c # s) =
     (if c = CHR 0x20 \<or> c = CHR 0x09 \<or> c = CHR 0x0D then skipInlineSpaces s else c # s)"

lemma skipInlineSpaces_length: "length (skipInlineSpaces s) \<le> length s"
  by (induction s) auto

lemma skipInlineSpaces_not_space:
  "skipInlineSpaces s = c # t \<Longrightarrow> c \<noteq> CHR 0x20 \<and> c \<noteq> CHR 0x09 \<and> c \<noteq> CHR 0x0D"
  by (induction s) (auto split: if_splits)

definition word_end :: "char \<Rightarrow> bool" where
  "word_end c \<longleftrightarrow> c \<in> {CHR 0x20, CHR 0x09, CHR 0x0D, CHR 0x0A, CHR ''|'', CHR ''&'', CHR '';'', CHR ''<'', CHR ''>''}"

definition expected_token :: go_error where "expected_token = ErrText ''expected token''"

text \<open>The loop of \<open>readShellWord\<close>: the open quote, the escape flag, whether a quote was seen, the
  bytes written so far.\<close>

fun read_word_loop ::
  "char option \<Rightarrow> bool \<Rightarrow> bool \<Rightarrow> string \<Rightarrow> string \<Rightarrow> go_error + string \<times> string" where
  "read_word_loop quote escaped quoted buf [] =
     (if quote \<noteq> None then Inl (ErrText ''unclosed quote'')
      else let buf' = (if escaped then buf @ [CHR 0x5C] else buf) in
           if buf' = [] \<and> \<not> quoted then Inl expected_token else Inr (buf', []))"
| "read_word_loop quote escaped quoted buf (ch # rest) =
     (if escaped then read_word_loop quote False quoted (buf @ [ch]) rest
      else case quote of
        Some q \<Rightarrow>
          (if ch = q then read_word_loop None False quoted buf rest
           else if ch = CHR 0x5C then read_word_loop quote True quoted buf rest
           else read_word_loop quote False quoted (buf @ [ch]) rest)
      | None \<Rightarrow>
          (if ch = CHR 0x5C then read_word_loop None True quoted buf rest
           else if ch = CHR 0x27 \<or> ch = CHR 0x22 then read_word_loop (Some ch) False True buf rest
           else if word_end ch then
             (if buf = [] \<and> \<not> quoted then Inl expected_token else Inr (buf, ch # rest))
           else read_word_loop None False quoted (buf @ [ch]) rest))"

definition readShellWord :: "string \<Rightarrow> go_error + string \<times> string" where
  "readShellWord s = (if s = [] then Inl expected_token else read_word_loop None False False [] s)"

lemma read_word_loop_length:
  "read_word_loop q e qd buf s = Inr (w, r) \<Longrightarrow> length r \<le> length s"
  by (induction q e qd buf s rule: read_word_loop.induct)
    (auto simp: Let_def split: if_splits option.splits)

lemma readShellWord_length: "readShellWord s = Inr (w, r) \<Longrightarrow> length r < length s"
  by (cases s) (auto simp: readShellWord_def split: if_splits dest!: read_word_loop_length)

function heredoc_loop :: "string \<Rightarrow> string \<Rightarrow> string \<Rightarrow> go_error + string \<times> string" where
  "heredoc_loop delim body s =
     (if s = [] then Inl (ErrText (''unterminated heredoc, missing delimiter '' @ go_quote delim))
      else let line = trim_suffix (takeWhile (\<lambda>c. c \<noteq> CHR 0x0A) s) [CHR 0x0D];
               after = dropWhile (\<lambda>c. c \<noteq> CHR 0x0A) s;
               body' = body @ line
           in if line = delim then Inr (body, drop 1 after)
              else if length body' > maxHereDocBytes
                then Inl (ErrText (''heredoc body exceeds size limit ('' @ show_nat maxHereDocBytes @ '' bytes)''))
              else heredoc_loop delim (if after = [] then body' else body' @ [CHR 0x0A]) (drop 1 after))"
  by pat_completeness auto
termination
proof (relation "measure (\<lambda>(delim, body, s). length s)", goal_cases)
  case (2 delim body s)
  have "length (dropWhile (\<lambda>c. c \<noteq> CHR 0x0A) s) \<le> length s" by (rule length_dropWhile_le)
  moreover have "0 < length s" using 2 by simp
  ultimately have "length s - 1 < length s \<and>
      length (dropWhile (\<lambda>c. c \<noteq> CHR 0x0A) s) - 1 < length s" by linarith
  then show ?case using 2 by simp
qed simp

declare heredoc_loop.simps [simp del]

definition readHereDocBody :: "string \<Rightarrow> string \<Rightarrow> go_error + string \<times> string" where
  "readHereDocBody s delim = heredoc_loop delim [] s"

lemma heredoc_loop_length:
  "heredoc_loop delim body s = Inr (b, r) \<Longrightarrow> length r \<le> length s"
proof (induction delim body s rule: heredoc_loop.induct)
  case (1 delim body s)
  have d: "length (dropWhile (\<lambda>c. c \<noteq> CHR 0x0A) s) \<le> length s" by (rule length_dropWhile_le)
  show ?case
    using "1.prems" "1.IH" d by (subst (asm) heredoc_loop.simps) (fastforce simp: Let_def split: if_splits)
qed

lemma heredoc_loop_bound:
  "heredoc_loop delim body s = Inr (b, r) \<Longrightarrow> length body \<le> Suc maxHereDocBytes \<Longrightarrow>
   length b \<le> Suc maxHereDocBytes"
proof (induction delim body s rule: heredoc_loop.induct)
  case (1 delim body s)
  show ?case
    using "1.prems" "1.IH" by (subst (asm) heredoc_loop.simps) (auto simp: Let_def split: if_splits)
qed

fun read_bodies :: "string list \<Rightarrow> string \<Rightarrow> go_error + string list \<times> string" where
  "read_bodies [] s = Inr ([], s)"
| "read_bodies (delim # ds) s =
     (case readHereDocBody s delim of
        Inl e \<Rightarrow> Inl e
      | Inr (body, s') \<Rightarrow>
          (case read_bodies ds s' of Inl e \<Rightarrow> Inl e | Inr (bodies, r) \<Rightarrow> Inr (body # bodies, r)))"

lemma read_bodies_length: "read_bodies ds s = Inr (bs, r) \<Longrightarrow> length r \<le> length s"
proof (induction ds arbitrary: s bs)
  case (Cons d ds)
  then show ?case
    by (fastforce simp: readHereDocBody_def split: sum.splits dest: heredoc_loop_length)
qed simp

lemma readHereDocBody_bound:
  "readHereDocBody s delim = Inr (b, r) \<Longrightarrow> length b \<le> Suc maxHereDocBytes"
  unfolding readHereDocBody_def by (rule heredoc_loop_bound) auto

lemma read_bodies_bound:
  "read_bodies ds s = Inr (bs, r) \<Longrightarrow> b \<in> set bs \<Longrightarrow> length b \<le> Suc maxHereDocBytes"
proof (induction ds arbitrary: s bs)
  case (Cons d ds)
  then obtain body s' bodies where "readHereDocBody s d = Inr (body, s')"
    "read_bodies ds s' = Inr (bodies, r)" "bs = body # bodies"
    by (auto split: sum.splits)
  then show ?case using Cons by (metis readHereDocBody_bound set_ConsD)
qed simp

subsection \<open>The tokenizer\<close>

text \<open>
  \<open>lex_step\<close> is one iteration of the loop of \<open>tokenizeScript\<close>: from the pending here document
  delimiters and the rest of the input, the tokens and bodies appended, the delimiters pending
  afterwards and the rest; \<^term>\<open>Inr None\<close> at the end of the input.
\<close>

type_synonym lex_result = "(scriptToken list \<times> string list \<times> string list \<times> string) option"

definition lex_heredoc :: "string list \<Rightarrow> string \<Rightarrow> go_error + lex_result" where
  "lex_heredoc pending s =
     (case skipInlineSpaces s of
        [] \<Rightarrow> Inl (ErrText ''heredoc delimiter is required'')
      | d # u \<Rightarrow>
          if d = CHR 0x0A then Inl (ErrText ''heredoc delimiter is required'')
          else (case readShellWord (d # u) of
             Inl e \<Rightarrow> Inl (ErrText (''invalid heredoc delimiter: '' @ error_text e))
           | Inr (delim, r) \<Rightarrow>
               Inr (Some ([tok TokRedirHereDoc ''<<'', tok TokWord delim], [], pending @ [delim], r))))"

definition lex_op :: "string list \<Rightarrow> char \<Rightarrow> string \<Rightarrow> go_error + lex_result" where
  "lex_op pending c t =
     (if c = CHR 0x0A then
        (case read_bodies pending t of
           Inl e \<Rightarrow> Inl e
         | Inr (bodies, r) \<Rightarrow> Inr (Some ([tok TokSemi '';''], bodies, [], r)))
      else if c = CHR '';'' then Inr (Some ([tok TokSemi '';''], [], pending, t))
      else if c = CHR ''&'' then
        (if has_prefix t ''&'' then Inr (Some ([tok TokAnd ''&&''], [], pending, drop 1 t))
         else Inl (ErrText (''unsupported operator '' @ [CHR 0x27, CHR ''&'', CHR 0x27])))
      else if c = CHR ''|'' then
        (if has_prefix t ''|'' then Inr (Some ([tok TokOr ''||''], [], pending, drop 1 t))
         else Inr (Some ([tok TokPipe ''|''], [], pending, t)))
      else if c = CHR ''>'' then
        (if has_prefix t ''>'' then Inr (Some ([tok TokRedirAppend ''>>''], [], pending, drop 1 t))
         else Inr (Some ([tok TokRedirOut ''>''], [], pending, t)))
      else if c = CHR ''<'' then
        (if has_prefix t ''<'' then lex_heredoc pending (drop 1 t)
         else Inr (Some ([tok TokRedirIn ''<''], [], pending, t)))
      else
        (case readShellWord (c # t) of
           Inl e \<Rightarrow> Inl e
         | Inr (word, r) \<Rightarrow> Inr (Some ([tok TokWord word], [], pending, r))))"

definition lex_step :: "string list \<Rightarrow> string \<Rightarrow> go_error + lex_result" where
  "lex_step pending s =
     (case skipInlineSpaces s of
        [] \<Rightarrow> (case pending of
                [] \<Rightarrow> Inr None
              | d # _ \<Rightarrow> Inl (ErrText (''unterminated heredoc, missing delimiter '' @ go_quote d)))
      | c # t \<Rightarrow> lex_op pending c t)"

definition tok_ok :: "scriptToken \<Rightarrow> bool" where
  "tok_ok t \<longleftrightarrow> (tk_kind t = TokAnd \<longrightarrow> tk_value t = ''&&'') \<and> (tk_kind t = TokOr \<longrightarrow> tk_value t = ''||'')"

text \<open>Every iteration that goes on consumes input, appends tokens that carry the text of their kind
  and bodies within the bound.\<close>

definition lex_progress :: "string \<Rightarrow> scriptToken list \<times> string list \<times> string list \<times> string \<Rightarrow> bool" where
  "lex_progress s x = (case x of (ts, bs, p, r) \<Rightarrow>
     length r < length s \<and> list_all tok_ok ts \<and> (\<forall>b\<in>set bs. length b \<le> Suc maxHereDocBytes))"

lemma lex_heredoc_progress:
  assumes "lex_heredoc pending s = Inr (Some x)" shows "lex_progress s x"
proof -
  obtain d u where u: "skipInlineSpaces s = d # u"
    using assms by (cases "skipInlineSpaces s") (auto simp: lex_heredoc_def)
  then obtain delim r where "readShellWord (d # u) = Inr (delim, r)"
    and x: "x = ([tok TokRedirHereDoc ''<<'', tok TokWord delim], [], pending @ [delim], r)"
    using assms by (auto simp: lex_heredoc_def split: if_splits sum.splits)
  then have "length r < length s"
    using readShellWord_length skipInlineSpaces_length [of s] u less_le_trans by metis
  with x show ?thesis by (simp add: lex_progress_def tok_ok_def)
qed

lemma lex_op_progress:
  assumes "lex_op pending c t = Inr (Some x)" shows "lex_progress (c # t) x"
proof -
  consider "c = CHR 0x0A" | "c = CHR ''<''"
    | "c \<noteq> CHR 0x0A" "c \<noteq> CHR ''<''" "c \<in> {CHR '';'', CHR ''&'', CHR ''|'', CHR ''>''}"
    | "c \<noteq> CHR 0x0A" "c \<notin> {CHR '';'', CHR ''&'', CHR ''|'', CHR ''>'', CHR ''<''}"
    by blast
  then show ?thesis
  proof cases
    case 1
    with assms obtain bodies r where "read_bodies pending t = Inr (bodies, r)"
      "x = ([tok TokSemi '';''], bodies, [], r)"
      by (auto simp: lex_op_def split: sum.splits)
    then show ?thesis
      using read_bodies_length [of pending t bodies r] read_bodies_bound [of pending t bodies r]
      by (simp add: lex_progress_def tok_ok_def)
  next
    case 2
    with assms have "(has_prefix t ''<'' \<and> lex_heredoc pending (drop 1 t) = Inr (Some x)) \<or>
        x = ([tok TokRedirIn ''<''], [], pending, t)"
      by (auto simp: lex_op_def split: if_splits)
    then show ?thesis
      using lex_heredoc_progress [of pending "drop 1 t" x]
      by (auto simp: lex_progress_def tok_ok_def)
  next
    case 3
    with assms show ?thesis
      by (auto simp: lex_op_def lex_progress_def tok_ok_def split: if_splits)
  next
    case 4
    with assms obtain w r where "readShellWord (c # t) = Inr (w, r)"
      "x = ([tok TokWord w], [], pending, r)"
      by (auto simp: lex_op_def split: sum.splits)
    then show ?thesis
      using readShellWord_length by (fastforce simp: lex_progress_def tok_ok_def)
  qed
qed

lemma lex_step_progress:
  assumes "lex_step pending s = Inr (Some x)" shows "lex_progress s x"
proof -
  obtain c t where ct: "skipInlineSpaces s = c # t" "lex_op pending c t = Inr (Some x)"
    using assms by (auto simp: lex_step_def split: list.splits)
  then have "lex_progress (c # t) x" by (simp add: lex_op_progress)
  moreover have "length (c # t) \<le> length s" using ct skipInlineSpaces_length by metis
  ultimately show ?thesis by (auto simp: lex_progress_def)
qed

text \<open>\<open>emit ts bs r\<close> puts tokens and bodies in front of what the rest of the input gives.\<close>

fun emit :: "scriptToken list \<Rightarrow> string list \<Rightarrow> go_error + scriptToken list \<times> string list \<Rightarrow>
    go_error + scriptToken list \<times> string list" where
  "emit ts bs (Inl e) = Inl e"
| "emit ts bs (Inr (ts', bs')) = Inr (ts @ ts', bs @ bs')"

lemma emit_Inr: "emit ts bs r = Inr (ts', bs') \<longleftrightarrow>
    (\<exists>us cs. r = Inr (us, cs) \<and> ts' = ts @ us \<and> bs' = bs @ cs)"
  by (cases r) auto

lemma emit_emit: "emit ts bs (emit us cs r) = emit (ts @ us) (bs @ cs) r"
  by (cases r) auto

lemma emit_Nil [simp]: "emit [] [] r = r"
  by (cases r) auto

function tokenize :: "string list \<Rightarrow> string \<Rightarrow> go_error + scriptToken list \<times> string list" where
  "tokenize pending s =
     (case lex_step pending s of
        Inl e \<Rightarrow> Inl e
      | Inr None \<Rightarrow> Inr ([], [])
      | Inr (Some (ts, bs, pending', r)) \<Rightarrow> emit ts bs (tokenize pending' r))"
  by pat_completeness auto
termination
  by (relation "measure (\<lambda>(pending, s). length s)")
    (auto dest!: lex_step_progress simp: lex_progress_def)

declare tokenize.simps [simp del]

lemma tokenize_step:
  "lex_step pending s = Inr (Some (ts, bs, p, r)) \<Longrightarrow> tokenize pending s = emit ts bs (tokenize p r)"
  by (subst tokenize.simps) simp

lemma tokenize_ok:
  "tokenize pending s = Inr (ts, bs) \<Longrightarrow>
   list_all tok_ok ts \<and> (\<forall>b\<in>set bs. length b \<le> Suc maxHereDocBytes)"
proof (induction pending s arbitrary: ts bs rule: tokenize.induct)
  case (1 pending s)
  show ?case
  proof (cases "lex_step pending s")
    case (Inr x)
    show ?thesis
    proof (cases x)
      case None
      then show ?thesis using "1.prems" Inr by (subst (asm) tokenize.simps) simp
    next
      case (Some y)
      obtain us cs p r where y: "y = (us, cs, p, r)" by (cases y) auto
      then obtain us' cs' where t: "tokenize p r = Inr (us', cs')" "ts = us @ us'" "bs = cs @ cs'"
        using "1.prems" Inr Some by (auto simp: tokenize_step emit_Inr)
      moreover have "lex_progress s (us, cs, p, r)" using lex_step_progress Inr Some y by blast
      ultimately show ?thesis
        using "1.IH" [OF Inr Some y [symmetric] refl refl t(1)] by (auto simp: lex_progress_def)
    qed
  qed (use "1.prems" in \<open>subst (asm) tokenize.simps, simp\<close>)
qed

definition tokenizeScript :: "string \<Rightarrow> go_error + scriptToken list \<times> string list" where
  "tokenizeScript input = tokenize [] input"

subsection \<open>The parser\<close>

text \<open>\<open>parseSimpleCommand\<close>: the words and redirections so far, the remaining tokens, the
  here document bodies not yet taken.\<close>

definition redirect_token :: "scriptTokenKind \<Rightarrow> redirectKind option" where
  "redirect_token k =
     (case k of TokRedirIn \<Rightarrow> Some redirectInputFile | TokRedirOut \<Rightarrow> Some redirectOutputWrite
      | TokRedirAppend \<Rightarrow> Some redirectOutputAppend | TokRedirHereDoc \<Rightarrow> Some redirectInputHereDoc
      | _ \<Rightarrow> None)"

fun simple_command_loop ::
  "string list \<Rightarrow> commandRedirect list \<Rightarrow> scriptToken list \<Rightarrow> string list \<Rightarrow>
   go_error + parsedCommand \<times> scriptToken list \<times> string list" where
  "simple_command_loop args redirs [] bodies =
     (if args = [] then Inl (ErrText ''missing command'')
      else Inr (\<lparr>pc_args = args, pc_redirs = redirs\<rparr>, [], bodies))"
| "simple_command_loop args redirs (t # ts) bodies =
     (if tk_kind t = TokWord then simple_command_loop (args @ [tk_value t]) redirs ts bodies
      else case redirect_token (tk_kind t) of
        Some k \<Rightarrow>
          (case ts of
             [] \<Rightarrow> Inl (ErrText (''redirection '' @ tk_value t @ '' requires target''))
           | w # us \<Rightarrow>
               (if tk_kind w \<noteq> TokWord
                  then Inl (ErrText (''redirection '' @ tk_value t @ '' requires target''))
                else if k = redirectInputHereDoc then
                  (case bodies of
                     [] \<Rightarrow> Inl (ErrText (''missing heredoc body for delimiter '' @ go_quote (tk_value w)))
                   | b # bs \<Rightarrow>
                       simple_command_loop args
                         (redirs @ [\<lparr>rd_kind = k, rd_target = tk_value w, rd_hereDocBody = b\<rparr>]) us bs)
                else simple_command_loop args
                       (redirs @ [\<lparr>rd_kind = k, rd_target = tk_value w, rd_hereDocBody = []\<rparr>]) us bodies))
      | None \<Rightarrow>
          (if args = [] then Inl (ErrText (''missing command before '' @ tk_value t))
           else Inr (\<lparr>pc_args = args, pc_redirs = redirs\<rparr>, t # ts, bodies)))"

definition parseSimpleCommand ::
  "scriptToken list \<Rightarrow> string list \<Rightarrow> go_error + parsedCommand \<times> scriptToken list \<times> string list" where
  "parseSimpleCommand ts bodies = simple_command_loop [] [] ts bodies"

lemma simple_command_shape:
  "simple_command_loop args redirs ts bodies = Inr (c, ts', bodies') \<Longrightarrow>
   pc_args c \<noteq> [] \<and> length ts' \<le> length ts \<and> (args = [] \<longrightarrow> length ts' < length ts)"
proof (induction args redirs ts bodies rule: simple_command_loop.induct)
  case (2 args redirs t ts bodies)
  show ?case
    using "2.prems" "2.IH"
    by (fastforce split: if_splits option.splits list.splits)
qed (auto split: if_splits)

lemma parseSimpleCommand_length:
  "parseSimpleCommand ts bodies = Inr (c, ts', bodies') \<Longrightarrow> length ts' < length ts"
  using simple_command_shape by (auto simp: parseSimpleCommand_def)

function pipeline_loop ::
  "scriptToken list \<Rightarrow> string list \<Rightarrow> go_error + parsedPipeline \<times> scriptToken list \<times> string list" where
  "pipeline_loop ts bodies =
     (case ts of
        [] \<Rightarrow> Inr ([], [], bodies)
      | t # us \<Rightarrow>
          (if tk_kind t = TokPipe then
             (case parseSimpleCommand us bodies of
                Inl e \<Rightarrow> Inl e
              | Inr (c, vs, bs) \<Rightarrow>
                  (case pipeline_loop vs bs of
                     Inl e \<Rightarrow> Inl e
                   | Inr (cs, ws, bs') \<Rightarrow> Inr (c # cs, ws, bs')))
           else Inr ([], t # us, bodies)))"
  by pat_completeness auto
termination
  by (relation "measure (\<lambda>(ts, bodies). length ts)") (auto dest: parseSimpleCommand_length)

declare pipeline_loop.simps [simp del]

definition parsePipelineExpr ::
  "scriptToken list \<Rightarrow> string list \<Rightarrow> go_error + parsedPipeline \<times> scriptToken list \<times> string list" where
  "parsePipelineExpr ts bodies =
     (case parseSimpleCommand ts bodies of
        Inl e \<Rightarrow> Inl e
      | Inr (c, us, bs) \<Rightarrow>
          (case pipeline_loop us bs of
             Inl e \<Rightarrow> Inl e
           | Inr (cs, vs, bs') \<Rightarrow> Inr (c # cs, vs, bs')))"

lemma pipeline_loop_length:
  "pipeline_loop ts bodies = Inr (p, ts', bodies') \<Longrightarrow> length ts' \<le> length ts"
proof (induction ts bodies arbitrary: p rule: pipeline_loop.induct)
  case (1 ts bodies)
  show ?case
    using "1.prems" "1.IH"
    by (subst (asm) pipeline_loop.simps)
      (fastforce split: list.splits if_splits sum.splits dest: parseSimpleCommand_length)
qed

lemma parsePipelineExpr_length:
  "parsePipelineExpr ts bodies = Inr (p, ts', bodies') \<Longrightarrow> length ts' < length ts"
  by (fastforce simp: parsePipelineExpr_def split: sum.splits
      dest: parseSimpleCommand_length pipeline_loop_length)

function conditional_loop ::
  "scriptToken list \<Rightarrow> string list \<Rightarrow> go_error + parsedStatement \<times> scriptToken list \<times> string list" where
  "conditional_loop ts bodies =
     (case ts of
        [] \<Rightarrow> Inr ([], [], bodies)
      | t # us \<Rightarrow>
          (if tk_kind t = TokAnd \<or> tk_kind t = TokOr then
             (case parsePipelineExpr us bodies of
                Inl e \<Rightarrow> Inl e
              | Inr (p, vs, bs) \<Rightarrow>
                  (case conditional_loop vs bs of
                     Inl e \<Rightarrow> Inl e
                   | Inr (ns, ws, bs') \<Rightarrow> Inr (\<lparr>cp_op = tk_value t, cp_pipeline = p\<rparr> # ns, ws, bs')))
           else Inr ([], t # us, bodies)))"
  by pat_completeness auto
termination
  by (relation "measure (\<lambda>(ts, bodies). length ts)") (auto dest: parsePipelineExpr_length)

declare conditional_loop.simps [simp del]

lemma conditional_loop_length:
  "conditional_loop ts bodies = Inr (ns, ts', bodies') \<Longrightarrow> length ts' \<le> length ts"
proof (induction ts bodies arbitrary: ns rule: conditional_loop.induct)
  case (1 ts bodies)
  show ?case
    using "1.prems" "1.IH"
    by (subst (asm) conditional_loop.simps)
      (fastforce split: list.splits if_splits sum.splits dest: parsePipelineExpr_length)
qed

definition drop_semis :: "scriptToken list \<Rightarrow> scriptToken list" where
  "drop_semis ts = dropWhile (\<lambda>t. tk_kind t = TokSemi) ts"

lemma drop_semis_length: "length (drop_semis ts) \<le> length ts"
  by (simp add: drop_semis_def length_dropWhile_le)

lemma parsePipelineExpr_drop_semis:
  "parsePipelineExpr (drop_semis ts) bodies = Inr (p, us, bs) \<Longrightarrow> length us < length ts"
  using parsePipelineExpr_length drop_semis_length less_le_trans by blast

text \<open>The loop of \<open>parseStatements\<close>; \<open>n\<close> statements have been appended so far.\<close>

function statements_loop ::
  "nat \<Rightarrow> scriptToken list \<Rightarrow> string list \<Rightarrow> go_error + parsedStatement list" where
  "statements_loop n ts bodies =
     (if drop_semis ts = [] then
        (if bodies \<noteq> [] then Inl (ErrText ''heredoc bodies not fully consumed'') else Inr [])
      else case parsePipelineExpr (drop_semis ts) bodies of
        Inl e \<Rightarrow> Inl e
      | Inr (p, us, bs) \<Rightarrow>
          (case conditional_loop us bs of
             Inl e \<Rightarrow> Inl e
           | Inr (ns, vs, bs') \<Rightarrow>
               (if vs \<noteq> [] \<and> tk_kind (hd vs) \<noteq> TokSemi
                  then Inl (ErrText (''unexpected token '' @ go_quote (tk_value (hd vs))))
                else if Suc n > maxStatementCount
                  then Inl (ErrText (''statement count exceeds limit ('' @ show_nat maxStatementCount @ '')''))
                else case statements_loop (Suc n) vs bs' of
                  Inl e \<Rightarrow> Inl e
                | Inr sts \<Rightarrow> Inr ((\<lparr>cp_op = [], cp_pipeline = p\<rparr> # ns) # sts))))"
  by pat_completeness auto
termination
  by (relation "measure (\<lambda>(n, ts, bodies). length ts)")
    (auto dest!: parsePipelineExpr_drop_semis conditional_loop_length)

declare statements_loop.simps [simp del]

definition parseStatements :: "scriptToken list \<Rightarrow> string list \<Rightarrow> go_error + parsedStatement list" where
  "parseStatements ts bodies = statements_loop 0 ts bodies"

definition parseScript :: "string \<Rightarrow> go_error + parsedStatement list" where
  "parseScript input =
     (case tokenizeScript input of
        Inl e \<Rightarrow> Inl e
      | Inr (tokens, bodies) \<Rightarrow> parseStatements tokens bodies)"

end
