(* ===== verification/Bootstrap.thy ===== *)
theory Bootstrap
  imports Script_Parser "HOL-Library.Multiset"
begin

section \<open>Aliases, environment and rc files\<close>

text \<open>
  \<open>pkg/contract/runtime_bootstrap.go\<close> (normalisation of aliases, environment variables and rc
  paths), the rc file language of \<open>pkg/engine/orchestrator_bootstrap.go\<close> and the alias expansion
  of \<open>pkg/engine/orchestrator.go\<close>. A Go map is the list of its entries in the order a range loop
  visits them. The lemmas show that normalisation is idempotent, that the result of merging does not
  depend on that order when no two keys have the same trimmed name, and that alias expansion ends,
  never loops and stops at a command that is no alias.
\<close>

subsection \<open>Normalisation\<close>

type_synonym alias_map = "(string, string list) gomap"
type_synonym env_map = "(string, string) gomap"

definition DefaultCommandAliases :: alias_map where
  "DefaultCommandAliases = [(''ll'', [''ls'', ''-l'']), (''fm'', [''frontmatter''])]"

definition normalizeAliasName :: "string \<Rightarrow> string" where
  "normalizeAliasName raw =
     (let name = trim_space raw in
      if name = [] then []
      else if has_prefix name ''-'' \<or> contains name ''/'' \<or> contains name '' '' then []
      else name)"

definition normalizeAliasExpansion :: "string list \<Rightarrow> string list" where
  "normalizeAliasExpansion tokens = filter (\<lambda>t. t \<noteq> []) (map trim_space tokens)"

fun normalize_alias_entries :: "alias_map \<Rightarrow> alias_map \<Rightarrow> alias_map" where
  "normalize_alias_entries out [] = out"
| "normalize_alias_entries out ((key, expansion) # rest) =
     (let name = normalizeAliasName key; tokens = normalizeAliasExpansion expansion in
      if name = [] then normalize_alias_entries out rest
      else if tokens = [] then normalize_alias_entries out rest
      else normalize_alias_entries (map_put name tokens out) rest)"

definition NormalizeCommandAliases :: "alias_map \<Rightarrow> alias_map" where
  "NormalizeCommandAliases raw = normalize_alias_entries [] raw"

definition MergeCommandAliases :: "alias_map list \<Rightarrow> alias_map" where
  "MergeCommandAliases maps = foldl (\<lambda>out m. map_puts out (NormalizeCommandAliases m)) [] maps"

definition env_start :: "char \<Rightarrow> bool" where
  "env_start c \<longleftrightarrow> (let n = (of_char c :: nat) in
     c = CHR ''_'' \<or> (65 \<le> n \<and> n \<le> 90) \<or> (97 \<le> n \<and> n \<le> 122))"

fun env_key_loop :: "bool \<Rightarrow> string \<Rightarrow> bool" where
  "env_key_loop first [] = True"
| "env_key_loop first (c # s) =
     (if env_start c then env_key_loop False s
      else if \<not> first \<and> is_digit c then env_key_loop False s
      else False)"

definition normalizeEnvKey :: "string \<Rightarrow> string" where
  "normalizeEnvKey raw =
     (let k = trim_space raw in
      if k = [] then [] else if env_key_loop True k then k else [])"

fun normalize_env_entries :: "env_map \<Rightarrow> env_map \<Rightarrow> env_map" where
  "normalize_env_entries out [] = out"
| "normalize_env_entries out ((key, value) # rest) =
     (let k = normalizeEnvKey key in
      if k = [] then normalize_env_entries out rest else normalize_env_entries (map_put k value out) rest)"

definition NormalizeEnvVars :: "env_map \<Rightarrow> env_map" where
  "NormalizeEnvVars raw = normalize_env_entries [] raw"

definition NormalizeRCFiles :: "string list \<Rightarrow> string list" where
  "NormalizeRCFiles raw = dedupe_first (filter (\<lambda>p. p \<noteq> []) (map trim_space raw))"

subsection \<open>The rc file language\<close>

definition splitAssignment :: "string \<Rightarrow> (string \<times> string) option" where
  "splitAssignment raw =
     (case split_n2 (CHR ''='') (trim_space raw) of
        (_, None) \<Rightarrow> None
      | (a, Some b) \<Rightarrow> (if trim_space a = [] then None else Some (trim_space a, trim_space b)))"

definition trimOptionalQuotes :: "string \<Rightarrow> string" where
  "trimOptionalQuotes raw =
     (if length raw \<ge> 2 \<and> (hd raw = CHR 0x22 \<and> last raw = CHR 0x22 \<or> hd raw = CHR 0x27 \<and> last raw = CHR 0x27)
      then butlast (tl raw) else raw)"

definition parseExportLine :: "string \<Rightarrow> go_error + string \<times> string" where
  "parseExportLine raw =
     (case splitAssignment raw of
        None \<Rightarrow> Inl (ErrText ''export requires KEY=VALUE'')
      | Some (name, value) \<Rightarrow>
          (let key = normalizeEnvKey name in
           if key = [] then Inl (ErrText (''invalid export key '' @ go_quote name))
           else Inr (key, trimOptionalQuotes value)))"

function alias_words :: "string list \<Rightarrow> string \<Rightarrow> go_error + string list" where
  "alias_words out s =
     (case skipInlineSpaces s of
        [] \<Rightarrow> (if out = [] then Inl (ErrText ''alias expansion must not be empty'') else Inr out)
      | c # t \<Rightarrow>
          (case readShellWord (c # t) of
             Inl e \<Rightarrow> Inl (ErrText (''invalid alias expansion: '' @ error_text e))
           | Inr (word, rest) \<Rightarrow>
               (if trim_space word = [] then Inl (ErrText ''alias expansion must not contain empty token'')
                else alias_words (out @ [word]) rest)))"
  by pat_completeness auto
termination
proof (relation "measure (\<lambda>(out, s). length s)", goal_cases)
  case (2 out s c t y word rest)
  then have "readShellWord (c # t) = Inr (word, rest)" by simp
  then have "length rest < length (c # t)" by (rule readShellWord_length)
  moreover have "length (c # t) \<le> length s" using 2 skipInlineSpaces_length [of s] by simp
  ultimately show ?case by simp
qed simp

declare alias_words.simps [simp del]

definition parseAliasExpansion :: "string \<Rightarrow> go_error + string list" where
  "parseAliasExpansion raw =
     (let trimmed = trim_space raw in
      if trimmed = [] then Inl (ErrText ''alias expansion must not be empty'')
      else alias_words [] trimmed)"

definition parseAliasLine :: "string \<Rightarrow> go_error + string \<times> string list" where
  "parseAliasLine raw =
     (case splitAssignment raw of
        None \<Rightarrow> Inl (ErrText ''alias requires NAME=VALUE'')
      | Some (name0, value) \<Rightarrow>
          (let name = trim_space name0 in
           if contains name ''/'' \<or> has_prefix name ''-'' \<or> contains name '' '' \<or> name = []
             then Inl (ErrText (''invalid alias name '' @ go_quote name))
           else case parseAliasExpansion (trimOptionalQuotes value) of
             Inl e \<Rightarrow> Inl e
           | Inr expansion \<Rightarrow> Inr (name, expansion)))"

definition line_error :: "nat \<Rightarrow> go_error \<Rightarrow> go_error" where
  "line_error n e = ErrText (''line '' @ show_nat n @ '': '' @ error_text e)"

fun rc_lines :: "nat \<Rightarrow> alias_map \<Rightarrow> env_map \<Rightarrow> string list \<Rightarrow> go_error + alias_map \<times> env_map" where
  "rc_lines n aliases env [] = Inr (aliases, env)"
| "rc_lines n aliases env (line # rest) =
     (let trimmed = trim_space line in
      if trimmed = [] \<or> has_prefix trimmed ''#'' then rc_lines (Suc n) aliases env rest
      else if has_prefix trimmed ''export '' then
        (case parseExportLine (trim_space (trim_prefix trimmed ''export '')) of
           Inl e \<Rightarrow> Inl (line_error (Suc n) e)
         | Inr (key, value) \<Rightarrow> rc_lines (Suc n) aliases (map_put key value env) rest)
      else if has_prefix trimmed ''alias '' then
        (case parseAliasLine (trim_space (trim_prefix trimmed ''alias '')) of
           Inl e \<Rightarrow> Inl (line_error (Suc n) e)
         | Inr (name, expansion) \<Rightarrow> rc_lines (Suc n) (map_put name expansion aliases) env rest)
      else Inl (line_error (Suc n) (ErrText (''unsupported statement '' @ go_quote trimmed))))"

definition parseRCContent :: "string \<Rightarrow> go_error + alias_map \<times> env_map" where
  "parseRCContent raw =
     (let raw = trim_suffix raw [CHR 0x0A] in
      rc_lines 0 [] [] (if raw = [] then [] else split_on (CHR 0x0A) raw))"

definition isNotFoundLikeError :: "go_error \<Rightarrow> bool" where
  "isNotFoundLikeError err =
     (let msg = to_lower (trim_space (error_text err)) in
      contains msg ''no such file'' \<or> contains msg ''not found'')"

subsection \<open>Alias expansion\<close>

definition maxAliasDepth :: nat where "maxAliasDepth = 8"

fun expand_loop :: "alias_map \<Rightarrow> nat \<Rightarrow> string list \<Rightarrow> string list \<Rightarrow> go_error + string list" where
  "expand_loop aliases 0 seen current =
     Inl (ErrText (''alias expansion depth exceeds limit ('' @ show_nat maxAliasDepth @ '')''))"
| "expand_loop aliases (Suc n) seen current =
     (let name = trim_space (hd current) in
      case map_of aliases name of
        None \<Rightarrow> Inr current
      | Some tokens \<Rightarrow>
          (if name \<in> set seen then Inl (ErrText (''alias loop detected at '' @ go_quote name))
           else if tokens = [] \<or> (\<exists>t\<in>set tokens. trim_space t = [])
             then Inl (ErrText (''alias '' @ go_quote name @ '' has empty expansion''))
           else expand_loop aliases n (name # seen) (tokens @ tl current)))"

definition expandCommandAlias :: "string list \<Rightarrow> alias_map \<Rightarrow> go_error + string list" where
  "expandCommandAlias args aliases =
     (if args = [] then Inl (ErrText ''missing command'')
      else if aliases = [] then Inr args
      else expand_loop aliases maxAliasDepth [] args)"

subsection \<open>Lemmas\<close>

definition good_alias :: "string \<times> string list \<Rightarrow> bool" where
  "good_alias x \<longleftrightarrow> fst x \<noteq> [] \<and> normalizeAliasName (fst x) = fst x \<and>
     snd x \<noteq> [] \<and> normalizeAliasExpansion (snd x) = snd x"

lemma normalizeAliasName_idem [simp]: "normalizeAliasName (normalizeAliasName raw) = normalizeAliasName raw"
  by (simp add: normalizeAliasName_def Let_def)

lemma normalizeAliasExpansion_idem [simp]:
  "normalizeAliasExpansion (normalizeAliasExpansion ts) = normalizeAliasExpansion ts"
  by (induction ts) (auto simp: normalizeAliasExpansion_def)

lemma map_put_all:
  "list_all P m \<Longrightarrow> P (k, v) \<Longrightarrow> list_all P (map_put k v m)"
  by (induction m) auto

lemma normalize_alias_entries_good:
  "list_all good_alias out \<Longrightarrow> list_all good_alias (normalize_alias_entries out m)"
proof (induction out m rule: normalize_alias_entries.induct)
  case (2 out key expansion rest)
  let ?n = "normalizeAliasName key" and ?t = "normalizeAliasExpansion expansion"
  show ?case
  proof (cases "?n = [] \<or> ?t = []")
    case True
    then show ?thesis using "2.IH"(1,2) [OF refl refl] "2.prems" by (auto simp: Let_def)
  next
    case False
    then have "good_alias (?n, ?t)" by (simp add: good_alias_def)
    then have "list_all good_alias (map_put ?n ?t out)" using "2.prems" by (intro map_put_all)
    then show ?thesis using "2.IH"(3) [OF refl refl] False by (simp add: Let_def)
  qed
qed simp

lemma normalize_alias_entries_distinct:
  "distinct (map fst out) \<Longrightarrow> distinct (map fst (normalize_alias_entries out m))"
  by (induction out m rule: normalize_alias_entries.induct) (auto simp: Let_def distinct_map_put)

lemma NormalizeCommandAliases_good:
  "list_all good_alias (NormalizeCommandAliases m)" "distinct (map fst (NormalizeCommandAliases m))"
  by (simp_all add: NormalizeCommandAliases_def normalize_alias_entries_good normalize_alias_entries_distinct)

lemma normalize_alias_entries_id:
  "list_all good_alias m \<Longrightarrow> normalize_alias_entries out m = map_puts out m"
  by (induction out m rule: normalize_alias_entries.induct) (auto simp: good_alias_def)

lemma NormalizeCommandAliases_map:
  "list_all good_alias m \<Longrightarrow> distinct (map fst m) \<Longrightarrow> map_of (NormalizeCommandAliases m) = map_of m"
  by (simp add: NormalizeCommandAliases_def normalize_alias_entries_id map_of_map_puts_distinct)

text \<open>The effect of normalising on the lookup, when the trimmed names of the entries are distinct.\<close>

fun norm_entry :: "string \<times> string list \<Rightarrow> (string \<times> string list) option" where
  "norm_entry (k, ts) =
     (if normalizeAliasName k = [] \<or> normalizeAliasExpansion ts = [] then None
      else Some (normalizeAliasName k, normalizeAliasExpansion ts))"

lemma normalize_alias_entries_puts:
  "normalize_alias_entries out m = map_puts out (List.map_filter norm_entry m)"
  by (induction out m rule: normalize_alias_entries.induct)
    (auto simp: Let_def List.map_filter_simps)

lemma map_filter_keys:
  assumes "distinct (map (normalizeAliasName \<circ> fst) m)"
  shows "distinct (map fst (List.map_filter norm_entry m)) \<and>
    set (map fst (List.map_filter norm_entry m)) \<subseteq> set (map (normalizeAliasName \<circ> fst) m)"
  using assms
proof (induction m)
  case (Cons x m)
  then show ?case by (cases x) (auto simp: List.map_filter_simps)
qed (simp add: List.map_filter_simps)

lemma NormalizeCommandAliases_order:
  assumes "mset m = mset m'" and "distinct (map (normalizeAliasName \<circ> fst) m)"
  shows "map_of (NormalizeCommandAliases m) = map_of (NormalizeCommandAliases m')"
proof -
  let ?f = "List.map_filter norm_entry"
  have d': "distinct (map (normalizeAliasName \<circ> fst) m')"
    using assms by (metis mset_eq_imp_distinct_iff mset_map)
  have "set (?f m) = set (?f m')"
    using assms(1) by (auto simp: List.map_filter_def dest: mset_eq_setD)
  then have "map_of (?f m) = map_of (?f m')"
    using map_filter_keys assms(2) d' map_of_inject_set by blast
  then show ?thesis
    using map_filter_keys [OF assms(2)] map_filter_keys [OF d']
    by (simp add: NormalizeCommandAliases_def normalize_alias_entries_puts map_of_map_puts_distinct)
qed

text \<open>What expanding is: \<open>expands_in aliases k args out\<close> says that \<open>k\<close> replacements of the first
  word by the expansion of the alias it names lead from \<open>args\<close> to \<open>out\<close>, whose first word is no
  alias. How many replacements there are depends on the first word only.\<close>

inductive expands_in :: "alias_map \<Rightarrow> nat \<Rightarrow> string list \<Rightarrow> string list \<Rightarrow> bool" for aliases where
  stop: "map_of aliases (trim_space (hd args)) = None \<Longrightarrow> expands_in aliases 0 args args"
| more: "map_of aliases (trim_space (hd args)) = Some tokens \<Longrightarrow> tokens \<noteq> [] \<Longrightarrow>
    expands_in aliases k (tokens @ tl args) out \<Longrightarrow> expands_in aliases (Suc k) args out"

inductive_cases expands_in_0E: "expands_in aliases 0 args out"
inductive_cases expands_in_SucE: "expands_in aliases (Suc k) args out"
inductive_cases expands_inE: "expands_in aliases k args out"

lemma expands_in_rank:
  "expands_in aliases k a out \<Longrightarrow> expands_in aliases j b out' \<Longrightarrow> trim_space (hd a) = trim_space (hd b) \<Longrightarrow> k = j"
proof (induction arbitrary: j b rule: expands_in.induct)
  case (stop args)
  then show ?case by (auto elim: expands_inE)
next
  case (more args tokens k out)
  from more.prems more.hyps(1) obtain i where i: "j = Suc i" "expands_in aliases i (tokens @ tl b) out'"
    by (auto elim: expands_inE)
  have "k = i" using more.IH [OF i(2)] more.hyps(2) by simp
  then show ?case using i by simp
qed

lemma expands_in_stops: "expands_in aliases k args out \<Longrightarrow> map_of aliases (trim_space (hd out)) = None"
  by (induction rule: expands_in.induct) auto

lemma expands_in_keeps_args:
  "expands_in aliases k args out \<Longrightarrow> args \<noteq> [] \<Longrightarrow> \<exists>front. front \<noteq> [] \<and> out = front @ tl args"
proof (induction rule: expands_in.induct)
  case (stop args)
  then show ?case by (intro exI [of _ "[hd args]"]) simp
next
  case (more args tokens k out)
  then obtain front where f: "front \<noteq> []" "out = front @ tl (tokens @ tl args)" by auto
  then show ?case using more.hyps(2) by (intro exI [of _ "front @ tl tokens"]) simp
qed

lemma expand_loop_sound:
  "expand_loop aliases n seen args = Inr out \<Longrightarrow> \<exists>k<n. expands_in aliases k args out"
proof (induction aliases n seen args rule: expand_loop.induct)
  case (2 aliases n seen current)
  show ?case
  proof (cases "map_of aliases (trim_space (hd current))")
    case None
    then show ?thesis using "2.prems" by (auto simp: Let_def intro: expands_in.stop)
  next
    case (Some tokens)
    then have ok: "trim_space (hd current) \<notin> set seen" "\<not> (tokens = [] \<or> (\<exists>t\<in>set tokens. trim_space t = []))"
      and e: "expand_loop aliases n (trim_space (hd current) # seen) (tokens @ tl current) = Inr out"
      using "2.prems" by (auto simp: Let_def split: if_splits)
    then obtain k where "k < n" "expands_in aliases k (tokens @ tl current) out"
      using "2.IH" [OF refl Some] by blast
    then show ?thesis using Some ok by (intro exI [of _ "Suc k"]) (auto intro: expands_in.more)
  qed
qed simp

definition usable_aliases :: "alias_map \<Rightarrow> bool" where
  "usable_aliases aliases \<longleftrightarrow> list_all (\<lambda>x. \<forall>t\<in>set (snd x). trim_space t \<noteq> []) aliases"

lemma expand_loop_complete:
  "expands_in aliases k args out \<Longrightarrow> k < n \<Longrightarrow> usable_aliases aliases \<Longrightarrow>
   \<forall>s\<in>set seen. \<exists>j b o'. k < j \<and> trim_space (hd b) = s \<and> expands_in aliases j b o' \<Longrightarrow>
   expand_loop aliases n seen args = Inr out"
proof (induction arbitrary: n seen rule: expands_in.induct)
  case (stop args)
  then show ?case by (cases n) simp_all
next
  case (more args tokens k out)
  obtain m where n: "n = Suc m" "k < m" using more.prems(1) by (cases n) auto
  have here: "expands_in aliases (Suc k) args out" using more.hyps by (rule expands_in.more)
  have fresh: "trim_space (hd args) \<notin> set seen"
    using more.prems(3) expands_in_rank [OF here] by fastforce
  have "\<forall>t\<in>set tokens. trim_space t \<noteq> []"
    using more.prems(2) map_of_SomeD [OF more.hyps(1)] by (auto simp: usable_aliases_def list_all_iff)
  moreover have "expand_loop aliases m (trim_space (hd args) # seen) (tokens @ tl args) = Inr out"
  proof (rule more.IH)
    show "\<forall>s\<in>set (trim_space (hd args) # seen).
        \<exists>j b o'. k < j \<and> trim_space (hd b) = s \<and> expands_in aliases j b o'"
    proof
      fix s assume "s \<in> set (trim_space (hd args) # seen)"
      then consider "s = trim_space (hd args)" | "s \<in> set seen" by auto
      then show "\<exists>j b o'. k < j \<and> trim_space (hd b) = s \<and> expands_in aliases j b o'"
        using more.prems(3) here by cases (blast, meson Suc_lessD)
    qed
  qed (use n more.prems in auto)
  ultimately show ?case using more.hyps fresh n by (auto simp: Let_def)
qed

lemma good_usable: "list_all good_alias aliases \<Longrightarrow> usable_aliases aliases"
proof -
  have "trim_space t \<noteq> []" if "normalizeAliasExpansion ts = ts" "t \<in> set ts" for t ts
  proof -
    have "t \<in> set (normalizeAliasExpansion ts)" using that by simp
    then obtain u where "t = trim_space u" "trim_space u \<noteq> []" by (auto simp: normalizeAliasExpansion_def)
    then show ?thesis by simp
  qed
  then show "list_all good_alias aliases \<Longrightarrow> usable_aliases aliases"
    by (auto simp: usable_aliases_def good_alias_def list_all_iff)
qed

lemma expandCommandAlias_iff:
  assumes "args \<noteq> []" and "usable_aliases aliases"
  shows "expandCommandAlias args aliases = Inr out \<longleftrightarrow> (\<exists>k<maxAliasDepth. expands_in aliases k args out)"
proof (cases "aliases = []")
  case True
  have "expands_in [] k args out \<longleftrightarrow> k = 0 \<and> out = args" for k
    by (auto elim: expands_inE intro: expands_in.stop)
  then show ?thesis using assms True by (auto simp: expandCommandAlias_def maxAliasDepth_def)
next
  case False
  then have "expandCommandAlias args aliases = expand_loop aliases maxAliasDepth [] args"
    using assms by (simp add: expandCommandAlias_def)
  then show ?thesis
    using expand_loop_sound [of aliases maxAliasDepth "[]" args out]
      expand_loop_complete [of aliases _ args out maxAliasDepth "[]"] assms by auto
qed

subsection \<open>Printing an rc file\<close>

lemma not_space_first:
  assumes "\<forall>r\<in>set space_runes. take 1 r \<noteq> [c]" shows "\<not> starts_with_space (c # s)"
proof
  assume "starts_with_space (c # s)"
  then obtain t r where "r \<in> set space_runes" "r \<noteq> []" "c # s = r @ t"
    using strip_one_Some unfolding starts_with_space_def by blast
  moreover have "take 1 r \<noteq> [c]" using assms \<open>r \<in> set space_runes\<close> by blast
  ultimately show False by (auto simp: Cons_eq_append_conv)
qed

lemma not_space_last:
  assumes "\<forall>r\<in>set space_runes. take 1 (rev r) \<noteq> [c]" shows "\<not> ends_with_space (s @ [c])"
proof
  assume "ends_with_space (s @ [c])"
  then obtain t r where r: "r \<in> set space_runes" "r \<noteq> []" "c # rev s = rev r @ t"
    using strip_one_Some unfolding ends_with_space_def by fastforce
  then obtain d us where u: "rev r = d # us" by (cases "rev r") auto
  then have "take 1 (rev r) = [c]" using r(3) by simp
  then show False using assms r(1) by blast
qed

lemma ident_not_space:
  "env_start c \<or> is_digit c \<Longrightarrow> \<forall>r\<in>set space_runes. take 1 r \<noteq> [c] \<and> take 1 (rev r) \<noteq> [c]"
  by (auto simp: space_runes_def env_start_def is_digit_def Let_def)

lemma env_start_not_space: "env_start c \<Longrightarrow> \<not> starts_with_space (c # s)"
  using ident_not_space by (intro not_space_first) blast

lemma dquote_not_space: "\<not> ends_with_space (s @ [CHR 0x22])"
  by (rule not_space_last) (simp add: space_runes_def)

definition valid_env_key :: "string \<Rightarrow> bool" where
  "valid_env_key k \<longleftrightarrow> k \<noteq> [] \<and> env_key_loop True k"

lemma env_key_loop_chars: "env_key_loop b k \<Longrightarrow> c \<in> set k \<Longrightarrow> env_start c \<or> is_digit c"
  by (induction b k rule: env_key_loop.induct) (auto split: if_splits)

lemma env_key_last_not_space: "env_key_loop b k \<Longrightarrow> k \<noteq> [] \<Longrightarrow> \<not> ends_with_space k"
proof -
  assume "env_key_loop b k" "k \<noteq> []"
  then have "env_start (last k) \<or> is_digit (last k)" by (simp add: env_key_loop_chars)
  then have "\<not> ends_with_space (butlast k @ [last k])"
    using ident_not_space by (intro not_space_last) blast
  then show ?thesis using \<open>k \<noteq> []\<close> by simp
qed

lemma valid_env_key_trim:
  assumes "valid_env_key k" shows "trim_space k = k" "normalizeEnvKey k = k" "CHR ''='' \<notin> set k"
proof -
  obtain c s where k: "k = c # s" "env_start c"
    using assms by (cases k) (auto simp: valid_env_key_def split: if_splits)
  then show t: "trim_space k = k"
    using assms env_key_last_not_space [of True k] env_start_not_space
    by (intro trim_space_fixI) (auto simp: valid_env_key_def)
  show "normalizeEnvKey k = k" using assms t by (simp add: normalizeEnvKey_def valid_env_key_def)
  show "CHR ''='' \<notin> set k"
    using assms env_key_loop_chars [of True k "CHR ''=''"]
    by (auto simp: valid_env_key_def env_start_def is_digit_def Let_def)
qed

definition export_line :: "string \<times> string \<Rightarrow> string" where
  "export_line x = ''export '' @ fst x @ ''='' @ [CHR 0x22] @ snd x @ [CHR 0x22]"

definition print_env :: "env_map \<Rightarrow> string" where
  "print_env env = concat (map (\<lambda>x. export_line x @ [CHR 0x0A]) env)"

lemma trim_quoted: "trim_space (CHR 0x22 # v @ [CHR 0x22]) = CHR 0x22 # v @ [CHR 0x22]"
  using dquote_not_space [of "CHR 0x22 # v"]
  by (intro trim_space_fixI not_space_first) (simp_all add: space_runes_def)

lemma parseExportLine_quoted:
  assumes "valid_env_key k"
  shows "parseExportLine (k @ CHR ''='' # CHR 0x22 # v @ [CHR 0x22]) = Inr (k, v)"
    and "trim_space (k @ CHR ''='' # CHR 0x22 # v @ [CHR 0x22]) = k @ CHR ''='' # CHR 0x22 # v @ [CHR 0x22]"
proof -
  note k = valid_env_key_trim [OF assms]
  obtain c s where c: "k = c # s" "env_start c"
    using assms by (cases k) (auto simp: valid_env_key_def split: if_splits)
  show t: "trim_space (k @ CHR ''='' # CHR 0x22 # v @ [CHR 0x22]) = k @ CHR ''='' # CHR 0x22 # v @ [CHR 0x22]"
    using dquote_not_space [of "k @ CHR ''='' # CHR 0x22 # v"] env_start_not_space c
    by (intro trim_space_fixI) simp_all
  show "parseExportLine (k @ CHR ''='' # CHR 0x22 # v @ [CHR 0x22]) = Inr (k, v)"
    using k assms
    by (simp add: parseExportLine_def splitAssignment_def t trim_quoted trimOptionalQuotes_def Let_def valid_env_key_def)
qed

lemma export_line_trim:
  assumes "valid_env_key (fst x)"
  shows "trim_space (export_line x) = export_line x" "has_prefix (export_line x) ''export ''"
    "trim_prefix (export_line x) ''export '' = fst x @ CHR ''='' # CHR 0x22 # snd x @ [CHR 0x22]"
    "\<not> has_prefix (export_line x) ''#''" "export_line x \<noteq> []"
proof -
  have "\<not> starts_with_space (CHR ''e'' # s)" for s
    by (rule env_start_not_space) (simp add: env_start_def)
  then show "trim_space (export_line x) = export_line x"
    using dquote_not_space [of "''export '' @ fst x @ ''='' @ [CHR 0x22] @ snd x"]
    by (intro trim_space_fixI) (simp_all add: export_line_def)
qed (simp_all add: export_line_def trim_prefix_def)

lemma rc_lines_print:
  "list_all (valid_env_key \<circ> fst) xs \<Longrightarrow>
   rc_lines n aliases env (map export_line xs) = Inr (aliases, map_puts env xs)"
proof (induction xs arbitrary: n env)
  case (Cons x xs)
  obtain k v where x: "x = (k, v)" by (cases x)
  then have k: "valid_env_key k" using Cons.prems by simp
  show ?case
    using Cons.IH [of "Suc n" "map_put k v env"] Cons.prems k
      export_line_trim [of "(k, v)"] parseExportLine_quoted [OF k]
    by (simp add: Let_def x)
qed simp

lemma map_puts_distinct: "distinct (map fst xs) \<Longrightarrow> fst ` set m \<inter> fst ` set xs = {} \<Longrightarrow> map_puts m xs = m @ xs"
proof (induction xs arbitrary: m)
  case (Cons x xs)
  have "map_put (fst x) (snd x) m = m @ [x]" if "fst x \<notin> fst ` set m" for m
    using that by (induction m) auto
  then show ?case using Cons by auto
qed simp

lemma print_env_lines:
  assumes "xs \<noteq> []" and "list_all (valid_env_key \<circ> fst) xs" and "list_all (\<lambda>x. CHR 0x0A \<notin> set (snd x)) xs"
  shows "split_on (CHR 0x0A) (trim_suffix (print_env xs) [CHR 0x0A]) = map export_line xs"
proof -
  have "print_env xs = join [CHR 0x0A] (map export_line xs) @ [CHR 0x0A]"
    using assms(1) unfolding print_env_def by (induction xs rule: induct_list012) auto
  moreover have "CHR 0x0A \<notin> set (fst x)" if "x \<in> set xs" for x
    using that assms(2) env_key_loop_chars [of True "fst x" "CHR 0x0A"]
    by (auto simp: list_all_iff valid_env_key_def env_start_def is_digit_def Let_def)
  then have "\<forall>w\<in>set (map export_line xs). CHR 0x0A \<notin> set w"
    using assms(3) by (auto simp: export_line_def list_all_iff)
  ultimately show ?thesis using assms(1) by (simp add: split_on_join)
qed

subsection \<open>Properties\<close>

text \<open>Alias expansion always returns; with aliases as the engine holds them (no blank word in an
  expansion) it succeeds exactly if fewer than \<open>maxAliasDepth\<close> replacements of the first word reach
  a word that names no alias, and returns what they reach. So a loop is always reported, never
  followed, and the limit on the depth rejects nothing shorter.\<close>

theorem expandCommandAlias_exact:
  assumes "args \<noteq> []" and "usable_aliases aliases"
  shows "expandCommandAlias args aliases = Inr out \<longleftrightarrow> (\<exists>k<8. expands_in aliases k args out)"
  using expandCommandAlias_iff [OF assms] by (simp add: maxAliasDepth_def)

theorem expandCommandAlias_exact_witness:
  "expandCommandAlias [''ll'', ''/tmp''] DefaultCommandAliases = Inr [''ls'', ''-l'', ''/tmp''] \<longleftrightarrow>
   (\<exists>k<8. expands_in DefaultCommandAliases k [''ll'', ''/tmp''] [''ls'', ''-l'', ''/tmp''])"
proof (rule expandCommandAlias_exact)
  have "trim_space w = w" if "w \<in> {''ls'', ''-l'', ''frontmatter''}" for w
    using that by (intro trim_space_fixI) (auto simp: starts_with_space_def ends_with_space_def space_runes_def)
  then show "usable_aliases DefaultCommandAliases"
    by (simp add: usable_aliases_def DefaultCommandAliases_def)
qed simp

text \<open>What alias expansion returns starts with a word that is no alias, and ends with the arguments
  the command was given, unchanged and in their order.\<close>

theorem expandCommandAlias_result:
  assumes "expandCommandAlias args aliases = Inr out"
  shows "map_of aliases (trim_space (hd out)) = None \<and> out \<noteq> [] \<and> (\<exists>front. out = front @ tl args)"
proof (cases "aliases = []")
  case True
  then show ?thesis using assms
    by (auto simp: expandCommandAlias_def split: if_splits intro: exI [of _ "[hd args]"])
next
  case False
  then have args: "args \<noteq> []" and "expand_loop aliases maxAliasDepth [] args = Inr out"
    using assms by (auto simp: expandCommandAlias_def split: if_splits)
  then obtain k where "expands_in aliases k args out" using expand_loop_sound by blast
  then show ?thesis using expands_in_stops expands_in_keeps_args [OF _ args] by blast
qed

theorem expandCommandAlias_result_witness:
  "\<exists>front. [''wc'', ''-l''] = front @ tl [''wc'', ''-l'']"
  using expandCommandAlias_result [of "[''wc'', ''-l'']" "[]" "[''wc'', ''-l'']"]
  by (simp add: expandCommandAlias_def)

text \<open>Normalising aliases twice changes nothing, every entry that is kept has a name with no blank,
  slash or leading dash and a non-empty expansion of trimmed words, and merging overlays lets the
  later one win.\<close>

theorem aliases_normal:
  "list_all good_alias (NormalizeCommandAliases m) \<and>
   map_of (NormalizeCommandAliases (NormalizeCommandAliases m)) = map_of (NormalizeCommandAliases m) \<and>
   map_of (MergeCommandAliases [m, m']) = map_of (NormalizeCommandAliases m) ++ map_of (NormalizeCommandAliases m')"
  by (simp add: NormalizeCommandAliases_good NormalizeCommandAliases_map MergeCommandAliases_def
      map_of_map_puts_distinct)

text \<open>The result of normalising aliases does not depend on the order in which the map is ranged
  over, provided no two names are equal after trimming.\<close>

theorem aliases_order_independent:
  assumes "mset m = mset m'" and "distinct (map (\<lambda>x. normalizeAliasName (fst x)) m)"
  shows "map_of (NormalizeCommandAliases m) = map_of (NormalizeCommandAliases m')"
  using NormalizeCommandAliases_order [OF assms(1)] assms(2) by (simp add: comp_def)

theorem aliases_order_independent_witness:
  "map_of (NormalizeCommandAliases [(''a'', [''x'']), (''b'', [''y''])]) =
   map_of (NormalizeCommandAliases [(''b'', [''y'']), (''a'', [''x''])])"
proof (rule aliases_order_independent)
  have "trim_space ''a'' = ''a''" "trim_space ''b'' = ''b''"
    by (rule trim_space_fixI; simp add: starts_with_space_def ends_with_space_def space_runes_def)+
  then show "distinct (map (\<lambda>x. normalizeAliasName (fst x)) [(''a'', [''x'']), (''b'', [''y''])])"
    by (simp add: normalizeAliasName_def contains_def)
qed simp

text \<open>Without that provision the order decides: two keys that trim to one name.\<close>

lemma aliases_order_matters:
  "map_of (NormalizeCommandAliases [(''a'', [''x'']), (''a '', [''y''])]) \<noteq>
   map_of (NormalizeCommandAliases [(''a '', [''y'']), (''a'', [''x''])])"
proof -
  have t: "trim_space ''a'' = ''a''" "trim_space ''x'' = ''x''" "trim_space ''y'' = ''y''"
    by (rule trim_space_fixI; simp add: starts_with_space_def ends_with_space_def space_runes_def)+
  have "trim_space ''a '' = ''a''"
    by (simp add: trim_space_def trim_space_left_def trim_space_right_def trim_runes.simps space_runes_def)
  then show ?thesis
    using t by (simp add: NormalizeCommandAliases_def normalizeAliasName_def contains_def
        normalizeAliasExpansion_def fun_upd_def fun_eq_iff exI [of _ "''a''"])
qed

text \<open>An environment written as \<open>export KEY="value"\<close> lines is read back exactly: parsing the rc file
  gives the same variables with the same values, and no alias.\<close>

theorem parseRCContent_print_env:
  assumes "list_all (\<lambda>x. valid_env_key (fst x) \<and> CHR 0x0A \<notin> set (snd x)) env"
    and "distinct (map fst env)"
  shows "parseRCContent (print_env env) = Inr ([], env)"
proof (cases "env = []")
  case True
  then show ?thesis by (simp add: parseRCContent_def print_env_def)
next
  case False
  have a: "list_all (valid_env_key \<circ> fst) env" "list_all (\<lambda>x. CHR 0x0A \<notin> set (snd x)) env"
    using assms(1) by (auto simp: list_all_iff)
  have "trim_suffix (print_env env) [CHR 0x0A] \<noteq> []"
  proof
    assume "trim_suffix (print_env env) [CHR 0x0A] = []"
    then have "map export_line env = [[]]" using print_env_lines [OF False a] by simp
    then show False using False by (cases env) (auto simp: export_line_def)
  qed
  then show ?thesis
    using rc_lines_print [OF a(1), of 0 "[]" "[]"] assms(2)
    by (simp add: parseRCContent_def print_env_lines [OF False a] map_puts_distinct)
qed

theorem parseRCContent_print_env_witness:
  "parseRCContent (print_env [(''PATH'', ''/bin''), (''_x9'', [CHR 0x22, CHR 0x27, CHR ''='' ])]) =
   Inr ([], [(''PATH'', ''/bin''), (''_x9'', [CHR 0x22, CHR 0x27, CHR ''=''])])"
  by (rule parseRCContent_print_env) (simp_all add: valid_env_key_def env_start_def is_digit_def)

end
