(* ===== verification/Engine_State.thy ===== *)
theory Engine_State
  imports Mount_Contract Safety_Policy Bootstrap
begin

section \<open>The state the engine runs over, and its callbacks (\<open>contract.Ops\<close>)\<close>

text \<open>
  The engine is a function from callbacks to output; the callbacks act on a state it does not own.
  \<open>'e sys\<close> is that state as one value: the context (when it will be found done), the working
  directory, the trace collector of the context (none when the context carries none), the audit
  events emitted so far and the rest of the world, \<^typ>\<open>'e\<close>, which only callbacks, mounts and
  builtins touch. A callback is a function on that state that returns an error or a value; a nil
  callback is \<^term>\<open>None\<close>.
\<close>

subsection \<open>Contexts\<close>

text \<open>\<open>ctx.Err()\<close> is nil until the context is done and the same error from then on; when that is, is
  up to the environment: \<open>CtxDoneAfter n e\<close> is found done after \<open>n\<close> more polls.\<close>

datatype ctx_state = CtxLive | CtxDoneAfter nat go_error

fun ctx_poll :: "ctx_state \<Rightarrow> go_error option \<times> ctx_state" where
  "ctx_poll CtxLive = (None, CtxLive)"
| "ctx_poll (CtxDoneAfter 0 e) = (Some e, CtxDoneAfter 0 e)"
| "ctx_poll (CtxDoneAfter (Suc n) e) = (None, CtxDoneAfter n e)"

lemma ctx_poll_sticky: "ctx_poll c = (Some e, c') \<Longrightarrow> ctx_poll c' = (Some e, c')"
  by (cases c rule: ctx_poll.cases) auto

subsection \<open>Execution traces and audit events\<close>

datatype ExternalOutcomeKind = OutcomeUnset | OutcomeSuccess | OutcomeNonZeroExit | OutcomeUnsupported
  | OutcomeCommandNotFound | OutcomeCanceled | OutcomeTimedOut | OutcomeProviderFailure

record ExecutionTraceStep =
  ts_Command :: string
  ts_Argv :: "string list"
  ts_Namespace :: string
  ts_ResolvedPath :: string
  ts_Executed :: bool
  ts_OutcomeKind :: ExternalOutcomeKind
  ts_ExitCode :: "int option"
  ts_RawExitCode :: "int option"
  ts_StdoutBytes :: "int option"
  ts_StderrBytes :: "int option"
  ts_ProviderError :: string
  ts_TerminationKind :: string

record ExecutionTrace =
  tr_CommandLine :: string
  tr_Command :: string
  tr_Argv :: "string list"
  tr_Pipeline :: "ExecutionTraceStep list"
  tr_Executed :: "ExecutionTraceStep list"
  tr_ExternalOutcomes :: "ExecutionTraceStep list"
  tr_EffectiveProfile :: CompatibilityProfile
  tr_EffectivePolicy :: ExecutionPolicy
  tr_TimedOut :: bool
  tr_Canceled :: bool
  tr_RequestedPaths :: "string list"
  tr_ReadPaths :: "string list"
  tr_WrittenPaths :: "string list"
  tr_AppendedPaths :: "string list"
  tr_EditedPaths :: "string list"
  tr_CreatedDirs :: "string list"
  tr_RemovedPaths :: "string list"
  tr_DeniedPaths :: "string list"
  tr_BytesRead :: int
  tr_BytesWritten :: int
  tr_ExternalStdoutBytes :: int
  tr_ExternalStderrBytes :: int
  tr_OutputTruncated :: bool

text \<open>Audit events without their time.\<close>

record AuditEvent =
  ae_Phase :: string
  ae_Command :: string
  ae_Args :: "string list"
  ae_ExitCode :: int
  ae_Message :: string

definition AuditPhaseCommandStart :: string where "AuditPhaseCommandStart = ''command_start''"
definition AuditPhaseCommandEnd :: string where "AuditPhaseCommandEnd = ''command_end''"
definition AuditPhaseCommandError :: string where "AuditPhaseCommandError = ''command_error''"

subsection \<open>The state\<close>

record 'e sys =
  sy_ctx :: ctx_state
  sy_cwd :: string
  sy_trace :: "ExecutionTrace option"
  sy_audit :: "AuditEvent list"
  sy_env :: 'e

type_synonym ('a, 'b, 'e) op = "'a \<Rightarrow> 'e sys \<Rightarrow> (go_error + 'b) \<times> 'e sys"

definition executionContextErr :: "'e sys \<Rightarrow> go_error option \<times> 'e sys" where
  "executionContextErr s = (case ctx_poll (sy_ctx s) of (r, c) \<Rightarrow> (r, s\<lparr>sy_ctx := c\<rparr>))"

lemma executionContextErr_live: "sy_ctx s = CtxLive \<Longrightarrow> executionContextErr s = (None, s)"
  by (simp add: executionContextErr_def)

lemma executionContextErr_done:
  "sy_ctx s = CtxDoneAfter 0 e \<Longrightarrow> executionContextErr s = (Some e, s)"
  by (simp add: executionContextErr_def)

subsection \<open>Invariants through the plumbing\<close>

text \<open>\<open>kept I x\<close>: the state a computation leaves satisfies \<open>I\<close>. The rules in \<open>keep\<close> follow the
  case distinctions by which results and states are passed on.\<close>

named_theorems keep "rules that carry an invariant through a computation"

definition kept :: "('s \<Rightarrow> bool) \<Rightarrow> 'r \<times> 's \<Rightarrow> bool" where
  "kept I x \<longleftrightarrow> I (snd x)"

lemma kept_pair [keep]: "I s \<Longrightarrow> kept I (r, s)"
  by (simp add: kept_def)

lemma kept_bind [keep]: "kept I x \<Longrightarrow> (\<And>a s. x = (a, s) \<Longrightarrow> I s \<Longrightarrow> kept I (f a s)) \<Longrightarrow> kept I (case x of (a, s) \<Rightarrow> f a s)"
  by (cases x) (simp add: kept_def)

lemma kept_fst [keep]: "(\<And>a b. kept I (f a b)) \<Longrightarrow> kept I (case p of (a, b) \<Rightarrow> f a b)"
  by (cases p) simp

lemma kept_sum [keep]:
  "(\<And>e. x = Inl e \<Longrightarrow> kept I (f e)) \<Longrightarrow> (\<And>y. x = Inr y \<Longrightarrow> kept I (g y)) \<Longrightarrow>
   kept I (case x of Inl e \<Rightarrow> f e | Inr y \<Rightarrow> g y)"
  by (cases x) simp_all

lemma kept_option [keep]:
  "(x = None \<Longrightarrow> kept I a) \<Longrightarrow> (\<And>y. x = Some y \<Longrightarrow> kept I (g y)) \<Longrightarrow>
   kept I (case x of None \<Rightarrow> a | Some y \<Rightarrow> g y)"
  by (cases x) simp_all

lemma kept_if [keep]: "(c \<Longrightarrow> kept I a) \<Longrightarrow> (\<not> c \<Longrightarrow> kept I b) \<Longrightarrow> kept I (if c then a else b)"
  by simp

lemma kept_let [keep]: "kept I (f x) \<Longrightarrow> kept I (Let x f)"
  by simp

lemma keptD: "kept I (r, s) \<Longrightarrow> I s"
  by (simp add: kept_def)

lemma kept_snd: "kept I x \<longleftrightarrow> I (snd x)"
  by (simp add: kept_def)

subsection \<open>External commands and mounts\<close>

record ExternalCommandRequest =
  ec_Command :: string
  ec_RawPath :: string
  ec_Args :: "string list"
  ec_Stdin :: string
  ec_HasStdin :: bool

record ExternalCommandResult =
  er_Stdout :: string
  er_Stderr :: string
  er_ExitCode :: int
  er_RawExitCode :: "int option"
  er_CanonicalTarget :: string
  er_ProviderError :: string
  er_TerminationKind :: string

text \<open>A \<open>VirtualMount\<close> with the capability interfaces it may also implement.\<close>

record 'e VirtualMount =
  vm_MountPoint :: string
  vm_Profile :: MountProfile
  vm_Exists :: "(unit, bool, 'e) op"
  vm_StatPath :: "(string, MountEntry, 'e) op"
  vm_ReadContent :: "(string, string, 'e) op"
  vm_ListEntries :: "(ListEntriesRequest, MountEntry list, 'e) op option"
  vm_EnumeratePaths :: "(EnumeratePathsRequest, MountEntry list, 'e) op option"
  vm_ReadMany :: "(ReadManyRequest, MountContentEntry list, 'e) op option"
  vm_SearchContent :: "(SearchRequest, SearchRecord list, 'e) op option"
  vm_ApplyMutations :: "(MutationSpec list, MutationRecord list, 'e) op option"
  vm_Refresh :: "(RefreshRequest, RefreshResult, 'e) op option"

subsection \<open>Callbacks\<close>

text \<open>\<open>contract.Ops\<close>. \<open>FormatLSLongRow\<close> is left out (it renders rows of \<open>ls -l\<close>); the audit sink is
  the flag whether there is one, its events are in the state. \<open>RunExternalCommand\<close> returns a result
  and an error, both of which the engine reads.\<close>

record 'e Ops =
  o_RootDir :: string
  o_WorkingDir :: string
  o_GetWorkingDir :: "('e sys \<Rightarrow> string) option"
  o_ChangeWorkingDir :: "(string, string, 'e) op option"
  o_ResolvePath :: "(string, string, 'e) op option"
  o_RequireAbsolutePath :: "(string, string, 'e) op option"
  o_ListChildren :: "(string, string list, 'e) op option"
  o_IsDirPath :: "(string, bool, 'e) op option"
  o_DescribePath :: "(string, PathMeta, 'e) op option"
  o_ListEntries :: "(ListEntriesRequest, MountEntry list, 'e) op option"
  o_EnumeratePaths :: "(EnumeratePathsRequest, MountEntry list, 'e) op option"
  o_ReadRawContent :: "(string, string, 'e) op option"
  o_ReadMany :: "(ReadManyRequest, MountContentEntry list, 'e) op option"
  o_ResolveSearchPaths :: "(string \<times> bool, string list, 'e) op option"
  o_CollectFilesUnder :: "(string, string list, 'e) op option"
  o_SearchContent :: "(SearchRequest, SearchRecord list, 'e) op option"
  o_WriteFile :: "(string \<times> string, unit, 'e) op option"
  o_AppendFile :: "(string \<times> string, unit, 'e) op option"
  o_EditFile :: "(string \<times> string \<times> string \<times> bool, unit, 'e) op option"
  o_MakeDir :: "(string, unit, 'e) op option"
  o_RemoveFile :: "(string, unit, 'e) op option"
  o_RemoveDir :: "(string, unit, 'e) op option"
  o_ApplyMutations :: "(MutationSpec list, MutationRecord list, 'e) op option"
  o_CheckPathOp :: "(PathOp \<times> string, unit, 'e) op option"
  o_ListExternalCommands :: "(unit, (string \<times> string) list, 'e) op option"
  o_RunExternalCommand ::
    "(ExternalCommandRequest \<Rightarrow> 'e sys \<Rightarrow> (ExternalCommandResult \<times> go_error option) \<times> 'e sys) option"
  o_ReadExternalManual :: "(string, string, 'e) op option"
  o_CommandAliases :: alias_map
  o_EnvVars :: env_map
  o_RCFiles :: "string list"
  o_PathEnv :: "string list"
  o_VirtualMounts :: "'e VirtualMount list"
  o_Profile :: CompatibilityProfile
  o_Policy :: ExecutionPolicy
  o_AuditSink :: bool

text \<open>Calling a callback the code calls without a test for nil: a nil one panics in Go. The engine
  only does so after \<open>normalizeOps\<close> has made the callback non-nil; the model returns an error that
  no other branch produces.\<close>

definition nil_call :: go_error where "nil_call = ErrText ''panic: nil callback''"

definition call :: "('a, 'b, 'e) op option \<Rightarrow> ('a, 'b, 'e) op" where
  "call f x s = (case f of None \<Rightarrow> (Inl nil_call, s) | Some g \<Rightarrow> g x s)"

lemma call_simps [simp]: "call (Some g) x s = g x s" "call None x s = (Inl nil_call, s)"
  by (simp_all add: call_def)

text \<open>A callback keeps an invariant of the state.\<close>

definition keeps_inv :: "('e sys \<Rightarrow> bool) \<Rightarrow> ('a, 'b, 'e) op option \<Rightarrow> bool" where
  "keeps_inv I f \<longleftrightarrow> (\<forall>x s. I s \<longrightarrow> kept I (call f x s))"

lemma keeps_invD: "keeps_inv I f \<Longrightarrow> I s \<Longrightarrow> kept I (call f x s)"
  by (simp add: keeps_inv_def)

lemma keeps_invD_some: "keeps_inv I f \<Longrightarrow> f = Some g \<Longrightarrow> I s \<Longrightarrow> kept I (g x s)"
  by (auto simp: keeps_inv_def)

definition emitAudit :: "'e Ops \<Rightarrow> AuditEvent \<Rightarrow> 'e sys \<Rightarrow> 'e sys" where
  "emitAudit ops ev s = (if o_AuditSink ops then s\<lparr>sy_audit := sy_audit s @ [ev]\<rparr> else s)"

text \<open>The zero value \<open>contract.Ops{}\<close>.\<close>

definition zero_ops :: "'e Ops" where
  "zero_ops =
     \<lparr>o_RootDir = [], o_WorkingDir = [], o_GetWorkingDir = None, o_ChangeWorkingDir = None, o_ResolvePath = None,
      o_RequireAbsolutePath = None, o_ListChildren = None, o_IsDirPath = None, o_DescribePath = None,
      o_ListEntries = None, o_EnumeratePaths = None, o_ReadRawContent = None, o_ReadMany = None,
      o_ResolveSearchPaths = None, o_CollectFilesUnder = None, o_SearchContent = None, o_WriteFile = None,
      o_AppendFile = None, o_EditFile = None, o_MakeDir = None, o_RemoveFile = None, o_RemoveDir = None,
      o_ApplyMutations = None, o_CheckPathOp = None, o_ListExternalCommands = None, o_RunExternalCommand = None,
      o_ReadExternalManual = None, o_CommandAliases = [], o_EnvVars = [], o_RCFiles = [], o_PathEnv = [],
      o_VirtualMounts = [], o_Profile = [],
      o_Policy = \<lparr>ep_WriteMode = WriteModeUnset, ep_MaxWriteBytes = 0, ep_MaxPipelineDepth = 0,
                  ep_MaxOutputBytes = 0, ep_Timeout = 0\<rparr>,
      o_AuditSink = False\<rparr>"

definition live_sys :: "'e \<Rightarrow> 'e sys" where
  "live_sys env = \<lparr>sy_ctx = CtxLive, sy_cwd = ''/'', sy_trace = None, sy_audit = [], sy_env = env\<rparr>"

text \<open>A store of files over which examples run: callbacks on an association of paths to contents.\<close>

type_synonym files = "(string, string) gomap"

definition read_file :: "(string, string, files) op" where
  "read_file p s = (case map_of (sy_env s) p of
     None \<Rightarrow> (Inl (ErrText (''no such file: '' @ p)), s) | Some c \<Rightarrow> (Inr c, s))"

definition write_file :: "(string \<times> string, unit, files) op" where
  "write_file x s = (Inr (), s\<lparr>sy_env := map_put (fst x) (snd x) (sy_env s)\<rparr>)"

definition append_file :: "(string \<times> string, unit, files) op" where
  "append_file x s = (Inr (), s\<lparr>sy_env := map_put (fst x)
     ((case map_of (sy_env s) (fst x) of None \<Rightarrow> [] | Some c \<Rightarrow> c) @ snd x) (sy_env s)\<rparr>)"

definition absolute_path :: "(string, string, 'e) op" where
  "absolute_path p s =
     (if has_prefix p ''/'' then (Inr p, s) else (Inl (ErrText (''path must be absolute: '' @ p)), s))"

definition files_ops :: "files Ops" where
  "files_ops = zero_ops\<lparr>o_RequireAbsolutePath := Some absolute_path, o_ReadRawContent := Some read_file,
     o_WriteFile := Some write_file, o_AppendFile := Some append_file,
     o_Policy := DefaultPolicy\<lparr>ep_WriteMode := WriteModeFull\<rparr>\<rparr>"

lemma file_ops_env [simp]:
  "fst (write_file x s) = Inr ()" "sy_env (snd (write_file x s)) = map_put (fst x) (snd x) (sy_env s)"
  "sy_trace (snd (write_file x s)) = sy_trace s" "sy_trace (snd (append_file x s)) = sy_trace s"
  "snd (read_file p s) = s"
  by (simp_all add: write_file_def append_file_def read_file_def split: option.splits)

end
