(* ===== verification/Command_Catalog.thy ===== *)
theory Command_Catalog
  imports Engine_State
begin

section \<open>Command names and the builtin registry (\<open>command_reference.go\<close>, \<open>builtin_catalog.go\<close>)\<close>

text \<open>
  How the first word of a command is read (a name, or a path under \<open>/sys/bin\<close> or \<open>/bin\<close>), and the
  table of builtins it is looked up in. The table's contract is the locale \<open>command_table\<close>: what a
  lookup returns after a registration, on which the lemma about a whole list of registrations rests;
  it is interpreted by the registry of the engine.
\<close>

subsection \<open>Command references\<close>

definition VirtualExternalBinDir :: string where "VirtualExternalBinDir = ''/bin''"
definition VirtualSystemBinDir :: string where "VirtualSystemBinDir = ''/sys/bin''"
definition CommandNamespaceBuiltin :: string where "CommandNamespaceBuiltin = ''builtin''"
definition CommandNamespaceExternal :: string where "CommandNamespaceExternal = ''external''"

record CommandReference =
  cr_Raw :: string
  cr_Name :: string
  cr_ResolvedPath :: string
  cr_PathLike :: bool
  cr_Namespace :: string

definition CommandReferencePathError :: "string \<Rightarrow> string \<Rightarrow> go_error" where
  "CommandReferencePathError raw0 resolved0 =
     (let raw = trim_space raw0; resolved = trim_space resolved0 in
      if resolved = []
        then ErrText (raw @ '' refers to a path-like command reference that cannot be resolved'')
      else ErrText (raw @ '' refers to '' @ resolved @ '', which is not a command path; use a command name or a path under '' @
             VirtualSystemBinDir @ '' or '' @ VirtualExternalBinDir))"

definition IsCommandPathUnder :: "string \<Rightarrow> string \<Rightarrow> bool" where
  "IsCommandPathUnder pathValue0 dir0 =
     (let pathValue = normalizeAbsolutePath pathValue0; dir = normalizeAbsolutePath dir0 in
      if \<not> has_prefix pathValue (dir @ ''/'') then False
      else let name = trim_prefix pathValue (dir @ ''/'') in trim_space name \<noteq> [] \<and> \<not> contains name ''/'')"

definition looksLikeCommandPath :: "string \<Rightarrow> bool" where
  "looksLikeCommandPath raw = contains (trim_space raw) ''/''"

definition NormalizeCommandReference ::
  "string \<Rightarrow> (string, string, 'e) op option \<Rightarrow> 'e sys \<Rightarrow> (go_error + CommandReference) \<times> 'e sys" where
  "NormalizeCommandReference raw resolvePath s =
     (let trimmed = trim_space raw in
      if trimmed = [] then (Inl (ErrText ''command reference is required''), s)
      else if \<not> looksLikeCommandPath trimmed then
        (Inr \<lparr>cr_Raw = trimmed, cr_Name = trimmed, cr_ResolvedPath = [], cr_PathLike = False, cr_Namespace = []\<rparr>, s)
      else case resolvePath of
        None \<Rightarrow> (Inl (ErrText (trimmed @ '': path-like command references are not supported'')), s)
      | Some resolve \<Rightarrow>
          (case resolve trimmed s of
             (Inl e, s') \<Rightarrow> (Inl e, s')
           | (Inr resolved, s') \<Rightarrow>
               (let ref = \<lparr>cr_Raw = trimmed, cr_Name = path_base resolved, cr_ResolvedPath = resolved,
                           cr_PathLike = True, cr_Namespace = []\<rparr> in
                if IsCommandPathUnder resolved VirtualSystemBinDir then
                  (Inr (ref\<lparr>cr_Name := trim_prefix resolved (VirtualSystemBinDir @ ''/''),
                            cr_Namespace := CommandNamespaceBuiltin\<rparr>), s')
                else if IsCommandPathUnder resolved VirtualExternalBinDir then
                  (Inr (ref\<lparr>cr_Name := trim_prefix resolved (VirtualExternalBinDir @ ''/''),
                            cr_Namespace := CommandNamespaceExternal\<rparr>), s')
                else (Inl (CommandReferencePathError trimmed resolved), s'))))"

definition normalizeExternalCommandName :: "string \<Rightarrow> string" where
  "normalizeExternalCommandName raw =
     (let trimmed = trim_space raw in
      if trimmed = [] then []
      else let t1 = trim_prefix trimmed (VirtualExternalBinDir @ ''/'');
               t2 = trim_prefix t1 ''/''
           in if contains t2 ''/'' then [] else t2)"

subsection \<open>Builtins\<close>

record BuiltinCommandDoc =
  bd_Name :: string
  bd_Summary :: string
  bd_Manual :: string
  bd_Tips :: "string list"
  bd_Examples :: "string list"
  bd_DetailedManual :: string
  bd_Capabilities :: "string list"
  bd_StdinMode :: string
  bd_Operands :: string
  bd_DefaultOutput :: string
  bd_StructuredOutput :: string
  bd_StructuredFlags :: "string list"
  bd_MutationKind :: string
  bd_SuccessOutput :: string
  bd_PipeBehavior :: string
  bd_ExitCodes :: "string list"

text \<open>What a builtin runs with. \<open>Ctx\<close> is the context of the state.\<close>

record 'e CommandRuntime =
  rt_Ops :: "'e Ops"
  rt_Stdin :: string
  rt_HasStdin :: bool
  rt_Dispatch :: "string list \<Rightarrow> string \<Rightarrow> bool \<Rightarrow> 'e sys \<Rightarrow> (string \<times> int) \<times> 'e sys"
  rt_LookupManual :: "string \<Rightarrow> string option"
  rt_LookupDetailedManual :: "string \<Rightarrow> string option"
  rt_ListBuiltinNames :: "string list"
  rt_LookupBuiltinDoc :: "string \<Rightarrow> BuiltinCommandDoc option"
  rt_BuiltinCommandDocs :: "BuiltinCommandDoc list"

record 'e CommandSpec =
  cs_Name :: string
  cs_Summary :: string
  cs_Manual :: string
  cs_Tips :: "string list"
  cs_Examples :: "string list"
  cs_DetailedManual :: string
  cs_Capabilities :: "string list"
  cs_StdinMode :: string
  cs_Operands :: string
  cs_DefaultOutput :: string
  cs_StructuredOutput :: string
  cs_StructuredFlags :: "string list"
  cs_MutationKind :: string
  cs_SuccessOutput :: string
  cs_PipeBehavior :: string
  cs_ExitCodes :: "string list"
  cs_Run :: "('e CommandRuntime \<Rightarrow> string list \<Rightarrow> 'e sys \<Rightarrow> (string \<times> int) \<times> 'e sys) option"

type_synonym 'e Registry = "(string, 'e CommandSpec) gomap"

definition Register :: "'e CommandSpec \<Rightarrow> 'e Registry \<Rightarrow> go_error + 'e Registry" where
  "Register spec r =
     (let name = trim_space (cs_Name spec) in
      if name = [] then Inl (ErrText ''builtin command name is required'')
      else if cs_Run spec = None then Inl (ErrText (''builtin command '' @ go_quote name @ '' missing Run''))
      else if map_of r name \<noteq> None then Inl (ErrText (''duplicate builtin command '' @ go_quote name))
      else Inr (map_put name (spec\<lparr>cs_Name := name\<rparr>) r))"

definition Lookup :: "'e Registry \<Rightarrow> string \<Rightarrow> 'e CommandSpec option" where
  "Lookup r name = map_of r (trim_space name)"

definition ListNames :: "'e Registry \<Rightarrow> string list" where
  "ListNames r = sort (filter (\<lambda>n. n \<noteq> []) (map trim_space (map_keys r)))"

subsection \<open>Builtin documentation\<close>

definition fence :: "string \<Rightarrow> bool" where
  "fence l \<longleftrightarrow> trim_space l = ''---''"

definition after_front_matter :: "string list \<Rightarrow> string list" where
  "after_front_matter lines =
     (case lines of
        [] \<Rightarrow> []
      | l # rest \<Rightarrow>
          (if fence l \<and> (\<exists>x\<in>set rest. fence x) then tl (dropWhile (\<lambda>x. \<not> fence x) rest) else lines))"

definition inferManualHeadingSummary :: "string \<Rightarrow> string" where
  "inferManualHeadingSummary raw =
     (let trimmed = trim_space raw in
      if trimmed = [] then []
      else case find (\<lambda>l. has_prefix (trim_space l) ''# '') (after_front_matter (split_on (CHR 0x0A) trimmed)) of
        None \<Rightarrow> []
      | Some line \<Rightarrow>
          (let heading = trim_space (trim_prefix (trim_space line) ''# '') in
           case index_of '' -- '' heading of
             Some i \<Rightarrow> trim_space (drop (i + 4) heading)
           | None \<Rightarrow>
               (case index_of '' - '' heading of
                  Some i \<Rightarrow> trim_space (drop (i + 3) heading)
                | None \<Rightarrow> heading)))"

definition builtinSummary :: "'e CommandSpec \<Rightarrow> string" where
  "builtinSummary spec =
     (let summary = trim_space (cs_Summary spec) in
      if summary \<noteq> [] then summary else inferManualHeadingSummary (cs_DetailedManual spec))"

definition builtinDocFromSpec :: "'e CommandSpec \<Rightarrow> BuiltinCommandDoc" where
  "builtinDocFromSpec spec =
     \<lparr>bd_Name = cs_Name spec, bd_Summary = builtinSummary spec, bd_Manual = trim_space (cs_Manual spec),
      bd_Tips = cs_Tips spec, bd_Examples = cs_Examples spec, bd_DetailedManual = cs_DetailedManual spec,
      bd_Capabilities = cs_Capabilities spec, bd_StdinMode = trim_space (cs_StdinMode spec),
      bd_Operands = trim_space (cs_Operands spec), bd_DefaultOutput = trim_space (cs_DefaultOutput spec),
      bd_StructuredOutput = trim_space (cs_StructuredOutput spec), bd_StructuredFlags = cs_StructuredFlags spec,
      bd_MutationKind = trim_space (cs_MutationKind spec), bd_SuccessOutput = trim_space (cs_SuccessOutput spec),
      bd_PipeBehavior = trim_space (cs_PipeBehavior spec), bd_ExitCodes = cs_ExitCodes spec\<rparr>"

definition doc_line :: "string \<Rightarrow> string \<Rightarrow> string list" where
  "doc_line title raw = (let value = trim_space raw in if value \<noteq> [] then [title @ value] else [])"

definition builtinContractLines :: "BuiltinCommandDoc \<Rightarrow> string list" where
  "builtinContractLines doc =
     doc_line ''stdin: '' (bd_StdinMode doc) @
     doc_line ''operands: '' (bd_Operands doc) @
     doc_line ''default output: '' (bd_DefaultOutput doc) @
     (if bd_StructuredFlags doc \<noteq> [] \<or> trim_space (bd_StructuredOutput doc) \<noteq> []
      then let desc = trim_space (bd_StructuredOutput doc); flags = join '', '' (bd_StructuredFlags doc) in
           [''structured output: '' @
             (if desc \<noteq> [] \<and> flags \<noteq> [] then desc @ '' via '' @ flags else if desc \<noteq> [] then desc else flags)]
      else []) @
     doc_line ''pipe behavior: '' (bd_PipeBehavior doc) @
     doc_line ''mutation: '' (bd_MutationKind doc) @
     doc_line ''success stdout: '' (bd_SuccessOutput doc)"

definition trim_right_newlines :: "string \<Rightarrow> string" where
  "trim_right_newlines s = rev (dropWhile (\<lambda>c. c = CHR 0x0A) (rev s))"

definition BuiltinManual :: "'e Registry \<Rightarrow> string \<Rightarrow> string option" where
  "BuiltinManual r name =
     (case Lookup r name of
        None \<Rightarrow> None
      | Some spec \<Rightarrow>
          (let doc = builtinDocFromSpec spec; nl = [CHR 0x0A];
               items = (\<lambda>title pre xs. if xs = [] then [] else title @ concat (map (\<lambda>x. pre @ x @ nl) xs)) in
           Some (trim_right_newlines
             (trim_space (bd_Manual doc) @
              (if trim_space (bd_Summary doc) \<noteq> []
               then nl @ nl @ ''Summary:'' @ nl @ ''  '' @ trim_space (bd_Summary doc) else []) @
              items (nl @ nl @ ''Contract:'' @ nl) ''  - '' (builtinContractLines doc) @
              items (nl @ nl @ ''Tips:'' @ nl) ''  - '' (cs_Tips spec) @
              items (nl @ ''Examples:'' @ nl) ''  '' (cs_Examples spec) @
              items (nl @ ''Exit-Codes:'' @ nl) ''  - '' (bd_ExitCodes doc)))))"

definition BuiltinDetailedManual :: "'e Registry \<Rightarrow> string \<Rightarrow> string option" where
  "BuiltinDetailedManual r name =
     (case Lookup r name of
        None \<Rightarrow> None
      | Some spec \<Rightarrow>
          (if trim_space (cs_DetailedManual spec) = [] then BuiltinManual r name
           else Some (trim_space (cs_DetailedManual spec))))"

definition LookupBuiltinDoc :: "'e Registry \<Rightarrow> string \<Rightarrow> BuiltinCommandDoc option" where
  "LookupBuiltinDoc r name = map_option builtinDocFromSpec (Lookup r name)"

definition BuiltinCommandDocs :: "'e Registry \<Rightarrow> BuiltinCommandDoc list" where
  "BuiltinCommandDocs r =
     List.map_filter (\<lambda>n. map_option builtinDocFromSpec (map_of r n))
       (sort (filter (\<lambda>n. n \<noteq> []) (map trim_space (map_keys r))))"

definition isCommandAllowedByProfile :: "'e CommandSpec \<Rightarrow> CompatibilityProfile \<Rightarrow> bool" where
  "isCommandAllowedByProfile spec profile =
     (if cs_Capabilities spec = [] then True
      else let profileSpec = ProfileByName profile in
        list_all (\<lambda>c. trim_space c = [] \<or> c \<in> set (ps_Capabilities profileSpec)) (cs_Capabilities spec))"

subsection \<open>The interface of the table\<close>

locale command_table =
  fixes empty_table :: "'t"
    and register :: "'c \<Rightarrow> 't \<Rightarrow> go_error + 't"
    and lookup :: "'t \<Rightarrow> string \<Rightarrow> 'c option"
    and name_of :: "'c \<Rightarrow> string"
    and stored :: "'c \<Rightarrow> 'c"
    and usable :: "'c \<Rightarrow> bool"
  assumes lookup_empty: "lookup empty_table n = None"
    and lookup_trim: "lookup t (trim_space n) = lookup t n"
    and register_ok: "(\<exists>t'. register c t = Inr t') \<longleftrightarrow> usable c \<and> lookup t (name_of c) = None"
    and lookup_register: "register c t = Inr t' \<Longrightarrow>
      lookup t' n = (if trim_space n = trim_space (name_of c) then Some (stored c) else lookup t n)"
begin

fun register_all :: "'c list \<Rightarrow> 't \<Rightarrow> go_error + 't" where
  "register_all [] t = Inr t"
| "register_all (c # cs) t = (case register c t of Inl e \<Rightarrow> Inl e | Inr t' \<Rightarrow> register_all cs t')"

lemma register_all_lookup:
  "register_all cs t = Inr t' \<Longrightarrow>
   lookup t' n = (case find (\<lambda>c. trim_space (name_of c) = trim_space n) cs of
      Some c \<Rightarrow> Some (stored c) | None \<Rightarrow> lookup t n)"
proof (induction cs arbitrary: t)
  case (Cons c cs)
  then obtain u where u: "register c t = Inr u" "register_all cs u = Inr t'" by (auto split: sum.splits)
  have ih: "lookup t' n = (case find (\<lambda>c. trim_space (name_of c) = trim_space n) cs of
      Some c \<Rightarrow> Some (stored c) | None \<Rightarrow> lookup u n)"
    using Cons.IH [OF u(2)] .
  show ?case
  proof (cases "trim_space (name_of c) = trim_space n")
    case False
    then show ?thesis using ih lookup_register [OF u(1), of n] by (auto split: option.splits)
  next
    case True
    have "find (\<lambda>c. trim_space (name_of c) = trim_space n) cs = None"
    proof (rule ccontr)
      assume "find (\<lambda>c. trim_space (name_of c) = trim_space n) cs \<noteq> None"
      then obtain d where d: "d \<in> set cs" "trim_space (name_of d) = trim_space n"
        by (auto simp: find_None_iff)
      have "register_all cs u = Inr t' \<Longrightarrow> d \<in> set cs \<Longrightarrow> lookup u (name_of d) = None" for cs u
      proof (induction cs arbitrary: u)
        case (Cons e cs)
        then obtain v where v: "register e u = Inr v" "register_all cs v = Inr t'"
          by (auto split: sum.splits)
        show ?case
        proof (cases "d = e")
          case True
          then show ?thesis using v(1) register_ok [of e u] by auto
        next
          case False
          then have "lookup v (name_of d) = None" using Cons.IH [OF v(2)] Cons.prems(2) by simp
          then show ?thesis using lookup_register [OF v(1), of "name_of d"] by (auto split: if_splits)
        qed
      qed simp
      then have "lookup u (name_of d) = None" using u(2) d(1) by blast
      then show False using lookup_register [OF u(1), of "name_of d"] d(2) True by simp
    qed
    then show ?thesis using ih lookup_register [OF u(1), of n] True by simp
  qed
qed simp

lemma register_duplicate:
  assumes "register c t = Inr t'" and "trim_space (name_of d) = trim_space (name_of c)"
  shows "\<exists>e. register d t' = Inl e"
proof -
  have "lookup t' (name_of d) \<noteq> None" using lookup_register [OF assms(1)] assms(2) by simp
  then show ?thesis using register_ok [of d t'] by (cases "register d t'") auto
qed

end

interpretation registry: command_table "[]" Register Lookup cs_Name
    "\<lambda>spec. spec\<lparr>cs_Name := trim_space (cs_Name spec)\<rparr>"
    "\<lambda>spec. trim_space (cs_Name spec) \<noteq> [] \<and> cs_Run spec \<noteq> None"
proof (unfold_locales, goal_cases)
  case (3 c t)
  then show ?case by (auto simp: Register_def Lookup_def Let_def)
next
  case (4 c t t' n)
  then show ?case by (auto simp: Register_def Lookup_def Let_def split: if_splits)
qed (simp_all add: Lookup_def)

subsection \<open>Lemmas\<close>

lemma IsCommandPathUnder_iff:
  assumes "canonical p" and "\<not> ends_with_space p" and "canonical d" and "\<not> ends_with_space d"
  shows "IsCommandPathUnder p d \<longleftrightarrow> (\<exists>n. p = d @ ''/'' @ n \<and> trim_space n \<noteq> [] \<and> CHR ''/'' \<notin> set n)"
proof -
  have n: "normalizeAbsolutePath p = p" "normalizeAbsolutePath d = d"
    using assms by (simp_all add: normalizeAbsolutePath_fix)
  show ?thesis
  proof (cases "has_prefix p (d @ ''/'')")
    case True
    then obtain t where "p = (d @ ''/'') @ t" by (rule has_prefixE)
    then show ?thesis
      using trim_prefix_append [of "d @ ''/''" t]
      by (simp add: IsCommandPathUnder_def n(2) Let_def contains_char has_prefix_def) (simp add: n(1) [unfolded \<open>p = (d @ ''/'') @ t\<close>, simplified])
  next
    case False
    then have "\<nexists>t. p = (d @ ''/'') @ t" by (simp add: has_prefix_iff)
    then show ?thesis using False by (simp add: IsCommandPathUnder_def n)
  qed
qed

lemma bin_dirs_canonical:
  "canonical VirtualSystemBinDir" "\<not> ends_with_space VirtualSystemBinDir"
  "canonical VirtualExternalBinDir" "\<not> ends_with_space VirtualExternalBinDir"
  by (simp_all add: VirtualSystemBinDir_def VirtualExternalBinDir_def canonical_code is_canonical_def
      good_comp_def ends_with_space_def space_runes_def)

lemmas bin_path_iff =
  IsCommandPathUnder_iff [OF _ _ bin_dirs_canonical(1,2)] IsCommandPathUnder_iff [OF _ _ bin_dirs_canonical(3,4)]

subsection \<open>Properties\<close>

text \<open>Registering a list of builtins one after another, as \<open>MustRegister\<close> does, gives a table in which
  every name finds the builtin that was registered under it and no other name is found; a second
  builtin of the same trimmed name is refused.\<close>

theorem Register_all_Lookup:
  assumes "registry.register_all specs [] = Inr r"
  shows "Lookup r n = map_option (\<lambda>spec. spec\<lparr>cs_Name := trim_space (cs_Name spec)\<rparr>)
      (find (\<lambda>spec. trim_space (cs_Name spec) = trim_space n) specs)"
  using registry.register_all_lookup [OF assms, of n] by (auto simp: Lookup_def split: option.splits)

definition sample_spec :: "string \<Rightarrow> 'e CommandSpec" where
  "sample_spec name = \<lparr>cs_Name = name, cs_Summary = [], cs_Manual = [], cs_Tips = [], cs_Examples = [],
     cs_DetailedManual = [], cs_Capabilities = [], cs_StdinMode = [], cs_Operands = [], cs_DefaultOutput = [],
     cs_StructuredOutput = [], cs_StructuredFlags = [], cs_MutationKind = [], cs_SuccessOutput = [],
     cs_PipeBehavior = [], cs_ExitCodes = [], cs_Run = Some (\<lambda>rt args s. ((join '' '' args, 0), s))\<rparr>"

lemma trim_space_echo: "trim_space ''echo'' = ''echo''"
  by (rule trim_space_fixI) (simp_all add: starts_with_space_def ends_with_space_def space_runes_def)

theorem Register_all_Lookup_witness:
  "\<exists>r. registry.register_all [sample_spec ''echo'' :: unit CommandSpec] [] = Inr r \<and> Lookup r ''echo'' = Some (sample_spec ''echo'')"
proof -
  obtain r where r: "registry.register_all [sample_spec ''echo'' :: unit CommandSpec] [] = Inr r"
    by (simp add: Register_def sample_spec_def trim_space_echo Let_def)
  have "sample_spec ''echo''\<lparr>cs_Name := ''echo''\<rparr> = sample_spec ''echo''" by (simp add: sample_spec_def)
  moreover have "cs_Name (sample_spec ''echo'' :: unit CommandSpec) = ''echo''" by (simp add: sample_spec_def)
  ultimately have "Lookup r ''echo'' = Some (sample_spec ''echo'')"
    using Register_all_Lookup [OF r, of "''echo''"] by (simp add: trim_space_echo)
  with r show ?thesis by blast
qed

definition one_component :: "string \<Rightarrow> bool" where
  "one_component n \<longleftrightarrow> trim_space n \<noteq> [] \<and> CHR ''/'' \<notin> set n"

text \<open>A path-like command reference is accepted exactly if the path it resolves to is one component
  under \<open>/sys/bin\<close>, a builtin, or under \<open>/bin\<close>, an external command; its name is that component, so it
  has no slash. Every other path is refused.\<close>

theorem path_reference_namespace:
  assumes "contains (trim_space raw) ''/''" and "resolve (trim_space raw) s = (Inr p, s')"
    and "is_canonical p" and "\<not> ends_with_space p"
  shows "(\<forall>n. one_component n \<and> p = ''/sys/bin/'' @ n \<longrightarrow>
       NormalizeCommandReference raw (Some resolve) s =
         (Inr \<lparr>cr_Raw = trim_space raw, cr_Name = n, cr_ResolvedPath = p, cr_PathLike = True,
               cr_Namespace = CommandNamespaceBuiltin\<rparr>, s')) \<and>
    (\<forall>n. one_component n \<and> p = ''/bin/'' @ n \<longrightarrow>
       NormalizeCommandReference raw (Some resolve) s =
         (Inr \<lparr>cr_Raw = trim_space raw, cr_Name = n, cr_ResolvedPath = p, cr_PathLike = True,
               cr_Namespace = CommandNamespaceExternal\<rparr>, s')) \<and>
    ((\<nexists>n. one_component n \<and> (p = ''/sys/bin/'' @ n \<or> p = ''/bin/'' @ n)) \<longrightarrow>
       NormalizeCommandReference raw (Some resolve) s = (Inl (CommandReferencePathError (trim_space raw) p), s'))"
proof -
  have ne: "trim_space raw \<noteq> []" using assms(1) by (auto simp: contains_def)
  have p: "canonical p" using assms(3) by (simp add: canonical_code)
  note iffs = bin_path_iff(1) [OF p assms(4)] bin_path_iff(2) [OF p assms(4)]
  have sys: "IsCommandPathUnder p VirtualSystemBinDir \<longleftrightarrow> (\<exists>n. one_component n \<and> p = ''/sys/bin/'' @ n)"
    unfolding iffs one_component_def by (auto simp: VirtualSystemBinDir_def)
  have ext: "IsCommandPathUnder p VirtualExternalBinDir \<longleftrightarrow> (\<exists>n. one_component n \<and> p = ''/bin/'' @ n)"
    unfolding iffs one_component_def by (auto simp: VirtualExternalBinDir_def)
  have tp: "trim_prefix (''/sys/bin/'' @ n) ''/sys/bin/'' = n" "trim_prefix (''/bin/'' @ n) ''/bin/'' = n" for n
    by (rule trim_prefix_append)+
  have eq: "NormalizeCommandReference raw (Some resolve) s =
      (if IsCommandPathUnder p VirtualSystemBinDir then
         (Inr \<lparr>cr_Raw = trim_space raw, cr_Name = trim_prefix p ''/sys/bin/'', cr_ResolvedPath = p, cr_PathLike = True,
               cr_Namespace = CommandNamespaceBuiltin\<rparr>, s')
       else if IsCommandPathUnder p VirtualExternalBinDir then
         (Inr \<lparr>cr_Raw = trim_space raw, cr_Name = trim_prefix p ''/bin/'', cr_ResolvedPath = p, cr_PathLike = True,
               cr_Namespace = CommandNamespaceExternal\<rparr>, s')
       else (Inl (CommandReferencePathError (trim_space raw) p), s'))"
    using assms(1,2) ne
    by (simp add: NormalizeCommandReference_def looksLikeCommandPath_def Let_def
        VirtualSystemBinDir_def VirtualExternalBinDir_def)
  show ?thesis
    unfolding eq sys ext using tp by fastforce
qed

theorem path_reference_namespace_witness:
  "NormalizeCommandReference ''/bin/git'' (Some absolute_path) (live_sys ()) =
    (Inr \<lparr>cr_Raw = ''/bin/git'', cr_Name = ''git'', cr_ResolvedPath = ''/bin/git'', cr_PathLike = True,
          cr_Namespace = CommandNamespaceExternal\<rparr>, live_sys ())"
proof -
  have t: "trim_space ''/bin/git'' = ''/bin/git''" "trim_space ''git'' = ''git''"
    by (rule trim_space_fixI; simp add: starts_with_space_def ends_with_space_def space_runes_def)+
  have 1: "contains (trim_space ''/bin/git'') ''/''" by (simp add: t contains_char)
  have 2: "absolute_path (trim_space ''/bin/git'') (live_sys ()) = (Inr ''/bin/git'', live_sys ())"
    by (simp add: t absolute_path_def)
  have 3: "is_canonical ''/bin/git''" "\<not> ends_with_space ''/bin/git''"
    by (simp_all add: is_canonical_def good_comp_def ends_with_space_def space_runes_def)
  have "one_component ''git''" by (simp add: one_component_def t)
  then show ?thesis using path_reference_namespace [where resolve = absolute_path, OF 1 2 3] by (simp add: t)
qed

end
