(* ===== verification/Trace_Collector.thy ===== *)
theory Trace_Collector
  imports Engine_State
begin

section \<open>The trace collector (\<open>pkg/engine/trace_collector.go\<close>)\<close>

text \<open>
  Every execution runs over callbacks that \<open>WrapOps\<close> has wrapped: before the original is called its
  path is recorded as requested, after it as read, written, appended, edited, created, removed or
  denied. The lemmas say that the wrapped callbacks return what the originals return, that what they
  record only grows, and that the lists of paths keep their form (no duplicate, no blank, no root).
\<close>

subsection \<open>Recording\<close>

definition add_path :: "string \<Rightarrow> string list \<Rightarrow> string list" where
  "add_path pathValue target =
     (let p = trim_space pathValue in
      if p = [] \<or> p = ''/'' then target else if p \<in> set target then target else target @ [p])"

definition recordRequested :: "string \<Rightarrow> ExecutionTrace \<Rightarrow> ExecutionTrace" where
  "recordRequested p t = t\<lparr>tr_RequestedPaths := add_path p (tr_RequestedPaths t)\<rparr>"

definition recordRead :: "string \<Rightarrow> int \<Rightarrow> ExecutionTrace \<Rightarrow> ExecutionTrace" where
  "recordRead p n t = t\<lparr>tr_ReadPaths := add_path p (tr_ReadPaths t), tr_BytesRead := tr_BytesRead t + n\<rparr>"

definition recordWrite :: "string \<Rightarrow> int \<Rightarrow> ExecutionTrace \<Rightarrow> ExecutionTrace" where
  "recordWrite p n t =
     t\<lparr>tr_WrittenPaths := add_path p (tr_WrittenPaths t), tr_BytesWritten := tr_BytesWritten t + n\<rparr>"

definition recordAppend :: "string \<Rightarrow> int \<Rightarrow> ExecutionTrace \<Rightarrow> ExecutionTrace" where
  "recordAppend p n t =
     t\<lparr>tr_AppendedPaths := add_path p (tr_AppendedPaths t), tr_BytesWritten := tr_BytesWritten t + n\<rparr>"

definition recordEdit :: "string \<Rightarrow> int \<Rightarrow> ExecutionTrace \<Rightarrow> ExecutionTrace" where
  "recordEdit p n t =
     t\<lparr>tr_EditedPaths := add_path p (tr_EditedPaths t), tr_BytesWritten := tr_BytesWritten t + n\<rparr>"

definition recordCreatedDir :: "string \<Rightarrow> ExecutionTrace \<Rightarrow> ExecutionTrace" where
  "recordCreatedDir p t = t\<lparr>tr_CreatedDirs := add_path p (tr_CreatedDirs t)\<rparr>"

definition recordRemoved :: "string \<Rightarrow> ExecutionTrace \<Rightarrow> ExecutionTrace" where
  "recordRemoved p t = t\<lparr>tr_RemovedPaths := add_path p (tr_RemovedPaths t)\<rparr>"

definition recordDenied :: "string \<Rightarrow> ExecutionTrace \<Rightarrow> ExecutionTrace" where
  "recordDenied p t = t\<lparr>tr_DeniedPaths := add_path p (tr_DeniedPaths t)\<rparr>"

definition recordExternalOutput :: "string \<Rightarrow> string \<Rightarrow> ExecutionTrace \<Rightarrow> ExecutionTrace" where
  "recordExternalOutput out err t =
     t\<lparr>tr_ExternalStdoutBytes := tr_ExternalStdoutBytes t + int (length out),
       tr_ExternalStderrBytes := tr_ExternalStderrBytes t + int (length err)\<rparr>"

definition recordExecutedStep :: "ExecutionTraceStep \<Rightarrow> ExecutionTrace \<Rightarrow> ExecutionTrace" where
  "recordExecutedStep step t = t\<lparr>tr_Executed := tr_Executed t @ [step]\<rparr>"

definition recordExternalOutcomeStep :: "ExecutionTraceStep \<Rightarrow> ExecutionTrace \<Rightarrow> ExecutionTrace" where
  "recordExternalOutcomeStep step t = t\<lparr>tr_ExternalOutcomes := tr_ExternalOutcomes t @ [step]\<rparr>"

lemmas record_defs [go_defs] = recordRequested_def recordRead_def recordWrite_def recordAppend_def
  recordEdit_def recordCreatedDir_def recordRemoved_def recordDenied_def recordExternalOutput_def
  recordExecutedStep_def recordExternalOutcomeStep_def

text \<open>The collector is found in the context, or is not there.\<close>

definition on_trace :: "(ExecutionTrace \<Rightarrow> ExecutionTrace) \<Rightarrow> 'e sys \<Rightarrow> 'e sys" where
  "on_trace f s = s\<lparr>sy_trace := map_option f (sy_trace s)\<rparr>"

definition markTraceOutputTruncated :: "'e sys \<Rightarrow> 'e sys" where
  "markTraceOutputTruncated s = on_trace (\<lambda>t. t\<lparr>tr_OutputTruncated := True\<rparr>) s"

definition markTraceRequestedPath :: "string \<Rightarrow> 'e sys \<Rightarrow> 'e sys" where
  "markTraceRequestedPath p s = on_trace (recordRequested p) s"

definition markTraceDeniedPath :: "string \<Rightarrow> 'e sys \<Rightarrow> 'e sys" where
  "markTraceDeniedPath p s = on_trace (recordDenied p) s"

definition isDeniedPathError :: "go_error \<Rightarrow> bool" where
  "isDeniedPathError err =
     (if is_unsupported err then True
      else let message = to_lower (trim_space (error_text err)) in
        if contains message ''no such file'' \<or> contains message ''not found'' then False
        else contains message ''not allowed'' \<or> contains message ''not supported'' \<or>
             contains message ''permission'' \<or> contains message ''denied'' \<or>
             contains message ''read-only'' \<or> contains message ''access'')"

subsection \<open>Batches of mutations\<close>

definition recordTraceMutation :: "MutationKind \<Rightarrow> string \<Rightarrow> int \<Rightarrow> ExecutionTrace \<Rightarrow> ExecutionTrace" where
  "recordTraceMutation kind p n t =
     (case kind of
        MutationWriteFile \<Rightarrow> recordWrite p n t
      | MutationAppend \<Rightarrow> recordAppend p n t
      | MutationEdit \<Rightarrow> recordEdit p n t
      | MutationMakeDir \<Rightarrow> recordCreatedDir p t
      | MutationRemoveFile \<Rightarrow> recordRemoved p t
      | MutationRemoveDir \<Rightarrow> recordRemoved p t
      | MutationOther _ \<Rightarrow> t)"

definition traceMutationBytes :: "MutationSpec \<Rightarrow> int" where
  "traceMutationBytes op =
     (case ms_Kind op of
        MutationWriteFile \<Rightarrow> int (length (ms_Content op))
      | MutationAppend \<Rightarrow> int (length (ms_Content op))
      | MutationEdit \<Rightarrow> int (length (ms_NewString op))
      | _ \<Rightarrow> 0)"

definition traceMutationBytesForRecord :: "MutationSpec list \<Rightarrow> MutationRecord \<Rightarrow> int" where
  "traceMutationBytesForRecord ops record =
     (if mr_BytesWritten record > 0 then mr_BytesWritten record
      else case find (\<lambda>op. ms_Kind op = mr_Kind record \<and> ms_Path op = mr_Path record) ops of
        Some op \<Rightarrow> traceMutationBytes op
      | None \<Rightarrow> 0)"

fun mutation_kind_text :: "MutationKind \<Rightarrow> string" where
  "mutation_kind_text MutationWriteFile = ''write_file''"
| "mutation_kind_text MutationAppend = ''append_file''"
| "mutation_kind_text MutationEdit = ''edit_file''"
| "mutation_kind_text MutationMakeDir = ''make_dir''"
| "mutation_kind_text MutationRemoveFile = ''remove_file''"
| "mutation_kind_text MutationRemoveDir = ''remove_dir''"
| "mutation_kind_text (MutationOther s) = s"

definition traceMutationRecordKey :: "MutationKind \<Rightarrow> string \<Rightarrow> string" where
  "traceMutationRecordKey kind p = mutation_kind_text kind @ [CHR 0x00] @ p"

definition recordMutationBatchTrace ::
  "MutationSpec list \<Rightarrow> MutationRecord list \<Rightarrow> ExecutionTrace \<Rightarrow> ExecutionTrace" where
  "recordMutationBatchTrace ops records t =
     (let plain = (\<lambda>op. recordTraceMutation (ms_Kind op) (ms_Path op) (traceMutationBytes op));
          from_record = (\<lambda>r. recordTraceMutation (mr_Kind r) (mr_Path r) (traceMutationBytesForRecord ops r));
          key = (\<lambda>r. traceMutationRecordKey (mr_Kind r) (mr_Path r));
          op_key = (\<lambda>op. traceMutationRecordKey (ms_Kind op) (ms_Path op))
      in if records = [] then fold plain ops t
         else let index = map_puts [] (map (\<lambda>r. (key r, r)) records);
                  t1 = fold (\<lambda>op. case map_of index (op_key op) of
                          Some r \<Rightarrow> from_record r | None \<Rightarrow> plain op) ops t;
                  seen = filter (\<lambda>k. map_of index k \<noteq> None) (map op_key ops)
              in fold from_record (filter (\<lambda>r. key r \<notin> set seen) records) t1)"

subsection \<open>Wrapping callbacks\<close>

definition traced :: "('a \<Rightarrow> string) \<Rightarrow> ('a \<Rightarrow> 'b \<Rightarrow> ExecutionTrace \<Rightarrow> ExecutionTrace) \<Rightarrow> ('a, 'b, 'e) op \<Rightarrow>
    ('a, 'b, 'e) op" where
  "traced path_of done orig x s =
     (case orig x (on_trace (recordRequested (path_of x)) s) of
        (Inr y, s') \<Rightarrow> (Inr y, on_trace (done x y) s')
      | (Inl e, s') \<Rightarrow> (Inl e, if isDeniedPathError e then on_trace (recordDenied (path_of x)) s' else s'))"

definition traced_edit ::
  "'e Ops \<Rightarrow> (string \<times> string \<times> string \<times> bool, unit, 'e) op \<Rightarrow> (string \<times> string \<times> string \<times> bool, unit, 'e) op" where
  "traced_edit ops orig x s =
     (case x of (p, oldString, newString, replaceAll) \<Rightarrow>
       (case orig x (on_trace (recordRequested p) s) of
          (Inr y, s1) \<Rightarrow>
            (let (n, s2) =
               (case o_ReadRawContent ops of
                  None \<Rightarrow> (length newString, s1)
                | Some read \<Rightarrow>
                    (case read p s1 of
                       (Inr raw, s2) \<Rightarrow> (length raw, s2)
                     | (Inl _, s2) \<Rightarrow> (length newString, s2)))
             in (Inr y, on_trace (recordEdit p (int n)) s2))
        | (Inl e, s1) \<Rightarrow> (Inl e, if isDeniedPathError e then on_trace (recordDenied p) s1 else s1)))"

definition traced_mutations ::
  "(MutationSpec list, MutationRecord list, 'e) op \<Rightarrow> (MutationSpec list, MutationRecord list, 'e) op" where
  "traced_mutations orig ops s =
     (case orig ops (on_trace (fold (\<lambda>op. recordRequested (ms_Path op)) ops) s) of
        (Inr records, s') \<Rightarrow> (Inr records, on_trace (recordMutationBatchTrace ops records) s')
      | (Inl e, s') \<Rightarrow>
          (Inl e, if isDeniedPathError e then on_trace (fold (\<lambda>op. recordDenied (ms_Path op)) ops) s' else s'))"

definition WrapOps :: "'e Ops \<Rightarrow> 'e Ops" where
  "WrapOps ops =
     ops\<lparr>o_CheckPathOp := map_option (traced snd (\<lambda>x y t. t)) (o_CheckPathOp ops),
         o_ListChildren := map_option (traced id (\<lambda>p y. recordRead p 0)) (o_ListChildren ops),
         o_IsDirPath := map_option (traced id (\<lambda>p y. recordRead p 0)) (o_IsDirPath ops),
         o_DescribePath := map_option (traced id (\<lambda>p y. recordRead p 0)) (o_DescribePath ops),
         o_ReadRawContent := map_option (traced id (\<lambda>p raw. recordRead p (int (length raw)))) (o_ReadRawContent ops),
         o_ResolveSearchPaths := map_option (traced fst (\<lambda>x y. recordRead (fst x) 0)) (o_ResolveSearchPaths ops),
         o_CollectFilesUnder := map_option (traced id (\<lambda>p y. recordRead p 0)) (o_CollectFilesUnder ops),
         o_WriteFile := map_option (traced fst (\<lambda>x y. recordWrite (fst x) (int (length (snd x))))) (o_WriteFile ops),
         o_AppendFile := map_option (traced fst (\<lambda>x y. recordAppend (fst x) (int (length (snd x))))) (o_AppendFile ops),
         o_EditFile := map_option (traced_edit ops) (o_EditFile ops),
         o_MakeDir := map_option (traced id (\<lambda>p y. recordCreatedDir p)) (o_MakeDir ops),
         o_RemoveFile := map_option (traced id (\<lambda>p y. recordRemoved p)) (o_RemoveFile ops),
         o_RemoveDir := map_option (traced id (\<lambda>p y. recordRemoved p)) (o_RemoveDir ops),
         o_ApplyMutations := map_option traced_mutations (o_ApplyMutations ops),
         o_RunExternalCommand :=
           map_option (\<lambda>orig req s.
               orig req (if has_prefix (trim_space (ec_RawPath req)) ''/''
                         then on_trace (recordRequested (ec_RawPath req)) s else s))
             (o_RunExternalCommand ops)\<rparr>"

subsection \<open>The collector of an execution\<close>

definition empty_step :: ExecutionTraceStep where
  "empty_step = \<lparr>ts_Command = [], ts_Argv = [], ts_Namespace = [], ts_ResolvedPath = [], ts_Executed = False,
     ts_OutcomeKind = OutcomeUnset, ts_ExitCode = None, ts_RawExitCode = None, ts_StdoutBytes = None,
     ts_StderrBytes = None, ts_ProviderError = [], ts_TerminationKind = []\<rparr>"

definition empty_trace :: ExecutionTrace where
  "empty_trace = \<lparr>tr_CommandLine = [], tr_Command = [], tr_Argv = [], tr_Pipeline = [], tr_Executed = [],
     tr_ExternalOutcomes = [], tr_EffectiveProfile = [], tr_EffectivePolicy =
       \<lparr>ep_WriteMode = WriteModeUnset, ep_MaxWriteBytes = 0, ep_MaxPipelineDepth = 0, ep_MaxOutputBytes = 0, ep_Timeout = 0\<rparr>,
     tr_TimedOut = False, tr_Canceled = False, tr_RequestedPaths = [], tr_ReadPaths = [], tr_WrittenPaths = [],
     tr_AppendedPaths = [], tr_EditedPaths = [], tr_CreatedDirs = [], tr_RemovedPaths = [], tr_DeniedPaths = [],
     tr_BytesRead = 0, tr_BytesWritten = 0, tr_ExternalStdoutBytes = 0, tr_ExternalStderrBytes = 0,
     tr_OutputTruncated = False\<rparr>"

definition trace_command :: "parsedCommand \<Rightarrow> ExecutionTrace \<Rightarrow> ExecutionTrace" where
  "trace_command c t =
     (if pc_args c = [] then t
      else let step = empty_step\<lparr>ts_Command := trim_space (hd (pc_args c)), ts_Argv := pc_args c\<rparr>;
               t = t\<lparr>tr_Pipeline := tr_Pipeline t @ [step]\<rparr>
           in if tr_Command t = [] then t\<lparr>tr_Command := ts_Command step, tr_Argv := ts_Argv step\<rparr> else t)"

definition populateTraceShape :: "ExecutionTrace \<Rightarrow> parsedStatement list \<Rightarrow> ExecutionTrace" where
  "populateTraceShape t sts = fold (fold (\<lambda>n. fold trace_command (cp_pipeline n))) sts t"

definition newExecutionTraceCollector :: "string \<Rightarrow> 'e Ops \<Rightarrow> ExecutionTrace" where
  "newExecutionTraceCollector commandLine ops =
     (let t = empty_trace\<lparr>tr_CommandLine := trim_space commandLine, tr_EffectiveProfile := o_Profile ops,
                          tr_EffectivePolicy := o_Policy ops\<rparr>
      in case parseScript commandLine of Inr parsed \<Rightarrow> populateTraceShape t parsed | Inl _ \<Rightarrow> t)"

text \<open>\<open>Snapshot\<close> copies every field of the trace but the two byte counts of the pipeline steps.\<close>

definition trace_snapshot :: "ExecutionTrace \<Rightarrow> ExecutionTrace" where
  "trace_snapshot t =
     t\<lparr>tr_Pipeline := map (\<lambda>st. st\<lparr>ts_StdoutBytes := None, ts_StderrBytes := None\<rparr>) (tr_Pipeline t)\<rparr>"

subsection \<open>Lemmas\<close>

text \<open>The form of a recorded list, and growth of a trace.\<close>

definition paths_ok :: "string list \<Rightarrow> bool" where
  "paths_ok ps \<longleftrightarrow> distinct ps \<and> (\<forall>p\<in>set ps. p \<noteq> [] \<and> p \<noteq> ''/'' \<and> trim_space p = p)"

definition path_lists :: "ExecutionTrace \<Rightarrow> string list list" where
  "path_lists t = [tr_RequestedPaths t, tr_ReadPaths t, tr_WrittenPaths t, tr_AppendedPaths t,
     tr_EditedPaths t, tr_CreatedDirs t, tr_RemovedPaths t, tr_DeniedPaths t]"

definition trace_ok :: "ExecutionTrace \<Rightarrow> bool" where
  "trace_ok t \<longleftrightarrow> list_all paths_ok (path_lists t)"

definition trace_grows :: "ExecutionTrace \<Rightarrow> ExecutionTrace \<Rightarrow> bool" where
  "trace_grows t t' \<longleftrightarrow> list_all2 prefix (path_lists t) (path_lists t') \<and>
     prefix (tr_Executed t) (tr_Executed t') \<and> prefix (tr_ExternalOutcomes t) (tr_ExternalOutcomes t')"

definition recorded :: "string \<Rightarrow> string list \<Rightarrow> bool" where
  "recorded p ps \<longleftrightarrow> trim_space p = [] \<or> trim_space p = ''/'' \<or> trim_space p \<in> set ps"

lemma add_path_ok: "paths_ok ps \<Longrightarrow> paths_ok (add_path p ps)"
  by (auto simp: add_path_def paths_ok_def Let_def)

lemma add_path_grows: "prefix ps (add_path p ps)"
  by (simp add: add_path_def Let_def)

lemma add_path_recorded: "recorded p (add_path p ps)"
  by (simp add: add_path_def recorded_def Let_def)

lemma add_path_idem: "add_path p (add_path p ps) = add_path p ps"
  by (simp add: add_path_def Let_def)

lemma recorded_grows: "recorded p ps \<Longrightarrow> prefix ps qs \<Longrightarrow> recorded p qs"
  by (auto simp: recorded_def dest: set_mono_prefix)

lemma trace_grows_refl [simp]: "trace_grows t t"
  by (simp add: trace_grows_def path_lists_def)

lemma trace_grows_trans: "trace_grows t u \<Longrightarrow> trace_grows u v \<Longrightarrow> trace_grows t v"
  by (auto simp: trace_grows_def path_lists_def intro: prefix_order.trans)

text \<open>\<open>records f\<close>: an operation on traces that keeps their form and only adds to them.\<close>

definition records :: "(ExecutionTrace \<Rightarrow> ExecutionTrace) \<Rightarrow> bool" where
  "records f \<longleftrightarrow> (\<forall>t. (trace_ok t \<longrightarrow> trace_ok (f t)) \<and> trace_grows t (f t))"

lemma recordsI: "(\<And>t. trace_ok t \<Longrightarrow> trace_ok (f t)) \<Longrightarrow> (\<And>t. trace_grows t (f t)) \<Longrightarrow> records f"
  by (simp add: records_def)

lemma records_record [simp, intro]:
  "records (recordRequested p)" "records (recordRead p n)" "records (recordWrite p n)"
  "records (recordAppend p n)" "records (recordEdit p n)" "records (recordCreatedDir p)"
  "records (recordRemoved p)" "records (recordDenied p)" "records (recordExternalOutput a b)"
  "records (recordExecutedStep st)" "records (recordExternalOutcomeStep st)"
  by (rule recordsI; simp add: record_defs trace_ok_def trace_grows_def path_lists_def add_path_ok add_path_grows)+

lemma records_id [simp, intro]: "records (\<lambda>t. t)" "records (\<lambda>t. t\<lparr>tr_OutputTruncated := b\<rparr>)"
  by (simp_all add: records_def trace_ok_def trace_grows_def path_lists_def)

lemma records_comp: "records f \<Longrightarrow> records g \<Longrightarrow> records (\<lambda>t. g (f t))"
  by (auto simp: records_def intro: trace_grows_trans)

lemma records_fold: "(\<And>x. x \<in> set xs \<Longrightarrow> records (f x)) \<Longrightarrow> records (fold f xs)"
proof (induction xs)
  case (Cons x xs)
  then show ?case using records_comp [of "f x" "fold f xs"] by (simp add: comp_def)
qed (simp add: id_def)

lemma records_mutation [simp, intro]: "records (recordTraceMutation kind p n)"
  by (cases kind) (simp_all add: recordTraceMutation_def [abs_def])

lemma records_fold_comp:
  "(\<And>x. records (f x)) \<Longrightarrow> (\<And>y. records (g y)) \<Longrightarrow> records (\<lambda>t. fold f xs (fold g ys t))"
  by (rule records_comp [OF records_fold records_fold])

lemma records_batch [simp, intro]: "records (recordMutationBatchTrace ops rs)"
proof (cases "rs = []")
  case True
  have "recordMutationBatchTrace ops rs =
      fold (\<lambda>op. recordTraceMutation (ms_Kind op) (ms_Path op) (traceMutationBytes op)) ops"
    by (rule ext) (simp add: recordMutationBatchTrace_def True)
  then show ?thesis by (simp add: records_fold)
next
  case False
  let ?key = "\<lambda>r. traceMutationRecordKey (mr_Kind r) (mr_Path r)"
  let ?index = "map_puts [] (map (\<lambda>r. (?key r, r)) rs)"
  let ?rec = "\<lambda>r. recordTraceMutation (mr_Kind r) (mr_Path r) (traceMutationBytesForRecord ops r)"
  let ?op = "\<lambda>op. traceMutationRecordKey (ms_Kind op) (ms_Path op)"
  let ?g = "\<lambda>op. case map_of ?index (?op op) of Some r \<Rightarrow> ?rec r
     | None \<Rightarrow> recordTraceMutation (ms_Kind op) (ms_Path op) (traceMutationBytes op)"
  let ?xs = "filter (\<lambda>r. ?key r \<notin> set (filter (\<lambda>k. map_of ?index k \<noteq> None) (map ?op ops))) rs"
  have "recordMutationBatchTrace ops rs = (\<lambda>t. fold ?rec ?xs (fold ?g ops t))"
    by (rule ext) (simp only: recordMutationBatchTrace_def Let_def False if_False)
  moreover have "records (?rec r)" for r :: MutationRecord by simp
  moreover have "records (?g op)" for op :: MutationSpec by (cases "map_of ?index (?op op)") simp_all
  ultimately show ?thesis by (simp only: records_fold_comp)
qed

lemma on_trace_fields [simp]:
  "sy_ctx (on_trace f s) = sy_ctx s" "sy_cwd (on_trace f s) = sy_cwd s"
  "sy_audit (on_trace f s) = sy_audit s" "sy_env (on_trace f s) = sy_env s"
  "sy_trace (on_trace f s) = map_option f (sy_trace s)"
  by (simp_all add: on_trace_def)

text \<open>\<open>sys_grows s s'\<close>: the collector is the same one, its trace keeps its form and grows.\<close>

definition sys_grows :: "'e sys \<Rightarrow> 'e sys \<Rightarrow> bool" where
  "sys_grows s s' \<longleftrightarrow> rel_option (\<lambda>t t'. (trace_ok t \<longrightarrow> trace_ok t') \<and> trace_grows t t') (sy_trace s) (sy_trace s')"

lemma sys_grows_refl [simp]: "sys_grows s s"
  by (cases "sy_trace s") (simp_all add: sys_grows_def)

lemma sys_grows_trans: "sys_grows s u \<Longrightarrow> sys_grows u v \<Longrightarrow> sys_grows s v"
  by (auto simp: sys_grows_def option_rel_Some1 elim!: option.rel_cases intro: trace_grows_trans)

lemma on_trace_grows: "records f \<Longrightarrow> sys_grows s (on_trace f s)"
  by (cases "sy_trace s") (simp_all add: sys_grows_def records_def)

definition keeps_trace :: "('a, 'b, 'e) op \<Rightarrow> bool" where
  "keeps_trace f \<longleftrightarrow> (\<forall>x s. sys_grows s (snd (f x s)))"

lemma traced_keeps:
  fixes f :: "('a, 'b, 'e) op"
  assumes "keeps_trace f" and "\<And>x y. records (d x y)" shows "keeps_trace (traced p d f)"
  unfolding keeps_trace_def
proof (intro allI)
  fix x and s :: "'e sys"
  let ?s = "on_trace (recordRequested (p x)) s"
  obtain r s' where f: "f x ?s = (r, s')" by (cases "f x ?s")
  have "sys_grows s ?s" by (simp add: on_trace_grows)
  moreover have "sys_grows ?s s'" using assms(1) f by (metis keeps_trace_def snd_conv)
  ultimately have g: "sys_grows s s'" by (rule sys_grows_trans)
  show "sys_grows s (snd (traced p d f x s))"
  proof (cases r)
    case (Inl e)
    have "sys_grows s' (on_trace (recordDenied (p x)) s')" by (simp add: on_trace_grows)
    then show ?thesis using g sys_grows_trans [OF g] by (simp add: traced_def f Inl)
  next
    case (Inr y)
    have "sys_grows s' (on_trace (d x y) s')" using assms(2) by (simp add: on_trace_grows)
    then show ?thesis using sys_grows_trans [OF g] by (simp add: traced_def f Inr)
  qed
qed

lemma traced_edit_keeps:
  fixes f :: "(string \<times> string \<times> string \<times> bool, unit, 'e) op"
  assumes "keeps_trace f" and "\<And>read. o_ReadRawContent ops = Some read \<Longrightarrow> keeps_trace read"
  shows "keeps_trace (traced_edit ops f)"
  unfolding keeps_trace_def
proof (intro allI)
  fix x :: "string \<times> string \<times> string \<times> bool" and s :: "'e sys"
  obtain p old new ra where x: "x = (p, old, new, ra)" by (cases x)
  let ?s = "on_trace (recordRequested p) s"
  obtain r s1 where f: "f x ?s = (r, s1)" by (cases "f x ?s")
  have "sys_grows s ?s" by (simp add: on_trace_grows)
  moreover have "sys_grows ?s s1" using assms(1) f by (metis keeps_trace_def snd_conv)
  ultimately have g: "sys_grows s s1" by (rule sys_grows_trans)
  show "sys_grows s (snd (traced_edit ops f x s))"
  proof (cases r)
    case (Inl e)
    have "sys_grows s1 (on_trace (recordDenied p) s1)" by (simp add: on_trace_grows)
    then show ?thesis using g sys_grows_trans [OF g] f by (simp add: traced_edit_def x Inl)
  next
    case (Inr y)
    obtain n s2 where n: "(case o_ReadRawContent ops of
                  None \<Rightarrow> (length new, s1)
                | Some read \<Rightarrow> (case read p s1 of
                       (Inr raw, s2) \<Rightarrow> (length raw, s2) | (Inl _, s2) \<Rightarrow> (length new, s2))) = (n, s2)"
      by fastforce
    have "sys_grows s1 s2"
    proof (cases "o_ReadRawContent ops")
      case (Some read)
      then have "s2 = snd (read p s1)" using n by (auto split: prod.splits sum.splits)
      then show ?thesis using assms(2) [OF Some] by (simp add: keeps_trace_def)
    qed (use n in simp)
    moreover have "sys_grows s2 (on_trace (recordEdit p (int n)) s2)" by (simp add: on_trace_grows)
    ultimately have "sys_grows s (on_trace (recordEdit p (int n)) s2)"
      using sys_grows_trans g by blast
    then show ?thesis using f n by (simp add: traced_edit_def x Inr)
  qed
qed

lemma traced_mutations_keeps:
  fixes f :: "(MutationSpec list, MutationRecord list, 'e) op"
  assumes "keeps_trace f" shows "keeps_trace (traced_mutations f)"
  unfolding keeps_trace_def
proof (intro allI)
  fix ops :: "MutationSpec list" and s :: "'e sys"
  let ?s = "on_trace (fold (\<lambda>op. recordRequested (ms_Path op)) ops) s"
  obtain r s1 where f: "f ops ?s = (r, s1)" by (cases "f ops ?s")
  have "sys_grows s ?s" by (intro on_trace_grows records_fold) simp
  moreover have "sys_grows ?s s1" using assms f by (metis keeps_trace_def snd_conv)
  ultimately have g: "sys_grows s s1" by (rule sys_grows_trans)
  show "sys_grows s (snd (traced_mutations f ops s))"
  proof (cases r)
    case (Inl e)
    have "sys_grows s1 (on_trace (fold (\<lambda>op. recordDenied (ms_Path op)) ops) s1)"
      by (intro on_trace_grows records_fold) simp
    then show ?thesis using g sys_grows_trans [OF g] f by (simp add: traced_mutations_def Inl)
  next
    case (Inr y)
    have "sys_grows s1 (on_trace (recordMutationBatchTrace ops y) s1)" by (intro on_trace_grows) simp
    then show ?thesis using sys_grows_trans [OF g] f by (simp add: traced_mutations_def Inr)
  qed
qed

text \<open>What a wrapped callback returns and does to the rest of the state is what the original does.\<close>

definition ignores_trace :: "('a, 'b, 'e) op \<Rightarrow> bool" where
  "ignores_trace f \<longleftrightarrow> (\<forall>x s g. f x (on_trace g s) = (fst (f x s), on_trace g (snd (f x s))))"

lemma on_trace_on_trace: "on_trace f (on_trace g s) = on_trace (f \<circ> g) s"
  by (cases "sy_trace s") (simp_all add: on_trace_def)

lemma traced_transparent:
  fixes f :: "('a, 'b, 'e) op"
  assumes "ignores_trace f"
  shows "fst (traced p d f x s) = fst (f x s) \<and> (\<exists>g. snd (traced p d f x s) = on_trace g (snd (f x s)))"
proof -
  have f: "f x (on_trace (recordRequested (p x)) s) =
      (fst (f x s), on_trace (recordRequested (p x)) (snd (f x s)))"
    using assms by (simp add: ignores_trace_def)
  show ?thesis
    by (cases "fst (f x s)") (auto simp: traced_def f on_trace_on_trace)
qed

subsection \<open>Properties\<close>

text \<open>The callbacks of a set that \<open>WrapOps\<close> wraps, each keeping the trace.\<close>

definition ops_keep_trace :: "'e Ops \<Rightarrow> bool" where
  "ops_keep_trace ops \<longleftrightarrow>
     pred_option keeps_trace (o_CheckPathOp ops) \<and> pred_option keeps_trace (o_ListChildren ops) \<and>
     pred_option keeps_trace (o_IsDirPath ops) \<and> pred_option keeps_trace (o_DescribePath ops) \<and>
     pred_option keeps_trace (o_ReadRawContent ops) \<and> pred_option keeps_trace (o_ResolveSearchPaths ops) \<and>
     pred_option keeps_trace (o_CollectFilesUnder ops) \<and> pred_option keeps_trace (o_WriteFile ops) \<and>
     pred_option keeps_trace (o_AppendFile ops) \<and> pred_option keeps_trace (o_EditFile ops) \<and>
     pred_option keeps_trace (o_MakeDir ops) \<and> pred_option keeps_trace (o_RemoveFile ops) \<and>
     pred_option keeps_trace (o_RemoveDir ops) \<and> pred_option keeps_trace (o_ApplyMutations ops)"

lemma WrapOps_sel [simp]:
  "o_CheckPathOp (WrapOps ops) = map_option (traced snd (\<lambda>x y t. t)) (o_CheckPathOp ops)"
  "o_ListChildren (WrapOps ops) = map_option (traced id (\<lambda>p y. recordRead p 0)) (o_ListChildren ops)"
  "o_IsDirPath (WrapOps ops) = map_option (traced id (\<lambda>p y. recordRead p 0)) (o_IsDirPath ops)"
  "o_DescribePath (WrapOps ops) = map_option (traced id (\<lambda>p y. recordRead p 0)) (o_DescribePath ops)"
  "o_ReadRawContent (WrapOps ops) =
     map_option (traced id (\<lambda>p raw. recordRead p (int (length raw)))) (o_ReadRawContent ops)"
  "o_ResolveSearchPaths (WrapOps ops) =
     map_option (traced fst (\<lambda>x y. recordRead (fst x) 0)) (o_ResolveSearchPaths ops)"
  "o_CollectFilesUnder (WrapOps ops) = map_option (traced id (\<lambda>p y. recordRead p 0)) (o_CollectFilesUnder ops)"
  "o_WriteFile (WrapOps ops) =
     map_option (traced fst (\<lambda>x y. recordWrite (fst x) (int (length (snd x))))) (o_WriteFile ops)"
  "o_AppendFile (WrapOps ops) =
     map_option (traced fst (\<lambda>x y. recordAppend (fst x) (int (length (snd x))))) (o_AppendFile ops)"
  "o_EditFile (WrapOps ops) = map_option (traced_edit ops) (o_EditFile ops)"
  "o_MakeDir (WrapOps ops) = map_option (traced id (\<lambda>p y. recordCreatedDir p)) (o_MakeDir ops)"
  "o_RemoveFile (WrapOps ops) = map_option (traced id (\<lambda>p y. recordRemoved p)) (o_RemoveFile ops)"
  "o_RemoveDir (WrapOps ops) = map_option (traced id (\<lambda>p y. recordRemoved p)) (o_RemoveDir ops)"
  "o_ApplyMutations (WrapOps ops) = map_option traced_mutations (o_ApplyMutations ops)"
  by (simp_all add: WrapOps_def)

lemma pred_option_map: "pred_option P (map_option f x) \<longleftrightarrow> pred_option (P \<circ> f) x"
  by (cases x) simp_all

lemma pred_option_traced:
  "pred_option keeps_trace x \<Longrightarrow> (\<And>a b. records (d a b)) \<Longrightarrow> pred_option (keeps_trace \<circ> traced p d) x"
  by (cases x) (simp_all add: traced_keeps)

lemma pred_option_traced_mutations:
  "pred_option keeps_trace x \<Longrightarrow> pred_option (keeps_trace \<circ> traced_mutations) x"
  by (cases x) (simp_all add: traced_mutations_keeps)

text \<open>Evidence is never lost: if the callbacks leave the collected lists well formed (no duplicate,
  blank or root path) and only add to them, then so do the callbacks \<open>WrapOps\<close> makes of them.\<close>

theorem WrapOps_keeps_trace:
  assumes "ops_keep_trace ops" shows "ops_keep_trace (WrapOps ops)"
proof -
  have "pred_option (keeps_trace \<circ> traced_edit ops) (o_EditFile ops)"
    using assms by (cases "o_EditFile ops"; cases "o_ReadRawContent ops")
      (auto simp: ops_keep_trace_def intro!: traced_edit_keeps)
  then show ?thesis
    using assms unfolding ops_keep_trace_def WrapOps_sel pred_option_map
    by (elim conjE) (intro conjI pred_option_traced pred_option_traced_mutations records_record records_id; assumption)
qed

lemma files_ops_keep_trace: "ops_keep_trace files_ops"
  by (simp add: ops_keep_trace_def files_ops_def zero_ops_def keeps_trace_def sys_grows_def option.rel_refl)

theorem WrapOps_keeps_trace_witness: "ops_keep_trace (WrapOps files_ops)"
  using files_ops_keep_trace by (rule WrapOps_keeps_trace)

text \<open>A mutation the wrapped callbacks report as done is in the trace with the bytes it wrote, and
  one refused for lack of permission is in the list of denied paths: whatever a write callback does to
  the rest of the state, its path is requested before it runs and accounted for after it.\<close>

theorem traced_write_evidence:
  assumes "o_WriteFile ops = Some w" and "\<And>x s. sy_trace (snd (w x s)) = sy_trace s"
    and "sy_trace s = Some t" and "call (o_WriteFile (WrapOps ops)) (p, content) s = (r, s')"
  shows "\<exists>t'. sy_trace s' = Some t' \<and> recorded p (tr_RequestedPaths t') \<and>
    (case r of
       Inr _ \<Rightarrow> recorded p (tr_WrittenPaths t') \<and> tr_BytesWritten t' = tr_BytesWritten t + int (length content)
     | Inl e \<Rightarrow> tr_BytesWritten t' = tr_BytesWritten t \<and> tr_WrittenPaths t' = tr_WrittenPaths t \<and>
         (isDeniedPathError e \<longrightarrow> recorded p (tr_DeniedPaths t')))"
proof -
  let ?s = "on_trace (recordRequested p) s"
  obtain q s1 where w: "w (p, content) ?s = (q, s1)" by (cases "w (p, content) ?s")
  have t: "sy_trace s1 = Some (recordRequested p t)"
    using assms(2) [of "(p, content)" ?s] assms(3) w by simp
  have rs: "traced fst (\<lambda>x y. recordWrite (fst x) (int (length (snd x)))) w (p, content) s = (r, s')"
    using assms(1,4) by simp
  show ?thesis
  proof (cases q)
    case (Inl e)
    then have "r = Inl e" "s' = (if isDeniedPathError e then on_trace (recordDenied p) s1 else s1)"
      using rs w by (auto simp: traced_def)
    then show ?thesis using t by (simp add: record_defs add_path_recorded)
  next
    case (Inr y)
    then have "r = Inr y" "s' = on_trace (recordWrite p (int (length content))) s1"
      using rs w by (auto simp: traced_def)
    then show ?thesis using t by (simp add: record_defs add_path_recorded)
  qed
qed

theorem traced_write_evidence_witness:
  "\<exists>t'. sy_trace (snd (call (o_WriteFile (WrapOps files_ops)) (''/a'', ''xy'')
      ((live_sys [])\<lparr>sy_trace := Some empty_trace\<rparr>))) = Some t' \<and> recorded ''/a'' (tr_RequestedPaths t')"
proof -
  have "o_WriteFile files_ops = Some write_file" by (simp add: files_ops_def)
  from traced_write_evidence [OF this, of "(live_sys [])\<lparr>sy_trace := Some empty_trace\<rparr>" empty_trace
      "''/a''" "''xy''" "fst (call (o_WriteFile (WrapOps files_ops)) (''/a'', ''xy'')
      ((live_sys [])\<lparr>sy_trace := Some empty_trace\<rparr>))"
      "snd (call (o_WriteFile (WrapOps files_ops)) (''/a'', ''xy'') ((live_sys [])\<lparr>sy_trace := Some empty_trace\<rparr>))"]
  show ?thesis by auto
qed

end
