(* ===== verification/Exec_Output.thy ===== *)
theory Exec_Output
  imports Trace_Collector
begin

section \<open>Outputs and their limit (\<open>orchestrator.go\<close>, \<open>script_runner.go\<close>)\<close>

text \<open>
  The result of a command is a pair of texts and an exit code. This theory models how the engine
  joins texts, and how it cuts an output to the policy's limit without splitting a UTF-8 encoding:
  the cut is the longest prefix within the limit that is valid UTF-8.
\<close>

subsection \<open>UTF-8\<close>

text \<open>\<open>utf8.ValidString\<close>: the number of bytes of a valid encoding at the front of a string.\<close>

definition cont_byte :: "nat \<Rightarrow> nat \<Rightarrow> char \<Rightarrow> bool" where
  "cont_byte lo hi c \<longleftrightarrow> lo \<le> (of_char c :: nat) \<and> (of_char c :: nat) \<le> hi"

definition utf8_width :: "string \<Rightarrow> nat option" where
  "utf8_width s =
     (case s of [] \<Rightarrow> None
      | c # t \<Rightarrow>
        (let n = (of_char c :: nat); at = (\<lambda>i lo hi. i < length t \<and> cont_byte lo hi (t ! i)) in
         if n < 128 then Some 1
         else if 194 \<le> n \<and> n \<le> 223 then (if at 0 128 191 then Some 2 else None)
         else if 224 \<le> n \<and> n \<le> 239 then
           (if at 0 (if n = 224 then 160 else 128) (if n = 237 then 159 else 191) \<and> at 1 128 191 then Some 3 else None)
         else if 240 \<le> n \<and> n \<le> 244 then
           (if at 0 (if n = 240 then 144 else 128) (if n = 244 then 143 else 191) \<and> at 1 128 191 \<and> at 2 128 191
            then Some 4 else None)
         else None))"

lemma utf8_width_pos: "utf8_width s = Some k \<Longrightarrow> 0 < k \<and> s \<noteq> []"
  by (auto simp: utf8_width_def Let_def split: list.splits if_splits)

function valid_utf8 :: "string \<Rightarrow> bool" where
  "valid_utf8 s =
     (if s = [] then True else case utf8_width s of None \<Rightarrow> False | Some k \<Rightarrow> valid_utf8 (drop k s))"
  by pat_completeness auto
termination
proof (relation "measure length", goal_cases)
  case (2 s k)
  then have "0 < k \<and> s \<noteq> []" by (simp add: utf8_width_pos)
  then show ?case by (cases s) auto
qed simp

declare valid_utf8.simps [simp del]

lemma valid_utf8_Nil [simp]: "valid_utf8 []"
  by (simp add: valid_utf8.simps [of "[]"])

subsection \<open>Execution outputs\<close>

record execOutput =
  xo_stdout :: string
  xo_stderr :: string
  xo_code :: int

definition empty_output :: execOutput where
  "empty_output = \<lparr>xo_stdout = [], xo_stderr = [], xo_code = 0\<rparr>"

definition fail_output :: "string \<Rightarrow> int \<Rightarrow> execOutput" where
  "fail_output msg code = \<lparr>xo_stdout = msg, xo_stderr = [], xo_code = code\<rparr>"

definition contextExecOutput :: "go_error \<Rightarrow> execOutput" where
  "contextExecOutput err = fail_output (''execute: '' @ error_text err) ExitCodeGeneral"

definition outputSize :: "execOutput \<Rightarrow> nat" where
  "outputSize out = length (xo_stdout out) + length (xo_stderr out)"

fun drop_to_valid :: "nat \<Rightarrow> string \<Rightarrow> string" where
  "drop_to_valid 0 s = []"
| "drop_to_valid (Suc n) s =
     (if valid_utf8 (take (Suc n) s) then take (Suc n) s else drop_to_valid n s)"

definition truncateUTF8String :: "string \<Rightarrow> nat \<Rightarrow> string" where
  "truncateUTF8String value limit =
     (if limit = 0 \<or> value = [] then []
      else if length value \<le> limit then value
      else drop_to_valid limit value)"

definition truncateExecOutput :: "execOutput \<Rightarrow> int \<Rightarrow> execOutput" where
  "truncateExecOutput out limit =
     (if limit \<le> 0 then out
      else if int (outputSize out) \<le> limit then out
      else let o1 = truncateUTF8String (xo_stdout out) (nat limit);
               o2 = truncateUTF8String (xo_stderr out) (nat limit - length o1)
           in \<lparr>xo_stdout = o1, xo_stderr = o2, xo_code = (if xo_code out = 0 then ExitCodeGeneral else xo_code out)\<rparr>)"

definition flattenExecOutput :: "execOutput \<Rightarrow> string" where
  "flattenExecOutput out =
     (if xo_stdout out = [] then xo_stderr out
      else if xo_stderr out = [] then xo_stdout out
      else if has_suffix (xo_stdout out) [CHR 0x0A] then xo_stdout out @ xo_stderr out
      else xo_stdout out @ [CHR 0x0A] @ xo_stderr out)"

definition appendOutputText :: "string \<Rightarrow> string \<Rightarrow> string" where
  "appendOutputText base addition =
     (if trim_space base = [] then addition
      else if trim_space addition = [] then base
      else if has_suffix base [CHR 0x0A] then base @ addition
      else base @ [CHR 0x0A] @ addition)"

definition enforceOutputLimit :: "execOutput \<Rightarrow> ExecutionPolicy \<Rightarrow> 'e sys \<Rightarrow> execOutput \<times> 'e sys" where
  "enforceOutputLimit out policy s =
     (if ep_MaxOutputBytes policy > 0 \<and> int (outputSize out) > ep_MaxOutputBytes policy
      then (truncateExecOutput out (ep_MaxOutputBytes policy), markTraceOutputTruncated s)
      else (out, s))"

subsection \<open>Lemmas\<close>

lemma drop_to_valid_take: "\<exists>k\<le>n. drop_to_valid n s = take k s"
  by (induction n) (auto intro: le_SucI)

lemma drop_to_valid_valid: "valid_utf8 (drop_to_valid n s)"
  by (induction n) auto

lemma drop_to_valid_longest:
  "k \<le> n \<Longrightarrow> valid_utf8 (take k s) \<Longrightarrow> length (take k s) \<le> length (drop_to_valid n s)"
proof (induction n)
  case (Suc n)
  show ?case
  proof (cases "k = Suc n")
    case False
    then show ?thesis using Suc by (auto simp: min_def)
  qed (use Suc in simp)
qed simp

lemma truncateUTF8String_prefix: "prefix (truncateUTF8String v n) v"
  using drop_to_valid_take [of n v] by (auto simp: truncateUTF8String_def take_is_prefix)

lemma truncateUTF8String_length: "length (truncateUTF8String v n) \<le> n"
  using drop_to_valid_take [of n v] by (auto simp: truncateUTF8String_def)

lemma truncateUTF8String_id: "length v \<le> n \<Longrightarrow> truncateUTF8String v n = v"
  by (auto simp: truncateUTF8String_def)

lemma truncateUTF8String_valid: "valid_utf8 v \<Longrightarrow> valid_utf8 (truncateUTF8String v n)"
  by (simp add: truncateUTF8String_def drop_to_valid_valid)

lemma truncateUTF8String_longest:
  assumes "valid_utf8 v" and "prefix p v" and "valid_utf8 p" and "length p \<le> n"
  shows "length p \<le> length (truncateUTF8String v n)"
proof -
  have p: "p = take (length p) v" using assms(2) by (metis append_eq_conv_conj prefix_def)
  show ?thesis
  proof (cases "n = 0 \<or> v = [] \<or> length v \<le> n")
    case True
    then show ?thesis
      using assms(2,4) by (auto simp: truncateUTF8String_def prefix_length_le)
  next
    case False
    then show ?thesis
      using drop_to_valid_longest [of "length p" n v] assms p by (simp add: truncateUTF8String_def)
  qed
qed

lemma truncateExecOutput_size:
  assumes "0 < limit" shows "int (outputSize (truncateExecOutput out limit)) \<le> limit"
proof (cases "int (outputSize out) \<le> limit")
  case False
  let ?o1 = "truncateUTF8String (xo_stdout out) (nat limit)"
  have "length ?o1 \<le> nat limit"
    "length (truncateUTF8String (xo_stderr out) (nat limit - length ?o1)) \<le> nat limit - length ?o1"
    by (rule truncateUTF8String_length)+
  then have "length ?o1 + length (truncateUTF8String (xo_stderr out) (nat limit - length ?o1)) \<le> nat limit"
    by linarith
  then show ?thesis using assms False by (simp add: truncateExecOutput_def outputSize_def Let_def)
qed (simp add: truncateExecOutput_def)

lemma enforceOutputLimit_keeps [simp]:
  "sy_env (snd (enforceOutputLimit out p s)) = sy_env s"
  "sy_cwd (snd (enforceOutputLimit out p s)) = sy_cwd s"
  "sy_ctx (snd (enforceOutputLimit out p s)) = sy_ctx s"
  by (simp_all add: enforceOutputLimit_def markTraceOutputTruncated_def)

lemma flattenExecOutput_length:
  "outputSize out \<le> length (flattenExecOutput out) \<and> length (flattenExecOutput out) \<le> Suc (outputSize out)"
  by (auto simp: flattenExecOutput_def outputSize_def)

subsection \<open>Properties\<close>

text \<open>An output that passed the limit is no longer than the limit; it is a prefix of what the command
  wrote on each stream; what is cut off is reported by an exit code that is not zero and by the trace;
  and an output within the limit is not touched.\<close>

theorem enforceOutputLimit_bound:
  assumes "enforceOutputLimit out policy s = (out', s')" and "0 < ep_MaxOutputBytes policy"
  shows "int (outputSize out') \<le> ep_MaxOutputBytes policy \<and>
    prefix (xo_stdout out') (xo_stdout out) \<and> prefix (xo_stderr out') (xo_stderr out) \<and>
    (out' = out \<or> xo_code out' \<noteq> 0 \<and> pred_option tr_OutputTruncated (sy_trace s')) \<and>
    (int (outputSize out) \<le> ep_MaxOutputBytes policy \<longrightarrow> out' = out \<and> s' = s)"
proof (cases "int (outputSize out) > ep_MaxOutputBytes policy")
  case True
  have o: "out' = truncateExecOutput out (ep_MaxOutputBytes policy)" "s' = markTraceOutputTruncated s"
    using assms True by (simp_all add: enforceOutputLimit_def)
  have "xo_code out' \<noteq> 0" "prefix (xo_stdout out') (xo_stdout out)" "prefix (xo_stderr out') (xo_stderr out)"
    unfolding o using assms(2) True
    by (simp_all add: truncateExecOutput_def Let_def truncateUTF8String_prefix ExitCodeGeneral_def)
  moreover have "pred_option tr_OutputTruncated (sy_trace s')"
    unfolding o by (cases "sy_trace s") (simp_all add: markTraceOutputTruncated_def)
  moreover have "int (outputSize out') \<le> ep_MaxOutputBytes policy"
    unfolding o using assms(2) by (rule truncateExecOutput_size)
  ultimately show ?thesis using True by simp
qed (use assms in \<open>simp add: enforceOutputLimit_def\<close>)

theorem enforceOutputLimit_bound_witness:
  "int (outputSize (fst (enforceOutputLimit (fail_output ''abcdef'' 0) (DefaultPolicy\<lparr>ep_MaxOutputBytes := 3\<rparr>)
     (live_sys ())))) \<le> 3"
  using enforceOutputLimit_bound [of "fail_output ''abcdef'' 0" "DefaultPolicy\<lparr>ep_MaxOutputBytes := 3\<rparr>"
      "live_sys ()", OF surjective_pairing] by simp

text \<open>The cut never splits an encoding: of valid UTF-8 it keeps valid UTF-8, and it keeps as much of
  it as the limit allows.\<close>

theorem truncateUTF8String_spec:
  assumes "valid_utf8 v"
  shows "prefix (truncateUTF8String v n) v \<and> length (truncateUTF8String v n) \<le> n \<and>
    valid_utf8 (truncateUTF8String v n) \<and>
    (\<forall>p. prefix p v \<and> valid_utf8 p \<and> length p \<le> n \<longrightarrow> length p \<le> length (truncateUTF8String v n))"
  using assms truncateUTF8String_longest
  by (simp add: truncateUTF8String_prefix truncateUTF8String_length truncateUTF8String_valid)

text \<open>The euro sign, three bytes, does not fit behind one byte within a limit of three.\<close>

theorem truncateUTF8String_spec_witness:
  "truncateUTF8String [CHR ''a'', CHR 0xE2, CHR 0x82, CHR 0xAC] 3 = ''a'' \<and>
   prefix (truncateUTF8String [CHR ''a'', CHR 0xE2, CHR 0x82, CHR 0xAC] 3) [CHR ''a'', CHR 0xE2, CHR 0x82, CHR 0xAC]"
proof -
  have v: "valid_utf8 [CHR ''a'', CHR 0xE2, CHR 0x82, CHR 0xAC]"
    by (simp add: valid_utf8.simps utf8_width_def cont_byte_def)
  have "truncateUTF8String [CHR ''a'', CHR 0xE2, CHR 0x82, CHR 0xAC] 3 = ''a''"
    by (simp add: truncateUTF8String_def eval_nat_numeral valid_utf8.simps utf8_width_def cont_byte_def)
  with truncateUTF8String_spec [OF v] show ?thesis by blast
qed

text \<open>A pipeline compares the length of the joined streams with the limit, but cuts by their sum: at the
  boundary the output is declared truncated, with a failing exit code, though nothing was cut.\<close>

lemma joined_limit_off_by_one:
  "length (flattenExecOutput \<lparr>xo_stdout = ''a'', xo_stderr = ''b'', xo_code = 0\<rparr>) > 2 \<and>
   truncateExecOutput \<lparr>xo_stdout = ''a'', xo_stderr = ''b'', xo_code = 1\<rparr> 2 =
     \<lparr>xo_stdout = ''a'', xo_stderr = ''b'', xo_code = 1\<rparr>"
  by (simp add: flattenExecOutput_def truncateExecOutput_def outputSize_def has_suffix_def)

end
