(* ===== verification/Orchestrator.thy ===== *)
theory Orchestrator
  imports Command_Catalog Exec_Output
begin

section \<open>Running one command (\<open>orchestrator.go\<close>)\<close>

text \<open>
  \<open>runCommand\<close> expands aliases, reads the command reference, and runs a builtin of the registry or
  hands the command to the adapter. A builtin may run further commands through \<open>Dispatch\<close>; the depth
  the Go code keeps in the context is the number of dispatches still allowed, so the recursion is
  structural. Adapters and builtins are parameters: nothing is assumed of them.
\<close>

definition maxDispatchDepth :: nat where "maxDispatchDepth = 8"

subsection \<open>External commands\<close>

definition audit_event :: "string \<Rightarrow> string \<Rightarrow> string list \<Rightarrow> int \<Rightarrow> string \<Rightarrow> AuditEvent" where
  "audit_event phase cmd args code msg =
     \<lparr>ae_Phase = phase, ae_Command = cmd, ae_Args = args, ae_ExitCode = code, ae_Message = msg\<rparr>"

definition effectiveRawExitCode :: "ExternalCommandResult \<Rightarrow> int option" where
  "effectiveRawExitCode result =
     (case er_RawExitCode result of
        Some c \<Rightarrow> Some c
      | None \<Rightarrow> (if er_ExitCode result < 0 then Some (er_ExitCode result) else None))"

definition externalOutcomeKindForResult :: "ExternalCommandResult \<Rightarrow> ExternalOutcomeKind" where
  "externalOutcomeKindForResult result =
     (if er_ExitCode result = 0 then OutcomeSuccess else OutcomeNonZeroExit)"

definition blank_output :: "execOutput \<Rightarrow> bool" where
  "blank_output out \<longleftrightarrow> trim_space (xo_stdout out) = [] \<and> trim_space (xo_stderr out) = []"

definition external_error ::
  "'e Ops \<Rightarrow> string \<Rightarrow> string \<Rightarrow> string list \<Rightarrow> ExternalCommandRequest \<Rightarrow> ExternalCommandResult \<Rightarrow> go_error \<Rightarrow>
   'e sys \<Rightarrow> execOutput \<times> 'e sys" where
  "external_error ops cmd display args request result err s =
     (let output = \<lparr>xo_stdout = er_Stdout result, xo_stderr = er_Stderr result, xo_code = ExitCodeGeneral\<rparr>;
          canonicalTarget = (if trim_space (er_CanonicalTarget result) = [] then trim_space (ec_RawPath request)
                             else trim_space (er_CanonicalTarget result));
          providerError = (if trim_space (er_ProviderError result) = [] then error_text err
                           else trim_space (er_ProviderError result));
          step = \<lparr>ts_Command = cmd, ts_Argv = cmd # args, ts_Namespace = CommandNamespaceExternal,
                  ts_ResolvedPath = canonicalTarget, ts_Executed = False,
                  ts_OutcomeKind = OutcomeProviderFailure, ts_ExitCode = Some ExitCodeGeneral,
                  ts_RawExitCode = effectiveRawExitCode result,
                  ts_StdoutBytes = Some (int (length (er_Stdout result))),
                  ts_StderrBytes = Some (int (length (er_Stderr result))),
                  ts_ProviderError = providerError, ts_TerminationKind = trim_space (er_TerminationKind result)\<rparr>;
          finish = (\<lambda>output step s. (output,
             on_trace (\<lambda>t. recordExternalOutcomeStep step
               (recordExternalOutput (er_Stdout result) (er_Stderr result) t)) s))
      in if is_external_not_found err then
           (let out = display @ '': not found'';
                s = emitAudit ops (audit_event AuditPhaseCommandError cmd args ExitCodeGeneral out) s;
                output = (if blank_output output then output\<lparr>xo_stdout := out\<rparr> else output)
            in finish output (step\<lparr>ts_OutcomeKind := OutcomeCommandNotFound\<rparr>) s)
         else if is_unsupported err then
           (let out = display @ '': Not supported'';
                s = emitAudit ops (audit_event AuditPhaseCommandError cmd args ExitCodeUnsupported out) s;
                output = output\<lparr>xo_code := ExitCodeUnsupported\<rparr>;
                output = (if blank_output output then output\<lparr>xo_stdout := out\<rparr> else output)
            in finish output (step\<lparr>ts_OutcomeKind := OutcomeUnsupported, ts_ExitCode := Some ExitCodeUnsupported\<rparr>) s)
         else
           (let step = (if is_deadline err then step\<lparr>ts_OutcomeKind := OutcomeTimedOut\<rparr>
                        else if is_canceled err then step\<lparr>ts_OutcomeKind := OutcomeCanceled\<rparr> else step);
                out = display @ '': '' @ error_text err;
                s = emitAudit ops (audit_event AuditPhaseCommandError cmd args ExitCodeGeneral out) s;
                output = (if blank_output output then output\<lparr>xo_stderr := out\<rparr> else output)
            in finish output step s))"

definition external_result ::
  "'e Ops \<Rightarrow> string \<Rightarrow> string \<Rightarrow> string list \<Rightarrow> ExternalCommandRequest \<Rightarrow> ExternalCommandResult \<Rightarrow>
   'e sys \<Rightarrow> execOutput \<times> 'e sys" where
  "external_result ops cmd display args request result s =
     (let compatCode = (if er_ExitCode result < 0 then ExitCodeGeneral else er_ExitCode result);
          target = (if trim_space (er_CanonicalTarget result) = [] then trim_space (ec_RawPath request)
                    else er_CanonicalTarget result);
          output = \<lparr>xo_stdout = er_Stdout result, xo_stderr = er_Stderr result, xo_code = compatCode\<rparr>;
          outcome = \<lparr>ts_Command = cmd, ts_Argv = cmd # args, ts_Namespace = CommandNamespaceExternal,
                     ts_ResolvedPath = trim_space target, ts_Executed = True,
                     ts_OutcomeKind = externalOutcomeKindForResult result, ts_ExitCode = Some compatCode,
                     ts_RawExitCode = effectiveRawExitCode result,
                     ts_StdoutBytes = Some (int (length (er_Stdout result))),
                     ts_StderrBytes = Some (int (length (er_Stderr result))),
                     ts_ProviderError = trim_space (er_ProviderError result),
                     ts_TerminationKind = trim_space (er_TerminationKind result)\<rparr>;
          executed = empty_step\<lparr>ts_Command := cmd, ts_Argv := cmd # args, ts_Namespace := CommandNamespaceExternal,
                                ts_ResolvedPath := trim_space target, ts_Executed := True\<rparr>;
          s = on_trace (\<lambda>t. recordExecutedStep executed (recordExternalOutcomeStep outcome
                (recordExternalOutput (er_Stdout result) (er_Stderr result) t))) s
      in if er_ExitCode result = 0 then
           (output, emitAudit ops (audit_event AuditPhaseCommandEnd cmd args 0 (trim_space (flattenExecOutput output))) s)
         else
           (let output = (if blank_output output then output\<lparr>xo_stderr := display @ '': command failed''\<rparr> else output)
            in (output, emitAudit ops (audit_event AuditPhaseCommandError cmd args (xo_code output)
                  (trim_space (flattenExecOutput output))) s)))"

definition external_request :: "CommandReference \<Rightarrow> string list \<Rightarrow> string \<Rightarrow> bool \<Rightarrow> ExternalCommandRequest" where
  "external_request ref args input hasInput =
     (let cmd = trim_space (cr_Name ref);
          display = (if trim_space (cr_Raw ref) = [] then cmd else trim_space (cr_Raw ref)) in
      \<lparr>ec_Command = (if normalizeExternalCommandName cmd = [] then trim_space cmd
                      else normalizeExternalCommandName cmd),
       ec_RawPath = (if trim_space (cr_ResolvedPath ref) = [] then display else cr_ResolvedPath ref),
       ec_Args = args, ec_Stdin = input, ec_HasStdin = hasInput\<rparr>)"

definition runExternalCommand ::
  "'e Ops \<Rightarrow> CommandReference \<Rightarrow> string list \<Rightarrow> string \<Rightarrow> bool \<Rightarrow> 'e sys \<Rightarrow> execOutput \<times> 'e sys" where
  "runExternalCommand ops ref args input hasInput s =
     (case executionContextErr s of
        (Some err, s) \<Rightarrow> (contextExecOutput err, s)
      | (None, s) \<Rightarrow>
        (let cmd = trim_space (cr_Name ref);
             display = (if trim_space (cr_Raw ref) = [] then cmd else trim_space (cr_Raw ref));
             s = emitAudit ops (audit_event AuditPhaseCommandStart cmd args 0 []) s
         in case o_RunExternalCommand ops of
              None \<Rightarrow>
                (let out = display @ '': Not supported'';
                     step = empty_step\<lparr>ts_Command := cmd, ts_Argv := cmd # args,
                              ts_Namespace := CommandNamespaceExternal, ts_ResolvedPath := trim_space display,
                              ts_OutcomeKind := OutcomeUnsupported, ts_ExitCode := Some ExitCodeUnsupported,
                              ts_ProviderError := out\<rparr>;
                     s = on_trace (recordExternalOutcomeStep step) s;
                     s = emitAudit ops (audit_event AuditPhaseCommandError cmd args ExitCodeUnsupported out) s
                 in (fail_output out ExitCodeUnsupported, s))
            | Some run \<Rightarrow>
                (let request = external_request ref args input hasInput
                 in case run request s of
                      ((result, Some err), s) \<Rightarrow> external_error ops cmd display args request result err s
                    | ((result, None), s) \<Rightarrow> external_result ops cmd display args request result s)))"

subsection \<open>Builtins and dispatch\<close>

definition normalizeCommandReferenceForOps :: "'e Ops \<Rightarrow> string \<Rightarrow> 'e sys \<Rightarrow> (go_error + CommandReference) \<times> 'e sys" where
  "normalizeCommandReferenceForOps ops raw s =
     (let resolve = (if o_ResolvePath ops = None then o_RequireAbsolutePath ops else o_ResolvePath ops) in
      case NormalizeCommandReference raw resolve s of
        (Inl e, s) \<Rightarrow> (Inl e, s)
      | (Inr ref, s) \<Rightarrow>
          (if cr_Namespace ref = [] \<and> trim_space (cr_Name ref) = []
           then (Inl (ErrText (trim_space raw @ '': command reference is empty'')), s) else (Inr ref, s)))"

type_synonym 'e dispatcher = "string list \<Rightarrow> string \<Rightarrow> bool \<Rightarrow> 'e sys \<Rightarrow> (string \<times> int) \<times> 'e sys"

definition builtin_runtime :: "'e Registry \<Rightarrow> 'e Ops \<Rightarrow> 'e dispatcher \<Rightarrow> string \<Rightarrow> bool \<Rightarrow> 'e CommandRuntime" where
  "builtin_runtime reg ops dispatch input hasInput =
     \<lparr>rt_Ops = ops, rt_Stdin = input, rt_HasStdin = hasInput, rt_Dispatch = dispatch,
      rt_LookupManual = BuiltinManual reg, rt_LookupDetailedManual = BuiltinDetailedManual reg,
      rt_ListBuiltinNames = ListNames reg, rt_LookupBuiltinDoc = LookupBuiltinDoc reg,
      rt_BuiltinCommandDocs = BuiltinCommandDocs reg\<rparr>"

definition run_builtin ::
  "'e Registry \<Rightarrow> 'e Ops \<Rightarrow> 'e dispatcher \<Rightarrow> 'e CommandSpec \<Rightarrow> string \<Rightarrow> string list \<Rightarrow> string \<Rightarrow> bool \<Rightarrow>
   'e sys \<Rightarrow> execOutput \<times> 'e sys" where
  "run_builtin reg ops dispatch spec commandName args input hasInput s =
     (if \<not> isCommandAllowedByProfile spec (o_Profile ops) then
        (fail_output (commandName @ '': not supported in profile '' @ o_Profile ops) ExitCodeUnsupported, s)
      else case cs_Run spec of
        None \<Rightarrow> (fail_output (error_text nil_call) ExitCodeGeneral, s)
      | Some run \<Rightarrow>
          (let s = emitAudit ops (audit_event AuditPhaseCommandStart commandName (tl args) 0 []) s in
           case run (builtin_runtime reg ops dispatch input hasInput) (tl args) s of
             ((out, code), s) \<Rightarrow>
               (let result = \<lparr>xo_stdout = out, xo_stderr = [], xo_code = code\<rparr>;
                    phase = (if code \<noteq> 0 then AuditPhaseCommandError else AuditPhaseCommandEnd);
                    s = emitAudit ops (audit_event phase commandName (tl args) code
                          (trim_space (flattenExecOutput result))) s;
                    s = on_trace (recordExecutedStep (empty_step\<lparr>ts_Command := commandName, ts_Argv := args,
                          ts_Namespace := CommandNamespaceBuiltin, ts_Executed := True, ts_ExitCode := Some code\<rparr>)) s
                in enforceOutputLimit result (o_Policy ops) s)))"

definition run_command_body ::
  "'e Registry \<Rightarrow> 'e Ops \<Rightarrow> 'e dispatcher \<Rightarrow> string list \<Rightarrow> string \<Rightarrow> bool \<Rightarrow> 'e sys \<Rightarrow> execOutput \<times> 'e sys" where
  "run_command_body reg ops dispatch args input hasInput s =
     (case executionContextErr s of
        (Some err, s) \<Rightarrow> (contextExecOutput err, s)
      | (None, s) \<Rightarrow>
        (if args = [] then (fail_output ''execute: missing command'' ExitCodeUsage, s)
         else case expandCommandAlias args (o_CommandAliases ops) of
           Inl err \<Rightarrow> (fail_output (''execute: '' @ error_text err) ExitCodeUsage, s)
         | Inr args \<Rightarrow>
             (case normalizeCommandReferenceForOps ops (trim_space (hd args)) s of
                (Inl err, s) \<Rightarrow> (fail_output (error_text err) ExitCodeGeneral, s)
              | (Inr ref, s) \<Rightarrow>
                  (let external = (\<lambda>s.
                     if cr_Namespace ref = CommandNamespaceBuiltin
                     then (fail_output (cr_Raw ref @ '': not found'') ExitCodeGeneral, s)
                     else (case runExternalCommand ops ref (tl args) input hasInput s of
                             (result, s) \<Rightarrow> enforceOutputLimit result (o_Policy ops) s))
                   in if cr_Namespace ref \<noteq> CommandNamespaceExternal
                      then (case Lookup reg (cr_Name ref) of
                              Some spec \<Rightarrow> run_builtin reg ops dispatch spec (cr_Name ref) args input hasInput s
                            | None \<Rightarrow> external s)
                      else external s))))"

primrec command_dispatch :: "nat \<Rightarrow> 'e Registry \<Rightarrow> 'e Ops \<Rightarrow> 'e dispatcher" where
  "command_dispatch 0 reg ops = (\<lambda>args input hasInput s.
     ((''execute: dispatch recursion depth exceeds limit ('' @ show_nat maxDispatchDepth @ '')'', ExitCodeGeneral), s))"
| "command_dispatch (Suc n) reg ops = (\<lambda>args input hasInput s.
     case run_command_body reg ops (command_dispatch n reg ops) args input hasInput s of
       (result, s') \<Rightarrow> ((flattenExecOutput result, xo_code result), s'))"

definition runCommand :: "'e Registry \<Rightarrow> 'e Ops \<Rightarrow> string list \<Rightarrow> string \<Rightarrow> bool \<Rightarrow> 'e sys \<Rightarrow> execOutput \<times> 'e sys" where
  "runCommand reg ops = run_command_body reg ops (command_dispatch maxDispatchDepth reg ops)"

subsection \<open>Lemmas\<close>

lemmas exit_nonzero = ExitCodeGeneral_def ExitCodeUsage_def ExitCodeUnsupported_def

definition within_output :: "ExecutionPolicy \<Rightarrow> execOutput \<Rightarrow> bool" where
  "within_output policy out \<longleftrightarrow> (0 < ep_MaxOutputBytes policy \<longrightarrow> int (outputSize out) \<le> ep_MaxOutputBytes policy)"

lemma enforceOutputLimit_within: "within_output policy (fst (enforceOutputLimit out policy s))"
  by (auto simp: within_output_def enforceOutputLimit_def truncateExecOutput_size)

lemma enforceOutputLimit_withinD:
  "enforceOutputLimit out policy s = (out', s') \<Longrightarrow> within_output policy out'"
  using enforceOutputLimit_within [of policy out s] by simp

lemma enforceOutputLimit_code:
  "xo_code (fst (enforceOutputLimit out policy s)) = 0 \<Longrightarrow> xo_code out = 0"
  by (auto simp: enforceOutputLimit_def truncateExecOutput_def Let_def exit_nonzero split: if_splits)

lemma fail_output_code [simp]: "xo_code (fail_output m c) = c"
  by (simp add: fail_output_def)

lemma contextExecOutput_code [simp]: "xo_code (contextExecOutput e) = 1"
  by (simp add: contextExecOutput_def ExitCodeGeneral_def)

lemma external_error_code: "xo_code (fst (external_error ops cmd display args request result err s)) \<noteq> 0"
  by (simp add: external_error_def Let_def exit_nonzero)

lemma external_result_code:
  "xo_code (fst (external_result ops cmd display args request result s)) = 0 \<longleftrightarrow> er_ExitCode result = 0"
  by (auto simp: external_result_def Let_def exit_nonzero)

lemma run_builtin_within:
  assumes "run_builtin reg ops dispatch spec n args input hasInput s = (out, s')" and "xo_code out = 0"
  shows "within_output (o_Policy ops) out"
proof (cases "isCommandAllowedByProfile spec (o_Profile ops)")
  case False
  then show ?thesis using assms by (auto simp: run_builtin_def exit_nonzero)
next
  case True
  show ?thesis
  proof (cases "cs_Run spec")
    case None
    then show ?thesis using assms True by (auto simp: run_builtin_def exit_nonzero)
  next
    case (Some run)
    let ?s = "emitAudit ops (audit_event AuditPhaseCommandStart n (tl args) 0 []) s"
    obtain o1 c1 s3 where "run (builtin_runtime reg ops dispatch input hasInput) (tl args) ?s = ((o1, c1), s3)"
      by (metis surj_pair)
    then obtain result s2 where "run_builtin reg ops dispatch spec n args input hasInput s =
        enforceOutputLimit result (o_Policy ops) s2"
      using True Some by (simp add: run_builtin_def Let_def)
    then show ?thesis using assms(1) enforceOutputLimit_within by (metis fst_conv)
  qed
qed

lemma run_command_body_within:
  assumes "run_command_body reg ops dispatch args input hasInput s = (out, s')" and "xo_code out = 0"
  shows "within_output (o_Policy ops) out"
proof -
  obtain s1 where c: "executionContextErr s = (None, s1)"
    using assms by (cases "executionContextErr s"; cases "fst (executionContextErr s)")
      (auto simp: run_command_body_def)
  have a: "args \<noteq> []" using assms c by (auto simp: run_command_body_def exit_nonzero)
  obtain argv where e: "expandCommandAlias args (o_CommandAliases ops) = Inr argv"
    using assms c a by (cases "expandCommandAlias args (o_CommandAliases ops)")
      (auto simp: run_command_body_def exit_nonzero)
  obtain r s2 where n: "normalizeCommandReferenceForOps ops (trim_space (hd argv)) s1 = (r, s2)"
    by (cases "normalizeCommandReferenceForOps ops (trim_space (hd argv)) s1")
  obtain ref where r: "r = Inr ref"
    using assms c a e n by (cases r) (auto simp: run_command_body_def exit_nonzero)
  let ?ext = "if cr_Namespace ref = CommandNamespaceBuiltin
     then (fail_output (cr_Raw ref @ '': not found'') ExitCodeGeneral, s2)
     else (case runExternalCommand ops ref (tl argv) input hasInput s2 of
             (result, s) \<Rightarrow> enforceOutputLimit result (o_Policy ops) s)"
  have eq: "run_command_body reg ops dispatch args input hasInput s =
      (if cr_Namespace ref \<noteq> CommandNamespaceExternal
       then (case Lookup reg (cr_Name ref) of
               Some spec \<Rightarrow> run_builtin reg ops dispatch spec (cr_Name ref) argv input hasInput s2
             | None \<Rightarrow> ?ext)
       else ?ext)"
    by (simp add: run_command_body_def c a e n r Let_def)
  have ext: "within_output (o_Policy ops) out" if "?ext = (out, s')"
    using that assms(2) by (auto simp: exit_nonzero split: if_splits prod.splits dest: enforceOutputLimit_withinD)
  show ?thesis
    using assms eq ext run_builtin_within by (auto split: if_splits option.splits)
qed

subsection \<open>Lemmas: invariants of the state\<close>

text \<open>An invariant of the whole engine: kept by the context, the trace and the audit, by the callbacks
  \<open>runCommand\<close> calls itself, by the adapter, and by every builtin whenever what it dispatches keeps it.\<close>

definition builtin_keeps :: "('e sys \<Rightarrow> bool) \<Rightarrow> 'e Registry \<Rightarrow> 'e Ops \<Rightarrow> bool" where
  "builtin_keeps I reg ops \<longleftrightarrow> (\<forall>n spec run dispatch input hasInput args s.
     Lookup reg n = Some spec \<longrightarrow> cs_Run spec = Some run \<longrightarrow>
     (\<forall>args i h s. I s \<longrightarrow> kept I (dispatch args i h s)) \<longrightarrow> I s \<longrightarrow>
     kept I (run (builtin_runtime reg ops dispatch input hasInput) args s))"

definition engine_invariant :: "('e sys \<Rightarrow> bool) \<Rightarrow> 'e Registry \<Rightarrow> 'e Ops \<Rightarrow> bool" where
  "engine_invariant I reg ops \<longleftrightarrow>
     (\<forall>s. I s \<longrightarrow> kept I (executionContextErr s)) \<and> (\<forall>f s. I s \<longrightarrow> I (on_trace f s)) \<and>
     (\<forall>ev s. I s \<longrightarrow> I (emitAudit ops ev s)) \<and>
     keeps_inv I (o_ResolvePath ops) \<and> keeps_inv I (o_RequireAbsolutePath ops) \<and>
     (\<forall>run req s. o_RunExternalCommand ops = Some run \<longrightarrow> I s \<longrightarrow> kept I (run req s)) \<and>
     builtin_keeps I reg ops"

lemma engine_invariantD:
  assumes "engine_invariant I reg ops" and "I s"
  shows "kept I (executionContextErr s)" "I (on_trace f s)" "I (emitAudit ops ev s)"
    "o_RunExternalCommand ops = Some run \<Longrightarrow> kept I (run req s)"
    "kept I (enforceOutputLimit out policy s)" "kept I (NormalizeCommandReference raw (o_ResolvePath ops) s)"
    "kept I (NormalizeCommandReference raw (o_RequireAbsolutePath ops) s)"
proof -
  note inv = assms(1) [unfolded engine_invariant_def]
  show "kept I (executionContextErr s)" "I (on_trace f s)" "I (emitAudit ops ev s)"
    "o_RunExternalCommand ops = Some run \<Longrightarrow> kept I (run req s)"
    using inv assms(2) by blast+
  show "kept I (enforceOutputLimit out policy s)"
    using inv assms(2) by (simp add: enforceOutputLimit_def markTraceOutputTruncated_def kept_def)
  show "kept I (NormalizeCommandReference raw (o_ResolvePath ops) s)"
    "kept I (NormalizeCommandReference raw (o_RequireAbsolutePath ops) s)"
    unfolding NormalizeCommandReference_def using inv assms(2)
    by - (assumption | rule keep keeps_invD_some | (elim conjE, assumption))+
qed

lemma runExternalCommand_inv:
  assumes "engine_invariant I reg ops" and "I s"
  shows "kept I (runExternalCommand ops ref args input hasInput s)"
  unfolding runExternalCommand_def external_error_def external_result_def
  by (assumption | rule keep engine_invariantD [OF assms(1)] assms(2))+

lemma run_builtin_inv:
  assumes "engine_invariant I reg ops" and "I s" and "Lookup reg n = Some spec"
    and "\<And>args i h s. I s \<Longrightarrow> kept I (dispatch args i h s)"
  shows "kept I (run_builtin reg ops dispatch spec n args input hasInput s)"
proof -
  have run: "kept I (run (builtin_runtime reg ops dispatch input hasInput) (tl args) s)"
    if "cs_Run spec = Some run" "I s" for run s
    using assms(1,3,4) that unfolding engine_invariant_def builtin_keeps_def by blast
  show ?thesis
    unfolding run_builtin_def
    by (assumption | rule keep engine_invariantD [OF assms(1)] run assms(2))+
qed

lemma run_command_body_inv:
  assumes "engine_invariant I reg ops" and "I s" and "\<And>args i h s. I s \<Longrightarrow> kept I (dispatch args i h s)"
  shows "kept I (run_command_body reg ops dispatch args input hasInput s)"
  unfolding run_command_body_def normalizeCommandReferenceForOps_def
  apply (cases "o_ResolvePath ops = None"; simp only: if_True if_False simp_thms)
  by (assumption | rule keep engine_invariantD [OF assms(1)] runExternalCommand_inv [OF assms(1)]
      run_builtin_inv [OF assms(1)] assms(2,3))+

lemma command_dispatch_inv:
  assumes "engine_invariant I reg ops"
  shows "I s \<Longrightarrow> kept I (command_dispatch n reg ops args input hasInput s)"
proof (induction n arbitrary: args input hasInput s)
  case (Suc n)
  show ?case
    unfolding command_dispatch.simps
    by (rule keep run_command_body_inv [OF assms Suc.prems] Suc.IH | assumption)+
qed (simp add: kept_pair)

lemma runCommand_inv:
  assumes "engine_invariant I reg ops" and "I s"
  shows "kept I (runCommand reg ops args input hasInput s)"
  unfolding runCommand_def by (rule run_command_body_inv [OF assms command_dispatch_inv [OF assms(1)]])

subsection \<open>Properties\<close>

text \<open>A command that succeeds, builtin or external, whatever it wrote, returns an output within the
  policy's limit: an output that had to be cut is never reported as a success.\<close>

theorem runCommand_success_within_limit:
  assumes "runCommand reg ops args input hasInput s = (out, s')" and "xo_code out = 0"
    and "0 < ep_MaxOutputBytes (o_Policy ops)"
  shows "int (outputSize out) \<le> ep_MaxOutputBytes (o_Policy ops)"
  using run_command_body_within assms unfolding runCommand_def within_output_def by blast

definition echo_registry :: "'e Registry" where
  "echo_registry = [(''echo'', sample_spec ''echo'')]"

lemma runCommand_echo:
  "runCommand echo_registry (files_ops\<lparr>o_Policy := DefaultPolicy\<rparr>) [''echo'', ''hi''] [] False (live_sys []) =
    (\<lparr>xo_stdout = ''hi'', xo_stderr = [], xo_code = 0\<rparr>, live_sys [])"
  by (simp add: runCommand_def run_command_body_def executionContextErr_live live_sys_def expandCommandAlias_def
      files_ops_def zero_ops_def normalizeCommandReferenceForOps_def NormalizeCommandReference_def trim_space_echo
      looksLikeCommandPath_def contains_char Lookup_def echo_registry_def sample_spec_def run_builtin_def
      isCommandAllowedByProfile_def emitAudit_def Let_def enforceOutputLimit_def DefaultPolicy_def
      outputSize_def on_trace_def CommandNamespaceExternal_def)

theorem runCommand_success_within_limit_witness:
  "int (outputSize \<lparr>xo_stdout = ''hi'', xo_stderr = [], xo_code = 0\<rparr>) \<le>
   ep_MaxOutputBytes (o_Policy (files_ops\<lparr>o_Policy := DefaultPolicy\<rparr>))"
  by (rule runCommand_success_within_limit [OF runCommand_echo]) (simp_all add: DefaultPolicy_def)

text \<open>An external command counts as successful exactly if its adapter returned no error and exit code
  zero: an error of the adapter, a missing adapter, or a negative exit code can never look like success.\<close>

theorem external_success_iff:
  assumes "o_RunExternalCommand ops = Some run" and "executionContextErr s = (None, s1)"
  shows "xo_code (fst (runExternalCommand ops ref args input hasInput s)) = 0 \<longleftrightarrow>
    (\<exists>result s2. run (external_request ref args input hasInput)
        (emitAudit ops (audit_event AuditPhaseCommandStart (trim_space (cr_Name ref)) args 0 []) s1) =
        ((result, None), s2) \<and> er_ExitCode result = 0)"
proof -
  let ?s2 = "emitAudit ops (audit_event AuditPhaseCommandStart (trim_space (cr_Name ref)) args 0 []) s1"
  let ?req = "external_request ref args input hasInput"
  obtain result err s3 where r: "run ?req ?s2 = ((result, err), s3)" by (metis surj_pair)
  let ?d = "if trim_space (cr_Raw ref) = [] then trim_space (cr_Name ref) else trim_space (cr_Raw ref)"
  have "runExternalCommand ops ref args input hasInput s =
      (case err of Some e \<Rightarrow> external_error ops (trim_space (cr_Name ref)) ?d args ?req result e s3
       | None \<Rightarrow> external_result ops (trim_space (cr_Name ref)) ?d args ?req result s3)"
    using assms r by (cases err) (simp_all add: runExternalCommand_def Let_def split del: if_split)
  then have "xo_code (fst (runExternalCommand ops ref args input hasInput s)) = 0 \<longleftrightarrow>
      err = None \<and> er_ExitCode result = 0"
    by (cases err) (simp_all add: external_error_code external_result_code)
  then show ?thesis using r by simp
qed

definition failing_adapter ::
  "ExternalCommandRequest \<Rightarrow> 'e sys \<Rightarrow> (ExternalCommandResult \<times> go_error option) \<times> 'e sys" where
  "failing_adapter req s =
     ((\<lparr>er_Stdout = ''partial'', er_Stderr = [], er_ExitCode = 0, er_RawExitCode = None, er_CanonicalTarget = [],
        er_ProviderError = [], er_TerminationKind = []\<rparr>, Some ErrUnsupported), s)"

theorem external_success_iff_witness:
  "xo_code (fst (runExternalCommand (zero_ops\<lparr>o_RunExternalCommand := Some failing_adapter\<rparr>)
     \<lparr>cr_Raw = ''git'', cr_Name = ''git'', cr_ResolvedPath = [], cr_PathLike = False, cr_Namespace = []\<rparr>
     [] [] False (live_sys ()))) \<noteq> 0"
proof -
  have "executionContextErr (live_sys ()) = (None, live_sys ())"
    by (simp add: executionContextErr_live live_sys_def)
  from external_success_iff [OF _ this, of "zero_ops\<lparr>o_RunExternalCommand := Some failing_adapter\<rparr>" failing_adapter]
  show ?thesis by (simp add: failing_adapter_def)
qed

end
