(* ===== verification/Script_Roundtrip.thy ===== *)
theory Script_Roundtrip
  imports Script_Parser
begin

section \<open>Parsed scripts: their shape, and a printer the parser inverts\<close>

text \<open>
  The first half shows what every successful parse gives: no empty command or pipeline, the
  connectives \<open>&&\<close> and \<open>||\<close> only, at most \<open>maxStatementCount\<close> statements, and every here
  document body attached to the redirection it was announced by, in order. The second half is a
  printer (words in single quotes, one statement a line, here documents after the line) that
  \<open>parseScript\<close> inverts: the syntax can express every word, whatever bytes it has.
\<close>

subsection \<open>Here documents and the delimiters that announce them\<close>

text \<open>The lines of a here document body; every line of a body ends in a newline. \<open>heredoc_ok\<close> says
  which bodies a delimiter can announce.\<close>

definition with_end :: "string \<Rightarrow> string list \<Rightarrow> string" where
  "with_end e ls = concat (map (\<lambda>l. l @ e) ls)"

definition body_lines :: "string \<Rightarrow> string list" where
  "body_lines b = (if b = [] then [] else split_on (CHR 0x0A) (butlast b))"

definition heredoc_ok :: "string \<Rightarrow> string \<Rightarrow> bool" where
  "heredoc_ok delim b \<longleftrightarrow> CHR 0x0A \<notin> set delim \<and> (b = [] \<or> last b = CHR 0x0A) \<and>
     delim \<notin> set (body_lines b) \<and> length b \<le> Suc maxHereDocBytes"

lemma with_end_simps [simp]:
  "with_end e [] = []" "with_end e (l # ls) = l @ e @ with_end e ls"
  "with_end e (ls @ ms) = with_end e ls @ with_end e ms"
  by (simp_all add: with_end_def)

lemma with_end_join: "ls \<noteq> [] \<Longrightarrow> with_end [c] ls = join [c] ls @ [c]"
  by (induction ls rule: induct_list012) auto

lemma with_end_body_lines: "b = [] \<or> last b = CHR 0x0A \<Longrightarrow> with_end [CHR 0x0A] (body_lines b) = b"
  using append_butlast_last_id [of b] by (cases "b = []") (auto simp: body_lines_def with_end_join)

lemma body_lines_with_end:
  assumes "\<forall>l\<in>set ls. CHR 0x0A \<notin> set l" shows "body_lines (with_end [CHR 0x0A] ls) = ls"
proof (cases "ls = []")
  case False
  then show ?thesis using assms by (simp add: body_lines_def with_end_join split_on_join)
qed (simp add: body_lines_def)

lemma body_lines_no_newline: "l \<in> set (body_lines b) \<Longrightarrow> CHR 0x0A \<notin> set l"
  by (auto simp: body_lines_def split: if_splits dest: split_on_no_sep)

lemma takeWhile_end: "c \<notin> set l \<Longrightarrow> takeWhile (\<lambda>x. x \<noteq> c) (l @ c # s) = l"
  and dropWhile_end: "c \<notin> set l \<Longrightarrow> dropWhile (\<lambda>x. x \<noteq> c) (l @ c # s) = c # s"
  by (induction l) auto

lemma trim_suffix_set: "set (trim_suffix s p) \<subseteq> set s"
  using set_take_subset [of "length s - length p" s] by (auto simp: trim_suffix_def)

text \<open>What the loop accepts is a body its delimiter can announce.\<close>

lemma heredoc_loop_ok:
  "heredoc_loop delim body s = Inr (b, r) \<Longrightarrow> body = with_end [CHR 0x0A] ls \<Longrightarrow>
   \<forall>l\<in>set ls. CHR 0x0A \<notin> set l \<and> l \<noteq> delim \<Longrightarrow> length body \<le> Suc maxHereDocBytes \<Longrightarrow> heredoc_ok delim b"
proof (induction delim body s arbitrary: ls rule: heredoc_loop.induct)
  case (1 delim body s)
  let ?line = "trim_suffix (takeWhile (\<lambda>c. c \<noteq> CHR 0x0A) s) [CHR 0x0D]"
  let ?after = "dropWhile (\<lambda>c. c \<noteq> CHR 0x0A) s"
  have nl: "CHR 0x0A \<notin> set ?line"
    using trim_suffix_set by (fastforce dest: set_takeWhileD)
  have s: "s \<noteq> []" using "1.prems"(1) by (subst (asm) heredoc_loop.simps) (auto split: if_splits)
  show ?case
  proof (cases "?line = delim")
    case True
    then have "b = body"
      using "1.prems"(1) s by (subst (asm) heredoc_loop.simps) (auto simp: Let_def)
    moreover have "ls = [] \<or> last (with_end [CHR 0x0A] ls) = CHR 0x0A"
      by (cases "ls = []") (auto simp: with_end_join)
    ultimately show ?thesis
      using "1.prems" nl True by (auto simp: heredoc_ok_def body_lines_with_end)
  next
    case False
    have len: "\<not> length (body @ ?line) > maxHereDocBytes"
      using "1.prems"(1) s False by (subst (asm) heredoc_loop.simps) (auto simp: Let_def split: if_splits)
    have h: "heredoc_loop delim (if ?after = [] then body @ ?line else (body @ ?line) @ [CHR 0x0A])
        (drop 1 ?after) = Inr (b, r)"
      using "1.prems"(1) s False len by (subst (asm) heredoc_loop.simps) (simp add: Let_def)
    show ?thesis
    proof (cases "?after = []")
      case True
      then have "heredoc_loop delim (body @ ?line) [] = Inr (b, r)"
        using h by (simp only: True if_True drop_Nil)
      then show ?thesis by (simp add: heredoc_loop.simps [of delim "body @ ?line" "[]"])
    next
      case False
      show ?thesis
        using "1.IH" [OF s refl refl refl \<open>?line \<noteq> delim\<close> len h, of "ls @ [?line]"]
          "1.prems" nl \<open>?line \<noteq> delim\<close> len False by auto
    qed
  qed
qed

lemma read_bodies_ok: "read_bodies ds s = Inr (bs, r) \<Longrightarrow> list_all2 heredoc_ok ds bs"
proof (induction ds arbitrary: s bs)
  case (Cons d ds)
  then obtain body s' bodies where "readHereDocBody s d = Inr (body, s')"
    "read_bodies ds s' = Inr (bodies, r)" "bs = body # bodies"
    by (auto split: sum.splits)
  then show ?case using Cons heredoc_loop_ok [of d "[]" s body s' "[]"]
    by (simp add: readHereDocBody_def)
qed simp

text \<open>The delimiters a token list announces, in order.\<close>

fun heredoc_delims :: "scriptToken list \<Rightarrow> string list" where
  "heredoc_delims [] = []"
| "heredoc_delims (t # ts) =
     (if tk_kind t = TokRedirHereDoc then map tk_value (take 1 ts) else []) @ heredoc_delims ts"

definition delims_closed :: "scriptToken list \<Rightarrow> bool" where
  "delims_closed ts \<longleftrightarrow> ts = [] \<or> tk_kind (last ts) \<noteq> TokRedirHereDoc"

lemma heredoc_delims_append:
  "delims_closed ts \<Longrightarrow> heredoc_delims (ts @ us) = heredoc_delims ts @ heredoc_delims us"
proof (induction ts)
  case (Cons t ts)
  then show ?case by (cases ts) (auto simp: delims_closed_def)
qed simp

lemma lex_op_delims:
  assumes "lex_op pending c t = Inr (Some (ts, bs, p, r))"
  shows "delims_closed ts \<and>
    (\<exists>ds es. heredoc_delims ts = es \<and> pending @ es = ds @ p \<and> list_all2 heredoc_ok ds bs)"
proof -
  consider "c = CHR 0x0A" | "c = CHR ''<''"
    | "c \<noteq> CHR 0x0A" "c \<noteq> CHR ''<''" "c \<in> {CHR '';'', CHR ''&'', CHR ''|'', CHR ''>''}"
    | "c \<noteq> CHR 0x0A" "c \<notin> {CHR '';'', CHR ''&'', CHR ''|'', CHR ''>'', CHR ''<''}"
    by blast
  then show ?thesis
  proof cases
    case 1
    with assms have "read_bodies pending t = Inr (bs, r)" "ts = [tok TokSemi '';'']" "p = []"
      by (auto simp: lex_op_def split: sum.splits)
    then show ?thesis using read_bodies_ok by (auto simp: delims_closed_def)
  next
    case 2
    show ?thesis
    proof (cases "has_prefix t ''<''")
      case True
      with assms 2 have l: "lex_heredoc pending (drop 1 t) = Inr (Some (ts, bs, p, r))"
        by (simp add: lex_op_def)
      then obtain delim where "ts = [tok TokRedirHereDoc ''<<'', tok TokWord delim]" "bs = []"
        "p = pending @ [delim]"
        by (auto simp: lex_heredoc_def split: if_splits sum.splits list.splits)
      then show ?thesis by (auto simp: delims_closed_def)
    next
      case False
      with assms 2 show ?thesis by (auto simp: lex_op_def delims_closed_def)
    qed
  next
    case 3
    with assms show ?thesis by (auto simp: lex_op_def delims_closed_def split: if_splits)
  next
    case 4
    with assms obtain w where "ts = [tok TokWord w]" "bs = []" "p = pending"
      by (auto simp: lex_op_def split: sum.splits)
    then show ?thesis by (auto simp: delims_closed_def)
  qed
qed

lemma tokenize_delims:
  "tokenize pending s = Inr (ts, bs) \<Longrightarrow> list_all2 heredoc_ok (pending @ heredoc_delims ts) bs"
proof (induction pending s arbitrary: ts bs rule: tokenize.induct)
  case (1 pending s)
  show ?case
  proof (cases "lex_step pending s")
    case (Inr x)
    show ?thesis
    proof (cases x)
      case None
      then have "pending = []" using Inr by (auto simp: lex_step_def lex_op_def lex_heredoc_def
            split: list.splits if_splits sum.splits)
      then show ?thesis using "1.prems" Inr None by (subst (asm) tokenize.simps) simp
    next
      case (Some y)
      obtain us cs p r where y: "y = (us, cs, p, r)" by (cases y) auto
      then obtain us' cs' where t: "tokenize p r = Inr (us', cs')" "ts = us @ us'" "bs = cs @ cs'"
        using "1.prems" Inr Some by (auto simp: tokenize_step emit_Inr)
      obtain c t' where "lex_op pending c t' = Inr (Some (us, cs, p, r))"
        using Inr Some y by (auto simp: lex_step_def split: list.splits)
      then obtain ds where cl: "delims_closed us"
        and ds: "pending @ heredoc_delims us = ds @ p" "list_all2 heredoc_ok ds cs"
        using lex_op_delims by blast
      have "list_all2 heredoc_ok (p @ heredoc_delims us') cs'"
        using "1.IH" [OF Inr Some y [symmetric] refl refl t(1)] .
      then have "list_all2 heredoc_ok (ds @ p @ heredoc_delims us') (cs @ cs')"
        using ds(2) by (simp add: list_all2_appendI)
      moreover have "ds @ p @ heredoc_delims us' = pending @ heredoc_delims ts"
        using ds(1) by (simp only: t(2) heredoc_delims_append [OF cl] append_assoc [symmetric])
      ultimately show ?thesis by (simp add: t(3))
    qed
  next
    case (Inl e)
    then show ?thesis using "1.prems" by (simp add: tokenize.simps [of pending s])
  qed
qed

subsection \<open>The shape of parsed scripts\<close>

definition redir_docs :: "commandRedirect list \<Rightarrow> (string \<times> string) list" where
  "redir_docs rs =
     map (\<lambda>r. (rd_target r, rd_hereDocBody r)) (filter (\<lambda>r. rd_kind r = redirectInputHereDoc) rs)"

definition pipeline_docs :: "parsedPipeline \<Rightarrow> (string \<times> string) list" where
  "pipeline_docs p = concat (map (\<lambda>c. redir_docs (pc_redirs c)) p)"

definition statement_docs :: "parsedStatement \<Rightarrow> (string \<times> string) list" where
  "statement_docs st = concat (map (\<lambda>n. pipeline_docs (cp_pipeline n)) st)"

text \<open>Only a here document carries a body.\<close>

definition plain_redirs :: "commandRedirect list \<Rightarrow> bool" where
  "plain_redirs rs \<longleftrightarrow> (\<forall>r\<in>set rs. rd_kind r \<noteq> redirectInputHereDoc \<longrightarrow> rd_hereDocBody r = [])"

lemma redir_docs_simps [simp]:
  "redir_docs (rs @ qs) = redir_docs rs @ redir_docs qs" "redir_docs [] = []"
  "redir_docs (r # rs) = (if rd_kind r = redirectInputHereDoc
     then [(rd_target r, rd_hereDocBody r)] else []) @ redir_docs rs"
  by (simp_all add: redir_docs_def)

lemma plain_redirs_simps [simp]:
  "plain_redirs []" "plain_redirs (rs @ qs) \<longleftrightarrow> plain_redirs rs \<and> plain_redirs qs"
  "plain_redirs (r # rs) \<longleftrightarrow>
     (rd_kind r \<noteq> redirectInputHereDoc \<longrightarrow> rd_hereDocBody r = []) \<and> plain_redirs rs"
  by (auto simp: plain_redirs_def)

definition wf_pipeline :: "parsedPipeline \<Rightarrow> bool" where
  "wf_pipeline p \<longleftrightarrow> p \<noteq> [] \<and> (\<forall>c\<in>set p. pc_args c \<noteq> [] \<and> plain_redirs (pc_redirs c))"

definition wf_statement :: "parsedStatement \<Rightarrow> bool" where
  "wf_statement st \<longleftrightarrow> st \<noteq> [] \<and> cp_op (hd st) = [] \<and>
     (\<forall>n\<in>set (tl st). cp_op n = ''&&'' \<or> cp_op n = ''||'') \<and> (\<forall>n\<in>set st. wf_pipeline (cp_pipeline n))"

lemma redirect_token_kind:
  "redirect_token k = Some r \<Longrightarrow> (r = redirectInputHereDoc \<longleftrightarrow> k = TokRedirHereDoc) \<and> k \<noteq> TokWord"
  by (auto simp: redirect_token_def split: scriptTokenKind.splits)

lemma simple_command_docs:
  "simple_command_loop args redirs ts bodies = Inr (c, ts', bodies') \<Longrightarrow>
   redir_docs (pc_redirs c) @ zip (heredoc_delims ts') bodies' =
     redir_docs redirs @ zip (heredoc_delims ts) bodies \<and>
   (plain_redirs redirs \<longrightarrow> plain_redirs (pc_redirs c))"
proof (induction args redirs ts bodies rule: simple_command_loop.induct)
  case (2 args redirs t ts bodies)
  show ?case
  proof (cases "tk_kind t = TokWord")
    case True
    then show ?thesis using "2.prems" "2.IH"(1) by simp
  next
    case False
    show ?thesis
    proof (cases "redirect_token (tk_kind t)")
      case None
      then have "tk_kind t \<noteq> TokRedirHereDoc" by (auto simp: redirect_token_def)
      then show ?thesis using "2.prems" False None by (auto split: if_splits)
    next
      case (Some k)
      note kk = redirect_token_kind [OF Some]
      obtain w us where ts: "ts = w # us" "tk_kind w = TokWord"
        using "2.prems" False Some by (auto split: list.splits if_splits)
      show ?thesis
      proof (cases "k = redirectInputHereDoc")
        case True
        then obtain b bs where b: "bodies = b # bs"
          using "2.prems" False Some ts by (auto split: list.splits)
        show ?thesis using "2.prems" "2.IH"(2) [OF False Some ts(1) _ True b] False Some ts True b kk
          by simp
      next
        case neq: False
        show ?thesis using "2.prems" "2.IH"(3) [OF False Some ts(1) _ neq] False Some ts neq kk
          by simp
      qed
    qed
  qed
qed (auto split: if_splits)

lemma parseSimpleCommand_shape:
  "parseSimpleCommand ts bodies = Inr (c, ts', bodies') \<Longrightarrow>
   pc_args c \<noteq> [] \<and> plain_redirs (pc_redirs c) \<and>
   redir_docs (pc_redirs c) @ zip (heredoc_delims ts') bodies' = zip (heredoc_delims ts) bodies"
  using simple_command_shape simple_command_docs
  by (fastforce simp: parseSimpleCommand_def)

lemma pipeline_loop_shape:
  "pipeline_loop ts bodies = Inr (p, ts', bodies') \<Longrightarrow>
   (\<forall>c\<in>set p. pc_args c \<noteq> [] \<and> plain_redirs (pc_redirs c)) \<and>
   pipeline_docs p @ zip (heredoc_delims ts') bodies' = zip (heredoc_delims ts) bodies"
proof (induction ts bodies arbitrary: p rule: pipeline_loop.induct)
  case (1 ts bodies)
  show ?case
    using "1.prems" "1.IH"
    by (subst (asm) pipeline_loop.simps)
      (auto simp: pipeline_docs_def split: list.splits if_splits sum.splits
        dest!: parseSimpleCommand_shape)
qed

lemma parsePipelineExpr_shape:
  "parsePipelineExpr ts bodies = Inr (p, ts', bodies') \<Longrightarrow>
   wf_pipeline p \<and> pipeline_docs p @ zip (heredoc_delims ts') bodies' = zip (heredoc_delims ts) bodies"
  by (auto simp: parsePipelineExpr_def wf_pipeline_def pipeline_docs_def split: sum.splits
      dest!: parseSimpleCommand_shape pipeline_loop_shape)

lemma simple_command_tokens:
  "simple_command_loop args redirs ts bodies = Inr (c, ts', bodies') \<Longrightarrow> set ts' \<subseteq> set ts"
proof (induction args redirs ts bodies rule: simple_command_loop.induct)
  case (2 args redirs t ts bodies)
  show ?case
    using "2.prems" "2.IH" by (fastforce split: if_splits option.splits list.splits)
qed (auto split: if_splits)

lemma parseSimpleCommand_tokens:
  "parseSimpleCommand ts bodies = Inr (c, ts', bodies') \<Longrightarrow> set ts' \<subseteq> set ts"
  using simple_command_tokens by (fastforce simp: parseSimpleCommand_def)

lemma pipeline_loop_tokens:
  "pipeline_loop ts bodies = Inr (p, ts', bodies') \<Longrightarrow> set ts' \<subseteq> set ts"
proof (induction ts bodies arbitrary: p rule: pipeline_loop.induct)
  case (1 ts bodies)
  show ?case
    using "1.prems" "1.IH"
    by (subst (asm) pipeline_loop.simps)
      (fastforce split: list.splits if_splits sum.splits dest: parseSimpleCommand_tokens)
qed

lemma parsePipelineExpr_tokens:
  "parsePipelineExpr ts bodies = Inr (p, ts', bodies') \<Longrightarrow> set ts' \<subseteq> set ts"
  by (fastforce simp: parsePipelineExpr_def split: sum.splits
      dest: parseSimpleCommand_tokens pipeline_loop_tokens)

definition wf_connected :: "conditionalPipeline \<Rightarrow> bool" where
  "wf_connected n \<longleftrightarrow> (cp_op n = ''&&'' \<or> cp_op n = ''||'') \<and> wf_pipeline (cp_pipeline n)"

lemma conditional_loop_shape:
  "conditional_loop ts bodies = Inr (ns, ts', bodies') \<Longrightarrow> list_all tok_ok ts \<Longrightarrow>
   list_all wf_connected ns \<and> statement_docs ns @ zip (heredoc_delims ts') bodies' = zip (heredoc_delims ts) bodies \<and> set ts' \<subseteq> set ts"
proof (induction ts bodies arbitrary: ns rule: conditional_loop.induct)
  case (1 ts bodies)
  show ?case
  proof (cases "ts \<noteq> [] \<and> (tk_kind (hd ts) = TokAnd \<or> tk_kind (hd ts) = TokOr)")
    case False
    then show ?thesis
      using "1.prems"
      by (subst (asm) conditional_loop.simps)
        (auto simp: statement_docs_def split: list.splits if_splits)
  next
    case True
    then obtain t us where ts: "ts = t # us" and k: "tk_kind t = TokAnd \<or> tk_kind t = TokOr"
      by (cases ts) auto
    obtain p vs bs where p: "parsePipelineExpr us bodies = Inr (p, vs, bs)"
      using "1.prems" ts k by (subst (asm) conditional_loop.simps) (auto split: sum.splits)
    then obtain ms where m: "conditional_loop vs bs = Inr (ms, ts', bodies')"
      and ns: "ns = \<lparr>cp_op = tk_value t, cp_pipeline = p\<rparr> # ms"
      using "1.prems" ts k by (subst (asm) conditional_loop.simps) (auto split: sum.splits)
    have sub: "set vs \<subseteq> set us" using p by (rule parsePipelineExpr_tokens)
    then have "list_all tok_ok vs" using "1.prems"(2) ts by (auto simp: list_all_iff)
    then have ih: "list_all wf_connected ms" "statement_docs ms @ zip (heredoc_delims ts') bodies' = zip (heredoc_delims vs) bs" "set ts' \<subseteq> set vs"
      using "1.IH" [OF ts k p refl refl m] by auto
    have "wf_pipeline p \<and> pipeline_docs p @ zip (heredoc_delims vs) bs = zip (heredoc_delims us) bodies" using p by (rule parsePipelineExpr_shape)
    then show ?thesis
      using ih sub k ts ns "1.prems"(2)
      by (auto simp: statement_docs_def wf_connected_def tok_ok_def list_all_iff)
  qed
qed

lemma statement_of_loop:
  "wf_pipeline p \<Longrightarrow> list_all wf_connected ns \<Longrightarrow> wf_statement (\<lparr>cp_op = [], cp_pipeline = p\<rparr> # ns)"
  by (auto simp: wf_statement_def wf_connected_def list_all_iff)

lemma heredoc_delims_drop_semis [simp]: "heredoc_delims (drop_semis ts) = heredoc_delims ts"
  by (induction ts) (auto simp: drop_semis_def)

lemma set_drop_semis: "set (drop_semis ts) \<subseteq> set ts"
  by (auto simp: drop_semis_def dest: set_dropWhileD)

lemma statements_loop_shape:
  "statements_loop n ts bodies = Inr sts \<Longrightarrow> list_all tok_ok ts \<Longrightarrow> n \<le> maxStatementCount \<Longrightarrow>
   list_all wf_statement sts \<and> concat (map statement_docs sts) = zip (heredoc_delims ts) bodies \<and>
   n + length sts \<le> maxStatementCount"
proof (induction n ts bodies arbitrary: sts rule: statements_loop.induct)
  case (1 n ts bodies)
  show ?case
  proof (cases "drop_semis ts = []")
    case True
    then show ?thesis
      using "1.prems" by (subst (asm) statements_loop.simps) (auto split: if_splits)
  next
    case False
    obtain p us bs where p: "parsePipelineExpr (drop_semis ts) bodies = Inr (p, us, bs)"
      using "1.prems" False by (subst (asm) statements_loop.simps) (auto split: sum.splits)
    then obtain ns vs bs' where c: "conditional_loop us bs = Inr (ns, vs, bs')"
      using "1.prems" False by (subst (asm) statements_loop.simps) (auto split: sum.splits)
    have eq: "statements_loop n ts bodies =
        (if vs \<noteq> [] \<and> tk_kind (hd vs) \<noteq> TokSemi
           then Inl (ErrText (''unexpected token '' @ go_quote (tk_value (hd vs))))
         else if Suc n > maxStatementCount
           then Inl (ErrText (''statement count exceeds limit ('' @ show_nat maxStatementCount @ '')''))
         else case statements_loop (Suc n) vs bs' of
             Inl e \<Rightarrow> Inl e
           | Inr sts \<Rightarrow> Inr ((\<lparr>cp_op = [], cp_pipeline = p\<rparr> # ns) # sts))"
      by (subst statements_loop.simps) (simp only: False p c if_False sum.case prod.case)
    then have ok: "\<not> (vs \<noteq> [] \<and> tk_kind (hd vs) \<noteq> TokSemi)" "\<not> Suc n > maxStatementCount"
      using "1.prems"(1) by (auto split: if_splits)
    then obtain rest where r: "statements_loop (Suc n) vs bs' = Inr rest"
      and sts: "sts = (\<lparr>cp_op = [], cp_pipeline = p\<rparr> # ns) # rest"
      using "1.prems"(1) unfolding eq by (cases "statements_loop (Suc n) vs bs'") (auto split: if_splits)
    have tus: "list_all tok_ok us"
      using parsePipelineExpr_tokens [OF p] set_drop_semis [of ts] "1.prems"(2)
      by (auto simp: list_all_iff)
    note cs = conditional_loop_shape [OF c tus] and ps = parsePipelineExpr_shape [OF p]
    have "list_all tok_ok vs" using cs tus by (auto simp: list_all_iff)
    then have "list_all wf_statement rest \<and> concat (map statement_docs rest) = zip (heredoc_delims vs) bs' \<and>
        Suc n + length rest \<le> maxStatementCount"
      using "1.IH" [OF False p refl refl c refl refl ok r] ok by simp
    then show ?thesis
      using cs ps by (auto simp: sts statement_of_loop) (auto simp: statement_docs_def)
  qed
qed


definition wf_script :: "parsedStatement list \<Rightarrow> bool" where
  "wf_script sts \<longleftrightarrow> list_all wf_statement sts \<and> length sts \<le> maxStatementCount \<and>
     list_all (\<lambda>(d, b). heredoc_ok d b) (concat (map statement_docs sts))"

lemma list_all2_zip_docs: "list_all2 P xs ys \<Longrightarrow> list_all (\<lambda>(x, y). P x y) (zip xs ys)"
  by (induction rule: list_all2_induct) auto

lemma parseScript_wf:
  assumes "parseScript s = Inr sts" shows "wf_script sts"
proof -
  obtain ts bs where t: "tokenize [] s = Inr (ts, bs)" "statements_loop 0 ts bs = Inr sts"
    using assms by (auto simp: parseScript_def tokenizeScript_def parseStatements_def split: sum.splits)
  have sh: "list_all wf_statement sts \<and> concat (map statement_docs sts) = zip (heredoc_delims ts) bs \<and>
      0 + length sts \<le> maxStatementCount"
    using statements_loop_shape [OF t(2)] tokenize_ok [OF t(1)] by simp
  moreover have "list_all (\<lambda>(d, b). heredoc_ok d b) (concat (map statement_docs sts))"
    using list_all2_zip_docs [of heredoc_ok "heredoc_delims ts" bs] tokenize_delims [OF t(1)] sh
    by simp
  ultimately show ?thesis by (simp add: wf_script_def)
qed

subsection \<open>The printer: lexical level\<close>

text \<open>
  A word is printed between single quotes; inside them the parser treats only the quote and the
  backslash specially, and a backslash makes either of them plain. \<open>lexes_to str ts ds\<close>: in front
  of any input, \<open>str\<close> gives the tokens \<open>ts\<close> and announces the delimiters \<open>ds\<close>.
\<close>

definition quote_byte :: "char \<Rightarrow> string" where
  "quote_byte c = (if c = CHR 0x27 \<or> c = CHR 0x5C then [CHR 0x5C, c] else [c])"

definition print_word :: "string \<Rightarrow> string" where
  "print_word w = [CHR 0x27] @ concat (map quote_byte w) @ [CHR 0x27, CHR 0x20]"

definition lexes_to :: "string \<Rightarrow> scriptToken list \<Rightarrow> string list \<Rightarrow> bool" where
  "lexes_to str ts ds \<longleftrightarrow> (\<forall>p s. tokenize p (str @ s) = emit ts [] (tokenize (p @ ds) s))"

lemma lexes_to_Nil [simp]: "lexes_to [] [] []"
  by (simp add: lexes_to_def)

lemma lexes_to_append:
  "lexes_to a ts ds \<Longrightarrow> lexes_to b us es \<Longrightarrow> lexes_to (a @ b) (ts @ us) (ds @ es)"
  by (simp add: lexes_to_def emit_emit)

lemma lexes_to_concat:
  "(\<And>x. x \<in> set xs \<Longrightarrow> lexes_to (f x) (g x) (h x)) \<Longrightarrow>
   lexes_to (concat (map f xs)) (concat (map g xs)) (concat (map h xs))"
  by (induction xs) (auto intro: lexes_to_append)

lemma tokenize_blank: "tokenize p (CHR 0x20 # s) = tokenize p s"
  by (simp add: tokenize.simps [of p "CHR 0x20 # s"] tokenize.simps [of p s] lex_step_def)

lemma read_word_quoted:
  "read_word_loop (Some (CHR 0x27)) False qd buf (concat (map quote_byte w) @ CHR 0x27 # s) =
   read_word_loop None False qd (buf @ w) s"
proof (induction w arbitrary: buf)
  case (Cons c w)
  then show ?case by (cases "c = CHR 0x27 \<or> c = CHR 0x5C") (auto simp: quote_byte_def)
qed simp

lemma readShellWord_print: "readShellWord (print_word w @ s) = Inr (w, CHR 0x20 # s)"
  by (simp add: readShellWord_def print_word_def read_word_quoted word_end_def)

lemma print_word_Cons: "\<exists>t. print_word w = CHR 0x27 # t"
  by (simp add: print_word_def)

lemma lexes_to_word: "lexes_to (print_word w) [tok TokWord w] []"
  unfolding lexes_to_def
proof (intro allI)
  fix p s
  obtain t where t: "print_word w = CHR 0x27 # t" using print_word_Cons by blast
  have "lex_step p (print_word w @ s) = Inr (Some ([tok TokWord w], [], p, CHR 0x20 # s))"
    using readShellWord_print [of w s] by (simp add: lex_step_def lex_op_def t)
  then show "tokenize p (print_word w @ s) = emit [tok TokWord w] [] (tokenize (p @ []) s)"
    by (simp add: tokenize_step tokenize_blank)
qed

text \<open>The operators, each followed by a blank.\<close>

lemma lexes_to_op:
  assumes "(str, t) \<in> {(''| '', tok TokPipe ''|''), (''&& '', tok TokAnd ''&&''),
     (''|| '', tok TokOr ''||''), (''< '', tok TokRedirIn ''<''), (''> '', tok TokRedirOut ''>''),
     (''>> '', tok TokRedirAppend ''>>'')}"
  shows "lexes_to str [t] []"
proof -
  have "lex_step p (str @ s) = Inr (Some ([t], [], p, CHR 0x20 # s))" for p s
    using assms by (auto simp: lex_step_def lex_op_def)
  then show ?thesis by (simp add: lexes_to_def tokenize_step tokenize_blank)
qed

lemma lexes_to_heredoc:
  "lexes_to (''<< '' @ print_word w) [tok TokRedirHereDoc ''<<'', tok TokWord w] [w]"
  unfolding lexes_to_def
proof (intro allI)
  fix p s
  obtain t where t: "print_word w = CHR 0x27 # t" using print_word_Cons by blast
  have "lex_step p ((''<< '' @ print_word w) @ s) =
      Inr (Some ([tok TokRedirHereDoc ''<<'', tok TokWord w], [], p @ [w], CHR 0x20 # s))"
    using readShellWord_print [of w s] by (simp add: lex_step_def lex_op_def lex_heredoc_def t)
  then show "tokenize p ((''<< '' @ print_word w) @ s) =
      emit [tok TokRedirHereDoc ''<<'', tok TokWord w] [] (tokenize (p @ [w]) s)"
    by (simp only: tokenize_step tokenize_blank)
qed

text \<open>Here document texts after a line; every line ends in a carriage return and a newline, of
  which the parser drops the first.\<close>

definition print_doc :: "string \<times> string \<Rightarrow> string" where
  "print_doc x = (case x of (delim, body) \<Rightarrow>
     with_end [CHR 0x0D, CHR 0x0A] (body_lines body @ [delim]))"

lemma heredoc_loop_line:
  assumes "CHR 0x0A \<notin> set l"
  shows "heredoc_loop delim body (l @ CHR 0x0D # CHR 0x0A # s) =
    (if l = delim then Inr (body, s)
     else if length (body @ l) > maxHereDocBytes
       then Inl (ErrText (''heredoc body exceeds size limit ('' @ show_nat maxHereDocBytes @ '' bytes)''))
     else heredoc_loop delim (body @ l @ [CHR 0x0A]) s)"
proof -
  have "takeWhile (\<lambda>c. c \<noteq> CHR 0x0A) (l @ CHR 0x0D # CHR 0x0A # s) = l @ [CHR 0x0D]"
    "dropWhile (\<lambda>c. c \<noteq> CHR 0x0A) (l @ CHR 0x0D # CHR 0x0A # s) = CHR 0x0A # s"
    using takeWhile_end [of "CHR 0x0A" "l @ [CHR 0x0D]" s] dropWhile_end [of "CHR 0x0A" "l @ [CHR 0x0D]" s]
      assms by simp_all
  then show ?thesis
    by (simp add: heredoc_loop.simps [of delim body "l @ CHR 0x0D # CHR 0x0A # s"] Let_def)
qed

lemma heredoc_loop_print:
  assumes "CHR 0x0A \<notin> set delim"
  shows "\<forall>l\<in>set ls. CHR 0x0A \<notin> set l \<and> l \<noteq> delim \<Longrightarrow>
   length (body @ with_end [CHR 0x0A] ls) \<le> Suc maxHereDocBytes \<Longrightarrow>
   heredoc_loop delim body (with_end [CHR 0x0D, CHR 0x0A] (ls @ [delim]) @ s) =
     Inr (body @ with_end [CHR 0x0A] ls, s)"
proof (induction ls arbitrary: body)
  case (Cons l ls)
  then show ?case using Cons.IH [of "body @ l @ [CHR 0x0A]"] by (simp add: heredoc_loop_line)
qed (use assms in \<open>simp add: heredoc_loop_line\<close>)

lemma read_bodies_print:
  "list_all (\<lambda>(d, b). heredoc_ok d b) docs \<Longrightarrow>
   read_bodies (map fst docs) (concat (map print_doc docs) @ s) = Inr (map snd docs, s)"
proof (induction docs)
  case (Cons x docs)
  obtain d b where x: "x = (d, b)" by (cases x)
  have ok: "heredoc_ok d b" using Cons.prems by (simp add: x)
  let ?rest = "concat (map print_doc docs) @ s"
  have wb: "with_end [CHR 0x0A] (body_lines b) = b"
    using ok by (auto simp: heredoc_ok_def intro: with_end_body_lines)
  have "heredoc_loop d [] (with_end [CHR 0x0D, CHR 0x0A] (body_lines b @ [d]) @ ?rest) =
      Inr ([] @ with_end [CHR 0x0A] (body_lines b), ?rest)"
    using ok body_lines_no_newline [of _ b] wb
    by (intro heredoc_loop_print) (auto simp: heredoc_ok_def)
  then have "readHereDocBody (print_doc x @ ?rest) d = Inr (b, ?rest)"
    by (simp only: x print_doc_def prod.case readHereDocBody_def wb append_Nil)
  moreover have "read_bodies (map fst docs) ?rest = Inr (map snd docs, s)" using Cons by simp
  ultimately show ?case by (simp add: x)
qed simp

subsection \<open>The printer: scripts\<close>

fun redir_op :: "redirectKind \<Rightarrow> string" where
  "redir_op redirectInputFile = ''<''"
| "redir_op redirectInputHereDoc = ''<<''"
| "redir_op redirectOutputWrite = ''>''"
| "redir_op redirectOutputAppend = ''>>''"

fun redir_tok :: "redirectKind \<Rightarrow> scriptTokenKind" where
  "redir_tok redirectInputFile = TokRedirIn"
| "redir_tok redirectInputHereDoc = TokRedirHereDoc"
| "redir_tok redirectOutputWrite = TokRedirOut"
| "redir_tok redirectOutputAppend = TokRedirAppend"

definition print_redir :: "commandRedirect \<Rightarrow> string" where
  "print_redir r = redir_op (rd_kind r) @ '' '' @ print_word (rd_target r)"

definition print_command :: "parsedCommand \<Rightarrow> string" where
  "print_command c = concat (map print_word (pc_args c)) @ concat (map print_redir (pc_redirs c))"

definition print_pipeline :: "parsedPipeline \<Rightarrow> string" where
  "print_pipeline p = print_command (hd p) @ concat (map (\<lambda>c. ''| '' @ print_command c) (tl p))"

definition print_line :: "parsedStatement \<Rightarrow> string" where
  "print_line st = print_pipeline (cp_pipeline (hd st)) @
     concat (map (\<lambda>n. (cp_op n @ '' '') @ print_pipeline (cp_pipeline n)) (tl st))"

definition print_script :: "parsedStatement list \<Rightarrow> string" where
  "print_script sts =
     concat (map (\<lambda>st. print_line st @ CHR 0x0A # concat (map print_doc (statement_docs st))) sts)"

text \<open>The tokens of each part.\<close>

definition redir_tokens :: "commandRedirect \<Rightarrow> scriptToken list" where
  "redir_tokens r = [tok (redir_tok (rd_kind r)) (redir_op (rd_kind r)), tok TokWord (rd_target r)]"

definition command_tokens :: "parsedCommand \<Rightarrow> scriptToken list" where
  "command_tokens c =
     map (tok TokWord) (pc_args c) @ concat (map redir_tokens (pc_redirs c))"

definition piped_tokens :: "parsedPipeline \<Rightarrow> scriptToken list" where
  "piped_tokens p = concat (map (\<lambda>c. [tok TokPipe ''|''] @ command_tokens c) p)"

definition pipeline_tokens :: "parsedPipeline \<Rightarrow> scriptToken list" where
  "pipeline_tokens p = command_tokens (hd p) @ piped_tokens (tl p)"

definition connective :: "string \<Rightarrow> scriptToken" where
  "connective op = tok (if op = ''&&'' then TokAnd else TokOr) op"

definition connected_tokens :: "conditionalPipeline list \<Rightarrow> scriptToken list" where
  "connected_tokens ns = concat (map (\<lambda>n. [connective (cp_op n)] @ pipeline_tokens (cp_pipeline n)) ns)"

definition statement_tokens :: "parsedStatement \<Rightarrow> scriptToken list" where
  "statement_tokens st = pipeline_tokens (cp_pipeline (hd st)) @ connected_tokens (tl st)"

lemma lexes_to_redir:
  "lexes_to (print_redir r) (redir_tokens r) (map fst (redir_docs [r]))"
proof (cases "rd_kind r = redirectInputHereDoc")
  case True
  then show ?thesis
    using lexes_to_heredoc [of "rd_target r"] by (simp add: print_redir_def redir_tokens_def)
next
  case False
  have "lexes_to (redir_op (rd_kind r) @ '' '') [tok (redir_tok (rd_kind r)) (redir_op (rd_kind r))] []"
    using False by (intro lexes_to_op) (cases "rd_kind r"; simp)
  from lexes_to_append [OF this lexes_to_word [of "rd_target r"]] show ?thesis
    using False by (simp add: print_redir_def redir_tokens_def)
qed

lemma redir_docs_concat: "concat (map (\<lambda>r. map f (redir_docs [r])) rs) = map f (redir_docs rs)"
  by (induction rs) auto

lemma lexes_to_words: "lexes_to (concat (map print_word ws)) (map (tok TokWord) ws) []"
proof (induction ws)
  case (Cons w ws)
  then show ?case using lexes_to_append [OF lexes_to_word [of w] Cons] by simp
qed simp

lemma lexes_to_command:
  "lexes_to (print_command c) (command_tokens c) (map fst (redir_docs (pc_redirs c)))"
proof -
  have "lexes_to (concat (map print_redir (pc_redirs c)))
      (concat (map redir_tokens (pc_redirs c)))
      (concat (map (\<lambda>r. map fst (redir_docs [r])) (pc_redirs c)))"
    by (rule lexes_to_concat) (rule lexes_to_redir)
  then have "lexes_to (concat (map print_redir (pc_redirs c)))
      (concat (map redir_tokens (pc_redirs c))) (map fst (redir_docs (pc_redirs c)))"
    by (simp only: redir_docs_concat)
  from lexes_to_append [OF lexes_to_words this] show ?thesis
    by (simp add: print_command_def command_tokens_def)
qed

lemma lexes_to_pipeline:
  assumes "p \<noteq> []"
  shows "lexes_to (print_pipeline p) (pipeline_tokens p) (map fst (pipeline_docs p))"
proof -
  obtain c cs where p: "p = c # cs" using assms by (cases p) auto
  have "lexes_to (''| '' @ print_command c) ([tok TokPipe ''|''] @ command_tokens c)
      (map fst (redir_docs (pc_redirs c)))" for c
    using lexes_to_append [OF lexes_to_op lexes_to_command [of c], of "''| ''" "tok TokPipe ''|''"] by simp
  then have "lexes_to (concat (map (\<lambda>c. ''| '' @ print_command c) cs)) (piped_tokens cs)
      (concat (map (\<lambda>c. map fst (redir_docs (pc_redirs c))) cs))"
    unfolding piped_tokens_def by (intro lexes_to_concat)
  from lexes_to_append [OF lexes_to_command [of c] this] show ?thesis
    by (simp add: p print_pipeline_def pipeline_tokens_def pipeline_docs_def map_concat comp_def)
qed

lemma lexes_to_statement:
  assumes "wf_statement st"
  shows "lexes_to (print_line st) (statement_tokens st) (map fst (statement_docs st))"
proof -
  obtain n ns where st: "st = n # ns" using assms by (cases st) (auto simp: wf_statement_def)
  have pl: "lexes_to (print_pipeline (cp_pipeline m)) (pipeline_tokens (cp_pipeline m))
      (map fst (pipeline_docs (cp_pipeline m)))" if "m \<in> set st" for m
    using assms that by (intro lexes_to_pipeline) (auto simp: wf_statement_def wf_pipeline_def)
  have "lexes_to ((cp_op m @ '' '') @ print_pipeline (cp_pipeline m))
      ([connective (cp_op m)] @ pipeline_tokens (cp_pipeline m)) ([] @ map fst (pipeline_docs (cp_pipeline m)))"
    if m: "m \<in> set ns" for m
  proof (intro lexes_to_append pl lexes_to_op)
    have "cp_op m = ''&&'' \<or> cp_op m = ''||''" using assms m by (auto simp: wf_statement_def st)
    then show "(cp_op m @ '' '', connective (cp_op m)) \<in>
        {(''| '', tok TokPipe ''|''), (''&& '', tok TokAnd ''&&''), (''|| '', tok TokOr ''||''),
         (''< '', tok TokRedirIn ''<''), (''> '', tok TokRedirOut ''>''), (''>> '', tok TokRedirAppend ''>>'')}"
      by (auto simp: connective_def)
  qed (use m st in simp)
  then have "lexes_to (concat (map (\<lambda>n. (cp_op n @ '' '') @ print_pipeline (cp_pipeline n)) ns))
      (connected_tokens ns) (concat (map (\<lambda>n. [] @ map fst (pipeline_docs (cp_pipeline n))) ns))"
    unfolding connected_tokens_def by (rule lexes_to_concat)
  from lexes_to_append [OF pl [of n] this] show ?thesis
    by (simp add: st print_line_def statement_tokens_def statement_docs_def map_concat comp_def)
qed

lemma tokenize_newline:
  assumes "list_all (\<lambda>(d, b). heredoc_ok d b) docs"
  shows "tokenize (map fst docs) (CHR 0x0A # concat (map print_doc docs) @ s) =
    emit [tok TokSemi '';''] (map snd docs) (tokenize [] s)"
proof (rule tokenize_step)
  show "lex_step (map fst docs) (CHR 0x0A # concat (map print_doc docs) @ s) =
      Inr (Some ([tok TokSemi '';''], map snd docs, [], s))"
    using read_bodies_print [OF assms, of s] by (simp add: lex_step_def lex_op_def)
qed

lemma tokenize_print_script:
  "list_all wf_statement sts \<Longrightarrow> list_all (\<lambda>(d, b). heredoc_ok d b) (concat (map statement_docs sts)) \<Longrightarrow>
   tokenize [] (print_script sts) =
     Inr (concat (map (\<lambda>st. statement_tokens st @ [tok TokSemi '';'']) sts),
          map snd (concat (map statement_docs sts)))"
proof (induction sts)
  case Nil
  then show ?case by (simp add: print_script_def tokenize.simps [of "[]" "[]"] lex_step_def)
next
  case (Cons st sts)
  let ?docs = "statement_docs st"
  have "print_script (st # sts) =
      print_line st @ CHR 0x0A # concat (map print_doc ?docs) @ print_script sts"
    by (simp add: print_script_def)
  moreover have "lexes_to (print_line st) (statement_tokens st) (map fst ?docs)"
    using Cons.prems by (intro lexes_to_statement) simp
  moreover have "list_all (\<lambda>(d, b). heredoc_ok d b) ?docs" using Cons.prems(2) by simp
  ultimately have "tokenize [] (print_script (st # sts)) =
      emit (statement_tokens st) [] (emit [tok TokSemi '';''] (map snd ?docs) (tokenize [] (print_script sts)))"
    by (simp add: lexes_to_def tokenize_newline)
  then show ?case using Cons by simp
qed

subsection \<open>The parser on printed tokens\<close>

definition follows :: "scriptTokenKind set \<Rightarrow> scriptToken list \<Rightarrow> bool" where
  "follows K ts \<longleftrightarrow> ts = [] \<or> tk_kind (hd ts) \<in> K"

lemma follows_simps [simp]: "follows K []" "follows K (t # ts) \<longleftrightarrow> tk_kind t \<in> K"
  by (simp_all add: follows_def)

lemma parse_words:
  "simple_command_loop args redirs (map (tok TokWord) ws @ ts) bodies =
   simple_command_loop (args @ ws) redirs ts bodies"
  by (induction ws arbitrary: args) auto

lemma redirect_token_redir_tok: "redirect_token (redir_tok k) = Some k" "redir_tok k \<noteq> TokWord"
  by (cases k; simp add: redirect_token_def)+

lemma parse_redirs:
  "plain_redirs rs \<Longrightarrow>
   simple_command_loop args redirs (concat (map redir_tokens rs) @ ts) (map snd (redir_docs rs) @ bodies) =
   simple_command_loop args (redirs @ rs) ts bodies"
proof (induction rs arbitrary: redirs)
  case (Cons r rs)
  show ?case
    using Cons by (cases r) (auto simp: redir_tokens_def redirect_token_redir_tok)
qed simp

lemma parse_command:
  assumes "pc_args c \<noteq> []" and "plain_redirs (pc_redirs c)"
    and "follows {TokPipe, TokAnd, TokOr, TokSemi} ts"
  shows "parseSimpleCommand (command_tokens c @ ts) (map snd (redir_docs (pc_redirs c)) @ bodies) =
    Inr (c, ts, bodies)"
proof -
  have "parseSimpleCommand (command_tokens c @ ts) (map snd (redir_docs (pc_redirs c)) @ bodies) =
      simple_command_loop (pc_args c) (pc_redirs c) ts bodies"
    using assms(2) by (simp add: parseSimpleCommand_def command_tokens_def parse_words parse_redirs)
  also have "\<dots> = Inr (c, ts, bodies)"
    using assms by (cases ts) (auto simp: redirect_token_def split: scriptTokenKind.splits)
  finally show ?thesis .
qed


lemma parse_piped:
  "\<forall>c\<in>set cs. pc_args c \<noteq> [] \<and> plain_redirs (pc_redirs c) \<Longrightarrow> follows {TokAnd, TokOr, TokSemi} ts \<Longrightarrow>
   pipeline_loop (piped_tokens cs @ ts) (map snd (pipeline_docs cs) @ bodies) = Inr (cs, ts, bodies)"
proof (induction cs)
  case Nil
  then show ?case
    by (subst pipeline_loop.simps)
      (auto simp: piped_tokens_def pipeline_docs_def split: list.splits)
next
  case (Cons c cs)
  have f: "follows {TokPipe, TokAnd, TokOr, TokSemi} (piped_tokens cs @ ts)"
    using Cons.prems(2) by (cases cs) (auto simp: piped_tokens_def follows_def)
  have "parseSimpleCommand (command_tokens c @ (piped_tokens cs @ ts))
      (map snd (redir_docs (pc_redirs c)) @ map snd (pipeline_docs cs) @ bodies) =
      Inr (c, piped_tokens cs @ ts, map snd (pipeline_docs cs) @ bodies)"
    using Cons.prems(1) f by (intro parse_command) auto
  moreover have "piped_tokens (c # cs) @ ts = tok TokPipe ''|'' # command_tokens c @ piped_tokens cs @ ts"
    "pipeline_docs (c # cs) = redir_docs (pc_redirs c) @ pipeline_docs cs"
    by (simp_all add: piped_tokens_def pipeline_docs_def)
  moreover have "pipeline_loop (piped_tokens cs @ ts) (map snd (pipeline_docs cs) @ bodies) = Inr (cs, ts, bodies)"
    using Cons by simp
  ultimately show ?case by (simp add: pipeline_loop.simps [of "tok TokPipe ''|'' # _"])
qed

lemma parse_pipeline:
  assumes "wf_pipeline p" and "follows {TokAnd, TokOr, TokSemi} ts"
  shows "parsePipelineExpr (pipeline_tokens p @ ts) (map snd (pipeline_docs p) @ bodies) =
    Inr (p, ts, bodies)"
proof -
  obtain c cs where p: "p = c # cs" using assms by (cases p) (auto simp: wf_pipeline_def)
  have f: "follows {TokPipe, TokAnd, TokOr, TokSemi} (piped_tokens cs @ ts)"
    using assms(2) by (cases cs) (auto simp: piped_tokens_def follows_def)
  have "parseSimpleCommand (command_tokens c @ (piped_tokens cs @ ts))
      (map snd (redir_docs (pc_redirs c)) @ map snd (pipeline_docs cs) @ bodies) =
      Inr (c, piped_tokens cs @ ts, map snd (pipeline_docs cs) @ bodies)"
    using assms f by (intro parse_command) (auto simp: wf_pipeline_def p)
  moreover have "pipeline_docs p = redir_docs (pc_redirs c) @ pipeline_docs cs"
    by (simp add: pipeline_docs_def p)
  ultimately show ?thesis
    using parse_piped [of cs ts bodies] assms
    by (simp add: parsePipelineExpr_def pipeline_tokens_def p wf_pipeline_def)
qed

lemma parse_connected:
  "list_all wf_connected ns \<Longrightarrow> follows {TokSemi} ts \<Longrightarrow>
   conditional_loop (connected_tokens ns @ ts) (map snd (statement_docs ns) @ bodies) = Inr (ns, ts, bodies)"
proof (induction ns)
  case Nil
  then show ?case
    by (subst conditional_loop.simps)
      (auto simp: connected_tokens_def statement_docs_def split: list.splits)
next
  case (Cons n ns)
  have f: "follows {TokAnd, TokOr, TokSemi} (connected_tokens ns @ ts)"
    using Cons.prems(2) by (cases ns) (auto simp: connected_tokens_def connective_def follows_def)
  have "parsePipelineExpr (pipeline_tokens (cp_pipeline n) @ (connected_tokens ns @ ts))
      (map snd (pipeline_docs (cp_pipeline n)) @ map snd (statement_docs ns) @ bodies) =
      Inr (cp_pipeline n, connected_tokens ns @ ts, map snd (statement_docs ns) @ bodies)"
    using Cons.prems(1) f by (intro parse_pipeline) (auto simp: wf_connected_def)
  moreover have "connected_tokens (n # ns) @ ts =
      connective (cp_op n) # pipeline_tokens (cp_pipeline n) @ connected_tokens ns @ ts"
    "statement_docs (n # ns) = pipeline_docs (cp_pipeline n) @ statement_docs ns"
    by (simp_all add: connected_tokens_def statement_docs_def)
  moreover have "conditional_loop (connected_tokens ns @ ts) (map snd (statement_docs ns) @ bodies) = Inr (ns, ts, bodies)"
    using Cons by simp
  moreover have "tk_kind (connective (cp_op n)) = TokAnd \<or> tk_kind (connective (cp_op n)) = TokOr"
    "tk_value (connective (cp_op n)) = cp_op n"
    by (simp_all add: connective_def)
  ultimately show ?case by (simp add: conditional_loop.simps [of "connective (cp_op n) # _"])
qed

lemma wf_statement_Cons:
  "wf_statement st \<Longrightarrow> \<exists>p ns. st = \<lparr>cp_op = [], cp_pipeline = p\<rparr> # ns \<and> wf_pipeline p \<and> list_all wf_connected ns"
  by (cases st; cases "hd st") (auto simp: wf_statement_def wf_connected_def list_all_iff)

lemma command_tokens_neq_Nil: "pc_args c \<noteq> [] \<Longrightarrow> \<exists>w ts. command_tokens c = tok TokWord w # ts"
  by (cases "pc_args c") (auto simp: command_tokens_def)

lemma statement_tokens_Cons:
  assumes "wf_statement st" shows "\<exists>w ts. statement_tokens st = tok TokWord w # ts"
proof -
  obtain p ns where st: "st = \<lparr>cp_op = [], cp_pipeline = p\<rparr> # ns" "wf_pipeline p"
    using wf_statement_Cons [OF assms] by blast
  then obtain c cs where p: "p = c # cs" "pc_args c \<noteq> []" by (cases p) (auto simp: wf_pipeline_def)
  then obtain w ts where "command_tokens c = tok TokWord w # ts" using command_tokens_neq_Nil by blast
  then show ?thesis by (simp add: st statement_tokens_def pipeline_tokens_def p)
qed

lemma parse_lines:
  "list_all wf_statement sts \<Longrightarrow> n + length sts \<le> maxStatementCount \<Longrightarrow> list_all (\<lambda>t. tk_kind t = TokSemi) us \<Longrightarrow>
   statements_loop n (us @ concat (map (\<lambda>st. statement_tokens st @ [tok TokSemi '';'']) sts))
     (map snd (concat (map statement_docs sts))) = Inr sts"
proof (induction sts arbitrary: n us)
  case Nil
  then have "drop_semis us = []" by (auto simp: drop_semis_def list_all_iff dropWhile_eq_Nil_conv)
  then show ?case by (simp add: statements_loop.simps [of n us "[]"])
next
  case (Cons st sts)
  let ?rest = "concat (map (\<lambda>st. statement_tokens st @ [tok TokSemi '';'']) sts)"
  let ?bs = "map snd (concat (map statement_docs sts))"
  let ?ts = "statement_tokens st @ tok TokSemi '';'' # ?rest"
  obtain p ns where st: "st = \<lparr>cp_op = [], cp_pipeline = p\<rparr> # ns" "wf_pipeline p" "list_all wf_connected ns"
    using Cons.prems(1) wf_statement_Cons by fastforce
  obtain w ts where w: "statement_tokens st = tok TokWord w # ts"
    using Cons.prems(1) statement_tokens_Cons by fastforce
  have drop: "drop_semis (us @ ?ts) = ?ts"
    using Cons.prems(3) by (simp add: drop_semis_def list_all_iff w dropWhile_append)
  have f: "follows {TokAnd, TokOr, TokSemi} (connected_tokens ns @ tok TokSemi '';'' # ?rest)"
    by (cases ns) (auto simp: connected_tokens_def connective_def follows_def)
  have docs: "statement_docs st = pipeline_docs p @ statement_docs ns" by (simp add: st statement_docs_def)
  have "parsePipelineExpr (pipeline_tokens p @ (connected_tokens ns @ tok TokSemi '';'' # ?rest))
      (map snd (pipeline_docs p) @ map snd (statement_docs ns) @ ?bs) =
      Inr (p, connected_tokens ns @ tok TokSemi '';'' # ?rest, map snd (statement_docs ns) @ ?bs)"
    using st f by (intro parse_pipeline)
  then have 1: "parsePipelineExpr ?ts (map snd (concat (map statement_docs (st # sts)))) =
      Inr (p, connected_tokens ns @ tok TokSemi '';'' # ?rest, map snd (statement_docs ns) @ ?bs)"
    by (simp add: docs) (simp add: st statement_tokens_def)
  have 2: "conditional_loop (connected_tokens ns @ tok TokSemi '';'' # ?rest) (map snd (statement_docs ns) @ ?bs) =
      Inr (ns, tok TokSemi '';'' # ?rest, ?bs)"
    using st by (intro parse_connected) simp_all
  have 3: "statements_loop (Suc n) ([tok TokSemi '';''] @ ?rest) ?bs = Inr sts"
    using Cons.prems by (intro Cons.IH) simp_all
  have "statements_loop n (us @ ?ts) (map snd (concat (map statement_docs (st # sts)))) = Inr (st # sts)"
    using Cons.prems(2) 3
    by (subst statements_loop.simps) (simp only: drop 1 2 sum.case prod.case, simp add: w st(1))
  then show ?case by simp
qed

lemma parse_print:
  assumes "wf_script sts" shows "parseScript (print_script sts) = Inr sts"
proof -
  have "tokenizeScript (print_script sts) =
      Inr (concat (map (\<lambda>st. statement_tokens st @ [tok TokSemi '';'']) sts),
           map snd (concat (map statement_docs sts)))"
    using assms by (simp only: tokenizeScript_def wf_script_def tokenize_print_script)
  then show ?thesis
    using parse_lines [of sts 0 "[]"] assms by (simp add: parseScript_def parseStatements_def wf_script_def)
qed

subsection \<open>Properties\<close>

definition sample_script :: "parsedStatement list" where
  "sample_script =
     [[\<lparr>cp_op = [],
        cp_pipeline =
          [\<lparr>pc_args = [''cat'', [CHR 0x27, CHR 0x5C]],
            pc_redirs = [\<lparr>rd_kind = redirectInputHereDoc, rd_target = ''EOF'', rd_hereDocBody = ''a'' @ [CHR 0x0A]\<rparr>]\<rparr>,
           \<lparr>pc_args = [''wc''], pc_redirs = []\<rparr>]\<rparr>,
       \<lparr>cp_op = ''||'', cp_pipeline = [\<lparr>pc_args = [''echo'', []], pc_redirs = []\<rparr>]\<rparr>]]"

text \<open>C6. The parser inverts the printer: a well-formed script (no command without words, only the
  connectives \<open>&&\<close> and \<open>||\<close>, at most \<open>maxStatementCount\<close> statements, here document bodies their
  delimiters can announce), printed with every word quoted and its here documents after its line,
  parses back to itself, whatever bytes the words have.\<close>

theorem parseScript_print:
  assumes "wf_script sts" shows "parseScript (print_script sts) = Inr sts"
  using assms by (rule parse_print)

theorem parseScript_print_witness:
  "wf_script sample_script \<and> parseScript (print_script sample_script) = Inr sample_script"
proof -
  have "wf_script sample_script"
    by (simp add: wf_script_def sample_script_def wf_statement_def wf_pipeline_def maxStatementCount_def
        statement_docs_def pipeline_docs_def heredoc_ok_def body_lines_def maxHereDocBytes_def)
  then show ?thesis using parseScript_print by blast
qed

text \<open>The well-formed scripts are exactly the results of the parser: every successful parse is
  well formed (so \<open>args[0]\<close> exists for every command, statements and bodies keep their bounds, and
  each here document body belongs to the delimiter that announced it), and every well-formed script
  is the parse of some input.\<close>

theorem parseScript_range: "(\<exists>input. parseScript input = Inr sts) \<longleftrightarrow> wf_script sts"
  using parseScript_wf parse_print by blast

text \<open>A pipeline that the parser returns is not empty and none of its commands is, so that the
  runner's \<open>command.args[0]\<close> never indexes out of range.\<close>

theorem parseScript_no_empty_command:
  assumes "parseScript input = Inr sts" and "st \<in> set sts" and "n \<in> set st" and "c \<in> set (cp_pipeline n)"
  shows "0 < length (pc_args c)"
  using parseScript_wf [OF assms(1)] assms
  by (auto simp: wf_script_def list_all_iff wf_statement_def wf_pipeline_def)

theorem parseScript_no_empty_command_witness:
  "0 < length (pc_args \<lparr>pc_args = [''wc''], pc_redirs = []\<rparr>)"
  by (rule parseScript_no_empty_command
      [of "print_script sample_script" sample_script "hd sample_script" "hd (hd sample_script)"])
    (simp_all add: parse_print sample_script_def wf_script_def wf_statement_def wf_pipeline_def
      maxStatementCount_def statement_docs_def pipeline_docs_def heredoc_ok_def body_lines_def
      maxHereDocBytes_def)

end
