(* ===== verification/Path_Resolution.thy ===== *)
theory Path_Resolution
  imports Engine_State
begin

section \<open>The working directory and path access (\<open>path_resolution.go\<close>, \<open>orchestrator_path_policy.go\<close>)\<close>

text \<open>
  \<open>withPathResolution\<close> puts relative paths and \<open>cd\<close> in front of the callbacks of an adapter: every
  path an operation is given is made absolute against the working directory and normalised before the
  adapter sees it. \<open>withPathAccessPolicy\<close> makes the metadata of a path agree with the execution
  policy. The working directory of the Go code's \<open>workingDirState\<close> is the field \<open>sy_cwd\<close>.
\<close>

subsection \<open>Resolving\<close>

definition cwd_set :: "string \<Rightarrow> 'e sys \<Rightarrow> 'e sys" where
  "cwd_set cwd s = s\<lparr>sy_cwd := normalizeAbsolutePath cwd\<rparr>"

definition path_required :: go_error where "path_required = ErrText ''path is required''"

definition resolvePath :: "(string, string, 'e) op option \<Rightarrow> (string, string, 'e) op" where
  "resolvePath baseResolve raw s =
     (let trimmed = trim_space raw in
      if trimmed = [] then (Inl path_required, s)
      else let candidate = (if \<not> has_prefix trimmed ''/'' then path_join2 (sy_cwd s) trimmed else trimmed)
           in call baseResolve (normalizeAbsolutePath candidate) s)"

fun resolve_all :: "(string, string, 'e) op option \<Rightarrow> string list \<Rightarrow> 'e sys \<Rightarrow> (go_error + string list) \<times> 'e sys" where
  "resolve_all base [] s = (Inr [], s)"
| "resolve_all base (p # ps) s =
     (case resolvePath base p s of
        (Inl e, s') \<Rightarrow> (Inl e, s')
      | (Inr q, s') \<Rightarrow>
          (case resolve_all base ps s' of
             (Inl e, s'') \<Rightarrow> (Inl e, s'') | (Inr qs, s'') \<Rightarrow> (Inr (q # qs), s'')))"

text \<open>A callback that resolves the path in its argument, then calls the original with the resolved one.\<close>

definition resolving :: "(string, string, 'e) op option \<Rightarrow> ('a \<Rightarrow> string) \<Rightarrow> (string \<Rightarrow> 'a \<Rightarrow> 'a) \<Rightarrow>
    ('a, 'b, 'e) op option \<Rightarrow> ('a, 'b, 'e) op" where
  "resolving base get put orig x s =
     (case resolvePath base (get x) s of
        (Inl e, s') \<Rightarrow> (Inl e, s')
      | (Inr q, s') \<Rightarrow> call orig (put q x) s')"

definition resolving_all :: "(string, string, 'e) op option \<Rightarrow> ('a \<Rightarrow> string list) \<Rightarrow> (string list \<Rightarrow> 'a \<Rightarrow> 'a) \<Rightarrow>
    ('a, 'b, 'e) op \<Rightarrow> ('a, 'b, 'e) op" where
  "resolving_all base get put orig x s =
     (case resolve_all base (get x) s of
        (Inl e, s') \<Rightarrow> (Inl e, s')
      | (Inr qs, s') \<Rightarrow> orig (put qs x) s')"

definition resolving_search :: "(string, string, 'e) op option \<Rightarrow> (SearchRequest, SearchRecord list, 'e) op \<Rightarrow>
    (SearchRequest, SearchRecord list, 'e) op" where
  "resolving_search base orig req s =
     (if sr_Targets req = [] then orig req s
      else resolving_all base sr_Targets (\<lambda>qs r. r\<lparr>sr_Targets := qs\<rparr>) orig req s)"

definition changeWorkingDir :: "string \<Rightarrow> (string, string, 'e) op option \<Rightarrow> (string, bool, 'e) op option \<Rightarrow>
    (string, string, 'e) op" where
  "changeWorkingDir root baseResolve baseIsDirPath raw s =
     (let target = (if trim_space raw = [] then root else raw) in
      case resolvePath baseResolve target s of
        (Inl e, s1) \<Rightarrow> (Inl e, s1)
      | (Inr resolved, s1) \<Rightarrow>
          (case call baseIsDirPath resolved s1 of
             (Inl e, s2) \<Rightarrow> (Inl e, s2)
           | (Inr isDir, s2) \<Rightarrow>
               (if \<not> isDir then (Inl (ErrText (''not a directory: '' @ resolved)), s2)
                else (Inr resolved, cwd_set resolved s2))))"

definition resolveInitialWorkingDir :: "string \<Rightarrow> string \<Rightarrow> (string, string, 'e) op option \<Rightarrow>
    (string, bool, 'e) op option \<Rightarrow> 'e sys \<Rightarrow> (go_error + string) \<times> 'e sys" where
  "resolveInitialWorkingDir root raw resolveAbsolute isDir s =
     (if trim_space raw = [] then (Inr root, s)
      else let candidate = trim_space raw;
               candidate = (if \<not> has_prefix candidate ''/'' then path_join2 root candidate else candidate)
           in case call resolveAbsolute (normalizeAbsolutePath candidate) s of
                (Inl e, s1) \<Rightarrow> (Inl e, s1)
              | (Inr resolved, s1) \<Rightarrow>
                  (case call isDir resolved s1 of
                     (Inl e, s2) \<Rightarrow> (Inl e, s2)
                   | (Inr ok, s2) \<Rightarrow>
                       (if \<not> ok then (Inl (ErrText (''working directory is not a directory: '' @ resolved)), s2)
                        else (Inr resolved, s2))))"

text \<open>The result is the callbacks and the initial working directory that \<open>resetState\<close> goes back to.\<close>

definition resolving_ops :: "string \<Rightarrow> string \<Rightarrow> 'e Ops \<Rightarrow> 'e Ops" where
  "resolving_ops root initialWorkingDir ops =
     (let base = o_RequireAbsolutePath ops in
      ops\<lparr>o_WorkingDir := initialWorkingDir,
          o_GetWorkingDir := Some sy_cwd,
          o_ResolvePath := Some (resolvePath base),
          o_RequireAbsolutePath := Some (resolvePath base),
          o_ChangeWorkingDir := Some (changeWorkingDir root base (o_IsDirPath ops)),
          o_ListChildren := Some (resolving base id (\<lambda>q x. q) (o_ListChildren ops)),
          o_ListEntries := map_option (\<lambda>f. resolving base le_Dir (\<lambda>q r. r\<lparr>le_Dir := q\<rparr>) (Some f)) (o_ListEntries ops),
          o_EnumeratePaths :=
            map_option (\<lambda>f. resolving base en_Target (\<lambda>q r. r\<lparr>en_Target := q\<rparr>) (Some f)) (o_EnumeratePaths ops),
          o_IsDirPath := Some (resolving base id (\<lambda>q x. q) (o_IsDirPath ops)),
          o_DescribePath := map_option (\<lambda>f. resolving base id (\<lambda>q x. q) (Some f)) (o_DescribePath ops),
          o_ReadRawContent := Some (resolving base id (\<lambda>q x. q) (o_ReadRawContent ops)),
          o_ReadMany := map_option (resolving_all base rm_Paths (\<lambda>qs r. r\<lparr>rm_Paths := qs\<rparr>)) (o_ReadMany ops),
          o_ResolveSearchPaths := Some (resolving base fst (\<lambda>q x. (q, snd x)) (o_ResolveSearchPaths ops)),
          o_CollectFilesUnder := Some (resolving base id (\<lambda>q x. q) (o_CollectFilesUnder ops)),
          o_SearchContent := map_option (resolving_search base) (o_SearchContent ops),
          o_WriteFile := Some (resolving base fst (\<lambda>q x. (q, snd x)) (o_WriteFile ops)),
          o_AppendFile := Some (resolving base fst (\<lambda>q x. (q, snd x)) (o_AppendFile ops)),
          o_EditFile := Some (resolving base fst (\<lambda>q x. (q, snd x)) (o_EditFile ops)),
          o_MakeDir := Some (resolving base id (\<lambda>q x. q) (o_MakeDir ops)),
          o_RemoveFile := Some (resolving base id (\<lambda>q x. q) (o_RemoveFile ops)),
          o_RemoveDir := Some (resolving base id (\<lambda>q x. q) (o_RemoveDir ops)),
          o_ApplyMutations :=
            map_option (resolving_all base (map ms_Path) (\<lambda>qs ms. map2 (\<lambda>q m. m\<lparr>ms_Path := q\<rparr>) qs ms))
              (o_ApplyMutations ops),
          o_CheckPathOp := map_option (\<lambda>f. resolving base snd (\<lambda>q x. (fst x, q)) (Some f)) (o_CheckPathOp ops)\<rparr>)"

definition withPathResolution :: "'e Ops \<Rightarrow> 'e sys \<Rightarrow> (go_error + 'e Ops \<times> string) \<times> 'e sys" where
  "withPathResolution ops s =
     (let root = normalizeAbsolutePath (o_RootDir ops) in
      case resolveInitialWorkingDir root (trim_space (o_WorkingDir ops)) (o_RequireAbsolutePath ops)
             (o_IsDirPath ops) s of
        (Inl e, s1) \<Rightarrow> (Inl e, s1)
      | (Inr initial, s1) \<Rightarrow> (Inr (resolving_ops root initial ops, initial), s1\<lparr>sy_cwd := initial\<rparr>))"

subsection \<open>Path access\<close>

definition describe_with_policy :: "ExecutionPolicy \<Rightarrow> (string, PathMeta, 'e) op option \<Rightarrow> (string, PathMeta, 'e) op" where
  "describe_with_policy policy orig p s =
     (case orig of
        None \<Rightarrow> (Inl ErrUnsupported, s)
      | Some f \<Rightarrow>
          (case f p s of
             (Inl e, s') \<Rightarrow> (Inl e, s')
           | (Inr meta, s') \<Rightarrow>
               (let access = (if trim_space (pm_Access meta) = []
                              then (if AllowWrite policy then PathAccessReadWrite else PathAccessReadOnly)
                              else pm_Access meta);
                    access = NormalizePathAccess access;
                    caps = NormalizePathCapabilities (pm_Capabilities meta);
                    meta = meta\<lparr>pm_Access := access, pm_Capabilities := caps\<rparr>
                in if \<not> AllowWrite policy \<or> access = PathAccessReadOnly
                   then (Inr (meta\<lparr>pm_Access := PathAccessReadOnly, pm_Capabilities := StripWriteCapabilities caps\<rparr>), s')
                   else (Inr meta, s'))))"

definition withPathAccessPolicy :: "'e Ops \<Rightarrow> 'e Ops" where
  "withPathAccessPolicy ops =
     ops\<lparr>o_DescribePath := Some (describe_with_policy (o_Policy ops) (o_DescribePath ops))\<rparr>"

subsection \<open>Lemmas\<close>

lemma path_join2_slash: "has_prefix a ''/'' \<Longrightarrow> has_prefix (path_join2 a b) ''/''"
proof -
  assume "has_prefix a ''/''"
  then obtain t where "a = CHR ''/'' # t" by (auto elim: has_prefixE)
  then show ?thesis
    using canonical_path_clean [of "t @ ''/'' @ b"] canonical_Cons by (fastforce simp: path_join2_def)
qed

lemma trim_space_slash_prefix: "has_prefix a ''/'' \<Longrightarrow> has_prefix (trim_space a) ''/''"
proof -
  assume "has_prefix a ''/''"
  then obtain t where "a = CHR ''/'' # t" by (auto elim: has_prefixE)
  then show ?thesis using trim_space_slash [of t] by auto
qed

lemma normalizeAbsolutePath_rooted: "has_prefix a ''/'' \<Longrightarrow> is_canonical (normalizeAbsolutePath a)"
  using normalizeAbsolutePath_canonical trim_space_slash_prefix canonical_code by blast

lemma resolvePath_canonical:
  assumes "trim_space raw \<noteq> []" and "has_prefix (sy_cwd s) ''/''"
  shows "\<exists>q. is_canonical q \<and> resolvePath base raw s = call base q s"
proof -
  let ?c = "if \<not> has_prefix (trim_space raw) ''/'' then path_join2 (sy_cwd s) (trim_space raw) else trim_space raw"
  have "has_prefix ?c ''/''" using assms(2) by (simp add: path_join2_slash)
  then show ?thesis
    using assms(1) normalizeAbsolutePath_rooted [of ?c] unfolding resolvePath_def Let_def by auto
qed

lemma resolvePath_fix:
  assumes "canonical p" and "\<not> ends_with_space p"
  shows "resolvePath base p s = call base p s"
proof -
  obtain t where p: "p = CHR ''/'' # t" using assms(1) canonical_Cons by blast
  have t: "trim_space p = p" using assms(2) by (simp add: p trim_space_fixI)
  show ?thesis
    using normalizeAbsolutePath_fix [OF assms] by (simp add: resolvePath_def t) (simp add: p)
qed

definition keeps_cwd :: "('a, 'b, 'e) op option \<Rightarrow> bool" where
  "keeps_cwd f \<longleftrightarrow> (\<forall>x s. sy_cwd (snd (call f x s)) = sy_cwd s)"

lemma resolvePath_keeps_cwd: "keeps_cwd base \<Longrightarrow> sy_cwd (snd (resolvePath base raw s)) = sy_cwd s"
  by (simp add: resolvePath_def keeps_cwd_def Let_def)

lemma cwd_set_rooted: "has_prefix (sy_cwd (cwd_set p s)) ''/''"
  using normalizeAbsolutePath_Cons [of p] by (auto simp: cwd_set_def)

subsection \<open>Properties\<close>

text \<open>The adapter's path callback is only ever given canonical absolute paths: whatever path a
  command names, relative or absolute, with \<open>..\<close>, \<open>.\<close> or repeated slashes, what reaches the adapter
  starts with a slash and has no component that is empty, \<open>.\<close> or \<open>..\<close>.\<close>

theorem resolvePath_reaches_canonical:
  assumes "has_prefix (sy_cwd s) ''/''"
  shows "resolvePath base raw s =
      (if trim_space raw = [] then (Inl path_required, s)
       else call base (normalizeAbsolutePath
         (if has_prefix (trim_space raw) ''/'' then trim_space raw else path_join2 (sy_cwd s) (trim_space raw))) s) \<and>
    is_canonical (normalizeAbsolutePath
         (if has_prefix (trim_space raw) ''/'' then trim_space raw else path_join2 (sy_cwd s) (trim_space raw)))"
  using assms by (simp add: resolvePath_def Let_def normalizeAbsolutePath_rooted path_join2_slash)

theorem resolvePath_reaches_canonical_witness:
  "is_canonical (normalizeAbsolutePath
     (if has_prefix (trim_space ''../x'') ''/'' then trim_space ''../x''
      else path_join2 (sy_cwd (live_sys ())) (trim_space ''../x'')))"
  using resolvePath_reaches_canonical [of "live_sys ()" None "''../x''"] by (simp add: live_sys_def)

text \<open>\<open>cd\<close> is atomic: it changes the working directory exactly when it succeeds, and then to the
  normal form of a path the adapter says is a directory; on every error the working directory is what
  it was.\<close>

theorem changeWorkingDir_atomic:
  assumes "keeps_cwd base" and "keeps_cwd isDir"
    and "changeWorkingDir root base isDir raw s = (r, s')"
  shows "case r of
      Inr resolved \<Rightarrow> sy_cwd s' = normalizeAbsolutePath resolved \<and> has_prefix (sy_cwd s') ''/'' \<and>
        (\<exists>s1. fst (call isDir resolved s1) = Inr True)
    | Inl e \<Rightarrow> sy_cwd s' = sy_cwd s"
proof -
  let ?t = "if trim_space raw = [] then root else raw"
  obtain q s1 where q: "resolvePath base ?t s = (q, s1)" by (cases "resolvePath base ?t s")
  have c1: "sy_cwd s1 = sy_cwd s" using resolvePath_keeps_cwd [OF assms(1), of ?t s] q by simp
  show ?thesis
  proof (cases q)
    case (Inl e)
    then show ?thesis using assms(3) q c1 by (auto simp: changeWorkingDir_def Let_def)
  next
    case (Inr p)
    obtain d s2 where d: "call isDir p s1 = (d, s2)" by (cases "call isDir p s1")
    have "sy_cwd s2 = sy_cwd s1" using assms(2) d by (metis keeps_cwd_def snd_conv)
    then show ?thesis
      using assms(3) q Inr d c1 cwd_set_rooted [of p s2]
      by (cases d; cases "d = Inr True") (auto simp: changeWorkingDir_def Let_def cwd_set_def
          intro!: exI [of _ s1] split: if_splits)
  qed
qed

theorem changeWorkingDir_atomic_witness:
  "sy_cwd (snd (changeWorkingDir ''/'' (Some absolute_path) (Some (\<lambda>p s. (Inr True, s))) ''/etc'' (live_sys []))) =
   ''/etc''"
proof -
  have t: "trim_space ''/etc'' = ''/etc''"
    by (rule trim_space_fixI) (simp_all add: ends_with_space_def space_runes_def)
  have n: "normalizeAbsolutePath ''/etc'' = ''/etc''"
    by (rule normalizeAbsolutePath_fix) (simp_all add: canonical_code is_canonical_def good_comp_def ends_with_space_def space_runes_def)
  have r: "changeWorkingDir ''/'' (Some absolute_path) (Some (\<lambda>p s. (Inr True, s))) ''/etc'' (live_sys []) =
      (Inr ''/etc'', cwd_set ''/etc'' (live_sys []))"
    by (simp add: changeWorkingDir_def resolvePath_def t n absolute_path_def)
  have k: "keeps_cwd (Some absolute_path)" "keeps_cwd (Some (\<lambda>p s. (Inr True, s)))"
    by (simp_all add: keeps_cwd_def absolute_path_def)
  show ?thesis using changeWorkingDir_atomic [OF k r] by (simp add: r n cwd_set_def)
qed

text \<open>The metadata a command sees agrees with the policy: access is read-only or read-write, a
  read-only path carries no capability to write, append, edit, create or remove, and under a policy
  that allows no writes every path is read-only.\<close>

theorem described_access_agrees:
  assumes "call (o_DescribePath (withPathAccessPolicy ops)) p s = (Inr meta, s')"
  shows "pm_Access meta \<in> {''ro'', ''rw''} \<and>
    (\<not> AllowWrite (o_Policy ops) \<longrightarrow> pm_Access meta = ''ro'') \<and>
    (pm_Access meta = ''ro'' \<longrightarrow> set (pm_Capabilities meta) \<inter> set write_capabilities = {})"
proof -
  obtain f raw s1 where f: "o_DescribePath ops = Some f" "f p s = (Inr raw, s1)"
    using assms by (auto simp: withPathAccessPolicy_def describe_with_policy_def
        split: option.splits prod.splits sum.splits)
  let ?w = "AllowWrite (o_Policy ops)"
  let ?a = "NormalizePathAccess (if trim_space (pm_Access raw) = []
    then (if ?w then PathAccessReadWrite else PathAccessReadOnly) else pm_Access raw)"
  let ?caps = "NormalizePathCapabilities (pm_Capabilities raw)"
  have "call (o_DescribePath (withPathAccessPolicy ops)) p s =
      (if \<not> ?w \<or> ?a = PathAccessReadOnly
       then (Inr (raw\<lparr>pm_Access := ?a, pm_Capabilities := ?caps, pm_Access := PathAccessReadOnly,
                      pm_Capabilities := StripWriteCapabilities ?caps\<rparr>), s1)
       else (Inr (raw\<lparr>pm_Access := ?a, pm_Capabilities := ?caps\<rparr>), s1))"
    by (simp add: withPathAccessPolicy_def describe_with_policy_def f Let_def)
  then have meta: "meta = (if \<not> ?w \<or> ?a = PathAccessReadOnly
      then raw\<lparr>pm_Access := ?a, pm_Capabilities := ?caps, pm_Access := PathAccessReadOnly,
              pm_Capabilities := StripWriteCapabilities ?caps\<rparr>
      else raw\<lparr>pm_Access := ?a, pm_Capabilities := ?caps\<rparr>)"
    using assms by (simp split: if_splits)
  have a: "?a \<in> {''ro'', ''rw''}"
    by (simp add: NormalizePathAccess_def PathAccessReadOnly_def PathAccessReadWrite_def)
  show ?thesis
  proof (cases "\<not> ?w \<or> ?a = PathAccessReadOnly")
    case True
    then have "pm_Access meta = ''ro''" "pm_Capabilities meta = StripWriteCapabilities ?caps"
      unfolding meta by (simp_all only: if_True PathAccessReadOnly_def, simp_all)
    then show ?thesis using set_StripWriteCapabilities by simp
  next
    case False
    then have "pm_Access meta = ?a" "?a \<noteq> ''ro''" "?w"
      unfolding meta by (simp_all add: PathAccessReadOnly_def)
    then show ?thesis using a by simp
  qed
qed

definition open_meta :: PathMeta where
  "open_meta = \<lparr>pm_Exists = True, pm_IsDir = False, pm_Kind = ''file'', pm_Access = ''rw'',
     pm_Capabilities = [''read'', ''write''], pm_LineCount = 0, pm_FrontMatterLines = 0,
     pm_SpeakerRows = 0, pm_UserRelevance = []\<rparr>"

theorem described_access_agrees_witness:
  "\<exists>meta. call (o_DescribePath (withPathAccessPolicy
     (zero_ops\<lparr>o_DescribePath := Some (\<lambda>p s. (Inr open_meta, s)), o_Policy := DefaultPolicy\<rparr>))) ''/x'' (live_sys ()) =
     (Inr meta, live_sys ()) \<and> pm_Access meta = ''ro''"
proof -
  let ?ops = "zero_ops\<lparr>o_DescribePath := Some (\<lambda>p s. (Inr open_meta, s)), o_Policy := DefaultPolicy\<rparr>"
  obtain meta where m: "call (o_DescribePath (withPathAccessPolicy ?ops)) ''/x'' (live_sys ()) = (Inr meta, live_sys ())"
    by (simp add: withPathAccessPolicy_def describe_with_policy_def Let_def AllowWrite_def DefaultPolicy_def)
  have "\<not> AllowWrite (o_Policy ?ops)" by (simp add: AllowWrite_def DefaultPolicy_def)
  then show ?thesis using described_access_agrees [OF m] m by blast
qed

end
