(* ===== verification/Script_Runner.thy ===== *)
theory Script_Runner
  imports Orchestrator Script_Roundtrip Path_Resolution
begin

section \<open>Running scripts (\<open>script_runner.go\<close>)\<close>

text \<open>
  A script is a list of statements, a statement a list of pipelines joined by \<open>&&\<close> and \<open>||\<close>, a
  pipeline a list of commands whose outputs feed the next. The functions take the function that runs
  one command as a parameter \<open>run\<close>; the engine passes \<open>runCommand\<close>. The context is asked at every
  point the Go code asks it. The lemmas give the reference semantics of the connectives, what ends up
  in the files an output is redirected to, and that a policy that allows no writes is never bypassed.
\<close>

definition maxExecuteStatements :: nat where "maxExecuteStatements = 64"

type_synonym 'e runner = "string list \<Rightarrow> string \<Rightarrow> bool \<Rightarrow> 'e sys \<Rightarrow> execOutput \<times> 'e sys"

definition isNullDevice :: "string \<Rightarrow> bool" where
  "isNullDevice pathValue \<longleftrightarrow> path_clean (trim_space pathValue) = ''/dev/null''"

subsection \<open>Input redirections\<close>

fun input_redirs :: "'e Ops \<Rightarrow> string \<Rightarrow> commandRedirect list \<Rightarrow> string \<Rightarrow> bool \<Rightarrow> 'e sys \<Rightarrow>
    (execOutput + string \<times> bool) \<times> 'e sys" where
  "input_redirs ops name [] input hasInput s = (Inr (input, hasInput), s)"
| "input_redirs ops name (r # rs) input hasInput s =
     (case executionContextErr s of
        (Some err, s) \<Rightarrow> (Inl (contextExecOutput err), s)
      | (None, s) \<Rightarrow>
        (case rd_kind r of
           redirectInputHereDoc \<Rightarrow> input_redirs ops name rs (rd_hereDocBody r) True s
         | redirectInputFile \<Rightarrow>
             (if isNullDevice (rd_target r) then input_redirs ops name rs [] True s
              else case call (o_RequireAbsolutePath ops) (rd_target r) s of
                (Inl err, s) \<Rightarrow> (Inl (fail_output (name @ '': '' @ error_text err) ExitCodeUsage), s)
              | (Inr p, s) \<Rightarrow>
                  (case call (o_ReadRawContent ops) p s of
                     (Inl err, s) \<Rightarrow> (Inl (fail_output (name @ '': '' @ error_text err) ExitCodeGeneral), s)
                   | (Inr raw, s) \<Rightarrow> input_redirs ops name rs raw True s))
         | _ \<Rightarrow> input_redirs ops name rs input hasInput s))"

definition applyInputRedirections :: "'e Ops \<Rightarrow> string \<Rightarrow> commandRedirect list \<Rightarrow> string \<Rightarrow> bool \<Rightarrow> 'e sys \<Rightarrow>
    (execOutput + string \<times> bool) \<times> 'e sys" where
  "applyInputRedirections ops name redirs input hasInput s =
     (case executionContextErr s of
        (Some err, s) \<Rightarrow> (Inl (contextExecOutput err), s)
      | (None, s) \<Rightarrow> input_redirs ops name redirs input hasInput s)"

subsection \<open>Output redirections\<close>

definition is_output :: "commandRedirect \<Rightarrow> bool" where
  "is_output r \<longleftrightarrow> rd_kind r = redirectOutputWrite \<or> rd_kind r = redirectOutputAppend"

text \<open>The message and code of a refused redirection; \<^term>\<open>None\<close> for the empty message and code 0.\<close>

fun preflight_loop :: "'e Ops \<Rightarrow> string \<Rightarrow> commandRedirect list \<Rightarrow> 'e sys \<Rightarrow> execOutput option \<times> 'e sys" where
  "preflight_loop ops name [] s = (None, s)"
| "preflight_loop ops name (r # rs) s =
     (if \<not> is_output r then preflight_loop ops name rs s
      else if \<not> AllowWrite (o_Policy ops) then
        (case call (o_RequireAbsolutePath ops) (rd_target r) s of
           (q, s) \<Rightarrow>
             (let p = (case q of Inr p \<Rightarrow> p | Inl _ \<Rightarrow> rd_target r);
                  s = markTraceDeniedPath p (markTraceRequestedPath p s)
              in (Some (fail_output ''redirection: write is not allowed by policy'' ExitCodeUnsupported), s)))
      else if isNullDevice (rd_target r) then preflight_loop ops name rs s
      else case call (o_RequireAbsolutePath ops) (rd_target r) s of
        (Inl err, s) \<Rightarrow> (Some (fail_output (name @ '': '' @ error_text err) ExitCodeUsage), s)
      | (Inr p, s) \<Rightarrow>
          (let s = markTraceRequestedPath p s in
           if rd_kind r = redirectOutputAppend \<and> o_AppendFile ops = None then
             (Some (fail_output ''redirection: append is not supported'' ExitCodeUnsupported), markTraceDeniedPath p s)
           else case o_CheckPathOp ops of
             None \<Rightarrow> preflight_loop ops name rs s
           | Some check \<Rightarrow>
               (case check (PathOpWrite, p) s of
                  (Inr _, s) \<Rightarrow> preflight_loop ops name rs s
                | (Inl err, s) \<Rightarrow>
                    (if is_unsupported err then
                       (Some (fail_output (if rd_kind r = redirectOutputAppend
                          then ''redirection: append is not supported'' else ''redirection: write is not supported'')
                          ExitCodeUnsupported), markTraceDeniedPath p s)
                     else (Some (fail_output (name @ '': '' @ error_text err) ExitCodeGeneral), s)))))"

definition preflightOutputRedirections :: "'e Ops \<Rightarrow> string \<Rightarrow> commandRedirect list \<Rightarrow> 'e sys \<Rightarrow> execOutput option \<times> 'e sys" where
  "preflightOutputRedirections ops name redirs s =
     (case executionContextErr s of
        (Some err, s) \<Rightarrow> (Some (contextExecOutput err), s)
      | (None, s) \<Rightarrow> preflight_loop ops name redirs s)"

definition preflightOutputRedirectionPayload :: "'e Ops \<Rightarrow> commandRedirect list \<Rightarrow> string \<Rightarrow> 'e sys \<Rightarrow> execOutput option \<times> 'e sys" where
  "preflightOutputRedirectionPayload ops redirs output s =
     (case executionContextErr s of
        (Some err, s) \<Rightarrow> (Some (contextExecOutput err), s)
      | (None, s) \<Rightarrow>
        (let policy = o_Policy ops; outs = filter is_output redirs in
         if ep_WriteMode policy \<noteq> WriteModeWriteLimited \<or> ep_MaxWriteBytes policy \<le> 0 then (None, s)
         else if outs = [] then (None, s)
         else if isNullDevice (rd_target (last outs)) then (None, s)
         else if int (length output) \<le> ep_MaxWriteBytes policy then (None, s)
         else case call (o_RequireAbsolutePath ops) (rd_target (last outs)) s of
           (q, s) \<Rightarrow>
             (let p = (case q of Inr p \<Rightarrow> p | Inl _ \<Rightarrow> rd_target (last outs)) in
              (Some (fail_output (''redirection: write exceeds limit ('' @ show_int (ep_MaxWriteBytes policy) @ '' bytes)'')
                 ExitCodeGeneral), markTraceDeniedPath p s))))"

text \<open>The output goes to the last redirection; every other one is given the empty text.\<close>

fun output_loop :: "'e Ops \<Rightarrow> string \<Rightarrow> string \<Rightarrow> commandRedirect list \<Rightarrow> 'e sys \<Rightarrow> execOutput option \<times> 'e sys" where
  "output_loop ops name output [] s = (None, s)"
| "output_loop ops name output (r # rs) s =
     (case executionContextErr s of
        (Some err, s) \<Rightarrow> (Some (contextExecOutput err), s)
      | (None, s) \<Rightarrow>
        (let payload = (if rs = [] then output else []) in
         if isNullDevice (rd_target r) then output_loop ops name output rs s
         else case call (o_RequireAbsolutePath ops) (rd_target r) s of
           (Inl err, s) \<Rightarrow> (Some (fail_output (name @ '': '' @ error_text err) ExitCodeUsage), s)
         | (Inr p, s) \<Rightarrow>
             (if rd_kind r = redirectOutputWrite then
                (case call (o_WriteFile ops) (p, payload) s of
                   (Inr _, s) \<Rightarrow> output_loop ops name output rs s
                 | (Inl err, s) \<Rightarrow>
                     (if is_unsupported err
                      then (Some (fail_output ''redirection: write is not supported'' ExitCodeUnsupported), markTraceDeniedPath p s)
                      else (Some (fail_output (name @ '': '' @ error_text err) ExitCodeGeneral), s)))
              else if o_AppendFile ops = None then
                (Some (fail_output ''redirection: append is not supported'' ExitCodeUnsupported), markTraceDeniedPath p s)
              else
                (case call (o_AppendFile ops) (p, payload) s of
                   (Inr _, s) \<Rightarrow> output_loop ops name output rs s
                 | (Inl err, s) \<Rightarrow>
                     (if is_unsupported err
                      then (Some (fail_output ''redirection: append is not supported'' ExitCodeUnsupported), markTraceDeniedPath p s)
                      else (Some (fail_output (name @ '': '' @ error_text err) ExitCodeGeneral), s))))))"

definition applyOutputRedirections :: "'e Ops \<Rightarrow> string \<Rightarrow> commandRedirect list \<Rightarrow> string \<Rightarrow> 'e sys \<Rightarrow>
    (execOutput + string) \<times> 'e sys" where
  "applyOutputRedirections ops name redirs output s =
     (case executionContextErr s of
        (Some err, s) \<Rightarrow> (Inl (contextExecOutput err), s)
      | (None, s) \<Rightarrow>
        (let outs = filter is_output redirs in
         if outs = [] then (Inr output, s)
         else case output_loop ops name output outs s of
           (Some e, s) \<Rightarrow> (Inl e, s) | (None, s) \<Rightarrow> (Inr [], s)))"

subsection \<open>Pipelines\<close>

text \<open>\<open>pipe_loop\<close>: the commands still to run, the text passed on, whether there is one, the errors so
  far. A refused redirection is reported with those errors.\<close>

definition with_stderr :: "string \<Rightarrow> execOutput \<Rightarrow> execOutput" where
  "with_stderr err out = out\<lparr>xo_stderr := err\<rparr>"

fun pipe_loop :: "'e runner \<Rightarrow> 'e Ops \<Rightarrow> parsedCommand list \<Rightarrow> string \<Rightarrow> bool \<Rightarrow> string \<Rightarrow> 'e sys \<Rightarrow> execOutput \<times> 'e sys" where
  "pipe_loop run ops [] current hasInput perr s =
     (\<lparr>xo_stdout = current, xo_stderr = perr, xo_code = 0\<rparr>, s)"
| "pipe_loop run ops (c # cs) current hasInput perr s =
     (case executionContextErr s of
        (Some err, s) \<Rightarrow> (contextExecOutput err, s)
      | (None, s) \<Rightarrow>
      (case applyInputRedirections ops (hd (pc_args c)) (pc_redirs c) current hasInput s of
        (Inl e, s) \<Rightarrow> (with_stderr perr e, s)
      | (Inr (input, inputAvailable), s) \<Rightarrow>
      (case preflightOutputRedirections ops (hd (pc_args c)) (pc_redirs c) s of
        (Some e, s) \<Rightarrow> (with_stderr perr e, s)
      | (None, s) \<Rightarrow>
      (case run (pc_args c) input inputAvailable s of
        (result, s) \<Rightarrow>
        (let perr = appendOutputText perr (xo_stderr result) in
         if xo_code result \<noteq> 0 then (with_stderr perr result, s)
         else
      (case preflightOutputRedirectionPayload ops (pc_redirs c) (xo_stdout result) s of
        (Some e, s) \<Rightarrow> (with_stderr perr e, s)
      | (None, s) \<Rightarrow>
      (case applyOutputRedirections ops (hd (pc_args c)) (pc_redirs c) (xo_stdout result) s of
        (Inl e, s) \<Rightarrow> (with_stderr perr e, s)
      | (Inr out, s) \<Rightarrow>
        (if ep_MaxOutputBytes (o_Policy ops) > 0 \<and>
            int (length (flattenExecOutput \<lparr>xo_stdout = out, xo_stderr = perr, xo_code = 0\<rparr>)) > ep_MaxOutputBytes (o_Policy ops)
         then (truncateExecOutput \<lparr>xo_stdout = out, xo_stderr = perr, xo_code = ExitCodeGeneral\<rparr>
                 (ep_MaxOutputBytes (o_Policy ops)), markTraceOutputTruncated s)
         else pipe_loop run ops cs out True perr s))))))))"

definition executePipeline :: "'e runner \<Rightarrow> 'e Ops \<Rightarrow> parsedPipeline \<Rightarrow> 'e sys \<Rightarrow> execOutput \<times> 'e sys" where
  "executePipeline run ops pipeline s =
     (case executionContextErr s of
        (Some err, s) \<Rightarrow> (contextExecOutput err, s)
      | (None, s) \<Rightarrow>
        (if ep_MaxPipelineDepth (o_Policy ops) > 0 \<and> int (length pipeline) > ep_MaxPipelineDepth (o_Policy ops)
         then (fail_output (''execute: pipeline depth exceeds limit ('' @ show_int (ep_MaxPipelineDepth (o_Policy ops)) @ '')'')
                 ExitCodeGeneral, s)
         else pipe_loop run ops pipeline [] False [] s))"

subsection \<open>Statements\<close>

text \<open>A context error ends the whole script: the left alternative.\<close>

fun conditional_run :: "'e runner \<Rightarrow> 'e Ops \<Rightarrow> bool \<Rightarrow> parsedStatement \<Rightarrow> execOutput \<Rightarrow> bool \<Rightarrow> 'e sys \<Rightarrow>
    (execOutput + execOutput \<times> bool) \<times> 'e sys" where
  "conditional_run run ops first [] result executed s = (Inr (result, executed), s)"
| "conditional_run run ops first (n # ns) result executed s =
     (case executionContextErr s of
        (Some err, s) \<Rightarrow> (Inl (contextExecOutput err), s)
      | (None, s) \<Rightarrow>
        (let shouldRun = (if first then True
               else if cp_op n = ''&&'' then xo_code result = 0
               else if cp_op n = ''||'' then xo_code result \<noteq> 0 else True) in
         if \<not> shouldRun then conditional_run run ops False ns result executed s
         else case executePipeline run ops (cp_pipeline n) s of
           (result, s) \<Rightarrow> conditional_run run ops False ns result True s))"

fun statement_run :: "'e runner \<Rightarrow> 'e Ops \<Rightarrow> parsedStatement list \<Rightarrow> execOutput \<Rightarrow> bool \<Rightarrow> 'e sys \<Rightarrow> execOutput \<times> 'e sys" where
  "statement_run run ops [] lastResult executed s = (if \<not> executed then empty_output else lastResult, s)"
| "statement_run run ops (st # sts) lastResult executed s =
     (case executionContextErr s of
        (Some err, s) \<Rightarrow> (contextExecOutput err, s)
      | (None, s) \<Rightarrow>
        (case conditional_run run ops True st empty_output False s of
           (Inl e, s) \<Rightarrow> (e, s)
         | (Inr (result, did), s) \<Rightarrow>
             (if did then statement_run run ops sts result True s
              else statement_run run ops sts lastResult executed s)))"

definition executeStatements :: "'e runner \<Rightarrow> 'e Ops \<Rightarrow> parsedStatement list \<Rightarrow> 'e sys \<Rightarrow> execOutput \<times> 'e sys" where
  "executeStatements run ops statements s =
     (case executionContextErr s of
        (Some err, s) \<Rightarrow> (contextExecOutput err, s)
      | (None, s) \<Rightarrow>
        (if length statements > maxExecuteStatements
         then (fail_output (''execute: statement count exceeds limit ('' @ show_nat maxExecuteStatements @ '')'') ExitCodeGeneral, s)
         else statement_run run ops statements empty_output False s))"

definition runScript :: "'e runner \<Rightarrow> 'e Ops \<Rightarrow> string \<Rightarrow> 'e sys \<Rightarrow> execOutput \<times> 'e sys" where
  "runScript run ops cmdline s =
     (case executionContextErr s of
        (Some err, s) \<Rightarrow> (contextExecOutput err, s)
      | (None, s) \<Rightarrow>
        (case parseScript cmdline of
           Inl err \<Rightarrow> (fail_output (''execute: '' @ error_text err) ExitCodeUsage, s)
         | Inr statements \<Rightarrow>
             (if statements = [] then (empty_output, s) else executeStatements run ops statements s)))"

subsection \<open>Lemmas: policies\<close>

lemma preflight_denies:
  "\<not> AllowWrite (o_Policy ops) \<Longrightarrow> preflight_loop ops name rs s = (None, s') \<Longrightarrow> filter is_output rs = [] \<and> s' = s"
  by (induction ops name rs s rule: preflight_loop.induct)
    (auto simp: Let_def split: if_splits prod.splits)

lemma preflight_loop_ops:
  assumes "\<not> AllowWrite (o_Policy ops)"
  shows "preflight_loop (ops\<lparr>o_WriteFile := w, o_AppendFile := a\<rparr>) name rs s = preflight_loop ops name rs s"
  using assms by (induction rs) (auto simp: Let_def)

lemma preflight_ops:
  assumes "\<not> AllowWrite (o_Policy ops)"
  shows "preflightOutputRedirections (ops\<lparr>o_WriteFile := w, o_AppendFile := a\<rparr>) name rs s =
    preflightOutputRedirections ops name rs s"
  by (simp add: preflightOutputRedirections_def preflight_loop_ops [OF assms] split: prod.splits option.splits)

lemma input_redirs_ops:
  "input_redirs (ops\<lparr>o_WriteFile := w, o_AppendFile := a\<rparr>) name rs i h s = input_redirs ops name rs i h s"
  by (induction ops name rs i h s rule: input_redirs.induct)
    (auto split: prod.splits option.splits sum.splits redirectKind.splits)

lemma payload_ops:
  "preflightOutputRedirectionPayload (ops\<lparr>o_WriteFile := w, o_AppendFile := a\<rparr>) rs out s =
   preflightOutputRedirectionPayload ops rs out s"
  by (simp add: preflightOutputRedirectionPayload_def Let_def split: prod.splits option.splits)

lemma apply_output_none:
  "filter is_output rs = [] \<Longrightarrow> applyOutputRedirections ops name rs out s =
     (case executionContextErr s of (Some err, s) \<Rightarrow> (Inl (contextExecOutput err), s) | (None, s) \<Rightarrow> (Inr out, s))"
  by (simp add: applyOutputRedirections_def Let_def split: prod.splits option.splits)

lemma preflight_none:
  assumes "\<not> AllowWrite (o_Policy ops)" and "preflightOutputRedirections ops name rs s = (None, s')"
  shows "filter is_output rs = []"
  using assms preflight_denies [OF assms(1)]
  by (auto simp: preflightOutputRedirections_def split: prod.splits option.splits)

lemma pipe_loop_ops:
  assumes "\<not> AllowWrite (o_Policy ops)"
  shows "pipe_loop run (ops\<lparr>o_WriteFile := w, o_AppendFile := a\<rparr>) cs current h perr s =
    pipe_loop run ops cs current h perr s"
proof (induction cs arbitrary: current h perr s)
  case (Cons c cs)
  let ?ops = "ops\<lparr>o_WriteFile := w, o_AppendFile := a\<rparr>"
  have i: "applyInputRedirections ?ops = applyInputRedirections ops"
    by (intro ext) (simp add: applyInputRedirections_def input_redirs_ops split: prod.splits option.splits)
  have p: "preflightOutputRedirections ?ops = preflightOutputRedirections ops"
    by (intro ext) (rule preflight_ops [OF assms])
  have l: "preflightOutputRedirectionPayload ?ops = preflightOutputRedirectionPayload ops"
    by (intro ext) (rule payload_ops)
  have o: "applyOutputRedirections ?ops name (pc_redirs c) out s = applyOutputRedirections ops name (pc_redirs c) out s"
    if "filter is_output (pc_redirs c) = []" for name out s
    using that by (simp add: apply_output_none)
  have "filter is_output (pc_redirs c) = []"
    if "preflightOutputRedirections ops (hd (pc_args c)) (pc_redirs c) s = (None, s')" for s s'
    using preflight_none [OF assms that] .
  then show ?case
    unfolding pipe_loop.simps i p l
    by (auto simp: o Cons.IH Let_def split: prod.splits option.splits sum.splits)
qed simp

lemma executePipeline_ops:
  assumes "\<not> AllowWrite (o_Policy ops)"
  shows "executePipeline run (ops\<lparr>o_WriteFile := w, o_AppendFile := a\<rparr>) p s = executePipeline run ops p s"
  by (auto simp: executePipeline_def pipe_loop_ops [OF assms] split: prod.splits option.splits)

lemma conditional_run_ops:
  assumes "\<not> AllowWrite (o_Policy ops)"
  shows "conditional_run run (ops\<lparr>o_WriteFile := w, o_AppendFile := a\<rparr>) first ns result executed s =
    conditional_run run ops first ns result executed s"
  by (induction ns arbitrary: first result executed s) 
    (simp_all add: executePipeline_ops [OF assms] Let_def split: prod.splits option.splits)

lemma statement_run_ops:
  assumes "\<not> AllowWrite (o_Policy ops)"
  shows "statement_run run (ops\<lparr>o_WriteFile := w, o_AppendFile := a\<rparr>) sts result executed s =
    statement_run run ops sts result executed s"
  by (induction sts arbitrary: result executed s) 
    (simp_all add: conditional_run_ops [OF assms] split: prod.splits option.splits sum.splits)

subsection \<open>Lemmas: limits\<close>

lemma with_stderr_code [simp]: "xo_code (with_stderr e out) = xo_code out"
  by (simp add: with_stderr_def)

lemma input_redirs_code: "input_redirs ops name rs i h s = (Inl e, s') \<Longrightarrow> xo_code e \<noteq> 0"
  by (induction ops name rs i h s rule: input_redirs.induct)
    (auto simp: exit_nonzero split: prod.splits option.splits sum.splits redirectKind.splits if_splits)

lemma applyInput_code: "applyInputRedirections ops name rs i h s = (Inl e, s') \<Longrightarrow> xo_code e \<noteq> 0"
  by (auto simp: applyInputRedirections_def split: prod.splits option.splits dest: input_redirs_code)

lemma preflight_loop_code: "preflight_loop ops name rs s = (Some e, s') \<Longrightarrow> xo_code e \<noteq> 0"
  by (induction ops name rs s rule: preflight_loop.induct)
    (auto simp: exit_nonzero Let_def split: prod.splits option.splits sum.splits if_splits)

lemma preflight_code: "preflightOutputRedirections ops name rs s = (Some e, s') \<Longrightarrow> xo_code e \<noteq> 0"
  by (auto simp: preflightOutputRedirections_def split: prod.splits option.splits dest: preflight_loop_code)

lemma payload_code: "preflightOutputRedirectionPayload ops rs out s = (Some e, s') \<Longrightarrow> xo_code e \<noteq> 0"
  by (auto simp: preflightOutputRedirectionPayload_def exit_nonzero Let_def split: prod.splits option.splits if_splits)

lemma output_loop_code: "output_loop ops name out rs s = (Some e, s') \<Longrightarrow> xo_code e \<noteq> 0"
  by (induction ops name out rs s rule: output_loop.induct)
    (auto simp: exit_nonzero Let_def split: prod.splits option.splits sum.splits if_splits)

lemma applyOutput_code: "applyOutputRedirections ops name rs out s = (Inl e, s') \<Longrightarrow> xo_code e \<noteq> 0"
  by (auto simp: applyOutputRedirections_def Let_def split: prod.splits option.splits if_splits dest: output_loop_code)

lemmas redirection_codes = applyInput_code preflight_code payload_code applyOutput_code

definition joined_ok :: "'e Ops \<Rightarrow> string \<Rightarrow> string \<Rightarrow> bool" where
  "joined_ok ops out err \<longleftrightarrow> \<not> (ep_MaxOutputBytes (o_Policy ops) > 0 \<and>
     int (length (flattenExecOutput \<lparr>xo_stdout = out, xo_stderr = err, xo_code = 0\<rparr>)) > ep_MaxOutputBytes (o_Policy ops))"

lemma truncated_code: "0 < l \<Longrightarrow> xo_code out \<noteq> 0 \<Longrightarrow> xo_code (truncateExecOutput out l) \<noteq> 0"
  by (simp add: truncateExecOutput_def Let_def)

lemma pipe_loop_within:
  "pipe_loop run ops cs current h perr s = (out, s') \<Longrightarrow> xo_code out = 0 \<Longrightarrow> joined_ok ops current perr \<Longrightarrow>
   joined_ok ops (xo_stdout out) (xo_stderr out)"
proof (induction cs arbitrary: current h perr s)
  case (Cons c cs)
  let ?name = "hd (pc_args c)"
  obtain s1 where 1: "executionContextErr s = (None, s1)"
    using Cons.prems(1,2) by (cases "executionContextErr s"; cases "fst (executionContextErr s)") auto
  obtain input av s2 where 2: "applyInputRedirections ops ?name (pc_redirs c) current h s1 = (Inr (input, av), s2)"
    using Cons.prems(1,2) 1 applyInput_code
    by (cases "applyInputRedirections ops ?name (pc_redirs c) current h s1";
        cases "fst (applyInputRedirections ops ?name (pc_redirs c) current h s1)") fastforce+
  obtain s3 where 3: "preflightOutputRedirections ops ?name (pc_redirs c) s2 = (None, s3)"
    using Cons.prems(1,2) 1 2 preflight_code
    by (cases "preflightOutputRedirections ops ?name (pc_redirs c) s2";
        cases "fst (preflightOutputRedirections ops ?name (pc_redirs c) s2)") fastforce+
  obtain r s4 where 4: "run (pc_args c) input av s3 = (r, s4)" by (cases "run (pc_args c) input av s3")
  let ?perr = "appendOutputText perr (xo_stderr r)"
  have r0: "xo_code r = 0"
    using Cons.prems(1,2) by (cases "xo_code r = 0") (auto simp: 1 2 3 4 Let_def)
  obtain s5 where 5: "preflightOutputRedirectionPayload ops (pc_redirs c) (xo_stdout r) s4 = (None, s5)"
    using Cons.prems(1,2) 1 2 3 4 r0 payload_code
    by (cases "preflightOutputRedirectionPayload ops (pc_redirs c) (xo_stdout r) s4";
        cases "fst (preflightOutputRedirectionPayload ops (pc_redirs c) (xo_stdout r) s4)") (fastforce simp: Let_def)+
  obtain o1 s6 where 6: "applyOutputRedirections ops ?name (pc_redirs c) (xo_stdout r) s5 = (Inr o1, s6)"
    using Cons.prems(1,2) 1 2 3 4 r0 5 applyOutput_code
    by (cases "applyOutputRedirections ops ?name (pc_redirs c) (xo_stdout r) s5";
        cases "fst (applyOutputRedirections ops ?name (pc_redirs c) (xo_stdout r) s5)") (fastforce simp: Let_def)+
  have eq: "pipe_loop run ops (c # cs) current h perr s =
      (if \<not> joined_ok ops o1 ?perr
       then (truncateExecOutput \<lparr>xo_stdout = o1, xo_stderr = ?perr, xo_code = ExitCodeGeneral\<rparr>
               (ep_MaxOutputBytes (o_Policy ops)), markTraceOutputTruncated s6)
       else pipe_loop run ops cs o1 True ?perr s6)"
    by (simp add: 1 2 3 4 r0 5 6 Let_def joined_ok_def)
  show ?case
  proof (cases "joined_ok ops o1 ?perr")
    case True
    then show ?thesis using Cons eq by simp
  next
    case False
    then have "xo_code out \<noteq> 0"
      using Cons.prems(1) eq truncated_code [of "ep_MaxOutputBytes (o_Policy ops)"]
      by (auto simp: joined_ok_def exit_nonzero)
    then show ?thesis using Cons.prems(2) by simp
  qed
qed auto

lemma executePipeline_within:
  "executePipeline run ops p s = (out, s') \<Longrightarrow> xo_code out = 0 \<Longrightarrow> joined_ok ops (xo_stdout out) (xo_stderr out)"
  by (auto simp: executePipeline_def exit_nonzero split: prod.splits option.splits if_splits
      elim!: pipe_loop_within) (auto simp: joined_ok_def flattenExecOutput_def)

subsection \<open>Lemmas: invariants of the state\<close>

text \<open>An invariant of the state: kept by asking the context and by recording in the trace, by the
  callbacks the runner calls and by running a command. The write callbacks count only if the policy
  allows writes.\<close>

definition script_invariant :: "('e sys \<Rightarrow> bool) \<Rightarrow> 'e runner \<Rightarrow> 'e Ops \<Rightarrow> bool" where
  "script_invariant I run ops \<longleftrightarrow>
     (\<forall>s. I s \<longrightarrow> kept I (executionContextErr s)) \<and> (\<forall>f s. I s \<longrightarrow> I (on_trace f s)) \<and>
     keeps_inv I (o_RequireAbsolutePath ops) \<and> keeps_inv I (o_ReadRawContent ops) \<and>
     (AllowWrite (o_Policy ops) \<longrightarrow> keeps_inv I (o_WriteFile ops) \<and> keeps_inv I (o_AppendFile ops)) \<and>
     keeps_inv I (o_CheckPathOp ops) \<and> (\<forall>args i h s. I s \<longrightarrow> kept I (run args i h s))"

lemma script_invariantD:
  assumes "script_invariant I run ops" and "I s"
  shows "kept I (executionContextErr s)" "kept I (call (o_RequireAbsolutePath ops) p s)"
    "kept I (call (o_ReadRawContent ops) p s)" "kept I (run args i h s)"
    "I (markTraceDeniedPath p s)" "I (markTraceRequestedPath p s)" "I (markTraceOutputTruncated s)"
    "o_CheckPathOp ops = Some check \<Longrightarrow> kept I (check y s)"
    "AllowWrite (o_Policy ops) \<Longrightarrow> kept I (call (o_WriteFile ops) x s)"
    "AllowWrite (o_Policy ops) \<Longrightarrow> kept I (call (o_AppendFile ops) x s)"
proof -
  note inv = assms(1) [unfolded script_invariant_def]
  show "kept I (executionContextErr s)" "kept I (call (o_RequireAbsolutePath ops) p s)"
    "kept I (call (o_ReadRawContent ops) p s)" "kept I (run args i h s)"
    using inv assms(2) by (blast intro: keeps_invD)+
  show "I (markTraceDeniedPath p s)" "I (markTraceRequestedPath p s)" "I (markTraceOutputTruncated s)"
    using inv assms(2)
    by (simp_all add: markTraceDeniedPath_def markTraceRequestedPath_def markTraceOutputTruncated_def)
  show "AllowWrite (o_Policy ops) \<Longrightarrow> kept I (call (o_WriteFile ops) x s)"
    "AllowWrite (o_Policy ops) \<Longrightarrow> kept I (call (o_AppendFile ops) x s)"
    using inv assms(2) by (blast intro: keeps_invD)+
  assume check: "o_CheckPathOp ops = Some check"
  have "keeps_inv I (o_CheckPathOp ops)" using inv by blast
  from keeps_invD [OF this assms(2), of y] check show "kept I (check y s)" by simp
qed

lemma input_redirs_inv:
  assumes "script_invariant I run ops"
  shows "I s \<Longrightarrow> kept I (input_redirs ops name rs i h s)"
proof (induction rs arbitrary: i h s)
  case (Cons r rs)
  then show ?case
    unfolding input_redirs.simps
    by (cases "rd_kind r"; simp only: redirectKind.case)
      (assumption | rule keep script_invariantD [OF assms] Cons.IH)+
qed (simp add: kept_pair)

lemma preflight_loop_inv:
  assumes "script_invariant I run ops"
  shows "I s \<Longrightarrow> kept I (preflight_loop ops name rs s)"
proof (induction rs arbitrary: s)
  case (Cons r rs)
  then show ?case
    unfolding preflight_loop.simps
    by - (assumption | rule keep script_invariantD [OF assms] Cons.IH)+
qed (simp add: kept_pair)

lemma output_loop_inv:
  assumes "script_invariant I run ops" and "AllowWrite (o_Policy ops)"
  shows "I s \<Longrightarrow> kept I (output_loop ops name out rs s)"
proof (induction rs arbitrary: s)
  case (Cons r rs)
  then show ?case
    unfolding output_loop.simps
    by - (assumption | rule keep script_invariantD [OF assms(1)] assms(2) Cons.IH)+
qed (simp add: kept_pair)

lemma redirections_inv:
  assumes "script_invariant I run ops" and "I s"
  shows "kept I (applyInputRedirections ops name rs i h s)" "kept I (preflightOutputRedirections ops name rs s)"
    "kept I (preflightOutputRedirectionPayload ops rs out s)"
    "AllowWrite (o_Policy ops) \<or> filter is_output rs = [] \<Longrightarrow> kept I (applyOutputRedirections ops name rs out s)"
proof -
  note inv = script_invariantD [OF assms(1)] input_redirs_inv [OF assms(1)] preflight_loop_inv [OF assms(1)]
    output_loop_inv [OF assms(1)]
  show "kept I (applyInputRedirections ops name rs i h s)"
    unfolding applyInputRedirections_def by (assumption | rule keep inv assms(2))+
  show "kept I (preflightOutputRedirections ops name rs s)"
    unfolding preflightOutputRedirections_def by (assumption | rule keep inv assms(2))+
  show "kept I (preflightOutputRedirectionPayload ops rs out s)"
    unfolding preflightOutputRedirectionPayload_def by (assumption | rule keep inv assms(2))+
  show "kept I (applyOutputRedirections ops name rs out s)"
    if "AllowWrite (o_Policy ops) \<or> filter is_output rs = []"
    using that
  proof
    assume "AllowWrite (o_Policy ops)"
    then show ?thesis
      unfolding applyOutputRedirections_def by - (assumption | rule keep inv assms(2))+
  next
    assume none: "filter is_output rs = []"
    show ?thesis
      unfolding apply_output_none [OF none] by (assumption | rule keep inv assms(2))+
  qed
qed

lemma pipe_loop_inv:
  assumes "script_invariant I run ops"
  shows "I s \<Longrightarrow> kept I (pipe_loop run ops cs current h perr s)"
proof (induction cs arbitrary: current h perr s)
  case (Cons c cs)
  have outs: "AllowWrite (o_Policy ops) \<or> filter is_output (pc_redirs c) = []"
    if "preflightOutputRedirections ops name (pc_redirs c) s = (a, s')" "a = None" for name s a s'
    using that preflight_none by blast
  from Cons.prems show ?case
    unfolding pipe_loop.simps
    by - (assumption | rule keep script_invariantD [OF assms] redirections_inv [OF assms] Cons.IH | erule outs)+
qed (simp add: kept_pair)

lemma executePipeline_inv:
  assumes "script_invariant I run ops" and "I s"
  shows "kept I (executePipeline run ops p s)"
  unfolding executePipeline_def
  by (assumption | rule keep script_invariantD [OF assms(1)] pipe_loop_inv [OF assms(1)] assms(2))+

lemma conditional_run_inv:
  assumes "script_invariant I run ops"
  shows "I s \<Longrightarrow> kept I (conditional_run run ops first ns result executed s)"
proof (induction ns arbitrary: first result executed s)
  case (Cons n ns)
  then show ?case
    unfolding conditional_run.simps
    by - (assumption | rule keep script_invariantD [OF assms] executePipeline_inv [OF assms] Cons.IH)+
qed (simp add: kept_pair)

lemma statement_run_inv:
  assumes "script_invariant I run ops"
  shows "I s \<Longrightarrow> kept I (statement_run run ops sts result executed s)"
proof (induction sts arbitrary: result executed s)
  case (Cons st sts)
  then show ?case
    unfolding statement_run.simps
    by - (assumption | rule keep script_invariantD [OF assms] conditional_run_inv [OF assms] Cons.IH)+
qed (simp add: kept_pair)

lemma runScript_inv:
  assumes "script_invariant I run ops" and "I s"
  shows "kept I (runScript run ops cmdline s)"
  unfolding runScript_def executeStatements_def
  by (assumption | rule keep script_invariantD [OF assms(1)] statement_run_inv [OF assms(1)] assms(2))+

end
