(* ===== verification/Script_Semantics.thy ===== *)
theory Script_Semantics
  imports Script_Runner
begin

section \<open>What a script means\<close>

text \<open>
  The reference semantics of the script language, and the properties of the runner. A statement is
  read as a left-associated expression over pipelines; its value is computed by structural recursion,
  without the flags, the early returns and the context polls of the runner's loops. The runner
  agrees with it while the context is live. Output redirections are described over any callbacks that keep files.
\<close>

subsection \<open>Conditional lists\<close>

datatype cond = Run parsedPipeline | AndThen cond parsedPipeline | OrElse cond parsedPipeline

fun cond_tree :: "cond \<Rightarrow> parsedStatement \<Rightarrow> cond" where
  "cond_tree c [] = c"
| "cond_tree c (n # ns) =
     cond_tree (if cp_op n = ''||'' then OrElse c (cp_pipeline n) else AndThen c (cp_pipeline n)) ns"

definition cond_of :: "parsedStatement \<Rightarrow> cond" where
  "cond_of st = cond_tree (Run (cp_pipeline (hd st))) (tl st)"

fun cond_eval :: "(parsedPipeline \<Rightarrow> 'e sys \<Rightarrow> execOutput \<times> 'e sys) \<Rightarrow> cond \<Rightarrow> 'e sys \<Rightarrow> execOutput \<times> 'e sys" where
  "cond_eval f (Run p) s = f p s"
| "cond_eval f (AndThen c p) s = (case cond_eval f c s of (r, s) \<Rightarrow> if xo_code r = 0 then f p s else (r, s))"
| "cond_eval f (OrElse c p) s = (case cond_eval f c s of (r, s) \<Rightarrow> if xo_code r = 0 then (r, s) else f p s)"

text \<open>Statements one after the other; the output is the last one's.\<close>

fun seq_eval :: "(parsedPipeline \<Rightarrow> 'e sys \<Rightarrow> execOutput \<times> 'e sys) \<Rightarrow> execOutput \<Rightarrow> parsedStatement list \<Rightarrow> 'e sys \<Rightarrow>
    execOutput \<times> 'e sys" where
  "seq_eval f out [] s = (out, s)"
| "seq_eval f out (st # sts) s = (case cond_eval f (cond_of st) s of (out, s) \<Rightarrow> seq_eval f out sts s)"

lemma cond_run_tree:
  assumes "script_invariant (\<lambda>s. sy_ctx s = CtxLive) run ops"
    and "\<And>n. n \<in> set ns \<Longrightarrow> cp_op n = ''&&'' \<or> cp_op n = ''||''"
    and "cond_eval (executePipeline run ops) c s0 = (r, s)" and "sy_ctx s = CtxLive"
  shows "\<exists>r' s'. cond_eval (executePipeline run ops) (cond_tree c ns) s0 = (r', s') \<and> sy_ctx s' = CtxLive \<and>
    conditional_run run ops False ns r True s = (Inr (r', True), s')"
  using assms(2-)
proof (induction ns arbitrary: c r s)
  case (Cons n ns)
  let ?f = "executePipeline run ops"
  have live: "executionContextErr s = (None, s)" using Cons.prems(3) by (simp add: executionContextErr_live)
  obtain r1 s1 where f: "?f (cp_pipeline n) s = (r1, s1)" by (cases "?f (cp_pipeline n) s")
  have live1: "sy_ctx s1 = CtxLive"
    using executePipeline_inv [OF assms(1), of s "cp_pipeline n"] Cons.prems(3) f by (simp add: kept_def)
  have op: "cp_op n = ''&&'' \<or> cp_op n = ''||''" using Cons.prems(1) by simp
  have ops: "\<And>m. m \<in> set ns \<Longrightarrow> cp_op m = ''&&'' \<or> cp_op m = ''||''" using Cons.prems(1) by simp
  show ?case
  proof (cases "(cp_op n = ''&&'') = (xo_code r = 0)")
    case True
    then have run: "conditional_run run ops False (n # ns) r True s = conditional_run run ops False ns r1 True s1"
      using op f by (auto simp: live)
    have "cond_eval ?f (if cp_op n = ''||'' then OrElse c (cp_pipeline n) else AndThen c (cp_pipeline n)) s0 = (r1, s1)"
      using True op f Cons.prems(2) by auto
    from Cons.IH [OF ops this live1] show ?thesis by (simp add: run del: conditional_run.simps)
  next
    case False
    then have run: "conditional_run run ops False (n # ns) r True s = conditional_run run ops False ns r True s"
      using op by (auto simp: live)
    have "cond_eval ?f (if cp_op n = ''||'' then OrElse c (cp_pipeline n) else AndThen c (cp_pipeline n)) s0 = (r, s)"
      using False op Cons.prems(2) by auto
    from Cons.IH [OF ops this Cons.prems(3)] show ?thesis by (simp add: run del: conditional_run.simps)
  qed
qed simp

lemma cond_run_of:
  assumes inv: "script_invariant (\<lambda>s. sy_ctx s = CtxLive) run ops" and "wf_statement st" and "sy_ctx s = CtxLive"
  shows "\<exists>r s'. cond_eval (executePipeline run ops) (cond_of st) s = (r, s') \<and> sy_ctx s' = CtxLive \<and>
    conditional_run run ops True st empty_output False s = (Inr (r, True), s')"
proof (cases st)
  case Nil
  then show ?thesis using assms(2) by (simp add: wf_statement_def)
next
  case (Cons n ns)
  obtain r1 s1 where f: "executePipeline run ops (cp_pipeline n) s = (r1, s1)"
    by (cases "executePipeline run ops (cp_pipeline n) s")
  have live: "executionContextErr s = (None, s)" using assms(3) by (simp add: executionContextErr_live)
  have live1: "sy_ctx s1 = CtxLive"
    using executePipeline_inv [OF inv, of s "cp_pipeline n"] assms(3) f by (simp add: kept_def)
  have ops: "\<And>m. m \<in> set ns \<Longrightarrow> cp_op m = ''&&'' \<or> cp_op m = ''||''"
    using assms(2) Cons by (auto simp: wf_statement_def list_all_iff)
  from cond_run_tree [OF inv ops, where c = "Run (cp_pipeline n)" and ?s0.0 = s and r = r1 and s = s1] f live1 show ?thesis
    by (simp add: Cons live cond_of_def)
qed

lemma statement_run_seq:
  assumes "script_invariant (\<lambda>s. sy_ctx s = CtxLive) run ops"
  shows "list_all wf_statement sts \<Longrightarrow> sy_ctx s = CtxLive \<Longrightarrow> sts \<noteq> [] \<or> executed \<Longrightarrow>
    statement_run run ops sts out executed s = seq_eval (executePipeline run ops) out sts s"
proof (induction sts arbitrary: out executed s)
  case (Cons st sts)
  have wf: "wf_statement st" "list_all wf_statement sts" using Cons.prems(1) by simp_all
  from cond_run_of [OF assms wf(1) Cons.prems(2)] obtain r s1
    where c: "cond_eval (executePipeline run ops) (cond_of st) s = (r, s1)" "sy_ctx s1 = CtxLive"
      "conditional_run run ops True st empty_output False s = (Inr (r, True), s1)" by blast
  show ?case
    using Cons.IH [OF wf(2) c(2), of True r] Cons.prems(2)
    by (simp add: executionContextErr_live c)
qed simp

lemma runScript_seq:
  assumes inv: "script_invariant (\<lambda>s. sy_ctx s = CtxLive) run ops" and live: "sy_ctx s = CtxLive"
  shows "runScript run ops cmdline s =
    (case parseScript cmdline of
       Inl err \<Rightarrow> (fail_output (''execute: '' @ error_text err) ExitCodeUsage, s)
     | Inr sts \<Rightarrow>
         if maxExecuteStatements < length sts
         then (fail_output (''execute: statement count exceeds limit ('' @ show_nat maxExecuteStatements @ '')'') ExitCodeGeneral, s)
         else seq_eval (executePipeline run ops) empty_output sts s)"
proof (cases "parseScript cmdline")
  case (Inr sts)
  have wf: "list_all wf_statement sts"
    using parseScript_wf [OF Inr] by (simp add: wf_script_def)
  show ?thesis
    using statement_run_seq [OF inv wf live, of False empty_output]
    by (cases "sts = []") (simp_all add: runScript_def executeStatements_def executionContextErr_live live Inr)
qed (simp add: runScript_def executionContextErr_live live)

text \<open>What an invariant of the engine gives the runner.\<close>

lemma engine_script_invariant:
  assumes "engine_invariant I reg ops" and "keeps_inv I (o_ReadRawContent ops)" and "keeps_inv I (o_CheckPathOp ops)"
    and "AllowWrite (o_Policy ops) \<Longrightarrow> keeps_inv I (o_WriteFile ops) \<and> keeps_inv I (o_AppendFile ops)"
  shows "script_invariant I (runCommand reg ops) ops"
proof -
  have "kept I (runCommand reg ops args i h s)" if "I s" for args i h s
    using runCommand_inv [OF assms(1) that] .
  then show ?thesis
    using assms unfolding script_invariant_def engine_invariant_def by blast
qed

subsection \<open>Redirections\<close>

text \<open>A store of files behind the callbacks: \<open>files w p\<close> is the content of the file at \<open>p\<close>, \<open>canon\<close> the path a
  spelling names. A callback that fails may have changed the file it was asked to change, but no other.\<close>

definition content_text :: "string option \<Rightarrow> string" where
  "content_text c = (case c of None \<Rightarrow> [] | Some t \<Rightarrow> t)"

definition puts_file :: "('e \<Rightarrow> string \<Rightarrow> string option) \<Rightarrow> string \<Rightarrow> (string option \<Rightarrow> string) \<Rightarrow> 'e \<Rightarrow> bool \<Rightarrow> 'e \<Rightarrow> bool" where
  "puts_file files p new w ok w' \<longleftrightarrow>
     (\<forall>q. q \<noteq> p \<longrightarrow> files w' q = files w q) \<and> (ok \<longrightarrow> files w' p = Some (new (files w p)))"

definition file_store :: "('e \<Rightarrow> string \<Rightarrow> string option) \<Rightarrow> (string \<Rightarrow> string) \<Rightarrow> 'e Ops \<Rightarrow> bool" where
  "file_store files canon ops \<longleftrightarrow>
     (\<forall>raw s x s'. call (o_RequireAbsolutePath ops) raw s = (x, s') \<longrightarrow>
        files (sy_env s') = files (sy_env s) \<and> (\<forall>p. x = Inr p \<longrightarrow> p = canon raw)) \<and>
     (\<forall>p c s x s'. call (o_WriteFile ops) (p, c) s = (x, s') \<longrightarrow>
        puts_file files p (\<lambda>_. c) (sy_env s) (x = Inr ()) (sy_env s')) \<and>
     (\<forall>p c s x s'. call (o_AppendFile ops) (p, c) s = (x, s') \<longrightarrow>
        puts_file files p (\<lambda>old. content_text old @ c) (sy_env s) (x = Inr ()) (sy_env s'))"

lemma store_require:
  assumes "file_store files canon ops" and "call (o_RequireAbsolutePath ops) raw s = (x, s')"
  shows "files (sy_env s') = files (sy_env s)" "x = Inr p \<Longrightarrow> p = canon raw"
  using assms by (auto simp: file_store_def)

lemma store_put:
  assumes "file_store files canon ops"
  shows "call (o_WriteFile ops) (p, c) s = (x, s') \<Longrightarrow> puts_file files p (\<lambda>_. c) (sy_env s) (x = Inr ()) (sy_env s')"
    "call (o_AppendFile ops) (p, c) s = (x, s') \<Longrightarrow>
      puts_file files p (\<lambda>old. content_text old @ c) (sy_env s) (x = Inr ()) (sy_env s')"
  using assms unfolding file_store_def by blast+

text \<open>The redirection names the path; what a path then holds: nothing of the old content if some redirection of the
  list truncates it, and the output if the last one names it.\<close>

definition redirect_names :: "(string \<Rightarrow> string) \<Rightarrow> string \<Rightarrow> commandRedirect \<Rightarrow> bool" where
  "redirect_names canon p r \<longleftrightarrow> \<not> isNullDevice (rd_target r) \<and> canon (rd_target r) = p"

definition redirected :: "(string \<Rightarrow> string) \<Rightarrow> commandRedirect list \<Rightarrow> string \<Rightarrow> string option \<Rightarrow> string \<Rightarrow> string option" where
  "redirected canon rs output old p =
     (if \<not> list_ex (redirect_names canon p) rs then old
      else Some ((if list_ex (\<lambda>r. redirect_names canon p r \<and> rd_kind r = redirectOutputWrite) rs then [] else content_text old) @
                 (if redirect_names canon p (last rs) then output else [])))"

lemma redirected_Nil [simp]: "redirected canon [] output old p = old"
  by (simp add: redirected_def)

text \<open>One step of the loop; the rest of the list then works on what it left.\<close>

definition step_content :: "(string \<Rightarrow> string) \<Rightarrow> commandRedirect \<Rightarrow> string \<Rightarrow> string option \<Rightarrow> string \<Rightarrow> string option" where
  "step_content canon r payload old p =
     (if \<not> redirect_names canon p r then old
      else Some ((if rd_kind r = redirectOutputWrite then [] else content_text old) @ payload))"

lemma redirected_step:
  "redirected canon (r # rs) output old p =
     redirected canon rs output (step_content canon r (if rs = [] then output else []) old p) p"
  by (auto simp: redirected_def step_content_def content_text_def list_ex_iff split: option.split)

lemma polled_env: "executionContextErr s = (c, s') \<Longrightarrow> sy_env s' = sy_env s"
  by (auto simp: executionContextErr_def split: prod.splits)

lemma output_loop_store:
  assumes store: "file_store files canon ops"
  shows "output_loop ops name output rs s = (x, s') \<Longrightarrow>
    (\<forall>p. \<not> list_ex (redirect_names canon p) rs \<longrightarrow> files (sy_env s') p = files (sy_env s) p) \<and>
    (x = None \<longrightarrow> files (sy_env s') = (\<lambda>p. redirected canon rs output (files (sy_env s) p) p))"
proof (induction rs arbitrary: s)
  case (Cons r rs)
  let ?payload = "if rs = [] then output else []"
  have "(\<exists>s1. output_loop ops name output rs s1 = (x, s') \<and>
        files (sy_env s1) = (\<lambda>p. step_content canon r ?payload (files (sy_env s) p) p)) \<or>
      x \<noteq> None \<and> (\<forall>p. \<not> redirect_names canon p r \<longrightarrow> files (sy_env s') p = files (sy_env s) p)"
  proof -
    obtain c s0 where c: "executionContextErr s = (c, s0)" by fastforce
    note c = c polled_env [OF c]
    show ?thesis
    proof (cases "c = None \<and> \<not> isNullDevice (rd_target r)")
      case False
      then show ?thesis using Cons.prems c by (auto simp: step_content_def redirect_names_def split: option.splits)
    next
      case True
      obtain q s1 where q: "call (o_RequireAbsolutePath ops) (rd_target r) s0 = (q, s1)" by fastforce
      note require = store_require [OF store q]
      show ?thesis
      proof (cases q)
        case (Inl e)
        then show ?thesis using Cons.prems c q True require by auto
      next
        case (Inr p)
        then have p: "p = canon (rd_target r)" using require by simp
        let ?f = "if rd_kind r = redirectOutputWrite then o_WriteFile ops else o_AppendFile ops"
        obtain y s2 where y: "call ?f (p, ?payload) s1 = (y, s2)" by fastforce
        have put: "puts_file files p (\<lambda>old. (if rd_kind r = redirectOutputWrite then [] else content_text old) @ ?payload)
            (sy_env s1) (y = Inr ()) (sy_env s2)"
          using store_put [OF store] y by (cases "rd_kind r = redirectOutputWrite") simp_all
        have before: "files (sy_env s1) = files (sy_env s)" using require(1) c by simp
        show ?thesis
        proof (cases y)
          case (Inl e)
          have "x \<noteq> None \<and> sy_env s' = sy_env s2"
            using Cons.prems c(1) q True \<open>q = Inr p\<close> y Inl
            by (auto simp: Let_def call_def markTraceDeniedPath_def on_trace_def split: if_splits option.splits)
          moreover have "\<forall>q. \<not> redirect_names canon q r \<longrightarrow> files (sy_env s2) q = files (sy_env s) q"
            using put before True by (auto simp: puts_file_def redirect_names_def p)
          ultimately show ?thesis by simp
        next
          case ok: (Inr u)
          have "output_loop ops name output rs s2 = (x, s')"
            using Cons.prems c(1) q True \<open>q = Inr p\<close> y ok
            by (auto simp: Let_def call_def split: if_splits option.splits)
          moreover have "files (sy_env s2) = (\<lambda>p. step_content canon r ?payload (files (sy_env s) p) p)"
            using put before ok True by (auto simp: puts_file_def step_content_def redirect_names_def p fun_eq_iff)
          ultimately show ?thesis by blast
        qed
      qed
    qed
  qed
  then show ?case
  proof (elim disjE exE conjE)
    fix s1 assume s1: "output_loop ops name output rs s1 = (x, s')"
      "files (sy_env s1) = (\<lambda>p. step_content canon r ?payload (files (sy_env s) p) p)"
    from Cons.IH [OF s1(1)] show ?thesis by (simp add: s1(2) redirected_step) (simp add: step_content_def)
  qed auto
qed simp

lemma applyOutputRedirections_store:
  assumes "file_store files canon ops" and "applyOutputRedirections ops name redirs output s = (x, s')"
  defines "outs \<equiv> filter is_output redirs"
  shows "\<not> list_ex (redirect_names canon p) outs \<Longrightarrow> files (sy_env s') p = files (sy_env s) p"
    "x = Inr rest \<Longrightarrow> rest = (if outs = [] then output else []) \<and>
       files (sy_env s') p = redirected canon outs output (files (sy_env s) p) p"
proof -
  obtain c s0 where c: "executionContextErr s = (c, s0)" by fastforce
  note c = c polled_env [OF c]
  obtain y s1 where y: "output_loop ops name output outs s0 = (y, s1)" by fastforce
  have "x = Inr rest \<longrightarrow> rest = (if outs = [] then output else []) \<and> (outs = [] \<longrightarrow> s' = s0) \<and> (outs \<noteq> [] \<longrightarrow> y = None \<and> s' = s1)"
    and "s' = s0 \<or> s' = s1"
    using assms(2) c y by (auto simp: applyOutputRedirections_def outs_def Let_def split: option.splits if_splits)
  with output_loop_store [OF assms(1) y] c(2)
  show "\<not> list_ex (redirect_names canon p) outs \<Longrightarrow> files (sy_env s') p = files (sy_env s) p"
    "x = Inr rest \<Longrightarrow> rest = (if outs = [] then output else []) \<and>
       files (sy_env s') p = redirected canon outs output (files (sy_env s) p) p"
    by (auto split: if_splits)
qed

subsection \<open>Lemmas: limits and policies\<close>

lemma runScript_ops:
  assumes "\<not> AllowWrite (o_Policy ops)"
  shows "runScript run (ops\<lparr>o_WriteFile := w, o_AppendFile := a\<rparr>) cmdline s = runScript run ops cmdline s"
  by (simp add: runScript_def executeStatements_def statement_run_ops [OF assms] split: prod.splits option.splits sum.splits)

definition success_within :: "'e Ops \<Rightarrow> execOutput \<Rightarrow> bool" where
  "success_within ops out \<longleftrightarrow> (xo_code out = 0 \<longrightarrow> joined_ok ops (xo_stdout out) (xo_stderr out))"

lemma success_within_simps [simp]:
  "success_within ops empty_output" "success_within ops (contextExecOutput e)"
  by (simp_all add: success_within_def empty_output_def joined_ok_def flattenExecOutput_def)

lemma pipeline_success_within: "executePipeline run ops p s = (out, s') \<Longrightarrow> success_within ops out"
  using executePipeline_within unfolding success_within_def by blast

lemma conditional_run_within:
  "success_within ops result \<Longrightarrow> conditional_run run ops first ns result executed s = (x, s') \<Longrightarrow>
   case x of Inl e \<Rightarrow> success_within ops e | Inr (r, d) \<Rightarrow> success_within ops r"
proof (induction ns arbitrary: first result executed s)
  case (Cons n ns)
  obtain e s1 where c: "executionContextErr s = (e, s1)" by (cases "executionContextErr s")
  obtain r s2 where p: "executePipeline run ops (cp_pipeline n) s1 = (r, s2)"
    by (cases "executePipeline run ops (cp_pipeline n) s1")
  show ?case
    using Cons.prems Cons.IH [OF Cons.prems(1)] Cons.IH [OF pipeline_success_within [OF p]]
    by (cases e) (auto simp: c p Let_def split: if_splits)
qed auto

lemma statement_run_within:
  "success_within ops out \<Longrightarrow> statement_run run ops sts out executed s = (out', s') \<Longrightarrow> success_within ops out'"
proof (induction sts arbitrary: out executed s)
  case (Cons st sts)
  obtain e s1 where c: "executionContextErr s = (e, s1)" by (cases "executionContextErr s")
  obtain x s2 where r: "conditional_run run ops True st empty_output False s1 = (x, s2)"
    by (cases "conditional_run run ops True st empty_output False s1")
  show ?case
    using Cons.prems Cons.IH conditional_run_within [OF success_within_simps(1) r]
    by (cases e; cases x) (auto simp: c r split: if_splits)
qed (auto split: if_splits)

lemma runScript_within: "runScript run ops cmdline s = (out, s') \<Longrightarrow> success_within ops out"
  by (auto simp: runScript_def executeStatements_def exit_nonzero split: prod.splits option.splits sum.splits if_splits
      dest: statement_run_within [OF success_within_simps(1)])
    (auto simp: success_within_def exit_nonzero)

subsection \<open>Lemmas: an engine with one builtin\<close>

definition echo_ops :: "files Ops" where
  "echo_ops = files_ops\<lparr>o_Policy := DefaultPolicy\<rparr>"

lemma emitAudit_fields [simp]: "sy_ctx (emitAudit ops ev s) = sy_ctx s" "sy_env (emitAudit ops ev s) = sy_env s"
  by (simp_all add: emitAudit_def)

lemma executionContextErr_env [simp]: "sy_env (snd (executionContextErr s)) = sy_env s"
  by (simp add: executionContextErr_def split: prod.splits)

lemma echo_invariant:
  "engine_invariant (\<lambda>s. sy_ctx s = CtxLive) echo_registry echo_ops"
  "engine_invariant (\<lambda>s. sy_env s = m) echo_registry echo_ops"
  by (simp_all add: engine_invariant_def builtin_keeps_def kept_def keeps_inv_def executionContextErr_live
      echo_registry_def echo_ops_def files_ops_def zero_ops_def Lookup_def sample_spec_def absolute_path_def call_def)

lemma echo_reads:
  "keeps_inv (\<lambda>s. sy_ctx s = CtxLive) (o_ReadRawContent echo_ops)" "keeps_inv I (o_CheckPathOp echo_ops)"
  "keeps_inv (\<lambda>s. sy_env s = m) (o_ReadRawContent echo_ops)" "\<not> AllowWrite (o_Policy echo_ops)"
  by (simp_all add: keeps_inv_def kept_def call_def echo_ops_def files_ops_def zero_ops_def read_file_def
      DefaultPolicy_def AllowWrite_def split: option.splits)

subsection \<open>Properties\<close>

text \<open>C5. Whatever its commands do, a script means what the reference semantics says, as long as the
  context is live: statements run in order, \<open>&&\<close> and \<open>||\<close> associate to the left with equal
  precedence and skip only their own right operand, the output is that of the last pipeline run; a
  script that does not parse or has too many statements runs nothing at all.\<close>

theorem runScript_meaning:
  assumes "script_invariant (\<lambda>s. sy_ctx s = CtxLive) run ops" and "sy_ctx s = CtxLive"
  shows "runScript run ops cmdline s =
    (case parseScript cmdline of
       Inl err \<Rightarrow> (fail_output (''execute: '' @ error_text err) ExitCodeUsage, s)
     | Inr sts \<Rightarrow>
         if maxExecuteStatements < length sts
         then (fail_output (''execute: statement count exceeds limit ('' @ show_nat maxExecuteStatements @ '')'') ExitCodeGeneral, s)
         else seq_eval (executePipeline run ops) empty_output sts s)"
  by (rule runScript_seq [OF assms])

theorem runScript_meaning_witness:
  "runScript (runCommand echo_registry echo_ops) echo_ops (print_script sample_script) (live_sys []) =
   seq_eval (executePipeline (runCommand echo_registry echo_ops) echo_ops) empty_output sample_script (live_sys [])"
proof -
  have "wf_script sample_script"
    by (simp add: wf_script_def sample_script_def wf_statement_def wf_pipeline_def maxStatementCount_def
        statement_docs_def pipeline_docs_def heredoc_ok_def body_lines_def maxHereDocBytes_def)
  then have p: "parseScript (print_script sample_script) = Inr sample_script" by (rule parse_print)
  have i: "script_invariant (\<lambda>s. sy_ctx s = CtxLive) (runCommand echo_registry echo_ops) echo_ops"
    using engine_script_invariant [OF echo_invariant(1) echo_reads(1,2)] echo_reads(4) by blast
  have "sy_ctx (live_sys []) = CtxLive" by (simp add: live_sys_def)
  from runScript_meaning [OF i this] show ?thesis
    by (simp add: p maxExecuteStatements_def) (simp add: sample_script_def)
qed

text \<open>C7. An invariant of the context, the callbacks, the adapter and the builtins is an invariant of
  whole scripts; of the write callbacks it need only be one if the policy allows writes. In
  particular, under a policy that allows none a script whose builtins and adapter change nothing
  changes nothing, whatever redirections it contains.\<close>

theorem script_keeps_invariant:
  assumes "engine_invariant I reg ops" and "keeps_inv I (o_ReadRawContent ops)" and "keeps_inv I (o_CheckPathOp ops)"
    and "AllowWrite (o_Policy ops) \<Longrightarrow> keeps_inv I (o_WriteFile ops) \<and> keeps_inv I (o_AppendFile ops)" and "I s"
  shows "I (snd (runScript (runCommand reg ops) ops cmdline s))"
  using runScript_inv [OF engine_script_invariant [OF assms(1-4)] assms(5)] by (simp add: kept_def)

theorem script_keeps_invariant_witness:
  "sy_env (snd (runScript (runCommand echo_registry echo_ops) echo_ops ''echo hi > /a'' (live_sys [(''/a'', ''x'')]))) =
   [(''/a'', ''x'')]"
  using script_keeps_invariant [OF echo_invariant(2) echo_reads(3,2), of "[(''/a'', ''x'')]" "live_sys [(''/a'', ''x'')]"]
    echo_reads(4)
  by (simp add: live_sys_def)

text \<open>Under a policy that allows no writes the runner never reaches a write callback: replacing
  them changes no script's outcome.\<close>

theorem runScript_no_write_bypass:
  assumes "\<not> AllowWrite (o_Policy ops)"
  shows "runScript run (ops\<lparr>o_WriteFile := w, o_AppendFile := a\<rparr>) cmdline s = runScript run ops cmdline s"
  by (rule runScript_ops [OF assms])

theorem runScript_no_write_bypass_witness:
  "runScript (runCommand echo_registry echo_ops) (echo_ops\<lparr>o_WriteFile := None, o_AppendFile := None\<rparr>) ''echo hi > /a'' (live_sys []) =
   runScript (runCommand echo_registry echo_ops) echo_ops ''echo hi > /a'' (live_sys [])"
  by (rule runScript_no_write_bypass [OF echo_reads(4)])

text \<open>A script that succeeds returns an output within the policy's limit, however many commands
  and pipelines contributed to it.\<close>

theorem runScript_success_within_limit:
  assumes "runScript run ops cmdline s = (out, s')" and "xo_code out = 0" and "0 < ep_MaxOutputBytes (o_Policy ops)"
  shows "int (length (flattenExecOutput out)) \<le> ep_MaxOutputBytes (o_Policy ops)"
  using runScript_within [OF assms(1)] assms(2,3)
  by (auto simp: success_within_def joined_ok_def flattenExecOutput_def)

definition echo_script :: "commandRedirect list \<Rightarrow> parsedStatement list" where
  "echo_script redirs = [[\<lparr>cp_op = [], cp_pipeline = [\<lparr>pc_args = [''echo'', ''hi''], pc_redirs = redirs\<rparr>]\<rparr>]]"

lemma echo_script_parses: "parseScript (print_script (echo_script [])) = Inr (echo_script [])"
  by (rule parse_print) (simp add: wf_script_def echo_script_def wf_statement_def wf_pipeline_def
      maxStatementCount_def statement_docs_def pipeline_docs_def)

lemma echo_script_runs:
  "runScript (runCommand echo_registry echo_ops) echo_ops (print_script (echo_script [])) (live_sys []) =
   (\<lparr>xo_stdout = ''hi'', xo_stderr = [], xo_code = 0\<rparr>, live_sys [])"
proof -
  have live: "executionContextErr (live_sys []) = (None, live_sys [])"
    by (simp add: live_sys_def executionContextErr_live)
  have "runCommand echo_registry echo_ops [''echo'', ''hi''] [] False (live_sys []) =
      (\<lparr>xo_stdout = ''hi'', xo_stderr = [], xo_code = 0\<rparr>, live_sys [])"
    using runCommand_echo by (simp add: echo_ops_def)
  then have "executePipeline (runCommand echo_registry echo_ops) echo_ops
      [\<lparr>pc_args = [''echo'', ''hi''], pc_redirs = []\<rparr>] (live_sys []) =
      (\<lparr>xo_stdout = ''hi'', xo_stderr = [], xo_code = 0\<rparr>, live_sys [])"
    by (simp add: executePipeline_def live applyInputRedirections_def preflightOutputRedirections_def
        preflightOutputRedirectionPayload_def applyOutputRedirections_def echo_ops_def files_ops_def zero_ops_def
        DefaultPolicy_def flattenExecOutput_def appendOutputText_def Let_def)
  then have seq: "seq_eval (executePipeline (runCommand echo_registry echo_ops) echo_ops) empty_output (echo_script [])
      (live_sys []) = (\<lparr>xo_stdout = ''hi'', xo_stderr = [], xo_code = 0\<rparr>, live_sys [])"
    by (simp add: echo_script_def cond_of_def)
  have inv: "script_invariant (\<lambda>s. sy_ctx s = CtxLive) (runCommand echo_registry echo_ops) echo_ops"
    using engine_script_invariant [OF echo_invariant(1) echo_reads(1,2)] echo_reads(4) by blast
  have "sy_ctx (live_sys [] :: files sys) = CtxLive" "length (echo_script []) \<le> maxExecuteStatements"
    by (simp_all add: live_sys_def echo_script_def maxExecuteStatements_def)
  then show ?thesis by (simp add: runScript_seq [OF inv] echo_script_parses seq)
qed

theorem runScript_success_within_limit_witness:
  "int (length (flattenExecOutput \<lparr>xo_stdout = ''hi'', xo_stderr = [], xo_code = 0\<rparr>)) \<le> ep_MaxOutputBytes (o_Policy echo_ops)"
  by (rule runScript_success_within_limit [OF echo_script_runs]) (simp_all add: echo_ops_def DefaultPolicy_def)

end
