(* ===== verification/Mount_Dispatch.thy ===== *)
theory Mount_Dispatch
  imports Engine_State
begin

section \<open>What a mount is asked for (\<open>pkg/contract/mount_dispatch.go\<close>)\<close>

text \<open>
  Between the engine and a mount stand these functions: each normalises the mount's profile, checks
  the request against the profile (the command class it must declare, its budgets, its write
  semantics), and calls the capability interface the mount implements, or falls back to a cheaper one
  where the latency class allows it. A mount that is nil is left out (the router drops it).
\<close>

subsection \<open>Profiles\<close>

definition NormalizeMountProfile :: "MountProfile \<Rightarrow> MountProfile" where
  "NormalizeMountProfile profile =
     (let profile = (if mp_TruthModel profile = TruthUnset then profile\<lparr>mp_TruthModel := TruthProjection\<rparr> else profile);
          profile = (if mp_MaterializationMode profile = MaterializationUnset
                     then profile\<lparr>mp_MaterializationMode := MaterializationSnapshot\<rparr> else profile);
          profile = (if mp_WriteSemantics profile = MountWriteUnset
                     then profile\<lparr>mp_WriteSemantics := MountWriteReadOnly\<rparr> else profile);
          profile = (if mp_LatencyClass profile = LatencyUnset
                     then profile\<lparr>mp_LatencyClass := LocalFast\<rparr> else profile)
      in if mp_SupportedCLIClasses profile = [] then profile
         else profile\<lparr>mp_SupportedCLIClasses :=
           sort (dedupe_first (filter (\<lambda>c. c \<noteq> []) (mp_SupportedCLIClasses profile)))\<rparr>)"

definition MountSupportsCLIClass :: "MountProfile \<Rightarrow> MountCLIClass \<Rightarrow> bool" where
  "MountSupportsCLIClass profile cls \<longleftrightarrow> cls \<in> set (mp_SupportedCLIClasses (NormalizeMountProfile profile))"

definition MountAllowsFallback :: "MountProfile \<Rightarrow> bool" where
  "MountAllowsFallback profile =
     (case mp_LatencyClass (NormalizeMountProfile profile) of LocalFast \<Rightarrow> True | LocalHeavy \<Rightarrow> True | _ \<Rightarrow> False)"

definition mountDeclaresConsistency :: "MountProfile \<Rightarrow> bool" where
  "mountDeclaresConsistency profile =
     (let c = mp_Consistency (NormalizeMountProfile profile) in
      mc_PathReadAfterWrite c \<or> mc_ListAfterWrite c \<or> mc_SearchAfterWrite c \<or> mc_RefreshRequired c)"

subsection \<open>Paths\<close>

definition normalizeMountPath :: "string \<Rightarrow> string" where
  "normalizeMountPath pathValue =
     (let trimmed = trim_space pathValue in if trimmed = [] then [] else path_clean trimmed)"

definition normalizeMountPaths :: "string list \<Rightarrow> string list" where
  "normalizeMountPaths paths = sort (dedupe_first (filter (\<lambda>p. p \<noteq> []) (map normalizeMountPath paths)))"

definition mountPathsFromEntries :: "MountEntry list \<Rightarrow> string list" where
  "mountPathsFromEntries entries = normalizeMountPaths (map me_Path (filter (\<lambda>e. \<not> pm_IsDir (me_Meta e)) entries))"

definition isNarrowRefreshTarget :: "'e VirtualMount \<Rightarrow> string \<Rightarrow> bool" where
  "isNarrowRefreshTarget mnt target =
     (let mountPoint = normalizeMountPath (vm_MountPoint mnt); target = normalizeMountPath target in
      if mountPoint = [] \<or> target = [] then False
      else if target = mountPoint then False
      else has_prefix target (mountPoint @ ''/''))"

definition isWithinRefreshRequestScope :: "string \<Rightarrow> string list \<Rightarrow> bool" where
  "isWithinRefreshRequestScope target requested =
     (let target = normalizeMountPath target in
      if target = [] then False
      else list_ex (\<lambda>r. let r = normalizeMountPath r in
             r \<noteq> [] \<and> (target = r \<or> has_prefix target (r @ ''/''))) requested)"

subsection \<open>Refusals\<close>

definition unsupportedMountCapability :: "'e VirtualMount \<Rightarrow> string \<Rightarrow> go_error" where
  "unsupportedMountCapability mnt capability =
     (let lat = mp_LatencyClass (NormalizeMountProfile (vm_Profile mnt)) in
      MountUnsupportedError (vm_MountPoint mnt) capability lat
        (if lat = RemoteHigh
         then vm_MountPoint mnt @ '': '' @ capability @ '' requires an explicit mount capability on remote_high_latency mounts''
         else vm_MountPoint mnt @ '': mount does not implement '' @ capability))"

definition requireMountCLIClass :: "'e VirtualMount \<Rightarrow> MountCLIClass \<Rightarrow> string \<Rightarrow> go_error option" where
  "requireMountCLIClass mnt cls capability =
     (let profile = NormalizeMountProfile (vm_Profile mnt) in
      if MountSupportsCLIClass profile cls then None
      else Some (MountUnsupportedError (vm_MountPoint mnt) capability (mp_LatencyClass profile)
             (vm_MountPoint mnt @ '': mount profile does not declare '' @ cls @ '' support for '' @ capability)))"

definition overMountBudget :: "'e VirtualMount \<Rightarrow> string \<Rightarrow> string \<Rightarrow> go_error" where
  "overMountBudget mnt capability detail =
     MountUnsupportedError (vm_MountPoint mnt) capability (mp_LatencyClass (NormalizeMountProfile (vm_Profile mnt)))
       (vm_MountPoint mnt @ '': '' @ detail)"

abbreviation mount_slo :: "'e VirtualMount \<Rightarrow> MountSLO" where
  "mount_slo mnt \<equiv> mp_SLO (NormalizeMountProfile (vm_Profile mnt))"

definition over_depth :: "'e VirtualMount \<Rightarrow> string \<Rightarrow> int \<Rightarrow> go_error option" where
  "over_depth mnt capability depth =
     (if depth > 0 \<and> slo_MaxSearchPaths (mount_slo mnt) > 0 \<and> depth > slo_MaxSearchPaths (mount_slo mnt)
      then Some (overMountBudget mnt capability (''max_depth='' @ show_int depth @
             '' exceeds declared mount budget='' @ show_int (slo_MaxSearchPaths (mount_slo mnt))))
      else None)"

definition CheckMountListScope :: "'e VirtualMount \<Rightarrow> ListEntriesRequest \<Rightarrow> go_error option" where
  "CheckMountListScope mnt req = over_depth mnt ''entry listing depth'' (le_MaxDepth req)"

definition checkMountEnumerateScope :: "'e VirtualMount \<Rightarrow> EnumeratePathsRequest \<Rightarrow> go_error option" where
  "checkMountEnumerateScope mnt req = over_depth mnt ''path enumeration depth'' (en_MaxDepth req)"

definition checkMountReadManyBudget :: "'e VirtualMount \<Rightarrow> ReadManyRequest \<Rightarrow> go_error option" where
  "checkMountReadManyBudget mnt req =
     (let slo = mount_slo mnt; n = int (length (rm_Paths req)) in
      if slo_MaxBatchCount slo > 0 \<and> n > slo_MaxBatchCount slo
        then Some (overMountBudget mnt ''bulk read batch'' (''requested paths='' @ show_int n @
               '' exceeds declared mount batch count='' @ show_int (slo_MaxBatchCount slo)))
      else if slo_MaxBatchBytes slo > 0 \<and> rm_MaxBytes req > slo_MaxBatchBytes slo
        then Some (overMountBudget mnt ''bulk read batch'' (''requested max_bytes='' @ show_int (rm_MaxBytes req) @
               '' exceeds declared mount batch bytes='' @ show_int (slo_MaxBatchBytes slo)))
      else None)"

definition checkMountSearchBudget :: "'e VirtualMount \<Rightarrow> SearchRequest \<Rightarrow> go_error option" where
  "checkMountSearchBudget mnt req =
     (let slo = mount_slo mnt; n = int (length (sr_Targets req)) in
      if slo_MaxSearchPaths slo > 0 \<and> n > slo_MaxSearchPaths slo
        then Some (overMountBudget mnt ''content search'' (''requested targets='' @ show_int n @
               '' exceeds declared mount search path budget='' @ show_int (slo_MaxSearchPaths slo)))
      else None)"

definition mutation_bytes :: "MutationSpec \<Rightarrow> int" where
  "mutation_bytes op = int (length (ms_Content op) + length (ms_NewString op) + length (ms_OldString op))"

definition checkMountMutationBudget :: "'e VirtualMount \<Rightarrow> MutationSpec list \<Rightarrow> go_error option" where
  "checkMountMutationBudget mnt ops =
     (let slo = mount_slo mnt; n = int (length ops); total = (\<Sum>op\<leftarrow>ops. mutation_bytes op) in
      if slo_MaxBatchCount slo > 0 \<and> n > slo_MaxBatchCount slo
        then Some (overMountBudget mnt ''mutation batch'' (''requested ops='' @ show_int n @
               '' exceeds declared mount batch count='' @ show_int (slo_MaxBatchCount slo)))
      else if slo_MaxBatchBytes slo > 0 \<and> total > slo_MaxBatchBytes slo
        then Some (overMountBudget mnt ''mutation batch'' (''requested batch bytes='' @ show_int total @
               '' exceeds declared mount batch bytes='' @ show_int (slo_MaxBatchBytes slo)))
      else None)"

definition not_narrow :: "'e VirtualMount \<Rightarrow> string \<Rightarrow> go_error" where
  "not_narrow mnt target = overMountBudget mnt ''refresh''
     (''target '' @ target @ '' is not narrow relative to mount root '' @ vm_MountPoint mnt)"

definition checkMountRefreshBudget :: "'e VirtualMount \<Rightarrow> RefreshRequest \<Rightarrow> go_error option" where
  "checkMountRefreshBudget mnt req =
     (let profile = NormalizeMountProfile (vm_Profile mnt); slo = mp_SLO profile;
          targets = normalizeMountPaths (rf_Targets req); n = int (length targets);
          wide = find (\<lambda>t. \<not> isNarrowRefreshTarget mnt t) targets in
      if rf_RequireNarrow req \<and> targets = []
        then Some (overMountBudget mnt ''refresh'' ''explicit scope narrowing is required'')
      else if rf_RequireNarrow req \<and> wide \<noteq> None then Some (not_narrow mnt (the wide))
      else if slo_MaxRefreshTargets slo > 0 \<and> n > slo_MaxRefreshTargets slo
        then Some (overMountBudget mnt ''refresh'' (''requested refresh targets='' @ show_int n @
               '' exceeds declared mount refresh target budget='' @ show_int (slo_MaxRefreshTargets slo)))
      else if mp_LatencyClass profile = RemoteHigh \<and> targets = []
        then Some (overMountBudget mnt ''refresh'' ''remote_high_latency refresh requires explicit scoped targets'')
      else if mp_LatencyClass profile = RemoteHigh \<and> wide \<noteq> None
        then Some (overMountBudget mnt ''refresh'' (''remote_high_latency refresh target '' @ the wide @
               '' is not scoped below mount root '' @ vm_MountPoint mnt))
      else None)"

subsection \<open>Refresh\<close>

definition normalizeRefreshRequest :: "'e VirtualMount \<Rightarrow> RefreshRequest \<Rightarrow> go_error + RefreshRequest" where
  "normalizeRefreshRequest mnt req =
     (let targets = normalizeMountPaths (rf_Targets req) in
      case (if rf_RequireNarrow req then find (\<lambda>t. \<not> isNarrowRefreshTarget mnt t) targets else None) of
        Some t \<Rightarrow> Inl (not_narrow mnt t)
      | None \<Rightarrow> Inr (req\<lparr>rf_Targets := targets\<rparr>))"

fun checkScopedRefreshResultTargets :: "'e VirtualMount \<Rightarrow> string \<Rightarrow> string list \<Rightarrow> string list \<Rightarrow> go_error option" where
  "checkScopedRefreshResultTargets mnt label [] requested = None"
| "checkScopedRefreshResultTargets mnt label (t # ts) requested =
     (if \<not> isNarrowRefreshTarget mnt t then
        Some (overMountBudget mnt ''refresh'' (''refresher broadened '' @ label @ '' target '' @ t @
                '' beyond required narrow scope under '' @ vm_MountPoint mnt))
      else if \<not> isWithinRefreshRequestScope t requested then
        Some (overMountBudget mnt ''refresh'' (''refresher broadened '' @ label @ '' target '' @ t @
                '' beyond requested refresh scope''))
      else checkScopedRefreshResultTargets mnt label ts requested)"

definition normalizeRefreshResult :: "'e VirtualMount \<Rightarrow> RefreshRequest \<Rightarrow> RefreshResult \<Rightarrow> go_error + RefreshResult" where
  "normalizeRefreshResult mnt req result =
     (let effective = normalizeMountPaths (rr_EffectiveTargets result);
          result = \<lparr>rr_EffectiveTargets = (if effective = [] then rf_Targets req else effective),
                    rr_RefreshedTargets = normalizeMountPaths (rr_RefreshedTargets result),
                    rr_RefusedTargets = normalizeMountPaths (rr_RefusedTargets result)\<rparr>
      in if rf_RequireNarrow req \<or> mp_LatencyClass (NormalizeMountProfile (vm_Profile mnt)) = RemoteHigh then
           (case checkScopedRefreshResultTargets mnt ''effective'' (rr_EffectiveTargets result) (rf_Targets req) of
              Some e \<Rightarrow> Inl e
            | None \<Rightarrow>
           (case checkScopedRefreshResultTargets mnt ''refreshed'' (rr_RefreshedTargets result) (rf_Targets req) of
              Some e \<Rightarrow> Inl e
            | None \<Rightarrow>
           (case checkScopedRefreshResultTargets mnt ''refused'' (rr_RefusedTargets result) (rf_Targets req) of
              Some e \<Rightarrow> Inl e
            | None \<Rightarrow> Inr result)))
         else Inr result)"

definition RefreshMount :: "'e VirtualMount option \<Rightarrow> (RefreshRequest, RefreshResult, 'e) op" where
  "RefreshMount mnt req s =
     (case mnt of
        None \<Rightarrow> (Inl ErrUnsupported, s)
      | Some mnt \<Rightarrow>
          (case normalizeRefreshRequest mnt req of
             Inl e \<Rightarrow> (Inl e, s)
           | Inr normalizedReq \<Rightarrow>
               (case checkMountRefreshBudget mnt normalizedReq of
                  Some e \<Rightarrow> (Inl e, s)
                | None \<Rightarrow>
                    (case vm_Refresh mnt of
                       None \<Rightarrow> (Inl (unsupportedMountCapability mnt ''refresh''), s)
                     | Some refresh \<Rightarrow>
                         (case refresh normalizedReq s of
                            (Inl e, s) \<Rightarrow> (Inl e, s)
                          | (Inr result, s) \<Rightarrow> (normalizeRefreshResult mnt normalizedReq result, s))))))"

subsection \<open>Metadata and listings\<close>

definition StatMountPath :: "'e VirtualMount option \<Rightarrow> (string, MountEntry, 'e) op" where
  "StatMountPath mnt pathValue s =
     (case mnt of None \<Rightarrow> (Inl ErrUnsupported, s) | Some mnt \<Rightarrow> vm_StatPath mnt pathValue s)"

definition DescribeMountPath :: "'e VirtualMount option \<Rightarrow> (string, PathMeta, 'e) op" where
  "DescribeMountPath mnt pathValue s =
     (case StatMountPath mnt pathValue s of (Inl e, s) \<Rightarrow> (Inl e, s) | (Inr entry, s) \<Rightarrow> (Inr (me_Meta entry), s))"

definition IsMountDir :: "'e VirtualMount option \<Rightarrow> (string, bool, 'e) op" where
  "IsMountDir mnt pathValue s =
     (case DescribeMountPath mnt pathValue s of
        (Inl e, s) \<Rightarrow> (Inl e, s) | (Inr m, s) \<Rightarrow> (Inr (pm_Exists m \<and> pm_IsDir m), s))"

definition ListMountChildren :: "'e VirtualMount \<Rightarrow> (string, string list, 'e) op" where
  "ListMountChildren mnt dir s =
     (case requireMountCLIClass mnt MountCLIList ''entry listing'' of
        Some e \<Rightarrow> (Inl e, s)
      | None \<Rightarrow>
          (case vm_ListEntries mnt of
             None \<Rightarrow> (Inl (unsupportedMountCapability mnt ''entry listing''), s)
           | Some list \<Rightarrow>
               (case list \<lparr>le_Dir = dir, le_Recursive = False, le_MaxDepth = 0\<rparr> s of
                  (Inl e, s) \<Rightarrow> (Inl e, s)
                | (Inr entries, s) \<Rightarrow>
                    (Inr (sort (dedupe_first (filter (\<lambda>p. p \<noteq> []) (map me_Path entries)))), s))))"

definition EnumerateMountFilesWithRequest :: "'e VirtualMount \<Rightarrow> (EnumeratePathsRequest, string list, 'e) op" where
  "EnumerateMountFilesWithRequest mnt req s =
     (case StatMountPath (Some mnt) (en_Target req) s of
        (Inl e, s) \<Rightarrow> (Inl e, s)
      | (Inr entry, s) \<Rightarrow>
          (let isDir = pm_IsDir (me_Meta entry);
               requiredClass = (if en_Recursive req \<or> isDir then MountCLIFind else MountCLIRead) in
           case requireMountCLIClass mnt requiredClass ''path enumeration'' of
             Some e \<Rightarrow> (Inl e, s)
           | None \<Rightarrow>
               (if \<not> isDir then (Inr [me_Path entry], s)
                else if \<not> en_Recursive req then
                  (Inl (ErrText (en_Target req @ '': Is a directory (use -r to search recursively)'')), s)
                else case checkMountEnumerateScope mnt req of
                  Some e \<Rightarrow> (Inl e, s)
                | None \<Rightarrow>
                    (case vm_EnumeratePaths mnt of
                       Some enum \<Rightarrow>
                         (case enum req s of
                            (Inl e, s) \<Rightarrow> (Inl e, s)
                          | (Inr entries, s) \<Rightarrow> (Inr (mountPathsFromEntries entries), s))
                     | None \<Rightarrow>
                         (if \<not> MountAllowsFallback (vm_Profile mnt)
                          then (Inl (unsupportedMountCapability mnt ''path enumeration''), s)
                          else case vm_ListEntries mnt of
                            None \<Rightarrow> (Inl (unsupportedMountCapability mnt ''path enumeration''), s)
                          | Some list \<Rightarrow>
                              (case list \<lparr>le_Dir = en_Target req, le_Recursive = True, le_MaxDepth = en_MaxDepth req\<rparr> s of
                                 (Inl e, s) \<Rightarrow> (Inl e, s)
                               | (Inr entries, s) \<Rightarrow> (Inr (mountPathsFromEntries entries), s)))))))"

definition EnumerateMountFiles :: "'e VirtualMount \<Rightarrow> string \<Rightarrow> bool \<Rightarrow> 'e sys \<Rightarrow> (go_error + string list) \<times> 'e sys" where
  "EnumerateMountFiles mnt target recursive s =
     EnumerateMountFilesWithRequest mnt \<lparr>en_Target = target, en_Recursive = recursive, en_MaxDepth = 0\<rparr> s"

subsection \<open>Reading\<close>

definition ReadMountContent :: "'e VirtualMount \<Rightarrow> (string, string, 'e) op" where
  "ReadMountContent mnt = vm_ReadContent mnt"

fun read_each :: "'e VirtualMount \<Rightarrow> string list \<Rightarrow> 'e sys \<Rightarrow> (go_error + MountContentEntry list) \<times> 'e sys" where
  "read_each mnt [] s = (Inr [], s)"
| "read_each mnt (p # ps) s =
     (case ReadMountContent mnt p s of
        (Inl e, s) \<Rightarrow> (Inl e, s)
      | (Inr content, s) \<Rightarrow>
          (case read_each mnt ps s of
             (Inl e, s) \<Rightarrow> (Inl e, s)
           | (Inr files, s) \<Rightarrow> (Inr (\<lparr>ce_Path = p, ce_Content = content\<rparr> # files), s)))"

definition ReadManyFromMountRequest :: "'e VirtualMount \<Rightarrow> (ReadManyRequest, MountContentEntry list, 'e) op" where
  "ReadManyFromMountRequest mnt req s =
     (let requiredClass = (if length (rm_Paths req) > 1 then MountCLIBulkRead else MountCLIRead) in
      case checkMountReadManyBudget mnt req of
        Some e \<Rightarrow> (Inl e, s)
      | None \<Rightarrow>
          (case requireMountCLIClass mnt requiredClass ''bulk read'' of
             Some e \<Rightarrow> (Inl e, s)
           | None \<Rightarrow>
               (case vm_ReadMany mnt of
                  Some bulk \<Rightarrow> bulk req s
                | None \<Rightarrow>
                    (if \<not> MountAllowsFallback (vm_Profile mnt)
                     then (Inl (unsupportedMountCapability mnt ''bulk read''), s)
                     else read_each mnt (rm_Paths req) s))))"

definition ReadManyFromMount :: "'e VirtualMount \<Rightarrow> (string list, MountContentEntry list, 'e) op" where
  "ReadManyFromMount mnt paths s =
     ReadManyFromMountRequest mnt \<lparr>rm_Paths = paths, rm_MaxEntries = 0, rm_MaxBytes = 0\<rparr> s"

subsection \<open>Mutating\<close>

definition undeclared_consistency :: "'e VirtualMount \<Rightarrow> go_error" where
  "undeclared_consistency mnt =
     ErrWrap (error_text ErrUnsupported @ '': '' @ vm_MountPoint mnt @
       '': writable mounts must declare consistency or refresh semantics'') ErrUnsupported"

definition ApplyMountMutations :: "'e VirtualMount \<Rightarrow> (MutationSpec list, MutationRecord list, 'e) op" where
  "ApplyMountMutations mnt batch s =
     (let profile = NormalizeMountProfile (vm_Profile mnt) in
      case checkMountMutationBudget mnt batch of
        Some e \<Rightarrow> (Inl e, s)
      | None \<Rightarrow>
          (case requireMountCLIClass mnt MountCLIMutate ''mutation batch'' of
             Some e \<Rightarrow> (Inl e, s)
           | None \<Rightarrow>
               (if mp_WriteSemantics profile = MountWriteReadOnly then (Inl ErrUnsupported, s)
                else if \<not> mountDeclaresConsistency profile then (Inl (undeclared_consistency mnt), s)
                else case vm_ApplyMutations mnt of
                  None \<Rightarrow> (Inl (unsupportedMountCapability mnt ''mutation batch''), s)
                | Some mutate \<Rightarrow> mutate batch s)))"

definition CheckMountPathOp :: "'e VirtualMount \<Rightarrow> PathOp \<Rightarrow> go_error option" where
  "CheckMountPathOp mnt op =
     (let profile = NormalizeMountProfile (vm_Profile mnt);
          mutation = (case requireMountCLIClass mnt MountCLIMutate ''mutation'' of
            Some e \<Rightarrow> Some e
          | None \<Rightarrow>
              (if mp_WriteSemantics profile = MountWriteReadOnly then Some ErrUnsupported
               else if \<not> mountDeclaresConsistency profile then Some (undeclared_consistency mnt) else None))
      in case op of
           PathOpRead \<Rightarrow> requireMountCLIClass mnt MountCLIRead ''read''
         | PathOpTransferSource \<Rightarrow>
             (case requireMountCLIClass mnt MountCLIRead ''transfer source read'' of
                Some e \<Rightarrow> Some e
              | None \<Rightarrow> (if mp_TruthModel profile = TruthProjection then Some ErrUnsupported else None))
         | PathOpWrite \<Rightarrow> mutation
         | PathOpMkdir \<Rightarrow> mutation
         | PathOpRemove \<Rightarrow> mutation
         | PathOpOther _ \<Rightarrow> None)"

subsection \<open>Lemmas\<close>

lemma NormalizeMountProfile_fields [simp]:
  "mp_LatencyClass (NormalizeMountProfile p) = (if mp_LatencyClass p = LatencyUnset then LocalFast else mp_LatencyClass p)"
  "mp_TruthModel (NormalizeMountProfile p) = (if mp_TruthModel p = TruthUnset then TruthProjection else mp_TruthModel p)"
  "mp_WriteSemantics (NormalizeMountProfile p) =
     (if mp_WriteSemantics p = MountWriteUnset then MountWriteReadOnly else mp_WriteSemantics p)"
  "mp_SLO (NormalizeMountProfile p) = mp_SLO p" "mp_Consistency (NormalizeMountProfile p) = mp_Consistency p"
  "set (mp_SupportedCLIClasses (NormalizeMountProfile p)) = set (mp_SupportedCLIClasses p) - {[]}"
proof -
  show "set (mp_SupportedCLIClasses (NormalizeMountProfile p)) = set (mp_SupportedCLIClasses p) - {[]}"
    by (cases "mp_SupportedCLIClasses p = []") (auto simp: NormalizeMountProfile_def Let_def set_dedupe_from)
qed (simp_all add: NormalizeMountProfile_def Let_def)

lemma NormalizeMountProfile_modes:
  "mp_MaterializationMode (NormalizeMountProfile p) =
     (if mp_MaterializationMode p = MaterializationUnset then MaterializationSnapshot else mp_MaterializationMode p)"
  "MountProfile.more (NormalizeMountProfile p) = MountProfile.more p"
  by (simp_all add: NormalizeMountProfile_def Let_def)

lemma MountSupportsCLIClass_normalized [simp]:
  "MountSupportsCLIClass (NormalizeMountProfile p) cls = MountSupportsCLIClass p cls"
  by (simp add: MountSupportsCLIClass_def)

lemma mountDeclaresConsistency_normalized [simp]:
  "mountDeclaresConsistency (NormalizeMountProfile p) = mountDeclaresConsistency p"
  by (simp add: mountDeclaresConsistency_def)

lemma requireMountCLIClass_None: "requireMountCLIClass mnt cls cap = None \<longleftrightarrow> MountSupportsCLIClass (vm_Profile mnt) cls"
  by (simp add: requireMountCLIClass_def Let_def)

text \<open>Every refusal is an unsupported operation, and of a mount of the remote high class it carries
  that class, so no caller falls back.\<close>

definition refusal_of :: "'e VirtualMount \<Rightarrow> go_error \<Rightarrow> bool" where
  "refusal_of mnt e \<longleftrightarrow> is_unsupported e \<and>
     (mp_LatencyClass (vm_Profile mnt) = RemoteHigh \<longrightarrow> \<not> AllowsUnsupportedFallback e)"

lemma refusals:
  "refusal_of mnt (unsupportedMountCapability mnt cap)" "refusal_of mnt (overMountBudget mnt cap detail)"
  "requireMountCLIClass mnt cls cap = Some e \<Longrightarrow> refusal_of mnt e"
  by (auto simp: refusal_of_def unsupportedMountCapability_def overMountBudget_def requireMountCLIClass_def
      AllowsUnsupportedFallback_def Let_def split: if_splits)

lemma budget_refusals:
  "checkMountReadManyBudget mnt rreq = Some e \<Longrightarrow> refusal_of mnt e"
  "checkMountMutationBudget mnt ops = Some e \<Longrightarrow> refusal_of mnt e"
  "over_depth mnt cap d = Some e \<Longrightarrow> refusal_of mnt e"
  "checkMountSearchBudget mnt req = Some e \<Longrightarrow> refusal_of mnt e"
  by (auto simp: checkMountReadManyBudget_def checkMountMutationBudget_def over_depth_def
      checkMountSearchBudget_def Let_def refusals split: if_splits)

lemma refusal_unsupported: "refusal_of mnt e \<Longrightarrow> is_unsupported e"
  by (simp add: refusal_of_def)

lemma NormalizeMountProfile_classes:
  "mp_SupportedCLIClasses (NormalizeMountProfile p) = sort (dedupe_first (filter (\<lambda>c. c \<noteq> []) (mp_SupportedCLIClasses p)))"
  by (cases "mp_SupportedCLIClasses p = []") (simp_all add: NormalizeMountProfile_def Let_def)

lemma NormalizeMountProfile_idem:
  "NormalizeMountProfile (NormalizeMountProfile p) = NormalizeMountProfile p"
proof (rule MountProfile.equality)
  let ?cs = "mp_SupportedCLIClasses (NormalizeMountProfile p)"
  have "filter (\<lambda>c. c \<noteq> []) ?cs = ?cs" by (rule filter_True) simp
  then show "mp_SupportedCLIClasses (NormalizeMountProfile (NormalizeMountProfile p)) = ?cs"
    unfolding NormalizeMountProfile_classes [of "NormalizeMountProfile p"]
    by (simp add: NormalizeMountProfile_classes dedupe_sorted_idem)
qed (simp_all add: NormalizeMountProfile_modes)

definition mutation_declared :: "MountProfile \<Rightarrow> bool" where
  "mutation_declared p \<longleftrightarrow> MountSupportsCLIClass p MountCLIMutate \<and>
     mp_WriteSemantics p \<notin> {MountWriteUnset, MountWriteReadOnly} \<and> mountDeclaresConsistency p"

lemma ApplyMountMutations_eq:
  "ApplyMountMutations mnt batch s =
     (case checkMountMutationBudget mnt batch of
        Some e \<Rightarrow> (Inl e, s)
      | None \<Rightarrow>
          (case requireMountCLIClass mnt MountCLIMutate ''mutation batch'' of
             Some e \<Rightarrow> (Inl e, s)
           | None \<Rightarrow>
               (if mp_WriteSemantics (vm_Profile mnt) \<in> {MountWriteUnset, MountWriteReadOnly} then (Inl ErrUnsupported, s)
                else if \<not> mountDeclaresConsistency (vm_Profile mnt) then (Inl (undeclared_consistency mnt), s)
                else case vm_ApplyMutations mnt of
                  None \<Rightarrow> (Inl (unsupportedMountCapability mnt ''mutation batch''), s)
                | Some mutate \<Rightarrow> mutate batch s)))"
  by (simp add: ApplyMountMutations_def Let_def cong: option.case_cong)

lemma undeclared_consistency_unsupported [simp]: "is_unsupported (undeclared_consistency mnt)"
  by (simp add: undeclared_consistency_def)

lemma ApplyMountMutations_refused:
  assumes "\<not> (mutation_declared (vm_Profile mnt) \<and> checkMountMutationBudget mnt batch = None \<and> vm_ApplyMutations mnt \<noteq> None)"
  shows "\<exists>e. ApplyMountMutations mnt batch s = (Inl e, s) \<and> is_unsupported e"
proof (cases "checkMountMutationBudget mnt batch")
  case (Some e)
  then show ?thesis
    using refusal_unsupported [OF budget_refusals(2) [OF Some]] by (simp add: ApplyMountMutations_eq)
next
  case budget: None
  show ?thesis
  proof (cases "requireMountCLIClass mnt MountCLIMutate ''mutation batch''")
    case (Some e)
    then show ?thesis
      using budget refusal_unsupported [OF refusals(3) [OF Some]] by (simp add: ApplyMountMutations_eq)
  next
    case None
    then have "MountSupportsCLIClass (vm_Profile mnt) MountCLIMutate" by (simp add: requireMountCLIClass_None)
    then show ?thesis
      using assms budget None refusal_unsupported [OF refusals(1) [of mnt "''mutation batch''"]]
      by (cases "vm_ApplyMutations mnt") (auto simp: ApplyMountMutations_eq mutation_declared_def)
  qed
qed

lemma ApplyMountMutations_called:
  assumes "mutation_declared (vm_Profile mnt)" and "checkMountMutationBudget mnt batch = None"
    and "vm_ApplyMutations mnt = Some mutate"
  shows "ApplyMountMutations mnt batch s = mutate batch s"
proof -
  have "requireMountCLIClass mnt MountCLIMutate ''mutation batch'' = None"
    using assms(1) by (simp add: requireMountCLIClass_None mutation_declared_def)
  then show ?thesis using assms by (simp add: ApplyMountMutations_eq mutation_declared_def)
qed

lemma CheckMountPathOp_mutation:
  assumes "op = PathOpWrite \<or> op = PathOpMkdir \<or> op = PathOpRemove"
  shows "CheckMountPathOp mnt op = None \<longleftrightarrow> mutation_declared (vm_Profile mnt)"
    and "CheckMountPathOp mnt op = Some e \<Longrightarrow> is_unsupported e"
  using assms refusals(3) [of mnt MountCLIMutate "''mutation''"] requireMountCLIClass_None [of mnt MountCLIMutate "''mutation''"]
  by (auto simp: CheckMountPathOp_def Let_def mutation_declared_def undeclared_consistency_def refusal_of_def
      split: option.splits if_splits)

lemma read_each_paths: "read_each mnt ps s = (Inr files, s') \<Longrightarrow> map ce_Path files = ps"
  by (induction ps arbitrary: s files) (auto split: prod.splits sum.splits)

lemma checkScoped_None:
  "checkScopedRefreshResultTargets mnt label ts requested = None \<longleftrightarrow>
   (\<forall>t\<in>set ts. isNarrowRefreshTarget mnt t \<and> isWithinRefreshRequestScope t requested)"
  by (induction ts) auto

lemma within_scope_under:
  "isWithinRefreshRequestScope t requested \<Longrightarrow>
   \<exists>r\<in>set requested. under (normalizeMountPath r) (normalizeMountPath t)"
  by (auto simp: isWithinRefreshRequestScope_def Let_def list_ex_iff under_def split: if_splits)

lemma narrow_under:
  "isNarrowRefreshTarget mnt t \<Longrightarrow> under (normalizeMountPath (vm_MountPoint mnt)) (normalizeMountPath t) \<and>
     normalizeMountPath t \<noteq> normalizeMountPath (vm_MountPoint mnt)"
  by (auto simp: isNarrowRefreshTarget_def Let_def under_def split: if_splits)

subsection \<open>Properties\<close>

text \<open>C24. A mutation batch either never reaches the mount, leaves the state untouched and reports an
  unsupported operation, or it is exactly one call of the mount's mutator; the latter only if the
  mount declares the mutate class, write semantics other than read only and some consistency, and the
  batch is within its budgets.\<close>

theorem mount_mutation_gate:
  "(\<exists>e. ApplyMountMutations mnt batch s = (Inl e, s) \<and> is_unsupported e) \<or>
   (\<exists>mutate. vm_ApplyMutations mnt = Some mutate \<and> ApplyMountMutations mnt batch s = mutate batch s \<and>
      MountSupportsCLIClass (vm_Profile mnt) MountCLIMutate \<and>
      mp_WriteSemantics (vm_Profile mnt) \<notin> {MountWriteUnset, MountWriteReadOnly} \<and>
      mountDeclaresConsistency (vm_Profile mnt) \<and> checkMountMutationBudget mnt batch = None)"
  using ApplyMountMutations_refused [of mnt batch s] ApplyMountMutations_called [of mnt batch _ s]
  unfolding mutation_declared_def by blast

text \<open>What the path check refuses, the mutation refuses: a mount for which \<open>CheckMountPathOp\<close>
  denies a write, a mkdir or a removal is never mutated by any batch.\<close>

theorem refused_mount_not_mutated:
  assumes "op \<in> {PathOpWrite, PathOpMkdir, PathOpRemove}" and "CheckMountPathOp mnt op = Some e"
  shows "\<exists>e'. ApplyMountMutations mnt batch s = (Inl e', s) \<and> is_unsupported e'"
  using ApplyMountMutations_refused [of mnt batch s] CheckMountPathOp_mutation(1) [of op mnt] assms by auto

text \<open>A mount for examples: no capability interface, everything declared by the caller.\<close>

definition plain_mount :: "string \<Rightarrow> MountProfile \<Rightarrow> 'e VirtualMount" where
  "plain_mount point profile =
     \<lparr>vm_MountPoint = point, vm_Profile = profile, vm_Exists = (\<lambda>_ s. (Inr True, s)),
      vm_StatPath = (\<lambda>p s. (Inl (ErrText (p @ '': No such file or directory'')), s)),
      vm_ReadContent = (\<lambda>p s. (Inr (''content of '' @ p), s)), vm_ListEntries = None, vm_EnumeratePaths = None,
      vm_ReadMany = None, vm_SearchContent = None, vm_ApplyMutations = None, vm_Refresh = None\<rparr>"

definition zero_profile :: MountProfile where
  "zero_profile =
     \<lparr>mp_TruthModel = TruthUnset, mp_MaterializationMode = MaterializationUnset,
      mp_WriteSemantics = MountWriteUnset, mp_LatencyClass = LatencyUnset,
      mp_Consistency = \<lparr>mc_PathReadAfterWrite = False, mc_ListAfterWrite = False, mc_SearchAfterWrite = False,
        mc_RefreshRequired = False\<rparr>,
      mp_SupportedCLIClasses = [],
      mp_SLO = \<lparr>slo_MaxBatchCount = 0, slo_MaxBatchBytes = 0, slo_MaxSearchPaths = 0, slo_MaxRefreshTargets = 0\<rparr>\<rparr>"

theorem refused_mount_not_mutated_witness:
  "\<exists>e'. ApplyMountMutations (plain_mount ''/m'' (zero_profile\<lparr>mp_SupportedCLIClasses := [MountCLIMutate]\<rparr>)
     \<lparr>vm_ApplyMutations := Some (\<lambda>batch s. (Inr [], s\<lparr>sy_env := ()\<rparr>))\<rparr>) [] (live_sys ()) = (Inl e', live_sys ()) \<and>
     is_unsupported e'"
proof (rule refused_mount_not_mutated [of PathOpWrite])
  show "CheckMountPathOp (plain_mount ''/m'' (zero_profile\<lparr>mp_SupportedCLIClasses := [MountCLIMutate]\<rparr>)
     \<lparr>vm_ApplyMutations := Some (\<lambda>batch s. (Inr [], s\<lparr>sy_env := ()\<rparr>))\<rparr>) PathOpWrite = Some ErrUnsupported"
    by (simp add: CheckMountPathOp_def plain_mount_def zero_profile_def requireMountCLIClass_def
        MountSupportsCLIClass_def NormalizeMountProfile_def MountCLIMutate_def Let_def)
qed simp

text \<open>A mount of the remote high class is never read file by file: without the bulk reader a read of
  any paths fails before any content is read, with an error that allows no fallback.\<close>

theorem remote_high_bulk_only:
  assumes "mp_LatencyClass (vm_Profile mnt) = RemoteHigh" and "vm_ReadMany mnt = None"
  shows "\<exists>e. ReadManyFromMountRequest mnt req s = (Inl e, s) \<and> is_unsupported e \<and> \<not> AllowsUnsupportedFallback e"
proof -
  have "\<not> MountAllowsFallback (vm_Profile mnt)" using assms(1) by (simp add: MountAllowsFallback_def)
  then have "\<exists>e. ReadManyFromMountRequest mnt req s = (Inl e, s) \<and> refusal_of mnt e"
    using assms(2) budget_refusals(1) refusals(1,3)
    by (auto simp: ReadManyFromMountRequest_def Let_def split: option.splits)
  then show ?thesis using assms(1) by (auto simp: refusal_of_def)
qed

theorem remote_high_bulk_only_witness:
  "\<exists>e. ReadManyFromMountRequest (plain_mount ''/m'' (zero_profile\<lparr>mp_LatencyClass := RemoteHigh,
       mp_SupportedCLIClasses := [MountCLIRead]\<rparr>)) \<lparr>rm_Paths = [''/m/a''], rm_MaxEntries = 0, rm_MaxBytes = 0\<rparr> (live_sys ()) =
     (Inl e, live_sys ()) \<and> is_unsupported e \<and> \<not> AllowsUnsupportedFallback e"
  by (rule remote_high_bulk_only) (simp_all add: plain_mount_def)

text \<open>C25. A scoped refresh stays in scope: if the caller asks for narrow targets or the mount is of the
  remote high class, every target a successful refresh reports lies strictly below the mount point and
  at or below a target that was asked for, whatever the mount's refresher returned.\<close>

theorem refresh_stays_in_scope:
  assumes "RefreshMount (Some mnt) req s = (Inr result, s')"
    and "rf_RequireNarrow req \<or> mp_LatencyClass (vm_Profile mnt) = RemoteHigh"
    and "t \<in> set (rr_EffectiveTargets result) \<union> set (rr_RefreshedTargets result) \<union> set (rr_RefusedTargets result)"
  shows "(\<exists>r\<in>set (normalizeMountPaths (rf_Targets req)). under (normalizeMountPath r) (normalizeMountPath t)) \<and>
    under (normalizeMountPath (vm_MountPoint mnt)) (normalizeMountPath t) \<and>
    normalizeMountPath t \<noteq> normalizeMountPath (vm_MountPoint mnt)"
proof -
  obtain nreq where nreq: "normalizeRefreshRequest mnt req = Inr nreq"
    using assms(1) by (cases "normalizeRefreshRequest mnt req") (auto simp: RefreshMount_def)
  have n: "rf_Targets nreq = normalizeMountPaths (rf_Targets req)" "rf_RequireNarrow nreq = rf_RequireNarrow req"
    using nreq by (auto simp: normalizeRefreshRequest_def Let_def split: option.splits)
  obtain refresh raw where raw: "normalizeRefreshResult mnt nreq raw = Inr result"
    using assms(1) nreq by (auto simp: RefreshMount_def split: option.splits prod.splits sum.splits)
  have scoped: "checkScopedRefreshResultTargets mnt ''effective'' (rr_EffectiveTargets result) (rf_Targets nreq) = None"
    "checkScopedRefreshResultTargets mnt ''refreshed'' (rr_RefreshedTargets result) (rf_Targets nreq) = None"
    "checkScopedRefreshResultTargets mnt ''refused'' (rr_RefusedTargets result) (rf_Targets nreq) = None"
    using raw assms(2) n(2) unfolding normalizeRefreshResult_def Let_def
    by (auto split: option.splits if_splits simp del: checkScopedRefreshResultTargets.simps)
  then have "isNarrowRefreshTarget mnt t \<and> isWithinRefreshRequestScope t (rf_Targets nreq)"
    using assms(3) unfolding checkScoped_None by auto
  then show ?thesis using within_scope_under narrow_under n(1) by metis
qed

definition sample_refresh_mount :: "unit VirtualMount" where
  "sample_refresh_mount = (plain_mount ''/m'' (zero_profile\<lparr>mp_LatencyClass := RemoteHigh\<rparr>))\<lparr>vm_Refresh :=
     Some (\<lambda>req s. (Inr \<lparr>rr_EffectiveTargets = rf_Targets req, rr_RefreshedTargets = [], rr_RefusedTargets = []\<rparr>, s))\<rparr>"

lemma sample_mount_paths:
  "normalizeMountPath ''/m'' = ''/m''" "normalizeMountPath ''/m/a'' = ''/m/a''"
  by code_simp+

theorem refresh_stays_in_scope_witness:
  "RefreshMount (Some sample_refresh_mount) \<lparr>rf_Targets = [''/m/a''], rf_RequireNarrow = False\<rparr> (live_sys ()) =
     (Inr \<lparr>rr_EffectiveTargets = [''/m/a''], rr_RefreshedTargets = [], rr_RefusedTargets = []\<rparr>, live_sys ()) \<and>
   under ''/m'' ''/m/a''"
proof -
  have run: "RefreshMount (Some sample_refresh_mount) \<lparr>rf_Targets = [''/m/a''], rf_RequireNarrow = False\<rparr> (live_sys ()) =
     (Inr \<lparr>rr_EffectiveTargets = [''/m/a''], rr_RefreshedTargets = [], rr_RefusedTargets = []\<rparr>, live_sys ())"
    by (simp add: RefreshMount_def normalizeRefreshRequest_def normalizeMountPaths_def sample_mount_paths
        checkMountRefreshBudget_def normalizeRefreshResult_def isNarrowRefreshTarget_def
        isWithinRefreshRequestScope_def sample_refresh_mount_def plain_mount_def zero_profile_def Let_def)
  have "mp_LatencyClass (vm_Profile sample_refresh_mount) = RemoteHigh"
    by (simp add: sample_refresh_mount_def plain_mount_def)
  then show ?thesis
    using run refresh_stays_in_scope [OF run, of "''/m/a''"]
    by (simp add: sample_mount_paths sample_refresh_mount_def plain_mount_def)
qed

end
