(* ===== verification/Go_Glob.thy ===== *)
theory Go_Glob
  imports Exec_Output
begin

section \<open>Glob patterns: Go's \<open>path.Match\<close>\<close>

text \<open>
  The function of the standard library by which the mounts' search fallback and the builtins filter
  paths: a pattern is a sequence of chunks between stars; a star never crosses a slash. \<^term>\<open>None\<close> is
  \<open>ErrBadPattern\<close>, which is also reported for what follows the part that fails to match.
\<close>

subsection \<open>Runes\<close>

text \<open>\<open>utf8.DecodeRuneInString\<close>: the rune and its width; an invalid byte is U+FFFD of width one.\<close>

definition byte_of :: "char \<Rightarrow> nat" where
  "byte_of c = of_char c"

definition decode_rune :: "string \<Rightarrow> nat \<times> nat" where
  "decode_rune s =
     (case utf8_width s of
        None \<Rightarrow> (65533, if s = [] then 0 else 1)
      | Some k \<Rightarrow>
          (let b = (\<lambda>i. byte_of (s ! i)); t = (\<lambda>i. b i - 128) in
           (if k = 1 then b 0
            else if k = 2 then (b 0 - 192) * 64 + t 1
            else if k = 3 then (b 0 - 224) * 4096 + t 1 * 64 + t 2
            else (b 0 - 240) * 262144 + t 1 * 4096 + t 2 * 64 + t 3, k)))"

lemma decode_rune_pos: "s \<noteq> [] \<Longrightarrow> 0 < snd (decode_rune s)"
  using utf8_width_pos by (auto simp: decode_rune_def Let_def split: option.splits)

subsection \<open>Chunks\<close>

text \<open>\<open>getEsc\<close>: one character of a class, perhaps escaped; a class must not end after it.\<close>

definition get_esc :: "string \<Rightarrow> (nat \<times> string) option" where
  "get_esc chunk =
     (if chunk = [] \<or> hd chunk = CHR ''-'' \<or> hd chunk = CHR '']'' then None
      else let chunk = (if hd chunk = CHR 0x5C then tl chunk else chunk) in
        if chunk = [] then None
        else let (r, n) = decode_rune chunk; rest = drop n chunk in
          if r = 65533 \<and> n = 1 \<or> rest = [] then None else Some (r, rest))"

lemma get_esc_length: "get_esc chunk = Some (r, rest) \<Longrightarrow> length rest < length chunk"
proof -
  assume a: "get_esc chunk = Some (r, rest)"
  let ?c = "if hd chunk = CHR 0x5C then tl chunk else chunk"
  have c: "?c \<noteq> []" "chunk \<noteq> []" using a by (auto simp: get_esc_def Let_def split: if_splits)
  then have "rest = drop (snd (decode_rune ?c)) ?c"
    using a by (auto simp: get_esc_def Let_def split: if_splits prod.splits)
  moreover have "0 < snd (decode_rune ?c)" using c(1) decode_rune_pos by blast
  ultimately have "length rest < length ?c" using c(1) by simp
  then show ?thesis by (auto split: if_splits)
qed

text \<open>The ranges of a class: whether one of them holds the rune, and what follows the class.\<close>

function class_ranges :: "nat \<Rightarrow> bool \<Rightarrow> bool \<Rightarrow> string \<Rightarrow> (bool \<times> string) option" where
  "class_ranges r matched some_range chunk =
     (if chunk \<noteq> [] \<and> hd chunk = CHR '']'' \<and> some_range then Some (matched, tl chunk)
      else case get_esc chunk of
        None \<Rightarrow> None
      | Some (lo, c1) \<Rightarrow>
          (if hd c1 = CHR ''-'' then
             (case get_esc (tl c1) of
                None \<Rightarrow> None
              | Some (hi, c2) \<Rightarrow> class_ranges r (matched \<or> lo \<le> r \<and> r \<le> hi) True c2)
           else class_ranges r (matched \<or> lo = r) True c1))"
  by pat_completeness auto
termination
proof (relation "measure (\<lambda>(r, m, b, chunk). length chunk)", goal_cases)
  case (2 r matched some_range chunk p lo c1 q hi c2)
  have "get_esc chunk = Some (lo, c1)" "get_esc (tl c1) = Some (hi, c2)" using 2 by simp_all
  then have "length c1 < length chunk" "length c2 < length (tl c1)" by (auto dest: get_esc_length)
  then show ?case by simp
next
  case (3 r matched some_range chunk p lo c1)
  then show ?case using get_esc_length by auto
qed simp

declare class_ranges.simps [simp del]

lemma class_ranges_length: "class_ranges r m b chunk = Some (m', rest) \<Longrightarrow> length rest < length chunk"
proof (induction r m b chunk rule: class_ranges.induct)
  case (1 r m b chunk)
  show ?case
  proof (cases "chunk \<noteq> [] \<and> hd chunk = CHR '']'' \<and> b")
    case True
    then have "rest = tl chunk" using "1.prems" unfolding class_ranges.simps [of r m b chunk] by simp
    then show ?thesis using True by (cases chunk) simp_all
  next
    case False
    then obtain lo c1 where lo: "get_esc chunk = Some (lo, c1)"
      using "1.prems" by (auto simp: class_ranges.simps [of r m b chunk] split: option.splits)
    show ?thesis
    proof (cases "hd c1 = CHR ''-''")
      case True
      then obtain hi c2 where hi: "get_esc (tl c1) = Some (hi, c2)"
        using "1.prems" False lo by (auto simp: class_ranges.simps [of r m b chunk] split: option.splits)
      have "length rest < length c2"
        using "1.IH"(1) [OF False lo refl True hi refl] "1.prems" False lo True hi
        by (simp add: class_ranges.simps [of r m b chunk])
      then show ?thesis using get_esc_length [OF lo] get_esc_length [OF hi] by simp
    next
      case no: False
      have "length rest < length c1"
        using "1.IH"(2) [OF False lo refl no] "1.prems" False lo no
        by (simp add: class_ranges.simps [of r m b chunk])
      then show ?thesis using get_esc_length [OF lo] by simp
    qed
  qed
qed

text \<open>\<open>matchChunk\<close>: \<^term>\<open>Some (Some rest)\<close> for a match of the front of \<open>s\<close>, \<^term>\<open>Some None\<close> for none.
  Once the match has failed the chunk is only read on for its syntax.\<close>

function match_chunk :: "string \<Rightarrow> string \<Rightarrow> bool \<Rightarrow> string option option" where
  "match_chunk [] s failed = Some (if failed then None else Some s)"
| "match_chunk (c # chunk) s failed0 =
     (let failed = (failed0 \<or> s = []) in
      if c = CHR ''['' then
        (let (r, n) = (if failed then (0, 0) else decode_rune s);
             negated = (chunk \<noteq> [] \<and> hd chunk = CHR ''^'') in
         case class_ranges r False False (if negated then tl chunk else chunk) of
           None \<Rightarrow> None
         | Some (matched, rest) \<Rightarrow> match_chunk rest (drop n s) (failed \<or> matched = negated))
      else if c = CHR ''?'' then
        match_chunk chunk (if failed then s else drop (snd (decode_rune s)) s) (failed \<or> hd s = CHR ''/'')
      else if c = CHR 0x5C then
        (case chunk of
           [] \<Rightarrow> None
         | d # rest \<Rightarrow> match_chunk rest (if failed then s else tl s) (failed \<or> d \<noteq> hd s))
      else match_chunk chunk (if failed then s else tl s) (failed \<or> c \<noteq> hd s))"
  by pat_completeness auto
termination
proof (relation "measure (\<lambda>(chunk, s, failed). length chunk)", goal_cases)
  case (2 c chunk s failed0 failed x r n negated y matched rest)
  then have "length rest < length (if negated then tl chunk else chunk)" using class_ranges_length by metis
  then show ?case by (auto split: if_splits)
qed auto

subsection \<open>Patterns\<close>

fun scan_body :: "bool \<Rightarrow> string \<Rightarrow> string \<times> string" where
  "scan_body inrange [] = ([], [])"
| "scan_body inrange (c # cs) =
     (if c = CHR 0x5C then
        (case cs of [] \<Rightarrow> ([c], []) | d # ds \<Rightarrow> (case scan_body inrange ds of (a, b) \<Rightarrow> (c # d # a, b)))
      else if c = CHR ''*'' \<and> \<not> inrange then ([], c # cs)
      else case scan_body (if c = CHR ''['' then True else if c = CHR '']'' then False else inrange) cs of
             (a, b) \<Rightarrow> (c # a, b))"

definition scan_chunk :: "string \<Rightarrow> bool \<times> string \<times> string" where
  "scan_chunk pattern =
     (let body = dropWhile (\<lambda>c. c = CHR ''*'') pattern in (body \<noteq> pattern, scan_body False body))"

lemma scan_body_append: "scan_body b p = (x, y) \<Longrightarrow> p = x @ y"
proof (induction b p arbitrary: x y rule: scan_body.induct)
  case (2 inrange c cs)
  then show ?case by (cases cs) (auto split: if_splits prod.splits)
qed simp

lemma scan_body_first: "scan_body b (c # cs) = (x, y) \<Longrightarrow> c \<noteq> CHR ''*'' \<Longrightarrow> x \<noteq> []"
  by (cases cs; cases "c = CHR 0x5C") (clarsimp split: prod.splits)+

lemma scan_chunk_length:
  assumes "scan_chunk pattern = (star, chunk, rest)" and "pattern \<noteq> []"
  shows "length rest < length pattern"
proof -
  obtain c cs where p: "pattern = c # cs" using assms(2) by (cases pattern) auto
  let ?b = "dropWhile (\<lambda>c. c = CHR ''*'') pattern"
  have s: "scan_body False ?b = (chunk, rest)" using assms(1) by (simp add: scan_chunk_def Let_def)
  then have rest: "length rest \<le> length ?b" by (metis scan_body_append length_append le_add2)
  show ?thesis
  proof (cases "c = CHR ''*''")
    case True
    then have "length ?b \<le> length cs" by (simp add: p length_dropWhile_le)
    then show ?thesis using rest by (simp add: p)
  next
    case False
    then have "scan_body False (c # cs) = (chunk, rest)" using s by (simp add: p)
    then have "chunk \<noteq> []" using False scan_body_first by blast
    moreover have "c # cs = chunk @ rest" using \<open>scan_body False (c # cs) = (chunk, rest)\<close> by (rule scan_body_append)
    ultimately show ?thesis by (cases chunk) (auto simp: p)
  qed
qed

text \<open>The loop that lets a star swallow \<open>i + 1\<close> bytes, none of them a slash.\<close>

fun star_skip :: "string \<Rightarrow> bool \<Rightarrow> string \<Rightarrow> string option option" where
  "star_skip chunk last_chunk [] = Some None"
| "star_skip chunk last_chunk (c # name) =
     (if c = CHR ''/'' then Some None
      else case match_chunk chunk name False of
        None \<Rightarrow> None
      | Some None \<Rightarrow> star_skip chunk last_chunk name
      | Some (Some t) \<Rightarrow> (if last_chunk \<and> t \<noteq> [] then star_skip chunk last_chunk name else Some (Some t)))"

function pattern_ok :: "string \<Rightarrow> bool" where
  "pattern_ok pattern =
     (if pattern = [] then True
      else case scan_chunk pattern of (_, chunk, rest) \<Rightarrow> match_chunk chunk [] False \<noteq> None \<and> pattern_ok rest)"
  by pat_completeness auto
termination
  by (relation "measure length") (use scan_chunk_length in \<open>auto dest: sym\<close>)

function path_match :: "string \<Rightarrow> string \<Rightarrow> bool option" where
  "path_match pattern name =
     (if pattern = [] then Some (name = [])
      else case scan_chunk pattern of (star, chunk, rest) \<Rightarrow>
        (if star \<and> chunk = [] then Some (CHR ''/'' \<notin> set name)
         else let fail = (if pattern_ok rest then Some False else None);
                  skip = (if star then
                            (case star_skip chunk (rest = []) name of
                               None \<Rightarrow> None | Some None \<Rightarrow> fail | Some (Some t) \<Rightarrow> path_match rest t)
                          else fail) in
           case match_chunk chunk name False of
             None \<Rightarrow> None
           | Some None \<Rightarrow> skip
           | Some (Some t) \<Rightarrow> (if t = [] \<or> rest \<noteq> [] then path_match rest t else skip)))"
  by pat_completeness auto
termination
  by (relation "measure (\<lambda>(pattern, name). length pattern)") (use scan_chunk_length in \<open>auto dest: sym\<close>)

declare pattern_ok.simps [simp del] path_match.simps [simp del]

subsection \<open>Lemmas\<close>

definition plain_char :: "char \<Rightarrow> bool" where
  "plain_char c \<longleftrightarrow> c \<notin> {CHR ''*'', CHR ''?'', CHR ''['', CHR '']'', CHR 0x5C}"

lemma scan_body_plain: "list_all plain_char p \<Longrightarrow> scan_body False p = (p, [])"
  by (induction p) (auto simp: plain_char_def)

lemma scan_chunk_plain: "list_all plain_char p \<Longrightarrow> scan_chunk p = (False, p, [])"
proof -
  assume p: "list_all plain_char p"
  then have "dropWhile (\<lambda>c. c = CHR ''*'') p = p" by (cases p) (auto simp: plain_char_def)
  then show ?thesis by (simp add: scan_chunk_def scan_body_plain [OF p])
qed

lemma match_chunk_failed_plain: "list_all plain_char p \<Longrightarrow> match_chunk p s True = Some None"
  by (induction p arbitrary: s) (auto simp: plain_char_def Let_def)

lemma match_chunk_plain:
  "list_all plain_char p \<Longrightarrow>
   match_chunk p s False = Some (if prefix p s then Some (drop (length p) s) else None)"
proof (induction p arbitrary: s)
  case (Cons c p)
  have "plain_char c" and p: "list_all plain_char p" using Cons.prems by simp_all
  then have c: "c \<noteq> CHR ''['' \<and> c \<noteq> CHR ''?'' \<and> c \<noteq> CHR 0x5C" by (simp add: plain_char_def)
  show ?case
    by (cases s; cases "c = hd s") (use c p Cons.IH match_chunk_failed_plain in \<open>simp_all add: Let_def\<close>)
qed simp

text \<open>A pattern without special characters matches itself only.\<close>

lemma path_match_plain:
  assumes "list_all plain_char p" shows "path_match p name = Some (name = p)"
proof (cases "p = []")
  case False
  have "path_match [] t = Some (t = [])" for t by (simp add: path_match.simps [of "[]"])
  moreover have "pattern_ok []" by (simp add: pattern_ok.simps)
  ultimately show ?thesis
    using False by (simp add: path_match.simps [of p] scan_chunk_plain [OF assms] match_chunk_plain [OF assms] Let_def)
      (auto simp: prefix_def)
qed (auto simp: path_match.simps [of "[]"])

text \<open>A lone star matches exactly the names without a slash.\<close>

lemma path_match_star: "path_match ''*'' name = Some (CHR ''/'' \<notin> set name)"
  by (simp add: path_match.simps [of "''*''"] scan_chunk_def)

end
