(* ===== verification/Mount_Search.thy ===== *)
theory Mount_Search
  imports Mount_Dispatch Go_Glob
begin

section \<open>Content search over a mount (\<open>pkg/contract/mount_dispatch.go\<close>)\<close>

text \<open>
  \<open>SearchMountContent\<close> asks the mount's searcher, or enumerates, reads and scans the files itself. What
  the code takes from Go's Unicode tables and regexp engine is the parameter \<open>lib\<close>: whether a text
  has an upper case rune, its lower case form, and the matcher a pattern compiles to.
\<close>

record text_lib =
  tl_has_upper :: "string \<Rightarrow> bool"
  tl_lower :: "string \<Rightarrow> string"
  tl_compile :: "string \<Rightarrow> go_error + (string \<Rightarrow> bool)"

subsection \<open>Globs\<close>

definition bad_glob :: go_error where
  "bad_glob = ErrText ''invalid glob pattern: syntax error in pattern''"

fun matchMountGlobs :: "string \<Rightarrow> string list \<Rightarrow> go_error + bool" where
  "matchMountGlobs filePath [] = Inr False"
| "matchMountGlobs filePath (glob # globs) =
     (let pattern = trim_space glob in
      if pattern = [] then matchMountGlobs filePath globs
      else let pattern = trim_prefix pattern ''/'' in
        (case path_match pattern (path_base filePath) of
           None \<Rightarrow> Inl bad_glob
         | Some True \<Rightarrow> Inr True
         | Some False \<Rightarrow>
             (case path_match pattern (trim_prefix filePath ''/'') of
                None \<Rightarrow> Inl bad_glob
              | Some True \<Rightarrow> Inr True
              | Some False \<Rightarrow> matchMountGlobs filePath globs)))"

fun filter_globs :: "string list \<Rightarrow> string list \<Rightarrow> go_error + string list" where
  "filter_globs globs [] = Inr []"
| "filter_globs globs (p # ps) =
     (case matchMountGlobs p globs of
        Inl e \<Rightarrow> Inl e
      | Inr ok \<Rightarrow> (case filter_globs globs ps of Inl e \<Rightarrow> Inl e | Inr qs \<Rightarrow> Inr (if ok then p # qs else qs)))"

definition filterMountPathsByGlob :: "string list \<Rightarrow> string list \<Rightarrow> go_error + string list" where
  "filterMountPathsByGlob paths globs = (if globs = [] then Inr paths else filter_globs globs paths)"

subsection \<open>Matchers\<close>

definition effective_case :: "text_lib \<Rightarrow> string \<Rightarrow> SearchCaseMode \<Rightarrow> SearchCaseMode" where
  "effective_case lib pattern caseMode =
     (let effective = (if caseMode = SearchCaseUnset then SearchCaseSensitive else caseMode) in
      if effective = SearchCaseSmart
      then (if tl_has_upper lib pattern then SearchCaseSensitive else SearchCaseIgnore) else effective)"

definition buildMountSearchMatcher :: "text_lib \<Rightarrow> string \<Rightarrow> bool \<Rightarrow> SearchCaseMode \<Rightarrow> go_error + (string \<Rightarrow> bool)" where
  "buildMountSearchMatcher lib pattern regex caseMode =
     (let effective = effective_case lib pattern caseMode in
      if regex then tl_compile lib (if effective = SearchCaseIgnore then ''(?i)'' @ pattern else pattern)
      else if effective = SearchCaseIgnore
        then Inr (\<lambda>line. contains (tl_lower lib line) (tl_lower lib pattern))
      else Inr (\<lambda>line. contains line pattern))"

subsection \<open>Lines and their context\<close>

definition splitContractRawLines :: "string \<Rightarrow> string list" where
  "splitContractRawLines raw =
     (let raw = trim_suffix raw [CHR 0x0A] in if raw = [] then [] else split_on (CHR 0x0A) raw)"

text \<open>The window of a match at line \<open>i\<close>; the additions wrap around like Go's.\<close>

definition sub_int :: "int \<Rightarrow> int \<Rightarrow> int" where
  "sub_int a b = sint (word_of_int (a - b) :: 64 word)"

definition window_start :: "int \<Rightarrow> int \<Rightarrow> int" where
  "window_start before i = (let start = sub_int i before in if start < 0 then 0 else start)"

definition window_end :: "int \<Rightarrow> int \<Rightarrow> int \<Rightarrow> int" where
  "window_end n after i = (let fin = add_int i after in if fin \<ge> n then n - 1 else fin)"

definition included :: "(string \<Rightarrow> bool) \<Rightarrow> int \<Rightarrow> int \<Rightarrow> string list \<Rightarrow> nat \<Rightarrow> bool" where
  "included mat before after lines j =
     list_ex (\<lambda>i. mat (lines ! i) \<and> window_start before (int i) \<le> int j \<and>
       int j \<le> window_end (int (length lines)) after (int i)) [0..<length lines]"

definition mountSearchRecords :: "string \<Rightarrow> (string \<Rightarrow> bool) \<Rightarrow> int \<Rightarrow> int \<Rightarrow> string \<Rightarrow> SearchRecord list" where
  "mountSearchRecords raw mat before after filePath =
     (let lines = splitContractRawLines raw in
      map (\<lambda>i. \<lparr>sc_Path = filePath, sc_Line = int i + 1,
                sc_Kind = (if mat (lines ! i) then ''match'' else ''context''), sc_Text = lines ! i\<rparr>)
        (filter (included mat before after lines) [0..<length lines]))"

subsection \<open>The search\<close>

fun enumerate_targets :: "'e VirtualMount \<Rightarrow> string list \<Rightarrow> 'e sys \<Rightarrow> (go_error + string list) \<times> 'e sys" where
  "enumerate_targets mnt [] s = (Inr [], s)"
| "enumerate_targets mnt (t # ts) s =
     (case EnumerateMountFilesWithRequest mnt \<lparr>en_Target = t, en_Recursive = True, en_MaxDepth = 0\<rparr> s of
        (Inl e, s) \<Rightarrow> (Inl e, s)
      | (Inr ps, s) \<Rightarrow>
          (case enumerate_targets mnt ts s of (Inl e, s) \<Rightarrow> (Inl e, s) | (Inr qs, s) \<Rightarrow> (Inr (ps @ qs), s)))"

definition search_files :: "SearchRequest \<Rightarrow> (string \<Rightarrow> bool) \<Rightarrow> MountContentEntry list \<Rightarrow> SearchRecord list" where
  "search_files req mat files =
     (let recs = concat (map (\<lambda>f.
            let found = mountSearchRecords (ce_Content f) mat (sr_Before req) (sr_After req) (ce_Path f) in
            if sr_ListFiles req
            then (if found = [] then []
                  else [\<lparr>sc_Path = ce_Path f, sc_Line = 0, sc_Kind = ''file'', sc_Text = []\<rparr>])
            else found) files)
      in if sr_MaxResults req > 0 \<and> int (length recs) > sr_MaxResults req
         then take (nat (sr_MaxResults req)) recs else recs)"

definition SearchMountContent :: "text_lib \<Rightarrow> 'e VirtualMount \<Rightarrow> (SearchRequest, SearchRecord list, 'e) op" where
  "SearchMountContent lib mnt req s =
     (case checkMountSearchBudget mnt req of
        Some e \<Rightarrow> (Inl e, s)
      | None \<Rightarrow>
      (case requireMountCLIClass mnt MountCLIContentSearch ''content search'' of
        Some e \<Rightarrow> (Inl e, s)
      | None \<Rightarrow>
      (case vm_SearchContent mnt of
        Some search \<Rightarrow> search req s
      | None \<Rightarrow>
        (if \<not> MountAllowsFallback (vm_Profile mnt)
         then (Inl (unsupportedMountCapability mnt ''content search''), s)
         else let targets = (if sr_Targets req = [] then [vm_MountPoint mnt] else sr_Targets req) in
      (case enumerate_targets mnt targets s of
        (Inl e, s) \<Rightarrow> (Inl e, s)
      | (Inr paths, s) \<Rightarrow>
      (case filterMountPathsByGlob (normalizeMountPaths paths) (sr_Globs req) of
        Inl e \<Rightarrow> (Inl e, s)
      | Inr filtered \<Rightarrow>
      (case ReadManyFromMountRequest mnt \<lparr>rm_Paths = filtered, rm_MaxEntries = 0, rm_MaxBytes = 0\<rparr> s of
        (Inl e, s) \<Rightarrow> (Inl e, s)
      | (Inr files, s) \<Rightarrow>
      (case buildMountSearchMatcher lib (sr_Pattern req) (sr_Regex req) (sr_CaseMode req) of
        Inl e \<Rightarrow> (Inl e, s)
      | Inr mat \<Rightarrow> (Inr (search_files req mat files), s)))))))))"

subsection \<open>Lemmas\<close>

lemma sub_int_in_range: "in_int_range (a - b) \<Longrightarrow> sub_int a b = a - b"
  using add_int_in_range [of a "- b"] by (simp add: sub_int_def add_int_def)

lemma window_exact:
  assumes "0 \<le> before" "before \<le> max_int" "0 \<le> after" "n + after \<le> max_int" "0 \<le> i" "i < n" "0 \<le> j" "j < n"
  shows "window_start before i \<le> j \<and> j \<le> window_end n after i \<longleftrightarrow> i - before \<le> j \<and> j \<le> i + after"
proof -
  have "in_int_range (i - before)" "in_int_range (i + after)"
    using assms by (auto simp: in_int_range_def min_int_def max_int_def)
  then show ?thesis
    using assms by (auto simp: window_start_def window_end_def sub_int_in_range add_int_in_range Let_def)
qed

lemma included_exact:
  assumes "0 \<le> before" "before \<le> max_int" "0 \<le> after" "int (length lines) + after \<le> max_int" "j < length lines"
  shows "included mat before after lines j \<longleftrightarrow>
    (\<exists>i<length lines. mat (lines ! i) \<and> int i - before \<le> int j \<and> int j \<le> int i + after)"
  using window_exact [OF assms(1-4), of "int _" "int j"] assms(5)
  by (auto simp: included_def list_ex_iff)

text \<open>A context so large that the end of the window overflows hides the match itself.\<close>

lemma huge_context_hides_match:
  "mountSearchRecords (''a'' @ [CHR 0x0A] @ ''b'') (\<lambda>l. l = ''b'') 0 max_int ''/f'' = []"
  by code_simp

lemma search_files_bound:
  "0 < sr_MaxResults req \<Longrightarrow> int (length (search_files req mat files)) \<le> sr_MaxResults req"
  by (auto simp: search_files_def Let_def)

subsection \<open>Properties\<close>

text \<open>C30. Unless the window overflows, a search reports exactly the lines within the requested context of
  a matching line, each once and in order, with its number, and marks those that match.\<close>

theorem search_context_window:
  assumes "0 \<le> before" "before \<le> max_int" "0 \<le> after"
    and "int (length (splitContractRawLines raw)) + after \<le> max_int"
  shows "mountSearchRecords raw mat before after path =
    (let lines = splitContractRawLines raw in
     map (\<lambda>j. \<lparr>sc_Path = path, sc_Line = int j + 1,
               sc_Kind = (if mat (lines ! j) then ''match'' else ''context''), sc_Text = lines ! j\<rparr>)
       (filter (\<lambda>j. \<exists>i<length lines. mat (lines ! i) \<and> int i - before \<le> int j \<and> int j \<le> int i + after)
         [0..<length lines]))"
proof -
  have "filter (included mat before after (splitContractRawLines raw)) [0..<length (splitContractRawLines raw)] =
      filter (\<lambda>j. \<exists>i<length (splitContractRawLines raw). mat (splitContractRawLines raw ! i) \<and>
        int i - before \<le> int j \<and> int j \<le> int i + after) [0..<length (splitContractRawLines raw)]"
    using included_exact [OF assms] by (intro filter_cong) auto
  then show ?thesis by (simp add: mountSearchRecords_def Let_def)
qed

definition sample_text :: string where
  "sample_text = ''a'' @ [CHR 0x0A] @ ''b'' @ [CHR 0x0A] @ ''c'' @ [CHR 0x0A]"

lemma sample_lines: "splitContractRawLines sample_text = [''a'', ''b'', ''c'']"
  by code_simp

theorem search_context_window_witness:
  "map sc_Line (mountSearchRecords sample_text (\<lambda>l. l = ''b'') 0 1 ''/f'') = [2, 3]"
proof -
  have "(\<exists>i<Suc (Suc (Suc 0)). [''a'', ''b'', ''c''] ! i = ''b'' \<and> int i \<le> int j \<and> int j \<le> int i + 1)
      \<longleftrightarrow> j = 1 \<or> j = 2" for j
    by (auto simp: less_Suc_eq)
  then show ?thesis
    using search_context_window [of 0 1 sample_text "\<lambda>l. l = ''b''" "''/f''"]
    by (simp add: sample_lines max_int_def Let_def)
qed

end
