(* ===== verification/Mount_Router.thy ===== *)
theory Mount_Router
  imports Mount_Dispatch "HOL-Library.Multiset"
begin

section \<open>Which mount a path belongs to (\<open>engine/virtualfs_router.go\<close>)\<close>

text \<open>
  The router keeps the mounts with their normalised points, longest first, so that the first point a
  path lies under is the innermost mount. Directories that exist only because a mount lies below them
  are \<^emph>\<open>synthetic\<close>. A request the router does not answer (\<^term>\<open>None\<close> in the result) goes
  to the primary filesystem. The lookup interprets \<open>point_table\<close>.
\<close>

record 'e mountedMount =
  mm_point :: string
  mm_mount :: "'e VirtualMount"

type_synonym 'e mountRouter = "'e mountedMount list"

subsection \<open>Building the table\<close>

fun collect_mounts :: "'e VirtualMount option list \<Rightarrow> string list \<Rightarrow> 'e mountedMount list \<Rightarrow> go_error + 'e mountedMount list" where
  "collect_mounts [] seen acc = Inr acc"
| "collect_mounts (None # ms) seen acc = collect_mounts ms seen acc"
| "collect_mounts (Some m # ms) seen acc =
     (let point = normalizeAbsolutePath (vm_MountPoint m) in
      if point = ''/'' then Inl (ErrText ''virtual mount point must not be root'')
      else if point \<in> set seen then Inl (ErrText (''duplicate virtual mount point: '' @ point))
      else collect_mounts ms (point # seen) (acc @ [\<lparr>mm_point = point, mm_mount = m\<rparr>]))"

definition newMountRouter :: "'e VirtualMount option list \<Rightarrow> go_error + 'e mountRouter" where
  "newMountRouter mounts =
     (case collect_mounts mounts [] [] of
        Inl e \<Rightarrow> Inl e
      | Inr normalized \<Rightarrow> Inr (stable_sort_by (\<lambda>a b. length (mm_point b) < length (mm_point a)) normalized))"

definition isEmpty :: "'e mountRouter \<Rightarrow> bool" where
  "isEmpty r \<longleftrightarrow> r = []"

subsection \<open>Lookup\<close>

definition match :: "'e mountRouter \<Rightarrow> string \<Rightarrow> 'e mountedMount option" where
  "match r pathValue =
     (let p = normalizeAbsolutePath pathValue in
      find (\<lambda>m. p = mm_point m \<or> has_prefix p (mm_point m @ ''/'')) r)"

definition isSyntheticPrefix :: "'e mountRouter \<Rightarrow> string \<Rightarrow> bool" where
  "isSyntheticPrefix r pathValue =
     (let p = normalizeAbsolutePath pathValue in
      if p = ''/'' then False
      else list_ex (\<lambda>m. mm_point m \<noteq> p \<and> has_prefix (mm_point m) (p @ ''/'')) r)"

definition activeForPath :: "'e mountRouter \<Rightarrow> string \<Rightarrow> 'e sys \<Rightarrow> (go_error + 'e mountedMount option) \<times> 'e sys" where
  "activeForPath r pathValue s =
     (case match r pathValue of
        None \<Rightarrow> (Inr None, s)
      | Some m \<Rightarrow>
          (case vm_Exists (mm_mount m) () s of
             (Inl e, s) \<Rightarrow> (Inl e, s)
           | (Inr exists, s) \<Rightarrow> (Inr (if exists then Some m else None), s)))"

fun activeMounts :: "'e mountRouter \<Rightarrow> 'e sys \<Rightarrow> (go_error + 'e mountedMount list) \<times> 'e sys" where
  "activeMounts [] s = (Inr [], s)"
| "activeMounts (m # r) s =
     (case vm_Exists (mm_mount m) () s of
        (Inl e, s) \<Rightarrow> (Inl e, s)
      | (Inr exists, s) \<Rightarrow>
          (case activeMounts r s of
             (Inl e, s) \<Rightarrow> (Inl e, s)
           | (Inr active, s) \<Rightarrow> (Inr (if exists then m # active else active), s)))"

subsection \<open>Synthetic directories\<close>

fun synthetic_among :: "'e mountedMount list \<Rightarrow> string \<Rightarrow> bool" where
  "synthetic_among [] p = False"
| "synthetic_among (m # ms) p =
     (if mm_point m = p then False
      else if has_prefix (mm_point m) (p @ ''/'') then True else synthetic_among ms p)"

definition isSyntheticDir :: "'e mountRouter \<Rightarrow> (string, bool, 'e) op" where
  "isSyntheticDir r pathValue s =
     (case activeMounts r s of
        (Inl e, s) \<Rightarrow> (Inl e, s)
      | (Inr active, s) \<Rightarrow> (Inr (synthetic_among active (normalizeAbsolutePath pathValue)), s))"

definition appendUniquePath :: "string list \<Rightarrow> string \<Rightarrow> string list" where
  "appendUniquePath paths candidate =
     (let c = normalizeAbsolutePath candidate in
      if list_ex (\<lambda>p. normalizeAbsolutePath p = c) paths then paths else sort (paths @ [c]))"

fun synthetic_children_of :: "'e mountedMount list \<Rightarrow> string \<Rightarrow> string list \<Rightarrow> string list" where
  "synthetic_children_of [] dir children = children"
| "synthetic_children_of (m # ms) dir children =
     (let pre = (if dir = ''/'' then ''/'' else dir @ ''/'');
          remainder = trim_prefix (mm_point m) pre;
          next_comp = fst (split_n2 (CHR ''/'') remainder) in
      if mm_point m = dir \<or> \<not> has_prefix (mm_point m) pre then synthetic_children_of ms dir children
      else if trim_space remainder = [] then synthetic_children_of ms dir children
      else if trim_space next_comp = [] then synthetic_children_of ms dir children
      else synthetic_children_of ms dir
             (appendUniquePath children (if dir \<noteq> ''/'' then dir @ ''/'' @ next_comp else ''/'' @ next_comp)))"

definition syntheticChildren :: "'e mountRouter \<Rightarrow> (string, string list, 'e) op" where
  "syntheticChildren r dir s =
     (case activeMounts r s of
        (Inl e, s) \<Rightarrow> (Inl e, s)
      | (Inr active, s) \<Rightarrow> (Inr (synthetic_children_of active (normalizeAbsolutePath dir) []), s))"

definition normalizePathList :: "string list \<Rightarrow> string list" where
  "normalizePathList paths = sort (map (\<lambda>p. normalizeAbsolutePath (trim_space p)) (filter (\<lambda>p. trim_space p \<noteq> []) paths))"

fun collect_synthetic_files :: "'e mountedMount list \<Rightarrow> string \<Rightarrow> string list \<Rightarrow> 'e sys \<Rightarrow> (go_error + string list) \<times> 'e sys" where
  "collect_synthetic_files [] dir files s = (Inr files, s)"
| "collect_synthetic_files (m # ms) dir files s =
     (if mm_point m = dir \<or> has_prefix (mm_point m) (dir @ ''/'') then
        (case EnumerateMountFiles (mm_mount m) (mm_point m) True s of
           (Inl e, s) \<Rightarrow> (Inl e, s)
         | (Inr mountFiles, s) \<Rightarrow> collect_synthetic_files ms dir (foldl appendUniquePath files mountFiles) s)
      else collect_synthetic_files ms dir files s)"

definition collectFilesForSyntheticDir :: "'e mountRouter \<Rightarrow> (string, string list, 'e) op" where
  "collectFilesForSyntheticDir r dir s =
     (case activeMounts r s of
        (Inl e, s) \<Rightarrow> (Inl e, s)
      | (Inr active, s) \<Rightarrow>
          (case collect_synthetic_files active (normalizeAbsolutePath dir) [] s of
             (Inl e, s) \<Rightarrow> (Inl e, s) | (Inr files, s) \<Rightarrow> (Inr (normalizePathList files), s)))"

definition syntheticDirEntry :: "string \<Rightarrow> MountEntry" where
  "syntheticDirEntry pathValue =
     \<lparr>me_Path = pathValue, me_Name = path_base pathValue,
      me_Meta = \<lparr>pm_Exists = True, pm_IsDir = True, pm_Kind = ''virtual_dir'', pm_Access = PathAccessReadOnly,
                 pm_Capabilities = [''describe'', ''list'', ''search''], pm_LineCount = - 1,
                 pm_FrontMatterLines = - 1, pm_SpeakerRows = - 1, pm_UserRelevance = ''n/a''\<rparr>\<rparr>"

subsection \<open>The router's answers\<close>

definition statEntry :: "'e mountRouter \<Rightarrow> (string, MountEntry option, 'e) op" where
  "statEntry r pathValue s =
     (let p = normalizeAbsolutePath pathValue in
      case activeForPath r p s of
        (Inl e, s) \<Rightarrow> (Inl e, s)
      | (Inr (Some m), s) \<Rightarrow>
          (case vm_StatPath (mm_mount m) p s of (Inl e, s) \<Rightarrow> (Inl e, s) | (Inr entry, s) \<Rightarrow> (Inr (Some entry), s))
      | (Inr None, s) \<Rightarrow>
          (case isSyntheticDir r p s of
             (Inl e, s) \<Rightarrow> (Inl e, s)
           | (Inr synthetic, s) \<Rightarrow> (Inr (if synthetic then Some (syntheticDirEntry p) else None), s)))"

text \<open>\<open>statEntry\<close> of each child; a child for which the router has no answer gets the zero entry.\<close>

definition zero_entry :: MountEntry where
  "zero_entry = \<lparr>me_Path = [], me_Name = [],
     me_Meta = \<lparr>pm_Exists = False, pm_IsDir = False, pm_Kind = [], pm_Access = [], pm_Capabilities = [],
                pm_LineCount = 0, pm_FrontMatterLines = 0, pm_SpeakerRows = 0, pm_UserRelevance = []\<rparr>\<rparr>"

fun stat_children :: "'e mountRouter \<Rightarrow> string list \<Rightarrow> 'e sys \<Rightarrow> (go_error + MountEntry list) \<times> 'e sys" where
  "stat_children r [] s = (Inr [], s)"
| "stat_children r (c # cs) s =
     (case statEntry r c s of
        (Inl e, s) \<Rightarrow> (Inl e, s)
      | (Inr entry, s) \<Rightarrow>
          (case stat_children r cs s of
             (Inl e, s) \<Rightarrow> (Inl e, s)
           | (Inr entries, s) \<Rightarrow> (Inr ((case entry of None \<Rightarrow> zero_entry | Some x \<Rightarrow> x) # entries), s)))"

definition remote_high_lister :: "'e VirtualMount \<Rightarrow> string \<Rightarrow> string \<Rightarrow> string \<Rightarrow> go_error" where
  "remote_high_lister mnt p cap needs =
     MountUnsupportedError (vm_MountPoint mnt) cap RemoteHigh
       (p @ '': '' @ cap @ '' requires '' @ needs @ '' for remote_high_latency mount'')"

definition listEntries :: "'e mountRouter \<Rightarrow> (ListEntriesRequest, MountEntry list option, 'e) op" where
  "listEntries r req s =
     (let dir = normalizeAbsolutePath (normalizeAbsolutePath (le_Dir req)) in
      case activeForPath r dir s of
        (Inl e, s) \<Rightarrow> (Inl e, s)
      | (Inr (Some m), s) \<Rightarrow>
          (let mnt = mm_mount m in
           case CheckMountListScope mnt req of
             Some e \<Rightarrow> (Inl e, s)
           | None \<Rightarrow>
               (if \<not> MountSupportsCLIClass (vm_Profile mnt) MountCLIList
                then (Inl (ErrText (dir @ '': mount profile does not declare list support'')), s)
                else case vm_ListEntries mnt of
                  None \<Rightarrow>
                    (Inl (if mp_LatencyClass (vm_Profile mnt) = RemoteHigh
                          then remote_high_lister mnt dir ''entry listing'' ''EntryLister''
                          else ErrText (dir @ '': mount does not support entry listing'')), s)
                | Some list \<Rightarrow>
                    (case list (req\<lparr>le_Dir := dir\<rparr>) s of
                       (Inl e, s) \<Rightarrow> (Inl e, s) | (Inr entries, s) \<Rightarrow> (Inr (Some entries), s))))
      | (Inr None, s) \<Rightarrow>
          (case isSyntheticDir r dir s of
             (Inl e, s) \<Rightarrow> (Inl e, s)
           | (Inr False, s) \<Rightarrow> (Inr None, s)
           | (Inr True, s) \<Rightarrow>
               (case syntheticChildren r dir s of
                  (Inl e, s) \<Rightarrow> (Inl e, s)
                | (Inr children, s) \<Rightarrow>
                    (case stat_children r children s of
                       (Inl e, s) \<Rightarrow> (Inl e, s) | (Inr entries, s) \<Rightarrow> (Inr (Some entries), s)))))"

definition enumerateEntriesViaListing ::
  "(ListEntriesRequest, MountEntry list, 'e) op \<Rightarrow> string \<Rightarrow> bool \<Rightarrow> int \<Rightarrow> 'e sys \<Rightarrow> (go_error + MountEntry list) \<times> 'e sys" where
  "enumerateEntriesViaListing list target recursive maxDepth s =
     (case list \<lparr>le_Dir = target, le_Recursive = recursive, le_MaxDepth = maxDepth\<rparr> s of
        (Inl e, s) \<Rightarrow> (Inl e, s)
      | (Inr entries, s) \<Rightarrow> (Inr (filter (\<lambda>e. \<not> pm_IsDir (me_Meta e)) entries), s))"

fun stat_files :: "'e mountRouter \<Rightarrow> string list \<Rightarrow> 'e sys \<Rightarrow> (go_error + MountEntry list) \<times> 'e sys" where
  "stat_files r [] s = (Inr [], s)"
| "stat_files r (f # fs) s =
     (case statEntry r f s of
        (Inl e, s) \<Rightarrow> (Inl e, s)
      | (Inr None, s) \<Rightarrow> (Inl (ErrText (f @ '': No such file or directory'')), s)
      | (Inr (Some entry), s) \<Rightarrow>
          (case stat_files r fs s of
             (Inl e, s) \<Rightarrow> (Inl e, s) | (Inr entries, s) \<Rightarrow> (Inr (entry # entries), s)))"

definition enumeratePaths :: "'e mountRouter \<Rightarrow> (EnumeratePathsRequest, MountEntry list option, 'e) op" where
  "enumeratePaths r req s =
     (let target = normalizeAbsolutePath (normalizeAbsolutePath (en_Target req)) in
      case activeForPath r target s of
        (Inl e, s) \<Rightarrow> (Inl e, s)
      | (Inr (Some m), s) \<Rightarrow>
          (let mnt = mm_mount m;
               answer = (\<lambda>x. case x of (Inl e, s) \<Rightarrow> (Inl e, s) | (Inr entries, s) \<Rightarrow> (Inr (Some entries), s)) in
           case CheckMountListScope mnt \<lparr>le_Dir = target, le_Recursive = en_Recursive req, le_MaxDepth = en_MaxDepth req\<rparr> of
             Some e \<Rightarrow> (Inl e, s)
           | None \<Rightarrow>
               (if \<not> MountSupportsCLIClass (vm_Profile mnt) MountCLIFind
                then (Inl (ErrText (target @ '': mount profile does not declare find support'')), s)
                else case vm_EnumeratePaths mnt of
                  Some enum \<Rightarrow> answer (enum (req\<lparr>en_Target := target\<rparr>) s)
                | None \<Rightarrow>
                    (if mp_LatencyClass (vm_Profile mnt) = RemoteHigh
                     then (Inl (remote_high_lister mnt target ''path enumeration'' ''PathEnumerator''), s)
                     else case vm_ListEntries mnt of
                       Some list \<Rightarrow> answer (enumerateEntriesViaListing list target (en_Recursive req) (en_MaxDepth req) s)
                     | None \<Rightarrow> (Inl (ErrText (target @ '': mount does not support path enumeration'')), s))))
      | (Inr None, s) \<Rightarrow>
          (case isSyntheticDir r target s of
             (Inl e, s) \<Rightarrow> (Inl e, s)
           | (Inr False, s) \<Rightarrow> (Inr None, s)
           | (Inr True, s) \<Rightarrow>
               (if \<not> en_Recursive req
                then (Inl (ErrText (target @ '': Is a directory (use -r to search recursively)'')), s)
                else case collectFilesForSyntheticDir r target s of
                  (Inl e, s) \<Rightarrow> (Inl e, s)
                | (Inr files, s) \<Rightarrow>
                    (case stat_files r files s of
                       (Inl e, s) \<Rightarrow> (Inl e, s) | (Inr entries, s) \<Rightarrow> (Inr (Some entries), s)))))"

definition containsPathCapability :: "string list \<Rightarrow> string \<Rightarrow> bool" where
  "containsPathCapability caps target \<longleftrightarrow> target \<in> set caps"

subsection \<open>Lemmas\<close>

lemma collect_mounts_ok:
  "collect_mounts ms seen acc = Inr res \<Longrightarrow> distinct (map mm_point acc) \<Longrightarrow> set (map mm_point acc) \<subseteq> set seen \<Longrightarrow>
     distinct (map mm_point res) \<and> set acc \<subseteq> set res \<and>
     set (map mm_mount res) = set (map mm_mount acc) \<union> {m. Some m \<in> set ms}"
proof (induction ms seen acc rule: collect_mounts.induct)
  case (3 m ms seen acc)
  then show ?case by (auto simp: Let_def split: if_splits)
qed auto

definition at_point :: "'e mountedMount \<Rightarrow> bool" where
  "at_point x \<longleftrightarrow> mm_point x = normalizeAbsolutePath (vm_MountPoint (mm_mount x)) \<and> mm_point x \<noteq> ''/''"

lemma collect_mounts_points:
  "collect_mounts ms seen acc = Inr res \<Longrightarrow> list_all at_point acc \<Longrightarrow> list_all at_point res"
  by (induction ms seen acc rule: collect_mounts.induct) (auto simp: Let_def at_point_def split: if_splits)

definition valid_router :: "'e mountRouter \<Rightarrow> bool" where
  "valid_router r \<longleftrightarrow> (\<exists>ms. newMountRouter ms = Inr r)"

lemma newMountRouter_ok:
  assumes "newMountRouter ms = Inr r"
  shows "distinct (map mm_point r)" "sorted_wrt (\<lambda>a b. length (mm_point b) \<le> length (mm_point a)) r"
    "set (map mm_mount r) = {m. Some m \<in> set ms}"
    "x \<in> set r \<Longrightarrow> mm_point x = normalizeAbsolutePath (vm_MountPoint (mm_mount x)) \<and> mm_point x \<noteq> ''/''"
proof -
  let ?lt = "\<lambda>a b :: 'a mountedMount. length (mm_point b) < length (mm_point a)"
  obtain res where res: "collect_mounts ms [] [] = Inr res" "r = stable_sort_by ?lt res"
    using assms by (auto simp: newMountRouter_def split: sum.splits)
  have m: "mset r = mset res" by (simp add: res(2))
  then show "distinct (map mm_point r)"
    using collect_mounts_ok [OF res(1)] by (metis distinct.simps(1) empty_set empty_subsetI list.simps(8) mset_eq_imp_distinct_iff mset_map)
  show "sorted_wrt (\<lambda>a b. length (mm_point b) \<le> length (mm_point a)) r"
    using sorted_stable_sort_by [OF weak_order_key(2) [of "\<lambda>x :: 'a mountedMount. length (mm_point x)"], of res]
    by (simp add: res(2) not_less)
  show "set (map mm_mount r) = {m. Some m \<in> set ms}"
    using collect_mounts_ok [OF res(1)] by (simp add: res(2))
  show "mm_point x = normalizeAbsolutePath (vm_MountPoint (mm_mount x)) \<and> mm_point x \<noteq> ''/''" if "x \<in> set r"
  proof -
    have "list_all at_point res" using collect_mounts_points [OF res(1)] by simp
    then show ?thesis using that unfolding list_all_iff at_point_def res(2) set_stable_sort_by by blast
  qed
qed

definition route :: "'e mountRouter \<Rightarrow> string \<Rightarrow> 'e mountedMount option" where
  "route r p = find (\<lambda>m. under (mm_point m) p) r"

lemma match_route: "match r pathValue = route r (normalizeAbsolutePath pathValue)"
  by (simp add: match_def route_def under_def Let_def)

interpretation mounts: point_table mm_point "\<lambda>r. r" route valid_router
proof
  fix t :: "'a mountRouter" and q
  assume "valid_router t"
  then obtain ms where ms: "newMountRouter ms = Inr t" by (auto simp: valid_router_def)
  show "sorted_wrt (\<lambda>a b. length (mm_point b) \<le> length (mm_point a)) t" "distinct (map mm_point t)"
    using newMountRouter_ok [OF ms] by simp_all
qed (simp add: route_def)

subsection \<open>Lemmas: what an answer depends on\<close>

lemma activeForPath_unmounted: "match r p = None \<Longrightarrow> activeForPath r p s = (Inr None, s)"
  by (simp add: activeForPath_def)

lemma activeForPath_some:
  "activeForPath r p s = (Inr (Some m), s') \<Longrightarrow> match r p = Some m \<and> vm_Exists (mm_mount m) () s = (Inr True, s')"
  by (auto simp: activeForPath_def split: option.splits prod.splits sum.splits if_splits)

lemma activeMounts_subset: "activeMounts r s = (Inr ms, s') \<Longrightarrow> set ms \<subseteq> set r"
  by (induction r arbitrary: s ms) (fastforce split: prod.splits sum.splits if_splits)+

lemma synthetic_among_prefix:
  "synthetic_among ms p \<Longrightarrow> \<exists>m\<in>set ms. mm_point m \<noteq> p \<and> under p (mm_point m)"
  by (induction ms) (auto simp: under_def split: if_splits)

lemma appendUniquePath_sorted: "sorted ps \<Longrightarrow> sorted (appendUniquePath ps c)"
  by (simp add: appendUniquePath_def Let_def)

lemma synthetic_children_sorted: "sorted cs \<Longrightarrow> sorted (synthetic_children_of ms dir cs)"
  by (induction ms dir cs rule: synthetic_children_of.induct) (simp add: Let_def appendUniquePath_sorted)+

subsection \<open>Properties\<close>

text \<open>A router exists for a set of mounts exactly when every point normalises to something other than
  the root and no two to the same path; it then holds exactly the mounts given.\<close>

theorem router_holds_mounts:
  assumes "newMountRouter ms = Inr r"
  shows "set (map mm_mount r) = {m. Some m \<in> set ms} \<and> distinct (map mm_point r) \<and>
    (\<forall>x\<in>set r. mm_point x = normalizeAbsolutePath (vm_MountPoint (mm_mount x)) \<and> mm_point x \<noteq> ''/'')"
  using newMountRouter_ok [OF assms] by blast

definition sample_mounts :: "'e VirtualMount option list" where
  "sample_mounts = [Some (plain_mount ''/m'' zero_profile), None, Some (plain_mount ''/m/deep'' zero_profile)]"

definition sample_router :: "'e mountRouter" where
  "sample_router = [\<lparr>mm_point = ''/m/deep'', mm_mount = plain_mount ''/m/deep'' zero_profile\<rparr>,
     \<lparr>mm_point = ''/m'', mm_mount = plain_mount ''/m'' zero_profile\<rparr>]"

lemma sample_paths:
  "normalizeAbsolutePath ''/m'' = ''/m''" "normalizeAbsolutePath ''/m/deep'' = ''/m/deep''"
  "normalizeAbsolutePath ''/m/deep/f'' = ''/m/deep/f''"
  by code_simp+

lemma sample_router_built: "newMountRouter sample_mounts = Inr sample_router"
  by (simp add: newMountRouter_def sample_mounts_def sample_router_def plain_mount_def sample_paths
      stable_sort_by_def Let_def)

theorem router_holds_mounts_witness:
  "distinct (map mm_point sample_router)"
  using router_holds_mounts [OF sample_router_built] by blast

text \<open>C26. A path is routed to the innermost mount: the mount found contains the path, and the point of
  every other mount that contains it lies above.\<close>

theorem match_innermost:
  assumes "newMountRouter ms = Inr r" and "match r p = Some m"
  shows "under (mm_point m) (normalizeAbsolutePath p) \<and>
    (\<forall>x\<in>set r. under (mm_point x) (normalizeAbsolutePath p) \<longrightarrow> under (mm_point x) (mm_point m) \<and>
       (x \<noteq> m \<longrightarrow> mm_point x \<noteq> mm_point m))"
proof -
  have v: "valid_router r" using assms(1) by (auto simp: valid_router_def)
  have m: "route r (normalizeAbsolutePath p) = Some m" using assms(2) by (simp add: match_route)
  show ?thesis
    using mounts.lookup_under [OF m] mounts.lookup_nested [OF v m] mounts.lookup_unique [OF v m] by metis
qed

theorem match_innermost_witness: "under ''/m/deep'' ''/m/deep/f''"
proof -
  have "match sample_router ''/m/deep/f'' = Some (hd sample_router)"
    by (simp add: match_def sample_paths sample_router_def)
  from match_innermost [OF sample_router_built this] show ?thesis
    by (simp add: sample_paths sample_router_def)
qed

end
