(* ===== verification/Mount_Bridge.thy ===== *)
theory Mount_Bridge
  imports Mount_Router Trace_Collector
begin

section \<open>Callbacks over mounts and filesystem (\<open>engine/virtualfs_bridge.go\<close>, \<open>virtualfs_mutation_helpers.go\<close>)\<close>

text \<open>
  \<open>wrapOps\<close> replaces every path callback by one that asks the router first. Reads of a path below an
  active mount go to the mount, all others to the filesystem; mutations below a mount, active or not,
  become a mutation batch for it, and no batch may name two mounts or a mount and the filesystem.
\<close>

subsection \<open>Paths and listings\<close>

definition bridge_require :: "'e mountRouter \<Rightarrow> (string, string, 'e) op option \<Rightarrow> (string, string, 'e) op" where
  "bridge_require r orig raw s =
     (let trimmed = trim_space raw; pathValue = normalizeAbsolutePath trimmed in
      if has_prefix trimmed ''/'' \<and> (match r pathValue \<noteq> None \<or> isSyntheticPrefix r pathValue)
      then (Inr pathValue, s) else call orig raw s)"

text \<open>An optional callback the bridge falls back to.\<close>

definition or_unsupported :: "('a, 'b, 'e) op option \<Rightarrow> ('a, 'b, 'e) op" where
  "or_unsupported orig x s = (case orig of None \<Rightarrow> (Inl ErrUnsupported, s) | Some f \<Rightarrow> f x s)"

definition bridge_list_entries ::
  "'e mountRouter \<Rightarrow> (ListEntriesRequest, MountEntry list, 'e) op option \<Rightarrow> (ListEntriesRequest, MountEntry list, 'e) op" where
  "bridge_list_entries r orig req s =
     (let req = req\<lparr>le_Dir := normalizeAbsolutePath (le_Dir req)\<rparr> in
      case listEntries r req s of
        (Inl e, s) \<Rightarrow> (Inl e, s)
      | (Inr (Some entries), s) \<Rightarrow> (Inr entries, s)
      | (Inr None, s) \<Rightarrow> or_unsupported orig req s)"

definition bridge_enumerate ::
  "'e mountRouter \<Rightarrow> (EnumeratePathsRequest, MountEntry list, 'e) op option \<Rightarrow> (EnumeratePathsRequest, MountEntry list, 'e) op" where
  "bridge_enumerate r orig req s =
     (let req = req\<lparr>en_Target := normalizeAbsolutePath (en_Target req)\<rparr> in
      case enumeratePaths r req s of
        (Inl e, s) \<Rightarrow> (Inl e, s)
      | (Inr (Some entries), s) \<Rightarrow> (Inr entries, s)
      | (Inr None, s) \<Rightarrow> or_unsupported orig req s)"

definition bridge_list_children ::
  "'e mountRouter \<Rightarrow> (string, string list, 'e) op option \<Rightarrow> (string, string list, 'e) op" where
  "bridge_list_children r orig dir0 s =
     (let dir = normalizeAbsolutePath dir0 in
      case listEntries r \<lparr>le_Dir = dir, le_Recursive = False, le_MaxDepth = 0\<rparr> s of
        (Inl e, s) \<Rightarrow> (Inl e, s)
      | (Inr (Some entries), s) \<Rightarrow> (Inr (normalizePathList (map me_Path entries)), s)
      | (Inr None, s) \<Rightarrow>
          (case call orig dir s of
             (children, s) \<Rightarrow>
               (case syntheticChildren r dir s of
                  (Inl e, s) \<Rightarrow> (Inl e, s)
                | (Inr synthetic, s) \<Rightarrow>
                    (case children of
                       Inl e \<Rightarrow> (if synthetic = [] then (Inl e, s) else (Inr (normalizePathList synthetic), s))
                     | Inr cs \<Rightarrow> (Inr (foldl appendUniquePath cs synthetic), s)))))"

definition bridge_is_dir :: "'e mountRouter \<Rightarrow> (string, bool, 'e) op option \<Rightarrow> (string, bool, 'e) op" where
  "bridge_is_dir r orig p0 s =
     (let p = normalizeAbsolutePath p0 in
      case statEntry r p s of
        (Inl e, s) \<Rightarrow> (Inl e, s)
      | (Inr (Some entry), s) \<Rightarrow> (Inr (pm_IsDir (me_Meta entry)), s)
      | (Inr None, s) \<Rightarrow>
          (case call orig p s of
             (Inl e, s) \<Rightarrow> (Inl e, s)
           | (Inr isDir, s) \<Rightarrow> (if isDir then (Inr True, s) else isSyntheticDir r p s)))"

definition bridge_paths ::
  "'e mountRouter \<Rightarrow> ('e sys \<Rightarrow> (go_error + string list) \<times> 'e sys) \<Rightarrow> string \<Rightarrow> bool \<Rightarrow> 'e sys \<Rightarrow> (go_error + string list) \<times> 'e sys" where
  "bridge_paths r orig target recursive s =
     (case enumeratePaths r \<lparr>en_Target = target, en_Recursive = recursive, en_MaxDepth = 0\<rparr> s of
        (Inl e, s) \<Rightarrow> (Inl e, s)
      | (Inr (Some entries), s) \<Rightarrow> (Inr (normalizePathList (map me_Path entries)), s)
      | (Inr None, s) \<Rightarrow> orig s)"

definition bridge_collect :: "'e mountRouter \<Rightarrow> (string, string list, 'e) op option \<Rightarrow> (string, string list, 'e) op" where
  "bridge_collect r orig target s =
     (let t = normalizeAbsolutePath target in bridge_paths r (call orig t) t True s)"

definition bridge_search_paths :: "'e mountRouter \<Rightarrow> (string \<times> bool, string list, 'e) op option \<Rightarrow> (string \<times> bool, string list, 'e) op" where
  "bridge_search_paths r orig x s =
     (let t = normalizeAbsolutePath (fst x) in bridge_paths r (call orig (t, snd x)) t (snd x) s)"

definition bridge_describe :: "'e mountRouter \<Rightarrow> (string, PathMeta, 'e) op option \<Rightarrow> (string, PathMeta, 'e) op" where
  "bridge_describe r orig p0 s =
     (let p = normalizeAbsolutePath p0 in
      case statEntry r p s of
        (Inl e, s) \<Rightarrow> (Inl e, s)
      | (Inr (Some entry), s) \<Rightarrow> (Inr (me_Meta entry), s)
      | (Inr None, s) \<Rightarrow> or_unsupported orig p s)"

subsection \<open>Reading\<close>

definition bridge_read :: "'e mountRouter \<Rightarrow> (string, string, 'e) op option \<Rightarrow> (string, string, 'e) op" where
  "bridge_read r orig p0 s =
     (let p = normalizeAbsolutePath p0 in
      case activeForPath r p s of
        (Inl e, s) \<Rightarrow> (Inl e, s)
      | (Inr (Some m), s) \<Rightarrow> ReadMountContent (mm_mount m) p s
      | (Inr None, s) \<Rightarrow> call orig p s)"

text \<open>The results of a bulk read wait in a map of queues, one for each path.\<close>

type_synonym read_index = "(string, MountContentEntry list) gomap"

definition queued :: "(string, 'a list) gomap \<Rightarrow> string \<Rightarrow> 'a list" where
  "queued m k = (case map_of m k of None \<Rightarrow> [] | Some q \<Rightarrow> q)"

definition enqueue :: "string \<Rightarrow> 'a \<Rightarrow> (string, 'a list) gomap \<Rightarrow> (string, 'a list) gomap" where
  "enqueue k x m = map_put k (queued m k @ [x]) m"

definition appendReadManyEntries :: "read_index \<Rightarrow> MountContentEntry list \<Rightarrow> read_index" where
  "appendReadManyEntries index entries =
     foldl (\<lambda>m e. let p = normalizeAbsolutePath (ce_Path e) in enqueue p (e\<lparr>ce_Path := p\<rparr>) m) index entries"

text \<open>The paths of each mount, in the order the mounts are first met.\<close>

type_synonym 'e read_groups = "(string \<times> 'e VirtualMount \<times> string list) list"

fun add_to_group :: "'e mountedMount \<Rightarrow> string \<Rightarrow> 'e read_groups \<Rightarrow> 'e read_groups" where
  "add_to_group m p [] = [(mm_point m, mm_mount m, [p])]"
| "add_to_group m p ((k, mnt, ps) # gs) =
     (if k = mm_point m then (k, mm_mount m, ps @ [p]) # gs else (k, mnt, ps) # add_to_group m p gs)"

fun read_split :: "'e mountRouter \<Rightarrow> bool \<Rightarrow> (string, string, 'e) op option \<Rightarrow> string list \<Rightarrow>
    read_index \<Rightarrow> 'e read_groups \<Rightarrow> string list \<Rightarrow> 'e sys \<Rightarrow>
    (go_error + read_index \<times> 'e read_groups \<times> string list) \<times> 'e sys" where
  "read_split r bulk orig [] index groups fsPaths s = (Inr (index, groups, fsPaths), s)"
| "read_split r bulk orig (raw # raws) index groups fsPaths s =
     (let p = normalizeAbsolutePath raw in
      case activeForPath r p s of
        (Inl e, s) \<Rightarrow> (Inl e, s)
      | (Inr (Some m), s) \<Rightarrow> read_split r bulk orig raws index (add_to_group m p groups) fsPaths s
      | (Inr None, s) \<Rightarrow>
          (if bulk then read_split r bulk orig raws index groups (fsPaths @ [p]) s
           else case call orig p s of
             (Inl e, s) \<Rightarrow> (Inl e, s)
           | (Inr content, s) \<Rightarrow>
               read_split r bulk orig raws
                 (appendReadManyEntries index [\<lparr>ce_Path = p, ce_Content = content\<rparr>]) groups fsPaths s))"

fun read_groups_loop :: "'e read_groups \<Rightarrow> read_index \<Rightarrow> 'e sys \<Rightarrow> (go_error + read_index) \<times> 'e sys" where
  "read_groups_loop [] index s = (Inr index, s)"
| "read_groups_loop ((k, mnt, ps) # gs) index s =
     (case ReadManyFromMountRequest mnt \<lparr>rm_Paths = ps, rm_MaxEntries = int (length ps), rm_MaxBytes = 0\<rparr> s of
        (Inl e, s) \<Rightarrow> (Inl e, s)
      | (Inr entries, s) \<Rightarrow> read_groups_loop gs (appendReadManyEntries index entries) s)"

fun take_results :: "string list \<Rightarrow> read_index \<Rightarrow> go_error + MountContentEntry list" where
  "take_results [] index = Inr []"
| "take_results (raw # raws) index =
     (let p = normalizeAbsolutePath raw in
      case queued index p of
        [] \<Rightarrow> Inl (ErrText (p @ '': missing read result''))
      | e # q \<Rightarrow> (case take_results raws (map_put p q index) of Inl err \<Rightarrow> Inl err | Inr es \<Rightarrow> Inr (e # es)))"

definition bridge_read_many :: "'e mountRouter \<Rightarrow> (ReadManyRequest, MountContentEntry list, 'e) op option \<Rightarrow>
    (string, string, 'e) op option \<Rightarrow> (ReadManyRequest, MountContentEntry list, 'e) op" where
  "bridge_read_many r origMany origRead req s =
     (if rm_Paths req = [] then (Inr [], s)
      else case read_split r (origMany \<noteq> None) origRead (rm_Paths req) [] [] [] s of
        (Inl e, s) \<Rightarrow> (Inl e, s)
      | (Inr (index, groups, fsPaths), s) \<Rightarrow>
          (case (if fsPaths = [] then (Inr index, s)
                 else case call origMany \<lparr>rm_Paths = fsPaths, rm_MaxEntries = 0, rm_MaxBytes = 0\<rparr> s of
                   (Inl e, s) \<Rightarrow> (Inl e, s)
                 | (Inr entries, s) \<Rightarrow> (Inr (appendReadManyEntries index entries), s)) of
             (Inl e, s) \<Rightarrow> (Inl e, s)
           | (Inr index, s) \<Rightarrow>
               (case read_groups_loop groups index s of
                  (Inl e, s) \<Rightarrow> (Inl e, s)
                | (Inr index, s) \<Rightarrow> (take_results (rm_Paths req) index, s))))"

subsection \<open>Mutations\<close>

definition mutationSpecPathOp :: "MutationKind \<Rightarrow> go_error + PathOp" where
  "mutationSpecPathOp kind =
     (case kind of
        MutationWriteFile \<Rightarrow> Inr PathOpWrite | MutationAppend \<Rightarrow> Inr PathOpWrite | MutationEdit \<Rightarrow> Inr PathOpWrite
      | MutationMakeDir \<Rightarrow> Inr PathOpMkdir
      | MutationRemoveFile \<Rightarrow> Inr PathOpRemove | MutationRemoveDir \<Rightarrow> Inr PathOpRemove
      | MutationOther k \<Rightarrow> Inl (ErrText (''unsupported mutation kind '' @ go_quote k)))"

fun check_batch :: "'e VirtualMount \<Rightarrow> MutationSpec list \<Rightarrow> go_error option" where
  "check_batch mnt [] = None"
| "check_batch mnt (op # ops) =
     (case mutationSpecPathOp (ms_Kind op) of
        Inl e \<Rightarrow> Some e
      | Inr pathOp \<Rightarrow> (case CheckMountPathOp mnt pathOp of Some e \<Rightarrow> Some e | None \<Rightarrow> check_batch mnt ops))"

text \<open>A call under \<open>context.Background()\<close>: never canceled, and without the trace of the execution.\<close>

definition in_background :: "('e sys \<Rightarrow> 'a \<times> 'e sys) \<Rightarrow> 'e sys \<Rightarrow> 'a \<times> 'e sys" where
  "in_background f s =
     (case f (s\<lparr>sy_ctx := CtxLive, sy_trace := None\<rparr>) of
        (x, s') \<Rightarrow> (x, s'\<lparr>sy_ctx := sy_ctx s, sy_trace := sy_trace s\<rparr>))"

definition validateMountedMutationBatch :: "'e VirtualMount \<Rightarrow> MutationSpec list \<Rightarrow> 'e sys \<Rightarrow> go_error option \<times> 'e sys" where
  "validateMountedMutationBatch mnt ops s =
     (case check_batch mnt ops of
        Some e \<Rightarrow> (Some e, s)
      | None \<Rightarrow>
          (case in_background (ApplyMountMutations mnt []) s of (Inl e, s) \<Rightarrow> (Some e, s) | (Inr _, s) \<Rightarrow> (None, s)))"

definition has_op :: "('a, 'b, 'e) op option \<Rightarrow> go_error option" where
  "has_op f = (if f = None then Some ErrUnsupported else None)"

definition validateFilesystemFallbackMutation :: "'e Ops \<Rightarrow> MutationSpec \<Rightarrow> go_error option" where
  "validateFilesystemFallbackMutation ops op =
     (case ms_Kind op of
        MutationWriteFile \<Rightarrow> has_op (o_WriteFile ops) | MutationAppend \<Rightarrow> has_op (o_AppendFile ops)
      | MutationEdit \<Rightarrow> has_op (o_EditFile ops) | MutationMakeDir \<Rightarrow> has_op (o_MakeDir ops)
      | MutationRemoveFile \<Rightarrow> has_op (o_RemoveFile ops) | MutationRemoveDir \<Rightarrow> has_op (o_RemoveDir ops)
      | MutationOther k \<Rightarrow> Some (ErrText (''unsupported mutation kind '' @ go_quote k)))"

definition applyFilesystemFallbackMutation :: "'e Ops \<Rightarrow> (MutationSpec, unit, 'e) op" where
  "applyFilesystemFallbackMutation ops op s =
     (case ms_Kind op of
        MutationWriteFile \<Rightarrow> call (o_WriteFile ops) (ms_Path op, ms_Content op) s
      | MutationAppend \<Rightarrow> call (o_AppendFile ops) (ms_Path op, ms_Content op) s
      | MutationEdit \<Rightarrow> call (o_EditFile ops) (ms_Path op, ms_OldString op, ms_NewString op, ms_ReplaceAll op) s
      | MutationMakeDir \<Rightarrow> call (o_MakeDir ops) (ms_Path op) s
      | MutationRemoveFile \<Rightarrow> call (o_RemoveFile ops) (ms_Path op) s
      | MutationRemoveDir \<Rightarrow> call (o_RemoveDir ops) (ms_Path op) s
      | MutationOther k \<Rightarrow> (Inl (ErrText (''unsupported mutation kind '' @ go_quote k)), s))"

definition mutationRecordKey :: "MutationKind \<Rightarrow> string \<Rightarrow> string" where
  "mutationRecordKey kind pathValue = mutation_kind_text kind @ [CHR 0x00] @ normalizeAbsolutePath pathValue"

fun take_records :: "MutationSpec list \<Rightarrow> (string, MutationRecord list) gomap \<Rightarrow>
    go_error + MutationRecord list \<times> (string, MutationRecord list) gomap" where
  "take_records [] index = Inr ([], index)"
| "take_records (op # ops) index =
     (let key = mutationRecordKey (ms_Kind op) (ms_Path op) in
      case queued index key of
        [] \<Rightarrow> Inl (ErrText (''missing mutation record for '' @ ms_Path op))
      | rec # q \<Rightarrow>
          (case take_records ops (map_put key q index) of
             Inl e \<Rightarrow> Inl e | Inr (recs, rest) \<Rightarrow> Inr (rec # recs, rest)))"

text \<open>Records for which there was no request come last, in the order \<open>visit\<close> in which the iteration
  over the map happens to visit its entries.\<close>

definition reorderMutationRecords ::
  "((string, MutationRecord list) gomap \<Rightarrow> (string, MutationRecord list) gomap) \<Rightarrow> MutationSpec list \<Rightarrow>
   MutationRecord list \<Rightarrow> go_error + MutationRecord list" where
  "reorderMutationRecords visit requestOps recs =
     (if recs = [] then Inr []
      else let index = foldl (\<lambda>m rec. enqueue (mutationRecordKey (mr_Kind rec) (mr_Path rec)) rec m) [] recs in
        (case take_records requestOps index of
           Inl e \<Rightarrow> Inl e
         | Inr (ordered, rest) \<Rightarrow> Inr (ordered @ concat (map snd (visit rest)))))"

text \<open>The split of a batch into the operations below one mount and the others.\<close>

fun split_batch :: "'e mountRouter \<Rightarrow> MutationSpec list \<Rightarrow> 'e mountedMount option \<Rightarrow> MutationSpec list \<Rightarrow> MutationSpec list \<Rightarrow>
    go_error + 'e mountedMount option \<times> MutationSpec list \<times> MutationSpec list" where
  "split_batch r [] m mountedOps fsOps = Inr (m, mountedOps, fsOps)"
| "split_batch r (op # ops) m mountedOps fsOps =
     (let p = normalizeAbsolutePath (ms_Path op); op = op\<lparr>ms_Path := p\<rparr> in
      if isSyntheticPrefix r p then Inl ErrUnsupported
      else case match r p of
        None \<Rightarrow> split_batch r ops m mountedOps (fsOps @ [op])
      | Some m' \<Rightarrow>
          (case m of
             None \<Rightarrow> split_batch r ops (Some m') (mountedOps @ [op]) fsOps
           | Some m0 \<Rightarrow>
               (if mm_point m' \<noteq> mm_point m0 then Inl (ErrText ''cross-mount mutation batches are not supported'')
                else split_batch r ops m (mountedOps @ [op]) fsOps)))"

fun apply_fallbacks :: "'e Ops \<Rightarrow> MutationSpec list \<Rightarrow> 'e sys \<Rightarrow> (go_error + MutationRecord list) \<times> 'e sys" where
  "apply_fallbacks ops [] s = (Inr [], s)"
| "apply_fallbacks ops (op # rest) s =
     (case applyFilesystemFallbackMutation ops op s of
        (Inl e, s) \<Rightarrow> (Inl e, s)
      | (Inr _, s) \<Rightarrow>
          (case apply_fallbacks ops rest s of
             (Inl e, s) \<Rightarrow> (Inl e, s)
           | (Inr recs, s) \<Rightarrow>
               (Inr (\<lparr>mr_Kind = ms_Kind op, mr_Path = ms_Path op, mr_Status = ''ok'', mr_BytesWritten = 0\<rparr> # recs), s)))"

definition batch_filesystem :: "'e Ops \<Rightarrow> MutationSpec list \<Rightarrow> 'e sys \<Rightarrow> (go_error + MutationRecord list) \<times> 'e sys" where
  "batch_filesystem ops fsOps s =
     (if fsOps = [] then (Inr [], s)
      else case o_ApplyMutations ops of
        Some mutate \<Rightarrow> mutate fsOps s
      | None \<Rightarrow> apply_fallbacks ops fsOps s)"

text \<open>\<open>ops\<close> are the original callbacks.\<close>

definition bridge_apply :: "((string, MutationRecord list) gomap \<Rightarrow> (string, MutationRecord list) gomap) \<Rightarrow>
    'e mountRouter \<Rightarrow> 'e Ops \<Rightarrow> (MutationSpec list, MutationRecord list, 'e) op" where
  "bridge_apply visit r ops req s =
     (case split_batch r req None [] [] of
        Inl e \<Rightarrow> (Inl e, s)
      | Inr (m, mountedOps, fsOps) \<Rightarrow>
          (if mountedOps \<noteq> [] \<and> fsOps \<noteq> [] then
             (Inl (ErrText ''mixed mounted and filesystem mutation batches are not supported without an explicit transaction contract''), s)
           else
      (case (case m of Some mm \<Rightarrow> validateMountedMutationBatch (mm_mount mm) mountedOps s | None \<Rightarrow> (None, s)) of
        (Some e, s) \<Rightarrow> (Inl e, s)
      | (None, s) \<Rightarrow>
      (case (if fsOps \<noteq> [] \<and> o_ApplyMutations ops = None
             then find (\<lambda>e. e \<noteq> None) (map (validateFilesystemFallbackMutation ops) fsOps) else None) of
        Some e \<Rightarrow> (Inl (the e), s)
      | None \<Rightarrow>
      (case batch_filesystem ops fsOps s of
        (Inl e, s) \<Rightarrow> (Inl e, s)
      | (Inr fsRecords, s) \<Rightarrow>
      (case (case m of Some mm \<Rightarrow> ApplyMountMutations (mm_mount mm) mountedOps s | None \<Rightarrow> (Inr [], s)) of
        (Inl e, s) \<Rightarrow> (Inl e, s)
      | (Inr mountRecords, s) \<Rightarrow> (reorderMutationRecords visit req (fsRecords @ mountRecords), s)))))))"

text \<open>One mutation of one path.\<close>

definition bridge_mutation :: "'e mountRouter \<Rightarrow> (MutationSpec list, MutationRecord list, 'e) op \<Rightarrow>
    ('a \<Rightarrow> string) \<Rightarrow> ('a \<Rightarrow> string \<Rightarrow> MutationSpec) \<Rightarrow> ('a, unit, 'e) op option \<Rightarrow> ('a, unit, 'e) op" where
  "bridge_mutation r mutate path_of spec orig x s =
     (let p = normalizeAbsolutePath (path_of x) in
      if isSyntheticPrefix r p then (Inl ErrUnsupported, s)
      else if match r p \<noteq> None then
        (case mutate [spec x p] s of (Inl e, s) \<Rightarrow> (Inl e, s) | (Inr _, s) \<Rightarrow> (Inr (), s))
      else call orig x s)"

definition mutation_spec :: "MutationKind \<Rightarrow> string \<Rightarrow> MutationSpec" where
  "mutation_spec kind p =
     \<lparr>ms_Kind = kind, ms_Path = p, ms_Content = [], ms_OldString = [], ms_NewString = [], ms_ReplaceAll = False\<rparr>"

definition bridge_check :: "'e mountRouter \<Rightarrow> (PathOp \<times> string, unit, 'e) op option \<Rightarrow> (PathOp \<times> string, unit, 'e) op" where
  "bridge_check r orig x s =
     (let op = fst x; p = normalizeAbsolutePath (snd x);
          to_orig = (\<lambda>s. case orig of None \<Rightarrow> (Inr (), s) | Some check \<Rightarrow> check (op, p) s);
          verdict = (\<lambda>v s. case v of Some e \<Rightarrow> (Inl e, s) | None \<Rightarrow> (Inr (), s)) in
      if op = PathOpRead \<or> op = PathOpTransferSource then
        (case activeForPath r p s of
           (Inl e, s) \<Rightarrow> (Inl e, s)
         | (Inr (Some m), s) \<Rightarrow>
             (case vm_StatPath (mm_mount m) p s of
                (Inl e, s) \<Rightarrow> (Inl e, s)
              | (Inr entry, s) \<Rightarrow>
                  (if \<not> pm_IsDir (me_Meta entry) \<and> containsPathCapability (pm_Capabilities (me_Meta entry)) ''read''
                   then verdict (CheckMountPathOp (mm_mount m) op) s else (Inl ErrUnsupported, s)))
         | (Inr None, s) \<Rightarrow> to_orig s)
      else if op = PathOpWrite \<or> op = PathOpMkdir \<or> op = PathOpRemove then
        (if isSyntheticPrefix r p then (Inl ErrUnsupported, s)
         else case match r p of
           Some m \<Rightarrow> verdict (CheckMountPathOp (mm_mount m) op) s
         | None \<Rightarrow> to_orig s)
      else to_orig s)"

subsection \<open>Search\<close>

text \<open>The targets below one mount and those of the filesystem.\<close>

fun split_targets :: "'e mountRouter \<Rightarrow> string list \<Rightarrow> 'e mountedMount option \<Rightarrow> string list \<Rightarrow> string list \<Rightarrow> 'e sys \<Rightarrow>
    (go_error + 'e mountedMount option \<times> string list \<times> string list) \<times> 'e sys" where
  "split_targets r [] m mountedTargets fsTargets s = (Inr (m, mountedTargets, fsTargets), s)"
| "split_targets r (t # ts) m mountedTargets fsTargets s =
     (case activeForPath r t s of
        (Inl e, s) \<Rightarrow> (Inl e, s)
      | (Inr (Some m'), s) \<Rightarrow>
          (case m of
             None \<Rightarrow> split_targets r ts (Some m') (mountedTargets @ [t]) fsTargets s
           | Some m0 \<Rightarrow>
               (if mm_point m' \<noteq> mm_point m0 then (Inl (ErrText ''cross-mount search targets are not supported''), s)
                else split_targets r ts m (mountedTargets @ [t]) fsTargets s))
      | (Inr None, s) \<Rightarrow>
          (case isSyntheticDir r t s of
             (Inl e, s) \<Rightarrow> (Inl e, s)
           | (Inr synthetic, s) \<Rightarrow>
               (if synthetic then (Inl (ErrText ''cross-mount search targets are not supported''), s)
                else split_targets r ts m mountedTargets (fsTargets @ [t]) s)))"

text \<open>\<open>search\<close> is \<open>SearchMountContent\<close>.\<close>

definition bridge_search :: "('e VirtualMount \<Rightarrow> (SearchRequest, SearchRecord list, 'e) op) \<Rightarrow> 'e mountRouter \<Rightarrow>
    (SearchRequest, SearchRecord list, 'e) op option \<Rightarrow> (SearchRequest, SearchRecord list, 'e) op" where
  "bridge_search search r orig req s =
     (if sr_Targets req = [] then or_unsupported orig req s
      else let targets = map normalizeAbsolutePath (sr_Targets req); req = req\<lparr>sr_Targets := targets\<rparr> in
        (case split_targets r targets None [] [] s of
           (Inl e, s) \<Rightarrow> (Inl e, s)
         | (Inr (m, mountedTargets, fsTargets), s) \<Rightarrow>
             (if mountedTargets \<noteq> [] \<and> fsTargets \<noteq> []
              then (Inl (ErrText ''mixed mounted and filesystem search targets are not supported''), s)
              else case m of
                None \<Rightarrow> or_unsupported orig req s
              | Some mm \<Rightarrow> search (mm_mount mm) (req\<lparr>sr_Targets := mountedTargets\<rparr>) s)))"

subsection \<open>All callbacks\<close>

definition wrapOps :: "('e VirtualMount \<Rightarrow> (SearchRequest, SearchRecord list, 'e) op) \<Rightarrow>
    ((string, MutationRecord list) gomap \<Rightarrow> (string, MutationRecord list) gomap) \<Rightarrow>
    'e mountRouter \<Rightarrow> 'e Ops \<Rightarrow> 'e Ops" where
  "wrapOps search visit r ops =
     (let mutate = bridge_apply visit r ops in
      ops\<lparr>o_RequireAbsolutePath := Some (bridge_require r (o_RequireAbsolutePath ops)),
          o_ListEntries := Some (bridge_list_entries r (o_ListEntries ops)),
          o_EnumeratePaths := Some (bridge_enumerate r (o_EnumeratePaths ops)),
          o_ListChildren := Some (bridge_list_children r (o_ListChildren ops)),
          o_IsDirPath := Some (bridge_is_dir r (o_IsDirPath ops)),
          o_CollectFilesUnder := Some (bridge_collect r (o_CollectFilesUnder ops)),
          o_ResolveSearchPaths := Some (bridge_search_paths r (o_ResolveSearchPaths ops)),
          o_DescribePath := Some (bridge_describe r (o_DescribePath ops)),
          o_ReadRawContent := Some (bridge_read r (o_ReadRawContent ops)),
          o_ReadMany := Some (bridge_read_many r (o_ReadMany ops) (o_ReadRawContent ops)),
          o_SearchContent := Some (bridge_search search r (o_SearchContent ops)),
          o_WriteFile := Some (bridge_mutation r mutate fst
            (\<lambda>x p. (mutation_spec MutationWriteFile p)\<lparr>ms_Content := snd x\<rparr>) (o_WriteFile ops)),
          o_AppendFile := Some (bridge_mutation r mutate fst
            (\<lambda>x p. (mutation_spec MutationAppend p)\<lparr>ms_Content := snd x\<rparr>) (o_AppendFile ops)),
          o_EditFile := Some (bridge_mutation r mutate fst
            (\<lambda>(_, old, new, all) p. (mutation_spec MutationEdit p)\<lparr>ms_OldString := old, ms_NewString := new, ms_ReplaceAll := all\<rparr>)
            (o_EditFile ops)),
          o_MakeDir := Some (bridge_mutation r mutate id (\<lambda>x p. mutation_spec MutationMakeDir p) (o_MakeDir ops)),
          o_RemoveFile := Some (bridge_mutation r mutate id (\<lambda>x p. mutation_spec MutationRemoveFile p) (o_RemoveFile ops)),
          o_RemoveDir := Some (bridge_mutation r mutate id (\<lambda>x p. mutation_spec MutationRemoveDir p) (o_RemoveDir ops)),
          o_ApplyMutations := Some mutate,
          o_CheckPathOp := Some (bridge_check r (o_CheckPathOp ops))\<rparr>)"

subsection \<open>Lemmas: queues\<close>

text \<open>Every element of a queue carries the key it is filed under.\<close>

definition filed :: "('a \<Rightarrow> 'k) \<Rightarrow> ('k, 'a list) gomap \<Rightarrow> bool" where
  "filed key m \<longleftrightarrow> distinct (map fst m) \<and> (\<forall>(k, q)\<in>set m. \<forall>x\<in>set q. key x = k)"

lemma filed_Nil [simp]: "filed key []"
  by (simp add: filed_def)

lemma set_map_put: "distinct (map fst m) \<Longrightarrow> set (map_put k v m) = insert (k, v) {x \<in> set m. fst x \<noteq> k}"
  by (induction m) (auto simp: rev_image_eqI)

lemma filed_map_put: "filed key m \<Longrightarrow> \<forall>x\<in>set q. key x = k \<Longrightarrow> filed key (map_put k q m)"
  by (auto simp: filed_def set_map_put distinct_map_put)

lemma filed_queued: "filed key m \<Longrightarrow> x \<in> set (queued m k) \<Longrightarrow> key x = k"
  by (auto simp: filed_def queued_def dest!: map_of_SomeD split: option.splits)

lemma filed_enqueue: "filed key m \<Longrightarrow> key x = k \<Longrightarrow> filed key (enqueue k x m)"
  unfolding enqueue_def by (rule filed_map_put) (auto dest: filed_queued)

lemma mset_map_put:
  "distinct (map fst m) \<Longrightarrow>
   mset (concat (map snd (map_put k q m))) + mset (queued m k) = mset (concat (map snd m)) + mset q"
  by (induction m) (auto simp: queued_def ac_simps split: option.splits)

lemma mset_enqueue:
  "filed key m \<Longrightarrow> mset (concat (map snd (enqueue k x m))) = add_mset x (mset (concat (map snd m)))"
  using mset_map_put [of m k "queued m k @ [x]"] by (simp add: filed_def enqueue_def)

lemma mset_dequeue:
  assumes "filed key m" and "queued m k = x # q"
  shows "mset (concat (map snd m)) = add_mset x (mset (concat (map snd (map_put k q m))))"
  using mset_map_put [of m k q] assms by (simp add: filed_def)

lemma filed_dequeue: "filed key m \<Longrightarrow> queued m k = x # q \<Longrightarrow> filed key (map_put k q m)"
  by (rule filed_map_put) (auto dest!: filed_queued [of key m _ k])

lemma filed_fold_enqueue: "filed key m \<Longrightarrow> filed key (foldl (\<lambda>m x. enqueue (key x) x m) m xs)"
  by (induction xs arbitrary: m) (simp_all add: filed_enqueue)

lemma mset_fold_enqueue:
  "filed key m \<Longrightarrow> mset (concat (map snd (foldl (\<lambda>m x. enqueue (key x) x m) m xs))) =
     mset (concat (map snd m)) + mset xs"
  by (induction xs arbitrary: m) (simp_all add: filed_enqueue mset_enqueue)

subsection \<open>Lemmas: bulk reads\<close>

lemma filed_appendReadManyEntries: "filed ce_Path m \<Longrightarrow> filed ce_Path (appendReadManyEntries m es)"
  unfolding appendReadManyEntries_def by (induction es arbitrary: m) (simp_all add: Let_def filed_enqueue)

lemma filed_read_split:
  "read_split r bulk orig raws index groups fs s = (Inr (index', groups', fs'), s') \<Longrightarrow>
   filed ce_Path index \<Longrightarrow> filed ce_Path index'"
proof (induction raws arbitrary: index groups fs s)
  case (Cons raw raws)
  note IH = Cons.IH [OF _ filed_appendReadManyEntries [OF Cons.prems(2)]] Cons.IH [OF _ Cons.prems(2)]
  show ?case
    using Cons.prems(1) by (cases bulk) (auto simp: Let_def IH split: prod.splits sum.splits option.splits)
qed simp

lemma filed_read_groups:
  "read_groups_loop groups index s = (Inr index', s') \<Longrightarrow> filed ce_Path index \<Longrightarrow> filed ce_Path index'"
proof (induction groups arbitrary: index s)
  case (Cons g groups)
  note IH = Cons.IH [OF _ filed_appendReadManyEntries [OF Cons.prems(2)]]
  show ?case using Cons.prems(1) by (cases g) (auto simp: IH split: prod.splits sum.splits)
qed simp

lemma take_results_paths:
  "take_results raws index = Inr es \<Longrightarrow> filed ce_Path index \<Longrightarrow> map ce_Path es = map normalizeAbsolutePath raws"
proof (induction raws arbitrary: index es)
  case (Cons raw raws)
  obtain e q es' where q: "queued index (normalizeAbsolutePath raw) = e # q"
    and es: "take_results raws (map_put (normalizeAbsolutePath raw) q index) = Inr es'" "es = e # es'"
    using Cons.prems(1) by (auto simp: Let_def split: list.splits sum.splits)
  have "ce_Path e = normalizeAbsolutePath raw"
    using filed_queued [OF Cons.prems(2), of e] q by simp
  then show ?case using Cons.IH [OF es(1) filed_dequeue [OF Cons.prems(2) q]] es(2) by simp
qed simp

subsection \<open>Lemmas: mutation batches\<close>

definition record_key :: "MutationRecord \<Rightarrow> string" where
  "record_key rec = mutationRecordKey (mr_Kind rec) (mr_Path rec)"

definition spec_key :: "MutationSpec \<Rightarrow> string" where
  "spec_key op = mutationRecordKey (ms_Kind op) (ms_Path op)"

lemma take_records_ok:
  "take_records ops index = Inr (recs, rest) \<Longrightarrow> filed record_key index \<Longrightarrow>
   map record_key recs = map spec_key ops \<and> filed record_key rest \<and>
   mset (concat (map snd index)) = mset recs + mset (concat (map snd rest))"
proof (induction ops arbitrary: index recs)
  case (Cons op ops)
  obtain x q recs' where q: "queued index (spec_key op) = x # q"
    and recs: "take_records ops (map_put (spec_key op) q index) = Inr (recs', rest)" "recs = x # recs'"
    using Cons.prems(1) by (auto simp: Let_def spec_key_def split: list.splits sum.splits)
  note IH = Cons.IH [OF recs(1) filed_dequeue [OF Cons.prems(2) q]]
  have "record_key x = spec_key op" using filed_queued [OF Cons.prems(2), of x] q by simp
  then show ?case using IH mset_dequeue [OF Cons.prems(2) q] recs(2) by simp
qed simp

subsection \<open>Lemmas: where a batch goes\<close>

abbreviation norm_spec :: "MutationSpec \<Rightarrow> MutationSpec" where
  "norm_spec op \<equiv> op\<lparr>ms_Path := normalizeAbsolutePath (ms_Path op)\<rparr>"

definition below_mount :: "'e mountRouter \<Rightarrow> MutationSpec \<Rightarrow> bool" where
  "below_mount r op \<longleftrightarrow> match r (normalizeAbsolutePath (ms_Path op)) \<noteq> None"

definition at_mount :: "'e mountRouter \<Rightarrow> string \<Rightarrow> MutationSpec \<Rightarrow> bool" where
  "at_mount r point op \<longleftrightarrow>
     (case match r (normalizeAbsolutePath (ms_Path op)) of None \<Rightarrow> False | Some m \<Rightarrow> mm_point m = point)"

definition synthetic_target :: "'e mountRouter \<Rightarrow> MutationSpec \<Rightarrow> bool" where
  "synthetic_target r op \<longleftrightarrow> isSyntheticPrefix r (normalizeAbsolutePath (ms_Path op))"

lemmas target_defs = below_mount_def at_mount_def synthetic_target_def

lemma split_batch_ok:
  "split_batch r ops m mo fo = Inr (m', mo', fo') \<Longrightarrow>
     (\<forall>op\<in>set ops. \<not> synthetic_target r op \<and> (below_mount r op \<longrightarrow> (\<exists>mm. m' = Some mm \<and> at_mount r (mm_point mm) op))) \<and>
     (m \<noteq> None \<longrightarrow> m' = m) \<and>
     mo' = mo @ map norm_spec (filter (below_mount r) ops) \<and>
     fo' = fo @ map norm_spec (filter (\<lambda>op. \<not> below_mount r op) ops)"
proof (induction ops arbitrary: m mo fo)
  case (Cons op ops)
  show ?case
  proof (cases "match r (normalizeAbsolutePath (ms_Path op))")
    case None
    then show ?thesis
      using Cons.prems Cons.IH [of m mo "fo @ [norm_spec op]"]
      by (simp add: Let_def target_defs split: if_splits)
  next
    case (Some mm)
    have "\<exists>m1. split_batch r ops (Some m1) (mo @ [norm_spec op]) fo = Inr (m', mo', fo') \<and>
        mm_point m1 = mm_point mm \<and> (m \<noteq> None \<longrightarrow> m = Some m1) \<and> \<not> synthetic_target r op"
      using Cons.prems Some by (cases m) (auto simp: Let_def target_defs split: if_splits)
    then obtain m1 where m1: "split_batch r ops (Some m1) (mo @ [norm_spec op]) fo = Inr (m', mo', fo')"
      "mm_point m1 = mm_point mm" "m \<noteq> None \<longrightarrow> m = Some m1" "\<not> synthetic_target r op" by blast
    have "at_mount r (mm_point m1) op" "below_mount r op" using Some m1(2) by (simp_all add: target_defs)
    then show ?thesis using Cons.IH [OF m1(1)] m1(3,4) by auto
  qed
qed simp

text \<open>One operation below a mount is a batch of its own.\<close>

lemma split_batch_single:
  assumes "match r p = Some m" and "normalizeAbsolutePath p = p" and "ms_Path op = p"
  shows "split_batch r [op] None [] [] =
    (if isSyntheticPrefix r p then Inl ErrUnsupported else Inr (Some m, [op], []))"
proof -
  have "norm_spec op = op" using assms(2,3) by simp
  then show ?thesis using assms by (simp add: Let_def)
qed

lemma check_batch_refused:
  assumes "\<not> mutation_declared (vm_Profile mnt)" and "mutationSpecPathOp (ms_Kind op) = Inr k"
  shows "\<exists>e. check_batch mnt [op] = Some e \<and> is_unsupported e"
proof -
  have k: "k = PathOpWrite \<or> k = PathOpMkdir \<or> k = PathOpRemove"
    using assms(2) by (auto simp: mutationSpecPathOp_def split: MutationKind.splits)
  then obtain e where "CheckMountPathOp mnt k = Some e"
    using CheckMountPathOp_mutation(1) [OF k, of mnt] assms(1) by blast
  then show ?thesis using CheckMountPathOp_mutation(2) [OF k, of mnt e] assms(2) by simp
qed

lemma bridge_mutation_refused:
  assumes m: "match r p = Some m" "normalizeAbsolutePath p = p" "\<not> mutation_declared (vm_Profile (mm_mount m))"
    and x: "path_of x = p" "ms_Path (spec x p) = p" "mutationSpecPathOp (ms_Kind (spec x p)) = Inr k"
  shows "\<exists>e. bridge_mutation r (bridge_apply visit r ops) path_of spec orig x s = (Inl e, s) \<and> is_unsupported e"
proof -
  obtain e where "check_batch (mm_mount m) [spec x p] = Some e" "is_unsupported e"
    using check_batch_refused [OF m(3) x(3)] by blast
  then show ?thesis
    by (simp add: bridge_mutation_def bridge_apply_def Let_def x(1) m split_batch_single [OF m(1,2) x(2)]
        validateMountedMutationBatch_def del: check_batch.simps split_batch.simps)
qed

lemma batch_filesystem_Nil: "batch_filesystem ops [] s = (Inr [], s)"
  by (simp add: batch_filesystem_def)

lemma bridge_mutation_isolated:
  assumes m: "match r p = Some m" "normalizeAbsolutePath p = p"
    and x: "path_of x = p" "ms_Path (spec x p) = p"
  shows "bridge_mutation r (bridge_apply visit r ops) path_of spec orig x s =
    bridge_mutation r (bridge_apply visit r ops') path_of spec orig' x s"
  unfolding bridge_mutation_def bridge_apply_def Let_def x(1) m(2) split_batch_single [OF m(1,2) x(2)]
  by (simp add: m batch_filesystem_Nil cong: prod.case_cong option.case_cong)

lemma wrapOps_refused:
  assumes "match r p = Some m" and "normalizeAbsolutePath p = p" and "\<not> mutation_declared (vm_Profile (mm_mount m))"
  shows "\<forall>outcome \<in> {call (o_WriteFile (wrapOps search visit r ops)) (p, c) s,
     call (o_AppendFile (wrapOps search visit r ops)) (p, c) s,
     call (o_EditFile (wrapOps search visit r ops)) (p, old, new, all) s,
     call (o_MakeDir (wrapOps search visit r ops)) p s,
     call (o_RemoveFile (wrapOps search visit r ops)) p s,
     call (o_RemoveDir (wrapOps search visit r ops)) p s}.
   \<exists>e'. outcome = (Inl e', s) \<and> is_unsupported e'"
  unfolding wrapOps_def Let_def
  by (simp, intro conjI; rule bridge_mutation_refused [OF assms]; simp add: mutation_spec_def mutationSpecPathOp_def)

subsection \<open>Properties\<close>

text \<open>C4. A bulk read that succeeds returns one entry for every path requested, in the order of the
  request, however the paths were spread over mounts and filesystem.\<close>

theorem read_many_in_request_order:
  assumes "bridge_read_many r origMany origRead req s = (Inr entries, s')"
  shows "map ce_Path entries = map normalizeAbsolutePath (rm_Paths req)"
proof (cases "rm_Paths req = []")
  case False
  obtain index groups fs s1 where 1: "read_split r (origMany \<noteq> None) origRead (rm_Paths req) [] [] [] s =
      (Inr (index, groups, fs), s1)"
    using assms False by (auto simp: bridge_read_many_def split: prod.splits sum.splits)
  have index: "filed ce_Path index" using filed_read_split [OF 1] by simp
  have "\<exists>index2 s2. filed ce_Path index2 \<and>
    (case read_groups_loop groups index2 s2 of
        (Inl e, s) \<Rightarrow> (Inl e, s) | (Inr index, s) \<Rightarrow> (take_results (rm_Paths req) index, s)) = (Inr entries, s')"
  proof (cases "fs = []")
    case True
    then show ?thesis using assms False 1 index by (auto simp: bridge_read_many_def)
  next
    case fs: False
    then obtain es s2 where "call origMany \<lparr>rm_Paths = fs, rm_MaxEntries = 0, rm_MaxBytes = 0\<rparr> s1 = (Inr es, s2)"
      using assms False 1 by (auto simp: bridge_read_many_def split: prod.splits sum.splits)
    then show ?thesis
      using assms False fs 1 filed_appendReadManyEntries [OF index, of es]
      by (intro exI [of _ "appendReadManyEntries index es"] exI [of _ s2]) (simp add: bridge_read_many_def)
  qed
  then obtain index2 s2 where 2: "filed ce_Path index2"
    "(case read_groups_loop groups index2 s2 of
        (Inl e, s) \<Rightarrow> (Inl e, s) | (Inr index, s) \<Rightarrow> (take_results (rm_Paths req) index, s)) = (Inr entries, s')"
    by blast
  obtain index3 s3 where 3: "read_groups_loop groups index2 s2 = (Inr index3, s3)"
    and take: "take_results (rm_Paths req) index3 = Inr entries"
    using 2(2) by (auto split: prod.splits sum.splits)
  show ?thesis using take_results_paths [OF take filed_read_groups [OF 3 2(1)]] .
qed (use assms in \<open>simp add: bridge_read_many_def\<close>)

definition sample_read :: "(go_error + MountContentEntry list) \<times> unit sys" where
  "sample_read = bridge_read_many [] None (Some (\<lambda>p s. (Inr (''content of '' @ p), s)))
     \<lparr>rm_Paths = [''/b'', ''/a/../c'', ''/b''], rm_MaxEntries = 0, rm_MaxBytes = 0\<rparr> (live_sys ())"

lemma sample_read_ok: "case sample_read of (Inr entries, s) \<Rightarrow> True | _ \<Rightarrow> False"
  by code_simp

theorem read_many_in_request_order_witness:
  "\<exists>entries s'. sample_read = (Inr entries, s') \<and> map ce_Path entries = map normalizeAbsolutePath [''/b'', ''/a/../c'', ''/b'']"
proof -
  obtain entries s' where *: "sample_read = (Inr entries, s')"
    using sample_read_ok by (auto split: prod.splits sum.splits)
  then have "map ce_Path entries = map normalizeAbsolutePath [''/b'', ''/a/../c'', ''/b'']"
    using read_many_in_request_order [OF * [unfolded sample_read_def]] by simp
  with * show ?thesis by blast
qed

text \<open>The records of a batch are returned in the order of the request: the result permutes the
  records the filesystem and the mount reported, and its first records answer the operations one by one.\<close>

theorem records_in_request_order:
  assumes "reorderMutationRecords visit ops recs = Inr res" and "\<And>m. mset (visit m) = mset m" and "recs \<noteq> []"
  shows "mset res = mset recs \<and>
    map (\<lambda>rec. mutationRecordKey (mr_Kind rec) (mr_Path rec)) (take (length ops) res) =
    map (\<lambda>op. mutationRecordKey (ms_Kind op) (ms_Path op)) ops"
proof -
  define index where "index = foldl (\<lambda>m rec. enqueue (record_key rec) rec m) [] recs"
  have index: "filed record_key index" "mset (concat (map snd index)) = mset recs"
    using filed_fold_enqueue [of record_key "[]" recs] mset_fold_enqueue [of record_key "[]" recs]
    by (simp_all add: index_def)
  have def: "foldl (\<lambda>m rec. enqueue (mutationRecordKey (mr_Kind rec) (mr_Path rec)) rec m) [] recs = index"
    by (simp add: index_def record_key_def)
  obtain ordered rest where t: "take_records ops index = Inr (ordered, rest)"
    and res: "res = ordered @ concat (map snd (visit rest))"
    using assms(1,3) unfolding reorderMutationRecords_def def Let_def
    by (auto split: sum.splits)
  note ok = take_records_ok [OF t index(1)]
  have "mset (concat (map snd (visit rest))) = mset (concat (map snd rest))"
    by (simp add: mset_concat assms(2) flip: sum_mset_sum_list)
  moreover have "length ordered = length ops" using ok by (metis length_map)
  ultimately show ?thesis using ok index(2) res by (simp add: record_key_def [abs_def] spec_key_def [abs_def])
qed

definition sample_record :: "MutationKind \<Rightarrow> string \<Rightarrow> MutationRecord" where
  "sample_record kind p = \<lparr>mr_Kind = kind, mr_Path = p, mr_Status = ''ok'', mr_BytesWritten = 0\<rparr>"

definition sample_batch :: "MutationSpec list" where
  "sample_batch = [mutation_spec MutationMakeDir ''/m/d'', mutation_spec MutationWriteFile ''/m/d/f'']"

definition sample_records :: "MutationRecord list" where
  "sample_records = [sample_record MutationWriteFile ''/m/d/f'', sample_record MutationMakeDir ''/m/d'']"

lemma sample_records_reordered: "reorderMutationRecords id sample_batch sample_records = Inr (rev sample_records)"
  by code_simp

theorem records_in_request_order_witness:
  "map (\<lambda>rec. mutationRecordKey (mr_Kind rec) (mr_Path rec)) (rev sample_records) =
   map (\<lambda>op. mutationRecordKey (ms_Kind op) (ms_Path op)) sample_batch"
proof -
  have "sample_records \<noteq> []" by (simp add: sample_records_def)
  from records_in_request_order [OF sample_records_reordered _ this] show ?thesis
    by (simp add: sample_batch_def sample_records_def)
qed

text \<open>C23. A mutation batch that names a synthetic directory, two mounts or a mount and the filesystem is
  refused before anything is called: the state is the one before.\<close>

theorem batch_one_side:
  "(\<exists>e. bridge_apply visit r ops req s = (Inl e, s)) \<or>
   ((\<forall>op\<in>set req. \<not> isSyntheticPrefix r (normalizeAbsolutePath (ms_Path op))) \<and>
    ((\<forall>op\<in>set req. match r (normalizeAbsolutePath (ms_Path op)) = None) \<or>
     (\<exists>point. \<forall>op\<in>set req. map_option mm_point (match r (normalizeAbsolutePath (ms_Path op))) = Some point)))"
proof (cases "split_batch r req None [] []")
  case (Inr x)
  obtain m mo fo where x: "x = (m, mo, fo)" by (cases x)
  note ok = split_batch_ok [OF Inr [unfolded x]]
  show ?thesis
  proof (cases "mo \<noteq> [] \<and> fo \<noteq> []")
    case True
    then show ?thesis using Inr x by (simp add: bridge_apply_def)
  next
    case False
    then have "(\<forall>op\<in>set req. \<not> below_mount r op) \<or> (\<forall>op\<in>set req. below_mount r op)"
      using ok by (auto simp: filter_empty_conv)
    then show ?thesis
    proof
      assume "\<forall>op\<in>set req. \<not> below_mount r op"
      then show ?thesis using ok by (auto simp: target_defs)
    next
      assume all: "\<forall>op\<in>set req. below_mount r op"
      show ?thesis
      proof (cases m)
        case None
        then show ?thesis using ok all by auto
      next
        case (Some mm)
        then have "map_option mm_point (match r (normalizeAbsolutePath (ms_Path op))) = Some (mm_point mm)"
          if "op \<in> set req" for op
          using that ok all by (auto simp: at_mount_def split: option.splits)
        moreover have "\<forall>op\<in>set req. \<not> isSyntheticPrefix r (normalizeAbsolutePath (ms_Path op))"
          using ok by (simp add: synthetic_target_def)
        ultimately show ?thesis by blast
      qed
    qed
  qed
qed (simp add: bridge_apply_def)

lemma sample_match: "match sample_router ''/m/deep/f'' = Some (hd sample_router)"
  by (simp add: match_def sample_paths sample_router_def)

lemma sample_match_outer: "match sample_router ''/m'' = Some (hd (tl sample_router))"
  by (simp add: match_def sample_paths sample_router_def has_prefix_def prefix_def Let_def)

theorem batch_one_side_witness:
  "\<exists>e. bridge_apply id sample_router zero_ops
     [mutation_spec MutationWriteFile ''/m/deep/f'', mutation_spec MutationRemoveDir ''/m''] (live_sys ()) =
     (Inl e, live_sys ())"
  using batch_one_side [of id sample_router zero_ops
      "[mutation_spec MutationWriteFile ''/m/deep/f'', mutation_spec MutationRemoveDir ''/m'']" "live_sys ()"]
  by (simp add: mutation_spec_def sample_paths sample_match sample_match_outer) (simp add: sample_router_def)

text \<open>A path below a mount belongs to the mount alone: what the six mutating callbacks do there does
  not depend on the callbacks of the filesystem.\<close>

theorem mounted_path_isolated:
  assumes "match r p = Some m" and "normalizeAbsolutePath p = p"
  shows
    "call (o_WriteFile (wrapOps search visit r ops)) (p, c) s = call (o_WriteFile (wrapOps search visit r ops')) (p, c) s \<and>
     call (o_AppendFile (wrapOps search visit r ops)) (p, c) s = call (o_AppendFile (wrapOps search visit r ops')) (p, c) s \<and>
     call (o_EditFile (wrapOps search visit r ops)) (p, old, new, all) s =
       call (o_EditFile (wrapOps search visit r ops')) (p, old, new, all) s \<and>
     call (o_MakeDir (wrapOps search visit r ops)) p s = call (o_MakeDir (wrapOps search visit r ops')) p s \<and>
     call (o_RemoveFile (wrapOps search visit r ops)) p s = call (o_RemoveFile (wrapOps search visit r ops')) p s \<and>
     call (o_RemoveDir (wrapOps search visit r ops)) p s = call (o_RemoveDir (wrapOps search visit r ops')) p s"
  unfolding wrapOps_def Let_def
  by (intro conjI; simp; rule bridge_mutation_isolated [OF assms]; simp add: mutation_spec_def)

theorem mounted_path_isolated_witness:
  "call (o_RemoveFile (wrapOps (\<lambda>_ _ s. (Inr [], s)) id sample_router zero_ops)) ''/m/deep/f'' (live_sys ()) =
   call (o_RemoveFile (wrapOps (\<lambda>_ _ s. (Inr [], s)) id sample_router
     (zero_ops\<lparr>o_RemoveFile := Some (\<lambda>_ s. (Inr (), s))\<rparr>))) ''/m/deep/f'' (live_sys ())"
  using mounted_path_isolated [OF sample_match sample_paths(3), of "\<lambda>_ _ s. (Inr [], s)" id zero_ops] by blast

text \<open>C21. A mount that does not declare mutation is never written through the callbacks: each of them
  fails below it with an unsupported operation and leaves the state as it was.\<close>

theorem undeclared_mount_unwritten:
  assumes "match r p = Some m" and "normalizeAbsolutePath p = p"
    and "op \<in> {PathOpWrite, PathOpMkdir, PathOpRemove}" and "CheckMountPathOp (mm_mount m) op = Some e"
  shows "\<forall>outcome \<in> {call (o_WriteFile (wrapOps search visit r ops)) (p, c) s,
     call (o_AppendFile (wrapOps search visit r ops)) (p, c) s,
     call (o_EditFile (wrapOps search visit r ops)) (p, old, new, all) s,
     call (o_MakeDir (wrapOps search visit r ops)) p s,
     call (o_RemoveFile (wrapOps search visit r ops)) p s,
     call (o_RemoveDir (wrapOps search visit r ops)) p s}.
   \<exists>e'. outcome = (Inl e', s) \<and> is_unsupported e'"
proof -
  have "\<not> mutation_declared (vm_Profile (mm_mount m))"
    using CheckMountPathOp_mutation(1) [of op "mm_mount m"] assms(3,4) by auto
  then show ?thesis by (rule wrapOps_refused [OF assms(1,2)])
qed

theorem undeclared_mount_unwritten_witness:
  "\<exists>e'. call (o_WriteFile (wrapOps (\<lambda>_ _ s. (Inr [], s)) id sample_router files_ops)) (''/m/deep/f'', ''x'') (live_sys []) =
     (Inl e', live_sys []) \<and> is_unsupported e'"
proof -
  have "\<not> mutation_declared (vm_Profile (mm_mount (hd sample_router :: files mountedMount)))"
    by (simp add: mutation_declared_def sample_router_def plain_mount_def zero_profile_def)
  then obtain e where "CheckMountPathOp (mm_mount (hd sample_router :: files mountedMount)) PathOpWrite = Some e"
    using CheckMountPathOp_mutation(1) [of PathOpWrite "mm_mount (hd sample_router :: files mountedMount)"] by auto
  from undeclared_mount_unwritten [OF sample_match sample_paths(3) _ this, of "\<lambda>_ _ s. (Inr [], s)" id files_ops "''x''" "live_sys []"]
  show ?thesis by blast
qed

end
