(* ===== verification/Bin_Mounts.thy ===== *)
theory Bin_Mounts
  imports Mount_Bridge Command_Catalog
begin

section \<open>The mounts of the engine itself (\<open>pkg/mount\<close>: path kit, \<open>/sys/bin\<close>, \<open>/bin\<close>)\<close>

text \<open>
  \<open>/sys/bin\<close> shows the builtins of a registry, \<open>/bin\<close> the external commands of an adapter, each as a
  flat read-only directory of files. What a mount lists, what it can stat and what it can read is the
  same set of names.
\<close>

subsection \<open>Path kit\<close>

definition isExecutableUnder :: "string \<Rightarrow> string \<Rightarrow> bool" where
  "isExecutableUnder pathValue dir =
     (let p = normalizeAbsolutePath pathValue; d = normalizeAbsolutePath dir in
      if \<not> has_prefix p (d @ ''/'') then False
      else let name = trim_prefix p (d @ ''/'') in trim_space name \<noteq> [] \<and> \<not> contains name ''/'')"

definition normalizeCommandName :: "string \<Rightarrow> string" where
  "normalizeCommandName raw =
     (let trimmed = trim_prefix (trim_space raw) ''/'' in if contains trimmed ''/'' then [] else trimmed)"

definition bin_path :: "string \<Rightarrow> string \<Rightarrow> string" where
  "bin_path dir name = dir @ ''/'' @ name"

definition no_such_file :: "string \<Rightarrow> go_error" where
  "no_such_file p = ErrText (p @ '': No such file or directory'')"

definition not_a_directory :: "string \<Rightarrow> go_error" where
  "not_a_directory p = ErrText (p @ '': Not a directory'')"

definition is_a_directory :: "string \<Rightarrow> go_error" where
  "is_a_directory p = ErrText (p @ '': Is a directory (use -r to search recursively)'')"

definition mount_meta :: "bool \<Rightarrow> string \<Rightarrow> int \<Rightarrow> PathMeta" where
  "mount_meta dir kind lines =
     \<lparr>pm_Exists = True, pm_IsDir = dir, pm_Kind = kind, pm_Access = PathAccessReadOnly,
      pm_Capabilities = (if dir then [''describe'', ''list'', ''search''] else [''describe'', ''read'']),
      pm_LineCount = lines, pm_FrontMatterLines = - 1, pm_SpeakerRows = - 1, pm_UserRelevance = ''n/a''\<rparr>"

definition bin_profile :: "MountMaterializationMode \<Rightarrow> MountLatencyClass \<Rightarrow> MountProfile" where
  "bin_profile mode latency =
     NormalizeMountProfile (zero_profile\<lparr>mp_TruthModel := TruthProjection, mp_MaterializationMode := mode,
       mp_WriteSemantics := MountWriteReadOnly, mp_LatencyClass := latency,
       mp_SupportedCLIClasses := [MountCLIList, MountCLITree, MountCLIFind, MountCLIRead]\<rparr>)"

text \<open>Entries are sorted by path; entries of the same path are equal, so the order is determined.\<close>

fun stat_all :: "(string, MountEntry, 'e) op \<Rightarrow> string list \<Rightarrow> 'e sys \<Rightarrow> (go_error + MountEntry list) \<times> 'e sys" where
  "stat_all stat [] s = (Inr [], s)"
| "stat_all stat (p # ps) s =
     (case stat p s of
        (Inl e, s) \<Rightarrow> (Inl e, s)
      | (Inr entry, s) \<Rightarrow>
          (case stat_all stat ps s of (Inl e, s) \<Rightarrow> (Inl e, s) | (Inr es, s) \<Rightarrow> (Inr (entry # es), s)))"

definition enumerateEntriesFromLister ::
  "(ListEntriesRequest, MountEntry list, 'e) op \<Rightarrow> (EnumeratePathsRequest, MountEntry list, 'e) op" where
  "enumerateEntriesFromLister lister req s =
     (case lister \<lparr>le_Dir = en_Target req, le_Recursive = en_Recursive req, le_MaxDepth = en_MaxDepth req\<rparr> s of
        (Inl e, s) \<Rightarrow> (Inl e, s)
      | (Inr entries, s) \<Rightarrow> (Inr (filter (\<lambda>e. \<not> pm_IsDir (me_Meta e)) entries), s))"

text \<open>A target that is not the directory itself must be a file.\<close>

definition enumerate_file :: "(string, MountEntry, 'e) op \<Rightarrow> string \<Rightarrow> 'e sys \<Rightarrow> (go_error + MountEntry list) \<times> 'e sys" where
  "enumerate_file stat target s =
     (case stat target s of
        (Inl e, s) \<Rightarrow> (Inl e, s)
      | (Inr entry, s) \<Rightarrow>
          (if pm_IsDir (me_Meta entry) then (Inl (is_a_directory target), s) else (Inr [entry], s)))"

subsection \<open>\<open>/sys/bin\<close>\<close>

definition sys_stat :: "'e Registry option \<Rightarrow> (string, MountEntry, 'e) op" where
  "sys_stat catalog pathValue s =
     (let p = normalizeAbsolutePath pathValue in
      if p = VirtualSystemBinDir then
        (Inr \<lparr>me_Path = VirtualSystemBinDir, me_Name = path_base VirtualSystemBinDir,
              me_Meta = mount_meta True ''sys_bin_dir'' (- 1)\<rparr>, s)
      else if \<not> isExecutableUnder p VirtualSystemBinDir then
        (Inl (if has_prefix p (VirtualSystemBinDir @ ''/'') then no_such_file p else ErrUnsupported), s)
      else let name = trim_prefix p (VirtualSystemBinDir @ ''/'') in
        (case catalog of
           None \<Rightarrow> (Inl (no_such_file p), s)
         | Some r \<Rightarrow>
             (if LookupBuiltinDoc r name = None then (Inl (no_such_file p), s)
              else (Inr \<lparr>me_Path = p, me_Name = name, me_Meta = mount_meta False ''sys_binary'' (- 1)\<rparr>, s))))"

definition sys_list :: "'e Registry option \<Rightarrow> (ListEntriesRequest, MountEntry list, 'e) op" where
  "sys_list catalog req s =
     (let dir = normalizeAbsolutePath (le_Dir req) in
      if dir \<noteq> VirtualSystemBinDir then (Inl (not_a_directory dir), s)
      else case catalog of
        None \<Rightarrow> (Inr [], s)
      | Some r \<Rightarrow>
          (case stat_all (sys_stat catalog)
             (map (\<lambda>n. bin_path VirtualSystemBinDir n)
               (filter (\<lambda>n. n \<noteq> []) (map (\<lambda>d. trim_space (bd_Name d)) (BuiltinCommandDocs r)))) s of
             (Inl e, s) \<Rightarrow> (Inl e, s)
           | (Inr entries, s) \<Rightarrow> (Inr (sort_key me_Path entries), s)))"

definition sys_enumerate :: "'e Registry option \<Rightarrow> (EnumeratePathsRequest, MountEntry list, 'e) op" where
  "sys_enumerate catalog req s =
     (let target = normalizeAbsolutePath (en_Target req) in
      if target = VirtualSystemBinDir then
        (if \<not> en_Recursive req then (Inl (is_a_directory target), s)
         else enumerateEntriesFromLister (sys_list catalog) req s)
      else enumerate_file (sys_stat catalog) target s)"

definition sys_read :: "'e Registry option \<Rightarrow> (string, string, 'e) op" where
  "sys_read catalog pathValue s =
     (let p = normalizeAbsolutePath pathValue in
      if \<not> isExecutableUnder p VirtualSystemBinDir then (Inl (no_such_file p), s)
      else let name = trim_prefix p (VirtualSystemBinDir @ ''/'') in
        (case Option.bind catalog (\<lambda>r. LookupBuiltinDoc r name) of
           None \<Rightarrow> (Inl (no_such_file p), s)
         | Some doc \<Rightarrow>
             (let manual = trim_space (bd_Manual doc) in
              (Inr (if manual = [] then ''builtin: '' @ name else manual), s))))"

definition NewSysBinMount :: "'e Registry option \<Rightarrow> 'e VirtualMount" where
  "NewSysBinMount catalog =
     \<lparr>vm_MountPoint = VirtualSystemBinDir,
      vm_Profile = bin_profile MaterializationSnapshot LocalFast,
      vm_Exists = (\<lambda>_ s. (Inr (case catalog of None \<Rightarrow> False | Some r \<Rightarrow> BuiltinCommandDocs r \<noteq> []), s)),
      vm_StatPath = sys_stat catalog, vm_ReadContent = sys_read catalog,
      vm_ListEntries = Some (sys_list catalog), vm_EnumeratePaths = Some (sys_enumerate catalog),
      vm_ReadMany = None, vm_SearchContent = None, vm_ApplyMutations = None, vm_Refresh = None\<rparr>"

subsection \<open>\<open>/bin\<close>\<close>

text \<open>An adapter that answers the listing with an unsupported error has no commands.\<close>

definition ext_commands :: "(unit, (string \<times> string) list, 'e) op option \<Rightarrow> 'e sys \<Rightarrow>
    (go_error + (string \<times> string) list) \<times> 'e sys" where
  "ext_commands lister s =
     (case lister of
        None \<Rightarrow> (Inr [], s)
      | Some f \<Rightarrow>
          (case f () s of
             (Inl e, s) \<Rightarrow> (if is_unsupported e then Inr [] else Inl e, s)
           | (Inr cs, s) \<Rightarrow> (Inr cs, s)))"

definition ext_paths :: "(unit, (string \<times> string) list, 'e) op option \<Rightarrow> 'e sys \<Rightarrow> (go_error + string list) \<times> 'e sys" where
  "ext_paths lister s =
     (case ext_commands lister s of
        (Inl e, s) \<Rightarrow> (Inl e, s)
      | (Inr cs, s) \<Rightarrow>
          (Inr (sort (remdups (map (\<lambda>n. bin_path VirtualExternalBinDir n)
            (filter (\<lambda>n. n \<noteq> []) (map (\<lambda>c. normalizeCommandName (fst c)) cs))))), s))"

definition ext_lookup :: "(unit, (string \<times> string) list, 'e) op option \<Rightarrow> (string, (string \<times> string) option, 'e) op" where
  "ext_lookup lister name s =
     (case ext_commands lister s of
        (Inl e, s) \<Rightarrow> (Inl e, s)
      | (Inr cs, s) \<Rightarrow> (Inr (find (\<lambda>c. normalizeCommandName (fst c) = normalizeCommandName name) cs), s))"

definition ext_exists :: "(unit, (string \<times> string) list, 'e) op option \<Rightarrow> (unit, bool, 'e) op" where
  "ext_exists lister x s =
     (case ext_paths lister s of (Inl e, s) \<Rightarrow> (Inl e, s) | (Inr ps, s) \<Rightarrow> (Inr (ps \<noteq> []), s))"

definition ext_stat :: "(unit, (string \<times> string) list, 'e) op option \<Rightarrow> (string, MountEntry, 'e) op" where
  "ext_stat lister pathValue s =
     (let p = normalizeAbsolutePath pathValue in
      if p = VirtualExternalBinDir then
        (case ext_exists lister () s of
           (Inl e, s) \<Rightarrow> (Inl e, s)
         | (Inr exists, s) \<Rightarrow>
             (if \<not> exists then (Inl (no_such_file p), s)
              else (Inr \<lparr>me_Path = VirtualExternalBinDir, me_Name = path_base VirtualExternalBinDir,
                         me_Meta = mount_meta True ''binary_dir'' (- 1)\<rparr>, s)))
      else if \<not> isExecutableUnder p VirtualExternalBinDir then
        (Inl (if has_prefix p (VirtualExternalBinDir @ ''/'') then no_such_file p else ErrUnsupported), s)
      else let name = trim_prefix p (VirtualExternalBinDir @ ''/'') in
        (case ext_lookup lister name s of
           (Inl e, s) \<Rightarrow> (Inl e, s)
         | (Inr found, s) \<Rightarrow>
             (if found = None then (Inl (no_such_file p), s)
              else (Inr \<lparr>me_Path = p, me_Name = name, me_Meta = mount_meta False ''binary'' (- 1)\<rparr>, s))))"

definition ext_entries :: "(unit, (string \<times> string) list, 'e) op option \<Rightarrow> 'e sys \<Rightarrow> (go_error + MountEntry list) \<times> 'e sys" where
  "ext_entries lister s =
     (case ext_paths lister s of (Inl e, s) \<Rightarrow> (Inl e, s) | (Inr ps, s) \<Rightarrow> stat_all (ext_stat lister) ps s)"

definition ext_list :: "(unit, (string \<times> string) list, 'e) op option \<Rightarrow> (ListEntriesRequest, MountEntry list, 'e) op" where
  "ext_list lister req s =
     (let dir = normalizeAbsolutePath (le_Dir req) in
      if dir \<noteq> VirtualExternalBinDir then (Inl (not_a_directory dir), s)
      else case ext_entries lister s of
        (Inl e, s) \<Rightarrow> (Inl e, s)
      | (Inr entries, s) \<Rightarrow> (Inr (sort_key me_Path entries), s))"

definition ext_enumerate :: "(unit, (string \<times> string) list, 'e) op option \<Rightarrow> (EnumeratePathsRequest, MountEntry list, 'e) op" where
  "ext_enumerate lister req s =
     (let target = normalizeAbsolutePath (en_Target req) in
      if target = VirtualExternalBinDir then
        (if \<not> en_Recursive req then (Inl (is_a_directory target), s) else ext_entries lister s)
      else enumerate_file (ext_stat lister) target s)"

definition ext_summary :: "(unit, (string \<times> string) list, 'e) op option \<Rightarrow> string \<Rightarrow> string \<Rightarrow> 'e sys \<Rightarrow> (go_error + string) \<times> 'e sys" where
  "ext_summary lister p name s =
     (case ext_lookup lister name s of
        (Inl e, s) \<Rightarrow> (Inl e, s)
      | (Inr None, s) \<Rightarrow> (Inl (no_such_file p), s)
      | (Inr (Some (n, summary)), s) \<Rightarrow>
          (Inr (if trim_space summary = [] then ''binary: '' @ n else trim_space summary), s))"

definition ext_read :: "(unit, (string \<times> string) list, 'e) op option \<Rightarrow> (string, string, 'e) op option \<Rightarrow> (string, string, 'e) op" where
  "ext_read lister manual pathValue s =
     (let p = normalizeAbsolutePath pathValue in
      if \<not> isExecutableUnder p VirtualExternalBinDir then (Inl (no_such_file p), s)
      else let name = trim_prefix p (VirtualExternalBinDir @ ''/'') in
        (case manual of
           None \<Rightarrow> ext_summary lister p name s
         | Some f \<Rightarrow>
             (case f name s of
                (Inr text, s) \<Rightarrow> (if trim_space text \<noteq> [] then (Inr text, s) else ext_summary lister p name s)
              | (Inl e, s) \<Rightarrow> (if is_unsupported e then ext_summary lister p name s else (Inl e, s)))))"

definition NewExternalBinMount :: "(unit, (string \<times> string) list, 'e) op option \<Rightarrow> (string, string, 'e) op option \<Rightarrow> 'e VirtualMount" where
  "NewExternalBinMount lister manual =
     \<lparr>vm_MountPoint = VirtualExternalBinDir,
      vm_Profile = bin_profile MaterializationLive LocalHeavy,
      vm_Exists = ext_exists lister, vm_StatPath = ext_stat lister, vm_ReadContent = ext_read lister manual,
      vm_ListEntries = Some (ext_list lister), vm_EnumeratePaths = Some (ext_enumerate lister),
      vm_ReadMany = None, vm_SearchContent = None, vm_ApplyMutations = None, vm_Refresh = None\<rparr>"

subsection \<open>Lemmas\<close>

lemma normalizeAbsolutePath_bin [simp]:
  "normalizeAbsolutePath VirtualSystemBinDir = VirtualSystemBinDir"
  "normalizeAbsolutePath VirtualExternalBinDir = VirtualExternalBinDir"
  by code_simp+

lemma bin_dirs_differ [simp]: "VirtualSystemBinDir \<noteq> VirtualExternalBinDir"
  by code_simp

lemma bin_profile_undeclared: "\<not> mutation_declared (bin_profile mode latency)"
  by (simp add: mutation_declared_def bin_profile_def)

lemma bin_mounts_undeclared [simp]:
  "\<not> mutation_declared (vm_Profile (NewSysBinMount catalog))"
  "\<not> mutation_declared (vm_Profile (NewExternalBinMount lister manual))"
  by (simp_all add: NewSysBinMount_def NewExternalBinMount_def bin_profile_undeclared)

lemma stat_all_entries:
  "stat_all stat ps s = (Inr es, s') \<Longrightarrow> (\<And>p. snd (stat p s) = s) \<Longrightarrow>
   s' = s \<and> list_all2 (\<lambda>p e. stat p s = (Inr e, s)) ps es"
proof (induction ps arbitrary: es)
  case (Cons p ps)
  obtain r where r: "stat p s = (r, s)" using Cons.prems(2) [of p] by (cases "stat p s") auto
  show ?case using Cons.prems Cons.IH [OF _ Cons.prems(2)] r by (auto split: sum.splits prod.splits)
qed simp

lemma sys_stat_state [simp]: "snd (sys_stat catalog p s) = s"
  by (simp add: sys_stat_def Let_def split: option.splits)

lemma isExecutableUnder_eq: "isExecutableUnder = IsCommandPathUnder"
  by (intro ext) (simp add: isExecutableUnder_def IsCommandPathUnder_def)

lemma sys_stat_read:
  "(\<exists>e. sys_stat catalog p s = (Inr e, s) \<and> \<not> pm_IsDir (me_Meta e)) \<longleftrightarrow> (\<exists>c. sys_read catalog p s = (Inr c, s))"
proof -
  have "\<not> isExecutableUnder VirtualSystemBinDir VirtualSystemBinDir" by code_simp
  then show ?thesis by (auto simp: sys_stat_def sys_read_def Let_def mount_meta_def split: option.splits)
qed

text \<open>A name a registry may list without harm: one path component, without space around it.\<close>

definition plain_name :: "string \<Rightarrow> bool" where
  "plain_name n \<longleftrightarrow> good_comp n \<and> trim_space n = n"

lemma plain_name_path:
  assumes "plain_name n" and "canonical d" and "d \<noteq> ''/''" and "\<not> ends_with_space d"
  shows "normalizeAbsolutePath (bin_path d n) = bin_path d n" and "isExecutableUnder (bin_path d n) d"
    and "bin_path d n \<noteq> d"
proof -
  have c: "canonical (bin_path d n)" "\<not> ends_with_space (bin_path d n)"
    using assms canonical_child [of d n] trim_space_ends [of n] by (simp_all add: plain_name_def bin_path_def)
  show "normalizeAbsolutePath (bin_path d n) = bin_path d n" using normalizeAbsolutePath_fix c .
  show "isExecutableUnder (bin_path d n) d"
    using IsCommandPathUnder_iff [OF c assms(2,4)] assms(1)
    by (auto simp: isExecutableUnder_eq plain_name_def good_comp_def bin_path_def)
  show "bin_path d n \<noteq> d" by (simp add: bin_path_def)
qed

definition plain_registry :: "'e Registry \<Rightarrow> bool" where
  "plain_registry r \<longleftrightarrow> (\<forall>(k, spec)\<in>set r. plain_name k \<and> cs_Name spec = k)"

lemma sys_stat_plain:
  assumes "plain_name n" and "Lookup r n = Some spec"
  shows "sys_stat (Some r) (bin_path VirtualSystemBinDir n) s =
    (Inr \<lparr>me_Path = bin_path VirtualSystemBinDir n, me_Name = n, me_Meta = mount_meta False ''sys_binary'' (- 1)\<rparr>, s)"
  using plain_name_path [OF assms(1) bin_dirs_canonical(1) _ bin_dirs_canonical(2)] assms(2)
    trim_prefix_append [of "VirtualSystemBinDir @ ''/''" n]
  by (simp add: sys_stat_def Let_def LookupBuiltinDoc_def bin_path_def) (simp add: VirtualSystemBinDir_def)

lemma sys_stat_all_plain:
  "\<forall>n\<in>set ns. plain_name n \<and> Lookup r n \<noteq> None \<Longrightarrow>
   \<exists>es. stat_all (sys_stat (Some r)) (map (\<lambda>n. bin_path VirtualSystemBinDir n) ns) s = (Inr es, s) \<and>
     map me_Path es = map (\<lambda>n. bin_path VirtualSystemBinDir n) ns \<and> (\<forall>e\<in>set es. \<not> pm_IsDir (me_Meta e))"
proof (induction ns)
  case (Cons n ns)
  then obtain es where es: "stat_all (sys_stat (Some r)) (map (\<lambda>n. bin_path VirtualSystemBinDir n) ns) s = (Inr es, s)"
    "map me_Path es = map (\<lambda>n. bin_path VirtualSystemBinDir n) ns" "\<forall>e\<in>set es. \<not> pm_IsDir (me_Meta e)"
    by auto
  obtain spec where "plain_name n" "Lookup r n = Some spec" using Cons.prems by auto
  then have "sys_stat (Some r) (bin_path VirtualSystemBinDir n) s =
    (Inr \<lparr>me_Path = bin_path VirtualSystemBinDir n, me_Name = n, me_Meta = mount_meta False ''sys_binary'' (- 1)\<rparr>, s)"
    by (rule sys_stat_plain)
  then show ?case using es by (simp add: mount_meta_def)
qed simp

lemma plain_registry_docs:
  assumes "plain_registry r"
  shows "filter (\<lambda>n. n \<noteq> []) (map (\<lambda>d. trim_space (bd_Name d)) (BuiltinCommandDocs r)) = sort (map_keys r)"
    and "n \<in> set (map_keys r) \<Longrightarrow> plain_name n \<and> Lookup r n \<noteq> None"
proof -
  have key: "plain_name k" "k \<noteq> []" "trim_space k = k" "\<exists>spec. map_of r k = Some spec \<and> cs_Name spec = k"
    if in_keys: "k \<in> set (map_keys r)" for k
  proof -
    obtain spec where m: "map_of r k = Some spec"
      using in_keys map_of_eq_None_iff [of r k] by (cases "map_of r k") (auto simp: map_keys_def)
    then have "(k, spec) \<in> set r" by (rule map_of_SomeD)
    then have "plain_name k" "cs_Name spec = k" using assms by (auto simp: plain_registry_def)
    then show "plain_name k" "k \<noteq> []" "trim_space k = k" "\<exists>spec. map_of r k = Some spec \<and> cs_Name spec = k"
      using m by (auto simp: plain_name_def good_comp_def)
  qed
  have names: "filter (\<lambda>n. n \<noteq> []) (map trim_space (map_keys r)) = map_keys r"
    using key by (simp add: map_idI filter_id_conv)
  have "map (\<lambda>d. trim_space (bd_Name d)) (List.map_filter (\<lambda>n. map_option builtinDocFromSpec (map_of r n)) ks) = ks"
    if "set ks \<subseteq> set (map_keys r)" for ks
    using that
  proof (induction ks)
    case (Cons k ks)
    then show ?case using key [of k] by (auto simp: List.map_filter_simps builtinDocFromSpec_def)
  qed (simp add: List.map_filter_simps)
  then have "map (\<lambda>d. trim_space (bd_Name d)) (BuiltinCommandDocs r) = sort (map_keys r)"
    by (simp add: BuiltinCommandDocs_def names)
  then show "filter (\<lambda>n. n \<noteq> []) (map (\<lambda>d. trim_space (bd_Name d)) (BuiltinCommandDocs r)) = sort (map_keys r)"
    using key(2) by (auto simp: filter_id_conv)
  show "n \<in> set (map_keys r) \<Longrightarrow> plain_name n \<and> Lookup r n \<noteq> None"
    using key [of n] by (auto simp: Lookup_def)
qed

lemma sorted_map_prefix: "sorted ns \<Longrightarrow> sorted (map (\<lambda>n. p @ n) (ns :: string list))"
proof -
  have "p @ a \<le> p @ b" if "a \<le> b" for a b :: string
    using that by (induction p) auto
  then show "sorted ns \<Longrightarrow> sorted (map (\<lambda>n. p @ n) ns)" by (induction ns) auto
qed

subsection \<open>Properties\<close>

text \<open>The directory \<open>/sys/bin\<close> shows the registry: its listing is one file for each registered
  name, in order, and a path can be read exactly if it can be stat'ed as a file, as every listed one can.\<close>

theorem sys_bin_shows_registry:
  assumes "plain_registry r" and "normalizeAbsolutePath (le_Dir req) = VirtualSystemBinDir"
  shows "(\<exists>entries. sys_list (Some r) req s = (Inr entries, s) \<and>
     map me_Path entries = map (\<lambda>n. bin_path VirtualSystemBinDir n) (sort (map_keys r)) \<and>
     (\<forall>e\<in>set entries. \<exists>c. sys_read (Some r) (me_Path e) s = (Inr c, s))) \<and>
   (\<forall>p. (\<exists>c. sys_read (Some r) p s = (Inr c, s)) \<longleftrightarrow>
     (\<exists>e. sys_stat (Some r) p s = (Inr e, s) \<and> \<not> pm_IsDir (me_Meta e)))"
proof
  note docs = plain_registry_docs [OF assms(1)]
  obtain es where es: "stat_all (sys_stat (Some r)) (map (\<lambda>n. bin_path VirtualSystemBinDir n) (sort (map_keys r))) s = (Inr es, s)"
    "map me_Path es = map (\<lambda>n. bin_path VirtualSystemBinDir n) (sort (map_keys r))"
    using sys_stat_all_plain [of "sort (map_keys r)" r s] docs(2) by auto
  have "sorted (map me_Path es)"
    using sorted_map_prefix [of "sort (map_keys r)" "VirtualSystemBinDir @ ''/''"] es(2) by (simp add: bin_path_def)
  then have "sort_key me_Path es = es" by (rule sort_key_id_if_sorted)
  then have "sys_list (Some r) req s = (Inr es, s)"
    by (simp add: sys_list_def Let_def assms(2) docs(1) es(1))
  moreover have "\<exists>c. sys_read (Some r) (me_Path e) s = (Inr c, s)" if "e \<in> set es" for e
  proof -
    have "me_Path e \<in> set (map (\<lambda>n. bin_path VirtualSystemBinDir n) (sort (map_keys r)))"
      using that es(2) by (metis image_eqI list.set_map)
    then obtain n where n: "n \<in> set (map_keys r)" "me_Path e = bin_path VirtualSystemBinDir n" by auto
    then obtain spec where "plain_name n" "Lookup r n = Some spec" using docs(2) by blast
    then show ?thesis
      using sys_stat_plain [of n r spec s] n(2) sys_stat_read [of "Some r" "me_Path e" s] by (auto simp: mount_meta_def)
  qed
  ultimately show "\<exists>entries. sys_list (Some r) req s = (Inr entries, s) \<and>
     map me_Path entries = map (\<lambda>n. bin_path VirtualSystemBinDir n) (sort (map_keys r)) \<and>
     (\<forall>e\<in>set entries. \<exists>c. sys_read (Some r) (me_Path e) s = (Inr c, s))"
    using es(2) by blast
  show "\<forall>p. (\<exists>c. sys_read (Some r) p s = (Inr c, s)) \<longleftrightarrow>
     (\<exists>e. sys_stat (Some r) p s = (Inr e, s) \<and> \<not> pm_IsDir (me_Meta e))"
    using sys_stat_read by blast
qed

theorem sys_bin_shows_registry_witness:
  "\<exists>entries. sys_list (Some [(''ls'', sample_spec ''ls''), (''cat'', sample_spec ''cat'')])
      \<lparr>le_Dir = ''/sys/bin/'', le_Recursive = False, le_MaxDepth = 0\<rparr> (live_sys ()) = (Inr entries, live_sys ()) \<and>
    map me_Path entries = [''/sys/bin/cat'', ''/sys/bin/ls'']"
proof -
  have "plain_registry [(''ls'', sample_spec ''ls'' :: unit CommandSpec), (''cat'', sample_spec ''cat'')]"
    unfolding plain_registry_def plain_name_def sample_spec_def good_comp_def by code_simp
  moreover have "normalizeAbsolutePath (le_Dir \<lparr>le_Dir = ''/sys/bin/'', le_Recursive = False, le_MaxDepth = 0\<rparr>) = VirtualSystemBinDir"
    by code_simp
  moreover have "sort [''ls'', ''cat''] = [''cat'', ''ls'']" by simp
  ultimately show ?thesis
    using sys_bin_shows_registry [of "[(''ls'', sample_spec ''ls''), (''cat'', sample_spec ''cat'')]"
        "\<lparr>le_Dir = ''/sys/bin/'', le_Recursive = False, le_MaxDepth = 0\<rparr>" "live_sys ()"]
    by (auto simp: map_keys_def VirtualSystemBinDir_def bin_path_def)
qed

end
