(* ===== verification/Engine.thy ===== *)
theory Engine
  imports Script_Semantics Mount_Search Bin_Mounts Path_Resolution
begin

section \<open>The engine: preparing callbacks, the prepared cache, one execution (\<open>orchestrator.go\<close>)\<close>

text \<open>
  \<open>normalizeOps\<close> composes the layers of the previous theories over the callbacks of an adapter:
  defaults, the mount router, path resolution, the rc files, the access policy. \<open>ExecuteResult\<close> runs
  a command line over prepared callbacks, which it keeps in a one-entry cache. Times are not modelled.
\<close>

text \<open>What the engine takes from the platform: Unicode tables and regexps, the order in which an iteration
  visits a map, and the context that a timeout of some length derives from a context (that context
  itself if its deadline is nearer).\<close>

record platform =
  pl_text :: text_lib
  pl_visit :: "(string, MutationRecord list) gomap \<Rightarrow> (string, MutationRecord list) gomap"
  pl_timeout :: "int \<Rightarrow> ctx_state \<Rightarrow> ctx_state"

subsection \<open>Preparing callbacks\<close>

definition engine_mounts :: "'e Registry \<Rightarrow> 'e Ops \<Rightarrow> 'e VirtualMount option list" where
  "engine_mounts reg ops =
     Some (NewSysBinMount (Some reg)) # map Some (o_VirtualMounts ops) @
     (if o_ListExternalCommands ops \<noteq> None
      then [Some (NewExternalBinMount (o_ListExternalCommands ops) (o_ReadExternalManual ops))] else [])"

definition withMountRouter :: "platform \<Rightarrow> 'e Registry \<Rightarrow> 'e Ops \<Rightarrow> go_error + 'e Ops" where
  "withMountRouter pl reg ops =
     (case newMountRouter (engine_mounts reg ops) of
        Inl e \<Rightarrow> Inl e
      | Inr router \<Rightarrow>
          Inr (if isEmpty router then ops else wrapOps (SearchMountContent (pl_text pl)) (pl_visit pl) router ops))"

definition rc_error :: "string \<Rightarrow> string \<Rightarrow> go_error \<Rightarrow> go_error" where
  "rc_error before after e = ErrText (''rc: '' @ before @ after @ error_text e)"

fun load_rc :: "'e Ops \<Rightarrow> string list \<Rightarrow> alias_map \<Rightarrow> env_map \<Rightarrow> 'e sys \<Rightarrow> (go_error + alias_map \<times> env_map) \<times> 'e sys" where
  "load_rc ops [] aliases envVars s = (Inr (aliases, envVars), s)"
| "load_rc ops (rawPath # paths) aliases envVars s =
     (case call (o_RequireAbsolutePath ops) rawPath s of
        (Inl e, s) \<Rightarrow> (Inl (rc_error rawPath '': '' e), s)
      | (Inr p, s) \<Rightarrow>
          (case call (o_ReadRawContent ops) p s of
             (Inl e, s) \<Rightarrow>
               (if isNotFoundLikeError e then load_rc ops paths aliases envVars s
                else (Inl (rc_error (''read '' @ p) '' failed: '' e), s))
           | (Inr raw, s) \<Rightarrow>
               (case parseRCContent raw of
                  Inl e \<Rightarrow> (Inl (rc_error (''parse '' @ p) '' failed: '' e), s)
                | Inr (rcAliases, rcEnv) \<Rightarrow>
                    load_rc ops paths (MergeCommandAliases [aliases, rcAliases]) (map_puts envVars rcEnv) s)))"

definition withRuntimeBootstrap :: "'e Ops \<Rightarrow> 'e sys \<Rightarrow> (go_error + 'e Ops) \<times> 'e sys" where
  "withRuntimeBootstrap ops s =
     (let paths = NormalizeRCFiles (o_RCFiles ops) in
      if paths = [] then (Inr ops, s)
      else case load_rc ops paths (NormalizeCommandAliases (o_CommandAliases ops)) (NormalizeEnvVars (o_EnvVars ops)) s of
        (Inl e, s) \<Rightarrow> (Inl e, s)
      | (Inr (aliases, envVars), s) \<Rightarrow> (Inr (ops\<lparr>o_CommandAliases := aliases, o_EnvVars := envVars\<rparr>), s))"

text \<open>The callbacks without which nothing runs, and the defaults of the others.\<close>

definition missing_callback :: "'e Ops \<Rightarrow> go_error option" where
  "missing_callback ops =
     (if o_RequireAbsolutePath ops = None then Some (ErrText ''require absolute path function is required'')
      else if o_ListChildren ops = None then Some (ErrText ''list children function is required'')
      else if o_IsDirPath ops = None then Some (ErrText ''is-dir function is required'')
      else if o_ReadRawContent ops = None then Some (ErrText ''read file function is required'')
      else if o_ResolveSearchPaths ops = None then Some (ErrText ''resolve search paths function is required'')
      else if o_CollectFilesUnder ops = None then Some (ErrText ''collect files function is required'')
      else None)"

definition or_else :: "'a option \<Rightarrow> 'a \<Rightarrow> 'a option" where
  "or_else x d = (if x = None then Some d else x)"

definition unsupported_op :: "('a, 'b, 'e) op" where
  "unsupported_op x s = (Inl ErrUnsupported, s)"

definition ops_with_defaults :: "'e Ops \<Rightarrow> 'e Ops" where
  "ops_with_defaults ops =
     ops\<lparr>o_WriteFile := or_else (o_WriteFile ops) unsupported_op,
         o_AppendFile := or_else (o_AppendFile ops) unsupported_op,
         o_EditFile := or_else (o_EditFile ops) unsupported_op,
         o_MakeDir := or_else (o_MakeDir ops) unsupported_op,
         o_RemoveFile := or_else (o_RemoveFile ops) unsupported_op,
         o_RemoveDir := or_else (o_RemoveDir ops) unsupported_op,
         o_CheckPathOp := or_else (o_CheckPathOp ops) (\<lambda>x s. (Inr (), s)),
         o_Policy := (if ep_WriteMode (o_Policy ops) = WriteModeUnset then DefaultPolicy else o_Policy ops),
         o_Profile := (if o_Profile ops = [] then DefaultProfile else o_Profile ops)\<rparr>"

definition ops_with_bootstrap :: "'e Ops \<Rightarrow> 'e Ops" where
  "ops_with_bootstrap ops =
     ops\<lparr>o_CommandAliases := MergeCommandAliases [DefaultCommandAliases, o_CommandAliases ops],
         o_EnvVars := NormalizeEnvVars (o_EnvVars ops), o_RCFiles := NormalizeRCFiles (o_RCFiles ops)\<rparr>"

text \<open>The result is the callbacks and the directory \<open>resetState\<close> goes back to.\<close>

definition normalizeOps :: "platform \<Rightarrow> 'e Registry \<Rightarrow> 'e Ops \<Rightarrow> 'e sys \<Rightarrow> (go_error + 'e Ops \<times> string) \<times> 'e sys" where
  "normalizeOps pl reg ops s =
     (let ops = (if trim_space (o_RootDir ops) = [] then ops\<lparr>o_RootDir := ''/''\<rparr> else ops);
          ops = (if trim_space (o_WorkingDir ops) = [] then ops\<lparr>o_WorkingDir := o_RootDir ops\<rparr> else ops) in
      case missing_callback ops of
        Some e \<Rightarrow> (Inl e, s)
      | None \<Rightarrow>
      (let ops = ops_with_defaults ops in
       case ParseProfile (o_Profile ops) of
         Inl e \<Rightarrow> (Inl e, s)
       | Inr _ \<Rightarrow>
       (case withMountRouter pl reg (ops_with_bootstrap ops) of
          Inl e \<Rightarrow> (Inl e, s)
        | Inr ops \<Rightarrow>
        (case withPathResolution ops s of
           (Inl e, s) \<Rightarrow> (Inl e, s)
         | (Inr (ops, initial), s) \<Rightarrow>
         (case withRuntimeBootstrap ops s of
            (Inl e, s) \<Rightarrow> (Inl e, s)
          | (Inr ops, s) \<Rightarrow> (Inr (withPathAccessPolicy ops, initial), s))))))"

text \<open>\<open>pr_reset\<close> is none for the zero value, whose reset function is nil.\<close>

record 'e PreparedOps =
  pr_normalized :: "'e Ops"
  pr_resetState :: "string option"

definition PrepareOps :: "platform \<Rightarrow> 'e Registry \<Rightarrow> 'e Ops \<Rightarrow> 'e sys \<Rightarrow> (go_error + 'e PreparedOps) \<times> 'e sys" where
  "PrepareOps pl reg ops s =
     (case normalizeOps pl reg ops s of
        (Inl e, s) \<Rightarrow> (Inl e, s)
      | (Inr (normalized, reset), s) \<Rightarrow> (Inr \<lparr>pr_normalized = normalized, pr_resetState = Some reset\<rparr>, s))"

definition ResetMutableState :: "'e PreparedOps \<Rightarrow> 'e sys \<Rightarrow> 'e sys" where
  "ResetMutableState p s = (case pr_resetState p of None \<Rightarrow> s | Some dir \<Rightarrow> cwd_set dir s)"

subsection \<open>One execution\<close>

text \<open>\<open>executionCounter\<close> is a global 64-bit counter.\<close>

record ExecutionResult =
  xr_ExecutionID :: string
  xr_SessionID :: string
  xr_ExitCode :: int
  xr_Stdout :: string
  xr_Stderr :: string
  xr_Trace :: ExecutionTrace

definition FlattenOutput :: "ExecutionResult \<Rightarrow> string" where
  "FlattenOutput r =
     (if xr_Stdout r = [] then xr_Stderr r
      else if xr_Stderr r = [] then xr_Stdout r
      else if has_suffix (xr_Stdout r) [CHR 0x0A] then xr_Stdout r @ xr_Stderr r
      else xr_Stdout r @ [CHR 0x0A] @ xr_Stderr r)"

definition WithSessionID :: "ExecutionResult \<Rightarrow> string \<Rightarrow> ExecutionResult" where
  "WithSessionID r sessionID = r\<lparr>xr_SessionID := trim_space sessionID\<rparr>"

definition NextExecutionID :: "64 word \<Rightarrow> string \<times> 64 word" where
  "NextExecutionID counter = (let value = counter + 1 in (''exec_'' @ show_nat (unat value), value))"

text \<open>\<open>e\<close> is the registry of the engine, none for a nil engine. The context of the state is the one
  given; the state is left with the context of the run, a caller starts each call with its own.\<close>

definition zero_result :: "string \<Rightarrow> int \<Rightarrow> string \<Rightarrow> ExecutionResult" where
  "zero_result execID code stdout =
     \<lparr>xr_ExecutionID = execID, xr_SessionID = [], xr_ExitCode = code, xr_Stdout = stdout, xr_Stderr = [],
      xr_Trace = empty_trace\<rparr>"

definition ExecutePreparedResult :: "platform \<Rightarrow> 'e Registry option \<Rightarrow> string \<Rightarrow> 'e PreparedOps \<Rightarrow> 64 word \<Rightarrow> 'e sys \<Rightarrow>
    ExecutionResult \<times> 64 word \<times> 'e sys" where
  "ExecutePreparedResult pl e cmdline prepared counter s =
     (let normalized = pr_normalized prepared;
          collector = newExecutionTraceCollector cmdline normalized;
          (execID, counter) = NextExecutionID counter;
          fail = (\<lambda>message. (zero_result execID ExitCodeGeneral message)\<lparr>xr_Trace := trace_snapshot collector\<rparr>) in
      case e of
        None \<Rightarrow> (fail ''execute: runtime is not initialized'', counter, s)
      | Some reg \<Rightarrow>
          (if o_RequireAbsolutePath normalized = None then (fail ''execute: prepared ops are required'', counter, s)
           else let timeout = ep_Timeout (o_Policy normalized);
                    ctx = (if timeout > 0 then pl_timeout pl timeout (sy_ctx s) else sy_ctx s);
                    tracedOps = WrapOps normalized in
             (case runScript (runCommand reg tracedOps) tracedOps cmdline
                (s\<lparr>sy_ctx := ctx, sy_trace := Some collector\<rparr>) of
                (out, s1) \<Rightarrow>
             (case executionContextErr s1 of
                (err, s2) \<Rightarrow>
             (let t = trace_snapshot (case sy_trace s2 of Some t \<Rightarrow> t | None \<Rightarrow> collector);
                  t = (case err of
                         None \<Rightarrow> t
                       | Some e \<Rightarrow> t\<lparr>tr_TimedOut := tr_TimedOut t \<or> is_deadline e, tr_Canceled := tr_Canceled t \<or> is_canceled e\<rparr>) in
              (\<lparr>xr_ExecutionID = execID, xr_SessionID = [], xr_ExitCode = xo_code out, xr_Stdout = xo_stdout out,
                xr_Stderr = xo_stderr out, xr_Trace = t\<rparr>, counter, s2\<lparr>sy_trace := sy_trace s\<rparr>))))))"

definition UsageResult :: "string \<Rightarrow> 64 word \<Rightarrow> ExecutionResult \<times> 64 word" where
  "UsageResult message counter =
     (case NextExecutionID counter of (execID, counter) \<Rightarrow> (zero_result execID ExitCodeUsage message, counter))"

subsection \<open>The prepared cache\<close>

text \<open>The addresses of the callbacks, zero for nil. That one address is one callback is a fact about the
  program's memory, so the addresses accompany the callbacks.\<close>

record callback_ids =
  ci_requireAbsolutePath :: "64 word"
  ci_listChildren :: "64 word"
  ci_isDirPath :: "64 word"
  ci_describePath :: "64 word"
  ci_formatLSLongRow :: "64 word"
  ci_readRawContent :: "64 word"
  ci_resolveSearchPaths :: "64 word"
  ci_collectFilesUnder :: "64 word"
  ci_writeFile :: "64 word"
  ci_appendFile :: "64 word"
  ci_editFile :: "64 word"
  ci_makeDir :: "64 word"
  ci_removeFile :: "64 word"
  ci_removeDir :: "64 word"
  ci_checkPathOp :: "64 word"
  ci_listExternalCommands :: "64 word"
  ci_runExternalCommand :: "64 word"
  ci_readExternalManual :: "64 word"
  ci_auditSink :: "64 word"

record preparedCacheKey =
  pk_rootDir :: string
  pk_workingDir :: string
  pk_profile :: CompatibilityProfile
  pk_policy :: ExecutionPolicy
  pk_ids :: callback_ids
  pk_pathEnvHash :: "64 word"

definition hash_byte :: "64 word \<Rightarrow> char \<Rightarrow> 64 word" where
  "hash_byte h c = xor h (of_nat (of_char c)) * 1099511628211"

definition stableStringSliceHash :: "string list \<Rightarrow> 64 word" where
  "stableStringSliceHash vs = foldl (\<lambda>h v. xor (foldl hash_byte h v) 0 * 1099511628211) 1469598103934665603 vs"

definition buildPreparedCacheKey :: "callback_ids \<Rightarrow> 'e Ops \<Rightarrow> preparedCacheKey option" where
  "buildPreparedCacheKey ids ops =
     (if o_CommandAliases ops \<noteq> [] \<or> o_EnvVars ops \<noteq> [] \<or> o_RCFiles ops \<noteq> [] \<or> o_VirtualMounts ops \<noteq> [] then None
      else let profile = (if o_Profile ops = [] then DefaultProfile else o_Profile ops) in
        (case ParseProfile profile of
           Inl e \<Rightarrow> None
         | Inr _ \<Rightarrow>
             (let root = trim_space (o_RootDir ops);
                  key = \<lparr>pk_rootDir = (if root = [] then ''/'' else root), pk_workingDir = trim_space (o_WorkingDir ops),
                         pk_profile = profile,
                         pk_policy = (if ep_WriteMode (o_Policy ops) = WriteModeUnset then DefaultPolicy else o_Policy ops),
                         pk_ids = ids, pk_pathEnvHash = stableStringSliceHash (o_PathEnv ops)\<rparr> in
              if ci_requireAbsolutePath ids = 0 \<or> ci_listChildren ids = 0 \<or> ci_isDirPath ids = 0 \<or>
                 ci_readRawContent ids = 0 \<or> ci_resolveSearchPaths ids = 0 \<or> ci_collectFilesUnder ids = 0 then None
              else Some key)))"

type_synonym 'e prepared_cache = "(preparedCacheKey \<times> 'e PreparedOps) option"

definition loadPreparedFromCache :: "'e prepared_cache \<Rightarrow> preparedCacheKey \<Rightarrow> 'e PreparedOps option" where
  "loadPreparedFromCache cache key =
     (case cache of None \<Rightarrow> None | Some (k, p) \<Rightarrow> if k \<noteq> key then None else Some p)"

definition storePreparedInCache :: "preparedCacheKey \<Rightarrow> 'e PreparedOps \<Rightarrow> 'e prepared_cache" where
  "storePreparedInCache key p = Some (key, p)"

subsection \<open>Executing a command line\<close>

text \<open>An engine: its registry, its cache, and the counter of the process.\<close>

record 'e Engine =
  en_registry :: "'e Registry"
  en_cache :: "'e prepared_cache"
  en_counter :: "64 word"

definition run_prepared :: "platform \<Rightarrow> string \<Rightarrow> 'e PreparedOps \<Rightarrow> 'e Engine \<Rightarrow> 'e sys \<Rightarrow>
    ExecutionResult \<times> 'e Engine \<times> 'e sys" where
  "run_prepared pl cmdline p en s =
     (case ExecutePreparedResult pl (Some (en_registry en)) cmdline p (en_counter en) s of
        (result, counter, s) \<Rightarrow> (result, en\<lparr>en_counter := counter\<rparr>, s))"

definition prepare_failed :: "go_error \<Rightarrow> 'e Engine \<Rightarrow> ExecutionResult \<times> 'e Engine" where
  "prepare_failed e en =
     (case NextExecutionID (en_counter en) of
        (execID, counter) \<Rightarrow>
          (zero_result execID ExitCodeGeneral (''execute: '' @ error_text e), en\<lparr>en_counter := counter\<rparr>))"

definition ExecuteResult :: "platform \<Rightarrow> string \<Rightarrow> callback_ids \<Rightarrow> 'e Ops \<Rightarrow> 'e Engine \<Rightarrow> 'e sys \<Rightarrow>
    ExecutionResult \<times> 'e Engine \<times> 'e sys" where
  "ExecuteResult pl cmdline ids ops en s =
     (case buildPreparedCacheKey ids ops of
        Some key \<Rightarrow>
          (case loadPreparedFromCache (en_cache en) key of
             Some cached \<Rightarrow> run_prepared pl cmdline cached en (ResetMutableState cached s)
           | None \<Rightarrow>
               (case PrepareOps pl (en_registry en) ops s of
                  (Inl e, s) \<Rightarrow> (case prepare_failed e en of (result, en) \<Rightarrow> (result, en, s))
                | (Inr p, s) \<Rightarrow>
                    run_prepared pl cmdline p (en\<lparr>en_cache := storePreparedInCache key p\<rparr>) (ResetMutableState p s)))
      | None \<Rightarrow>
          (case PrepareOps pl (en_registry en) ops s of
             (Inl e, s) \<Rightarrow> (case prepare_failed e en of (result, en) \<Rightarrow> (result, en, s))
           | (Inr p, s) \<Rightarrow> run_prepared pl cmdline p en (ResetMutableState p s)))"

definition Execute :: "platform \<Rightarrow> string \<Rightarrow> callback_ids \<Rightarrow> 'e Ops \<Rightarrow> 'e Engine \<Rightarrow> 'e sys \<Rightarrow>
    (string \<times> int) \<times> 'e Engine \<times> 'e sys" where
  "Execute pl cmdline ids ops en s =
     (case ExecuteResult pl cmdline ids ops en s of (r, en, s) \<Rightarrow> ((FlattenOutput r, xr_ExitCode r), en, s))"

end
