(* ===== verification/Engine_Invariant.thy ===== *)
theory Engine_Invariant
  imports Engine
begin

section \<open>What the engine adds to its callbacks: nothing\<close>

text \<open>
  An invariant of the world that every callback of the adapter, every mount and every builtin keeps is
  kept by whole executions: through defaults, mounts, path resolution, rc files, access policy, tracing,
  the cache and the script runner. \<open>world J\<close> is the property \<open>J\<close> of the world as a property of the
  state; contexts, traces, audit events and the working directory are the engine's own.
\<close>

definition world :: "('e \<Rightarrow> bool) \<Rightarrow> 'e sys \<Rightarrow> bool" where
  "world J s \<longleftrightarrow> J (sy_env s)"

lemma world_own [simp]:
  "world J (s\<lparr>sy_ctx := c\<rparr>) = world J s" "world J (s\<lparr>sy_cwd := d\<rparr>) = world J s"
  "world J (s\<lparr>sy_trace := t\<rparr>) = world J s" "world J (s\<lparr>sy_audit := a\<rparr>) = world J s"
  "world J (on_trace f s) = world J s" "world J (emitAudit ops ev s) = world J s" "world J (cwd_set p s) = world J s"
  by (simp_all add: world_def cwd_set_def)

lemma world_intros:
  "world J s \<Longrightarrow> world J (on_trace f s)" "world J s \<Longrightarrow> world J (cwd_set p s)"
  "world J s \<Longrightarrow> world J (s\<lparr>sy_cwd := d\<rparr>)"
  by simp_all

lemma world_executionContextErr: "world J s \<Longrightarrow> kept (world J) (executionContextErr s)"
  by (simp add: kept_def world_def)

subsection \<open>Callbacks and mounts that keep an invariant\<close>

definition ops_keep :: "('e sys \<Rightarrow> bool) \<Rightarrow> 'e Ops \<Rightarrow> bool" where
  "ops_keep I ops \<longleftrightarrow>
     keeps_inv I (o_ChangeWorkingDir ops) \<and> keeps_inv I (o_ResolvePath ops) \<and> keeps_inv I (o_RequireAbsolutePath ops) \<and>
     keeps_inv I (o_ListChildren ops) \<and> keeps_inv I (o_IsDirPath ops) \<and> keeps_inv I (o_DescribePath ops) \<and>
     keeps_inv I (o_ListEntries ops) \<and> keeps_inv I (o_EnumeratePaths ops) \<and> keeps_inv I (o_ReadRawContent ops) \<and>
     keeps_inv I (o_ReadMany ops) \<and> keeps_inv I (o_ResolveSearchPaths ops) \<and> keeps_inv I (o_CollectFilesUnder ops) \<and>
     keeps_inv I (o_SearchContent ops) \<and> keeps_inv I (o_WriteFile ops) \<and> keeps_inv I (o_AppendFile ops) \<and>
     keeps_inv I (o_EditFile ops) \<and> keeps_inv I (o_MakeDir ops) \<and> keeps_inv I (o_RemoveFile ops) \<and>
     keeps_inv I (o_RemoveDir ops) \<and> keeps_inv I (o_ApplyMutations ops) \<and> keeps_inv I (o_CheckPathOp ops) \<and>
     keeps_inv I (o_ListExternalCommands ops) \<and> keeps_inv I (o_ReadExternalManual ops) \<and>
     (\<forall>run req s. o_RunExternalCommand ops = Some run \<longrightarrow> I s \<longrightarrow> kept I (run req s)) \<and>
     (\<forall>m\<in>set (o_VirtualMounts ops). keeps_inv I (vm_Refresh m))"

definition mount_keeps :: "('e sys \<Rightarrow> bool) \<Rightarrow> 'e VirtualMount \<Rightarrow> bool" where
  "mount_keeps I m \<longleftrightarrow>
     keeps_inv I (Some (vm_Exists m)) \<and> keeps_inv I (Some (vm_StatPath m)) \<and> keeps_inv I (Some (vm_ReadContent m)) \<and>
     keeps_inv I (vm_ListEntries m) \<and> keeps_inv I (vm_EnumeratePaths m) \<and> keeps_inv I (vm_ReadMany m) \<and>
     keeps_inv I (vm_SearchContent m) \<and> keeps_inv I (vm_ApplyMutations m) \<and> keeps_inv I (vm_Refresh m)"

lemma keeps_inv_None [simp]: "keeps_inv I None"
  by (simp add: keeps_inv_def kept_def)

lemma keeps_inv_Some: "keeps_inv I (Some f) \<longleftrightarrow> (\<forall>x s. I s \<longrightarrow> kept I (f x s))"
  by (simp add: keeps_inv_def)

lemma keeps_invI: "(\<And>x s. I s \<Longrightarrow> kept I (f x s)) \<Longrightarrow> keeps_inv I (Some f)"
  by (simp add: keeps_inv_Some)

lemma kept_unsupported: "keeps_inv I f \<Longrightarrow> I s \<Longrightarrow> kept I (or_unsupported f x s)"
  by (cases f) (simp_all add: or_unsupported_def keeps_inv_Some kept_pair)

lemma mount_keepsD:
  assumes "mount_keeps I m" and "I s"
  shows "kept I (vm_Exists m () s)" "kept I (vm_StatPath m p s)" "kept I (vm_ReadContent m p s)"
    "vm_ListEntries m = Some le \<Longrightarrow> kept I (le q s)" "vm_EnumeratePaths m = Some en \<Longrightarrow> kept I (en q2 s)"
    "vm_ReadMany m = Some rm \<Longrightarrow> kept I (rm q3 s)" "vm_SearchContent m = Some sc \<Longrightarrow> kept I (sc q4 s)"
    "vm_ApplyMutations m = Some am \<Longrightarrow> kept I (am q5 s)"
  using assms by (auto simp: mount_keeps_def keeps_inv_Some)

lemma mount_keeps_refresh: "mount_keeps I m \<Longrightarrow> keeps_inv I (vm_Refresh m)"
  by (simp add: mount_keeps_def)

subsection \<open>Operations on one mount\<close>

lemma StatMountPath_keep: "mount_keeps I m \<Longrightarrow> I s \<Longrightarrow> kept I (StatMountPath (Some m) p s)"
  unfolding StatMountPath_def option.case by (rule mount_keepsD)

lemma ReadMountContent_keep: "mount_keeps I m \<Longrightarrow> I s \<Longrightarrow> kept I (ReadMountContent m p s)"
  unfolding ReadMountContent_def by (rule mount_keepsD)

lemma ListMountChildren_keep: "mount_keeps I m \<Longrightarrow> I s \<Longrightarrow> kept I (ListMountChildren m p s)"
  unfolding ListMountChildren_def by (assumption | rule keep mount_keepsD)+

lemma EnumerateMountFilesWithRequest_keep:
  "mount_keeps I m \<Longrightarrow> I s \<Longrightarrow> kept I (EnumerateMountFilesWithRequest m req s)"
  unfolding EnumerateMountFilesWithRequest_def by (assumption | rule keep mount_keepsD StatMountPath_keep)+

lemma read_each_keep: "mount_keeps I m \<Longrightarrow> I s \<Longrightarrow> kept I (read_each m ps s)"
proof (induction ps arbitrary: s)
  case (Cons p ps)
  show ?case unfolding read_each.simps
    by (assumption | rule keep ReadMountContent_keep [OF Cons.prems(1)] Cons.IH Cons.prems)+
qed (simp add: kept_pair)

lemma ReadManyFromMountRequest_keep:
  "mount_keeps I m \<Longrightarrow> I s \<Longrightarrow> kept I (ReadManyFromMountRequest m req s)"
  unfolding ReadManyFromMountRequest_def by (assumption | rule keep mount_keepsD read_each_keep)+

lemma ApplyMountMutations_keep: "mount_keeps I m \<Longrightarrow> I s \<Longrightarrow> kept I (ApplyMountMutations m batch s)"
  unfolding ApplyMountMutations_def by (assumption | rule keep mount_keepsD)+

lemma enumerate_targets_keep: "mount_keeps I m \<Longrightarrow> I s \<Longrightarrow> kept I (enumerate_targets m ts s)"
proof (induction ts arbitrary: s)
  case (Cons t ts)
  show ?case unfolding enumerate_targets.simps
    by (assumption | rule keep EnumerateMountFilesWithRequest_keep [OF Cons.prems(1)] Cons.IH Cons.prems)+
qed (simp add: kept_pair)

lemma SearchMountContent_keep: "mount_keeps I m \<Longrightarrow> I s \<Longrightarrow> kept I (SearchMountContent lib m req s)"
  unfolding SearchMountContent_def
  by (assumption | rule keep mount_keepsD enumerate_targets_keep ReadManyFromMountRequest_keep)+

lemmas mount_op_keep = mount_keepsD StatMountPath_keep ReadMountContent_keep ListMountChildren_keep EnumerateMountFilesWithRequest_keep
  ReadManyFromMountRequest_keep ApplyMountMutations_keep SearchMountContent_keep

subsection \<open>The router\<close>

lemma kept_bool [keep]: "(b \<Longrightarrow> kept I x) \<Longrightarrow> (\<not> b \<Longrightarrow> kept I y) \<Longrightarrow> kept I (case b of True \<Rightarrow> x | False \<Rightarrow> y)"
  by (cases b) simp_all

definition router_keeps :: "('e sys \<Rightarrow> bool) \<Rightarrow> 'e mountRouter \<Rightarrow> bool" where
  "router_keeps I r \<longleftrightarrow> (\<forall>m\<in>set r. mount_keeps I (mm_mount m))"

lemma match_member: "match r p = Some m \<Longrightarrow> m \<in> set r"
  by (auto simp: match_def Let_def find_Some_iff)

lemma router_keeps_match: "router_keeps I r \<Longrightarrow> match r p = Some m \<Longrightarrow> mount_keeps I (mm_mount m)"
  using match_member [of r p m] by (simp add: router_keeps_def)

lemma router_keeps_active:
  "router_keeps I r \<Longrightarrow> activeForPath r p s = (a, s') \<Longrightarrow> a = Inr y \<Longrightarrow> y = Some m \<Longrightarrow> mount_keeps I (mm_mount m)"
  using activeForPath_some [of r p s m s'] router_keeps_match by blast

lemma activeForPath_keep: "router_keeps I r \<Longrightarrow> I s \<Longrightarrow> kept I (activeForPath r p s)"
  unfolding activeForPath_def by (assumption | rule keep mount_keepsD router_keeps_match)+

lemma activeMounts_keep: "router_keeps I r \<Longrightarrow> I s \<Longrightarrow> kept I (activeMounts r s)"
proof (induction r arbitrary: s)
  case (Cons m r)
  have "mount_keeps I (mm_mount m)" "router_keeps I r" using Cons.prems(1) by (simp_all add: router_keeps_def)
  note keeps = mount_keepsD [OF this(1)] Cons.IH [OF this(2)]
  show ?case unfolding activeMounts.simps by (assumption | rule keep keeps Cons.prems)+
qed (simp add: kept_pair)

lemma isSyntheticDir_keep: "router_keeps I r \<Longrightarrow> I s \<Longrightarrow> kept I (isSyntheticDir r p s)"
  unfolding isSyntheticDir_def by (assumption | rule keep activeMounts_keep)+

lemma syntheticChildren_keep: "router_keeps I r \<Longrightarrow> I s \<Longrightarrow> kept I (syntheticChildren r p s)"
  unfolding syntheticChildren_def by (assumption | rule keep activeMounts_keep)+

lemma collect_synthetic_files_keep: "router_keeps I ms \<Longrightarrow> I s \<Longrightarrow> kept I (collect_synthetic_files ms dir files s)"
proof (induction ms arbitrary: files s)
  case (Cons m ms)
  have "mount_keeps I (mm_mount m)" "router_keeps I ms" using Cons.prems(1) by (simp_all add: router_keeps_def)
  note keeps = EnumerateMountFilesWithRequest_keep [OF this(1)] Cons.IH [OF this(2)]
  show ?case unfolding collect_synthetic_files.simps EnumerateMountFiles_def
    by (assumption | rule keep keeps Cons.prems)+
qed (simp add: kept_pair)

lemma collectFilesForSyntheticDir_keep:
  assumes "router_keeps I r" "I s" shows "kept I (collectFilesForSyntheticDir r p s)"
proof -
  have "router_keeps I ms" if "activeMounts r s = (a, s1)" "a = Inr ms" for a ms s1
    using activeMounts_subset [of r s ms s1] that assms(1) unfolding router_keeps_def by blast
  then show ?thesis
    unfolding collectFilesForSyntheticDir_def
    using assms by - (assumption | rule keep activeMounts_keep collect_synthetic_files_keep)+
qed

lemma statEntry_keep: "router_keeps I r \<Longrightarrow> I s \<Longrightarrow> kept I (statEntry r p s)"
  unfolding statEntry_def
  by (assumption | rule keep activeForPath_keep mount_keepsD router_keeps_active isSyntheticDir_keep)+

lemma stat_children_keep: "router_keeps I r \<Longrightarrow> I s \<Longrightarrow> kept I (stat_children r cs s)"
proof (induction cs arbitrary: s)
  case (Cons c cs)
  show ?case unfolding stat_children.simps by (assumption | rule keep statEntry_keep Cons.IH Cons.prems)+
qed (simp add: kept_pair)

lemma stat_files_keep: "router_keeps I r \<Longrightarrow> I s \<Longrightarrow> kept I (stat_files r fs s)"
proof (induction fs arbitrary: s)
  case (Cons f fs)
  show ?case unfolding stat_files.simps by (assumption | rule keep statEntry_keep Cons.IH Cons.prems)+
qed (simp add: kept_pair)

lemma listEntries_keep: "router_keeps I r \<Longrightarrow> I s \<Longrightarrow> kept I (listEntries r req s)"
  unfolding listEntries_def
  by (assumption | rule keep activeForPath_keep mount_keepsD router_keeps_active isSyntheticDir_keep
      syntheticChildren_keep stat_children_keep)+

lemma enumeratePaths_keep: "router_keeps I r \<Longrightarrow> I s \<Longrightarrow> kept I (enumeratePaths r req s)"
  unfolding enumeratePaths_def enumerateEntriesViaListing_def
  by (assumption | rule keep activeForPath_keep mount_keepsD router_keeps_active isSyntheticDir_keep
      collectFilesForSyntheticDir_keep stat_files_keep)+

lemmas router_op_keep = activeForPath_keep isSyntheticDir_keep syntheticChildren_keep statEntry_keep
  listEntries_keep enumeratePaths_keep

subsection \<open>The bridge\<close>

lemma bridge_path_keep:
  assumes "router_keeps I r"
  shows "keeps_inv I f \<Longrightarrow> keeps_inv I (Some (bridge_require r f))"
    "keeps_inv I g \<Longrightarrow> keeps_inv I (Some (bridge_list_children r g))"
    "keeps_inv I h \<Longrightarrow> keeps_inv I (Some (bridge_is_dir r h))"
    "keeps_inv I c \<Longrightarrow> keeps_inv I (Some (bridge_collect r c))"
    "keeps_inv I sp \<Longrightarrow> keeps_inv I (Some (bridge_search_paths r sp))"
    "keeps_inv I d \<Longrightarrow> keeps_inv I (Some (bridge_describe r d))"
    "keeps_inv I le \<Longrightarrow> keeps_inv I (Some (bridge_list_entries r le))"
    "keeps_inv I en \<Longrightarrow> keeps_inv I (Some (bridge_enumerate r en))"
    "keeps_inv I f \<Longrightarrow> keeps_inv I (Some (bridge_read r f))"
  unfolding bridge_require_def bridge_list_children_def bridge_is_dir_def bridge_collect_def bridge_paths_def
    bridge_search_paths_def bridge_describe_def bridge_list_entries_def bridge_enumerate_def bridge_read_def
  by (rule keeps_invI, (assumption | rule keep keeps_invD kept_unsupported router_op_keep [OF assms]
      ReadMountContent_keep router_keeps_active [OF assms])+)+

lemma read_split_keep:
  assumes "router_keeps I r" "keeps_inv I f"
  shows "I s \<Longrightarrow> kept I (read_split r bulk f raws index groups fsPaths s)"
proof (induction raws arbitrary: index groups fsPaths s)
  case (Cons raw raws)
  show ?case unfolding read_split.simps
    by (assumption | rule keep keeps_invD [OF assms(2)] router_op_keep [OF assms(1)] Cons.IH Cons.prems)+
qed (simp add: kept_pair)

lemma add_to_group_mounts:
  "fst ` snd ` set (add_to_group m p gs) \<subseteq> insert (mm_mount m) (fst ` snd ` set gs)"
  by (induction m p gs rule: add_to_group.induct) auto

definition groups_keep :: "('e sys \<Rightarrow> bool) \<Rightarrow> 'e read_groups \<Rightarrow> bool" where
  "groups_keep I gs \<longleftrightarrow> (\<forall>m \<in> fst ` snd ` set gs. mount_keeps I m)"

lemma groups_keep_add:
  assumes "groups_keep I groups" "mount_keeps I (mm_mount m)"
  shows "groups_keep I (add_to_group m p groups)"
  unfolding groups_keep_def
proof
  fix x
  assume "x \<in> fst ` snd ` set (add_to_group m p groups)"
  then have "x \<in> insert (mm_mount m) (fst ` snd ` set groups)" by (rule subsetD [OF add_to_group_mounts])
  then show "mount_keeps I x" using assms unfolding groups_keep_def by blast
qed

lemma read_split_groups:
  assumes "router_keeps I r"
  shows "read_split r bulk f raws index groups fsPaths s = (Inr (index', groups', fs'), s') \<Longrightarrow>
    groups_keep I groups \<Longrightarrow> groups_keep I groups'"
proof (induction raws arbitrary: index groups fsPaths s)
  case (Cons raw raws)
  obtain a s1 where a: "activeForPath r (normalizeAbsolutePath raw) s = (a, s1)"
    by (cases "activeForPath r (normalizeAbsolutePath raw) s")
  have add: "groups_keep I (add_to_group m p groups)" if "a = Inr (Some m)" for m p
    using groups_keep_add [OF Cons.prems(2) router_keeps_active [OF assms a that refl]] .
  note IH = Cons.IH [OF _ Cons.prems(2)] Cons.IH [OF _ add]
  show ?case
    using Cons.prems(1) by (cases bulk) (auto simp: Let_def a IH split: prod.splits sum.splits option.splits)
qed simp

lemma read_groups_keep: "groups_keep I gs \<Longrightarrow> I s \<Longrightarrow> kept I (read_groups_loop gs index s)"
proof (induction gs arbitrary: index s)
  case (Cons g gs)
  obtain k m ps where g: "g = (k, m, ps)" by (cases g)
  have "mount_keeps I m" "groups_keep I gs" using Cons.prems(1) by (auto simp: g groups_keep_def)
  note keeps = ReadManyFromMountRequest_keep [OF this(1)] Cons.IH [OF this(2)]
  show ?case unfolding g read_groups_loop.simps by (assumption | rule keep keeps Cons.prems)+
qed (simp add: kept_pair)

lemma bridge_read_many_keep:
  assumes "router_keeps I r" "keeps_inv I many" "keeps_inv I f"
  shows "keeps_inv I (Some (bridge_read_many r many f))"
proof (rule keeps_invI)
  fix req s
  assume s: "I s"
  have groups: "groups_keep I gs" if "read_split r b f raws [] [] [] s = (a, s1)" "a = Inr y" "y = (i, x)" "x = (gs, fs)"
    for b raws a y i x gs fs s1
    using read_split_groups [OF assms(1), of b f raws "[]" "[]" "[]" s i gs fs s1] that by (simp add: groups_keep_def)
  show "kept I (bridge_read_many r many f req s)"
  proof (cases "rm_Paths req = []")
    case False
    obtain a s1 where a: "read_split r (many \<noteq> None) f (rm_Paths req) [] [] [] s = (a, s1)"
      by (cases "read_split r (many \<noteq> None) f (rm_Paths req) [] [] [] s")
    have s1: "I s1" using read_split_keep [OF assms(1,3) s] a by (metis keptD)
    show ?thesis
    proof (cases a)
      case (Inr y)
      obtain i gs fs where y: "y = (i, gs, fs)" by (cases y)
      have gs: "groups_keep I gs" using groups [OF a Inr y] by simp
      show ?thesis
        unfolding bridge_read_many_def if_not_P [OF False] a Inr y sum.case prod.case
        by (assumption | rule keep keeps_invD [OF assms(2)] read_groups_keep [OF gs] s1)+
    qed (use s1 False a in \<open>simp add: bridge_read_many_def kept_pair\<close>)
  qed (use s in \<open>simp add: bridge_read_many_def kept_pair\<close>)
qed

lemma fallback_keep:
  assumes "ops_keep I ops"
  shows "I s \<Longrightarrow> kept I (applyFilesystemFallbackMutation ops op s)"
    "I s \<Longrightarrow> kept I (apply_fallbacks ops fsOps s)" "I s \<Longrightarrow> kept I (batch_filesystem ops fsOps s)"
proof -
  note ops = assms [unfolded ops_keep_def]
  have one: "kept I (applyFilesystemFallbackMutation ops op s)" if "I s" for op s
    using ops that by (cases "ms_Kind op") (auto simp: applyFilesystemFallbackMutation_def kept_pair intro: keeps_invD)
  have all: "kept I (apply_fallbacks ops fsOps s)" if "I s" for fsOps s
    using that
  proof (induction fsOps arbitrary: s)
    case (Cons op fsOps)
    show ?case unfolding apply_fallbacks.simps by (assumption | rule keep one Cons.IH Cons.prems)+
  qed (simp add: kept_pair)
  show "I s \<Longrightarrow> kept I (applyFilesystemFallbackMutation ops op s)" "I s \<Longrightarrow> kept I (apply_fallbacks ops fsOps s)"
    using one all by blast+
  show "kept I (batch_filesystem ops fsOps s)" if "I s"
    unfolding batch_filesystem_def
    using ops that by - (assumption | rule keep all | (elim conjE, erule keeps_invD_some))+
qed

lemma split_batch_member:
  "split_batch r ops m mo fo = Inr (m', mo', fo') \<Longrightarrow> \<forall>x. m = Some x \<longrightarrow> x \<in> set r \<Longrightarrow> m' = Some mm \<Longrightarrow> mm \<in> set r"
  by (induction ops arbitrary: m mo fo) (auto simp: Let_def match_member split: if_splits option.splits)

lemma in_background_keep [keep]:
  assumes "\<And>t. world J t \<Longrightarrow> kept (world J) (f t)" and "world J s"
  shows "kept (world J) (in_background f s)"
  using assms(1) [of "s\<lparr>sy_ctx := CtxLive, sy_trace := None\<rparr>"] assms(2)
  by (auto simp: in_background_def kept_def split: prod.split)

lemma bridge_apply_keep:
  assumes "router_keeps (world J) r" "ops_keep (world J) ops"
  shows "keeps_inv (world J) (Some (bridge_apply visit r ops))"
proof (rule keeps_invI)
  fix req s
  let ?I = "world J"
  assume s: "?I s"
  show "kept ?I (bridge_apply visit r ops req s)"
  proof (cases "split_batch r req None [] []")
    case (Inr y)
    obtain m mo fo where y: "y = (m, mo, fo)" by (cases y)
    have m: "mount_keeps ?I (mm_mount mm)" if "m = Some mm" for mm
      using split_batch_member [OF Inr [unfolded y] _ that] assms(1) by (simp add: router_keeps_def)
    show ?thesis
      unfolding bridge_apply_def Inr y sum.case prod.case validateMountedMutationBatch_def
      by (assumption | rule keep ApplyMountMutations_keep m fallback_keep [OF assms(2)] s)+
  qed (simp add: bridge_apply_def kept_pair s)
qed

lemma bridge_mutation_keep:
  assumes "keeps_inv I (Some mutate)" "keeps_inv I f"
  shows "keeps_inv I (Some (bridge_mutation r mutate path_of spec f))"
  unfolding bridge_mutation_def
  by (rule keeps_invI, (assumption | rule keep keeps_invD [OF assms(2)] keeps_invD_some [OF assms(1) refl])+)

lemma bridge_check_keep:
  assumes "router_keeps I r" "keeps_inv I f"
  shows "keeps_inv I (Some (bridge_check r f))"
  unfolding bridge_check_def
  by (rule keeps_invI, (assumption | rule keep keeps_invD_some [OF assms(2)] router_op_keep [OF assms(1)]
      mount_keepsD router_keeps_active [OF assms(1)])+)

lemma split_targets_keep: "router_keeps I r \<Longrightarrow> I s \<Longrightarrow> kept I (split_targets r ts m mt fs s)"
proof (induction ts arbitrary: m mt fs s)
  case (Cons t ts)
  show ?case unfolding split_targets.simps
    by (assumption | rule keep router_op_keep [OF Cons.prems(1)] Cons.IH Cons.prems)+
qed (simp add: kept_pair)

lemma split_targets_mount:
  assumes "router_keeps I r"
  shows "split_targets r ts m mt fs s = (Inr (m', mt', fs'), s') \<Longrightarrow>
    \<forall>x. m = Some x \<longrightarrow> mount_keeps I (mm_mount x) \<Longrightarrow> m' = Some mm \<Longrightarrow> mount_keeps I (mm_mount mm)"
proof (induction ts arbitrary: m mt fs s)
  case (Cons t ts)
  obtain a s1 where a: "activeForPath r t s = (a, s1)" by (cases "activeForPath r t s")
  have act: "\<forall>x. Some y = Some x \<longrightarrow> mount_keeps I (mm_mount x)" if "a = Inr (Some y)" for y
    using router_keeps_active [OF assms a that] by simp
  note IH = Cons.IH [OF _ Cons.prems(2,3)] Cons.IH [OF _ act Cons.prems(3)]
  show ?case
    using Cons.prems(1) IH by (cases m) (auto simp: a split: prod.splits sum.splits option.splits if_splits)
qed simp

lemma bridge_search_keep:
  assumes "router_keeps I r" "keeps_inv I f"
  shows "keeps_inv I (Some (bridge_search (SearchMountContent lib) r f))"
proof (rule keeps_invI)
  fix req s
  assume s: "I s"
  show "kept I (bridge_search (SearchMountContent lib) r f req s)"
  proof (cases "sr_Targets req = []")
    case False
    let ?ts = "map normalizeAbsolutePath (sr_Targets req)"
    obtain a s1 where a: "split_targets r ?ts None [] [] s = (a, s1)" by (cases "split_targets r ?ts None [] [] s")
    have s1: "I s1" using split_targets_keep [OF assms(1) s] a by (metis keptD)
    show ?thesis
    proof (cases a)
      case (Inr y)
      obtain m mt fs where y: "y = (m, mt, fs)" by (cases y)
      have m: "mount_keeps I (mm_mount mm)" if "m = Some mm" for mm
        using split_targets_mount [OF assms(1) a [unfolded Inr y] _ that] by simp
      show ?thesis
        unfolding bridge_search_def if_not_P [OF False] Let_def a Inr y sum.case prod.case
        by (assumption | rule keep kept_unsupported assms(2) SearchMountContent_keep m s1)+
    qed (use s1 False a in \<open>simp add: bridge_search_def kept_pair Let_def\<close>)
  qed (use s in \<open>simp add: bridge_search_def kept_unsupported assms(2)\<close>)
qed

lemma wrapOps_keep:
  assumes "router_keeps (world J) r" "ops_keep (world J) ops"
  shows "ops_keep (world J) (wrapOps (SearchMountContent lib) visit r ops)"
proof -
  note ops = assms(2) [unfolded ops_keep_def]
  note apply_keep = bridge_apply_keep [OF assms]
  show ?thesis
    using ops unfolding ops_keep_def wrapOps_def Let_def
    by (simp add: bridge_path_keep [OF assms(1)] bridge_read_many_keep [OF assms(1)] bridge_search_keep [OF assms(1)]
        bridge_mutation_keep [OF apply_keep] apply_keep bridge_check_keep [OF assms(1)])
qed

subsection \<open>Path resolution, access policy, trace\<close>

lemma resolvePath_keep: "keeps_inv I base \<Longrightarrow> I s \<Longrightarrow> kept I (resolvePath base raw s)"
  unfolding resolvePath_def by (assumption | rule keep keeps_invD)+

lemma resolve_all_keep: "keeps_inv I base \<Longrightarrow> I s \<Longrightarrow> kept I (resolve_all base ps s)"
proof (induction ps arbitrary: s)
  case (Cons p ps)
  show ?case unfolding resolve_all.simps by (assumption | rule keep resolvePath_keep Cons.IH Cons.prems)+
qed (simp add: kept_pair)

lemma resolving_keep:
  "keeps_inv I base \<Longrightarrow> keeps_inv I f \<Longrightarrow> keeps_inv I (Some (resolving base get put f))"
  unfolding resolving_def by (rule keeps_invI, (assumption | rule keep keeps_invD resolvePath_keep)+)

lemma resolving_all_keep:
  "keeps_inv I base \<Longrightarrow> keeps_inv I (Some f) \<Longrightarrow> keeps_inv I (Some (resolving_all base get puts f))"
  unfolding resolving_all_def by (rule keeps_invI, (assumption | rule keep keeps_invD_some refl resolve_all_keep)+)

lemma resolving_search_keep:
  assumes "keeps_inv I base" "keeps_inv I (Some f)"
  shows "keeps_inv I (Some (resolving_search base f))"
proof (rule keeps_invI)
  fix req s
  assume "I s"
  then show "kept I (resolving_search base f req s)"
    using keeps_invD_some [OF resolving_all_keep [OF assms] refl] keeps_invD_some [OF assms(2) refl]
    by (simp add: resolving_search_def)
qed

lemma changeWorkingDir_keep:
  assumes "keeps_inv (world J) base" "keeps_inv (world J) isDir"
  shows "keeps_inv (world J) (Some (changeWorkingDir root base isDir))"
  unfolding changeWorkingDir_def
  by (rule keeps_invI, (assumption | rule keep world_intros keeps_invD [OF assms(2)] resolvePath_keep [OF assms(1)])+)

lemma keeps_inv_map: "keeps_inv I f \<Longrightarrow> (\<And>g. keeps_inv I (Some g) \<Longrightarrow> keeps_inv I (Some (h g))) \<Longrightarrow> keeps_inv I (map_option h f)"
  by (cases f) simp_all

lemma resolving_map_keep:
  assumes "keeps_inv I base"
  shows "keeps_inv I f \<Longrightarrow> keeps_inv I (map_option (\<lambda>f. resolving base get put (Some f)) f)"
    "keeps_inv I h \<Longrightarrow> keeps_inv I (map_option (resolving_all base gets puts) h)"
    "keeps_inv I g \<Longrightarrow> keeps_inv I (map_option (resolving_search base) g)"
  by (erule keeps_inv_map; simp add: assms resolving_keep resolving_all_keep resolving_search_keep)+

lemma resolving_ops_keep:
  assumes "ops_keep (world J) ops"
  shows "ops_keep (world J) (resolving_ops root initial ops)"
proof -
  note ops = assms [unfolded ops_keep_def]
  show ?thesis
    using ops unfolding ops_keep_def resolving_ops_def Let_def
    by (simp add: keeps_invI resolvePath_keep changeWorkingDir_keep resolving_keep resolving_map_keep)
qed

lemma keeps_invE: "keeps_inv I (Some f) \<Longrightarrow> I s \<Longrightarrow> f x s = (r, s') \<Longrightarrow> I s'"
  using keeps_invD_some [of I "Some f" f s x] by (simp add: kept_def)

lemma traced_keep:
  assumes "keeps_inv (world J) (Some f)"
  shows "keeps_inv (world J) (Some (traced p d f))"
proof (rule keeps_invI)
  fix x s
  assume "world J s"
  moreover obtain r s' where f: "f x (on_trace (recordRequested (p x)) s) = (r, s')"
    by (cases "f x (on_trace (recordRequested (p x)) s)")
  ultimately have "world J s'" using keeps_invE [OF assms _ f] by simp
  then show "kept (world J) (traced p d f x s)" by (cases r) (simp_all add: traced_def f kept_def)
qed

lemma traced_edit_keep:
  assumes "keeps_inv (world J) (Some f)" "keeps_inv (world J) (o_ReadRawContent ops)"
  shows "keeps_inv (world J) (Some (traced_edit ops f))"
proof (rule keeps_invI)
  fix x :: "string \<times> string \<times> string \<times> bool" and s
  assume s: "world J s"
  obtain p old new ra where x: "x = (p, old, new, ra)" by (cases x)
  obtain r s1 where f: "f x (on_trace (recordRequested p) s) = (r, s1)" by (cases "f x (on_trace (recordRequested p) s)")
  have s1: "world J s1" using keeps_invE [OF assms(1) _ f] s by simp
  obtain n s2 where n: "(case o_ReadRawContent ops of None \<Rightarrow> (length new, s1)
      | Some read \<Rightarrow> (case read p s1 of (Inr raw, s2) \<Rightarrow> (length raw, s2) | (Inl _, s2) \<Rightarrow> (length new, s2))) = (n, s2)"
    by fastforce
  have "world J s2"
    using n s1 keeps_invE [of "world J" _ s1 p] assms(2) by (auto split: option.splits prod.splits sum.splits)
  then show "kept (world J) (traced_edit ops f x s)"
    using s1 n by (cases r) (simp_all add: traced_edit_def f [unfolded x] x kept_def)
qed

lemma traced_mutations_keep:
  assumes "keeps_inv (world J) (Some f)"
  shows "keeps_inv (world J) (Some (traced_mutations f))"
proof (rule keeps_invI)
  fix ops s
  assume "world J s"
  moreover obtain r s' where f: "f ops (on_trace (fold (\<lambda>op. recordRequested (ms_Path op)) ops) s) = (r, s')"
    by (cases "f ops (on_trace (fold (\<lambda>op. recordRequested (ms_Path op)) ops) s)")
  ultimately have "world J s'" using keeps_invE [OF assms _ f] by simp
  then show "kept (world J) (traced_mutations f ops s)" by (cases r) (simp_all add: traced_mutations_def f kept_def)
qed

lemma traced_map_keep:
  "keeps_inv (world J) f \<Longrightarrow> keeps_inv (world J) (map_option (traced p d) f)"
  "keeps_inv (world J) e \<Longrightarrow> keeps_inv (world J) (o_ReadRawContent ops) \<Longrightarrow> keeps_inv (world J) (map_option (traced_edit ops) e)"
  "keeps_inv (world J) m \<Longrightarrow> keeps_inv (world J) (map_option traced_mutations m)"
  by (erule keeps_inv_map; simp add: traced_keep traced_edit_keep traced_mutations_keep)+

lemma WrapOps_keep:
  assumes "ops_keep (world J) ops"
  shows "ops_keep (world J) (WrapOps ops)"
proof -
  note ops = assms [unfolded ops_keep_def]
  show ?thesis
    using ops unfolding ops_keep_def WrapOps_def by (auto simp: traced_map_keep)
qed

lemma withPathAccessPolicy_keep:
  assumes "ops_keep I ops"
  shows "ops_keep I (withPathAccessPolicy ops)"
proof -
  have "keeps_inv I (o_DescribePath ops)" using assms by (simp add: ops_keep_def)
  then have "keeps_inv I (Some (describe_with_policy (o_Policy ops) (o_DescribePath ops)))"
    unfolding describe_with_policy_def by - (rule keeps_invI, (assumption | rule keep keeps_invD_some)+)
  then show ?thesis using assms by (simp add: ops_keep_def withPathAccessPolicy_def)
qed

subsection \<open>Preparing\<close>

lemma or_else_keep: "keeps_inv I f \<Longrightarrow> keeps_inv I (Some d) \<Longrightarrow> keeps_inv I (or_else f d)"
  by (simp add: or_else_def)

lemma unsupported_keep: "keeps_inv I (Some unsupported_op)" "keeps_inv I (Some (\<lambda>x s. (Inr y, s)))"
  by (rule keeps_invI, simp add: unsupported_op_def kept_pair)+

lemma ops_with_defaults_keep: "ops_keep I ops \<Longrightarrow> ops_keep I (ops_with_defaults ops)"
  by (simp add: ops_keep_def ops_with_defaults_def or_else_keep unsupported_keep)

lemma ops_fields_keep [simp]:
  "ops_keep I (ops_with_bootstrap ops) = ops_keep I ops"
  "ops_keep I (ops\<lparr>o_RootDir := x\<rparr>) = ops_keep I ops" "ops_keep I (ops\<lparr>o_WorkingDir := x\<rparr>) = ops_keep I ops"
  "ops_keep I (ops\<lparr>o_CommandAliases := a, o_EnvVars := v\<rparr>) = ops_keep I ops"
  by (simp_all add: ops_keep_def ops_with_bootstrap_def)

lemma stat_all_keep: "keeps_inv I (Some stat) \<Longrightarrow> I s \<Longrightarrow> kept I (stat_all stat ps s)"
proof (induction ps arbitrary: s)
  case (Cons p ps)
  show ?case unfolding stat_all.simps
    by (assumption | rule keep keeps_invD_some [OF Cons.prems(1) refl] Cons.IH Cons.prems)+
qed (simp add: kept_pair)

lemma sys_mount_keeps: "mount_keeps I (NewSysBinMount catalog)"
proof -
  have stat: "keeps_inv I (Some (sys_stat catalog))"
    by (rule keeps_invI) (simp add: kept_snd)
  have list: "keeps_inv I (Some (sys_list catalog))"
    unfolding sys_list_def by (rule keeps_invI, (assumption | rule keep stat_all_keep [OF stat])+)
  have "keeps_inv I (Some (sys_enumerate catalog))"
    unfolding sys_enumerate_def enumerateEntriesFromLister_def enumerate_file_def
    by (rule keeps_invI, (assumption | rule keep keeps_invD_some [OF list refl] keeps_invD_some [OF stat refl])+)
  moreover have "keeps_inv I (Some (sys_read catalog))"
    unfolding sys_read_def by (rule keeps_invI, (assumption | rule keep)+)
  ultimately show ?thesis
    using stat list by (simp add: mount_keeps_def NewSysBinMount_def keeps_inv_Some kept_pair)
qed

lemma external_mount_keeps:
  assumes "keeps_inv I lister" "keeps_inv I manual"
  shows "mount_keeps I (NewExternalBinMount lister manual)"
proof -
  have cmds: "I s \<Longrightarrow> kept I (ext_commands lister s)" for s
    unfolding ext_commands_def by (assumption | rule keep keeps_invD_some [OF assms(1)])+
  have paths: "I s \<Longrightarrow> kept I (ext_paths lister s)" for s
    unfolding ext_paths_def by (assumption | rule keep cmds)+
  have lookup: "I s \<Longrightarrow> kept I (ext_lookup lister n s)" for n s
    unfolding ext_lookup_def by (assumption | rule keep cmds)+
  have exists: "keeps_inv I (Some (ext_exists lister))"
    unfolding ext_exists_def by (rule keeps_invI, (assumption | rule keep paths)+)
  have stat: "keeps_inv I (Some (ext_stat lister))"
    unfolding ext_stat_def by (rule keeps_invI, (assumption | rule keep lookup keeps_invD_some [OF exists refl])+)
  have entries: "I s \<Longrightarrow> kept I (ext_entries lister s)" for s
    unfolding ext_entries_def by (assumption | rule keep paths stat_all_keep [OF stat])+
  have "keeps_inv I (Some (ext_list lister))"
    unfolding ext_list_def by (rule keeps_invI, (assumption | rule keep entries)+)
  moreover have "keeps_inv I (Some (ext_enumerate lister))"
    unfolding ext_enumerate_def enumerate_file_def
    by (rule keeps_invI, (assumption | rule keep entries keeps_invD_some [OF stat refl])+)
  moreover have "keeps_inv I (Some (ext_read lister manual))"
    unfolding ext_read_def ext_summary_def
    by (rule keeps_invI, (assumption | rule keep lookup keeps_invD_some [OF assms(2)])+)
  ultimately show ?thesis
    using exists stat by (simp add: mount_keeps_def NewExternalBinMount_def)
qed

definition adapter_keeps :: "('e \<Rightarrow> bool) \<Rightarrow> 'e Ops \<Rightarrow> bool" where
  "adapter_keeps J ops \<longleftrightarrow> ops_keep (world J) ops \<and> (\<forall>m\<in>set (o_VirtualMounts ops). mount_keeps (world J) m)"

lemma withMountRouter_keep:
  assumes "adapter_keeps J ops" "withMountRouter pl reg ops = Inr ops'"
  shows "ops_keep (world J) ops'"
proof -
  obtain r where r: "newMountRouter (engine_mounts reg ops) = Inr r"
    and ops': "ops' = (if isEmpty r then ops else wrapOps (SearchMountContent (pl_text pl)) (pl_visit pl) r ops)"
    using assms(2) by (auto simp: withMountRouter_def split: sum.splits)
  have "set (map mm_mount r) = {m. Some m \<in> set (engine_mounts reg ops)}" using newMountRouter_ok [OF r] by blast
  moreover have "mount_keeps (world J) m" if "Some m \<in> set (engine_mounts reg ops)" for m
    using that assms(1)
    by (auto simp: engine_mounts_def adapter_keeps_def ops_keep_def sys_mount_keeps external_mount_keeps split: if_splits)
  ultimately have "router_keeps (world J) r" unfolding router_keeps_def by auto
  then show ?thesis using assms(1) by (simp add: ops' adapter_keeps_def wrapOps_keep)
qed

lemma withPathResolution_keep:
  assumes "ops_keep (world J) ops" "world J s" "withPathResolution ops s = (res, s')"
  shows "world J s'" "res = Inr (ops', initial) \<Longrightarrow> ops_keep (world J) ops'"
proof -
  have base: "keeps_inv (world J) (o_RequireAbsolutePath ops)" "keeps_inv (world J) (o_IsDirPath ops)"
    using assms(1) by (simp_all add: ops_keep_def)
  have "kept (world J) (resolveInitialWorkingDir root raw (o_RequireAbsolutePath ops) (o_IsDirPath ops) s)" for root raw
    unfolding resolveInitialWorkingDir_def
    using assms(2) by - (assumption | rule keep keeps_invD [OF base(1)] keeps_invD [OF base(2)])+
  then have "kept (world J) (withPathResolution ops s)"
    unfolding withPathResolution_def by - (assumption | rule keep world_intros)+
  then show "world J s'" using assms(3) by (simp add: kept_def)
  show "res = Inr (ops', initial) \<Longrightarrow> ops_keep (world J) ops'"
    using assms(3) resolving_ops_keep [OF assms(1)]
    by (auto simp: withPathResolution_def Let_def split: prod.splits sum.splits)
qed

lemma load_rc_keep:
  assumes "ops_keep I ops" shows "I s \<Longrightarrow> kept I (load_rc ops paths aliases envVars s)"
proof (induction paths arbitrary: aliases envVars s)
  case (Cons p paths)
  have f: "keeps_inv I (o_RequireAbsolutePath ops)" "keeps_inv I (o_ReadRawContent ops)"
    using assms by (simp_all add: ops_keep_def)
  show ?case unfolding load_rc.simps
    by (assumption | rule keep keeps_invD [OF f(1)] keeps_invD [OF f(2)] Cons.IH Cons.prems)+
qed (simp add: kept_pair)

lemma withRuntimeBootstrap_keep:
  assumes "ops_keep I ops" "I s" "withRuntimeBootstrap ops s = (res, s')"
  shows "I s'" "res = Inr ops' \<Longrightarrow> ops_keep I ops'"
proof -
  have "kept I (withRuntimeBootstrap ops s)"
    unfolding withRuntimeBootstrap_def by (assumption | rule keep load_rc_keep [OF assms(1)] assms(2))+
  then show "I s'" using assms(3) by (simp add: kept_def)
  show "res = Inr ops' \<Longrightarrow> ops_keep I ops'"
    using assms(1,3) by (auto simp: withRuntimeBootstrap_def Let_def split: prod.splits sum.splits if_splits)
qed

text \<open>What \<open>normalizeOps\<close> goes through when it succeeds.\<close>

definition rooted_ops :: "'e Ops \<Rightarrow> 'e Ops" where
  "rooted_ops ops =
     (let ops = (if trim_space (o_RootDir ops) = [] then ops\<lparr>o_RootDir := ''/''\<rparr> else ops) in
      if trim_space (o_WorkingDir ops) = [] then ops\<lparr>o_WorkingDir := o_RootDir ops\<rparr> else ops)"

lemma normalizeOps_rooted:
  "normalizeOps pl reg ops s =
     (let ops = rooted_ops ops in
      case missing_callback ops of
        Some e \<Rightarrow> (Inl e, s)
      | None \<Rightarrow>
      (let ops = ops_with_defaults ops in
       case ParseProfile (o_Profile ops) of
         Inl e \<Rightarrow> (Inl e, s)
       | Inr _ \<Rightarrow>
       (case withMountRouter pl reg (ops_with_bootstrap ops) of
          Inl e \<Rightarrow> (Inl e, s)
        | Inr ops \<Rightarrow>
        (case withPathResolution ops s of
           (Inl e, s) \<Rightarrow> (Inl e, s)
         | (Inr (ops, initial), s) \<Rightarrow>
         (case withRuntimeBootstrap ops s of
            (Inl e, s) \<Rightarrow> (Inl e, s)
          | (Inr ops, s) \<Rightarrow> (Inr (withPathAccessPolicy ops, initial), s))))))"
  by (simp add: normalizeOps_def rooted_ops_def Let_def)

lemma normalizeOps_cases:
  assumes "normalizeOps pl reg ops s = (res, s')"
  shows "(\<exists>e. res = Inl e \<and> s' = s) \<or>
    (\<exists>mounted p s1. withMountRouter pl reg (ops_with_bootstrap (ops_with_defaults (rooted_ops ops))) = Inr mounted \<and>
       withPathResolution mounted s = (p, s1) \<and>
       (case p of Inl e \<Rightarrow> res = Inl e \<and> s' = s1
        | Inr (ops, initial) \<Rightarrow>
            (case withRuntimeBootstrap ops s1 of
               (Inl e, s2) \<Rightarrow> res = Inl e \<and> s' = s2
             | (Inr ops, s2) \<Rightarrow> res = Inr (withPathAccessPolicy ops, initial) \<and> s' = s2)))"
proof -
  show ?thesis
  proof (cases "missing_callback (rooted_ops ops) = None \<and> (\<exists>x. ParseProfile (o_Profile (ops_with_defaults (rooted_ops ops))) = Inr x)
      \<and> (\<exists>m. withMountRouter pl reg (ops_with_bootstrap (ops_with_defaults (rooted_ops ops))) = Inr m)")
    case False
    then have "\<exists>e. res = Inl e \<and> s' = s"
      using assms unfolding normalizeOps_rooted Let_def by (auto split: option.splits sum.splits)
    then show ?thesis by blast
  next
    case True
    then obtain x mounted where ok: "missing_callback (rooted_ops ops) = None"
      "ParseProfile (o_Profile (ops_with_defaults (rooted_ops ops))) = Inr x"
      "withMountRouter pl reg (ops_with_bootstrap (ops_with_defaults (rooted_ops ops))) = Inr mounted" by blast
    obtain p s1 where p: "withPathResolution mounted s = (p, s1)" by (cases "withPathResolution mounted s")
    have "case p of Inl e \<Rightarrow> res = Inl e \<and> s' = s1
        | Inr (ops, initial) \<Rightarrow>
            (case withRuntimeBootstrap ops s1 of
               (Inl e, s2) \<Rightarrow> res = Inl e \<and> s' = s2
             | (Inr ops, s2) \<Rightarrow> res = Inr (withPathAccessPolicy ops, initial) \<and> s' = s2)"
      using assms unfolding normalizeOps_rooted Let_def by (simp add: ok p) (auto split: sum.splits prod.splits)
    then show ?thesis using ok(3) p by blast
  qed
qed

lemma adapter_keeps_prepared:
  assumes "adapter_keeps J ops"
  shows "adapter_keeps J (ops_with_bootstrap (ops_with_defaults (rooted_ops ops)))"
proof -
  have "o_VirtualMounts (ops_with_bootstrap (ops_with_defaults (rooted_ops ops))) = o_VirtualMounts ops"
    by (simp add: ops_with_bootstrap_def ops_with_defaults_def rooted_ops_def Let_def)
  moreover have "ops_keep (world J) (rooted_ops ops)"
    using assms by (simp add: adapter_keeps_def rooted_ops_def Let_def)
  ultimately show ?thesis
    using assms ops_with_defaults_keep by (simp add: adapter_keeps_def)
qed

lemma normalizeOps_keep:
  assumes "adapter_keeps J ops" "world J s" "normalizeOps pl reg ops s = (res, s')"
  shows "world J s'" "res = Inr (ops', initial) \<Longrightarrow> ops_keep (world J) ops'"
proof -
  have "world J s' \<and> (\<forall>ops' initial. res = Inr (ops', initial) \<longrightarrow> ops_keep (world J) ops')"
    using normalizeOps_cases [OF assms(3)]
  proof (elim disjE exE conjE)
    fix e assume "res = Inl e" "s' = s"
    then show ?thesis using assms(2) by simp
  next
    fix mounted p s1
    assume m: "withMountRouter pl reg (ops_with_bootstrap (ops_with_defaults (rooted_ops ops))) = Inr mounted"
      and p: "withPathResolution mounted s = (p, s1)"
      and r: "case p of Inl e \<Rightarrow> res = Inl e \<and> s' = s1
        | Inr (ops, initial) \<Rightarrow>
            (case withRuntimeBootstrap ops s1 of
               (Inl e, s2) \<Rightarrow> res = Inl e \<and> s' = s2
             | (Inr ops, s2) \<Rightarrow> res = Inr (withPathAccessPolicy ops, initial) \<and> s' = s2)"
    note mounted = withMountRouter_keep [OF adapter_keeps_prepared [OF assms(1)] m]
    note resolved = withPathResolution_keep [OF mounted assms(2) p]
    show ?thesis
    proof (cases p)
      case (Inl e)
      then show ?thesis using r resolved(1) by simp
    next
      case (Inr x)
      obtain ops1 dir where x: "x = (ops1, dir)" by (cases x)
      obtain b where b: "withRuntimeBootstrap ops1 s1 = (b, s')"
        "case b of Inl e \<Rightarrow> res = Inl e | Inr ops \<Rightarrow> res = Inr (withPathAccessPolicy ops, dir)"
        using r Inr x by (cases "withRuntimeBootstrap ops1 s1") (auto split: sum.splits)
      note boot = withRuntimeBootstrap_keep [OF resolved(2) [OF Inr [unfolded x]] resolved(1) b(1)]
      show ?thesis
        using boot b(2) withPathAccessPolicy_keep by (cases b) auto
    qed
  qed
  then show "world J s'" "res = Inr (ops', initial) \<Longrightarrow> ops_keep (world J) ops'" by blast+
qed

subsection \<open>Executing\<close>

text \<open>The builtins of a registry keep what the callbacks they are given keep.\<close>

definition builtins_keep :: "('e \<Rightarrow> bool) \<Rightarrow> 'e Registry \<Rightarrow> bool" where
  "builtins_keep J reg \<longleftrightarrow> (\<forall>ops. ops_keep (world J) ops \<longrightarrow> builtin_keeps (world J) reg ops)"

definition cache_keeps :: "('e \<Rightarrow> bool) \<Rightarrow> 'e Engine \<Rightarrow> bool" where
  "cache_keeps J en \<longleftrightarrow> (\<forall>key p. en_cache en = Some (key, p) \<longrightarrow> ops_keep (world J) (pr_normalized p))"

lemma run_keep:
  assumes "builtins_keep J reg" "ops_keep (world J) ops" "world J s"
  shows "kept (world J) (runScript (runCommand reg ops) ops cmdline s)"
proof -
  note ops = assms(2) [unfolded ops_keep_def]
  have "engine_invariant (world J) reg ops"
    using ops assms(1,2) unfolding engine_invariant_def builtins_keep_def
    by (auto simp: world_executionContextErr)
  then have "script_invariant (world J) (runCommand reg ops) ops"
    by (rule engine_script_invariant) (use ops in auto)
  then show ?thesis using assms(3) by (rule runScript_inv)
qed

lemma ExecutePreparedResult_keep:
  assumes "builtins_keep J reg" "ops_keep (world J) (pr_normalized p)" "world J s"
  shows "world J (snd (snd (ExecutePreparedResult pl (Some reg) cmdline p counter s)))"
proof -
  let ?ops = "WrapOps (pr_normalized p)"
  have "world J s2" if "runScript (runCommand reg ?ops) ?ops cmdline t = (out, s1)" "world J t"
      "executionContextErr s1 = (e, s2)" for t out e s1 s2
    using run_keep [OF assms(1) WrapOps_keep [OF assms(2)] that(2), of cmdline] that(1,3)
      world_executionContextErr [of J s1] by (simp add: kept_def)
  then show ?thesis
    using assms(3) by (auto simp: ExecutePreparedResult_def Let_def split: prod.splits)
qed

lemma run_prepared_keep:
  assumes "builtins_keep J (en_registry en)" "ops_keep (world J) (pr_normalized p)" "world J s"
    "run_prepared pl cmdline p en s = (result, en', s')"
  shows "world J s'" "en_registry en' = en_registry en" "en_cache en' = en_cache en"
  using ExecutePreparedResult_keep [OF assms(1-3), of pl cmdline "en_counter en"] assms(4)
  by (auto simp: run_prepared_def split: prod.splits)

lemma ResetMutableState_world [simp]: "world J (ResetMutableState p s) = world J s"
  by (simp add: ResetMutableState_def split: option.splits)

lemma PrepareOps_keep:
  assumes "adapter_keeps J ops" "world J s" "PrepareOps pl reg ops s = (res, s')"
  shows "world J s'" "res = Inr p \<Longrightarrow> ops_keep (world J) (pr_normalized p)"
proof -
  obtain r where n: "normalizeOps pl reg ops s = (r, s')"
    and res: "res = (case r of Inl e \<Rightarrow> Inl e | Inr (normalized, reset) \<Rightarrow> Inr \<lparr>pr_normalized = normalized, pr_resetState = Some reset\<rparr>)"
    using assms(3) by (auto simp: PrepareOps_def split: prod.splits sum.splits)
  show "world J s'" using normalizeOps_keep(1) [OF assms(1,2) n] .
  show "res = Inr p \<Longrightarrow> ops_keep (world J) (pr_normalized p)"
    using normalizeOps_keep(2) [OF assms(1,2) n] res by (auto split: sum.splits prod.splits)
qed

lemma ExecuteResult_keep:
  assumes "builtins_keep J (en_registry en)" "adapter_keeps J ops" "cache_keeps J en" "world J s"
    "ExecuteResult pl cmdline ids ops en s = (result, en', s')"
  shows "world J s' \<and> cache_keeps J en' \<and> en_registry en' = en_registry en"
proof -
  obtain r s1 where p: "PrepareOps pl (en_registry en) ops s = (r, s1)" by (cases "PrepareOps pl (en_registry en) ops s")
  note prep = PrepareOps_keep [OF assms(2,4) p]
  have fresh: ?thesis
    if "run_prepared pl cmdline q en1 (ResetMutableState q s1) = (result, en', s')" "r = Inr q"
      "en_registry en1 = en_registry en" "en_cache en1 = en_cache en \<or> (\<exists>k. en_cache en1 = Some (k, q))" for q en1
  proof -
    have q: "ops_keep (world J) (pr_normalized q)" using prep(2) that(2) .
    have "world J (ResetMutableState q s1)" using prep(1) by simp
    note run = run_prepared_keep [OF assms(1) [folded that(3)] q this that(1)]
    show ?thesis using run that(3,4) q assms(3) unfolding cache_keeps_def by auto
  qed
  have failed: ?thesis if "(case prepare_failed e en of (result, en) \<Rightarrow> (result, en, s1)) = (result, en', s')" for e
    using that prep(1) assms(3) by (auto simp: prepare_failed_def cache_keeps_def split: prod.splits)
  show ?thesis
  proof (cases "buildPreparedCacheKey ids ops")
    case None
    then show ?thesis using assms(5) fresh [of _ en] failed by (cases r) (auto simp: ExecuteResult_def p)
  next
    case (Some key)
    show ?thesis
    proof (cases "loadPreparedFromCache (en_cache en) key")
      case None
      then show ?thesis
        using assms(5) Some fresh [of _ "en\<lparr>en_cache := storePreparedInCache key _\<rparr>"] failed
        by (cases r) (auto simp: ExecuteResult_def p storePreparedInCache_def)
    next
      case cached: (Some q)
      then have q: "ops_keep (world J) (pr_normalized q)" "cache_keeps J en"
        using assms(3) by (auto simp: loadPreparedFromCache_def cache_keeps_def split: option.splits if_splits)
      have run: "run_prepared pl cmdline q en (ResetMutableState q s) = (result, en', s')"
        using assms(5) Some cached by (simp add: ExecuteResult_def)
      have "world J (ResetMutableState q s)" using assms(4) by simp
      note run_prepared_keep [OF assms(1) q(1) this run]
      then show ?thesis using q(2) by (simp add: cache_keeps_def)
    qed
  qed
qed

subsection \<open>Properties\<close>

text \<open>A session of calls of \<open>ExecuteResult\<close> on one engine, each with its own context and callbacks.\<close>

fun executions :: "platform \<Rightarrow> (ctx_state \<times> string \<times> callback_ids \<times> 'e Ops) list \<Rightarrow> 'e Engine \<Rightarrow> 'e sys \<Rightarrow>
    ExecutionResult list \<times> 'e Engine \<times> 'e sys" where
  "executions pl [] en s = ([], en, s)"
| "executions pl ((ctx, cmdline, ids, ops) # calls) en s =
     (case ExecuteResult pl cmdline ids ops en (s\<lparr>sy_ctx := ctx\<rparr>) of
        (result, en, s) \<Rightarrow> (case executions pl calls en s of (results, en, s) \<Rightarrow> (result # results, en, s)))"

lemma executions_keep:
  assumes "builtins_keep J (en_registry en)" and "cache_keeps J en" and "J (sy_env s)"
    and "\<forall>(ctx, cmdline, ids, ops) \<in> set calls. adapter_keeps J ops"
  shows "J (sy_env (snd (snd (executions pl calls en s))))"
  using assms
proof (induction calls arbitrary: en s)
  case (Cons call calls)
  obtain ctx cmdline ids ops where c: "call = (ctx, cmdline, ids, ops)" by (cases call)
  obtain result en1 s1 where e: "ExecuteResult pl cmdline ids ops en (s\<lparr>sy_ctx := ctx\<rparr>) = (result, en1, s1)"
    by (cases "ExecuteResult pl cmdline ids ops en (s\<lparr>sy_ctx := ctx\<rparr>)") auto
  have ad: "adapter_keeps J ops" and ads: "\<forall>(ctx, cmdline, ids, ops) \<in> set calls. adapter_keeps J ops"
    using Cons.prems(4) by (auto simp: c)
  have "world J (s\<lparr>sy_ctx := ctx\<rparr>)" using Cons.prems(3) by (simp add: world_def)
  note step = ExecuteResult_keep [OF Cons.prems(1) ad Cons.prems(2) this e]
  then have "builtins_keep J (en_registry en1)" "cache_keeps J en1" "J (sy_env s1)"
    using Cons.prems(1) by (auto simp: world_def)
  from Cons.IH [OF this ads] show ?case by (cases "executions pl calls en1 s1") (auto simp: c e)
qed simp

text \<open>An adapter that only reads a store of files.\<close>

definition reader_ops :: "files Ops" where
  "reader_ops = zero_ops\<lparr>o_RequireAbsolutePath := Some absolute_path, o_ListChildren := Some (\<lambda>_ s. (Inr [], s)),
     o_IsDirPath := Some (\<lambda>p s. (Inr (p = ''/''), s)), o_ReadRawContent := Some read_file,
     o_ResolveSearchPaths := Some (\<lambda>_ s. (Inr [], s)), o_CollectFilesUnder := Some (\<lambda>_ s. (Inr [], s))\<rparr>"

definition sample_platform :: platform where
  "sample_platform = \<lparr>pl_text = \<lparr>tl_has_upper = (\<lambda>_. False), tl_lower = id, tl_compile = (\<lambda>_. Inl (ErrText ''no regexp''))\<rparr>,
     pl_visit = id, pl_timeout = (\<lambda>_ c. c)\<rparr>"

definition sample_ids :: callback_ids where
  "sample_ids = \<lparr>ci_requireAbsolutePath = 1, ci_listChildren = 2, ci_isDirPath = 3, ci_describePath = 0,
     ci_formatLSLongRow = 0, ci_readRawContent = 4, ci_resolveSearchPaths = 5, ci_collectFilesUnder = 6, ci_writeFile = 0,
     ci_appendFile = 0, ci_editFile = 0, ci_makeDir = 0, ci_removeFile = 0, ci_removeDir = 0, ci_checkPathOp = 0,
     ci_listExternalCommands = 0, ci_runExternalCommand = 0, ci_readExternalManual = 0, ci_auditSink = 0\<rparr>"

definition echo_engine :: "files Engine" where
  "echo_engine = \<lparr>en_registry = echo_registry, en_cache = None, en_counter = 0\<rparr>"

end
