(* ===== verification/Host_Path.thy ===== *)
theory Host_Path
  imports Engine_State Go_Path
begin

section \<open>The host: \<open>os\<close>, \<open>path/filepath\<close> and the guard against escapes\<close>

text \<open>
  The operating system is not code of the repository: \<open>'e os\<close> collects the functions of the packages
  \<open>os\<close> and \<open>path/filepath\<close> that ask it something, over a state of the world \<^typ>\<open>'e\<close> that only its four
  mutating functions change. The lexical functions of \<open>path/filepath\<close> are those of \<open>path\<close> on a system
  whose separator is the slash (\<open>Clean\<close> is \<open>path_clean\<close>, \<open>Join\<close> is \<open>path_join2\<close>, \<open>Dir\<close> is \<open>path_dir\<close>,
  \<open>Base\<close> is \<open>path_base\<close>); \<open>Rel\<close> is defined here. \<open>pathguard.go\<close> follows: a candidate must be within a root
  as it is spelled and again after the links of the existing part of both paths are resolved.
\<close>

subsection \<open>The functions of the operating system\<close>

type_synonym FileMode = "32 word"

text \<open>A visit of \<open>filepath.WalkDir\<close>: the path, whether it is a directory, and the error the visit reports.
  \<open>os_OpenAppend\<close> is \<open>os.OpenFile\<close> with \<open>O_CREATE|O_APPEND|O_WRONLY\<close>, \<open>os_WriteString\<close> writes to the file it
  opened.\<close>

record 'e os =
  os_Getwd :: "'e \<Rightarrow> go_error + string"
  os_Abs :: "string \<Rightarrow> 'e \<Rightarrow> go_error + string"
  os_Stat_IsDir :: "string \<Rightarrow> 'e \<Rightarrow> go_error + bool"
  os_Lstat :: "string \<Rightarrow> 'e \<Rightarrow> go_error option"
  os_EvalSymlinks :: "string \<Rightarrow> 'e \<Rightarrow> go_error + string"
  os_ReadDir :: "string \<Rightarrow> 'e \<Rightarrow> go_error + string list"
  os_ReadFile :: "string \<Rightarrow> 'e \<Rightarrow> go_error + string"
  os_WalkDir :: "string \<Rightarrow> 'e \<Rightarrow> (string \<times> bool \<times> go_error option) list"
  os_IsNotExist :: "go_error \<Rightarrow> bool"
  os_MkdirAll :: "string \<Rightarrow> FileMode \<Rightarrow> 'e \<Rightarrow> go_error option \<times> 'e"
  os_WriteFile :: "string \<Rightarrow> string \<Rightarrow> FileMode \<Rightarrow> 'e \<Rightarrow> go_error option \<times> 'e"
  os_OpenAppend :: "string \<Rightarrow> FileMode \<Rightarrow> 'e \<Rightarrow> go_error option \<times> 'e"
  os_WriteString :: "string \<Rightarrow> string \<Rightarrow> 'e \<Rightarrow> go_error option \<times> 'e"
  os_Remove :: "string \<Rightarrow> 'e \<Rightarrow> go_error option \<times> 'e"

subsection \<open>\<open>filepath.Rel\<close>\<close>

text \<open>The components of a cleaned path; the dot alone has none.\<close>

definition path_comps :: "string \<Rightarrow> string list" where
  "path_comps p = filter (\<lambda>c. c \<noteq> [] \<and> c \<noteq> ''.'') (split_on (CHR ''/'') (path_clean p))"

definition is_rooted :: "string \<Rightarrow> bool" where
  "is_rooted p \<longleftrightarrow> has_prefix (path_clean p) ''/''"

fun strip_common :: "'a list \<Rightarrow> 'a list \<Rightarrow> 'a list \<times> 'a list" where
  "strip_common (b # bs) (t # ts) = (if b = t then strip_common bs ts else (b # bs, t # ts))"
| "strip_common bs ts = (bs, ts)"

definition filepath_Rel :: "string \<Rightarrow> string \<Rightarrow> go_error + string" where
  "filepath_Rel basepath targpath =
     (if path_clean basepath = path_clean targpath then Inr ''.''
      else if is_rooted basepath \<noteq> is_rooted targpath
      then Inl (ErrText (''Rel: can't make '' @ targpath @ '' relative to '' @ basepath))
      else (case strip_common (path_comps basepath) (path_comps targpath) of
        (bs, ts) \<Rightarrow>
          if ''..'' \<in> set bs then Inl (ErrText (''Rel: can't make '' @ targpath @ '' relative to '' @ basepath))
          else Inr (join ''/'' (replicate (length bs) ''..'' @ ts))))"

subsection \<open>Lengths of cleaned paths\<close>

definition comps_length :: "string list \<Rightarrow> nat" where
  "comps_length cs = sum_list (map (\<lambda>c. Suc (length c)) cs)"

lemma comps_length_simps [simp]:
  "comps_length [] = 0" "comps_length (c # cs) = Suc (length c) + comps_length cs"
  "comps_length (cs @ ds) = comps_length cs + comps_length ds" "comps_length (rev cs) = comps_length cs"
  by (simp_all add: comps_length_def sum_list_rev flip: rev_map)

lemma length_join: "cs \<noteq> [] \<Longrightarrow> Suc (length (join ''/'' cs)) = comps_length cs"
  by (induction cs rule: induct_list012) (simp_all add: join_Cons)

lemma comps_length_split: "comps_length (split_on (CHR ''/'') s) = Suc (length s)"
  using length_join [OF split_on_neq_Nil, of "CHR ''/''" s] by (simp add: join_split_on)

lemma clean_step_length: "comps_length (clean_step rooted st c) \<le> comps_length st + Suc (length c)"
  by (auto split: list.splits)

lemma foldl_clean_step_length:
  "comps_length (foldl (clean_step rooted) st cs) \<le> comps_length st + comps_length cs"
proof (induction cs arbitrary: st)
  case (Cons c cs)
  have "comps_length (foldl (clean_step rooted) (clean_step rooted st c) cs)
      \<le> comps_length (clean_step rooted st c) + comps_length cs" by (rule Cons)
  with clean_step_length [of rooted st c] show ?case by (simp del: clean_step.simps)
qed simp

lemma path_clean_length: "p \<noteq> [] \<Longrightarrow> length (path_clean p) \<le> length p"
proof -
  assume p: "p \<noteq> []"
  let ?r = "hd p = CHR ''/''" and ?cs = "split_on (CHR ''/'') p"
  let ?out = "clean_comps ?r ?cs"
  have bound: "comps_length (clean_comps r cs) \<le> comps_length cs" for r cs
    using foldl_clean_step_length [of r "[]" cs] by (simp add: clean_comps_def)
  show ?thesis
  proof (cases ?r)
    case True
    then obtain q where q: "p = CHR ''/'' # q" using p by (cases p) auto
    have "comps_length (clean_comps True (split_on (CHR ''/'') q)) \<le> Suc (length q)"
      using bound [of True "split_on (CHR ''/'') q"] by (simp add: comps_length_split)
    then have "length (join ''/'' (clean_comps True (split_on (CHR ''/'') q))) \<le> length q"
      using length_join [of "clean_comps True (split_on (CHR ''/'') q)"]
      by (cases "clean_comps True (split_on (CHR ''/'') q) = []") auto
    then show ?thesis by (simp add: path_clean_def q)
  next
    case False
    have "comps_length ?out \<le> Suc (length p)" using bound [of ?r ?cs] by (simp add: comps_length_split)
    then have "length (join ''/'' ?out) \<le> length p"
      using length_join [of ?out] by (cases "?out = []") auto
    then show ?thesis using p False by (cases p) (auto simp: path_clean_def Let_def)
  qed
qed

lemma split_on_at: "split_on c (a @ c # b) = split_on c a @ split_on c b"
proof (induction a)
  case (Cons x a)
  obtain w ws where "split_on c a = w # ws" using split_on_neq_Nil by (meson neq_Nil_conv)
  with Cons show ?case by simp
qed simp

lemma path_clean_trailing: "r \<noteq> [] \<Longrightarrow> path_clean (r @ ''/'') = path_clean r"
proof -
  assume "r \<noteq> []"
  moreover have "clean_comps b (split_on (CHR ''/'') (r @ ''/'')) = clean_comps b (split_on (CHR ''/'') r)" for b
    by (simp add: split_on_at clean_comps_def)
  ultimately show ?thesis by (simp add: path_clean_def)
qed

text \<open>What the loop to the parents decreases.\<close>

definition dir_rank :: "string \<Rightarrow> nat" where
  "dir_rank p = (if p = ''.'' then 0 else Suc (length p))"

lemma path_dir_rank: "path_dir p \<noteq> p \<Longrightarrow> dir_rank (path_dir p) < dir_rank p"
proof -
  assume d: "path_dir p \<noteq> p"
  define q where "q = rev (dropWhile (\<lambda>c. c \<noteq> CHR ''/'') (rev p))"
  have dir: "path_dir p = path_clean q" by (simp add: path_dir_def q_def)
  have pq: "prefix q p"
    unfolding q_def prefix_def
    by (metis rev_append rev_rev_ident takeWhile_dropWhile_id)
  show ?thesis
  proof (cases "q = []")
    case True
    then have "path_dir p = ''.''" by (simp add: dir path_clean_def)
    with d show ?thesis by (auto simp: dir_rank_def)
  next
    case False
    then have "last q = CHR ''/''"
      using hd_dropWhile [of "\<lambda>c. c \<noteq> CHR ''/''" "rev p"] by (simp add: q_def last_rev)
    then obtain r where q: "q = r @ ''/''" using False by (metis append_butlast_last_id)
    show ?thesis
    proof (cases "r = []")
      case True
      then have "path_dir p = ''/''" by (simp add: dir q path_clean_def clean_comps_def)
      moreover from this have "1 < length p \<or> p = ''.''"
        using d pq q True by (cases p rule: list.exhaust; cases "tl p") (auto simp: prefix_def)
      moreover have "p \<noteq> ''.''" using pq q True by (auto simp: prefix_def)
      ultimately show ?thesis by (simp add: dir_rank_def)
    next
      case nonempty: False
      have "p \<noteq> ''.''" using pq q by (cases r) (auto simp: prefix_def)
      have "length (path_dir p) \<le> length r"
        using path_clean_length [OF nonempty] by (simp add: dir q path_clean_trailing nonempty)
      also have "length r < length p" using prefix_length_le [OF pq] by (simp add: q)
      finally show ?thesis using \<open>p \<noteq> ''.''\<close> by (simp add: dir_rank_def)
    qed
  qed
qed

subsection \<open>The guard (\<open>pathguard.go\<close>)\<close>

definition ErrEscape :: go_error where "ErrEscape = ErrText ''path escape is not allowed''"

definition withinRoot :: "string \<Rightarrow> string \<Rightarrow> bool" where
  "withinRoot root candidate =
     (case filepath_Rel (path_clean root) (path_clean candidate) of
        Inl e \<Rightarrow> False
      | Inr rel \<Rightarrow> rel = ''.'' \<or> rel \<noteq> ''..'' \<and> \<not> has_prefix rel ''../'')"

definition join_suffix :: "string \<Rightarrow> string list \<Rightarrow> string" where
  "join_suffix resolved names = foldl path_join2 resolved (rev names)"

function resolve_up :: "'e os \<Rightarrow> string \<Rightarrow> string \<Rightarrow> string list \<Rightarrow> 'e \<Rightarrow> go_error + string" where
  "resolve_up os cleaned current names w =
     (case os_Lstat os current w of
        None \<Rightarrow>
          (case os_EvalSymlinks os current w of
             Inl e \<Rightarrow> Inl e
           | Inr resolved \<Rightarrow> Inr (path_clean (join_suffix (path_clean resolved) names)))
      | Some e \<Rightarrow>
          (if \<not> os_IsNotExist os e then Inl e
           else if path_dir current = current then Inr cleaned
           else resolve_up os cleaned (path_dir current) (names @ [path_base current]) w))"
  by pat_completeness auto
termination by (relation "measure (\<lambda>(os, cleaned, current, names, w). dir_rank current)") (auto simp: path_dir_rank)

declare resolve_up.simps [simp del]

definition resolveWithExistingPrefix :: "'e os \<Rightarrow> string \<Rightarrow> 'e \<Rightarrow> go_error + string" where
  "resolveWithExistingPrefix os pathValue w =
     (let cleaned = path_clean (trim_space pathValue) in
      case os_EvalSymlinks os cleaned w of
        Inr resolved \<Rightarrow> Inr (path_clean resolved)
      | Inl e \<Rightarrow> (if \<not> os_IsNotExist os e then Inl e else resolve_up os cleaned cleaned [] w))"

definition pathguard_Check :: "'e os \<Rightarrow> string \<Rightarrow> string \<Rightarrow> 'e \<Rightarrow> go_error option" where
  "pathguard_Check os root candidate w =
     (let cleanRoot = path_clean (trim_space root); cleanCandidate = path_clean (trim_space candidate) in
      if \<not> withinRoot cleanRoot cleanCandidate then Some ErrEscape
      else (case resolveWithExistingPrefix os cleanRoot w of
              Inl e \<Rightarrow> Some e
            | Inr resolvedRoot \<Rightarrow>
                (case resolveWithExistingPrefix os cleanCandidate w of
                   Inl e \<Rightarrow> Some e
                 | Inr resolvedCandidate \<Rightarrow>
                     (if \<not> withinRoot resolvedRoot resolvedCandidate then Some ErrEscape else None))))"

subsection \<open>The guard on canonical paths\<close>

lemma canonicalE:
  assumes "canonical p" obtains cs where "p = CHR ''/'' # join ''/'' cs" "list_all good_comp cs"
  using assms by (auto simp: canonical_def)

lemma path_comps_canonical: "list_all good_comp cs \<Longrightarrow> path_comps (CHR ''/'' # join ''/'' cs) = cs"
proof (cases "cs = []")
  case True
  then show ?thesis by (simp add: path_comps_def path_clean_def clean_comps_def)
next
  case False
  assume good: "list_all good_comp cs"
  then have "canonical (CHR ''/'' # join ''/'' cs)" by (auto simp: canonical_def)
  moreover have "\<forall>c\<in>set cs. CHR ''/'' \<notin> set c" using good by (auto simp: list_all_iff good_comp_def)
  moreover have "filter (\<lambda>c. c \<noteq> [] \<and> c \<noteq> ''.'') cs = cs"
    using good by (auto simp: filter_id_conv list_all_iff good_comp_def)
  ultimately show ?thesis using False by (simp add: path_comps_def path_clean_canonical split_on_join)
qed

lemma canonical_comps:
  assumes "canonical p" shows "p = CHR ''/'' # join ''/'' (path_comps p)" "list_all good_comp (path_comps p)"
  using assms by (auto elim!: canonicalE simp: path_comps_canonical)

lemma canonical_rooted [simp]: "canonical p \<Longrightarrow> is_rooted p"
  by (auto simp: is_rooted_def path_clean_canonical canonical_def)

lemma strip_common_split:
  "strip_common bs ts = (bs', ts') \<Longrightarrow> \<exists>p. bs = p @ bs' \<and> ts = p @ ts' \<and> (bs' \<noteq> [] \<longrightarrow> ts' \<noteq> [] \<longrightarrow> hd bs' \<noteq> hd ts')"
proof (induction bs ts rule: strip_common.induct)
  case (1 b bs t ts)
  show ?case
  proof (cases "b = t")
    case True
    with 1 obtain p where "bs = p @ bs'" "ts = p @ ts'" "bs' \<noteq> [] \<longrightarrow> ts' \<noteq> [] \<longrightarrow> hd bs' \<noteq> hd ts'" by auto
    with True show ?thesis by (intro exI [of _ "b # p"]) simp
  qed (use 1 in auto)
qed auto

lemma strip_common_append [simp]: "strip_common bs (bs @ ts) = ([], ts)"
  by (induction bs) (cases ts; simp)+

lemma join_good_comps:
  assumes "list_all good_comp ts" "ts \<noteq> []"
  shows "join ''/'' ts \<noteq> ''.''" "join ''/'' ts \<noteq> ''..''" "\<not> has_prefix (join ''/'' ts) ''../''"
proof -
  obtain t us where t: "ts = t # us" using assms(2) by (cases ts) auto
  have "\<forall>c\<in>set ts. CHR ''/'' \<notin> set c" using assms(1) by (auto simp: list_all_iff good_comp_def)
  then have split: "split_on (CHR ''/'') (join ''/'' ts) = ts" by (rule split_on_join [OF assms(2)])
  have g: "good_comp t" using assms(1) t by simp
  then show "join ''/'' ts \<noteq> ''.''" "join ''/'' ts \<noteq> ''..''" using split t by (auto simp: good_comp_def)
  show "\<not> has_prefix (join ''/'' ts) ''../''"
  proof
    assume "has_prefix (join ''/'' ts) ''../''"
    then obtain r where "join ''/'' ts = ''../'' @ r" by (auto elim: has_prefixE)
    with split have "''..'' # split_on (CHR ''/'') r = ts" by simp
    with g t show False by (simp add: good_comp_def)
  qed
qed

lemma join_updots: "n \<noteq> 0 \<Longrightarrow>
  join ''/'' (replicate n ''..'' @ ts) = ''..'' \<or> has_prefix (join ''/'' (replicate n ''..'' @ ts)) ''../''"
  by (cases n; cases "replicate (n - 1) ''..'' @ ts = []") (auto simp: join_Cons)

text \<open>On canonical paths the guard's lexical test is whether the components of the root begin those of the
  candidate.\<close>

lemma withinRoot_comps:
  assumes "canonical root" and "canonical p"
  shows "withinRoot root p \<longleftrightarrow> prefix (path_comps root) (path_comps p)"
proof -
  note r = canonical_comps [OF assms(1)] and c = canonical_comps [OF assms(2)]
  have clean: "path_clean root = root" "path_clean p = p" using assms by (simp_all add: path_clean_canonical)
  obtain bs ts where s: "strip_common (path_comps root) (path_comps p) = (bs, ts)" by force
  then obtain q where q: "path_comps root = q @ bs" "path_comps p = q @ ts" "bs \<noteq> [] \<longrightarrow> ts \<noteq> [] \<longrightarrow> hd bs \<noteq> hd ts"
    using strip_common_split by blast
  have "''..'' \<notin> set bs" using r(2) q(1) by (auto simp: good_comp_def list_all_iff)
  then have rel: "filepath_Rel root p = (if root = p then Inr ''.'' else Inr (join ''/'' (replicate (length bs) ''..'' @ ts)))"
    using assms by (simp add: filepath_Rel_def clean s)
  have pre: "prefix (path_comps root) (path_comps p) \<longleftrightarrow> bs = []"
    using q by (cases bs; cases ts) auto
  show ?thesis
  proof (cases "root = p")
    case False
    have "ts \<noteq> []" if "bs = []" using False that q r(1) c(1) by auto
    moreover have "list_all good_comp ts" using c(2) q(2) by simp
    ultimately show ?thesis
      using False join_good_comps [of ts] join_updots [of "length bs" ts]
      by (cases "bs = []") (auto simp: withinRoot_def clean rel pre)
  qed (simp add: withinRoot_def filepath_Rel_def)
qed

lemma join_append: "cs \<noteq> [] \<Longrightarrow> ds \<noteq> [] \<Longrightarrow> join ''/'' (cs @ ds) = join ''/'' cs @ ''/'' @ join ''/'' ds"
  by (induction cs rule: induct_list012) (auto simp: join_Cons)

lemma under_comps:
  assumes "canonical root" and "canonical p" and "root \<noteq> ''/''"
  shows "under root p \<longleftrightarrow> prefix (path_comps root) (path_comps p)"
proof -
  note r = canonical_comps [OF assms(1)] and c = canonical_comps [OF assms(2)]
  have rc: "path_comps root \<noteq> []" using r(1) assms(3) by auto
  show ?thesis
  proof
    assume "prefix (path_comps root) (path_comps p)"
    then obtain ts where "path_comps p = path_comps root @ ts" by (auto simp: prefix_def)
    then have "p = (CHR ''/'' # join ''/'' (path_comps root)) @ (if ts = [] then [] else ''/'' @ join ''/'' ts)"
      using c(1) join_append [OF rc, of ts] by simp
    then show "under root p" unfolding r(1) [symmetric] by (auto simp: under_iff)
  next
    assume u: "under root p"
    show "prefix (path_comps root) (path_comps p)"
    proof (cases "p = root")
      case False
      with u obtain t where t: "p = root @ CHR ''/'' # t" by (auto simp: under_iff)
      have "split_on (CHR ''/'') p = split_on (CHR ''/'') root @ split_on (CHR ''/'') t"
        by (simp add: t split_on_at)
      then show ?thesis
        using assms by (simp add: path_comps_def path_clean_canonical)
    qed simp
  qed
qed

lemma withinRoot_under:
  assumes "canonical root" and "canonical p" shows "withinRoot root p \<longleftrightarrow> root = ''/'' \<or> under root p"
proof (cases "root = ''/''")
  case True
  have "path_comps root = []" using path_comps_canonical [of "[]"] True by simp
  then show ?thesis using withinRoot_comps [OF assms] True by simp
qed (use withinRoot_comps [OF assms] under_comps [OF assms] in simp)

subsection \<open>Canonical paths by their components\<close>

definition abs_path :: "string list \<Rightarrow> string" where
  "abs_path cs = CHR ''/'' # join ''/'' cs"

lemma canonical_abs_path: "list_all good_comp cs \<Longrightarrow> canonical (abs_path cs)"
  by (auto simp: abs_path_def canonical_def)

lemma path_comps_abs_path [simp]: "list_all good_comp cs \<Longrightarrow> path_comps (abs_path cs) = cs"
  by (simp add: abs_path_def path_comps_canonical)

lemma abs_path_comps: "canonical p \<Longrightarrow> abs_path (path_comps p) = p"
  using canonical_comps(1) [of p] by (simp add: abs_path_def)

lemma good_path_comps: "canonical p \<Longrightarrow> list_all good_comp (path_comps p)"
  by (rule canonical_comps)

lemma foldl_clean_step_filter:
  "\<forall>c\<in>set cs. c = [] \<or> good_comp c \<Longrightarrow> foldl (clean_step rooted) st cs = rev (filter (\<lambda>c. c \<noteq> []) cs) @ st"
  by (induction cs arbitrary: st) (auto simp: good_comp_def)

lemma clean_comps_filter:
  "\<forall>c\<in>set cs. c = [] \<or> good_comp c \<Longrightarrow> clean_comps rooted cs = filter (\<lambda>c. c \<noteq> []) cs"
  by (simp add: clean_comps_def foldl_clean_step_filter)

lemma split_abs_path:
  "list_all good_comp cs \<Longrightarrow> split_on (CHR ''/'') (abs_path cs) = [] # (if cs = [] then [[]] else cs)"
proof -
  assume "list_all good_comp cs"
  then have "\<forall>c\<in>set cs. CHR ''/'' \<notin> set c" by (auto simp: list_all_iff good_comp_def)
  then show ?thesis by (auto simp: abs_path_def split_on_join)
qed

lemma split_join_good:
  "list_all good_comp ts \<Longrightarrow> split_on (CHR ''/'') (join ''/'' ts) = (if ts = [] then [[]] else ts)"
  using split_abs_path [of ts] by (simp add: abs_path_def)

lemma clean_below:
  assumes "list_all good_comp cs" "list_all good_comp ts"
  shows "path_clean (abs_path cs @ ''/'' @ join ''/'' ts) = abs_path (cs @ ts)"
proof -
  have s: "split_on (CHR ''/'') (abs_path cs @ ''/'' @ join ''/'' ts) =
      ([] # (if cs = [] then [[]] else cs)) @ (if ts = [] then [[]] else ts)"
    using split_on_at [of "CHR ''/''" "abs_path cs" "join ''/'' ts"] assms
    by (simp add: split_abs_path split_join_good)
  have keep: "filter (\<lambda>c. c \<noteq> []) us = us" if "list_all good_comp us" for us
    using that by (auto simp: filter_id_conv list_all_iff good_comp_def)
  have "\<forall>c\<in>set (split_on (CHR ''/'') (abs_path cs @ ''/'' @ join ''/'' ts)). c = [] \<or> good_comp c"
    using assms unfolding s by (auto simp: list_all_iff)
  then have "clean_comps True (split_on (CHR ''/'') (abs_path cs @ ''/'' @ join ''/'' ts)) =
      filter (\<lambda>c. c \<noteq> []) (([] # (if cs = [] then [[]] else cs)) @ (if ts = [] then [[]] else ts))"
    unfolding s by (rule clean_comps_filter)
  also have "\<dots> = cs @ ts" using keep assms by simp
  finally have "clean_comps True (split_on (CHR ''/'') (abs_path cs @ ''/'' @ join ''/'' ts)) = cs @ ts" .
  then show ?thesis by (simp add: path_clean_def) (simp add: abs_path_def)
qed

lemma path_dir_abs_path:
  assumes "list_all good_comp (cs @ [c])" shows "path_dir (abs_path (cs @ [c])) = abs_path cs"
proof -
  have c: "CHR ''/'' \<notin> set c" "list_all good_comp cs" using assms by (auto simp: good_comp_def)
  define q where "q = (if cs = [] then [] else abs_path cs)"
  have p: "abs_path (cs @ [c]) = (q @ ''/'') @ c"
    by (cases "cs = []") (auto simp: q_def abs_path_def join_append)
  have "dropWhile (\<lambda>x. x \<noteq> CHR ''/'') (rev c @ CHR ''/'' # rev q) = CHR ''/'' # rev q"
    using c(1) by (subst dropWhile_append2) auto
  then have "path_dir (abs_path (cs @ [c])) = path_clean (q @ ''/'')" by (simp add: path_dir_def p)
  also have "\<dots> = abs_path cs"
  proof (cases "cs = []")
    case True
    then show ?thesis by (simp add: q_def path_clean_def clean_comps_def abs_path_def)
  next
    case False
    have "path_clean (abs_path cs @ ''/'') = path_clean (abs_path cs)"
      by (rule path_clean_trailing) (simp add: abs_path_def)
    with False c(2) show ?thesis by (simp add: q_def path_clean_canonical canonical_abs_path)
  qed
  finally show ?thesis .
qed

subsection \<open>Normalised paths below a root\<close>

lemma foldl_unrooted:
  "\<forall>c\<in>set cs. CHR ''/'' \<notin> set c \<Longrightarrow> st = gs @ replicate k ''..'' \<Longrightarrow> list_all good_comp gs \<Longrightarrow>
   \<exists>gs' k'. foldl (clean_step False) st cs = gs' @ replicate k' ''..'' \<and> list_all good_comp gs'"
proof (induction cs arbitrary: st gs k)
  case (Cons c cs)
  have "\<exists>gs' k'. clean_step False st c = gs' @ replicate k' ''..'' \<and> list_all good_comp gs'"
  proof (cases "c = [] \<or> c = ''.''")
    case False
    show ?thesis
    proof (cases "c = ''..''")
      case True
      show ?thesis
      proof (cases gs)
        case Nil
        with True Cons.prems(2) show ?thesis by (intro exI [of _ "[]"] exI [of _ "Suc k"]) (cases k; simp)
      next
        case g: (Cons g gs')
        then have "list_all good_comp gs'" "g \<noteq> ''..''"
          using Cons.prems(3) by (simp_all add: good_comp_def [of g])
        with g True Cons.prems(2) show ?thesis by (intro exI [of _ gs'] exI [of _ k]) simp
      qed
    next
      case other: False
      with False Cons.prems have "good_comp c" by (simp add: good_comp_def)
      with False other Cons.prems(2,3) show ?thesis by (intro exI [of _ "c # gs"] exI [of _ k]) simp
    qed
  qed (use Cons.prems in auto)
  with Cons show ?case by (auto simp del: clean_step.simps)
qed auto

lemma prefix_good_comps:
  assumes "cs = replicate k ''..'' @ gs" "list_all good_comp gs" "prefix vs cs" "vs \<noteq> []" "list_all good_comp vs"
  shows "list_all good_comp cs"
proof (cases k)
  case (Suc n)
  with assms have "hd vs = ''..''" by (cases vs) auto
  with assms(4,5) show ?thesis by (cases vs) (auto simp: good_comp_def)
qed (use assms in simp)

lemma under_split: "under p q \<Longrightarrow> prefix (split_on (CHR ''/'') p) (split_on (CHR ''/'') q)"
  by (auto simp: under_iff split_on_at)

lemma normalized_below_canonical:
  assumes vr: "canonical vr" "vr \<noteq> ''/''" and below: "under vr (normalizeAbsolutePath raw)"
  shows "canonical (normalizeAbsolutePath raw)"
proof (cases "has_prefix (trim_space raw) ''/''")
  case False
  define t where "t = trim_space raw"
  show ?thesis
  proof (cases "t = []")
    case nonempty: False
    define cs where "cs = clean_comps False (split_on (CHR ''/'') t)"
    have hd_t: "hd t \<noteq> CHR ''/''" using False nonempty by (cases t) (auto simp: t_def has_prefix_iff)
    have noslash: "\<forall>c\<in>set (split_on (CHR ''/'') t). CHR ''/'' \<notin> set c" by (auto dest: split_on_no_sep)
    obtain gs k where gs: "cs = replicate k ''..'' @ rev gs" "list_all good_comp gs"
      using foldl_unrooted [OF noslash, of "[]" "[]" 0] by (auto simp: cs_def clean_comps_def)
    have cs_set: "c = ''..'' \<or> good_comp c" if "c \<in> set cs" for c
      using that gs(2) unfolding gs(1) by (auto simp: list_all_iff)
    have slashes: "\<forall>c\<in>set cs. CHR ''/'' \<notin> set c"
    proof
      fix c assume "c \<in> set cs"
      from cs_set [OF this] show "CHR ''/'' \<notin> set c" by (auto simp: good_comp_def)
    qed
    have clean: "path_clean t = (if join ''/'' cs = [] then ''.'' else join ''/'' cs)"
      using nonempty hd_t by (simp add: path_clean_def cs_def Let_def)
    have no_empty: "[] \<notin> set cs" using cs_set [of "[]"] by (auto simp: good_comp_def)
    have cs_ne: "join ''/'' cs \<noteq> []" if "cs \<noteq> []"
    proof
      assume "join ''/'' cs = []"
      with split_on_join [OF that slashes] have "cs = [[]]" by simp
      with no_empty show False by simp
    qed
    have n: "normalizeAbsolutePath raw = (if cs = [] then ''/.'' else abs_path cs)"
    proof (cases "cs = []")
      case False
      have "\<not> has_prefix (join ''/'' cs) ''/''"
      proof
        assume "has_prefix (join ''/'' cs) ''/''"
        then obtain r where "join ''/'' cs = CHR ''/'' # r" by (auto elim: has_prefixE)
        moreover have "split_on (CHR ''/'') (join ''/'' cs) = cs" using False slashes by (simp add: split_on_join)
        ultimately have "[] # split_on (CHR ''/'') r = cs" by simp
        then have "[] \<in> set cs" by (metis list.set_intros(1))
        with no_empty show False by simp
      qed
      with nonempty False cs_ne show ?thesis by (simp add: normalizeAbsolutePath_def t_def [symmetric] clean abs_path_def)
    qed (use nonempty in \<open>simp add: normalizeAbsolutePath_def t_def [symmetric] clean\<close>)
    define vs where "vs = path_comps vr"
    have vs: "vr = abs_path vs" "list_all good_comp vs" using vr(1) by (simp_all add: vs_def abs_path_comps good_path_comps)
    have "vs \<noteq> []" using vr(2) vs(1) by (auto simp: abs_path_def)
    have pre: "prefix ([] # vs) (split_on (CHR ''/'') (normalizeAbsolutePath raw))"
      using under_split [OF below] vs \<open>vs \<noteq> []\<close> by (simp add: split_abs_path)
    have "cs \<noteq> []"
    proof
      assume "cs = []"
      with n pre have "prefix vs [''.'']" by simp
      with vs \<open>vs \<noteq> []\<close> show False by (cases vs) (auto simp: good_comp_def)
    qed
    then have "split_on (CHR ''/'') (normalizeAbsolutePath raw) = [] # cs"
      using slashes by (simp add: n abs_path_def split_on_join)
    with pre have "prefix vs cs" by simp
    then have "list_all good_comp cs" using prefix_good_comps [OF gs(1) _ _ \<open>vs \<noteq> []\<close> vs(2)] gs(2) by simp
    with \<open>cs \<noteq> []\<close> show ?thesis by (simp add: n canonical_abs_path)
  qed (use canonical_abs_path [of "[]"] in \<open>simp add: normalizeAbsolutePath_def t_def abs_path_def\<close>)
qed (rule normalizeAbsolutePath_canonical)

end
