(* ===== verification/Engine_Safety.thy ===== *)
theory Engine_Safety
  imports Engine_Invariant Host_Path
begin

section \<open>What prepared callbacks and executions guarantee\<close>

text \<open>
  Properties of the layers together: \<open>/sys/bin\<close> is read-only unless an adapter mounts something there, an
  execution that succeeds is within the output limit, the working directory does not survive from one
  execution to the next, and the cache never changes what a prepared set of callbacks is used for.
\<close>

subsection \<open>What reaches the mounts\<close>

lemma resolvePath_normal:
  assumes "normalizeAbsolutePath p = p"
  shows "resolvePath base p s = call base p s"
proof -
  obtain t where p: "p = CHR ''/'' # t" using assms normalizeAbsolutePath_Cons [of p] by auto
  have "has_prefix (trim_space p) ''/''" by (rule trim_space_slash_prefix) (simp add: p)
  moreover from this have "trim_space p \<noteq> []" by auto
  moreover have "normalizeAbsolutePath (trim_space p) = p" using assms by (simp add: normalizeAbsolutePath_def)
  ultimately show ?thesis by (simp add: resolvePath_def)
qed

lemma bridge_require_mounted:
  assumes "normalizeAbsolutePath p = p" "match r p \<noteq> None"
  shows "bridge_require r orig p s = (Inr p, s)"
proof -
  obtain t where p: "p = CHR ''/'' # t" using assms normalizeAbsolutePath_Cons [of p] by auto
  have "has_prefix (trim_space p) ''/''" by (rule trim_space_slash_prefix) (simp add: p)
  moreover have "normalizeAbsolutePath (trim_space p) = p" using assms by (simp add: normalizeAbsolutePath_def)
  ultimately show ?thesis using assms(2) by (simp add: bridge_require_def)
qed

text \<open>The callbacks of a successful preparation, below a mount.\<close>

definition mutating_outcomes :: "'e Ops \<Rightarrow> string \<Rightarrow> string \<Rightarrow> string \<Rightarrow> string \<Rightarrow> bool \<Rightarrow> 'e sys \<Rightarrow>
    ((go_error + unit) \<times> 'e sys) list" where
  "mutating_outcomes ops p c old new replaceAll s =
     [call (o_WriteFile ops) (p, c) s, call (o_AppendFile ops) (p, c) s,
      call (o_EditFile ops) (p, old, new, replaceAll) s,
      call (o_MakeDir ops) p s, call (o_RemoveFile ops) p s, call (o_RemoveDir ops) p s]"

lemma bootstrap_outcomes:
  assumes "withRuntimeBootstrap ops s = (Inr ops', s')"
  shows "mutating_outcomes ops' p c old new replaceAll t = mutating_outcomes ops p c old new replaceAll t"
  using assms by (auto simp: withRuntimeBootstrap_def mutating_outcomes_def Let_def split: prod.splits sum.splits if_splits)

text \<open>The path that a spelling names: relative to the working directory, normalised. A normalised path that ends in a
  blank is not one of a fixed place: normalising it once more drops the blank.\<close>

definition spelled_path :: "'e sys \<Rightarrow> string \<Rightarrow> string" where
  "spelled_path s raw =
     normalizeAbsolutePath
       (if has_prefix (trim_space raw) ''/'' then trim_space raw else path_join2 (sy_cwd s) (trim_space raw))"

definition in_sys_bin :: "string \<Rightarrow> bool" where
  "in_sys_bin p \<longleftrightarrow> under VirtualSystemBinDir p \<and> \<not> ends_with_space p"

definition names_sys_bin :: "'e sys \<Rightarrow> string \<Rightarrow> bool" where
  "names_sys_bin s raw \<longleftrightarrow> trim_space raw \<noteq> [] \<and> in_sys_bin (spelled_path s raw)"

lemma sys_bin_canonical: "canonical VirtualSystemBinDir" "VirtualSystemBinDir \<noteq> ''/''"
  by (simp_all add: canonical_code VirtualSystemBinDir_def is_canonical_def good_comp_def)

lemma in_sys_bin_normal:
  assumes "in_sys_bin (normalizeAbsolutePath x)"
  shows "normalizeAbsolutePath (normalizeAbsolutePath x) = normalizeAbsolutePath x"
  using assms normalized_below_canonical [OF sys_bin_canonical] normalizeAbsolutePath_fix by (auto simp: in_sys_bin_def)

lemma spelled_path_normal: "names_sys_bin s raw \<Longrightarrow> normalizeAbsolutePath (spelled_path s raw) = spelled_path s raw"
  using in_sys_bin_normal by (simp add: names_sys_bin_def spelled_path_def)

lemma spelled_rooted: "has_prefix (trim_space raw) ''/'' \<Longrightarrow> spelled_path s raw = spelled_path t raw"
  by (simp add: spelled_path_def)

lemma names_rooted: "names_sys_bin s raw \<Longrightarrow> has_prefix (trim_space raw) ''/'' \<Longrightarrow> names_sys_bin t raw"
  using spelled_rooted [of raw s t] by (simp add: names_sys_bin_def)

lemma resolvePath_spelled: "trim_space raw \<noteq> [] \<Longrightarrow> resolvePath base raw s = call base (spelled_path s raw) s"
  by (simp add: resolvePath_def spelled_path_def)

lemma resolve_to_mount:
  assumes "names_sys_bin s raw" "match r (spelled_path s raw) \<noteq> None"
  shows "resolvePath (Some (bridge_require r orig)) raw s = (Inr (spelled_path s raw), s)"
  using assms(1) bridge_require_mounted [OF spelled_path_normal [OF assms(1)] assms(2)]
  by (simp add: resolvePath_spelled names_sys_bin_def)

lemma resolving_outcomes:
  assumes "names_sys_bin s raw" "match r (spelled_path s raw) \<noteq> None" "o_RequireAbsolutePath ops = Some (bridge_require r orig)"
  shows "mutating_outcomes (resolving_ops root initial ops) raw c old new replaceAll s =
    mutating_outcomes ops (spelled_path s raw) c old new replaceAll s"
  using resolve_to_mount [OF assms(1,2), of orig] by (simp add: mutating_outcomes_def resolving_ops_def resolving_def assms(3) Let_def)

subsection \<open>Batches\<close>

lemma check_batch_undeclared:
  assumes "\<not> mutation_declared (vm_Profile mnt)" and "ops \<noteq> []"
  shows "check_batch mnt ops \<noteq> None"
proof -
  obtain op rest where ops: "ops = op # rest" using assms(2) by (cases ops) auto
  show ?thesis
  proof (cases "mutationSpecPathOp (ms_Kind op)")
    case (Inr k)
    then have "k = PathOpWrite \<or> k = PathOpMkdir \<or> k = PathOpRemove"
      by (auto simp: mutationSpecPathOp_def split: MutationKind.splits)
    with CheckMountPathOp_mutation(1) [of k mnt] assms(1) Inr show ?thesis by (auto simp: ops)
  qed (simp add: ops)
qed

lemma bridge_apply_refused:
  assumes r: "valid_router r" and op: "op \<in> set req"
    and m: "match r (normalizeAbsolutePath (ms_Path op)) = Some m" "\<not> mutation_declared (vm_Profile (mm_mount m))"
  shows "\<exists>e. bridge_apply visit r ops req s = (Inl e, s)"
proof (cases "split_batch r req None [] []")
  case (Inr y)
  obtain m' mo fo where y: "y = (m', mo, fo)" by (cases y)
  note ok = split_batch_ok [OF Inr [unfolded y]]
  have "below_mount r op" using m(1) by (simp add: below_mount_def)
  then obtain x where x: "m' = Some x" "mm_point m = mm_point x" using ok op m(1) by (auto simp: at_mount_def)
  have "mo \<noteq> []" using ok op \<open>below_mount r op\<close> by (auto simp: filter_empty_conv)
  have "distinct (map mm_point r)" using r newMountRouter_ok(1) by (auto simp: valid_router_def)
  moreover have "m \<in> set r" "x \<in> set r"
    using match_member [OF m(1)] split_batch_member [OF Inr [unfolded y] _ x(1)] by simp_all
  ultimately have "x = m" using x(2) by (auto simp: distinct_map inj_on_def)
  then obtain e where e: "check_batch (mm_mount x) mo = Some e" using check_batch_undeclared [OF m(2) \<open>mo \<noteq> []\<close>] by auto
  show ?thesis
    unfolding bridge_apply_def Inr y x(1) sum.case prod.case option.case validateMountedMutationBatch_def e by simp
qed (simp add: bridge_apply_def)

text \<open>Resolving the paths of a batch: those that are named below \<open>/sys/bin\<close> become their normalised form.\<close>

lemma resolve_all_named:
  assumes "\<And>p. in_sys_bin p \<Longrightarrow> normalizeAbsolutePath p = p \<Longrightarrow> match r p \<noteq> None"
  shows "\<forall>p\<in>set ps. names_sys_bin s p \<Longrightarrow>
    resolve_all (Some (bridge_require r orig)) ps s = (Inr (map (spelled_path s) ps), s)"
proof (induction ps)
  case (Cons p ps)
  then have p: "names_sys_bin s p" by simp
  have "match r (spelled_path s p) \<noteq> None" using assms spelled_path_normal [OF p] p by (simp add: names_sys_bin_def)
  from resolve_to_mount [OF p this] Cons show ?case by simp
qed simp

lemma resolve_all_member:
  assumes "\<And>p. in_sys_bin p \<Longrightarrow> normalizeAbsolutePath p = p \<Longrightarrow> match r p \<noteq> None"
  shows "resolve_all (Some (bridge_require r orig)) ps s = (Inr qs, s') \<Longrightarrow>
    length qs = length ps \<and>
    (p \<in> set ps \<longrightarrow> has_prefix (trim_space p) ''/'' \<longrightarrow> names_sys_bin t p \<longrightarrow> spelled_path t p \<in> set qs)"
proof (induction ps arbitrary: s qs)
  case (Cons q ps)
  obtain x s1 xs where x: "resolvePath (Some (bridge_require r orig)) q s = (Inr x, s1)"
    "resolve_all (Some (bridge_require r orig)) ps s1 = (Inr xs, s')" "qs = x # xs"
    using Cons.prems by (auto split: prod.splits sum.splits)
  have "x = spelled_path t q" if "has_prefix (trim_space q) ''/''" "names_sys_bin t q"
  proof -
    have n: "names_sys_bin s q" using names_rooted that by blast
    have "match r (spelled_path s q) \<noteq> None" using assms spelled_path_normal [OF n] n by (simp add: names_sys_bin_def)
    from resolve_to_mount [OF n this] x(1) spelled_rooted [OF that(1), of s t] show ?thesis by simp
  qed
  with Cons.IH [OF x(2)] x(3) show ?case by auto
qed simp

lemma ms_Path_map2: "length qs = length ms \<Longrightarrow> map ms_Path (map2 (\<lambda>q m. m\<lparr>ms_Path := q\<rparr>) qs ms) = qs"
  by (induction qs ms rule: list_induct2) simp_all

lemma renamed_member:
  assumes "p \<in> set qs" "length qs = length ms"
  obtains op where "op \<in> set (map2 (\<lambda>q m. m\<lparr>ms_Path := q\<rparr>) qs ms)" "ms_Path op = p"
proof -
  define xs where "xs = map2 (\<lambda>q m. m\<lparr>ms_Path := q\<rparr>) qs ms"
  have "p \<in> set (map ms_Path xs)" using assms(1) ms_Path_map2 [OF assms(2)] by (simp add: xs_def)
  then show thesis using that unfolding xs_def [symmetric] by auto
qed

lemma prepared_layers:
  fixes ops' :: "'e Ops"
  assumes "normalizeOps pl reg ops s = (Inr (ops', initial), s')"
  obtains mounted resolved s1 where
    "withMountRouter pl reg (ops_with_bootstrap (ops_with_defaults (rooted_ops ops))) = Inr mounted"
    "withPathResolution mounted s = (Inr (resolving_ops (normalizeAbsolutePath (o_RootDir mounted)) initial mounted, initial), s1)"
    "withRuntimeBootstrap (resolving_ops (normalizeAbsolutePath (o_RootDir mounted)) initial mounted) s1 = (Inr resolved, s')"
    "ops' = withPathAccessPolicy resolved"
proof -
  let ?res = "Inr (ops', initial) :: go_error + 'e Ops \<times> string"
  have ne: "\<not> (\<exists>e. ?res = Inl e \<and> s' = s)" by simp
  obtain mounted p s1 where l: "withMountRouter pl reg (ops_with_bootstrap (ops_with_defaults (rooted_ops ops))) = Inr mounted"
    "withPathResolution mounted s = (p, s1)"
    and r: "case p of Inl e \<Rightarrow> ?res = Inl e \<and> s' = s1
        | Inr (ops, dir) \<Rightarrow>
            (case withRuntimeBootstrap ops s1 of
               (Inl e, s2) \<Rightarrow> ?res = Inl e \<and> s' = s2
             | (Inr ops, s2) \<Rightarrow> ?res = Inr (withPathAccessPolicy ops, dir) \<and> s' = s2)"
    using normalizeOps_cases [OF assms] ne by blast
  obtain ops1 dir where p: "p = Inr (ops1, dir)" using r by (cases p) auto
  obtain resolved where res: "withRuntimeBootstrap ops1 s1 = (Inr resolved, s')" "ops' = withPathAccessPolicy resolved" "initial = dir"
    using r p by (auto split: prod.splits sum.splits)
  have "ops1 = resolving_ops (normalizeAbsolutePath (o_RootDir mounted)) dir mounted"
    using l(2) p by (auto simp: withPathResolution_def Let_def split: prod.splits sum.splits)
  then show thesis using that l res p by blast
qed

lemma engine_router:
  assumes "withMountRouter pl reg ops = Inr mounted"
  obtains r where "newMountRouter (engine_mounts reg ops) = Inr r"
    "mounted = wrapOps (SearchMountContent (pl_text pl)) (pl_visit pl) r ops" "valid_router r"
proof -
  obtain r where r: "newMountRouter (engine_mounts reg ops) = Inr r"
    and m: "mounted = (if isEmpty r then ops else wrapOps (SearchMountContent (pl_text pl)) (pl_visit pl) r ops)"
    using assms by (auto simp: withMountRouter_def split: sum.splits)
  have "set (map mm_mount r) \<noteq> {}"
    using newMountRouter_ok(3) [OF r] by (auto simp: engine_mounts_def)
  then have "\<not> isEmpty r" by (auto simp: isEmpty_def)
  then show thesis using that [OF r] m r by (auto simp: valid_router_def)
qed

lemma prepared_mutations:
  assumes "normalizeOps pl reg ops s0 = (Inr (ops', initial), s1)"
  obtains r where "newMountRouter (engine_mounts reg (ops_with_bootstrap (ops_with_defaults (rooted_ops ops)))) = Inr r"
    "valid_router r"
    "\<And>raw c old new replaceAll s. names_sys_bin s raw \<Longrightarrow> match r (spelled_path s raw) \<noteq> None \<Longrightarrow>
       mutating_outcomes ops' raw c old new replaceAll s = mutating_outcomes
         (wrapOps (SearchMountContent (pl_text pl)) (pl_visit pl) r (ops_with_bootstrap (ops_with_defaults (rooted_ops ops))))
         (spelled_path s raw) c old new replaceAll s"
    "\<And>req s. call (o_ApplyMutations ops') req s =
       resolving_all (Some (bridge_require r (o_RequireAbsolutePath (ops_with_bootstrap (ops_with_defaults (rooted_ops ops))))))
         (map ms_Path) (\<lambda>qs ms. map2 (\<lambda>q m. m\<lparr>ms_Path := q\<rparr>) qs ms)
         (bridge_apply (pl_visit pl) r (ops_with_bootstrap (ops_with_defaults (rooted_ops ops)))) req s"
proof -
  obtain mounted resolved s2 where layers:
    "withMountRouter pl reg (ops_with_bootstrap (ops_with_defaults (rooted_ops ops))) = Inr mounted"
    "withRuntimeBootstrap (resolving_ops (normalizeAbsolutePath (o_RootDir mounted)) initial mounted) s2 = (Inr resolved, s1)"
    "ops' = withPathAccessPolicy resolved"
    using prepared_layers [OF assms(1)] by metis
  let ?ops = "ops_with_bootstrap (ops_with_defaults (rooted_ops ops))"
  let ?res = "resolving_ops (normalizeAbsolutePath (o_RootDir mounted)) initial mounted"
  obtain r where r: "newMountRouter (engine_mounts reg ?ops) = Inr r"
    "mounted = wrapOps (SearchMountContent (pl_text pl)) (pl_visit pl) r ?ops" "valid_router r"
    using engine_router [OF layers(1)] by blast
  have req: "o_RequireAbsolutePath mounted = Some (bridge_require r (o_RequireAbsolutePath ?ops))"
    "o_ApplyMutations mounted = Some (bridge_apply (pl_visit pl) r ?ops)"
    by (simp_all add: r(2) wrapOps_def Let_def)
  have "mutating_outcomes ops' raw c old new replaceAll s = mutating_outcomes mounted (spelled_path s raw) c old new replaceAll s"
    if "names_sys_bin s raw" "match r (spelled_path s raw) \<noteq> None" for raw c old new replaceAll s
  proof -
    have "mutating_outcomes ops' raw c old new replaceAll s = mutating_outcomes resolved raw c old new replaceAll s"
      by (simp add: layers(3) withPathAccessPolicy_def mutating_outcomes_def)
    then show ?thesis
      using bootstrap_outcomes [OF layers(2), of raw c old new replaceAll s] resolving_outcomes [OF that req(1)] by simp
  qed
  moreover have "o_ApplyMutations ops' = o_ApplyMutations ?res"
    using layers(2) by (auto simp: layers(3) withPathAccessPolicy_def withRuntimeBootstrap_def Let_def split: prod.splits sum.splits if_splits)
  ultimately show thesis
    using that [OF r(1,3)] req unfolding r(2) by (simp add: resolving_ops_def call_def Let_def)
qed

lemma sys_bin_routed:
  assumes r: "newMountRouter (engine_mounts reg ops) = Inr r" and p: "normalizeAbsolutePath p = p"
    and "under VirtualSystemBinDir p"
    and free: "\<forall>m\<in>set (o_VirtualMounts ops). \<not> under VirtualSystemBinDir (normalizeAbsolutePath (vm_MountPoint m))"
  shows "\<exists>m. match r p = Some m \<and> mm_mount m = NewSysBinMount (Some reg)"
proof -
  have v: "valid_router r" using r by (auto simp: valid_router_def)
  note ok = newMountRouter_ok [OF r]
  have "NewSysBinMount (Some reg) \<in> set (map mm_mount r)" unfolding ok(3) by (simp add: engine_mounts_def)
  then obtain x where x: "x \<in> set r" "mm_mount x = NewSysBinMount (Some reg)" by auto
  have px: "mm_point x = VirtualSystemBinDir" using ok(4) [OF x(1)] by (simp add: x(2) NewSysBinMount_def)
  then have "route r p \<noteq> None" using x(1) assms(3) mounts.lookup_None [of r p] by auto
  then obtain m where m: "route r p = Some m" by blast
  then have mem: "m \<in> set r" using mounts.lookup_under by blast
  have below: "under VirtualSystemBinDir (mm_point m)"
    using mounts.lookup_nested [OF v m x(1)] assms(3) by (simp add: px)
  have "Some (mm_mount m) \<in> set (engine_mounts reg ops)" using ok(3) mem by auto
  then consider "mm_mount m = NewSysBinMount (Some reg)" | "mm_mount m \<in> set (o_VirtualMounts ops)"
    | "mm_mount m = NewExternalBinMount (o_ListExternalCommands ops) (o_ReadExternalManual ops)"
    by (auto simp: engine_mounts_def split: if_splits)
  then show ?thesis
  proof cases
    case 1
    then show ?thesis using m p by (auto simp: match_route)
  next
    case 2
    then show ?thesis using free below ok(4) [OF mem] by auto
  next
    case 3
    then have "mm_point m = VirtualExternalBinDir" using ok(4) [OF mem] by (simp add: NewExternalBinMount_def)
    moreover have "\<not> under VirtualSystemBinDir VirtualExternalBinDir" by code_simp
    ultimately show ?thesis using below by simp
  qed
qed

lemma prepared_mounts [simp]: "o_VirtualMounts (ops_with_bootstrap (ops_with_defaults (rooted_ops ops))) = o_VirtualMounts ops"
  by (simp add: ops_with_bootstrap_def ops_with_defaults_def rooted_ops_def Let_def)

lemma PrepareOps_normalize:
  "PrepareOps pl reg ops s = (Inr p, s') \<Longrightarrow>
   \<exists>initial. normalizeOps pl reg ops s = (Inr (pr_normalized p, initial), s') \<and> pr_resetState p = Some initial"
  by (auto simp: PrepareOps_def split: prod.splits sum.splits)

subsection \<open>The policy of an execution\<close>

definition policy_of :: "'e Ops \<Rightarrow> ExecutionPolicy" where
  "policy_of ops = (if ep_WriteMode (o_Policy ops) = WriteModeUnset then DefaultPolicy else o_Policy ops)"

lemma layer_policies:
  "o_Policy (wrapOps search visit r ops) = o_Policy ops"
  "o_Policy (resolving_ops root initial ops) = o_Policy ops" "o_RequireAbsolutePath (resolving_ops root initial ops) \<noteq> None"
  "o_Policy (ops_with_bootstrap (ops_with_defaults (rooted_ops ops))) = policy_of ops"
  by (simp_all add: wrapOps_def resolving_ops_def Let_def ops_with_bootstrap_def ops_with_defaults_def rooted_ops_def policy_of_def)

lemma bootstrap_policy:
  "withRuntimeBootstrap ops s = (Inr ops', s') \<Longrightarrow>
   o_Policy ops' = o_Policy ops \<and> o_RequireAbsolutePath ops' = o_RequireAbsolutePath ops"
  by (auto simp: withRuntimeBootstrap_def Let_def split: prod.splits sum.splits if_splits)

lemma layers_policy:
  assumes "normalizeOps pl reg ops s = (Inr (ops', initial), s')"
  shows "o_Policy ops' = policy_of ops" "o_RequireAbsolutePath ops' \<noteq> None"
proof -
  obtain mounted resolved s2 where layers:
    "withMountRouter pl reg (ops_with_bootstrap (ops_with_defaults (rooted_ops ops))) = Inr mounted"
    "withRuntimeBootstrap (resolving_ops (normalizeAbsolutePath (o_RootDir mounted)) initial mounted) s2 = (Inr resolved, s')"
    "ops' = withPathAccessPolicy resolved"
    using prepared_layers [OF assms] by metis
  obtain r where "mounted = wrapOps (SearchMountContent (pl_text pl)) (pl_visit pl) r
      (ops_with_bootstrap (ops_with_defaults (rooted_ops ops)))"
    using engine_router [OF layers(1)] by metis
  then have "o_Policy mounted = policy_of ops" by (simp add: layer_policies)
  moreover have "o_Policy resolved = o_Policy mounted" "o_RequireAbsolutePath resolved \<noteq> None"
    using bootstrap_policy [OF layers(2)] by (simp_all add: layer_policies)
  ultimately show "o_Policy ops' = policy_of ops" "o_RequireAbsolutePath ops' \<noteq> None"
    by (simp_all add: layers(3) withPathAccessPolicy_def)
qed

lemma WrapOps_policy [simp]: "o_Policy (WrapOps ops) = o_Policy ops"
  by (simp add: WrapOps_def)

lemma ExecutePreparedResult_within:
  assumes "ExecutePreparedResult pl e cmdline p counter s = (r, counter', s')" and "xr_ExitCode r = 0"
    and "0 < ep_MaxOutputBytes (o_Policy (pr_normalized p))"
  shows "int (length (FlattenOutput r)) \<le> ep_MaxOutputBytes (o_Policy (pr_normalized p))"
proof -
  let ?n = "pr_normalized p"
  obtain execID c where id: "NextExecutionID counter = (execID, c)" by (cases "NextExecutionID counter")
  have "e \<noteq> None \<and> o_RequireAbsolutePath ?n \<noteq> None"
    using assms(1,2)
    by (cases e; cases "o_RequireAbsolutePath ?n = None")
      (auto simp: ExecutePreparedResult_def zero_result_def exit_nonzero id)
  then obtain reg where e: "e = Some reg" and abs: "o_RequireAbsolutePath ?n \<noteq> None" by auto
  let ?ctx = "if ep_Timeout (o_Policy ?n) > 0 then pl_timeout pl (ep_Timeout (o_Policy ?n)) (sy_ctx s) else sy_ctx s"
  let ?t = "s\<lparr>sy_ctx := ?ctx, sy_trace := Some (newExecutionTraceCollector cmdline ?n)\<rparr>"
  obtain out s1 where run: "runScript (runCommand reg (WrapOps ?n)) (WrapOps ?n) cmdline ?t = (out, s1)"
    by (cases "runScript (runCommand reg (WrapOps ?n)) (WrapOps ?n) cmdline ?t")
  obtain err s2 where poll: "executionContextErr s1 = (err, s2)" by (cases "executionContextErr s1")
  have "xr_ExitCode r = xo_code out \<and> xr_Stdout r = xo_stdout out \<and> xr_Stderr r = xo_stderr out"
    using assms(1) unfolding ExecutePreparedResult_def Let_def e id prod.case option.case if_not_P [OF abs] run poll
    by (elim Pair_inject) (drule sym, simp)
  then have r: "xo_code out = 0" "FlattenOutput r = flattenExecOutput out"
    using assms(2) by (simp_all add: FlattenOutput_def flattenExecOutput_def)
  show ?thesis
    using runScript_within [OF run] r assms(3)
    by (auto simp: success_within_def joined_ok_def flattenExecOutput_def)
qed

text \<open>What the cache holds was prepared under the policy of its key.\<close>

definition cache_policy :: "'e Engine \<Rightarrow> bool" where
  "cache_policy en \<longleftrightarrow> (\<forall>key p. en_cache en = Some (key, p) \<longrightarrow> o_Policy (pr_normalized p) = pk_policy key \<and> pr_resetState p \<noteq> None)"

lemma key_policy: "buildPreparedCacheKey ids ops = Some key \<Longrightarrow> pk_policy key = policy_of ops"
  by (auto simp: buildPreparedCacheKey_def policy_of_def Let_def split: if_splits sum.splits)

text \<open>Every execution that gets as far as running runs callbacks prepared under its own policy, from their
  initial working directory.\<close>

lemma ExecuteResult_runs:
  assumes "cache_policy en" "ExecuteResult pl cmdline ids ops en s = (r, en', s')"
  shows "(\<exists>e. r = zero_result (fst (NextExecutionID (en_counter en))) ExitCodeGeneral (''execute: '' @ error_text e) \<and>
      en_cache en' = en_cache en) \<or>
    (\<exists>p dir s1 counter. o_Policy (pr_normalized p) = policy_of ops \<and> pr_resetState p = Some dir \<and>
       sy_cwd s1 = normalizeAbsolutePath dir \<and>
       ExecutePreparedResult pl (Some (en_registry en)) cmdline p (en_counter en) s1 = (r, counter, s') \<and>
       (en_cache en' = en_cache en \<or> (\<exists>key. en_cache en' = Some (key, p) \<and> pk_policy key = policy_of ops)))"
proof -
  obtain q s1 where q: "PrepareOps pl (en_registry en) ops s = (q, s1)" by (cases "PrepareOps pl (en_registry en) ops s")
  have run: "\<exists>counter. ExecutePreparedResult pl (Some (en_registry en1)) cmdline p (en_counter en1) t = (r, counter, s') \<and>
      en_cache en' = en_cache en1" if "run_prepared pl cmdline p en1 t = (r, en', s')" for p en1 t
    using that by (auto simp: run_prepared_def split: prod.splits)
  have reset: "sy_cwd (ResetMutableState p t) = normalizeAbsolutePath dir" if "pr_resetState p = Some dir" for p dir t
    by (simp add: ResetMutableState_def that cwd_set_def)
  have fresh: "o_Policy (pr_normalized p) = policy_of ops \<and> (\<exists>dir. pr_resetState p = Some dir)" if "q = Inr p" for p
    using PrepareOps_normalize [of pl "en_registry en" ops s p s1] q that layers_policy(1) by auto
  show ?thesis
  proof (cases "Option.bind (buildPreparedCacheKey ids ops) (loadPreparedFromCache (en_cache en))")
    case (Some p)
    then obtain key where key: "buildPreparedCacheKey ids ops = Some key" "en_cache en = Some (key, p)"
      by (auto simp: bind_eq_Some_conv loadPreparedFromCache_def split: option.splits if_splits)
    then obtain dir where p: "o_Policy (pr_normalized p) = policy_of ops" "pr_resetState p = Some dir"
      using assms(1) key_policy [OF key(1)] by (auto simp: cache_policy_def)
    have "run_prepared pl cmdline p en (ResetMutableState p s) = (r, en', s')"
      using assms(2) Some key by (simp add: ExecuteResult_def)
    from run [OF this] show ?thesis using p reset [OF p(2)] by blast
  next
    case miss: None
    then have eq: "ExecuteResult pl cmdline ids ops en s =
      (case q of
         Inl e \<Rightarrow> (case prepare_failed e en of (result, en) \<Rightarrow> (result, en, s1))
       | Inr p \<Rightarrow> run_prepared pl cmdline p (case buildPreparedCacheKey ids ops of
            None \<Rightarrow> en | Some key \<Rightarrow> en\<lparr>en_cache := storePreparedInCache key p\<rparr>) (ResetMutableState p s1))"
      by (cases "buildPreparedCacheKey ids ops") (auto simp: ExecuteResult_def q split: sum.splits)
    show ?thesis
    proof (cases q)
      case (Inl e)
      then have "r = zero_result (fst (NextExecutionID (en_counter en))) ExitCodeGeneral (''execute: '' @ error_text e) \<and>
          en_cache en' = en_cache en"
        using assms(2) eq by (auto simp: prepare_failed_def split: prod.splits)
      then show ?thesis by blast
    next
      case (Inr p)
      let ?en = "case buildPreparedCacheKey ids ops of None \<Rightarrow> en | Some key \<Rightarrow> en\<lparr>en_cache := storePreparedInCache key p\<rparr>"
      have en: "en_registry ?en = en_registry en" "en_counter ?en = en_counter en"
        "en_cache ?en = en_cache en \<or> (\<exists>key. en_cache ?en = Some (key, p) \<and> pk_policy key = policy_of ops)"
        using key_policy [of ids ops] by (auto simp: storePreparedInCache_def split: option.splits)
      obtain dir where p: "o_Policy (pr_normalized p) = policy_of ops" "pr_resetState p = Some dir" using fresh [OF Inr] by blast
      have "run_prepared pl cmdline p ?en (ResetMutableState p s1) = (r, en', s')" using assms(2) eq Inr by simp
      from run [OF this] show ?thesis using p reset [OF p(2)] en by metis
    qed
  qed
qed

lemma cache_policy_kept:
  assumes "cache_policy en" "ExecuteResult pl cmdline ids ops en s = (r, en', s')"
  shows "cache_policy en'"
  using ExecuteResult_runs [OF assms] assms(1) by (auto simp: cache_policy_def)

lemma executions_cache_policy:
  "cache_policy en \<Longrightarrow> executions pl calls en s = (rs, en', s') \<Longrightarrow> cache_policy en'"
proof (induction calls arbitrary: en s rs)
  case (Cons call calls)
  obtain ctx cmdline ids ops where c: "call = (ctx, cmdline, ids, ops)" by (cases call)
  obtain r en1 s1 where e: "ExecuteResult pl cmdline ids ops en (s\<lparr>sy_ctx := ctx\<rparr>) = (r, en1, s1)"
    by (cases "ExecuteResult pl cmdline ids ops en (s\<lparr>sy_ctx := ctx\<rparr>)") auto
  show ?case
    using Cons.IH [OF cache_policy_kept [OF Cons.prems(1) e]] Cons.prems(2) by (auto simp: c e split: prod.splits)
qed simp

subsection \<open>An adapter prepared\<close>

lemma root_normal: "normalizeAbsolutePath ''/'' = ''/''" "trim_space ''/'' = ''/''"
  by code_simp+

text \<open>Callbacks that only know the root directory, over which the samples run.\<close>

definition plain_ops :: "files Ops \<Rightarrow> bool" where
  "plain_ops ops \<longleftrightarrow>
     (let d = ops_with_defaults (rooted_ops ops); b = ops_with_bootstrap d in
      o_RequireAbsolutePath b = Some absolute_path \<and> o_IsDirPath b = Some (\<lambda>p s. (Inr (p = ''/''), s)) \<and>
      o_ListExternalCommands b = None \<and> o_RootDir b = ''/'' \<and> o_WorkingDir b = ''/'' \<and> o_RCFiles b = [] \<and>
      o_VirtualMounts ops = [] \<and> missing_callback (rooted_ops ops) = None \<and> o_Profile d = DefaultProfile)"

lemma plain_opsD:
  assumes "plain_ops ops"
  shows "o_RequireAbsolutePath (ops_with_bootstrap (ops_with_defaults (rooted_ops ops))) = Some absolute_path"
    "o_IsDirPath (ops_with_bootstrap (ops_with_defaults (rooted_ops ops))) = Some (\<lambda>p s. (Inr (p = ''/''), s))"
    "o_ListExternalCommands (ops_with_bootstrap (ops_with_defaults (rooted_ops ops))) = None"
    "o_RootDir (ops_with_bootstrap (ops_with_defaults (rooted_ops ops))) = ''/''"
    "o_WorkingDir (ops_with_bootstrap (ops_with_defaults (rooted_ops ops))) = ''/''"
    "o_RCFiles (ops_with_bootstrap (ops_with_defaults (rooted_ops ops))) = []"
    "o_VirtualMounts ops = []" "missing_callback (rooted_ops ops) = None"
    "o_Profile (ops_with_defaults (rooted_ops ops)) = DefaultProfile"
  using assms by (auto simp: plain_ops_def Let_def)

lemma reader_plain: "plain_ops reader_ops"
  by (simp add: plain_ops_def ops_with_bootstrap_def ops_with_defaults_def rooted_ops_def reader_ops_def zero_ops_def Let_def
      NormalizeRCFiles_def missing_callback_def)

lemmas reader_fields = plain_opsD [OF reader_plain]

lemma plain_prepared:
  assumes "plain_ops ops"
  shows "\<exists>p. PrepareOps sample_platform echo_registry ops s = (Inr p, s\<lparr>sy_cwd := ''/''\<rparr>)"
proof -
  note fields = plain_opsD [OF assms]
  let ?ops = "ops_with_bootstrap (ops_with_defaults (rooted_ops ops))"
  let ?r = "[\<lparr>mm_point = VirtualSystemBinDir, mm_mount = NewSysBinMount (Some echo_registry)\<rparr>]"
  have r: "newMountRouter (engine_mounts echo_registry ?ops) = Inr ?r"
    by (simp add: newMountRouter_def engine_mounts_def fields NewSysBinMount_def Let_def stable_sort_by_def)
      (simp add: VirtualSystemBinDir_def)
  let ?m = "wrapOps (SearchMountContent (pl_text sample_platform)) (pl_visit sample_platform) ?r ?ops"
  have m: "withMountRouter sample_platform echo_registry ?ops = Inr ?m"
    by (simp add: withMountRouter_def r isEmpty_def)
  have un: "match ?r ''/'' = None" "isSyntheticPrefix ?r ''/'' = False"
    by (simp_all add: match_def isSyntheticPrefix_def root_normal VirtualSystemBinDir_def)
  have req: "bridge_require ?r (o_RequireAbsolutePath ?ops) ''/'' s = (Inr ''/'', s)" for s :: "files sys"
    by (simp add: bridge_require_def root_normal un fields absolute_path_def)
  have "activeMounts ?r s = (Inr (if BuiltinCommandDocs (echo_registry :: files Registry) \<noteq> [] then ?r else []), s)" for s :: "files sys"
    by (simp add: NewSysBinMount_def)
  then have syn: "isSyntheticDir ?r ''/'' s = (Inr False, s)" for s :: "files sys"
    by (simp add: isSyntheticDir_def root_normal VirtualSystemBinDir_def)
  have dir: "bridge_is_dir ?r (o_IsDirPath ?ops) ''/'' s = (Inr True, s)" for s :: "files sys"
    by (simp add: bridge_is_dir_def statEntry_def root_normal activeForPath_unmounted un syn Let_def fields)
  have res: "withPathResolution ?m s = (Inr (resolving_ops ''/'' ''/'' ?m, ''/''), s\<lparr>sy_cwd := ''/''\<rparr>)"
    using req dir
    by (simp add: withPathResolution_def resolveInitialWorkingDir_def wrapOps_def Let_def fields root_normal)
  have rc: "o_RCFiles (resolving_ops ''/'' ''/'' ?m) = []"
    by (simp add: resolving_ops_def wrapOps_def Let_def fields)
  have "ParseProfile DefaultProfile = Inr DefaultProfile" by code_simp
  then have "normalizeOps sample_platform echo_registry ops s =
      (Inr (withPathAccessPolicy (resolving_ops ''/'' ''/'' ?m), ''/''), s\<lparr>sy_cwd := ''/''\<rparr>)"
    using m res rc unfolding normalizeOps_rooted
    by (simp add: withRuntimeBootstrap_def NormalizeRCFiles_def fields)
  then show ?thesis by (simp add: PrepareOps_def)
qed

lemma reader_prepared: "\<exists>p. PrepareOps sample_platform echo_registry reader_ops (live_sys []) = (Inr p, live_sys [])"
  using plain_prepared [OF reader_plain, of "live_sys []"] by (simp add: live_sys_def)

subsection \<open>Properties\<close>

lemma sys_bin_route:
  assumes "newMountRouter (engine_mounts reg ops) = Inr r"
    and "\<forall>m\<in>set (o_VirtualMounts ops). \<not> under VirtualSystemBinDir (normalizeAbsolutePath (vm_MountPoint m))"
    and "in_sys_bin p" and "normalizeAbsolutePath p = p"
  shows "\<exists>m. match r p = Some m \<and> \<not> mutation_declared (vm_Profile (mm_mount m))"
  using sys_bin_routed [OF assms(1,4) _ assms(2)] assms(3) by (force simp: in_sys_bin_def)

text \<open>A batch after its paths are resolved, and the batch as it is given.\<close>

lemma renamed_refused:
  assumes r: "valid_router r"
    and route: "\<And>p. in_sys_bin p \<Longrightarrow> normalizeAbsolutePath p = p \<Longrightarrow>
      \<exists>m. match r p = Some m \<and> \<not> mutation_declared (vm_Profile (mm_mount m))"
    and p: "spelled_path t p \<in> set qs" "names_sys_bin t p" and len: "length qs = length req"
  shows "\<exists>e. bridge_apply visit r ops (map2 (\<lambda>q m. m\<lparr>ms_Path := q\<rparr>) qs req) s = (Inl e, s)"
proof -
  obtain op where op: "op \<in> set (map2 (\<lambda>q m. m\<lparr>ms_Path := q\<rparr>) qs req)" "ms_Path op = spelled_path t p"
    by (rule renamed_member [OF p(1) len])
  obtain m where "match r (spelled_path t p) = Some m" "\<not> mutation_declared (vm_Profile (mm_mount m))"
    using route [OF _ spelled_path_normal [OF p(2)]] p(2) by (auto simp: names_sys_bin_def)
  then show ?thesis using bridge_apply_refused [OF r op(1)] op(2) spelled_path_normal [OF p(2)] by simp
qed

lemma sys_bin_batch:
  fixes ops :: "'e Ops" and s :: "'e sys" and orig :: "(string, string, 'e) op option"
    and visit :: "(string, MutationRecord list) gomap \<Rightarrow> (string, MutationRecord list) gomap"
  assumes r: "valid_router r"
    and route: "\<And>p. in_sys_bin p \<Longrightarrow> normalizeAbsolutePath p = p \<Longrightarrow>
      \<exists>m. match r p = Some m \<and> \<not> mutation_declared (vm_Profile (mm_mount m))"
  defines "run \<equiv> resolving_all (Some (bridge_require r orig)) (map ms_Path) (\<lambda>qs ms. map2 (\<lambda>q m. m\<lparr>ms_Path := q\<rparr>) qs ms)
    (bridge_apply visit r ops)"
  shows "req \<noteq> [] \<Longrightarrow> \<forall>op\<in>set req. names_sys_bin s (ms_Path op) \<Longrightarrow> \<exists>e. run req s = (Inl e, s)"
    and "op \<in> set req \<Longrightarrow> has_prefix (trim_space (ms_Path op)) ''/'' \<Longrightarrow> names_sys_bin s (ms_Path op) \<Longrightarrow>
      \<exists>e. fst (run req s) = Inl e"
proof -
  have mounted: "match r p \<noteq> None" if "in_sys_bin p" "normalizeAbsolutePath p = p" for p using route [OF that] by auto
  have refused: "\<exists>e. bridge_apply visit r ops (map2 (\<lambda>q m. m\<lparr>ms_Path := q\<rparr>) qs req) s' = (Inl e, s')"
    if "spelled_path s p \<in> set qs" "names_sys_bin s p" "length qs = length req" for qs p s'
    by (rule renamed_refused [OF r _ that]) (rule route)
  show "\<exists>e. run req s = (Inl e, s)" if ne: "req \<noteq> []" and named: "\<forall>op\<in>set req. names_sys_bin s (ms_Path op)"
  proof -
    let ?qs = "map (spelled_path s) (map ms_Path req)"
    obtain op where op: "op \<in> set req" using ne by (cases req) auto
    have "resolve_all (Some (bridge_require r orig)) (map ms_Path req) s = (Inr ?qs, s)"
      by (rule resolve_all_named [OF mounted]) (use named in auto)
    moreover have "\<exists>e. bridge_apply visit r ops (map2 (\<lambda>q m. m\<lparr>ms_Path := q\<rparr>) ?qs req) s = (Inl e, s)"
      by (rule refused [of "ms_Path op"]) (use named op in auto)
    ultimately show ?thesis by (simp add: run_def resolving_all_def)
  qed
  assume op: "op \<in> set req" "has_prefix (trim_space (ms_Path op)) ''/''" "names_sys_bin s (ms_Path op)"
  obtain res s' where res: "resolve_all (Some (bridge_require r orig)) (map ms_Path req) s = (res, s')" by fastforce
  show "\<exists>e. fst (run req s) = Inl e"
  proof (cases res)
    case (Inr qs)
    have "spelled_path s (ms_Path op) \<in> set qs" "length qs = length req"
      using resolve_all_member [OF mounted res [unfolded Inr], of "ms_Path op" s] op by auto
    from refused [OF this(1) op(3) this(2), of s'] show ?thesis by (auto simp: run_def resolving_all_def res Inr)
  qed (simp add: run_def resolving_all_def res)
qed

text \<open>C22. Nothing can be written below \<open>/sys/bin\<close> by the prepared callbacks, whatever callbacks an adapter provides, as long
  as it mounts nothing of its own at or below \<open>/sys/bin\<close>. However a path is spelled, if it resolves to a path there that
  does not end in a blank, each of the six mutations of one path fails as unsupported and changes nothing. A batch of
  mutations of such paths fails and changes nothing; one that names such a path from the root among others fails.\<close>

theorem sys_bin_read_only:
  assumes "PrepareOps pl reg ops s0 = (Inr prepared, s1)"
    and "\<forall>m\<in>set (o_VirtualMounts ops). \<not> under VirtualSystemBinDir (normalizeAbsolutePath (vm_MountPoint m))"
  shows "(names_sys_bin s raw \<longrightarrow>
      (\<forall>outcome \<in> set (mutating_outcomes (pr_normalized prepared) raw c old new replaceAll s).
         \<exists>e. outcome = (Inl e, s) \<and> is_unsupported e)) \<and>
    (req \<noteq> [] \<and> (\<forall>op\<in>set req. names_sys_bin s (ms_Path op)) \<longrightarrow>
      (\<exists>e. call (o_ApplyMutations (pr_normalized prepared)) req s = (Inl e, s))) \<and>
    ((\<exists>op\<in>set req. has_prefix (trim_space (ms_Path op)) ''/'' \<and> names_sys_bin s (ms_Path op)) \<longrightarrow>
      (\<exists>e. fst (call (o_ApplyMutations (pr_normalized prepared)) req s) = Inl e))"
proof -
  obtain initial where n: "normalizeOps pl reg ops s0 = (Inr (pr_normalized prepared, initial), s1)"
    using PrepareOps_normalize [OF assms(1)] by blast
  let ?ops = "ops_with_bootstrap (ops_with_defaults (rooted_ops ops))"
  obtain r where r: "newMountRouter (engine_mounts reg ?ops) = Inr r" "valid_router r"
    and outcomes: "\<And>raw c old new replaceAll s. names_sys_bin s raw \<Longrightarrow> match r (spelled_path s raw) \<noteq> None \<Longrightarrow>
       mutating_outcomes (pr_normalized prepared) raw c old new replaceAll s = mutating_outcomes
         (wrapOps (SearchMountContent (pl_text pl)) (pl_visit pl) r ?ops) (spelled_path s raw) c old new replaceAll s"
    and batch: "\<And>req s. call (o_ApplyMutations (pr_normalized prepared)) req s =
       resolving_all (Some (bridge_require r (o_RequireAbsolutePath ?ops))) (map ms_Path)
         (\<lambda>qs ms. map2 (\<lambda>q m. m\<lparr>ms_Path := q\<rparr>) qs ms) (bridge_apply (pl_visit pl) r ?ops) req s"
    by (rule prepared_mutations [OF n]) blast
  have "\<forall>m\<in>set (o_VirtualMounts ?ops). \<not> under VirtualSystemBinDir (normalizeAbsolutePath (vm_MountPoint m))"
    using assms(2) by simp
  note route = sys_bin_route [OF r(1) this]
  have "\<exists>e. outcome = (Inl e, s) \<and> is_unsupported e"
    if named: "names_sys_bin s raw" and o: "outcome \<in> set (mutating_outcomes (pr_normalized prepared) raw c old new replaceAll s)"
    for outcome
  proof -
    obtain m where m: "match r (spelled_path s raw) = Some m" "\<not> mutation_declared (vm_Profile (mm_mount m))"
      using route [OF _ spelled_path_normal [OF named]] named by (auto simp: names_sys_bin_def)
    from o outcomes [OF named] m(1)
    have "outcome \<in> set (mutating_outcomes (wrapOps (SearchMountContent (pl_text pl)) (pl_visit pl) r ?ops)
        (spelled_path s raw) c old new replaceAll s)" by simp
    then show ?thesis
      using wrapOps_refused [OF m(1) spelled_path_normal [OF named] m(2), where search = "SearchMountContent (pl_text pl)"
          and visit = "pl_visit pl" and ops = ?ops and c = c and s = s and old = old and new = new and all = replaceAll]
      by (auto simp: mutating_outcomes_def)
  qed
  then show ?thesis unfolding batch using sys_bin_batch [OF r(2) route] by blast
qed

theorem sys_bin_read_only_witness:
  "\<exists>p e e'. PrepareOps sample_platform echo_registry reader_ops (live_sys []) = (Inr p, live_sys []) \<and>
     call (o_WriteFile (pr_normalized p)) (''/sys//bin/ls'', ''x'') (live_sys []) = (Inl e, live_sys []) \<and> is_unsupported e \<and>
     call (o_ApplyMutations (pr_normalized p)) [mutation_spec MutationRemoveFile ''/sys/bin/ls''] (live_sys []) = (Inl e', live_sys [])"
proof -
  obtain p where p: "PrepareOps sample_platform echo_registry reader_ops (live_sys []) = (Inr p, live_sys [])"
    using reader_prepared by blast
  have named: "names_sys_bin (live_sys ([] :: files)) ''/sys//bin/ls''" "names_sys_bin (live_sys ([] :: files)) ''/sys/bin/ls''"
    by code_simp+
  have free: "\<forall>m\<in>set (o_VirtualMounts reader_ops). \<not> under VirtualSystemBinDir (normalizeAbsolutePath (vm_MountPoint m))"
    by (simp add: reader_fields)
  from sys_bin_read_only [OF p free, of "live_sys []" "''/sys//bin/ls''" "''x''" "[]" "[]" False
      "[mutation_spec MutationRemoveFile ''/sys/bin/ls'']"] p named
  show ?thesis by (auto simp: mutating_outcomes_def mutation_spec_def)
qed

text \<open>C40. Whatever ran on the engine before, with whatever callbacks and policies, an execution that succeeds
  returns no more output than its own policy allows.\<close>

theorem execution_within_policy:
  assumes "en_cache en0 = None" and "executions pl calls en0 s0 = (rs, en, s)"
    and "ExecuteResult pl cmdline ids ops en s = (r, en', s')" and "xr_ExitCode r = 0"
    and "0 < ep_MaxOutputBytes (policy_of ops)"
  shows "int (length (FlattenOutput r)) \<le> ep_MaxOutputBytes (policy_of ops)"
proof -
  have "cache_policy en0" using assms(1) by (simp add: cache_policy_def)
  then have "cache_policy en" using executions_cache_policy assms(2) by blast
  note runs = ExecuteResult_runs [OF this assms(3)]
  have "?thesis"
    if "ExecutePreparedResult pl (Some (en_registry en)) cmdline p (en_counter en) s1 = (r, counter, s')"
      "o_Policy (pr_normalized p) = policy_of ops" for p s1 counter
    using ExecutePreparedResult_within [OF that(1) assms(4)] assms(5) that(2) by simp
  moreover have "xr_ExitCode r \<noteq> 0" if "r = zero_result execID ExitCodeGeneral msg" for execID msg
    by (simp add: that zero_result_def exit_nonzero)
  ultimately show ?thesis using runs assms(4) by blast
qed

lemma empty_script_runs:
  assumes "PrepareOps sample_platform echo_registry reader_ops (live_sys []) = (Inr p, live_sys [])"
  shows "\<exists>r en' s'. ExecuteResult sample_platform [] sample_ids reader_ops echo_engine (live_sys []) = (r, en', s') \<and> xr_ExitCode r = 0"
proof -
  obtain initial where n: "normalizeOps sample_platform echo_registry reader_ops (live_sys []) = (Inr (pr_normalized p, initial), live_sys [])"
    using PrepareOps_normalize [OF assms] by blast
  have abs: "o_RequireAbsolutePath (pr_normalized p) \<noteq> None" using layers_policy(2) [OF n] .
  have "parseScript [] = Inr []" by code_simp
  then have "runScript run ops [] t = (empty_output, t)" if "sy_ctx t = CtxLive" for run ops and t :: "files sys"
    by (simp add: runScript_def executionContextErr_live that)
  moreover have "sy_ctx (ResetMutableState p (live_sys [])) = CtxLive"
    by (simp add: ResetMutableState_def cwd_set_def live_sys_def split: option.splits)
  ultimately have "xr_ExitCode (fst (ExecutePreparedResult sample_platform (Some reg) [] p c (ResetMutableState p (live_sys [])))) = 0" for reg c
    using abs by (simp add: ExecutePreparedResult_def sample_platform_def Let_def empty_output_def NextExecutionID_def
        executionContextErr_live) auto
  then obtain r c2 s2 where r: "ExecutePreparedResult sample_platform (Some echo_registry) [] p 0
      (ResetMutableState p (live_sys [])) = (r, c2, s2)" "xr_ExitCode r = 0"
    by (metis prod_cases3 fst_conv)
  show ?thesis
    by (cases "buildPreparedCacheKey sample_ids reader_ops")
      (simp_all add: ExecuteResult_def echo_engine_def loadPreparedFromCache_def run_prepared_def assms r)
qed

theorem execution_within_policy_witness:
  "\<exists>r en' s'. ExecuteResult sample_platform [] sample_ids reader_ops echo_engine (live_sys []) = (r, en', s') \<and>
     int (length (FlattenOutput r)) \<le> 4194304"
proof -
  obtain p where p: "PrepareOps sample_platform echo_registry reader_ops (live_sys []) = (Inr p, live_sys [])"
    using reader_prepared by blast
  from empty_script_runs [OF p] obtain r en' s' where
    r: "ExecuteResult sample_platform [] sample_ids reader_ops echo_engine (live_sys []) = (r, en', s')" "xr_ExitCode r = 0"
    by blast
  have pol: "policy_of reader_ops = DefaultPolicy" by (simp add: policy_of_def reader_ops_def zero_ops_def)
  have "en_cache echo_engine = None" by (simp add: echo_engine_def)
  from execution_within_policy [where calls = "[]", OF this _ r] r(1) pol show ?thesis
    by (simp add: DefaultPolicy_def)
qed

end
