(* ===== verification/Runtime_Stack.thy ===== *)
theory Runtime_Stack
  imports Engine
begin

section \<open>The runtime stack: filesystem, options and engine composed\<close>

text \<open>
  \<open>contract.OpsFromFilesystem\<close> turns a filesystem into callbacks, \<open>fs.NewRuntimeOps\<close> adds what the
  options of a session say, and \<open>runtime.New\<close> prepares an engine over the result. A \<open>Stack\<close> is that
  prepared engine together with the working directory its path resolution keeps.
\<close>

subsection \<open>Filesystems (\<open>integration_contract.go\<close>)\<close>

text \<open>A \<open>Filesystem\<close> with the optional interfaces it may also implement.\<close>

record 'e Filesystem =
  fs_RootDir :: string
  fs_RequireAbsolutePath :: "(string, string, 'e) op"
  fs_ListChildren :: "(string, string list, 'e) op"
  fs_IsDirPath :: "(string, bool, 'e) op"
  fs_ReadRawContent :: "(string, string, 'e) op"
  fs_ResolveSearchPaths :: "(string \<times> bool, string list, 'e) op"
  fs_CollectFilesUnder :: "(string, string list, 'e) op"
  fs_WriteFile :: "(string \<times> string, unit, 'e) op"
  fs_AppendFile :: "(string \<times> string, unit, 'e) op"
  fs_EditFile :: "(string \<times> string \<times> string \<times> bool, unit, 'e) op"
  fs_DescribePath :: "(string, PathMeta, 'e) op option"
  fs_ListEntries :: "(ListEntriesRequest, MountEntry list, 'e) op option"
  fs_EnumeratePaths :: "(EnumeratePathsRequest, MountEntry list, 'e) op option"
  fs_ReadMany :: "(ReadManyRequest, MountContentEntry list, 'e) op option"
  fs_SearchContent :: "(SearchRequest, SearchRecord list, 'e) op option"
  fs_ListExternalCommands :: "(unit, (string \<times> string) list, 'e) op option"
  fs_RunExternalCommand ::
    "(ExternalCommandRequest \<Rightarrow> 'e sys \<Rightarrow> (ExternalCommandResult \<times> go_error option) \<times> 'e sys) option"
  fs_ReadExternalManual :: "(string, string, 'e) op option"
  fs_MakeDir :: "(string, unit, 'e) op option"
  fs_RemoveFile :: "(string, unit, 'e) op option"
  fs_RemoveDir :: "(string, unit, 'e) op option"
  fs_ApplyMutations :: "(MutationSpec list, MutationRecord list, 'e) op option"
  fs_VirtualMounts :: "'e VirtualMount list option"
  fs_PathEnv :: "string list option"
  fs_CheckPathOp :: "(PathOp \<times> string, unit, 'e) op option"

definition provided :: "'a list option \<Rightarrow> 'a list" where
  "provided xs = (case xs of None \<Rightarrow> [] | Some ys \<Rightarrow> ys)"

definition OpsFromFilesystem :: "'e Filesystem \<Rightarrow> 'e Ops" where
  "OpsFromFilesystem fs =
     (let root = trim_space (fs_RootDir fs); root = (if root = [] then ''/'' else root) in
      zero_ops\<lparr>o_WorkingDir := root, o_RootDir := root,
        o_RequireAbsolutePath := Some (fs_RequireAbsolutePath fs), o_ListChildren := Some (fs_ListChildren fs),
        o_IsDirPath := Some (fs_IsDirPath fs), o_ReadRawContent := Some (fs_ReadRawContent fs),
        o_ResolveSearchPaths := Some (fs_ResolveSearchPaths fs), o_CollectFilesUnder := Some (fs_CollectFilesUnder fs),
        o_WriteFile := Some (fs_WriteFile fs), o_AppendFile := Some (fs_AppendFile fs),
        o_EditFile := Some (fs_EditFile fs), o_Profile := DefaultProfile, o_Policy := DefaultPolicy,
        o_DescribePath := fs_DescribePath fs, o_ListEntries := fs_ListEntries fs,
        o_EnumeratePaths := fs_EnumeratePaths fs, o_ReadMany := fs_ReadMany fs, o_SearchContent := fs_SearchContent fs,
        o_ListExternalCommands := fs_ListExternalCommands fs, o_RunExternalCommand := fs_RunExternalCommand fs,
        o_ReadExternalManual := fs_ReadExternalManual fs, o_MakeDir := fs_MakeDir fs,
        o_RemoveFile := fs_RemoveFile fs, o_RemoveDir := fs_RemoveDir fs, o_ApplyMutations := fs_ApplyMutations fs,
        o_VirtualMounts := provided (fs_VirtualMounts fs), o_PathEnv := provided (fs_PathEnv fs),
        o_CheckPathOp := fs_CheckPathOp fs\<rparr>)"

subsection \<open>The host\<close>

text \<open>What the composition takes from elsewhere: the platform of the engine, the registry with the default
  builtins, the filesystem over a host directory with a write limit (\<open>NewAIFilesystem\<close>), the corpus
  mount, the printer of durations and the clock, whose \<open>n\<close>-th reading is \<open>host_clock n\<close>.\<close>

record 'e host =
  host_platform :: platform
  host_registry :: "'e Registry"
  host_filesystem :: "string \<Rightarrow> int \<Rightarrow> 'e sys \<Rightarrow> (go_error + 'e Filesystem) \<times> 'e sys"
  host_corpus :: "go_error + 'e VirtualMount"
  host_duration :: "int \<Rightarrow> string"
  host_clock :: "nat \<Rightarrow> int"

record 'e ExternalCallbacks =
  xc_ListExternalCommands :: "(unit, (string \<times> string) list, 'e) op option"
  xc_RunExternalCommand ::
    "(ExternalCommandRequest \<Rightarrow> 'e sys \<Rightarrow> (ExternalCommandResult \<times> go_error option) \<times> 'e sys) option"
  xc_ReadExternalManual :: "(string, string, 'e) op option"

text \<open>\<open>runtime.Options\<close> without its adapters, which the session manager adds: the part that
  \<open>fs.EnvironmentOptions\<close> and \<open>New\<close> read. \<open>FormatLSLongRow\<close> is left out.\<close>

record 'e stack_options =
  opt_HostRoot :: string
  opt_WorkingDir :: string
  opt_Profile :: CompatibilityProfile
  opt_Policy :: ExecutionPolicy
  opt_CommandAliases :: alias_map
  opt_EnvVars :: env_map
  opt_RCFiles :: "string list"
  opt_VirtualMounts :: "'e VirtualMount list"
  opt_EnableTestCorpus :: bool
  opt_PathEnv :: "string list"
  opt_ExternalCallbacks :: "'e ExternalCallbacks"
  opt_AuditSink :: bool

subsection \<open>Composing (\<open>filesystem_env.go\<close>, \<open>runtime_stack.go\<close>)\<close>

definition resolveWriteLimitedBytes :: "ExecutionPolicy \<Rightarrow> int" where
  "resolveWriteLimitedBytes policy =
     (if ep_WriteMode policy \<noteq> WriteModeWriteLimited then 0
      else if ep_MaxWriteBytes policy \<le> 0 then 0
      else ep_MaxWriteBytes policy)"

definition runtime_ops :: "'e stack_options \<Rightarrow> 'e Ops \<Rightarrow> 'e Ops" where
  "runtime_ops opts ops =
     ops\<lparr>o_Profile := (if opt_Profile opts \<noteq> [] then opt_Profile opts else o_Profile ops),
         o_Policy := (if ep_WriteMode (opt_Policy opts) \<noteq> WriteModeUnset then opt_Policy opts else o_Policy ops),
         o_PathEnv := o_PathEnv ops @ opt_PathEnv opts,
         o_ListExternalCommands := xc_ListExternalCommands (opt_ExternalCallbacks opts),
         o_RunExternalCommand := xc_RunExternalCommand (opt_ExternalCallbacks opts),
         o_ReadExternalManual := xc_ReadExternalManual (opt_ExternalCallbacks opts),
         o_CommandAliases := NormalizeCommandAliases (opt_CommandAliases opts),
         o_EnvVars := NormalizeEnvVars (opt_EnvVars opts),
         o_RCFiles := NormalizeRCFiles (opt_RCFiles opts),
         o_VirtualMounts := o_VirtualMounts ops @ opt_VirtualMounts opts,
         o_AuditSink := opt_AuditSink opts\<rparr>"

definition NewRuntimeOps :: "'e host \<Rightarrow> 'e stack_options \<Rightarrow> 'e sys \<Rightarrow> (go_error + 'e Ops) \<times> 'e sys" where
  "NewRuntimeOps h opts s =
     (case host_filesystem h (opt_HostRoot opts) (resolveWriteLimitedBytes (opt_Policy opts)) s of
        (Inl e, s) \<Rightarrow> (Inl e, s)
      | (Inr fsys, s) \<Rightarrow>
          (let ops = runtime_ops opts (OpsFromFilesystem fsys) in
           if opt_EnableTestCorpus opts
           then (case host_corpus h of
                   Inl e \<Rightarrow> (Inl (ErrWrap (''enable test corpus mount failed: '' @ error_text e) e), s)
                 | Inr m \<Rightarrow> (Inr (ops\<lparr>o_VirtualMounts := o_VirtualMounts ops @ [m]\<rparr>), s))
           else (Inr ops, s)))"

text \<open>The working directory of the path resolution is \<open>stack_cwd\<close> while nothing runs, and \<open>sy_cwd\<close>
  during a run.\<close>

record 'e Stack =
  stack_engine :: "'e Registry"
  stack_ops :: "'e Ops"
  stack_prepared :: "'e PreparedOps"
  stack_cwd :: string

definition stack_working_dir :: "'e stack_options \<Rightarrow> 'e Ops \<Rightarrow> 'e Ops" where
  "stack_working_dir opts ops =
     (if trim_space (opt_WorkingDir opts) \<noteq> [] then ops\<lparr>o_WorkingDir := trim_space (opt_WorkingDir opts)\<rparr> else ops)"

text \<open>\<open>New\<close> prepares under the background context; the caller's context and working directory stay as
  they are.\<close>

definition New :: "'e host \<Rightarrow> 'e stack_options \<Rightarrow> 'e sys \<Rightarrow> (go_error + 'e Stack) \<times> 'e sys" where
  "New h opts s =
     (case NewRuntimeOps h opts s of
        (Inl e, s1) \<Rightarrow> (Inl e, s1)
      | (Inr ops, s1) \<Rightarrow>
          (let ops = stack_working_dir opts ops in
           case PrepareOps (host_platform h) (host_registry h) ops (s1\<lparr>sy_ctx := CtxLive\<rparr>) of
             (Inl e, s2) \<Rightarrow> (Inl e, s2\<lparr>sy_ctx := sy_ctx s1, sy_cwd := sy_cwd s1\<rparr>)
           | (Inr prepared, s2) \<Rightarrow>
               (Inr \<lparr>stack_engine = host_registry h, stack_ops = ops, stack_prepared = prepared, stack_cwd = sy_cwd s2\<rparr>,
                s2\<lparr>sy_ctx := sy_ctx s1, sy_cwd := sy_cwd s1\<rparr>)))"

definition Stack_ExecuteResult :: "platform \<Rightarrow> ctx_state \<Rightarrow> string \<Rightarrow> 'e Stack option \<Rightarrow> 64 word \<Rightarrow> 'e sys \<Rightarrow>
    ExecutionResult \<times> 'e Stack option \<times> 64 word \<times> 'e sys" where
  "Stack_ExecuteResult pl ctx commandLine stack counter s =
     (case stack of
        None \<Rightarrow> (zero_result [] ExitCodeGeneral ''execute: runtime is not initialized'', None, counter, s)
      | Some r \<Rightarrow>
          (case ExecutePreparedResult pl (Some (stack_engine r)) commandLine (stack_prepared r) counter
                  (s\<lparr>sy_ctx := ctx, sy_cwd := stack_cwd r\<rparr>) of
             (result, counter, s1) \<Rightarrow>
               (result, Some (r\<lparr>stack_cwd := sy_cwd s1\<rparr>), counter, s1\<lparr>sy_ctx := sy_ctx s, sy_cwd := sy_cwd s\<rparr>)))"

definition Stack_Execute :: "platform \<Rightarrow> ctx_state \<Rightarrow> string \<Rightarrow> 'e Stack option \<Rightarrow> 64 word \<Rightarrow> 'e sys \<Rightarrow>
    (string \<times> int) \<times> 'e Stack option \<times> 64 word \<times> 'e sys" where
  "Stack_Execute pl ctx commandLine stack counter s =
     (case Stack_ExecuteResult pl ctx commandLine stack counter s of
        (result, rest) \<Rightarrow> ((FlattenOutput result, xr_ExitCode result), rest))"

definition stackOps :: "'e Stack option \<Rightarrow> 'e Ops" where
  "stackOps stack =
     (case stack of
        None \<Rightarrow> zero_ops
      | Some r \<Rightarrow>
          (if o_RequireAbsolutePath (pr_normalized (stack_prepared r)) \<noteq> None then pr_normalized (stack_prepared r)
           else stack_ops r))"

definition first_set :: "string list \<Rightarrow> string \<Rightarrow> string" where
  "first_set xs d = (case filter (\<lambda>x. x \<noteq> []) (map trim_space xs) of [] \<Rightarrow> d | x # _ \<Rightarrow> x)"

definition stackWorkingDir :: "'e Ops \<Rightarrow> 'e sys \<Rightarrow> string" where
  "stackWorkingDir ops s =
     first_set ((case o_GetWorkingDir ops of None \<Rightarrow> [] | Some get \<Rightarrow> [get s]) @ [o_WorkingDir ops, o_RootDir ops]) ''/''"

definition stackWorkingDir_of :: "'e Stack option \<Rightarrow> 'e sys \<Rightarrow> string" where
  "stackWorkingDir_of stack s =
     (case stack of None \<Rightarrow> ''/'' | Some r \<Rightarrow> stackWorkingDir (stackOps stack) (s\<lparr>sy_cwd := stack_cwd r\<rparr>))"

end
