(* ===== verification/Session_Contract.thy ===== *)
theory Session_Contract
  imports Runtime_Stack
begin

section \<open>Sessions and their adapters (\<open>session_contract.go\<close>, \<open>adapter_contract.go\<close>, \<open>session_adapters.go\<close>)\<close>

text \<open>
  A session is what survives between executions: aliases, environment, rc files, working directory and
  the opaque state of its adapters. Times are numbers; a \<open>json.RawMessage\<close> is a string.
\<close>

subsection \<open>Sessions\<close>

datatype SessionExecutionStatus = StatusRunning | StatusCanceling

record SessionExecutionState =
  xs_ExecutionID :: string
  xs_CommandLine :: string
  xs_StartedAt :: int
  xs_Status :: SessionExecutionStatus
  xs_StatusUpdatedAt :: int

record SessionState =
  ss_CommandAliases :: alias_map
  ss_EnvVars :: env_map
  ss_RCFiles :: "string list"
  ss_WorkingDir :: string
  ss_Opaque :: "(string, string) gomap"

record Session =
  sn_SessionID :: string
  sn_CreatedAt :: int
  sn_UpdatedAt :: int
  sn_Profile :: CompatibilityProfile
  sn_PolicyCeiling :: ExecutionPolicy
  sn_State :: SessionState
  sn_ActiveExecution :: "SessionExecutionState option"

definition State_Clone :: "SessionState \<Rightarrow> SessionState" where
  "State_Clone s =
     \<lparr>ss_CommandAliases = NormalizeCommandAliases (ss_CommandAliases s), ss_EnvVars = NormalizeEnvVars (ss_EnvVars s),
      ss_RCFiles = NormalizeRCFiles (ss_RCFiles s), ss_WorkingDir = trim_space (ss_WorkingDir s), ss_Opaque = ss_Opaque s\<rparr>"

definition Session_Clone :: "Session \<Rightarrow> Session" where
  "Session_Clone s = s\<lparr>sn_State := State_Clone (sn_State s)\<rparr>"

text \<open>What a stack contributes to the state of its session.\<close>

definition Stack_SessionState :: "'e Stack option \<Rightarrow> string list \<Rightarrow> 'e sys \<Rightarrow> SessionState" where
  "Stack_SessionState stack rcFiles s =
     (case stack of
        None \<Rightarrow> \<lparr>ss_CommandAliases = [], ss_EnvVars = [], ss_RCFiles = NormalizeRCFiles rcFiles, ss_WorkingDir = [], ss_Opaque = []\<rparr>
      | Some r \<Rightarrow>
          \<lparr>ss_CommandAliases = NormalizeCommandAliases (o_CommandAliases (stackOps stack)),
           ss_EnvVars = NormalizeEnvVars (o_EnvVars (stackOps stack)), ss_RCFiles = NormalizeRCFiles rcFiles,
           ss_WorkingDir = stackWorkingDir (stackOps stack) (s\<lparr>sy_cwd := stack_cwd r\<rparr>), ss_Opaque = []\<rparr>)"

subsection \<open>Adapters\<close>

record 'e AdapterProjection =
  ap_VirtualMounts :: "'e VirtualMount list"
  ap_Memory :: "'e VirtualMount option"
  ap_Freshness :: string
  ap_OpaqueState :: string

definition ProjectionMounts :: "'e AdapterProjection \<Rightarrow> 'e VirtualMount list" where
  "ProjectionMounts p = ap_VirtualMounts p @ (case ap_Memory p of None \<Rightarrow> [] | Some m \<Rightarrow> [m])"

record 'e SessionAdapter =
  sa_AdapterID :: string
  sa_CreateSession :: "(Session, 'e AdapterProjection, 'e) op"
  sa_ResumeSession :: "(Session, 'e AdapterProjection, 'e) op"
  sa_ObserveExecution :: "(Session \<times> ExecutionResult, 'e AdapterProjection, 'e) op"
  sa_CheckpointSession :: "(Session, 'e AdapterProjection, 'e) op"
  sa_CloseSession :: "(Session, 'e AdapterProjection, 'e) op"

datatype adapterPhase = adapterPhaseCreate | adapterPhaseResume | adapterPhaseObserve | adapterPhaseCheckpoint
  | adapterPhaseClose | adapterPhaseOther string

fun phase_text :: "adapterPhase \<Rightarrow> string" where
  "phase_text adapterPhaseCreate = ''create''"
| "phase_text adapterPhaseResume = ''resume''"
| "phase_text adapterPhaseObserve = ''observe''"
| "phase_text adapterPhaseCheckpoint = ''checkpoint''"
| "phase_text adapterPhaseClose = ''close''"
| "phase_text (adapterPhaseOther p) = p"

fun invokeAdapterPhase :: "'e SessionAdapter \<Rightarrow> adapterPhase \<Rightarrow> Session \<Rightarrow> ExecutionResult \<Rightarrow> 'e sys \<Rightarrow>
    (go_error + 'e AdapterProjection) \<times> 'e sys" where
  "invokeAdapterPhase a adapterPhaseCreate session result s = sa_CreateSession a session s"
| "invokeAdapterPhase a adapterPhaseResume session result s = sa_ResumeSession a session s"
| "invokeAdapterPhase a adapterPhaseObserve session result s = sa_ObserveExecution a (session, result) s"
| "invokeAdapterPhase a adapterPhaseCheckpoint session result s = sa_CheckpointSession a session s"
| "invokeAdapterPhase a adapterPhaseClose session result s = sa_CloseSession a session s"
| "invokeAdapterPhase a (adapterPhaseOther p) session result s =
     (Inl (ErrText (''unsupported adapter phase '' @ go_quote p)), s)"

definition with_opaque :: "string \<Rightarrow> string \<Rightarrow> Session \<Rightarrow> Session" where
  "with_opaque adapterID opaque session =
     (if opaque = [] then session
      else session\<lparr>sn_State := (sn_State session)\<lparr>ss_Opaque := map_put adapterID opaque (ss_Opaque (sn_State session))\<rparr>\<rparr>)"

definition adapter_failed :: "string \<Rightarrow> adapterPhase \<Rightarrow> go_error \<Rightarrow> go_error" where
  "adapter_failed adapterID phase e =
     ErrWrap (''adapter '' @ adapterID @ '' '' @ phase_text phase @ '' failed: '' @ error_text e) e"

fun apply_adapters :: "adapterPhase \<Rightarrow> ExecutionResult \<Rightarrow> 'e SessionAdapter option list \<Rightarrow> Session \<Rightarrow>
    'e VirtualMount list \<Rightarrow> 'e sys \<Rightarrow> (go_error + Session \<times> 'e VirtualMount list) \<times> 'e sys" where
  "apply_adapters phase result [] next mounts s = (Inr (next, mounts), s)"
| "apply_adapters phase result (None # rest) next mounts s = apply_adapters phase result rest next mounts s"
| "apply_adapters phase result (Some a # rest) next mounts s =
     (let adapterID = trim_space (sa_AdapterID a) in
      if adapterID = [] then (Inl (ErrText ''session adapter id is required''), s)
      else case invokeAdapterPhase a phase next result s of
             (Inl e, s) \<Rightarrow> (Inl (adapter_failed adapterID phase e), s)
           | (Inr projection, s) \<Rightarrow>
               apply_adapters phase result rest (with_opaque adapterID (ap_OpaqueState projection) next)
                 (mounts @ ProjectionMounts projection) s)"

definition applySessionAdapters :: "Session \<Rightarrow> 'e SessionAdapter option list \<Rightarrow> adapterPhase \<Rightarrow> ExecutionResult \<Rightarrow>
    'e sys \<Rightarrow> (go_error + Session \<times> 'e VirtualMount list) \<times> 'e sys" where
  "applySessionAdapters session adapters phase result s =
     apply_adapters phase result adapters (Session_Clone session) [] s"

subsection \<open>Lemmas\<close>

lemma NormalizeCommandAliases_id:
  assumes "list_all good_alias m" "distinct (map fst m)"
  shows "NormalizeCommandAliases m = m"
proof -
  have "distinct (map fst (out @ m)) \<Longrightarrow> map_puts out m = out @ m" for out m :: alias_map
  proof (induction m arbitrary: out)
    case (Cons x m)
    have "map_put (fst x) (snd x) out = out @ [x]" if "fst x \<notin> fst ` set out" for out :: alias_map
      using that by (induction out) auto
    moreover have "fst x \<notin> fst ` set out" using Cons.prems by auto
    ultimately show ?case using Cons.IH [of "out @ [x]"] Cons.prems by simp
  qed simp
  from this [of "[]" m] show ?thesis using assms by (simp add: NormalizeCommandAliases_def normalize_alias_entries_id)
qed

lemma NormalizeCommandAliases_idem [simp]: "NormalizeCommandAliases (NormalizeCommandAliases m) = NormalizeCommandAliases m"
  by (rule NormalizeCommandAliases_id) (simp_all add: NormalizeCommandAliases_good)

lemma normalizeEnvKey_idem [simp]: "normalizeEnvKey (normalizeEnvKey k) = normalizeEnvKey k"
  by (simp add: normalizeEnvKey_def Let_def)

lemma map_put_fresh: "k \<notin> fst ` set m \<Longrightarrow> map_put k v m = m @ [(k, v)]"
  by (induction m) auto

definition good_env :: "string \<times> string \<Rightarrow> bool" where
  "good_env x \<longleftrightarrow> normalizeEnvKey (fst x) = fst x \<and> fst x \<noteq> []"

lemma normalize_env_entries_good:
  "list_all good_env out \<Longrightarrow> distinct (map fst out) \<Longrightarrow>
   list_all good_env (normalize_env_entries out m) \<and> distinct (map fst (normalize_env_entries out m))"
proof (induction out m rule: normalize_env_entries.induct)
  case (2 out key v rest)
  have "good_env (normalizeEnvKey key, v)" if "normalizeEnvKey key \<noteq> []" using that by (simp add: good_env_def)
  then have "list_all good_env (map_put (normalizeEnvKey key) v out)" if "normalizeEnvKey key \<noteq> []"
    using "2.prems"(1) that by (blast intro: map_put_all)
  then show ?case using 2 by (simp add: Let_def distinct_map_put)
qed simp

lemma normalize_env_entries_id:
  "list_all good_env m \<Longrightarrow> distinct (map fst (out @ m)) \<Longrightarrow> normalize_env_entries out m = out @ m"
  by (induction out m rule: normalize_env_entries.induct) (auto simp: Let_def map_put_fresh good_env_def)

lemma NormalizeEnvVars_idem [simp]: "NormalizeEnvVars (NormalizeEnvVars m) = NormalizeEnvVars m"
  using normalize_env_entries_good [of "[]" m] normalize_env_entries_id [of "NormalizeEnvVars m" "[]"]
  by (simp add: NormalizeEnvVars_def)

lemma NormalizeRCFiles_idem [simp]: "NormalizeRCFiles (NormalizeRCFiles ps) = NormalizeRCFiles ps"
proof -
  let ?n = "NormalizeRCFiles ps"
  have "trim_space p = p \<and> p \<noteq> []" if "p \<in> set ?n" for p
    using that by (auto simp: NormalizeRCFiles_def set_dedupe_from)
  then have "map trim_space ?n = ?n" "filter (\<lambda>p. p \<noteq> []) ?n = ?n"
    by (simp_all add: map_idI filter_id_conv)
  moreover have "distinct ?n" by (simp add: NormalizeRCFiles_def distinct_dedupe_from)
  ultimately show ?thesis by (subst NormalizeRCFiles_def) (simp add: dedupe_from_id)
qed

lemma State_Clone_idem [simp]: "State_Clone (State_Clone s) = State_Clone s"
  by (simp add: State_Clone_def)

lemma Session_Clone_idem [simp]: "Session_Clone (Session_Clone s) = Session_Clone s"
  by (simp add: Session_Clone_def)

end
