(* ===== verification/Session_Manager.thy ===== *)
theory Session_Manager
  imports Session_Contract
begin

section \<open>The session manager (\<open>session_manager.go\<close>)\<close>

text \<open>
  Many goroutines call a manager at once. Its own lock \<open>mu\<close> makes some sections of its methods atomic,
  and \<open>executeMu\<close> of a session keeps its executions, checkpoints, resumes and closes apart. A call of
  \<open>Execute\<close> is therefore three steps: it begins (locks \<open>executeMu\<close>, checks, registers the execution),
  its command runs, it finishes (merges the state of the runtime, unlocks); every other call is one.
  Between the steps of one call other calls happen, \<open>Get\<close> and \<open>Cancel\<close> of the same session among them.

  Runtimes are shared objects: \<open>sm_stacks\<close> is the heap they live in and a session holds an address. The
  call that holds \<open>executeMu\<close> is \<open>ms_lock\<close>. An execution is identified by the number of its call, which
  stands for its cancel function and its channel \<open>done\<close>.
\<close>

subsection \<open>State\<close>

text \<open>The counters of the process: \<open>executionCounter\<close>, \<open>sessionCounter\<close> and how often the clock was read.\<close>

record counters =
  cnt_executions :: "64 word"
  cnt_sessions :: "64 word"
  cnt_clock :: nat

record 'e Options = "'e stack_options" +
  opt_Adapters :: "'e SessionAdapter option list"

record activeExecutionControl =
  ac_state :: SessionExecutionState
  ac_call :: nat

record 'e managedSession =
  ms_snapshot :: Session
  ms_checkpoint :: Session
  ms_base :: "'e Options"
  ms_runtime :: "nat option"
  ms_active :: bool
  ms_adapterMounts :: "'e VirtualMount list"
  ms_lock :: "nat option"
  ms_activeExecution :: "activeExecutionControl option"

text \<open>A call of \<open>Execute\<close> past its registration; \<open>ec_result\<close> is there once the command has run.\<close>

record execute_call =
  ec_ctx :: ctx_state
  ec_session :: string
  ec_line :: string
  ec_runtime :: nat
  ec_execution :: string
  ec_result :: "ExecutionResult option"

record SessionManagerOptions =
  mo_Now :: "(counters \<Rightarrow> int \<times> counters) option"
  mo_NewID :: "(counters \<Rightarrow> string \<times> counters) option"
  mo_NewExecutionID :: "(counters \<Rightarrow> string \<times> counters) option"

record 'e SessionManager =
  sm_sessions :: "(string, 'e managedSession) gomap"
  sm_now :: "counters \<Rightarrow> int \<times> counters"
  sm_newID :: "counters \<Rightarrow> string \<times> counters"
  sm_newExecutionID :: "counters \<Rightarrow> string \<times> counters"
  sm_stacks :: "'e Stack list"
  sm_calls :: "(nat \<times> execute_call) list"
  sm_next :: nat
  sm_canceled :: "nat list"
  sm_done :: "nat list"
  sm_counters :: counters
  sm_sys :: "'e sys"

definition ErrSessionNotFound :: go_error where "ErrSessionNotFound = ErrText ''runtime session not found''"
definition ErrSessionClosed :: go_error where "ErrSessionClosed = ErrText ''runtime session is closed''"
definition ErrSessionNotRunning :: go_error where
  "ErrSessionNotRunning = ErrText ''runtime session has no active execution''"
definition ErrExecutionChanged :: go_error where
  "ErrExecutionChanged = ErrText ''runtime session active execution changed''"
definition ErrExecutionRequired :: go_error where
  "ErrExecutionRequired = ErrText ''runtime session cancel requires active execution id''"

definition clock_now :: "'e host \<Rightarrow> counters \<Rightarrow> int \<times> counters" where
  "clock_now h c = (host_clock h (cnt_clock c), c\<lparr>cnt_clock := Suc (cnt_clock c)\<rparr>)"

definition session_id :: "counters \<Rightarrow> string \<times> counters" where
  "session_id c = (let value = cnt_sessions c + 1 in (''sess_'' @ show_nat (unat value), c\<lparr>cnt_sessions := value\<rparr>))"

definition execution_id :: "counters \<Rightarrow> string \<times> counters" where
  "execution_id c = (case NextExecutionID (cnt_executions c) of (i, n) \<Rightarrow> (i, c\<lparr>cnt_executions := n\<rparr>))"

definition or_default :: "'a option \<Rightarrow> 'a \<Rightarrow> 'a" where
  "or_default x d = (case x of None \<Rightarrow> d | Some y \<Rightarrow> y)"

definition NewSessionManager :: "'e host \<Rightarrow> SessionManagerOptions \<Rightarrow> counters \<Rightarrow> 'e sys \<Rightarrow> 'e SessionManager" where
  "NewSessionManager h opts c s =
     \<lparr>sm_sessions = [], sm_now = or_default (mo_Now opts) (clock_now h),
      sm_newID = or_default (mo_NewID opts) session_id,
      sm_newExecutionID = or_default (mo_NewExecutionID opts) execution_id,
      sm_stacks = [], sm_calls = [], sm_next = 0, sm_canceled = [], sm_done = [], sm_counters = c, sm_sys = s\<rparr>"

subsection \<open>Building blocks\<close>

definition now :: "'e SessionManager \<Rightarrow> int \<times> 'e SessionManager" where
  "now m = (case sm_now m (sm_counters m) of (t, c) \<Rightarrow> (t, m\<lparr>sm_counters := c\<rparr>))"

definition newID :: "'e SessionManager \<Rightarrow> string \<times> 'e SessionManager" where
  "newID m = (case sm_newID m (sm_counters m) of (i, c) \<Rightarrow> (i, m\<lparr>sm_counters := c\<rparr>))"

definition newExecutionID :: "'e SessionManager \<Rightarrow> string \<times> 'e SessionManager" where
  "newExecutionID m = (case sm_newExecutionID m (sm_counters m) of (i, c) \<Rightarrow> (i, m\<lparr>sm_counters := c\<rparr>))"

definition stack_at :: "'e SessionManager \<Rightarrow> nat option \<Rightarrow> 'e Stack option" where
  "stack_at m a =
     (case a of None \<Rightarrow> None | Some i \<Rightarrow> if i < length (sm_stacks m) then Some (sm_stacks m ! i) else None)"

definition new_stack :: "'e host \<Rightarrow> 'e stack_options \<Rightarrow> 'e SessionManager \<Rightarrow> (go_error + nat) \<times> 'e SessionManager" where
  "new_stack h opts m =
     (case New h opts (sm_sys m) of
        (Inl e, s) \<Rightarrow> (Inl e, m\<lparr>sm_sys := s\<rparr>)
      | (Inr r, s) \<Rightarrow> (Inr (length (sm_stacks m)), m\<lparr>sm_sys := s, sm_stacks := sm_stacks m @ [r]\<rparr>))"

definition adapters_phase :: "ctx_state \<Rightarrow> Session \<Rightarrow> 'e SessionAdapter option list \<Rightarrow> adapterPhase \<Rightarrow> ExecutionResult \<Rightarrow>
    'e SessionManager \<Rightarrow> (go_error + Session \<times> 'e VirtualMount list) \<times> 'e SessionManager" where
  "adapters_phase ctx session adapters phase result m =
     (case applySessionAdapters session adapters phase result ((sm_sys m)\<lparr>sy_ctx := ctx\<rparr>) of
        (r, s) \<Rightarrow> (r, m\<lparr>sm_sys := s\<lparr>sy_ctx := sy_ctx (sm_sys m)\<rparr>\<rparr>))"

definition zero_execution :: ExecutionResult where "zero_execution = zero_result [] 0 []"

definition put_session :: "string \<Rightarrow> 'e managedSession \<Rightarrow> 'e SessionManager \<Rightarrow> 'e SessionManager" where
  "put_session sid r m = m\<lparr>sm_sessions := map_put sid r (sm_sessions m)\<rparr>"

definition cloneOptions :: "'e Options \<Rightarrow> 'e Options" where
  "cloneOptions opts =
     opts\<lparr>opt_HostRoot := trim_space (opt_HostRoot opts), opt_WorkingDir := trim_space (opt_WorkingDir opts),
          opt_CommandAliases := NormalizeCommandAliases (opt_CommandAliases opts),
          opt_EnvVars := NormalizeEnvVars (opt_EnvVars opts), opt_RCFiles := NormalizeRCFiles (opt_RCFiles opts)\<rparr>"

definition runtimeOptionsFromSession :: "'e Options \<Rightarrow> Session \<Rightarrow> ExecutionPolicy \<Rightarrow> 'e VirtualMount list \<Rightarrow> 'e stack_options" where
  "runtimeOptionsFromSession base session policy adapterMounts =
     (let opts = stack_options.truncate (cloneOptions base); state = State_Clone (sn_State session) in
      opts\<lparr>opt_Profile := sn_Profile session, opt_Policy := policy,
           opt_WorkingDir := trim_space (ss_WorkingDir (sn_State session)),
           opt_CommandAliases := ss_CommandAliases state, opt_EnvVars := ss_EnvVars state, opt_RCFiles := [],
           opt_VirtualMounts := opt_VirtualMounts opts @ adapterMounts\<rparr>)"

definition runtimeOptionsForSession :: "'e managedSession \<Rightarrow> ExecutionPolicy \<Rightarrow> 'e stack_options" where
  "runtimeOptionsForSession r policy =
     runtimeOptionsFromSession (ms_base r) (ms_snapshot r) policy (ms_adapterMounts r)"

definition mergeSessionState :: "SessionState \<Rightarrow> 'e Stack option \<Rightarrow> 'e sys \<Rightarrow> SessionState" where
  "mergeSessionState previous stack s =
     (let state = State_Clone previous in
      case stack of
        None \<Rightarrow> state
      | Some r \<Rightarrow>
          (let live = Stack_SessionState stack (ss_RCFiles state) s in
           state\<lparr>ss_CommandAliases := ss_CommandAliases live, ss_EnvVars := ss_EnvVars live,
                 ss_WorkingDir := ss_WorkingDir live\<rparr>))"

definition samePolicy :: "ExecutionPolicy \<Rightarrow> ExecutionPolicy \<Rightarrow> bool" where
  "samePolicy l r \<longleftrightarrow>
     ep_WriteMode l = ep_WriteMode r \<and> ep_MaxWriteBytes l = ep_MaxWriteBytes r \<and>
     ep_MaxPipelineDepth l = ep_MaxPipelineDepth r \<and> ep_MaxOutputBytes l = ep_MaxOutputBytes r \<and>
     ep_Timeout l = ep_Timeout r"

definition newActiveExecutionState :: "string \<Rightarrow> string \<Rightarrow> int \<Rightarrow> SessionExecutionStatus \<Rightarrow> SessionExecutionState" where
  "newActiveExecutionState executionID commandLine t status =
     \<lparr>xs_ExecutionID = trim_space executionID, xs_CommandLine = trim_space commandLine, xs_StartedAt = t,
      xs_Status = status, xs_StatusUpdatedAt = t\<rparr>"

definition executionFinished :: "'e SessionManager \<Rightarrow> activeExecutionControl option \<Rightarrow> bool" where
  "executionFinished m active = (case active of None \<Rightarrow> True | Some a \<Rightarrow> ac_call a \<in> set (sm_done m))"

definition lookupManaged :: "'e SessionManager \<Rightarrow> string \<Rightarrow> go_error + 'e managedSession" where
  "lookupManaged m sid =
     (if sid = [] then Inl ErrSessionNotFound
      else case map_of (sm_sessions m) sid of None \<Rightarrow> Inl ErrSessionNotFound | Some r \<Rightarrow> Inr r)"

definition lookup :: "'e SessionManager \<Rightarrow> string \<Rightarrow> go_error + 'e managedSession" where
  "lookup m sid =
     (case lookupManaged m sid of
        Inl e \<Rightarrow> Inl e
      | Inr r \<Rightarrow> Inr (r\<lparr>ms_snapshot := Session_Clone (ms_snapshot r), ms_checkpoint := Session_Clone (ms_checkpoint r),
                      ms_base := cloneOptions (ms_base r)\<rparr>))"

definition without_execution :: "'e managedSession \<Rightarrow> 'e managedSession" where
  "without_execution r =
     r\<lparr>ms_activeExecution := None, ms_snapshot := (ms_snapshot r)\<lparr>sn_ActiveExecution := None\<rparr>\<rparr>"

subsection \<open>Create, Get, Cancel\<close>

type_synonym 'e session_reply = "(go_error + Session) \<times> 'e SessionManager"

definition created_record :: "'e Options \<Rightarrow> Session \<Rightarrow> nat \<Rightarrow> 'e VirtualMount list \<Rightarrow> 'e managedSession" where
  "created_record opts session a adapterMounts =
     \<lparr>ms_snapshot = Session_Clone session, ms_checkpoint = Session_Clone session,
      ms_base = (cloneOptions opts)\<lparr>opt_Profile := sn_Profile session, opt_Policy := sn_PolicyCeiling session,
        opt_CommandAliases := ss_CommandAliases (State_Clone (sn_State session)),
        opt_EnvVars := ss_EnvVars (State_Clone (sn_State session)), opt_RCFiles := []\<rparr>,
      ms_runtime = Some a, ms_active = True, ms_adapterMounts = adapterMounts, ms_lock = None,
      ms_activeExecution = None\<rparr>"

definition create_session :: "'e Options \<Rightarrow> nat \<Rightarrow> 'e SessionManager \<Rightarrow> Session \<times> 'e SessionManager" where
  "create_session opts a m =
     (case now m of (t, m) \<Rightarrow>
      case newID m of (i, m) \<Rightarrow>
        (\<lparr>sn_SessionID = i, sn_CreatedAt = t, sn_UpdatedAt = t, sn_Profile = o_Profile (stackOps (stack_at m (Some a))),
          sn_PolicyCeiling = o_Policy (stackOps (stack_at m (Some a))),
          sn_State = Stack_SessionState (stack_at m (Some a)) (opt_RCFiles opts) (sm_sys m), sn_ActiveExecution = None\<rparr>, m))"

definition Create :: "'e host \<Rightarrow> ctx_state \<Rightarrow> 'e Options \<Rightarrow> 'e SessionManager \<Rightarrow> 'e session_reply" where
  "Create h ctx opts m =
     (case new_stack h (stack_options.truncate opts) m of
        (Inl e, m) \<Rightarrow> (Inl e, m)
      | (Inr a, m) \<Rightarrow>
     (case create_session opts a m of (session, m) \<Rightarrow>
     (case adapters_phase ctx session (opt_Adapters opts) adapterPhaseCreate zero_execution m of
        (Inl e, m) \<Rightarrow> (Inl e, m)
      | (Inr (session, adapterMounts), m) \<Rightarrow>
     (case (if adapterMounts = [] then (Inr a, m)
            else new_stack h (runtimeOptionsFromSession (cloneOptions opts) session (sn_PolicyCeiling session) adapterMounts) m) of
        (Inl e, m) \<Rightarrow> (Inl e, m)
      | (Inr a, m) \<Rightarrow>
          (Inr (Session_Clone session),
           put_session (sn_SessionID session) (created_record opts session a adapterMounts) m)))))"

definition Get :: "string \<Rightarrow> 'e SessionManager \<Rightarrow> 'e session_reply" where
  "Get sessionID m =
     (case lookupManaged m (trim_space sessionID) of
        Inl e \<Rightarrow> (Inl e, m)
      | Inr r \<Rightarrow>
          (let r' = (if ms_activeExecution r \<noteq> None \<and> executionFinished m (ms_activeExecution r)
                     then without_execution r else r) in
           (Inr (Session_Clone (ms_snapshot r')), put_session (trim_space sessionID) r' m)))"

definition canceling :: "int \<Rightarrow> SessionExecutionState \<Rightarrow> SessionExecutionState" where
  "canceling t x = x\<lparr>xs_Status := StatusCanceling, xs_StatusUpdatedAt := t\<rparr>"

definition Cancel :: "string \<Rightarrow> string \<Rightarrow> 'e SessionManager \<Rightarrow> 'e session_reply" where
  "Cancel sessionID expectedExecutionID m =
     (let sid = trim_space sessionID; expected = trim_space expectedExecutionID in
      case map_of (sm_sessions m) sid of
        None \<Rightarrow> (Inl ErrSessionNotFound, m)
      | Some r \<Rightarrow>
          (if \<not> ms_active r \<or> ms_runtime r = None then (Inl ErrSessionClosed, m)
           else case (ms_activeExecution r, sn_ActiveExecution (ms_snapshot r)) of
             (Some a, Some x) \<Rightarrow>
               (if executionFinished m (Some a) then (Inl ErrSessionNotRunning, put_session sid (without_execution r) m)
                else if expected = [] then (Inl ErrExecutionRequired, m)
                else if xs_ExecutionID x \<noteq> expected then (Inl ErrExecutionChanged, m)
                else (case now m of (t, m) \<Rightarrow>
                  (if xs_Status x = StatusCanceling then (Inr (Session_Clone (ms_snapshot r)), m)
                   else let r' = r\<lparr>ms_activeExecution := Some (a\<lparr>ac_state := canceling t x\<rparr>),
                                   ms_snapshot := (ms_snapshot r)\<lparr>sn_ActiveExecution := Some (canceling t x), sn_UpdatedAt := t\<rparr>\<rparr>
                        in (Inr (Session_Clone (ms_snapshot r')),
                            (put_session sid r' m)\<lparr>sm_canceled := ac_call a # sm_canceled m\<rparr>))))
           | _ \<Rightarrow> (Inl ErrSessionNotRunning, m)))"

subsection \<open>Execute\<close>

record SessionExecution =
  se_Session :: Session
  se_Runtime :: "nat option"
  se_Result :: ExecutionResult

text \<open>How a call of \<open>Execute\<close> leaves its first step: it has returned, or it runs as call \<open>k\<close>.\<close>

datatype begun = Returned "go_error + SessionExecution" | Running nat

definition usage_reply :: "nat option \<Rightarrow> Session \<Rightarrow> 'e SessionManager \<Rightarrow> begun \<times> 'e SessionManager" where
  "usage_reply runtime session m =
     (case UsageResult ''execute: command is required'' (cnt_executions (sm_counters m)) of
        (result, counter) \<Rightarrow>
          (Returned (Inr \<lparr>se_Session = session, se_Runtime = runtime, se_Result = WithSessionID result (sn_SessionID session)\<rparr>),
           m\<lparr>sm_counters := (sm_counters m)\<lparr>cnt_executions := counter\<rparr>\<rparr>))"

text \<open>The section under \<open>mu\<close> that makes the execution visible; \<open>r\<close> is the record whose \<open>executeMu\<close> the call holds.\<close>

definition register_execution :: "ctx_state \<Rightarrow> string \<Rightarrow> string \<Rightarrow> 'e managedSession \<Rightarrow> nat \<Rightarrow> 'e SessionManager \<Rightarrow>
    begun \<times> 'e SessionManager" where
  "register_execution ctx sid line r a m =
     (case newExecutionID m of (i, m) \<Rightarrow>
      case now m of (t, m) \<Rightarrow>
        (let k = sm_next m; id = sn_SessionID (ms_snapshot r);
             x = newActiveExecutionState i line t StatusRunning;
             locked = put_session sid (r\<lparr>ms_lock := Some k\<rparr>) m in
         case map_of (sm_sessions locked) id of
           None \<Rightarrow> (Returned (Inl ErrSessionNotFound), m)
         | Some current \<Rightarrow>
             (Running k,
              (put_session id
                 (current\<lparr>ms_activeExecution := Some \<lparr>ac_state = x, ac_call = k\<rparr>,
                          ms_snapshot := (ms_snapshot current)\<lparr>sn_ActiveExecution := Some x, sn_UpdatedAt := t\<rparr>\<rparr>) locked)
              \<lparr>sm_next := Suc k,
               sm_calls := sm_calls m @ [(k, \<lparr>ec_ctx = ctx, ec_session = id, ec_line = line, ec_runtime = a,
                                              ec_execution = i, ec_result = None\<rparr>)]\<rparr>)))"

definition execute_begin :: "'e host \<Rightarrow> ctx_state \<Rightarrow> string \<Rightarrow> string \<Rightarrow> ExecutionPolicy \<Rightarrow> 'e SessionManager \<Rightarrow>
    begun \<times> 'e SessionManager" where
  "execute_begin h ctx sessionID commandLine requested m =
     (let sid = trim_space sessionID; line = trim_space commandLine in
      case lookupManaged m sid of
        Inl e \<Rightarrow> (Returned (Inl e), m)
      | Inr r \<Rightarrow>
          (case (if ms_active r then ms_runtime r else None) of
             None \<Rightarrow> (Returned (Inl ErrSessionClosed), m)
           | Some own \<Rightarrow>
          (case EffectivePolicyWithinCeiling (host_duration h) requested (sn_PolicyCeiling (ms_snapshot r)) of
             Inl e \<Rightarrow> (Returned (Inl e), m)
           | Inr effective \<Rightarrow>
               (if line = [] then usage_reply (Some own) (Session_Clone (ms_snapshot r)) m
                else case (if samePolicy effective (sn_PolicyCeiling (ms_snapshot r)) then (Inr own, m)
                           else new_stack h (runtimeOptionsForSession r effective) m) of
                       (Inl e, m) \<Rightarrow> (Returned (Inl e), m)
                     | (Inr a, m) \<Rightarrow> register_execution ctx sid line r a m))))"

text \<open>The context of a run: that of the call, found canceled after \<open>n\<close> polls if its cancel function was
  called. The steps are in the order in which they take effect, and a cancel during the run takes effect
  at the poll that finds it, so it stands before the run.\<close>

fun cancel_after :: "nat \<Rightarrow> ctx_state \<Rightarrow> ctx_state" where
  "cancel_after n CtxLive = CtxDoneAfter n ErrCanceled"
| "cancel_after n (CtxDoneAfter k e) = (if k \<le> n then CtxDoneAfter k e else CtxDoneAfter n ErrCanceled)"

definition put_call :: "nat \<Rightarrow> execute_call \<Rightarrow> 'e SessionManager \<Rightarrow> 'e SessionManager" where
  "put_call k c m = m\<lparr>sm_calls := map_put k c (sm_calls m)\<rparr>"

definition run_context :: "nat \<Rightarrow> nat \<Rightarrow> execute_call \<Rightarrow> 'e SessionManager \<Rightarrow> ctx_state" where
  "run_context k n c m = (if k \<in> set (sm_canceled m) then cancel_after n (ec_ctx c) else ec_ctx c)"

definition put_stack :: "nat \<Rightarrow> 'e Stack option \<Rightarrow> 'e SessionManager \<Rightarrow> 'e SessionManager" where
  "put_stack a stack m = (case stack of None \<Rightarrow> m | Some r \<Rightarrow> m\<lparr>sm_stacks := (sm_stacks m)[a := r]\<rparr>)"

definition execute_run :: "'e host \<Rightarrow> nat \<Rightarrow> nat \<Rightarrow> execute_call \<Rightarrow> 'e SessionManager \<Rightarrow> 'e SessionManager" where
  "execute_run h k n c m =
     (case Stack_ExecuteResult (host_platform h) (run_context k n c m) (ec_line c) (stack_at m (Some (ec_runtime c)))
             (cnt_executions (sm_counters m)) (sm_sys m) of
        (result, stack, counter, s) \<Rightarrow>
          (let result = (WithSessionID result (ec_session c))\<lparr>xr_ExecutionID := ec_execution c\<rparr> in
           (put_call k (c\<lparr>ec_result := Some result\<rparr>) (put_stack (ec_runtime c) stack m))
           \<lparr>sm_done := k # sm_done m, sm_sys := s,
            sm_counters := (sm_counters m)\<lparr>cnt_executions := counter\<rparr>\<rparr>))"

definition unlocked :: "nat \<Rightarrow> 'e managedSession \<Rightarrow> 'e managedSession" where
  "unlocked k r = (if ms_lock r = Some k then r\<lparr>ms_lock := None\<rparr> else r)"

definition end_call :: "nat \<Rightarrow> 'e SessionManager \<Rightarrow> 'e SessionManager" where
  "end_call k m =
     m\<lparr>sm_calls := filter (\<lambda>x. fst x \<noteq> k) (sm_calls m), sm_sessions := map (\<lambda>(i, r). (i, unlocked k r)) (sm_sessions m)\<rparr>"

text \<open>The state after an execution: adapters observe it and the runtime is rebuilt, or it is rebuilt because
  the command ran on one of its own.\<close>

definition observe_execution :: "'e host \<Rightarrow> ctx_state \<Rightarrow> nat \<Rightarrow> ExecutionResult \<Rightarrow> Session \<Rightarrow> 'e managedSession \<Rightarrow>
    'e SessionManager \<Rightarrow> (go_error + Session \<times> 'e managedSession) \<times> 'e SessionManager" where
  "observe_execution h ctx a result next current m =
     (if opt_Adapters (ms_base current) \<noteq> [] then
        (case adapters_phase ctx next (opt_Adapters (ms_base current)) adapterPhaseObserve result m of
           (Inl e, m) \<Rightarrow> (Inl e, m)
         | (Inr (next, adapterMounts), m) \<Rightarrow>
             (case new_stack h (runtimeOptionsFromSession (ms_base current) next (sn_PolicyCeiling next) adapterMounts) m of
                (Inl e, m) \<Rightarrow> (Inl e, m)
              | (Inr b, m) \<Rightarrow> (Inr (next, current\<lparr>ms_adapterMounts := adapterMounts, ms_runtime := Some b\<rparr>), m)))
      else if Some a \<noteq> ms_runtime current then
        (case new_stack h (runtimeOptionsFromSession (ms_base current) next (sn_PolicyCeiling next) (ms_adapterMounts current)) m of
           (Inl e, m) \<Rightarrow> (Inl e, m)
         | (Inr b, m) \<Rightarrow> (Inr (next, current\<lparr>ms_runtime := Some b\<rparr>), m))
      else (Inr (next, current), m))"

definition next_session :: "int \<Rightarrow> Session \<Rightarrow> 'e Stack option \<Rightarrow> 'e sys \<Rightarrow> Session" where
  "next_session t session stack s =
     (let session = Session_Clone session in
      session\<lparr>sn_UpdatedAt := t, sn_State := mergeSessionState (sn_State session) stack s\<rparr>)"

definition execute_finish :: "'e host \<Rightarrow> nat \<Rightarrow> execute_call \<Rightarrow> ExecutionResult \<Rightarrow> 'e SessionManager \<Rightarrow>
    (go_error + SessionExecution) \<times> 'e SessionManager" where
  "execute_finish h k c result m =
     (let id = ec_session c; a = ec_runtime c in
      case map_of (sm_sessions m) id of
        None \<Rightarrow> (Inl ErrSessionNotFound, end_call k m)
      | Some current \<Rightarrow>
          (let current = without_execution current in
           case now (put_session id current m) of (t, m) \<Rightarrow>
           (case observe_execution h (ec_ctx c) a result
                   ((next_session t (ms_snapshot current) (stack_at m (Some a)) (sm_sys m))\<lparr>sn_ActiveExecution := None\<rparr>) current m of
              (Inl e, m) \<Rightarrow> (Inl e, end_call k m)
            | (Inr (next, current), m) \<Rightarrow>
                (let next = Session_Clone next in
                 (Inr \<lparr>se_Session = next, se_Runtime = Some a, se_Result = WithSessionID result (sn_SessionID next)\<rparr>,
                  end_call k (put_session id (current\<lparr>ms_snapshot := next\<rparr>) m))))))"

subsection \<open>Checkpoint, Resume, Close\<close>

text \<open>What \<open>Checkpoint\<close> and \<open>Close\<close> share: the session brought up to date with its runtime, as the adapters see it
  in their phase.\<close>

definition updated_session :: "ctx_state \<Rightarrow> adapterPhase \<Rightarrow> 'e managedSession \<Rightarrow> 'e SessionManager \<Rightarrow>
    (go_error + 'e managedSession) \<times> 'e SessionManager" where
  "updated_session ctx phase r m =
     (case now m of (t, m) \<Rightarrow>
        (let next = next_session t (ms_snapshot r) (stack_at m (ms_runtime r)) (sm_sys m) in
         if opt_Adapters (ms_base r) \<noteq> [] then
           (case adapters_phase ctx next (opt_Adapters (ms_base r)) phase zero_execution m of
              (Inl e, m) \<Rightarrow> (Inl e, m)
            | (Inr (next, adapterMounts), m) \<Rightarrow>
                (let next = Session_Clone next in
                 (Inr (r\<lparr>ms_adapterMounts := adapterMounts, ms_snapshot := next, ms_checkpoint := Session_Clone next\<rparr>), m)))
         else (let next = Session_Clone next in (Inr (r\<lparr>ms_snapshot := next, ms_checkpoint := Session_Clone next\<rparr>), m))))"

definition Checkpoint :: "ctx_state \<Rightarrow> string \<Rightarrow> 'e SessionManager \<Rightarrow> 'e session_reply" where
  "Checkpoint ctx sessionID m =
     (let sid = trim_space sessionID in
      case lookupManaged m sid of
        Inl e \<Rightarrow> (Inl e, m)
      | Inr r \<Rightarrow>
          (if \<not> ms_active r \<or> ms_runtime r = None then (Inl ErrSessionClosed, m)
           else case updated_session ctx adapterPhaseCheckpoint r m of
             (Inl e, m) \<Rightarrow> (Inl e, m)
           | (Inr r, m) \<Rightarrow> (Inr (Session_Clone (ms_checkpoint r)), put_session sid r m)))"

definition closed_record :: "'e managedSession \<Rightarrow> 'e managedSession" where
  "closed_record r =
     r\<lparr>ms_runtime := None, ms_active := False, ms_activeExecution := None,
       ms_snapshot := (ms_snapshot r)\<lparr>sn_ActiveExecution := None\<rparr>\<rparr>"

definition Close :: "ctx_state \<Rightarrow> string \<Rightarrow> 'e SessionManager \<Rightarrow> 'e session_reply" where
  "Close ctx sessionID m =
     (let sid = trim_space sessionID in
      case lookupManaged m sid of
        Inl e \<Rightarrow> (Inl e, m)
      | Inr r \<Rightarrow>
          (if \<not> ms_active r \<or> ms_runtime r = None then (Inl ErrSessionClosed, m)
           else case updated_session ctx adapterPhaseClose r m of
             (Inl e, m) \<Rightarrow> (Inl e, m)
           | (Inr r, m) \<Rightarrow>
               (let r = closed_record r in (Inr (Session_Clone (ms_snapshot r)), put_session sid r m))))"

definition Resume :: "'e host \<Rightarrow> ctx_state \<Rightarrow> string \<Rightarrow> 'e SessionManager \<Rightarrow> 'e session_reply" where
  "Resume h ctx sessionID m =
     (let sid = trim_space sessionID in
      case lookupManaged m sid of
        Inl e \<Rightarrow> (Inl e, m)
      | Inr r \<Rightarrow>
          (if ms_active r \<and> ms_runtime r \<noteq> None then (Inr (Session_Clone (ms_snapshot r)), m)
           else case adapters_phase ctx (Session_Clone (ms_checkpoint r)) (opt_Adapters (ms_base r)) adapterPhaseResume
                       zero_execution m of
             (Inl e, m) \<Rightarrow> (Inl e, m)
           | (Inr (resumed, adapterMounts), m) \<Rightarrow>
               (case new_stack h (runtimeOptionsFromSession (ms_base r) resumed (sn_PolicyCeiling resumed) adapterMounts) m of
                  (Inl e, m) \<Rightarrow> (Inl e, m)
                | (Inr b, m) \<Rightarrow>
                    (case now m of (t, m) \<Rightarrow>
                       (let r = r\<lparr>ms_runtime := Some b, ms_active := True, ms_adapterMounts := adapterMounts,
                                  ms_snapshot := (Session_Clone resumed)\<lparr>sn_UpdatedAt := t\<rparr>\<rparr> in
                        (Inr (Session_Clone (ms_snapshot r)), put_session sid r m))))))"

subsection \<open>The steps of all calls\<close>

text \<open>A call that waits for \<open>executeMu\<close> makes no step.\<close>

definition waits :: "string \<Rightarrow> 'e SessionManager \<Rightarrow> bool" where
  "waits sessionID m \<longleftrightarrow> (\<exists>r. lookupManaged m (trim_space sessionID) = Inr r \<and> ms_lock r \<noteq> None)"

datatype 'e event =
    CreateEvent ctx_state "'e Options" "go_error + Session"
  | GetEvent string "go_error + Session"
  | CancelEvent string string "go_error + Session"
  | ExecuteEvent ctx_state string string ExecutionPolicy begun
  | RunEvent nat nat
  | FinishEvent nat "go_error + SessionExecution"
  | CheckpointEvent ctx_state string "go_error + Session"
  | CloseEvent ctx_state string "go_error + Session"
  | ResumeEvent ctx_state string "go_error + Session"

inductive manager_step :: "'e host \<Rightarrow> 'e SessionManager \<Rightarrow> 'e event \<Rightarrow> 'e SessionManager \<Rightarrow> bool" for h where
  create: "Create h ctx opts m = (r, m') \<Longrightarrow> manager_step h m (CreateEvent ctx opts r) m'"
| get: "Get sid m = (r, m') \<Longrightarrow> manager_step h m (GetEvent sid r) m'"
| cancel: "Cancel sid x m = (r, m') \<Longrightarrow> manager_step h m (CancelEvent sid x r) m'"
| execute: "\<not> waits sid m \<Longrightarrow> execute_begin h ctx sid line requested m = (r, m') \<Longrightarrow>
    manager_step h m (ExecuteEvent ctx sid line requested r) m'"
| run: "map_of (sm_calls m) k = Some c \<Longrightarrow> ec_result c = None \<Longrightarrow>
    manager_step h m (RunEvent k n) (execute_run h k n c m)"
| finish: "map_of (sm_calls m) k = Some c \<Longrightarrow> ec_result c = Some result \<Longrightarrow>
    execute_finish h k c result m = (r, m') \<Longrightarrow> manager_step h m (FinishEvent k r) m'"
| checkpoint: "\<not> waits sid m \<Longrightarrow> Checkpoint ctx sid m = (r, m') \<Longrightarrow> manager_step h m (CheckpointEvent ctx sid r) m'"
| close: "\<not> waits sid m \<Longrightarrow> Close ctx sid m = (r, m') \<Longrightarrow> manager_step h m (CloseEvent ctx sid r) m'"
| resume: "\<not> waits sid m \<Longrightarrow> Resume h ctx sid m = (r, m') \<Longrightarrow> manager_step h m (ResumeEvent ctx sid r) m'"

inductive_cases createE: "manager_step h m (CreateEvent ctx opts r) m'"
inductive_cases executeE: "manager_step h m (ExecuteEvent ctx sid line requested r) m'"
inductive_cases runE: "manager_step h m (RunEvent k n) m'"
inductive_cases finishE: "manager_step h m (FinishEvent k r) m'"
inductive_simps get_step [simp]: "manager_step h m (GetEvent sid r) m'"
inductive_simps cancel_step [simp]: "manager_step h m (CancelEvent sid x r) m'"
inductive_simps close_step [simp]: "manager_step h m (CloseEvent ctx sid r) m'"
inductive_simps resume_step [simp]: "manager_step h m (ResumeEvent ctx sid r) m'"

text \<open>What a manager can come to, as long as the ids \<open>newID\<close> draws are not in use. The default ids are
  (\<open>session_id_fresh\<close>) until the 64-bit counter wraps.\<close>

definition draws_fresh :: "'e SessionManager \<Rightarrow> 'e event \<Rightarrow> bool" where
  "draws_fresh m ev =
     (case ev of CreateEvent ctx opts (Inr session) \<Rightarrow> map_of (sm_sessions m) (sn_SessionID session) = None | _ \<Rightarrow> True)"

inductive reachable :: "'e host \<Rightarrow> SessionManagerOptions \<Rightarrow> 'e SessionManager \<Rightarrow> bool" for h opts where
  start: "reachable h opts (NewSessionManager h opts c s)"
| step: "reachable h opts m \<Longrightarrow> manager_step h m ev m' \<Longrightarrow> draws_fresh m ev \<Longrightarrow> reachable h opts m'"

end
