(* ===== verification/Session_Invariant.thy ===== *)
theory Session_Invariant
  imports Session_Manager Engine_Safety
begin

section \<open>What holds of every session manager\<close>

text \<open>
  An invariant of the manager over all interleavings of its calls: a session is active exactly when it
  has a runtime, its runtime works under the policy the session was created with, whoever holds
  \<open>executeMu\<close> is a call that is under way, and what the snapshot says about the active execution agrees
  with the record.
\<close>

subsection \<open>The policy of a runtime\<close>

lemma policy_of_set: "ep_WriteMode (policy_of ops) \<noteq> WriteModeUnset"
  by (simp add: policy_of_def DefaultPolicy_def)

lemma NewRuntimeOps_policy:
  "NewRuntimeOps h opts s = (Inr ops, s') \<Longrightarrow> ep_WriteMode (opt_Policy opts) \<noteq> WriteModeUnset \<Longrightarrow> policy_of ops = opt_Policy opts"
  by (auto simp: NewRuntimeOps_def Let_def runtime_ops_def policy_of_def split: prod.splits sum.splits if_splits)

lemma stack_working_dir_policy [simp]: "policy_of (stack_working_dir opts ops) = policy_of ops"
  by (simp add: stack_working_dir_def policy_of_def)

lemma New_policy:
  assumes "New h opts s = (Inr r, s')"
  shows "ep_WriteMode (o_Policy (stackOps (Some r))) \<noteq> WriteModeUnset"
    "ep_WriteMode (opt_Policy opts) \<noteq> WriteModeUnset \<Longrightarrow> o_Policy (stackOps (Some r)) = opt_Policy opts"
proof -
  obtain ops s1 where ops: "NewRuntimeOps h opts s = (Inr ops, s1)"
    using assms by (cases "NewRuntimeOps h opts s") (auto simp: New_def split: sum.splits)
  obtain p s2 where p: "PrepareOps (host_platform h) (host_registry h) (stack_working_dir opts ops) (s1\<lparr>sy_ctx := CtxLive\<rparr>) = (Inr p, s2)"
    and r: "stack_prepared r = p"
    using assms by (auto simp: New_def ops Let_def split: prod.splits sum.splits)
  obtain initial where n: "normalizeOps (host_platform h) (host_registry h) (stack_working_dir opts ops) (s1\<lparr>sy_ctx := CtxLive\<rparr>) =
      (Inr (pr_normalized p, initial), s2)" using PrepareOps_normalize [OF p] by blast
  have "stackOps (Some r) = pr_normalized p" using layers_policy(2) [OF n] by (simp add: stackOps_def r)
  then have eq: "o_Policy (stackOps (Some r)) = policy_of ops" using layers_policy(1) [OF n] by simp
  then show "ep_WriteMode (o_Policy (stackOps (Some r))) \<noteq> WriteModeUnset" by (simp add: policy_of_set)
  show "ep_WriteMode (opt_Policy opts) \<noteq> WriteModeUnset \<Longrightarrow> o_Policy (stackOps (Some r)) = opt_Policy opts"
    using NewRuntimeOps_policy [OF ops] eq by simp
qed

subsection \<open>The invariant\<close>

abbreviation policy_at :: "'e SessionManager \<Rightarrow> nat \<Rightarrow> ExecutionPolicy" where
  "policy_at m a \<equiv> o_Policy (stackOps (stack_at m (Some a)))"

definition runtime_ok :: "'e SessionManager \<Rightarrow> nat \<Rightarrow> ExecutionPolicy \<Rightarrow> bool" where
  "runtime_ok m a p \<longleftrightarrow> a < length (sm_stacks m) \<and> policy_at m a = p"

definition session_ok :: "string \<Rightarrow> ExecutionPolicy \<Rightarrow> Session \<Rightarrow> bool" where
  "session_ok sid ceiling s \<longleftrightarrow> sn_SessionID s = sid \<and> sn_PolicyCeiling s = ceiling"

definition record_ok :: "'e SessionManager \<Rightarrow> string \<Rightarrow> 'e managedSession \<Rightarrow> bool" where
  "record_ok m sid r \<longleftrightarrow>
     session_ok sid (opt_Policy (ms_base r)) (ms_snapshot r) \<and> session_ok sid (opt_Policy (ms_base r)) (ms_checkpoint r) \<and>
     ep_WriteMode (opt_Policy (ms_base r)) \<noteq> WriteModeUnset \<and>
     (ms_active r \<longleftrightarrow> ms_runtime r \<noteq> None) \<and>
     (\<forall>a. ms_runtime r = Some a \<longrightarrow> runtime_ok m a (opt_Policy (ms_base r))) \<and>
     sn_ActiveExecution (ms_snapshot r) = map_option ac_state (ms_activeExecution r) \<and>
     sn_ActiveExecution (ms_checkpoint r) = None \<and>
     (\<forall>x. ms_activeExecution r = Some x \<longrightarrow> ms_lock r = Some (ac_call x) \<and>
        (xs_Status (ac_state x) = StatusCanceling \<longrightarrow> ac_call x \<in> set (sm_canceled m))) \<and>
     (\<forall>k. ms_lock r = Some k \<longrightarrow> ms_active r \<and> (\<exists>c. map_of (sm_calls m) k = Some c \<and> ec_session c = sid))"

definition call_ok :: "'e host \<Rightarrow> 'e SessionManager \<Rightarrow> nat \<Rightarrow> execute_call \<Rightarrow> bool" where
  "call_ok h m k c \<longleftrightarrow>
     k < sm_next m \<and> (ec_result c = None \<longleftrightarrow> k \<notin> set (sm_done m)) \<and>
     (\<exists>r requested p. map_of (sm_sessions m) (ec_session c) = Some r \<and> ms_lock r = Some k \<and>
        (ec_result c = None \<longrightarrow> ms_activeExecution r \<noteq> None) \<and>
        (\<forall>a. ms_activeExecution r = Some a \<longrightarrow> xs_ExecutionID (ac_state a) = trim_space (ec_execution c)) \<and>
        EffectivePolicyWithinCeiling (host_duration h) requested (opt_Policy (ms_base r)) = Inr p \<and>
        runtime_ok m (ec_runtime c) p)"

definition manager_ok :: "'e host \<Rightarrow> 'e SessionManager \<Rightarrow> bool" where
  "manager_ok h m \<longleftrightarrow>
     (\<forall>sid r. map_of (sm_sessions m) sid = Some r \<longrightarrow> record_ok m sid r) \<and>
     (\<forall>k c. map_of (sm_calls m) k = Some c \<longrightarrow> call_ok h m k c) \<and>
     (\<forall>k \<in> set (sm_done m). k < sm_next m)"

lemma manager_okD:
  assumes "manager_ok h m"
  shows "map_of (sm_sessions m) sid = Some r \<Longrightarrow> record_ok m sid r"
    "map_of (sm_calls m) k = Some c \<Longrightarrow> call_ok h m k c" "k \<in> set (sm_done m) \<Longrightarrow> k < sm_next m"
  using assms by (auto simp: manager_ok_def)

text \<open>A record stays right in a manager that still has its runtime, its call and its cancels.\<close>

lemma record_ok_mono:
  assumes rec: "record_ok m sid r" and run: "\<And>a p. runtime_ok m a p \<Longrightarrow> runtime_ok m' a p"
    and call: "\<And>k c. ms_lock r = Some k \<Longrightarrow> map_of (sm_calls m) k = Some c \<Longrightarrow> ec_session c = sid \<Longrightarrow>
      \<exists>d. map_of (sm_calls m') k = Some d \<and> ec_session d = sid"
    and can: "set (sm_canceled m) \<subseteq> set (sm_canceled m')"
  shows "record_ok m' sid r"
proof -
  have "runtime_ok m' a (opt_Policy (ms_base r))" if "ms_runtime r = Some a" for a
    using rec run that by (simp add: record_ok_def)
  moreover have "ms_active r \<and> (\<exists>d. map_of (sm_calls m') k = Some d \<and> ec_session d = sid)" if "ms_lock r = Some k" for k
    using rec that call [OF that] by (auto simp: record_ok_def)
  moreover have "ac_call x \<in> set (sm_canceled m')"
    if "ms_activeExecution r = Some x" "xs_Status (ac_state x) = StatusCanceling" for x
    using rec that can by (auto simp: record_ok_def)
  ultimately show ?thesis using rec by (simp add: record_ok_def)
qed

subsection \<open>Steps that leave sessions and calls alone\<close>

definition grows :: "'e SessionManager \<Rightarrow> 'e SessionManager \<Rightarrow> bool" where
  "grows m m' \<longleftrightarrow>
     sm_sessions m' = sm_sessions m \<and> sm_calls m' = sm_calls m \<and> sm_next m' = sm_next m \<and>
     sm_done m' = sm_done m \<and> sm_canceled m' = sm_canceled m \<and> (\<exists>new. sm_stacks m' = sm_stacks m @ new)"

lemma grows_refl [simp]: "grows m m"
  by (simp add: grows_def)

lemma grows_trans [trans]: "grows a b \<Longrightarrow> grows b c \<Longrightarrow> grows a c"
  by (force simp: grows_def)

lemma grows_fields:
  assumes "grows m m'"
  shows "sm_sessions m' = sm_sessions m" "sm_calls m' = sm_calls m" "sm_next m' = sm_next m"
    "sm_done m' = sm_done m" "sm_canceled m' = sm_canceled m" "lookupManaged m' = lookupManaged m"
  using assms by (auto simp: grows_def lookupManaged_def fun_eq_iff)

lemma grows_runtime: "grows m m' \<Longrightarrow> runtime_ok m a p \<Longrightarrow> runtime_ok m' a p"
  by (auto simp: grows_def runtime_ok_def stack_at_def nth_append)

lemma grows_record:
  assumes "grows m m'" "record_ok m sid r"
  shows "record_ok m' sid r"
  using assms(2) by (rule record_ok_mono) (use assms(1) grows_runtime in \<open>auto simp: grows_fields [OF assms(1)]\<close>)

lemma grows_call:
  assumes "grows m m'" "call_ok h m k c"
  shows "call_ok h m' k c"
proof -
  obtain r req p where r: "map_of (sm_sessions m) (ec_session c) = Some r" "ms_lock r = Some k"
      "ec_result c = None \<longrightarrow> ms_activeExecution r \<noteq> None"
      "\<forall>a. ms_activeExecution r = Some a \<longrightarrow> xs_ExecutionID (ac_state a) = trim_space (ec_execution c)"
      "EffectivePolicyWithinCeiling (host_duration h) req (opt_Policy (ms_base r)) = Inr p" "runtime_ok m (ec_runtime c) p"
    and k: "k < sm_next m" "ec_result c = None \<longleftrightarrow> k \<notin> set (sm_done m)"
    using assms(2) by (auto simp: call_ok_def)
  from grows_runtime [OF assms(1) r(6)] show ?thesis
    unfolding call_ok_def grows_fields [OF assms(1)] using r(1-5) k by auto
qed

lemma grows_ok:
  assumes "grows m m'" "manager_ok h m"
  shows "manager_ok h m'"
  using grows_record [OF assms(1)] grows_call [OF assms(1)] assms(2)
  by (auto simp: manager_ok_def grows_fields [OF assms(1)])

lemma now_grows: "now m = (t, m') \<Longrightarrow> grows m m'"
  by (auto simp: now_def grows_def split: prod.splits)

lemma newID_grows: "newID m = (t, m') \<Longrightarrow> grows m m'"
  by (auto simp: newID_def grows_def split: prod.splits)

lemma newExecutionID_grows: "newExecutionID m = (t, m') \<Longrightarrow> grows m m'"
  by (auto simp: newExecutionID_def grows_def split: prod.splits)

lemma adapters_phase_grows: "adapters_phase ctx session adapters phase result m = (x, m') \<Longrightarrow> grows m m'"
  by (auto simp: adapters_phase_def grows_def split: prod.splits)

lemma new_stack_grows: "new_stack h opts m = (x, m') \<Longrightarrow> grows m m'"
  by (auto simp: new_stack_def grows_def split: prod.splits sum.splits)

lemma create_session_grows: "create_session opts a m = (x, m') \<Longrightarrow> grows m m'"
  by (auto simp: create_session_def split: prod.splits intro: grows_trans dest!: now_grows newID_grows)

lemmas grow = now_grows newID_grows newExecutionID_grows adapters_phase_grows new_stack_grows create_session_grows

lemma new_stack_runtime:
  assumes "new_stack h opts m = (Inr a, m')"
  shows "ep_WriteMode (policy_at m' a) \<noteq> WriteModeUnset" "runtime_ok m' a (policy_at m' a)" "a = length (sm_stacks m)"
    "ep_WriteMode (opt_Policy opts) \<noteq> WriteModeUnset \<Longrightarrow> runtime_ok m' a (opt_Policy opts)"
proof -
  obtain r s where new: "New h opts (sm_sys m) = (Inr r, s)" and a: "a = length (sm_stacks m)"
    and m': "m' = m\<lparr>sm_sys := s, sm_stacks := sm_stacks m @ [r]\<rparr>"
    using assms by (auto simp: new_stack_def split: prod.splits sum.splits)
  have at: "stack_at m' (Some a) = Some r" by (simp add: m' a stack_at_def)
  show "a = length (sm_stacks m)" by (fact a)
  show "ep_WriteMode (policy_at m' a) \<noteq> WriteModeUnset" unfolding at by (rule New_policy(1) [OF new])
  show "runtime_ok m' a (policy_at m' a)" by (simp add: runtime_ok_def m' a)
  show "ep_WriteMode (opt_Policy opts) \<noteq> WriteModeUnset \<Longrightarrow> runtime_ok m' a (opt_Policy opts)"
    using New_policy(2) [OF new] by (simp add: runtime_ok_def at) (simp add: m' a)
qed

subsection \<open>Adapters keep the identity of a session\<close>

lemma session_ok_Clone [simp]: "session_ok sid p (Session_Clone s) = session_ok sid p s"
  "sn_SessionID (Session_Clone s) = sn_SessionID s" "sn_PolicyCeiling (Session_Clone s) = sn_PolicyCeiling s"
  "sn_ActiveExecution (Session_Clone s) = sn_ActiveExecution s"
  by (simp_all add: Session_Clone_def session_ok_def)

lemma with_opaque_keeps [simp]:
  "sn_SessionID (with_opaque i v s) = sn_SessionID s" "sn_PolicyCeiling (with_opaque i v s) = sn_PolicyCeiling s"
  "sn_ActiveExecution (with_opaque i v s) = sn_ActiveExecution s"
  by (simp_all add: with_opaque_def)

lemma apply_adapters_keeps:
  "apply_adapters phase result adapters snext mounts s = (Inr (snext', mounts'), s') \<Longrightarrow>
   sn_SessionID snext' = sn_SessionID snext \<and> sn_PolicyCeiling snext' = sn_PolicyCeiling snext \<and>
   sn_ActiveExecution snext' = sn_ActiveExecution snext"
  by (induction phase result adapters snext mounts s rule: apply_adapters.induct)
    (auto simp: Let_def split: if_splits prod.splits sum.splits)

lemma adapters_phase_keeps:
  assumes "adapters_phase ctx session adapters phase result m = (Inr (next, mounts), m')"
  shows "sn_SessionID next = sn_SessionID session" "sn_PolicyCeiling next = sn_PolicyCeiling session"
    "sn_ActiveExecution next = sn_ActiveExecution session"
proof -
  obtain s where "apply_adapters phase result adapters (Session_Clone session) [] ((sm_sys m)\<lparr>sy_ctx := ctx\<rparr>) = (Inr (next, mounts), s)"
    using assms by (auto simp: adapters_phase_def applySessionAdapters_def split: prod.splits)
  from apply_adapters_keeps [OF this] show "sn_SessionID next = sn_SessionID session"
    "sn_PolicyCeiling next = sn_PolicyCeiling session" "sn_ActiveExecution next = sn_ActiveExecution session" by simp_all
qed

lemma adapters_phase_keeps_all:
  "adapters_phase ctx session adapters phase result m = (Inr (s, mounts), m') \<Longrightarrow>
   sn_SessionID s = sn_SessionID session \<and> sn_PolicyCeiling s = sn_PolicyCeiling session \<and>
   sn_ActiveExecution s = sn_ActiveExecution session"
  by (intro conjI; erule adapters_phase_keeps)

subsection \<open>Changing one record\<close>

lemma put_session_fields [simp]:
  "sm_sessions (put_session sid r m) = map_put sid r (sm_sessions m)" "sm_calls (put_session sid r m) = sm_calls m"
  "sm_next (put_session sid r m) = sm_next m" "sm_done (put_session sid r m) = sm_done m"
  "sm_stacks (put_session sid r m) = sm_stacks m" "sm_canceled (put_session sid r m) = sm_canceled m"
  by (simp_all add: put_session_def)

lemma put_session_runtime [simp]: "stack_at (put_session sid r m) = stack_at m" "runtime_ok (put_session sid r m) = runtime_ok m"
  by (auto simp: stack_at_def runtime_ok_def fun_eq_iff split: option.splits)

lemma put_session_record [simp]: "record_ok (put_session sid r m) = record_ok m"
  by (simp add: record_ok_def fun_eq_iff)

lemma call_ok_put:
  assumes "call_ok h m k c"
    and "\<And>old. map_of (sm_sessions m) sid = Some old \<Longrightarrow>
      ms_lock r = ms_lock old \<and> opt_Policy (ms_base r) = opt_Policy (ms_base old) \<and>
      (ms_activeExecution r = None \<longrightarrow> ms_activeExecution old = None \<or> (\<forall>k. ms_lock old = Some k \<longrightarrow> k \<in> set (sm_done m))) \<and>
      (\<forall>a. ms_activeExecution r = Some a \<longrightarrow> (\<exists>b. ms_activeExecution old = Some b \<and> xs_ExecutionID (ac_state a) = xs_ExecutionID (ac_state b)))"
  shows "call_ok h (put_session sid r m) k c"
proof -
  obtain cur req p where cur: "map_of (sm_sessions m) (ec_session c) = Some cur" "ms_lock cur = Some k"
      "ec_result c = None \<longrightarrow> ms_activeExecution cur \<noteq> None"
      "\<forall>a. ms_activeExecution cur = Some a \<longrightarrow> xs_ExecutionID (ac_state a) = trim_space (ec_execution c)"
      "EffectivePolicyWithinCeiling (host_duration h) req (opt_Policy (ms_base cur)) = Inr p" "runtime_ok m (ec_runtime c) p"
    and k: "k < sm_next m" "ec_result c = None \<longleftrightarrow> k \<notin> set (sm_done m)"
    using assms(1) by (auto simp: call_ok_def)
  show ?thesis
  proof (cases "ec_session c = sid")
    case True
    have "ms_lock r = Some k" "opt_Policy (ms_base r) = opt_Policy (ms_base cur)"
      "ec_result c = None \<longrightarrow> ms_activeExecution r \<noteq> None"
      "\<forall>a. ms_activeExecution r = Some a \<longrightarrow> xs_ExecutionID (ac_state a) = trim_space (ec_execution c)"
      using assms(2) [of cur] cur(1-4) k(2) by (auto simp: True)
    then show ?thesis using cur k by (auto simp: call_ok_def True)
  next
    case False
    then show ?thesis using cur k by (auto simp: call_ok_def)
  qed
qed

lemma put_session_ok:
  assumes "manager_ok h m" "record_ok m sid r"
    and "\<And>old. map_of (sm_sessions m) sid = Some old \<Longrightarrow>
      ms_lock r = ms_lock old \<and> opt_Policy (ms_base r) = opt_Policy (ms_base old) \<and>
      (ms_activeExecution r = None \<longrightarrow> ms_activeExecution old = None \<or> (\<forall>k. ms_lock old = Some k \<longrightarrow> k \<in> set (sm_done m))) \<and>
      (\<forall>a. ms_activeExecution r = Some a \<longrightarrow> (\<exists>b. ms_activeExecution old = Some b \<and> xs_ExecutionID (ac_state a) = xs_ExecutionID (ac_state b)))"
  shows "manager_ok h (put_session sid r m)"
  using assms(1,2) call_ok_put [OF _ assms(3)] by (auto simp: manager_ok_def)

lemma set_canceled [simp]:
  "stack_at (m\<lparr>sm_canceled := ks\<rparr>) = stack_at m" "runtime_ok (m\<lparr>sm_canceled := ks\<rparr>) = runtime_ok m"
  "call_ok h (m\<lparr>sm_canceled := ks\<rparr>) = call_ok h m" "put_session sid r (m\<lparr>sm_canceled := ks\<rparr>) = (put_session sid r m)\<lparr>sm_canceled := ks\<rparr>"
proof -
  show at: "stack_at (m\<lparr>sm_canceled := ks\<rparr>) = stack_at m" by (auto simp: stack_at_def fun_eq_iff split: option.splits)
  then show run: "runtime_ok (m\<lparr>sm_canceled := ks\<rparr>) = runtime_ok m" by (simp add: runtime_ok_def fun_eq_iff)
  then show "call_ok h (m\<lparr>sm_canceled := ks\<rparr>) = call_ok h m" by (simp add: call_ok_def fun_eq_iff)
  show "put_session sid r (m\<lparr>sm_canceled := ks\<rparr>) = (put_session sid r m)\<lparr>sm_canceled := ks\<rparr>" by (simp add: put_session_def)
qed

lemma set_canceled_ok:
  assumes "manager_ok h m"
  shows "manager_ok h (m\<lparr>sm_canceled := k # sm_canceled m\<rparr>)"
proof -
  have "record_ok (m\<lparr>sm_canceled := k # sm_canceled m\<rparr>) sid r" if "record_ok m sid r" for sid r
    using that by (rule record_ok_mono) auto
  then show ?thesis using assms by (simp add: manager_ok_def)
qed

lemma lookupManaged_Inr: "lookupManaged m sid = Inr r \<longleftrightarrow> sid \<noteq> [] \<and> map_of (sm_sessions m) sid = Some r"
  by (auto simp: lookupManaged_def split: option.splits)

lemma map_put_self: "map_of xs k = Some v \<Longrightarrow> map_put k v xs = xs"
  by (induction xs) auto

lemma put_session_self: "map_of (sm_sessions m) sid = Some r \<Longrightarrow> put_session sid r m = m"
  by (simp add: put_session_def map_put_self)

subsection \<open>Get and Cancel\<close>

lemma without_execution_ok:
  assumes "manager_ok h m" "map_of (sm_sessions m) sid = Some r" "executionFinished m (ms_activeExecution r)"
  shows "manager_ok h (put_session sid (without_execution r) m)"
proof (rule put_session_ok [OF assms(1)])
  have r: "record_ok m sid r" using manager_okD(1) [OF assms(1,2)] .
  then show "record_ok m sid (without_execution r)" by (auto simp: record_ok_def without_execution_def session_ok_def)
  fix old assume "map_of (sm_sessions m) sid = Some old"
  then have "old = r" using assms(2) by simp
  then show "ms_lock (without_execution r) = ms_lock old \<and> opt_Policy (ms_base (without_execution r)) = opt_Policy (ms_base old) \<and>
      (ms_activeExecution (without_execution r) = None \<longrightarrow>
        ms_activeExecution old = None \<or> (\<forall>k. ms_lock old = Some k \<longrightarrow> k \<in> set (sm_done m))) \<and>
      (\<forall>a. ms_activeExecution (without_execution r) = Some a \<longrightarrow>
        (\<exists>b. ms_activeExecution old = Some b \<and> xs_ExecutionID (ac_state a) = xs_ExecutionID (ac_state b)))"
    using r assms(3) by (cases "ms_activeExecution r") (auto simp: without_execution_def executionFinished_def record_ok_def)
qed

lemma Get_ok:
  assumes "manager_ok h m" "Get sid m = (r, m')"
  shows "manager_ok h m'"
proof (cases "lookupManaged m (trim_space sid)")
  case (Inl e)
  then show ?thesis using assms by (simp add: Get_def)
next
  case (Inr rec)
  note at = Inr [unfolded lookupManaged_Inr, THEN conjunct2]
  show ?thesis
    using assms without_execution_ok [OF assms(1) at] put_session_self [OF at]
    by (auto simp: Get_def Inr Let_def split: if_splits)
qed

lemma Cancel_ok:
  assumes ok: "manager_ok h m" and c: "Cancel sessionID x m = (r, m')"
  shows "manager_ok h m'"
proof -
  let ?sid = "trim_space sessionID"
  consider (same) "grows m m'"
    | (finished) rec where "map_of (sm_sessions m) ?sid = Some rec" "executionFinished m (ms_activeExecution rec)"
        "m' = put_session ?sid (without_execution rec) m"
    | (cancel) rec a y m1 t where "map_of (sm_sessions m) ?sid = Some rec" "ms_activeExecution rec = Some a"
        "sn_ActiveExecution (ms_snapshot rec) = Some y" "now m = (t, m1)"
        "m' = (put_session ?sid (rec\<lparr>ms_activeExecution := Some (a\<lparr>ac_state := canceling t y\<rparr>),
            ms_snapshot := (ms_snapshot rec)\<lparr>sn_ActiveExecution := Some (canceling t y), sn_UpdatedAt := t\<rparr>\<rparr>) m1)
          \<lparr>sm_canceled := ac_call a # sm_canceled m1\<rparr>"
  proof (cases "map_of (sm_sessions m) ?sid")
    case None
    then show thesis using c by (intro same) (simp add: Cancel_def)
  next
    case (Some rec)
    show thesis
    proof (cases "ms_active rec \<and> ms_runtime rec \<noteq> None")
      case False
      then show thesis using c Some by (intro same) (auto simp: Cancel_def Let_def)
    next
      case active: True
      show thesis
      proof (cases "ms_activeExecution rec = None \<or> sn_ActiveExecution (ms_snapshot rec) = None")
        case True
        then show thesis using c Some active by (intro same) (auto simp: Cancel_def Let_def split: option.splits)
      next
        case False
        then obtain a y where ay: "ms_activeExecution rec = Some a" "sn_ActiveExecution (ms_snapshot rec) = Some y" by auto
        obtain t m1 where t: "now m = (t, m1)" by (cases "now m")
        show thesis
          using c Some active ay t same now_grows [OF t] finished [OF Some] cancel [OF Some ay t]
          by (auto simp: Cancel_def Let_def split: if_splits)
      qed
    qed
  qed
  then show ?thesis
  proof cases
    case same
    then show ?thesis using grows_ok ok by blast
  next
    case finished
    then show ?thesis using without_execution_ok [OF ok] by simp
  next
    case cancel
    note g = now_grows [OF cancel(4)]
    let ?m1 = "m1\<lparr>sm_canceled := ac_call a # sm_canceled m1\<rparr>"
    have ok1: "manager_ok h ?m1" using set_canceled_ok grows_ok [OF g ok] .
    let ?r = "rec\<lparr>ms_activeExecution := Some (a\<lparr>ac_state := canceling t y\<rparr>),
            ms_snapshot := (ms_snapshot rec)\<lparr>sn_ActiveExecution := Some (canceling t y), sn_UpdatedAt := t\<rparr>\<rparr>"
    have at: "map_of (sm_sessions ?m1) ?sid = Some rec" using cancel(1) grows_fields(1) [OF g] by simp
    have "record_ok ?m1 ?sid rec" using manager_okD(1) [OF ok1 at] .
    then have "record_ok ?m1 ?sid ?r" using cancel(2) by (auto simp: record_ok_def session_ok_def)
    moreover have "xs_ExecutionID (canceling t y) = xs_ExecutionID (ac_state a)"
      using cancel(2,3) \<open>record_ok ?m1 ?sid rec\<close> by (simp add: record_ok_def canceling_def)
    ultimately have "manager_ok h (put_session ?sid ?r ?m1)"
      using at cancel(2) by (intro put_session_ok [OF ok1]) simp_all
    then show ?thesis by (simp add: cancel(5))
  qed
qed

subsection \<open>Checkpoint, Close, Resume\<close>

lemma next_session_keeps [simp]:
  "sn_SessionID (next_session t s st y) = sn_SessionID s" "sn_PolicyCeiling (next_session t s st y) = sn_PolicyCeiling s"
  "sn_ActiveExecution (next_session t s st y) = sn_ActiveExecution s"
  by (simp_all add: next_session_def Let_def)

lemma unlocked_idle:
  "record_ok m sid r \<Longrightarrow> ms_lock r = None \<Longrightarrow> ms_activeExecution r = None \<and> sn_ActiveExecution (ms_snapshot r) = None"
  by (cases "ms_activeExecution r") (auto simp: record_ok_def)

lemma updated_session_grows: "updated_session ctx phase r m = (x, m') \<Longrightarrow> grows m m'"
  by (auto simp: updated_session_def Let_def split: prod.splits if_splits sum.splits
      intro: grows_trans dest!: now_grows adapters_phase_grows)

text \<open>Bringing a session up to date changes its snapshot and checkpoint, and the mounts of its adapters.\<close>

definition refreshed :: "'e managedSession \<Rightarrow> 'e managedSession \<Rightarrow> bool" where
  "refreshed r r' \<longleftrightarrow>
     sn_SessionID (ms_snapshot r') = sn_SessionID (ms_snapshot r) \<and>
     sn_PolicyCeiling (ms_snapshot r') = sn_PolicyCeiling (ms_snapshot r) \<and>
     sn_ActiveExecution (ms_snapshot r') = sn_ActiveExecution (ms_snapshot r) \<and>
     ms_checkpoint r' = Session_Clone (ms_snapshot r') \<and> ms_base r' = ms_base r \<and> ms_runtime r' = ms_runtime r \<and>
     ms_active r' = ms_active r \<and> ms_lock r' = ms_lock r \<and> ms_activeExecution r' = ms_activeExecution r"

lemma updated_session_refreshed:
  "updated_session ctx phase r m = (Inr r', m') \<Longrightarrow> refreshed r r'"
  by (auto simp: updated_session_def Let_def refreshed_def split: prod.splits if_splits sum.splits
      dest!: adapters_phase_keeps_all)

lemma refreshed_ok:
  assumes "refreshed r r'" "record_ok m sid r" "ms_lock r = None"
  shows "record_ok m sid r'"
  using assms(1,2) unlocked_idle [OF assms(2,3)] unfolding record_ok_def refreshed_def session_ok_def by auto

lemma Checkpoint_ok:
  assumes ok: "manager_ok h m" and free: "\<not> waits sessionID m" and c: "Checkpoint ctx sessionID m = (r, m')"
  shows "manager_ok h m'"
proof -
  let ?sid = "trim_space sessionID"
  consider (same) "grows m m'"
    | (updated) rec rec' m1 where "lookupManaged m ?sid = Inr rec" "updated_session ctx adapterPhaseCheckpoint rec m = (Inr rec', m1)"
        "m' = put_session ?sid rec' m1"
    using c by (auto simp: Checkpoint_def Let_def split: sum.splits if_splits prod.splits dest: updated_session_grows)
  then show ?thesis
  proof cases
    case same
    then show ?thesis using grows_ok ok by blast
  next
    case updated
    note g = updated_session_grows [OF updated(2)]
    have at: "map_of (sm_sessions m) ?sid = Some rec" using updated(1) by (simp add: lookupManaged_Inr)
    have lock: "ms_lock rec = None" using free updated(1) by (auto simp: waits_def)
    have "record_ok m1 ?sid rec" using grows_record [OF g manager_okD(1) [OF ok at]] .
    from refreshed_ok [OF updated_session_refreshed [OF updated(2)] this lock]
    show ?thesis unfolding updated(3)
      by (rule put_session_ok [OF grows_ok [OF g ok]])
        (use updated_session_refreshed [OF updated(2)] unlocked_idle [OF \<open>record_ok m1 ?sid rec\<close> lock] at in
          \<open>simp add: grows_fields [OF g] refreshed_def\<close>)
  qed
qed

lemma Close_ok:
  assumes ok: "manager_ok h m" and free: "\<not> waits sessionID m" and c: "Close ctx sessionID m = (r, m')"
  shows "manager_ok h m'"
proof -
  let ?sid = "trim_space sessionID"
  consider (same) "grows m m'"
    | (updated) rec rec' m1 where "lookupManaged m ?sid = Inr rec" "updated_session ctx adapterPhaseClose rec m = (Inr rec', m1)"
        "m' = put_session ?sid (closed_record rec') m1"
    using c by (auto simp: Close_def Let_def split: sum.splits if_splits prod.splits dest: updated_session_grows)
  then show ?thesis
  proof cases
    case same
    then show ?thesis using grows_ok ok by blast
  next
    case updated
    note g = updated_session_grows [OF updated(2)]
    note up = updated_session_refreshed [OF updated(2)]
    have at: "map_of (sm_sessions m) ?sid = Some rec" using updated(1) by (simp add: lookupManaged_Inr)
    have lock: "ms_lock rec = None" using free updated(1) by (auto simp: waits_def)
    have rec: "record_ok m1 ?sid rec" using grows_record [OF g manager_okD(1) [OF ok at]] .
    have lock': "ms_lock rec' = None" using up lock by (simp add: refreshed_def)
    have "record_ok m1 ?sid (closed_record rec')"
      using refreshed_ok [OF up rec lock] lock' by (simp add: record_ok_def closed_record_def session_ok_def)
    then show ?thesis unfolding updated(3)
      by (rule put_session_ok [OF grows_ok [OF g ok]])
        (use up unlocked_idle [OF rec lock] at in \<open>simp add: grows_fields [OF g] refreshed_def closed_record_def\<close>)
  qed
qed

lemma Resume_ok:
  assumes ok: "manager_ok h m" and free: "\<not> waits sessionID m" and c: "Resume h ctx sessionID m = (r, m')"
  shows "manager_ok h m'"
proof (cases "lookupManaged m (trim_space sessionID)")
  case (Inl e)
  then show ?thesis using ok c by (simp add: Resume_def)
next
  case (Inr rec)
  let ?sid = "trim_space sessionID"
  have at: "map_of (sm_sessions m) ?sid = Some rec" using Inr by (simp add: lookupManaged_Inr)
  have lock: "ms_lock rec = None" using free Inr by (auto simp: waits_def)
  have rec: "record_ok m ?sid rec" using manager_okD(1) [OF ok at] .
  obtain x m1 where x: "adapters_phase ctx (Session_Clone (ms_checkpoint rec)) (opt_Adapters (ms_base rec)) adapterPhaseResume
      zero_execution m = (x, m1)" by fastforce
  note g1 = adapters_phase_grows [OF x]
  show ?thesis
  proof (cases "ms_active rec \<and> ms_runtime rec \<noteq> None \<or> (\<exists>e. x = Inl e)")
    case True
    then show ?thesis using c grows_ok [OF g1 ok] ok by (auto simp: Resume_def Inr x split: if_splits)
  next
    case False
    then obtain resumed mounts where xx: "x = Inr (resumed, mounts)" by (cases x) auto
    obtain y m2 where y: "new_stack h (runtimeOptionsFromSession (ms_base rec) resumed (sn_PolicyCeiling resumed) mounts) m1 = (y, m2)"
      by fastforce
    note g2 = new_stack_grows [OF y]
    obtain t m3 where t: "now m2 = (t, m3)" by fastforce
    have g: "grows m m3" using g1 g2 now_grows [OF t] grows_trans by blast
    show ?thesis
    proof (cases y)
      case (Inl e)
      then have "m' = m2" using c False by (simp add: Resume_def Inr x xx y split: if_splits)
      then show ?thesis using grows_ok [OF g2 grows_ok [OF g1 ok]] by simp
    next
      case (Inr b)
      let ?r = "rec\<lparr>ms_runtime := Some b, ms_active := True, ms_adapterMounts := mounts,
          ms_snapshot := (Session_Clone resumed)\<lparr>sn_UpdatedAt := t\<rparr>\<rparr>"
      have m': "m' = put_session ?sid ?r m3"
        using c False \<open>lookupManaged m ?sid = Inr rec\<close> by (simp add: Resume_def x xx y Inr t Let_def split: if_splits)
      have keeps: "sn_SessionID resumed = sn_SessionID (ms_checkpoint rec)"
        "sn_PolicyCeiling resumed = opt_Policy (ms_base rec)" "sn_ActiveExecution resumed = None"
        using adapters_phase_keeps [OF x [unfolded xx]] rec by (simp_all add: record_ok_def session_ok_def)
      have "opt_Policy (runtimeOptionsFromSession (ms_base rec) resumed (sn_PolicyCeiling resumed) mounts) = opt_Policy (ms_base rec)"
        by (simp add: runtimeOptionsFromSession_def Let_def keeps)
      then have "runtime_ok m2 b (opt_Policy (ms_base rec))"
        using new_stack_runtime(4) [OF y [unfolded Inr]] rec by (simp add: record_ok_def)
      then have run: "runtime_ok m3 b (opt_Policy (ms_base rec))" using grows_runtime now_grows [OF t] by blast
      have rec3: "record_ok m3 ?sid rec" using grows_record [OF g rec] .
      have "record_ok m3 ?sid ?r"
        using rec3 run keeps unlocked_idle [OF rec lock] lock by (simp add: record_ok_def session_ok_def)
      then show ?thesis unfolding m'
        by (rule put_session_ok [OF grows_ok [OF g ok]])
          (use unlocked_idle [OF rec lock] at in \<open>simp add: grows_fields [OF g]\<close>)
    qed
  qed
qed

subsection \<open>Create\<close>

lemma Create_ok:
  assumes ok: "manager_ok h m" and c: "Create h ctx opts m = (r, m')"
    and fresh: "\<And>session. r = Inr session \<Longrightarrow> map_of (sm_sessions m) (sn_SessionID session) = None"
  shows "manager_ok h m'"
proof (cases "new_stack h (stack_options.truncate opts) m")
  case (Pair x m1)
  note g1 = new_stack_grows [OF Pair]
  show ?thesis
  proof (cases x)
    case (Inl e)
    then show ?thesis using c grows_ok [OF g1 ok] by (simp add: Create_def Pair)
  next
    case (Inr a)
    obtain s0 m2 where s0: "create_session opts a m1 = (s0, m2)" by fastforce
    note g2 = create_session_grows [OF s0]
    obtain y m3 where y: "adapters_phase ctx s0 (opt_Adapters opts) adapterPhaseCreate zero_execution m2 = (y, m3)" by fastforce
    note g3 = adapters_phase_grows [OF y]
    have g: "grows m m3" using g1 g2 g3 grows_trans by blast
    show ?thesis
    proof (cases y)
      case (Inl e)
      then show ?thesis using c grows_ok [OF g ok] by (simp add: Create_def Pair Inr s0 y)
    next
      case (Inr sm)
      obtain session mounts where sm: "sm = (session, mounts)" by fastforce
      note y = y [unfolded Inr sm]
      let ?opts = "runtimeOptionsFromSession (cloneOptions opts) session (sn_PolicyCeiling session) mounts"
      obtain z m4 where z: "(if mounts = [] then (Inr a, m3) else new_stack h ?opts m3) = (z, m4)" by fastforce
      have g4: "grows m3 m4" using z by (auto split: if_splits dest: new_stack_grows)
      show ?thesis
      proof (cases z)
        case (Inl e)
        then have "m' = m4" using c Pair \<open>x = Inr a\<close> s0 y z by (simp add: Create_def)
        then show ?thesis using grows_ok [OF g4 grows_ok [OF g ok]] by simp
      next
        case (Inr b)
        let ?r = "created_record opts session b mounts"
        have m': "m' = put_session (sn_SessionID session) ?r m4" and r: "r = Inr (Session_Clone session)"
          using c Pair \<open>x = Inr a\<close> s0 y z Inr by (simp_all add: Create_def)
        have new: "map_of (sm_sessions m) (sn_SessionID session) = None" using fresh [OF r] by simp
        have s0_fields: "sn_PolicyCeiling s0 = policy_at m1 a" "sn_ActiveExecution s0 = None"
          using s0 by (auto simp: create_session_def stack_at_def now_def newID_def split: prod.splits)
        note keeps = adapters_phase_keeps [OF y]
        note a = new_stack_runtime(1,2) [OF Pair [unfolded \<open>x = Inr a\<close>]]
        have set: "ep_WriteMode (sn_PolicyCeiling session) \<noteq> WriteModeUnset" using a(1) keeps(2) s0_fields(1) by simp
        have "grows m1 m3" using g2 g3 grows_trans by blast
        then have "runtime_ok m3 a (sn_PolicyCeiling session)" using a(2) keeps(2) s0_fields(1) grows_runtime by auto
        then have "runtime_ok m4 b (sn_PolicyCeiling session)"
          using z Inr new_stack_runtime(4) [of h ?opts m3 b m4] set
          by (auto simp: runtimeOptionsFromSession_def Let_def split: if_splits)
        then have "record_ok m4 (sn_SessionID session) ?r"
          using keeps(3) s0_fields(2) set by (simp add: record_ok_def created_record_def session_ok_def)
        then show ?thesis unfolding m'
          by (rule put_session_ok [OF grows_ok [OF g4 grows_ok [OF g ok]]])
            (simp add: grows_fields [OF g4] grows_fields [OF g] new)
      qed
    qed
  qed
qed

subsection \<open>Execute\<close>

lemma map_put_put [simp]: "map_put k v (map_put k w xs) = map_put k v xs"
  by (induction xs) auto

lemma newActiveExecutionState_fields [simp]:
  "xs_ExecutionID (newActiveExecutionState i line t st) = trim_space i" "xs_Status (newActiveExecutionState i line t st) = st"
  by (simp_all add: newActiveExecutionState_def)

lemma samePolicy_eq [simp]: "samePolicy p q \<longleftrightarrow> p = q"
  by (cases p; cases q) (auto simp: samePolicy_def)

lemma effective_set: "EffectivePolicyWithinCeiling dur r c = Inr e \<Longrightarrow> ep_WriteMode e \<noteq> WriteModeUnset"
  by (rule effective_policyD(3))

lemma effective_self:
  "ep_WriteMode c \<noteq> WriteModeUnset \<Longrightarrow> EffectivePolicyWithinCeiling dur c c = Inr c"
  by (simp add: EffectivePolicyWithinCeiling_def WithInheritedUnset_self PolicyWithinCeiling_def)

lemma register_ok:
  assumes ok: "manager_ok h m" and at: "map_of (sm_sessions m) sid = Some r" and idle: "ms_lock r = None"
    and active: "ms_active r" and pol: "EffectivePolicyWithinCeiling (host_duration h) req (opt_Policy (ms_base r)) = Inr p"
    and run: "runtime_ok m a p" and c: "register_execution ctx sid line r a m = (b, m')"
  shows "manager_ok h m'"
proof -
  obtain i m1 where i: "newExecutionID m = (i, m1)" by fastforce
  obtain t m2 where t: "now m1 = (t, m2)" by fastforce
  have g: "grows m m2" using newExecutionID_grows [OF i] now_grows [OF t] grows_trans by blast
  have ok2: "manager_ok h m2" using grows_ok [OF g ok] .
  have at2: "map_of (sm_sessions m2) sid = Some r" using at by (simp add: grows_fields [OF g])
  have rec: "record_ok m2 sid r" using manager_okD(1) [OF ok2 at2] .
  have sid: "sn_SessionID (ms_snapshot r) = sid" using rec by (simp add: record_ok_def session_ok_def)
  let ?k = "sm_next m2"
  let ?x = "newActiveExecutionState i line t StatusRunning"
  let ?c = "\<lparr>ec_ctx = ctx, ec_session = sid, ec_line = line, ec_runtime = a, ec_execution = i, ec_result = None\<rparr>"
  let ?r = "r\<lparr>ms_lock := Some ?k, ms_activeExecution := Some \<lparr>ac_state = ?x, ac_call = ?k\<rparr>,
      ms_snapshot := (ms_snapshot r)\<lparr>sn_ActiveExecution := Some ?x, sn_UpdatedAt := t\<rparr>\<rparr>"
  have m': "m' = (put_session sid ?r m2)\<lparr>sm_next := Suc ?k, sm_calls := sm_calls m2 @ [(?k, ?c)]\<rparr>"
    using c by (simp add: register_execution_def i t sid Let_def put_session_def)
  have stacks: "stack_at m' = stack_at m2" "sm_stacks m' = sm_stacks m2"
    by (auto simp: m' stack_at_def put_session_def fun_eq_iff split: option.splits)
  have runtimes: "runtime_ok m' = runtime_ok m2" by (simp add: runtime_ok_def stacks fun_eq_iff)
  have fresh: "map_of (sm_calls m2) ?k = None"
  proof (cases "map_of (sm_calls m2) ?k")
    case (Some d)
    then show ?thesis using manager_okD(2) [OF ok2] by (auto simp: call_ok_def)
  qed
  have calls: "map_of (sm_calls m') = (map_of (sm_calls m2))(?k \<mapsto> ?c)"
    using fresh by (auto simp: m' fun_eq_iff map_add_def split: option.splits)
  have sessions: "map_of (sm_sessions m') = (map_of (sm_sessions m2))(sid \<mapsto> ?r)" by (simp add: m')
  have not_done: "?k \<notin> set (sm_done m2)" using manager_okD(3) [OF ok2] by blast
  have others: "record_ok m' j q" if "record_ok m2 j q" for j q
    using that by (rule record_ok_mono) (use fresh in \<open>auto simp: calls runtimes\<close>, simp_all add: m')
  show ?thesis unfolding manager_ok_def
  proof (intro conjI allI impI ballI)
    fix j q assume q: "map_of (sm_sessions m') j = Some q"
    show "record_ok m' j q"
    proof (cases "j = sid")
      case True
      then have "q = ?r" using q by (simp add: sessions)
      then show ?thesis using rec active by (auto simp: True record_ok_def session_ok_def runtimes calls)
    next
      case False
      then show ?thesis using q manager_okD(1) [OF ok2] others by (simp add: sessions)
    qed
  next
    fix k d assume d: "map_of (sm_calls m') k = Some d"
    show "call_ok h m' k d"
    proof (cases "k = ?k")
      case True
      then have "d = ?c" using d by (simp add: calls)
      moreover have "runtime_ok m' a p" using grows_runtime [OF g run] by (simp add: runtimes)
      ultimately show ?thesis using pol not_done True by (auto simp: call_ok_def sessions) (simp_all add: m')
    next
      case False
      then have old: "call_ok h m2 k d" using d manager_okD(2) [OF ok2] by (simp add: calls)
      then have "ec_session d \<noteq> sid" using at2 idle by (auto simp: call_ok_def)
      then show ?thesis using old by (auto simp: call_ok_def sessions runtimes) (auto simp: m')
    qed
  next
    fix k assume "k \<in> set (sm_done m')"
    then show "k < sm_next m'" using manager_okD(3) [OF ok2] by (auto simp: m' less_Suc_eq)
  qed
qed

lemma execute_begin_ok:
  assumes ok: "manager_ok h m" and free: "\<not> waits sessionID m"
    and c: "execute_begin h ctx sessionID commandLine requested m = (b, m')"
  shows "manager_ok h m'"
proof (cases "lookupManaged m (trim_space sessionID)")
  case (Inl e)
  then show ?thesis using ok c by (simp add: execute_begin_def)
next
  case (Inr r)
  let ?sid = "trim_space sessionID" and ?line = "trim_space commandLine"
  have at: "map_of (sm_sessions m) ?sid = Some r" using Inr by (simp add: lookupManaged_Inr)
  have lock: "ms_lock r = None" using free Inr by (auto simp: waits_def)
  have rec: "record_ok m ?sid r" using manager_okD(1) [OF ok at] .
  show ?thesis
  proof (cases "if ms_active r then ms_runtime r else None")
    case None
    then show ?thesis using ok c by (simp add: execute_begin_def Inr)
  next
    case (Some own)
    then have act: "ms_active r" "ms_runtime r = Some own" by (auto split: if_splits)
    have ceiling: "sn_PolicyCeiling (ms_snapshot r) = opt_Policy (ms_base r)" using rec by (simp add: record_ok_def session_ok_def)
    show ?thesis
    proof (cases "EffectivePolicyWithinCeiling (host_duration h) requested (opt_Policy (ms_base r))")
      case (Inl e)
      then show ?thesis using ok c by (simp add: execute_begin_def Inr Some ceiling act)
    next
      case eff: (Inr effective)
      show ?thesis
      proof (cases "?line = []")
        case True
        then have "grows m m'" using c
          by (auto simp: execute_begin_def Inr Some ceiling act eff usage_reply_def grows_def split: prod.splits)
        then show ?thesis using grows_ok ok by blast
      next
        case False
        obtain z m1 where z: "(if samePolicy effective (sn_PolicyCeiling (ms_snapshot r)) then (Inr own, m)
            else new_stack h (runtimeOptionsForSession r effective) m) = (z, m1)" by fastforce
        have g: "grows m m1" using z by (auto split: if_splits dest: new_stack_grows)
        have reg: "(case z of Inl e \<Rightarrow> (Returned (Inl e), m1) | Inr a \<Rightarrow> register_execution ctx ?sid ?line r a m1) = (b, m')"
          using c False z by (simp add: execute_begin_def Inr Some ceiling act eff Let_def)
        show ?thesis
        proof (cases z)
          case (Inl e)
          then show ?thesis using reg grows_ok [OF g ok] by simp
        next
          case za: (Inr a)
          have "runtime_ok m1 a effective"
          proof (cases "effective = opt_Policy (ms_base r)")
            case True
            then show ?thesis using z za rec act ceiling by (simp add: record_ok_def)
          next
            case False
            have "opt_Policy (runtimeOptionsForSession r effective) = effective"
              by (simp add: runtimeOptionsForSession_def runtimeOptionsFromSession_def Let_def)
            then show ?thesis
              using z za False ceiling new_stack_runtime(4) [of h "runtimeOptionsForSession r effective" m a m1]
                effective_set [OF eff] by simp
          qed
          moreover have "map_of (sm_sessions m1) ?sid = Some r" using at by (simp add: grows_fields [OF g])
          ultimately show ?thesis
            using register_ok [OF grows_ok [OF g ok] _ lock act(1) eff] reg za by simp
        qed
      qed
    qed
  qed
qed

lemma stack_at_put_stack:
  "stack_at (put_stack a st m) (Some b) =
     (if a = b \<and> a < length (sm_stacks m) \<and> st \<noteq> None then st else stack_at m (Some b))"
  by (auto simp: put_stack_def stack_at_def nth_list_update split: option.splits)

lemma Stack_ExecuteResult_policy:
  "Stack_ExecuteResult pl ctx line st n s = (result, st', n', s') \<Longrightarrow> (st = None \<longleftrightarrow> st' = None) \<and> stackOps st' = stackOps st"
  by (auto simp: Stack_ExecuteResult_def stackOps_def split: option.splits prod.splits)

lemma execute_run_ok:
  assumes ok: "manager_ok h m" and call: "map_of (sm_calls m) k = Some c" and pending: "ec_result c = None"
  shows "manager_ok h (execute_run h k n c m)"
proof -
  let ?a = "ec_runtime c"
  obtain result st counter s where run: "Stack_ExecuteResult (host_platform h) (run_context k n c m) (ec_line c)
      (stack_at m (Some ?a)) (cnt_executions (sm_counters m)) (sm_sys m) = (result, st, counter, s)"
    by (metis prod_cases4)
  note pol = Stack_ExecuteResult_policy [OF run]
  let ?m = "execute_run h k n c m"
  let ?c = "c\<lparr>ec_result := Some ((WithSessionID result (ec_session c))\<lparr>xr_ExecutionID := ec_execution c\<rparr>)\<rparr>"
  have fields: "sm_sessions ?m = sm_sessions m" "sm_next ?m = sm_next m" "sm_done ?m = k # sm_done m" "sm_canceled ?m = sm_canceled m"
    "sm_calls ?m = map_put k ?c (sm_calls m)" "sm_stacks ?m = sm_stacks (put_stack ?a st m)"
    by (simp_all add: execute_run_def run Let_def put_call_def) (simp_all add: put_stack_def split: option.splits)
  have "stack_at ?m = stack_at (put_stack ?a st m)" by (simp add: stack_at_def fields fun_eq_iff split: option.splits)
  then have at: "stackOps (stack_at ?m (Some b)) = stackOps (stack_at m (Some b))" for b
    using pol by (auto simp: stack_at_put_stack)
  have len: "length (sm_stacks ?m) = length (sm_stacks m)" by (simp add: fields put_stack_def split: option.splits)
  have runtimes: "runtime_ok ?m = runtime_ok m" by (simp add: runtime_ok_def at len fun_eq_iff)
  have calls: "map_of (sm_calls ?m) = (map_of (sm_calls m))(k \<mapsto> ?c)" by (simp add: fields)
  show ?thesis unfolding manager_ok_def
  proof (intro conjI allI impI ballI)
    fix j q assume "map_of (sm_sessions ?m) j = Some q"
    then have rec: "record_ok m j q" using manager_okD(1) [OF ok] by (simp add: fields)
    have "\<exists>d. map_of (sm_calls ?m) i = Some d \<and> ec_session d = j"
      if "map_of (sm_calls m) i = Some d" "ec_session d = j" for i d
    proof (cases "i = k")
      case True
      then have "ec_session ?c = j" using that call by simp
      then show ?thesis by (intro exI [of _ ?c]) (simp add: calls True)
    next
      case False
      then show ?thesis using that by (simp add: calls)
    qed
    then show "record_ok ?m j q" by (intro record_ok_mono [OF rec]) (simp_all add: runtimes fields(1,2,3,4))
  next
    fix i d assume d: "map_of (sm_calls ?m) i = Some d"
    show "call_ok h ?m i d"
    proof (cases "i = k")
      case True
      then have "d = ?c" using d by (simp add: calls)
      then show ?thesis using manager_okD(2) [OF ok call] by (auto simp: True call_ok_def runtimes fields)
    next
      case False
      then have "call_ok h m i d" using d manager_okD(2) [OF ok] by (simp add: calls)
      then show ?thesis using False by (auto simp: call_ok_def runtimes fields)
    qed
  next
    fix i assume "i \<in> set (sm_done ?m)"
    then show "i < sm_next ?m" using manager_okD(2) [OF ok call] manager_okD(3) [OF ok] by (auto simp: fields call_ok_def)
  qed
qed

lemma map_of_drop: "map_of (filter (\<lambda>x. fst x \<noteq> k) xs) = (map_of xs)(k := None)"
  by (induction xs) (auto simp: fun_eq_iff)

lemma map_of_each: "map_of (map (\<lambda>(i, r). (i, f r)) xs) j = map_option f (map_of xs j)"
  by (induction xs) auto

lemma end_call_ok:
  assumes ok: "manager_ok h m" and call: "map_of (sm_calls m) k = Some c"
    and at: "map_of (sm_sessions m) (ec_session c) = Some r" and idle: "ms_activeExecution r = None"
  shows "manager_ok h (end_call k m)"
proof -
  let ?m = "end_call k m"
  have calls: "map_of (sm_calls ?m) = (map_of (sm_calls m))(k := None)" by (simp add: end_call_def map_of_drop)
  have sessions: "map_of (sm_sessions ?m) j = map_option (unlocked k) (map_of (sm_sessions m) j)" for j
    by (simp add: end_call_def map_of_each)
  have fields: "sm_done ?m = sm_done m" "sm_next ?m = sm_next m" "sm_stacks ?m = sm_stacks m"
    "sm_canceled ?m = sm_canceled m" by (simp_all add: end_call_def)
  have "stack_at ?m = stack_at m" by (simp add: stack_at_def fields fun_eq_iff split: option.splits)
  then have runtimes: "runtime_ok ?m = runtime_ok m" by (simp add: runtime_ok_def fields fun_eq_iff)
  show ?thesis unfolding manager_ok_def
  proof (intro conjI allI impI ballI)
    fix j q assume "map_of (sm_sessions ?m) j = Some q"
    then obtain q0 where q0: "map_of (sm_sessions m) j = Some q0" "q = unlocked k q0" by (auto simp: sessions)
    have rec: "record_ok m j q0" using manager_okD(1) [OF ok q0(1)] .
    show "record_ok ?m j q"
    proof (cases "ms_lock q0 = Some k")
      case True
      then have "ec_session c = j" using rec call by (auto simp: record_ok_def)
      then have "q0 = r" using q0(1) at by simp
      then show ?thesis using rec idle True by (simp add: q0(2) unlocked_def record_ok_def runtimes)
    next
      case False
      then have "\<exists>d. map_of (sm_calls ?m) i = Some d \<and> ec_session d = j" if "ms_lock q0 = Some i" for i
        using that rec by (auto simp: calls record_ok_def)
      then show ?thesis using rec False unfolding q0(2) unlocked_def record_ok_def runtimes fields by auto
    qed
  next
    fix i d assume d: "map_of (sm_calls ?m) i = Some d"
    then have i: "i \<noteq> k" "map_of (sm_calls m) i = Some d" by (auto simp: calls split: if_splits)
    obtain q where q: "map_of (sm_sessions m) (ec_session d) = Some q" "ms_lock q = Some i"
      using manager_okD(2) [OF ok i(2)] by (auto simp: call_ok_def)
    then have "map_of (sm_sessions ?m) (ec_session d) = Some q" using i(1) by (simp add: sessions unlocked_def)
    then show "call_ok h ?m i d"
      using manager_okD(2) [OF ok i(2)] q by (simp add: call_ok_def fields runtimes)
  next
    fix i assume "i \<in> set (sm_done ?m)"
    then show "i < sm_next ?m" using manager_okD(3) [OF ok] by (simp add: fields)
  qed
qed

lemma observe_execution_grows: "observe_execution h ctx a result s r m = (x, m') \<Longrightarrow> grows m m'"
  by (auto simp: observe_execution_def split: if_splits prod.splits sum.splits
      intro: grows_trans dest!: adapters_phase_grows new_stack_grows)

text \<open>What observing leaves of the record: all but the mounts of the adapters and the runtime.\<close>

definition observed :: "'e SessionManager \<Rightarrow> string \<Rightarrow> 'e managedSession \<Rightarrow> Session \<Rightarrow> 'e managedSession \<Rightarrow> Session \<Rightarrow> bool" where
  "observed m sid r s r' s' \<longleftrightarrow>
     ms_base r' = ms_base r \<and> ms_lock r' = ms_lock r \<and> ms_activeExecution r' = ms_activeExecution r \<and> ms_active r' \<and>
     ms_snapshot r' = ms_snapshot r \<and> ms_checkpoint r' = ms_checkpoint r \<and> session_ok sid (opt_Policy (ms_base r)) s' \<and>
     sn_ActiveExecution s' = sn_ActiveExecution s \<and> (\<exists>b. ms_runtime r' = Some b \<and> runtime_ok m b (opt_Policy (ms_base r)))"

lemma observe_execution_keeps:
  assumes obs: "observe_execution h ctx a result s r m = (Inr (s', r'), m')"
    and rec: "record_ok m sid r" and s: "session_ok sid (opt_Policy (ms_base r)) s" and act: "ms_active r"
  shows "observed m' sid r s r' s'"
proof -
  have set: "ep_WriteMode (opt_Policy (ms_base r)) \<noteq> WriteModeUnset" using rec by (simp add: record_ok_def)
  consider (adapters) mounts m1 b where "opt_Adapters (ms_base r) \<noteq> []"
      "adapters_phase ctx s (opt_Adapters (ms_base r)) adapterPhaseObserve result m = (Inr (s', mounts), m1)"
      "new_stack h (runtimeOptionsFromSession (ms_base r) s' (sn_PolicyCeiling s') mounts) m1 = (Inr b, m')"
      "r' = r\<lparr>ms_adapterMounts := mounts, ms_runtime := Some b\<rparr>"
    | (own) b where "s' = s"
      "new_stack h (runtimeOptionsFromSession (ms_base r) s (sn_PolicyCeiling s) (ms_adapterMounts r)) m = (Inr b, m')"
      "r' = r\<lparr>ms_runtime := Some b\<rparr>"
    | (same) "s' = s" "r' = r" "m' = m" "Some a = ms_runtime r"
  proof (cases "opt_Adapters (ms_base r) = []")
    case True
    show thesis
    proof (cases "Some a = ms_runtime r")
      case same: True
      then show thesis using obs True by (intro that(3)) (simp_all add: observe_execution_def)
    next
      case False
      obtain z m1 where z: "new_stack h (runtimeOptionsFromSession (ms_base r) s (sn_PolicyCeiling s) (ms_adapterMounts r)) m = (z, m1)"
        by fastforce
      then obtain b where "z = Inr b" using obs True False by (cases z) (simp_all add: observe_execution_def)
      then show thesis using obs True False z by (intro that(2)) (auto simp: observe_execution_def)
    qed
  next
    case False
    obtain z m1 where z: "adapters_phase ctx s (opt_Adapters (ms_base r)) adapterPhaseObserve result m = (z, m1)" by fastforce
    then obtain s1 mounts where zz: "z = Inr (s1, mounts)" using obs False by (cases z) (auto simp: observe_execution_def)
    obtain w m2 where w: "new_stack h (runtimeOptionsFromSession (ms_base r) s1 (sn_PolicyCeiling s1) mounts) m1 = (w, m2)" by fastforce
    then obtain b where "w = Inr b" using obs False z zz by (cases w) (simp_all add: observe_execution_def)
    then show thesis using obs False z zz w by (intro that(1)) (auto simp: observe_execution_def)
  qed
  then show ?thesis
  proof (cases)
    case adapters
    note k = adapters_phase_keeps [OF adapters(2)]
    have p: "sn_PolicyCeiling s' = opt_Policy (ms_base r)" using k s by (simp add: session_ok_def)
    have "runtime_ok m' b (opt_Policy (ms_base r))"
      using new_stack_runtime(4) [OF adapters(3)] set by (simp add: runtimeOptionsFromSession_def Let_def p)
    then show ?thesis
      using k s act by (simp add: observed_def adapters(4) session_ok_def)
  next
    case own
    have "runtime_ok m' b (opt_Policy (ms_base r))"
      using new_stack_runtime(4) [OF own(2)] set s by (simp add: runtimeOptionsFromSession_def Let_def session_ok_def)
    then show ?thesis
      using s act by (simp add: observed_def own)
  next
    case same
    have "\<exists>b. ms_runtime r = Some b \<and> runtime_ok m b (opt_Policy (ms_base r))"
      using same(4) rec by (intro exI [of _ a]) (simp add: record_ok_def eq_commute)
    then show ?thesis
      using s act by (simp add: observed_def same(1-3))
  qed
qed

lemma call_finished:
  assumes "manager_ok h m" "map_of (sm_calls m) k = Some c" "ec_result c \<noteq> None"
  obtains r where "map_of (sm_sessions m) (ec_session c) = Some r" "ms_lock r = Some k" "ms_active r"
    "executionFinished m (ms_activeExecution r)"
proof -
  obtain r where r: "map_of (sm_sessions m) (ec_session c) = Some r" "ms_lock r = Some k" "k \<in> set (sm_done m)"
    using manager_okD(2) [OF assms(1,2)] assms(3) by (auto simp: call_ok_def)
  moreover have "record_ok m (ec_session c) r" using manager_okD(1) [OF assms(1) r(1)] .
  ultimately show thesis
    using that by (cases "ms_activeExecution r") (auto simp: record_ok_def executionFinished_def)
qed

lemma execute_finish_ok:
  assumes ok: "manager_ok h m" and call: "map_of (sm_calls m) k = Some c" and res: "ec_result c = Some result"
    and fin: "execute_finish h k c result m = (x, m')"
  shows "manager_ok h m'"
proof -
  let ?sid = "ec_session c"
  obtain cur where cur: "map_of (sm_sessions m) ?sid = Some cur" "ms_lock cur = Some k" "ms_active cur"
    and finished: "executionFinished m (ms_activeExecution cur)"
    using call_finished [OF ok call] res by auto
  let ?cur = "without_execution cur"
  obtain t m1 where t: "now (put_session ?sid ?cur m) = (t, m1)" by fastforce
  note g1 = now_grows [OF t]
  have ok1: "manager_ok h m1" using grows_ok [OF g1 without_execution_ok [OF ok cur(1) finished]] .
  have at1: "map_of (sm_sessions m1) ?sid = Some ?cur" by (simp add: grows_fields [OF g1])
  let ?next = "(next_session t (ms_snapshot ?cur) (stack_at m1 (Some (ec_runtime c))) (sm_sys m1))\<lparr>sn_ActiveExecution := None\<rparr>"
  obtain y m2 where y: "observe_execution h (ec_ctx c) (ec_runtime c) result ?next ?cur m1 = (y, m2)" by fastforce
  note g2 = observe_execution_grows [OF y]
  have ok2: "manager_ok h m2" using grows_ok [OF g2 ok1] .
  have at2: "map_of (sm_sessions m2) ?sid = Some ?cur" using at1 by (simp add: grows_fields [OF g2])
  have calls2: "map_of (sm_calls m2) k = Some c" using call by (simp add: grows_fields [OF g2] grows_fields [OF g1])
  have rec1: "record_ok m1 ?sid ?cur" using manager_okD(1) [OF ok1 at1] .
  have idle: "ms_activeExecution ?cur = None" by (simp add: without_execution_def)
  show ?thesis
  proof (cases y)
    case (Inl e)
    then have "m' = end_call k m2" using fin by (simp add: execute_finish_def Let_def cur(1) t y)
    then show ?thesis using end_call_ok [OF ok2 calls2 at2 idle] by simp
  next
    case (Inr sr)
    obtain s r where sr: "sr = (s, r)" by fastforce
    note y = y [unfolded Inr sr]
    have m': "m' = end_call k (put_session ?sid (r\<lparr>ms_snapshot := Session_Clone s\<rparr>) m2)"
      using fin by (simp add: execute_finish_def Let_def cur(1) t y)
    have next_ok: "session_ok ?sid (opt_Policy (ms_base ?cur)) ?next"
      using rec1 by (simp add: record_ok_def session_ok_def)
    have act: "ms_active ?cur" using cur(3) by (simp add: without_execution_def)
    note k = observe_execution_keeps [OF y rec1 next_ok act, unfolded observed_def]
    let ?r = "r\<lparr>ms_snapshot := Session_Clone s\<rparr>"
    obtain b where b: "ms_runtime r = Some b" "runtime_ok m2 b (opt_Policy (ms_base ?cur))" using k by blast
    have "record_ok m2 ?sid ?cur" using grows_record [OF g2 rec1] .
    then have "record_ok m2 ?sid ?r" using k b idle by (simp add: record_ok_def)
    then have "manager_ok h (put_session ?sid ?r m2)"
      by (rule put_session_ok [OF ok2]) (simp add: at2 k idle)
    then show ?thesis unfolding m' by (rule end_call_ok [where c = c and r = ?r]) (simp_all add: calls2 k idle)
  qed
qed

subsection \<open>All reachable managers\<close>

lemma step_ok:
  assumes "manager_step h m ev m'" "manager_ok h m" "draws_fresh m ev"
  shows "manager_ok h m'"
  using assms
proof (cases rule: manager_step.cases)
  case (create ctx opts r)
  have "map_of (sm_sessions m) (sn_SessionID session) = None" if "r = Inr session" for session
    using assms(3) by (simp add: draws_fresh_def create(1) that)
  then show ?thesis by (rule Create_ok [OF assms(2) create(2)])
qed (use assms in \<open>auto intro: Get_ok Cancel_ok execute_begin_ok execute_run_ok execute_finish_ok Checkpoint_ok Close_ok Resume_ok\<close>)

lemma reachable_ok: "reachable h opts m \<Longrightarrow> manager_ok h m"
proof (induction rule: reachable.induct)
  case (start c s)
  show ?case by (simp add: NewSessionManager_def manager_ok_def)
next
  case (step m ev m')
  then show ?case using step_ok by blast
qed

end
