(* ===== verification/Session_Safety.thy ===== *)
theory Session_Safety
  imports Session_Invariant
begin

section \<open>What sessions promise\<close>

text \<open>
  The life of a session as an abstract machine that the manager refines, and what follows for its clients:
  a session runs one execution at a time, within a policy that never changes; a closed session refuses and
  can be resumed as it was closed; a cancel reaches exactly the execution it names; an execution under
  way can always come to its end.
\<close>

subsection \<open>The life of a session\<close>

datatype life = Absent | Idle | Busy | Closed

datatype life_event = Opened | Began | Finished | Closing | Resuming | Silent

fun life_next :: "life \<Rightarrow> life_event \<Rightarrow> life option" where
  "life_next Absent Opened = Some Idle"
| "life_next Idle Began = Some Busy"
| "life_next Busy Finished = Some Idle"
| "life_next Idle Closing = Some Closed"
| "life_next Idle Resuming = Some Idle"
| "life_next Closed Resuming = Some Idle"
| "life_next l Silent = Some l"
| "life_next _ _ = None"

text \<open>What of a record the life depends on, with the policy that stays.\<close>

definition mark :: "'e managedSession \<Rightarrow> nat option \<times> bool \<times> ExecutionPolicy" where
  "mark r = (ms_lock r, ms_active r, opt_Policy (ms_base r))"

definition marks :: "'e SessionManager \<Rightarrow> string \<Rightarrow> (nat option \<times> bool \<times> ExecutionPolicy) option" where
  "marks m sid = map_option mark (map_of (sm_sessions m) sid)"

definition life_of :: "'e SessionManager \<Rightarrow> string \<Rightarrow> life" where
  "life_of m sid =
     (case marks m sid of None \<Rightarrow> Absent | Some (lock, active, _) \<Rightarrow> if lock \<noteq> None then Busy else if active then Idle else Closed)"

definition life_event :: "'e SessionManager \<Rightarrow> string \<Rightarrow> 'e event \<Rightarrow> life_event" where
  "life_event m sid ev =
     (case ev of
        CreateEvent ctx opts (Inr session) \<Rightarrow> if sn_SessionID session = sid then Opened else Silent
      | ExecuteEvent ctx s line requested (Running k) \<Rightarrow> if trim_space s = sid then Began else Silent
      | FinishEvent k r \<Rightarrow>
          (case map_of (sm_calls m) k of None \<Rightarrow> Silent | Some c \<Rightarrow> if ec_session c = sid then Finished else Silent)
      | CloseEvent ctx s (Inr session) \<Rightarrow> if trim_space s = sid then Closing else Silent
      | ResumeEvent ctx s (Inr session) \<Rightarrow> if trim_space s = sid then Resuming else Silent
      | _ \<Rightarrow> Silent)"

subsection \<open>How the calls change the marks\<close>

lemma grows_marks: "grows m m' \<Longrightarrow> marks m' = marks m"
  by (simp add: marks_def grows_fields fun_eq_iff)

lemma put_session_marks: "marks (put_session sid r m) = (marks m)(sid := Some (mark r))"
  by (simp add: marks_def fun_eq_iff)

lemma put_same_marks:
  "map_of (sm_sessions m) sid = Some r \<Longrightarrow> mark r' = mark r \<Longrightarrow> marks (put_session sid r' m) = marks m"
  by (auto simp: marks_def fun_eq_iff)

lemma mark_without_execution [simp]: "mark (without_execution r) = mark r"
  by (simp add: mark_def without_execution_def)

lemma mark_snapshot [simp]: "mark (r\<lparr>ms_snapshot := s\<rparr>) = mark r"
  by (simp add: mark_def)

lemma marks_at: "map_of (sm_sessions m) sid = Some r \<Longrightarrow> marks m sid = Some (mark r)"
  by (simp add: marks_def)

lemma marks_set_canceled [simp]: "marks (m\<lparr>sm_canceled := ks\<rparr>) = marks m"
  by (simp add: marks_def fun_eq_iff)

lemma Get_marks:
  assumes "Get sid m = (r, m')"
  shows "marks m' = marks m"
proof (cases "lookupManaged m (trim_space sid)")
  case (Inl e)
  then show ?thesis using assms by (simp add: Get_def)
next
  case (Inr rec)
  have at: "map_of (sm_sessions m) (trim_space sid) = Some rec" using Inr by (simp add: lookupManaged_Inr)
  show ?thesis using assms put_same_marks [OF at] by (auto simp: Get_def Inr Let_def split: if_splits)
qed

lemma Cancel_marks:
  assumes "Cancel sessionID x m = (r, m')"
  shows "marks m' = marks m"
proof (cases "map_of (sm_sessions m) (trim_space sessionID)")
  case None
  then show ?thesis using assms by (simp add: Cancel_def)
next
  case (Some rec)
  show ?thesis
  proof (cases "ms_active rec \<and> ms_runtime rec \<noteq> None \<and> ms_activeExecution rec \<noteq> None \<and> sn_ActiveExecution (ms_snapshot rec) \<noteq> None")
    case False
    then show ?thesis using assms by (auto simp: Cancel_def Let_def Some split: if_splits option.splits)
  next
    case True
    then obtain a y where ay: "ms_activeExecution rec = Some a" "sn_ActiveExecution (ms_snapshot rec) = Some y" by auto
    obtain t m1 where t: "now m = (t, m1)" by fastforce
    have at1: "map_of (sm_sessions m1) (trim_space sessionID) = Some rec"
      using Some by (simp add: grows_fields [OF now_grows [OF t]])
    have "marks (put_session (trim_space sessionID) (rec\<lparr>ms_activeExecution := b, ms_snapshot := s\<rparr>) m1) = marks m" for b s
      using put_same_marks [OF at1] grows_marks [OF now_grows [OF t]] by (simp add: mark_def)
    then show ?thesis
      using assms True put_same_marks [OF Some mark_without_execution] grows_marks [OF now_grows [OF t]]
      by (auto simp: Cancel_def Let_def Some ay t split: if_splits)
  qed
qed

lemma updated_session_mark:
  "updated_session ctx phase r m = (Inr r', m') \<Longrightarrow> mark r' = mark r \<and> marks m' = marks m"
  using updated_session_refreshed grows_marks [OF updated_session_grows] by (fastforce simp: refreshed_def mark_def)

lemma Checkpoint_marks:
  assumes "Checkpoint ctx sessionID m = (x, m')"
  shows "marks m' = marks m"
proof (cases "lookupManaged m (trim_space sessionID)")
  case (Inl e)
  then show ?thesis using assms by (simp add: Checkpoint_def)
next
  case (Inr r)
  obtain y m1 where y: "updated_session ctx adapterPhaseCheckpoint r m = (y, m1)" by fastforce
  note g = updated_session_grows [OF y]
  have at: "map_of (sm_sessions m1) (trim_space sessionID) = Some r"
    using Inr by (simp add: lookupManaged_Inr grows_fields [OF g])
  show ?thesis
    using assms y updated_session_mark [of ctx adapterPhaseCheckpoint r m] put_same_marks [OF at] grows_marks [OF g]
    by (cases y) (auto simp: Checkpoint_def Inr Let_def split: if_splits)
qed

lemma Close_marks:
  assumes "Close ctx sessionID m = (x, m')"
  shows "case x of Inl e \<Rightarrow> marks m' = marks m
    | Inr s \<Rightarrow> (\<exists>l p. marks m (trim_space sessionID) = Some (l, True, p) \<and> marks m' = (marks m)(trim_space sessionID := Some (l, False, p)))"
proof (cases "lookupManaged m (trim_space sessionID)")
  case (Inl e)
  then show ?thesis using assms by (auto simp: Close_def)
next
  case (Inr r)
  obtain y m1 where y: "updated_session ctx adapterPhaseClose r m = (y, m1)" by fastforce
  note g = grows_marks [OF updated_session_grows [OF y]]
  have at: "marks m (trim_space sessionID) = Some (mark r)" using Inr by (simp add: lookupManaged_Inr marks_at)
  show ?thesis
  proof (cases y)
    case (Inl e)
    then show ?thesis using assms y g \<open>lookupManaged m _ = Inr r\<close> by (auto simp: Close_def Let_def split: if_splits)
  next
    case r': (Inr r')
    have "mark (closed_record r') = (ms_lock r, False, opt_Policy (ms_base r))"
      using updated_session_mark [OF y [unfolded r']] by (simp add: mark_def closed_record_def)
    then show ?thesis using assms y r' g at Inr
      by (auto simp: Close_def Let_def put_session_marks mark_def split: if_splits)
  qed
qed

lemma Resume_marks:
  assumes "Resume h ctx sessionID m = (x, m')"
  shows "case x of Inl e \<Rightarrow> marks m' = marks m
    | Inr s \<Rightarrow> (\<exists>l a p. marks m (trim_space sessionID) = Some (l, a, p) \<and> marks m' = (marks m)(trim_space sessionID := Some (l, True, p)))"
proof (cases "lookupManaged m (trim_space sessionID)")
  case (Inl e)
  then show ?thesis using assms by (auto simp: Resume_def)
next
  case (Inr r)
  have at: "marks m (trim_space sessionID) = Some (mark r)" using Inr by (simp add: lookupManaged_Inr marks_at)
  obtain y m1 where y: "adapters_phase ctx (Session_Clone (ms_checkpoint r)) (opt_Adapters (ms_base r)) adapterPhaseResume
      zero_execution m = (y, m1)" by fastforce
  note g1 = grows_marks [OF adapters_phase_grows [OF y]]
  show ?thesis
  proof (cases "ms_active r \<and> ms_runtime r \<noteq> None \<or> (\<exists>e. y = Inl e)")
    case True
    moreover have "marks m = (marks m)(trim_space sessionID := Some (ms_lock r, True, opt_Policy (ms_base r)))" if "ms_active r"
      using at that by (simp add: mark_def fun_upd_idem)
    ultimately show ?thesis using assms y g1 at
      by (auto simp: Resume_def Inr Let_def mark_def split: if_splits)
  next
    case False
    then obtain resumed mounts where yy: "y = Inr (resumed, mounts)" by (cases y) auto
    obtain z m2 where z: "new_stack h (runtimeOptionsFromSession (ms_base r) resumed (sn_PolicyCeiling resumed) mounts) m1 = (z, m2)"
      by fastforce
    obtain t m3 where t: "now m2 = (t, m3)" by fastforce
    have g: "marks m2 = marks m" "marks m3 = marks m"
      using g1 grows_marks [OF new_stack_grows [OF z]] grows_marks [OF now_grows [OF t]] by simp_all
    show ?thesis
      using assms False y yy z t g at Inr
      by (cases z) (auto simp: Resume_def Let_def put_session_marks mark_def split: if_splits)
  qed
qed

lemma Create_marks:
  assumes "Create h ctx opts m = (x, m')"
  shows "case x of Inl e \<Rightarrow> marks m' = marks m
    | Inr s \<Rightarrow> (\<exists>p. marks m' = (marks m)(sn_SessionID s := Some (None, True, p)))"
proof -
  obtain y m1 where y: "new_stack h (stack_options.truncate opts) m = (y, m1)" by fastforce
  note g1 = grows_marks [OF new_stack_grows [OF y]]
  show ?thesis
  proof (cases y)
    case (Inl e)
    then show ?thesis using assms g1 y by (auto simp: Create_def)
  next
    case (Inr a)
    obtain s0 m2 where s0: "create_session opts a m1 = (s0, m2)" by fastforce
    obtain z m3 where z: "adapters_phase ctx s0 (opt_Adapters opts) adapterPhaseCreate zero_execution m2 = (z, m3)" by fastforce
    have g3: "marks m3 = marks m"
      using g1 grows_marks [OF create_session_grows [OF s0]] grows_marks [OF adapters_phase_grows [OF z]] by simp
    show ?thesis
    proof (cases z)
      case (Inl e)
      then show ?thesis using assms g3 y Inr s0 z by (auto simp: Create_def)
    next
      case zz: (Inr sm)
      obtain session mounts where sm: "sm = (session, mounts)" by fastforce
      obtain w m4 where w: "(if mounts = [] then (Inr a, m3) else new_stack h (runtimeOptionsFromSession (cloneOptions opts)
          session (sn_PolicyCeiling session) mounts) m3) = (w, m4)" by fastforce
      have "marks m4 = marks m3" using w grows_marks [OF new_stack_grows] by (auto split: if_splits)
      moreover have "mark (created_record opts session b mounts) = (None, True, sn_PolicyCeiling session)" for b
        by (simp add: mark_def created_record_def)
      ultimately show ?thesis using assms g3 y Inr s0 z zz sm w
        by (cases w) (auto simp: Create_def put_session_marks)
    qed
  qed
qed

lemma execute_begin_marks:
  assumes ok: "manager_ok h m" and c: "execute_begin h ctx sessionID line requested m = (b, m')"
  shows "case b of Returned x \<Rightarrow> marks m' = marks m
    | Running k \<Rightarrow> (\<exists>l p. marks m (trim_space sessionID) = Some (l, True, p) \<and> marks m' = (marks m)(trim_space sessionID := Some (Some k, True, p)))"
proof (cases "lookupManaged m (trim_space sessionID)")
  case (Inl e)
  then show ?thesis using c by (auto simp: execute_begin_def)
next
  case (Inr r)
  let ?sid = "trim_space sessionID" and ?line = "trim_space line"
  have at: "map_of (sm_sessions m) ?sid = Some r" using Inr by (simp add: lookupManaged_Inr)
  have rec: "record_ok m ?sid r" using manager_okD(1) [OF ok at] .
  let ?eff = "EffectivePolicyWithinCeiling (host_duration h) requested (sn_PolicyCeiling (ms_snapshot r))"
  show ?thesis
  proof (cases "(if ms_active r then ms_runtime r else None) = None \<or> (\<exists>e. ?eff = Inl e) \<or> ?line = []")
    case True
    then have "(\<exists>x. b = Returned x) \<and> grows m m'"
      using c by (cases ?eff) (auto simp: execute_begin_def Inr Let_def usage_reply_def grows_def split: option.splits prod.splits if_splits)
    then show ?thesis using grows_marks by auto
  next
    case False
    then obtain own effective where act: "ms_active r" "ms_runtime r = Some own" "?eff = Inr effective" "?line \<noteq> []"
      by (cases ?eff) (auto split: if_splits)
    obtain z m1 where z: "(if samePolicy effective (sn_PolicyCeiling (ms_snapshot r)) then (Inr own, m)
        else new_stack h (runtimeOptionsForSession r effective) m) = (z, m1)" by fastforce
    have g1: "grows m m1" using z by (auto split: if_splits dest: new_stack_grows)
    have reg: "(case z of Inl e \<Rightarrow> (Returned (Inl e), m1) | Inr a \<Rightarrow> register_execution ctx ?sid ?line r a m1) = (b, m')"
      using c act z by (simp add: execute_begin_def Inr Let_def)
    show ?thesis
    proof (cases z)
      case (Inl e)
      then show ?thesis using reg grows_marks [OF g1] by auto
    next
      case za: (Inr a)
      obtain i m2 where i: "newExecutionID m1 = (i, m2)" by fastforce
      obtain t m3 where t: "now m2 = (t, m3)" by fastforce
      have g: "grows m m3" using g1 newExecutionID_grows [OF i] now_grows [OF t] grows_trans by blast
      have sid: "sn_SessionID (ms_snapshot r) = ?sid" using rec by (simp add: record_ok_def session_ok_def)
      have shift: "marks (q\<lparr>sm_next := n, sm_calls := cs\<rparr>) = marks q" for q :: "'a SessionManager" and n cs
        by (simp add: marks_def fun_eq_iff)
      have "b = Running (sm_next m3) \<and> marks m' = (marks m)(?sid := Some (Some (sm_next m3), True, opt_Policy (ms_base r)))"
        using reg act(1) grows_marks [OF g]
        by (auto simp: za register_execution_def i t sid Let_def shift put_session_marks mark_def)
      then show ?thesis using marks_at [OF at] act(1) by (auto simp: mark_def)
    qed
  qed
qed

lemma execute_run_marks: "marks (execute_run h k n c m) = marks m"
  by (simp add: marks_def execute_run_def Let_def put_call_def put_stack_def fun_eq_iff split: prod.splits option.splits)

lemma end_call_marks: "marks (end_call k m) sid = map_option (\<lambda>(l, a, p). (if l = Some k then None else l, a, p)) (marks m sid)"
  by (cases "map_of (sm_sessions m) sid") (simp_all add: marks_def end_call_def map_of_each mark_def unlocked_def)

text \<open>Only the session a call belongs to is locked by it.\<close>

lemma lock_owner:
  assumes "manager_ok h m" "map_of (sm_calls m) k = Some c" "marks m sid = Some (Some k, a, p)"
  shows "sid = ec_session c"
proof -
  obtain r where r: "map_of (sm_sessions m) sid = Some r" "ms_lock r = Some k"
    using assms(3) by (auto simp: marks_def mark_def)
  have "record_ok m sid r" by (rule manager_okD(1) [OF assms(1) r(1)])
  then show ?thesis using r(2) assms(2) by (auto simp: record_ok_def)
qed

lemma unlock_marks:
  assumes ok: "manager_ok h m" and call: "map_of (sm_calls m) k = Some c" and "marks q = marks m"
  shows "\<exists>p. marks m (ec_session c) = Some (Some k, True, p) \<and> marks (end_call k q) = (marks m)(ec_session c := Some (None, True, p))"
proof -
  obtain r where r: "map_of (sm_sessions m) (ec_session c) = Some r" "ms_lock r = Some k"
    using manager_okD(2) [OF ok call] by (auto simp: call_ok_def)
  have "record_ok m (ec_session c) r" by (rule manager_okD(1) [OF ok r(1)])
  then have act: "ms_active r" using r(2) by (auto simp: record_ok_def)
  have at: "marks m (ec_session c) = Some (Some k, True, opt_Policy (ms_base r))"
    using marks_at [OF r(1)] r(2) act by (simp add: mark_def)
  have "marks (end_call k q) sid = marks m sid" if "sid \<noteq> ec_session c" for sid
  proof (cases "marks m sid")
    case (Some x)
    obtain l a p where x: "x = (l, a, p)" by (cases x)
    then have "l \<noteq> Some k" using lock_owner [OF ok call] Some that by blast
    then show ?thesis using assms(3) by (simp add: end_call_marks Some x)
  qed (simp add: end_call_marks assms(3))
  then have "marks (end_call k q) = (marks m)(ec_session c := Some (None, True, opt_Policy (ms_base r)))"
    using at assms(3) by (auto simp: fun_eq_iff end_call_marks)
  then show ?thesis using at by blast
qed

lemma execute_finish_marks:
  assumes ok: "manager_ok h m" and call: "map_of (sm_calls m) k = Some c" and res: "ec_result c = Some result"
    and fin: "execute_finish h k c result m = (x, m')"
  shows "\<exists>p. marks m (ec_session c) = Some (Some k, True, p) \<and> marks m' = (marks m)(ec_session c := Some (None, True, p))"
proof -
  let ?sid = "ec_session c"
  obtain cur where cur: "map_of (sm_sessions m) ?sid = Some cur" "ms_lock cur = Some k" "ms_active cur"
    and finished: "executionFinished m (ms_activeExecution cur)"
    using call_finished [OF ok call] res by auto
  let ?cur = "without_execution cur"
  obtain t m1 where t: "now (put_session ?sid ?cur m) = (t, m1)" by fastforce
  note g1 = now_grows [OF t]
  have ok1: "manager_ok h m1" using grows_ok [OF g1 without_execution_ok [OF ok cur(1) finished]] .
  have at1: "map_of (sm_sessions m1) ?sid = Some ?cur" by (simp add: grows_fields [OF g1])
  have rec1: "record_ok m1 ?sid ?cur" using manager_okD(1) [OF ok1 at1] .
  have g1m: "marks m1 = marks m" using grows_marks [OF g1] put_same_marks [OF cur(1)] by simp
  let ?next = "(next_session t (ms_snapshot ?cur) (stack_at m1 (Some (ec_runtime c))) (sm_sys m1))\<lparr>sn_ActiveExecution := None\<rparr>"
  obtain y m2 where y: "observe_execution h (ec_ctx c) (ec_runtime c) result ?next ?cur m1 = (y, m2)" by fastforce
  have g2m: "marks m2 = marks m" using grows_marks [OF observe_execution_grows [OF y]] g1m by simp
  have "\<exists>q. m' = end_call k q \<and> marks q = marks m"
  proof (cases y)
    case (Inl e)
    then have "m' = end_call k m2" using fin by (simp add: execute_finish_def Let_def cur(1) t y)
    then show ?thesis using g2m by blast
  next
    case (Inr sr)
    obtain s r where sr: "sr = (s, r)" by fastforce
    have "session_ok ?sid (opt_Policy (ms_base ?cur)) ?next" using rec1 by (simp add: record_ok_def session_ok_def)
    moreover have "ms_active ?cur" using cur(3) by (simp add: without_execution_def)
    ultimately have "mark r = mark ?cur"
      using observe_execution_keeps [OF y [unfolded Inr sr] rec1] by (simp add: observed_def mark_def)
    moreover have "map_of (sm_sessions m2) ?sid = Some ?cur"
      using at1 by (simp add: grows_fields [OF observe_execution_grows [OF y]])
    ultimately have "marks (put_session ?sid (r\<lparr>ms_snapshot := Session_Clone s\<rparr>) m2) = marks m"
      using g2m put_same_marks [of m2 ?sid ?cur "r\<lparr>ms_snapshot := Session_Clone s\<rparr>"] by simp
    moreover have "m' = end_call k (put_session ?sid (r\<lparr>ms_snapshot := Session_Clone s\<rparr>) m2)"
      using fin by (simp add: execute_finish_def Let_def cur(1) t y Inr sr)
    ultimately show ?thesis by blast
  qed
  then show ?thesis using unlock_marks [OF ok call] by blast
qed

subsection \<open>The manager refines the life of each session\<close>

lemma not_waits_unlocked: "\<not> waits s m \<Longrightarrow> marks m (trim_space s) = Some (l, a, p) \<Longrightarrow> trim_space s \<noteq> [] \<Longrightarrow> l = None"
  by (auto simp: waits_def lookupManaged_Inr marks_def mark_def)

lemma replied_nonempty:
  "Close ctx s m = (Inr x, m') \<Longrightarrow> trim_space s \<noteq> []" "Resume h ctx s m = (Inr x, m') \<Longrightarrow> trim_space s \<noteq> []"
  "execute_begin h ctx s line requested m = (Running k, m') \<Longrightarrow> trim_space s \<noteq> []"
  by (auto simp: Close_def Resume_def execute_begin_def lookupManaged_def Let_def)

lemma fresh_marks: "draws_fresh m (CreateEvent ctx opts (Inr session)) \<Longrightarrow> marks m (sn_SessionID session) = None"
  by (simp add: draws_fresh_def marks_def)

lemma step_refines:
  assumes "manager_step h m ev m'" "manager_ok h m" "draws_fresh m ev"
  shows "life_next (life_of m sid) (life_event m sid ev) = Some (life_of m' sid)"
  using assms(1)
proof (cases rule: manager_step.cases)
  case (create ctx opts r)
  then show ?thesis using Create_marks [OF create(2)] assms(3)
    by (cases r) (auto simp: create(1) life_event_def life_of_def dest: fresh_marks)
next
  case (get s r)
  then show ?thesis using Get_marks [OF get(2)] by (simp add: life_event_def life_of_def)
next
  case (cancel s x r)
  then show ?thesis using Cancel_marks [OF cancel(2)] by (simp add: life_event_def life_of_def)
next
  case (execute s ctx line requested r)
  show ?thesis
  proof (cases r)
    case (Returned x)
    then show ?thesis using execute execute_begin_marks [OF assms(2) execute(3)] by (simp add: life_event_def life_of_def)
  next
    case (Running k)
    then obtain l p where marks: "marks m (trim_space s) = Some (l, True, p)"
      "marks m' = (marks m)(trim_space s := Some (Some k, True, p))"
      using execute_begin_marks [OF assms(2) execute(3)] by auto
    have "l = None" using not_waits_unlocked [OF execute(2) marks(1)] replied_nonempty(3) execute(3) Running by blast
    then show ?thesis using marks by (auto simp: execute(1) Running life_event_def life_of_def)
  qed
next
  case (run k c n)
  then show ?thesis by (simp add: life_event_def life_of_def execute_run_marks)
next
  case (finish k c result r)
  obtain p where "marks m (ec_session c) = Some (Some k, True, p)" "marks m' = (marks m)(ec_session c := Some (None, True, p))"
    using execute_finish_marks [OF assms(2) finish(2,3,4)] by blast
  then show ?thesis by (auto simp: finish(1,2) life_event_def life_of_def)
next
  case (checkpoint s ctx r)
  then show ?thesis using Checkpoint_marks [OF checkpoint(3)] by (simp add: life_event_def life_of_def)
next
  case (close s ctx r)
  show ?thesis
  proof (cases r)
    case (Inl e)
    then show ?thesis using close Close_marks [OF close(3)] by (simp add: life_event_def life_of_def)
  next
    case (Inr x)
    then obtain l p where marks: "marks m (trim_space s) = Some (l, True, p)"
      "marks m' = (marks m)(trim_space s := Some (l, False, p))" using Close_marks [OF close(3)] by auto
    have "l = None" using not_waits_unlocked [OF close(2) marks(1)] replied_nonempty(1) close(3) Inr by blast
    then show ?thesis using marks by (auto simp: close(1) Inr life_event_def life_of_def)
  qed
next
  case (resume s ctx r)
  show ?thesis
  proof (cases r)
    case (Inl e)
    then show ?thesis using resume Resume_marks [OF resume(3)] by (simp add: life_event_def life_of_def)
  next
    case (Inr x)
    then obtain l a p where marks: "marks m (trim_space s) = Some (l, a, p)"
      "marks m' = (marks m)(trim_space s := Some (l, True, p))" using Resume_marks [OF resume(3)] by auto
    have "l = None" using not_waits_unlocked [OF resume(2) marks(1)] replied_nonempty(2) resume(3) Inr by blast
    then show ?thesis using marks by (auto simp: resume(1) Inr life_event_def life_of_def)
  qed
qed

text \<open>No session is lost, and its policy stays.\<close>

lemma step_policy:
  assumes "manager_step h m ev m'" "manager_ok h m" "draws_fresh m ev" "marks m sid = Some (l, a, p)"
  shows "\<exists>l a. marks m' sid = Some (l, a, p)"
  using assms(1)
proof (cases rule: manager_step.cases)
  case (create ctx opts r)
  have "marks m (sn_SessionID session) = None" if "r = Inr session" for session
    by (rule fresh_marks) (use assms(3) create(1) that in simp)
  then show ?thesis using Create_marks [OF create(2)] assms(4) by (cases r) auto
next
  case (execute s ctx line requested r)
  then show ?thesis using execute_begin_marks [OF assms(2) execute(3)] assms(4) by (cases r) auto
next
  case (finish k c result r)
  then show ?thesis using execute_finish_marks [OF assms(2) finish(2,3,4)] assms(4) by auto
next
  case (close s ctx r)
  then show ?thesis using Close_marks [OF close(3)] assms(4) by (cases r) auto
next
  case (resume s ctx r)
  then show ?thesis using Resume_marks [OF resume(3)] assms(4) by (cases r) auto
qed (use assms(4) in \<open>simp_all add: Get_marks Cancel_marks execute_run_marks Checkpoint_marks\<close>)

lemma reachable_ceiling:
  "manager_ok h m \<Longrightarrow> map_of (sm_sessions m) sid = Some r \<Longrightarrow> marks m sid = Some (ms_lock r, ms_active r, sn_PolicyCeiling (ms_snapshot r))"
  using manager_okD(1) by (fastforce simp: marks_def mark_def record_ok_def session_ok_def)

subsection \<open>A manager with a session\<close>

definition reader_fs :: "files Filesystem" where
  "reader_fs = \<lparr>fs_RootDir = ''/'', fs_RequireAbsolutePath = absolute_path, fs_ListChildren = (\<lambda>_ s. (Inr [], s)),
     fs_IsDirPath = (\<lambda>p s. (Inr (p = ''/''), s)), fs_ReadRawContent = read_file,
     fs_ResolveSearchPaths = (\<lambda>_ s. (Inr [], s)), fs_CollectFilesUnder = (\<lambda>_ s. (Inr [], s)),
     fs_WriteFile = write_file, fs_AppendFile = append_file, fs_EditFile = (\<lambda>_ s. (Inl ErrUnsupported, s)),
     fs_DescribePath = None, fs_ListEntries = None, fs_EnumeratePaths = None, fs_ReadMany = None, fs_SearchContent = None,
     fs_ListExternalCommands = None, fs_RunExternalCommand = None, fs_ReadExternalManual = None, fs_MakeDir = None,
     fs_RemoveFile = None, fs_RemoveDir = None, fs_ApplyMutations = None, fs_VirtualMounts = None, fs_PathEnv = None,
     fs_CheckPathOp = None\<rparr>"

definition sample_host :: "files host" where
  "sample_host = \<lparr>host_platform = sample_platform, host_registry = echo_registry,
     host_filesystem = (\<lambda>_ _ s. (Inr reader_fs, s)), host_corpus = Inl (ErrText ''no corpus''),
     host_duration = show_int, host_clock = int\<rparr>"

definition sample_session_options :: "files Options" where
  "sample_session_options = \<lparr>opt_HostRoot = [], opt_WorkingDir = [], opt_Profile = [], opt_Policy = limited_ceiling,
     opt_CommandAliases = [], opt_EnvVars = [], opt_RCFiles = [], opt_VirtualMounts = [], opt_EnableTestCorpus = False,
     opt_PathEnv = [], opt_ExternalCallbacks = \<lparr>xc_ListExternalCommands = None, xc_RunExternalCommand = None,
     xc_ReadExternalManual = None\<rparr>, opt_AuditSink = False, opt_Adapters = []\<rparr>"

definition sample_manager_options :: SessionManagerOptions where
  "sample_manager_options = \<lparr>mo_Now = None, mo_NewID = None, mo_NewExecutionID = None\<rparr>"

definition empty_manager :: "files SessionManager" where
  "empty_manager = NewSessionManager sample_host sample_manager_options
     \<lparr>cnt_executions = 0, cnt_sessions = 0, cnt_clock = 0\<rparr> (live_sys [])"

lemma plain_runtime_ops:
  assumes "opt_Profile opts = [] \<or> opt_Profile opts = DefaultProfile" "opt_VirtualMounts opts = []"
    "opt_RCFiles opts = []" "trim_space (opt_WorkingDir opts) = [] \<or> trim_space (opt_WorkingDir opts) = ''/''"
    "xc_ListExternalCommands (opt_ExternalCallbacks opts) = None"
  shows "plain_ops (stack_working_dir opts (runtime_ops opts (OpsFromFilesystem reader_fs)))"
  using assms
  by (auto simp: plain_ops_def stack_working_dir_def runtime_ops_def OpsFromFilesystem_def reader_fs_def zero_ops_def
      ops_with_bootstrap_def ops_with_defaults_def rooted_ops_def Let_def missing_callback_def NormalizeRCFiles_def
      provided_def root_normal or_else_def DefaultProfile_def)

lemma prepared_fields:
  assumes "PrepareOps pl reg ops s = (Inr p, s')"
  shows "o_GetWorkingDir (pr_normalized p) = Some sy_cwd" "o_RequireAbsolutePath (pr_normalized p) \<noteq> None"
    "o_Profile (pr_normalized p) = o_Profile (ops_with_defaults (rooted_ops ops))"
proof -
  obtain initial where n: "normalizeOps pl reg ops s = (Inr (pr_normalized p, initial), s')"
    using PrepareOps_normalize [OF assms] by blast
  obtain mounted resolved s2 where layers:
    "withMountRouter pl reg (ops_with_bootstrap (ops_with_defaults (rooted_ops ops))) = Inr mounted"
    "withRuntimeBootstrap (resolving_ops (normalizeAbsolutePath (o_RootDir mounted)) initial mounted) s2 = (Inr resolved, s')"
    "pr_normalized p = withPathAccessPolicy resolved"
    using prepared_layers [OF n] by metis
  obtain r where r: "mounted = wrapOps (SearchMountContent (pl_text pl)) (pl_visit pl) r
      (ops_with_bootstrap (ops_with_defaults (rooted_ops ops)))"
    using engine_router [OF layers(1)] by metis
  have "o_GetWorkingDir resolved = Some sy_cwd \<and> o_Profile resolved = o_Profile mounted"
    using layers(2) by (auto simp: withRuntimeBootstrap_def resolving_ops_def Let_def split: prod.splits sum.splits if_splits)
  then show "o_GetWorkingDir (pr_normalized p) = Some sy_cwd"
    "o_Profile (pr_normalized p) = o_Profile (ops_with_defaults (rooted_ops ops))"
    by (simp_all add: layers(3) withPathAccessPolicy_def r wrapOps_def Let_def ops_with_bootstrap_def)
  show "o_RequireAbsolutePath (pr_normalized p) \<noteq> None" using layers_policy(2) [OF n] .
qed

definition sample_stack :: "files Stack \<Rightarrow> bool" where
  "sample_stack r \<longleftrightarrow> stack_cwd r = ''/'' \<and> o_GetWorkingDir (stackOps (Some r)) = Some sy_cwd \<and>
     o_Profile (stackOps (Some r)) = DefaultProfile"

definition sample_options_ok :: "files stack_options \<Rightarrow> bool" where
  "sample_options_ok opts \<longleftrightarrow>
     (opt_Profile opts = [] \<or> opt_Profile opts = DefaultProfile) \<and> opt_VirtualMounts opts = [] \<and> opt_RCFiles opts = [] \<and>
     (trim_space (opt_WorkingDir opts) = [] \<or> trim_space (opt_WorkingDir opts) = ''/'') \<and>
     xc_ListExternalCommands (opt_ExternalCallbacks opts) = None \<and> \<not> opt_EnableTestCorpus opts"

lemma sample_New:
  assumes "sample_options_ok opts"
  shows "\<exists>r. New sample_host opts s = (Inr r, s) \<and> sample_stack r"
proof -
  let ?ops = "stack_working_dir opts (runtime_ops opts (OpsFromFilesystem reader_fs))"
  have plain: "plain_ops ?ops" using assms by (intro plain_runtime_ops) (auto simp: sample_options_ok_def)
  obtain p where p: "PrepareOps sample_platform echo_registry ?ops (s\<lparr>sy_ctx := CtxLive\<rparr>) =
      (Inr p, s\<lparr>sy_ctx := CtxLive\<rparr>\<lparr>sy_cwd := ''/''\<rparr>)"
    using plain_prepared [OF plain] by blast
  let ?r = "\<lparr>stack_engine = echo_registry, stack_ops = ?ops, stack_prepared = p, stack_cwd = ''/''\<rparr>"
  have "New sample_host opts s = (Inr ?r, s)"
    using p assms by (simp add: New_def NewRuntimeOps_def sample_host_def Let_def sample_options_ok_def)
  moreover have "sample_stack ?r"
    using prepared_fields [OF p] plain_opsD(9) [OF plain] by (simp add: sample_stack_def stackOps_def)
  ultimately show ?thesis by blast
qed

lemma sample_new_stack:
  assumes "sample_options_ok opts"
  obtains r where "new_stack sample_host opts m = (Inr (length (sm_stacks m)), m\<lparr>sm_stacks := sm_stacks m @ [r]\<rparr>)" "sample_stack r"
proof -
  obtain r where "New sample_host opts (sm_sys m) = (Inr r, sm_sys m)" "sample_stack r" using sample_New [OF assms] by blast
  then show thesis using that by (simp add: new_stack_def)
qed

lemma sample_state:
  assumes "sample_stack r"
  shows "ss_WorkingDir (Stack_SessionState (Some r) rcs s) = ''/''"
  using assms by (simp add: Stack_SessionState_def sample_stack_def stackWorkingDir_def first_set_def root_normal)

lemma create_session_fields:
  "create_session opts a m = (s, m') \<Longrightarrow>
   sn_Profile s = o_Profile (stackOps (stack_at m' (Some a))) \<and> sn_PolicyCeiling s = policy_at m' a \<and>
   sn_State s = Stack_SessionState (stack_at m' (Some a)) (opt_RCFiles opts) (sm_sys m')"
  by (auto simp: create_session_def split: prod.splits)

lemma sample_created:
  obtains session m st where "Create sample_host CtxLive sample_session_options empty_manager = (Inr (Session_Clone session), m)"
    "reachable sample_host sample_manager_options m" "sm_stacks m = [st]" "sample_stack st" "sm_calls m = []" "sm_next m = 0"
    "sm_sessions m = [(''sess_1'', created_record sample_session_options session 0 [])]"
    "sn_SessionID session = ''sess_1''" "sn_PolicyCeiling session = limited_ceiling" "sn_Profile session = DefaultProfile"
    "ss_WorkingDir (sn_State session) = ''/''" "sm_newExecutionID m = execution_id" "cnt_executions (sm_counters m) = 0"
    "sm_now m = clock_now sample_host"
proof -
  have "trim_space [] = []" by code_simp
  then have "sample_options_ok (stack_options.truncate sample_session_options)"
    by (simp add: sample_options_ok_def stack_options.truncate_def sample_session_options_def)
  then obtain st where st: "new_stack sample_host (stack_options.truncate sample_session_options) empty_manager =
      (Inr (length (sm_stacks empty_manager)), empty_manager\<lparr>sm_stacks := sm_stacks empty_manager @ [st]\<rparr>)" "sample_stack st"
    by (rule sample_new_stack)
  let ?m1 = "empty_manager\<lparr>sm_stacks := [st]\<rparr>"
  have new: "new_stack sample_host (stack_options.truncate sample_session_options) empty_manager = (Inr 0, ?m1)"
    using st(1) by (simp add: empty_manager_def NewSessionManager_def)
  have at: "stack_at ?m1 (Some 0) = Some st" by (simp add: stack_at_def)
  have pol: "o_Policy (stackOps (Some st)) = limited_ceiling"
    using new_stack_runtime(4) [OF new] by (simp add: runtime_ok_def at stack_options.truncate_def sample_session_options_def limited_ceiling_def)
  obtain session m2 where s: "create_session sample_session_options 0 ?m1 = (session, m2)" by fastforce
  have one: "show_nat (Suc 0) = ''1''" by code_simp
  have m2: "m2 = ?m1\<lparr>sm_counters := \<lparr>cnt_executions = 0, cnt_sessions = 1, cnt_clock = 1\<rparr>\<rparr>"
    and sid: "sn_SessionID session = ''sess_1''"
    using s by (auto simp: create_session_def now_def newID_def empty_manager_def NewSessionManager_def sample_manager_options_def
        or_default_def clock_now_def session_id_def Let_def one)
  have at2: "stack_at m2 (Some 0) = Some st" by (simp add: m2 stack_at_def)
  note fields = sid conjunct1 [OF create_session_fields [OF s], unfolded at2]
    conjunct1 [OF conjunct2 [OF create_session_fields [OF s]], unfolded at2 pol]
  have profile: "sn_Profile session = DefaultProfile" using fields(2) st(2) by (simp add: sample_stack_def)
  have cwd: "ss_WorkingDir (sn_State session) = ''/''"
    using create_session_fields [OF s] sample_state [OF st(2)] by (simp add: at2)
  have "sm_sys m2\<lparr>sy_ctx := CtxLive\<rparr> = sm_sys m2" by (simp add: m2 empty_manager_def NewSessionManager_def live_sys_def)
  then have create: "Create sample_host CtxLive sample_session_options empty_manager = (Inr (Session_Clone (Session_Clone session)),
      put_session ''sess_1'' (created_record sample_session_options (Session_Clone session) 0 []) m2)"
    using fields(1) by (simp add: Create_def new s adapters_phase_def applySessionAdapters_def)
      (simp add: sample_session_options_def Session_Clone_def)
  have reach: "reachable sample_host sample_manager_options empty_manager" unfolding empty_manager_def by (rule start)
  let ?s = "Session_Clone session"
  let ?m = "put_session ''sess_1'' (created_record sample_session_options ?s 0 []) m2"
  have "manager_step sample_host empty_manager (CreateEvent CtxLive sample_session_options (Inr (Session_Clone ?s))) ?m"
    by (rule manager_step.create) (rule create)
  then have "reachable sample_host sample_manager_options ?m"
    by (rule reachable.step [OF reach]) (simp add: draws_fresh_def empty_manager_def NewSessionManager_def)
  moreover have "ss_WorkingDir (sn_State ?s) = ''/''" by (simp add: Session_Clone_def State_Clone_def cwd root_normal)
  moreover have "sn_Profile ?s = DefaultProfile" by (simp add: Session_Clone_def profile)
  ultimately show thesis
    using create st(2) fields(1,3)
    by (intro that [of "?s" ?m st])
      (simp_all add: m2 put_session_def empty_manager_def NewSessionManager_def sample_manager_options_def or_default_def)
qed

lemma sess_1_text: "trim_space ''sess_1'' = ''sess_1''" "trim_space ''exec_1'' = ''exec_1''" "trim_space ''echo hi'' = ''echo hi''"
  by code_simp+

lemma sample_running:
  obtains m m' c where "execute_begin sample_host CtxLive ''sess_1'' ''echo hi'' limited_ceiling m = (Running 0, m')"
    "reachable sample_host sample_manager_options m" "reachable sample_host sample_manager_options m'"
    "map_of (sm_calls m') 0 = Some c" "ec_session c = ''sess_1''" "ec_execution c = ''exec_1''" "ec_result c = None"
    "manager_step sample_host m (ExecuteEvent CtxLive ''sess_1'' ''echo hi'' limited_ceiling (Running 0)) m'"
    "draws_fresh m (ExecuteEvent CtxLive ''sess_1'' ''echo hi'' limited_ceiling (Running 0))"
    "life_of m ''sess_1'' = Idle" "\<exists>r. map_of (sm_sessions m) ''sess_1'' = Some r"
proof -
  obtain session m st where m: "reachable sample_host sample_manager_options m" "sm_calls m = []" "sm_next m = 0"
    "sm_sessions m = [(''sess_1'', created_record sample_session_options session 0 [])]"
    "sn_SessionID session = ''sess_1''" "sn_PolicyCeiling session = limited_ceiling"
    "sm_newExecutionID m = execution_id" "cnt_executions (sm_counters m) = 0" "sm_now m = clock_now sample_host"
    using sample_created by metis
  let ?r = "created_record sample_session_options session 0 []"
  have one: "show_nat (Suc 0) = ''1''" by code_simp
  have eff: "EffectivePolicyWithinCeiling (host_duration sample_host) limited_ceiling limited_ceiling = Inr limited_ceiling"
    by (rule effective_self) (simp add: limited_ceiling_def)
  obtain b m' where b: "execute_begin sample_host CtxLive ''sess_1'' ''echo hi'' limited_ceiling m = (b, m')" by fastforce
  let ?c = "\<lparr>ec_ctx = CtxLive, ec_session = ''sess_1'', ec_line = ''echo hi'', ec_runtime = 0, ec_execution = ''exec_1'', ec_result = None\<rparr>"
  have r: "b = Running 0" "sm_calls m' = [(0, ?c)]"
    using b m eff one
    by (auto simp: execute_begin_def sess_1_text lookupManaged_def created_record_def register_execution_def newExecutionID_def
        execution_id_def NextExecutionID_def now_def clock_now_def Let_def put_session_def)
  have free: "\<not> waits ''sess_1'' m" by (simp add: waits_def sess_1_text lookupManaged_def m(4) created_record_def)
  have step: "manager_step sample_host m (ExecuteEvent CtxLive ''sess_1'' ''echo hi'' limited_ceiling b) m'"
    by (rule manager_step.execute [OF free b])
  have fresh: "draws_fresh m (ExecuteEvent CtxLive ''sess_1'' ''echo hi'' limited_ceiling b)" by (simp add: draws_fresh_def)
  have "reachable sample_host sample_manager_options m'" by (rule reachable.step [OF m(1) step fresh])
  moreover have "life_of m ''sess_1'' = Idle" by (simp add: life_of_def marks_def m(4) mark_def created_record_def)
  ultimately show thesis
    using that [OF b [unfolded r(1)] m(1)] step fresh r by (simp add: m(4))
qed

subsection \<open>Properties\<close>

text \<open>C9. Whatever calls a manager serves, and however they interleave, its state is consistent: a session is
  active exactly when it has a runtime, the runtime works under the policy the session was created with,
  the snapshot names the execution under way, and \<open>executeMu\<close> is held only by a call that has not returned.\<close>

theorem sessions_consistent:
  assumes "reachable h opts m"
  shows "manager_ok h m"
  using assms by (rule reachable_ok)

theorem sessions_consistent_witness:
  "\<exists>m c. manager_ok sample_host m \<and> map_of (sm_calls m) 0 = Some c \<and> ec_session c = ''sess_1''"
proof -
  obtain m m' c where "reachable sample_host sample_manager_options m'" "map_of (sm_calls m') 0 = Some c" "ec_session c = ''sess_1''"
    by (rule sample_running)
  from sessions_consistent [OF this(1)] this(2,3) show ?thesis by blast
qed

text \<open>C8. The manager refines the life of a session: absent, then idle, busy while an execution is under way,
  closed and resumed; for every session each step of the manager is the step of that machine which the
  reply of the call announces, or none.\<close>

theorem manager_refines_life:
  assumes "reachable h opts m" and "manager_step h m ev m'" and "draws_fresh m ev"
  shows "life_next (life_of m sid) (life_event m sid ev) = Some (life_of m' sid)"
  using step_refines [OF assms(2) reachable_ok [OF assms(1)] assms(3)] .

theorem manager_refines_life_witness:
  "\<exists>m m'. life_of m ''sess_1'' = Idle \<and> life_of m' ''sess_1'' = Busy \<and>
     manager_step sample_host m (ExecuteEvent CtxLive ''sess_1'' ''echo hi'' limited_ceiling (Running 0)) m'"
proof -
  obtain m m' c where m: "reachable sample_host sample_manager_options m"
    "manager_step sample_host m (ExecuteEvent CtxLive ''sess_1'' ''echo hi'' limited_ceiling (Running 0)) m'"
    "draws_fresh m (ExecuteEvent CtxLive ''sess_1'' ''echo hi'' limited_ceiling (Running 0))" "life_of m ''sess_1'' = Idle"
    by (rule sample_running)
  from manager_refines_life [OF m(1-3), of "''sess_1''"] have "life_of m' ''sess_1'' = Busy"
    by (simp add: m(4) life_event_def sess_1_text)
  then show ?thesis using m(2,4) by blast
qed

text \<open>C10. No step loses a session or changes its policy ceiling, and whatever runs for a session runs with callbacks
  prepared under a policy that the ceiling admits.\<close>

theorem session_ceiling_holds:
  assumes "reachable h opts m" and "manager_step h m ev m'" and "draws_fresh m ev"
    and "map_of (sm_sessions m) sid = Some r"
  shows "\<exists>r'. map_of (sm_sessions m') sid = Some r' \<and> sn_PolicyCeiling (ms_snapshot r') = sn_PolicyCeiling (ms_snapshot r) \<and>
    (\<forall>k c. map_of (sm_calls m') k = Some c \<and> ec_session c = sid \<longrightarrow>
      (\<exists>requested. EffectivePolicyWithinCeiling (host_duration h) requested (sn_PolicyCeiling (ms_snapshot r)) =
         Inr (o_Policy (stackOps (stack_at m' (Some (ec_runtime c)))))))"
proof -
  note ok = reachable_ok [OF assms(1)]
  have ok': "manager_ok h m'" using step_ok [OF assms(2) ok assms(3)] .
  obtain l a where "marks m' sid = Some (l, a, sn_PolicyCeiling (ms_snapshot r))"
    using step_policy [OF assms(2) ok assms(3) reachable_ceiling [OF ok assms(4)]] by blast
  then obtain r' where r': "map_of (sm_sessions m') sid = Some r'" "opt_Policy (ms_base r') = sn_PolicyCeiling (ms_snapshot r)"
    by (auto simp: marks_def mark_def)
  have "sn_PolicyCeiling (ms_snapshot r') = sn_PolicyCeiling (ms_snapshot r)"
    using manager_okD(1) [OF ok' r'(1)] r'(2) by (simp add: record_ok_def session_ok_def)
  moreover have "\<exists>requested. EffectivePolicyWithinCeiling (host_duration h) requested (sn_PolicyCeiling (ms_snapshot r)) =
      Inr (policy_at m' (ec_runtime c))" if "map_of (sm_calls m') k = Some c" "ec_session c = sid" for k c
    using manager_okD(2) [OF ok' that(1)] that(2) r' by (auto simp: call_ok_def runtime_ok_def)
  ultimately show ?thesis using r'(1) by blast
qed

theorem session_ceiling_holds_witness:
  "\<exists>m m' r r'. manager_step sample_host m (ExecuteEvent CtxLive ''sess_1'' ''echo hi'' limited_ceiling (Running 0)) m' \<and>
     map_of (sm_sessions m) ''sess_1'' = Some r \<and> map_of (sm_sessions m') ''sess_1'' = Some r' \<and>
     sn_PolicyCeiling (ms_snapshot r') = sn_PolicyCeiling (ms_snapshot r)"
proof -
  obtain m m' c where m: "reachable sample_host sample_manager_options m"
    "manager_step sample_host m (ExecuteEvent CtxLive ''sess_1'' ''echo hi'' limited_ceiling (Running 0)) m'"
    "draws_fresh m (ExecuteEvent CtxLive ''sess_1'' ''echo hi'' limited_ceiling (Running 0))"
    and "\<exists>r. map_of (sm_sessions m) ''sess_1'' = Some r"
    by (rule sample_running)
  then obtain r where r: "map_of (sm_sessions m) ''sess_1'' = Some r" by blast
  from session_ceiling_holds [OF m r] show ?thesis using m(2) r by blast
qed

text \<open>A session runs one execution at a time.\<close>

theorem one_execution_per_session:
  assumes "reachable h opts m" and "map_of (sm_calls m) k = Some c" and "map_of (sm_calls m) k' = Some c'"
    and "ec_session c = ec_session c'"
  shows "k = k'"
  using manager_okD(2) [OF reachable_ok [OF assms(1)] assms(2)] manager_okD(2) [OF reachable_ok [OF assms(1)] assms(3)] assms(4)
  by (auto simp: call_ok_def)

theorem one_execution_per_session_witness:
  "\<exists>m c. map_of (sm_calls m) 0 = Some c \<and> reachable sample_host sample_manager_options m \<and>
     (\<forall>k c'. map_of (sm_calls m) k = Some c' \<and> ec_session c' = ec_session c \<longrightarrow> k = 0)"
proof -
  obtain m m' c where m: "reachable sample_host sample_manager_options m'" "map_of (sm_calls m') 0 = Some c"
    by (rule sample_running)
  have "k = 0" if "map_of (sm_calls m') k = Some c'" "ec_session c' = ec_session c" for k c'
    using one_execution_per_session [OF m(1) that(1) m(2) that(2)] .
  then show ?thesis using m by blast
qed

text \<open>C14. A closed session refuses executions, checkpoints, cancels and a second close, without waiting and without
  a change.\<close>

theorem closed_session_refuses:
  assumes "reachable h opts m" and "life_of m (trim_space sessionID) = Closed" and "trim_space sessionID \<noteq> []"
  shows "\<not> waits sessionID m \<and>
    execute_begin h ctx sessionID line requested m = (Returned (Inl ErrSessionClosed), m) \<and>
    Checkpoint ctx sessionID m = (Inl ErrSessionClosed, m) \<and> Close ctx sessionID m = (Inl ErrSessionClosed, m) \<and>
    Cancel sessionID x m = (Inl ErrSessionClosed, m)"
proof -
  obtain r where r: "map_of (sm_sessions m) (trim_space sessionID) = Some r" "ms_lock r = None" "\<not> ms_active r"
    using assms(2) by (auto simp: life_of_def marks_def mark_def split: option.splits if_splits)
  then have "lookupManaged m (trim_space sessionID) = Inr r" using assms(3) by (simp add: lookupManaged_Inr)
  then show ?thesis
    using r by (simp add: waits_def execute_begin_def Checkpoint_def Close_def Cancel_def Let_def)
qed

lemma sample_closed:
  obtains m m' closed r where "reachable sample_host sample_manager_options m" "Close CtxLive ''sess_1'' m = (Inr closed, m')"
    "reachable sample_host sample_manager_options m'" "life_of m' ''sess_1'' = Closed"
    "map_of (sm_sessions m) ''sess_1'' = Some r" "opt_Adapters (ms_base r) = []" "\<not> waits ''sess_1'' m"
    "\<exists>resumed m''. Resume sample_host CtxLive ''sess_1'' m' = (Inr resumed, m'')"
proof -
  obtain session m st where m: "reachable sample_host sample_manager_options m" "sm_stacks m = [st]" "sample_stack st"
    "sm_sessions m = [(''sess_1'', created_record sample_session_options session 0 [])]"
    "sn_SessionID session = ''sess_1''" "sn_Profile session = DefaultProfile"
    using sample_created by metis
  let ?r = "created_record sample_session_options session 0 []"
  have base: "opt_Adapters (ms_base ?r) = []" by (simp add: created_record_def cloneOptions_def sample_session_options_def)
  have free: "\<not> waits ''sess_1'' m" by (simp add: waits_def sess_1_text lookupManaged_def m(4) created_record_def)
  obtain r2 m2 where up: "updated_session CtxLive adapterPhaseClose ?r m = (Inr r2, m2)"
    by (cases "now m") (simp add: updated_session_def base Let_def)
  have r2: "sn_Profile (ms_checkpoint r2) = DefaultProfile" "ss_WorkingDir (sn_State (ms_checkpoint r2)) = ''/''" "ms_base r2 = ms_base ?r"
    using up base sample_state [OF m(3)] by (auto simp: updated_session_def Let_def next_session_def Session_Clone_def State_Clone_def
        mergeSessionState_def created_record_def m(6) now_def stack_at_def m(2) root_normal split: prod.splits)
  have open_record: "ms_active ?r" "ms_runtime ?r \<noteq> None" by (simp_all add: created_record_def)
  obtain closed m' where close: "Close CtxLive ''sess_1'' m = (Inr closed, m')" "m' = put_session ''sess_1'' (closed_record r2) m2"
    using open_record by (simp add: Close_def sess_1_text lookupManaged_def m(4) up Let_def)
  have step: "manager_step sample_host m (CloseEvent CtxLive ''sess_1'' (Inr closed)) m'" by (rule manager_step.close [OF free close(1)])
  have fresh: "draws_fresh m (CloseEvent CtxLive ''sess_1'' (Inr closed))" by (simp add: draws_fresh_def)
  have reach: "reachable sample_host sample_manager_options m'" by (rule reachable.step [OF m(1) step fresh])
  have "life_of m ''sess_1'' = Idle" by (simp add: life_of_def marks_def m(4) mark_def created_record_def)
  then have life: "life_of m' ''sess_1'' = Closed"
    using step_refines [OF step reachable_ok [OF m(1)] fresh, of "''sess_1''"] by (simp add: life_event_def sess_1_text)
  let ?resumed = "Session_Clone (Session_Clone (ms_checkpoint r2))"
  have "sample_options_ok (runtimeOptionsFromSession (ms_base ?r) ?resumed p [])" for p
    using r2 by (simp add: sample_options_ok_def runtimeOptionsFromSession_def Let_def created_record_def cloneOptions_def
        sample_session_options_def stack_options.truncate_def Session_Clone_def State_Clone_def root_normal)
  then obtain n r3 where "new_stack sample_host (runtimeOptionsFromSession (ms_base ?r) ?resumed (sn_PolicyCeiling ?resumed) []) m' =
      (Inr n, r3)" by (meson sample_new_stack)
  moreover have "adapters_phase CtxLive (Session_Clone (ms_checkpoint r2)) [] adapterPhaseResume zero_execution m' = (Inr (?resumed, []), m')"
    by (simp add: adapters_phase_def applySessionAdapters_def)
  moreover have "lookupManaged m' ''sess_1'' = Inr (closed_record r2)" by (simp add: lookupManaged_Inr close(2))
  ultimately have "\<exists>resumed m''. Resume sample_host CtxLive ''sess_1'' m' = (Inr resumed, m'')"
    by (cases "now r3") (simp add: Resume_def sess_1_text closed_record_def r2(3) base Let_def)
  then show thesis using that [OF m(1) close(1) reach life _ base free] by (simp add: m(4))
qed

theorem closed_session_refuses_witness:
  "\<exists>m. life_of m ''sess_1'' = Closed \<and> execute_begin sample_host CtxLive ''sess_1'' ''ls'' DefaultPolicy m =
     (Returned (Inl ErrSessionClosed), m)"
proof -
  obtain m m' closed r where "reachable sample_host sample_manager_options m'" "life_of m' ''sess_1'' = Closed"
    by (rule sample_closed)
  from closed_session_refuses [OF this(1), of "''sess_1''"] this(2) show ?thesis by (auto simp: sess_1_text)
qed

text \<open>C13. A session without adapters that is closed and resumed is as it was closed, up to the time of its update.\<close>

theorem close_resume:
  assumes "reachable h opts m" and "\<not> waits sessionID m" and "Close ctx sessionID m = (Inr closed, m1)"
    and "map_of (sm_sessions m) (trim_space sessionID) = Some r" and "opt_Adapters (ms_base r) = []"
    and "Resume h ctx' sessionID m1 = (Inr resumed, m2)"
  shows "resumed = closed\<lparr>sn_UpdatedAt := sn_UpdatedAt resumed\<rparr>"
proof -
  let ?sid = "trim_space sessionID"
  have "?sid \<noteq> []" using replied_nonempty(1) assms(3) by blast
  then have found: "lookupManaged m ?sid = Inr r" using assms(4) by (simp add: lookupManaged_Inr)
  then have lock: "ms_lock r = None" using assms(2) by (auto simp: waits_def)
  have rec: "record_ok m ?sid r" by (rule manager_okD(1) [OF reachable_ok [OF assms(1)] assms(4)])
  obtain y m0 where up: "updated_session ctx adapterPhaseClose r m = (y, m0)" by fastforce
  then obtain r' where y: "y = Inr r'" using assms(3) by (cases y) (auto simp: Close_def found Let_def split: if_splits)
  note ref = updated_session_refreshed [OF up [unfolded y]]
  have m1: "m1 = put_session ?sid (closed_record r') m0" and closed: "closed = Session_Clone (ms_snapshot (closed_record r'))"
    using assms(3) by (auto simp: Close_def found Let_def up y split: if_splits)
  have idle: "sn_ActiveExecution (ms_snapshot r') = None" using ref unlocked_idle [OF rec lock] by (simp add: refreshed_def)
  have snap: "Session_Clone (ms_snapshot r') = ms_snapshot r'"
    using up y assms(5) by (auto simp: updated_session_def Let_def split: prod.splits)
  have found1: "lookupManaged m1 ?sid = Inr (closed_record r')" using \<open>?sid \<noteq> []\<close> by (simp add: lookupManaged_Inr m1)
  have ad: "adapters_phase ctx' s [] p z q = (Inr (Session_Clone s, []), q)" for s p z and q :: "'a SessionManager"
    by (simp add: adapters_phase_def applySessionAdapters_def)
  have base: "opt_Adapters (ms_base (closed_record r')) = []" "ms_checkpoint (closed_record r') = ms_snapshot r'"
    using ref assms(5) snap by (simp_all add: refreshed_def closed_record_def)
  obtain z m3 where z: "new_stack h (runtimeOptionsFromSession (ms_base (closed_record r')) (ms_snapshot r')
      (sn_PolicyCeiling (ms_snapshot r')) []) m1 = (z, m3)" by fastforce
  obtain t m4 where t: "now m3 = (t, m4)" by fastforce
  have shift: "Session_Clone (s\<lparr>sn_UpdatedAt := u\<rparr>) = (Session_Clone s)\<lparr>sn_UpdatedAt := u\<rparr>"
    "Session_Clone (s\<lparr>sn_ActiveExecution := None\<rparr>) = (Session_Clone s)\<lparr>sn_ActiveExecution := None\<rparr>" for s u
    by (simp_all add: Session_Clone_def)
  have same: "(ms_snapshot r')\<lparr>sn_ActiveExecution := None\<rparr> = ms_snapshot r'" using idle by simp
  have inactive: "\<not> ms_active (closed_record r')" by (simp add: closed_record_def)
  have "resumed = (ms_snapshot r')\<lparr>sn_UpdatedAt := t\<rparr>"
    using assms(6) inactive by (cases z) (auto simp: Resume_def found1 Let_def base ad z snap t shift)
  moreover have "closed = ms_snapshot r'" using closed same by (simp add: closed_record_def snap)
  ultimately show ?thesis by simp
qed

theorem close_resume_witness:
  "\<exists>m m1 m2 closed resumed. Close CtxLive ''sess_1'' m = (Inr closed, m1) \<and>
     Resume sample_host CtxLive ''sess_1'' m1 = (Inr resumed, m2) \<and> sn_State resumed = sn_State closed"
proof -
  obtain m m' closed r where m: "reachable sample_host sample_manager_options m" "\<not> waits ''sess_1'' m"
    "Close CtxLive ''sess_1'' m = (Inr closed, m')" "map_of (sm_sessions m) ''sess_1'' = Some r" "opt_Adapters (ms_base r) = []"
    and "\<exists>resumed m''. Resume sample_host CtxLive ''sess_1'' m' = (Inr resumed, m'')" by (rule sample_closed)
  then obtain resumed m2 where res: "Resume sample_host CtxLive ''sess_1'' m' = (Inr resumed, m2)" by blast
  have "resumed = closed\<lparr>sn_UpdatedAt := sn_UpdatedAt resumed\<rparr>"
    by (rule close_resume [OF m(1-3) _ m(5) res]) (simp add: sess_1_text m(4))
  then have "sn_State resumed = sn_State closed" by (metis Session.select_convs(6) Session.surjective Session.update_convs(3))
  then show ?thesis using m(3) res by blast
qed

text \<open>C12. A cancel that arrives while an execution runs reaches exactly the execution it names: it is accepted
  if and only if it names the one under way, and then the context of the run is found canceled; a cancel
  without a name, or with another, changes no run.\<close>

theorem cancel_hits_named_execution:
  assumes "reachable h opts m" and "map_of (sm_calls m) k = Some c" and "ec_result c = None"
    and "ec_session c = trim_space sessionID" and "Cancel sessionID x m = (reply, m')"
  shows "if trim_space x \<noteq> [] \<and> trim_space x = trim_space (ec_execution c)
    then (\<exists>s. reply = Inr s) \<and> run_context k n c m' = cancel_after n (ec_ctx c)
    else reply = Inl (if trim_space x = [] then ErrExecutionRequired else ErrExecutionChanged) \<and> m' = m"
proof -
  let ?sid = "trim_space sessionID"
  note ok = reachable_ok [OF assms(1)]
  obtain r where r: "map_of (sm_sessions m) ?sid = Some r" "ms_lock r = Some k" "ms_activeExecution r \<noteq> None"
    "k \<notin> set (sm_done m)" "\<forall>a. ms_activeExecution r = Some a \<longrightarrow> xs_ExecutionID (ac_state a) = trim_space (ec_execution c)"
    using manager_okD(2) [OF ok assms(2)] assms(3,4) by (auto simp: call_ok_def)
  obtain a where a: "ms_activeExecution r = Some a" using r(3) by blast
  have rec: "record_ok m ?sid r" by (rule manager_okD(1) [OF ok r(1)])
  then have a_call: "ac_call a = k" and st: "sn_ActiveExecution (ms_snapshot r) = Some (ac_state a)"
    and act: "ms_active r" "ms_runtime r \<noteq> None"
    and can: "xs_Status (ac_state a) = StatusCanceling \<Longrightarrow> k \<in> set (sm_canceled m)"
    using r(2) a by (auto simp: record_ok_def)
  have run: "\<not> executionFinished m (Some a)" using r(4) by (simp add: executionFinished_def a_call)
  have name: "xs_ExecutionID (ac_state a) = trim_space (ec_execution c)" using r(5) a by blast
  obtain t m0 where t: "now m = (t, m0)" by fastforce
  have "sm_canceled m0 = sm_canceled m" by (rule grows_fields(5) [OF now_grows [OF t]])
  then show ?thesis
    using assms(5) act run name can r(1) a st t
    by (auto simp: Cancel_def Let_def run_context_def a_call split: if_splits)
qed

theorem cancel_hits_named_execution_witness:
  "\<exists>m c s m'. map_of (sm_calls m) 0 = Some c \<and> Cancel ''sess_1'' ''exec_1'' m = (Inr s, m') \<and>
     run_context 0 7 c m' = cancel_after 7 (ec_ctx c) \<and> reachable sample_host sample_manager_options m"
proof -
  obtain m m' c where m: "reachable sample_host sample_manager_options m'" "map_of (sm_calls m') 0 = Some c"
    "ec_result c = None" "ec_session c = ''sess_1''" "ec_execution c = ''exec_1''" by (rule sample_running)
  obtain reply m2 where c: "Cancel ''sess_1'' ''exec_1'' m' = (reply, m2)" by fastforce
  from cancel_hits_named_execution [OF m(1-3) _ c, of 7] show ?thesis
    using m c by (fastforce simp: sess_1_text)
qed

text \<open>C11. No execution is stuck: from every state of the manager a call that has begun can run and finish, and then
  its session is idle again, whatever the adapters and the filesystem answer.\<close>

theorem execution_can_finish:
  assumes "reachable h opts m" and "map_of (sm_calls m) k = Some c"
  shows "\<exists>m1 reply m2. (if ec_result c = None then manager_step h m (RunEvent k n) m1 else m1 = m) \<and>
    manager_step h m1 (FinishEvent k reply) m2 \<and> life_of m2 (ec_session c) = Idle"
proof -
  have finish: "\<exists>reply m2. manager_step h m1 (FinishEvent k reply) m2 \<and> life_of m2 (ec_session d) = Idle"
    if ok: "manager_ok h m1" and call: "map_of (sm_calls m1) k = Some d" and res: "ec_result d = Some result" for m1 d result
  proof -
    obtain reply m2 where f: "execute_finish h k d result m1 = (reply, m2)" by fastforce
    have "manager_step h m1 (FinishEvent k reply) m2" by (rule manager_step.finish [OF call res f])
    moreover have "life_of m2 (ec_session d) = Idle"
      using execute_finish_marks [OF ok call res f] by (auto simp: life_of_def)
    ultimately show ?thesis by blast
  qed
  note ok = reachable_ok [OF assms(1)]
  show ?thesis
  proof (cases "ec_result c")
    case None
    let ?m1 = "execute_run h k n c m"
    obtain d where d: "map_of (sm_calls ?m1) k = Some d" "ec_session d = ec_session c" "\<exists>result. ec_result d = Some result"
      by (cases "Stack_ExecuteResult (host_platform h) (run_context k n c m) (ec_line c) (stack_at m (Some (ec_runtime c)))
            (cnt_executions (sm_counters m)) (sm_sys m)") (simp add: execute_run_def put_call_def Let_def)
    have "manager_step h m (RunEvent k n) ?m1" by (rule manager_step.run [OF assms(2) None])
    then show ?thesis using finish [OF execute_run_ok [OF ok assms(2) None] d(1)] d(2,3) None by force
  next
    case (Some result)
    then show ?thesis using finish [OF ok assms(2) Some] by auto
  qed
qed

theorem execution_can_finish_witness:
  "\<exists>m m1 reply m2. manager_step sample_host m (RunEvent 0 3) m1 \<and> manager_step sample_host m1 (FinishEvent 0 reply) m2 \<and>
     life_of m2 ''sess_1'' = Idle"
proof -
  obtain m m' c where m: "reachable sample_host sample_manager_options m'" "map_of (sm_calls m') 0 = Some c"
    "ec_result c = None" "ec_session c = ''sess_1''" by (rule sample_running)
  from execution_can_finish [OF m(1,2), of 3] show ?thesis using m(3,4) by auto
qed

text \<open>The default ids differ as long as the counter does.\<close>

lemma session_id_fresh: "fst (session_id c) = fst (session_id d) \<longleftrightarrow> cnt_sessions c = cnt_sessions d"
proof -
  have "show_nat a = show_nat b \<longleftrightarrow> a = b" for a b by (metis show_nat_digits)
  moreover have "unat (a + 1) = unat (b + 1) \<longleftrightarrow> a = b" for a b :: "64 word" by (metis add_right_cancel word_unat_eq_iff)
  ultimately show ?thesis by (simp add: session_id_def Let_def)
qed

end
