(* ===== verification/Go_Strings.thy ===== *)
theory Go_Strings
  imports Go_Glob
begin

section \<open>Runes, replacement and JSON text\<close>

text \<open>
  What the repository uses of Go's \<open>strings.Count\<close> and \<open>strings.Replace\<close>, the runes a \<open>range\<close> over a string
  visits, and the encoder of \<open>encoding/json\<close> (\<open>json.Marshal\<close>) for the structs the builtins print.
\<close>

subsection \<open>Runes\<close>

text \<open>The encodings of the runes of a string; an invalid byte stands alone.\<close>

function rune_chunks :: "string \<Rightarrow> string list" where
  "rune_chunks s =
     (if s = [] then [] else take (snd (decode_rune s)) s # rune_chunks (drop (snd (decode_rune s)) s))"
  by pat_completeness auto
termination by (relation "measure length") (use decode_rune_pos in auto)

declare rune_chunks.simps [simp del]

lemma rune_chunks_Nil [simp]: "rune_chunks [] = []"
  by (simp add: rune_chunks.simps)

lemma concat_rune_chunks: "concat (rune_chunks s) = s"
proof (induction s rule: rune_chunks.induct)
  case (1 s)
  then show ?case by (cases "s = []") (simp_all add: rune_chunks.simps [of s])
qed

lemma rune_chunks_not_Nil: "c \<in> set (rune_chunks s) \<Longrightarrow> c \<noteq> []"
proof (induction s rule: rune_chunks.induct)
  case (1 s)
  show ?case
  proof (cases "s = []")
    case False
    then have "take (snd (decode_rune s)) s \<noteq> []" using decode_rune_pos by simp
    then show ?thesis using 1 False by (auto simp: rune_chunks.simps [of s])
  qed (use 1 in simp)
qed

text \<open>The \<open>%c\<close> verb on a rune of a string and on a byte; an invalid byte decodes to U+FFFD.\<close>

definition show_rune :: "string \<Rightarrow> string" where
  "show_rune r = (if utf8_width r = None then [CHR 0xEF, CHR 0xBF, CHR 0xBD] else r)"

definition show_byte :: "char \<Rightarrow> string" where
  "show_byte c =
     (let n = byte_of c in if n < 128 then [c] else [char_of (192 + n div 64), char_of (128 + n mod 64)])"

subsection \<open>Counting and replacing\<close>

text \<open>An empty needle matches before every rune and at the end.\<close>

definition go_count :: "string \<Rightarrow> string \<Rightarrow> nat" where
  "go_count s sub = (if sub = [] then Suc (length (rune_chunks s)) else count_sub sub s)"

fun replace_empty :: "string \<Rightarrow> nat \<Rightarrow> string \<Rightarrow> string" where
  "replace_empty new 0 s = s"
| "replace_empty new (Suc n) s =
     (let k = snd (decode_rune s) in new @ take k s @ replace_empty new n (drop k s))"

fun replace_word :: "string \<Rightarrow> string \<Rightarrow> nat \<Rightarrow> string \<Rightarrow> string" where
  "replace_word old new 0 s = s"
| "replace_word old new (Suc n) s =
     (case index_of old s of
        None \<Rightarrow> s
      | Some j \<Rightarrow> take j s @ new @ replace_word old new n (drop (j + length old) s))"

definition go_replace :: "string \<Rightarrow> string \<Rightarrow> string \<Rightarrow> nat \<Rightarrow> string" where
  "go_replace s old new n =
     (let m = min n (go_count s old) in if old = [] then replace_empty new m s else replace_word old new m s)"

subsection \<open>JSON\<close>

text \<open>\<open>json.Marshal\<close> escapes quotes, backslashes, control bytes, the HTML characters and the separators U+2028
  and U+2029, and writes an invalid byte as the replacement character.\<close>

definition json_byte :: "char \<Rightarrow> string" where
  "json_byte c =
    (let n = byte_of c in
     if c = dquote \<or> c = backslash then [backslash, c]
     else if n = 8 then [backslash, CHR ''b''] else if n = 12 then [backslash, CHR ''f'']
     else if n = 10 then [backslash, CHR ''n''] else if n = 13 then [backslash, CHR ''r'']
     else if n = 9 then [backslash, CHR ''t'']
     else if n < 32 \<or> c = CHR ''<'' \<or> c = CHR ''>'' \<or> c = CHR ''&''
     then [backslash, CHR ''u'', CHR ''0'', CHR ''0'', hex_digit (n div 16), hex_digit (n mod 16)]
     else [c])"

definition json_rune :: "string \<Rightarrow> string" where
  "json_rune r =
     (if utf8_width r = None then backslash # ''ufffd''
      else if r = [CHR 0xE2, CHR 0x80, CHR 0xA8] then backslash # ''u2028''
      else if r = [CHR 0xE2, CHR 0x80, CHR 0xA9] then backslash # ''u2029''
      else case r of [c] \<Rightarrow> json_byte c | _ \<Rightarrow> r)"

definition json_string :: "string \<Rightarrow> string" where
  "json_string s = [dquote] @ concat (map json_rune (rune_chunks s)) @ [dquote]"

text \<open>A number is an integer of the program, or the text of a number the package has read.\<close>

datatype json = JNull | JBool bool | JInt int | JNum string | JStr string | JList "json list" | JObj "(string \<times> json) list"

fun json_text :: "json \<Rightarrow> string" where
  "json_text JNull = ''null''"
| "json_text (JBool b) = (if b then ''true'' else ''false'')"
| "json_text (JInt i) = show_int i"
| "json_text (JNum t) = t"
| "json_text (JStr s) = json_string s"
| "json_text (JList xs) = ''['' @ join '','' (map json_text xs) @ '']''"
| "json_text (JObj fs) = ''{'' @ join '','' (map (\<lambda>(k, v). json_string k @ '':'' @ json_text v) fs) @ ''}''"

text \<open>\<open>json.MarshalIndent\<close> without a prefix and with two blanks per level; empty lists and objects stay on one line.\<close>

definition json_line :: "nat \<Rightarrow> string" where
  "json_line n = newline # concat (replicate n ''  '')"

fun json_indent :: "nat \<Rightarrow> json \<Rightarrow> string" where
  "json_indent n (JList xs) =
     (if xs = [] then ''[]''
      else ''['' @ join '','' (map (\<lambda>x. json_line (Suc n) @ json_indent (Suc n) x) xs) @ json_line n @ '']'')"
| "json_indent n (JObj fs) =
     (if fs = [] then ''{}''
      else ''{'' @ join '','' (map (\<lambda>(k, v). json_line (Suc n) @ json_string k @ '': '' @ json_indent (Suc n) v) fs) @
        json_line n @ ''}'')"
| "json_indent n v = json_text v"

definition json_indented :: "json \<Rightarrow> string" where
  "json_indented = json_indent 0"

text \<open>Fields tagged \<open>omitempty\<close>.\<close>

definition omit_empty :: "string \<Rightarrow> string \<Rightarrow> (string \<times> json) list" where
  "omit_empty k s = (if s = [] then [] else [(k, JStr s)])"

definition omit_false :: "string \<Rightarrow> bool \<Rightarrow> (string \<times> json) list" where
  "omit_false k b = (if b then [(k, JBool True)] else [])"

text \<open>An encoded value is one line: no byte of it is a control byte.\<close>

definition printing :: "string \<Rightarrow> bool" where
  "printing s \<longleftrightarrow> list_all (\<lambda>c. 32 \<le> byte_of c) s"

lemma printing_simps [simp]:
  "printing []" "printing (c # s) \<longleftrightarrow> 32 \<le> byte_of c \<and> printing s" "printing (s @ t) \<longleftrightarrow> printing s \<and> printing t"
  "printing (concat ss) \<longleftrightarrow> list_all printing ss"
  by (auto simp: printing_def list_all_iff)

lemma printing_join: "printing sep \<Longrightarrow> list_all printing xs \<Longrightarrow> printing (join sep xs)"
  by (induction sep xs rule: join.induct) auto

lemma printing_no_newline: "printing s \<Longrightarrow> newline \<notin> set s"
  by (auto simp: printing_def list_all_iff byte_of_def)

lemma utf8_width_high:
  assumes "utf8_width r = Some (length r)" and "length r \<noteq> 1"
  shows "printing r"
proof -
  obtain c t where r: "r = c # t" using assms utf8_width_pos by (cases r) auto
  have two: "(\<forall>i < 2. P i) \<longleftrightarrow> P 0 \<and> P 1" "(\<forall>i < 3. P i) \<longleftrightarrow> P 0 \<and> P 1 \<and> P 2" for P :: "nat \<Rightarrow> bool"
    by (auto simp: less_Suc_eq numeral_2_eq_2 numeral_3_eq_3)
  have "length t = 1 \<and> 128 \<le> (of_char (t ! 0) :: nat) \<or>
      length t = 2 \<and> 128 \<le> (of_char (t ! 0) :: nat) \<and> 128 \<le> (of_char (t ! 1) :: nat) \<or>
      length t = 3 \<and> 128 \<le> (of_char (t ! 0) :: nat) \<and> 128 \<le> (of_char (t ! 1) :: nat) \<and> 128 \<le> (of_char (t ! 2) :: nat)"
    "32 \<le> (of_char c :: nat)"
    using assms unfolding utf8_width_def r by (auto simp: Let_def cont_byte_def split: if_splits)
  then have "32 \<le> (of_char c :: nat) \<and> (\<forall>i < length t. 32 \<le> (of_char (t ! i) :: nat))"
    by (elim disjE conjE) (simp_all only: two simp_thms, simp_all)
  then show ?thesis by (simp add: r byte_of_def) (simp add: printing_def list_all_length byte_of_def)
qed

lemma utf8_width_bound: "utf8_width s = Some k \<Longrightarrow> k \<le> length s"
  by (cases s; cases "tl s"; cases "tl (tl s)"; cases "tl (tl (tl s))") (auto simp: utf8_width_def Let_def split: if_splits)

lemma utf8_width_take: "utf8_width s = Some k \<Longrightarrow> utf8_width (take k s) = Some k"
  by (cases s) (auto simp: utf8_width_def Let_def split: if_splits)

lemma rune_chunks_width:
  "r \<in> set (rune_chunks s) \<Longrightarrow> utf8_width r = Some (length r) \<or> utf8_width r = None \<and> length r = 1"
proof (induction s rule: rune_chunks.induct)
  case (1 s)
  show ?case
  proof (cases "s = []")
    case False
    let ?r = "take (snd (decode_rune s)) s"
    have "utf8_width ?r = Some (length ?r) \<or> utf8_width ?r = None \<and> length ?r = 1"
    proof (cases "utf8_width s")
      case None
      then have "?r = [hd s]" "utf8_width [hd s] = None \<or> utf8_width [hd s] = Some 1"
        using False by (cases s; auto simp: decode_rune_def utf8_width_def Let_def split: if_splits)+
      then show ?thesis by auto
    next
      case (Some k)
      then show ?thesis using utf8_width_take utf8_width_bound by (simp add: decode_rune_def Let_def)
    qed
    then show ?thesis using 1 False by (auto simp: rune_chunks.simps [of s])
  qed (use 1 in simp)
qed

lemma json_byte_printing: "printing (json_byte c)"
proof -
  have "32 \<le> byte_of (hex_digit k)" if "k < 16" for k
    using that by (auto simp: hex_digit_def byte_of_def)
  moreover have "byte_of c div 16 < 16" "byte_of c mod 16 < 16"
    using nat_of_char_less_256 [of c] unfolding byte_of_def by (simp_all add: div_less_iff_less_mult)
  ultimately show ?thesis by (simp add: json_byte_def Let_def) (auto simp: byte_of_def)
qed

lemma json_rune_printing: "r \<in> set (rune_chunks s) \<Longrightarrow> printing (json_rune r)"
  using rune_chunks_width [of r s] utf8_width_high [of r] json_byte_printing
  by (auto simp: json_rune_def byte_of_def length_Suc_conv split: list.splits)

lemma json_string_printing [simp]: "printing (json_string s)"
  using json_rune_printing by (auto simp: json_string_def list_all_iff byte_of_def)

lemma digit_char_printing: "n < 10 \<Longrightarrow> 32 \<le> byte_of (digit_char n)"
  by (simp add: digit_char_def byte_of_def)

lemma show_nat_printing: "printing (show_nat n)"
  by (induction n rule: show_nat.induct) (simp add: show_nat.simps digit_char_printing)

lemma show_int_printing [simp]: "printing (show_int i)"
  by (simp add: show_int_def show_nat_printing byte_of_def)

fun number_texts :: "json \<Rightarrow> string list" where
  "number_texts (JNum t) = [t]"
| "number_texts (JList xs) = concat (map number_texts xs)"
| "number_texts (JObj fs) = concat (map (\<lambda>(k, v). number_texts v) fs)"
| "number_texts _ = []"

lemma json_text_printing: "list_all printing (number_texts v) \<Longrightarrow> printing (json_text v)"
proof (induction v rule: json_text.induct)
  case (6 xs)
  then have "printing (join '','' (map json_text xs))"
    by (intro printing_join) (auto simp: list_all_iff byte_of_def)
  then show ?case by (simp add: byte_of_def)
next
  case (7 fs)
  then have "printing (join '','' (map (\<lambda>(k, v). json_string k @ '':'' @ json_text v) fs))"
    by (intro printing_join) (auto simp: list_all_iff byte_of_def)
  then show ?case by (simp add: byte_of_def)
qed (simp_all add: byte_of_def)

lemma json_lines:
  assumes "vs \<noteq> []" and "\<And>v. v \<in> set vs \<Longrightarrow> list_all printing (number_texts v)"
  shows "split_on newline (join [newline] (map json_text vs)) = map json_text vs"
  using assms by (intro split_on_join) (auto dest: printing_no_newline [OF json_text_printing])

end
