(* ===== verification/Agent_Fs.thy ===== *)
theory Agent_Fs
  imports Host_Path Go_Strings Runtime_Stack
begin

section \<open>The filesystem of zones over host directories (\<open>filespace_core.go\<close>)\<close>

text \<open>
  A virtual path belongs to the zone with the longest virtual root it is under; the zone maps it below its
  host root, and the guard of \<open>Host_Path\<close> decides whether the host path may be used. Zones that are not
  writable refuse every change. \<open>NewAIFilesystem\<close> (\<open>filesystem_env.go\<close>) builds the three zones of a session.
  The theory holds the operations; what they guarantee is in \<open>Agent_Fs_Safety\<close>.
\<close>

subsection \<open>Zones\<close>

record ZoneConfig =
  zc_VirtualRoot :: string
  zc_HostRoot :: string
  zc_Writable :: bool
  zc_Kind :: string

type_synonym RelevanceEvaluator = "string \<Rightarrow> PathMeta \<Rightarrow> string"

record AgentOptions =
  ag_Zones :: "ZoneConfig list"
  ag_PathEnv :: "string list"
  ag_RelevanceEval :: "RelevanceEvaluator option"
  ag_EnsureHostRoots :: bool
  ag_DefaultDirPerm :: FileMode
  ag_DefaultFilePerm :: FileMode
  ag_WriteLimitedBytes :: int

record zone =
  zn_virtualRoot :: string
  zn_hostRoot :: string
  zn_writable :: bool
  zn_kind :: string

record aiFilesystem =
  af_zones :: "zone list"
  af_pathEnv :: "string list"
  af_relevanceEval :: "RelevanceEvaluator option"
  af_dirPerm :: FileMode
  af_filePerm :: FileMode
  af_writeLimitedBytes :: int

abbreviation normalizeVirtualPath :: "string \<Rightarrow> string" where
  "normalizeVirtualPath \<equiv> normalizeAbsolutePath"

definition af_dedupe :: "string list \<Rightarrow> string list" where
  "af_dedupe paths = sort (dedupe_first paths)"

definition dedupeNormalizedPaths :: "string list \<Rightarrow> string list" where
  "dedupeNormalizedPaths paths = af_dedupe (filter (\<lambda>p. p \<noteq> ''/'') (map normalizeVirtualPath paths))"

definition nonEmpty :: "string \<Rightarrow> string \<Rightarrow> string" where
  "nonEmpty v fallback = (if trim_space v = [] then fallback else v)"

text \<open>Calls of the operating system from an operation.\<close>

definition os_do :: "('e \<Rightarrow> go_error option \<times> 'e) \<Rightarrow> 'e sys \<Rightarrow> (go_error + unit) \<times> 'e sys" where
  "os_do f s =
     (case f (sy_env s) of (err, w) \<Rightarrow> (case err of None \<Rightarrow> Inr () | Some e \<Rightarrow> Inl e, s\<lparr>sy_env := w\<rparr>))"

subsection \<open>Building (\<open>NewFilesystem\<close>)\<close>

fun build_zones :: "'e os \<Rightarrow> bool \<Rightarrow> FileMode \<Rightarrow> ZoneConfig list \<Rightarrow> string list \<Rightarrow> zone list \<Rightarrow> 'e sys \<Rightarrow>
    (go_error + zone list) \<times> 'e sys" where
  "build_zones os ensure perm [] seen acc s = (Inr acc, s)"
| "build_zones os ensure perm (cfg # cfgs) seen acc s =
     (let vr = normalizeVirtualPath (zc_VirtualRoot cfg) in
      if vr = ''/'' then (Inl (ErrText ''zone virtual root must not be /''), s)
      else let hostRoot = trim_space (zc_HostRoot cfg) in
        if hostRoot = [] then (Inl (ErrText (''zone '' @ vr @ '' host root is required'')), s)
        else (case os_Abs os hostRoot (sy_env s) of
          Inl e \<Rightarrow> (Inl (ErrWrap (''resolve host root for '' @ vr @ '' failed: '' @ error_text e) e), s)
        | Inr absHost \<Rightarrow>
            (let absHost = path_clean absHost in
             if vr \<in> set seen then (Inl (ErrText (''duplicate zone '' @ vr)), s)
             else (case (if ensure then os_do (os_MkdirAll os absHost perm) s else (Inr (), s)) of
                (Inl e, s) \<Rightarrow> (Inl (ErrWrap (''create host root for '' @ vr @ '' failed: '' @ error_text e) e), s)
              | (Inr _, s) \<Rightarrow>
                  build_zones os ensure perm cfgs (vr # seen)
                    (acc @ [\<lparr>zn_virtualRoot = vr, zn_hostRoot = absHost, zn_writable = zc_Writable cfg,
                             zn_kind = trim_space (zc_Kind cfg)\<rparr>]) s))))"

definition zone_longer :: "zone \<Rightarrow> zone \<Rightarrow> bool" where
  "zone_longer a b \<longleftrightarrow> length (zn_virtualRoot b) < length (zn_virtualRoot a)"

definition NewFilesystem :: "'e os \<Rightarrow> AgentOptions \<Rightarrow> 'e sys \<Rightarrow> (go_error + aiFilesystem) \<times> 'e sys" where
  "NewFilesystem os opts s =
     (let dirPerm = (if ag_DefaultDirPerm opts = 0 then 493 else ag_DefaultDirPerm opts);
          filePerm = (if ag_DefaultFilePerm opts = 0 then 420 else ag_DefaultFilePerm opts) in
      case build_zones os (ag_EnsureHostRoots opts) dirPerm (ag_Zones opts) [] [] s of
        (Inl e, s) \<Rightarrow> (Inl e, s)
      | (Inr zones, s) \<Rightarrow>
          (if zones = [] then (Inl (ErrText ''at least one zone is required''), s)
           else (Inr \<lparr>af_zones = stable_sort_by zone_longer zones,
                      af_pathEnv = dedupeNormalizedPaths (ag_PathEnv opts),
                      af_relevanceEval = ag_RelevanceEval opts, af_dirPerm = dirPerm, af_filePerm = filePerm,
                      af_writeLimitedBytes = ag_WriteLimitedBytes opts\<rparr>, s)))"

definition VirtualTaskOutputRoot :: string where "VirtualTaskOutputRoot = ''/task_outputs''"
definition VirtualTempWorkRoot :: string where "VirtualTempWorkRoot = ''/temp_work''"
definition VirtualKnowledgeRoot :: string where "VirtualKnowledgeRoot = ''/knowledge_base''"

definition session_zones :: "string \<Rightarrow> ZoneConfig list" where
  "session_zones base =
     [\<lparr>zc_VirtualRoot = VirtualTaskOutputRoot, zc_HostRoot = path_join2 base ''task_outputs'',
       zc_Writable = True, zc_Kind = ''task_output_dir''\<rparr>,
      \<lparr>zc_VirtualRoot = VirtualTempWorkRoot, zc_HostRoot = path_join2 base ''temp_work'',
       zc_Writable = True, zc_Kind = ''temp_work_dir''\<rparr>,
      \<lparr>zc_VirtualRoot = VirtualKnowledgeRoot, zc_HostRoot = path_join2 base ''knowledge_base'',
       zc_Writable = False, zc_Kind = ''knowledge_dir''\<rparr>]"

definition session_options :: "string \<Rightarrow> RelevanceEvaluator option \<Rightarrow> int \<Rightarrow> AgentOptions" where
  "session_options base eval limit =
     \<lparr>ag_Zones = session_zones base, ag_PathEnv = [VirtualTaskOutputRoot, VirtualTempWorkRoot, VirtualKnowledgeRoot],
      ag_RelevanceEval = eval, ag_EnsureHostRoots = True, ag_DefaultDirPerm = 0, ag_DefaultFilePerm = 0,
      ag_WriteLimitedBytes = limit\<rparr>"

text \<open>The host directory a session is given: the trimmed name, or the current directory, made absolute.\<close>

definition host_base :: "'e os \<Rightarrow> string \<Rightarrow> 'e \<Rightarrow> go_error + string" where
  "host_base os hostRoot w =
     (case (if trim_space hostRoot = [] then os_Getwd os w else Inr (trim_space hostRoot)) of
        Inl e \<Rightarrow> Inl e
      | Inr base \<Rightarrow> os_Abs os base w)"

definition NewDefaultFilesystem :: "'e os \<Rightarrow> string \<Rightarrow> 'e sys \<Rightarrow> (go_error + aiFilesystem) \<times> 'e sys" where
  "NewDefaultFilesystem os hostRoot s =
     (case host_base os hostRoot (sy_env s) of
        Inl e \<Rightarrow> (Inl e, s)
      | Inr base \<Rightarrow> NewFilesystem os (session_options base None 0) s)"

subsection \<open>Paths\<close>

definition matchZone :: "aiFilesystem \<Rightarrow> string \<Rightarrow> zone option" where
  "matchZone f pathValue =
     (let p = normalizeVirtualPath pathValue in
      find (\<lambda>z. p = zn_virtualRoot z \<or> has_prefix p (zn_virtualRoot z @ ''/'')) (af_zones f))"

definition host_path :: "zone \<Rightarrow> string \<Rightarrow> string" where
  "host_path z p = path_clean (path_join2 (zn_hostRoot z) (trim_prefix (trim_prefix p (zn_virtualRoot z)) ''/''))"

definition toHostPath :: "'e os \<Rightarrow> zone \<Rightarrow> string \<Rightarrow> 'e \<Rightarrow> go_error + string" where
  "toHostPath os z virtualPath w =
     (let p = normalizeVirtualPath virtualPath; cleaned = host_path z p in
      case pathguard_Check os (zn_hostRoot z) cleaned w of
        None \<Rightarrow> Inr cleaned
      | Some e \<Rightarrow> Inl (if e = ErrEscape then ErrText (''path escape is not allowed: '' @ p) else e))"

definition toVirtualPath :: "zone \<Rightarrow> string \<Rightarrow> go_error + string" where
  "toVirtualPath z hostPath =
     (case filepath_Rel (zn_hostRoot z) (path_clean hostPath) of
        Inl e \<Rightarrow> Inl e
      | Inr rel \<Rightarrow>
          (if rel = ''.'' then Inr (zn_virtualRoot z)
           else if has_prefix rel ''../'' \<or> rel = ''..'' then Inl (ErrText ''host path is outside zone root'')
           else Inr (normalizeVirtualPath (path_join2 (zn_virtualRoot z) rel))))"

definition resolveZone :: "'e os \<Rightarrow> aiFilesystem \<Rightarrow> string \<Rightarrow> 'e \<Rightarrow> (zone \<times> string) option" where
  "resolveZone os f pathValue w =
     (let p = normalizeVirtualPath pathValue in
      case matchZone f p of
        None \<Rightarrow> None
      | Some z \<Rightarrow> (case toHostPath os z p w of Inl e \<Rightarrow> None | Inr hostPath \<Rightarrow> Some (z, hostPath)))"

definition af_resolvePath :: "'e os \<Rightarrow> aiFilesystem \<Rightarrow> string \<Rightarrow> 'e \<Rightarrow> go_error + zone \<times> string" where
  "af_resolvePath os f pathValue w =
     (let p = normalizeVirtualPath pathValue in
      case matchZone f p of
        None \<Rightarrow> Inl (ErrText (''path is outside allowed roots: '' @ p))
      | Some z \<Rightarrow> (case toHostPath os z p w of Inl e \<Rightarrow> Inl e | Inr hostPath \<Rightarrow> Inr (z, hostPath)))"

text \<open>The context check that every operation but two begins with.\<close>

definition checked :: "('a \<Rightarrow> 'e sys \<Rightarrow> (go_error + 'b) \<times> 'e sys) \<Rightarrow> ('a, 'b, 'e) op" where
  "checked f x s =
     (case executionContextErr s of (Some e, s) \<Rightarrow> (Inl e, s) | (None, s) \<Rightarrow> f x s)"

subsection \<open>Reading\<close>

definition AF_RequireAbsolutePath :: "'e os \<Rightarrow> aiFilesystem \<Rightarrow> (string, string, 'e) op" where
  "AF_RequireAbsolutePath os f raw s =
     (let p = trim_space raw in
      if p = [] then (Inl (ErrText ''path is required''), s)
      else if \<not> has_prefix p ''/'' then (Inl (ErrText (''path must be absolute: '' @ raw)), s)
      else let p = normalizeVirtualPath p in
        if p = ''/'' then (Inr p, s)
        else (case af_resolvePath os f p (sy_env s) of Inl e \<Rightarrow> (Inl e, s) | Inr _ \<Rightarrow> (Inr p, s)))"

definition AF_ListChildren :: "'e os \<Rightarrow> aiFilesystem \<Rightarrow> (string, string list, 'e) op" where
  "AF_ListChildren os f = checked (\<lambda>dir s.
     let dir = normalizeVirtualPath dir in
     if dir = ''/'' then (Inr (sort (dedupe_first (map zn_virtualRoot (af_zones f)))), s)
     else (case af_resolvePath os f dir (sy_env s) of
       Inl e \<Rightarrow> (Inl e, s)
     | Inr (_, hostPath) \<Rightarrow>
         (case os_ReadDir os hostPath (sy_env s) of
            Inl e \<Rightarrow> (Inl e, s)
          | Inr names \<Rightarrow> (Inr (sort (map (path_join2 dir) names)), s))))"

definition AF_IsDirPath :: "'e os \<Rightarrow> aiFilesystem \<Rightarrow> (string, bool, 'e) op" where
  "AF_IsDirPath os f = checked (\<lambda>pathValue s.
     let p = normalizeVirtualPath pathValue in
     if p = ''/'' then (Inr True, s)
     else (case matchZone f p of
       None \<Rightarrow> (Inr False, s)
     | Some z \<Rightarrow>
         (if p = zn_virtualRoot z then (Inr True, s)
          else (case af_resolvePath os f p (sy_env s) of
            Inl e \<Rightarrow> (Inl e, s)
          | Inr (_, hostPath) \<Rightarrow>
              (case os_Stat_IsDir os hostPath (sy_env s) of
                 Inl e \<Rightarrow> (if os_IsNotExist os e then (Inr False, s) else (Inl e, s))
               | Inr d \<Rightarrow> (Inr d, s))))))"

definition AF_ReadRawContent :: "'e os \<Rightarrow> aiFilesystem \<Rightarrow> (string, string, 'e) op" where
  "AF_ReadRawContent os f = checked (\<lambda>pathValue s.
     case af_resolvePath os f pathValue (sy_env s) of
       Inl e \<Rightarrow> (Inl e, s)
     | Inr (_, hostPath) \<Rightarrow> (os_ReadFile os hostPath (sy_env s), s))"

text \<open>The visits of a walk, one after the other: the context is asked at each, the first error ends it.\<close>

fun walk_zone :: "zone \<Rightarrow> (string \<times> bool \<times> go_error option) list \<Rightarrow> string list \<Rightarrow> 'e sys \<Rightarrow>
    (go_error + string list) \<times> 'e sys" where
  "walk_zone z [] files s = (Inr files, s)"
| "walk_zone z ((p, isDir, walkErr) # visits) files s =
     (case executionContextErr s of
        (Some e, s) \<Rightarrow> (Inl e, s)
      | (None, s) \<Rightarrow>
          (case walkErr of
             Some e \<Rightarrow> (Inl e, s)
           | None \<Rightarrow>
               (if isDir then walk_zone z visits files s
                else (case toVirtualPath z p of
                  Inl e \<Rightarrow> (Inl e, s)
                | Inr vpath \<Rightarrow> walk_zone z visits (files @ [vpath]) s))))"

definition collectZoneFiles :: "'e os \<Rightarrow> zone \<Rightarrow> (string, string list, 'e) op" where
  "collectZoneFiles os z target s =
     (let target = normalizeVirtualPath target in
      case toHostPath os z target (sy_env s) of
        Inl e \<Rightarrow> (Inl e, s)
      | Inr hostTarget \<Rightarrow>
          (case os_Stat_IsDir os hostTarget (sy_env s) of
             Inl e \<Rightarrow> (Inl e, s)
           | Inr False \<Rightarrow> (Inr [target], s)
           | Inr True \<Rightarrow>
               (case walk_zone z (os_WalkDir os hostTarget (sy_env s)) [] s of
                  (Inl e, s) \<Rightarrow> (Inl e, s)
                | (Inr files, s) \<Rightarrow> (Inr (sort files), s))))"

fun collect_zones :: "'e os \<Rightarrow> zone list \<Rightarrow> string list \<Rightarrow> 'e sys \<Rightarrow> (go_error + string list) \<times> 'e sys" where
  "collect_zones os [] out s = (Inr out, s)"
| "collect_zones os (z # zs) out s =
     (case collectZoneFiles os z (zn_virtualRoot z) s of
        (Inl e, s) \<Rightarrow> (Inl e, s)
      | (Inr files, s) \<Rightarrow> collect_zones os zs (out @ files) s)"

definition AF_CollectFilesUnder :: "'e os \<Rightarrow> aiFilesystem \<Rightarrow> (string, string list, 'e) op" where
  "AF_CollectFilesUnder os f = checked (\<lambda>target s.
     let target = normalizeVirtualPath target in
     if target = ''/''
     then (case collect_zones os (af_zones f) [] s of
             (Inl e, s) \<Rightarrow> (Inl e, s)
           | (Inr out, s) \<Rightarrow> (Inr (af_dedupe (sort out)), s))
     else (case af_resolvePath os f target (sy_env s) of
             Inl e \<Rightarrow> (Inl e, s)
           | Inr (z, _) \<Rightarrow> collectZoneFiles os z target s))"

definition search_dir :: "'e os \<Rightarrow> aiFilesystem \<Rightarrow> (string \<times> bool, string list, 'e) op" where
  "search_dir os f x s =
     (if snd x then AF_CollectFilesUnder os f (fst x) s
      else (Inl (ErrText (fst x @ '': Is a directory (use -r to search recursively)'')), s))"

definition AF_ResolveSearchPaths :: "'e os \<Rightarrow> aiFilesystem \<Rightarrow> (string \<times> bool, string list, 'e) op" where
  "AF_ResolveSearchPaths os f = checked (\<lambda>x s.
     let target = fst x in
     case AF_IsDirPath os f target s of
       (Inl e, s) \<Rightarrow> (Inl e, s)
     | (Inr True, s) \<Rightarrow> search_dir os f x s
     | (Inr False, s) \<Rightarrow>
         (case af_resolvePath os f target (sy_env s) of
            Inl e \<Rightarrow> (Inl e, s)
          | Inr (_, hostPath) \<Rightarrow>
              (case os_Stat_IsDir os hostPath (sy_env s) of
                 Inl e \<Rightarrow>
                   (Inl (if os_IsNotExist os e then ErrText (target @ '': No such file or directory'') else e), s)
               | Inr True \<Rightarrow> search_dir os f x s
               | Inr False \<Rightarrow>
                   (if resolveZone os f target (sy_env s) = None
                    then (Inl (ErrText (target @ '': No such file or directory'')), s)
                    else (Inr [normalizeVirtualPath target], s)))))"

subsection \<open>Writing\<close>

definition over_limit :: "aiFilesystem \<Rightarrow> string \<Rightarrow> bool" where
  "over_limit f content \<longleftrightarrow> 0 < af_writeLimitedBytes f \<and> af_writeLimitedBytes f < int (length content)"

definition limit_error :: "string \<Rightarrow> aiFilesystem \<Rightarrow> go_error" where
  "limit_error what f = ErrText (what @ '' exceeds limit ('' @ show_int (af_writeLimitedBytes f) @ '' bytes)'')"

text \<open>What the changing operations begin with: the path must resolve, in a writable zone.\<close>

definition writable_path :: "'e os \<Rightarrow> aiFilesystem \<Rightarrow> string \<Rightarrow> 'e \<Rightarrow> go_error + string" where
  "writable_path os f pathValue w =
     (case af_resolvePath os f pathValue w of
        Inl e \<Rightarrow> Inl e
      | Inr (z, hostPath) \<Rightarrow> (if zn_writable z then Inr hostPath else Inl ErrUnsupported))"

definition AF_WriteFile :: "'e os \<Rightarrow> aiFilesystem \<Rightarrow> (string \<times> string, unit, 'e) op" where
  "AF_WriteFile os f = checked (\<lambda>(filePath, content) s.
     case writable_path os f filePath (sy_env s) of
       Inl e \<Rightarrow> (Inl e, s)
     | Inr hostPath \<Rightarrow>
         (if over_limit f content then (Inl (limit_error ''write'' f), s)
          else (case os_do (os_MkdirAll os (path_dir hostPath) (af_dirPerm f)) s of
            (Inl e, s) \<Rightarrow> (Inl e, s)
          | (Inr _, s) \<Rightarrow> os_do (os_WriteFile os hostPath content (af_filePerm f)) s)))"

definition AF_AppendFile :: "'e os \<Rightarrow> aiFilesystem \<Rightarrow> (string \<times> string, unit, 'e) op" where
  "AF_AppendFile os f = checked (\<lambda>(filePath, content) s.
     case writable_path os f filePath (sy_env s) of
       Inl e \<Rightarrow> (Inl e, s)
     | Inr hostPath \<Rightarrow>
         (if over_limit f content then (Inl (limit_error ''append'' f), s)
          else (case os_do (os_MkdirAll os (path_dir hostPath) (af_dirPerm f)) s of
            (Inl e, s) \<Rightarrow> (Inl e, s)
          | (Inr _, s) \<Rightarrow>
              (case os_do (os_OpenAppend os hostPath (af_filePerm f)) s of
                 (Inl e, s) \<Rightarrow> (Inl e, s)
               | (Inr _, s) \<Rightarrow> os_do (os_WriteString os hostPath content) s))))"

definition AF_EditFile :: "'e os \<Rightarrow> aiFilesystem \<Rightarrow> (string \<times> string \<times> string \<times> bool, unit, 'e) op" where
  "AF_EditFile os f = checked (\<lambda>(filePath, oldString, newString, replaceAll) s.
     case writable_path os f filePath (sy_env s) of
       Inl e \<Rightarrow> (Inl e, s)
     | Inr hostPath \<Rightarrow>
         (case os_ReadFile os hostPath (sy_env s) of
            Inl e \<Rightarrow> (Inl e, s)
          | Inr content \<Rightarrow>
              (let count = go_count content oldString in
               if count = 0 then (Inl (ErrText ''old string not found''), s)
               else if \<not> replaceAll \<and> 1 < count
               then (Inl (ErrText (''old string appears '' @ show_nat count @ '' times'')), s)
               else let content = go_replace content oldString newString (if replaceAll then count else 1) in
                 if over_limit f content then (Inl (limit_error ''edit result'' f), s)
                 else os_do (os_WriteFile os hostPath content (af_filePerm f)) s)))"

definition AF_MakeDir :: "'e os \<Rightarrow> aiFilesystem \<Rightarrow> (string, unit, 'e) op" where
  "AF_MakeDir os f = checked (\<lambda>dirPath s.
     case writable_path os f dirPath (sy_env s) of
       Inl e \<Rightarrow> (Inl e, s)
     | Inr hostPath \<Rightarrow> os_do (os_MkdirAll os hostPath (af_dirPerm f)) s)"

definition AF_RemoveFile :: "'e os \<Rightarrow> aiFilesystem \<Rightarrow> (string, unit, 'e) op" where
  "AF_RemoveFile os f = checked (\<lambda>filePath s.
     case writable_path os f filePath (sy_env s) of
       Inl e \<Rightarrow> (Inl e, s)
     | Inr hostPath \<Rightarrow>
         (case os_Stat_IsDir os hostPath (sy_env s) of
            Inl e \<Rightarrow> (Inl e, s)
          | Inr True \<Rightarrow> (Inl (ErrText (''cannot remove directory: '' @ filePath)), s)
          | Inr False \<Rightarrow> os_do (os_Remove os hostPath) s))"

definition AF_CheckPathOp :: "'e os \<Rightarrow> aiFilesystem \<Rightarrow> (PathOp \<times> string, unit, 'e) op" where
  "AF_CheckPathOp os f = checked (\<lambda>(op, pathValue) s.
     case af_resolvePath os f pathValue (sy_env s) of
       Inl e \<Rightarrow> (Inl e, s)
     | Inr (z, _) \<Rightarrow>
         (if (op = PathOpWrite \<or> op = PathOpMkdir \<or> op = PathOpRemove) \<and> \<not> zn_writable z
          then (Inl ErrUnsupported, s) else (Inr (), s)))"

subsection \<open>Describing\<close>

definition file_kinds :: "(string \<times> string) list" where
  "file_kinds =
     [(''.md'', ''markdown''), (''.txt'', ''text''), (''.json'', ''json''), (''.yaml'', ''yaml''),
      (''.yml'', ''yaml''), (''.go'', ''go_source''), (''.sh'', ''shell_script'')]"

definition detectFileKind :: "string \<Rightarrow> string" where
  "detectFileKind pathValue =
     (case find (\<lambda>k. has_suffix (to_lower pathValue) (fst k)) file_kinds of
        None \<Rightarrow> ''file'' | Some k \<Rightarrow> snd k)"

definition splitLines :: "string \<Rightarrow> string list" where
  "splitLines raw =
     (if raw = [] then []
      else let ls = split_on (CHR 0x0A) raw in if last ls = [] then butlast ls else ls)"

fun closing_rule :: "nat \<Rightarrow> string list \<Rightarrow> int" where
  "closing_rule i [] = -1"
| "closing_rule i (l # ls) = (if trim_space l = ''---'' then int i + 1 else closing_rule (Suc i) ls)"

definition countFrontMatterLines :: "string list \<Rightarrow> int" where
  "countFrontMatterLines ls =
     (if length ls < 3 then -1 else if trim_space (hd ls) \<noteq> ''---'' then -1 else closing_rule 1 (tl ls))"

text \<open>\<open>speakerLineRe\<close> on a line without a newline: a rune that is no blank, at most forty runes, a colon
  (ASCII or full width) and at least one more rune.\<close>

definition regexp_blank :: "string set" where
  "regexp_blank = {[CHR 0x09], [CHR 0x0A], [CHR 0x0C], [CHR 0x0D], [CHR 0x20]}"

definition colon_runes :: "string set" where
  "colon_runes = {'':'', [CHR 0xEF, CHR 0xBC, CHR 0x9A]}"

definition speaker_line :: "string \<Rightarrow> bool" where
  "speaker_line line =
     (let rs = rune_chunks line in
      rs \<noteq> [] \<and> hd rs \<notin> regexp_blank \<and>
      list_ex (\<lambda>i. Suc i < length rs \<and> rs ! i \<in> colon_runes) [1..<42])"

definition countSpeakerRows :: "string list \<Rightarrow> int" where
  "countSpeakerRows ls =
     (let count = length (filter (\<lambda>l. speaker_line (trim_space l)) ls) in if count = 0 then -1 else int count)"

definition with_relevance :: "aiFilesystem \<Rightarrow> string \<Rightarrow> PathMeta \<Rightarrow> PathMeta" where
  "with_relevance f p meta =
     (case af_relevanceEval f of
        None \<Rightarrow> meta
      | Some eval \<Rightarrow> meta\<lparr>pm_UserRelevance := nonEmpty (eval p meta) (pm_UserRelevance meta)\<rparr>)"

definition dir_meta :: "string \<Rightarrow> zone option \<Rightarrow> PathMeta" where
  "dir_meta access z =
     (let kind = (case z of None \<Rightarrow> [] | Some z \<Rightarrow> zn_kind z); named = trim_space kind \<noteq> [] in
      \<lparr>pm_Exists = True, pm_IsDir = True, pm_Kind = (if named then kind else ''dir''), pm_Access = access,
       pm_Capabilities = [''describe'', ''list'', ''search''] @
         (if named \<and> (case z of None \<Rightarrow> False | Some z \<Rightarrow> zn_writable z) then [''mkdir'', ''write''] else []),
       pm_LineCount = -1, pm_FrontMatterLines = -1, pm_SpeakerRows = -1, pm_UserRelevance = ''unknown''\<rparr>)"

definition file_meta :: "string \<Rightarrow> string \<Rightarrow> string \<Rightarrow> PathMeta" where
  "file_meta p access raw =
     (let ls = splitLines raw in
      \<lparr>pm_Exists = True, pm_IsDir = False, pm_Kind = detectFileKind p, pm_Access = access,
       pm_Capabilities = [''describe'', ''read''] @
         (if access = PathAccessReadWrite then [''write'', ''append'', ''edit'', ''remove''] else []),
       pm_LineCount = int (length ls), pm_FrontMatterLines = countFrontMatterLines ls,
       pm_SpeakerRows = countSpeakerRows ls, pm_UserRelevance = ''unknown''\<rparr>)"

definition AF_DescribePath :: "'e os \<Rightarrow> aiFilesystem \<Rightarrow> (string, PathMeta, 'e) op" where
  "AF_DescribePath os f = checked (\<lambda>pathValue s.
     case AF_IsDirPath os f pathValue s of
       (Inl e, s) \<Rightarrow> (Inl e, s)
     | (Inr isDir, s) \<Rightarrow>
         (let p = normalizeVirtualPath pathValue;
              z = map_option fst (resolveZone os f p (sy_env s));
              access = (case z of None \<Rightarrow> PathAccessReadOnly
                        | Some z \<Rightarrow> if zn_writable z then PathAccessReadWrite else PathAccessReadOnly) in
          if isDir then (Inr (with_relevance f p (dir_meta access z)), s)
          else (case AF_ReadRawContent os f p s of
            (Inl e, s) \<Rightarrow> (Inl e, s)
          | (Inr raw, s) \<Rightarrow> (Inr (with_relevance f p (file_meta p access raw)), s))))"

subsection \<open>The filesystem as callbacks\<close>

definition ai_filesystem :: "'e os \<Rightarrow> aiFilesystem \<Rightarrow> 'e Filesystem" where
  "ai_filesystem os f =
     \<lparr>fs_RootDir = ''/'', fs_RequireAbsolutePath = AF_RequireAbsolutePath os f,
      fs_ListChildren = AF_ListChildren os f, fs_IsDirPath = AF_IsDirPath os f,
      fs_ReadRawContent = AF_ReadRawContent os f, fs_ResolveSearchPaths = AF_ResolveSearchPaths os f,
      fs_CollectFilesUnder = AF_CollectFilesUnder os f, fs_WriteFile = AF_WriteFile os f,
      fs_AppendFile = AF_AppendFile os f, fs_EditFile = AF_EditFile os f,
      fs_DescribePath = Some (AF_DescribePath os f), fs_ListEntries = None, fs_EnumeratePaths = None,
      fs_ReadMany = None, fs_SearchContent = None, fs_ListExternalCommands = None, fs_RunExternalCommand = None,
      fs_ReadExternalManual = None, fs_MakeDir = Some (AF_MakeDir os f), fs_RemoveFile = Some (AF_RemoveFile os f),
      fs_RemoveDir = None, fs_ApplyMutations = None, fs_VirtualMounts = None,
      fs_PathEnv = Some (dedupeNormalizedPaths (af_pathEnv f)), fs_CheckPathOp = Some (AF_CheckPathOp os f)\<rparr>"

text \<open>\<open>NewAIFilesystem\<close>, of the type of the runtime stack's \<open>host_filesystem\<close>.\<close>

definition NewAIFilesystem :: "'e os \<Rightarrow> RelevanceEvaluator option \<Rightarrow> string \<Rightarrow> int \<Rightarrow> 'e sys \<Rightarrow>
    (go_error + 'e Filesystem) \<times> 'e sys" where
  "NewAIFilesystem os eval hostRoot limit s =
     (case host_base os hostRoot (sy_env s) of
        Inl e \<Rightarrow> (Inl e, s)
      | Inr base \<Rightarrow>
          (case NewFilesystem os (session_options base eval limit) s of
             (Inl e, s) \<Rightarrow> (Inl e, s)
           | (Inr f, s) \<Rightarrow> (Inr (ai_filesystem os f), s)))"

end
