(* ===== verification/Agent_Fs_Safety.thy ===== *)
theory Agent_Fs_Safety
  imports Agent_Fs Engine_Safety
begin

section \<open>What the zones guarantee\<close>

text \<open>
  Mapping a virtual path to the host adds its components below its zone's root to the components of the
  host root; from this follow the round trip to virtual paths, that every host path an operation changes
  is inside the host root of a writable zone, and, with the theorem on executions, that no script changes
  anything else. The longest-match lookup of zones interprets \<open>point_table\<close>.
\<close>

subsection \<open>From virtual paths to the host and back\<close>

definition zone_wf :: "zone \<Rightarrow> bool" where
  "zone_wf z \<longleftrightarrow> canonical (zn_virtualRoot z) \<and> zn_virtualRoot z \<noteq> ''/'' \<and> canonical (zn_hostRoot z)"

definition inside :: "string \<Rightarrow> string \<Rightarrow> bool" where
  "inside root p \<longleftrightarrow> root = ''/'' \<or> under root p"

lemma host_path_abs:
  assumes z: "zone_wf z" and p: "canonical p" and below: "under (zn_virtualRoot z) p"
  obtains ts where "path_comps p = path_comps (zn_virtualRoot z) @ ts" "list_all good_comp ts"
    "host_path z p = abs_path (path_comps (zn_hostRoot z) @ ts)"
proof -
  let ?vs = "path_comps (zn_virtualRoot z)" and ?hs = "path_comps (zn_hostRoot z)"
  have z': "canonical (zn_virtualRoot z)" "zn_virtualRoot z \<noteq> ''/''" "canonical (zn_hostRoot z)"
    using z by (auto simp: zone_wf_def)
  obtain ts where ts: "path_comps p = ?vs @ ts"
    using below under_comps [OF z'(1) p z'(2)] by (auto simp: prefix_def)
  have good: "list_all good_comp ?vs" "list_all good_comp ts" "list_all good_comp ?hs"
    using good_path_comps [OF p] good_path_comps [OF z'(3)] by (auto simp: ts)
  have vr: "zn_virtualRoot z = abs_path ?vs" and pe: "p = abs_path (?vs @ ts)"
    using z'(1) p ts abs_path_comps [of p] by (simp_all add: abs_path_comps)
  have "?vs \<noteq> []" using z'(2) vr by (metis abs_path_def join.simps(1))
  have rel: "trim_prefix (trim_prefix p (zn_virtualRoot z)) ''/'' = join ''/'' ts"
  proof (cases "ts = []")
    case True
    then have "trim_prefix p (zn_virtualRoot z) = []" using pe vr by (simp add: trim_prefix_def has_prefix_iff)
    with True show ?thesis by (simp add: trim_prefix_def)
  next
    case False
    then have "p = zn_virtualRoot z @ ''/'' @ join ''/'' ts"
      using pe vr join_append [OF \<open>?vs \<noteq> []\<close> False] by (simp add: abs_path_def)
    then show ?thesis by (simp add: trim_prefix_append trim_prefix_append [of "''/''", simplified])
  qed
  have "path_join2 (zn_hostRoot z) (join ''/'' ts) = abs_path (?hs @ ts)"
    using clean_below [OF good(3,2)] z'(3)
    by (cases "zn_hostRoot z") (auto simp: path_join2_def abs_path_comps canonical_def)
  moreover have "path_clean (abs_path (?hs @ ts)) = abs_path (?hs @ ts)"
    using good by (simp add: path_clean_canonical canonical_abs_path)
  ultimately have "host_path z p = abs_path (?hs @ ts)" by (simp add: host_path_def rel)
  with ts good(2) show thesis by (rule that)
qed

lemma host_path_inside:
  assumes "zone_wf z" "canonical p" "under (zn_virtualRoot z) p"
  shows "canonical (host_path z p)" "inside (zn_hostRoot z) (host_path z p)"
    "host_path z p = zn_hostRoot z \<or> inside (zn_hostRoot z) (path_dir (host_path z p))"
proof -
  let ?hs = "path_comps (zn_hostRoot z)"
  have hr: "canonical (zn_hostRoot z)" using assms(1) by (simp add: zone_wf_def)
  obtain ts where ts: "list_all good_comp ts" "host_path z p = abs_path (?hs @ ts)"
    using host_path_abs [OF assms] by metis
  have good: "list_all good_comp (?hs @ us)" if "list_all good_comp us" for us
    using that good_path_comps [OF hr] by simp
  have ins: "inside (zn_hostRoot z) (abs_path (?hs @ us))" if us: "list_all good_comp us" for us
    using under_comps [OF hr canonical_abs_path [OF good [OF us]]] good [OF us] by (auto simp: inside_def)
  show "canonical (host_path z p)" using ts good by (simp add: canonical_abs_path)
  show "inside (zn_hostRoot z) (host_path z p)" using ts ins by simp
  show "host_path z p = zn_hostRoot z \<or> inside (zn_hostRoot z) (path_dir (host_path z p))"
  proof (cases ts rule: rev_cases)
    case Nil
    then show ?thesis using ts(2) hr by (simp add: abs_path_comps)
  next
    case (snoc us u)
    then have "path_dir (host_path z p) = abs_path (?hs @ us)"
      using path_dir_abs_path [of "?hs @ us" u] good [OF ts(1)] ts(2) by simp
    with ins [of us] snoc ts(1) show ?thesis by simp
  qed
qed

text \<open>Going to the host and back is the identity on the normalised paths of a zone.\<close>

lemma toVirtualPath_host_path:
  assumes z: "zone_wf z" and p: "canonical p" "\<not> ends_with_space p" and below: "under (zn_virtualRoot z) p"
  shows "toVirtualPath z (host_path z p) = Inr p"
proof -
  let ?vs = "path_comps (zn_virtualRoot z)" and ?hs = "path_comps (zn_hostRoot z)"
  have z': "canonical (zn_virtualRoot z)" "canonical (zn_hostRoot z)" using z by (auto simp: zone_wf_def)
  obtain ts where ts: "path_comps p = ?vs @ ts" "list_all good_comp ts" "host_path z p = abs_path (?hs @ ts)"
    using host_path_abs [OF z p(1) below] by metis
  have good: "list_all good_comp (?hs @ ts)" "list_all good_comp (?vs @ ts)"
    using ts good_path_comps [OF z'(1)] good_path_comps [OF z'(2)] by simp_all
  have hr: "zn_hostRoot z = abs_path ?hs" and pe: "abs_path (?vs @ ts) = p"
    using z' ts(1) abs_path_comps [OF p(1)] by (simp_all add: abs_path_comps)
  have hp: "canonical (host_path z p)" using good(1) ts(3) by (simp add: canonical_abs_path)
  have rel: "filepath_Rel (zn_hostRoot z) (host_path z p) = Inr (if ts = [] then ''.'' else join ''/'' ts)"
  proof (cases "ts = []")
    case True
    then show ?thesis using hr ts(3) by (simp add: filepath_Rel_def)
  next
    case False
    then have "zn_hostRoot z \<noteq> host_path z p"
      using ts(3) good(1) by (metis append_self_conv path_comps_abs_path)
    with False show ?thesis
      using z'(2) hp ts good(1) by (simp add: filepath_Rel_def path_clean_canonical)
  qed
  show ?thesis
  proof (cases "ts = []")
    case True
    then show ?thesis using rel hp pe z'(1) by (simp add: toVirtualPath_def path_clean_canonical abs_path_comps)
  next
    case False
    have "path_join2 (zn_virtualRoot z) (join ''/'' ts) = p"
      using clean_below [OF good_path_comps [OF z'(1)] ts(2)] z'(1) pe
      by (cases "zn_virtualRoot z") (auto simp: path_join2_def abs_path_comps canonical_def)
    then show ?thesis
      using False rel hp join_good_comps [OF ts(2) False] normalizeAbsolutePath_fix [OF p]
      by (simp add: toVirtualPath_def path_clean_canonical)
  qed
qed

subsection \<open>What resolving a path returns\<close>

lemma af_resolvePath_Inr:
  assumes "af_resolvePath os f raw w = Inr (z, hp)"
  defines "p \<equiv> normalizeVirtualPath (normalizeVirtualPath raw)"
  shows "z \<in> set (af_zones f)" "under (zn_virtualRoot z) p" "hp = host_path z p"
    "pathguard_Check os (zn_hostRoot z) hp w = None"
proof -
  have m: "matchZone f (normalizeVirtualPath raw) = Some z"
    and h: "toHostPath os z (normalizeVirtualPath raw) w = Inr hp"
    using assms(1) by (auto simp: af_resolvePath_def Let_def split: option.splits sum.splits)
  from m show "z \<in> set (af_zones f)" "under (zn_virtualRoot z) p"
    by (auto simp: matchZone_def under_def p_def Let_def find_Some_iff)
  from h show "hp = host_path z p" "pathguard_Check os (zn_hostRoot z) hp w = None"
    by (auto simp: toHostPath_def p_def Let_def split: option.splits)
qed

lemma resolved_inside:
  assumes "af_resolvePath os f raw w = Inr (z, hp)" and "zone_wf z"
  shows "canonical hp" "inside (zn_hostRoot z) hp" "hp = zn_hostRoot z \<or> inside (zn_hostRoot z) (path_dir hp)"
proof -
  note r = af_resolvePath_Inr [OF assms(1)]
  have "canonical (zn_virtualRoot z)" "zn_virtualRoot z \<noteq> ''/''" using assms(2) by (auto simp: zone_wf_def)
  from normalized_below_canonical [OF this r(2)]
  show "canonical hp" "inside (zn_hostRoot z) hp" "hp = zn_hostRoot z \<or> inside (zn_hostRoot z) (path_dir hp)"
    using host_path_inside [OF assms(2) _ r(2)] by (auto simp: r(3))
qed

lemma writable_path_Inr:
  assumes "writable_path os f raw w = Inr hp"
  obtains z where "af_resolvePath os f raw w = Inr (z, hp)" "zn_writable z"
  using assms by (auto simp: writable_path_def split: sum.splits if_splits)

subsection \<open>The operations change only what is inside writable zones\<close>

text \<open>\<open>os_keeps_below os J root\<close>: what the operating system is asked to do on paths inside \<open>root\<close> keeps
  \<open>J\<close>, and so does making sure that the directory \<open>root\<close> is in exists.\<close>

definition os_keeps_below :: "'e os \<Rightarrow> ('e \<Rightarrow> bool) \<Rightarrow> string \<Rightarrow> bool" where
  "os_keeps_below os J root \<longleftrightarrow>
     (\<forall>p perm c w. J w \<longrightarrow> inside root p \<longrightarrow>
        J (snd (os_MkdirAll os p perm w)) \<and> J (snd (os_WriteFile os p c perm w)) \<and>
        J (snd (os_OpenAppend os p perm w)) \<and> J (snd (os_WriteString os p c w)) \<and> J (snd (os_Remove os p w))) \<and>
     (\<forall>perm w. J w \<longrightarrow> J (snd (os_MkdirAll os (path_dir root) perm w)))"

definition zones_keep :: "'e os \<Rightarrow> ('e \<Rightarrow> bool) \<Rightarrow> aiFilesystem \<Rightarrow> bool" where
  "zones_keep os J f \<longleftrightarrow>
     (\<forall>z\<in>set (af_zones f). zone_wf z \<and> (zn_writable z \<longrightarrow> os_keeps_below os J (zn_hostRoot z)))"

lemma os_do_keep: "(\<And>w. J w \<Longrightarrow> J (snd (g w))) \<Longrightarrow> world J s \<Longrightarrow> kept (world J) (os_do g s)"
  by (cases "g (sy_env s)") (auto simp: os_do_def kept_def world_def, metis snd_conv)

lemma writable_keeps:
  assumes "zones_keep os J f" "writable_path os f raw w = Inr hp" "world J s"
  shows "kept (world J) (os_do (os_MkdirAll os hp perm) s)" "kept (world J) (os_do (os_MkdirAll os (path_dir hp) perm) s)"
    "kept (world J) (os_do (os_WriteFile os hp c perm) s)" "kept (world J) (os_do (os_OpenAppend os hp perm) s)"
    "kept (world J) (os_do (os_WriteString os hp c) s)" "kept (world J) (os_do (os_Remove os hp) s)"
proof -
  obtain z where z: "af_resolvePath os f raw w = Inr (z, hp)" "zn_writable z" by (rule writable_path_Inr [OF assms(2)])
  have "z \<in> set (af_zones f)" using af_resolvePath_Inr [OF z(1)] by simp
  then have wf: "zone_wf z" and k: "os_keeps_below os J (zn_hostRoot z)" using assms(1) z(2) by (auto simp: zones_keep_def)
  note ins = resolved_inside [OF z(1) wf]
  show "kept (world J) (os_do (os_MkdirAll os hp perm) s)" "kept (world J) (os_do (os_MkdirAll os (path_dir hp) perm) s)"
    "kept (world J) (os_do (os_WriteFile os hp c perm) s)" "kept (world J) (os_do (os_OpenAppend os hp perm) s)"
    "kept (world J) (os_do (os_WriteString os hp c) s)" "kept (world J) (os_do (os_Remove os hp) s)"
    using k ins by (auto simp: os_keeps_below_def intro!: os_do_keep assms(3))
qed

lemma executionContextErr_world: "executionContextErr s = (r, s') \<Longrightarrow> world J s' = world J s"
  by (auto simp: executionContextErr_def world_def split: prod.splits)

lemma checked_keep:
  "(\<And>x s. world J s \<Longrightarrow> kept (world J) (g x s)) \<Longrightarrow> keeps_inv (world J) (Some (checked g))"
  unfolding keeps_inv_Some checked_def
  by (auto simp: executionContextErr_world kept_pair split: prod.splits option.splits)

lemma reading_keep: "(\<And>x s. snd (g x s) = s) \<Longrightarrow> keeps_inv (world J) (Some (checked g))"
  by (rule checked_keep) (simp add: kept_def)

lemma AF_WriteFile_keep: "zones_keep os J f \<Longrightarrow> keeps_inv (world J) (Some (AF_WriteFile os f))"
  unfolding AF_WriteFile_def
  by (rule checked_keep, clarify?, (rule keep kept_bool writable_keeps | assumption)+)

lemma AF_AppendFile_keep: "zones_keep os J f \<Longrightarrow> keeps_inv (world J) (Some (AF_AppendFile os f))"
  unfolding AF_AppendFile_def
  by (rule checked_keep, clarify?, (rule keep kept_bool writable_keeps | assumption)+)

lemma AF_EditFile_keep: "zones_keep os J f \<Longrightarrow> keeps_inv (world J) (Some (AF_EditFile os f))"
  unfolding AF_EditFile_def
  by (rule checked_keep, clarify?, (rule keep kept_bool writable_keeps | assumption)+)

lemma AF_MakeDir_keep: "zones_keep os J f \<Longrightarrow> keeps_inv (world J) (Some (AF_MakeDir os f))"
  unfolding AF_MakeDir_def
  by (rule checked_keep, clarify?, (rule keep kept_bool writable_keeps | assumption)+)

lemma AF_RemoveFile_keep: "zones_keep os J f \<Longrightarrow> keeps_inv (world J) (Some (AF_RemoveFile os f))"
  unfolding AF_RemoveFile_def
  by (rule checked_keep, clarify?, (rule keep kept_bool writable_keeps | assumption)+)

lemma AF_RequireAbsolutePath_keep: "keeps_inv (world J) (Some (AF_RequireAbsolutePath os f))"
  by (auto simp: keeps_inv_Some AF_RequireAbsolutePath_def kept_def Let_def split: sum.splits)

lemma AF_ListChildren_keep: "keeps_inv (world J) (Some (AF_ListChildren os f))"
  unfolding AF_ListChildren_def
  by (rule reading_keep) (auto simp: Let_def split: sum.splits option.splits)

lemma AF_IsDirPath_keep: "keeps_inv (world J) (Some (AF_IsDirPath os f))"
  unfolding AF_IsDirPath_def
  by (rule reading_keep) (auto simp: Let_def split: sum.splits option.splits)

lemma AF_ReadRawContent_keep: "keeps_inv (world J) (Some (AF_ReadRawContent os f))"
  unfolding AF_ReadRawContent_def
  by (rule reading_keep) (auto simp: Let_def split: sum.splits option.splits)

lemma AF_CheckPathOp_keep: "keeps_inv (world J) (Some (AF_CheckPathOp os f))"
  unfolding AF_CheckPathOp_def
  by (rule reading_keep) (auto simp: Let_def split: sum.splits option.splits)

lemma walk_zone_keep: "world J s \<Longrightarrow> kept (world J) (walk_zone z visits files s)"
proof (induction visits arbitrary: files s)
  case (Cons v visits)
  then show ?case
    by (cases v; simp)
      (rule keep kept_bool Cons.IH world_executionContextErr | assumption | simp add: executionContextErr_world)+
qed (simp add: kept_def)

lemma collectZoneFiles_keep: "world J s \<Longrightarrow> kept (world J) (collectZoneFiles os z target s)"
  unfolding collectZoneFiles_def
  by (rule keep kept_bool walk_zone_keep | assumption)+

lemma collect_zones_keep: "world J s \<Longrightarrow> kept (world J) (collect_zones os zs out s)"
proof (induction zs arbitrary: out s)
  case (Cons z zs)
  show ?case
    unfolding collect_zones.simps by (rule keep Cons collectZoneFiles_keep | assumption)+
qed (simp add: kept_def)

lemma AF_CollectFilesUnder_keep: "keeps_inv (world J) (Some (AF_CollectFilesUnder os f))"
  unfolding AF_CollectFilesUnder_def
  by (rule checked_keep, (rule keep collect_zones_keep collectZoneFiles_keep | assumption)+)

lemma search_dir_keep: "world J s \<Longrightarrow> kept (world J) (search_dir os f x s)"
  using keeps_invD_some [OF AF_CollectFilesUnder_keep refl, of J s os f "fst x"] unfolding search_dir_def
  by (auto simp: kept_pair)

lemma AF_ResolveSearchPaths_keep: "keeps_inv (world J) (Some (AF_ResolveSearchPaths os f))"
  unfolding AF_ResolveSearchPaths_def
  by (rule checked_keep, (rule keep kept_bool search_dir_keep keeps_invD_some [OF AF_IsDirPath_keep refl] | assumption)+)

lemma AF_DescribePath_keep: "keeps_inv (world J) (Some (AF_DescribePath os f))"
  unfolding AF_DescribePath_def
  by (rule checked_keep, (rule keep keeps_invD_some [OF AF_IsDirPath_keep refl] keeps_invD_some [OF AF_ReadRawContent_keep refl] | assumption)+)

lemma zones_keep_adapter:
  assumes "zones_keep os J f" shows "adapter_keeps J (OpsFromFilesystem (ai_filesystem os f))"
  using assms
  by (simp add: adapter_keeps_def ops_keep_def OpsFromFilesystem_def ai_filesystem_def zero_ops_def Let_def provided_def
      AF_RequireAbsolutePath_keep AF_ListChildren_keep AF_IsDirPath_keep AF_ReadRawContent_keep AF_CheckPathOp_keep
      AF_CollectFilesUnder_keep AF_ResolveSearchPaths_keep AF_DescribePath_keep AF_WriteFile_keep
      AF_AppendFile_keep AF_EditFile_keep AF_MakeDir_keep AF_RemoveFile_keep)

subsection \<open>The table of zones\<close>

lemma build_zones_distinct:
  "build_zones os ensure perm cfgs seen acc s = (Inr zones, s') \<Longrightarrow> distinct (map zn_virtualRoot acc) \<Longrightarrow>
   set seen = set (map zn_virtualRoot acc) \<Longrightarrow> distinct (map zn_virtualRoot zones)"
proof (induction cfgs arbitrary: seen acc s)
  case (Cons cfg cfgs)
  let ?vr = "normalizeVirtualPath (zc_VirtualRoot cfg)"
  obtain h s1 where fresh: "?vr \<notin> set seen"
    and rest: "build_zones os ensure perm cfgs (?vr # seen) (acc @ [\<lparr>zn_virtualRoot = ?vr, zn_hostRoot = h,
      zn_writable = zc_Writable cfg, zn_kind = trim_space (zc_Kind cfg)\<rparr>]) s1 = (Inr zones, s')"
    using Cons.prems(1) by (auto simp: Let_def split: if_splits sum.splits prod.splits)
  show ?case
    by (rule Cons.IH [OF rest]) (use Cons.prems fresh in auto)
qed simp

definition valid_zones :: "'e os \<Rightarrow> aiFilesystem \<Rightarrow> bool" where
  "valid_zones os f \<longleftrightarrow> (\<exists>opts s s'. NewFilesystem os opts s = (Inr f, s'))"

definition zone_of :: "aiFilesystem \<Rightarrow> string \<Rightarrow> zone option" where
  "zone_of f p = find (\<lambda>z. under (zn_virtualRoot z) p) (af_zones f)"

interpretation zones: point_table zn_virtualRoot af_zones zone_of "valid_zones os" for os :: "'e os"
proof
  fix f q
  assume "valid_zones os f"
  then obtain opts s s' where "NewFilesystem os opts s = (Inr f, s')" by (auto simp: valid_zones_def)
  then obtain zs s1 s2 perm where b: "build_zones os (ag_EnsureHostRoots opts) perm (ag_Zones opts) [] [] s1 = (Inr zs, s2)"
    and f: "af_zones f = stable_sort_by zone_longer zs"
    by (auto simp: NewFilesystem_def Let_def split: prod.splits sum.splits if_splits)
  show "sorted_wrt (\<lambda>a b. length (zn_virtualRoot b) \<le> length (zn_virtualRoot a)) (af_zones f)"
    using sorted_stable_sort_by [OF weak_order_key(2) [of "\<lambda>z. length (zn_virtualRoot z)"], of zs]
    by (simp add: f zone_longer_def [abs_def] not_less)
  have "mset (af_zones f) = mset zs" by (simp add: f)
  then show "distinct (map zn_virtualRoot (af_zones f))"
    using build_zones_distinct [OF b] by (metis distinct.simps(1) empty_set list.simps(8) mset_eq_imp_distinct_iff mset_map)
qed (simp add: zone_of_def)

lemma matchZone_zone_of: "matchZone f p = zone_of f (normalizeVirtualPath p)"
  by (simp add: matchZone_def zone_of_def under_def Let_def)

subsection \<open>The zones of a session\<close>

text \<open>Documented of \<open>filepath.Abs\<close>: the result is absolute and clean, and an absolute path is only cleaned.\<close>

definition abs_lawful :: "'e os \<Rightarrow> bool" where
  "abs_lawful os \<longleftrightarrow>
     (\<forall>p w. (\<forall>q. os_Abs os p w = Inr q \<longrightarrow> canonical q) \<and>
            (has_prefix p ''/'' \<longrightarrow> os_Abs os p w = Inr (path_clean p)))"

definition below :: "string \<Rightarrow> string \<Rightarrow> string" where
  "below base name = abs_path (path_comps base @ [name])"

definition session_zone_table :: "string \<Rightarrow> zone list" where
  "session_zone_table base =
     [\<lparr>zn_virtualRoot = VirtualKnowledgeRoot, zn_hostRoot = below base ''knowledge_base'', zn_writable = False,
       zn_kind = ''knowledge_dir''\<rparr>,
      \<lparr>zn_virtualRoot = VirtualTaskOutputRoot, zn_hostRoot = below base ''task_outputs'', zn_writable = True,
       zn_kind = ''task_output_dir''\<rparr>,
      \<lparr>zn_virtualRoot = VirtualTempWorkRoot, zn_hostRoot = below base ''temp_work'', zn_writable = True,
       zn_kind = ''temp_work_dir''\<rparr>]"

lemma session_names_good:
  "list_all good_comp [''knowledge_base'', ''task_outputs'', ''temp_work'']"
  by (simp add: good_comp_def)

lemma canonical_below: "canonical base \<Longrightarrow> good_comp c \<Longrightarrow> canonical (below base c)"
  by (simp add: below_def canonical_abs_path good_path_comps)

lemma join_below: "canonical base \<Longrightarrow> good_comp c \<Longrightarrow> path_join2 base c = below base c"
  using clean_below [of "path_comps base" "[c]"]
  by (cases base) (auto simp: path_join2_def below_def abs_path_comps good_path_comps canonical_def)

lemma below_trim:
  assumes "\<forall>r\<in>set space_runes. take 1 (rev r) \<noteq> [last c]" "c \<noteq> []"
  shows "trim_space (below base c) = below base c"
proof -
  have e: "\<exists>u. below base c = u @ [last c]"
  proof (cases "path_comps base = []")
    case True
    then show ?thesis using assms(2)
      by (intro exI [of _ "CHR ''/'' # butlast c"]) (simp add: below_def abs_path_def)
  next
    case False
    then show ?thesis using assms(2)
      by (intro exI [of _ "CHR ''/'' # join ''/'' (path_comps base) @ ''/'' @ butlast c"])
        (simp add: below_def abs_path_def join_append)
  qed
  then have "\<not> ends_with_space (below base c)" using not_space_last [OF assms(1)] by metis
  then show ?thesis
    by (auto intro!: trim_space_fixI simp: below_def abs_path_def starts_with_space_slash)
qed

lemma session_names_trim:
  "trim_space (below base ''knowledge_base'') = below base ''knowledge_base''"
  "trim_space (below base ''task_outputs'') = below base ''task_outputs''"
  "trim_space (below base ''temp_work'') = below base ''temp_work''"
  by (rule below_trim; simp add: space_runes_def)+

lemma name_trim: "trim_space (s @ ''r'') = s @ ''r''" if "\<not> starts_with_space (s @ ''r'')"
  using that by (rule trim_space_fixI) (rule not_space_last, simp add: space_runes_def)

lemma session_roots_normal:
  "normalizeVirtualPath VirtualKnowledgeRoot = VirtualKnowledgeRoot"
  "normalizeVirtualPath VirtualTaskOutputRoot = VirtualTaskOutputRoot"
  "normalizeVirtualPath VirtualTempWorkRoot = VirtualTempWorkRoot"
  by (rule normalizeAbsolutePath_fix;
      simp add: VirtualKnowledgeRoot_def VirtualTaskOutputRoot_def VirtualTempWorkRoot_def canonical_code is_canonical_def
        good_comp_def ends_with_space_def space_runes_def)+

lemma session_roots_distinct:
  "VirtualKnowledgeRoot \<noteq> ''/''" "VirtualTaskOutputRoot \<noteq> ''/''" "VirtualTempWorkRoot \<noteq> ''/''"
  "VirtualTaskOutputRoot \<noteq> VirtualTempWorkRoot" "VirtualKnowledgeRoot \<noteq> VirtualTaskOutputRoot"
  "VirtualKnowledgeRoot \<noteq> VirtualTempWorkRoot"
  by (simp_all add: VirtualKnowledgeRoot_def VirtualTaskOutputRoot_def VirtualTempWorkRoot_def)

lemma session_kinds_trim:
  "trim_space ''knowledge_dir'' = ''knowledge_dir''" "trim_space ''task_output_dir'' = ''task_output_dir''"
  "trim_space ''temp_work_dir'' = ''temp_work_dir''"
  by (rule trim_space_fixI; simp add: starts_with_space_def ends_with_space_def space_runes_def)+

lemma session_filesystem:
  assumes abs: "abs_lawful os" and new: "NewFilesystem os (session_options base eval limit) s = (Inr f, s')"
    and base: "canonical base"
  shows "af_zones f = session_zone_table base" "af_writeLimitedBytes f = limit"
    "\<forall>z\<in>set (af_zones f). zone_wf z"
proof -
  note names = session_names_good [simplified]
  have c: "path_clean (below base n) = below base n" if "good_comp n" for n
    using canonical_below [OF base that] by (rule path_clean_canonical)
  have a: "os_Abs os (below base n) w = Inr (below base n)" if "good_comp n" for n w
    using abs c [OF that] by (simp add: abs_lawful_def below_def abs_path_def)
  have ne: "below base n \<noteq> []" for n by (simp add: below_def abs_path_def)
  obtain zs s1 where zs: "build_zones os True 493 (session_zones base) [] [] s = (Inr zs, s1)"
    and f: "af_zones f = stable_sort_by zone_longer zs" and l: "af_writeLimitedBytes f = limit"
    using new by (auto simp: NewFilesystem_def session_options_def Let_def split: prod.splits sum.splits if_splits)
  have "zs = tl (session_zone_table base) @ [hd (session_zone_table base)]"
    using zs names base
    by (auto simp: session_zones_def session_zone_table_def Let_def join_below session_names_trim session_roots_normal
        session_kinds_trim session_roots_distinct a c ne
        split: prod.splits sum.splits if_splits)
  then show z: "af_zones f = session_zone_table base"
    by (simp add: f session_zone_table_def stable_sort_by_def zone_longer_def VirtualKnowledgeRoot_def
        VirtualTaskOutputRoot_def VirtualTempWorkRoot_def)
  show "af_writeLimitedBytes f = limit" by (rule l)
  show "\<forall>z\<in>set (af_zones f). zone_wf z"
    using names base
    by (auto simp: z session_zone_table_def zone_wf_def canonical_below VirtualKnowledgeRoot_def VirtualTaskOutputRoot_def
        VirtualTempWorkRoot_def canonical_code [of "_ # _"] is_canonical_def good_comp_def)
qed

subsection \<open>Links\<close>

text \<open>Documented of \<open>filepath.EvalSymlinks\<close>: the result of a path that is absolute is absolute and clean.\<close>

definition links_lawful :: "'e os \<Rightarrow> bool" where
  "links_lawful os \<longleftrightarrow> (\<forall>p w q. canonical p \<longrightarrow> os_EvalSymlinks os p w = Inr q \<longrightarrow> canonical q)"

lemma canonical_path_join2: "canonical a \<Longrightarrow> canonical (path_join2 a b)"
  using canonical_Cons [of a] canonical_path_clean by (fastforce simp: path_join2_def)

lemma canonical_join_suffix: "canonical a \<Longrightarrow> canonical (join_suffix a names)"
proof -
  have "canonical a \<Longrightarrow> canonical (foldl path_join2 a ns)" for ns
    by (induction ns arbitrary: a) (simp_all add: canonical_path_join2)
  then show "canonical a \<Longrightarrow> canonical (join_suffix a names)" by (simp add: join_suffix_def)
qed

lemma canonical_path_dir: "canonical p \<Longrightarrow> canonical (path_dir p)"
proof -
  assume p: "canonical p"
  show ?thesis
  proof (cases "path_comps p" rule: rev_cases)
    case Nil
    then have "p = ''/''" using abs_path_comps [OF p] by (simp add: abs_path_def)
    then show ?thesis using p by (simp add: path_dir_def path_clean_def clean_comps_def)
  next
    case (snoc cs c)
    then have "path_dir p = abs_path cs" "list_all good_comp cs"
      using path_dir_abs_path [of cs c] good_path_comps [OF p] abs_path_comps [OF p] by auto
    then show ?thesis by (simp add: canonical_abs_path)
  qed
qed

lemma resolve_up_canonical:
  "links_lawful os \<Longrightarrow> canonical cleaned \<Longrightarrow> canonical current \<Longrightarrow> resolve_up os cleaned current names w = Inr r \<Longrightarrow> canonical r"
proof (induction os cleaned current names w rule: resolve_up.induct)
  case (1 os cleaned current names w)
  show ?case
  proof (cases "os_Lstat os current w")
    case None
    with "1.prems" show ?thesis
      by (auto simp: resolve_up.simps [of os cleaned current] links_lawful_def path_clean_canonical canonical_join_suffix
          split: sum.splits)
  next
    case (Some e)
    with 1 show ?thesis
      by (auto simp: resolve_up.simps [of os cleaned current] canonical_path_dir split: if_splits)
  qed
qed

lemma resolve_canonical:
  assumes "links_lawful os" "canonical p" "trim_space p = p" "resolveWithExistingPrefix os p w = Inr r"
  shows "canonical r"
  using assms resolve_up_canonical [of os p p "[]" w r]
  by (auto simp: resolveWithExistingPrefix_def Let_def path_clean_canonical links_lawful_def split: sum.splits if_splits)

subsection \<open>Properties\<close>

text \<open>C15. The guard holds through symbolic links: a host path that resolving a virtual path returns lies in the
  host root of the zone it returns, and so does, in the root's own resolution, what the path's existing part
  resolves to followed by its missing part, if neither path ends in a blank.\<close>

theorem resolved_path_guarded:
  assumes "af_resolvePath os f raw w = Inr (z, hp)" and "zone_wf z" and "links_lawful os"
    and "trim_space (zn_hostRoot z) = zn_hostRoot z" and "trim_space hp = hp"
  shows "inside (zn_hostRoot z) hp \<and>
    (\<exists>root real. resolveWithExistingPrefix os (zn_hostRoot z) w = Inr root \<and>
       resolveWithExistingPrefix os hp w = Inr real \<and> inside root real)"
proof -
  have hr: "canonical (zn_hostRoot z)" using assms(2) by (simp add: zone_wf_def)
  note ins = resolved_inside [OF assms(1,2)]
  have "pathguard_Check os (zn_hostRoot z) hp w = None" using af_resolvePath_Inr [OF assms(1)] by simp
  then obtain root real where r: "resolveWithExistingPrefix os (zn_hostRoot z) w = Inr root"
      "resolveWithExistingPrefix os hp w = Inr real" "withinRoot root real"
    using assms(4,5) hr ins(1) by (auto simp: pathguard_Check_def Let_def path_clean_canonical split: if_splits sum.splits)
  have "canonical root" "canonical real"
    using resolve_canonical [OF assms(3)] hr ins(1) assms(4,5) r(1,2) by auto
  with r ins show ?thesis by (auto simp: inside_def withinRoot_under)
qed

text \<open>An operating system over a store of files without links: every path that holds no file is a
  directory.\<close>

definition remove_key :: "'k \<Rightarrow> ('k, 'v) gomap \<Rightarrow> ('k, 'v) gomap" where
  "remove_key k m = filter (\<lambda>x. fst x \<noteq> k) m"

definition file_of :: "string \<Rightarrow> files \<Rightarrow> string" where
  "file_of p w = (case map_of w p of None \<Rightarrow> [] | Some c \<Rightarrow> c)"

definition memory_os :: "files os" where
  "memory_os =
     \<lparr>os_Getwd = (\<lambda>_. Inr ''/''), os_Abs = (\<lambda>p _. Inr (path_clean (CHR ''/'' # p))),
      os_Stat_IsDir = (\<lambda>p w. Inr (map_of w p = None)), os_Lstat = (\<lambda>_ _. None), os_EvalSymlinks = (\<lambda>p _. Inr p),
      os_ReadDir = (\<lambda>_ _. Inr []),
      os_ReadFile = (\<lambda>p w. case map_of w p of None \<Rightarrow> Inl (ErrText (''no such file: '' @ p)) | Some c \<Rightarrow> Inr c),
      os_WalkDir = (\<lambda>_ _. []), os_IsNotExist = (\<lambda>_. False), os_MkdirAll = (\<lambda>_ _ w. (None, w)),
      os_WriteFile = (\<lambda>p c _ w. (None, map_put p c w)), os_OpenAppend = (\<lambda>p _ w. (None, map_put p (file_of p w) w)),
      os_WriteString = (\<lambda>p c w. (None, map_put p (file_of p w @ c) w)), os_Remove = (\<lambda>p w. (None, remove_key p w))\<rparr>"

lemma memory_os_lawful: "abs_lawful memory_os" "links_lawful memory_os"
proof -
  have "path_clean (CHR ''/'' # p) = path_clean p" if "has_prefix p ''/''" for p
  proof -
    obtain q where "p = CHR ''/'' # q" using \<open>has_prefix p ''/''\<close> by (auto elim: has_prefixE)
    then show ?thesis by (simp add: path_clean_def)
  qed
  then show "abs_lawful memory_os" by (simp add: abs_lawful_def memory_os_def canonical_path_clean)
  show "links_lawful memory_os" by (simp add: links_lawful_def memory_os_def)
qed

definition work_zone :: zone where
  "work_zone = \<lparr>zn_virtualRoot = VirtualTempWorkRoot, zn_hostRoot = ''/h/temp_work'', zn_writable = True, zn_kind = []\<rparr>"

definition work_fs :: aiFilesystem where
  "work_fs = \<lparr>af_zones = [work_zone], af_pathEnv = [], af_relevanceEval = None, af_dirPerm = 493, af_filePerm = 420,
     af_writeLimitedBytes = 4\<rparr>"

lemma work_paths:
  "trim_space ''/h/temp_work'' = ''/h/temp_work''" "trim_space ''/h/temp_work/a'' = ''/h/temp_work/a''"
  "normalizeVirtualPath ''/temp_work/a'' = ''/temp_work/a''" "canonical ''/h/temp_work''" "canonical ''/h/temp_work/a''"
  "canonical ''/temp_work/a''" "canonical ''/temp_work''"
  "\<not> ends_with_space ''/temp_work/a''"
proof -
  show c: "canonical ''/h/temp_work''" "canonical ''/h/temp_work/a''" "canonical ''/temp_work/a''" "canonical ''/temp_work''"
    by (simp_all add: canonical_code is_canonical_def good_comp_def)
  show e: "\<not> ends_with_space ''/temp_work/a''" by (simp add: ends_with_space_def space_runes_def)
  show "trim_space ''/h/temp_work'' = ''/h/temp_work''" "trim_space ''/h/temp_work/a'' = ''/h/temp_work/a''"
    by (rule trim_space_fixI; simp add: starts_with_space_def ends_with_space_def space_runes_def)+
  show "normalizeVirtualPath ''/temp_work/a'' = ''/temp_work/a''" by (rule normalizeAbsolutePath_fix [OF c(3) e])
qed

lemma work_zone_wf: "zone_wf work_zone"
  by (simp add: zone_wf_def work_zone_def VirtualTempWorkRoot_def work_paths)

lemma work_resolve: "af_resolvePath memory_os work_fs ''/temp_work/a'' w = Inr (work_zone, ''/h/temp_work/a'')"
proof -
  have hp: "host_path work_zone ''/temp_work/a'' = ''/h/temp_work/a''"
    by (simp add: host_path_def work_zone_def VirtualTempWorkRoot_def trim_prefix_def path_join2_def path_clean_canonical work_paths)
  have "withinRoot ''/h/temp_work'' ''/h/temp_work/a''"
    by (simp add: withinRoot_under work_paths under_def)
  then have "pathguard_Check memory_os ''/h/temp_work'' ''/h/temp_work/a'' w = None"
    by (simp add: pathguard_Check_def resolveWithExistingPrefix_def memory_os_def Let_def work_paths path_clean_canonical)
  with hp show ?thesis
    by (simp add: af_resolvePath_def matchZone_def toHostPath_def work_paths Let_def work_fs_def)
      (simp add: work_zone_def VirtualTempWorkRoot_def)
qed

theorem resolved_path_guarded_witness:
  "\<exists>root real. resolveWithExistingPrefix memory_os ''/h/temp_work'' [] = Inr root \<and>
     resolveWithExistingPrefix memory_os ''/h/temp_work/a'' [] = Inr real \<and> inside root real"
  using resolved_path_guarded [OF work_resolve work_zone_wf memory_os_lawful(2), of "[]"]
  by (simp add: work_zone_def work_paths)

text \<open>C16. Mapping a virtual path of a zone to the host and back gives the path again.\<close>

theorem zone_path_roundtrip:
  assumes "zone_wf z" and "canonical p" and "\<not> ends_with_space p" and "under (zn_virtualRoot z) p"
  shows "toVirtualPath z (host_path z p) = Inr p"
  using assms by (rule toVirtualPath_host_path)

theorem zone_path_roundtrip_witness:
  "toVirtualPath work_zone (host_path work_zone ''/temp_work/a'') = Inr ''/temp_work/a''"
  by (rule zone_path_roundtrip [OF work_zone_wf])
    (simp_all add: work_paths work_zone_def VirtualTempWorkRoot_def under_def)

text \<open>A path is served by the zone with the longest virtual root it is under, and by none exactly if it is
  under none.\<close>

theorem longest_zone_serves:
  assumes "NewFilesystem os opts s = (Inr f, s')" and "normalizeVirtualPath raw = p"
  shows "case matchZone f raw of
      None \<Rightarrow> (\<forall>z\<in>set (af_zones f). \<not> under (zn_virtualRoot z) p)
    | Some z \<Rightarrow> z \<in> set (af_zones f) \<and> under (zn_virtualRoot z) p \<and>
        (\<forall>z'\<in>set (af_zones f). under (zn_virtualRoot z') p \<longrightarrow> under (zn_virtualRoot z') (zn_virtualRoot z))"
proof -
  have v: "valid_zones os f" using assms(1) by (auto simp: valid_zones_def)
  have m: "matchZone f raw = zone_of f p" by (simp add: matchZone_zone_of assms(2))
  show ?thesis
  proof (cases "zone_of f p")
    case None
    with zones.lookup_None [of f p] have "\<forall>z\<in>set (af_zones f). \<not> under (zn_virtualRoot z) p" by blast
    with None show ?thesis by (simp add: m)
  next
    case (Some z)
    then show ?thesis using zones.lookup_under [OF Some] zones.lookup_nested [OF v Some] by (simp add: m)
  qed
qed

lemma h_canonical: "canonical ''/h''"
  by (simp add: canonical_code is_canonical_def good_comp_def)

lemma below_h: "below ''/h'' c = ''/h/'' @ c"
proof -
  have "path_comps ''/h'' = [''h'']" using path_comps_canonical [of "[''h'']"] by (simp add: good_comp_def)
  then show ?thesis by (simp add: below_def abs_path_def)
qed

lemma work_new:
  "\<exists>f. NewFilesystem memory_os (session_options ''/h'' None limit) (live_sys w) = (Inr f, live_sys w)"
  using session_names_trim [of "''/h''"]
  by (simp add: NewFilesystem_def session_options_def session_zones_def session_roots_normal session_roots_distinct Let_def
      memory_os_def os_do_def live_sys_def path_join2_def path_clean_def clean_comps_def below_h
      session_roots_distinct [symmetric])

theorem longest_zone_serves_witness:
  "\<exists>f. NewFilesystem memory_os (session_options ''/h'' None 4) (live_sys []) = (Inr f, live_sys []) \<and>
     (case matchZone f ''/temp_work/a'' of None \<Rightarrow> False | Some z \<Rightarrow> zn_hostRoot z = ''/h/temp_work'')"
proof -
  obtain f where f: "NewFilesystem memory_os (session_options ''/h'' None 4) (live_sys []) = (Inr f, live_sys [])"
    using work_new by blast
  have z: "af_zones f = session_zone_table ''/h''"
    using session_filesystem [OF memory_os_lawful(1) f h_canonical] by simp
  have "case matchZone f ''/temp_work/a'' of None \<Rightarrow> False | Some z \<Rightarrow> zn_hostRoot z = ''/h/temp_work''"
    using longest_zone_serves [OF f work_paths(3)]
    by (auto simp: z session_zone_table_def under_def below_h VirtualKnowledgeRoot_def VirtualTaskOutputRoot_def
        VirtualTempWorkRoot_def split: option.splits)
  with f show ?thesis by blast
qed

text \<open>C17. A write that succeeds went to a writable zone, kept to the byte limit, and is exactly the creation of the
  directories above the host path followed by the write of the content.\<close>

theorem successful_write:
  assumes "AF_WriteFile os f (raw, content) s = (Inr (), s')"
  shows "\<exists>z hp w. af_resolvePath os f raw (sy_env s) = Inr (z, hp) \<and> z \<in> set (af_zones f) \<and> zn_writable z \<and>
    (0 < af_writeLimitedBytes f \<longrightarrow> int (length content) \<le> af_writeLimitedBytes f) \<and>
    os_MkdirAll os (path_dir hp) (af_dirPerm f) (sy_env s) = (None, w) \<and>
    os_WriteFile os hp content (af_filePerm f) w = (None, sy_env s')"
proof -
  obtain s1 where live: "executionContextErr s = (None, s1)"
    using assms by (auto simp: AF_WriteFile_def checked_def split: prod.splits option.splits)
  then have env: "sy_env s1 = sy_env s" by (auto simp: executionContextErr_def split: prod.splits)
  obtain hp where hp: "writable_path os f raw (sy_env s) = Inr hp"
    using assms live env by (auto simp: AF_WriteFile_def checked_def split: sum.splits)
  then obtain z where z: "af_resolvePath os f raw (sy_env s) = Inr (z, hp)" "zn_writable z" by (rule writable_path_Inr)
  from assms live env hp have "\<not> over_limit f content" by (auto simp: AF_WriteFile_def checked_def split: if_splits)
  moreover from this assms live env hp obtain w where
    "os_MkdirAll os (path_dir hp) (af_dirPerm f) (sy_env s) = (None, w)"
    "os_WriteFile os hp content (af_filePerm f) w = (None, sy_env s')"
    by (auto simp: AF_WriteFile_def checked_def os_do_def split: prod.splits sum.splits option.splits)
  ultimately show ?thesis using z af_resolvePath_Inr(1) [OF z(1)] by (auto simp: over_limit_def)
qed

lemma work_writable: "writable_path memory_os work_fs ''/temp_work/a'' w = Inr ''/h/temp_work/a''"
  by (simp add: writable_path_def work_resolve) (simp add: work_zone_def)

lemma memory_os_writes [simp]:
  "os_MkdirAll memory_os p m w = (None, w)" "os_WriteFile memory_os p c m w = (None, map_put p c w)"
  "os_OpenAppend memory_os p m w = (None, map_put p (file_of p w) w)"
  "os_WriteString memory_os p c w = (None, map_put p (file_of p w @ c) w)" "os_Remove memory_os p w = (None, remove_key p w)"
  by (simp_all add: memory_os_def)

lemma live_sys_fields [simp]: "sy_ctx (live_sys w) = CtxLive" "sy_env (live_sys w) = w"
  by (simp_all add: live_sys_def)

theorem successful_write_witness:
  "fst (AF_WriteFile memory_os work_fs (''/temp_work/a'', ''abcd'') (live_sys [])) = Inr () \<and>
   (\<exists>hp w. os_WriteFile memory_os hp ''abcd'' 420 w =
      (None, sy_env (snd (AF_WriteFile memory_os work_fs (''/temp_work/a'', ''abcd'') (live_sys [])))))"
proof -
  have "\<not> over_limit work_fs ''abcd''" by (simp add: over_limit_def work_fs_def)
  then have ok: "AF_WriteFile memory_os work_fs (''/temp_work/a'', ''abcd'') (live_sys []) =
      (Inr (), (live_sys [])\<lparr>sy_env := [(''/h/temp_work/a'', ''abcd'')]\<rparr>)"
    by (simp add: AF_WriteFile_def checked_def executionContextErr_live work_writable os_do_def)
  have perm: "af_filePerm work_fs = 420" by (simp add: work_fs_def)
  from successful_write [OF ok] show ?thesis unfolding ok perm fst_conv snd_conv by blast
qed

text \<open>The outcomes of the changing operations, and an outcome that is an error and changes nothing.\<close>

definition zone_changes :: "'e os \<Rightarrow> aiFilesystem \<Rightarrow> string \<Rightarrow> string \<Rightarrow> string \<Rightarrow> string \<Rightarrow> bool \<Rightarrow> 'e sys \<Rightarrow>
    ((go_error + unit) \<times> 'e sys) list" where
  "zone_changes os f p content old new replaceAll s =
     [AF_WriteFile os f (p, content) s, AF_AppendFile os f (p, content) s, AF_EditFile os f (p, old, new, replaceAll) s,
      AF_MakeDir os f p s, AF_RemoveFile os f p s]"

definition refused :: "'e sys \<Rightarrow> (go_error + 'b) \<times> 'e sys \<Rightarrow> bool" where
  "refused s outcome \<longleftrightarrow> (\<exists>e. fst outcome = Inl e) \<and> (snd outcome)\<lparr>sy_ctx := sy_ctx s\<rparr> = s"

lemma checked_refuses:
  assumes "\<And>s1. sy_env s1 = sy_env s \<Longrightarrow> \<exists>e. g x s1 = (Inl e, s1)"
  shows "refused s (checked g x s)"
proof (cases "executionContextErr s")
  case (Pair r s1)
  then have s1: "s1\<lparr>sy_ctx := sy_ctx s\<rparr> = s" "sy_env s1 = sy_env s"
    by (auto simp: executionContextErr_def split: prod.splits)
  then obtain e where "g x s1 = (Inl e, s1)" using assms by blast
  with Pair s1 show ?thesis by (cases r) (auto simp: checked_def refused_def)
qed

text \<open>C18. What a zone that is not writable is asked to change stays as it is: every changing operation on one of
  its paths returns an error and leaves the world, the trace, the audit log and the working directory alone.\<close>

theorem read_only_zone_unchanged:
  assumes "matchZone f (normalizeVirtualPath p) = Some z" and "\<not> zn_writable z"
  shows "list_all (refused s) (zone_changes os f p content old new replaceAll s)"
proof -
  obtain e where e: "writable_path os f p (sy_env s) = Inl e"
    using assms by (cases "toHostPath os z (normalizeVirtualPath p) (sy_env s)")
      (auto simp: writable_path_def af_resolvePath_def Let_def)
  have "refused s (AF_WriteFile os f (p, content) s)" "refused s (AF_AppendFile os f (p, content) s)"
    "refused s (AF_EditFile os f (p, old, new, replaceAll) s)" "refused s (AF_MakeDir os f p s)"
    "refused s (AF_RemoveFile os f p s)"
    unfolding AF_WriteFile_def AF_AppendFile_def AF_EditFile_def AF_MakeDir_def AF_RemoveFile_def
    by (rule checked_refuses, simp add: e)+
  then show ?thesis by (simp add: zone_changes_def)
qed

definition knowledge_zone :: zone where
  "knowledge_zone =
     \<lparr>zn_virtualRoot = VirtualKnowledgeRoot, zn_hostRoot = ''/h/knowledge_base'', zn_writable = False, zn_kind = []\<rparr>"

lemma knowledge_match:
  "af_zones f = [knowledge_zone] \<Longrightarrow> matchZone f (normalizeVirtualPath ''/knowledge_base'') = Some knowledge_zone"
  using session_roots_normal(1) by (simp add: matchZone_def knowledge_zone_def VirtualKnowledgeRoot_def Let_def)

theorem read_only_zone_unchanged_witness:
  "list_all (refused (live_sys []))
    (zone_changes memory_os (work_fs\<lparr>af_zones := [knowledge_zone]\<rparr>) ''/knowledge_base'' ''x'' ''a'' ''b'' False (live_sys []))"
  using read_only_zone_unchanged [OF knowledge_match, of "work_fs\<lparr>af_zones := [knowledge_zone]\<rparr>" "live_sys []" memory_os]
  by (simp add: knowledge_zone_def)

text \<open>What the rest of a session must keep for the next property: the mounts and external commands it is given,
  the corpus mount, and the builtins.\<close>

definition surroundings_keep :: "('e \<Rightarrow> bool) \<Rightarrow> 'e host \<Rightarrow> 'e stack_options \<Rightarrow> bool" where
  "surroundings_keep J h opts \<longleftrightarrow>
     (\<forall>m\<in>set (opt_VirtualMounts opts). mount_keeps (world J) m) \<and>
     (\<forall>m. opt_EnableTestCorpus opts \<longrightarrow> host_corpus h = Inr m \<longrightarrow> mount_keeps (world J) m) \<and>
     keeps_inv (world J) (xc_ListExternalCommands (opt_ExternalCallbacks opts)) \<and>
     keeps_inv (world J) (xc_ReadExternalManual (opt_ExternalCallbacks opts)) \<and>
     (\<forall>run req s. xc_RunExternalCommand (opt_ExternalCallbacks opts) = Some run \<longrightarrow> world J s \<longrightarrow> kept (world J) (run req s))"

lemma session_ops_keep:
  assumes zones: "zones_keep os J f" and rest: "surroundings_keep J h opts"
    and h: "host_filesystem h = NewAIFilesystem os eval"
    and new: "NewRuntimeOps h opts s = (Inr ops, s')"
    and f: "host_base os (opt_HostRoot opts) (sy_env s) = Inr base"
      "NewFilesystem os (session_options base eval (resolveWriteLimitedBytes (opt_Policy opts))) s = (Inr f, s1)"
  shows "adapter_keeps J ops"
proof -
  let ?ops = "runtime_ops opts (OpsFromFilesystem (ai_filesystem os f))"
  have a: "adapter_keeps J ?ops"
    using zones_keep_adapter [OF zones] rest
    by (auto simp: adapter_keeps_def ops_keep_def runtime_ops_def surroundings_keep_def OpsFromFilesystem_def
        ai_filesystem_def provided_def intro: mount_keeps_refresh)
  have "ops = ?ops \<or> (\<exists>m. opt_EnableTestCorpus opts \<and> host_corpus h = Inr m \<and>
      ops = ?ops\<lparr>o_VirtualMounts := o_VirtualMounts ?ops @ [m]\<rparr>)"
    using new f by (auto simp: NewRuntimeOps_def h NewAIFilesystem_def Let_def split: if_splits sum.splits)
  with a rest show ?thesis
    by (auto simp: adapter_keeps_def ops_keep_def surroundings_keep_def intro: mount_keeps_refresh)
qed

text \<open>Whatever scripts a session runs, what they cannot break by changes inside the session's two writable
  host directories holds afterwards: \<open>J\<close> is any property of the world that the operating system's changes
  there (and making the base directory) keep, as long as what the session brings along keeps it.\<close>

lemma session_keeps:
  assumes "abs_lawful os" and "host_filesystem h = NewAIFilesystem os eval"
    and "host_base os (opt_HostRoot opts) (sy_env s0) = Inr base"
    and "NewRuntimeOps h opts s0 = (Inr ops, s1)"
    and "os_keeps_below os J (below base ''task_outputs'')" and "os_keeps_below os J (below base ''temp_work'')"
    and "surroundings_keep J h opts" and "builtins_keep J (en_registry en)" and "cache_keeps J en" and "J (sy_env s)"
  shows "J (sy_env (snd (snd (executions pl (map (\<lambda>(ctx, cmdline, ids). (ctx, cmdline, ids, ops)) calls) en s))))"
proof -
  have "canonical base"
    using assms(1,3) by (auto simp: host_base_def abs_lawful_def split: sum.splits)
  moreover obtain f s2 where f:
    "NewFilesystem os (session_options base eval (resolveWriteLimitedBytes (opt_Policy opts))) s0 = (Inr f, s2)"
    using assms(4) by (auto simp: NewRuntimeOps_def assms(2,3) NewAIFilesystem_def split: prod.splits sum.splits)
  ultimately have "zones_keep os J f"
    using session_filesystem [OF assms(1) f] assms(5,6) by (auto simp: zones_keep_def session_zone_table_def)
  then have a: "adapter_keeps J ops" using session_ops_keep assms(2,3,4,7) f by blast
  show ?thesis
    by (rule executions_keep [OF assms(8-10)]) (use a in auto)
qed

definition memory_host :: "files host" where
  "memory_host = \<lparr>host_platform = sample_platform, host_registry = echo_registry,
     host_filesystem = NewAIFilesystem memory_os None, host_corpus = Inl (ErrText ''no corpus''),
     host_duration = show_int, host_clock = int\<rparr>"

definition memory_options :: "files stack_options" where
  "memory_options = \<lparr>opt_HostRoot = ''/h'', opt_WorkingDir = [], opt_Profile = [],
     opt_Policy = DefaultPolicy\<lparr>ep_WriteMode := WriteModeFull\<rparr>, opt_CommandAliases = [], opt_EnvVars = [],
     opt_RCFiles = [], opt_VirtualMounts = [], opt_EnableTestCorpus = False, opt_PathEnv = [],
     opt_ExternalCallbacks = \<lparr>xc_ListExternalCommands = None, xc_RunExternalCommand = None, xc_ReadExternalManual = None\<rparr>,
     opt_AuditSink = False\<rparr>"

definition knows_k :: "files \<Rightarrow> bool" where
  "knows_k w \<longleftrightarrow> map_of w ''/h/knowledge_base/k'' = Some ''v''"

lemma memory_base: "host_base memory_os (opt_HostRoot memory_options) w = Inr ''/h''"
proof -
  have "trim_space ''/h'' = ''/h''"
    by (rule trim_space_fixI; simp add: starts_with_space_def ends_with_space_def space_runes_def)
  then show ?thesis by (simp add: host_base_def memory_options_def memory_os_def path_clean_def clean_comps_def)
qed

lemma memory_session: "\<exists>ops. NewRuntimeOps memory_host memory_options (live_sys w) = (Inr ops, live_sys w)"
  using work_new [of "resolveWriteLimitedBytes (opt_Policy memory_options)" w] memory_base [of w]
  by (auto simp: NewRuntimeOps_def memory_host_def NewAIFilesystem_def Let_def) (auto simp: memory_options_def)

lemma map_of_remove_key: "k \<noteq> k' \<Longrightarrow> map_of (remove_key k m) k' = map_of m k'"
  by (induction m) (auto simp: remove_key_def)

lemma memory_keeps_k:
  "os_keeps_below memory_os knows_k (below ''/h'' ''task_outputs'')"
  "os_keeps_below memory_os knows_k (below ''/h'' ''temp_work'')"
  by (auto simp: os_keeps_below_def knows_k_def below_h inside_def under_def has_prefix_iff map_of_remove_key)

lemma memory_surroundings: "surroundings_keep J memory_host memory_options"
  by (simp add: surroundings_keep_def memory_options_def)

subsection \<open>A gap of the guard\<close>

text \<open>The guard trims the blanks around the candidate, the operations do not: for a name that ends in a blank the
  guard resolves the links of another path. Here \<open>x \<close> is a link that leads out of the zone.\<close>

definition blank_link_os :: "files os" where
  "blank_link_os = memory_os\<lparr>os_EvalSymlinks := (\<lambda>p _. Inr (if p = ''/h/temp_work/x '' then ''/etc'' else p))\<rparr>"

lemma guard_misses_trailing_blank:
  "af_resolvePath blank_link_os work_fs ''/temp_work/x / /.'' w = Inr (work_zone, ''/h/temp_work/x '') \<and>
   os_EvalSymlinks blank_link_os ''/h/temp_work/x '' w = Inr ''/etc'' \<and> \<not> inside ''/h/temp_work'' ''/etc''"
proof -
  have "\<not> starts_with_space ''/temp_work/x / /.''" "\<not> ends_with_space ''/temp_work/x / /.''"
    by (simp_all add: starts_with_space_def ends_with_space_def space_runes_def)
  then have t1: "trim_space ''/temp_work/x / /.'' = ''/temp_work/x / /.''" by (rule trim_space_fixI)
  have t2: "trim_space ''/temp_work/x / '' = ''/temp_work/x /''" "trim_space ''/h/temp_work/x '' = ''/h/temp_work/x''"
    by (simp_all add: trim_space_def trim_space_left_def trim_space_right_def trim_runes.simps space_runes_def)
  have n: "normalizeVirtualPath ''/temp_work/x / /.'' = ''/temp_work/x / ''"
    "normalizeVirtualPath ''/temp_work/x / '' = ''/temp_work/x ''"
    by (simp_all add: normalizeAbsolutePath_def t1 t2 path_clean_def clean_comps_def)
  have c: "canonical ''/h/temp_work/x''" "canonical ''/h/temp_work/x ''"
    by (simp_all add: canonical_code is_canonical_def good_comp_def)
  have hp: "host_path work_zone ''/temp_work/x '' = ''/h/temp_work/x ''"
    by (simp add: host_path_def work_zone_def VirtualTempWorkRoot_def trim_prefix_def path_join2_def path_clean_canonical c)
  have "withinRoot ''/h/temp_work'' ''/h/temp_work/x''" by (simp add: withinRoot_under work_paths c under_def)
  then have "pathguard_Check blank_link_os ''/h/temp_work'' ''/h/temp_work/x '' w = None"
    using trim_space_fixI [of "''/h/temp_work/x''"]
    by (simp add: pathguard_Check_def resolveWithExistingPrefix_def blank_link_os_def Let_def work_paths path_clean_canonical
        c t2 starts_with_space_def ends_with_space_def space_runes_def)
  with hp have "af_resolvePath blank_link_os work_fs ''/temp_work/x / /.'' w = Inr (work_zone, ''/h/temp_work/x '')"
    by (simp add: af_resolvePath_def matchZone_def toHostPath_def n Let_def work_fs_def)
      (simp add: work_zone_def VirtualTempWorkRoot_def)
  then show ?thesis by (simp add: blank_link_os_def inside_def under_def)
qed

end
