(* ===== verification/Local_Fs.thy ===== *)
theory Local_Fs
  imports Agent_Fs Bootstrap
begin

section \<open>Callbacks over one host directory (\<open>localfs/adapter.go\<close>)\<close>

text \<open>
  \<open>NewOps\<close> gives the callbacks of a shell that works on the host's own paths below one root directory. Unlike the filesystem of
  zones nothing is mapped: every callback asks the guard of \<open>Host_Path\<close> about the path it is given and then uses that path, and
  the changing ones ask the policy first. What they guarantee is in \<open>Local_Fs_Safety\<close>. \<open>FormatLSLongRow\<close> is left out, as in
  \<open>Engine_State\<close>. Whether an entry that a walk visits is a symbolic link is a parameter, as the walk itself is.
\<close>

subsection \<open>Options\<close>

record 'e local_options =
  lo_RootDir :: string
  lo_Profile :: CompatibilityProfile
  lo_Policy :: ExecutionPolicy
  lo_CommandAliases :: alias_map
  lo_EnvVars :: env_map
  lo_RCFiles :: "string list"
  lo_PathEnv :: "string list"
  lo_VirtualMounts :: "'e VirtualMount list"
  lo_ExternalCallbacks :: "'e ExternalCallbacks"
  lo_DescribePath :: "(string, PathMeta, 'e) op option"
  lo_AuditSink :: bool
  lo_WriteLimitedMaxByte :: int

definition normalizeCLIPath :: "string \<Rightarrow> string" where
  "normalizeCLIPath pathValue = path_clean (path_clean pathValue)"

definition pathWithinRoot :: "string \<Rightarrow> string \<Rightarrow> bool" where
  "pathWithinRoot root candidate =
     (let root = normalizeCLIPath root; candidate = normalizeCLIPath candidate in
      if root = ''/'' then has_prefix candidate ''/''
      else candidate = root \<or> has_prefix candidate (root @ ''/''))"

definition resolveAndCheckPath :: "'e os \<Rightarrow> string \<Rightarrow> string \<Rightarrow> 'e \<Rightarrow> go_error + string" where
  "resolveAndCheckPath os root pathValue w =
     (case pathguard_Check os root pathValue w of
        None \<Rightarrow> Inr pathValue
      | Some e \<Rightarrow> Inl (if e = ErrEscape then ErrText (''path escape is not allowed: '' @ pathValue) else e))"

text \<open>The root: the trimmed option, or the current directory, made absolute and clean.\<close>

definition local_root :: "'e os \<Rightarrow> string \<Rightarrow> 'e \<Rightarrow> go_error + string" where
  "local_root os rootDir w =
     (case (if trim_space rootDir = []
            then (case os_Getwd os w of
                    Inl e \<Rightarrow> Inl (ErrWrap (''resolve working directory failed: '' @ error_text e) e)
                  | Inr wd \<Rightarrow> Inr wd)
            else Inr (trim_space rootDir)) of
        Inl e \<Rightarrow> Inl e
      | Inr root \<Rightarrow>
          (case os_Abs os root w of
             Inl e \<Rightarrow> Inl (ErrWrap (''resolve root path failed: '' @ error_text e) e)
           | Inr absRoot \<Rightarrow> Inr (normalizeCLIPath absRoot)))"

definition local_policy :: "ExecutionPolicy \<Rightarrow> int \<Rightarrow> ExecutionPolicy" where
  "local_policy given limit =
     (let policy = (if ep_WriteMode given = WriteModeUnset then DefaultPolicy else given) in
      if ep_WriteMode policy = WriteModeWriteLimited \<and> ep_MaxWriteBytes policy \<le> 0
      then policy\<lparr>ep_MaxWriteBytes := (if 0 < limit then limit else 1048576)\<rparr>
      else policy)"

subsection \<open>Reading\<close>

definition LF_RequireAbsolutePath :: "'e os \<Rightarrow> string \<Rightarrow> (string, string, 'e) op" where
  "LF_RequireAbsolutePath os root raw s =
     (let p = trim_space raw in
      if p = [] then (Inl (ErrText ''path is required''), s)
      else if \<not> has_prefix p ''/'' then (Inl (ErrText (''path must be absolute: '' @ raw)), s)
      else let normalized = normalizeCLIPath p in
        if \<not> pathWithinRoot root normalized
        then (Inl (ErrText (''path is outside root '' @ root @ '': '' @ normalized)), s)
        else (case resolveAndCheckPath os root normalized (sy_env s) of
                Inl e \<Rightarrow> (Inl e, s) | Inr _ \<Rightarrow> (Inr normalized, s)))"

definition LF_CheckPathOp :: "'e os \<Rightarrow> ExecutionPolicy \<Rightarrow> string \<Rightarrow> (PathOp \<times> string, unit, 'e) op" where
  "LF_CheckPathOp os policy root = checked (\<lambda>(op, pathValue) s.
     if (op = PathOpWrite \<or> op = PathOpMkdir \<or> op = PathOpRemove) \<and> \<not> AllowWrite policy
     then (Inl ErrUnsupported, s)
     else (case resolveAndCheckPath os root pathValue (sy_env s) of Inl e \<Rightarrow> (Inl e, s) | Inr _ \<Rightarrow> (Inr (), s)))"

definition LF_ReadRawContent :: "'e os \<Rightarrow> string \<Rightarrow> (string, string, 'e) op" where
  "LF_ReadRawContent os root = checked (\<lambda>pathValue s.
     case resolveAndCheckPath os root pathValue (sy_env s) of
       Inl e \<Rightarrow> (Inl e, s)
     | Inr native \<Rightarrow> (os_ReadFile os native (sy_env s), s))"

definition LF_IsDirPath :: "'e os \<Rightarrow> string \<Rightarrow> (string, bool, 'e) op" where
  "LF_IsDirPath os root = checked (\<lambda>pathValue s.
     case resolveAndCheckPath os root pathValue (sy_env s) of
       Inl e \<Rightarrow> (if os_IsNotExist os e then Inr False else Inl e, s)
     | Inr native \<Rightarrow>
         (case os_Stat_IsDir os native (sy_env s) of
            Inl e \<Rightarrow> (if os_IsNotExist os e then Inr False else Inl e, s)
          | Inr d \<Rightarrow> (Inr d, s)))"

definition LF_ListChildren :: "'e os \<Rightarrow> string \<Rightarrow> (string, string list, 'e) op" where
  "LF_ListChildren os root = checked (\<lambda>dir s.
     case resolveAndCheckPath os root dir (sy_env s) of
       Inl e \<Rightarrow> (Inl e, s)
     | Inr native \<Rightarrow>
         (case os_ReadDir os native (sy_env s) of
            Inl e \<Rightarrow> (Inl e, s)
          | Inr names \<Rightarrow> (Inr (sort (map (path_join2 dir) names)), s)))"

text \<open>The visits of a walk: the context is asked at each, the first error ends it, links and directories are passed over.\<close>

fun walk_local :: "(string \<Rightarrow> bool) \<Rightarrow> (string \<times> bool \<times> go_error option) list \<Rightarrow> string list \<Rightarrow> 'e sys \<Rightarrow>
    (go_error + string list) \<times> 'e sys" where
  "walk_local link [] files s = (Inr files, s)"
| "walk_local link ((p, isDir, walkErr) # visits) files s =
     (case executionContextErr s of
        (Some e, s) \<Rightarrow> (Inl e, s)
      | (None, s) \<Rightarrow>
          (case walkErr of
             Some e \<Rightarrow> (Inl e, s)
           | None \<Rightarrow>
               (if link p \<or> isDir then walk_local link visits files s
                else walk_local link visits (files @ [normalizeCLIPath p]) s)))"

definition LF_CollectFilesUnder :: "'e os \<Rightarrow> (string \<Rightarrow> 'e \<Rightarrow> bool) \<Rightarrow> string \<Rightarrow> (string, string list, 'e) op" where
  "LF_CollectFilesUnder os is_link root = checked (\<lambda>target s.
     case resolveAndCheckPath os root target (sy_env s) of
       Inl e \<Rightarrow> (Inl e, s)
     | Inr native \<Rightarrow>
         (case os_Stat_IsDir os native (sy_env s) of
            Inl e \<Rightarrow> (Inl e, s)
          | Inr False \<Rightarrow> (Inr [target], s)
          | Inr True \<Rightarrow>
              (case walk_local (\<lambda>p. is_link p (sy_env s)) (os_WalkDir os native (sy_env s)) [] s of
                 (Inl e, s) \<Rightarrow> (Inl e, s)
               | (Inr files, s) \<Rightarrow> (Inr (sort files), s))))"

definition LF_ResolveSearchPaths :: "'e os \<Rightarrow> (string \<Rightarrow> 'e \<Rightarrow> bool) \<Rightarrow> string \<Rightarrow> (string \<times> bool, string list, 'e) op" where
  "LF_ResolveSearchPaths os is_link root = checked (\<lambda>(target, recursive) s.
     case resolveAndCheckPath os root target (sy_env s) of
       Inl e \<Rightarrow> (Inl e, s)
     | Inr native \<Rightarrow>
         (case os_Stat_IsDir os native (sy_env s) of
            Inl e \<Rightarrow> (Inl e, s)
          | Inr False \<Rightarrow> (Inr [target], s)
          | Inr True \<Rightarrow>
              (if \<not> recursive
               then (Inl (ErrText (target @ '': Is a directory (use -r to search recursively)'')), s)
               else LF_CollectFilesUnder os is_link root target s)))"

definition local_dir_meta :: PathMeta where
  "local_dir_meta =
     \<lparr>pm_Exists = True, pm_IsDir = True, pm_Kind = ''dir'', pm_Access = PathAccessReadWrite,
      pm_Capabilities = [''describe'', ''list'', ''mkdir'', ''remove'', ''search'', ''write''],
      pm_LineCount = -1, pm_FrontMatterLines = -1, pm_SpeakerRows = -1, pm_UserRelevance = ''unknown''\<rparr>"

definition local_file_meta :: "string \<Rightarrow> PathMeta" where
  "local_file_meta raw =
     \<lparr>pm_Exists = True, pm_IsDir = False, pm_Kind = ''file'', pm_Access = PathAccessReadWrite,
      pm_Capabilities = [''append'', ''describe'', ''edit'', ''read'', ''remove'', ''write''],
      pm_LineCount = (if trim_space raw = [] then 0 else int (length (split_on newline (trim_suffix raw [newline])))),
      pm_FrontMatterLines = -1, pm_SpeakerRows = -1, pm_UserRelevance = ''unknown''\<rparr>"

definition LF_DescribePath :: "'e os \<Rightarrow> string \<Rightarrow> (string, PathMeta, 'e) op" where
  "LF_DescribePath os root pathValue s =
     (case LF_IsDirPath os root pathValue s of
        (Inl e, s) \<Rightarrow> (Inl e, s)
      | (Inr True, s) \<Rightarrow> (Inr local_dir_meta, s)
      | (Inr False, s) \<Rightarrow>
          (case LF_ReadRawContent os root pathValue s of
             (Inl e, s) \<Rightarrow> (Inl e, s)
           | (Inr raw, s) \<Rightarrow> (Inr (local_file_meta raw), s)))"

subsection \<open>Writing\<close>

definition exceeds_cap :: "ExecutionPolicy \<Rightarrow> string \<Rightarrow> bool" where
  "exceeds_cap policy content \<longleftrightarrow>
     ep_WriteMode policy = WriteModeWriteLimited \<and> 0 < ep_MaxWriteBytes policy \<and>
     ep_MaxWriteBytes policy < int (length content)"

definition cap_error :: "string \<Rightarrow> ExecutionPolicy \<Rightarrow> go_error" where
  "cap_error what policy =
     ErrText (what @ '' exceeds write-limited cap ('' @ show_int (ep_MaxWriteBytes policy) @ '' bytes)'')"

definition LF_WriteFile :: "'e os \<Rightarrow> ExecutionPolicy \<Rightarrow> string \<Rightarrow> (string \<times> string, unit, 'e) op" where
  "LF_WriteFile os policy root = checked (\<lambda>(filePath, content) s.
     if \<not> AllowWrite policy then (Inl ErrUnsupported, s)
     else if exceeds_cap policy content then (Inl (cap_error ''write'' policy), s)
     else (case resolveAndCheckPath os root filePath (sy_env s) of
       Inl e \<Rightarrow> (Inl e, s)
     | Inr native \<Rightarrow>
         (case os_do (os_MkdirAll os (path_dir native) 493) s of
            (Inl e, s) \<Rightarrow> (Inl e, s)
          | (Inr _, s) \<Rightarrow> os_do (os_WriteFile os native content 420) s)))"

definition LF_AppendFile :: "'e os \<Rightarrow> ExecutionPolicy \<Rightarrow> string \<Rightarrow> (string \<times> string, unit, 'e) op" where
  "LF_AppendFile os policy root = checked (\<lambda>(filePath, content) s.
     if \<not> AllowWrite policy then (Inl ErrUnsupported, s)
     else if exceeds_cap policy content then (Inl (cap_error ''append'' policy), s)
     else (case resolveAndCheckPath os root filePath (sy_env s) of
       Inl e \<Rightarrow> (Inl e, s)
     | Inr native \<Rightarrow>
         (case os_do (os_MkdirAll os (path_dir native) 493) s of
            (Inl e, s) \<Rightarrow> (Inl e, s)
          | (Inr _, s) \<Rightarrow>
              (case os_do (os_OpenAppend os native 420) s of
                 (Inl e, s) \<Rightarrow> (Inl e, s)
               | (Inr _, s) \<Rightarrow> os_do (os_WriteString os native content) s))))"

definition LF_EditFile :: "'e os \<Rightarrow> ExecutionPolicy \<Rightarrow> string \<Rightarrow> (string \<times> string \<times> string \<times> bool, unit, 'e) op" where
  "LF_EditFile os policy root = checked (\<lambda>(filePath, oldString, newString, replaceAll) s.
     if \<not> AllowWrite policy then (Inl ErrUnsupported, s)
     else (case resolveAndCheckPath os root filePath (sy_env s) of
       Inl e \<Rightarrow> (Inl e, s)
     | Inr native \<Rightarrow>
         (case os_ReadFile os native (sy_env s) of
            Inl e \<Rightarrow> (Inl e, s)
          | Inr raw \<Rightarrow>
              (let occurrences = go_count raw oldString in
               if occurrences = 0 then (Inl (ErrText ''old string not found''), s)
               else if \<not> replaceAll \<and> 1 < occurrences
               then (Inl (ErrText (''old string appears '' @ show_nat occurrences @ '' times'')), s)
               else let raw = go_replace raw oldString newString (if replaceAll then occurrences else 1) in
                 if exceeds_cap policy raw then (Inl (cap_error ''edit result'' policy), s)
                 else os_do (os_WriteFile os native raw 420) s))))"

definition LF_MakeDir :: "'e os \<Rightarrow> ExecutionPolicy \<Rightarrow> string \<Rightarrow> (string, unit, 'e) op" where
  "LF_MakeDir os policy root = checked (\<lambda>dirPath s.
     if \<not> AllowWrite policy then (Inl ErrUnsupported, s)
     else (case resolveAndCheckPath os root dirPath (sy_env s) of
       Inl e \<Rightarrow> (Inl e, s)
     | Inr native \<Rightarrow> os_do (os_MkdirAll os native 493) s))"

definition LF_RemoveFile :: "'e os \<Rightarrow> ExecutionPolicy \<Rightarrow> string \<Rightarrow> (string, unit, 'e) op" where
  "LF_RemoveFile os policy root = checked (\<lambda>filePath s.
     if \<not> AllowWrite policy then (Inl ErrUnsupported, s)
     else (case resolveAndCheckPath os root filePath (sy_env s) of
       Inl e \<Rightarrow> (Inl e, s)
     | Inr native \<Rightarrow>
         (case os_Stat_IsDir os native (sy_env s) of
            Inl e \<Rightarrow> (Inl e, s)
          | Inr True \<Rightarrow> (Inl (ErrText (''cannot remove directory: '' @ filePath)), s)
          | Inr False \<Rightarrow> os_do (os_Remove os native) s)))"

definition LF_RemoveDir :: "'e os \<Rightarrow> ExecutionPolicy \<Rightarrow> string \<Rightarrow> (string, unit, 'e) op" where
  "LF_RemoveDir os policy root = checked (\<lambda>dirPath s.
     if \<not> AllowWrite policy then (Inl ErrUnsupported, s)
     else (case resolveAndCheckPath os root dirPath (sy_env s) of
       Inl e \<Rightarrow> (Inl e, s)
     | Inr native \<Rightarrow>
         (if normalizeCLIPath dirPath = root
          then (Inl (ErrText (''cannot remove root directory: '' @ dirPath)), s)
          else (case os_Stat_IsDir os native (sy_env s) of
            Inl e \<Rightarrow> (Inl e, s)
          | Inr False \<Rightarrow> (Inl (ErrText (''not a directory: '' @ dirPath)), s)
          | Inr True \<Rightarrow> os_do (os_Remove os native) s))))"

subsection \<open>The callbacks\<close>

definition local_ops :: "'e os \<Rightarrow> (string \<Rightarrow> 'e \<Rightarrow> bool) \<Rightarrow> 'e local_options \<Rightarrow> string \<Rightarrow> ExecutionPolicy \<Rightarrow>
    CompatibilityProfile \<Rightarrow> 'e Ops" where
  "local_ops os is_link opts root policy profile =
     zero_ops\<lparr>o_WorkingDir := root, o_RootDir := root,
       o_RequireAbsolutePath := Some (LF_RequireAbsolutePath os root), o_ListChildren := Some (LF_ListChildren os root),
       o_IsDirPath := Some (LF_IsDirPath os root),
       o_DescribePath := Some (case lo_DescribePath opts of None \<Rightarrow> LF_DescribePath os root | Some f \<Rightarrow> f),
       o_ReadRawContent := Some (LF_ReadRawContent os root),
       o_ResolveSearchPaths := Some (LF_ResolveSearchPaths os is_link root),
       o_CollectFilesUnder := Some (LF_CollectFilesUnder os is_link root),
       o_WriteFile := Some (LF_WriteFile os policy root), o_AppendFile := Some (LF_AppendFile os policy root),
       o_EditFile := Some (LF_EditFile os policy root), o_MakeDir := Some (LF_MakeDir os policy root),
       o_RemoveFile := Some (LF_RemoveFile os policy root), o_RemoveDir := Some (LF_RemoveDir os policy root),
       o_CheckPathOp := Some (LF_CheckPathOp os policy root),
       o_ListExternalCommands := xc_ListExternalCommands (lo_ExternalCallbacks opts),
       o_RunExternalCommand := xc_RunExternalCommand (lo_ExternalCallbacks opts),
       o_ReadExternalManual := xc_ReadExternalManual (lo_ExternalCallbacks opts),
       o_CommandAliases := NormalizeCommandAliases (lo_CommandAliases opts),
       o_EnvVars := NormalizeEnvVars (lo_EnvVars opts), o_RCFiles := NormalizeRCFiles (lo_RCFiles opts),
       o_PathEnv := lo_PathEnv opts, o_VirtualMounts := lo_VirtualMounts opts,
       o_Profile := profile, o_Policy := policy, o_AuditSink := lo_AuditSink opts\<rparr>"

definition NewOps :: "'e os \<Rightarrow> (string \<Rightarrow> 'e \<Rightarrow> bool) \<Rightarrow> 'e local_options \<Rightarrow> 'e \<Rightarrow> go_error + 'e Ops" where
  "NewOps os is_link opts w =
     (case local_root os (lo_RootDir opts) w of
        Inl e \<Rightarrow> Inl e
      | Inr root \<Rightarrow>
          (let policy = local_policy (lo_Policy opts) (lo_WriteLimitedMaxByte opts);
               profile = (if lo_Profile opts = [] then DefaultProfile else lo_Profile opts) in
           case ParseProfile profile of
             Inl e \<Rightarrow> Inl e
           | Inr _ \<Rightarrow> Inr (local_ops os is_link opts root policy profile)))"

end
