(* ===== verification/Builtin_Base.thy ===== *)
theory Builtin_Base
  imports Command_Catalog Trace_Collector Go_Strings
begin

section \<open>What the builtin commands share (\<open>pkg/builtin/helpers.go\<close> and its siblings)\<close>

text \<open>
  A builtin is the \<open>Run\<close> of its \<open>CommandSpec\<close>: from a runtime and the arguments it computes an output text and
  an exit code, and changes the state through the callbacks of the runtime only. The error texts are the ones
  the code prints, so that scripts that read them see the same. \<open>Inl\<close> is an early return with text and code.
\<close>

type_synonym 'e builtin = "'e CommandRuntime \<Rightarrow> string list \<Rightarrow> 'e sys \<Rightarrow> (string \<times> int) \<times> 'e sys"
type_synonym reply = "string \<times> int"

text \<open>The callbacks of a runtime, called without a test for nil.\<close>

abbreviation require_path :: "'e CommandRuntime \<Rightarrow> (string, string, 'e) op" where
  "require_path rt \<equiv> call (o_RequireAbsolutePath (rt_Ops rt))"

abbreviation read_raw :: "'e CommandRuntime \<Rightarrow> (string, string, 'e) op" where
  "read_raw rt \<equiv> call (o_ReadRawContent (rt_Ops rt))"

definition named :: "string \<Rightarrow> go_error \<Rightarrow> string" where
  "named cmd e = cmd @ '': '' @ error_text e"

subsection \<open>Lines and numbers\<close>

definition splitRawLines :: "string \<Rightarrow> string list" where
  "splitRawLines raw =
     (let raw = trim_suffix raw [newline] in if raw = [] then [] else split_on newline raw)"

abbreviation lines_text :: "string list \<Rightarrow> string" where
  "lines_text \<equiv> join [newline]"

fun numbered_lines :: "nat \<Rightarrow> string list \<Rightarrow> string list" where
  "numbered_lines n [] = []"
| "numbered_lines n (l # ls) = (show_nat n @ '':'' @ l) # numbered_lines (Suc n) ls"

definition formatWithLineNumbers :: "string \<Rightarrow> string" where
  "formatWithLineNumbers raw = lines_text (numbered_lines 1 (splitRawLines raw))"

definition parseNonNegativeInt :: "string \<Rightarrow> go_error + int" where
  "parseNonNegativeInt raw =
     (let trimmed = trim_space raw in
      if trimmed = [] then Inl (ErrText ''count must not be empty'')
      else case atoi trimmed of
        None \<Rightarrow> Inl (ErrText ''count must be integer'')
      | Some n \<Rightarrow> if n < 0 then Inl (ErrText ''count must be non-negative'') else Inr n)"

text \<open>\<open>strings.ReplaceAll(s, "|", "\|")\<close>, for the cells of a markdown table.\<close>

definition escape_bar :: "string \<Rightarrow> string" where
  "escape_bar s = concat (map (\<lambda>c. if c = CHR ''|'' then [backslash, c] else [c]) s)"

definition isDigits :: "string \<Rightarrow> bool" where
  "isDigits s \<longleftrightarrow> trim_space s \<noteq> [] \<and> list_all is_digit s"

definition isPathMissing :: "go_error \<Rightarrow> bool" where
  "isPathMissing err =
     (let message = to_lower (trim_space (error_text err)) in
      contains message ''no such file'' \<or> contains message ''not found'')"

definition pathErrorCode :: "go_error \<Rightarrow> int" where
  "pathErrorCode err = (if is_unsupported err then ExitCodeUnsupported else ExitCodeGeneral)"

text \<open>\<open>errors.As(err, &mountErr)\<close> with the text of the error found.\<close>

fun mount_error_text :: "go_error \<Rightarrow> string option" where
  "mount_error_text (MountUnsupportedError p q l d) = Some (error_text (MountUnsupportedError p q l d))"
| "mount_error_text (ErrWrap _ e) = mount_error_text e"
| "mount_error_text _ = None"

text \<open>\<open>hostPathInError\<close>: a host directory and what follows up to a blank or a colon. The expression matches
  leftmost; the alternatives begin differently.\<close>

definition host_roots :: "string list" where
  "host_roots = [''/Users/'', ''/home/'', ''/private/'', ''/var/folders/'', ''/tmp/'']"

definition host_rest :: "string \<Rightarrow> string" where
  "host_rest s = dropWhile (\<lambda>c. c \<notin> {CHR 0x09, CHR 0x0A, CHR 0x0C, CHR 0x0D, CHR 0x20, CHR '':''}) s"

function replace_host :: "string \<Rightarrow> string \<Rightarrow> string" where
  "replace_host new [] = []"
| "replace_host new (c # s) =
     (case find (\<lambda>r. has_prefix (c # s) r) host_roots of
        Some r \<Rightarrow> new @ replace_host new (host_rest (drop (length r) (c # s)))
      | None \<Rightarrow> c # replace_host new s)"
  by pat_completeness auto
termination
proof (relation "measure (\<lambda>(w, s). length s)", goal_cases)
  case (3 new c s r)
  then have "r \<in> set host_roots" by (metis find_Some_iff nth_mem)
  then have "0 < length r" by (auto simp: host_roots_def)
  then have "length (drop (length r) (c # s)) < length (c # s)" by simp
  moreover have "length (host_rest t) \<le> length t" for t by (simp add: host_rest_def length_dropWhile_le)
  ultimately have "length (host_rest (drop (length r) (c # s))) < length (c # s)" by (rule order.strict_trans1 [rotated])
  then show ?case by simp
qed simp_all

definition hostPathInError :: "string \<Rightarrow> bool" where
  "hostPathInError s \<longleftrightarrow> list_ex (contains s) host_roots"

definition formatCommandPathError :: "string \<Rightarrow> string \<Rightarrow> string \<Rightarrow> go_error \<Rightarrow> string" where
  "formatCommandPathError command virtualPath fallback err =
     (case mount_error_text err of
        Some m \<Rightarrow> command @ '': '' @ m
      | None \<Rightarrow>
         (if is_unsupported err then (if fallback \<noteq> [] then fallback else command @ '': not supported'')
          else if isPathMissing err then command @ '': '' @ virtualPath @ '': No such file or directory''
          else let msg = trim_space (error_text err) in
            command @ '': '' @ (if hostPathInError msg then trim_space (replace_host virtualPath msg) else msg)))"

subsection \<open>Traces and checks\<close>

definition traceDeniedPaths :: "string list \<Rightarrow> 'e sys \<Rightarrow> 'e sys" where
  "traceDeniedPaths paths s =
     foldl (\<lambda>s p. let trimmed = trim_space p in
       if trimmed = [] then s else markTraceDeniedPath trimmed (markTraceRequestedPath trimmed s)) s paths"

record pathCheck =
  pc_path :: string
  pc_op :: PathOp
  pc_unsupportedMessage :: string

fun preflightPathChecks :: "'e CommandRuntime \<Rightarrow> string \<Rightarrow> pathCheck list \<Rightarrow> 'e sys \<Rightarrow> (reply + unit) \<times> 'e sys" where
  "preflightPathChecks rt command [] s = (Inr (), s)"
| "preflightPathChecks rt command (check # checks) s =
     (case call (o_CheckPathOp (rt_Ops rt)) (pc_op check, pc_path check) s of (r, s) \<Rightarrow>
        (case r of
           Inl err \<Rightarrow>
             (if is_unsupported err
              then (Inl (if pc_unsupportedMessage check = [] then command @ '': not supported''
                         else pc_unsupportedMessage check, ExitCodeUnsupported), s)
              else (Inl (named command err, ExitCodeGeneral), s))
         | Inr _ \<Rightarrow> preflightPathChecks rt command checks s))"

definition currentWorkingDir :: "'e Ops \<Rightarrow> 'e sys \<Rightarrow> string" where
  "currentWorkingDir ops s =
     (let cwd = (case o_GetWorkingDir ops of None \<Rightarrow> [] | Some f \<Rightarrow> trim_space (f s)) in
      if cwd \<noteq> [] then cwd
      else if trim_space (o_WorkingDir ops) \<noteq> [] then trim_space (o_WorkingDir ops)
      else if trim_space (o_RootDir ops) \<noteq> [] then trim_space (o_RootDir ops)
      else ''/'')"

subsection \<open>Letters and one file\<close>

text \<open>The loop \<open>sort\<close>, \<open>uniq\<close> and \<open>wc\<close> read their arguments with: letters after a dash, words of their own and at
  most one file.\<close>

fun flag_letters :: "string \<Rightarrow> (string \<Rightarrow> 'f \<Rightarrow> 'f option) \<Rightarrow> string list \<Rightarrow> 'f \<Rightarrow> string + 'f" where
  "flag_letters cmd step [] flags = Inr flags"
| "flag_letters cmd step (ch # chs) flags =
     (case step ch flags of
        None \<Rightarrow> Inl (cmd @ '': unsupported flag -'' @ show_rune ch)
      | Some flags \<Rightarrow> flag_letters cmd step chs flags)"

fun letter_args :: "string \<Rightarrow> (string \<Rightarrow> 'f \<Rightarrow> 'f option) \<Rightarrow> (string \<Rightarrow> 'f \<Rightarrow> 'f option) \<Rightarrow> 'e CommandRuntime \<Rightarrow>
    string list \<Rightarrow> 'f \<Rightarrow> string \<Rightarrow> 'e sys \<Rightarrow> (reply + 'f \<times> string) \<times> 'e sys" where
  "letter_args cmd word step rt [] flags filePath s = (Inr (flags, filePath), s)"
| "letter_args cmd word step rt (arg # args) flags filePath s =
     (case word arg flags of
        Some flags \<Rightarrow> letter_args cmd word step rt args flags filePath s
      | None \<Rightarrow>
         (if has_prefix arg ''-'' \<and> arg \<noteq> ''-'' then
            (case flag_letters cmd step (rune_chunks (tl arg)) flags of
               Inl m \<Rightarrow> (Inl (m, ExitCodeUsage), s)
             | Inr flags \<Rightarrow> letter_args cmd word step rt args flags filePath s)
          else if filePath \<noteq> [] then (Inl (cmd @ '': unexpected argument: '' @ arg, ExitCodeUsage), s)
          else (case require_path rt arg s of (r, s) \<Rightarrow>
            (case r of
               Inl e \<Rightarrow> (Inl (named cmd e, ExitCodeUsage), s)
             | Inr p \<Rightarrow> letter_args cmd word step rt args flags p s))))"

text \<open>The input of such a command: stdin, or the file.\<close>

definition load_source :: "string \<Rightarrow> 'e CommandRuntime \<Rightarrow> string \<Rightarrow> 'e sys \<Rightarrow> (reply + string) \<times> 'e sys" where
  "load_source cmd rt filePath s =
     (if rt_HasStdin rt \<and> filePath = [] then (Inr (rt_Stdin rt), s)
      else if filePath = [] then (Inl (cmd @ '': expected stdin input or one file path'', ExitCodeUsage), s)
      else (case read_raw rt filePath s of (r, s) \<Rightarrow>
        (case r of Inl e \<Rightarrow> (Inl (named cmd e, ExitCodeGeneral), s) | Inr raw \<Rightarrow> (Inr raw, s))))"

subsection \<open>Lemmas\<close>

lemma splitRawLines_no_newline: "l \<in> set (splitRawLines raw) \<Longrightarrow> newline \<notin> set l"
  using split_on_no_sep by (auto simp: splitRawLines_def Let_def split: if_splits)

lemma traceDeniedPaths_simps [simp]:
  "sy_env (traceDeniedPaths ps s) = sy_env s" "sy_cwd (traceDeniedPaths ps s) = sy_cwd s"
  "sy_ctx (traceDeniedPaths ps s) = sy_ctx s"
proof -
  have "sy_env (traceDeniedPaths ps s) = sy_env s \<and> sy_cwd (traceDeniedPaths ps s) = sy_cwd s \<and>
      sy_ctx (traceDeniedPaths ps s) = sy_ctx s"
    unfolding traceDeniedPaths_def
    by (induction ps arbitrary: s) (auto simp: Let_def markTraceDeniedPath_def markTraceRequestedPath_def on_trace_def)
  then show "sy_env (traceDeniedPaths ps s) = sy_env s" "sy_cwd (traceDeniedPaths ps s) = sy_cwd s"
    "sy_ctx (traceDeniedPaths ps s) = sy_ctx s" by auto
qed

lemma parseNonNegativeInt_Inr: "parseNonNegativeInt raw = Inr n \<Longrightarrow> 0 \<le> n"
  by (auto simp: parseNonNegativeInt_def Let_def split: if_splits option.splits)

end
