(* ===== verification/Builtin_Docs.thy ===== *)
theory Builtin_Docs
  imports Command_Catalog Builtin_Base
begin

section \<open>What the builtins document of themselves (\<open>pkg/builtin/doc_contracts.go\<close>, \<open>manuals.go\<close>)\<close>

text \<open>
  The table of contracts (input, operands, output, whether a command changes anything) and the table of examples, as the code has
  them, and how a contract fills what a specification leaves empty. The manuals are files embedded in the program: an argument.
\<close>

record builtinDocContract =
  dc_StdinMode :: string
  dc_Operands :: string
  dc_DefaultOutput :: string
  dc_StructuredOutput :: string
  dc_StructuredFlags :: "string list"
  dc_MutationKind :: string
  dc_SuccessOutput :: string
  dc_PipeBehavior :: string
  dc_ExitCodes :: "string list"

definition BuiltinStdinNone :: string where "BuiltinStdinNone = ''none''"
definition BuiltinMutationMutates :: string where "BuiltinMutationMutates = ''mutates''"
definition BuiltinMutationReadOnly :: string where "BuiltinMutationReadOnly = ''read_only''"
definition BuiltinPipeGood :: string where "BuiltinPipeGood = ''good''"
definition BuiltinPipeStrong :: string where "BuiltinPipeStrong = ''strong''"
definition BuiltinPipeWeak :: string where "BuiltinPipeWeak = ''weak''"
definition BuiltinStdinOptional :: string where "BuiltinStdinOptional = ''optional''"
definition BuiltinStdinRequired :: string where "BuiltinStdinRequired = ''required''"
definition BuiltinSuccessContent :: string where "BuiltinSuccessContent = ''content''"
definition BuiltinSuccessSilent :: string where "BuiltinSuccessSilent = ''silent''"
definition BuiltinSuccessSummary :: string where "BuiltinSuccessSummary = ''summary''"

definition doc_contracts_1 :: "(string, builtinDocContract) gomap" where
  "doc_contracts_1 =
     [(''ls'', \<lparr>dc_StdinMode = BuiltinStdinNone,
        dc_Operands = ''zero or more PATH targets'',
        dc_DefaultOutput = ''path-per-line listing; '' @ [CHR 0x60] @ ''-l'' @ [CHR 0x60] @ '' uses fixed columns'',
        dc_StructuredOutput = ''machine-readable listing'',
        dc_StructuredFlags = [''--fmt json'', ''--fmt md''],
        dc_MutationKind = BuiltinMutationReadOnly, dc_SuccessOutput = BuiltinSuccessContent, dc_PipeBehavior = BuiltinPipeGood, dc_ExitCodes = []\<rparr>),
      (''tree'', \<lparr>dc_StdinMode = BuiltinStdinNone,
        dc_Operands = ''zero or more PATH targets'',
        dc_DefaultOutput = ''directory outline'',
        dc_StructuredOutput = [],
        dc_StructuredFlags = [],
        dc_MutationKind = BuiltinMutationReadOnly, dc_SuccessOutput = BuiltinSuccessContent, dc_PipeBehavior = BuiltinPipeWeak, dc_ExitCodes = []\<rparr>),
      (''cd'', \<lparr>dc_StdinMode = BuiltinStdinNone,
        dc_Operands = ''zero or one PATH'',
        dc_DefaultOutput = ''no output on success'',
        dc_StructuredOutput = [],
        dc_StructuredFlags = [],
        dc_MutationKind = BuiltinMutationMutates, dc_SuccessOutput = BuiltinSuccessSilent, dc_PipeBehavior = BuiltinPipeWeak, dc_ExitCodes = []\<rparr>),
      (''pwd'', \<lparr>dc_StdinMode = BuiltinStdinNone,
        dc_Operands = ''no operands'',
        dc_DefaultOutput = ''absolute path'',
        dc_StructuredOutput = [],
        dc_StructuredFlags = [],
        dc_MutationKind = BuiltinMutationReadOnly, dc_SuccessOutput = BuiltinSuccessContent, dc_PipeBehavior = BuiltinPipeGood, dc_ExitCodes = []\<rparr>),
      (''env'', \<lparr>dc_StdinMode = BuiltinStdinNone,
        dc_Operands = ''zero or one KEY'',
        dc_DefaultOutput = [CHR 0x60] @ ''KEY=VALUE'' @ [CHR 0x60] @ '' lines or one '' @ [CHR 0x60] @ ''KEY=VALUE'' @ [CHR 0x60] @ '' row'',
        dc_StructuredOutput = ''environment snapshot'',
        dc_StructuredFlags = [''--json'', ''--split''],
        dc_MutationKind = BuiltinMutationReadOnly, dc_SuccessOutput = BuiltinSuccessContent, dc_PipeBehavior = BuiltinPipeGood, dc_ExitCodes = []\<rparr>),
      (''frontmatter'', \<lparr>dc_StdinMode = BuiltinStdinNone,
        dc_Operands = ''subcommand plus PATH operands'',
        dc_DefaultOutput = ''subcommand-specific frontmatter summary or extracted content'',
        dc_StructuredOutput = ''frontmatter summary records'',
        dc_StructuredFlags = [''stat --fmt json'', ''stat --fmt md''],
        dc_MutationKind = BuiltinMutationReadOnly, dc_SuccessOutput = BuiltinSuccessContent, dc_PipeBehavior = BuiltinPipeGood, dc_ExitCodes = []\<rparr>),
      (''json'', \<lparr>dc_StdinMode = BuiltinStdinNone,
        dc_Operands = ''subcommand plus PATH operands'',
        dc_DefaultOutput = ''json stat rows, query rows, or extracted JSON subtree'',
        dc_StructuredOutput = ''JSON shape, query rows, or subtree result'',
        dc_StructuredFlags = [''stat --fmt json'', ''stat --fmt md'', ''get --fmt json'', ''get --fmt jsonl'', ''keys --fmt json'', ''keys --fmt jsonl'', ''len --fmt json'', ''len --fmt jsonl''],
        dc_MutationKind = BuiltinMutationReadOnly, dc_SuccessOutput = BuiltinSuccessContent, dc_PipeBehavior = BuiltinPipeGood, dc_ExitCodes = []\<rparr>),
      (''cat'', \<lparr>dc_StdinMode = BuiltinStdinOptional,
        dc_Operands = ''zero or one PATH'',
        dc_DefaultOutput = ''raw text'',
        dc_StructuredOutput = [],
        dc_StructuredFlags = [],
        dc_MutationKind = BuiltinMutationReadOnly, dc_SuccessOutput = BuiltinSuccessContent, dc_PipeBehavior = BuiltinPipeStrong, dc_ExitCodes = []\<rparr>),
      (''head'', \<lparr>dc_StdinMode = BuiltinStdinOptional,
        dc_Operands = ''optional PATH'',
        dc_DefaultOutput = ''first N lines of text'',
        dc_StructuredOutput = [],
        dc_StructuredFlags = [],
        dc_MutationKind = BuiltinMutationReadOnly, dc_SuccessOutput = BuiltinSuccessContent, dc_PipeBehavior = BuiltinPipeStrong, dc_ExitCodes = []\<rparr>)]"

definition doc_contracts_2 :: "(string, builtinDocContract) gomap" where
  "doc_contracts_2 =
     [(''tail'', \<lparr>dc_StdinMode = BuiltinStdinOptional,
        dc_Operands = ''optional PATH'',
        dc_DefaultOutput = ''last N lines of text'',
        dc_StructuredOutput = [],
        dc_StructuredFlags = [],
        dc_MutationKind = BuiltinMutationReadOnly, dc_SuccessOutput = BuiltinSuccessContent, dc_PipeBehavior = BuiltinPipeStrong, dc_ExitCodes = []\<rparr>),
      (''grep'', \<lparr>dc_StdinMode = BuiltinStdinOptional,
        dc_Operands = ''PATTERN plus optional PATH'',
        dc_DefaultOutput = ''matched lines with optional file and line prefixes'',
        dc_StructuredOutput = ''flat match/context/file records'',
        dc_StructuredFlags = [''--fmt jsonl''],
        dc_MutationKind = BuiltinMutationReadOnly, dc_SuccessOutput = BuiltinSuccessContent, dc_PipeBehavior = BuiltinPipeStrong, dc_ExitCodes = []\<rparr>),
      (''rg'', \<lparr>dc_StdinMode = BuiltinStdinOptional,
        dc_Operands = ''PATTERN plus zero or more PATH targets, or '' @ [CHR 0x60] @ ''--files'' @ [CHR 0x60] @ '' with optional PATH targets'',
        dc_DefaultOutput = ''recursive match rows prefixed with path and line number, or path-per-line file lists'',
        dc_StructuredOutput = ''flat match/context/file records'',
        dc_StructuredFlags = [''--fmt jsonl''],
        dc_MutationKind = BuiltinMutationReadOnly, dc_SuccessOutput = BuiltinSuccessContent, dc_PipeBehavior = BuiltinPipeStrong, dc_ExitCodes = []\<rparr>),
      (''find'', \<lparr>dc_StdinMode = BuiltinStdinNone,
        dc_Operands = ''optional DIR plus expression flags'',
        dc_DefaultOutput = ''matched paths, one per line'',
        dc_StructuredOutput = ''flat path records'',
        dc_StructuredFlags = [''--fmt jsonl''],
        dc_MutationKind = BuiltinMutationReadOnly, dc_SuccessOutput = BuiltinSuccessContent, dc_PipeBehavior = BuiltinPipeGood, dc_ExitCodes = []\<rparr>),
      (''which'', \<lparr>dc_StdinMode = BuiltinStdinNone,
        dc_Operands = ''one or more COMMAND references'',
        dc_DefaultOutput = ''resolved path per line'',
        dc_StructuredOutput = ''lookup summary'',
        dc_StructuredFlags = [''--fmt json''],
        dc_MutationKind = BuiltinMutationReadOnly, dc_SuccessOutput = BuiltinSuccessContent, dc_PipeBehavior = BuiltinPipeGood, dc_ExitCodes = []\<rparr>),
      (''type'', \<lparr>dc_StdinMode = BuiltinStdinNone,
        dc_Operands = ''one or more COMMAND references'',
        dc_DefaultOutput = ''name kind target rows'',
        dc_StructuredOutput = ''command-resolution records'',
        dc_StructuredFlags = [''--json''],
        dc_MutationKind = BuiltinMutationReadOnly, dc_SuccessOutput = BuiltinSuccessContent, dc_PipeBehavior = BuiltinPipeGood, dc_ExitCodes = []\<rparr>),
      (''echo'', \<lparr>dc_StdinMode = BuiltinStdinNone,
        dc_Operands = ''zero or more text arguments'',
        dc_DefaultOutput = ''joined text'',
        dc_StructuredOutput = [],
        dc_StructuredFlags = [],
        dc_MutationKind = BuiltinMutationReadOnly, dc_SuccessOutput = BuiltinSuccessContent, dc_PipeBehavior = BuiltinPipeStrong, dc_ExitCodes = []\<rparr>),
      (''tee'', \<lparr>dc_StdinMode = BuiltinStdinRequired,
        dc_Operands = ''exactly one PATH'',
        dc_DefaultOutput = ''stdin passthrough'',
        dc_StructuredOutput = ''write summary'',
        dc_StructuredFlags = [''--confirm'', ''--json''],
        dc_MutationKind = BuiltinMutationMutates, dc_SuccessOutput = BuiltinSuccessContent, dc_PipeBehavior = BuiltinPipeStrong, dc_ExitCodes = []\<rparr>),
      (''sed'', \<lparr>dc_StdinMode = BuiltinStdinOptional,
        dc_Operands = ''expression plus optional PATH depending on mode'',
        dc_DefaultOutput = ''selected text lines or silent mutation'',
        dc_StructuredOutput = ''in-place edit summary'',
        dc_StructuredFlags = [''-i --json''],
        dc_MutationKind = BuiltinMutationMutates, dc_SuccessOutput = BuiltinSuccessContent, dc_PipeBehavior = BuiltinPipeStrong, dc_ExitCodes = []\<rparr>)]"

definition doc_contracts_3 :: "(string, builtinDocContract) gomap" where
  "doc_contracts_3 =
     [(''man'', \<lparr>dc_StdinMode = BuiltinStdinNone,
        dc_Operands = ''command name or '' @ [CHR 0x60] @ ''--list'' @ [CHR 0x60],
        dc_DefaultOutput = ''summary documentation'',
        dc_StructuredOutput = ''machine-readable command catalog'',
        dc_StructuredFlags = [''--list --fmt json''],
        dc_MutationKind = BuiltinMutationReadOnly, dc_SuccessOutput = BuiltinSuccessContent, dc_PipeBehavior = BuiltinPipeGood, dc_ExitCodes = []\<rparr>),
      (''date'', \<lparr>dc_StdinMode = BuiltinStdinNone,
        dc_Operands = ''optional '' @ [CHR 0x60] @ ''+FORMAT'' @ [CHR 0x60],
        dc_DefaultOutput = ''formatted date/time text'',
        dc_StructuredOutput = [],
        dc_StructuredFlags = [],
        dc_MutationKind = BuiltinMutationReadOnly, dc_SuccessOutput = BuiltinSuccessContent, dc_PipeBehavior = BuiltinPipeGood, dc_ExitCodes = []\<rparr>),
      (''mkdir'', \<lparr>dc_StdinMode = BuiltinStdinNone,
        dc_Operands = ''one or more PATH operands'',
        dc_DefaultOutput = ''no output on success'',
        dc_StructuredOutput = ''path status entries'',
        dc_StructuredFlags = [''--confirm'', ''--json''],
        dc_MutationKind = BuiltinMutationMutates, dc_SuccessOutput = BuiltinSuccessSilent, dc_PipeBehavior = BuiltinPipeWeak, dc_ExitCodes = []\<rparr>),
      (''cp'', \<lparr>dc_StdinMode = BuiltinStdinNone,
        dc_Operands = ''SRC_PATH DEST_PATH'',
        dc_DefaultOutput = ''no output on success'',
        dc_StructuredOutput = ''copy summary'',
        dc_StructuredFlags = [''--confirm'', ''--json''],
        dc_MutationKind = BuiltinMutationMutates, dc_SuccessOutput = BuiltinSuccessSilent, dc_PipeBehavior = BuiltinPipeWeak, dc_ExitCodes = []\<rparr>),
      (''mv'', \<lparr>dc_StdinMode = BuiltinStdinNone,
        dc_Operands = ''SRC_PATH DEST_PATH'',
        dc_DefaultOutput = ''no output on success'',
        dc_StructuredOutput = ''move summary'',
        dc_StructuredFlags = [''--confirm'', ''--json''],
        dc_MutationKind = BuiltinMutationMutates, dc_SuccessOutput = BuiltinSuccessSilent, dc_PipeBehavior = BuiltinPipeWeak, dc_ExitCodes = []\<rparr>),
      (''rm'', \<lparr>dc_StdinMode = BuiltinStdinNone,
        dc_Operands = ''one or more PATH operands'',
        dc_DefaultOutput = ''no output on success'',
        dc_StructuredOutput = ''path status entries'',
        dc_StructuredFlags = [''--confirm'', ''--json''],
        dc_MutationKind = BuiltinMutationMutates, dc_SuccessOutput = BuiltinSuccessSilent, dc_PipeBehavior = BuiltinPipeWeak, dc_ExitCodes = []\<rparr>),
      (''rmdir'', \<lparr>dc_StdinMode = BuiltinStdinNone,
        dc_Operands = ''one or more PATH operands'',
        dc_DefaultOutput = ''no output on success'',
        dc_StructuredOutput = ''path status entries'',
        dc_StructuredFlags = [''--confirm'', ''--json''],
        dc_MutationKind = BuiltinMutationMutates, dc_SuccessOutput = BuiltinSuccessSilent, dc_PipeBehavior = BuiltinPipeWeak, dc_ExitCodes = []\<rparr>),
      (''touch'', \<lparr>dc_StdinMode = BuiltinStdinNone,
        dc_Operands = ''one or more PATH operands'',
        dc_DefaultOutput = ''no output on success'',
        dc_StructuredOutput = ''path status entries'',
        dc_StructuredFlags = [''--json''],
        dc_MutationKind = BuiltinMutationMutates, dc_SuccessOutput = BuiltinSuccessSilent, dc_PipeBehavior = BuiltinPipeWeak, dc_ExitCodes = []\<rparr>),
      (''wc'', \<lparr>dc_StdinMode = BuiltinStdinOptional,
        dc_Operands = ''optional PATH'',
        dc_DefaultOutput = ''bare number for one metric; labeled compact text for multiple metrics'',
        dc_StructuredOutput = ''count summary object'',
        dc_StructuredFlags = [''--json''],
        dc_MutationKind = BuiltinMutationReadOnly, dc_SuccessOutput = BuiltinSuccessContent, dc_PipeBehavior = BuiltinPipeStrong, dc_ExitCodes = []\<rparr>)]"

definition doc_contracts_4 :: "(string, builtinDocContract) gomap" where
  "doc_contracts_4 =
     [(''sort'', \<lparr>dc_StdinMode = BuiltinStdinOptional,
        dc_Operands = ''optional PATH'',
        dc_DefaultOutput = ''sorted text lines'',
        dc_StructuredOutput = [],
        dc_StructuredFlags = [],
        dc_MutationKind = BuiltinMutationReadOnly, dc_SuccessOutput = BuiltinSuccessContent, dc_PipeBehavior = BuiltinPipeStrong, dc_ExitCodes = []\<rparr>),
      (''uniq'', \<lparr>dc_StdinMode = BuiltinStdinOptional,
        dc_Operands = ''optional PATH'',
        dc_DefaultOutput = ''deduplicated text lines'',
        dc_StructuredOutput = [],
        dc_StructuredFlags = [],
        dc_MutationKind = BuiltinMutationReadOnly, dc_SuccessOutput = BuiltinSuccessContent, dc_PipeBehavior = BuiltinPipeStrong, dc_ExitCodes = []\<rparr>),
      (''diff'', \<lparr>dc_StdinMode = BuiltinStdinNone,
        dc_Operands = ''PATH1 PATH2'',
        dc_DefaultOutput = ''unified diff'',
        dc_StructuredOutput = [],
        dc_StructuredFlags = [],
        dc_MutationKind = BuiltinMutationReadOnly, dc_SuccessOutput = BuiltinSuccessContent, dc_PipeBehavior = BuiltinPipeGood, dc_ExitCodes = []\<rparr>),
      (''edit'', \<lparr>dc_StdinMode = BuiltinStdinNone,
        dc_Operands = ''PATH plus --old and usually --new'',
        dc_DefaultOutput = ''no output on success'',
        dc_StructuredOutput = ''edit summary object'',
        dc_StructuredFlags = [''--json'', ''--confirm''],
        dc_MutationKind = BuiltinMutationMutates, dc_SuccessOutput = BuiltinSuccessSilent, dc_PipeBehavior = BuiltinPipeWeak, dc_ExitCodes = []\<rparr>),
      (''glob'', \<lparr>dc_StdinMode = BuiltinStdinNone,
        dc_Operands = ''PATTERN plus zero or more PATH roots'',
        dc_DefaultOutput = ''matched paths, one per line'',
        dc_StructuredOutput = ''flat path records'',
        dc_StructuredFlags = [''--fmt jsonl''],
        dc_MutationKind = BuiltinMutationReadOnly, dc_SuccessOutput = BuiltinSuccessContent, dc_PipeBehavior = BuiltinPipeGood, dc_ExitCodes = []\<rparr>),
      (''view'', \<lparr>dc_StdinMode = BuiltinStdinNone,
        dc_Operands = ''exactly one PATH'',
        dc_DefaultOutput = ''numbered line window'',
        dc_StructuredOutput = ''numbered line records'',
        dc_StructuredFlags = [''--fmt jsonl''],
        dc_MutationKind = BuiltinMutationReadOnly, dc_SuccessOutput = BuiltinSuccessContent, dc_PipeBehavior = BuiltinPipeGood, dc_ExitCodes = []\<rparr>),
      (''dirname'', \<lparr>dc_StdinMode = BuiltinStdinNone,
        dc_Operands = ''exactly one PATH'',
        dc_DefaultOutput = ''parent path'',
        dc_StructuredOutput = [],
        dc_StructuredFlags = [],
        dc_MutationKind = BuiltinMutationReadOnly, dc_SuccessOutput = BuiltinSuccessContent, dc_PipeBehavior = BuiltinPipeGood, dc_ExitCodes = []\<rparr>),
      (''basename'', \<lparr>dc_StdinMode = BuiltinStdinNone,
        dc_Operands = ''exactly one PATH'',
        dc_DefaultOutput = ''final path component'',
        dc_StructuredOutput = [],
        dc_StructuredFlags = [],
        dc_MutationKind = BuiltinMutationReadOnly, dc_SuccessOutput = BuiltinSuccessContent, dc_PipeBehavior = BuiltinPipeGood, dc_ExitCodes = []\<rparr>)]"

definition builtinDocContracts :: "(string, builtinDocContract) gomap" where
  "builtinDocContracts = doc_contracts_1 @ doc_contracts_2 @ doc_contracts_3 @ doc_contracts_4"

text \<open>A contract fills the fields a specification leaves empty.\<close>

definition fill :: "'a list \<Rightarrow> 'a list \<Rightarrow> 'a list" where
  "fill given contract = (if given = [] then contract else given)"

definition applyCommandDocContract :: "'e CommandSpec \<Rightarrow> 'e CommandSpec" where
  "applyCommandDocContract spec =
     (case map_of builtinDocContracts (cs_Name spec) of
        None \<Rightarrow> spec
      | Some contract \<Rightarrow> spec\<lparr>
          cs_StdinMode := fill (cs_StdinMode spec) (dc_StdinMode contract),
          cs_Operands := fill (cs_Operands spec) (dc_Operands contract),
          cs_DefaultOutput := fill (cs_DefaultOutput spec) (dc_DefaultOutput contract),
          cs_StructuredOutput := fill (cs_StructuredOutput spec) (dc_StructuredOutput contract),
          cs_StructuredFlags := fill (cs_StructuredFlags spec) (dc_StructuredFlags contract),
          cs_MutationKind := fill (cs_MutationKind spec) (dc_MutationKind contract),
          cs_SuccessOutput := fill (cs_SuccessOutput spec) (dc_SuccessOutput contract),
          cs_PipeBehavior := fill (cs_PipeBehavior spec) (dc_PipeBehavior contract),
          cs_ExitCodes := fill (cs_ExitCodes spec) (dc_ExitCodes contract)\<rparr>)"

subsection \<open>Examples and manuals\<close>

definition commandExamples :: "(string, string list) gomap" where
  "commandExamples =
     [(''ls'', [''ls /'',
        ''ls -l /task_outputs'',
        ''ls -R /knowledge_base'']),
      (''tree'', [''tree /'',
        ''tree -L 2 /task_outputs'',
        ''tree -a /knowledge_base'']),
      (''frontmatter'', [''frontmatter stat docs -r'',
        ''frontmatter get --key title /knowledge_base/notes.md'',
        ''frontmatter print --key sop -C 2 docs/must-sop.md'']),
      (''json'', [''json stat /task_outputs/data.json'',
        ''json stat -r --fmt json /workspace'',
        ''json get --path items[0].name /task_outputs/data.json'',
        ''json get --path meta.author --path items[1].name --fmt json /task_outputs/data.json'',
        ''json keys --path meta /task_outputs/data.json'',
        ''json len -r --path items /workspace'']),
      (''cat'', [''cat /knowledge_base/readme.md'',
        ''cat -n /knowledge_base/readme.md'',
        ''echo hello | cat'']),
      (''head'', [''head /task_outputs/report.md'',
        ''head -n 5 /task_outputs/report.md'']),
      (''tail'', [''tail /task_outputs/report.md'',
        ''tail -n 5 /task_outputs/report.md'']),
      (''grep'', [''grep TODO /task_outputs/notes.md'',
        ''grep -E \"func'' @ [CHR 0x5C] @ ''s+\" -r /knowledge_base'',
        ''grep -l error -r /task_outputs'']),
      (''rg'', [''rg \"TODO\" /task_outputs'',
        ''rg -g \"*.md\" \"hello\" /knowledge_base'',
        ''rg --files -g \"*.json\" /task_outputs'']),
      (''find'', [''find / -name \"*.md\"'',
        ''find /task_outputs -name \"*.json\"'',
        ''find /knowledge_base -name \"*.md\" -exec cat {} ;'']),
      (''echo'', [''echo hello world'',
        ''echo \"report data\" | tee /task_outputs/report.txt'']),
      (''tee'', [''echo content | tee /task_outputs/file.md'',
        ''echo more | tee -a /task_outputs/file.md'']),
      (''sed'', [''sed -i '' @ [squote] @ ''s/draft/final/'' @ [squote] @ '' /task_outputs/report.md'',
        ''sed -n '' @ [squote] @ ''10,20p'' @ [squote] @ '' /knowledge_base/data.txt'']),
      (''man'', [''man ls'',
        ''man -v grep'',
        ''man --list'']),
      (''date'', [''date'',
        ''date -u'',
        ''date +%F'',
        ''date +%s'']),
      (''env'', [''env'',
        ''env PATH'']),
      (''mkdir'', [''mkdir /task_outputs/reports'',
        ''mkdir -p /task_outputs/a/b/c'']),
      (''cp'', [''cp /knowledge_base/template.md /task_outputs/report.md'',
        ''cp /task_outputs/input.txt /task_outputs/output.txt'']),
      (''mv'', [''mv /task_outputs/draft.md /task_outputs/final.md'']),
      (''rm'', [''rm /task_outputs/old.md'',
        ''rm /task_outputs/temp1.txt /task_outputs/temp2.txt'']),
      (''rmdir'', [''rmdir /task_outputs/empty_dir'',
        ''rmdir /task_outputs/cache/a /task_outputs/cache/b'']),
      (''touch'', [''touch /task_outputs/notes.md'']),
      (''cd'', [''cd /task_outputs'',
        ''cd ../knowledge_base'',
        ''cd'']),
      (''pwd'', [''pwd'']),
      (''which'', [''which ls'',
        ''which report_tool'',
        ''which ll'']),
      (''type'', [''type ls'',
        ''type report_tool'',
        ''type ll'']),
      (''wc'', [''wc /task_outputs/report.md'',
        ''wc -l /knowledge_base/data.txt'']),
      (''sort'', [''sort /task_outputs/names.txt'',
        ''sort -rn /task_outputs/scores.txt'']),
      (''uniq'', [''sort /task_outputs/log.txt | uniq -c'',
        ''uniq -d /task_outputs/sorted.txt'']),
      (''diff'', [''diff /knowledge_base/v1.md /knowledge_base/v2.md'']),
      (''edit'', [''edit --old TODO --new DONE /task_outputs/notes.md'',
        ''edit --json --old unique --new patched /task_outputs/report.md'',
        ''edit --count --old foo /task_outputs/dup.txt'',
        ''edit --all --old foo --new bar /task_outputs/dup.txt'']),
      (''glob'', [''glob '' @ [squote] @ ''*.go'' @ [squote],
        ''glob '' @ [squote] @ ''**/*.md'' @ [squote] @ '' /knowledge_base'',
        ''glob --fmt jsonl '' @ [squote] @ ''pkg/*.go'' @ [squote] @ '' /task_outputs/project'']),
      (''view'', [''view /knowledge_base/readme.md'',
        ''view --start 20 --lines 40 /task_outputs/report.md'',
        ''view --fmt jsonl --start 1 --lines 10 /task_outputs/data.json'']),
      (''dirname'', [''dirname /task_outputs/report.md'']),
      (''basename'', [''basename /task_outputs/report.md''])]"

definition ExamplesFor :: "string \<Rightarrow> string list" where
  "ExamplesFor name = (case map_of commandExamples name of None \<Rightarrow> [] | Some xs \<Rightarrow> xs)"

text \<open>The embedded files, by path, and the entries of the directory of the manuals with whether they are directories.\<close>

record embedded_files =
  ef_ReadFile :: "string \<Rightarrow> string option"
  ef_ReadDir :: "(string \<times> bool) list option"

definition manual_path :: "string \<Rightarrow> string" where
  "manual_path name = ''commands/'' @ name @ ''/manual.md''"

definition LoadEmbeddedManual :: "embedded_files \<Rightarrow> string \<Rightarrow> string" where
  "LoadEmbeddedManual fs name =
     (let trimmed = trim_space name in
      if trimmed = [] then [] else case ef_ReadFile fs (manual_path trimmed) of None \<Rightarrow> [] | Some data \<Rightarrow> data)"

definition LoadAllManualNames :: "embedded_files \<Rightarrow> string list" where
  "LoadAllManualNames fs =
     (case ef_ReadDir fs of
        None \<Rightarrow> []
      | Some entries \<Rightarrow>
          sort (filter (\<lambda>n. n \<noteq> [] \<and> ef_ReadFile fs (manual_path n) \<noteq> None) (map (\<lambda>e. trim_space (fst e)) (filter snd entries))))"

subsection \<open>What the contracts say\<close>

text \<open>Whether a documented command changes anything.\<close>

definition documented_kinds :: "(string, string) gomap" where
  "documented_kinds = map (\<lambda>(n, c). (n, dc_MutationKind c)) builtinDocContracts"

lemma documented_kinds_code:
  "documented_kinds = [(''ls'', BuiltinMutationReadOnly), (''tree'', BuiltinMutationReadOnly), (''cd'', BuiltinMutationMutates), (''pwd'', BuiltinMutationReadOnly), (''env'', BuiltinMutationReadOnly), (''frontmatter'', BuiltinMutationReadOnly), (''json'', BuiltinMutationReadOnly), (''cat'', BuiltinMutationReadOnly), (''head'', BuiltinMutationReadOnly), (''tail'', BuiltinMutationReadOnly), (''grep'', BuiltinMutationReadOnly), (''rg'', BuiltinMutationReadOnly), (''find'', BuiltinMutationReadOnly), (''which'', BuiltinMutationReadOnly), (''type'', BuiltinMutationReadOnly), (''echo'', BuiltinMutationReadOnly), (''tee'', BuiltinMutationMutates), (''sed'', BuiltinMutationMutates), (''man'', BuiltinMutationReadOnly), (''date'', BuiltinMutationReadOnly), (''mkdir'', BuiltinMutationMutates), (''cp'', BuiltinMutationMutates), (''mv'', BuiltinMutationMutates), (''rm'', BuiltinMutationMutates), (''rmdir'', BuiltinMutationMutates), (''touch'', BuiltinMutationMutates), (''wc'', BuiltinMutationReadOnly), (''sort'', BuiltinMutationReadOnly), (''uniq'', BuiltinMutationReadOnly), (''diff'', BuiltinMutationReadOnly), (''edit'', BuiltinMutationMutates), (''glob'', BuiltinMutationReadOnly), (''view'', BuiltinMutationReadOnly), (''dirname'', BuiltinMutationReadOnly), (''basename'', BuiltinMutationReadOnly)]"
  by (simp add: documented_kinds_def builtinDocContracts_def doc_contracts_1_def doc_contracts_2_def doc_contracts_3_def doc_contracts_4_def)

lemma applied_kind:
  "cs_MutationKind spec = [] \<Longrightarrow>
   cs_MutationKind (applyCommandDocContract spec) = (case map_of documented_kinds (cs_Name spec) of None \<Rightarrow> [] | Some k \<Rightarrow> k)"
  by (simp add: applyCommandDocContract_def documented_kinds_def map_of_map fill_def split: option.split)

lemma applied_fields [simp]:
  "cs_Name (applyCommandDocContract spec) = cs_Name spec"
  "cs_Run (applyCommandDocContract spec) = cs_Run spec"
  "cs_Manual (applyCommandDocContract spec) = cs_Manual spec"
  "cs_DetailedManual (applyCommandDocContract spec) = cs_DetailedManual spec"
  by (simp_all add: applyCommandDocContract_def split: option.split)

end
