(* ===== verification/Builtin_Text.thy ===== *)
theory Builtin_Text
  imports Builtin_Base
begin

section \<open>The text builtins (\<open>pkg/builtin\<close>: echo, cat, head, tail, view, wc, sort, uniq, diff, dirname, basename)\<close>

text \<open>The commands that read one text, from stdin or a file, and print another; none calls a changing callback.\<close>

subsection \<open>echo, dirname, basename\<close>

definition runEcho :: "'e builtin" where
  "runEcho rt args s = ((join '' '' args, 0), s)"

fun path_name_operands :: "string \<Rightarrow> bool \<Rightarrow> string list \<Rightarrow> string list \<Rightarrow> string + string list" where
  "path_name_operands command options [] positional = Inr positional"
| "path_name_operands command options (arg # args) positional =
     (if options \<and> arg = ''--'' then path_name_operands command False args positional
      else if options \<and> has_prefix arg ''-'' then Inl (command @ '': unsupported flag '' @ arg)
      else path_name_operands command options args (positional @ [arg]))"

definition parseSinglePathNameArg :: "string \<Rightarrow> string list \<Rightarrow> (string, string, 'e) op \<Rightarrow> 'e sys \<Rightarrow>
    (string + string) \<times> 'e sys" where
  "parseSinglePathNameArg command args requireAbsolutePath s =
     (case path_name_operands command True args [] of
        Inl m \<Rightarrow> (Inl m, s)
      | Inr [p] \<Rightarrow> (case requireAbsolutePath p s of (r, s) \<Rightarrow>
          (case r of Inl e \<Rightarrow> (Inl (named command e), s) | Inr pathValue \<Rightarrow> (Inr pathValue, s)))
      | Inr _ \<Rightarrow> (Inl (command @ '': requires exactly one PATH''), s))"

definition runDirname :: "'e builtin" where
  "runDirname rt args s =
     (case parseSinglePathNameArg ''dirname'' args (require_path rt) s of (r, s) \<Rightarrow>
        (case r of Inl m \<Rightarrow> ((m, ExitCodeUsage), s) | Inr p \<Rightarrow> ((path_dir p, 0), s)))"

definition runBasename :: "'e builtin" where
  "runBasename rt args s =
     (case parseSinglePathNameArg ''basename'' args (require_path rt) s of (r, s) \<Rightarrow>
        (case r of Inl m \<Rightarrow> ((m, ExitCodeUsage), s) | Inr p \<Rightarrow> ((path_base p, 0), s)))"

subsection \<open>cat\<close>

fun cat_args :: "'e CommandRuntime \<Rightarrow> string list \<Rightarrow> bool \<Rightarrow> string \<Rightarrow> 'e sys \<Rightarrow> (reply + bool \<times> string) \<times> 'e sys" where
  "cat_args rt [] showLineNumbers filePath s = (Inr (showLineNumbers, filePath), s)"
| "cat_args rt (arg # args) showLineNumbers filePath s =
     (if arg = ''-n'' then cat_args rt args True filePath s
      else if has_prefix arg ''-'' \<and> arg \<noteq> ''-'' then (Inl (''cat: unsupported flag '' @ arg, ExitCodeUsage), s)
      else if filePath \<noteq> [] then (Inl (''cat: expected exactly one file path'', ExitCodeUsage), s)
      else (case require_path rt arg s of (r, s) \<Rightarrow>
        (case r of Inl e \<Rightarrow> (Inl (named ''cat'' e, ExitCodeUsage), s)
         | Inr p \<Rightarrow> cat_args rt args showLineNumbers p s)))"

definition runCat :: "'e builtin" where
  "runCat rt args s =
     (case cat_args rt args False [] s of (r, s) \<Rightarrow>
        (case r of
           Inl out \<Rightarrow> (out, s)
         | Inr (showLineNumbers, filePath) \<Rightarrow>
            (if rt_HasStdin rt \<and> filePath = []
             then ((if showLineNumbers then formatWithLineNumbers (rt_Stdin rt) else rt_Stdin rt, 0), s)
             else if filePath = [] then ((''cat: expected exactly one file path'', ExitCodeUsage), s)
             else (case read_raw rt filePath s of (r, s) \<Rightarrow>
               (case r of Inl e \<Rightarrow> ((named ''cat'' e, ExitCodeGeneral), s)
                | Inr raw \<Rightarrow> ((if showLineNumbers then formatWithLineNumbers raw else raw, 0), s))))))"

subsection \<open>head and tail\<close>

record headTailArgs =
  ht_count :: int
  ht_path :: string

fun parseHeadTailArgs :: "string \<Rightarrow> (string, string, 'e) op \<Rightarrow> string list \<Rightarrow> headTailArgs \<Rightarrow> 'e sys \<Rightarrow>
    (string + headTailArgs) \<times> 'e sys" where
  "parseHeadTailArgs cmd requireAbsolutePath [] opts s = (Inr opts, s)"
| "parseHeadTailArgs cmd requireAbsolutePath (arg # args) opts s =
     (if has_prefix arg ''-'' \<and> arg \<noteq> ''-'' then
        (if arg = ''-n'' then
           (case args of
              [] \<Rightarrow> (Inl (cmd @ '': -n requires a non-negative integer''), s)
            | n # args \<Rightarrow>
               (case parseNonNegativeInt n of
                  Inl e \<Rightarrow> (Inl (named cmd e), s)
                | Inr v \<Rightarrow> parseHeadTailArgs cmd requireAbsolutePath args (opts\<lparr>ht_count := v\<rparr>) s))
         else if has_prefix arg ''-n='' then
           (case parseNonNegativeInt (trim_prefix arg ''-n='') of
              Inl e \<Rightarrow> (Inl (named cmd e), s)
            | Inr v \<Rightarrow> parseHeadTailArgs cmd requireAbsolutePath args (opts\<lparr>ht_count := v\<rparr>) s)
         else if has_prefix arg ''-n'' \<and> 2 < length arg then
           (case parseNonNegativeInt (trim_prefix arg ''-n'') of
              Inl e \<Rightarrow> (Inl (named cmd e), s)
            | Inr v \<Rightarrow> parseHeadTailArgs cmd requireAbsolutePath args (opts\<lparr>ht_count := v\<rparr>) s)
         else if 1 < length arg \<and> isDigits (tl arg) then
           (case parseNonNegativeInt (tl arg) of
              Inl e \<Rightarrow> (Inl (named cmd e), s)
            | Inr v \<Rightarrow> parseHeadTailArgs cmd requireAbsolutePath args (opts\<lparr>ht_count := v\<rparr>) s)
         else (Inl (cmd @ '': unsupported flag '' @ arg), s))
      else if ht_path opts \<noteq> [] then (Inl (cmd @ '': unexpected argument: '' @ arg), s)
      else (case requireAbsolutePath arg s of (r, s) \<Rightarrow>
        (case r of
           Inl e \<Rightarrow> (Inl (named cmd e), s)
         | Inr p \<Rightarrow> parseHeadTailArgs cmd requireAbsolutePath args (opts\<lparr>ht_path := p\<rparr>) s)))"

definition loadHeadTailSource :: "'e CommandRuntime \<Rightarrow> string \<Rightarrow> string \<Rightarrow> 'e sys \<Rightarrow> (reply + string) \<times> 'e sys" where
  "loadHeadTailSource rt cmd pathValue s =
     (if rt_HasStdin rt \<and> trim_space pathValue = [] then (Inr (rt_Stdin rt), s)
      else if trim_space pathValue = []
      then (Inl (cmd @ '': expected stdin input or one file path'', ExitCodeUsage), s)
      else (case read_raw rt pathValue s of (r, s) \<Rightarrow>
        (case r of Inl e \<Rightarrow> (Inl (named cmd e, ExitCodeGeneral), s) | Inr raw \<Rightarrow> (Inr raw, s))))"

definition head_text :: "int \<Rightarrow> string list \<Rightarrow> string" where
  "head_text cnt lines =
     (if cnt \<le> 0 \<or> lines = [] then []
      else if int (length lines) \<le> cnt then lines_text lines
      else lines_text (take (nat cnt) lines))"

definition tail_text :: "int \<Rightarrow> string list \<Rightarrow> string" where
  "tail_text cnt lines =
     (if cnt \<le> 0 \<or> lines = [] then []
      else if int (length lines) \<le> cnt then lines_text lines
      else lines_text (drop (length lines - nat cnt) lines))"

definition run_window :: "string \<Rightarrow> (int \<Rightarrow> string list \<Rightarrow> string) \<Rightarrow> 'e builtin" where
  "run_window cmd render rt args s =
     (case parseHeadTailArgs cmd (require_path rt) args \<lparr>ht_count = 10, ht_path = []\<rparr> s of (r, s) \<Rightarrow>
        (case r of
           Inl m \<Rightarrow> ((m, ExitCodeUsage), s)
         | Inr opts \<Rightarrow>
            (case loadHeadTailSource rt cmd (ht_path opts) s of (r, s) \<Rightarrow>
              (case r of Inl out \<Rightarrow> (out, s) | Inr raw \<Rightarrow> ((render (ht_count opts) (splitRawLines raw), 0), s)))))"

definition runHead :: "'e builtin" where "runHead = run_window ''head'' head_text"
definition runTail :: "'e builtin" where "runTail = run_window ''tail'' tail_text"

subsection \<open>wc\<close>

record wcFlags =
  wf_lines :: bool
  wf_words :: bool
  wf_bytes :: bool
  wf_json :: bool

definition wc_word :: "string \<Rightarrow> wcFlags \<Rightarrow> wcFlags option" where
  "wc_word arg flags = (if arg = ''--json'' then Some (flags\<lparr>wf_json := True\<rparr>) else None)"

definition wc_letter :: "string \<Rightarrow> wcFlags \<Rightarrow> wcFlags option" where
  "wc_letter ch flags =
     (if ch = ''l'' then Some (flags\<lparr>wf_lines := True\<rparr>)
      else if ch = ''w'' then Some (flags\<lparr>wf_words := True\<rparr>)
      else if ch = ''c'' then Some (flags\<lparr>wf_bytes := True\<rparr>)
      else None)"

definition line_total :: "string \<Rightarrow> nat" where
  "line_total raw =
     (if raw = [] then 0
      else let lines = length (filter (\<lambda>c. c = newline) raw) in
        if has_suffix raw [newline] then lines else Suc lines)"

definition runWc :: "'e builtin" where
  "runWc rt args s =
     (case letter_args ''wc'' wc_word wc_letter rt args
        \<lparr>wf_lines = False, wf_words = False, wf_bytes = False, wf_json = False\<rparr> [] s of (r, s) \<Rightarrow>
        (case r of
           Inl out \<Rightarrow> (out, s)
         | Inr (flags, filePath) \<Rightarrow>
            (let none = \<not> wf_lines flags \<and> \<not> wf_words flags \<and> \<not> wf_bytes flags in
             (case load_source ''wc'' rt filePath s of (r, s) \<Rightarrow>
               (case r of
                  Inl out \<Rightarrow> (out, s)
                | Inr raw \<Rightarrow>
                   (let counts = (if none \<or> wf_lines flags then [(''lines'', line_total raw)] else []) @
                                 (if none \<or> wf_words flags then [(''words'', length (Prelude.fields raw))] else []) @
                                 (if none \<or> wf_bytes flags then [(''bytes'', length raw)] else []) in
                    (if wf_json flags then (json_text (JObj (map (\<lambda>(k, n). (k, JInt (int n))) counts)), 0)
                     else if length counts = 1 then (show_nat (snd (hd counts)), 0)
                     else (join '' '' (map (\<lambda>(k, n). k @ ''='' @ show_nat n) counts), 0), s)))))))"

subsection \<open>sort\<close>

record sortFlags =
  sf_reverse :: bool
  sf_numeric :: bool
  sf_unique :: bool

definition sort_letter :: "string \<Rightarrow> sortFlags \<Rightarrow> sortFlags option" where
  "sort_letter ch flags =
     (if ch = ''r'' then Some (flags\<lparr>sf_reverse := True\<rparr>)
      else if ch = ''n'' then Some (flags\<lparr>sf_numeric := True\<rparr>)
      else if ch = ''u'' then Some (flags\<lparr>sf_unique := True\<rparr>)
      else None)"

definition parseLeadingInt :: "string \<Rightarrow> int" where
  "parseLeadingInt s =
     (let s = trim_space s;
          front = (case s of [] \<Rightarrow> []
                   | c # cs \<Rightarrow> if is_digit c \<or> c = CHR ''-'' then c # takeWhile is_digit cs else [])
      in if front = [] then 0 else case atoi front of None \<Rightarrow> 0 | Some v \<Rightarrow> v)"

definition sort_less :: "sortFlags \<Rightarrow> string \<Rightarrow> string \<Rightarrow> bool" where
  "sort_less flags a b =
     (if sf_numeric flags then
        (let na = parseLeadingInt a; nb = parseLeadingInt b in if sf_reverse flags then nb < na else na < nb)
      else if sf_reverse flags then b < a else a < b)"

definition sort_lines :: "sortFlags \<Rightarrow> string list \<Rightarrow> string list" where
  "sort_lines flags lines =
     (let result = stable_sort_by (sort_less flags) lines in if sf_unique flags then remdups_adj result else result)"

definition runSort :: "'e builtin" where
  "runSort rt args s =
     (case letter_args ''sort'' (\<lambda>_ _. None) sort_letter rt args
        \<lparr>sf_reverse = False, sf_numeric = False, sf_unique = False\<rparr> [] s of (r, s) \<Rightarrow>
        (case r of
           Inl out \<Rightarrow> (out, s)
         | Inr (flags, filePath) \<Rightarrow>
            (case load_source ''sort'' rt filePath s of (r, s) \<Rightarrow>
              (case r of Inl out \<Rightarrow> (out, s) | Inr raw \<Rightarrow> ((lines_text (sort_lines flags (splitRawLines raw)), 0), s)))))"

subsection \<open>uniq\<close>

record uniqFlags =
  uf_showCount :: bool
  uf_duplicatesOnly :: bool

definition uniq_letter :: "string \<Rightarrow> uniqFlags \<Rightarrow> uniqFlags option" where
  "uniq_letter ch flags =
     (if ch = ''c'' then Some (flags\<lparr>uf_showCount := True\<rparr>)
      else if ch = ''d'' then Some (flags\<lparr>uf_duplicatesOnly := True\<rparr>)
      else None)"

definition add_group :: "(string \<times> nat) list \<Rightarrow> string \<Rightarrow> (string \<times> nat) list" where
  "add_group groups line =
     (if groups \<noteq> [] \<and> fst (last groups) = line then butlast groups @ [(line, Suc (snd (last groups)))]
      else groups @ [(line, 1)])"

definition uniq_groups :: "string list \<Rightarrow> (string \<times> nat) list" where
  "uniq_groups lines = foldl add_group [] lines"

definition uniq_lines :: "uniqFlags \<Rightarrow> string list \<Rightarrow> string list" where
  "uniq_lines flags lines =
     map (\<lambda>(line, n). if uf_showCount flags then show_nat n @ '' '' @ line else line)
       (filter (\<lambda>(line, n). \<not> (uf_duplicatesOnly flags \<and> n < 2)) (uniq_groups lines))"

definition runUniq :: "'e builtin" where
  "runUniq rt args s =
     (case letter_args ''uniq'' (\<lambda>_ _. None) uniq_letter rt args
        \<lparr>uf_showCount = False, uf_duplicatesOnly = False\<rparr> [] s of (r, s) \<Rightarrow>
        (case r of
           Inl out \<Rightarrow> (out, s)
         | Inr (flags, filePath) \<Rightarrow>
            (case load_source ''uniq'' rt filePath s of (r, s) \<Rightarrow>
              (case r of Inl out \<Rightarrow> (out, s) | Inr raw \<Rightarrow> ((lines_text (uniq_lines flags (splitRawLines raw)), 0), s)))))"

subsection \<open>diff\<close>

text \<open>One row of the table from the row above: \<open>diag\<close>, \<open>up\<close> and \<open>left\<close> are the three cells a cell depends on.\<close>

fun lcs_row :: "string \<Rightarrow> string list \<Rightarrow> nat list \<Rightarrow> nat \<Rightarrow> nat list" where
  "lcs_row a (b # bs) (diag # up # prev) left =
     (let cell = (if a = b then diag + 1 else if left \<le> up then up else left) in
      cell # lcs_row a bs (up # prev) cell)"
| "lcs_row a _ _ left = []"

fun lcs_rows :: "string list \<Rightarrow> string list \<Rightarrow> nat list \<Rightarrow> nat list list" where
  "lcs_rows [] bs prev = []"
| "lcs_rows (a # as) bs prev = (let row = 0 # lcs_row a bs prev 0 in row # lcs_rows as bs row)"

definition lcsTable :: "string list \<Rightarrow> string list \<Rightarrow> nat list list" where
  "lcsTable as bs = (let first = replicate (Suc (length bs)) 0 in first # lcs_rows as bs first)"

text \<open>The walk back through the table collects the changes from the last to the first.\<close>

function diff_changes :: "nat list list \<Rightarrow> string list \<Rightarrow> string list \<Rightarrow> nat \<Rightarrow> nat \<Rightarrow> string list" where
  "diff_changes lcs lines1 lines2 i j =
     (if i = 0 \<and> j = 0 then []
      else if 0 < i \<and> 0 < j \<and> lines1 ! (i - 1) = lines2 ! (j - 1)
      then ('' '' @ lines1 ! (i - 1)) # diff_changes lcs lines1 lines2 (i - 1) (j - 1)
      else if 0 < j \<and> (i = 0 \<or> lcs ! (i - 1) ! j \<le> lcs ! i ! (j - 1))
      then (''+'' @ lines2 ! (j - 1)) # diff_changes lcs lines1 lines2 i (j - 1)
      else (''-'' @ lines1 ! (i - 1)) # diff_changes lcs lines1 lines2 (i - 1) j)"
  by pat_completeness auto
termination by (relation "measure (\<lambda>(t, l1, l2, i, j). i + j)") auto

declare diff_changes.simps [simp del]

definition diff_body :: "string list \<Rightarrow> string list \<Rightarrow> string list" where
  "diff_body lines1 lines2 = rev (diff_changes (lcsTable lines1 lines2) lines1 lines2 (length lines1) (length lines2))"

definition simpleDiff :: "string \<Rightarrow> string \<Rightarrow> string list \<Rightarrow> string list \<Rightarrow> string" where
  "simpleDiff path1 path2 lines1 lines2 =
     lines_text ([''--- '' @ path1, ''+++ '' @ path2] @ diff_body lines1 lines2)"

definition runDiff :: "'e builtin" where
  "runDiff rt args s =
     (case args of
        [arg1, arg2] \<Rightarrow>
          (case require_path rt arg1 s of (r1, s) \<Rightarrow>
            (case r1 of Inl e \<Rightarrow> ((named ''diff'' e, ExitCodeUsage), s) | Inr path1 \<Rightarrow>
          (case require_path rt arg2 s of (r2, s) \<Rightarrow>
            (case r2 of Inl e \<Rightarrow> ((named ''diff'' e, ExitCodeUsage), s) | Inr path2 \<Rightarrow>
          (case read_raw rt path1 s of (c1, s) \<Rightarrow>
            (case c1 of Inl e \<Rightarrow> ((named ''diff'' e, ExitCodeGeneral), s) | Inr raw1 \<Rightarrow>
          (case read_raw rt path2 s of (c2, s) \<Rightarrow>
            (case c2 of Inl e \<Rightarrow> ((named ''diff'' e, ExitCodeGeneral), s) | Inr raw2 \<Rightarrow>
              (if raw1 = raw2 then (([], 0), s)
               else ((simpleDiff path1 path2 (splitRawLines raw1) (splitRawLines raw2), ExitCodeGeneral), s))))))))))
      | _ \<Rightarrow> ((''diff: expected exactly two file paths'', ExitCodeUsage), s))"

subsection \<open>sed -n\<close>

text \<open>The expression \<open>^(\d+)(?:,(\d+))?p$\<close>: the two groups, the second empty when it is missing.\<close>

definition sed_print_groups :: "string \<Rightarrow> (string \<times> string) option" where
  "sed_print_groups expr =
     (let m = takeWhile is_digit expr; rest = dropWhile is_digit expr in
      if m = [] then None
      else if rest = ''p'' then Some (m, [])
      else if has_prefix rest '','' then
        (let n = takeWhile is_digit (tl rest) in
         if n \<noteq> [] \<and> dropWhile is_digit (tl rest) = ''p'' then Some (m, n) else None)
      else None)"

definition parseSedPrintExpr :: "string \<Rightarrow> go_error + int \<times> int" where
  "parseSedPrintExpr expr =
     (let trimmed = trim_space expr in
      if trimmed = [] then Inl (ErrText ''print expression must not be empty'')
      else case sed_print_groups trimmed of
        None \<Rightarrow> Inl (ErrText ''print expression must be Np or M,Np'')
      | Some (m, n) \<Rightarrow>
         (let bad = ErrText ''line index must be positive'' in
          case atoi m of None \<Rightarrow> Inl bad | Some start \<Rightarrow>
          if start \<le> 0 then Inl bad
          else case (if trim_space n \<noteq> [] then atoi n else Some start) of
            None \<Rightarrow> Inl bad
          | Some fin \<Rightarrow>
             if fin \<le> 0 then Inl bad
             else if fin < start then Inl (ErrText ''range end must be greater than or equal to start'')
             else Inr (start, fin)))"

definition sed_window :: "int \<Rightarrow> int \<Rightarrow> string list \<Rightarrow> string" where
  "sed_window start fin lines =
     (if lines = [] \<or> int (length lines) < start then []
      else let fin = (if int (length lines) < fin then int (length lines) else fin) in
        if fin < start then [] else lines_text (drop (nat (start - 1)) (take (nat fin) lines)))"

definition runSedPrint :: "'e builtin" where
  "runSedPrint rt args s =
     (if length args < 2 \<or> 3 < length args
      then ((''sed: only supports -n '' @ [squote] @ ''Np'' @ [squote] @ '' or -n '' @ [squote] @ ''M,Np'' @ [squote] @
             '' [PATH]'', ExitCodeUsage), s)
      else case parseSedPrintExpr (args ! 1) of
        Inl e \<Rightarrow> ((named ''sed'' e, ExitCodeUsage), s)
      | Inr (start, fin) \<Rightarrow>
         (if length args = 3 then
            (case require_path rt (args ! 2) s of (r, s) \<Rightarrow>
              (case r of Inl e \<Rightarrow> ((named ''sed'' e, ExitCodeUsage), s) | Inr p \<Rightarrow>
                (case read_raw rt p s of (r, s) \<Rightarrow>
                  (case r of Inl e \<Rightarrow> ((named ''sed'' e, ExitCodeGeneral), s)
                   | Inr raw \<Rightarrow> ((sed_window start fin (splitRawLines raw), 0), s)))))
          else if \<not> rt_HasStdin rt then ((''sed: -n requires stdin input or one file path'', ExitCodeUsage), s)
          else ((sed_window start fin (splitRawLines (rt_Stdin rt)), 0), s)))"

subsection \<open>view\<close>

record viewArgs =
  va_path :: string
  va_start :: int
  va_lines :: int
  va_jsonl :: bool

definition parsePositiveLine :: "string \<Rightarrow> go_error + int" where
  "parsePositiveLine raw =
     (case parseNonNegativeInt raw of
        Inl e \<Rightarrow> Inl (ErrText ''line must be positive'')
      | Inr n \<Rightarrow> if n < 1 then Inl (ErrText ''line must be positive'') else Inr n)"

fun view_args :: "bool \<Rightarrow> string list \<Rightarrow> viewArgs \<Rightarrow> string list \<Rightarrow> string + viewArgs \<times> string list" where
  "view_args options [] opts positional = Inr (opts, positional)"
| "view_args options (arg # args) opts positional =
     (if options \<and> arg = ''--'' then view_args False args opts positional
      else if \<not> options then view_args options args opts (positional @ [arg])
      else if arg = ''--start'' \<or> arg = ''-s'' then
        (case args of [] \<Rightarrow> Inl ''view: --start requires a positive line number''
         | v # args \<Rightarrow>
            (case parsePositiveLine v of
               Inl e \<Rightarrow> Inl ''view: --start must be a positive integer''
             | Inr n \<Rightarrow> view_args options args (opts\<lparr>va_start := n\<rparr>) positional))
      else if arg = ''--lines'' \<or> arg = ''-n'' then
        (case args of [] \<Rightarrow> Inl ''view: --lines requires a non-negative count''
         | v # args \<Rightarrow>
            (case parseNonNegativeInt v of
               Inl e \<Rightarrow> Inl ''view: --lines must be a non-negative integer''
             | Inr n \<Rightarrow> view_args options args (opts\<lparr>va_lines := n\<rparr>) positional))
      else if arg = ''--fmt'' then
        (case args of [] \<Rightarrow> Inl ''view: --fmt requires jsonl''
         | v # args \<Rightarrow>
            (if v \<noteq> ''jsonl'' then Inl (''view: unsupported --fmt value '' @ go_quote v)
             else view_args options args (opts\<lparr>va_jsonl := True\<rparr>) positional))
      else if arg = ''--fmt=jsonl'' then view_args options args (opts\<lparr>va_jsonl := True\<rparr>) positional
      else if arg = ''--json'' then Inl ''view: unsupported flag --json; use --fmt jsonl''
      else if has_prefix arg ''--'' then Inl (''view: unsupported flag '' @ arg)
      else view_args options args opts (positional @ [arg]))"

definition parseViewArgs :: "string list \<Rightarrow> (string, string, 'e) op \<Rightarrow> 'e sys \<Rightarrow> (string + viewArgs) \<times> 'e sys" where
  "parseViewArgs args requireAbsolutePath s =
     (case view_args True args \<lparr>va_path = [], va_start = 1, va_lines = 80, va_jsonl = False\<rparr> [] of
        Inl m \<Rightarrow> (Inl m, s)
      | Inr (opts, [p]) \<Rightarrow> (case requireAbsolutePath p s of (r, s) \<Rightarrow>
          (case r of Inl e \<Rightarrow> (Inl (named ''view'' e), s) | Inr v \<Rightarrow> (Inr (opts\<lparr>va_path := v\<rparr>), s)))
      | Inr _ \<Rightarrow> (Inl ''view: requires exactly one PATH'', s))"

text \<open>The end of the window; the sum wraps around like Go's.\<close>

definition view_window :: "int \<Rightarrow> int \<Rightarrow> string list \<Rightarrow> string list" where
  "view_window start cnt lines =
     (let total = int (length lines);
          fin = (if cnt = 0 then start - 1 else add_int (add_int start cnt) (- 1));
          fin = (if total < fin then total else fin)
      in if start \<le> fin then drop (nat (start - 1)) (take (nat fin) lines) else [])"

definition view_text :: "viewArgs \<Rightarrow> string list \<Rightarrow> string" where
  "view_text opts lines =
     (let window = view_window (va_start opts) (va_lines opts) lines;
          start = nat (va_start opts); shown = length window in
      if va_jsonl opts then
        lines_text (map json_text
          (JObj [(''kind'', JStr ''window''), (''start'', JInt (va_start opts)), (''shown'', JInt (int shown)),
                 (''total'', JInt (int (length lines)))] #
           map (\<lambda>(i, t). JObj [(''line'', JInt (int i)), (''text'', JStr t)]) (zip [start ..< start + shown] window)))
      else lines_text (numbered_lines start window @
        [''shown '' @ show_nat shown @ ''/'' @ show_nat (length lines) @ '' from '' @ show_int (va_start opts)]))"

definition runView :: "'e builtin" where
  "runView rt args s =
     (case parseViewArgs args (require_path rt) s of (r, s) \<Rightarrow>
        (case r of Inl m \<Rightarrow> ((m, ExitCodeUsage), s) | Inr opts \<Rightarrow>
      (case preflightPathChecks rt ''view'' [\<lparr>pc_path = va_path opts, pc_op = PathOpRead,
          pc_unsupportedMessage = ''view: read is not supported''\<rparr>] s of (r, s) \<Rightarrow>
        (case r of Inl out \<Rightarrow> (out, s) | Inr _ \<Rightarrow>
      (case read_raw rt (va_path opts) s of (r, s) \<Rightarrow>
        (case r of
           Inl e \<Rightarrow> ((formatCommandPathError ''view'' (va_path opts) ''view: read is not supported'' e, pathErrorCode e), s)
         | Inr raw \<Rightarrow>
            (let lines = splitRawLines raw in
             if int (length lines) < va_start opts
             then ((''view: file has '' @ show_nat (length lines) @ '' lines'', ExitCodeGeneral), s)
             else ((view_text opts lines, 0), s))))))))"

end
