(* ===== verification/Builtin_Files.thy ===== *)
theory Builtin_Files
  imports Builtin_Base
begin

section \<open>The builtins that change files (\<open>pkg/builtin\<close>: tee, touch, mkdir, rm, rmdir, cp, mv, edit, sed -i)\<close>

text \<open>
  Each of them reads its flags, resolves its operands, asks the policy, asks \<open>CheckPathOp\<close> for every operand and
  only then calls a changing callback; rm, mkdir and mv hand the whole batch to \<open>ApplyMutations\<close> where there is
  one and fall back to one call per operand when it is not supported.
\<close>

subsection \<open>Flags and replies of mutations\<close>

record mutationPathStatus =
  mps_Path :: string
  mps_Status :: string

record mutationTransfer =
  mt_Src :: string
  mt_Dest :: string
  mt_Bytes :: int

fun extract_flags :: "string \<Rightarrow> string list \<Rightarrow> string list \<Rightarrow> bool \<Rightarrow> bool \<Rightarrow> reply + string list \<times> bool \<times> bool" where
  "extract_flags cmd [] filtered confirm jsonOutput = Inr (filtered, confirm, jsonOutput)"
| "extract_flags cmd (arg # args) filtered confirm jsonOutput =
     (if arg = ''--confirm'' then extract_flags cmd args filtered True jsonOutput
      else if arg = ''--json'' then extract_flags cmd args filtered confirm True
      else if has_prefix arg ''--'' then Inl (cmd @ '': unsupported flag '' @ arg, ExitCodeUsage)
      else extract_flags cmd args (filtered @ [arg]) confirm jsonOutput)"

definition extractMutationOutputFlags :: "string \<Rightarrow> string list \<Rightarrow> reply + string list \<times> bool \<times> bool" where
  "extractMutationOutputFlags cmd args = extract_flags cmd args [] False False"

definition renderPathStatusMutation :: "bool \<Rightarrow> bool \<Rightarrow> mutationPathStatus list \<Rightarrow> string" where
  "renderPathStatusMutation confirm jsonOutput entries =
     (if jsonOutput then
        json_text (JObj [(''entries'', JList (map (\<lambda>e. JObj [(''path'', JStr (mps_Path e)), (''status'', JStr (mps_Status e))]) entries))])
      else if confirm then lines_text (map (\<lambda>e. mps_Status e @ '' '' @ mps_Path e) entries)
      else [])"

definition renderTransferMutation :: "bool \<Rightarrow> bool \<Rightarrow> mutationTransfer \<Rightarrow> string \<Rightarrow> string" where
  "renderTransferMutation confirm jsonOutput entry verb =
     (if jsonOutput then
        json_text (JObj [(''src'', JStr (mt_Src entry)), (''dest'', JStr (mt_Dest entry)), (''bytes'', JInt (mt_Bytes entry))])
      else if confirm then verb @ '' '' @ mt_Src entry @ '' -> '' @ mt_Dest entry
      else [])"

subsection \<open>Records of a batch\<close>

definition batchRecordKey :: "MutationKind \<Rightarrow> string \<Rightarrow> string" where
  "batchRecordKey kind pathValue = mutation_kind_text kind @ [CHR 0x00] @ pathValue"

definition mutationRecordIndex :: "MutationRecord list \<Rightarrow> (string, MutationRecord) gomap" where
  "mutationRecordIndex recs = foldl (\<lambda>m r. map_put (batchRecordKey (mr_Kind r) (mr_Path r)) r m) [] recs"

definition incomplete_result :: "MutationKind \<Rightarrow> string \<Rightarrow> go_error" where
  "incomplete_result kind p = ErrText (''mount batch returned incomplete result for '' @ mutation_kind_text kind @ '' '' @ p)"

definition record_status :: "MutationRecord option \<Rightarrow> string \<Rightarrow> string" where
  "record_status found fallback =
     (let status = (case found of
          None \<Rightarrow> fallback
        | Some r \<Rightarrow> (let t = trim_space (mr_Status r) in if t \<noteq> [] \<and> to_lower t \<noteq> ''ok'' then mr_Status r else fallback))
      in if trim_space status = [] then ''ok'' else status)"

fun mutationStatusesFromRecords :: "string list \<Rightarrow> MutationKind \<Rightarrow> MutationRecord list \<Rightarrow> (string, string) gomap \<Rightarrow>
    go_error + mutationPathStatus list" where
  "mutationStatusesFromRecords [] kind recs fallback = Inr []"
| "mutationStatusesFromRecords (p # ps) kind recs fallback =
     (let found = map_of (mutationRecordIndex recs) (batchRecordKey kind p) in
      if recs \<noteq> [] \<and> found = None then Inl (incomplete_result kind p)
      else case mutationStatusesFromRecords ps kind recs fallback of
        Inl e \<Rightarrow> Inl e
      | Inr out \<Rightarrow> Inr (\<lparr>mps_Path = p,
          mps_Status = record_status found (case map_of fallback p of None \<Rightarrow> [] | Some v \<Rightarrow> v)\<rparr> # out))"

definition mutationBytesFromRecords :: "MutationKind \<Rightarrow> string \<Rightarrow> MutationRecord list \<Rightarrow> int \<Rightarrow> int" where
  "mutationBytesFromRecords kind p recs fallback =
     (case map_of (mutationRecordIndex recs) (batchRecordKey kind p) of
        None \<Rightarrow> fallback
      | Some r \<Rightarrow> if 0 < mr_BytesWritten r then mr_BytesWritten r else fallback)"

definition ensureSuccessfulTransferRecords :: "MutationSpec list \<Rightarrow> MutationRecord list \<Rightarrow> go_error option" where
  "ensureSuccessfulTransferRecords expected recs =
     (case (if recs = [] then None
            else find (\<lambda>m. map_of (mutationRecordIndex recs) (batchRecordKey (ms_Kind m) (ms_Path m)) = None) expected) of
        Some m \<Rightarrow> Some (incomplete_result (ms_Kind m) (ms_Path m))
      | None \<Rightarrow>
         (case find (\<lambda>r. trim_space (to_lower (mr_Status r)) \<notin>
             set [[], ''ok'', ''written'', ''created'', ''removed'', ''moved'']) recs of
            None \<Rightarrow> None
          | Some r \<Rightarrow> Some (ErrText (''mount batch returned non-success status '' @ go_quote (mr_Status r) @ '' for '' @
              mr_Path r))))"

definition mutation :: "MutationKind \<Rightarrow> string \<Rightarrow> string \<Rightarrow> MutationSpec" where
  "mutation kind p content = \<lparr>ms_Kind = kind, ms_Path = p, ms_Content = content, ms_OldString = [],
     ms_NewString = [], ms_ReplaceAll = False\<rparr>"

subsection \<open>Operands\<close>

text \<open>The loop over the operands of rm, rmdir, touch and mkdir; mkdir skips \<open>-p\<close>.\<close>

fun path_operands :: "string \<Rightarrow> string list \<Rightarrow> 'e CommandRuntime \<Rightarrow> string list \<Rightarrow> string list \<Rightarrow> 'e sys \<Rightarrow>
    (reply + string list) \<times> 'e sys" where
  "path_operands cmd skipped rt [] paths s = (Inr paths, s)"
| "path_operands cmd skipped rt (arg # args) paths s =
     (if arg \<in> set skipped then path_operands cmd skipped rt args paths s
      else if has_prefix arg ''-'' then (Inl (cmd @ '': unsupported flag '' @ arg, ExitCodeUsage), s)
      else (case require_path rt arg s of (r, s) \<Rightarrow>
        (case r of Inl e \<Rightarrow> (Inl (named cmd e, ExitCodeUsage), s)
         | Inr p \<Rightarrow> path_operands cmd skipped rt args (paths @ [p]) s)))"

definition check_all :: "PathOp \<Rightarrow> string \<Rightarrow> string list \<Rightarrow> pathCheck list" where
  "check_all oper message paths = map (\<lambda>p. \<lparr>pc_path = p, pc_op = oper, pc_unsupportedMessage = message\<rparr>) paths"

text \<open>The part touch, mkdir, rm and rmdir share: operands, the policy, the checks; then \<open>body\<close> runs.\<close>

definition checked_paths :: "string \<Rightarrow> PathOp \<Rightarrow> string \<Rightarrow> 'e CommandRuntime \<Rightarrow> string list \<Rightarrow>
    (string list \<Rightarrow> 'e sys \<Rightarrow> reply \<times> 'e sys) \<Rightarrow> 'e sys \<Rightarrow> reply \<times> 'e sys" where
  "checked_paths cmd oper message rt paths body s =
     (if paths = [] then ((cmd @ '': missing operand'', ExitCodeUsage), s)
      else if \<not> AllowWrite (o_Policy (rt_Ops rt))
      then ((cmd @ '': write is not supported'', ExitCodeUnsupported), traceDeniedPaths paths s)
      else (case preflightPathChecks rt cmd (check_all oper message paths) s of (r, s) \<Rightarrow>
        (case r of Inl out \<Rightarrow> (out, s) | Inr _ \<Rightarrow> body paths s)))"

subsection \<open>touch\<close>

fun touch_loop :: "'e CommandRuntime \<Rightarrow> string list \<Rightarrow> mutationPathStatus list \<Rightarrow> 'e sys \<Rightarrow>
    (reply + mutationPathStatus list) \<times> 'e sys" where
  "touch_loop rt [] results s = (Inr results, s)"
| "touch_loop rt (p # ps) results s =
     (case read_raw rt p s of (r, s) \<Rightarrow>
        (case r of
           Inr _ \<Rightarrow> touch_loop rt ps (results @ [\<lparr>mps_Path = p, mps_Status = ''already_exists''\<rparr>]) s
         | Inl e \<Rightarrow>
            (if \<not> isPathMissing e then (Inl (named ''touch'' e, ExitCodeGeneral), s)
             else (case call (o_WriteFile (rt_Ops rt)) (p, []) s of (w, s) \<Rightarrow>
               (case w of
                  Inl e \<Rightarrow>
                    (if is_unsupported e then (Inl (''touch: write is not supported'', ExitCodeUnsupported), s)
                     else (Inl (named ''touch'' e, ExitCodeGeneral), s))
                | Inr _ \<Rightarrow> touch_loop rt ps (results @ [\<lparr>mps_Path = p, mps_Status = ''created''\<rparr>]) s)))))"

definition runTouch :: "'e builtin" where
  "runTouch rt args s =
     (case extractMutationOutputFlags ''touch'' args of
        Inl out \<Rightarrow> (out, s)
      | Inr (filtered, _, jsonOutput) \<Rightarrow>
         (case path_operands ''touch'' [] rt filtered [] s of (r, s) \<Rightarrow>
           (case r of
              Inl out \<Rightarrow> (out, s)
            | Inr paths \<Rightarrow>
               checked_paths ''touch'' PathOpWrite ''touch: write is not supported'' rt paths (\<lambda>paths s.
                 (case touch_loop rt paths [] s of (r, s) \<Rightarrow>
                   (case r of Inl out \<Rightarrow> (out, s)
                    | Inr results \<Rightarrow> ((renderPathStatusMutation False jsonOutput results, 0), s)))) s)))"

subsection \<open>rm and rmdir\<close>

fun remove_loop :: "string \<Rightarrow> (string, unit, 'e) op \<Rightarrow> string list \<Rightarrow> mutationPathStatus list \<Rightarrow> 'e sys \<Rightarrow>
    (reply + mutationPathStatus list) \<times> 'e sys" where
  "remove_loop cmd remove [] results s = (Inr results, s)"
| "remove_loop cmd remove (p # ps) results s =
     (case remove p s of (r, s) \<Rightarrow>
        (case r of
           Inl e \<Rightarrow>
             (if is_unsupported e then (Inl (cmd @ '': not supported'', ExitCodeUnsupported), s)
              else (Inl (named cmd e, ExitCodeGeneral), s))
         | Inr _ \<Rightarrow> remove_loop cmd remove ps (results @ [\<lparr>mps_Path = p, mps_Status = ''removed''\<rparr>]) s))"

definition remove_each :: "string \<Rightarrow> (string, unit, 'e) op \<Rightarrow> bool \<Rightarrow> bool \<Rightarrow> string list \<Rightarrow> 'e sys \<Rightarrow> reply \<times> 'e sys" where
  "remove_each cmd remove confirm jsonOutput paths s =
     (case remove_loop cmd remove paths [] s of (r, s) \<Rightarrow>
        (case r of Inl out \<Rightarrow> (out, s) | Inr results \<Rightarrow> ((renderPathStatusMutation confirm jsonOutput results, 0), s)))"

text \<open>A batch over all paths where the mount can apply one; \<open>fallback\<close> when it says it cannot.\<close>

definition apply_batch :: "string \<Rightarrow> 'e CommandRuntime \<Rightarrow> MutationSpec list \<Rightarrow>
    (MutationRecord list \<Rightarrow> reply) \<Rightarrow> ('e sys \<Rightarrow> reply \<times> 'e sys) \<Rightarrow> 'e sys \<Rightarrow> reply \<times> 'e sys" where
  "apply_batch cmd rt batch finish fallback s =
     (case o_ApplyMutations (rt_Ops rt) of
        None \<Rightarrow> fallback s
      | Some app \<Rightarrow> (case app batch s of (r, s) \<Rightarrow>
          (case r of
             Inr recs \<Rightarrow> (finish recs, s)
           | Inl e \<Rightarrow> if \<not> AllowsUnsupportedFallback e then ((named cmd e, ExitCodeGeneral), s) else fallback s)))"

definition batch_statuses :: "string \<Rightarrow> MutationKind \<Rightarrow> string list \<Rightarrow> (string, string) gomap \<Rightarrow> bool \<Rightarrow> bool \<Rightarrow>
    MutationRecord list \<Rightarrow> reply" where
  "batch_statuses cmd kind paths fallback confirm jsonOutput recs =
     (case mutationStatusesFromRecords paths kind recs fallback of
        Inl e \<Rightarrow> (named cmd e, ExitCodeGeneral)
      | Inr results \<Rightarrow> (renderPathStatusMutation confirm jsonOutput results, 0))"

definition runRm :: "'e builtin" where
  "runRm rt args s =
     (case extractMutationOutputFlags ''rm'' args of
        Inl out \<Rightarrow> (out, s)
      | Inr (filtered, confirm, jsonOutput) \<Rightarrow>
         (case path_operands ''rm'' [] rt filtered [] s of (r, s) \<Rightarrow>
           (case r of
              Inl out \<Rightarrow> (out, s)
            | Inr paths \<Rightarrow>
               checked_paths ''rm'' PathOpRemove ''rm: not supported'' rt paths (\<lambda>paths s.
                 apply_batch ''rm'' rt (map (\<lambda>p. mutation MutationRemoveFile p []) paths)
                   (batch_statuses ''rm'' MutationRemoveFile paths (map_puts [] (map (\<lambda>p. (p, ''removed'')) paths)) confirm jsonOutput)
                   (remove_each ''rm'' (call (o_RemoveFile (rt_Ops rt))) confirm jsonOutput paths) s) s)))"

definition runRmdir :: "'e builtin" where
  "runRmdir rt args s =
     (case extractMutationOutputFlags ''rmdir'' args of
        Inl out \<Rightarrow> (out, s)
      | Inr (filtered, confirm, jsonOutput) \<Rightarrow>
         (if filtered = [] then ((''rmdir: missing operand'', ExitCodeUsage), s)
          else case o_RemoveDir (rt_Ops rt) of
            None \<Rightarrow> ((''rmdir: not supported'', ExitCodeUnsupported), s)
          | Some removeDir \<Rightarrow>
             (case path_operands ''rmdir'' [] rt filtered [] s of (r, s) \<Rightarrow>
               (case r of
                  Inl out \<Rightarrow> (out, s)
                | Inr dirs \<Rightarrow>
                   checked_paths ''rmdir'' PathOpRemove ''rmdir: not supported'' rt dirs
                     (remove_each ''rmdir'' removeDir confirm jsonOutput) s))))"

subsection \<open>mkdir\<close>

text \<open>Whether a directory is there already: only when \<open>IsDirPath\<close> exists, does not fail and says so.\<close>

definition dir_exists :: "'e CommandRuntime \<Rightarrow> string \<Rightarrow> 'e sys \<Rightarrow> bool \<times> 'e sys" where
  "dir_exists rt p s =
     (case o_IsDirPath (rt_Ops rt) of
        None \<Rightarrow> (False, s)
      | Some isDir \<Rightarrow> (case isDir p s of (r, s) \<Rightarrow> (r = Inr True, s)))"

definition mkdir_status :: "bool \<Rightarrow> string" where
  "mkdir_status isDir = (if isDir then ''exists'' else ''created'')"

fun mkdir_statuses :: "'e CommandRuntime \<Rightarrow> string list \<Rightarrow> 'e sys \<Rightarrow> (string \<times> string) list \<times> 'e sys" where
  "mkdir_statuses rt [] s = ([], s)"
| "mkdir_statuses rt (p # ps) s =
     (case dir_exists rt p s of (d, s) \<Rightarrow> (case mkdir_statuses rt ps s of (rest, s) \<Rightarrow> ((p, mkdir_status d) # rest, s)))"

fun mkdir_loop :: "'e CommandRuntime \<Rightarrow> string list \<Rightarrow> mutationPathStatus list \<Rightarrow> 'e sys \<Rightarrow>
    (reply + mutationPathStatus list) \<times> 'e sys" where
  "mkdir_loop rt [] results s = (Inr results, s)"
| "mkdir_loop rt (p # ps) results s =
     (case dir_exists rt p s of (d, s) \<Rightarrow>
       (case call (o_MakeDir (rt_Ops rt)) p s of (r, s) \<Rightarrow>
         (case r of
            Inl e \<Rightarrow>
              (if is_unsupported e then (Inl (''mkdir: not supported'', ExitCodeUnsupported), s)
               else (Inl (named ''mkdir'' e, ExitCodeGeneral), s))
          | Inr _ \<Rightarrow> mkdir_loop rt ps (results @ [\<lparr>mps_Path = p, mps_Status = mkdir_status d\<rparr>]) s)))"

definition runMkdir :: "'e builtin" where
  "runMkdir rt args s =
     (case extractMutationOutputFlags ''mkdir'' args of
        Inl out \<Rightarrow> (out, s)
      | Inr (filtered, confirm, jsonOutput) \<Rightarrow>
         (case path_operands ''mkdir'' [''-p''] rt filtered [] s of (r, s) \<Rightarrow>
           (case r of
              Inl out \<Rightarrow> (out, s)
            | Inr paths \<Rightarrow>
               checked_paths ''mkdir'' PathOpMkdir ''mkdir: not supported'' rt paths (\<lambda>paths s.
                 (case mkdir_statuses rt paths s of (statuses, s) \<Rightarrow>
                   apply_batch ''mkdir'' rt (map (\<lambda>p. mutation MutationMakeDir p []) paths)
                     (batch_statuses ''mkdir'' MutationMakeDir paths (map_puts [] statuses) confirm jsonOutput)
                     (\<lambda>s. case mkdir_loop rt paths [] s of (r, s) \<Rightarrow>
                       (case r of Inl out \<Rightarrow> (out, s)
                        | Inr results \<Rightarrow> ((renderPathStatusMutation confirm jsonOutput results, 0), s))) s)) s)))"

subsection \<open>cp and mv\<close>

definition write_reply :: "string \<Rightarrow> string \<Rightarrow> go_error \<Rightarrow> reply" where
  "write_reply cmd message e =
     (if is_unsupported e then (message, ExitCodeUnsupported) else (named cmd e, ExitCodeGeneral))"

text \<open>Both begin alike: two operands, the policy, the checks, the content of the source.\<close>

definition transfer :: "string \<Rightarrow> (string \<Rightarrow> string \<Rightarrow> string list) \<Rightarrow> (string \<Rightarrow> string \<Rightarrow> pathCheck list) \<Rightarrow>
    (bool \<Rightarrow> bool \<Rightarrow> string \<Rightarrow> string \<Rightarrow> string \<Rightarrow> 'e sys \<Rightarrow> reply \<times> 'e sys) \<Rightarrow> 'e builtin" where
  "transfer cmd denied checks body rt args s =
     (case extractMutationOutputFlags cmd args of
        Inl out \<Rightarrow> (out, s)
      | Inr (filtered, confirm, jsonOutput) \<Rightarrow>
         (case filtered of
            [arg1, arg2] \<Rightarrow>
              (case require_path rt arg1 s of (r1, s) \<Rightarrow>
                (case r1 of Inl e \<Rightarrow> ((named cmd e, ExitCodeUsage), s) | Inr src \<Rightarrow>
              (case require_path rt arg2 s of (r2, s) \<Rightarrow>
                (case r2 of Inl e \<Rightarrow> ((named cmd e, ExitCodeUsage), s) | Inr dest \<Rightarrow>
              (if \<not> AllowWrite (o_Policy (rt_Ops rt))
               then ((cmd @ '': write is not supported'', ExitCodeUnsupported), traceDeniedPaths (denied src dest) s)
               else (case preflightPathChecks rt cmd (checks src dest) s of (r, s) \<Rightarrow>
                 (case r of Inl out \<Rightarrow> (out, s) | Inr _ \<Rightarrow>
               (case read_raw rt src s of (c, s) \<Rightarrow>
                 (case c of Inl e \<Rightarrow> ((named cmd e, ExitCodeGeneral), s)
                  | Inr content \<Rightarrow> body confirm jsonOutput src dest content s)))))))))
          | _ \<Rightarrow> ((cmd @ '': expected exactly two arguments: SRC DEST'', ExitCodeUsage), s)))"

definition cp_checks :: "string \<Rightarrow> string \<Rightarrow> pathCheck list" where
  "cp_checks src dest =
     [\<lparr>pc_path = src, pc_op = PathOpTransferSource, pc_unsupportedMessage = ''cp: source path is not supported''\<rparr>,
      \<lparr>pc_path = dest, pc_op = PathOpWrite, pc_unsupportedMessage = ''cp: write is not supported''\<rparr>]"

definition runCp :: "'e builtin" where
  "runCp rt = transfer ''cp'' (\<lambda>src dest. [dest]) cp_checks (\<lambda>confirm jsonOutput src dest content s.
     (case call (o_WriteFile (rt_Ops rt)) (dest, content) s of (r, s) \<Rightarrow>
       (case r of
          Inl e \<Rightarrow> (write_reply ''cp'' ''cp: write is not supported'' e, s)
        | Inr _ \<Rightarrow> ((renderTransferMutation confirm jsonOutput
            \<lparr>mt_Src = src, mt_Dest = dest, mt_Bytes = int (length content)\<rparr> ''copied'', 0), s)))) rt"

definition mv_checks :: "string \<Rightarrow> string \<Rightarrow> pathCheck list" where
  "mv_checks src dest =
     [\<lparr>pc_path = src, pc_op = PathOpTransferSource, pc_unsupportedMessage = ''mv: source path is not supported''\<rparr>,
      \<lparr>pc_path = src, pc_op = PathOpRemove, pc_unsupportedMessage = ''mv: remove is not supported''\<rparr>,
      \<lparr>pc_path = dest, pc_op = PathOpWrite, pc_unsupportedMessage = ''mv: write is not supported''\<rparr>]"

definition mv_batch :: "string \<Rightarrow> string \<Rightarrow> string \<Rightarrow> MutationSpec list" where
  "mv_batch src dest content = [mutation MutationWriteFile dest content, mutation MutationRemoveFile src []]"

text \<open>Without a batch: the destination is written first, the source removed after that.\<close>

definition mv_steps :: "'e CommandRuntime \<Rightarrow> bool \<Rightarrow> bool \<Rightarrow> string \<Rightarrow> string \<Rightarrow> string \<Rightarrow> 'e sys \<Rightarrow> reply \<times> 'e sys" where
  "mv_steps rt confirm jsonOutput src dest content s =
     (case call (o_WriteFile (rt_Ops rt)) (dest, content) s of (w, s) \<Rightarrow>
       (case w of
          Inl e \<Rightarrow> (write_reply ''mv'' ''mv: write is not supported'' e, s)
        | Inr _ \<Rightarrow>
           (case call (o_RemoveFile (rt_Ops rt)) src s of (r, s) \<Rightarrow>
             (case r of
                Inl e \<Rightarrow> (write_reply ''mv'' ''mv: remove is not supported'' e, s)
              | Inr _ \<Rightarrow> ((renderTransferMutation confirm jsonOutput
                  \<lparr>mt_Src = src, mt_Dest = dest, mt_Bytes = int (length content)\<rparr> ''moved'', 0), s)))))"

definition runMv :: "'e builtin" where
  "runMv rt = transfer ''mv'' (\<lambda>src dest. [src, dest]) mv_checks (\<lambda>confirm jsonOutput src dest content.
     apply_batch ''mv'' rt (mv_batch src dest content)
       (\<lambda>recs. case ensureSuccessfulTransferRecords (mv_batch src dest content) recs of
          Some e \<Rightarrow> (named ''mv'' e, ExitCodeGeneral)
        | None \<Rightarrow> (renderTransferMutation confirm jsonOutput
            \<lparr>mt_Src = src, mt_Dest = dest,
             mt_Bytes = mutationBytesFromRecords MutationWriteFile dest recs (int (length content))\<rparr> ''moved'', 0))
       (mv_steps rt confirm jsonOutput src dest content)) rt"

text \<open>Moving a file onto itself writes it and removes it.\<close>

lemma mv_onto_itself_removes:
  assumes "call (o_WriteFile (rt_Ops rt)) (p, content) s = (Inr (), s1)" and "call (o_RemoveFile (rt_Ops rt)) p s1 = (Inr (), s2)"
  shows "snd (fst (mv_steps rt confirm jsonOutput p p content s)) = 0 \<and> snd (mv_steps rt confirm jsonOutput p p content s) = s2"
  by (simp add: mv_steps_def assms)

subsection \<open>tee\<close>

fun tee_args :: "'e CommandRuntime \<Rightarrow> string list \<Rightarrow> bool \<Rightarrow> string \<Rightarrow> 'e sys \<Rightarrow> (reply + bool \<times> string) \<times> 'e sys" where
  "tee_args rt [] appendMode target s = (Inr (appendMode, target), s)"
| "tee_args rt (arg # args) appendMode target s =
     (if arg = ''-a'' then tee_args rt args True target s
      else if has_prefix arg ''-'' then (Inl (''tee: unsupported flag '' @ arg, ExitCodeUsage), s)
      else if target \<noteq> [] then (Inl (''tee: expected exactly one target file'', ExitCodeUsage), s)
      else (case require_path rt arg s of (r, s) \<Rightarrow>
        (case r of Inl e \<Rightarrow> (Inl (named ''tee'' e, ExitCodeUsage), s)
         | Inr p \<Rightarrow> tee_args rt args appendMode p s)))"

definition renderTeeSuccess :: "string \<Rightarrow> string \<Rightarrow> string \<Rightarrow> bool \<Rightarrow> bool \<Rightarrow> reply" where
  "renderTeeSuccess stdin p mode confirm jsonOutput =
     (if jsonOutput then
        (json_text (JObj [(''path'', JStr p), (''bytes'', JInt (int (length stdin))), (''mode'', JStr mode)]), 0)
      else if confirm then (''wrote '' @ p @ '' bytes='' @ show_nat (length stdin) @ '' mode='' @ mode, 0)
      else (stdin, 0))"

definition runTee :: "'e builtin" where
  "runTee rt args s =
     (case extractMutationOutputFlags ''tee'' args of
        Inl out \<Rightarrow> (out, s)
      | Inr (filtered, confirm, jsonOutput) \<Rightarrow>
         (case tee_args rt filtered False [] s of (r, s) \<Rightarrow>
           (case r of
              Inl out \<Rightarrow> (out, s)
            | Inr (appendMode, target) \<Rightarrow>
               (let ops = rt_Ops rt; input = rt_Stdin rt in
                if target = [] then ((''tee: missing target file'', ExitCodeUsage), s)
                else if \<not> rt_HasStdin rt
                then ((''tee: missing stdin input (use pipeline, e.g. echo '' @ [dquote] @ ''x'' @ [dquote] @
                       '' | tee /task_outputs/a.md)'', ExitCodeUsage), s)
                else if \<not> AllowWrite (o_Policy ops)
                then ((''tee: write is not allowed by policy'', ExitCodeUnsupported), traceDeniedPaths [target] s)
                else if CheckWriteSize (o_Policy ops) (int (length input)) \<noteq> None
                then ((''tee: content exceeds write limit ('' @ show_int (ep_MaxWriteBytes (o_Policy ops)) @ '' bytes)'',
                       ExitCodeGeneral), s)
                else if appendMode then
                  (case o_AppendFile ops of
                     None \<Rightarrow> ((''tee: append is not supported'', ExitCodeUnsupported), s)
                   | Some app \<Rightarrow> (case app (target, input) s of (w, s) \<Rightarrow>
                       (case w of
                          Inl e \<Rightarrow> (write_reply ''tee'' ''tee: append is not supported'' e, s)
                        | Inr _ \<Rightarrow> (renderTeeSuccess input target ''append'' confirm jsonOutput, s))))
                else
                  (case call (o_WriteFile ops) (target, input) s of (w, s) \<Rightarrow>
                    (case w of
                       Inl e \<Rightarrow> (write_reply ''tee'' ''tee: write is not supported'' e, s)
                     | Inr _ \<Rightarrow> (renderTeeSuccess input target ''write'' confirm jsonOutput, s)))))))"

end
