(* ===== verification/Builtin_Edit.thy ===== *)
theory Builtin_Edit
  imports Builtin_Text Builtin_Files
begin

section \<open>The builtins that edit in place (\<open>pkg/builtin/op_stream_edit.go\<close>, \<open>op_edit.go\<close>)\<close>

text \<open>Both commands read a file, count or locate what is to be replaced, and write the whole new text back: sed with a substitution
  expression, edit with a literal text that must occur once unless \<open>--all\<close> is given.\<close>

subsection \<open>sed -i\<close>

text \<open>The parts of \<open>s/old/new/flags\<close> after the delimiter: a backslash keeps the byte after it.\<close>

fun sed_parts :: "char \<Rightarrow> string \<Rightarrow> bool \<Rightarrow> string \<Rightarrow> string list" where
  "sed_parts delim cur escaped [] = [cur]"
| "sed_parts delim cur escaped (ch # rest) =
     (if escaped then sed_parts delim (cur @ [ch]) False rest
      else if ch = backslash then sed_parts delim cur True rest
      else if ch = delim then cur # sed_parts delim [] False rest
      else sed_parts delim (cur @ [ch]) False rest)"

definition parseSedSubstituteExpr :: "string \<Rightarrow> go_error + string \<times> string \<times> bool" where
  "parseSedSubstituteExpr expr =
     (if length expr < 4 \<or> hd expr \<noteq> CHR ''s'' then Inl (ErrText ''expression must start with s'')
      else let delim = expr ! 1 in
        (case sed_parts delim [] False (drop 2 expr) of
           old # new # flags # _ \<Rightarrow>
             (if trim_space old = [] then Inl (ErrText ''old string must not be empty'')
              else Inr (old, new, contains flags ''g''))
         | _ \<Rightarrow> Inl (ErrText (''expression must be s'' @ show_byte delim @ ''old'' @ show_byte delim @ ''new'' @
             show_byte delim @ ''[g]''))))"

definition runSedInPlace :: "'e builtin" where
  "runSedInPlace rt args s =
     (case extractMutationOutputFlags ''sed'' (tl args) of
        Inl out \<Rightarrow> (out, s)
      | Inr (filtered, _, jsonOutput) \<Rightarrow>
         (case filtered of
            [expr, arg] \<Rightarrow>
              (case parseSedSubstituteExpr expr of
                 Inl e \<Rightarrow> ((named ''sed'' e, ExitCodeUsage), s)
               | Inr (old, new, replaceAll) \<Rightarrow>
                  (case require_path rt arg s of (r, s) \<Rightarrow>
                    (case r of
                       Inl e \<Rightarrow> ((named ''sed'' e, ExitCodeUsage), s)
                     | Inr p \<Rightarrow>
                        (if \<not> AllowWrite (o_Policy (rt_Ops rt))
                         then ((''sed: write is not allowed by policy'', ExitCodeUnsupported), traceDeniedPaths [p] s)
                         else (case call (o_EditFile (rt_Ops rt)) (p, old, new, replaceAll) s of (w, s) \<Rightarrow>
                           (case w of
                              Inl e \<Rightarrow> (write_reply ''sed'' ''sed: in-place edit is not supported'' e, s)
                            | Inr _ \<Rightarrow>
                               (if jsonOutput
                                then ((json_text (JObj [(''path'', JStr p), (''mode'', JStr ''in_place_edit''), (''old'', JStr old),
                                       (''new'', JStr new), (''replace_all'', JBool replaceAll)]), 0), s)
                                else (([], 0), s))))))))
          | _ \<Rightarrow> ((''sed: only supports -i '' @ [squote] @ ''s/old/new/[g]'' @ [squote] @ '' PATH'', ExitCodeUsage), s)))"

definition runSed :: "'e builtin" where
  "runSed rt args s =
     (if args = [] then ((''sed: missing arguments'', ExitCodeUsage), s)
      else if hd args = ''-i'' then runSedInPlace rt args s
      else if hd args = ''-n'' then
        (if ''--json'' \<in> set (tl args) then ((''sed: --json is only supported with -i'', ExitCodeUsage), s)
         else runSedPrint rt args s)
      else ((''sed: unsupported flag '' @ hd args, ExitCodeUsage), s))"

subsection \<open>Where a text occurs\<close>

text \<open>The line of every occurrence, overlapping ones skipped.\<close>

function match_lines :: "string \<Rightarrow> string \<Rightarrow> nat \<Rightarrow> nat list" where
  "match_lines raw old start =
     (if old = [] \<or> length raw < start then []
      else (case index_of old (drop start raw) of
              None \<Rightarrow> []
            | Some idx \<Rightarrow>
               Suc (length (filter (\<lambda>c. c = newline) (take (start + idx) raw))) #
               match_lines raw old (start + idx + length old)))"
  by pat_completeness auto
termination
proof (relation "measure (\<lambda>(raw, old, start). Suc (length raw) - start)", goal_cases)
  case (2 raw old start idx)
  then show ?case by (cases old) auto
qed simp

declare match_lines.simps [simp del]

definition matchLineNumbers :: "string \<Rightarrow> string \<Rightarrow> nat list" where
  "matchLineNumbers raw old = match_lines raw old 0"

definition formatLineList :: "nat list \<Rightarrow> string" where
  "formatLineList lines = join '', '' (map show_nat lines)"

definition renderEditCount :: "string \<Rightarrow> nat list \<Rightarrow> string" where
  "renderEditCount raw lines =
     (let content = splitRawLines raw in
      lines_text (show_nat (length lines) #
        map (\<lambda>line. show_nat line @ '':'' @
          (if 1 \<le> line \<and> line \<le> length content then content ! (line - 1) else [])) (dedupe_first lines)))"

subsection \<open>edit\<close>

record editArgs =
  ea_path :: string
  ea_old :: string
  ea_new :: string
  ea_replaceAll :: bool
  ea_countOnly :: bool
  ea_confirm :: bool
  ea_jsonOutput :: bool
  ea_newSet :: bool

definition edit_flags :: "string list" where
  "edit_flags = [''--old'', ''--new'', ''--all'', ''--count'', ''--json'', ''--confirm'']"

definition isEditFlag :: "string \<Rightarrow> bool" where
  "isEditFlag arg \<longleftrightarrow> arg \<in> set edit_flags"

fun edit_args :: "bool \<Rightarrow> string list \<Rightarrow> editArgs \<Rightarrow> string list \<Rightarrow> string + editArgs \<times> string list" where
  "edit_args options [] opts positional = Inr (opts, positional)"
| "edit_args options (arg # args) opts positional =
     (if options \<and> arg = ''--'' then edit_args False args opts positional
      else if \<not> options then edit_args options args opts (positional @ [arg])
      else if has_prefix arg ''--old='' then edit_args options args (opts\<lparr>ea_old := trim_prefix arg ''--old=''\<rparr>) positional
      else if has_prefix arg ''--new=''
      then edit_args options args (opts\<lparr>ea_new := trim_prefix arg ''--new='', ea_newSet := True\<rparr>) positional
      else if arg = ''--old'' then
        (case args of [] \<Rightarrow> Inl ''edit: --old requires a value''
         | v # args \<Rightarrow> if isEditFlag v then Inl ''edit: --old requires a value''
                       else edit_args options args (opts\<lparr>ea_old := v\<rparr>) positional)
      else if arg = ''--new'' then
        (case args of [] \<Rightarrow> Inl ''edit: --new requires a value''
         | v # args \<Rightarrow> if isEditFlag v then Inl ''edit: --new requires a value''
                       else edit_args options args (opts\<lparr>ea_new := v, ea_newSet := True\<rparr>) positional)
      else if arg = ''--all'' then edit_args options args (opts\<lparr>ea_replaceAll := True\<rparr>) positional
      else if arg = ''--count'' then edit_args options args (opts\<lparr>ea_countOnly := True\<rparr>) positional
      else if arg = ''--json'' then edit_args options args (opts\<lparr>ea_jsonOutput := True\<rparr>) positional
      else if arg = ''--confirm'' then edit_args options args (opts\<lparr>ea_confirm := True\<rparr>) positional
      else if has_prefix arg ''--'' then Inl (''edit: unsupported flag '' @ arg)
      else edit_args options args opts (positional @ [arg]))"

definition no_edit :: editArgs where
  "no_edit = \<lparr>ea_path = [], ea_old = [], ea_new = [], ea_replaceAll = False, ea_countOnly = False,
     ea_confirm = False, ea_jsonOutput = False, ea_newSet = False\<rparr>"

definition parseEditArgs :: "string list \<Rightarrow> (string, string, 'e) op \<Rightarrow> 'e sys \<Rightarrow> (string + editArgs) \<times> 'e sys" where
  "parseEditArgs args requireAbsolutePath s =
     (case edit_args True args no_edit [] of
        Inl m \<Rightarrow> (Inl m, s)
      | Inr (opts, [p]) \<Rightarrow> (case requireAbsolutePath p s of (r, s) \<Rightarrow>
          (case r of Inl e \<Rightarrow> (Inl (named ''edit'' e), s) | Inr v \<Rightarrow> (Inr (opts\<lparr>ea_path := v\<rparr>), s)))
      | Inr _ \<Rightarrow> (Inl ''edit: requires exactly one PATH'', s))"

definition edit_check :: "editArgs \<Rightarrow> PathOp \<Rightarrow> string \<Rightarrow> pathCheck list" where
  "edit_check opts oper message = [\<lparr>pc_path = ea_path opts, pc_op = oper, pc_unsupportedMessage = message\<rparr>]"

definition edit_count :: "editArgs \<Rightarrow> string \<Rightarrow> nat list \<Rightarrow> reply" where
  "edit_count opts raw found =
     (if ea_jsonOutput opts then
        (json_text (JObj [(''path'', JStr (ea_path opts)), (''old'', JStr (ea_old opts)),
           (''matches'', JInt (int (length found))), (''lines'', JList (map (\<lambda>n. JInt (int n)) found))]), 0)
      else (renderEditCount raw found, 0))"

definition edit_done :: "editArgs \<Rightarrow> nat list \<Rightarrow> reply" where
  "edit_done opts found =
     (let replaced = (if ea_replaceAll opts then length found else 1) in
      if ea_jsonOutput opts then
        (json_text (JObj [(''path'', JStr (ea_path opts)), (''old'', JStr (ea_old opts)), (''new'', JStr (ea_new opts)),
           (''matches'', JInt (int (length found))), (''replaced'', JInt (int replaced)),
           (''replace_all'', JBool (ea_replaceAll opts)), (''lines'', JList (map (\<lambda>n. JInt (int n)) found))]), 0)
      else if ea_confirm opts then (''replaced '' @ show_nat replaced @ '' in '' @ ea_path opts, 0)
      else ([], 0))"

definition edit_write :: "'e CommandRuntime \<Rightarrow> editArgs \<Rightarrow> nat list \<Rightarrow> 'e sys \<Rightarrow> reply \<times> 'e sys" where
  "edit_write rt opts found s =
     (if found = [] then ((''edit: old string not found'', ExitCodeGeneral), s)
      else if \<not> ea_replaceAll opts \<and> 1 < length found
      then ((''edit: old string appears '' @ show_nat (length found) @ '' times on lines '' @ formatLineList found @
             ''; use --all or a unique snippet'', ExitCodeGeneral), s)
      else if \<not> AllowWrite (o_Policy (rt_Ops rt))
      then ((''edit: write is not allowed by policy'', ExitCodeUnsupported), traceDeniedPaths [ea_path opts] s)
      else (case preflightPathChecks rt ''edit'' (edit_check opts PathOpWrite ''edit: write is not supported'') s of (r, s) \<Rightarrow>
        (case r of Inl out \<Rightarrow> (out, s) | Inr _ \<Rightarrow>
      (case call (o_EditFile (rt_Ops rt)) (ea_path opts, ea_old opts, ea_new opts, ea_replaceAll opts) s of (w, s) \<Rightarrow>
        (case w of
           Inl e \<Rightarrow> ((formatCommandPathError ''edit'' (ea_path opts) ''edit: in-place edit is not supported'' e,
                       pathErrorCode e), s)
         | Inr _ \<Rightarrow> (edit_done opts found, s))))))"

definition runEdit :: "'e builtin" where
  "runEdit rt args s =
     (case parseEditArgs args (require_path rt) s of (r, s) \<Rightarrow>
        (case r of
           Inl m \<Rightarrow> ((m, ExitCodeUsage), s)
         | Inr opts \<Rightarrow>
            (if ea_old opts = [] then ((''edit: --old must not be empty'', ExitCodeUsage), s)
             else if \<not> ea_countOnly opts \<and> \<not> ea_newSet opts
             then ((''edit: --new is required unless --count is set'', ExitCodeUsage), s)
             else
      (case preflightPathChecks rt ''edit'' (edit_check opts PathOpRead ''edit: read is not supported'') s of (r, s) \<Rightarrow>
        (case r of Inl out \<Rightarrow> (out, s) | Inr _ \<Rightarrow>
      (case read_raw rt (ea_path opts) s of (c, s) \<Rightarrow>
        (case c of
           Inl e \<Rightarrow> ((formatCommandPathError ''edit'' (ea_path opts) ''edit: read is not supported'' e, pathErrorCode e), s)
         | Inr raw \<Rightarrow>
            (let found = matchLineNumbers raw (ea_old opts) in
             if ea_countOnly opts then (edit_count opts raw found, s) else edit_write rt opts found s))))))))"

subsection \<open>Lemmas\<close>

text \<open>The number of matches the command finds is the number \<open>strings.Count\<close> gives, which the adapter counts with.\<close>

lemma matches_are_counted: "old \<noteq> [] \<Longrightarrow> start \<le> length raw \<Longrightarrow> length (match_lines raw old start) = count_sub old (drop start raw)"
proof (induction raw old start rule: match_lines.induct)
  case (1 raw old start)
  show ?case
  proof (cases "index_of old (drop start raw)")
    case (Some idx)
    have "start + idx + length old \<le> length raw" using index_of_bound [OF Some] "1.prems"(2) by simp
    then show ?thesis
      using 1 Some by (simp add: match_lines.simps [of raw old start] count_sub.simps [of old "drop start raw"] add.commute add.left_commute)
  qed (use 1 in \<open>simp add: match_lines.simps count_sub.simps\<close>)
qed

end
