(* ===== verification/Builtin_Text_Laws.thy ===== *)
theory Builtin_Text_Laws
  imports Builtin_Text "HOL-Library.Multiset"
begin

section \<open>What the text builtins compute\<close>

text \<open>
  \<open>sort\<close> is a stable sort, \<open>uniq\<close> a run-length encoding, \<open>diff\<close> an edit script that is as short as a longest
  common subsequence allows, \<open>view\<close> the window asked for as long as its end is an \<open>int\<close>.
\<close>

subsection \<open>sort\<close>

lemma distinct_remdups_adj_antisym:
  "sorted_wrt R xs \<Longrightarrow> (\<And>a b. R a b \<Longrightarrow> R b a \<Longrightarrow> a = b) \<Longrightarrow> distinct (remdups_adj xs)"
proof (induction xs rule: remdups_adj.induct)
  case (3 x y xs)
  show ?case
  proof (cases "x = y")
    case False
    then have "x \<notin> set (y # xs)" using "3.prems" by auto
    then show ?thesis using 3 False by auto
  qed (use 3 in auto)
qed auto

text \<open>The library's stable sort, by a key and in the order of the keys.\<close>

lemma stable_sort_by_key: "stable_sort_by (\<lambda>a b. f a < f b) xs = sort_key f xs"
  for f :: "'a \<Rightarrow> 'k::linorder"
proof -
  have "insert_by (\<lambda>a b. f a < f b) x ys = insort_key f x ys" for x ys by (induction ys) auto
  then have "insert_by (\<lambda>a b. f a < f b) = insort_key f" by (simp add: fun_eq_iff)
  then show ?thesis by (simp add: stable_sort_by_def sort_key_def)
qed

lemma stable_sort_by_greater: "stable_sort_by (\<lambda>a b. b < a) xs = rev (sort xs)"
  for xs :: "'a::linorder list"
proof -
  have "sorted_wrt (\<lambda>a b. \<not> a < b) (stable_sort_by (\<lambda>a b. b < a) xs)"
    by (rule sorted_stable_sort_by) (auto simp: weak_order_def)
  then have "sorted (rev (stable_sort_by (\<lambda>a b. b < a) xs))" by (simp add: sorted_wrt_rev not_less)
  then have "sort xs = rev (stable_sort_by (\<lambda>a b. b < a) xs)" by (intro properties_for_sort) simp_all
  then show ?thesis by simp
qed

definition sorted_lines :: "sortFlags \<Rightarrow> string list \<Rightarrow> string list" where
  "sorted_lines flags lines =
     (if sf_numeric flags
      then sort_key (\<lambda>l. if sf_reverse flags then - parseLeadingInt l else parseLeadingInt l) lines
      else if sf_reverse flags then rev (sort lines) else sort lines)"

lemma stable_sort_lines: "stable_sort_by (sort_less flags) lines = sorted_lines flags lines"
proof -
  have "sort_less flags =
      (if sf_numeric flags
       then (\<lambda>a b. (if sf_reverse flags then - parseLeadingInt a else parseLeadingInt a) <
                    (if sf_reverse flags then - parseLeadingInt b else parseLeadingInt b))
       else if sf_reverse flags then (\<lambda>a b. b < a) else (\<lambda>a b. a < b))"
    by (auto simp: fun_eq_iff sort_less_def)
  then show ?thesis
    using stable_sort_by_key [of "\<lambda>l. l" lines]
    by (simp add: sorted_lines_def stable_sort_by_key stable_sort_by_greater)
qed

lemma distinct_remdups_sorted: "sorted xs \<Longrightarrow> distinct (remdups_adj xs)" for xs :: "'a::linorder list"
  by (erule distinct_remdups_adj_antisym) simp

subsection \<open>uniq\<close>

abbreviation ungroup :: "(string \<times> nat) list \<Rightarrow> string list" where
  "ungroup gs \<equiv> concat (map (\<lambda>(l, n). replicate n l) gs)"

lemma ungroup_add_group: "ungroup (add_group gs line) = ungroup gs @ [line]"
proof (cases "gs = []")
  case False
  then obtain hs l n where gs: "gs = hs @ [(l, n)]" by (metis surj_pair rev_exhaust)
  show ?thesis by (simp add: gs add_group_def replicate_append_same)
qed (simp add: add_group_def)

lemma ungroup_uniq_groups: "ungroup (uniq_groups lines) = lines"
proof -
  have "ungroup (foldl add_group gs lines) = ungroup gs @ lines" for gs
    by (induction lines arbitrary: gs) (simp_all add: ungroup_add_group)
  from this [of "[]"] show ?thesis by (simp add: uniq_groups_def)
qed

lemma groups_add:
  "gs = [] \<or> fst (last gs) = last ls \<Longrightarrow> (gs = []) = (ls = []) \<Longrightarrow> map fst gs = remdups_adj ls \<Longrightarrow>
   map fst (add_group gs l) = remdups_adj (ls @ [l]) \<and> fst (last (add_group gs l)) = l"
  by (cases gs rule: rev_cases) (auto simp: add_group_def remdups_adj_append'')

lemma uniq_groups_fst:
  "map fst (uniq_groups lines) = remdups_adj lines \<and> (lines \<noteq> [] \<longrightarrow> uniq_groups lines \<noteq> [] \<and> fst (last (uniq_groups lines)) = last lines)"
proof (induction lines rule: rev_induct)
  case (snoc l lines)
  have "(uniq_groups lines = []) = (lines = [])" using snoc by (metis map_is_Nil_conv remdups_adj_Nil_iff)
  then show ?case
    using groups_add [of "uniq_groups lines" lines l] snoc
    by (auto simp: uniq_groups_def) (auto simp: add_group_def split: if_splits)
qed (simp add: uniq_groups_def)

lemma uniq_groups_pos: "(l, n) \<in> set (uniq_groups lines) \<Longrightarrow> 0 < n"
proof -
  have "\<forall>(l, n) \<in> set gs. 0 < n \<Longrightarrow> \<forall>(l, n) \<in> set (foldl add_group gs lines). 0 < n" for gs
  proof (induction lines arbitrary: gs)
    case (Cons l ls)
    have "\<forall>(l, n) \<in> set (add_group gs l). 0 < n"
      using Cons.prems by (auto simp: add_group_def dest: in_set_butlastD split: if_splits)
    then show ?case using Cons.IH by simp
  qed simp
  from this [of "[]"] show "(l, n) \<in> set (uniq_groups lines) \<Longrightarrow> 0 < n" by (auto simp: uniq_groups_def)
qed

subsection \<open>diff\<close>

text \<open>The length of a longest common subsequence of two prefixes.\<close>

fun lcs_len :: "string list \<Rightarrow> string list \<Rightarrow> nat \<Rightarrow> nat \<Rightarrow> nat" where
  "lcs_len as bs (Suc i) (Suc j) =
     (if as ! i = bs ! j then Suc (lcs_len as bs i j) else max (lcs_len as bs i (Suc j)) (lcs_len as bs (Suc i) j))"
| "lcs_len as bs 0 j = 0"
| "lcs_len as bs i 0 = 0"

lemma lcs_len_0 [simp]: "lcs_len as bs i 0 = 0"
  by (cases i) auto

lemma lcs_row_len:
  "j \<le> length bs \<Longrightarrow>
   lcs_row (as ! i) (drop j bs) (map (lcs_len as bs i) [j ..< Suc (length bs)]) (lcs_len as bs (Suc i) j) =
   map (lcs_len as bs (Suc i)) [Suc j ..< Suc (length bs)]"
proof (induction "length bs - j" arbitrary: j)
  case (Suc d)
  then have j: "j < length bs" by simp
  then have up: "[j ..< Suc (length bs)] = j # Suc j # [Suc (Suc j) ..< Suc (length bs)]"
    "[Suc j ..< Suc (length bs)] = Suc j # [Suc (Suc j) ..< Suc (length bs)]"
    by (simp_all add: upt_rec)
  have cell: "(if as ! i = bs ! j then lcs_len as bs i j + 1
      else if lcs_len as bs (Suc i) j \<le> lcs_len as bs i (Suc j) then lcs_len as bs i (Suc j) else lcs_len as bs (Suc i) j) =
      lcs_len as bs (Suc i) (Suc j)" by simp
  have "lcs_row (as ! i) (drop (Suc j) bs) (map (lcs_len as bs i) [Suc j ..< Suc (length bs)]) (lcs_len as bs (Suc i) (Suc j)) =
      map (lcs_len as bs (Suc i)) [Suc (Suc j) ..< Suc (length bs)]"
    by (rule Suc(1)) (use Suc(2) j in auto)
  then show ?case
    unfolding up(1) Cons_nth_drop_Suc [OF j, symmetric] list.map lcs_row.simps Let_def cell
    by (simp add: up(2) del: upt_Suc lcs_len.simps)
next
  case 0
  then have "j = length bs" by simp
  then show ?case by simp
qed

lemma lcs_rows_len:
  "i \<le> length as \<Longrightarrow> lcs_rows (drop i as) bs (map (lcs_len as bs i) [0 ..< Suc (length bs)]) =
   map (\<lambda>i. map (lcs_len as bs i) [0 ..< Suc (length bs)]) [Suc i ..< Suc (length as)]"
proof (induction "length as - i" arbitrary: i)
  case (Suc d)
  then have i: "i < length as" by simp
  have row: "0 # lcs_row (as ! i) bs (map (lcs_len as bs i) [0 ..< Suc (length bs)]) 0 =
      map (lcs_len as bs (Suc i)) [0 ..< Suc (length bs)]"
    using lcs_row_len [of 0 bs as i] by (simp add: upt_rec [of 0] del: upt_Suc)
  have "lcs_rows (drop (Suc i) as) bs (map (lcs_len as bs (Suc i)) [0 ..< Suc (length bs)]) =
      map (\<lambda>i. map (lcs_len as bs i) [0 ..< Suc (length bs)]) [Suc (Suc i) ..< Suc (length as)]"
    by (rule Suc(1)) (use Suc(2) i in auto)
  moreover have "[Suc i ..< Suc (length as)] = Suc i # [Suc (Suc i) ..< Suc (length as)]" using i by (simp add: upt_rec)
  ultimately show ?case
    unfolding Cons_nth_drop_Suc [OF i, symmetric] lcs_rows.simps row Let_def by (simp del: upt_Suc)
next
  case 0
  then have "i = length as" by simp
  then show ?case by simp
qed

lemma lcsTable_len:
  assumes "i \<le> length as" and "j \<le> length bs" shows "lcsTable as bs ! i ! j = lcs_len as bs i j"
proof -
  have z: "replicate (Suc (length bs)) 0 = map (lcs_len as bs 0) [0 ..< Suc (length bs)]"
    by (simp add: map_replicate_const fun_eq_iff cong: map_cong del: upt_Suc replicate_Suc)
  have "lcsTable as bs = map (\<lambda>i. map (lcs_len as bs i) [0 ..< Suc (length bs)]) [0 ..< Suc (length as)]"
    using lcs_rows_len [of 0 as bs] unfolding lcsTable_def Let_def z
    by (simp add: upt_rec [of 0 "Suc (length as)"] del: upt_Suc)
  then show ?thesis using assms by (simp del: upt_Suc)
qed

lemma subseq_one: "subseq zs [y] \<longleftrightarrow> zs = [] \<or> zs = [y]"
  by (cases zs) (auto simp: subseq_singleton_left)

lemma subseq_snoc: "subseq xs (ys @ [y]) \<longleftrightarrow> subseq xs ys \<or> (\<exists>zs. xs = zs @ [y] \<and> subseq zs ys)"
  unfolding subseq_append_iff subseq_one by force

lemma subseq_front: "subseq (zs @ ws) ys \<Longrightarrow> subseq zs ys"
  by (metis list_emb_prefix subseq_order.order_trans prefixI prefix_imp_subseq)

lemma lcs_len_best:
  "i \<le> length as \<Longrightarrow> j \<le> length bs \<Longrightarrow> subseq xs (take i as) \<Longrightarrow> subseq xs (take j bs) \<Longrightarrow> length xs \<le> lcs_len as bs i j"
proof (induction as bs i j arbitrary: xs rule: lcs_len.induct)
  case (1 as bs i j)
  have i: "take (Suc i) as = take i as @ [as ! i]" "take (Suc j) bs = take j bs @ [bs ! j]"
    using 1 by (simp_all add: take_Suc_conv_app_nth)
  show ?case
  proof (cases "as ! i = bs ! j")
    case True
    have "length ys \<le> lcs_len as bs i j" if "subseq ys (take i as)" "subseq ys (take j bs)" for ys
      using "1.IH"(1) [OF True] "1.prems" that by simp
    then show ?thesis
      using "1.prems"(3,4) True unfolding i subseq_snoc by (auto dest: subseq_front intro: le_SucI)
  next
    case False
    then have "subseq xs (take i as) \<or> subseq xs (take j bs)"
      using "1.prems"(3,4) unfolding i subseq_snoc by auto
    then show ?thesis using "1.IH"(2,3) [OF False] "1.prems" False by fastforce
  qed
qed auto

definition kept_line :: "string \<Rightarrow> bool" where "kept_line l \<longleftrightarrow> hd l = blank"

text \<open>The four ways the walk goes.\<close>

lemma diff_steps:
  "diff_changes t as bs 0 0 = []"
  "as ! i = bs ! j \<Longrightarrow> diff_changes t as bs (Suc i) (Suc j) = ('' '' @ as ! i) # diff_changes t as bs i j"
  "i = 0 \<or> as ! (i - 1) \<noteq> bs ! j \<and> t ! (i - 1) ! Suc j \<le> t ! i ! j \<Longrightarrow>
   diff_changes t as bs i (Suc j) = (''+'' @ bs ! j) # diff_changes t as bs i j"
  "j = 0 \<or> as ! i \<noteq> bs ! (j - 1) \<and> \<not> t ! i ! j \<le> t ! Suc i ! (j - 1) \<Longrightarrow>
   diff_changes t as bs (Suc i) j = (''-'' @ as ! i) # diff_changes t as bs i j"
  by (auto simp: diff_changes.simps [of t as bs])

lemma diff_induct [case_names stop both plus minus]:
  assumes "P 0 0" and "\<And>i j. as ! i = bs ! j \<Longrightarrow> P i j \<Longrightarrow> P (Suc i) (Suc j)"
    and "\<And>i j. i = 0 \<or> as ! (i - 1) \<noteq> bs ! j \<and> t ! (i - 1) ! Suc j \<le> t ! i ! j \<Longrightarrow> P i j \<Longrightarrow> P i (Suc j)"
    and "\<And>i j. j = 0 \<or> as ! i \<noteq> bs ! (j - 1) \<and> \<not> t ! i ! j \<le> t ! Suc i ! (j - 1) \<Longrightarrow> P i j \<Longrightarrow> P (Suc i) j"
  shows "P i (j :: nat)"
proof (induction "i + j" arbitrary: i j rule: less_induct)
  case less
  consider (stop) "i = 0" "j = 0"
    | (both) i' j' where "i = Suc i'" "j = Suc j'" "as ! i' = bs ! j'"
    | (plus) j' where "j = Suc j'" "i = 0 \<or> as ! (i - 1) \<noteq> bs ! j' \<and> t ! (i - 1) ! Suc j' \<le> t ! i ! j'"
    | (minus) i' where "i = Suc i'" "j = 0 \<or> as ! i' \<noteq> bs ! (j - 1) \<and> \<not> t ! i' ! j \<le> t ! Suc i' ! (j - 1)"
    by (cases i; cases j) auto
  then show ?case
    by cases (use less assms in auto)
qed

lemma diff_changes_len:
  "i \<le> length as \<Longrightarrow> j \<le> length bs \<Longrightarrow>
   length (filter kept_line (diff_changes (lcsTable as bs) as bs i j)) = lcs_len as bs i j"
proof (induction i j rule: diff_induct [where as = as and bs = bs and t = "lcsTable as bs"])
  case (plus i j)
  then have "lcs_len as bs i (Suc j) = lcs_len as bs i j"
    using lcsTable_len [of "i - 1" as "Suc j" bs] lcsTable_len [of i as j bs] by (cases i) auto
  then show ?case using plus by (simp add: diff_steps(3) kept_line_def)
next
  case (minus i j)
  then have "lcs_len as bs (Suc i) j = lcs_len as bs i j"
    using lcsTable_len [of i as j bs] lcsTable_len [of "Suc i" as "j - 1" bs] by (cases j) auto
  then show ?case using minus by (simp add: diff_steps(4) kept_line_def)
qed (simp_all add: diff_steps(1,2) kept_line_def)

lemma diff_changes_sides:
  "i \<le> length as \<Longrightarrow> j \<le> length bs \<Longrightarrow>
   map tl (filter (\<lambda>l. hd l \<noteq> CHR ''+'') (rev (diff_changes t as bs i j))) = take i as \<and>
   map tl (filter (\<lambda>l. hd l \<noteq> CHR ''-'') (rev (diff_changes t as bs i j))) = take j bs"
  by (induction i j rule: diff_induct [where as = as and bs = bs and t = t])
    (simp_all add: diff_steps take_Suc_conv_app_nth)

subsection \<open>The properties\<close>

text \<open>C33. Without \<open>-n\<close>, \<open>sort\<close> gives the lines in lexicographic order of their bytes, or with \<open>-r\<close> in the opposite order; with \<open>-n\<close>
  in the order of their leading integers, or with \<open>-r\<close> in the opposite order of these, and lines with the same integer keep
  their order. Without \<open>-u\<close> no line is lost. With \<open>-u\<close> a line equal to the one before it is left out: every line still occurs,
  and, without \<open>-n\<close>, only once (with \<open>-n\<close> equal lines need not be neighbours, and then stay).\<close>

theorem sort_stable:
  "sort_lines flags lines =
     (let sorted =
        (if sf_numeric flags
         then sort_key (\<lambda>l. if sf_reverse flags then - parseLeadingInt l else parseLeadingInt l) lines
         else if sf_reverse flags then rev (sort lines) else sort lines)
      in if sf_unique flags then remdups_adj sorted else sorted) \<and>
   (\<not> sf_unique flags \<longrightarrow> mset (sort_lines flags lines) = mset lines \<and>
      (sf_numeric flags \<longrightarrow> (\<forall>k. filter (\<lambda>l. parseLeadingInt l = k) (sort_lines flags lines) =
         filter (\<lambda>l. parseLeadingInt l = k) lines))) \<and>
   (sf_unique flags \<longrightarrow> set (sort_lines flags lines) = set lines \<and>
      (\<not> sf_numeric flags \<longrightarrow> distinct (sort_lines flags lines)))"
proof -
  have eq: "sort_lines flags lines =
      (if sf_unique flags then remdups_adj (sorted_lines flags lines) else sorted_lines flags lines)"
    by (simp add: sort_lines_def stable_sort_lines Let_def)
  have "filter (\<lambda>l. parseLeadingInt l = k) (sort_key (\<lambda>l. - parseLeadingInt l) lines) = filter (\<lambda>l. parseLeadingInt l = k) lines" for k
    using sort_key_stable [of "\<lambda>l. - parseLeadingInt l" "- k" lines] by simp
  moreover have "\<not> sf_numeric flags \<Longrightarrow> distinct (remdups_adj (sorted_lines flags lines))"
    using distinct_remdups_sorted [of "sort lines"] by (simp add: sorted_lines_def)
  ultimately show ?thesis
    unfolding eq by (simp add: sorted_lines_def sort_key_stable Let_def)
qed

theorem sort_stable_witness:
  "sort_lines \<lparr>sf_reverse = True, sf_numeric = True, sf_unique = False\<rparr> [''1 b'', ''2'', ''1 a''] = [''2'', ''1 b'', ''1 a''] \<and>
   mset (sort_lines \<lparr>sf_reverse = True, sf_numeric = True, sf_unique = False\<rparr> [''1 b'', ''2'', ''1 a'']) = {#''1 b'', ''2'', ''1 a''#} \<and>
   distinct (sort_lines \<lparr>sf_reverse = False, sf_numeric = False, sf_unique = True\<rparr> [''b'', ''a'', ''b''])"
proof -
  have "sort_lines \<lparr>sf_reverse = True, sf_numeric = True, sf_unique = False\<rparr> [''1 b'', ''2'', ''1 a''] = [''2'', ''1 b'', ''1 a'']"
    by code_simp
  then show ?thesis
    using sort_stable [of "\<lparr>sf_reverse = True, sf_numeric = True, sf_unique = False\<rparr>" "[''1 b'', ''2'', ''1 a'']"]
      sort_stable [of "\<lparr>sf_reverse = False, sf_numeric = False, sf_unique = True\<rparr>" "[''b'', ''a'', ''b'']"] by simp
qed

text \<open>With \<open>-n -u\<close> a line may be printed twice.\<close>

lemma sort_numeric_unique_repeats:
  "sort_lines \<lparr>sf_reverse = False, sf_numeric = True, sf_unique = True\<rparr> [''1 b'', ''1 a'', ''1 b''] = [''1 b'', ''1 a'', ''1 b'']"
  by code_simp

text \<open>C34. \<open>uniq\<close> is a run-length encoding: the groups, written out, are the lines again; no two neighbours name the
  same line, and no group is empty.\<close>

theorem uniq_roundtrip:
  "ungroup (uniq_groups lines) = lines \<and> map fst (uniq_groups lines) = remdups_adj lines \<and>
   list_all (\<lambda>g. 0 < snd g) (uniq_groups lines)"
  using ungroup_uniq_groups uniq_groups_fst uniq_groups_pos by (auto simp: list_all_iff)

text \<open>C32. The body of a diff, without its additions, is the first file, without its removals the second, and it keeps
  as many lines as any common subsequence has: no shorter edit script exists.\<close>

theorem diff_minimal:
  "map tl (filter (\<lambda>l. hd l \<noteq> CHR ''+'') (diff_body lines1 lines2)) = lines1 \<and>
   map tl (filter (\<lambda>l. hd l \<noteq> CHR ''-'') (diff_body lines1 lines2)) = lines2 \<and>
   \<not> (\<exists>xs. subseq xs lines1 \<and> subseq xs lines2 \<and>
        length (filter (\<lambda>l. hd l = blank) (diff_body lines1 lines2)) < length xs)"
proof -
  have kept: "length (filter (\<lambda>l. hd l = blank) (diff_body lines1 lines2)) =
      lcs_len lines1 lines2 (length lines1) (length lines2)"
    using diff_changes_len [of "length lines1" lines1 "length lines2" lines2]
    by (simp add: diff_body_def kept_line_def [abs_def] rev_filter [symmetric])
  show ?thesis
    using diff_changes_sides [of "length lines1" lines1 "length lines2" lines2 "lcsTable lines1 lines2"]
      lcs_len_best [of "length lines1" lines1 "length lines2" lines2]
    unfolding kept by (fastforce simp: diff_body_def not_less)
qed

subsection \<open>view\<close>

text \<open>The window is the lines from \<open>start\<close> on, at most \<open>cnt\<close> of them, as long as its end is an \<open>int\<close>.\<close>

lemma view_window_exact:
  assumes "1 \<le> start" and "0 \<le> cnt" and "start + cnt \<le> max_int"
  shows "view_window start cnt ls = take (nat cnt) (drop (nat (start - 1)) ls)"
proof -
  have sum: "add_int (add_int start cnt) (- 1) = start + cnt - 1"
    using assms by (simp add: add_int_in_range in_int_range_def min_int_def max_int_def)
  have nats: "nat (start + cnt - 1) = nat (start - 1) + nat cnt"
    using assms by simp
  have swap: "drop (nat (start - 1)) (take (nat (start - 1) + nat cnt) ls) = take (nat cnt) (drop (nat (start - 1)) ls)"
    by (simp add: drop_take)
  show ?thesis
  proof (cases "start \<le> int (length ls)")
    case True
    then show ?thesis using assms swap by (auto simp: view_window_def sum Let_def nats not_le)
  next
    case False
    then have "drop (nat (start - 1)) ls = []" by simp
    then show ?thesis using assms False by (auto simp: view_window_def sum Let_def nats not_le drop_take)
  qed
qed

text \<open>Past that the sum wraps around and the window is empty.\<close>

lemma view_window_overflow: "view_window 2 max_int ls = []"
  by (simp add: view_window_def max_int_def add_int_def Let_def)

end
