(* ===== verification/Builtin_Find.thy ===== *)
theory Builtin_Find
  imports Builtin_Base
begin

section \<open>The builtins that find files (\<open>pkg/builtin/op_path_discovery.go\<close>, \<open>op_glob.go\<close>)\<close>

text \<open>
  find matches base names below one directory and may run a command on what it found, through the dispatcher
  of the engine. glob matches paths with \<open>**\<close>; its matcher is memoised and polls the context at every step.
\<close>

subsection \<open>Arguments of find\<close>

record findArgs =
  fi_target :: string
  fi_patterns :: "string list"
  fi_execArgs :: "string list"
  fi_execPlus :: bool
  fi_jsonl :: bool

record findScan =
  fs_sawPattern :: bool
  fs_lastWasOr :: bool
  fs_targetSet :: bool

definition exec_end :: "string \<Rightarrow> bool" where
  "exec_end arg \<longleftrightarrow> arg = '';'' \<or> arg = ''+''"

function find_args :: "(string, string, 'e) op \<Rightarrow> string list \<Rightarrow> findArgs \<Rightarrow> findScan \<Rightarrow> 'e sys \<Rightarrow>
    (string + findArgs \<times> findScan) \<times> 'e sys" where
  "find_args require [] opts scan s = (Inr (opts, scan), s)"
| "find_args require (arg # args) opts scan s =
     (if arg = ''-name'' then
        (case args of [] \<Rightarrow> (Inl ''find: -name requires pattern'', s)
         | v # rest \<Rightarrow> find_args require rest (opts\<lparr>fi_patterns := fi_patterns opts @ [v]\<rparr>)
             (scan\<lparr>fs_sawPattern := True, fs_lastWasOr := False\<rparr>) s)
      else if arg = ''-o'' then
        (if \<not> fs_sawPattern scan \<or> fs_lastWasOr scan then (Inl ''find: unexpected -o'', s)
         else find_args require args opts (scan\<lparr>fs_lastWasOr := True\<rparr>) s)
      else if arg = ''-exec'' then
        (if fi_execArgs opts \<noteq> [] then (Inl ''find: only one -exec clause is supported'', s)
         else if args = [] then (Inl ''find: -exec requires command'', s)
         else let command = takeWhile (\<lambda>a. \<not> exec_end a) args; rest = dropWhile (\<lambda>a. \<not> exec_end a) args in
           (case rest of
              [] \<Rightarrow> (Inl (''find: -exec requires terminator '' @ [squote] @ '';'' @ [squote] @ '' or '' @ [squote] @ ''+'' @ [squote]), s)
            | terminator # rest \<Rightarrow>
               (if command = [] then (Inl ''find: -exec requires command'', s)
                else find_args require rest (opts\<lparr>fi_execArgs := command, fi_execPlus := (terminator = ''+'')\<rparr>)
                  (scan\<lparr>fs_lastWasOr := False\<rparr>) s)))
      else if arg = ''--fmt'' then
        (case args of [] \<Rightarrow> (Inl ''find: --fmt requires one value: jsonl'', s)
         | v # rest \<Rightarrow>
            (if trim_space v \<noteq> ''jsonl'' then (Inl (''find: unsupported --fmt value '' @ go_quote v), s)
             else find_args require rest (opts\<lparr>fi_jsonl := True\<rparr>) scan s))
      else if has_prefix arg ''--fmt='' then
        (if trim_space (trim_prefix arg ''--fmt='') \<noteq> ''jsonl''
         then (Inl (''find: unsupported --fmt value '' @ go_quote (trim_prefix arg ''--fmt='')), s)
         else find_args require args (opts\<lparr>fi_jsonl := True\<rparr>) scan s)
      else if has_prefix arg ''-'' then (Inl (''find: unsupported flag '' @ arg), s)
      else if fs_targetSet scan then (Inl (''find: unexpected argument: '' @ arg), s)
      else (case require arg s of (r, s) \<Rightarrow>
        (case r of
           Inl e \<Rightarrow> (Inl (named ''find'' e), s)
         | Inr p \<Rightarrow> find_args require args (opts\<lparr>fi_target := p\<rparr>) (scan\<lparr>fs_targetSet := True\<rparr>) s)))"
  by pat_completeness auto
termination
proof (relation "measure (\<lambda>(require, args, opts, scan, s). length args)", goal_cases)
  case (4 require arg args opts scan s command rest terminator rest')
  then have "length (terminator # rest') \<le> length args" using length_dropWhile_le [of _ args] by metis
  then show ?case by simp
qed auto

definition parseFindArgs :: "string list \<Rightarrow> (string, string, 'e) op \<Rightarrow> string \<Rightarrow> 'e sys \<Rightarrow> (string + findArgs) \<times> 'e sys" where
  "parseFindArgs args require root s =
     (case find_args require args
         \<lparr>fi_target = root, fi_patterns = [], fi_execArgs = [], fi_execPlus = False, fi_jsonl = False\<rparr>
         \<lparr>fs_sawPattern = False, fs_lastWasOr = False, fs_targetSet = False\<rparr> s of (r, s) \<Rightarrow>
        (case r of
           Inl m \<Rightarrow> (Inl m, s)
         | Inr (opts, scan) \<Rightarrow>
            (if fs_lastWasOr scan then (Inl ''find: expression cannot end with -o'', s)
             else (Inr (if fi_patterns opts = [] then opts\<lparr>fi_patterns := [''*'']\<rparr> else opts), s))))"

subsection \<open>find\<close>

definition bad_pattern :: string where "bad_pattern = ''syntax error in pattern''"

definition matchFindName :: "string \<Rightarrow> string \<Rightarrow> string + bool" where
  "matchFindName name pattern =
     (if list_ex (\<lambda>c. c \<in> set ''*?[]'') pattern
      then (case path_match pattern name of None \<Rightarrow> Inl bad_pattern | Some b \<Rightarrow> Inr b)
      else Inr (name = pattern))"

fun match_any :: "string \<Rightarrow> string list \<Rightarrow> string + bool" where
  "match_any name [] = Inr False"
| "match_any name (pattern # patterns) =
     (case matchFindName name pattern of
        Inl m \<Rightarrow> Inl m
      | Inr b \<Rightarrow> if b then Inr True else match_any name patterns)"

fun find_matches :: "string list \<Rightarrow> string list \<Rightarrow> string + string list" where
  "find_matches patterns [] = Inr []"
| "find_matches patterns (p # ps) =
     (case match_any (path_base p) patterns of
        Inl m \<Rightarrow> Inl m
      | Inr b \<Rightarrow> (case find_matches patterns ps of Inl m \<Rightarrow> Inl m | Inr out \<Rightarrow> Inr (if b then p # out else out)))"

text \<open>The record find and glob print for a file.\<close>

definition path_record :: "string \<Rightarrow> json" where
  "path_record p = JObj [(''path'', JStr p), (''name'', JStr (path_base p)), (''kind'', JStr ''file'')]"

definition renderFindJSONL :: "string list \<Rightarrow> string" where
  "renderFindJSONL paths = lines_text (map (\<lambda>p. json_text (path_record p)) paths)"

definition expandFindExecArgs :: "string list \<Rightarrow> string list \<Rightarrow> string list" where
  "expandFindExecArgs execArgs paths =
     concat (map (\<lambda>arg. if arg = ''{}'' then paths else [arg]) execArgs) @ (if ''{}'' \<in> set execArgs then [] else paths)"

type_synonym 'e dispatch = "string list \<Rightarrow> string \<Rightarrow> bool \<Rightarrow> 'e sys \<Rightarrow> (string \<times> int) \<times> 'e sys"

fun exec_each :: "'e dispatch \<Rightarrow> string list \<Rightarrow> string list \<Rightarrow> string list \<Rightarrow> 'e sys \<Rightarrow> reply \<times> 'e sys" where
  "exec_each dispatch execArgs [] out s = ((lines_text out, 0), s)"
| "exec_each dispatch execArgs (p # ps) out s =
     (let args = expandFindExecArgs execArgs [p] in
      if args = [] then ((''find: -exec requires command'', ExitCodeUsage), s)
      else (case dispatch args [] False s of ((cmdOut, code), s) \<Rightarrow>
        (if code \<noteq> 0
         then ((if trim_space cmdOut = [] then ''find: -exec '' @ hd args @ '' failed for '' @ p else cmdOut, code), s)
         else exec_each dispatch execArgs ps (if trim_space cmdOut = [] then out else out @ [cmdOut]) s)))"

definition runFindExec :: "string list \<Rightarrow> string list \<Rightarrow> bool \<Rightarrow> 'e dispatch \<Rightarrow> 'e sys \<Rightarrow> reply \<times> 'e sys" where
  "runFindExec matchedFiles execArgs execPlus dispatch s =
     (if execArgs = [] \<or> matchedFiles = [] then (([], 0), s)
      else if execPlus then
        (let args = expandFindExecArgs execArgs matchedFiles in
         if args = [] then ((''find: -exec requires command'', ExitCodeUsage), s) else dispatch args [] False s)
      else exec_each dispatch execArgs matchedFiles [] s)"

definition runFind :: "'e builtin" where
  "runFind rt args s =
     (case parseFindArgs args (require_path rt) (currentWorkingDir (rt_Ops rt) s) s of (r, s) \<Rightarrow>
        (case r of Inl m \<Rightarrow> ((m, ExitCodeUsage), s) | Inr opts \<Rightarrow>
      (if fi_jsonl opts \<and> fi_execArgs opts \<noteq> []
       then ((''find: --fmt jsonl is not supported with -exec'', ExitCodeUsage), s)
       else
      (case call (o_IsDirPath (rt_Ops rt)) (fi_target opts) s of (d, s) \<Rightarrow>
        (case d of Inl e \<Rightarrow> ((named ''find'' e, ExitCodeGeneral), s) | Inr isDir \<Rightarrow>
      (if \<not> isDir then ((''find: '' @ fi_target opts @ '': Not a directory'', ExitCodeGeneral), s)
       else
      (case call (o_CollectFilesUnder (rt_Ops rt)) (fi_target opts) s of (f, s) \<Rightarrow>
        (case f of Inl e \<Rightarrow> ((named ''find'' e, ExitCodeGeneral), s) | Inr files \<Rightarrow>
      (case find_matches (fi_patterns opts) files of
         Inl m \<Rightarrow> ((''find: invalid -name pattern: '' @ m, ExitCodeUsage), s)
       | Inr matched \<Rightarrow>
          (if fi_execArgs opts = []
           then ((if fi_jsonl opts then renderFindJSONL matched else lines_text matched, 0), s)
           else runFindExec matched (fi_execArgs opts) (fi_execPlus opts) (rt_Dispatch rt) s))))))))))"

subsection \<open>The pattern of glob\<close>

definition splitGlob :: "string \<Rightarrow> string list" where
  "splitGlob value = (if value = [] then [] else split_on slash value)"

text \<open>A run of \<open>**\<close> is one; every other part must be a pattern.\<close>

fun glob_parts :: "string list \<Rightarrow> string list \<Rightarrow> string + string list" where
  "glob_parts [] parts = Inr parts"
| "glob_parts (part # rest) parts =
     (if part = ''**'' \<and> parts \<noteq> [] \<and> last parts = ''**'' then glob_parts rest parts
      else if part \<noteq> ''**'' \<and> path_match part [] = None then Inl bad_pattern
      else glob_parts rest (parts @ [part]))"

definition compileGlobPattern :: "string \<Rightarrow> string + string list" where
  "compileGlobPattern pattern =
     (let p = map (\<lambda>c. if c = backslash then slash else c) (trim_space pattern);
          p = trim_prefix (path_clean (slash # p)) [slash]
      in if p = ''.'' \<or> p = [] then Inl ''pattern must not be empty''
         else let p = (if slash \<notin> set p then ''**/'' @ p else p) in glob_parts (splitGlob p) [])"

definition relativeGlobPath :: "string \<Rightarrow> string \<Rightarrow> string" where
  "relativeGlobPath root filePath =
     (let root = path_clean root; filePath = path_clean filePath in
      if root = [slash] then trim_prefix filePath [slash]
      else if filePath = root then path_base filePath
      else if has_prefix filePath (root @ [slash]) then trim_prefix filePath (root @ [slash])
      else path_base filePath)"

subsection \<open>The matcher of glob\<close>

text \<open>\<open>visit\<close> over the positions in the path and in the pattern. The memo holds the positions seen; a poll of the
  context comes before the look-up.\<close>

type_synonym glob_memo = "((nat \<times> nat) \<times> bool) list"

function glob_visit :: "string list \<Rightarrow> string list \<Rightarrow> nat \<Rightarrow> nat \<Rightarrow> glob_memo \<Rightarrow> 'e sys \<Rightarrow>
    (string + bool) \<times> glob_memo \<times> 'e sys" where
  "glob_visit parts rel r p memo s =
     (case executionContextErr s of (e, s) \<Rightarrow>
        (case e of Some err \<Rightarrow> (Inl (error_text err), memo, s) | None \<Rightarrow>
          (case map_of memo (r, p) of Some b \<Rightarrow> (Inr b, memo, s) | None \<Rightarrow>
            (let remember = (\<lambda>b (memo :: glob_memo) s. (Inr b, ((r, p), b) # memo, s)) in
             if length parts \<le> p then remember (p = length parts \<and> r = length rel) memo s
             else if parts ! p = ''**'' then
               (case glob_visit parts rel r (Suc p) memo s of (m, memo, s) \<Rightarrow>
                 (case m of Inl err \<Rightarrow> (Inl err, memo, s)
                  | Inr b \<Rightarrow>
                     (if \<not> b \<and> r < length rel then
                        (case glob_visit parts rel (Suc r) p memo s of (m, memo, s) \<Rightarrow>
                          (case m of Inl err \<Rightarrow> (Inl err, memo, s) | Inr b \<Rightarrow> remember b memo s))
                      else remember b memo s)))
             else if r < length rel then
               (case path_match (parts ! p) (rel ! r) of
                  None \<Rightarrow> (Inl bad_pattern, memo, s)
                | Some True \<Rightarrow>
                   (case glob_visit parts rel (Suc r) (Suc p) memo s of (m, memo, s) \<Rightarrow>
                     (case m of Inl err \<Rightarrow> (Inl err, memo, s) | Inr b \<Rightarrow> remember b memo s))
                | Some False \<Rightarrow> remember False memo s)
             else remember False memo s))))"
  by pat_completeness auto
termination
  by (relation "measure (\<lambda>(parts, rel, r, p, memo, s). (length rel - r) + (length parts - p))") auto

declare glob_visit.simps [simp del]

definition glob_match :: "string list \<Rightarrow> string \<Rightarrow> 'e sys \<Rightarrow> (string + bool) \<times> 'e sys" where
  "glob_match parts rel s =
     (let rel = trim_prefix (path_clean (slash # trim_space rel)) [slash] in
      case glob_visit parts (splitGlob rel) 0 0 [] s of (m, memo, s) \<Rightarrow> (m, s))"

subsection \<open>glob\<close>

record globArgs =
  gl_pattern :: string
  gl_targets :: "string list"
  gl_jsonl :: bool

fun glob_args :: "bool \<Rightarrow> string list \<Rightarrow> bool \<Rightarrow> string list \<Rightarrow> string + bool \<times> string list" where
  "glob_args options [] jsonl positional = Inr (jsonl, positional)"
| "glob_args options (arg # args) jsonl positional =
     (if options \<and> arg = ''--'' then glob_args False args jsonl positional
      else if \<not> options then glob_args options args jsonl (positional @ [arg])
      else if arg = ''--fmt'' then
        (case args of [] \<Rightarrow> Inl ''glob: --fmt requires jsonl''
         | v # args \<Rightarrow> if v \<noteq> ''jsonl'' then Inl (''glob: unsupported --fmt value '' @ go_quote v)
                       else glob_args options args True positional)
      else if arg = ''--fmt=jsonl'' then glob_args options args True positional
      else if has_prefix arg ''--'' then Inl (''glob: unsupported flag '' @ arg)
      else glob_args options args jsonl (positional @ [arg]))"

fun glob_targets :: "(string, string, 'e) op \<Rightarrow> string list \<Rightarrow> 'e sys \<Rightarrow> (string + string list) \<times> 'e sys" where
  "glob_targets require [] s = (Inr [], s)"
| "glob_targets require (arg # args) s =
     (case require arg s of (r, s) \<Rightarrow>
        (case r of Inl e \<Rightarrow> (Inl (named ''glob'' e), s)
         | Inr t \<Rightarrow> (case glob_targets require args s of (r, s) \<Rightarrow>
             (case r of Inl m \<Rightarrow> (Inl m, s) | Inr ts \<Rightarrow> (Inr (t # ts), s)))))"

definition parseGlobArgs :: "string list \<Rightarrow> (string, string, 'e) op \<Rightarrow> string \<Rightarrow> 'e sys \<Rightarrow> (string + globArgs) \<times> 'e sys" where
  "parseGlobArgs args require cwd s =
     (case glob_args True args False [] of
        Inl m \<Rightarrow> (Inl m, s)
      | Inr (jsonl, []) \<Rightarrow> (Inl ''glob: PATTERN is required'', s)
      | Inr (jsonl, pattern # raws) \<Rightarrow>
         (if trim_space pattern = [] then (Inl ''glob: PATTERN is required'', s)
          else (case glob_targets require (if raws = [] then [cwd] else raws) s of (r, s) \<Rightarrow>
            (case r of Inl m \<Rightarrow> (Inl m, s)
             | Inr targets \<Rightarrow> (Inr \<lparr>gl_pattern = pattern, gl_targets = targets, gl_jsonl = jsonl\<rparr>, s)))))"

definition collectGlobFiles :: "'e CommandRuntime \<Rightarrow> (string, string list, 'e) op" where
  "collectGlobFiles rt target s =
     (case call (o_IsDirPath (rt_Ops rt)) target s of (d, s) \<Rightarrow>
        (case d of
           Inl e \<Rightarrow> (Inl e, s)
         | Inr True \<Rightarrow> call (o_CollectFilesUnder (rt_Ops rt)) target s
         | Inr False \<Rightarrow> (case read_raw rt target s of (r, s) \<Rightarrow>
             (case r of
                Inl e \<Rightarrow> (Inl (if isPathMissing e then ErrText (target @ '': No such file or directory'') else e), s)
              | Inr _ \<Rightarrow> (Inr [target], s)))))"

fun glob_files :: "string list \<Rightarrow> string \<Rightarrow> string list \<Rightarrow> string list \<Rightarrow> 'e sys \<Rightarrow> (string + string list) \<times> 'e sys" where
  "glob_files parts target [] out s = (Inr out, s)"
| "glob_files parts target (p # ps) out s =
     (case glob_match parts (relativeGlobPath target p) s of (m, s) \<Rightarrow>
        (case m of
           Inl e \<Rightarrow> (Inl (''glob: '' @ e), s)
         | Inr b \<Rightarrow> glob_files parts target ps (if b \<and> p \<notin> set out then out @ [p] else out) s))"

fun glob_loop :: "'e CommandRuntime \<Rightarrow> string list \<Rightarrow> string list \<Rightarrow> string list \<Rightarrow> 'e sys \<Rightarrow> (string + string list) \<times> 'e sys" where
  "glob_loop rt parts [] out s = (Inr out, s)"
| "glob_loop rt parts (target # targets) out s =
     (case collectGlobFiles rt target s of (f, s) \<Rightarrow>
        (case f of
           Inl e \<Rightarrow>
             (Inl (if isPathMissing e \<or> contains (error_text e) ''No such file''
                   then ''glob: '' @ target @ '': No such file or directory''
                   else formatCommandPathError ''glob'' target [] e), s)
         | Inr files \<Rightarrow> (case glob_files parts target files out s of (r, s) \<Rightarrow>
             (case r of Inl m \<Rightarrow> (Inl m, s) | Inr out \<Rightarrow> glob_loop rt parts targets out s))))"

definition runGlob :: "'e builtin" where
  "runGlob rt args s =
     (case parseGlobArgs args (require_path rt) (currentWorkingDir (rt_Ops rt) s) s of (r, s) \<Rightarrow>
        (case r of Inl m \<Rightarrow> ((m, ExitCodeUsage), s) | Inr opts \<Rightarrow>
      (case compileGlobPattern (gl_pattern opts) of
         Inl m \<Rightarrow> ((''glob: invalid pattern: '' @ m, ExitCodeUsage), s)
       | Inr parts \<Rightarrow>
          (case glob_loop rt parts (gl_targets opts) [] s of (r, s) \<Rightarrow>
            (case r of
               Inl m \<Rightarrow> ((m, ExitCodeGeneral), s)
             | Inr matched \<Rightarrow>
                (let matched = sort matched in
                 ((if gl_jsonl opts then lines_text (map (\<lambda>p. json_text (path_record p)) matched)
                   else lines_text matched, 0), s)))))))"

subsection \<open>What the matcher computes\<close>

text \<open>The reference: \<open>**\<close> stands for any number of components.\<close>

fun glob_spec :: "string list \<Rightarrow> string list \<Rightarrow> bool" where
  "glob_spec [] rel \<longleftrightarrow> rel = []"
| "glob_spec (p # ps) rel \<longleftrightarrow>
     (if p = ''**'' then glob_spec ps rel \<or> (case rel of [] \<Rightarrow> False | _ # rest \<Rightarrow> glob_spec (p # ps) rest)
      else (case rel of [] \<Rightarrow> False | c # rest \<Rightarrow> path_match p c = Some True \<and> glob_spec ps rest))"

end
