(* ===== verification/Builtin_Find_Laws.thy ===== *)
theory Builtin_Find_Laws
  imports Builtin_Find
begin

section \<open>The matcher of glob and its reference\<close>

text \<open>
  \<open>path.Match\<close> reports a malformed pattern whatever the name is, so the check \<open>glob\<close> makes once when it compiles
  the pattern excludes the error for good; the memoised matcher then computes the reference.
\<close>

subsection \<open>Malformed patterns\<close>

lemma class_ranges_rest:
  "map_option snd (class_ranges r m b chunk) = map_option snd (class_ranges r' m' b chunk)"
proof (induction r m b chunk arbitrary: r' m' rule: class_ranges.induct)
  case (1 r m b chunk)
  show ?case
  proof (cases "chunk \<noteq> [] \<and> hd chunk = CHR '']'' \<and> b")
    case False
    show ?thesis
    proof (cases "get_esc chunk")
      case (Some x)
      obtain lo c1 where lo: "get_esc chunk = Some (lo, c1)" using Some by (cases x) auto
      show ?thesis
      proof (cases "hd c1 = CHR ''-''")
        case True
        show ?thesis
        proof (cases "get_esc (tl c1)")
          case (Some y)
          then obtain hi c2 where hi: "get_esc (tl c1) = Some (hi, c2)" by (cases y) auto
          show ?thesis
            using "1.IH"(1) [OF False lo refl True hi refl] lo True hi
            unfolding class_ranges.simps [of r m b chunk] class_ranges.simps [of r' m' b chunk] if_not_P [OF False] by simp
        qed (use False lo True in \<open>simp add: class_ranges.simps [of r m b chunk] class_ranges.simps [of r' m' b chunk]\<close>)
      next
        case no: False
        show ?thesis
          using "1.IH"(2) [OF False lo refl no] lo no
          unfolding class_ranges.simps [of r m b chunk] class_ranges.simps [of r' m' b chunk] if_not_P [OF False] by simp
      qed
    qed (use False in \<open>simp add: class_ranges.simps [of r m b chunk] class_ranges.simps [of r' m' b chunk]\<close>)
  next
    case True
    then show ?thesis
      unfolding class_ranges.simps [of r m b chunk] class_ranges.simps [of r' m' b chunk] if_P [OF True] by simp
  qed
qed

lemma class_ranges_cases:
  "class_ranges r m b chunk = None \<and> class_ranges r' m' b chunk = None \<or>
   (\<exists>x x' rest. class_ranges r m b chunk = Some (x, rest) \<and> class_ranges r' m' b chunk = Some (x', rest))"
  using class_ranges_rest [of r m b chunk r' m']
  by (cases "class_ranges r m b chunk"; cases "class_ranges r' m' b chunk") auto

definition class_body :: "string \<Rightarrow> string" where
  "class_body chunk = (if chunk \<noteq> [] \<and> hd chunk = CHR ''^'' then tl chunk else chunk)"

lemma class_body_length: "length (class_body chunk) \<le> length chunk"
  by (simp add: class_body_def)

lemma match_chunk_class:
  "\<exists>r t g. match_chunk (CHR ''['' # chunk) s f =
     (case class_ranges r False False (class_body chunk) of
        None \<Rightarrow> None | Some (m, rest) \<Rightarrow> match_chunk rest t (g m))"
proof -
  obtain r n where rn: "(if f \<or> s = [] then (0, 0) else decode_rune s) = (r, n)" by (meson surj_pair)
  have "match_chunk (CHR ''['' # chunk) s f =
      (case class_ranges r False False (class_body chunk) of
         None \<Rightarrow> None | Some (m, rest) \<Rightarrow> match_chunk rest (drop n s) ((f \<or> s = []) \<or> m = (chunk \<noteq> [] \<and> hd chunk = CHR ''^'')))"
    unfolding match_chunk.simps Let_def rn class_body_def prod.case by simp
  then show ?thesis by (intro exI) assumption
qed

lemma match_chunk_error: "match_chunk chunk s f = None \<Longrightarrow> match_chunk chunk s' f' = None"
proof (induction "length chunk" arbitrary: chunk s f s' f' rule: less_induct)
  case less
  show ?case
  proof (cases chunk)
    case (Cons c rest)
    consider "c = CHR ''[''" | "c = CHR 0x5C" | "c \<noteq> CHR ''['' \<and> c \<noteq> CHR 0x5C" by blast
    then show ?thesis
    proof cases
      case 1
      obtain r t g where a: "match_chunk chunk s f = (case class_ranges r False False (class_body rest) of
          None \<Rightarrow> None | Some (m, rest) \<Rightarrow> match_chunk rest t (g m))"
        using match_chunk_class 1 Cons by blast
      obtain r' t' g' where b: "match_chunk chunk s' f' = (case class_ranges r' False False (class_body rest) of
          None \<Rightarrow> None | Some (m, rest) \<Rightarrow> match_chunk rest t' (g' m))"
        using match_chunk_class 1 Cons by blast
      show ?thesis
      proof (cases "class_ranges r' False False (class_body rest)")
        case (Some y)
        then obtain x x' z where z: "class_ranges r False False (class_body rest) = Some (x, z)"
          "class_ranges r' False False (class_body rest) = Some (x', z)"
          using class_ranges_cases [of r False False "class_body rest" r' False] by auto
        then have "length z < length chunk"
          using class_ranges_length [OF z(1)] class_body_length [of rest] Cons by simp
        then show ?thesis using less.hyps [of z t "g x"] less.prems a b z by simp
      qed (use b in simp)
    next
      case 2
      show ?thesis
      proof (cases rest)
        case Nil
        then show ?thesis using Cons 2 by simp
      next
        case (Cons d ds)
        then have l: "length ds < length chunk" using \<open>chunk = c # rest\<close> by simp
        show ?thesis using less.hyps [OF l] less.prems \<open>chunk = c # rest\<close> 2 Cons by (simp add: Let_def)
      qed
    next
      case 3
      have l: "length rest < length chunk" using Cons by simp
      show ?thesis using less.hyps [OF l] less.prems 3 Cons by (simp add: Let_def split: if_splits)
    qed
  qed (use less.prems in simp)
qed

lemma star_skip_error: "match_chunk chunk s False \<noteq> None \<Longrightarrow> star_skip chunk l name \<noteq> None"
  using match_chunk_error by (induction chunk l name rule: star_skip.induct) (fastforce split: option.splits)+

lemma scan_chunk_star:
  assumes "scan_chunk p = (star, [], rest)" and "star" shows "rest = []"
proof (rule ccontr)
  assume rest: "rest \<noteq> []"
  let ?b = "dropWhile (\<lambda>c. c = CHR ''*'') p"
  have s: "scan_body False ?b = ([], rest)" using assms by (simp add: scan_chunk_def Let_def)
  show False
  proof (cases ?b)
    case (Cons c cs)
    then have "c \<noteq> CHR ''*''" using hd_dropWhile [of "\<lambda>c. c = CHR ''*''" p] by auto
    then show False using s scan_body_first Cons by metis
  next
    case Nil
    then show False using s rest by (metis Pair_inject scan_body.simps(1))
  qed
qed

text \<open>The pattern alone decides whether \<open>path.Match\<close> fails.\<close>

lemma path_match_error: "path_match p name = None \<longleftrightarrow> \<not> pattern_ok p"
proof (induction p name rule: path_match.induct)
  case (1 p name)
  show ?case
  proof (cases "p = []")
    case False
    obtain star chunk rest where c: "scan_chunk p = (star, chunk, rest)" by (cases "scan_chunk p")
    have ok: "pattern_ok p \<longleftrightarrow> match_chunk chunk [] False \<noteq> None \<and> pattern_ok rest"
      using False by (simp add: pattern_ok.simps [of p] c)
    show ?thesis
    proof (cases "star \<and> chunk = []")
      case True
      then have "rest = []" using c scan_chunk_star by auto
      then show ?thesis using False True ok by (simp add: path_match.simps [of p] pattern_ok.simps [of "[]"] c)
    next
      case no: False
      show ?thesis
      proof (cases "match_chunk chunk [] False")
        case None
        then show ?thesis using False no ok match_chunk_error by (auto simp: path_match.simps [of p] c Let_def)
      next
        case (Some y)
        have m: "match_chunk chunk name False \<noteq> None" using match_chunk_error [of chunk name False "[]" False] Some by auto
        have st: "star_skip chunk (rest = []) name \<noteq> None" "star_skip chunk True name \<noteq> None"
          using star_skip_error m by blast+
        note IH = "1.IH" [OF False c [symmetric] refl no]
        show ?thesis
          using False no ok Some m st IH
          by (auto simp: path_match.simps [of p name] c Let_def split: option.splits)
      qed
    qed
  qed (simp add: path_match.simps pattern_ok.simps)
qed

subsection \<open>The memoised matcher\<close>

definition glob_part_ok :: "string \<Rightarrow> bool" where
  "glob_part_ok p \<longleftrightarrow> p = ''**'' \<or> pattern_ok p"

lemma glob_parts_ok:
  "glob_parts ps parts = Inr out \<Longrightarrow> list_all glob_part_ok parts \<Longrightarrow> list_all glob_part_ok out"
proof (induction ps arbitrary: parts)
  case (Cons p ps)
  have "glob_part_ok p" if "\<not> (p \<noteq> ''**'' \<and> path_match p [] = None)"
    using that path_match_error [of p "[]"] by (auto simp: glob_part_ok_def)
  then show ?case using Cons by (simp split: if_splits)
qed simp

lemma compileGlobPattern_ok: "compileGlobPattern pattern = Inr parts \<Longrightarrow> list_all glob_part_ok parts"
  unfolding compileGlobPattern_def Let_def using glob_parts_ok by (fastforce split: if_splits)

definition memo_ok :: "string list \<Rightarrow> string list \<Rightarrow> glob_memo \<Rightarrow> bool" where
  "memo_ok parts rel memo \<longleftrightarrow> (\<forall>r p b. map_of memo (r, p) = Some b \<longrightarrow> b = glob_spec (drop p parts) (drop r rel))"

lemma memo_ok_Cons:
  "memo_ok parts rel memo \<Longrightarrow> b = glob_spec (drop p parts) (drop r rel) \<Longrightarrow> memo_ok parts rel (((r, p), b) # memo)"
  by (auto simp: memo_ok_def split: if_splits)

definition visited_as :: "string list \<Rightarrow> string list \<Rightarrow> nat \<Rightarrow> nat \<Rightarrow> 'e sys \<Rightarrow> (string + bool) \<times> glob_memo \<times> 'e sys \<Rightarrow> bool" where
  "visited_as parts rel r p s res \<longleftrightarrow>
     (\<exists>memo. res = (Inr (glob_spec (drop p parts) (drop r rel)), memo, s) \<and> memo_ok parts rel memo)"

lemma visited_remember:
  "memo_ok parts rel memo \<Longrightarrow> b = glob_spec (drop p parts) (drop r rel) \<Longrightarrow>
   visited_as parts rel r p s (Inr b, ((r, p), b) # memo, s)"
  unfolding visited_as_def using memo_ok_Cons by blast

lemma drop_part: "p < length parts \<Longrightarrow> drop p parts = parts ! p # drop (Suc p) parts"
  by (simp add: Cons_nth_drop_Suc)

lemma glob_visit_spec:
  assumes "sy_ctx s = CtxLive" and "list_all glob_part_ok parts"
  shows "r \<le> length rel \<Longrightarrow> p \<le> length parts \<Longrightarrow> memo_ok parts rel memo \<Longrightarrow>
    visited_as parts rel r p s (glob_visit parts rel r p memo s)"
proof (induction "(length rel - r) + (length parts - p)" arbitrary: r p memo rule: less_induct)
  case less
  note step = glob_visit.simps [of parts rel r p memo s] executionContextErr_live [OF assms(1)]
  show ?case
  proof (cases "map_of memo (r, p)")
    case (Some b)
    then show ?thesis using less.prems(3) by (auto simp: step visited_as_def memo_ok_def)
  next
    case memo: None
    show ?thesis
    proof (cases "p < length parts")
      case False
      then have "visited_as parts rel r p s (Inr (r = length rel), ((r, p), r = length rel) # memo, s)"
        using less.prems by (intro visited_remember) auto
      then show ?thesis using False less.prems(2) memo by (subst step(1)) (simp add: step(2) Let_def)
    next
      case p: True
      note part = drop_part [OF p]
      show ?thesis
      proof (cases "parts ! p = ''**''")
        case star: True
        have m: "(length rel - r) + (length parts - Suc p) < (length rel - r) + (length parts - p)" using p by simp
        obtain m1 where one: "glob_visit parts rel r (Suc p) memo s =
            (Inr (glob_spec (drop (Suc p) parts) (drop r rel)), m1, s)" "memo_ok parts rel m1"
          using less.hyps [OF m] less.prems p by (auto simp: visited_as_def)
        show ?thesis
        proof (cases "\<not> glob_spec (drop (Suc p) parts) (drop r rel) \<and> r < length rel")
          case True
          then have m: "(length rel - Suc r) + (length parts - p) < (length rel - r) + (length parts - p)" by linarith
          obtain m2 where two: "glob_visit parts rel (Suc r) p m1 s =
              (Inr (glob_spec (drop p parts) (drop (Suc r) rel)), m2, s)" "memo_ok parts rel m2"
            using less.hyps [OF m, of m1] less.prems True one by (auto simp: visited_as_def)
          have "glob_spec (drop p parts) (drop (Suc r) rel) = glob_spec (drop p parts) (drop r rel)"
            using True star by (auto simp: part drop_part [of r rel])
          from visited_remember [OF two(2) this, of s]
          show ?thesis using True star p memo one two by (simp add: step Let_def)
        next
          case False
          have "glob_spec (drop (Suc p) parts) (drop r rel) = glob_spec (drop p parts) (drop r rel)"
            using False star less.prems(1) by (cases "r < length rel") (auto simp: part drop_part [of r rel])
          from visited_remember [OF one(2) this, of s]
          show ?thesis using star p memo one by (simp add: step Let_def if_not_P [OF False])
        qed
      next
        case plain: False
        show ?thesis
        proof (cases "r < length rel")
          case False
          then have "visited_as parts rel r p s (Inr False, ((r, p), False) # memo, s)"
            using less.prems plain by (intro visited_remember) (auto simp: part)
          then show ?thesis using False plain p memo by (simp add: step Let_def)
        next
          case r: True
          have "glob_part_ok (parts ! p)" using assms(2) p by (simp add: list_all_length)
          then obtain b where b: "path_match (parts ! p) (rel ! r) = Some b"
            using path_match_error [of "parts ! p" "rel ! r"] plain by (auto simp: glob_part_ok_def)
          show ?thesis
          proof (cases b)
            case True
            have m: "(length rel - Suc r) + (length parts - Suc p) < (length rel - r) + (length parts - p)" using p r by simp
            obtain m1 where one: "glob_visit parts rel (Suc r) (Suc p) memo s =
                (Inr (glob_spec (drop (Suc p) parts) (drop (Suc r) rel)), m1, s)" "memo_ok parts rel m1"
              using less.hyps [OF m] less.prems p r by (auto simp: visited_as_def)
            have "glob_spec (drop (Suc p) parts) (drop (Suc r) rel) = glob_spec (drop p parts) (drop r rel)"
              using True plain b by (simp add: part drop_part [OF r])
            from visited_remember [OF one(2) this, of s]
            show ?thesis using True plain p r memo one b by (simp add: step Let_def)
          next
            case False
            have "False = glob_spec (drop p parts) (drop r rel)"
              using False plain b by (simp add: part drop_part [OF r])
            from visited_remember [OF less.prems(3) this, of s]
            show ?thesis using False plain p r memo b by (simp add: step Let_def)
          qed
        qed
      qed
    qed
  qed
qed

text \<open>C31. The matcher of \<open>glob\<close>, which remembers positions and polls the context, computes the reference on the
  components of the path, and never fails: a pattern that compiled is well-formed in every part.\<close>

theorem glob_matches_reference:
  assumes "compileGlobPattern pattern = Inr parts" and "sy_ctx s = CtxLive"
  shows "glob_match parts rel s =
    (Inr (glob_spec parts (splitGlob (trim_prefix (path_clean (slash # trim_space rel)) [slash]))), s)"
proof -
  let ?rel = "splitGlob (trim_prefix (path_clean (slash # trim_space rel)) [slash])"
  obtain memo where "glob_visit parts ?rel 0 0 [] s = (Inr (glob_spec parts ?rel), memo, s)"
    using glob_visit_spec [OF assms(2) compileGlobPattern_ok [OF assms(1)], of 0 ?rel 0 "[]"]
    by (auto simp: visited_as_def memo_ok_def)
  then show ?thesis by (simp add: glob_match_def Let_def)
qed

lemma sample_glob: "compileGlobPattern ''*.go'' = Inr [''**'', ''*.go'']"
proof -
  have "trim_space ''*.go'' = ''*.go''"
    by (rule trim_space_fixI) (simp_all add: starts_with_space_def ends_with_space_def space_runes_def)
  moreover have "path_match ''*.go'' [] \<noteq> None"
    unfolding path_match_error not_not by code_simp
  ultimately show ?thesis
    by (auto simp: compileGlobPattern_def path_clean_def clean_comps_def splitGlob_def trim_prefix_def)
qed

theorem glob_matches_reference_witness:
  "glob_match [''**'', ''*.go''] ''a/b.go'' (live_sys ()) =
     (Inr (glob_spec [''**'', ''*.go''] (splitGlob (trim_prefix (path_clean (slash # trim_space ''a/b.go'')) [slash]))), live_sys ())"
  by (rule glob_matches_reference [OF sample_glob]) (simp add: live_sys_def)

end
