(* ===== verification/Builtin_Listing.thy ===== *)
theory Builtin_Listing
  imports Builtin_Base
begin

section \<open>The builtins that list directories (\<open>pkg/builtin/op_listing.go\<close>, \<open>op_tree.go\<close>)\<close>

text \<open>
  ls lists one level, or walks breadth-first with \<open>-R\<close>; tree walks depth-first. Both remember the directories
  visited. The walks may go on forever over callbacks that invent directories, so they run on fuel and return
  \<^term>\<open>None\<close> without it: one unit of fuel per directory listed (ls) or per level (tree). \<open>Ops.FormatLSLongRow\<close>
  is the argument \<open>format_row\<close>.
\<close>

subsection \<open>Entries of a directory\<close>

definition dir_capabilities :: "string list" where
  "dir_capabilities = [''describe'', ''list'', ''search'']"

definition file_capabilities :: "string list" where
  "file_capabilities = [''describe'', ''read'']"

definition default_capabilities :: "bool \<Rightarrow> string list" where
  "default_capabilities isDir = (if isDir then dir_capabilities else file_capabilities)"

definition bare_meta :: PathMeta where
  "bare_meta = \<lparr>pm_Exists = True, pm_IsDir = False, pm_Kind = [], pm_Access = PathAccessReadOnly, pm_Capabilities = [],
     pm_LineCount = 0, pm_FrontMatterLines = 0, pm_SpeakerRows = 0, pm_UserRelevance = []\<rparr>"

definition child_described :: "'e CommandRuntime \<Rightarrow> (string, PathMeta, 'e) op" where
  "child_described rt child s =
     (case o_DescribePath (rt_Ops rt) of
        None \<Rightarrow> (Inr bare_meta, s)
      | Some describe \<Rightarrow> (case describe child s of (r, s) \<Rightarrow>
          (case r of Inr meta \<Rightarrow> (Inr meta, s)
           | Inl e \<Rightarrow> if is_unsupported e then (Inr bare_meta, s) else (Inl e, s))))"

definition child_kind :: "'e CommandRuntime \<Rightarrow> string \<Rightarrow> PathMeta \<Rightarrow> 'e sys \<Rightarrow> PathMeta \<times> 'e sys" where
  "child_kind rt child meta s =
     (case o_IsDirPath (rt_Ops rt) of
        None \<Rightarrow> (meta, s)
      | Some isDir \<Rightarrow>
         (if o_DescribePath (rt_Ops rt) = None \<or> pm_Capabilities meta = [] then
            (case isDir child s of (r, s) \<Rightarrow>
              (case r of Inl e \<Rightarrow> (meta, s)
               | Inr d \<Rightarrow> (meta\<lparr>pm_IsDir := d, pm_Capabilities := default_capabilities d\<rparr>, s)))
          else (meta, s)))"

definition child_entry :: "'e CommandRuntime \<Rightarrow> (string, MountEntry, 'e) op" where
  "child_entry rt child s =
     (case child_described rt child s of (r, s) \<Rightarrow>
        (case r of
           Inl e \<Rightarrow> (Inl e, s)
         | Inr meta \<Rightarrow> (case child_kind rt child meta s of (meta, s) \<Rightarrow>
             (Inr \<lparr>me_Path = child, me_Name = path_base child,
                  me_Meta = (if pm_Capabilities meta = [] then meta\<lparr>pm_Capabilities := [''describe'']\<rparr> else meta)\<rparr>, s))))"

fun child_entries :: "'e CommandRuntime \<Rightarrow> (string list, MountEntry list, 'e) op" where
  "child_entries rt [] s = (Inr [], s)"
| "child_entries rt (c # cs) s =
     (case child_entry rt c s of (r, s) \<Rightarrow>
        (case r of Inl e \<Rightarrow> (Inl e, s)
         | Inr x \<Rightarrow> (case child_entries rt cs s of (r, s) \<Rightarrow>
             (case r of Inl e \<Rightarrow> (Inl e, s) | Inr xs \<Rightarrow> (Inr (x # xs), s)))))"

definition listed_children :: "'e CommandRuntime \<Rightarrow> (string, MountEntry list, 'e) op" where
  "listed_children rt target s =
     (case call (o_ListChildren (rt_Ops rt)) target s of (r, s) \<Rightarrow>
        (case r of Inl e \<Rightarrow> (Inl e, s) | Inr children \<Rightarrow> child_entries rt children s))"

definition listDirectoryEntriesWithDepth :: "'e CommandRuntime \<Rightarrow> bool \<Rightarrow> int \<Rightarrow> (string, MountEntry list, 'e) op" where
  "listDirectoryEntriesWithDepth rt recursive maxDepth target s =
     (case o_ListEntries (rt_Ops rt) of
        None \<Rightarrow> listed_children rt target s
      | Some list \<Rightarrow>
         (case list \<lparr>le_Dir = target, le_Recursive = recursive, le_MaxDepth = maxDepth\<rparr> s of (r, s) \<Rightarrow>
           (case r of
              Inr entries \<Rightarrow> (Inr entries, s)
            | Inl e \<Rightarrow> if AllowsUnsupportedFallback e then listed_children rt target s else (Inl e, s))))"

subsection \<open>Rows of the long format\<close>

record LSLongRow =
  lr_DisplayPath :: string
  lr_Path :: string
  lr_Meta :: PathMeta

text \<open>The row copies the fields of the metadata.\<close>

type_synonym 'e row_format = "(LSLongRow \<Rightarrow> 'e sys \<Rightarrow> (string \<times> bool) \<times> 'e sys) option"

definition entryToLongRow :: "MountEntry \<Rightarrow> LSLongRow" where
  "entryToLongRow entry =
     (let meta = me_Meta entry;
          access = NormalizePathAccess (if trim_space (pm_Access meta) = [] then PathAccessReadOnly else pm_Access meta);
          caps = (if pm_Capabilities meta = [] then default_capabilities (pm_IsDir meta) else pm_Capabilities meta);
          caps = (if access = PathAccessReadOnly then StripWriteCapabilities caps else caps)
      in \<lparr>lr_DisplayPath = me_Path entry, lr_Path = me_Path entry,
          lr_Meta = meta\<lparr>pm_Access := access, pm_Capabilities := caps\<rparr>\<rparr>)"

definition unknown_meta :: PathMeta where
  "unknown_meta = \<lparr>pm_Exists = False, pm_IsDir = False, pm_Kind = ''unknown'', pm_Access = PathAccessReadOnly,
     pm_Capabilities = [''describe''], pm_LineCount = -1, pm_FrontMatterLines = -1, pm_SpeakerRows = -1,
     pm_UserRelevance = ''unknown''\<rparr>"

definition described_row :: "'e CommandRuntime \<Rightarrow> string \<Rightarrow> 'e sys \<Rightarrow> PathMeta \<times> 'e sys" where
  "described_row rt absPath s =
     (case o_DescribePath (rt_Ops rt) of
        Some describe \<Rightarrow> (case describe absPath s of (r, s) \<Rightarrow>
          (case r of Inl e \<Rightarrow> (unknown_meta, s) | Inr meta \<Rightarrow> (meta, s)))
      | None \<Rightarrow> (case call (o_IsDirPath (rt_Ops rt)) absPath s of (r, s) \<Rightarrow>
          (case r of Inl e \<Rightarrow> (unknown_meta, s)
           | Inr d \<Rightarrow> (unknown_meta\<lparr>pm_Exists := True, pm_IsDir := d, pm_Kind := (if d then ''dir'' else ''file'')\<rparr>, s))))"

definition buildLongRow :: "'e CommandRuntime \<Rightarrow> string \<Rightarrow> string \<Rightarrow> 'e sys \<Rightarrow> LSLongRow \<times> 'e sys" where
  "buildLongRow rt displayPath absPath s =
     (case described_row rt absPath s of (meta, s) \<Rightarrow>
       (let access = NormalizePathAccess (if trim_space (pm_Access meta) = []
              then (if AllowWrite (o_Policy (rt_Ops rt)) then PathAccessReadWrite else PathAccessReadOnly) else pm_Access meta);
            caps = NormalizePathCapabilities
              (if pm_Capabilities meta = [] then default_capabilities (pm_IsDir meta) else pm_Capabilities meta);
            caps = (if access = PathAccessReadOnly then StripWriteCapabilities caps else caps)
        in (\<lparr>lr_DisplayPath = displayPath, lr_Path = absPath, lr_Meta = meta\<lparr>pm_Access := access, pm_Capabilities := caps\<rparr>\<rparr>, s)))"

definition longRowMode :: "LSLongRow \<Rightarrow> string" where
  "longRowMode row = (if pm_IsDir (lr_Meta row) then ''d'' else ''-'')"

definition longRowKind :: "LSLongRow \<Rightarrow> string" where
  "longRowKind row =
     (let kind = trim_space (pm_Kind (lr_Meta row)) in
      if kind \<noteq> [] then kind else if pm_IsDir (lr_Meta row) then ''dir'' else ''file'')"

definition dashIfNegative :: "int \<Rightarrow> string" where
  "dashIfNegative v = (if v < 0 then ''-'' else show_int v)"

definition row_access :: "LSLongRow \<Rightarrow> string" where
  "row_access row = NormalizePathAccess (trim_space (pm_Access (lr_Meta row)))"

definition formatDefaultLongRow :: "LSLongRow \<Rightarrow> string" where
  "formatDefaultLongRow row =
     join '' '' [longRowMode row, row_access row, longRowKind row, dashIfNegative (pm_LineCount (lr_Meta row)), lr_DisplayPath row]"

definition formatMarkdownLongRows :: "LSLongRow list \<Rightarrow> string" where
  "formatMarkdownLongRows rows =
     lines_text ([''| mode | access | kind | lines | path |'', ''|---|---|---|---:|---|''] @
       map (\<lambda>row. ''| '' @ join '' | '' [longRowMode row, row_access row, longRowKind row,
         dashIfNegative (pm_LineCount (lr_Meta row)), escape_bar (lr_DisplayPath row)] @ '' |'') rows)"

definition row_json :: "LSLongRow \<Rightarrow> json" where
  "row_json row = JObj ([(''mode'', JStr (longRowMode row)), (''access'', JStr (row_access row)), (''kind'', JStr (longRowKind row)),
       (''lines'', JInt (pm_LineCount (lr_Meta row)))] @ omit_empty ''display_path'' (lr_DisplayPath row) @
     [(''path'', JStr (lr_Path row)),
      (''capabilities'', JList (map JStr (NormalizePathCapabilities (pm_Capabilities (lr_Meta row)))))])"

definition formatJSONLongRows :: "LSLongRow list \<Rightarrow> string" where
  "formatJSONLongRows rows =
     json_text (JObj [(''columns'', JList (map JStr [''mode'', ''access'', ''kind'', ''lines'', ''path''])),
       (''entries'', JList (map row_json rows))])"

fun format_text_rows :: "'e row_format \<Rightarrow> LSLongRow list \<Rightarrow> 'e sys \<Rightarrow> string list \<times> 'e sys" where
  "format_text_rows format_row [] s = ([], s)"
| "format_text_rows format_row (row # rows) s =
     (case (case format_row of
         None \<Rightarrow> (formatDefaultLongRow row, s)
       | Some f \<Rightarrow> (case f row s of ((text, handled), s) \<Rightarrow>
           (if handled then trim_right_newlines text else formatDefaultLongRow row, s))) of (line, s) \<Rightarrow>
       (case format_text_rows format_row rows s of (rest, s) \<Rightarrow> (line # rest, s)))"

datatype lsLongFormat = lsLongFormatText | lsLongFormatMarkdown | lsLongFormatJSON

definition formatLongRows :: "'e row_format \<Rightarrow> LSLongRow list \<Rightarrow> lsLongFormat \<Rightarrow> 'e sys \<Rightarrow> string \<times> 'e sys" where
  "formatLongRows format_row rows style s =
     (case style of
        lsLongFormatMarkdown \<Rightarrow> (formatMarkdownLongRows rows, s)
      | lsLongFormatJSON \<Rightarrow> (formatJSONLongRows rows, s)
      | lsLongFormatText \<Rightarrow> (case format_text_rows format_row rows s of (out, s) \<Rightarrow> (lines_text out, s)))"

definition parentDir :: "string \<Rightarrow> string" where
  "parentDir pathValue =
     (if pathValue = [slash] \<or> slash \<notin> set pathValue then [slash]
      else let front = rev (tl (dropWhile (\<lambda>c. c \<noteq> slash) (rev pathValue))) in if front = [] then [slash] else front)"

subsection \<open>ls\<close>

record lsFlags =
  lf_includeDots :: bool
  lf_recursive :: bool
  lf_longFormat :: bool
  lf_style :: lsLongFormat

definition parseLSFormat :: "string \<Rightarrow> lsLongFormat option" where
  "parseLSFormat raw =
     (let t = trim_space raw in
      if t = ''text'' then Some lsLongFormatText
      else if t = ''md'' then Some lsLongFormatMarkdown
      else if t = ''json'' then Some lsLongFormatJSON
      else None)"

fun ls_letters :: "string \<Rightarrow> lsFlags \<Rightarrow> string + lsFlags" where
  "ls_letters [] flags = Inr flags"
| "ls_letters (c # cs) flags =
     (if c = CHR ''a'' then ls_letters cs (flags\<lparr>lf_includeDots := True\<rparr>)
      else if c = CHR ''R'' then ls_letters cs (flags\<lparr>lf_recursive := True\<rparr>)
      else if c = CHR ''l'' then ls_letters cs (flags\<lparr>lf_longFormat := True\<rparr>)
      else Inl (''ls: unsupported flag -'' @ show_byte c))"

fun ls_args :: "'e CommandRuntime \<Rightarrow> string list \<Rightarrow> lsFlags \<Rightarrow> string list \<Rightarrow> 'e sys \<Rightarrow>
    (string + lsFlags \<times> string list) \<times> 'e sys" where
  "ls_args rt [] flags targets s = (Inr (flags, targets), s)"
| "ls_args rt (arg # args) flags targets s =
     (if arg = ''--fmt'' then
        (case args of [] \<Rightarrow> (Inl ''ls: --fmt requires one value: text|md|json'', s)
         | v # args \<Rightarrow>
            (case parseLSFormat v of
               None \<Rightarrow> (Inl (''ls: unsupported --fmt value '' @ go_quote v), s)
             | Some style \<Rightarrow> ls_args rt args (flags\<lparr>lf_style := style\<rparr>) targets s))
      else if has_prefix arg ''--fmt='' then
        (case parseLSFormat (trim_prefix arg ''--fmt='') of
           None \<Rightarrow> (Inl (''ls: unsupported --fmt value '' @ go_quote (trim_prefix arg ''--fmt='')), s)
         | Some style \<Rightarrow> ls_args rt args (flags\<lparr>lf_style := style\<rparr>) targets s)
      else if has_prefix arg ''--'' then (Inl (''ls: unsupported flag '' @ arg), s)
      else if has_prefix arg ''-'' \<and> arg \<noteq> ''-'' then
        (case ls_letters (tl arg) flags of
           Inl m \<Rightarrow> (Inl m, s)
         | Inr flags \<Rightarrow> ls_args rt args flags targets s)
      else (case require_path rt arg s of (r, s) \<Rightarrow>
        (case r of Inl e \<Rightarrow> (Inl (named ''ls'' e), s) | Inr t \<Rightarrow> ls_args rt args flags (targets @ [t]) s)))"

text \<open>The rows of \<open>.\<close> and \<open>..\<close>.\<close>

definition dot_rows :: "'e CommandRuntime \<Rightarrow> string \<Rightarrow> 'e sys \<Rightarrow> LSLongRow list \<times> 'e sys" where
  "dot_rows rt target s =
     (let root = o_RootDir (rt_Ops rt); parent = (if target \<noteq> root then parentDir target else root) in
      case buildLongRow rt ''.'' target s of (a, s) \<Rightarrow> (case buildLongRow rt ''..'' parent s of (b, s) \<Rightarrow> ([a, b], s)))"

definition renderLSOutput :: "'e CommandRuntime \<Rightarrow> 'e row_format \<Rightarrow> lsFlags \<Rightarrow> string \<Rightarrow> MountEntry list \<Rightarrow> 'e sys \<Rightarrow> string \<times> 'e sys" where
  "renderLSOutput rt format_row flags target entries s =
     (if \<not> lf_longFormat flags
      then (lines_text ((if lf_includeDots flags then [''.'', ''..''] else []) @ map me_Path entries), s)
      else (case (if lf_includeDots flags then dot_rows rt target s else ([], s)) of (dots, s) \<Rightarrow>
        formatLongRows format_row (dots @ map entryToLongRow entries) (lf_style flags) s))"

text \<open>The breadth-first walk; \<^term>\<open>None\<close>: out of fuel.\<close>

fun ls_walk :: "nat \<Rightarrow> 'e CommandRuntime \<Rightarrow> 'e row_format \<Rightarrow> lsFlags \<Rightarrow> string list \<Rightarrow> string list \<Rightarrow> string list \<Rightarrow> 'e sys \<Rightarrow>
    (reply \<times> 'e sys) option" where
  "ls_walk fuel rt format_row flags visited [] out s = Some ((lines_text out, 0), s)"
| "ls_walk fuel rt format_row flags visited (dir # queue) out s =
     (if dir \<in> set visited then ls_walk fuel rt format_row flags visited queue out s
      else case fuel of
        0 \<Rightarrow> None
      | Suc fuel \<Rightarrow>
         (case listDirectoryEntriesWithDepth rt False 0 dir s of (r, s) \<Rightarrow>
           (case r of
              Inl e \<Rightarrow> Some ((named ''ls'' e, ExitCodeGeneral), s)
            | Inr children \<Rightarrow>
               (case renderLSOutput rt format_row flags dir children s of (body, s) \<Rightarrow>
                 (let queue = queue @ map me_Path (filter (\<lambda>e. pm_IsDir (me_Meta e)) children) in
                  ls_walk fuel rt format_row flags (dir # visited) queue
                    (out @ [dir @ '':''] @ (if trim_space body \<noteq> [] then split_on newline body else []) @
                     (if queue \<noteq> [] then [[]] else [])) s)))))"

definition runLSTarget :: "nat \<Rightarrow> 'e CommandRuntime \<Rightarrow> 'e row_format \<Rightarrow> lsFlags \<Rightarrow> string \<Rightarrow> 'e sys \<Rightarrow> (reply \<times> 'e sys) option" where
  "runLSTarget fuel rt format_row flags target s =
     (case call (o_IsDirPath (rt_Ops rt)) target s of (r, s) \<Rightarrow>
        (case r of
           Inl e \<Rightarrow> Some ((named ''ls'' e, ExitCodeGeneral), s)
         | Inr isDir \<Rightarrow>
            (if \<not> isDir then
               (if lf_longFormat flags then
                  (case buildLongRow rt target target s of (row, s) \<Rightarrow>
                    (case formatLongRows format_row [row] (lf_style flags) s of (out, s) \<Rightarrow> Some ((out, 0), s)))
                else Some ((target, 0), s))
             else if \<not> lf_recursive flags then
               (case listDirectoryEntriesWithDepth rt False 0 target s of (r, s) \<Rightarrow>
                 (case r of
                    Inl e \<Rightarrow> Some ((named ''ls'' e, ExitCodeGeneral), s)
                  | Inr children \<Rightarrow> (case renderLSOutput rt format_row flags target children s of (out, s) \<Rightarrow> Some ((out, 0), s))))
             else ls_walk fuel rt format_row flags [] [target] [] s)))"

fun ls_sections :: "nat \<Rightarrow> 'e CommandRuntime \<Rightarrow> 'e row_format \<Rightarrow> lsFlags \<Rightarrow> bool \<Rightarrow> string list \<Rightarrow> string list \<Rightarrow> 'e sys \<Rightarrow>
    ((reply + string list) \<times> 'e sys) option" where
  "ls_sections fuel rt format_row flags named_sections [] sections s = Some (Inr sections, s)"
| "ls_sections fuel rt format_row flags named_sections (target # targets) sections s =
     (case runLSTarget fuel rt format_row flags target s of
        None \<Rightarrow> None
      | Some ((out, code), s) \<Rightarrow>
         (if code \<noteq> 0 then Some (Inl (out, code), s)
          else ls_sections fuel rt format_row flags named_sections targets
                 (sections @ [if named_sections then target @ '':'' @ [newline] @ out else out]) s))"

definition ls_footer :: "string \<Rightarrow> string" where
  "ls_footer out =
     (let out = trim_right_newlines out in
      (if out = [] then [] else out @ [newline]) @ ''# columns: mode access kind lines path'')"

definition runLS :: "nat \<Rightarrow> 'e row_format \<Rightarrow> 'e CommandRuntime \<Rightarrow> string list \<Rightarrow> 'e sys \<Rightarrow> (reply \<times> 'e sys) option" where
  "runLS fuel format_row rt args s =
     (case ls_args rt args \<lparr>lf_includeDots = False, lf_recursive = False, lf_longFormat = False, lf_style = lsLongFormatText\<rparr>
         [] s of (r, s) \<Rightarrow>
        (case r of
           Inl m \<Rightarrow> Some ((m, ExitCodeUsage), s)
         | Inr (flags, targets) \<Rightarrow>
            (let targets = (if targets = [] then [currentWorkingDir (rt_Ops rt) s] else targets) in
             if lf_style flags \<noteq> lsLongFormatText \<and> \<not> lf_longFormat flags
             then Some ((''ls: --fmt is only supported with -l'', ExitCodeUsage), s)
             else if lf_style flags \<noteq> lsLongFormatText \<and> lf_recursive flags
             then Some ((''ls: --fmt md|json does not support -R'', ExitCodeUsage), s)
             else if lf_style flags \<noteq> lsLongFormatText \<and> 1 < length targets
             then Some ((''ls: --fmt md|json supports one target only'', ExitCodeUsage), s)
             else case ls_sections fuel rt format_row flags (1 < length targets \<and> \<not> lf_recursive flags) targets [] s of
               None \<Rightarrow> None
             | Some (Inl out, s) \<Rightarrow> Some (out, s)
             | Some (Inr sections, s) \<Rightarrow>
                (let out = join (if 1 < length targets then [newline, newline] else [newline]) sections in
                 Some ((if lf_longFormat flags \<and> lf_style flags = lsLongFormatText then ls_footer out else out, 0), s)))))"

subsection \<open>Arguments of tree\<close>

datatype treeFormat = treeFormatOutline | treeFormatASCII | treeFormatJSON

record treeOptions =
  to_includeHidden :: bool
  to_maxDepth :: int
  to_targets :: "string list"
  to_format :: treeFormat

definition parseTreeFormat :: "string \<Rightarrow> treeFormat option" where
  "parseTreeFormat raw =
     (let t = trim_space raw in
      if t = ''outline'' \<or> t = [] then Some treeFormatOutline
      else if t = ''ascii'' then Some treeFormatASCII
      else if t = ''json'' then Some treeFormatJSON
      else None)"

fun tree_args :: "(string, string, 'e) op \<Rightarrow> string list \<Rightarrow> treeOptions \<Rightarrow> 'e sys \<Rightarrow> (string + treeOptions) \<times> 'e sys" where
  "tree_args require [] opts s = (Inr opts, s)"
| "tree_args require (arg # args) opts s =
     (if arg = ''-a'' then tree_args require args (opts\<lparr>to_includeHidden := True\<rparr>) s
      else if arg = ''-L'' then
        (case args of [] \<Rightarrow> (Inl ''tree: -L requires a non-negative depth'', s)
         | v # args \<Rightarrow>
            (case parseNonNegativeInt v of
               Inl e \<Rightarrow> (Inl (''tree: invalid depth '' @ go_quote v), s)
             | Inr n \<Rightarrow> tree_args require args (opts\<lparr>to_maxDepth := n\<rparr>) s))
      else if has_prefix arg ''-L='' then
        (let v = trim_space (trim_prefix arg ''-L='') in
         case parseNonNegativeInt v of
           Inl e \<Rightarrow> (Inl (''tree: invalid depth '' @ go_quote v), s)
         | Inr n \<Rightarrow> tree_args require args (opts\<lparr>to_maxDepth := n\<rparr>) s)
      else if arg = ''--fmt'' then
        (case args of [] \<Rightarrow> (Inl ''tree: --fmt requires one value: outline|ascii|json'', s)
         | v # args \<Rightarrow>
            (case parseTreeFormat v of
               None \<Rightarrow> (Inl (''tree: unsupported --fmt value '' @ go_quote v), s)
             | Some f \<Rightarrow> tree_args require args (opts\<lparr>to_format := f\<rparr>) s))
      else if has_prefix arg ''--fmt='' then
        (case parseTreeFormat (trim_prefix arg ''--fmt='') of
           None \<Rightarrow> (Inl (''tree: unsupported --fmt value '' @ go_quote (trim_prefix arg ''--fmt='')), s)
         | Some f \<Rightarrow> tree_args require args (opts\<lparr>to_format := f\<rparr>) s)
      else if has_prefix arg ''-'' then (Inl (''tree: unsupported flag '' @ arg), s)
      else (case require arg s of (r, s) \<Rightarrow>
        (case r of Inl e \<Rightarrow> (Inl (named ''tree'' e), s)
         | Inr t \<Rightarrow> tree_args require args (opts\<lparr>to_targets := to_targets opts @ [t]\<rparr>) s)))"

definition parseTreeArgs :: "string list \<Rightarrow> (string, string, 'e) op \<Rightarrow> string \<Rightarrow> 'e sys \<Rightarrow> (string + treeOptions) \<times> 'e sys" where
  "parseTreeArgs args require root s =
     (case tree_args require args \<lparr>to_includeHidden = False, to_maxDepth = -1, to_targets = [], to_format = treeFormatOutline\<rparr> s of
        (r, s) \<Rightarrow>
        (case r of Inl m \<Rightarrow> (Inl m, s)
         | Inr opts \<Rightarrow> (Inr (if to_targets opts = [] then opts\<lparr>to_targets := [root]\<rparr> else opts), s)))"

subsection \<open>The walk of tree\<close>

record treeEntry =
  te_Path :: string
  te_Depth :: nat
  te_Kind :: string

definition appendTreeKindSuffix :: "string \<Rightarrow> string \<Rightarrow> string" where
  "appendTreeKindSuffix name kind = (if kind = ''dir'' \<and> \<not> has_suffix name [slash] then name @ [slash] else name)"

text \<open>The outline and the ASCII tree are walked alike: \<open>emit\<close> makes an entry of a child from the prefix, whether it
  is the last one and its depth, \<open>next\<close> the prefix below it.\<close>

record ('p, 'a) tree_style =
  ts_emit :: "'p \<Rightarrow> bool \<Rightarrow> nat \<Rightarrow> MountEntry \<Rightarrow> 'a"
  ts_next :: "'p \<Rightarrow> bool \<Rightarrow> 'p"

definition outline_style :: "(unit, treeEntry) tree_style" where
  "outline_style = \<lparr>ts_emit = (\<lambda>_ _ depth child. \<lparr>te_Path = me_Path child, te_Depth = depth,
     te_Kind = (if pm_IsDir (me_Meta child) then ''dir'' else ''file'')\<rparr>), ts_next = (\<lambda>_ _. ())\<rparr>"

definition ascii_style :: "(string, string) tree_style" where
  "ascii_style =
     \<lparr>ts_emit = (\<lambda>prefix islast _ child. prefix @ (if islast then CHR 0x60 # ''-- '' else ''|-- '') @
        (if pm_IsDir (me_Meta child) then appendTreeKindSuffix (path_base (me_Path child)) ''dir'' else path_base (me_Path child))),
      ts_next = (\<lambda>prefix islast. prefix @ (if islast then ''    '' else ''|   ''))\<rparr>"

definition depth_limit :: "int \<Rightarrow> nat \<Rightarrow> int" where
  "depth_limit maxDepth depth = (if 0 \<le> maxDepth then max 0 (maxDepth - int depth) else 0)"

definition visible :: "bool \<Rightarrow> MountEntry \<Rightarrow> bool" where
  "visible includeHidden child \<longleftrightarrow> includeHidden \<or> \<not> has_prefix (path_base (me_Path child)) ''.''"

type_synonym 'a walked = "string list \<times> 'a list"

fun tree_dir :: "nat \<Rightarrow> 'e CommandRuntime \<Rightarrow> ('p, 'a) tree_style \<Rightarrow> treeOptions \<Rightarrow> 'p \<Rightarrow> nat \<Rightarrow> string \<Rightarrow> 'a walked \<Rightarrow> 'e sys \<Rightarrow>
    ((go_error + 'a walked) \<times> 'e sys) option"
  and tree_children :: "nat \<Rightarrow> 'e CommandRuntime \<Rightarrow> ('p, 'a) tree_style \<Rightarrow> treeOptions \<Rightarrow> 'p \<Rightarrow> nat \<Rightarrow> MountEntry list \<Rightarrow> 'a walked \<Rightarrow>
    'e sys \<Rightarrow> ((go_error + 'a walked) \<times> 'e sys) option" where
  "tree_dir 0 rt style opts pre depth dir acc s = None"
| "tree_dir (Suc fuel) rt style opts pre depth dir acc s =
     (if 0 \<le> to_maxDepth opts \<and> to_maxDepth opts \<le> int depth then Some (Inr acc, s)
      else (case listDirectoryEntriesWithDepth rt False (depth_limit (to_maxDepth opts) depth) dir s of (r, s) \<Rightarrow>
        (case r of
           Inl e \<Rightarrow> Some (Inl e, s)
         | Inr children \<Rightarrow>
            tree_children fuel rt style opts pre depth (filter (visible (to_includeHidden opts)) children) acc s)))"
| "tree_children fuel rt style opts pre depth [] acc s = Some (Inr acc, s)"
| "tree_children fuel rt style opts pre depth (child # rest) (visited, entries) s =
     (let islast = (rest = []); entries = entries @ [ts_emit style pre islast (Suc depth) child] in
      if \<not> pm_IsDir (me_Meta child) \<or> me_Path child \<in> set visited
      then tree_children fuel rt style opts pre depth rest (visited, entries) s
      else (case tree_dir fuel rt style opts (ts_next style pre islast) (Suc depth) (me_Path child)
                (me_Path child # visited, entries) s of
              None \<Rightarrow> None
            | Some (Inl e, s) \<Rightarrow> Some (Inl e, s)
            | Some (Inr acc, s) \<Rightarrow> tree_children fuel rt style opts pre depth rest acc s))"

subsection \<open>tree\<close>

definition collectTreeEntries :: "nat \<Rightarrow> 'e CommandRuntime \<Rightarrow> treeOptions \<Rightarrow> string \<Rightarrow> 'e sys \<Rightarrow>
    ((go_error + treeEntry list) \<times> 'e sys) option" where
  "collectTreeEntries fuel rt opts target s =
     map_option (\<lambda>(r, s). (map_sum id snd r, s))
       (tree_dir fuel rt outline_style opts () 0 target ([target], [\<lparr>te_Path = target, te_Depth = 0, te_Kind = ''dir''\<rparr>]) s)"

definition tree_indent :: "nat \<Rightarrow> string" where
  "tree_indent depth = concat (replicate depth ''  '')"

fun renderTreeOutline :: "treeEntry list \<Rightarrow> string" where
  "renderTreeOutline [] = []"
| "renderTreeOutline (e # es) =
     lines_text (appendTreeKindSuffix (te_Path e) (te_Kind e) #
       map (\<lambda>e. tree_indent (te_Depth e) @ appendTreeKindSuffix (path_base (te_Path e)) (te_Kind e)) es)"

definition tree_failed :: "go_error \<Rightarrow> reply" where
  "tree_failed e = (named ''tree'' e, ExitCodeGeneral)"

definition renderTreeTarget :: "nat \<Rightarrow> 'e CommandRuntime \<Rightarrow> treeOptions \<Rightarrow> string \<Rightarrow> 'e sys \<Rightarrow> (reply \<times> 'e sys) option" where
  "renderTreeTarget fuel rt opts target s =
     (case call (o_IsDirPath (rt_Ops rt)) target s of (r, s) \<Rightarrow>
        (case r of
           Inl e \<Rightarrow> Some (tree_failed e, s)
         | Inr isDir \<Rightarrow>
            (if \<not> isDir then Some ((target, 0), s)
             else if to_format opts = treeFormatASCII then
               (case tree_dir fuel rt ascii_style opts [] 0 target ([target], [target]) s of
                  None \<Rightarrow> None
                | Some (Inl e, s) \<Rightarrow> Some (tree_failed e, s)
                | Some (Inr (_, lines), s) \<Rightarrow> Some ((lines_text lines, 0), s))
             else
               (case collectTreeEntries fuel rt opts target s of
                  None \<Rightarrow> None
                | Some (Inl e, s) \<Rightarrow> Some (tree_failed e, s)
                | Some (Inr entries, s) \<Rightarrow> Some ((renderTreeOutline entries, 0), s)))))"

definition entry_json :: "treeEntry \<Rightarrow> json" where
  "entry_json e = JObj [(''path'', JStr (te_Path e)), (''depth'', JInt (int (te_Depth e))), (''kind'', JStr (te_Kind e))]"

definition target_json :: "string \<Rightarrow> treeEntry list \<Rightarrow> json" where
  "target_json root entries = JObj [(''root'', JStr root), (''entries'', JList (map entry_json entries))]"

definition buildTreeJSONTarget :: "nat \<Rightarrow> 'e CommandRuntime \<Rightarrow> treeOptions \<Rightarrow> string \<Rightarrow> 'e sys \<Rightarrow> ((reply + json) \<times> 'e sys) option" where
  "buildTreeJSONTarget fuel rt opts target s =
     (case call (o_IsDirPath (rt_Ops rt)) target s of (r, s) \<Rightarrow>
        (case r of
           Inl e \<Rightarrow> Some (Inl (tree_failed e), s)
         | Inr isDir \<Rightarrow>
            (if \<not> isDir
             then Some (Inr (target_json target [\<lparr>te_Path = target, te_Depth = 0, te_Kind = ''file''\<rparr>]), s)
             else (case collectTreeEntries fuel rt opts target s of
                None \<Rightarrow> None
              | Some (Inl e, s) \<Rightarrow> Some (Inl (tree_failed e), s)
              | Some (Inr entries, s) \<Rightarrow> Some (Inr (target_json target entries), s)))))"

fun each_target :: "(string \<Rightarrow> 'e sys \<Rightarrow> ((reply + 'a) \<times> 'e sys) option) \<Rightarrow> string list \<Rightarrow> 'e sys \<Rightarrow>
    ((reply + 'a list) \<times> 'e sys) option" where
  "each_target f [] s = Some (Inr [], s)"
| "each_target f (t # ts) s =
     (case f t s of
        None \<Rightarrow> None
      | Some (Inl out, s) \<Rightarrow> Some (Inl out, s)
      | Some (Inr x, s) \<Rightarrow> (case each_target f ts s of
          None \<Rightarrow> None
        | Some (Inl out, s) \<Rightarrow> Some (Inl out, s)
        | Some (Inr xs, s) \<Rightarrow> Some (Inr (x # xs), s)))"

definition rendered_section :: "(reply \<times> 'e sys) option \<Rightarrow> ((reply + string) \<times> 'e sys) option" where
  "rendered_section r = map_option (\<lambda>((out, code), s). (if code \<noteq> 0 then Inl (out, code) else Inr out, s)) r"

definition runTree :: "nat \<Rightarrow> 'e CommandRuntime \<Rightarrow> string list \<Rightarrow> 'e sys \<Rightarrow> (reply \<times> 'e sys) option" where
  "runTree fuel rt args s =
     (case parseTreeArgs args (require_path rt) (currentWorkingDir (rt_Ops rt) s) s of (r, s) \<Rightarrow>
        (case r of
           Inl m \<Rightarrow> Some ((m, ExitCodeUsage), s)
         | Inr opts \<Rightarrow>
            (if to_format opts = treeFormatJSON then
               (case each_target (buildTreeJSONTarget fuel rt opts) (to_targets opts) s of
                  None \<Rightarrow> None
                | Some (Inl out, s) \<Rightarrow> Some (out, s)
                | Some (Inr targets, s) \<Rightarrow> Some ((json_indented (JObj [(''targets'', JList targets)]), 0), s))
             else
               (case each_target (\<lambda>t s. rendered_section (renderTreeTarget fuel rt opts t s)) (to_targets opts) s of
                  None \<Rightarrow> None
                | Some (Inl out, s) \<Rightarrow> Some (out, s)
                | Some (Inr sections, s) \<Rightarrow> Some ((join [newline, newline] sections, 0), s)))))"

end
