(* ===== verification/Builtin_Search.thy ===== *)
theory Builtin_Search
  imports Builtin_Base Mount_Search
begin

section \<open>The builtins that search (\<open>pkg/builtin/search_scan.go\<close>, \<open>op_pattern_scan.go\<close>, \<open>op_rg.go\<close>)\<close>

text \<open>
  grep and rg scan stdin, ask \<open>SearchContent\<close>, or read the files \<open>ResolveSearchPaths\<close> names themselves. The case
  tables and the regexp engine of Go are the parameter \<open>lib\<close>, as in the search over mounts.
\<close>

subsection \<open>Matchers\<close>

datatype searchCaseMode = searchCaseSensitive | searchCaseIgnore | searchCaseSmart

definition effectiveSearchCaseMode :: "text_lib \<Rightarrow> string \<Rightarrow> searchCaseMode \<Rightarrow> searchCaseMode" where
  "effectiveSearchCaseMode lib pattern mode =
     (if mode \<noteq> searchCaseSmart then mode
      else if tl_has_upper lib pattern then searchCaseSensitive else searchCaseIgnore)"

definition buildSearchMatcher :: "text_lib \<Rightarrow> string \<Rightarrow> bool \<Rightarrow> searchCaseMode \<Rightarrow> go_error + (string \<Rightarrow> bool)" where
  "buildSearchMatcher lib pattern regex mode =
     (let caseMode = effectiveSearchCaseMode lib pattern mode in
      if regex then tl_compile lib (if caseMode = searchCaseIgnore then ''(?i)'' @ pattern else pattern)
      else if caseMode = searchCaseIgnore then Inr (\<lambda>line. contains (tl_lower lib line) (tl_lower lib pattern))
      else Inr (\<lambda>line. contains line pattern))"

definition searchHasMatch :: "string \<Rightarrow> (string \<Rightarrow> bool) \<Rightarrow> bool" where
  "searchHasMatch raw mat = list_ex mat (splitRawLines raw)"

subsection \<open>Records\<close>

record searchRecord =
  rec_Path :: string
  rec_Name :: string
  rec_Stdin :: bool
  rec_Line :: int
  rec_Kind :: string
  rec_Text :: string

definition search_json :: "searchRecord \<Rightarrow> json" where
  "search_json r = JObj (omit_empty ''path'' (rec_Path r) @ omit_empty ''name'' (rec_Name r) @
     omit_false ''stdin'' (rec_Stdin r) @ [(''line'', JInt (rec_Line r)), (''kind'', JStr (rec_Kind r))] @
     omit_empty ''text'' (rec_Text r))"

definition renderSearchJSONL :: "searchRecord list \<Rightarrow> string" where
  "renderSearchJSONL rs = lines_text (map (\<lambda>r. json_text (search_json r)) rs)"

definition file_record :: "bool \<Rightarrow> bool \<Rightarrow> string \<Rightarrow> searchRecord" where
  "file_record stdin name p = \<lparr>rec_Path = p, rec_Name = (if name then path_base p else []), rec_Stdin = stdin, rec_Line = 0,
     rec_Kind = ''file'', rec_Text = []\<rparr>"

definition renderSearchFileJSONL :: "string list \<Rightarrow> string" where
  "renderSearchFileJSONL paths = renderSearchJSONL (map (file_record False True) paths)"

definition searchRecordsWithContext :: "string \<Rightarrow> (string \<Rightarrow> bool) \<Rightarrow> int \<Rightarrow> int \<Rightarrow> string \<Rightarrow> bool \<Rightarrow> searchRecord list" where
  "searchRecordsWithContext raw mat before after filePath stdin =
     (let lines = splitRawLines raw in
      map (\<lambda>i. \<lparr>rec_Path = filePath, rec_Name = [], rec_Stdin = stdin, rec_Line = int i + 1,
                rec_Kind = (if mat (lines ! i) then ''match'' else ''context''), rec_Text = lines ! i\<rparr>)
        (filter (included mat before after lines) [0..<length lines]))"

definition record_sep :: "searchRecord \<Rightarrow> string" where
  "record_sep r = (if rec_Kind r = ''match'' then '':'' else ''-'')"

definition searchTextWithContext :: "string \<Rightarrow> (string \<Rightarrow> bool) \<Rightarrow> int \<Rightarrow> int \<Rightarrow> string \<Rightarrow> string list" where
  "searchTextWithContext raw mat before after filePath =
     map (\<lambda>r. if rec_Path r \<noteq> [] then rec_Path r @ record_sep r @ show_int (rec_Line r) @ '':'' @ rec_Text r
              else show_int (rec_Line r) @ record_sep r @ rec_Text r)
       (searchRecordsWithContext raw mat before after filePath False)"

definition grepExitCode :: "bool \<Rightarrow> int" where
  "grepExitCode found = (if found then 0 else ExitCodeGeneral)"

text \<open>An empty text result is exit code 1 with no output.\<close>

definition text_reply :: "string list \<Rightarrow> reply" where
  "text_reply out = (if out = [] then ([], ExitCodeGeneral) else (lines_text out, 0))"

subsection \<open>The search of the runtime\<close>

definition contractRecordsToSearchRecords :: "bool \<Rightarrow> SearchRecord list \<Rightarrow> searchRecord list" where
  "contractRecordsToSearchRecords includeFileNames rs =
     map (\<lambda>r. \<lparr>rec_Path = sc_Path r,
               rec_Name = (if includeFileNames \<and> sc_Kind r = ''file'' \<and> trim_space (sc_Path r) \<noteq> [] then path_base (sc_Path r) else []),
               rec_Stdin = False, rec_Line = sc_Line r, rec_Kind = sc_Kind r, rec_Text = sc_Text r\<rparr>) rs"

fun searchCaseModeToContract :: "searchCaseMode \<Rightarrow> SearchCaseMode" where
  "searchCaseModeToContract searchCaseSensitive = SearchCaseSensitive"
| "searchCaseModeToContract searchCaseIgnore = SearchCaseIgnore"
| "searchCaseModeToContract searchCaseSmart = SearchCaseSmart"

definition buildContractSearchRequest :: "string \<Rightarrow> bool \<Rightarrow> searchCaseMode \<Rightarrow> string list \<Rightarrow> string list \<Rightarrow> bool \<Rightarrow>
    int \<Rightarrow> int \<Rightarrow> int \<Rightarrow> SearchRequest" where
  "buildContractSearchRequest pattern regex mode globs targets listFiles before after maxResults =
     (if targets = [] then \<lparr>sr_Pattern = [], sr_Regex = False, sr_CaseMode = SearchCaseUnset, sr_Targets = [], sr_Globs = [],
        sr_Before = 0, sr_After = 0, sr_MaxResults = 0, sr_ListFiles = False\<rparr>
      else \<lparr>sr_Pattern = pattern, sr_Regex = regex, sr_CaseMode = searchCaseModeToContract mode, sr_Targets = targets,
        sr_Globs = globs, sr_Before = before, sr_After = after, sr_MaxResults = maxResults, sr_ListFiles = listFiles\<rparr>)"

text \<open>\<open>None\<close>: the search was not used.\<close>

definition tryRuntimeSearch :: "'e CommandRuntime \<Rightarrow> (SearchRequest, SearchRecord list option, 'e) op" where
  "tryRuntimeSearch rt req s =
     (if sr_Targets req = [] then (Inr None, s)
      else case o_SearchContent (rt_Ops rt) of
        None \<Rightarrow> (Inr None, s)
      | Some search \<Rightarrow> (case search req s of (r, s) \<Rightarrow>
          (case r of
             Inl e \<Rightarrow> if AllowsUnsupportedFallback e then (Inr None, s) else (Inl e, s)
           | Inr found \<Rightarrow> (Inr (Some found), s))))"

definition uniqueFilePaths :: "searchRecord list \<Rightarrow> string list" where
  "uniqueFilePaths rs = dedupe_first (map rec_Path (filter (\<lambda>r. rec_Path r \<noteq> [] \<and> rec_Kind r = ''file'') rs))"

definition recordLines :: "searchRecord list \<Rightarrow> string list" where
  "recordLines rs =
     concat (map (\<lambda>r. if rec_Path r \<noteq> [] then [rec_Path r @ record_sep r @ show_int (rec_Line r) @ '':'' @ rec_Text r]
                     else if rec_Stdin r then [show_int (rec_Line r) @ record_sep r @ rec_Text r] else []) rs)"

definition renderSearchRecords :: "SearchRecord list \<Rightarrow> bool \<Rightarrow> bool \<Rightarrow> bool \<Rightarrow> reply" where
  "renderSearchRecords found listFiles jsonl includeFileNames =
     (let scr = contractRecordsToSearchRecords includeFileNames found in
      if listFiles then
        (if jsonl then (renderSearchJSONL (filter (\<lambda>r. rec_Kind r = ''file'') scr), grepExitCode (uniqueFilePaths scr \<noteq> []))
         else text_reply (uniqueFilePaths scr))
      else if jsonl then (renderSearchJSONL scr, grepExitCode (scr \<noteq> []))
      else text_reply (recordLines scr))"

subsection \<open>Scanning files one by one\<close>

fun scan_files :: "'e CommandRuntime \<Rightarrow> (string \<Rightarrow> string \<Rightarrow> 'a list) \<Rightarrow> string list \<Rightarrow> 'e sys \<Rightarrow>
    (go_error + 'a list) \<times> 'e sys" where
  "scan_files rt f [] s = (Inr [], s)"
| "scan_files rt f (p # ps) s =
     (case read_raw rt p s of (r, s) \<Rightarrow>
        (case r of Inl e \<Rightarrow> (Inl e, s)
         | Inr raw \<Rightarrow> (case scan_files rt f ps s of (rest, s) \<Rightarrow>
             (case rest of Inl e \<Rightarrow> (Inl e, s) | Inr out \<Rightarrow> (Inr (f p raw @ out), s)))))"

text \<open>What grep and rg print of a text given on stdin.\<close>

definition search_stdin :: "string \<Rightarrow> (string \<Rightarrow> bool) \<Rightarrow> bool \<Rightarrow> bool \<Rightarrow> int \<Rightarrow> int \<Rightarrow> reply" where
  "search_stdin stdin mat listFiles jsonl before after =
     (if listFiles then
        (let found = searchHasMatch stdin mat in
         if jsonl then (renderSearchJSONL (if found then [file_record True False []] else []), grepExitCode found)
         else if found then (''(stdin)'', 0) else ([], ExitCodeGeneral))
      else if jsonl then
        (let recs = searchRecordsWithContext stdin mat before after [] True in
         (renderSearchJSONL recs, grepExitCode (recs \<noteq> [])))
      else text_reply (searchTextWithContext stdin mat before after []))"

text \<open>What they print of the files found; the names of matching files are rendered by \<open>render\<close>.\<close>

definition search_paths :: "string \<Rightarrow> 'e CommandRuntime \<Rightarrow> (string list \<Rightarrow> string) \<Rightarrow> (string \<Rightarrow> bool) \<Rightarrow> bool \<Rightarrow> bool \<Rightarrow> int \<Rightarrow> int \<Rightarrow>
    string list \<Rightarrow> 'e sys \<Rightarrow> reply \<times> 'e sys" where
  "search_paths cmd rt render mat listFiles jsonl before after paths s =
     (if listFiles then
        (case scan_files rt (\<lambda>p raw. if searchHasMatch raw mat then [p] else []) paths s of (r, s) \<Rightarrow>
          (case r of Inl e \<Rightarrow> ((named cmd e, ExitCodeGeneral), s)
           | Inr matched \<Rightarrow> (if jsonl then (render matched, grepExitCode (matched \<noteq> [])) else text_reply matched, s)))
      else if jsonl then
        (case scan_files rt (\<lambda>p raw. searchRecordsWithContext raw mat before after p False) paths s of (r, s) \<Rightarrow>
          (case r of Inl e \<Rightarrow> ((named cmd e, ExitCodeGeneral), s)
           | Inr recs \<Rightarrow> ((renderSearchJSONL recs, grepExitCode (recs \<noteq> [])), s)))
      else
        (case scan_files rt (\<lambda>p raw. searchTextWithContext raw mat before after p) paths s of (r, s) \<Rightarrow>
          (case r of Inl e \<Rightarrow> ((named cmd e, ExitCodeGeneral), s) | Inr out \<Rightarrow> (text_reply out, s))))"

subsection \<open>grep\<close>

text \<open>\<open>-A\<close>, \<open>-B\<close>, \<open>-C\<close>: the number and how many of the following arguments it took.\<close>

definition parseSearchContextArg :: "string \<Rightarrow> string list \<Rightarrow> go_error + int \<times> nat" where
  "parseSearchContextArg arg rest =
     (if length arg < 2 then Inl (ErrText ''invalid context flag'')
      else if length arg = 2 then
        (case rest of
           [] \<Rightarrow> Inl (ErrText (arg @ '' requires non-negative integer''))
         | v # _ \<Rightarrow> (case parseNonNegativeInt v of Inl e \<Rightarrow> Inl e | Inr n \<Rightarrow> Inr (n, 1)))
      else case parseNonNegativeInt (trim_prefix (drop 2 arg) ''='') of Inl e \<Rightarrow> Inl e | Inr n \<Rightarrow> Inr (n, 0))"

record grepArgs =
  ga_pattern :: string
  ga_path :: string
  ga_regex :: bool
  ga_recursive :: bool
  ga_listFiles :: bool
  ga_jsonl :: bool
  ga_before :: int
  ga_after :: int

fun grep_flags :: "string list \<Rightarrow> grepArgs \<Rightarrow> string + grepArgs \<times> string list" where
  "grep_flags [] opts = Inr (opts, [])"
| "grep_flags (arg # args) opts =
     (if \<not> has_prefix arg ''-'' \<or> arg = ''-'' then Inr (opts, arg # args)
      else if arg = ''--fmt'' then
        (case args of [] \<Rightarrow> Inl ''grep: --fmt requires one value: jsonl''
         | v # args \<Rightarrow>
            (if trim_space v \<noteq> ''jsonl'' then Inl (''grep: unsupported --fmt value '' @ go_quote v)
             else grep_flags args (opts\<lparr>ga_jsonl := True\<rparr>)))
      else if has_prefix arg ''--fmt='' then
        (if trim_space (trim_prefix arg ''--fmt='') \<noteq> ''jsonl''
         then Inl (''grep: unsupported --fmt value '' @ go_quote (trim_prefix arg ''--fmt=''))
         else grep_flags args (opts\<lparr>ga_jsonl := True\<rparr>))
      else if arg = ''-E'' then grep_flags args (opts\<lparr>ga_regex := True\<rparr>)
      else if arg = ''-F'' then grep_flags args (opts\<lparr>ga_regex := False\<rparr>)
      else if arg = ''-r'' then grep_flags args (opts\<lparr>ga_recursive := True\<rparr>)
      else if arg = ''-l'' then grep_flags args (opts\<lparr>ga_listFiles := True\<rparr>)
      else if has_prefix arg ''-A'' then
        (case parseSearchContextArg arg args of Inl e \<Rightarrow> Inl (named ''grep'' e)
         | Inr (n, k) \<Rightarrow> grep_flags (drop k args) (opts\<lparr>ga_after := n\<rparr>))
      else if has_prefix arg ''-B'' then
        (case parseSearchContextArg arg args of Inl e \<Rightarrow> Inl (named ''grep'' e)
         | Inr (n, k) \<Rightarrow> grep_flags (drop k args) (opts\<lparr>ga_before := n\<rparr>))
      else if has_prefix arg ''-C'' then
        (case parseSearchContextArg arg args of Inl e \<Rightarrow> Inl (named ''grep'' e)
         | Inr (n, k) \<Rightarrow> grep_flags (drop k args) (opts\<lparr>ga_before := n, ga_after := n\<rparr>))
      else Inl (''grep: unsupported flag '' @ arg))"

definition parseGrepArgs :: "string list \<Rightarrow> (string, string, 'e) op \<Rightarrow> 'e sys \<Rightarrow> (string + grepArgs) \<times> 'e sys" where
  "parseGrepArgs args requireAbsolutePath s =
     (case grep_flags args \<lparr>ga_pattern = [], ga_path = [], ga_regex = False, ga_recursive = False, ga_listFiles = False,
         ga_jsonl = False, ga_before = 0, ga_after = 0\<rparr> of
        Inl m \<Rightarrow> (Inl m, s)
      | Inr (opts, []) \<Rightarrow> (Inl ''grep: missing pattern'', s)
      | Inr (opts, [p]) \<Rightarrow> (Inr (opts\<lparr>ga_pattern := p\<rparr>), s)
      | Inr (opts, p # arg # rest) \<Rightarrow>
          (case requireAbsolutePath arg s of (r, s) \<Rightarrow>
            (case r of
               Inl e \<Rightarrow> (Inl (named ''grep'' e), s)
             | Inr v \<Rightarrow> (case rest of [] \<Rightarrow> (Inr (opts\<lparr>ga_pattern := p, ga_path := v\<rparr>), s)
                          | x # _ \<Rightarrow> (Inl (''grep: unexpected argument: '' @ x), s)))))"

definition shouldUseRuntimeSearch :: "'e CommandRuntime \<Rightarrow> string \<Rightarrow> bool \<Rightarrow> 'e sys \<Rightarrow> bool \<times> 'e sys" where
  "shouldUseRuntimeSearch rt target recursive s =
     (if recursive then (True, s)
      else case o_IsDirPath (rt_Ops rt) of
        None \<Rightarrow> (False, s)
      | Some isDir \<Rightarrow> (case isDir target s of (r, s) \<Rightarrow> (r = Inr False, s)))"

text \<open>The part without the search of the runtime.\<close>

definition grep_scan :: "'e CommandRuntime \<Rightarrow> grepArgs \<Rightarrow> (string \<Rightarrow> bool) \<Rightarrow> 'e sys \<Rightarrow> reply \<times> 'e sys" where
  "grep_scan rt opts mat s =
     (case call (o_ResolveSearchPaths (rt_Ops rt)) (ga_path opts, ga_recursive opts) s of (r, s) \<Rightarrow>
        (case r of
           Inl e \<Rightarrow> ((named ''grep'' e, ExitCodeGeneral), s)
         | Inr paths \<Rightarrow> search_paths ''grep'' rt (\<lambda>ps. renderSearchJSONL (map (file_record False False) ps)) mat
             (ga_listFiles opts) (ga_jsonl opts) (ga_before opts) (ga_after opts) paths s))"

definition runGrep :: "text_lib \<Rightarrow> 'e builtin" where
  "runGrep lib rt args s =
     (case parseGrepArgs args (require_path rt) s of (r, s) \<Rightarrow>
        (case r of
           Inl m \<Rightarrow> ((m, ExitCodeUsage), s)
         | Inr opts \<Rightarrow>
            (case buildSearchMatcher lib (ga_pattern opts) (ga_regex opts) searchCaseSensitive of
               Inl e \<Rightarrow> ((named ''grep'' e, ExitCodeUsage), s)
             | Inr mat \<Rightarrow>
                (if rt_HasStdin rt \<and> ga_path opts = []
                 then (search_stdin (rt_Stdin rt) mat (ga_listFiles opts) (ga_jsonl opts) (ga_before opts) (ga_after opts), s)
                 else if ga_path opts = []
                 then ((''grep: expected stdin input or one file/directory path'', ExitCodeUsage), s)
                 else
                  (case shouldUseRuntimeSearch rt (ga_path opts) (ga_recursive opts) s of (use, s) \<Rightarrow>
                    (if use then
                      (case tryRuntimeSearch rt (buildContractSearchRequest (ga_pattern opts) (ga_regex opts)
                          searchCaseSensitive [] [ga_path opts] (ga_listFiles opts) (ga_before opts) (ga_after opts) 0) s of (t, s) \<Rightarrow>
                        (case t of
                           Inl e \<Rightarrow> ((named ''grep'' e, ExitCodeGeneral), s)
                         | Inr (Some found) \<Rightarrow> (renderSearchRecords found (ga_listFiles opts) (ga_jsonl opts) False, s)
                         | Inr None \<Rightarrow> grep_scan rt opts mat s))
                     else grep_scan rt opts mat s))))))"

subsection \<open>rg\<close>

record rgArgs =
  rga_pattern :: string
  rga_targets :: "string list"
  rga_globs :: "string list"
  rga_caseMode :: searchCaseMode
  rga_fixed :: bool
  rga_listFiles :: bool
  rga_filesOnly :: bool
  rga_jsonl :: bool
  rga_before :: int
  rga_after :: int

fun rg_flags :: "string list \<Rightarrow> rgArgs \<Rightarrow> string + rgArgs \<times> string list" where
  "rg_flags [] opts = Inr (opts, [])"
| "rg_flags (arg # args) opts =
     (if \<not> has_prefix arg ''-'' \<or> arg = ''-'' then Inr (opts, arg # args)
      else if arg = ''--files'' then rg_flags args (opts\<lparr>rga_filesOnly := True\<rparr>)
      else if arg = ''--json'' then rg_flags args (opts\<lparr>rga_jsonl := True\<rparr>)
      else if arg = ''--fmt'' then
        (case args of [] \<Rightarrow> Inl ''rg: --fmt requires one value: jsonl''
         | v # args \<Rightarrow>
            (if trim_space v \<noteq> ''jsonl'' then Inl (''rg: unsupported --fmt value '' @ go_quote v)
             else rg_flags args (opts\<lparr>rga_jsonl := True\<rparr>)))
      else if has_prefix arg ''--fmt='' then
        (if trim_space (trim_prefix arg ''--fmt='') \<noteq> ''jsonl''
         then Inl (''rg: unsupported --fmt value '' @ go_quote (trim_prefix arg ''--fmt=''))
         else rg_flags args (opts\<lparr>rga_jsonl := True\<rparr>))
      else if arg = ''-F'' then rg_flags args (opts\<lparr>rga_fixed := True\<rparr>)
      else if arg = ''-i'' then rg_flags args (opts\<lparr>rga_caseMode := searchCaseIgnore\<rparr>)
      else if arg = ''-S'' then rg_flags args (opts\<lparr>rga_caseMode := searchCaseSmart\<rparr>)
      else if arg = ''-l'' then
        (if rga_filesOnly opts then Inl ''rg: -l is not supported with --files''
         else rg_flags args (opts\<lparr>rga_listFiles := True\<rparr>))
      else if arg = ''-n'' \<or> arg = ''-r'' then rg_flags args opts
      else if has_prefix arg ''-A'' then
        (case parseSearchContextArg arg args of Inl e \<Rightarrow> Inl (named ''rg'' e)
         | Inr (n, k) \<Rightarrow> rg_flags (drop k args) (opts\<lparr>rga_after := n\<rparr>))
      else if has_prefix arg ''-B'' then
        (case parseSearchContextArg arg args of Inl e \<Rightarrow> Inl (named ''rg'' e)
         | Inr (n, k) \<Rightarrow> rg_flags (drop k args) (opts\<lparr>rga_before := n\<rparr>))
      else if has_prefix arg ''-C'' then
        (case parseSearchContextArg arg args of Inl e \<Rightarrow> Inl (named ''rg'' e)
         | Inr (n, k) \<Rightarrow> rg_flags (drop k args) (opts\<lparr>rga_before := n, rga_after := n\<rparr>))
      else if arg = ''-g'' \<or> arg = ''--glob'' then
        (case args of [] \<Rightarrow> Inl (''rg: '' @ arg @ '' requires pattern'')
         | v # args \<Rightarrow> rg_flags args (opts\<lparr>rga_globs := rga_globs opts @ [v]\<rparr>))
      else if has_prefix arg ''--glob='' then rg_flags args (opts\<lparr>rga_globs := rga_globs opts @ [trim_prefix arg ''--glob='']\<rparr>)
      else if has_prefix arg ''-g'' \<and> 2 < length arg
      then rg_flags args (opts\<lparr>rga_globs := rga_globs opts @ [trim_prefix (trim_prefix arg ''-g'') ''='']\<rparr>)
      else Inl (''rg: unsupported flag '' @ arg))"

fun rg_targets :: "(string, string, 'e) op \<Rightarrow> string list \<Rightarrow> string list \<Rightarrow> 'e sys \<Rightarrow> (string + string list) \<times> 'e sys" where
  "rg_targets requireAbsolutePath [] targets s = (Inr targets, s)"
| "rg_targets requireAbsolutePath (arg # args) targets s =
     (case requireAbsolutePath arg s of (r, s) \<Rightarrow>
        (case r of Inl e \<Rightarrow> (Inl (named ''rg'' e), s) | Inr t \<Rightarrow> rg_targets requireAbsolutePath args (targets @ [t]) s))"

fun validateRGGlobs :: "string list \<Rightarrow> string option" where
  "validateRGGlobs [] = None"
| "validateRGGlobs (glob # globs) =
     (if trim_space glob = [] then Some ''rg: glob pattern must not be empty''
      else if has_prefix glob ''!'' then Some ''rg: negated glob patterns are not supported''
      else validateRGGlobs globs)"

definition validated :: "rgArgs \<Rightarrow> string + rgArgs" where
  "validated opts = (case validateRGGlobs (rga_globs opts) of None \<Rightarrow> Inr opts | Some m \<Rightarrow> Inl m)"

definition parseRGArgs :: "string list \<Rightarrow> (string, string, 'e) op \<Rightarrow> string \<Rightarrow> 'e sys \<Rightarrow> (string + rgArgs) \<times> 'e sys" where
  "parseRGArgs args requireAbsolutePath root s =
     (case rg_flags args \<lparr>rga_pattern = [], rga_targets = [], rga_globs = [], rga_caseMode = searchCaseSensitive,
         rga_fixed = False, rga_listFiles = False, rga_filesOnly = False, rga_jsonl = False, rga_before = 0, rga_after = 0\<rparr> of
        Inl m \<Rightarrow> (Inl m, s)
      | Inr (opts, rest) \<Rightarrow>
         (if rga_filesOnly opts \<and> rga_listFiles opts then (Inl ''rg: -l is not supported with --files'', s)
          else if rga_filesOnly opts then
            (case rg_targets requireAbsolutePath rest [] s of (r, s) \<Rightarrow>
              (case r of Inl m \<Rightarrow> (Inl m, s)
               | Inr targets \<Rightarrow> (validated (opts\<lparr>rga_targets := (if targets = [] then [root] else targets)\<rparr>), s)))
          else case rest of
            [] \<Rightarrow> (Inl ''rg: missing pattern'', s)
          | p # rest \<Rightarrow>
             (case rg_targets requireAbsolutePath rest [] s of (r, s) \<Rightarrow>
              (case r of Inl m \<Rightarrow> (Inl m, s)
               | Inr targets \<Rightarrow> (validated (opts\<lparr>rga_pattern := p, rga_targets := targets\<rparr>), s)))))"

definition matchRGGlobs :: "string \<Rightarrow> string list \<Rightarrow> go_error + bool" where
  "matchRGGlobs filePath globs = (if globs = [] then Inr True else matchMountGlobs filePath globs)"

text \<open>The files that match, in the order found, each once: \<open>seen\<close> are the ones already in the output.\<close>

fun rg_keep :: "string list \<Rightarrow> string list \<Rightarrow> string list \<Rightarrow> go_error + string list" where
  "rg_keep globs [] out = Inr out"
| "rg_keep globs (p # ps) out =
     (case matchRGGlobs p globs of
        Inl e \<Rightarrow> Inl e
      | Inr m \<Rightarrow> rg_keep globs ps (if m \<and> p \<notin> set out then out @ [p] else out))"

fun rg_resolve :: "'e CommandRuntime \<Rightarrow> string list \<Rightarrow> string list \<Rightarrow> string list \<Rightarrow> 'e sys \<Rightarrow> (go_error + string list) \<times> 'e sys" where
  "rg_resolve rt globs [] out s = (Inr out, s)"
| "rg_resolve rt globs (t # ts) out s =
     (case call (o_ResolveSearchPaths (rt_Ops rt)) (t, True) s of (r, s) \<Rightarrow>
        (case r of
           Inl e \<Rightarrow> (Inl e, s)
         | Inr paths \<Rightarrow> (case rg_keep globs paths out of Inl e \<Rightarrow> (Inl e, s) | Inr out \<Rightarrow> rg_resolve rt globs ts out s)))"

definition resolveRGSearchPaths :: "'e CommandRuntime \<Rightarrow> string list \<Rightarrow> string list \<Rightarrow> 'e sys \<Rightarrow>
    (go_error + string list) \<times> 'e sys" where
  "resolveRGSearchPaths rt targets globs s =
     rg_resolve rt globs (if targets = [] then [currentWorkingDir (rt_Ops rt) s] else targets) [] s"

definition rg_scan :: "'e CommandRuntime \<Rightarrow> rgArgs \<Rightarrow> (string \<Rightarrow> bool) \<Rightarrow> 'e sys \<Rightarrow> reply \<times> 'e sys" where
  "rg_scan rt opts mat s =
     (case resolveRGSearchPaths rt (rga_targets opts) (rga_globs opts) s of (r, s) \<Rightarrow>
        (case r of
           Inl e \<Rightarrow> ((named ''rg'' e, ExitCodeGeneral), s)
         | Inr paths \<Rightarrow> search_paths ''rg'' rt renderSearchFileJSONL mat (rga_listFiles opts) (rga_jsonl opts) (rga_before opts)
             (rga_after opts) paths s))"

definition runRG :: "text_lib \<Rightarrow> 'e builtin" where
  "runRG lib rt args s =
     (case parseRGArgs args (require_path rt) (currentWorkingDir (rt_Ops rt) s) s of (r, s) \<Rightarrow>
        (case r of
           Inl m \<Rightarrow> ((m, ExitCodeUsage), s)
         | Inr opts \<Rightarrow>
            (if rga_filesOnly opts then
               (case resolveRGSearchPaths rt (rga_targets opts) (rga_globs opts) s of (r, s) \<Rightarrow>
                 (case r of Inl e \<Rightarrow> ((named ''rg'' e, ExitCodeGeneral), s)
                  | Inr paths \<Rightarrow> ((if rga_jsonl opts then renderSearchFileJSONL paths else lines_text paths, 0), s)))
             else
            (case buildSearchMatcher lib (rga_pattern opts) (\<not> rga_fixed opts) (rga_caseMode opts) of
               Inl e \<Rightarrow> ((named ''rg'' e, ExitCodeUsage), s)
             | Inr mat \<Rightarrow>
                (if rt_HasStdin rt \<and> rga_targets opts = []
                 then (search_stdin (rt_Stdin rt) mat (rga_listFiles opts) (rga_jsonl opts) (rga_before opts) (rga_after opts), s)
                 else
                  (let targets = (if rga_targets opts = [] then [currentWorkingDir (rt_Ops rt) s] else rga_targets opts) in
                   (case tryRuntimeSearch rt (buildContractSearchRequest (rga_pattern opts) (\<not> rga_fixed opts)
                       (rga_caseMode opts) (rga_globs opts) targets (rga_listFiles opts) (rga_before opts) (rga_after opts) 0) s of (t, s) \<Rightarrow>
                     (case t of
                        Inl e \<Rightarrow> ((named ''rg'' e, ExitCodeGeneral), s)
                      | Inr (Some found) \<Rightarrow>
                          (renderSearchRecords found (rga_listFiles opts) (rga_jsonl opts) (rga_listFiles opts), s)
                      | Inr None \<Rightarrow> rg_scan rt opts mat s))))))))"

end
