(* ===== verification/Builtin_Frontmatter.thy ===== *)
theory Builtin_Frontmatter
  imports Builtin_Base
begin

section \<open>The builtin frontmatter (\<open>pkg/builtin/op_frontmatter.go\<close>, \<open>frontmatter_helpers.go\<close>)\<close>

text \<open>
  Front matter is the block between a first line \<open>---\<close> and the next such line. \<open>stat\<close> lists it for many files, \<open>get\<close>
  reads one top-level key, \<open>print\<close> shows the lines of the block or of one key with context. The sum of a line number
  and a context size wraps around like Go's; a slice of negative capacity panics, which is \<^term>\<open>None\<close> here.
\<close>

subsection \<open>The block\<close>

record frontMatterBlock =
  fb_HasFrontMatter :: bool
  fb_StartLine :: int
  fb_EndLine :: int
  fb_Lines :: "string list"
  fb_HeaderLines :: "string list"
  fb_BodyLines :: "string list"

definition is_rule :: "string \<Rightarrow> bool" where
  "is_rule line \<longleftrightarrow> trim_space line = ''---''"

definition no_block :: "string list \<Rightarrow> frontMatterBlock" where
  "no_block lines = \<lparr>fb_HasFrontMatter = False, fb_StartLine = 0, fb_EndLine = 0, fb_Lines = lines,
     fb_HeaderLines = [], fb_BodyLines = []\<rparr>"

definition parseMarkdownFrontMatter :: "string \<Rightarrow> frontMatterBlock" where
  "parseMarkdownFrontMatter raw =
     (let lines = splitRawLines raw in
      if length lines < 3 then no_block lines
      else if \<not> is_rule (hd lines) then no_block lines
      else let header = takeWhile (\<lambda>l. \<not> is_rule l) (tl lines); fin = Suc (length header) in
        if fin = length lines then no_block lines
        else \<lparr>fb_HasFrontMatter = True, fb_StartLine = 1, fb_EndLine = int fin + 1, fb_Lines = lines,
          fb_HeaderLines = header, fb_BodyLines = drop (Suc fin) lines\<rparr>)"

definition stripMarkdownFrontMatter :: "string \<Rightarrow> string" where
  "stripMarkdownFrontMatter raw =
     (let trimmed = trim_space raw in
      if trimmed = [] then []
      else let block = parseMarkdownFrontMatter trimmed in
        if \<not> fb_HasFrontMatter block then trimmed else trim_space (lines_text (fb_BodyLines block)))"

subsection \<open>Keys\<close>

definition parseTopLevelFrontMatterKey :: "string \<Rightarrow> string option" where
  "parseTopLevelFrontMatterKey line =
     (if trim_space line = [] then None
      else if has_prefix line '' '' \<or> has_prefix line [tab] then None
      else let trimmed = trim_space line in
        if has_prefix trimmed ''#'' \<or> has_prefix trimmed ''-'' then None
        else case index_of '':'' trimmed of
          None \<Rightarrow> None
        | Some i \<Rightarrow>
           (let key = trim_space (take i trimmed) in
            if i = 0 \<or> key = [] \<or> contains key '' '' then None else Some key))"

definition frontMatterKeys :: "frontMatterBlock \<Rightarrow> string list" where
  "frontMatterKeys block =
     (if \<not> fb_HasFrontMatter block then []
      else dedupe_first (List.map_filter parseTopLevelFrontMatterKey (fb_HeaderLines block)))"

text \<open>The header from its line \<open>line\<close> on: the first line with the key and the last one before the next key.\<close>

fun key_range :: "int \<Rightarrow> int \<Rightarrow> string \<Rightarrow> string list \<Rightarrow> (int \<times> int) option" where
  "key_range line end_line needle [] = None"
| "key_range line end_line needle (h # hs) =
     (if parseTopLevelFrontMatterKey h = Some needle then
        (let rest = takeWhile (\<lambda>l. parseTopLevelFrontMatterKey l = None) hs in
         Some (line, if rest = hs then end_line - 1 else line + int (length rest)))
      else key_range (line + 1) end_line needle hs)"

definition findFrontMatterKeyRange :: "frontMatterBlock \<Rightarrow> string \<Rightarrow> (int \<times> int) option" where
  "findFrontMatterKeyRange block key =
     (let needle = trim_space key in
      if \<not> fb_HasFrontMatter block \<or> needle = [] then None
      else key_range (fb_StartLine block + 1) (fb_EndLine block) needle (fb_HeaderLines block))"

subsection \<open>The value of a key\<close>

definition countLeadingSpaces :: "string \<Rightarrow> nat" where
  "countLeadingSpaces line = length (takeWhile (\<lambda>c. c = blank) line)"

definition min_indent :: "string list \<Rightarrow> nat" where
  "min_indent lines =
     (case filter (\<lambda>l. trim_space l \<noteq> []) lines of
        [] \<Rightarrow> 0
      | l # ls \<Rightarrow> foldl (\<lambda>m l. if countLeadingSpaces l < m then countLeadingSpaces l else m) (countLeadingSpaces l) ls)"

definition dedentLines :: "string list \<Rightarrow> string list" where
  "dedentLines lines =
     (let m = min_indent lines in
      if m = 0 then lines else map (\<lambda>l. if length l < m then [] else drop m l) lines)"

fun extractFrontMatterValue :: "string list \<Rightarrow> string" where
  "extractFrontMatterValue [] = []"
| "extractFrontMatterValue (l # ls) =
     (case index_of '':'' l of
        None \<Rightarrow> lines_text (l # ls)
      | Some i \<Rightarrow>
         (let head_text = trim_space (drop (Suc i) l); tail_text = lines_text (dedentLines ls) in
          if head_text = [] \<and> tail_text = [] then []
          else if head_text = [] then tail_text
          else if tail_text = [] then head_text
          else head_text @ newline # tail_text))"

subsection \<open>The files of a command\<close>

definition add_new_file :: "string list \<Rightarrow> string \<Rightarrow> string list" where
  "add_new_file files p = (if p \<in> set files then files else files @ [p])"

fun append_children :: "'e CommandRuntime \<Rightarrow> string list \<Rightarrow> string list \<Rightarrow> 'e sys \<Rightarrow> (go_error + string list) \<times> 'e sys" where
  "append_children rt [] files s = (Inr files, s)"
| "append_children rt (c # cs) files s =
     (case call (o_IsDirPath (rt_Ops rt)) c s of (r, s) \<Rightarrow>
        (case r of Inl e \<Rightarrow> (Inl e, s)
         | Inr d \<Rightarrow> append_children rt cs (if d then files else add_new_file files c) s))"

definition append_target :: "'e CommandRuntime \<Rightarrow> bool \<Rightarrow> string \<Rightarrow> string list \<Rightarrow> 'e sys \<Rightarrow> (go_error + string list) \<times> 'e sys" where
  "append_target rt recursive target files s =
     (case call (o_IsDirPath (rt_Ops rt)) target s of (r, s) \<Rightarrow>
        (case r of
           Inl e \<Rightarrow> (Inl e, s)
         | Inr isDir \<Rightarrow>
            (if \<not> isDir then (Inr (add_new_file files target), s)
             else if recursive then
               (case call (o_CollectFilesUnder (rt_Ops rt)) target s of (r, s) \<Rightarrow>
                 (case r of Inl e \<Rightarrow> (Inl e, s) | Inr collected \<Rightarrow> (Inr (foldl add_new_file files collected), s)))
             else
               (case call (o_ListChildren (rt_Ops rt)) target s of (r, s) \<Rightarrow>
                 (case r of Inl e \<Rightarrow> (Inl e, s) | Inr children \<Rightarrow> append_children rt children files s)))))"

fun append_targets :: "'e CommandRuntime \<Rightarrow> bool \<Rightarrow> string list \<Rightarrow> string list \<Rightarrow> 'e sys \<Rightarrow> (go_error + string list) \<times> 'e sys" where
  "append_targets rt recursive [] files s = (Inr files, s)"
| "append_targets rt recursive (t # ts) files s =
     (case append_target rt recursive t files s of (r, s) \<Rightarrow>
        (case r of Inl e \<Rightarrow> (Inl e, s) | Inr files \<Rightarrow> append_targets rt recursive ts files s))"

definition expandFrontmatterTargets :: "'e CommandRuntime \<Rightarrow> string \<Rightarrow> string list \<Rightarrow> bool \<Rightarrow> 'e sys \<Rightarrow>
    (reply + string list) \<times> 'e sys" where
  "expandFrontmatterTargets rt label targets recursive s =
     (case append_targets rt recursive targets [] s of (r, s) \<Rightarrow>
        (case r of
           Inl e \<Rightarrow> (Inl (named label e, ExitCodeGeneral), s)
         | Inr files \<Rightarrow> if files = [] then (Inl (label @ '': no files found'', ExitCodeGeneral), s) else (Inr (sort files), s)))"

subsection \<open>stat\<close>

datatype frontmatterFormat = frontmatterFormatCompact | frontmatterFormatJSON | frontmatterFormatMD

definition parseFrontmatterFormat :: "string \<Rightarrow> frontmatterFormat option" where
  "parseFrontmatterFormat raw =
     (let t = trim_space raw in
      if t = ''compact'' then Some frontmatterFormatCompact
      else if t = ''json'' then Some frontmatterFormatJSON
      else if t = ''md'' then Some frontmatterFormatMD
      else None)"

record frontmatterStatRow =
  fr_Path :: string
  fr_HasFrontMatter :: bool
  fr_StartLine :: int
  fr_EndLine :: int
  fr_Keys :: "string list"

definition stat_row :: "string \<Rightarrow> string \<Rightarrow> frontmatterStatRow" where
  "stat_row p raw =
     (let block = parseMarkdownFrontMatter raw in
      \<lparr>fr_Path = p, fr_HasFrontMatter = fb_HasFrontMatter block, fr_StartLine = fb_StartLine block,
       fr_EndLine = fb_EndLine block, fr_Keys = frontMatterKeys block\<rparr>)"

definition boolYN :: "bool \<Rightarrow> string" where
  "boolYN v = (if v then ''y'' else ''n'')"

definition formatFrontmatterRange :: "frontmatterStatRow \<Rightarrow> string" where
  "formatFrontmatterRange row =
     (if \<not> fr_HasFrontMatter row \<or> fr_StartLine row \<le> 0 \<or> fr_EndLine row \<le> 0 then ''-''
      else show_int (fr_StartLine row) @ '':'' @ show_int (fr_EndLine row))"

definition frontmatterKeySummary :: "string list \<Rightarrow> string" where
  "frontmatterKeySummary keys =
     (if keys = [] then ''-''
      else if length keys \<le> 4 then join '','' keys
      else join '','' (take 4 keys) @ '',+'' @ show_nat (length keys - 4))"

text \<open>The keys of a file without front matter are a nil slice, which JSON shows as \<open>null\<close>.\<close>

definition stat_json :: "frontmatterStatRow \<Rightarrow> json" where
  "stat_json row = JObj [(''path'', JStr (fr_Path row)), (''has_frontmatter'', JBool (fr_HasFrontMatter row)),
     (''start_line'', JInt (fr_StartLine row)), (''end_line'', JInt (fr_EndLine row)),
     (''key_count'', JInt (int (length (fr_Keys row)))),
     (''keys'', if fr_HasFrontMatter row then JList (map JStr (fr_Keys row)) else JNull)]"

definition renderFrontmatterStat :: "frontmatterStatRow list \<Rightarrow> frontmatterFormat \<Rightarrow> string" where
  "renderFrontmatterStat rows format =
     (case format of
        frontmatterFormatJSON \<Rightarrow>
          json_text (JObj [(''columns'', JList (map JStr [''has'', ''fm_lines'', ''key_count'', ''keys'', ''path''])),
            (''entries'', JList (map stat_json rows))])
      | frontmatterFormatMD \<Rightarrow>
          lines_text ([''| has | fm_lines | key_count | keys | path |'', ''|---|---|---:|---|---|''] @
            map (\<lambda>row. ''| '' @ join '' | '' [boolYN (fr_HasFrontMatter row), formatFrontmatterRange row,
              show_nat (length (fr_Keys row)), escape_bar (frontmatterKeySummary (fr_Keys row)),
              escape_bar (fr_Path row)] @ '' |'') rows)
      | frontmatterFormatCompact \<Rightarrow>
          lines_text (map (\<lambda>row. join '' '' [boolYN (fr_HasFrontMatter row), formatFrontmatterRange row,
              show_nat (length (fr_Keys row)), frontmatterKeySummary (fr_Keys row), fr_Path row]) rows @
            [''# columns: has fm_lines key_count keys path'']))"

record statArgs =
  fs_recursive :: bool
  fs_format :: frontmatterFormat
  fs_targets :: "string list"

fun stat_args :: "'e CommandRuntime \<Rightarrow> string list \<Rightarrow> statArgs \<Rightarrow> 'e sys \<Rightarrow> (string + statArgs) \<times> 'e sys" where
  "stat_args rt [] opts s = (Inr opts, s)"
| "stat_args rt (arg # args) opts s =
     (let bad = (\<lambda>v. ''frontmatter stat: unsupported --fmt value '' @ go_quote v) in
      if arg = ''-r'' then stat_args rt args (opts\<lparr>fs_recursive := True\<rparr>) s
      else if arg = ''--fmt'' then
        (case args of
           [] \<Rightarrow> (Inl ''frontmatter stat: --fmt requires one value: compact|json|md'', s)
         | v # args \<Rightarrow>
            (case parseFrontmatterFormat v of
               None \<Rightarrow> (Inl (bad v), s)
             | Some f \<Rightarrow> stat_args rt args (opts\<lparr>fs_format := f\<rparr>) s))
      else if has_prefix arg ''--fmt='' then
        (case parseFrontmatterFormat (trim_prefix arg ''--fmt='') of
           None \<Rightarrow> (Inl (bad (trim_prefix arg ''--fmt='')), s)
         | Some f \<Rightarrow> stat_args rt args (opts\<lparr>fs_format := f\<rparr>) s)
      else if has_prefix arg ''-'' then (Inl (''frontmatter stat: unsupported flag '' @ arg), s)
      else (case require_path rt arg s of (r, s) \<Rightarrow>
        (case r of
           Inl e \<Rightarrow> (Inl (named ''frontmatter stat'' e), s)
         | Inr p \<Rightarrow> stat_args rt args (opts\<lparr>fs_targets := fs_targets opts @ [p]\<rparr>) s)))"

fun frontmatter_rows :: "'e CommandRuntime \<Rightarrow> string list \<Rightarrow> 'e sys \<Rightarrow> (reply + frontmatterStatRow list) \<times> 'e sys" where
  "frontmatter_rows rt [] s = (Inr [], s)"
| "frontmatter_rows rt (f # fs) s =
     (case read_raw rt f s of (r, s) \<Rightarrow>
        (case r of
           Inl e \<Rightarrow> (Inl (named ''frontmatter stat'' e, ExitCodeGeneral), s)
         | Inr raw \<Rightarrow> (case frontmatter_rows rt fs s of (r, s) \<Rightarrow>
             (case r of Inl out \<Rightarrow> (Inl out, s) | Inr rows \<Rightarrow> (Inr (stat_row f raw # rows), s)))))"

definition runFrontmatterStat :: "'e builtin" where
  "runFrontmatterStat rt args s =
     (case stat_args rt args \<lparr>fs_recursive = False, fs_format = frontmatterFormatCompact, fs_targets = []\<rparr> s of (r, s) \<Rightarrow>
        (case r of
           Inl m \<Rightarrow> ((m, ExitCodeUsage), s)
         | Inr opts \<Rightarrow>
            (if fs_targets opts = [] then ((''frontmatter stat: expected at least one path'', ExitCodeUsage), s)
             else (case expandFrontmatterTargets rt ''frontmatter stat'' (fs_targets opts) (fs_recursive opts) s of (r, s) \<Rightarrow>
               (case r of
                  Inl out \<Rightarrow> (out, s)
                | Inr files \<Rightarrow> (case frontmatter_rows rt files s of (r, s) \<Rightarrow>
                    (case r of Inl out \<Rightarrow> (out, s)
                     | Inr rows \<Rightarrow> ((renderFrontmatterStat rows (fs_format opts), 0), s))))))))"

subsection \<open>get\<close>

record getArgs =
  fg_key :: string
  fg_raw :: bool
  fg_path :: string

text \<open>\<open>--key\<close> of get and print: the trimmed value, which must not be empty.\<close>

definition key_value :: "string \<Rightarrow> string \<Rightarrow> string + string" where
  "key_value label v = (let key = trim_space v in if key = [] then Inl (label @ '': key must not be empty'') else Inr key)"

fun get_args :: "'e CommandRuntime \<Rightarrow> string list \<Rightarrow> getArgs \<Rightarrow> 'e sys \<Rightarrow> (string + getArgs) \<times> 'e sys" where
  "get_args rt [] opts s = (Inr opts, s)"
| "get_args rt (arg # args) opts s =
     (if arg = ''--raw'' then get_args rt args (opts\<lparr>fg_raw := True\<rparr>) s
      else if arg = ''--key'' then
        (case args of
           [] \<Rightarrow> (Inl ''frontmatter get: --key requires a value'', s)
         | v # args \<Rightarrow>
            (case key_value ''frontmatter get'' v of
               Inl m \<Rightarrow> (Inl m, s) | Inr key \<Rightarrow> get_args rt args (opts\<lparr>fg_key := key\<rparr>) s))
      else if has_prefix arg ''--key='' then
        (case key_value ''frontmatter get'' (trim_prefix arg ''--key='') of
           Inl m \<Rightarrow> (Inl m, s) | Inr key \<Rightarrow> get_args rt args (opts\<lparr>fg_key := key\<rparr>) s)
      else if has_prefix arg ''-'' then (Inl (''frontmatter get: unsupported flag '' @ arg), s)
      else if fg_path opts \<noteq> [] then (Inl ''frontmatter get: expected exactly one file path'', s)
      else (case require_path rt arg s of (r, s) \<Rightarrow>
        (case r of
           Inl e \<Rightarrow> (Inl (named ''frontmatter get'' e), s)
         | Inr p \<Rightarrow> get_args rt args (opts\<lparr>fg_path := p\<rparr>) s)))"

definition line_range :: "string list \<Rightarrow> int \<Rightarrow> int \<Rightarrow> string list" where
  "line_range lines start fin = drop (nat (start - 1)) (take (nat fin) lines)"

definition get_text :: "getArgs \<Rightarrow> frontMatterBlock \<Rightarrow> reply" where
  "get_text opts block =
     (if \<not> fb_HasFrontMatter block then (''frontmatter get: '' @ fg_path opts @ '': no frontmatter'', ExitCodeGeneral)
      else if fg_key opts = [] then
        (lines_text (if fg_raw opts then line_range (fb_Lines block) (fb_StartLine block) (fb_EndLine block)
                     else fb_HeaderLines block), 0)
      else case findFrontMatterKeyRange block (fg_key opts) of
        None \<Rightarrow> (''frontmatter get: '' @ fg_path opts @ '': key '' @ go_quote (fg_key opts) @ '' not found'', ExitCodeGeneral)
      | Some (start, fin) \<Rightarrow>
         (let keyLines = line_range (fb_Lines block) start fin in
          (if fg_raw opts then lines_text keyLines else extractFrontMatterValue keyLines, 0)))"

definition runFrontmatterGet :: "'e builtin" where
  "runFrontmatterGet rt args s =
     (case get_args rt args \<lparr>fg_key = [], fg_raw = False, fg_path = []\<rparr> s of (r, s) \<Rightarrow>
        (case r of
           Inl m \<Rightarrow> ((m, ExitCodeUsage), s)
         | Inr opts \<Rightarrow>
            (if fg_path opts = [] then ((''frontmatter get: expected one file path'', ExitCodeUsage), s)
             else (case call (o_IsDirPath (rt_Ops rt)) (fg_path opts) s of (r, s) \<Rightarrow>
               (case r of
                  Inl e \<Rightarrow> ((named ''frontmatter get'' e, ExitCodeGeneral), s)
                | Inr isDir \<Rightarrow>
                   (if isDir then ((''frontmatter get: '' @ fg_path opts @ '': is a directory'', ExitCodeUsage), s)
                    else (case read_raw rt (fg_path opts) s of (r, s) \<Rightarrow>
                      (case r of
                         Inl e \<Rightarrow> ((named ''frontmatter get'' e, ExitCodeGeneral), s)
                       | Inr raw \<Rightarrow> (get_text opts (parseMarkdownFrontMatter raw), s)))))))))"

subsection \<open>print\<close>

record printArgs =
  fp_key :: string
  fp_recursive :: bool
  fp_before :: int
  fp_after :: int
  fp_numbered :: bool
  fp_targets :: "string list"

definition set_context :: "string \<Rightarrow> int \<Rightarrow> printArgs \<Rightarrow> printArgs" where
  "set_context flag v opts =
     (if flag = ''-B'' then opts\<lparr>fp_before := v\<rparr>
      else if flag = ''-A'' then opts\<lparr>fp_after := v\<rparr>
      else opts\<lparr>fp_before := v, fp_after := v\<rparr>)"

fun print_args :: "'e CommandRuntime \<Rightarrow> string list \<Rightarrow> printArgs \<Rightarrow> 'e sys \<Rightarrow> (string + printArgs) \<times> 'e sys" where
  "print_args rt [] opts s = (Inr opts, s)"
| "print_args rt (arg # args) opts s =
     (let context = [''-B'', ''-A'', ''-C'']; flag = take 2 arg;
          bad = (\<lambda>flag v. ''frontmatter print: invalid '' @ flag @ '' value '' @ go_quote v) in
      if arg = ''-r'' then print_args rt args (opts\<lparr>fp_recursive := True\<rparr>) s
      else if arg = ''-n'' then print_args rt args (opts\<lparr>fp_numbered := True\<rparr>) s
      else if arg = ''--key'' then
        (case args of
           [] \<Rightarrow> (Inl ''frontmatter print: --key requires a value'', s)
         | v # args \<Rightarrow>
            (case key_value ''frontmatter print'' v of
               Inl m \<Rightarrow> (Inl m, s) | Inr key \<Rightarrow> print_args rt args (opts\<lparr>fp_key := key\<rparr>) s))
      else if has_prefix arg ''--key='' then
        (case key_value ''frontmatter print'' (trim_prefix arg ''--key='') of
           Inl m \<Rightarrow> (Inl m, s) | Inr key \<Rightarrow> print_args rt args (opts\<lparr>fp_key := key\<rparr>) s)
      else if arg \<in> set context then
        (case args of
           [] \<Rightarrow> (Inl (''frontmatter print: '' @ arg @ '' requires a non-negative value''), s)
         | v # args \<Rightarrow>
            (case parseNonNegativeInt v of
               Inl _ \<Rightarrow> (Inl (bad arg v), s) | Inr n \<Rightarrow> print_args rt args (set_context arg n opts) s))
      else if flag \<in> set context \<and> isDigits (drop 2 arg) then
        (case parseNonNegativeInt (drop 2 arg) of
           Inl _ \<Rightarrow> (Inl (bad flag arg), s) | Inr n \<Rightarrow> print_args rt args (set_context flag n opts) s)
      else if has_prefix arg ''-'' then (Inl (''frontmatter print: unsupported flag '' @ arg), s)
      else (case require_path rt arg s of (r, s) \<Rightarrow>
        (case r of
           Inl e \<Rightarrow> (Inl (named ''frontmatter print'' e), s)
         | Inr p \<Rightarrow> print_args rt args (opts\<lparr>fp_targets := fp_targets opts @ [p]\<rparr>) s)))"

text \<open>\<open>make([]string, 0, maxLine-minLine+1)\<close> panics when the capacity is negative.\<close>

definition renderLineRange :: "string list \<Rightarrow> int \<Rightarrow> int \<Rightarrow> int \<Rightarrow> int \<Rightarrow> bool \<Rightarrow> string option" where
  "renderLineRange lines startLine endLine before after numbered =
     (if lines = [] then Some []
      else let startLine = (if startLine < 1 then 1 else startLine);
               endLine = (if endLine < startLine then startLine else endLine);
               minLine = max 1 (add_int startLine (- before));
               maxLine = min (int (length lines)) (add_int endLine after) in
        if maxLine - minLine + 1 < 0 then None
        else let window = line_range lines minLine maxLine in
          Some (lines_text (if numbered then numbered_lines (nat minLine) window else window)))"

definition print_section :: "printArgs \<Rightarrow> bool \<Rightarrow> string \<Rightarrow> go_error + string \<Rightarrow> (string \<times> bool) option" where
  "print_section opts many p r =
     (let failed = (\<lambda>m. Some (''frontmatter print: '' @ p @ '': '' @ m, True)) in
      case r of
        Inl e \<Rightarrow> failed (error_text e)
      | Inr raw \<Rightarrow>
         (let block = parseMarkdownFrontMatter raw in
          if \<not> fb_HasFrontMatter block then failed ''no frontmatter''
          else case (if fp_key opts = [] then Some (fb_StartLine block, fb_EndLine block)
                     else findFrontMatterKeyRange block (fp_key opts)) of
            None \<Rightarrow> failed (''key '' @ go_quote (fp_key opts) @ '' not found'')
          | Some (start, fin) \<Rightarrow>
             map_option (\<lambda>view. (if many then ''== '' @ p @ '' =='' @ newline # view else view, False))
               (renderLineRange (fb_Lines block) start fin (fp_before opts) (fp_after opts) (fp_numbered opts))))"

fun print_files :: "'e CommandRuntime \<Rightarrow> printArgs \<Rightarrow> bool \<Rightarrow> string list \<Rightarrow> 'e sys \<Rightarrow> ((string list \<times> bool) \<times> 'e sys) option" where
  "print_files rt opts many [] s = Some (([], False), s)"
| "print_files rt opts many (f # fs) s =
     (case read_raw rt f s of (r, s) \<Rightarrow>
        (case print_section opts many f r of
           None \<Rightarrow> None
         | Some (section, failed) \<Rightarrow>
            map_option (\<lambda>((sections, hasFailure), s). ((section # sections, failed \<or> hasFailure), s))
              (print_files rt opts many fs s)))"

definition runFrontmatterPrint :: "'e CommandRuntime \<Rightarrow> string list \<Rightarrow> 'e sys \<Rightarrow> (reply \<times> 'e sys) option" where
  "runFrontmatterPrint rt args s =
     (case print_args rt args \<lparr>fp_key = [], fp_recursive = False, fp_before = 0, fp_after = 0, fp_numbered = False,
         fp_targets = []\<rparr> s of (r, s) \<Rightarrow>
        (case r of
           Inl m \<Rightarrow> Some ((m, ExitCodeUsage), s)
         | Inr opts \<Rightarrow>
            (if fp_targets opts = [] then Some ((''frontmatter print: expected at least one path'', ExitCodeUsage), s)
             else (case expandFrontmatterTargets rt ''frontmatter print'' (fp_targets opts) (fp_recursive opts) s of (r, s) \<Rightarrow>
               (case r of
                  Inl out \<Rightarrow> Some (out, s)
                | Inr files \<Rightarrow>
                   map_option (\<lambda>((sections, hasFailure), s).
                       ((join [newline, newline] sections, if hasFailure then ExitCodeGeneral else 0), s))
                     (print_files rt opts (1 < length files) files s))))))"

definition runFrontmatter :: "'e CommandRuntime \<Rightarrow> string list \<Rightarrow> 'e sys \<Rightarrow> (reply \<times> 'e sys) option" where
  "runFrontmatter rt args s =
     (case args of
        [] \<Rightarrow> Some ((''frontmatter: expected subcommand: stat|get|print'', ExitCodeUsage), s)
      | a # args \<Rightarrow>
         (let sub = trim_space a in
          if sub = ''stat'' then Some (runFrontmatterStat rt args s)
          else if sub = ''get'' then Some (runFrontmatterGet rt args s)
          else if sub = ''print'' then runFrontmatterPrint rt args s
          else Some ((''frontmatter: unsupported subcommand '' @ sub, ExitCodeUsage), s)))"

end
