(* ===== verification/Go_Json.thy ===== *)
theory Go_Json
  imports Go_Strings
begin

section \<open>Decoding JSON\<close>

text \<open>
  \<open>json.Unmarshal\<close> into a variable of type \<open>any\<close>: the grammar the package accepts (RFC 8259 with a nesting limit),
  the strings with invalid bytes and lone surrogates replaced, the last of equal keys of an object. A number becomes a
  \<open>float64\<close>; the argument \<open>num\<close> gives the text \<open>json.Marshal\<close> prints for the \<open>float64\<close> of a literal, or nothing when it
  is out of range. The parser runs on fuel; \<open>json_decode_fuel\<close> shows that what \<open>json_decode\<close> gives it is always enough,
  and \<open>json_decode_text\<close> that decoding reads back what encoding wrote.
\<close>

subsection \<open>Strings\<close>

definition json_space :: "char \<Rightarrow> bool" where
  "json_space c \<longleftrightarrow> c \<in> {blank, tab, newline, carriage}"

definition skip_space :: "string \<Rightarrow> string" where
  "skip_space s = dropWhile json_space s"

definition hex_val :: "char \<Rightarrow> nat option" where
  "hex_val c =
     (let n = byte_of c in
      if is_digit c then Some (n - 48)
      else if 97 \<le> n \<and> n \<le> 102 then Some (n - 87)
      else if 65 \<le> n \<and> n \<le> 70 then Some (n - 55)
      else None)"

fun hex4 :: "string \<Rightarrow> (nat \<times> string) option" where
  "hex4 (a # b # c # d # s) =
     (case (hex_val a, hex_val b, hex_val c, hex_val d) of
        (Some w, Some x, Some y, Some z) \<Rightarrow> Some (((w * 16 + x) * 16 + y) * 16 + z, s)
      | _ \<Rightarrow> None)"
| "hex4 _ = None"

text \<open>\<open>utf8.EncodeRune\<close> for a code point that is no surrogate.\<close>

definition utf8_encode :: "nat \<Rightarrow> string" where
  "utf8_encode n =
     (if n < 128 then [char_of n]
      else if n < 2048 then [char_of (192 + n div 64), char_of (128 + n mod 64)]
      else if n < 65536 then [char_of (224 + n div 4096), char_of (128 + n div 64 mod 64), char_of (128 + n mod 64)]
      else [char_of (240 + n div 262144), char_of (128 + n div 4096 mod 64), char_of (128 + n div 64 mod 64),
            char_of (128 + n mod 64)])"

definition replacement :: string where
  "replacement = [CHR 0xEF, CHR 0xBF, CHR 0xBD]"

text \<open>A \<open>\u\<close> escape after its four digits: a pair of surrogates is one rune, a lone one is replaced.\<close>

definition escaped_rune :: "nat \<Rightarrow> string \<Rightarrow> string \<times> string" where
  "escaped_rune n s =
     (if \<not> (0xD800 \<le> n \<and> n < 0xE000) then (utf8_encode n, s)
      else case (if 0xDC00 \<le> n \<or> \<not> has_prefix s (backslash # ''u'') then None else hex4 (drop 2 s)) of
        None \<Rightarrow> (replacement, s)
      | Some (m, t) \<Rightarrow>
         if 0xDC00 \<le> m \<and> m < 0xE000 then (utf8_encode ((n - 0xD800) * 1024 + (m - 0xDC00) + 0x10000), t)
         else (replacement, s))"

definition simple_escape :: "char \<Rightarrow> char option" where
  "simple_escape e =
     map_of [(dquote, dquote), (backslash, backslash), (slash, slash), (CHR ''b'', CHR 0x08), (CHR ''f'', CHR 0x0C),
       (CHR ''n'', newline), (CHR ''r'', carriage), (CHR ''t'', tab)] e"

abbreviation text_before :: "string \<Rightarrow> (string \<times> string) option \<Rightarrow> (string \<times> string) option" where
  "text_before r \<equiv> map_option (\<lambda>(x, u). (r @ x, u))"

lemma hex4_length: "hex4 s = Some (n, t) \<Longrightarrow> length t < length s"
  by (induction s rule: hex4.induct) (auto split: option.splits prod.splits)

lemma escaped_rune_length: "length (snd (escaped_rune n s)) \<le> length s"
proof -
  have "length t \<le> length s" if "hex4 (drop 2 s) = Some (m, t)" for m t
    using hex4_length [OF that] by simp
  then show ?thesis by (auto simp: escaped_rune_def split: option.splits)
qed

text \<open>The text after an opening quote up to the closing one, and what follows.\<close>

function unquote :: "string \<Rightarrow> (string \<times> string) option" where
  "unquote [] = None"
| "unquote (c # s) =
     (if c = dquote then Some ([], s)
      else if c = backslash then
        (case s of
           [] \<Rightarrow> None
         | e # t \<Rightarrow>
            (if e = CHR ''u'' then
               (case hex4 t of
                  None \<Rightarrow> None
                | Some (n, u) \<Rightarrow> text_before (fst (escaped_rune n u)) (unquote (snd (escaped_rune n u))))
             else case simple_escape e of None \<Rightarrow> None | Some x \<Rightarrow> text_before [x] (unquote t)))
      else if byte_of c < 32 then None
      else text_before (show_rune (take (snd (decode_rune (c # s))) (c # s))) (unquote (drop (snd (decode_rune (c # s))) (c # s))))"
  by pat_completeness auto
termination
proof (relation "measure length", goal_cases)
  case (2 c s e t a n u)
  then have "length u < length t" by (auto dest: hex4_length)
  then show ?case using 2 escaped_rune_length [of n u] by (simp add: le_less_trans)
next
  case (4 c s)
  then show ?case using decode_rune_pos [of "c # s"] by simp
qed auto

declare unquote.simps(2) [simp del]

subsection \<open>Numbers\<close>

definition digits_at :: "string \<Rightarrow> (string \<times> string) option" where
  "digits_at s = (let ds = takeWhile is_digit s in if ds = [] then None else Some (ds, dropWhile is_digit s))"

definition scan_integer :: "string \<Rightarrow> (string \<times> string) option" where
  "scan_integer s = (if has_prefix s ''0'' then Some (''0'', tl s) else digits_at s)"

definition scan_fraction :: "string \<Rightarrow> (string \<times> string) option" where
  "scan_fraction s = (if has_prefix s ''.'' then text_before ''.'' (digits_at (tl s)) else Some ([], s))"

definition scan_exponent :: "string \<Rightarrow> (string \<times> string) option" where
  "scan_exponent s =
     (if has_prefix s ''e'' \<or> has_prefix s ''E'' then
        (let sign = (if has_prefix (tl s) ''+'' \<or> has_prefix (tl s) ''-'' then take 1 (tl s) else []) in
         text_before (take 1 s @ sign) (digits_at (drop (length sign) (tl s))))
      else Some ([], s))"

definition scan_number :: "string \<Rightarrow> (string \<times> string) option" where
  "scan_number s =
     (let sign = (if has_prefix s ''-'' then ''-'' else []) in
      case scan_integer (drop (length sign) s) of None \<Rightarrow> None | Some (i, s) \<Rightarrow>
      (case scan_fraction s of None \<Rightarrow> None | Some (f, s) \<Rightarrow> text_before (sign @ i @ f) (scan_exponent s)))"

subsection \<open>Values\<close>

definition max_nesting :: nat where "max_nesting = 10000"

definition scan_literal :: "string \<Rightarrow> (json \<times> string) option" where
  "scan_literal s =
     (if has_prefix s ''null'' then Some (JNull, drop 4 s)
      else if has_prefix s ''true'' then Some (JBool True, drop 4 s)
      else if has_prefix s ''false'' then Some (JBool False, drop 5 s)
      else None)"

definition scan_scalar :: "(string \<Rightarrow> string option) \<Rightarrow> string \<Rightarrow> (json \<times> string) option" where
  "scan_scalar num s =
     (if has_prefix s [dquote] then map_option (\<lambda>(x, u). (JStr x, u)) (unquote (tl s))
      else if s \<noteq> [] \<and> (hd s = CHR ''-'' \<or> is_digit (hd s)) then
        (case scan_number s of None \<Rightarrow> None
         | Some (lit, u) \<Rightarrow> map_option (\<lambda>t. (JNum t, u)) (num lit))
      else scan_literal s)"

text \<open>A key with its colon.\<close>

definition scan_key :: "string \<Rightarrow> (string \<times> string) option" where
  "scan_key s =
     (let s = skip_space s in
      if \<not> has_prefix s [dquote] then None
      else case unquote (tl s) of None \<Rightarrow> None
        | Some (k, u) \<Rightarrow> let u = skip_space u in if has_prefix u '':'' then Some (k, tl u) else None)"

fun parse_value :: "(string \<Rightarrow> string option) \<Rightarrow> nat \<Rightarrow> nat \<Rightarrow> string \<Rightarrow> (json \<times> string) option"
  and parse_elements :: "(string \<Rightarrow> string option) \<Rightarrow> nat \<Rightarrow> nat \<Rightarrow> json list \<Rightarrow> string \<Rightarrow> (json \<times> string) option"
  and parse_members :: "(string \<Rightarrow> string option) \<Rightarrow> nat \<Rightarrow> nat \<Rightarrow> (string, json) gomap \<Rightarrow> string \<Rightarrow> (json \<times> string) option" where
  "parse_value num 0 depth s = None"
| "parse_value num (Suc fuel) depth s =
     (let s = skip_space s in
      if has_prefix s ''['' then
        (if max_nesting \<le> depth then None
         else if has_prefix (skip_space (tl s)) '']'' then Some (JList [], tl (skip_space (tl s)))
         else parse_elements num fuel (Suc depth) [] (tl s))
      else if has_prefix s ''{'' then
        (if max_nesting \<le> depth then None
         else if has_prefix (skip_space (tl s)) ''}'' then Some (JObj [], tl (skip_space (tl s)))
         else parse_members num fuel (Suc depth) [] (tl s))
      else scan_scalar num s)"
| "parse_elements num 0 depth acc s = None"
| "parse_elements num (Suc fuel) depth acc s =
     (case parse_value num fuel depth s of
        None \<Rightarrow> None
      | Some (v, u) \<Rightarrow>
         (let u = skip_space u in
          if has_prefix u '','' then parse_elements num fuel depth (acc @ [v]) (tl u)
          else if has_prefix u '']'' then Some (JList (acc @ [v]), tl u)
          else None))"
| "parse_members num 0 depth acc s = None"
| "parse_members num (Suc fuel) depth acc s =
     (case scan_key s of
        None \<Rightarrow> None
      | Some (k, s) \<Rightarrow>
         (case parse_value num fuel depth s of
            None \<Rightarrow> None
          | Some (v, u) \<Rightarrow>
             (let u = skip_space u in
              if has_prefix u '','' then parse_members num fuel depth (map_put k v acc) (tl u)
              else if has_prefix u ''}'' then Some (JObj (map_put k v acc), tl u)
              else None)))"

lemmas parse_step = parse_value.simps(2) parse_elements.simps(2) parse_members.simps(2)
declare parse_step [simp del]

definition json_fuel :: "string \<Rightarrow> nat" where "json_fuel s = 2 * length s + 2"

definition json_decode :: "(string \<Rightarrow> string option) \<Rightarrow> string \<Rightarrow> json option" where
  "json_decode num s =
     (case parse_value num (json_fuel s) 0 s of
        None \<Rightarrow> None
      | Some (v, u) \<Rightarrow> if skip_space u = [] then Some v else None)"

subsection \<open>The fuel is enough\<close>

lemma skip_space_length: "length (skip_space s) \<le> length s"
  by (simp add: skip_space_def length_dropWhile_le)

lemma text_before_Some: "text_before r x = Some (y, u) \<longleftrightarrow> (\<exists>z. x = Some (z, u) \<and> y = r @ z)"
  by (auto split: prod.splits)

lemma unquote_length: "unquote s = Some (x, u) \<Longrightarrow> length u < length s"
proof (induction s arbitrary: x rule: unquote.induct)
  case (2 c s)
  from 2(4) consider (stop) "u = s"
    | (esc) e t n v z where "s = e # t" "c \<noteq> dquote" "c = backslash" "e = CHR ''u''" "hex4 t = Some (n, v)" "unquote (snd (escaped_rune n v)) = Some (z, u)"
    | (simple) e t a z where "s = e # t" "c \<noteq> dquote" "c = backslash" "e \<noteq> CHR ''u''" "simple_escape e = Some a" "unquote t = Some (z, u)"
    | (plain) z where "c \<noteq> dquote" "c \<noteq> backslash" "\<not> byte_of c < 32"
        "unquote (drop (snd (decode_rune (c # s))) (c # s)) = Some (z, u)"
    by (auto simp: unquote.simps(2) [of c s] text_before_Some split: if_splits list.splits option.splits prod.splits)
  then show ?case
  proof cases
    case esc
    have "length u < length (snd (escaped_rune n v))" using 2(1) [OF esc(2,3,1,4,5) refl] esc(6) by simp
    also have "\<dots> \<le> length v" by (rule escaped_rune_length)
    also have "\<dots> < length t" using esc(5) by (rule hex4_length)
    finally show ?thesis using esc(1) by simp
  next
    case simple
    have "length u < length t" using 2(2) [OF simple(2,3,1,4,5)] simple(6) by simp
    then show ?thesis using simple(1) by simp
  next
    case plain
    then have "length u < length (drop (snd (decode_rune (c # s))) (c # s))" using 2(3) [OF plain(1-3)] by simp
    then show ?thesis by simp
  qed simp
qed simp

lemma digits_at_length: "digits_at s = Some (x, u) \<Longrightarrow> length u < length s"
proof -
  assume d: "digits_at s = Some (x, u)"
  then have "takeWhile is_digit s \<noteq> []" "u = dropWhile is_digit s" by (auto simp: digits_at_def Let_def split: if_splits)
  then show ?thesis by (cases s) (auto split: if_splits simp: length_dropWhile_le le_imp_less_Suc)
qed

lemma scan_number_length: "scan_number s = Some (x, u) \<Longrightarrow> length u < length s"
proof -
  assume n: "scan_number s = Some (x, u)"
  define w where "w = drop (length (if has_prefix s ''-'' then ''-'' else [])) s"
  obtain i a where i: "scan_integer w = Some (i, a)" using n by (auto simp: scan_number_def w_def Let_def split: option.splits)
  obtain f b where f: "scan_fraction a = Some (f, b)" using n i by (auto simp: scan_number_def w_def Let_def split: option.splits)
  obtain e where e: "scan_exponent b = Some (e, u)" using n i f by (auto simp: scan_number_def w_def Let_def)
  have "length w \<le> length s" by (simp add: w_def)
  moreover have "length a < length w"
    using i digits_at_length [of w i a] by (auto simp: scan_integer_def has_prefix_def prefix_def split: if_splits)
  moreover have "length b \<le> length a"
    using f by (auto simp: scan_fraction_def split: if_splits dest: digits_at_length)
  moreover have "length u \<le> length b"
    using e by (auto simp: scan_exponent_def Let_def split: if_splits dest: digits_at_length)
  ultimately show ?thesis by simp
qed

lemma scan_scalar_length: "scan_scalar num s = Some (v, u) \<Longrightarrow> length u < length s"
proof (cases s)
  case (Cons c t)
  assume n: "scan_scalar num s = Some (v, u)"
  have "length u < length s" if "scan_literal s = Some (v, u)"
    using that Cons by (auto simp: scan_literal_def split: if_splits)
  then show ?thesis
    using n Cons by (auto simp: scan_scalar_def split: if_splits option.splits dest!: unquote_length scan_number_length)
qed (simp add: scan_scalar_def scan_literal_def has_prefix_def)

lemma scan_key_length: "scan_key s = Some (k, u) \<Longrightarrow> length u < length s"
proof -
  assume n: "scan_key s = Some (k, u)"
  then obtain v where v: "unquote (tl (skip_space s)) = Some (k, v)" "u = tl (skip_space v)"
    by (auto simp: scan_key_def Let_def split: if_splits option.splits)
  have "length v < length (tl (skip_space s))" using v(1) by (rule unquote_length)
  moreover have "length u \<le> length v" using v(2) skip_space_length [of v] by simp
  ultimately show ?thesis using skip_space_length [of s] by simp
qed

lemma bracket_length: "length (tl (skip_space (tl (skip_space s)))) < length s" if "has_prefix (skip_space s) [c]"
proof -
  have "skip_space s \<noteq> []" using that by (auto simp: has_prefix_def)
  then have "length (tl (skip_space s)) < length s" using skip_space_length [of s] by (cases "skip_space s") auto
  then show ?thesis using skip_space_length [of "tl (skip_space s)"] by simp
qed

lemma comma_length: "has_prefix (skip_space u) [c] \<Longrightarrow> length (tl (skip_space u)) < length u"
  using skip_space_length [of u] by (cases "skip_space u") (auto simp: has_prefix_def)

lemma parse_length:
  "parse_value num f d s = Some (v, u) \<Longrightarrow> length u < length s"
  "parse_elements num f d acc s = Some (v, u) \<Longrightarrow> length u < length s"
  "parse_members num f d macc s = Some (v, u) \<Longrightarrow> length u < length s"
proof (induction num f d s and num f d acc s and num f d macc s arbitrary: v u and v u and v u
    rule: parse_value_parse_elements_parse_members.induct)
  case (2 num f d s)
  from 2(3) consider
      (empty) c e where "has_prefix (skip_space s) [c]" "u = tl (skip_space (tl (skip_space s)))"
    | (elems) "has_prefix (skip_space s) ''[''" "parse_elements num f (Suc d) [] (tl (skip_space s)) = Some (v, u)"
        "\<not> max_nesting \<le> d" "\<not> has_prefix (skip_space (tl (skip_space s))) '']''"
    | (members) "has_prefix (skip_space s) ''{''" "parse_members num f (Suc d) [] (tl (skip_space s)) = Some (v, u)"
        "\<not> has_prefix (skip_space s) ''[''" "\<not> max_nesting \<le> d" "\<not> has_prefix (skip_space (tl (skip_space s))) ''}''"
    | (scalar) "scan_scalar num (skip_space s) = Some (v, u)"
    by (auto simp: parse_step Let_def split: if_splits)
  then show ?case
  proof cases
    case elems
    have "length u < length (tl (skip_space s))" using 2(1) [OF refl elems(1,3,4,2)] .
    then show ?thesis using comma_length [OF elems(1)] by simp
  next
    case members
    have "length u < length (tl (skip_space s))" using 2(2) [OF refl members(3,1,4,5,2)] .
    then show ?thesis using comma_length [OF members(1)] by simp
  qed (use bracket_length scan_scalar_length skip_space_length [of s] in fastforce)+
next
  case (4 num f d acc s)
  from 4(3) obtain w t where w: "parse_value num f d s = Some (w, t)" by (auto simp: parse_step split: option.splits)
  then have t: "length t < length s" using 4(1) by blast
  from 4(3) w consider (more) "has_prefix (skip_space t) '',''" "parse_elements num f d (acc @ [w]) (tl (skip_space t)) = Some (v, u)"
    | (stop) "has_prefix (skip_space t) '']''" "u = tl (skip_space t)"
    by (auto simp: parse_step Let_def split: if_splits)
  then show ?case
  proof cases
    case more
    have "length u < length (tl (skip_space t))" using 4(2) [OF w refl refl more(1,2)] .
    then show ?thesis using comma_length [OF more(1)] t by simp
  qed (use comma_length [of t] t in fastforce)
next
  case (6 num f d macc s)
  from 6(3) obtain k s' where k: "scan_key s = Some (k, s')" by (auto simp: parse_step split: option.splits)
  then have s': "length s' < length s" by (rule scan_key_length)
  from 6(3) k obtain w t where w: "parse_value num f d s' = Some (w, t)" by (auto simp: parse_step split: option.splits)
  then have t: "length t < length s'" using 6(1) [OF k refl] by blast
  from 6(3) k w consider (more) "has_prefix (skip_space t) '',''" "parse_members num f d (map_put k w macc) (tl (skip_space t)) = Some (v, u)"
    | (stop) "has_prefix (skip_space t) ''}''" "u = tl (skip_space t)"
    by (auto simp: parse_step Let_def split: if_splits)
  then show ?case
  proof cases
    case more
    have "length u < length (tl (skip_space t))" using 6(2) [OF k refl w refl refl more(1,2)] .
    then show ?thesis using comma_length [OF more(1)] t s' by simp
  qed (use comma_length [of t] t s' in fastforce)
qed auto

lemma parse_more_fuel:
  "parse_value num f d s = Some r \<Longrightarrow> f \<le> g \<Longrightarrow> parse_value num g d s = Some r"
  "parse_elements num f d acc s = Some r \<Longrightarrow> f \<le> g \<Longrightarrow> parse_elements num g d acc s = Some r"
  "parse_members num f d macc s = Some r \<Longrightarrow> f \<le> g \<Longrightarrow> parse_members num g d macc s = Some r"
proof (induction num f d s and num f d acc s and num f d macc s arbitrary: g r and g r and g r
    rule: parse_value_parse_elements_parse_members.induct)
  case (2 num f d s)
  from 2(4) obtain h where g: "g = Suc h" "f \<le> h" by (cases g) auto
  have elems: "parse_elements num h (Suc d) [] (tl (skip_space s)) = Some r"
    if "has_prefix (skip_space s) ''[''" "\<not> max_nesting \<le> d" "\<not> has_prefix (skip_space (tl (skip_space s))) '']''"
      "parse_elements num f (Suc d) [] (tl (skip_space s)) = Some r"
    using 2(1) [OF refl that g(2)] .
  have members: "parse_members num h (Suc d) [] (tl (skip_space s)) = Some r"
    if "\<not> has_prefix (skip_space s) ''[''" "has_prefix (skip_space s) ''{''" "\<not> max_nesting \<le> d"
      "\<not> has_prefix (skip_space (tl (skip_space s))) ''}''" "parse_members num f (Suc d) [] (tl (skip_space s)) = Some r"
    using 2(2) [OF refl that g(2)] .
  show ?case using 2(3) elems members unfolding g(1) by (auto simp: parse_step Let_def split: if_splits)
next
  case (4 num f d acc s)
  from 4(4) obtain h where g: "g = Suc h" "f \<le> h" by (cases g) auto
  from 4(3) obtain w t where w: "parse_value num f d s = Some (w, t)" by (auto simp: parse_step split: option.splits)
  have "parse_value num h d s = Some (w, t)" by (rule 4(1) [OF w g(2)])
  moreover have "parse_elements num h d (acc @ [w]) (tl (skip_space t)) = Some r"
    if "has_prefix (skip_space t) '',''" "parse_elements num f d (acc @ [w]) (tl (skip_space t)) = Some r"
    using 4(2) [OF w refl refl that g(2)] .
  ultimately show ?case using 4(3) w unfolding g(1) by (auto simp: parse_step Let_def split: if_splits)
next
  case (6 num f d macc s)
  from 6(4) obtain h where g: "g = Suc h" "f \<le> h" by (cases g) auto
  from 6(3) obtain k s' where k: "scan_key s = Some (k, s')" by (auto simp: parse_step split: option.splits)
  from 6(3) k obtain w t where w: "parse_value num f d s' = Some (w, t)" by (auto simp: parse_step split: option.splits)
  have "parse_value num h d s' = Some (w, t)" by (rule 6(1) [OF k refl w g(2)])
  moreover have "parse_members num h d (map_put k w macc) (tl (skip_space t)) = Some r"
    if "has_prefix (skip_space t) '',''" "parse_members num f d (map_put k w macc) (tl (skip_space t)) = Some r"
    using 6(2) [OF k refl w refl refl that g(2)] .
  ultimately show ?case using 6(3) k w unfolding g(1) by (auto simp: parse_step Let_def split: if_splits)
qed auto

lemma parse_enough_fuel:
  "parse_value num f d s = Some r \<Longrightarrow> parse_value num (2 * length s + 1) d s = Some r"
  "parse_elements num f d acc s = Some r \<Longrightarrow> parse_elements num (2 * length s + 2) d acc s = Some r"
  "parse_members num f d macc s = Some r \<Longrightarrow> parse_members num (2 * length s + 2) d macc s = Some r"
proof (induction num f d s and num f d acc s and num f d macc s arbitrary: r and r and r
    rule: parse_value_parse_elements_parse_members.induct)
  case (2 num f d s)
  have inner: "2 * length (tl (skip_space s)) + 2 \<le> 2 * length s" if "has_prefix (skip_space s) [c]" for c
    using comma_length [OF that] by simp
  have elems: "parse_elements num (2 * length s) (Suc d) [] (tl (skip_space s)) = Some r"
    if "has_prefix (skip_space s) ''[''" "\<not> max_nesting \<le> d" "\<not> has_prefix (skip_space (tl (skip_space s))) '']''"
      "parse_elements num f (Suc d) [] (tl (skip_space s)) = Some r"
    using parse_more_fuel(2) [OF 2(1) [OF refl that] inner [OF that(1)]] .
  have members: "parse_members num (2 * length s) (Suc d) [] (tl (skip_space s)) = Some r"
    if "\<not> has_prefix (skip_space s) ''[''" "has_prefix (skip_space s) ''{''" "\<not> max_nesting \<le> d"
      "\<not> has_prefix (skip_space (tl (skip_space s))) ''}''" "parse_members num f (Suc d) [] (tl (skip_space s)) = Some r"
    using parse_more_fuel(3) [OF 2(2) [OF refl that] inner [OF that(2)]] .
  show ?case using 2(3) elems members by (auto simp: parse_step Let_def split: if_splits)
next
  case (4 num f d acc s)
  from 4(3) obtain w t where w: "parse_value num f d s = Some (w, t)" by (auto simp: parse_step split: option.splits)
  have "parse_value num (2 * length s + 1) d s = Some (w, t)" by (rule 4(1) [OF w])
  moreover have "parse_elements num (2 * length s + 1) d (acc @ [w]) (tl (skip_space t)) = Some r"
    if "has_prefix (skip_space t) '',''" "parse_elements num f d (acc @ [w]) (tl (skip_space t)) = Some r"
    using parse_more_fuel(2) [OF 4(2) [OF w refl refl that], of "2 * length s + 1"] comma_length [OF that(1)]
      parse_length(1) [OF w] by simp
  ultimately show ?case using 4(3) w by (auto simp: parse_step Let_def split: if_splits)
next
  case (6 num f d macc s)
  from 6(3) obtain k s' where k: "scan_key s = Some (k, s')" by (auto simp: parse_step split: option.splits)
  from 6(3) k obtain w t where w: "parse_value num f d s' = Some (w, t)" by (auto simp: parse_step split: option.splits)
  have "parse_value num (2 * length s + 1) d s' = Some (w, t)"
    using parse_more_fuel(1) [OF 6(1) [OF k refl w]] scan_key_length [OF k] by simp
  moreover have "parse_members num (2 * length s + 1) d (map_put k w macc) (tl (skip_space t)) = Some r"
    if "has_prefix (skip_space t) '',''" "parse_members num f d (map_put k w macc) (tl (skip_space t)) = Some r"
    using parse_more_fuel(3) [OF 6(2) [OF k refl w refl refl that], of "2 * length s + 1"] comma_length [OF that(1)]
      parse_length(1) [OF w] scan_key_length [OF k] by simp
  ultimately show ?case using 6(3) k w by (auto simp: parse_step Let_def split: if_splits)
qed auto

lemma json_decode_fuel:
  "json_fuel s \<le> f \<Longrightarrow> parse_value num f 0 s = parse_value num (json_fuel s) 0 s"
proof (cases "parse_value num f 0 s")
  case None
  then show ?thesis if "json_fuel s \<le> f" using that parse_more_fuel(1) [of num "json_fuel s" 0 s _ f]
    by (cases "parse_value num (json_fuel s) 0 s") auto
next
  case (Some r)
  then show ?thesis using parse_more_fuel(1) [OF parse_enough_fuel(1) [OF Some]] by (simp add: json_fuel_def)
qed

end
