(* ===== verification/Builtin_Json.thy ===== *)
theory Builtin_Json
  imports Builtin_Frontmatter Builtin_Listing Go_Json
begin

section \<open>The builtin json (\<open>pkg/builtin/op_json.go\<close>, \<open>json_query.go\<close>, \<open>json_path.go\<close>)\<close>

text \<open>
  \<open>stat\<close>, \<open>keys\<close> and \<open>len\<close> print a row per file, \<open>get\<close> one or more parts of one file. A query is a path of keys and array
  indices. \<open>num\<close> prints the \<open>float64\<close> of a number literal and \<open>json_error\<close> is the text of the decoder's error; both
  belong to \<open>encoding/json\<close> (\<open>Go_Json\<close>).
\<close>

record json_lib =
  jl_num :: "string \<Rightarrow> string option"
  jl_error :: "string \<Rightarrow> string"

definition unmarshal :: "json_lib \<Rightarrow> string \<Rightarrow> string + json" where
  "unmarshal lib raw = (case json_decode (jl_num lib) raw of None \<Rightarrow> Inl (jl_error lib raw) | Some v \<Rightarrow> Inr v)"

subsection \<open>Values\<close>

text \<open>A map is encoded with its keys in order.\<close>

fun key_sorted :: "json \<Rightarrow> json" where
  "key_sorted (JList xs) = JList (map key_sorted xs)"
| "key_sorted (JObj fs) = JObj (sort_key fst (map (\<lambda>(k, v). (k, key_sorted v)) fs))"
| "key_sorted v = v"

definition compactJSONString :: "json \<Rightarrow> string" where
  "compactJSONString v = trim_space (json_text v)"

definition prettyJSONString :: "json \<Rightarrow> string" where
  "prettyJSONString v = trim_space (json_indented v)"

fun summarizeJSONValue :: "json \<Rightarrow> string \<times> int \<times> string list" where
  "summarizeJSONValue (JObj fs) = (''object'', int (length fs), sort (map fst fs))"
| "summarizeJSONValue (JList xs) = (''array'', int (length xs), [])"
| "summarizeJSONValue (JStr _) = (''string'', 1, [])"
| "summarizeJSONValue (JNum _) = (''number'', 1, [])"
| "summarizeJSONValue (JInt _) = (''number'', 1, [])"
| "summarizeJSONValue (JBool _) = (''bool'', 1, [])"
| "summarizeJSONValue JNull = (''null'', 0, [])"

subsection \<open>Queries\<close>

record jsonPathStep =
  js_key :: string
  js_index :: "int option"

definition key_step :: "string \<Rightarrow> jsonPathStep" where
  "key_step k = \<lparr>js_key = k, js_index = None\<rparr>"

definition index_step :: "int \<Rightarrow> jsonPathStep" where
  "index_step i = \<lparr>js_key = [], js_index = Some i\<rparr>"

text \<open>One part between dots: a key and any number of indices in brackets.\<close>

function part_steps :: "string \<Rightarrow> go_error + jsonPathStep list" where
  "part_steps part =
     (if part = [] then Inr []
      else case index_of ''['' part of
        None \<Rightarrow> Inr [key_step part]
      | Some b \<Rightarrow>
         (let front = (if 0 < b then [key_step (take b part)] else []); tail = drop b part in
          case index_of '']'' tail of
            None \<Rightarrow> Inl (ErrText ''unterminated array index'')
          | Some e \<Rightarrow>
             (let indexText = trim_space (drop 1 (take e tail));
                  bad = ErrText (''invalid array index '' @ go_quote indexText) in
              case atoi indexText of
                None \<Rightarrow> Inl bad
              | Some i \<Rightarrow>
                 (if i < 0 then Inl bad
                  else case part_steps (drop (Suc e) tail) of Inl x \<Rightarrow> Inl x
                    | Inr rest \<Rightarrow> Inr (front @ index_step i # rest)))))"
  by pat_completeness auto
termination by (relation "measure length") auto

declare part_steps.simps [simp del]

fun path_steps :: "string list \<Rightarrow> go_error + jsonPathStep list" where
  "path_steps [] = Inr []"
| "path_steps (part # parts) =
     (if trim_space part = [] then Inl (ErrText ''path must not contain empty segments'')
      else case part_steps part of Inl e \<Rightarrow> Inl e
        | Inr steps \<Rightarrow> (case path_steps parts of Inl e \<Rightarrow> Inl e | Inr rest \<Rightarrow> Inr (steps @ rest)))"

definition parseJSONPath :: "string \<Rightarrow> go_error + jsonPathStep list" where
  "parseJSONPath raw =
     (let trimmed = trim_space raw in if trimmed = [] then Inr [] else path_steps (split_on (CHR ''.'') trimmed))"

definition select_key :: "string \<Rightarrow> json \<Rightarrow> go_error + json" where
  "select_key k v =
     (if k = [] then Inr v
      else case v of
        JObj fs \<Rightarrow> (case map_of fs k of None \<Rightarrow> Inl (ErrText (''path key '' @ go_quote k @ '' not found'')) | Some w \<Rightarrow> Inr w)
      | _ \<Rightarrow> Inl (ErrText (''path expects object for key '' @ go_quote k)))"

definition select_index :: "int option \<Rightarrow> json \<Rightarrow> go_error + json" where
  "select_index index v =
     (case index of None \<Rightarrow> Inr v
      | Some i \<Rightarrow>
         (case v of
            JList xs \<Rightarrow> if int (length xs) \<le> i then Inl (ErrText (''array index '' @ show_int i @ '' out of range''))
              else Inr (xs ! nat i)
          | _ \<Rightarrow> Inl (ErrText (''path expects array for index '' @ show_int i))))"

fun applyJSONPath :: "json \<Rightarrow> jsonPathStep list \<Rightarrow> go_error + json" where
  "applyJSONPath v [] = Inr v"
| "applyJSONPath v (step # steps) =
     (case select_key (js_key step) v of Inl e \<Rightarrow> Inl e
      | Inr v \<Rightarrow> (case select_index (js_index step) v of Inl e \<Rightarrow> Inl e | Inr v \<Rightarrow> applyJSONPath v steps))"

record parsedJSONQuery =
  pq_raw :: string
  pq_steps :: "jsonPathStep list"

definition no_query :: parsedJSONQuery where
  "no_query = \<lparr>pq_raw = [], pq_steps = []\<rparr>"

definition parseJSONQuery :: "string \<Rightarrow> go_error + parsedJSONQuery" where
  "parseJSONQuery query =
     (case parseJSONPath query of Inl e \<Rightarrow> Inl e | Inr steps \<Rightarrow> Inr \<lparr>pq_raw = query, pq_steps = steps\<rparr>)"

definition jsonQueryDisplay :: "string \<Rightarrow> string" where
  "jsonQueryDisplay query = (if trim_space query = [] then ''.'' else trim_space query)"

datatype jsonQueryFormat = jsonQueryFormatText | jsonQueryFormatJSON | jsonQueryFormatJSONL

definition parseJSONQueryFormat :: "string \<Rightarrow> jsonQueryFormat option" where
  "parseJSONQueryFormat raw =
     (let t = trim_space raw in
      if t = ''text'' \<or> t = [] then Some jsonQueryFormatText
      else if t = ''json'' then Some jsonQueryFormatJSON
      else if t = ''jsonl'' then Some jsonQueryFormatJSONL
      else None)"

subsection \<open>Rows\<close>

record jsonKeysRow =
  jk_Path :: string
  jk_Query :: string
  jk_OK :: bool
  jk_Kind :: string
  jk_Count :: int
  jk_Keys :: "string list"
  jk_Error :: string

record jsonLenRow =
  jn_Path :: string
  jn_Query :: string
  jn_OK :: bool
  jn_Kind :: string
  jn_Length :: int
  jn_Error :: string

definition buildJSONKeysRow :: "json_lib \<Rightarrow> string \<Rightarrow> parsedJSONQuery \<Rightarrow> string \<Rightarrow> jsonKeysRow" where
  "buildJSONKeysRow lib filePath query raw =
     (let row = \<lparr>jk_Path = filePath, jk_Query = jsonQueryDisplay (pq_raw query), jk_OK = False, jk_Kind = ''invalid'',
            jk_Count = -1, jk_Keys = [], jk_Error = []\<rparr> in
      case unmarshal lib raw of
        Inl e \<Rightarrow> row\<lparr>jk_Error := ''invalid json: '' @ e\<rparr>
      | Inr v \<Rightarrow>
         (case applyJSONPath v (pq_steps query) of
            Inl e \<Rightarrow> row\<lparr>jk_Kind := ''error'', jk_Error := error_text e\<rparr>
          | Inr selected \<Rightarrow>
             (let row = row\<lparr>jk_Kind := fst (summarizeJSONValue selected)\<rparr> in
              case selected of
                JObj fs \<Rightarrow> row\<lparr>jk_OK := True, jk_Count := int (length fs), jk_Keys := sort (map fst fs)\<rparr>
              | _ \<Rightarrow> row\<lparr>jk_Error := ''selected value is not an object''\<rparr>)))"

definition buildJSONLenRow :: "json_lib \<Rightarrow> string \<Rightarrow> parsedJSONQuery \<Rightarrow> string \<Rightarrow> jsonLenRow" where
  "buildJSONLenRow lib filePath query raw =
     (let row = \<lparr>jn_Path = filePath, jn_Query = jsonQueryDisplay (pq_raw query), jn_OK = False, jn_Kind = ''invalid'',
            jn_Length = -1, jn_Error = []\<rparr> in
      case unmarshal lib raw of
        Inl e \<Rightarrow> row\<lparr>jn_Error := ''invalid json: '' @ e\<rparr>
      | Inr v \<Rightarrow>
         (case applyJSONPath v (pq_steps query) of
            Inl e \<Rightarrow> row\<lparr>jn_Kind := ''error'', jn_Error := error_text e\<rparr>
          | Inr selected \<Rightarrow>
             (let row = row\<lparr>jn_Kind := fst (summarizeJSONValue selected)\<rparr>;
                  sized = (\<lambda>n. row\<lparr>jn_OK := True, jn_Length := int n\<rparr>) in
              case selected of
                JObj fs \<Rightarrow> sized (length fs)
              | JList xs \<Rightarrow> sized (length xs)
              | JStr t \<Rightarrow> sized (length (rune_chunks t))
              | _ \<Rightarrow> row\<lparr>jn_Error := ''selected value does not have a length''\<rparr>)))"

definition renderJSONSize :: "int \<Rightarrow> string" where
  "renderJSONSize n = (if n < 0 then ''-'' else show_int n)"

definition dash_or :: "string \<Rightarrow> string" where
  "dash_or t = (if trim_space t \<noteq> [] then t else ''-'')"

definition dash_or_keys :: "string list \<Rightarrow> string" where
  "dash_or_keys keys = (if keys \<noteq> [] then join '','' keys else ''-'')"

definition omit_keys :: "string list \<Rightarrow> (string \<times> json) list" where
  "omit_keys keys = (if keys = [] then [] else [(''keys'', JList (map JStr keys))])"

definition keys_json :: "jsonKeysRow \<Rightarrow> json" where
  "keys_json row = JObj ([(''path'', JStr (jk_Path row)), (''query'', JStr (jk_Query row)), (''ok'', JBool (jk_OK row)),
     (''kind'', JStr (jk_Kind row)), (''count'', JInt (jk_Count row))] @ omit_keys (jk_Keys row) @
     omit_empty ''error'' (jk_Error row))"

definition len_json :: "jsonLenRow \<Rightarrow> json" where
  "len_json row = JObj ([(''path'', JStr (jn_Path row)), (''query'', JStr (jn_Query row)), (''ok'', JBool (jn_OK row)),
     (''kind'', JStr (jn_Kind row)), (''length'', JInt (jn_Length row))] @ omit_empty ''error'' (jn_Error row))"

definition columns_json :: "string list \<Rightarrow> json list \<Rightarrow> json" where
  "columns_json columns entries = JObj [(''columns'', JList (map JStr columns)), (''entries'', JList entries)]"

definition renderJSONKeys :: "jsonKeysRow list \<Rightarrow> jsonQueryFormat \<Rightarrow> string" where
  "renderJSONKeys rows format =
     (case format of
        jsonQueryFormatJSON \<Rightarrow>
          compactJSONString (columns_json [''ok'', ''query'', ''kind'', ''count'', ''keys'', ''path'', ''error''] (map keys_json rows))
      | jsonQueryFormatJSONL \<Rightarrow> lines_text (map (\<lambda>row. json_text (keys_json row)) rows)
      | jsonQueryFormatText \<Rightarrow>
          lines_text (map (\<lambda>row. join '' '' [boolYN (jk_OK row), jk_Query row, jk_Kind row, renderJSONSize (jk_Count row),
              dash_or_keys (jk_Keys row), jk_Path row, dash_or (jk_Error row)]) rows @
            [''# columns: ok query kind count keys path error'']))"

definition renderJSONLens :: "jsonLenRow list \<Rightarrow> jsonQueryFormat \<Rightarrow> string" where
  "renderJSONLens rows format =
     (case format of
        jsonQueryFormatJSON \<Rightarrow>
          compactJSONString (columns_json [''ok'', ''query'', ''kind'', ''length'', ''path'', ''error''] (map len_json rows))
      | jsonQueryFormatJSONL \<Rightarrow> lines_text (map (\<lambda>row. json_text (len_json row)) rows)
      | jsonQueryFormatText \<Rightarrow>
          lines_text (map (\<lambda>row. join '' '' [boolYN (jn_OK row), jn_Query row, jn_Kind row, renderJSONSize (jn_Length row),
              jn_Path row, dash_or (jn_Error row)]) rows @
            [''# columns: ok query kind length path error'']))"

subsection \<open>The files of a command\<close>

definition json_target :: "'e CommandRuntime \<Rightarrow> bool \<Rightarrow> string \<Rightarrow> string list \<Rightarrow> 'e sys \<Rightarrow> (go_error + string list) \<times> 'e sys" where
  "json_target rt recursive target files s =
     (case call (o_IsDirPath (rt_Ops rt)) target s of (r, s) \<Rightarrow>
        (case r of
           Inl e \<Rightarrow> (Inl e, s)
         | Inr isDir \<Rightarrow>
            (if \<not> isDir then (Inr (add_new_file files target), s)
             else if recursive then
               (case call (o_CollectFilesUnder (rt_Ops rt)) target s of (r, s) \<Rightarrow>
                 (case r of Inl e \<Rightarrow> (Inl e, s) | Inr collected \<Rightarrow> (Inr (foldl add_new_file files collected), s)))
             else
               (case listDirectoryEntriesWithDepth rt False 0 target s of (r, s) \<Rightarrow>
                 (case r of
                    Inl e \<Rightarrow> (Inl e, s)
                  | Inr entries \<Rightarrow>
                     (Inr (foldl add_new_file files (map me_Path (filter (\<lambda>e. \<not> pm_IsDir (me_Meta e)) entries))), s))))))"

fun json_targets :: "'e CommandRuntime \<Rightarrow> bool \<Rightarrow> string list \<Rightarrow> string list \<Rightarrow> 'e sys \<Rightarrow> (go_error + string list) \<times> 'e sys" where
  "json_targets rt recursive [] files s = (Inr files, s)"
| "json_targets rt recursive (t # ts) files s =
     (case json_target rt recursive t files s of (r, s) \<Rightarrow>
        (case r of Inl e \<Rightarrow> (Inl e, s) | Inr files \<Rightarrow> json_targets rt recursive ts files s))"

definition expandJSONTargets :: "'e CommandRuntime \<Rightarrow> string \<Rightarrow> string list \<Rightarrow> bool \<Rightarrow> 'e sys \<Rightarrow>
    (reply + string list) \<times> 'e sys" where
  "expandJSONTargets rt label targets recursive s =
     (case json_targets rt recursive targets [] s of (r, s) \<Rightarrow>
        (case r of
           Inl e \<Rightarrow> (Inl (named label e, ExitCodeGeneral), s)
         | Inr files \<Rightarrow> if files = [] then (Inl (label @ '': no files found'', ExitCodeGeneral), s) else (Inr (sort files), s)))"

fun read_inputs :: "'e CommandRuntime \<Rightarrow> string list \<Rightarrow> 'e sys \<Rightarrow> (go_error + (string \<times> string) list) \<times> 'e sys" where
  "read_inputs rt [] s = (Inr [], s)"
| "read_inputs rt (f # fs) s =
     (case read_raw rt f s of (r, s) \<Rightarrow>
        (case r of
           Inl e \<Rightarrow> (Inl e, s)
         | Inr raw \<Rightarrow> (case read_inputs rt fs s of (r, s) \<Rightarrow>
             (case r of Inl e \<Rightarrow> (Inl e, s) | Inr inputs \<Rightarrow> (Inr ((f, raw) # inputs), s)))))"

text \<open>The contents of a bulk read in the order of the files; the last entry of a path counts.\<close>

fun inputs_of :: "string \<Rightarrow> (string, string) gomap \<Rightarrow> string list \<Rightarrow> go_error + (string \<times> string) list" where
  "inputs_of label index [] = Inr []"
| "inputs_of label index (f # fs) =
     (case map_of index f of
        None \<Rightarrow> Inl (ErrText (label @ '': missing content for '' @ f))
      | Some raw \<Rightarrow> (case inputs_of label index fs of Inl e \<Rightarrow> Inl e | Inr inputs \<Rightarrow> Inr ((f, raw) # inputs)))"

definition readJSONInputs :: "'e CommandRuntime \<Rightarrow> string \<Rightarrow> string list \<Rightarrow> 'e sys \<Rightarrow>
    (go_error + (string \<times> string) list) \<times> 'e sys" where
  "readJSONInputs rt label files s =
     (case (if 1 < length files then o_ReadMany (rt_Ops rt) else None) of
        None \<Rightarrow> read_inputs rt files s
      | Some readMany \<Rightarrow>
         (case readMany \<lparr>rm_Paths = files, rm_MaxEntries = 0, rm_MaxBytes = 0\<rparr> s of (r, s) \<Rightarrow>
           (case r of
              Inr entries \<Rightarrow> (inputs_of label (map_puts [] (map (\<lambda>e. (ce_Path e, ce_Content e)) entries)) files, s)
            | Inl e \<Rightarrow> if AllowsUnsupportedFallback e then read_inputs rt files s else (Inl e, s))))"

text \<open>What stat, keys and len do after their arguments: the files, their contents, one row each.\<close>

definition json_rows :: "'e CommandRuntime \<Rightarrow> string \<Rightarrow> string list \<Rightarrow> bool \<Rightarrow> (string \<Rightarrow> string \<Rightarrow> 'r) \<Rightarrow> ('r list \<Rightarrow> string) \<Rightarrow>
    'e sys \<Rightarrow> reply \<times> 'e sys" where
  "json_rows rt label targets recursive row render s =
     (case expandJSONTargets rt label targets recursive s of (r, s) \<Rightarrow>
        (case r of
           Inl out \<Rightarrow> (out, s)
         | Inr files \<Rightarrow> (case readJSONInputs rt label files s of (r, s) \<Rightarrow>
             (case r of
                Inl e \<Rightarrow> ((named label e, ExitCodeGeneral), s)
              | Inr inputs \<Rightarrow> ((render (map (\<lambda>(p, raw). row p raw) inputs), 0), s)))))"

subsection \<open>stat\<close>

datatype jsonStatFormat = jsonStatFormatCompact | jsonStatFormatJSON | jsonStatFormatMD

definition parseJSONStatFormat :: "string \<Rightarrow> jsonStatFormat option" where
  "parseJSONStatFormat raw =
     (let t = trim_space raw in
      if t = ''compact'' \<or> t = [] then Some jsonStatFormatCompact
      else if t = ''json'' then Some jsonStatFormatJSON
      else if t = ''md'' then Some jsonStatFormatMD
      else None)"

record jsonStatRow =
  jr_Path :: string
  jr_Valid :: bool
  jr_Kind :: string
  jr_Size :: int
  jr_Keys :: "string list"

definition json_stat_row :: "json_lib \<Rightarrow> string \<Rightarrow> string \<Rightarrow> jsonStatRow" where
  "json_stat_row lib p raw =
     (case unmarshal lib raw of
        Inl _ \<Rightarrow> \<lparr>jr_Path = p, jr_Valid = False, jr_Kind = ''invalid'', jr_Size = -1, jr_Keys = []\<rparr>
      | Inr v \<Rightarrow> (case summarizeJSONValue v of (kind, n, keys) \<Rightarrow>
          \<lparr>jr_Path = p, jr_Valid = True, jr_Kind = kind, jr_Size = n, jr_Keys = keys\<rparr>))"

definition json_stat_json :: "jsonStatRow \<Rightarrow> json" where
  "json_stat_json row = JObj ([(''path'', JStr (jr_Path row)), (''valid'', JBool (jr_Valid row)),
     (''kind'', JStr (jr_Kind row)), (''size'', JInt (jr_Size row))] @ omit_keys (jr_Keys row))"

definition renderJSONStat :: "jsonStatRow list \<Rightarrow> jsonStatFormat \<Rightarrow> string" where
  "renderJSONStat rows format =
     (case format of
        jsonStatFormatJSON \<Rightarrow>
          compactJSONString (columns_json [''valid'', ''kind'', ''size'', ''keys'', ''path''] (map json_stat_json rows))
      | jsonStatFormatMD \<Rightarrow>
          lines_text ([''| valid | kind | size | keys | path |'', ''|---|---|---:|---|---|''] @
            map (\<lambda>row. ''| '' @ join '' | '' [boolYN (jr_Valid row), jr_Kind row, renderJSONSize (jr_Size row),
              escape_bar (join '','' (jr_Keys row)), escape_bar (jr_Path row)] @ '' |'') rows)
      | jsonStatFormatCompact \<Rightarrow>
          lines_text (map (\<lambda>row. join '' '' [boolYN (jr_Valid row), jr_Kind row, renderJSONSize (jr_Size row),
              dash_or_keys (jr_Keys row), jr_Path row]) rows @ [''# columns: valid kind size keys path'']))"

record jsonStatArgs =
  jsa_recursive :: bool
  jsa_format :: jsonStatFormat
  jsa_targets :: "string list"

fun json_stat_args :: "'e CommandRuntime \<Rightarrow> string list \<Rightarrow> jsonStatArgs \<Rightarrow> 'e sys \<Rightarrow> (string + jsonStatArgs) \<times> 'e sys" where
  "json_stat_args rt [] opts s = (Inr opts, s)"
| "json_stat_args rt (arg # args) opts s =
     (let bad = (\<lambda>v. ''json stat: unsupported --fmt value '' @ go_quote v) in
      if arg = ''-r'' then json_stat_args rt args (opts\<lparr>jsa_recursive := True\<rparr>) s
      else if arg = ''--fmt'' then
        (case args of
           [] \<Rightarrow> (Inl ''json stat: --fmt requires one value: compact|json|md'', s)
         | v # args \<Rightarrow>
            (case parseJSONStatFormat v of
               None \<Rightarrow> (Inl (bad v), s)
             | Some f \<Rightarrow> json_stat_args rt args (opts\<lparr>jsa_format := f\<rparr>) s))
      else if has_prefix arg ''--fmt='' then
        (case parseJSONStatFormat (trim_prefix arg ''--fmt='') of
           None \<Rightarrow> (Inl (bad (trim_prefix arg ''--fmt='')), s)
         | Some f \<Rightarrow> json_stat_args rt args (opts\<lparr>jsa_format := f\<rparr>) s)
      else if has_prefix arg ''-'' then (Inl (''json stat: unsupported flag '' @ arg), s)
      else (case require_path rt arg s of (r, s) \<Rightarrow>
        (case r of
           Inl e \<Rightarrow> (Inl (named ''json stat'' e), s)
         | Inr p \<Rightarrow> json_stat_args rt args (opts\<lparr>jsa_targets := jsa_targets opts @ [p]\<rparr>) s)))"

definition runJSONStat :: "json_lib \<Rightarrow> 'e builtin" where
  "runJSONStat lib rt args s =
     (case json_stat_args rt args \<lparr>jsa_recursive = False, jsa_format = jsonStatFormatCompact, jsa_targets = []\<rparr> s of (r, s) \<Rightarrow>
        (case r of
           Inl m \<Rightarrow> ((m, ExitCodeUsage), s)
         | Inr opts \<Rightarrow>
            (if jsa_targets opts = [] then ((''json stat: expected at least one path'', ExitCodeUsage), s)
             else json_rows rt ''json stat'' (jsa_targets opts) (jsa_recursive opts) (json_stat_row lib)
               (\<lambda>rows. renderJSONStat rows (jsa_format opts)) s)))"

subsection \<open>keys and len\<close>

record jsonBatchQueryOptions =
  jb_recursive :: bool
  jb_query :: parsedJSONQuery
  jb_format :: jsonQueryFormat
  jb_targets :: "string list"

text \<open>A \<open>--path\<close> of get, keys and len.\<close>

definition query_value :: "string \<Rightarrow> string \<Rightarrow> string + string" where
  "query_value label v = (let q = trim_space v in if q = [] then Inl (label @ '': path must not be empty'') else Inr q)"

definition batch_query :: "string \<Rightarrow> string \<Rightarrow> string + parsedJSONQuery" where
  "batch_query label v =
     (case query_value label v of Inl m \<Rightarrow> Inl m
      | Inr q \<Rightarrow> (case parseJSONQuery q of Inl e \<Rightarrow> Inl (named label e) | Inr query \<Rightarrow> Inr query))"

fun batch_args :: "'e CommandRuntime \<Rightarrow> string \<Rightarrow> string list \<Rightarrow> jsonBatchQueryOptions \<Rightarrow> 'e sys \<Rightarrow>
    (string + jsonBatchQueryOptions) \<times> 'e sys" where
  "batch_args rt label [] opts s = (Inr opts, s)"
| "batch_args rt label (arg # args) opts s =
     (let bad = (\<lambda>v. label @ '': unsupported --fmt value '' @ go_quote v) in
      if arg = ''-r'' then batch_args rt label args (opts\<lparr>jb_recursive := True\<rparr>) s
      else if arg = ''--path'' then
        (case args of
           [] \<Rightarrow> (Inl (label @ '': --path requires a value''), s)
         | v # args \<Rightarrow>
            (case batch_query label v of
               Inl m \<Rightarrow> (Inl m, s) | Inr query \<Rightarrow> batch_args rt label args (opts\<lparr>jb_query := query\<rparr>) s))
      else if has_prefix arg ''--path='' then
        (case batch_query label (trim_prefix arg ''--path='') of
           Inl m \<Rightarrow> (Inl m, s) | Inr query \<Rightarrow> batch_args rt label args (opts\<lparr>jb_query := query\<rparr>) s)
      else if arg = ''--fmt'' then
        (case args of
           [] \<Rightarrow> (Inl (label @ '': --fmt requires one value: text|json|jsonl''), s)
         | v # args \<Rightarrow>
            (case parseJSONQueryFormat v of
               None \<Rightarrow> (Inl (bad v), s) | Some f \<Rightarrow> batch_args rt label args (opts\<lparr>jb_format := f\<rparr>) s))
      else if has_prefix arg ''--fmt='' then
        (case parseJSONQueryFormat (trim_prefix arg ''--fmt='') of
           None \<Rightarrow> (Inl (bad (trim_prefix arg ''--fmt='')), s)
         | Some f \<Rightarrow> batch_args rt label args (opts\<lparr>jb_format := f\<rparr>) s)
      else if has_prefix arg ''-'' then (Inl (label @ '': unsupported flag '' @ arg), s)
      else (case require_path rt arg s of (r, s) \<Rightarrow>
        (case r of
           Inl e \<Rightarrow> (Inl (named label e), s)
         | Inr p \<Rightarrow> batch_args rt label args (opts\<lparr>jb_targets := jb_targets opts @ [p]\<rparr>) s)))"

definition parseJSONBatchQueryArgs :: "'e CommandRuntime \<Rightarrow> string \<Rightarrow> string list \<Rightarrow> 'e sys \<Rightarrow>
    (string + jsonBatchQueryOptions) \<times> 'e sys" where
  "parseJSONBatchQueryArgs rt label args s =
     (case batch_args rt label args
         \<lparr>jb_recursive = False, jb_query = no_query, jb_format = jsonQueryFormatText, jb_targets = []\<rparr> s of (r, s) \<Rightarrow>
        (case r of
           Inl m \<Rightarrow> (Inl m, s)
         | Inr opts \<Rightarrow> if jb_targets opts = [] then (Inl (label @ '': expected at least one path''), s) else (Inr opts, s)))"

definition runJSONKeys :: "json_lib \<Rightarrow> 'e builtin" where
  "runJSONKeys lib rt args s =
     (case parseJSONBatchQueryArgs rt ''json keys'' args s of (r, s) \<Rightarrow>
        (case r of
           Inl m \<Rightarrow> ((m, ExitCodeUsage), s)
         | Inr opts \<Rightarrow> json_rows rt ''json keys'' (jb_targets opts) (jb_recursive opts)
             (\<lambda>p raw. buildJSONKeysRow lib p (jb_query opts) raw) (\<lambda>rows. renderJSONKeys rows (jb_format opts)) s))"

definition runJSONLen :: "json_lib \<Rightarrow> 'e builtin" where
  "runJSONLen lib rt args s =
     (case parseJSONBatchQueryArgs rt ''json len'' args s of (r, s) \<Rightarrow>
        (case r of
           Inl m \<Rightarrow> ((m, ExitCodeUsage), s)
         | Inr opts \<Rightarrow> json_rows rt ''json len'' (jb_targets opts) (jb_recursive opts)
             (\<lambda>p raw. buildJSONLenRow lib p (jb_query opts) raw) (\<lambda>rows. renderJSONLens rows (jb_format opts)) s))"

subsection \<open>get\<close>

record jsonGetArgs =
  jg_queries :: "string list"
  jg_raw :: bool
  jg_format :: jsonQueryFormat
  jg_path :: string

text \<open>\<open>--fmt\<close> of get takes json and jsonl only.\<close>

definition get_format :: "string \<Rightarrow> string + jsonQueryFormat" where
  "get_format v =
     (case parseJSONQueryFormat v of
        Some f \<Rightarrow> if f = jsonQueryFormatText then Inl (''json get: unsupported --fmt value '' @ go_quote v) else Inr f
      | None \<Rightarrow> Inl (''json get: unsupported --fmt value '' @ go_quote v))"

fun json_get_args :: "'e CommandRuntime \<Rightarrow> string list \<Rightarrow> jsonGetArgs \<Rightarrow> 'e sys \<Rightarrow> (string + jsonGetArgs) \<times> 'e sys" where
  "json_get_args rt [] opts s = (Inr opts, s)"
| "json_get_args rt (arg # args) opts s =
     (if arg = ''--raw'' then json_get_args rt args (opts\<lparr>jg_raw := True\<rparr>) s
      else if arg = ''--fmt'' then
        (case args of
           [] \<Rightarrow> (Inl ''json get: --fmt requires one value: json|jsonl'', s)
         | v # args \<Rightarrow>
            (case get_format v of
               Inl m \<Rightarrow> (Inl m, s) | Inr f \<Rightarrow> json_get_args rt args (opts\<lparr>jg_format := f\<rparr>) s))
      else if has_prefix arg ''--fmt='' then
        (case get_format (trim_prefix arg ''--fmt='') of
           Inl m \<Rightarrow> (Inl m, s) | Inr f \<Rightarrow> json_get_args rt args (opts\<lparr>jg_format := f\<rparr>) s)
      else if arg = ''--path'' then
        (case args of
           [] \<Rightarrow> (Inl ''json get: --path requires a value'', s)
         | v # args \<Rightarrow>
            (case query_value ''json get'' v of
               Inl m \<Rightarrow> (Inl m, s) | Inr q \<Rightarrow> json_get_args rt args (opts\<lparr>jg_queries := jg_queries opts @ [q]\<rparr>) s))
      else if has_prefix arg ''--path='' then
        (case query_value ''json get'' (trim_prefix arg ''--path='') of
           Inl m \<Rightarrow> (Inl m, s) | Inr q \<Rightarrow> json_get_args rt args (opts\<lparr>jg_queries := jg_queries opts @ [q]\<rparr>) s)
      else if has_prefix arg ''-'' then (Inl (''json get: unsupported flag '' @ arg), s)
      else if jg_path opts \<noteq> [] then (Inl ''json get: expected exactly one file path'', s)
      else (case require_path rt arg s of (r, s) \<Rightarrow>
        (case r of
           Inl e \<Rightarrow> (Inl (named ''json get'' e), s)
         | Inr p \<Rightarrow> json_get_args rt args (opts\<lparr>jg_path := p\<rparr>) s)))"

fun get_queries :: "string list \<Rightarrow> string list \<Rightarrow> string + parsedJSONQuery list" where
  "get_queries seen [] = Inr []"
| "get_queries seen (q # qs) =
     (if q \<in> set seen then Inl (''json get: duplicate --path value '' @ go_quote q)
      else case parseJSONQuery q of
        Inl e \<Rightarrow> Inl (named ''json get'' e)
      | Inr query \<Rightarrow> (case get_queries (q # seen) qs of Inl m \<Rightarrow> Inl m | Inr queries \<Rightarrow> Inr (query # queries)))"

definition renderJSONGetMulti :: "string \<Rightarrow> parsedJSONQuery list \<Rightarrow> (string, json) gomap \<Rightarrow> jsonQueryFormat \<Rightarrow> bool \<Rightarrow> string" where
  "renderJSONGetMulti p queries vals format rawOutput =
     (case format of
        jsonQueryFormatJSONL \<Rightarrow>
          lines_text (map (\<lambda>q. json_text (JObj [(''path'', JStr p), (''query'', JStr (jsonQueryDisplay (pq_raw q))),
            (''value'', case map_of vals (pq_raw q) of None \<Rightarrow> JNull | Some v \<Rightarrow> key_sorted v)])) queries)
      | jsonQueryFormatJSON \<Rightarrow> compactJSONString (key_sorted (JObj vals))
      | jsonQueryFormatText \<Rightarrow>
          (if rawOutput then compactJSONString (key_sorted (JObj vals)) else prettyJSONString (key_sorted (JObj vals))))"

definition get_one :: "string \<Rightarrow> parsedJSONQuery \<Rightarrow> jsonQueryFormat \<Rightarrow> bool \<Rightarrow> json \<Rightarrow> string" where
  "get_one p query format rawOutput selected =
     (case format of
        jsonQueryFormatJSONL \<Rightarrow> renderJSONGetMulti p [query] [(pq_raw query, selected)] format rawOutput
      | jsonQueryFormatJSON \<Rightarrow> compactJSONString (key_sorted selected)
      | jsonQueryFormatText \<Rightarrow>
          (case selected of
             JStr t \<Rightarrow> t
           | JObj _ \<Rightarrow> if rawOutput then compactJSONString (key_sorted selected) else prettyJSONString (key_sorted selected)
           | JList _ \<Rightarrow> if rawOutput then compactJSONString (key_sorted selected) else prettyJSONString (key_sorted selected)
           | _ \<Rightarrow> json_text selected))"

fun select_all :: "json \<Rightarrow> parsedJSONQuery list \<Rightarrow> (string, json) gomap \<Rightarrow> go_error + (string, json) gomap" where
  "select_all v [] vals = Inr vals"
| "select_all v (q # qs) vals =
     (case applyJSONPath v (pq_steps q) of Inl e \<Rightarrow> Inl e | Inr w \<Rightarrow> select_all v qs (map_put (pq_raw q) w vals))"

definition get_reply :: "json_lib \<Rightarrow> jsonGetArgs \<Rightarrow> parsedJSONQuery list \<Rightarrow> string \<Rightarrow> reply" where
  "get_reply lib opts queries raw =
     (case unmarshal lib raw of
        Inl e \<Rightarrow> (''json get: invalid json: '' @ e, ExitCodeGeneral)
      | Inr v \<Rightarrow>
         (if length (jg_queries opts) \<le> 1 then
            (let query = (case queries of [q] \<Rightarrow> q | _ \<Rightarrow> no_query) in
             case applyJSONPath v (pq_steps query) of
               Inl e \<Rightarrow> (named ''json get'' e, ExitCodeGeneral)
             | Inr selected \<Rightarrow> (get_one (jg_path opts) query (jg_format opts) (jg_raw opts) selected, 0))
          else (case select_all v queries [] of
             Inl e \<Rightarrow> (named ''json get'' e, ExitCodeGeneral)
           | Inr vals \<Rightarrow> (renderJSONGetMulti (jg_path opts) queries vals (jg_format opts) (jg_raw opts), 0))))"

definition runJSONGet :: "json_lib \<Rightarrow> 'e builtin" where
  "runJSONGet lib rt args s =
     (case json_get_args rt args \<lparr>jg_queries = [], jg_raw = False, jg_format = jsonQueryFormatText, jg_path = []\<rparr> s of (r, s) \<Rightarrow>
        (case r of
           Inl m \<Rightarrow> ((m, ExitCodeUsage), s)
         | Inr opts \<Rightarrow>
            (if jg_path opts = [] then ((''json get: expected one file path'', ExitCodeUsage), s)
             else case get_queries [] (jg_queries opts) of
               Inl m \<Rightarrow> ((m, ExitCodeUsage), s)
             | Inr queries \<Rightarrow>
                (if jg_raw opts \<and> jg_format opts = jsonQueryFormatJSONL
                 then ((''json get: --raw is not supported with --fmt jsonl'', ExitCodeUsage), s)
                 else if jg_format opts = jsonQueryFormatJSONL \<and> jg_queries opts = []
                 then ((''json get: --fmt jsonl requires at least one --path'', ExitCodeUsage), s)
                 else (case call (o_IsDirPath (rt_Ops rt)) (jg_path opts) s of (r, s) \<Rightarrow>
                   (case r of
                      Inl e \<Rightarrow> ((named ''json get'' e, ExitCodeGeneral), s)
                    | Inr isDir \<Rightarrow>
                       (if isDir then ((''json get: '' @ jg_path opts @ '': is a directory'', ExitCodeUsage), s)
                        else (case read_raw rt (jg_path opts) s of (r, s) \<Rightarrow>
                          (case r of
                             Inl e \<Rightarrow> ((named ''json get'' e, ExitCodeGeneral), s)
                           | Inr raw \<Rightarrow> (get_reply lib opts queries raw, s))))))))))"

definition runJSON :: "json_lib \<Rightarrow> 'e builtin" where
  "runJSON lib rt args s =
     (case args of
        [] \<Rightarrow> ((''json: expected subcommand: stat|get|keys|len'', ExitCodeUsage), s)
      | a # args \<Rightarrow>
         (let sub = trim_space a in
          if sub = ''stat'' then runJSONStat lib rt args s
          else if sub = ''get'' then runJSONGet lib rt args s
          else if sub = ''keys'' then runJSONKeys lib rt args s
          else if sub = ''len'' then runJSONLen lib rt args s
          else ((''json: unsupported subcommand '' @ sub, ExitCodeUsage), s)))"

end
