(* ===== verification/Go_Json_Roundtrip.thy ===== *)
theory Go_Json_Roundtrip
  imports Go_Json
begin

section \<open>Decoding what was encoded\<close>

text \<open>What a reader of an encoded value gets: invalid bytes are replaced, numbers are the \<open>float64\<close> of their text, the
  last of equal keys stays.\<close>

definition shown_runes :: "string \<Rightarrow> string" where
  "shown_runes s = concat (map show_rune (rune_chunks s))"

fun decoded :: "(string \<Rightarrow> string option) \<Rightarrow> json \<Rightarrow> json" where
  "decoded num JNull = JNull"
| "decoded num (JBool b) = JBool b"
| "decoded num (JInt i) = JNum (the (num (show_int i)))"
| "decoded num (JNum t) = JNum (the (num t))"
| "decoded num (JStr s) = JStr (shown_runes s)"
| "decoded num (JList xs) = JList (map (decoded num) xs)"
| "decoded num (JObj fs) = JObj (map_puts [] (map (\<lambda>(k, v). (shown_runes k, decoded num v)) fs))"

fun int_values :: "json \<Rightarrow> int list" where
  "int_values (JInt i) = [i]"
| "int_values (JList xs) = concat (map int_values xs)"
| "int_values (JObj fs) = concat (map (\<lambda>(k, v). int_values v) fs)"
| "int_values _ = []"

fun nesting :: "json \<Rightarrow> nat" where
  "nesting (JList xs) = Suc (foldr max (map nesting xs) 0)"
| "nesting (JObj fs) = Suc (foldr max (map (\<lambda>(k, v). nesting v) fs) 0)"
| "nesting _ = 0"

lemma foldr_max_le: "foldr max ns 0 \<le> (m :: nat) \<longleftrightarrow> (\<forall>n \<in> set ns. n \<le> m)"
  by (induction ns) auto

subsection \<open>Strings\<close>

lemma byte_of_eq: "byte_of c = byte_of d \<longleftrightarrow> c = d"
  by (simp add: byte_of_def)

lemma hex_val_digit: "k < 16 \<Longrightarrow> hex_val (hex_digit k) = Some k"
  by (auto simp: hex_val_def hex_digit_def byte_of_def is_digit_def Let_def)

lemma text_before_one: "text_before [c] x = map_option (\<lambda>(y, u). (c # y, u)) x"
  by (cases x) auto

lemma unquote_byte:
  assumes "byte_of c < 128" shows "unquote (json_byte c @ t) = text_before [c] (unquote t)"
proof -
  have small: "byte_of c div 16 < 16" "byte_of c mod 16 < 16" using assms by simp_all
  have hex: "hex4 (CHR ''0'' # CHR ''0'' # hex_digit (byte_of c div 16) # hex_digit (byte_of c mod 16) # t) = Some (byte_of c, t)"
    using hex_val_digit [of 0] hex_val_digit [OF small(1)] hex_val_digit [OF small(2)]
    by (simp add: hex_digit_def hex_val_def is_digit_def byte_of_def Let_def)
  have enc: "escaped_rune (byte_of c) t = ([c], t)"
    using assms by (simp add: escaped_rune_def utf8_encode_def byte_of_def)
  have width: "snd (decode_rune (c # t)) = 1" "show_rune [c] = [c]"
    using assms by (simp_all add: decode_rune_def utf8_width_def show_rune_def byte_of_def Let_def)
  have control: "byte_of c = 8 \<longleftrightarrow> c = CHR 0x08" "byte_of c = 12 \<longleftrightarrow> c = CHR 0x0C" "byte_of c = 10 \<longleftrightarrow> c = newline"
      "byte_of c = 13 \<longleftrightarrow> c = carriage" "byte_of c = 9 \<longleftrightarrow> c = tab"
    by (simp_all flip: byte_of_eq) (simp_all add: byte_of_def)
  show ?thesis
  proof (cases "c = dquote \<or> c = backslash")
    case True
    then show ?thesis by (auto simp: json_byte_def unquote.simps(2) simple_escape_def)
  next
    case quote: False
    show ?thesis
    proof (cases "byte_of c \<in> {8, 12, 10, 13, 9}")
      case True
      then show ?thesis unfolding insert_iff empty_iff control
        by (elim disjE) (simp_all add: json_byte_def unquote.simps(2) simple_escape_def byte_of_def)
    next
      case plain: False
      show ?thesis
      proof (cases "byte_of c < 32 \<or> c = CHR ''<'' \<or> c = CHR ''>'' \<or> c = CHR ''&''")
        case True
        then have "json_byte c = backslash # CHR ''u'' # [CHR ''0'', CHR ''0'', hex_digit (byte_of c div 16), hex_digit (byte_of c mod 16)]"
          using quote plain unfolding json_byte_def Let_def by simp
        then show ?thesis by (simp add: unquote.simps(2) hex enc del: hex4.simps)
      next
        case False
        then have "json_byte c = [c]" using quote plain unfolding json_byte_def Let_def by simp
        then show ?thesis using quote False by (simp add: unquote.simps(2) width)
      qed
    qed
  qed
qed

lemma utf8_width_append: "utf8_width r = Some k \<Longrightarrow> utf8_width (r @ t) = Some k"
proof (cases r)
  case (Cons c u)
  define A where "A = (\<lambda>u i lo hi. i < length u \<and> cont_byte lo hi (u ! i))"
  have w: "utf8_width (c # u) =
      (let n = (of_char c :: nat) in
       if n < 128 then Some 1
       else if 194 \<le> n \<and> n \<le> 223 then (if A u 0 128 191 then Some 2 else None)
       else if 224 \<le> n \<and> n \<le> 239 then
         (if A u 0 (if n = 224 then 160 else 128) (if n = 237 then 159 else 191) \<and> A u 1 128 191 then Some 3 else None)
       else if 240 \<le> n \<and> n \<le> 244 then
         (if A u 0 (if n = 240 then 144 else 128) (if n = 244 then 143 else 191) \<and> A u 1 128 191 \<and> A u 2 128 191
          then Some 4 else None)
       else None)" for u
    unfolding utf8_width_def A_def by (simp only: list.case Let_def)
  have more: "A u i lo hi \<Longrightarrow> A (u @ t) i lo hi" for i lo hi by (simp add: A_def nth_append)
  show "utf8_width r = Some k \<Longrightarrow> utf8_width (r @ t) = Some k"
    unfolding Cons append_Cons w Let_def by (split if_split_asm | simp add: more)+
qed (simp add: utf8_width_def)

lemma unquote_rune:
  assumes r: "utf8_width r = Some (length r) \<or> utf8_width r = None \<and> length r = 1"
  shows "unquote (json_rune r @ t) = text_before (show_rune r) (unquote t)"
proof -
  have vals: "hex_val (CHR ''f'') = Some 15" "hex_val (CHR ''d'') = Some 13" "hex_val (CHR ''2'') = Some 2"
      "hex_val (CHR ''0'') = Some 0" "hex_val (CHR ''8'') = Some 8" "hex_val (CHR ''9'') = Some 9" by code_simp+
  have hex: "hex4 (''fffd'' @ t) = Some (65533, t)" "hex4 (''2028'' @ t) = Some (8232, t)" "hex4 (''2029'' @ t) = Some (8233, t)"
    by (simp_all add: vals)
  have "utf8_encode 65533 = replacement" "utf8_encode 8232 = [CHR 0xE2, CHR 0x80, CHR 0xA8]"
      "utf8_encode 8233 = [CHR 0xE2, CHR 0x80, CHR 0xA9]"
    by (simp_all add: utf8_encode_def replacement_def flip: byte_of_eq) (simp_all add: byte_of_def)
  then have enc: "escaped_rune 65533 t = (replacement, t)" "escaped_rune 8232 t = ([CHR 0xE2, CHR 0x80, CHR 0xA8], t)"
      "escaped_rune 8233 t = ([CHR 0xE2, CHR 0x80, CHR 0xA9], t)"
    by (simp_all add: escaped_rune_def)
  have u: "unquote (backslash # CHR ''u'' # x @ t) = text_before y (unquote t)"
    if "hex4 (x @ t) = Some (n, t)" "escaped_rune n t = (y, t)" for x y n
    using that by (simp add: unquote.simps(2))
  have seps: "utf8_width [CHR 0xE2, CHR 0x80, CHR 0xA8] = Some 3" "utf8_width [CHR 0xE2, CHR 0x80, CHR 0xA9] = Some 3"
    by code_simp+
  show ?thesis
  proof (cases "utf8_width r")
    case None
    then show ?thesis using u [OF hex(1) enc(1)] by (simp add: json_rune_def show_rune_def replacement_def)
  next
    case (Some k)
    then have w: "utf8_width r = Some (length r)" using r by simp
    then have shown: "show_rune r = r" by (simp add: show_rune_def)
    consider "r = [CHR 0xE2, CHR 0x80, CHR 0xA8]" | "r = [CHR 0xE2, CHR 0x80, CHR 0xA9]"
      | (byte) c where "r = [c]"
      | (long) "length r \<noteq> 1" "r \<noteq> [CHR 0xE2, CHR 0x80, CHR 0xA8]" "r \<noteq> [CHR 0xE2, CHR 0x80, CHR 0xA9]"
      by (cases "length r = 1") (auto simp: length_Suc_conv)
    then show ?thesis
    proof cases
      case 1
      then show ?thesis using u [OF hex(2) enc(2)] seps by (simp add: json_rune_def show_rune_def)
    next
      case 2
      then show ?thesis using u [OF hex(3) enc(3)] seps by (simp add: json_rune_def show_rune_def)
    next
      case byte
      then have "byte_of c < 128" using w by (auto simp: utf8_width_def byte_of_def Let_def split: if_splits)
      moreover have "json_rune r = json_byte c" using w by (simp add: byte json_rune_def)
      ultimately show ?thesis using unquote_byte shown byte by simp
    next
      case long
      obtain c r' where rc: "r = c # r'" using w utf8_width_pos by (cases r) auto
      have "\<not> (of_char c :: nat) < 128" using w long(1) by (auto simp: rc utf8_width_def Let_def split: if_splits)
      then have c: "c \<noteq> dquote" "c \<noteq> backslash" "\<not> byte_of c < 32" by (auto simp: byte_of_def)
      have "utf8_width (r @ t) = Some (length r)" using w by (rule utf8_width_append)
      then have "snd (decode_rune (c # r' @ t)) = length r" by (simp add: rc decode_rune_def Let_def)
      moreover have "json_rune r = r" using w long by (auto simp: json_rune_def split: list.splits)
      ultimately show ?thesis using c
        by (simp add: rc unquote.simps(2) shown [unfolded rc])
    qed
  qed
qed

lemma unquote_string: "unquote (concat (map json_rune (rune_chunks s)) @ dquote # rest) = Some (shown_runes s, rest)"
proof -
  have "(\<And>r. r \<in> set rs \<Longrightarrow> utf8_width r = Some (length r) \<or> utf8_width r = None \<and> length r = 1) \<Longrightarrow>
      unquote (concat (map json_rune rs) @ dquote # rest) = Some (concat (map show_rune rs), rest)" for rs
  proof (induction rs)
    case Nil
    then show ?case by (simp add: unquote.simps(2))
  next
    case (Cons r rs)
    then show ?case using unquote_rune [of r "concat (map json_rune rs) @ dquote # rest"] by simp
  qed
  then show ?thesis using rune_chunks_width by (simp add: shown_runes_def)
qed

subsection \<open>Numbers\<close>

text \<open>What may follow a value in an encoded text.\<close>

definition stops :: "string \<Rightarrow> bool" where
  "stops rest \<longleftrightarrow> rest = [] \<or> hd rest \<in> {CHR '','', CHR '']'', CHR ''}''}"

lemma stops_simps [simp]:
  "stops []" "stops (CHR '','' # t)" "stops (CHR '']'' # t)" "stops (CHR ''}'' # t)"
  by (simp_all add: stops_def)

lemma stops_skip: "stops rest \<Longrightarrow> skip_space rest = rest"
  by (cases rest) (auto simp: stops_def skip_space_def json_space_def)

lemma stops_number: "stops rest \<Longrightarrow> takeWhile is_digit rest = [] \<and> dropWhile is_digit rest = rest \<and>
    \<not> has_prefix rest ''.'' \<and> \<not> has_prefix rest ''e'' \<and> \<not> has_prefix rest ''E''"
  by (cases rest) (auto simp: stops_def is_digit_def has_prefix_def)

lemma show_nat_head: "n \<noteq> 0 \<Longrightarrow> hd (show_nat n) \<noteq> CHR ''0''"
proof (induction n rule: show_nat.induct)
  case (1 n)
  show ?case
  proof (cases "n < 10")
    case True
    have "digit_char n \<noteq> CHR ''0''" using True 1(2)
      by (simp add: digit_char_def flip: byte_of_eq) (simp add: byte_of_def)
    then show ?thesis using True by (simp add: show_nat.simps [of n])
  next
    case False
    then have "show_nat (n div 10) \<noteq> []" using show_nat_digits by auto
    then show ?thesis using 1 False by (simp add: show_nat.simps [of n])
  qed
qed

lemma digits_at_all: "list_all is_digit ds \<Longrightarrow> ds \<noteq> [] \<Longrightarrow> stops rest \<Longrightarrow> digits_at (ds @ rest) = Some (ds, rest)"
  using stops_number [of rest] by (simp add: digits_at_def Let_def takeWhile_append2 dropWhile_append2 list_all_iff)

lemma scan_integer_show: "stops rest \<Longrightarrow> scan_integer (show_nat n @ rest) = Some (show_nat n, rest)"
proof (cases "n = 0")
  case True
  have "show_nat 0 = ''0''" by code_simp
  then show ?thesis using True by (simp add: scan_integer_def has_prefix_def)
next
  case False
  assume s: "stops rest"
  have ds: "list_all is_digit (show_nat n)" "show_nat n \<noteq> []" using show_nat_digits by auto
  then have "\<not> has_prefix (show_nat n @ rest) ''0''"
    using show_nat_head [OF False] by (cases "show_nat n") (auto simp: has_prefix_def)
  then show ?thesis using digits_at_all [OF ds s] by (simp add: scan_integer_def)
qed

lemma scan_number_show: "stops rest \<Longrightarrow> scan_number (show_int i @ rest) = Some (show_int i, rest)"
proof -
  assume s: "stops rest"
  have plain: "\<not> has_prefix (show_nat n @ rest) ''-''" for n
    using show_nat_digits [of n] by (cases "show_nat n") (auto simp: has_prefix_def is_digit_def)
  have tail: "scan_fraction rest = Some ([], rest)" "scan_exponent rest = Some ([], rest)"
    using stops_number [OF s] by (simp_all add: scan_fraction_def scan_exponent_def)
  show ?thesis
  proof (cases "i < 0")
    case True
    then show ?thesis by (simp add: scan_number_def show_int_def Let_def scan_integer_show [OF s] tail has_prefix_def)
  next
    case False
    then show ?thesis using plain by (simp add: scan_number_def show_int_def Let_def scan_integer_show [OF s] tail)
  qed
qed

subsection \<open>Values\<close>

lemma string_head: "json_string s @ t = dquote # concat (map json_rune (rune_chunks s)) @ dquote # t"
  by (simp add: json_string_def)

lemma scan_string: "scan_scalar num (json_string s @ rest) = Some (JStr (shown_runes s), rest)"
  by (simp add: scan_scalar_def string_head has_prefix_def unquote_string)

text \<open>A byte that begins a value: no blank and no closing bracket.\<close>

definition value_start :: "char \<Rightarrow> bool" where
  "value_start c \<longleftrightarrow> \<not> json_space c \<and> c \<noteq> CHR '']'' \<and> c \<noteq> CHR ''}''"

lemma show_int_start: "\<exists>c t. show_int i = c # t \<and> (c = CHR ''-'' \<or> is_digit c)"
proof (cases "i < 0")
  case False
  then show ?thesis using show_nat_digits [of "nat i"] by (cases "show_nat (nat i)") (auto simp: show_int_def)
qed (simp add: show_int_def)

lemma text_start: "number_texts v = [] \<Longrightarrow> \<exists>c t. json_text v = c # t \<and> value_start c"
proof (cases v)
  case (JInt i)
  then show ?thesis using show_int_start [of i]
    by (auto simp: value_start_def json_space_def is_digit_def)
next
  case (JStr x)
  then show ?thesis by (simp add: json_string_def value_start_def json_space_def)
qed (auto simp: value_start_def json_space_def)

lemma skip_text: "number_texts v = [] \<Longrightarrow> skip_space (json_text v @ rest) = json_text v @ rest"
  using text_start [of v] by (auto simp: skip_space_def value_start_def)

lemma join_concat: "join sep (x # xs) = x @ concat (map (\<lambda>y. sep @ y) xs)"
  by (induction xs arbitrary: x) simp_all

text \<open>Parsing one value, with some fuel.\<close>

definition parses :: "(string \<Rightarrow> string option) \<Rightarrow> json \<Rightarrow> bool" where
  "parses num v \<longleftrightarrow> (\<forall>d rest. d + nesting v \<le> max_nesting \<longrightarrow> stops rest \<longrightarrow>
     (\<exists>f. parse_value num f d (json_text v @ rest) = Some (decoded num v, rest)))"

lemma parse_listed:
  assumes "\<And>x. x \<in> set (x0 # xs) \<Longrightarrow> parses num x \<and> d + nesting x \<le> max_nesting" and "stops rest"
  shows "\<exists>f. parse_elements num f d acc (join '','' (map json_text (x0 # xs)) @ '']'' @ rest) =
    Some (JList (acc @ map (decoded num) (x0 # xs)), rest)"
  using assms(1)
proof (induction xs arbitrary: x0 acc)
  case Nil
  then obtain f where "parse_value num f d (json_text x0 @ '']'' @ rest) = Some (decoded num x0, '']'' @ rest)"
    unfolding parses_def by (metis append_Cons append_Nil list.set_intros(1) stops_simps(3))
  then have "parse_elements num (Suc f) d acc (json_text x0 @ '']'' @ rest) = Some (JList (acc @ [decoded num x0]), rest)"
    by (simp add: parse_step Let_def skip_space_def json_space_def has_prefix_def)
  then show ?case by auto
next
  case (Cons x1 xs)
  let ?more = "join '','' (map json_text (x1 # xs)) @ '']'' @ rest"
  obtain f where f: "parse_value num f d (json_text x0 @ '','' @ ?more) = Some (decoded num x0, '','' @ ?more)"
    using Cons.prems [of x0] unfolding parses_def by (metis append_Cons append_Nil list.set_intros(1) stops_simps(2))
  obtain g where g: "parse_elements num g d (acc @ [decoded num x0]) ?more =
      Some (JList ((acc @ [decoded num x0]) @ map (decoded num) (x1 # xs)), rest)"
    using Cons.IH [of x1 "acc @ [decoded num x0]"] Cons.prems by auto
  have "parse_elements num (Suc (max f g)) d acc (json_text x0 @ '','' @ ?more) =
      Some (JList (acc @ map (decoded num) (x0 # x1 # xs)), rest)"
    using parse_more_fuel(1) [OF f, of "max f g"] parse_more_fuel(2) [OF g, of "max f g"]
    by (simp add: parse_step Let_def skip_space_def json_space_def has_prefix_def)
  then show ?case by auto
qed

lemma scan_key_string: "scan_key (json_string k @ '':'' @ t) = Some (shown_runes k, t)"
  by (simp add: scan_key_def string_head has_prefix_def skip_space_def json_space_def unquote_string)

lemma parse_membered:
  assumes "\<And>k x. (k, x) \<in> set (x0 # xs) \<Longrightarrow> parses num x \<and> d + nesting x \<le> max_nesting" and "stops rest"
  shows "\<exists>f. parse_members num f d acc
      (join '','' (map (\<lambda>(k, v). json_string k @ '':'' @ json_text v) (x0 # xs)) @ ''}'' @ rest) =
    Some (JObj (map_puts acc (map (\<lambda>(k, v). (shown_runes k, decoded num v)) (x0 # xs))), rest)"
  using assms(1)
proof (induction xs arbitrary: x0 acc)
  case Nil
  obtain k x where x0: "x0 = (k, x)" by (cases x0)
  obtain f where "parse_value num f d (json_text x @ ''}'' @ rest) = Some (decoded num x, ''}'' @ rest)"
    using Nil [of k x] unfolding parses_def x0 by (metis append_Cons append_Nil list.set_intros(1) stops_simps(4))
  then have "parse_members num (Suc f) d acc (json_string k @ '':'' @ json_text x @ ''}'' @ rest) =
      Some (JObj (map_put (shown_runes k) (decoded num x) acc), rest)"
    unfolding parse_step scan_key_string by (simp add: Let_def skip_space_def json_space_def has_prefix_def)
  then show ?case by (auto simp: x0 map_puts_def)
next
  case (Cons x1 xs)
  obtain k x where x0: "x0 = (k, x)" by (cases x0)
  let ?m = "map (\<lambda>(k, v). json_string k @ '':'' @ json_text v)"
  let ?more = "join '','' (?m (x1 # xs)) @ ''}'' @ rest"
  let ?acc = "map_put (shown_runes k) (decoded num x) acc"
  obtain f where f: "parse_value num f d (json_text x @ '','' @ ?more) = Some (decoded num x, '','' @ ?more)"
    using Cons.prems [of k x] unfolding parses_def x0 by (metis append_Cons append_Nil list.set_intros(1) stops_simps(2))
  obtain g where g: "parse_members num g d ?acc ?more =
      Some (JObj (map_puts ?acc (map (\<lambda>(k, v). (shown_runes k, decoded num v)) (x1 # xs))), rest)"
    using Cons.IH [of x1 ?acc] Cons.prems by auto
  have "parse_members num (Suc (max f g)) d acc (json_string k @ '':'' @ json_text x @ '','' @ ?more) =
      Some (JObj (map_puts ?acc (map (\<lambda>(k, v). (shown_runes k, decoded num v)) (x1 # xs))), rest)"
    unfolding parse_step scan_key_string
    using parse_more_fuel(1) [OF f, of "max f g"] parse_more_fuel(3) [OF g, of "max f g"]
    by (simp add: Let_def skip_space_def json_space_def has_prefix_def)
  then show ?case by (auto simp: x0 map_puts_def)
qed

lemma parse_one_step:
  assumes "scan_scalar num s = Some r" and "skip_space s = s" and "\<not> has_prefix s ''[''" and "\<not> has_prefix s ''{''"
  shows "\<exists>f. parse_value num f d s = Some r"
  using assms by (intro exI [of _ 1]) (simp add: parse_step Let_def)

lemma bracketed:
  assumes "number_texts v = []" shows "skip_space (json_text v @ t) = json_text v @ t"
    "\<not> has_prefix (json_text v @ t) '']''" "\<not> has_prefix (json_text v @ t) ''}''"
  using skip_text [OF assms] text_start [OF assms] by (auto simp: has_prefix_def value_start_def)

lemma joined_text:
  assumes "number_texts x = []"
  shows "skip_space (join '','' (map json_text (x # xs)) @ t) = join '','' (map json_text (x # xs)) @ t \<and>
    \<not> has_prefix (join '','' (map json_text (x # xs)) @ t) '']''"
  using bracketed [OF assms, of "concat (map (\<lambda>y. '','' @ y) (map json_text xs)) @ t"] by (simp add: join_concat)

lemma joined_members:
  "skip_space (join '','' (map (\<lambda>(k, v). json_string k @ '':'' @ json_text v) (kv # kvs)) @ t) =
     join '','' (map (\<lambda>(k, v). json_string k @ '':'' @ json_text v) (kv # kvs)) @ t \<and>
   \<not> has_prefix (join '','' (map (\<lambda>(k, v). json_string k @ '':'' @ json_text v) (kv # kvs)) @ t) ''}''"
  by (cases kv) (simp add: join_concat string_head skip_space_def json_space_def has_prefix_def)

lemma text_parses:
  "number_texts v = [] \<Longrightarrow> \<forall>i \<in> set (int_values v). num (show_int i) \<noteq> None \<Longrightarrow> parses num v"
proof (induction v rule: json_text.induct)
  case (3 i)
  obtain c t where c: "show_int i = c # t" "c = CHR ''-'' \<or> is_digit c" using show_int_start by blast
  have "\<exists>f. parse_value num f d (show_int i @ rest) = Some (decoded num (JInt i), rest)" if "stops rest" for d rest
  proof (rule parse_one_step)
    show "scan_scalar num (show_int i @ rest) = Some (decoded num (JInt i), rest)"
      using c scan_number_show [OF that, of i] 3(2) by (auto simp: scan_scalar_def has_prefix_def is_digit_def)
  qed (use c in \<open>auto simp: has_prefix_def is_digit_def skip_space_def json_space_def\<close>)
  then show ?case by (simp add: parses_def)
next
  case (5 x)
  have "\<exists>f. parse_value num f d (json_string x @ rest) = Some (decoded num (JStr x), rest)" for d rest
    by (rule parse_one_step)
      (simp_all add: scan_string, simp_all add: json_string_def has_prefix_def skip_space_def json_space_def)
  then show ?case by (simp add: parses_def)
next
  case (6 xs)
  have all: "parses num x" if "x \<in> set xs" for x using 6 that by auto
  have "\<exists>f. parse_value num f d (json_text (JList xs) @ rest) = Some (decoded num (JList xs), rest)"
    if d: "d + nesting (JList xs) \<le> max_nesting" and rest: "stops rest" for d rest
  proof (cases xs)
    case Nil
    then show ?thesis using d
      by (intro exI [of _ 1]) (simp add: parse_step Let_def has_prefix_def skip_space_def json_space_def)
  next
    case (Cons x ys)
    have "Suc d + nesting y \<le> max_nesting" if "y \<in> set xs" for y
      using d that foldr_max_le [of "map nesting xs" "max_nesting - Suc d"] by auto
    then obtain f where f: "parse_elements num f (Suc d) [] (join '','' (map json_text (x # ys)) @ '']'' @ rest) =
        Some (JList (map (decoded num) (x # ys)), rest)"
      using parse_listed [OF _ rest, of x ys num "Suc d" "[]"] all Cons by auto
    have "number_texts x = []" using 6(2) Cons by simp
    note j = joined_text [OF this, of ys "'']'' @ rest"]
    have "parse_value num (Suc f) d (json_text (JList xs) @ rest) = Some (decoded num (JList xs), rest)"
      using f j d unfolding Cons
      by (simp add: parse_step Let_def has_prefix_def [of "_ # _"] skip_space_def [of "_ # _"] json_space_def del: list.map(2) join.simps)
    then show ?thesis by blast
  qed
  then show ?case by (simp add: parses_def)
next
  case (7 fs)
  have all: "parses num x" if "(k, x) \<in> set fs" for k x
    using 7(1) [OF that refl] 7(2,3) that by auto
  have "\<exists>f. parse_value num f d (json_text (JObj fs) @ rest) = Some (decoded num (JObj fs), rest)"
    if d: "d + nesting (JObj fs) \<le> max_nesting" and rest: "stops rest" for d rest
  proof (cases fs)
    case Nil
    then show ?thesis using d
      by (intro exI [of _ 1]) (simp add: parse_step Let_def has_prefix_def skip_space_def json_space_def map_puts_def)
  next
    case (Cons kv kvs)
    have "Suc d + nesting y \<le> max_nesting" if "(k, y) \<in> set fs" for k y
      using d that foldr_max_le [of "map (\<lambda>(k, v). nesting v) fs" "max_nesting - Suc d"] by auto
    then obtain f where f: "parse_members num f (Suc d) []
          (join '','' (map (\<lambda>(k, v). json_string k @ '':'' @ json_text v) (kv # kvs)) @ ''}'' @ rest) =
        Some (JObj (map_puts [] (map (\<lambda>(k, v). (shown_runes k, decoded num v)) (kv # kvs))), rest)"
      using parse_membered [OF _ rest, of kv kvs num "Suc d" "[]"] all Cons by blast
    note j = joined_members [of kv kvs "''}'' @ rest"]
    have "parse_value num (Suc f) d (json_text (JObj fs) @ rest) = Some (decoded num (JObj fs), rest)"
      using f j d unfolding Cons
      by (simp add: parse_step Let_def has_prefix_def [of "_ # _"] skip_space_def [of "_ # _"] json_space_def del: list.map(2) join.simps)
    then show ?thesis by blast
  qed
  then show ?case by (simp add: parses_def)
qed (auto simp: parses_def intro!: parse_one_step simp: scan_scalar_def scan_literal_def has_prefix_def skip_space_def json_space_def is_digit_def)

text \<open>Whatever the builtins encode is JSON the package accepts again, and reading it gives the value that was written:
  the same fields in the same order, with invalid bytes of strings replaced and integers as \<open>float64\<close>.\<close>

theorem json_decode_text:
  assumes "number_texts v = []" and "\<forall>i \<in> set (int_values v). num (show_int i) \<noteq> None" and "nesting v \<le> max_nesting"
  shows "json_decode num (json_text v) = Some (decoded num v)"
proof -
  obtain f where f: "parse_value num f 0 (json_text v) = Some (decoded num v, [])"
    using text_parses [OF assms(1,2)] assms(3) unfolding parses_def by (metis add_0 append_Nil2 stops_simps(1))
  have "parse_value num (json_fuel (json_text v)) 0 (json_text v) = Some (decoded num v, [])"
    using parse_more_fuel(1) [OF parse_enough_fuel(1) [OF f]] by (simp add: json_fuel_def)
  then show ?thesis by (simp add: json_decode_def skip_space_def)
qed

end
