(* ===== verification/Builtin_Json_Laws.thy ===== *)
theory Builtin_Json_Laws
  imports Builtin_Json Builtin_Search Go_Json_Roundtrip
begin

section \<open>What the builtins print as JSON can be read again\<close>

text \<open>The lines and values that the builtins print with \<open>--fmt json\<close> and \<open>--fmt jsonl\<close> against the builtin json that reads
  them: the printed text splits into its lines, each line parses, and the value read is the record printed, with
  the replacement character for bytes that are not UTF-8.\<close>

lemma splitRawLines_join:
  assumes "ls \<noteq> []" and "\<And>l. l \<in> set ls \<Longrightarrow> newline \<notin> set l" and "last ls \<noteq> []"
  shows "splitRawLines (join [newline] ls) = ls"
proof -
  obtain xs l where ls: "ls = xs @ [l]" using assms(1) by (metis rev_exhaust)
  have join: "join [newline] (xs @ [l]) = concat (map (\<lambda>x. x @ [newline]) xs) @ l" for xs l
    by (induction xs rule: join.induct [of _ "[newline]"]) auto
  have "l \<noteq> []" "newline \<notin> set l" using assms ls by auto
  then have "trim_suffix (join [newline] ls) [newline] = join [newline] ls"
    unfolding ls join by (cases l rule: rev_cases) (auto simp: trim_suffix_def has_suffix_def)
  moreover have "join [newline] ls \<noteq> []" unfolding ls join using \<open>l \<noteq> []\<close> by simp
  ultimately show ?thesis using split_on_join [of ls newline] assms by (simp add: splitRawLines_def)
qed

lemma search_json_numbers: "number_texts (search_json r) = []" "int_values (search_json r) = [rec_Line r]"
    "nesting (search_json r) = 1"
  by (simp_all add: search_json_def omit_empty_def omit_false_def)

text \<open>Text that is valid UTF-8 comes out as it went in; in other text the bytes that are no encoding are replaced.\<close>

lemma shown_runes_valid: "valid_utf8 s \<Longrightarrow> shown_runes s = s"
proof (induction s rule: rune_chunks.induct)
  case (1 s)
  show ?case
  proof (cases "s = []")
    case False
    then obtain k where k: "utf8_width s = Some k" "valid_utf8 (drop k s)"
      using "1.prems" by (auto simp: valid_utf8.simps [of s] split: option.splits)
    then have "snd (decode_rune s) = k" by (simp add: decode_rune_def Let_def)
    with 1 False k show ?thesis
      by (simp add: shown_runes_def rune_chunks.simps [of s] show_rune_def utf8_width_take)
  qed (simp add: shown_runes_def)
qed

text \<open>Reading the fields of a record from the value that the decoder returns.\<close>

definition json_field :: "string \<Rightarrow> json \<Rightarrow> json option" where
  "json_field k v = (case v of JObj fs \<Rightarrow> map_of fs k | _ \<Rightarrow> None)"

definition json_text_field :: "string \<Rightarrow> json \<Rightarrow> string" where
  "json_text_field k v = (case json_field k v of Some (JStr t) \<Rightarrow> t | _ \<Rightarrow> [])"

definition json_int_field :: "string \<Rightarrow> json \<Rightarrow> int option" where
  "json_int_field k v = (case json_field k v of Some (JNum t) \<Rightarrow> atoi t | _ \<Rightarrow> None)"

definition read_search_record :: "json \<Rightarrow> searchRecord option" where
  "read_search_record v =
     map_option (\<lambda>n. \<lparr>rec_Path = json_text_field ''path'' v, rec_Name = json_text_field ''name'' v,
        rec_Stdin = (json_field ''stdin'' v = Some (JBool True)), rec_Line = n,
        rec_Kind = json_text_field ''kind'' v, rec_Text = json_text_field ''text'' v\<rparr>)
       (json_int_field ''line'' v)"

definition shown_record :: "searchRecord \<Rightarrow> searchRecord" where
  "shown_record r = r\<lparr>rec_Path := shown_runes (rec_Path r), rec_Name := shown_runes (rec_Name r),
     rec_Kind := shown_runes (rec_Kind r), rec_Text := shown_runes (rec_Text r)\<rparr>"

definition valid_record :: "searchRecord \<Rightarrow> bool" where
  "valid_record r \<longleftrightarrow> valid_utf8 (rec_Path r) \<and> valid_utf8 (rec_Name r) \<and> valid_utf8 (rec_Kind r) \<and> valid_utf8 (rec_Text r)"

lemma shown_record_valid: "valid_record r \<Longrightarrow> shown_record r = r"
  by (simp add: valid_record_def shown_record_def shown_runes_valid)

text \<open>Documented of \<open>encoding/json\<close>: a whole number that a \<open>float64\<close> holds exactly is decoded as it stands.\<close>

definition exact_numbers :: "json_lib \<Rightarrow> bool" where
  "exact_numbers lib \<longleftrightarrow> (\<forall>n. 0 \<le> n \<and> n \<le> 2 ^ 53 \<longrightarrow> jl_num lib (show_int n) = Some (show_int n))"

lemma shown_names:
  "shown_runes ''path'' = ''path''" "shown_runes ''name'' = ''name''" "shown_runes ''stdin'' = ''stdin''"
  "shown_runes ''line'' = ''line''" "shown_runes ''kind'' = ''kind''" "shown_runes ''text'' = ''text''"
  by code_simp+

lemma read_search_json:
  assumes "exact_numbers lib" "0 \<le> rec_Line r" "rec_Line r \<le> 2 ^ 53"
  shows "read_search_record (decoded (jl_num lib) (search_json r)) = Some (shown_record r)"
proof -
  have "jl_num lib (show_int (rec_Line r)) = Some (show_int (rec_Line r))" using assms by (simp add: exact_numbers_def)
  moreover have "atoi (show_int (rec_Line r)) = Some (rec_Line r)"
    using assms by (intro atoi_show_int) (simp add: in_int_range_def min_int_def max_int_def)
  moreover have "shown_runes [] = []" by (simp add: shown_runes_def)
  ultimately show ?thesis
    by (cases r) (simp add: search_json_def omit_empty_def omit_false_def shown_names read_search_record_def json_field_def
        json_text_field_def json_int_field_def shown_record_def)
qed

lemma search_jsonl_values:
  assumes "\<forall>r \<in> set recs. jl_num lib (show_int (rec_Line r)) \<noteq> None"
  shows "map (unmarshal lib) (splitRawLines (renderSearchJSONL recs)) =
    map (\<lambda>r. Inr (decoded (jl_num lib) (search_json r))) recs"
proof (cases "recs = []")
  case False
  have line: "json_text (search_json r) \<noteq> []" "newline \<notin> set (json_text (search_json r))" for r
    using text_start [OF search_json_numbers(1) [of r]]
      printing_no_newline [OF json_text_printing, of "search_json r"] by (auto simp: search_json_numbers)
  have "splitRawLines (renderSearchJSONL recs) = map (\<lambda>r. json_text (search_json r)) recs"
    unfolding renderSearchJSONL_def by (rule splitRawLines_join) (use False line in \<open>auto simp: last_map\<close>)
  moreover have "unmarshal lib (json_text (search_json r)) = Inr (decoded (jl_num lib) (search_json r))"
    if "r \<in> set recs" for r
    using json_decode_text [OF search_json_numbers(1), of r "jl_num lib"] assms that
    by (simp add: unmarshal_def search_json_numbers max_nesting_def)
  ultimately show ?thesis by simp
qed (simp add: renderSearchJSONL_def splitRawLines_def trim_suffix_def)

text \<open>C35. The lines that grep and rg print with \<open>--fmt jsonl\<close> are JSON that the builtin json accepts. If the line numbers lie
  between 0 and 2 to the power 53, the values decoded from the lines, one by one, hold the fields of the records, in order,
  with the bytes that are not UTF-8 replaced by the replacement character; if the texts of the records are valid UTF-8, they are the records.\<close>

theorem search_jsonl_readable:
  assumes "exact_numbers lib" and "\<forall>r \<in> set recs. 0 \<le> rec_Line r \<and> rec_Line r \<le> 2 ^ 53"
  shows "\<exists>vs. map (unmarshal lib) (splitRawLines (renderSearchJSONL recs)) = map Inr vs \<and>
    map read_search_record vs = map (\<lambda>r. Some (shown_record r)) recs \<and>
    (list_all valid_record recs \<longrightarrow> map read_search_record vs = map Some recs)"
proof -
  let ?vs = "map (\<lambda>r. decoded (jl_num lib) (search_json r)) recs"
  have "\<forall>r \<in> set recs. jl_num lib (show_int (rec_Line r)) \<noteq> None" using assms by (auto simp: exact_numbers_def)
  from search_jsonl_values [OF this] have "map (unmarshal lib) (splitRawLines (renderSearchJSONL recs)) = map Inr ?vs" by simp
  moreover have "map read_search_record ?vs = map (\<lambda>r. Some (shown_record r)) recs"
    using read_search_json [OF assms(1)] assms(2) by simp
  moreover have "list_all valid_record recs \<Longrightarrow> map (\<lambda>r. Some (shown_record r)) recs = map Some recs"
    by (simp add: list_all_iff shown_record_valid)
  ultimately show ?thesis by metis
qed

definition quoted_record :: searchRecord where
  "quoted_record = \<lparr>rec_Path = ''/a'', rec_Name = [], rec_Stdin = False, rec_Line = 3, rec_Kind = ''match'', rec_Text = [dquote]\<rparr>"

theorem search_jsonl_readable_witness:
  "\<exists>v. map (unmarshal \<lparr>jl_num = Some, jl_error = (\<lambda>t. [])\<rparr>) (splitRawLines (renderSearchJSONL [quoted_record])) = [Inr v] \<and>
     read_search_record v = Some quoted_record"
proof -
  have "exact_numbers \<lparr>jl_num = Some, jl_error = (\<lambda>t. [])\<rparr>" by (simp add: exact_numbers_def)
  moreover have "\<forall>r \<in> set [quoted_record]. 0 \<le> rec_Line r \<and> rec_Line r \<le> 2 ^ 53" by (simp add: quoted_record_def)
  ultimately obtain vs where vs:
    "map (unmarshal \<lparr>jl_num = Some, jl_error = (\<lambda>t. [])\<rparr>) (splitRawLines (renderSearchJSONL [quoted_record])) = map Inr vs"
    "list_all valid_record [quoted_record] \<longrightarrow> map read_search_record vs = map Some [quoted_record]"
    using search_jsonl_readable by blast
  have "list_all valid_record [quoted_record]" by code_simp
  with vs obtain v where "vs = [v]" "read_search_record v = Some quoted_record" by auto
  with vs(1) show ?thesis by auto
qed

end
