(* ===== verification/Builtin_Frontmatter_Laws.thy ===== *)
theory Builtin_Frontmatter_Laws
  imports Builtin_Frontmatter
begin

section \<open>What frontmatter reads\<close>

text \<open>The lines of a key lie inside the block, begin with the first line of the key and end before the next key; a key is
  found exactly if \<open>stat\<close> lists it. A context that overflows an \<open>int\<close> makes \<open>print\<close> panic.\<close>

abbreviation key_of :: "string \<Rightarrow> string option" where
  "key_of \<equiv> parseTopLevelFrontMatterKey"

lemma key_of_nonempty: "key_of l = Some k \<Longrightarrow> k \<noteq> []"
  by (auto simp: parseTopLevelFrontMatterKey_def Let_def split: if_splits option.splits)

lemma parsed_block:
  assumes "fb_HasFrontMatter (parseMarkdownFrontMatter raw)"
  shows "fb_Lines (parseMarkdownFrontMatter raw) = splitRawLines raw \<and> fb_StartLine (parseMarkdownFrontMatter raw) = 1 \<and>
    fb_EndLine (parseMarkdownFrontMatter raw) = int (length (fb_HeaderLines (parseMarkdownFrontMatter raw))) + 2 \<and>
    fb_HeaderLines (parseMarkdownFrontMatter raw) = takeWhile (\<lambda>l. \<not> is_rule l) (tl (splitRawLines raw)) \<and>
    length (fb_HeaderLines (parseMarkdownFrontMatter raw)) + 1 < length (splitRawLines raw)"
proof -
  define ls where "ls = splitRawLines raw"
  define hs where "hs = takeWhile (\<lambda>l. \<not> is_rule l) (tl ls)"
  have "length hs \<le> length (tl ls)" unfolding hs_def by (rule length_takeWhile_le)
  then show ?thesis
    using assms unfolding parseMarkdownFrontMatter_def no_block_def Let_def ls_def [symmetric] hs_def [symmetric]
    by (auto split: if_splits)
qed

lemma takeWhile_stops: "takeWhile P xs \<noteq> xs \<Longrightarrow> length (takeWhile P xs) < length xs \<and> \<not> P (xs ! length (takeWhile P xs))"
proof -
  assume ne: "takeWhile P xs \<noteq> xs"
  have "length (takeWhile P xs) < length xs"
    using ne by (metis length_takeWhile_le linorder_neqE_nat not_le take_all_iff takeWhile_eq_take)
  then show ?thesis using nth_length_takeWhile by blast
qed

lemma map_filter_set: "set (List.map_filter f xs) = {y. \<exists>x \<in> set xs. f x = Some y}"
  by (induction xs) (auto simp: List.map_filter_simps split: option.splits)

text \<open>The range in terms of positions in the header.\<close>

lemma key_range_spec:
  assumes "key_range n fin k hs = Some (a, b)" and "fin = n + int (length hs)"
  shows "\<exists>i j. a = n + int i \<and> b = n + int j \<and> i \<le> j \<and> j < length hs \<and> key_of (hs ! i) = Some k \<and>
    (\<forall>m < i. key_of (hs ! m) \<noteq> Some k) \<and> (\<forall>m. i < m \<and> m \<le> j \<longrightarrow> key_of (hs ! m) = None) \<and>
    (Suc j < length hs \<longrightarrow> key_of (hs ! Suc j) \<noteq> None)"
  using assms
proof (induction n fin k hs rule: key_range.induct)
  case (2 n fin k h hs)
  show ?case
  proof (cases "key_of h = Some k")
    case True
    define rest where "rest = takeWhile (\<lambda>l. key_of l = None) hs"
    have "a = n \<and> b = (if rest = hs then fin - 1 else n + int (length rest))"
      using 2(2) True by (simp add: rest_def [symmetric] Let_def)
    then have ab: "a = n" "b = n + int (length rest)" using 2(3) by (auto split: if_splits)
    have len: "length rest \<le> length hs" unfolding rest_def by (rule length_takeWhile_le)
    have inner: "key_of (hs ! m) = None" if "m < length rest" for m
      using that by (metis (mono_tags, lifting) nth_mem rest_def set_takeWhileD takeWhile_nth)
    have next_key: "key_of (hs ! length rest) \<noteq> None" if "length rest < length hs"
      using that takeWhile_stops [of "\<lambda>l. key_of l = None" hs] unfolding rest_def by fastforce
    have "\<forall>m. 0 < m \<and> m \<le> length rest \<longrightarrow> key_of ((h # hs) ! m) = None"
      using inner by (auto simp: nth_Cons split: nat.splits)
    then show ?thesis
      using ab len next_key True by (intro exI [of _ 0] exI [of _ "length rest"]) auto
  next
    case False
    have rec: "key_range (n + 1) fin k hs = Some (a, b)" using 2(2) False by simp
    have "fin = n + 1 + int (length hs)" using 2(3) by simp
    from "2.IH" [OF False rec this] obtain i j where
      ij: "a = n + 1 + int i" "b = n + 1 + int j" "i \<le> j" "j < length hs" "key_of (hs ! i) = Some k"
        "\<forall>m < i. key_of (hs ! m) \<noteq> Some k" "\<forall>m. i < m \<and> m \<le> j \<longrightarrow> key_of (hs ! m) = None"
        "Suc j < length hs \<longrightarrow> key_of (hs ! Suc j) \<noteq> None" by blast
    have "\<forall>m < Suc i. key_of ((h # hs) ! m) \<noteq> Some k" using ij(6) False by (auto simp: nth_Cons split: nat.splits)
    moreover have "\<forall>m. Suc i < m \<and> m \<le> Suc j \<longrightarrow> key_of ((h # hs) ! m) = None"
      using ij(7) by (auto simp: nth_Cons split: nat.splits)
    ultimately show ?thesis using ij(1-5,8) by (intro exI [of _ "Suc i"] exI [of _ "Suc j"]) auto
  qed
qed simp

lemma key_range_None: "key_range n fin k hs = None \<longleftrightarrow> (\<forall>h \<in> set hs. key_of h \<noteq> Some k)"
  by (induction n fin k hs rule: key_range.induct) (auto simp: Let_def)

text \<open>C36. \<open>frontmatter get --key\<close> finds a key exactly if \<open>frontmatter stat\<close> lists it. The lines it finds lie strictly between
  the rules, the first of them is the first line with the key, no further key is among them, and they end at the next key
  or the end of the block.\<close>

theorem frontmatter_key_lines:
  assumes "fb_HasFrontMatter (parseMarkdownFrontMatter raw)"
  shows "case findFrontMatterKeyRange (parseMarkdownFrontMatter raw) key of
      None \<Rightarrow> trim_space key \<notin> set (frontMatterKeys (parseMarkdownFrontMatter raw))
    | Some (a, b) \<Rightarrow>
        trim_space key \<in> set (frontMatterKeys (parseMarkdownFrontMatter raw)) \<and>
        fb_StartLine (parseMarkdownFrontMatter raw) < a \<and> a \<le> b \<and> b < fb_EndLine (parseMarkdownFrontMatter raw) \<and>
        key_of (splitRawLines raw ! nat (a - 1)) = Some (trim_space key) \<and>
        (\<forall>m. 0 < m \<and> m < nat (a - 1) \<longrightarrow> key_of (splitRawLines raw ! m) \<noteq> Some (trim_space key)) \<and>
        (\<forall>m. nat a \<le> m \<and> m < nat b \<longrightarrow> key_of (splitRawLines raw ! m) = None) \<and>
        (key_of (splitRawLines raw ! nat b) \<noteq> None \<or> b + 1 = fb_EndLine (parseMarkdownFrontMatter raw))"
proof -
  define ls where "ls = splitRawLines raw"
  define hs where "hs = fb_HeaderLines (parseMarkdownFrontMatter raw)"
  define k where "k = trim_space key"
  note block = parsed_block [OF assms, folded ls_def hs_def]
  have keys: "set (frontMatterKeys (parseMarkdownFrontMatter raw)) = {k. \<exists>h \<in> set hs. key_of h = Some k}"
    using assms by (simp add: frontMatterKeys_def hs_def [symmetric] map_filter_set set_dedupe_from)
  have found: "findFrontMatterKeyRange (parseMarkdownFrontMatter raw) key =
      (if k = [] then None else key_range 2 (int (length hs) + 2) k hs)"
    using assms block by (simp add: findFrontMatterKeyRange_def k_def [symmetric] hs_def [symmetric] Let_def)
  have line: "ls ! Suc m = hs ! m" if "m < length hs" for m
  proof -
    have "m < length (takeWhile (\<lambda>l. \<not> is_rule l) (tl ls))" using that block by simp
    then have "takeWhile (\<lambda>l. \<not> is_rule l) (tl ls) ! m = tl ls ! m" by (rule takeWhile_nth)
    moreover have "m < length (tl ls)" using \<open>m < length (takeWhile _ (tl ls))\<close> length_takeWhile_le [of _ "tl ls"] by (rule less_le_trans)
    ultimately show ?thesis using block by (simp add: nth_tl)
  qed
  show ?thesis
  proof (cases "findFrontMatterKeyRange (parseMarkdownFrontMatter raw) key")
    case None
    have "key_of h \<noteq> Some k" if "h \<in> set hs" for h
      using None found that key_range_None [of 2 "int (length hs) + 2" k hs] key_of_nonempty [of h k] by (cases "k = []") auto
    then show ?thesis using None keys by (auto simp: k_def)
  next
    case (Some ab)
    then obtain a b where ab: "ab = (a, b)" "key_range 2 (int (length hs) + 2) k hs = Some (a, b)"
      using found by (cases ab) (auto split: if_splits)
    obtain i j where ij: "a = 2 + int i" "b = 2 + int j" "i \<le> j" "j < length hs" "key_of (hs ! i) = Some k"
        "\<forall>m < i. key_of (hs ! m) \<noteq> Some k" "\<forall>m. i < m \<and> m \<le> j \<longrightarrow> key_of (hs ! m) = None"
        "Suc j < length hs \<longrightarrow> key_of (hs ! Suc j) \<noteq> None"
      using key_range_spec [OF ab(2)] by auto
    have at: "nat (a - 1) = Suc i" "nat a = Suc (Suc i)" "nat b = Suc (Suc j)" using ij(1,2) by simp_all
    have "k \<in> set (frontMatterKeys (parseMarkdownFrontMatter raw))" unfolding keys using ij(3-5) by auto
    moreover have "key_of (ls ! Suc i) = Some k" using ij(3-5) line by simp
    moreover have "key_of (ls ! m) \<noteq> Some k" if "0 < m" "m < Suc i" for m
      using that ij(3,4,6) line [of "m - 1"] by (cases m) auto
    moreover have "key_of (ls ! m) = None" if "Suc (Suc i) \<le> m" "m < Suc (Suc j)" for m
      using that ij(4,7) line [of "m - 1"] by (cases m) auto
    moreover have "key_of (ls ! Suc (Suc j)) \<noteq> None \<or> b + 1 = int (length hs) + 2"
      using ij(2,4,8) line [of "Suc j"] by (cases "Suc j < length hs") auto
    moreover have "1 < a \<and> a \<le> b \<and> b < int (length hs) + 2" using ij(1-4) by simp
    ultimately show ?thesis using Some ab(1) block by (simp add: at ls_def [symmetric] k_def [symmetric])
  qed
qed

theorem frontmatter_key_lines_witness:
  "findFrontMatterKeyRange (parseMarkdownFrontMatter (join [newline] [''---'', ''a: 1'', '' x'', ''b: 2'', ''---''])) ''a'' = Some (2, 3) \<and>
   ''a'' \<in> set (frontMatterKeys (parseMarkdownFrontMatter (join [newline] [''---'', ''a: 1'', '' x'', ''b: 2'', ''---''])))"
proof -
  let ?raw = "join [newline] [''---'', ''a: 1'', '' x'', ''b: 2'', ''---'']"
  have has: "fb_HasFrontMatter (parseMarkdownFrontMatter ?raw)" by code_simp
  have range: "findFrontMatterKeyRange (parseMarkdownFrontMatter ?raw) ''a'' = Some (2, 3)" by code_simp
  have "trim_space ''a'' = ''a''" by code_simp
  then show ?thesis using frontmatter_key_lines [OF has, of "''a''"] range by simp
qed

text \<open>The crash: a context of the greatest \<open>int\<close> behind the block.\<close>

lemma frontmatter_print_panics:
  "renderLineRange [''---'', ''a: 1'', ''---''] 1 3 0 max_int False = None"
  by (simp add: renderLineRange_def max_int_def add_int_def)

end
