(* ===== verification/Builtin_Commands.thy ===== *)
theory Builtin_Commands
  imports Builtin_Frontmatter Builtin_Json Orchestrator
begin

section \<open>The builtins about commands and the environment (\<open>pkg/builtin\<close>: cd, pwd, env, date, which, type, man)\<close>

text \<open>
  \<open>which\<close> and \<open>type\<close> read the aliases, the builtins and the external commands and say what a name would run; \<open>man\<close> shows
  or lists their manuals. The lookups of a runtime that the engine makes are never nil, so the nil tests of the code are
  its \<open>rt_\<close> fields; \<open>date\<close> reads a clock, a parameter.
\<close>

subsection \<open>Paths, directories (\<open>op_environment.go\<close>, \<open>op_command_lookup.go\<close>)\<close>

text \<open>The package has a normalisation of its own: the components on a stack.\<close>

fun stack_step :: "string list \<Rightarrow> string \<Rightarrow> string list" where
  "stack_step stack part =
     (if part = [] \<or> part = ''.'' then stack
      else if part = ''..'' then butlast stack
      else stack @ [part])"

definition stackAbsolutePath :: "string \<Rightarrow> string" where
  "stackAbsolutePath raw =
     (let trimmed = trim_space raw in
      if trimmed = [] then ''/''
      else let trimmed = (if has_prefix trimmed ''/'' then trimmed else CHR ''/'' # trimmed);
               stack = foldl stack_step [] (split_on (CHR ''/'') trimmed)
           in if stack = [] then ''/'' else CHR ''/'' # join ''/'' stack)"

definition runCd :: "'e builtin" where
  "runCd rt args s =
     (case o_ChangeWorkingDir (rt_Ops rt) of
        None \<Rightarrow> ((''cd: not supported'', ExitCodeUnsupported), s)
      | Some change \<Rightarrow>
         (if length args > 1 then ((''cd: expected zero or one argument'', ExitCodeUsage), s)
          else case change (if args = [] then [] else hd args) s of
            (Inl err, s) \<Rightarrow> ((named ''cd'' err, ExitCodeGeneral), s)
          | (Inr _, s) \<Rightarrow> (([], 0), s)))"

definition runPwd :: "'e builtin" where
  "runPwd rt args s =
     (if args \<noteq> [] then ((''pwd: expected no arguments'', ExitCodeUsage), s)
      else ((stackAbsolutePath (currentWorkingDir (rt_Ops rt) s), 0), s))"

subsection \<open>The environment (\<open>op_environment.go\<close>)\<close>

record envVarRecord =
  ev_Key :: string
  ev_Value :: string
  ev_Parts :: "string list"
  ev_Found :: bool

definition env_json :: "envVarRecord \<Rightarrow> json" where
  "env_json r = JObj ([(''key'', JStr (ev_Key r))] @ omit_empty ''value'' (ev_Value r) @
     (if ev_Parts r = [] then [] else [(''parts'', JList (map JStr (ev_Parts r)))]) @ omit_false ''found'' (ev_Found r))"

fun path_parts :: "string list \<Rightarrow> string list \<Rightarrow> string list" where
  "path_parts parts [] = parts"
| "path_parts parts (raw # raws) =
     (let p = stackAbsolutePath raw in
      if p = ''/'' \<or> p \<in> set parts then path_parts parts raws
      else if p = VirtualSystemBinDir \<or> p = VirtualExternalBinDir then path_parts parts raws
      else path_parts (parts @ [p]) raws)"

definition buildEnvVars :: "'e Ops \<Rightarrow> env_map" where
  "buildEnvVars ops =
     (let vars = NormalizeEnvVars (o_EnvVars ops);
          parts = path_parts [VirtualSystemBinDir, VirtualExternalBinDir] (o_PathEnv ops);
          path = (case map_of vars ''PATH'' of None \<Rightarrow> [] | Some v \<Rightarrow> v)
      in if trim_space path = [] then map_put ''PATH'' (join '':'' parts) vars else vars)"

definition splitEnvVarValue :: "string \<Rightarrow> string \<Rightarrow> string list" where
  "splitEnvVarValue key v =
     (if trim_space key \<noteq> ''PATH'' then []
      else if trim_space v = [] then []
      else filter (\<lambda>p. p \<noteq> []) (map trim_space (split_on (CHR '':'') v)))"

record envArgs =
  ea_json :: bool
  ea_split :: bool
  ea_key :: string

fun env_args :: "string list \<Rightarrow> envArgs \<Rightarrow> reply + envArgs" where
  "env_args [] a = Inr a"
| "env_args (arg # args) a =
     (if arg = ''--json'' then env_args args (a\<lparr>ea_json := True\<rparr>)
      else if arg = ''--split'' then env_args args (a\<lparr>ea_split := True\<rparr>)
      else if ea_key a \<noteq> [] then Inl (''env: expected at most one variable name'', ExitCodeUsage)
      else if trim_space arg = [] then Inl (''env: variable name must not be empty'', ExitCodeUsage)
      else env_args args (a\<lparr>ea_key := trim_space arg\<rparr>))"

definition env_record :: "string \<Rightarrow> string \<Rightarrow> envVarRecord" where
  "env_record k v = \<lparr>ev_Key = k, ev_Value = v, ev_Parts = splitEnvVarValue k v, ev_Found = True\<rparr>"

definition env_one :: "envArgs \<Rightarrow> string option \<Rightarrow> string" where
  "env_one a found =
     (let key = ea_key a in
      if ea_split a then (case found of None \<Rightarrow> [] | Some v \<Rightarrow> lines_text (splitEnvVarValue key v))
      else if ea_json a then
        json_text (env_json (case found of
          None \<Rightarrow> \<lparr>ev_Key = key, ev_Value = [], ev_Parts = [], ev_Found = False\<rparr>
        | Some v \<Rightarrow> env_record key v))
      else (case found of None \<Rightarrow> [] | Some v \<Rightarrow> key @ ''='' @ v))"

definition env_all :: "bool \<Rightarrow> env_map \<Rightarrow> string" where
  "env_all jsonOutput vars =
     (let rows = sort_key fst vars in
      if jsonOutput then json_text (JObj [(''vars'', JList (map (\<lambda>(k, v). env_json (env_record k v)) rows))])
      else lines_text (map (\<lambda>(k, v). k @ ''='' @ v) rows))"

definition runEnv :: "'e builtin" where
  "runEnv rt args s =
     (case env_args args \<lparr>ea_json = False, ea_split = False, ea_key = []\<rparr> of
        Inl out \<Rightarrow> (out, s)
      | Inr a \<Rightarrow>
         (if ea_split a \<and> ea_key a = []
          then ((''env: --split requires exactly one variable name'', ExitCodeUsage), s)
          else let vars = buildEnvVars (rt_Ops rt) in
            (((if ea_key a \<noteq> [] then env_one a (map_of vars (ea_key a)) else env_all (ea_json a) vars), 0), s)))"

subsection \<open>The clock (\<open>op_clock.go\<close>)\<close>

text \<open>A \<open>time.Time\<close> taken apart in its location; the offset is in seconds east of UTC.\<close>

record clock_time =
  ct_Year :: int
  ct_Month :: nat
  ct_Day :: nat
  ct_Hour :: nat
  ct_Minute :: nat
  ct_Second :: nat
  ct_Offset :: int
  ct_Zone :: string
  ct_Unix :: int

definition zero_padded :: "nat \<Rightarrow> nat \<Rightarrow> string" where
  "zero_padded w n = replicate (w - length (show_nat n)) (CHR ''0'') @ show_nat n"

definition year_text :: "clock_time \<Rightarrow> string" where
  "year_text t = (if ct_Year t < 0 then ''-'' else []) @ zero_padded 4 (nat \<bar>ct_Year t\<bar>)"

definition offset_text :: "clock_time \<Rightarrow> string" where
  "offset_text t =
     (let zone = nat (\<bar>ct_Offset t\<bar> div 60) in
      (if ct_Offset t < 0 \<and> zone > 0 then ''-'' else ''+'') @ zero_padded 2 (zone div 60) @ zero_padded 2 (zone mod 60))"

definition zone_text :: "clock_time \<Rightarrow> string" where
  "zone_text t = (if ct_Zone t \<noteq> [] then ct_Zone t else offset_text t)"

definition date_text :: "clock_time \<Rightarrow> string" where
  "date_text t = year_text t @ ''-'' @ zero_padded 2 (ct_Month t) @ ''-'' @ zero_padded 2 (ct_Day t)"

definition clock_text :: "clock_time \<Rightarrow> string" where
  "clock_text t = zero_padded 2 (ct_Hour t) @ '':'' @ zero_padded 2 (ct_Minute t) @ '':'' @ zero_padded 2 (ct_Second t)"

definition date_verb :: "clock_time \<Rightarrow> char \<Rightarrow> string option" where
  "date_verb t c =
     (if c = CHR ''%'' then Some ''%''
      else if c = CHR ''Y'' then Some (year_text t)
      else if c = CHR ''m'' then Some (zero_padded 2 (ct_Month t))
      else if c = CHR ''d'' then Some (zero_padded 2 (ct_Day t))
      else if c = CHR ''H'' then Some (zero_padded 2 (ct_Hour t))
      else if c = CHR ''M'' then Some (zero_padded 2 (ct_Minute t))
      else if c = CHR ''S'' then Some (zero_padded 2 (ct_Second t))
      else if c = CHR ''F'' then Some (date_text t)
      else if c = CHR ''T'' then Some (clock_text t)
      else if c = CHR ''z'' then Some (offset_text t)
      else if c = CHR ''Z'' then Some (zone_text t)
      else if c = CHR ''s'' then Some (show_int (ct_Unix t))
      else None)"

fun formatDateSpec :: "clock_time \<Rightarrow> string \<Rightarrow> go_error + string" where
  "formatDateSpec t [] = Inr []"
| "formatDateSpec t (c # cs) =
     (if c \<noteq> CHR ''%'' then map_sum id ((#) c) (formatDateSpec t cs)
      else case cs of
        [] \<Rightarrow> Inl (ErrText ''invalid format: trailing %'')
      | v # rest \<Rightarrow>
         (case date_verb t v of
            None \<Rightarrow> Inl (ErrText (''unsupported format %'' @ show_byte v))
          | Some out \<Rightarrow> map_sum id ((@) out) (formatDateSpec t rest)))"

fun date_args :: "string list \<Rightarrow> bool \<Rightarrow> string \<Rightarrow> reply + bool \<times> string" where
  "date_args [] useUTC formatSpec = Inr (useUTC, formatSpec)"
| "date_args (arg # args) useUTC formatSpec =
     (if arg = ''-u'' then date_args args True formatSpec
      else if has_prefix arg ''+'' then
        (if formatSpec \<noteq> [] then Inl (''date: unexpected argument: '' @ arg, ExitCodeUsage)
         else date_args args useUTC (trim_prefix arg ''+''))
      else Inl (''date: unexpected argument: '' @ arg, ExitCodeUsage))"

text \<open>\<open>now\<close> is the current time in the local zone, and in UTC.\<close>

definition runDate :: "(bool \<Rightarrow> clock_time) \<Rightarrow> 'e builtin" where
  "runDate now rt args s =
     (case date_args args False [] of
        Inl out \<Rightarrow> (out, s)
      | Inr (useUTC, formatSpec) \<Rightarrow>
         (let t = now useUTC in
          if formatSpec = [] then
            ((date_text t @ '' '' @ clock_text t @ '' '' @ offset_text t @ '' '' @ zone_text t @ [newline], 0), s)
          else case formatDateSpec t formatSpec of
            Inl err \<Rightarrow> ((named ''date'' err, ExitCodeUsage), s)
          | Inr out \<Rightarrow> ((out @ [newline], 0), s)))"

subsection \<open>Looking a command up (\<open>op_command_lookup.go\<close>)\<close>

datatype commandKind = commandKindBuiltin | commandKindExternal | commandKindAlias

fun kind_text :: "commandKind \<Rightarrow> string" where
  "kind_text commandKindBuiltin = ''builtin''"
| "kind_text commandKindExternal = ''external''"
| "kind_text commandKindAlias = ''alias''"

record commandLookup =
  cl_name :: string
  cl_path :: string
  cl_kind :: commandKind

definition lookupCommandName :: "string \<Rightarrow> string" where
  "lookupCommandName raw =
     (let trimmed = trim_space raw in
      if trimmed = [] then [] else if has_prefix trimmed ''/'' then [] else if contains trimmed ''/'' then [] else trimmed)"

definition normalizePrefixedCommandName :: "string \<Rightarrow> string \<Rightarrow> string" where
  "normalizePrefixedCommandName raw dir =
     (let normalized = stackAbsolutePath raw in
      if \<not> has_prefix normalized (dir @ ''/'') then []
      else let name = trim_prefix normalized (dir @ ''/'') in
        if contains name ''/'' \<or> trim_space name = [] then [] else name)"

definition resolveAliasLookup :: "string \<Rightarrow> alias_map \<Rightarrow> commandLookup option" where
  "resolveAliasLookup query aliases =
     (let name = lookupCommandName query in
      if name = [] then None
      else case map_of aliases name of
        None \<Rightarrow> None
      | Some expansion \<Rightarrow>
         (if expansion = [] then None
          else Some \<lparr>cl_name = name, cl_path = ''alias '' @ name @ ''='' @ [squote] @ join '' '' expansion @ [squote],
                     cl_kind = commandKindAlias\<rparr>))"

definition resolve_in :: "string \<Rightarrow> commandKind \<Rightarrow> string \<Rightarrow> string list \<Rightarrow> commandLookup option" where
  "resolve_in dir kind query names =
     (let name = lookupCommandName query;
          name = (if name = [] then normalizePrefixedCommandName query dir else name)
      in if name = [] then None
         else if name \<notin> set names then None
         else Some \<lparr>cl_name = name, cl_path = dir @ ''/'' @ name, cl_kind = kind\<rparr>)"

definition resolveBuiltinLookup :: "string \<Rightarrow> string list \<Rightarrow> commandLookup option" where
  "resolveBuiltinLookup = resolve_in VirtualSystemBinDir commandKindBuiltin"

definition resolveExternalLookup :: "string \<Rightarrow> string list \<Rightarrow> commandLookup option" where
  "resolveExternalLookup = resolve_in VirtualExternalBinDir commandKindExternal"

definition first_of :: "'a option \<Rightarrow> 'a option \<Rightarrow> 'a option" where
  "first_of a b = (case a of None \<Rightarrow> b | Some _ \<Rightarrow> a)"

definition resolveOneCommandLookup :: "CommandReference \<Rightarrow> string list \<Rightarrow> string list \<Rightarrow> alias_map \<Rightarrow> commandLookup option" where
  "resolveOneCommandLookup ref builtins externals aliases =
     (let normalized = trim_space (cr_Name ref) in
      if normalized = [] then None
      else first_of (if cr_PathLike ref then None else resolveAliasLookup normalized aliases)
        (first_of (if cr_Namespace ref = CommandNamespaceExternal then None else resolveBuiltinLookup normalized builtins)
           (if cr_Namespace ref = CommandNamespaceBuiltin then None else resolveExternalLookup normalized externals)))"

definition normalizeCommandReferenceForRuntime :: "'e CommandRuntime \<Rightarrow> string \<Rightarrow> 'e sys \<Rightarrow> (go_error + CommandReference) \<times> 'e sys" where
  "normalizeCommandReferenceForRuntime rt raw s =
     NormalizeCommandReference raw
       (if o_ResolvePath (rt_Ops rt) = None then o_RequireAbsolutePath (rt_Ops rt) else o_ResolvePath (rt_Ops rt)) s"

definition builtin_set :: "'e CommandRuntime \<Rightarrow> string list" where
  "builtin_set rt = filter (\<lambda>n. n \<noteq> []) (map trim_space (rt_ListBuiltinNames rt))"

definition external_set :: "'e CommandRuntime \<Rightarrow> string \<Rightarrow> 'e sys \<Rightarrow> (string + string list) \<times> 'e sys" where
  "external_set rt cmd s =
     (case o_ListExternalCommands (rt_Ops rt) of
        None \<Rightarrow> (Inr [], s)
      | Some list_external \<Rightarrow>
         (case list_external () s of
            (Inl err, s) \<Rightarrow> (if is_unsupported err then Inr [] else Inl (named cmd err), s)
          | (Inr cmds, s) \<Rightarrow> (Inr (filter (\<lambda>n. n \<noteq> []) (map (\<lambda>c. lookupCommandName (fst c)) cmds)), s)))"

text \<open>An error is a text and whether it is a \<open>commandUsageError\<close>, as an exit code.\<close>

fun lookup_each :: "'e CommandRuntime \<Rightarrow> string \<Rightarrow> string list \<Rightarrow> string list \<Rightarrow> alias_map \<Rightarrow> string list \<Rightarrow> 'e sys \<Rightarrow>
    (reply + commandLookup list \<times> string list) \<times> 'e sys" where
  "lookup_each rt cmd builtins externals aliases [] s = (Inr ([], []), s)"
| "lookup_each rt cmd builtins externals aliases (raw # raws) s =
     (let trimmed = trim_space raw in
      if trimmed = [] then (Inl (cmd @ '': command name must not be empty'', ExitCodeUsage), s)
      else if has_prefix trimmed ''-'' then (Inl (cmd @ '': unsupported flag '' @ trimmed, ExitCodeUsage), s)
      else case normalizeCommandReferenceForRuntime rt trimmed s of
        (Inl err, s) \<Rightarrow> (Inl (named cmd err, ExitCodeGeneral), s)
      | (Inr ref, s) \<Rightarrow>
         (case lookup_each rt cmd builtins externals aliases raws s of
            (Inl out, s) \<Rightarrow> (Inl out, s)
          | (Inr (resolved, missing), s) \<Rightarrow>
             (case resolveOneCommandLookup ref builtins externals aliases of
                Some m \<Rightarrow> (Inr (m # resolved, missing), s)
              | None \<Rightarrow> (Inr (resolved, trimmed # missing), s))))"

definition resolveCommandLookups :: "'e CommandRuntime \<Rightarrow> string list \<Rightarrow> string \<Rightarrow> 'e sys \<Rightarrow>
    (reply + commandLookup list \<times> string list) \<times> 'e sys" where
  "resolveCommandLookups rt args cmd s =
     (if args = [] then (Inl (cmd @ '': missing operand'', ExitCodeUsage), s)
      else case external_set rt cmd s of
        (Inl m, s) \<Rightarrow> (Inl (m, ExitCodeGeneral), s)
      | (Inr externals, s) \<Rightarrow>
          lookup_each rt cmd (builtin_set rt) externals (NormalizeCommandAliases (o_CommandAliases (rt_Ops rt))) args s)"

fun lookup_flags :: "string \<Rightarrow> string list \<Rightarrow> bool \<Rightarrow> string list \<Rightarrow> reply + bool \<times> string list" where
  "lookup_flags cmd [] jsonOutput filtered = Inr (jsonOutput, filtered)"
| "lookup_flags cmd (arg # args) jsonOutput filtered =
     (if arg = ''--json'' then lookup_flags cmd args True filtered
      else if arg = ''--fmt'' then
        (case args of
           [] \<Rightarrow> Inl (cmd @ '': --fmt requires one value: json'', ExitCodeUsage)
         | v # rest \<Rightarrow>
            (if trim_space v \<noteq> ''json'' then Inl (cmd @ '': unsupported --fmt value '' @ go_quote v, ExitCodeUsage)
             else lookup_flags cmd rest True filtered))
      else if has_prefix arg ''--fmt='' then
        (if trim_space (trim_prefix arg ''--fmt='') \<noteq> ''json''
         then Inl (cmd @ '': unsupported --fmt value '' @ go_quote (trim_prefix arg ''--fmt=''), ExitCodeUsage)
         else lookup_flags cmd args True filtered)
      else lookup_flags cmd args jsonOutput (filtered @ [arg]))"

definition parseLookupFormatFlag :: "string list \<Rightarrow> string \<Rightarrow> reply + bool \<times> string list" where
  "parseLookupFormatFlag args cmd = lookup_flags cmd args False []"

record lookupRecord =
  lr_Query :: string
  lr_Name :: string
  lr_Kind :: string
  lr_Target :: string
  lr_ResolvedPath :: string
  lr_Found :: bool
  lr_Error :: string

definition lookup_json :: "lookupRecord \<Rightarrow> json" where
  "lookup_json r = JObj (omit_empty ''query'' (lr_Query r) @ omit_empty ''name'' (lr_Name r) @ omit_empty ''kind'' (lr_Kind r) @
     omit_empty ''target'' (lr_Target r) @ omit_empty ''resolved_path'' (lr_ResolvedPath r) @
     [(''found'', JBool (lr_Found r))] @ omit_empty ''error'' (lr_Error r))"

definition not_found :: "string \<Rightarrow> string \<Rightarrow> string" where
  "not_found cmd n = cmd @ '': '' @ n @ '': not found''"

text \<open>\<open>which\<close> and \<open>type\<close> differ in their records and in the line of a command found.\<close>

definition run_lookup :: "string \<Rightarrow> (commandLookup \<Rightarrow> lookupRecord) \<Rightarrow> (string \<Rightarrow> lookupRecord) \<Rightarrow> (commandLookup \<Rightarrow> string) \<Rightarrow> 'e builtin" where
  "run_lookup cmd found_record missing_record line rt args s =
     (case parseLookupFormatFlag args cmd of
        Inl out \<Rightarrow> (out, s)
      | Inr (jsonOutput, filtered) \<Rightarrow>
         (case resolveCommandLookups rt filtered cmd s of
            (Inl out, s) \<Rightarrow> (out, s)
          | (Inr (resolved, missing), s) \<Rightarrow>
             (((if jsonOutput then
                  json_text (JObj [(''entries'', JList (map lookup_json (map found_record resolved @ map missing_record missing)))])
                else lines_text (map line resolved @ map (not_found cmd) missing)),
               if missing \<noteq> [] then ExitCodeGeneral else 0), s)))"

definition runWhich :: "'e builtin" where
  "runWhich = run_lookup ''which''
     (\<lambda>e. \<lparr>lr_Query = cl_name e, lr_Name = cl_name e, lr_Kind = kind_text (cl_kind e), lr_Target = [],
        lr_ResolvedPath = cl_path e, lr_Found = True, lr_Error = []\<rparr>)
     (\<lambda>n. \<lparr>lr_Query = n, lr_Name = n, lr_Kind = [], lr_Target = [], lr_ResolvedPath = [], lr_Found = False,
        lr_Error = not_found ''which'' n\<rparr>)
     cl_path"

definition runType :: "'e builtin" where
  "runType = run_lookup ''type''
     (\<lambda>e. \<lparr>lr_Query = [], lr_Name = cl_name e, lr_Kind = kind_text (cl_kind e), lr_Target = cl_path e,
        lr_ResolvedPath = [], lr_Found = True, lr_Error = []\<rparr>)
     (\<lambda>n. \<lparr>lr_Query = [], lr_Name = n, lr_Kind = [], lr_Target = [], lr_ResolvedPath = [], lr_Found = False,
        lr_Error = not_found ''type'' n\<rparr>)
     (\<lambda>e. cl_name e @ '' '' @ kind_text (cl_kind e) @ '' '' @ cl_path e)"

subsection \<open>Manuals (\<open>op_help_manual.go\<close>)\<close>

definition parseManListFormat :: "string \<Rightarrow> string option" where
  "parseManListFormat raw =
     (let t = trim_space raw in
      if t = ''text'' \<or> t = [] then Some ''text'' else if t = ''json'' then Some ''json'' else None)"

definition ensureSummaryGuidance :: "string \<Rightarrow> string \<Rightarrow> string" where
  "ensureSummaryGuidance command manual0 =
     (let manual = trim_space manual0 in
      if manual = [] then []
      else let lower = to_lower manual in
        if contains lower (newline # ''use-when:'') \<and> contains lower (newline # ''avoid-when:'') then manual
        else manual @ [newline, newline] @ ''Use-When:'' @ [newline] @
          ''  - Quick syntax, flags, and examples for '' @ command @ ''.'' @ [newline] @
          ''Avoid-When:'' @ [newline] @
          ''  - Need full semantics or edge cases; run man -v '' @ command @ ''.'')"

definition renderListValue :: "string \<Rightarrow> string" where
  "renderListValue v = (let t = trim_space v in if t = [] then ''-'' else t)"

definition externalSummary :: "string \<times> string \<Rightarrow> string" where
  "externalSummary cmd = (let t = trim_space (snd cmd) in if t = [] then ''(no description)'' else t)"

text \<open>\<open>%-12s\<close> pads with blanks to a number of runes.\<close>

definition pad_right :: "nat \<Rightarrow> string \<Rightarrow> string" where
  "pad_right w t = t @ replicate (w - length (rune_chunks t)) (CHR '' '')"

definition collectBuiltinDocs :: "'e CommandRuntime \<Rightarrow> BuiltinCommandDoc list" where
  "collectBuiltinDocs rt = stable_sort_by (\<lambda>a b. bd_Name a < bd_Name b) (rt_BuiltinCommandDocs rt)"

definition collectExternalCommands :: "'e CommandRuntime \<Rightarrow> 'e sys \<Rightarrow> (string \<times> string) list \<times> 'e sys" where
  "collectExternalCommands rt s =
     (case o_ListExternalCommands (rt_Ops rt) of
        None \<Rightarrow> ([], s)
      | Some list_external \<Rightarrow>
         (case list_external () s of
            (Inl _, s) \<Rightarrow> ([], s)
          | (Inr cmds, s) \<Rightarrow> (stable_sort_by (\<lambda>a b. trim_space (fst a) < trim_space (fst b)) cmds, s)))"

definition omit_list :: "string \<Rightarrow> string list \<Rightarrow> (string \<times> json) list" where
  "omit_list k xs = (if xs = [] then [] else [(k, JList (map JStr xs))])"

definition manListBuiltinRowFromDoc :: "BuiltinCommandDoc \<Rightarrow> json" where
  "manListBuiltinRowFromDoc doc = JObj ([(''name'', JStr (trim_space (bd_Name doc))), (''summary'', JStr (renderListValue (bd_Summary doc)))] @
     omit_empty ''stdin_mode'' (trim_space (bd_StdinMode doc)) @ omit_empty ''operands'' (trim_space (bd_Operands doc)) @
     omit_empty ''default_output'' (trim_space (bd_DefaultOutput doc)) @ omit_list ''structured_flags'' (bd_StructuredFlags doc) @
     omit_empty ''pipe_behavior'' (trim_space (bd_PipeBehavior doc)) @ omit_empty ''mutation_kind'' (trim_space (bd_MutationKind doc)) @
     omit_empty ''success_output'' (trim_space (bd_SuccessOutput doc)) @ omit_list ''exit_codes'' (bd_ExitCodes doc))"

definition man_external_json :: "string \<times> string \<Rightarrow> json" where
  "man_external_json cmd = JObj [(''name'', JStr (trim_space (fst cmd))), (''summary'', JStr (externalSummary cmd))]"

definition man_row :: "string \<Rightarrow> string \<Rightarrow> string \<Rightarrow> string \<Rightarrow> string \<Rightarrow> string" where
  "man_row n stdin pipe structured summary = ''  '' @ pad_right 12 n @ '' '' @ pad_right 8 stdin @ '' '' @ pad_right 9 pipe @ '' '' @
     pad_right 16 structured @ '' '' @ summary @ [newline]"

definition man_builtin_row :: "BuiltinCommandDoc \<Rightarrow> string" where
  "man_builtin_row doc = man_row (bd_Name doc) (renderListValue (bd_StdinMode doc)) (renderListValue (bd_PipeBehavior doc))
     (renderListValue (join '','' (bd_StructuredFlags doc))) (renderListValue (bd_Summary doc))"

definition man_external_row :: "string \<Rightarrow> string \<Rightarrow> string" where
  "man_external_row n summary = ''  '' @ pad_right 12 n @ '' '' @ summary @ [newline]"

definition runManList :: "'e CommandRuntime \<Rightarrow> string \<Rightarrow> 'e sys \<Rightarrow> reply \<times> 'e sys" where
  "runManList rt format s =
     (let docs = collectBuiltinDocs rt in
      case collectExternalCommands rt s of (cmds, s) \<Rightarrow>
        (((if format = ''json'' then
             json_indented (JObj ([(''builtins'', JList (map manListBuiltinRowFromDoc docs))] @
               (if cmds = [] then [] else [(''external'', JList (map man_external_json cmds))])))
           else trim_right_newlines (''Builtins:'' @ [newline] @ man_row ''name'' ''stdin'' ''pipe'' ''structured'' ''summary'' @
             concat (map man_builtin_row docs) @
             (if cmds = [] then [] else [newline] @ ''External:'' @ [newline] @ man_external_row ''name'' ''summary'' @
                concat (map (\<lambda>c. man_external_row (trim_space (fst c)) (externalSummary c)) cmds)))), 0), s))"

record manArgs =
  ma_verbose :: bool
  ma_list :: bool
  ma_format :: string
  ma_target :: string

fun man_args :: "string list \<Rightarrow> manArgs \<Rightarrow> reply + manArgs" where
  "man_args [] a = Inr a"
| "man_args (arg # args) a =
     (if arg = ''-v'' then man_args args (a\<lparr>ma_verbose := True\<rparr>)
      else if arg = ''-l'' \<or> arg = ''--list'' then man_args args (a\<lparr>ma_list := True\<rparr>)
      else if arg = ''--fmt'' then
        (case args of
           [] \<Rightarrow> Inl (''man: --fmt requires one value: text|json'', ExitCodeUsage)
         | v # rest \<Rightarrow>
            (case parseManListFormat v of
               None \<Rightarrow> Inl (''man: unsupported --fmt value '' @ go_quote v, ExitCodeUsage)
             | Some f \<Rightarrow> man_args rest (a\<lparr>ma_format := f\<rparr>)))
      else if has_prefix arg ''--fmt='' then
        (case parseManListFormat (trim_prefix arg ''--fmt='') of
           None \<Rightarrow> Inl (''man: unsupported --fmt value '' @ go_quote (trim_prefix arg ''--fmt=''), ExitCodeUsage)
         | Some f \<Rightarrow> man_args args (a\<lparr>ma_format := f\<rparr>))
      else if has_prefix arg ''-'' then Inl (''man: unsupported flag '' @ arg, ExitCodeUsage)
      else if ma_target a \<noteq> [] then Inl (''man: expected at most one command name'', ExitCodeUsage)
      else man_args args (a\<lparr>ma_target := arg\<rparr>))"

definition summary_of :: "bool \<Rightarrow> string \<Rightarrow> string \<Rightarrow> string" where
  "summary_of verbose target text = (if verbose then text else ensureSummaryGuidance target text)"

text \<open>The manuals a builtin has: the detailed one first when asked for.\<close>

definition builtin_manual :: "'e CommandRuntime \<Rightarrow> bool \<Rightarrow> string \<Rightarrow> string option" where
  "builtin_manual rt verbose target =
     (let detailed = (if verbose then Option.bind (rt_LookupDetailedManual rt target)
            (\<lambda>m. let m = stripMarkdownFrontMatter m in if m \<noteq> [] then Some m else None) else None) in
      case detailed of
        Some m \<Rightarrow> Some m
      | None \<Rightarrow> Option.bind (rt_LookupManual rt target)
          (\<lambda>m. let m = trim_space m in if m \<noteq> [] then Some (summary_of verbose target m) else None))"

text \<open>The manual of an external command: what its provider writes, else its summary. \<open>None\<close>: none was found.\<close>

definition external_manual :: "'e CommandRuntime \<Rightarrow> bool \<Rightarrow> string \<Rightarrow> 'e sys \<Rightarrow> reply option \<times> 'e sys" where
  "external_manual rt verbose target s =
     (case o_ReadExternalManual (rt_Ops rt) of
        None \<Rightarrow> (None, s)
      | Some read_manual \<Rightarrow>
         (case read_manual target s of
            (Inr m, s) \<Rightarrow>
              (let m = trim_space m in
               ((if m = [] then None
                 else Some (if verbose then stripMarkdownFrontMatter m else ensureSummaryGuidance target m, 0)), s))
          | (Inl err, s) \<Rightarrow> ((if is_unsupported err then None else Some (named ''man'' err, ExitCodeGeneral)), s)))"

definition listed_manual :: "bool \<Rightarrow> string \<Rightarrow> (string \<times> string) list \<Rightarrow> string option" where
  "listed_manual verbose target cmds =
     map_option (\<lambda>c. summary_of verbose target
         (if trim_space (snd c) \<noteq> [] then trim_space (snd c) else ''binary: '' @ fst c))
       (find (\<lambda>c. trim_space (fst c) = target) cmds)"

definition external_summary :: "'e CommandRuntime \<Rightarrow> bool \<Rightarrow> string \<Rightarrow> 'e sys \<Rightarrow> reply option \<times> 'e sys" where
  "external_summary rt verbose target s =
     (case o_ListExternalCommands (rt_Ops rt) of
        None \<Rightarrow> (None, s)
      | Some list_external \<Rightarrow>
         (case list_external () s of
            (Inl err, s) \<Rightarrow> ((if is_unsupported err then None else Some (named ''man'' err, ExitCodeGeneral)), s)
          | (Inr cmds, s) \<Rightarrow> (map_option (\<lambda>m. (m, 0)) (listed_manual verbose target cmds), s)))"

definition man_page :: "'e CommandRuntime \<Rightarrow> bool \<Rightarrow> string \<Rightarrow> 'e sys \<Rightarrow> reply \<times> 'e sys" where
  "man_page rt verbose target s =
     (case builtin_manual rt verbose target of
        Some m \<Rightarrow> ((m, 0), s)
      | None \<Rightarrow>
         (case external_manual rt verbose target s of
            (Some out, s) \<Rightarrow> (out, s)
          | (None, s) \<Rightarrow>
             (case external_summary rt verbose target s of
                (Some out, s) \<Rightarrow> (out, s)
              | (None, s) \<Rightarrow> ((not_found ''man'' target, ExitCodeGeneral), s))))"

definition runMan :: "'e builtin" where
  "runMan rt args s =
     (case man_args args \<lparr>ma_verbose = False, ma_list = False, ma_format = ''text'', ma_target = []\<rparr> of
        Inl out \<Rightarrow> (out, s)
      | Inr a \<Rightarrow>
         (if \<not> ma_list a \<and> ma_format a \<noteq> ''text'' then ((''man: --fmt is only supported with --list'', ExitCodeUsage), s)
          else if ma_list a then runManList rt (ma_format a) s
          else if ma_target a = []
            then ((''man: expected command name (use --list to see all commands)'', ExitCodeUsage), s)
          else case normalizeCommandReferenceForRuntime rt (ma_target a) s of
            (Inl err, s) \<Rightarrow> ((named ''man'' err, ExitCodeGeneral), s)
          | (Inr ref, s) \<Rightarrow> man_page rt (ma_verbose a) (trim_space (cr_Name ref)) s))"

end
