(* ===== verification/Builtin_Commands_Laws.thy ===== *)
theory Builtin_Commands_Laws
  imports Builtin_Commands
begin

section \<open>What the command lookup says\<close>

text \<open>
  \<open>type\<close> and \<open>which\<close> decide with sets of names what the engine decides by running: the theorem says that a command they
  call a builtin is run as that builtin and no other is. The normalisation of the package is the cleaning of the rooted
  path, so that \<open>pwd\<close> always prints a canonical path.
\<close>

subsection \<open>The stack normalisation\<close>

lemma stack_step_rev: "list_all (\<lambda>c. c \<noteq> ''..'') st \<Longrightarrow> stack_step (rev st) c = rev (clean_step True st c)"
  by (cases st) auto

lemma clean_step_no_up: "list_all (\<lambda>c. c \<noteq> ''..'') st \<Longrightarrow> list_all (\<lambda>c. c \<noteq> ''..'') (clean_step True st c)"
  by (cases st) auto

lemma foldl_stack_step:
  "list_all (\<lambda>c. c \<noteq> ''..'') st \<Longrightarrow> foldl stack_step (rev st) cs = rev (foldl (clean_step True) st cs)"
proof (induction cs arbitrary: st)
  case (Cons c cs)
  show ?case using Cons.IH [OF clean_step_no_up [OF Cons.prems]] Cons.prems
    by (simp only: foldl.simps stack_step_rev)
qed simp

lemma stack_is_clean: "foldl stack_step [] cs = clean_comps True cs"
  using foldl_stack_step [of "[]" cs] by (simp add: clean_comps_def)

theorem stackAbsolutePath_clean: "stackAbsolutePath raw = path_clean (CHR ''/'' # trim_space raw)"
proof -
  define t where "t = trim_space raw"
  have *: "(if cs = [] then ''/'' else CHR ''/'' # join ''/'' cs) = CHR ''/'' # join ''/'' cs" for cs by simp
  show ?thesis
    unfolding stackAbsolutePath_def path_clean_def t_def [symmetric] Let_def stack_is_clean *
    by (cases t) (auto simp: has_prefix_def clean_comps_def)
qed

lemma stackAbsolutePath_canonical: "is_canonical (stackAbsolutePath raw)"
  by (simp add: stackAbsolutePath_clean canonical_path_clean flip: canonical_code)

subsection \<open>What a lookup finds and what runs\<close>

lemma trimmed_no_slash: "CHR ''/'' \<notin> set n \<Longrightarrow> CHR ''/'' \<notin> set (trim_space n)"
  unfolding trim_space_def
  using set_mono_prefix [OF trim_space_right_prefix] set_mono_suffix [OF trim_space_left_prefix] by blast

text \<open>A reference to a canonical path, or a plain name.\<close>

definition plain_reference :: "CommandReference \<Rightarrow> bool" where
  "plain_reference ref \<longleftrightarrow>
     (cr_PathLike ref \<longrightarrow> is_canonical (cr_ResolvedPath ref) \<and> \<not> ends_with_space (cr_ResolvedPath ref))"

lemma reference_name:
  assumes "NormalizeCommandReference raw resolve s = (Inr ref, s')" and "plain_reference ref"
  shows "trim_space (cr_Name ref) \<noteq> []" "CHR ''/'' \<notin> set (cr_Name ref)"
    "\<not> cr_PathLike ref \<Longrightarrow> cr_Name ref = trim_space raw" "cr_PathLike ref \<Longrightarrow> CHR ''/'' \<in> set (trim_space raw)"
proof -
  have "trim_space (cr_Name ref) \<noteq> [] \<and> CHR ''/'' \<notin> set (cr_Name ref) \<and>
      (\<not> cr_PathLike ref \<longrightarrow> cr_Name ref = trim_space raw) \<and> (cr_PathLike ref \<longrightarrow> CHR ''/'' \<in> set (trim_space raw))"
  proof (cases "contains (trim_space raw) ''/''")
    case False
    then have "trim_space raw \<noteq> []" "ref = \<lparr>cr_Raw = trim_space raw, cr_Name = trim_space raw, cr_ResolvedPath = [],
        cr_PathLike = False, cr_Namespace = []\<rparr>"
      using assms(1) by (auto simp: NormalizeCommandReference_def looksLikeCommandPath_def Let_def split: if_splits)
    then show ?thesis using False by (simp add: contains_char)
  next
    case True
    then have ne: "trim_space raw \<noteq> []" by (auto simp: contains_def)
    obtain f where f: "resolve = Some f"
      using assms(1) True ne by (auto simp: NormalizeCommandReference_def looksLikeCommandPath_def Let_def split: option.splits)
    obtain p t where p: "f (trim_space raw) s = (Inr p, t)"
      using assms(1) True ne f
      by (auto simp: NormalizeCommandReference_def looksLikeCommandPath_def Let_def split: prod.splits sum.splits)
    have ref: "cr_PathLike ref \<and> cr_ResolvedPath ref = p \<and>
        (IsCommandPathUnder p VirtualSystemBinDir \<and> cr_Name ref = trim_prefix p (VirtualSystemBinDir @ ''/'') \<or>
         IsCommandPathUnder p VirtualExternalBinDir \<and> cr_Name ref = trim_prefix p (VirtualExternalBinDir @ ''/''))"
      using assms(1) True ne by (auto simp: NormalizeCommandReference_def looksLikeCommandPath_def Let_def f p split: if_splits)
    then have c: "canonical p" "\<not> ends_with_space p"
      using assms(2) by (auto simp: plain_reference_def canonical_code)
    have "trim_space (trim_prefix p (d @ ''/'')) \<noteq> [] \<and> CHR ''/'' \<notin> set (trim_prefix p (d @ ''/''))"
      if u: "IsCommandPathUnder p d" and d: "canonical d" "\<not> ends_with_space d" for d
    proof -
      obtain n where n: "p = d @ ''/'' @ n" "trim_space n \<noteq> []" "CHR ''/'' \<notin> set n"
        using IsCommandPathUnder_iff [OF c d] u by blast
      then show ?thesis using trim_prefix_append [of "d @ ''/''" n] by simp
    qed
    then show ?thesis using ref bin_dirs_canonical True by (auto simp: contains_char)
  qed
  then show "trim_space (cr_Name ref) \<noteq> []" "CHR ''/'' \<notin> set (cr_Name ref)"
    "\<not> cr_PathLike ref \<Longrightarrow> cr_Name ref = trim_space raw" "cr_PathLike ref \<Longrightarrow> CHR ''/'' \<in> set (trim_space raw)"
    by blast+
qed

lemma plain_command_name: "CHR ''/'' \<notin> set n \<Longrightarrow> lookupCommandName n = trim_space n"
  using trimmed_no_slash [of n]
  by (cases "trim_space n") (auto simp: lookupCommandName_def Let_def contains_char has_prefix_def)

lemma resolve_in_plain:
  assumes "CHR ''/'' \<notin> set n" and "trim_space n \<noteq> []"
  shows "resolve_in dir kind n names =
    (if trim_space n \<in> set names then Some \<lparr>cl_name = trim_space n, cl_path = dir @ ''/'' @ trim_space n, cl_kind = kind\<rparr> else None)"
  using assms by (simp add: resolve_in_def plain_command_name Let_def)

text \<open>A registry as \<open>Register\<close> builds it.\<close>

definition registered_names :: "'e Registry \<Rightarrow> bool" where
  "registered_names reg \<longleftrightarrow> list_all (\<lambda>n. n \<noteq> [] \<and> trim_space n = n) (map_keys reg)"

lemma Register_names: "Register spec reg = Inr reg' \<Longrightarrow> registered_names reg \<Longrightarrow> registered_names reg'"
proof -
  assume r: "Register spec reg = Inr reg'" and n: "registered_names reg"
  have "reg' = map_put (trim_space (cs_Name spec)) (spec\<lparr>cs_Name := trim_space (cs_Name spec)\<rparr>) reg" "trim_space (cs_Name spec) \<noteq> []"
    using r by (auto simp: Register_def Let_def split: if_splits)
  then have "set (map_keys reg') = insert (trim_space (cs_Name spec)) (set (map_keys reg))" by (simp add: map_keys_def)
  then show ?thesis using n \<open>trim_space (cs_Name spec) \<noteq> []\<close> by (simp add: registered_names_def list_all_iff)
qed

lemma builtin_set_registry:
  "registered_names reg \<Longrightarrow> set (builtin_set (builtin_runtime reg ops d input has)) = set (map_keys reg)"
  by (force simp: builtin_set_def builtin_runtime_def ListNames_def registered_names_def list_all_iff)

lemma Lookup_registered: "Lookup reg n \<noteq> None \<longleftrightarrow> trim_space n \<in> set (map_keys reg)"
  by (auto simp: Lookup_def map_keys_def map_of_eq_None_iff)

lemma good_alias_name: "list_all good_alias aliases \<Longrightarrow> map_of aliases n = Some ts \<Longrightarrow> CHR ''/'' \<notin> set n \<and> ts \<noteq> []"
proof -
  assume g: "list_all good_alias aliases" and m: "map_of aliases n = Some ts"
  have "good_alias (n, ts)" using g map_of_SomeD [OF m] by (auto simp: list_all_iff)
  then have "normalizeAliasName n = n" "n \<noteq> []" "ts \<noteq> []" by (auto simp: good_alias_def)
  moreover have "trim_space n = n"
    using \<open>normalizeAliasName n = n\<close> \<open>n \<noteq> []\<close> by (auto simp: normalizeAliasName_def Let_def split: if_splits)
  ultimately show ?thesis
    by (auto simp: normalizeAliasName_def Let_def contains_char split: if_splits)
qed

lemma not_an_alias:
  "map_of aliases (trim_space raw) = None \<Longrightarrow> expandCommandAlias (raw # args) aliases = Inr (raw # args)"
  by (simp add: expandCommandAlias_def maxAliasDepth_def numeral_eq_Suc)

lemma normalizeCommandReferenceForRuntime_engine:
  "normalizeCommandReferenceForRuntime (builtin_runtime reg ops d i h) raw s =
    NormalizeCommandReference raw (if o_ResolvePath ops = None then o_RequireAbsolutePath ops else o_ResolvePath ops) s"
  by (simp add: normalizeCommandReferenceForRuntime_def builtin_runtime_def cong: if_cong)

text \<open>What the engine does with a command whose first word refers to \<open>ref\<close>, when no alias applies.\<close>

lemma run_reference:
  assumes "executionContextErr s = (None, s1)" and "map_of (o_CommandAliases ops) (trim_space raw) = None"
    and "normalizeCommandReferenceForRuntime (builtin_runtime reg ops d i h) (trim_space raw) s1 = (Inr ref, s')"
    and "trim_space (cr_Name ref) \<noteq> []"
  shows "run_command_body reg ops d (raw # args) input hasInput s =
    (if cr_Namespace ref = CommandNamespaceExternal \<or> Lookup reg (cr_Name ref) = None
     then if cr_Namespace ref = CommandNamespaceBuiltin then (fail_output (cr_Raw ref @ '': not found'') ExitCodeGeneral, s')
       else (case runExternalCommand ops ref args input hasInput s' of (result, s) \<Rightarrow> enforceOutputLimit result (o_Policy ops) s)
     else run_builtin reg ops d (the (Lookup reg (cr_Name ref))) (cr_Name ref) (raw # args) input hasInput s')"
proof -
  have "normalizeCommandReferenceForOps ops (trim_space raw) s1 = (Inr ref, s')"
    using assms(3,4) unfolding normalizeCommandReferenceForRuntime_engine
    by (simp add: normalizeCommandReferenceForOps_def Let_def)
  then show ?thesis
    using assms(1) not_an_alias [OF assms(2)]
    by (auto simp: run_command_body_def Let_def split: option.splits)
qed

text \<open>The answer of the lookup on a plain reference.\<close>

lemma lookup_plain:
  assumes "plain_reference ref" and "NormalizeCommandReference raw resolve s = (Inr ref, s')"
  shows "resolveOneCommandLookup ref builtins externals aliases =
    (let n = trim_space (cr_Name ref) in
     first_of (if cr_PathLike ref then None else resolveAliasLookup n aliases)
       (first_of
         (if cr_Namespace ref \<noteq> CommandNamespaceExternal \<and> n \<in> set builtins
          then Some \<lparr>cl_name = n, cl_path = VirtualSystemBinDir @ ''/'' @ n, cl_kind = commandKindBuiltin\<rparr> else None)
         (if cr_Namespace ref \<noteq> CommandNamespaceBuiltin \<and> n \<in> set externals
          then Some \<lparr>cl_name = n, cl_path = VirtualExternalBinDir @ ''/'' @ n, cl_kind = commandKindExternal\<rparr> else None)))"
proof -
  note n = reference_name(1,2) [OF assms(2,1)]
  then have "CHR ''/'' \<notin> set (trim_space (cr_Name ref))" by (simp add: trimmed_no_slash)
  note res = resolve_in_plain [OF this, simplified, OF n(1)]
  show ?thesis
    using n by (simp add: resolveOneCommandLookup_def resolveBuiltinLookup_def resolveExternalLookup_def res Let_def)
qed

subsection \<open>Properties\<close>

text \<open>C37. When \<open>type\<close> or \<open>which\<close> finds a command to be no alias, then running it runs the builtin they name exactly if they
  say it is a builtin; otherwise it is handed to the external commands, or is not found if the path is below \<open>/sys/bin\<close>.\<close>

theorem type_tells_what_runs:
  assumes "registered_names reg" and "list_all good_alias (o_CommandAliases ops)"
    and "executionContextErr s = (None, s1)"
    and "normalizeCommandReferenceForRuntime (builtin_runtime reg ops d i h) (trim_space raw) s1 = (Inr ref, s')"
    and "plain_reference ref"
    and "found = resolveOneCommandLookup ref (builtin_set (builtin_runtime reg ops d i h)) externals (o_CommandAliases ops)"
    and "map_option cl_kind found \<noteq> Some commandKindAlias"
  shows "run_command_body reg ops d (raw # args) input hasInput s =
    (if map_option cl_kind found = Some commandKindBuiltin
     then run_builtin reg ops d (the (Lookup reg (cl_name (the found)))) (cr_Name ref) (raw # args) input hasInput s'
     else if cr_Namespace ref = CommandNamespaceBuiltin then (fail_output (cr_Raw ref @ '': not found'') ExitCodeGeneral, s')
     else (case runExternalCommand ops ref args input hasInput s' of (result, s) \<Rightarrow> enforceOutputLimit result (o_Policy ops) s))"
proof -
  define al where "al = o_CommandAliases ops"
  define n where "n = trim_space (cr_Name ref)"
  obtain resolve where norm: "NormalizeCommandReference (trim_space raw) resolve s1 = (Inr ref, s')"
    using assms(4) by (auto simp: normalizeCommandReferenceForRuntime_def)
  note name = reference_name [OF norm assms(5)]
  have noslash: "CHR ''/'' \<notin> set n" using name(2) by (simp add: n_def trimmed_no_slash)
  have noalias: "cr_PathLike ref \<or> resolveAliasLookup n al = None"
    using assms(6,7) lookup_plain [OF assms(5) norm]
    by (auto simp: n_def al_def Let_def first_of_def resolveAliasLookup_def split: option.splits if_splits)
  have "map_of al (trim_space raw) = None"
  proof (cases "cr_PathLike ref")
    case True
    then have "CHR ''/'' \<in> set (trim_space raw)" using name(4) by simp
    then show ?thesis using good_alias_name [OF assms(2)] by (cases "map_of al (trim_space raw)") (auto simp: al_def)
  next
    case False
    have "n = trim_space raw" using name(3) [OF False] by (simp add: n_def)
    moreover have "lookupCommandName n = n" using plain_command_name [OF noslash] by (simp add: n_def)
    moreover have "n \<noteq> []" using name(1) by (simp add: n_def)
    ultimately show ?thesis using noalias False good_alias_name [OF assms(2)]
      by (auto simp: resolveAliasLookup_def Let_def al_def split: option.splits if_splits)
  qed
  note run = run_reference [OF assms(3) this [unfolded al_def] assms(4) name(1)]
  have found: "found = first_of
         (if cr_Namespace ref \<noteq> CommandNamespaceExternal \<and> Lookup reg (cr_Name ref) \<noteq> None
          then Some \<lparr>cl_name = n, cl_path = VirtualSystemBinDir @ ''/'' @ n, cl_kind = commandKindBuiltin\<rparr> else None)
         (if cr_Namespace ref \<noteq> CommandNamespaceBuiltin \<and> n \<in> set externals
          then Some \<lparr>cl_name = n, cl_path = VirtualExternalBinDir @ ''/'' @ n, cl_kind = commandKindExternal\<rparr> else None)"
    using noalias unfolding assms(6) lookup_plain [OF assms(5) norm] Lookup_registered builtin_set_registry [OF assms(1)] n_def al_def
    by (auto simp: Let_def first_of_def)
  have "Lookup reg n = Lookup reg (cr_Name ref)" by (simp add: Lookup_def n_def)
  then show ?thesis unfolding run found by (auto simp: first_of_def split: if_splits)
qed

theorem type_tells_what_runs_witness:
  "runCommand [(''echo'', sample_spec ''echo'')] zero_ops [''echo'', ''hi''] [] False (live_sys ()) =
    run_builtin [(''echo'', sample_spec ''echo'')] zero_ops
      (command_dispatch maxDispatchDepth [(''echo'', sample_spec ''echo'')] zero_ops)
      (sample_spec ''echo'') ''echo'' [''echo'', ''hi''] [] False (live_sys ())"
proof -
  define reg where "reg = [(''echo'', sample_spec ''echo'' :: unit CommandSpec)]"
  define dsp where "dsp = command_dispatch maxDispatchDepth reg zero_ops"
  define ref where "ref = \<lparr>cr_Raw = ''echo'', cr_Name = ''echo'', cr_ResolvedPath = [], cr_PathLike = False, cr_Namespace = []\<rparr>"
  have 1: "registered_names reg" by (simp add: registered_names_def reg_def map_keys_def trim_space_echo)
  have 2: "list_all good_alias (o_CommandAliases (zero_ops :: unit Ops))" by (simp add: zero_ops_def)
  have 3: "executionContextErr (live_sys ()) = (None, live_sys ())" by (simp add: executionContextErr_live live_sys_def)
  have norm: "NormalizeCommandReference ''echo'' resolve s = (Inr ref, s)" for resolve and s :: "unit sys"
    by (simp add: NormalizeCommandReference_def looksLikeCommandPath_def trim_space_echo contains_char ref_def Let_def)
  have 4: "normalizeCommandReferenceForRuntime (builtin_runtime reg zero_ops dsp [] False) (trim_space ''echo'') (live_sys ()) =
      (Inr ref, live_sys ())"
    unfolding normalizeCommandReferenceForRuntime_engine trim_space_echo by (rule norm)
  have 5: "plain_reference ref" by (simp add: plain_reference_def ref_def)
  let ?found = "resolveOneCommandLookup ref (builtin_set (builtin_runtime reg zero_ops dsp [] False)) [] (o_CommandAliases (zero_ops :: unit Ops))"
  have found: "?found = Some \<lparr>cl_name = ''echo'', cl_path = VirtualSystemBinDir @ ''/echo'', cl_kind = commandKindBuiltin\<rparr>"
    unfolding lookup_plain [OF 5 norm] builtin_set_registry [OF 1]
    by (simp add: ref_def Let_def trim_space_echo first_of_def resolveAliasLookup_def zero_ops_def reg_def map_keys_def
        CommandNamespaceExternal_def)
  have 6: "map_option cl_kind ?found \<noteq> Some commandKindAlias" unfolding found by simp
  have "Lookup reg ''echo'' = Some (sample_spec ''echo'')" by (simp add: Lookup_def reg_def trim_space_echo)
  then show ?thesis
    using type_tells_what_runs [OF 1 2 3 4 5 refl 6, of "[''hi'']" "[]" False] unfolding found by (simp add: runCommand_def dsp_def reg_def ref_def)
qed

end
