(* ===== verification/Builtin_Mounts.thy ===== *)
theory Builtin_Mounts
  imports Builtin_Json Mount_Dispatch
begin

section \<open>The builtin mounts (\<open>pkg/builtin/op_mounts.go\<close>)\<close>

text \<open>
  \<open>mounts\<close> lists the mounts of the runtime with what they declare; \<open>mounts refresh\<close> groups its targets by the innermost
  mount and refreshes each group. Whether a mount reports its status or statistics is not part of the model's mounts:
  it is asked of a \<open>mount_probe\<close>, which also encodes the service levels (the latency figures are not in the model).
\<close>

datatype mountsFormat = mountsFormatText | mountsFormatJSON

record mountsOptions =
  mo_refresh :: bool
  mo_format :: mountsFormat
  mo_targets :: "string list"
  mo_requireNarrow :: bool

record 'e mount_probe =
  pb_status :: "'e VirtualMount \<Rightarrow> (unit, MountRuntimeStatus, 'e) op option"
  pb_stats :: "'e VirtualMount \<Rightarrow> bool"
  pb_slo :: "'e VirtualMount \<Rightarrow> json"

subsection \<open>Arguments\<close>

definition parseMountsFormat :: "string \<Rightarrow> mountsFormat option" where
  "parseMountsFormat raw =
     (let t = trim_space raw in
      if t = ''text'' \<or> t = [] then Some mountsFormatText
      else if t = ''json'' then Some mountsFormatJSON else None)"

definition trim_right_slashes :: "string \<Rightarrow> string" where
  "trim_right_slashes t = rev (dropWhile (\<lambda>c. c = CHR ''/'') (rev t))"

definition normalizeMountRefreshTarget :: "string \<Rightarrow> string" where
  "normalizeMountRefreshTarget raw =
     (let t = trim_space raw in
      if t = [] then ''/''
      else let t = path_clean (if has_prefix t ''/'' then t else CHR ''/'' # t)
           in if length t > 1 then trim_right_slashes t else t)"

definition bad_mounts_format :: "string \<Rightarrow> reply" where
  "bad_mounts_format v = (''mounts: unsupported --fmt value '' @ go_quote v, ExitCodeUsage)"

fun mounts_args :: "bool \<Rightarrow> string list \<Rightarrow> mountsOptions \<Rightarrow> reply + mountsOptions" where
  "mounts_args first [] opts = Inr opts"
| "mounts_args first (raw # args) opts =
     (let arg = trim_space raw in
      if arg = [] then mounts_args False args opts
      else if first \<and> arg = ''refresh'' then mounts_args False args (opts\<lparr>mo_refresh := True\<rparr>)
      else if arg = ''--fmt'' then
        (case args of
           [] \<Rightarrow> Inl (''mounts: --fmt requires one value: text|json'', ExitCodeUsage)
         | v # rest \<Rightarrow>
            (case parseMountsFormat v of
               None \<Rightarrow> Inl (bad_mounts_format v)
             | Some f \<Rightarrow> mounts_args False rest (opts\<lparr>mo_format := f\<rparr>)))
      else if has_prefix arg ''--fmt='' then
        (case parseMountsFormat (trim_prefix arg ''--fmt='') of
           None \<Rightarrow> Inl (bad_mounts_format (trim_prefix arg ''--fmt=''))
         | Some f \<Rightarrow> mounts_args False args (opts\<lparr>mo_format := f\<rparr>))
      else if arg = ''--require-narrow'' then mounts_args False args (opts\<lparr>mo_requireNarrow := True\<rparr>)
      else if has_prefix arg ''-'' then Inl (''mounts: unsupported flag '' @ arg, ExitCodeUsage)
      else if \<not> mo_refresh opts then Inl (''mounts: unsupported flag '' @ arg, ExitCodeUsage)
      else mounts_args False args (opts\<lparr>mo_targets := mo_targets opts @ [normalizeMountRefreshTarget arg]\<rparr>))"

definition parseMountsArgs :: "string list \<Rightarrow> reply + mountsOptions" where
  "parseMountsArgs args =
     (case mounts_args True args \<lparr>mo_refresh = False, mo_format = mountsFormatText, mo_targets = [], mo_requireNarrow = False\<rparr> of
        Inl out \<Rightarrow> Inl out
      | Inr opts \<Rightarrow>
         (if mo_refresh opts \<and> mo_targets opts = []
          then Inl (''mounts refresh: expected one or more mount paths'', ExitCodeUsage) else Inr opts))"

subsection \<open>The mount of a target\<close>

definition target_in :: "string \<Rightarrow> string \<Rightarrow> bool" where
  "target_in target point \<longleftrightarrow> target = point \<or> has_prefix target (point @ ''/'')"

fun best_mount :: "string \<Rightarrow> 'e VirtualMount list \<Rightarrow> 'e VirtualMount option \<Rightarrow> nat \<Rightarrow> 'e VirtualMount option" where
  "best_mount target [] best bestSize = best"
| "best_mount target (mnt # mnts) best bestSize =
     (let point = normalizeMountRefreshTarget (vm_MountPoint mnt) in
      if \<not> target_in target point then best_mount target mnts best bestSize
      else if length point > bestSize then best_mount target mnts (Some mnt) (length point)
      else best_mount target mnts best bestSize)"

definition findMountForTarget :: "'e VirtualMount list \<Rightarrow> string \<Rightarrow> 'e VirtualMount option" where
  "findMountForTarget mnts target = best_mount (normalizeMountRefreshTarget target) mnts None 0"

text \<open>A group: the mount and its targets. \<open>indexByPoint\<close> finds the group by the normalised mount point, which is kept
  with it.\<close>

type_synonym 'e refreshGroup = "string \<times> 'e VirtualMount \<times> string list"

fun add_to_refresh_group :: "'e VirtualMount \<Rightarrow> string \<Rightarrow> string \<Rightarrow> 'e refreshGroup list \<Rightarrow> 'e refreshGroup list" where
  "add_to_refresh_group mnt point target [] = [(point, mnt, [target])]"
| "add_to_refresh_group mnt point target ((p, m, ts) # groups) =
     (if p = point then (p, m, ts @ [target]) # groups else (p, m, ts) # add_to_refresh_group mnt point target groups)"

fun group_targets :: "'e VirtualMount list \<Rightarrow> string list \<Rightarrow> 'e refreshGroup list \<Rightarrow> go_error + 'e refreshGroup list" where
  "group_targets mnts [] groups = Inr groups"
| "group_targets mnts (raw # targets) groups =
     (let target = normalizeMountRefreshTarget raw in
      case findMountForTarget mnts target of
        None \<Rightarrow> Inl (ErrText (target @ '': mount not found''))
      | Some mnt \<Rightarrow>
          group_targets mnts targets (add_to_refresh_group mnt (normalizeMountRefreshTarget (vm_MountPoint mnt)) target groups))"

definition groupRefreshTargetsByMount :: "'e VirtualMount list \<Rightarrow> string list \<Rightarrow> go_error + 'e refreshGroup list" where
  "groupRefreshTargetsByMount mnts targets = group_targets mnts targets []"

subsection \<open>Status\<close>

definition no_status :: MountRuntimeStatus where
  "no_status = \<lparr>rs_Freshness = [], rs_Materialization = [], rs_Detail = [], rs_StatusError = []\<rparr>"

definition readMountRuntimeStatus :: "'e mount_probe \<Rightarrow> 'e VirtualMount \<Rightarrow> 'e sys \<Rightarrow> MountRuntimeStatus \<times> 'e sys" where
  "readMountRuntimeStatus pb mnt s =
     (case pb_status pb mnt of
        None \<Rightarrow> (no_status, s)
      | Some status \<Rightarrow>
         (case status () s of
            (Inl err, s) \<Rightarrow> (no_status\<lparr>rs_StatusError := trim_space (error_text err)\<rparr>, s)
          | (Inr st, s) \<Rightarrow> (NormalizeMountRuntimeStatus st, s)))"

fun truth_text :: "MountTruthModel \<Rightarrow> string" where
  "truth_text TruthUnset = []"
| "truth_text TruthProjection = ''projection''"
| "truth_text TruthFactual = ''factual''"
| "truth_text (TruthOther t) = t"

fun materialization_text :: "MountMaterializationMode \<Rightarrow> string" where
  "materialization_text MaterializationUnset = []"
| "materialization_text MaterializationSnapshot = ''snapshot''"
| "materialization_text MaterializationCached = ''cached''"
| "materialization_text MaterializationLive = ''live''"
| "materialization_text (MaterializationOther t) = t"

fun semantics_text :: "MountWriteSemantics \<Rightarrow> string" where
  "semantics_text MountWriteUnset = []"
| "semantics_text MountWriteReadOnly = ''read_only''"
| "semantics_text MountWriteStaged = ''staged_write''"
| "semantics_text MountWriteThrough = ''write_through''"
| "semantics_text MountWriteBack = ''write_back''"
| "semantics_text (MountWriteOther t) = t"

fun latency_text :: "MountLatencyClass \<Rightarrow> string" where
  "latency_text LatencyUnset = []"
| "latency_text LocalFast = ''local_fast''"
| "latency_text LocalHeavy = ''local_heavy''"
| "latency_text RemoteModerate = ''remote_moderate''"
| "latency_text RemoteHigh = ''remote_high_latency''"
| "latency_text (LatencyOther t) = t"

record 'e mountStatusRow =
  ms_Mount :: "'e VirtualMount"
  ms_Profile :: MountProfile
  ms_RuntimeStatus :: MountRuntimeStatus

fun status_rows :: "'e mount_probe \<Rightarrow> 'e VirtualMount list \<Rightarrow> 'e sys \<Rightarrow> 'e mountStatusRow list \<times> 'e sys" where
  "status_rows pb [] s = ([], s)"
| "status_rows pb (mnt # mnts) s =
     (case readMountRuntimeStatus pb mnt s of (st, s) \<Rightarrow>
      case status_rows pb mnts s of (rows, s) \<Rightarrow>
        (\<lparr>ms_Mount = mnt, ms_Profile = NormalizeMountProfile (vm_Profile mnt), ms_RuntimeStatus = st\<rparr> # rows, s))"

definition collectMountStatusRows :: "'e mount_probe \<Rightarrow> 'e CommandRuntime \<Rightarrow> 'e sys \<Rightarrow> 'e mountStatusRow list \<times> 'e sys" where
  "collectMountStatusRows pb rt s =
     (case status_rows pb (o_VirtualMounts (rt_Ops rt)) s of (rows, s) \<Rightarrow>
        (stable_sort_by (\<lambda>a b. vm_MountPoint (ms_Mount a) < vm_MountPoint (ms_Mount b)) rows, s))"

definition status_json :: "MountRuntimeStatus \<Rightarrow> json" where
  "status_json st = JObj (omit_empty ''freshness'' (rs_Freshness st) @ omit_empty ''materialization'' (rs_Materialization st) @
     omit_empty ''detail'' (rs_Detail st) @ omit_empty ''status_error'' (rs_StatusError st))"

definition consistency_json :: "MountConsistency \<Rightarrow> json" where
  "consistency_json c = JObj [(''path_read_after_write'', JBool (mc_PathReadAfterWrite c)),
     (''list_after_write'', JBool (mc_ListAfterWrite c)), (''search_after_write'', JBool (mc_SearchAfterWrite c)),
     (''refresh_required'', JBool (mc_RefreshRequired c))]"

definition mount_row_json :: "'e mount_probe \<Rightarrow> 'e mountStatusRow \<Rightarrow> json" where
  "mount_row_json pb row =
     (let m = ms_Mount row; p = ms_Profile row in
      JObj ([(''mount_point'', JStr (vm_MountPoint m))] @ omit_empty ''truth_model'' (truth_text (mp_TruthModel p)) @
        omit_empty ''materialization_mode'' (materialization_text (mp_MaterializationMode p)) @
        omit_empty ''write_semantics'' (semantics_text (mp_WriteSemantics p)) @
        omit_empty ''latency_class'' (latency_text (mp_LatencyClass p)) @
        (if mp_SupportedCLIClasses p = [] then [] else [(''supported_cli_classes'', JList (map JStr (mp_SupportedCLIClasses p)))]) @
        [(''consistency'', consistency_json (mp_Consistency p)), (''slo'', pb_slo pb m),
         (''has_refresher'', JBool (vm_Refresh m \<noteq> None)), (''has_status'', JBool (pb_status pb m \<noteq> None)),
         (''has_stats'', JBool (pb_stats pb m)), (''runtime_status'', status_json (ms_RuntimeStatus row))]))"

definition show_bool :: "bool \<Rightarrow> string" where
  "show_bool b = (if b then ''true'' else ''false'')"

definition status_suffix :: "MountRuntimeStatus \<Rightarrow> string" where
  "status_suffix st =
     (if rs_Freshness st \<noteq> [] then '' freshness='' @ rs_Freshness st else []) @
     (if rs_Materialization st \<noteq> [] then '' materialization='' @ rs_Materialization st else []) @
     (if rs_StatusError st \<noteq> [] then '' status_error='' @ rs_StatusError st else [])"

definition mount_row_text :: "'e mount_probe \<Rightarrow> 'e mountStatusRow \<Rightarrow> string" where
  "mount_row_text pb row =
     (let m = ms_Mount row; p = ms_Profile row in
      join '' '' [vm_MountPoint m, truth_text (mp_TruthModel p), materialization_text (mp_MaterializationMode p),
        latency_text (mp_LatencyClass p), ''refresh='' @ show_bool (vm_Refresh m \<noteq> None),
        ''status='' @ show_bool (pb_status pb m \<noteq> None), ''stats='' @ show_bool (pb_stats pb m)] @
      status_suffix (ms_RuntimeStatus row))"

definition runMountsStatus :: "'e mount_probe \<Rightarrow> 'e CommandRuntime \<Rightarrow> mountsOptions \<Rightarrow> 'e sys \<Rightarrow> reply \<times> 'e sys" where
  "runMountsStatus pb rt opts s =
     (case collectMountStatusRows pb rt s of (rows, s) \<Rightarrow>
        (((case mo_format opts of
             mountsFormatJSON \<Rightarrow> json_indented (JObj [(''mounts'', JList (map (mount_row_json pb) rows))])
           | mountsFormatText \<Rightarrow>
              (if rows = [] then []
               else lines_text (map (mount_row_text pb) rows @
                 [''# columns: mount_point truth materialization latency refresh status stats [freshness materialization status_error]'']))), 0), s))"

subsection \<open>Refresh\<close>

record mountRefreshRow =
  mw_MountPoint :: string
  mw_RequestedTargets :: "string list"
  mw_EffectiveTargets :: "string list"
  mw_RefreshedTargets :: "string list"
  mw_RefusedTargets :: "string list"
  mw_RuntimeStatus :: MountRuntimeStatus

definition refresh_row :: "'e VirtualMount \<Rightarrow> string list \<Rightarrow> RefreshResult \<Rightarrow> MountRuntimeStatus \<Rightarrow> mountRefreshRow" where
  "refresh_row mnt targets result st =
     \<lparr>mw_MountPoint = vm_MountPoint mnt, mw_RequestedTargets = targets, mw_EffectiveTargets = sort (rr_EffectiveTargets result),
      mw_RefreshedTargets = sort (rr_RefreshedTargets result), mw_RefusedTargets = sort (rr_RefusedTargets result),
      mw_RuntimeStatus = st\<rparr>"

fun refresh_groups :: "'e mount_probe \<Rightarrow> bool \<Rightarrow> 'e refreshGroup list \<Rightarrow> 'e sys \<Rightarrow> (reply + mountRefreshRow list) \<times> 'e sys" where
  "refresh_groups pb narrow [] s = (Inr [], s)"
| "refresh_groups pb narrow ((point, mnt, targets) # groups) s =
     (case RefreshMount (Some mnt) \<lparr>rf_Targets = targets, rf_RequireNarrow = narrow\<rparr> s of
        (Inl err, s) \<Rightarrow> (Inl (named ''mounts refresh'' err, pathErrorCode err), s)
      | (Inr result, s) \<Rightarrow>
         (case readMountRuntimeStatus pb mnt s of (st, s) \<Rightarrow>
          case refresh_groups pb narrow groups s of
            (Inl out, s) \<Rightarrow> (Inl out, s)
          | (Inr rows, s) \<Rightarrow> (Inr (refresh_row mnt targets result st # rows), s)))"

definition omit_targets :: "string \<Rightarrow> string list \<Rightarrow> (string \<times> json) list" where
  "omit_targets k ts = (if ts = [] then [] else [(k, JList (map JStr ts))])"

definition refresh_json :: "mountRefreshRow \<Rightarrow> json" where
  "refresh_json row = JObj ([(''mount_point'', JStr (mw_MountPoint row))] @
     omit_targets ''requested_targets'' (mw_RequestedTargets row) @ omit_targets ''effective_targets'' (mw_EffectiveTargets row) @
     omit_targets ''refreshed_targets'' (mw_RefreshedTargets row) @ omit_targets ''refused_targets'' (mw_RefusedTargets row) @
     [(''runtime_status'', status_json (mw_RuntimeStatus row))])"

definition refresh_text :: "mountRefreshRow \<Rightarrow> string" where
  "refresh_text row = mw_MountPoint row @ '' refreshed='' @ show_nat (length (mw_RefreshedTargets row)) @
     '' refused='' @ show_nat (length (mw_RefusedTargets row)) @ '' effective='' @ show_nat (length (mw_EffectiveTargets row)) @
     status_suffix (mw_RuntimeStatus row)"

definition runMountsRefresh :: "'e mount_probe \<Rightarrow> 'e CommandRuntime \<Rightarrow> mountsOptions \<Rightarrow> 'e sys \<Rightarrow> reply \<times> 'e sys" where
  "runMountsRefresh pb rt opts s =
     (case groupRefreshTargetsByMount (o_VirtualMounts (rt_Ops rt)) (mo_targets opts) of
        Inl err \<Rightarrow> ((named ''mounts refresh'' err, ExitCodeGeneral), s)
      | Inr grouped \<Rightarrow>
         (case refresh_groups pb (mo_requireNarrow opts) grouped s of
            (Inl out, s) \<Rightarrow> (out, s)
          | (Inr rows, s) \<Rightarrow>
             (let rows = stable_sort_by (\<lambda>a b. mw_MountPoint a < mw_MountPoint b) rows in
              (((case mo_format opts of
                   mountsFormatJSON \<Rightarrow> json_indented (JObj [(''refresh'', JList (map refresh_json rows))])
                 | mountsFormatText \<Rightarrow> lines_text (map refresh_text rows)), 0), s))))"

definition runMounts :: "'e mount_probe \<Rightarrow> 'e builtin" where
  "runMounts pb rt args s =
     (case parseMountsArgs args of
        Inl out \<Rightarrow> (out, s)
      | Inr opts \<Rightarrow> (if mo_refresh opts then runMountsRefresh pb rt opts s else runMountsStatus pb rt opts s))"

subsection \<open>Which mount a target names\<close>

abbreviation point_of :: "'e VirtualMount \<Rightarrow> string" where
  "point_of mnt \<equiv> normalizeMountRefreshTarget (vm_MountPoint mnt)"

lemma normalized_target_nonempty: "normalizeMountRefreshTarget raw \<noteq> []"
proof -
  have ne: "path_clean p \<noteq> []" for p by (auto simp: path_clean_def Let_def)
  have "trim_right_slashes t \<noteq> []" if l: "length t > 1" and t: "path_clean (CHR ''/'' # r) = t" for t r
  proof -
    have can: "is_canonical t" using t canonical_path_clean by (simp flip: canonical_code) blast
    obtain c d u where tu: "t = c # d # u" using l by (cases t; cases "tl t") auto
    have "list_all good_comp (split_on (CHR ''/'') (d # u))" using can by (simp add: is_canonical_def tu)
    then have "d \<noteq> CHR ''/''" by (auto simp: good_comp_def)
    then show ?thesis by (auto simp: trim_right_slashes_def dropWhile_eq_Nil_conv tu)
  qed
  then have *: "(if length (path_clean (CHR ''/'' # r)) > 1 then trim_right_slashes (path_clean (CHR ''/'' # r))
      else path_clean (CHR ''/'' # r)) \<noteq> []" for r
    using ne by auto
  define t where "t = trim_space raw"
  obtain r where "(if has_prefix t ''/'' then t else CHR ''/'' # t) = CHR ''/'' # r"
    by (cases "has_prefix t ''/''") (auto elim: has_prefixE)
  then show ?thesis using * [of r] unfolding normalizeMountRefreshTarget_def t_def [symmetric] Let_def by (simp split: if_splits)
qed

lemma best_mount_spec:
  assumes "best_mount target mnts best n = found"
  shows "(found = best \<and> (\<forall>m \<in> set mnts. target_in target (point_of m) \<longrightarrow> length (point_of m) \<le> n)) \<or>
    (\<exists>m \<in> set mnts. found = Some m \<and> target_in target (point_of m) \<and> n < length (point_of m) \<and>
      (\<forall>m' \<in> set mnts. target_in target (point_of m') \<longrightarrow> length (point_of m') \<le> length (point_of m)))"
  using assms
proof (induction mnts arbitrary: best n)
  case (Cons m mnts)
  show ?case
  proof (cases "target_in target (point_of m) \<and> n < length (point_of m)")
    case True
    then have "best_mount target mnts (Some m) (length (point_of m)) = found" using Cons.prems by (simp add: Let_def)
    from Cons.IH [OF this] show ?thesis using True by fastforce
  next
    case False
    then have "best_mount target mnts best n = found" using Cons.prems by (auto simp: Let_def split: if_splits)
    from Cons.IH [OF this] show ?thesis using False by fastforce
  qed
qed simp

text \<open>The mount found contains the target and is the innermost that does; none is found only if none contains it.\<close>

lemma findMountForTarget_innermost:
  "(case findMountForTarget mnts target of
      None \<Rightarrow> \<forall>m \<in> set mnts. \<not> target_in (normalizeMountRefreshTarget target) (point_of m)
    | Some m \<Rightarrow> m \<in> set mnts \<and> target_in (normalizeMountRefreshTarget target) (point_of m) \<and>
        (\<forall>m' \<in> set mnts. target_in (normalizeMountRefreshTarget target) (point_of m') \<longrightarrow> length (point_of m') \<le> length (point_of m)))"
  using best_mount_spec [OF refl, of "normalizeMountRefreshTarget target" mnts None 0] normalized_target_nonempty
  by (auto simp: findMountForTarget_def split: option.splits)

text \<open>The test \<open>point + "/"\<close> is never a prefix when the mount point is the root: a mount at \<open>/\<close> contains no target but
  \<open>/\<close> itself, and refreshing a path below it fails.\<close>

lemma root_mount_misses_targets:
  assumes "vm_MountPoint m = ''/''"
  shows "findMountForTarget [m] ''/notes'' = None"
proof -
  have t: "trim_space ''/'' = ''/''" "trim_space ''/notes'' = ''/notes''"
    by (rule trim_space_fixI; simp add: starts_with_space_def ends_with_space_def space_runes_def)+
  have "normalizeMountRefreshTarget ''/'' = ''/''" "normalizeMountRefreshTarget ''/notes'' = ''/notes''"
    by (simp_all add: normalizeMountRefreshTarget_def t path_clean_def clean_comps_def trim_right_slashes_def has_prefix_def)
  then show ?thesis using assms by (simp add: findMountForTarget_def target_in_def has_prefix_def)
qed

end
