(* ===== verification/Builtin_Keeps.thy ===== *)
theory Builtin_Keeps
  imports Builtin_Edit Builtin_Text_Laws Builtin_Find_Laws Builtin_Listing Builtin_Search Builtin_Json_Laws
    Builtin_Frontmatter_Laws Builtin_Commands_Laws Builtin_Mounts Engine_Invariant
begin

section \<open>Every builtin keeps what its callbacks keep\<close>

text \<open>
  The locale \<open>reading_contract\<close> is what a builtin may rely on: an invariant of the state that the reading callbacks of
  its runtime keep and that the trace and the context keep. Inside it the builtins that only read are shown to keep the invariant,
  whatever the changing callbacks do. \<open>runtime_contract\<close> adds the dispatcher and the changing callbacks, of which something is asked
  only when the policy of the runtime allows writes: so a policy without writes is enough to make every builtin safe.
\<close>

definition reads_keep :: "('e sys \<Rightarrow> bool) \<Rightarrow> 'e Ops \<Rightarrow> bool" where
  "reads_keep I ops \<longleftrightarrow>
     keeps_inv I (o_ChangeWorkingDir ops) \<and> keeps_inv I (o_ResolvePath ops) \<and> keeps_inv I (o_RequireAbsolutePath ops) \<and>
     keeps_inv I (o_ListChildren ops) \<and> keeps_inv I (o_IsDirPath ops) \<and> keeps_inv I (o_DescribePath ops) \<and>
     keeps_inv I (o_ListEntries ops) \<and> keeps_inv I (o_EnumeratePaths ops) \<and> keeps_inv I (o_ReadRawContent ops) \<and>
     keeps_inv I (o_ReadMany ops) \<and> keeps_inv I (o_ResolveSearchPaths ops) \<and> keeps_inv I (o_CollectFilesUnder ops) \<and>
     keeps_inv I (o_SearchContent ops) \<and> keeps_inv I (o_CheckPathOp ops) \<and> keeps_inv I (o_ListExternalCommands ops) \<and>
     keeps_inv I (o_ReadExternalManual ops) \<and> (\<forall>m\<in>set (o_VirtualMounts ops). keeps_inv I (vm_Refresh m))"

definition writes_keep :: "('e sys \<Rightarrow> bool) \<Rightarrow> 'e Ops \<Rightarrow> bool" where
  "writes_keep I ops \<longleftrightarrow>
     keeps_inv I (o_WriteFile ops) \<and> keeps_inv I (o_AppendFile ops) \<and> keeps_inv I (o_EditFile ops) \<and>
     keeps_inv I (o_MakeDir ops) \<and> keeps_inv I (o_RemoveFile ops) \<and> keeps_inv I (o_RemoveDir ops) \<and>
     keeps_inv I (o_ApplyMutations ops)"

text \<open>Results on fuel: nothing is asked of a run that did not return.\<close>

definition kept_if_any :: "('s \<Rightarrow> bool) \<Rightarrow> ('r \<times> 's) option \<Rightarrow> bool" where
  "kept_if_any I x \<longleftrightarrow> (\<forall>y. x = Some y \<longrightarrow> kept I y)"

lemma kept_if_any_None: "kept_if_any I None"
  by (simp add: kept_if_any_def)

lemma kept_if_any_Some: "kept I y \<Longrightarrow> kept_if_any I (Some y)"
  by (simp add: kept_if_any_def)

lemma kept_if_any_bind:
  "kept I x \<Longrightarrow> (\<And>a s. x = (a, s) \<Longrightarrow> I s \<Longrightarrow> kept_if_any I (f a s)) \<Longrightarrow> kept_if_any I (case x of (a, s) \<Rightarrow> f a s)"
  by (cases x) (simp add: kept_def)

lemma kept_if_any_fst: "(\<And>a b. kept_if_any I (f a b)) \<Longrightarrow> kept_if_any I (case p of (a, b) \<Rightarrow> f a b)"
  by (cases p) simp

lemma kept_if_any_sum:
  "(\<And>e. x = Inl e \<Longrightarrow> kept_if_any I (f e)) \<Longrightarrow> (\<And>y. x = Inr y \<Longrightarrow> kept_if_any I (g y)) \<Longrightarrow>
   kept_if_any I (case x of Inl e \<Rightarrow> f e | Inr y \<Rightarrow> g y)"
  by (cases x) simp_all

lemma kept_if_any_if: "(c \<Longrightarrow> kept_if_any I a) \<Longrightarrow> (\<not> c \<Longrightarrow> kept_if_any I b) \<Longrightarrow> kept_if_any I (if c then a else b)"
  by simp

lemma kept_if_any_let: "kept_if_any I (f x) \<Longrightarrow> kept_if_any I (Let x f)"
  by simp

lemma kept_if_any_option:
  "(x = None \<Longrightarrow> kept_if_any I a) \<Longrightarrow> (\<And>y. x = Some y \<Longrightarrow> kept_if_any I (g y)) \<Longrightarrow>
   kept_if_any I (case x of None \<Rightarrow> a | Some y \<Rightarrow> g y)"
  by (cases x) simp_all

lemma kept_if_any_run:
  "kept_if_any I x \<Longrightarrow> (\<And>a s. x = Some (a, s) \<Longrightarrow> I s \<Longrightarrow> kept_if_any I (f (a, s))) \<Longrightarrow>
   kept_if_any I (case x of None \<Rightarrow> None | Some y \<Rightarrow> f y)"
  by (cases x) (auto simp: kept_if_any_def kept_def)

lemmas kept_some = kept_if_any_None kept_if_any_Some kept_if_any_run kept_if_any_bind kept_if_any_fst kept_if_any_sum
  kept_if_any_if kept_if_any_let kept_if_any_option

lemma kept_list:
  "(x = [] \<Longrightarrow> kept I a) \<Longrightarrow> (\<And>y ys. x = y # ys \<Longrightarrow> kept I (g y ys)) \<Longrightarrow>
   kept I (case x of [] \<Rightarrow> a | y # ys \<Rightarrow> g y ys)"
  by (cases x) simp_all

locale reading_contract =
  fixes I :: "'e sys \<Rightarrow> bool" and rt :: "'e CommandRuntime"
  assumes reading: "reads_keep I (rt_Ops rt)"
    and tracing: "I s \<Longrightarrow> I (on_trace f s)"
    and polling: "I s \<Longrightarrow> kept I (executionContextErr s)"
begin

lemma tracing_denied: "I s \<Longrightarrow> I (traceDeniedPaths ps s)"
  unfolding traceDeniedPaths_def
proof (induction ps arbitrary: s)
  case (Cons p ps)
  then show ?case by (simp add: Let_def markTraceDeniedPath_def markTraceRequestedPath_def tracing)
qed simp

lemma reads:
  assumes "I s"
  shows "kept I (call (o_ChangeWorkingDir (rt_Ops rt)) p s)" "kept I (call (o_ResolvePath (rt_Ops rt)) p s)"
    "kept I (require_path rt p s)" "kept I (call (o_ListChildren (rt_Ops rt)) p s)"
    "kept I (call (o_IsDirPath (rt_Ops rt)) p s)" "kept I (call (o_DescribePath (rt_Ops rt)) p s)"
    "kept I (call (o_ListEntries (rt_Ops rt)) le s)" "kept I (call (o_EnumeratePaths (rt_Ops rt)) en s)"
    "kept I (read_raw rt p s)" "kept I (call (o_ReadMany (rt_Ops rt)) rm s)"
    "kept I (call (o_ResolveSearchPaths (rt_Ops rt)) sp s)" "kept I (call (o_CollectFilesUnder (rt_Ops rt)) p s)"
    "kept I (call (o_SearchContent (rt_Ops rt)) sc s)" "kept I (call (o_CheckPathOp (rt_Ops rt)) ck s)"
    "kept I (call (o_ListExternalCommands (rt_Ops rt)) u s)" "kept I (call (o_ReadExternalManual (rt_Ops rt)) p s)"
  by (rule keeps_invD [where I = I, OF _ assms], use reading in \<open>simp add: reads_keep_def\<close>)+

lemma reads_some:
  assumes "I s"
  shows "o_ChangeWorkingDir (rt_Ops rt) = Some f1 \<Longrightarrow> kept I (f1 p s)" "o_DescribePath (rt_Ops rt) = Some f2 \<Longrightarrow> kept I (f2 p s)"
    "o_ListEntries (rt_Ops rt) = Some f3 \<Longrightarrow> kept I (f3 le s)" "o_ReadMany (rt_Ops rt) = Some f4 \<Longrightarrow> kept I (f4 rm s)"
    "o_SearchContent (rt_Ops rt) = Some f5 \<Longrightarrow> kept I (f5 sc s)" "o_CheckPathOp (rt_Ops rt) = Some f6 \<Longrightarrow> kept I (f6 ck s)"
    "o_ListExternalCommands (rt_Ops rt) = Some f7 \<Longrightarrow> kept I (f7 u s)"
    "o_ReadExternalManual (rt_Ops rt) = Some f8 \<Longrightarrow> kept I (f8 p s)"
    "o_EnumeratePaths (rt_Ops rt) = Some f9 \<Longrightarrow> kept I (f9 en s)" "o_IsDirPath (rt_Ops rt) = Some f10 \<Longrightarrow> kept I (f10 p s)"
  by (rule keeps_invD_some [where I = I, OF _ _ assms]; use reading in \<open>simp add: reads_keep_def\<close>)+

lemmas through = keep kept_list reads tracing_denied reads_some

subsection \<open>What builtins share\<close>

lemma preflight_keeps: "I s \<Longrightarrow> kept I (preflightPathChecks rt cmd checks s)"
proof (induction checks arbitrary: s)
  case (Cons c cs)
  show ?case unfolding preflightPathChecks.simps by (assumption | rule Cons.IH Cons.prems through)+
qed (simp add: kept_pair)

lemma letter_args_keeps: "I s \<Longrightarrow> kept I (letter_args cmd word step rt args flags filePath s)"
proof (induction args arbitrary: flags filePath s)
  case (Cons a as)
  show ?case unfolding letter_args.simps by (assumption | rule Cons.IH Cons.prems through)+
qed (simp add: kept_pair)

lemma load_source_keeps: "I s \<Longrightarrow> kept I (load_source cmd rt p s)"
  unfolding load_source_def by (assumption | rule through)+

subsection \<open>Text\<close>

lemma parseSinglePathNameArg_keeps: "I s \<Longrightarrow> kept I (parseSinglePathNameArg cmd args (require_path rt) s)"
  unfolding parseSinglePathNameArg_def by (assumption | rule through)+

lemma cat_args_keeps: "I s \<Longrightarrow> kept I (cat_args rt args n p s)"
proof (induction args arbitrary: n p s)
  case (Cons a as)
  show ?case unfolding cat_args.simps by (assumption | rule Cons.IH Cons.prems through)+
qed (simp add: kept_pair)

lemma parseHeadTailArgs_keeps: "I s \<Longrightarrow> kept I (parseHeadTailArgs cmd (require_path rt) args a s)"
proof (induction args arbitrary: a s rule: length_induct)
  case (1 args)
  then have IH: "length as < length args \<Longrightarrow> I s \<Longrightarrow> kept I (parseHeadTailArgs cmd (require_path rt) as a s)" for as a s by blast
  show ?case
  proof (cases args)
    case (Cons x xs)
    show ?thesis unfolding Cons parseHeadTailArgs.simps by (assumption | rule IH 1 through | (simp add: Cons; fail))+
  qed (simp add: 1 kept_pair)
qed

lemma loadHeadTailSource_keeps: "I s \<Longrightarrow> kept I (loadHeadTailSource rt cmd p s)"
  unfolding loadHeadTailSource_def by (assumption | rule through)+

lemma runView_keeps: "I s \<Longrightarrow> kept I (runView rt args s)"
  unfolding runView_def parseViewArgs_def by (assumption | rule preflight_keeps through)+

lemma text_builtins_keep:
  assumes "I s"
  shows "kept I (runEcho rt args s)" "kept I (runDirname rt args s)" "kept I (runBasename rt args s)"
    "kept I (runCat rt args s)" "kept I (run_window cmd f rt args s)" "kept I (runWc rt args s)" "kept I (runSort rt args s)"
    "kept I (runUniq rt args s)" "kept I (runDiff rt args s)" "kept I (runSedPrint rt args s)"
  unfolding runEcho_def runDirname_def runBasename_def runCat_def run_window_def runWc_def runSort_def runUniq_def
    runDiff_def runSedPrint_def
  by (assumption | rule assms parseSinglePathNameArg_keeps cat_args_keeps parseHeadTailArgs_keeps
      loadHeadTailSource_keeps letter_args_keeps load_source_keeps through)+

subsection \<open>Searches\<close>

lemma tryRuntimeSearch_keeps: "I s \<Longrightarrow> kept I (tryRuntimeSearch rt req s)"
  unfolding tryRuntimeSearch_def by (assumption | rule through)+

lemma scan_files_keeps: "I s \<Longrightarrow> kept I (scan_files rt f ps s)"
proof (induction ps arbitrary: s)
  case (Cons p ps)
  show ?case unfolding scan_files.simps by (assumption | rule Cons.IH Cons.prems through)+
qed (simp add: kept_pair)

lemma search_paths_keeps: "I s \<Longrightarrow> kept I (search_paths cmd rt render mat l j b a paths s)"
  unfolding search_paths_def by (assumption | rule scan_files_keeps through)+

lemma parseGrepArgs_keeps: "I s \<Longrightarrow> kept I (parseGrepArgs args (require_path rt) s)"
  unfolding parseGrepArgs_def by (assumption | rule through)+

lemma shouldUseRuntimeSearch_keeps: "I s \<Longrightarrow> kept I (shouldUseRuntimeSearch rt target recursive s)"
  unfolding shouldUseRuntimeSearch_def by (assumption | rule through)+

lemma grep_scan_keeps: "I s \<Longrightarrow> kept I (grep_scan rt opts mat s)"
  unfolding grep_scan_def by (assumption | rule search_paths_keeps through)+

lemma rg_targets_keeps: "I s \<Longrightarrow> kept I (rg_targets (require_path rt) args ts s)"
proof (induction args arbitrary: ts s)
  case (Cons a as)
  show ?case unfolding rg_targets.simps by (assumption | rule Cons.IH Cons.prems through)+
qed (simp add: kept_pair)

lemma parseRGArgs_keeps: "I s \<Longrightarrow> kept I (parseRGArgs args (require_path rt) root s)"
  unfolding parseRGArgs_def by (assumption | rule rg_targets_keeps through)+

lemma rg_resolve_keeps: "I s \<Longrightarrow> kept I (rg_resolve rt globs ts out s)"
proof (induction ts arbitrary: out s)
  case (Cons t ts)
  show ?case unfolding rg_resolve.simps by (assumption | rule Cons.IH Cons.prems through)+
qed (simp add: kept_pair)

lemma resolveRGSearchPaths_keeps: "I s \<Longrightarrow> kept I (resolveRGSearchPaths rt ts globs s)"
  unfolding resolveRGSearchPaths_def by (assumption | rule rg_resolve_keeps through)+

lemma rg_scan_keeps: "I s \<Longrightarrow> kept I (rg_scan rt opts mat s)"
  unfolding rg_scan_def by (assumption | rule resolveRGSearchPaths_keeps search_paths_keeps through)+

lemma search_builtins_keep:
  assumes "I s"
  shows "kept I (runGrep lib rt args s)" "kept I (runRG lib rt args s)"
  unfolding runGrep_def runRG_def
  by (assumption | rule assms parseGrepArgs_keeps shouldUseRuntimeSearch_keeps tryRuntimeSearch_keeps grep_scan_keeps
      parseRGArgs_keeps resolveRGSearchPaths_keeps rg_scan_keeps through)+

subsection \<open>Finding files\<close>

lemma find_args_keeps: "I s \<Longrightarrow> kept I (find_args (require_path rt) args opts scan s)"
proof (induction args arbitrary: opts scan s rule: length_induct)
  case (1 args)
  then have IH: "length as < length args \<Longrightarrow> I s \<Longrightarrow> kept I (find_args (require_path rt) as opts scan s)" for as opts scan s
    by blast
  show ?case
  proof (cases args)
    case (Cons x xs)
    have drop: "length r < length args" if "dropWhile P xs = t # r" for P t r
      using length_dropWhile_le [of P xs] that by (simp add: Cons)
    show ?thesis unfolding Cons find_args.simps
      by (assumption | rule IH 1(2) through | (simp add: Cons; fail) | (rule drop, simp; fail))+
  qed (simp add: 1 kept_pair)
qed

lemma parseFindArgs_keeps: "I s \<Longrightarrow> kept I (parseFindArgs args (require_path rt) root s)"
  unfolding parseFindArgs_def by (assumption | rule find_args_keeps through)+

text \<open>The matcher carries its memo beside the state.\<close>

lemma kept_memo_bind:
  "kept (\<lambda>ms. I (snd ms)) x \<Longrightarrow> (\<And>a m s. I s \<Longrightarrow> kept K (f a m s)) \<Longrightarrow> kept K (case x of (a, m, s) \<Rightarrow> f a m s)"
  by (cases x) (simp add: kept_def)

lemma kept_memo_poll: "I s \<Longrightarrow> (\<And>e s. I s \<Longrightarrow> kept K (f e s)) \<Longrightarrow> kept K (case executionContextErr s of (e, s) \<Rightarrow> f e s)"
  using polling [of s] by (cases "executionContextErr s") (simp add: kept_def)

lemma kept_memo_pair: "I s \<Longrightarrow> kept (\<lambda>ms. I (snd ms)) (r, m, s)"
  by (simp add: kept_def)

lemma glob_visit_keeps: "I s \<Longrightarrow> kept (\<lambda>ms. I (snd ms)) (glob_visit parts rel r p memo s)"
proof (induction "(length rel - r) + (length parts - p)" arbitrary: r p memo s rule: less_induct)
  case less
  then have IH: "(length rel - r') + (length parts - p') < (length rel - r) + (length parts - p) \<Longrightarrow> I s' \<Longrightarrow>
    kept (\<lambda>ms. I (snd ms)) (glob_visit parts rel r' p' memo' s')" for r' p' memo' s' by blast
  show ?case
    unfolding glob_visit.simps [of parts rel r p memo s]
    by (assumption | rule kept_memo_poll kept_memo_bind IH less(2) kept_memo_pair kept_sum kept_option kept_if kept_let kept_bool
      | (simp; fail) | (elim conjE, arith))+
qed

lemma glob_match_keeps: "I s \<Longrightarrow> kept I (glob_match parts rel s)"
  unfolding glob_match_def by (assumption | rule kept_memo_bind glob_visit_keeps kept_let kept_pair)+

lemma glob_targets_keeps: "I s \<Longrightarrow> kept I (glob_targets (require_path rt) args s)"
proof (induction args arbitrary: s)
  case (Cons a as)
  show ?case unfolding glob_targets.simps by (assumption | rule Cons.IH Cons.prems through)+
qed (simp add: kept_pair)

lemma parseGlobArgs_keeps: "I s \<Longrightarrow> kept I (parseGlobArgs args (require_path rt) cwd s)"
  unfolding parseGlobArgs_def by (assumption | rule glob_targets_keeps through)+

lemma collectGlobFiles_keeps: "I s \<Longrightarrow> kept I (collectGlobFiles rt target s)"
  unfolding collectGlobFiles_def by (assumption | rule through)+

lemma glob_files_keeps: "I s \<Longrightarrow> kept I (glob_files parts target ps out s)"
proof (induction ps arbitrary: out s)
  case (Cons p ps)
  show ?case unfolding glob_files.simps by (assumption | rule glob_match_keeps Cons.IH Cons.prems keep)+
qed (simp add: kept_pair)

lemma glob_loop_keeps: "I s \<Longrightarrow> kept I (glob_loop rt parts ts out s)"
proof (induction ts arbitrary: out s)
  case (Cons t ts)
  show ?case unfolding glob_loop.simps
    by (assumption | rule collectGlobFiles_keeps glob_files_keeps Cons.IH Cons.prems keep)+
qed (simp add: kept_pair)

lemma runGlob_keeps: "I s \<Longrightarrow> kept I (runGlob rt args s)"
  unfolding runGlob_def by (assumption | rule parseGlobArgs_keeps glob_loop_keeps through)+

end

locale runtime_contract = reading_contract +
  assumes writing: "AllowWrite (o_Policy (rt_Ops rt)) \<Longrightarrow> writes_keep I (rt_Ops rt)"
    and dispatching: "I s \<Longrightarrow> kept I (rt_Dispatch rt args i h s)"
begin

lemma writes:
  assumes "AllowWrite (o_Policy (rt_Ops rt))" and "I s"
  shows "kept I (call (o_WriteFile (rt_Ops rt)) w s)" "kept I (call (o_AppendFile (rt_Ops rt)) w s)"
    "kept I (call (o_EditFile (rt_Ops rt)) ed s)" "kept I (call (o_MakeDir (rt_Ops rt)) p s)"
    "kept I (call (o_RemoveFile (rt_Ops rt)) p s)" "kept I (call (o_RemoveDir (rt_Ops rt)) p s)"
    "kept I (call (o_ApplyMutations (rt_Ops rt)) b s)"
    "o_WriteFile (rt_Ops rt) = Some f1 \<Longrightarrow> kept I (f1 w s)" "o_AppendFile (rt_Ops rt) = Some f2 \<Longrightarrow> kept I (f2 w s)"
    "o_EditFile (rt_Ops rt) = Some f3 \<Longrightarrow> kept I (f3 ed s)" "o_MakeDir (rt_Ops rt) = Some f4 \<Longrightarrow> kept I (f4 p s)"
    "o_RemoveFile (rt_Ops rt) = Some f5 \<Longrightarrow> kept I (f5 p s)" "o_RemoveDir (rt_Ops rt) = Some f6 \<Longrightarrow> kept I (f6 p s)"
    "o_ApplyMutations (rt_Ops rt) = Some f7 \<Longrightarrow> kept I (f7 b s)"
  by ((rule keeps_invD [where I = I, OF _ assms(2)] | rule keeps_invD_some [where I = I, OF _ _ assms(2)]);
      use writing [OF assms(1)] in \<open>simp add: writes_keep_def\<close>)+

subsection \<open>Files\<close>

abbreviation (input) writable :: bool where
  "writable \<equiv> AllowWrite (o_Policy (rt_Ops rt))"

lemma path_operands_keeps: "I s \<Longrightarrow> kept I (path_operands cmd skipped rt args paths s)"
proof (induction args arbitrary: paths s)
  case (Cons a as)
  show ?case unfolding path_operands.simps by (assumption | rule Cons.IH Cons.prems through)+
qed (simp add: kept_pair)

lemma checked_paths_keeps:
  "I s \<Longrightarrow> (\<And>s. writable \<Longrightarrow> I s \<Longrightarrow> kept I (body paths s)) \<Longrightarrow> kept I (checked_paths cmd oper message rt paths body s)"
  unfolding checked_paths_def by (assumption | rule preflight_keeps through | (simp; fail))+

lemma touch_loop_keeps: "writable \<Longrightarrow> I s \<Longrightarrow> kept I (touch_loop rt ps results s)"
proof (induction ps arbitrary: results s)
  case (Cons p ps)
  show ?case unfolding touch_loop.simps by (assumption | rule writes Cons.IH Cons.prems through)+
qed (simp add: kept_pair)

lemma remove_loop_keeps:
  assumes "\<And>p s. I s \<Longrightarrow> kept I (remove p s)"
  shows "I s \<Longrightarrow> kept I (remove_loop cmd remove ps results s)"
proof (induction ps arbitrary: results s)
  case (Cons p ps)
  show ?case unfolding remove_loop.simps by (assumption | rule assms Cons.IH Cons.prems through)+
qed (simp add: kept_pair)

lemma remove_each_keeps:
  "(\<And>p s. I s \<Longrightarrow> kept I (remove p s)) \<Longrightarrow> I s \<Longrightarrow> kept I (remove_each cmd remove confirm json paths s)"
  unfolding remove_each_def by (assumption | rule remove_loop_keeps through)+

lemma apply_batch_keeps:
  "writable \<Longrightarrow> (\<And>s. I s \<Longrightarrow> kept I (fallback s)) \<Longrightarrow> I s \<Longrightarrow> kept I (apply_batch cmd rt batch finish fallback s)"
  unfolding apply_batch_def by (assumption | rule writes through)+

lemma dir_exists_keeps: "I s \<Longrightarrow> kept I (dir_exists rt p s)"
  unfolding dir_exists_def by (assumption | rule through)+

lemma mkdir_statuses_keeps: "I s \<Longrightarrow> kept I (mkdir_statuses rt ps s)"
proof (induction ps arbitrary: s)
  case (Cons p ps)
  show ?case unfolding mkdir_statuses.simps by (assumption | rule dir_exists_keeps Cons.IH Cons.prems through)+
qed (simp add: kept_pair)

lemma mkdir_loop_keeps: "writable \<Longrightarrow> I s \<Longrightarrow> kept I (mkdir_loop rt ps results s)"
proof (induction ps arbitrary: results s)
  case (Cons p ps)
  show ?case unfolding mkdir_loop.simps by (assumption | rule writes dir_exists_keeps Cons.IH Cons.prems through)+
qed (simp add: kept_pair)

lemma transfer_keeps:
  assumes "\<And>c j src dest content s. writable \<Longrightarrow> I s \<Longrightarrow> kept I (body c j src dest content s)"
  shows "I s \<Longrightarrow> kept I (transfer cmd denied checks body rt args s)"
  unfolding transfer_def by (assumption | rule preflight_keeps assms through | (simp; fail))+

lemma mv_steps_keeps: "writable \<Longrightarrow> I s \<Longrightarrow> kept I (mv_steps rt c j src dest content s)"
  unfolding mv_steps_def by (assumption | rule writes through)+

lemma tee_args_keeps: "I s \<Longrightarrow> kept I (tee_args rt args a t s)"
proof (induction args arbitrary: a t s)
  case (Cons x xs)
  show ?case unfolding tee_args.simps by (assumption | rule Cons.IH Cons.prems through)+
qed (simp add: kept_pair)

lemma file_builtins_keep:
  assumes "I s"
  shows "kept I (runTouch rt args s)" "kept I (runRm rt args s)" "kept I (runRmdir rt args s)" "kept I (runMkdir rt args s)"
    "kept I (runCp rt args s)" "kept I (runMv rt args s)" "kept I (runTee rt args s)"
  unfolding runTouch_def runRm_def runRmdir_def runMkdir_def runCp_def runMv_def runTee_def
  by (assumption | rule assms path_operands_keeps checked_paths_keeps touch_loop_keeps remove_each_keeps
      apply_batch_keeps mkdir_statuses_keeps mkdir_loop_keeps transfer_keeps mv_steps_keeps tee_args_keeps writes through
    | (simp; fail))+

subsection \<open>Edits\<close>

lemma parseEditArgs_keeps: "I s \<Longrightarrow> kept I (parseEditArgs args (require_path rt) s)"
  unfolding parseEditArgs_def by (assumption | rule through)+

lemma edit_write_keeps: "I s \<Longrightarrow> kept I (edit_write rt opts found s)"
  unfolding edit_write_def by (assumption | rule preflight_keeps writes through | (simp; fail))+

lemma edit_builtins_keep:
  assumes "I s"
  shows "kept I (runSed rt args s)" "kept I (runEdit rt args s)"
  unfolding runSed_def runSedInPlace_def runEdit_def
  by (assumption | rule assms text_builtins_keep parseEditArgs_keeps edit_write_keeps preflight_keeps writes through
    | (simp; fail))+

lemma exec_each_keeps: "I s \<Longrightarrow> kept I (exec_each (rt_Dispatch rt) a ps out s)"
proof (induction ps arbitrary: out s)
  case (Cons p ps)
  show ?case unfolding exec_each.simps by (assumption | rule Cons.IH Cons.prems dispatching through)+
qed (simp add: kept_pair)

lemma runFindExec_keeps: "I s \<Longrightarrow> kept I (runFindExec files a ep (rt_Dispatch rt) s)"
  unfolding runFindExec_def by (assumption | rule exec_each_keeps dispatching through)+

lemma runFind_keeps: "I s \<Longrightarrow> kept I (runFind rt args s)"
  unfolding runFind_def by (assumption | rule parseFindArgs_keeps runFindExec_keeps through)+

end

end
