(* ===== verification/Builtin_Keeps_Rows.thy ===== *)
theory Builtin_Keeps_Rows
  imports Builtin_Keeps Builtin_Listing Builtin_Json_Laws Builtin_Frontmatter_Laws Builtin_Commands_Laws Builtin_Mounts
begin

section \<open>Every builtin keeps what its callbacks keep: listings, documents, commands, mounts\<close>

text \<open>
  The second half of the lemmas of \<open>reading_contract\<close>. What the walks of ls and tree return is on fuel, so \<open>kept_if_any\<close> asks
  for the invariant when they return; the long rows are rendered by a callback (\<open>format_row\<close>), which must keep the invariant too.
\<close>

lemma kept_if_any_run_pair:
  "kept_if_any I x \<Longrightarrow> (\<And>a s. x = Some (a, s) \<Longrightarrow> I s \<Longrightarrow> kept_if_any I (f a s)) \<Longrightarrow>
   kept_if_any I (case x of None \<Rightarrow> None | Some y \<Rightarrow> (case y of (a, s) \<Rightarrow> f a s))"
  by (cases x) (auto simp: kept_if_any_def kept_def)

lemma kept_if_any_map_option:
  "kept_if_any I x \<Longrightarrow> (\<And>a s. I s \<Longrightarrow> kept I (f (a, s))) \<Longrightarrow> kept_if_any I (map_option f x)"
  by (cases x) (auto simp: kept_if_any_def kept_def)

lemma kept_if_any_list:
  "(x = [] \<Longrightarrow> kept_if_any I a) \<Longrightarrow> (\<And>y ys. x = y # ys \<Longrightarrow> kept_if_any I (g y ys)) \<Longrightarrow>
   kept_if_any I (case x of [] \<Rightarrow> a | y # ys \<Rightarrow> g y ys)"
  by (cases x) simp_all

lemma kept_if_any_nat:
  "(n = 0 \<Longrightarrow> kept_if_any I a) \<Longrightarrow> (\<And>m. n = Suc m \<Longrightarrow> kept_if_any I (g m)) \<Longrightarrow>
   kept_if_any I (case n of 0 \<Rightarrow> a | Suc m \<Rightarrow> g m)"
  by (cases n) simp_all

lemmas kept_fuel = kept_if_any_run_pair kept_if_any_map_option kept_if_any_list kept_if_any_nat kept_some

text \<open>A callback that renders rows keeps an invariant.\<close>

definition rows_keep :: "('e sys \<Rightarrow> bool) \<Rightarrow> 'e row_format \<Rightarrow> bool" where
  "rows_keep I format_row \<longleftrightarrow> (\<forall>f row s. format_row = Some f \<longrightarrow> I s \<longrightarrow> kept I (f row s))"

lemma rows_keepD: "rows_keep I format_row \<Longrightarrow> format_row = Some f \<Longrightarrow> I s \<Longrightarrow> kept I (f row s)"
  by (simp add: rows_keep_def)

text \<open>The status callbacks of the mounts keep an invariant.\<close>

definition status_keeps :: "('e sys \<Rightarrow> bool) \<Rightarrow> 'e mount_probe \<Rightarrow> bool" where
  "status_keeps I pb \<longleftrightarrow> (\<forall>m. keeps_inv I (pb_status pb m))"

lemma readMountRuntimeStatus_keeps:
  assumes "status_keeps I pb" "I s"
  shows "kept I (readMountRuntimeStatus pb m s)"
proof -
  have status: "keeps_inv I (pb_status pb m)" using assms(1) by (simp add: status_keeps_def)
  show ?thesis
    unfolding readMountRuntimeStatus_def by (assumption | rule keeps_invD_some [OF status] assms(2) keep)+
qed

lemma RefreshMount_keeps:
  assumes "keeps_inv I (vm_Refresh m)" "I s"
  shows "kept I (RefreshMount (Some m) req s)"
  unfolding RefreshMount_def option.case
  by (assumption | rule keeps_invD_some [OF assms(1)] assms(2) keep)+

lemma found_mount_member: "findMountForTarget mnts t = Some m \<Longrightarrow> m \<in> set mnts"
proof -
  have "best_mount t ms best n = Some m \<Longrightarrow> best = Some m \<or> m \<in> set ms" for t ms best n
    by (induction ms arbitrary: best n) (auto simp: Let_def split: if_splits)
  from this [of _ mnts None] show "findMountForTarget mnts t = Some m \<Longrightarrow> m \<in> set mnts"
    by (auto simp: findMountForTarget_def)
qed

context reading_contract begin

subsection \<open>ls\<close>

lemma child_entry_keeps: "I s \<Longrightarrow> kept I (child_entry rt c s)"
  unfolding child_entry_def child_described_def child_kind_def by (assumption | rule through)+

lemma child_entries_keeps: "I s \<Longrightarrow> kept I (child_entries rt cs s)"
proof (induction cs arbitrary: s)
  case (Cons c cs)
  show ?case unfolding child_entries.simps by (assumption | rule child_entry_keeps Cons.IH Cons.prems through)+
qed (simp add: kept_pair)

lemma listDirectoryEntries_keeps: "I s \<Longrightarrow> kept I (listDirectoryEntriesWithDepth rt recursive maxDepth target s)"
  unfolding listDirectoryEntriesWithDepth_def listed_children_def by (assumption | rule child_entries_keeps through)+

lemma buildLongRow_keeps: "I s \<Longrightarrow> kept I (buildLongRow rt d p s)"
  unfolding buildLongRow_def described_row_def by (assumption | rule through)+

lemma format_text_rows_keeps: "rows_keep I fr \<Longrightarrow> I s \<Longrightarrow> kept I (format_text_rows fr rows s)"
proof (induction rows arbitrary: s)
  case (Cons row rows)
  show ?case unfolding format_text_rows.simps by (assumption | rule rows_keepD [OF Cons.prems(1)] Cons.IH Cons.prems through)+
qed (simp add: kept_pair)

lemma kept_lsLongFormat:
  "kept I a \<Longrightarrow> kept I b \<Longrightarrow> kept I c \<Longrightarrow>
   kept I (case style of lsLongFormatText \<Rightarrow> a | lsLongFormatMarkdown \<Rightarrow> b | lsLongFormatJSON \<Rightarrow> c)"
  by (cases style) simp_all

lemma formatLongRows_keeps: "rows_keep I fr \<Longrightarrow> I s \<Longrightarrow> kept I (formatLongRows fr rows style s)"
  unfolding formatLongRows_def by (assumption | rule kept_lsLongFormat format_text_rows_keeps through)+

lemma renderLSOutput_keeps: "rows_keep I fr \<Longrightarrow> I s \<Longrightarrow> kept I (renderLSOutput rt fr flags target entries s)"
  unfolding renderLSOutput_def dot_rows_def by (assumption | rule formatLongRows_keeps buildLongRow_keeps through)+

lemma ls_args_keeps: "I s \<Longrightarrow> kept I (ls_args rt args flags targets s)"
proof (induction args arbitrary: flags targets s rule: length_induct)
  case (1 args)
  then have IH: "length as < length args \<Longrightarrow> I s \<Longrightarrow> kept I (ls_args rt as flags targets s)" for as flags targets s by blast
  show ?case
  proof (cases args)
    case (Cons x xs)
    show ?thesis unfolding Cons ls_args.simps by (assumption | rule IH 1(2) through | (simp add: Cons; fail))+
  qed (simp add: 1 kept_pair)
qed

lemma ls_walk_keeps: "rows_keep I fr \<Longrightarrow> I s \<Longrightarrow> kept_if_any I (ls_walk fuel rt fr flags visited queue out s)"
proof (induction fuel arbitrary: visited queue out s)
  case 0
  then show ?case by (induction queue) (simp_all add: kept_if_any_def kept_def)
next
  case (Suc fuel)
  show ?case using Suc.prems(2)
  proof (induction queue arbitrary: s)
    case (Cons dir queue)
    show ?case unfolding ls_walk.simps Nat.nat.case
      by (assumption | rule listDirectoryEntries_keeps renderLSOutput_keeps Suc.IH Suc.prems(1) Cons.IH Cons.prems kept_fuel kept_pair)+
  qed (simp add: kept_if_any_def kept_def)
qed

lemma runLSTarget_keeps: "rows_keep I fr \<Longrightarrow> I s \<Longrightarrow> kept_if_any I (runLSTarget fuel rt fr flags target s)"
  unfolding runLSTarget_def
  by (assumption | rule listDirectoryEntries_keeps renderLSOutput_keeps buildLongRow_keeps formatLongRows_keeps ls_walk_keeps
      kept_fuel through)+

lemma ls_sections_keeps: "rows_keep I fr \<Longrightarrow> I s \<Longrightarrow> kept_if_any I (ls_sections fuel rt fr flags n ts sections s)"
proof (induction ts arbitrary: sections s)
  case (Cons t ts)
  show ?case unfolding ls_sections.simps
    by (assumption | rule runLSTarget_keeps Cons.IH Cons.prems kept_fuel kept_pair)+
qed (simp add: kept_if_any_def kept_def)

lemma runLS_keeps: "rows_keep I fr \<Longrightarrow> I s \<Longrightarrow> kept_if_any I (runLS fuel fr rt args s)"
  unfolding runLS_def by (assumption | rule ls_args_keeps ls_sections_keeps kept_fuel kept_pair)+

subsection \<open>tree\<close>

lemma tree_args_keeps: "I s \<Longrightarrow> kept I (tree_args (require_path rt) args opts s)"
proof (induction args arbitrary: opts s rule: length_induct)
  case (1 args)
  then have IH: "length as < length args \<Longrightarrow> I s \<Longrightarrow> kept I (tree_args (require_path rt) as opts s)" for as opts s by blast
  show ?case
  proof (cases args)
    case (Cons x xs)
    show ?thesis unfolding Cons tree_args.simps by (assumption | rule IH 1(2) through | (simp add: Cons; fail))+
  qed (simp add: 1 kept_pair)
qed

lemma tree_walk_keeps:
  "I s \<Longrightarrow> kept_if_any I (tree_dir fuel rt style opts pre depth dir acc s)"
  "I s \<Longrightarrow> kept_if_any I (tree_children fuel rt style opts pre depth children acc s)"
proof (induction fuel arbitrary: pre depth dir children acc s)
  case 0
  {
    case 1
    then show ?case by (simp add: kept_if_any_None)
  next
    case 2
    have *: "I s \<Longrightarrow> kept_if_any I (tree_children 0 rt style opts pre depth children (v, es) s)" for v es s
    proof (induction children arbitrary: v es s)
      case (Cons c cs)
      then show ?case by (simp add: Let_def kept_if_any_None)
    qed (simp add: kept_if_any_def kept_def)
    show ?case using * [OF 2] by (cases acc) simp
  }
next
  case (Suc fuel)
  {
    case 1
    show ?case unfolding tree_dir.simps
      by (assumption | rule listDirectoryEntries_keeps Suc.IH(2) 1 kept_fuel kept_pair)+
  next
    case 2
    have step: "I s \<Longrightarrow> kept_if_any I (tree_dir (Suc fuel) rt style opts pre depth dir acc s)" for pre depth dir acc s
      unfolding tree_dir.simps
      by (assumption | rule listDirectoryEntries_keeps Suc.IH(2) kept_fuel kept_pair)+
    have *: "I s \<Longrightarrow> kept_if_any I (tree_children (Suc fuel) rt style opts pre depth children acc s)" for acc s
    proof (induction children arbitrary: acc s)
      case (Cons c cs)
      obtain v es where acc: "acc = (v, es)" by (cases acc)
      show ?case unfolding acc tree_children.simps
        by (assumption | rule step Cons.IH Cons.prems kept_fuel kept_pair)+
    qed (simp add: kept_if_any_def kept_def)
    show ?case by (rule * [OF 2])
  }
qed

lemma collectTreeEntries_keeps: "I s \<Longrightarrow> kept_if_any I (collectTreeEntries fuel rt opts target s)"
  unfolding collectTreeEntries_def by (rule kept_if_any_map_option, rule tree_walk_keeps, assumption, simp add: kept_def)

lemma each_target_keeps:
  assumes "\<And>t s. I s \<Longrightarrow> kept_if_any I (f t s)"
  shows "I s \<Longrightarrow> kept_if_any I (each_target f ts s)"
proof (induction ts arbitrary: s)
  case (Cons t ts)
  show ?case unfolding each_target.simps by (assumption | rule assms Cons.IH Cons.prems kept_fuel kept_pair)+
qed (simp add: kept_if_any_def kept_def)

lemma renderTreeTarget_keeps: "I s \<Longrightarrow> kept_if_any I (renderTreeTarget fuel rt opts target s)"
  unfolding renderTreeTarget_def by (assumption | rule tree_walk_keeps collectTreeEntries_keeps kept_fuel through)+

lemma buildTreeJSONTarget_keeps: "I s \<Longrightarrow> kept_if_any I (buildTreeJSONTarget fuel rt opts target s)"
  unfolding buildTreeJSONTarget_def by (assumption | rule collectTreeEntries_keeps kept_fuel through)+

lemma rendered_section_keeps: "kept_if_any I x \<Longrightarrow> kept_if_any I (rendered_section x)"
  unfolding rendered_section_def by (rule kept_if_any_map_option) (auto simp: kept_def split: prod.split)

lemma runTree_keeps: "I s \<Longrightarrow> kept_if_any I (runTree fuel rt args s)"
  unfolding runTree_def parseTreeArgs_def
  by (assumption | rule tree_args_keeps each_target_keeps buildTreeJSONTarget_keeps renderTreeTarget_keeps rendered_section_keeps
      kept_fuel through)+

subsection \<open>frontmatter\<close>

lemma append_children_keeps: "I s \<Longrightarrow> kept I (append_children rt cs files s)"
proof (induction cs arbitrary: files s)
  case (Cons c cs)
  show ?case unfolding append_children.simps by (assumption | rule Cons.IH Cons.prems through)+
qed (simp add: kept_pair)

lemma append_targets_keeps: "I s \<Longrightarrow> kept I (append_targets rt recursive ts files s)"
proof (induction ts arbitrary: files s)
  case (Cons t ts)
  show ?case unfolding append_targets.simps append_target_def
    by (assumption | rule append_children_keeps Cons.IH Cons.prems through)+
qed (simp add: kept_pair)

lemma expandFrontmatterTargets_keeps: "I s \<Longrightarrow> kept I (expandFrontmatterTargets rt label ts recursive s)"
  unfolding expandFrontmatterTargets_def by (assumption | rule append_targets_keeps through)+

lemma stat_args_keeps: "I s \<Longrightarrow> kept I (stat_args rt args opts s)"
proof (induction args arbitrary: opts s rule: length_induct)
  case (1 args)
  then have IH: "length as < length args \<Longrightarrow> I s \<Longrightarrow> kept I (stat_args rt as opts s)" for as opts s by blast
  show ?case
  proof (cases args)
    case (Cons x xs)
    show ?thesis unfolding Cons stat_args.simps by (assumption | rule IH 1(2) through | (simp add: Cons; fail))+
  qed (simp add: 1 kept_pair)
qed

lemma get_args_keeps: "I s \<Longrightarrow> kept I (get_args rt args opts s)"
proof (induction args arbitrary: opts s rule: length_induct)
  case (1 args)
  then have IH: "length as < length args \<Longrightarrow> I s \<Longrightarrow> kept I (get_args rt as opts s)" for as opts s by blast
  show ?case
  proof (cases args)
    case (Cons x xs)
    show ?thesis unfolding Cons get_args.simps by (assumption | rule IH 1(2) through | (simp add: Cons; fail))+
  qed (simp add: 1 kept_pair)
qed

lemma print_args_keeps: "I s \<Longrightarrow> kept I (print_args rt args opts s)"
proof (induction args arbitrary: opts s rule: length_induct)
  case (1 args)
  then have IH: "length as < length args \<Longrightarrow> I s \<Longrightarrow> kept I (print_args rt as opts s)" for as opts s by blast
  show ?case
  proof (cases args)
    case (Cons x xs)
    show ?thesis unfolding Cons print_args.simps by (assumption | rule IH 1(2) through | (simp add: Cons; fail))+
  qed (simp add: 1 kept_pair)
qed

lemma frontmatter_rows_keeps: "I s \<Longrightarrow> kept I (frontmatter_rows rt fs s)"
proof (induction fs arbitrary: s)
  case (Cons f fs)
  show ?case unfolding frontmatter_rows.simps by (assumption | rule Cons.IH Cons.prems through)+
qed (simp add: kept_pair)

lemma print_files_keeps: "I s \<Longrightarrow> kept_if_any I (print_files rt opts many fs s)"
proof (induction fs arbitrary: s)
  case (Cons f fs)
  show ?case unfolding print_files.simps
    by (assumption | rule kept_if_any_option Cons.IH Cons.prems kept_fuel through | (simp add: kept_def split: prod.split; fail))+
qed (simp add: kept_if_any_def kept_def)

lemma runFrontmatter_keeps:
  assumes "I s"
  shows "kept_if_any I (runFrontmatter rt args s)"
  unfolding runFrontmatter_def runFrontmatterStat_def runFrontmatterGet_def runFrontmatterPrint_def
  by (assumption | rule assms stat_args_keeps get_args_keeps print_args_keeps expandFrontmatterTargets_keeps frontmatter_rows_keeps
      print_files_keeps kept_fuel through | (simp add: kept_def split: prod.split; fail))+

subsection \<open>json\<close>

lemma json_targets_keeps: "I s \<Longrightarrow> kept I (json_targets rt recursive ts files s)"
proof (induction ts arbitrary: files s)
  case (Cons t ts)
  show ?case unfolding json_targets.simps json_target_def
    by (assumption | rule listDirectoryEntries_keeps Cons.IH Cons.prems through)+
qed (simp add: kept_pair)

lemma read_inputs_keeps: "I s \<Longrightarrow> kept I (read_inputs rt fs s)"
proof (induction fs arbitrary: s)
  case (Cons f fs)
  show ?case unfolding read_inputs.simps by (assumption | rule Cons.IH Cons.prems through)+
qed (simp add: kept_pair)

lemma readJSONInputs_keeps: "I s \<Longrightarrow> kept I (readJSONInputs rt label files s)"
  unfolding readJSONInputs_def
  by (assumption | rule read_inputs_keeps through | (simp split: if_splits; fail))+

lemma json_rows_keeps: "I s \<Longrightarrow> kept I (json_rows rt label ts recursive row render s)"
  unfolding json_rows_def expandJSONTargets_def by (assumption | rule json_targets_keeps readJSONInputs_keeps through)+

lemma json_stat_args_keeps: "I s \<Longrightarrow> kept I (json_stat_args rt args opts s)"
proof (induction args arbitrary: opts s rule: length_induct)
  case (1 args)
  then have IH: "length as < length args \<Longrightarrow> I s \<Longrightarrow> kept I (json_stat_args rt as opts s)" for as opts s by blast
  show ?case
  proof (cases args)
    case (Cons x xs)
    show ?thesis unfolding Cons json_stat_args.simps by (assumption | rule IH 1(2) through | (simp add: Cons; fail))+
  qed (simp add: 1 kept_pair)
qed

lemma batch_args_keeps: "I s \<Longrightarrow> kept I (batch_args rt label args opts s)"
proof (induction args arbitrary: opts s rule: length_induct)
  case (1 args)
  then have IH: "length as < length args \<Longrightarrow> I s \<Longrightarrow> kept I (batch_args rt label as opts s)" for as opts s by blast
  show ?case
  proof (cases args)
    case (Cons x xs)
    show ?thesis unfolding Cons batch_args.simps by (assumption | rule IH 1(2) through | (simp add: Cons; fail))+
  qed (simp add: 1 kept_pair)
qed

lemma json_get_args_keeps: "I s \<Longrightarrow> kept I (json_get_args rt args opts s)"
proof (induction args arbitrary: opts s rule: length_induct)
  case (1 args)
  then have IH: "length as < length args \<Longrightarrow> I s \<Longrightarrow> kept I (json_get_args rt as opts s)" for as opts s by blast
  show ?case
  proof (cases args)
    case (Cons x xs)
    show ?thesis unfolding Cons json_get_args.simps by (assumption | rule IH 1(2) through | (simp add: Cons; fail))+
  qed (simp add: 1 kept_pair)
qed

lemma runJSON_keeps:
  assumes "I s"
  shows "kept I (runJSON lib rt args s)"
  unfolding runJSON_def runJSONStat_def runJSONGet_def runJSONKeys_def runJSONLen_def parseJSONBatchQueryArgs_def
  by (assumption | rule assms json_stat_args_keeps batch_args_keeps json_get_args_keeps json_rows_keeps through)+

subsection \<open>Commands\<close>

lemma normalizeCommandReference_keeps:
  assumes "I s"
  shows "kept I (normalizeCommandReferenceForRuntime rt raw s)"
proof -
  have resolve: "keeps_inv I (if o_ResolvePath (rt_Ops rt) = None then o_RequireAbsolutePath (rt_Ops rt) else o_ResolvePath (rt_Ops rt))"
    using reading by (simp add: reads_keep_def)
  show ?thesis
    unfolding normalizeCommandReferenceForRuntime_def NormalizeCommandReference_def
    by (assumption | rule keeps_invD_some [OF resolve] assms through)+
qed

lemma external_set_keeps: "I s \<Longrightarrow> kept I (external_set rt cmd s)"
  unfolding external_set_def by (assumption | rule through)+

lemma lookup_each_keeps: "I s \<Longrightarrow> kept I (lookup_each rt cmd bs es al raws s)"
proof (induction raws arbitrary: s)
  case (Cons r rs)
  show ?case unfolding lookup_each.simps by (assumption | rule normalizeCommandReference_keeps Cons.IH Cons.prems through)+
qed (simp add: kept_pair)

lemma resolveCommandLookups_keeps: "I s \<Longrightarrow> kept I (resolveCommandLookups rt args cmd s)"
  unfolding resolveCommandLookups_def by (assumption | rule external_set_keeps lookup_each_keeps through)+

lemma man_list_keeps: "I s \<Longrightarrow> kept I (runManList rt fmt s)"
  unfolding runManList_def collectExternalCommands_def by (assumption | rule through)+

lemma external_manual_keeps: "I s \<Longrightarrow> kept I (external_manual rt verbose target s)"
  unfolding external_manual_def by (assumption | rule through)+

lemma external_summary_keeps: "I s \<Longrightarrow> kept I (external_summary rt verbose target s)"
  unfolding external_summary_def by (assumption | rule through)+

lemma man_page_keeps: "I s \<Longrightarrow> kept I (man_page rt verbose target s)"
  unfolding man_page_def by (assumption | rule external_manual_keeps external_summary_keeps through)+

lemmas man_keeps = man_list_keeps man_page_keeps

lemma command_builtins_keep:
  assumes "I s"
  shows "kept I (runCd rt args s)" "kept I (runPwd rt args s)" "kept I (runEnv rt args s)" "kept I (runDate now rt args s)"
    "kept I (runWhich rt args s)" "kept I (runType rt args s)" "kept I (runMan rt args s)"
  unfolding runCd_def runPwd_def runEnv_def runDate_def runWhich_def runType_def run_lookup_def runMan_def
  by (assumption | rule assms resolveCommandLookups_keeps normalizeCommandReference_keeps man_keeps through)+

subsection \<open>Mounts\<close>

lemma status_rows_keeps: "status_keeps I pb \<Longrightarrow> I s \<Longrightarrow> kept I (status_rows pb ms s)"
proof (induction ms arbitrary: s)
  case (Cons m ms)
  show ?case unfolding status_rows.simps
    by (assumption | rule readMountRuntimeStatus_keeps Cons.IH Cons.prems keep)+
qed (simp add: kept_pair)

lemma refresh_keeps: "m \<in> set (o_VirtualMounts (rt_Ops rt)) \<Longrightarrow> keeps_inv I (vm_Refresh m)"
  using reading by (simp add: reads_keep_def)

lemma group_targets_mounts:
  "group_targets mnts ts groups = Inr grouped \<Longrightarrow> \<forall>(p, m, t)\<in>set groups. m \<in> set mnts \<Longrightarrow> \<forall>(p, m, t)\<in>set grouped. m \<in> set mnts"
proof (induction ts arbitrary: groups)
  case (Cons t ts)
  obtain m where m: "findMountForTarget mnts (normalizeMountRefreshTarget t) = Some m"
    and rest: "group_targets mnts ts (add_to_refresh_group m (point_of m) (normalizeMountRefreshTarget t) groups) = Inr grouped"
    using Cons.prems(1) by (auto simp: Let_def split: option.splits)
  have "\<forall>(p, k, u)\<in>set (add_to_refresh_group m q v gs). k \<in> set mnts" if "\<forall>(p, k, u)\<in>set gs. k \<in> set mnts" for q v gs
    using that found_mount_member [OF m] by (induction gs) (auto split: if_splits)
  from Cons.IH [OF rest this [OF Cons.prems(2)]] show ?case .
qed simp

lemma refresh_groups_keeps:
  assumes "status_keeps I pb"
  shows "\<forall>(p, m, t)\<in>set groups. keeps_inv I (vm_Refresh m) \<Longrightarrow> I s \<Longrightarrow> kept I (refresh_groups pb narrow groups s)"
proof (induction groups arbitrary: s)
  case (Cons g groups)
  obtain p m t where g: "g = (p, m, t)" by (cases g)
  have m: "keeps_inv I (vm_Refresh m)" and rest: "\<forall>(p, m, t)\<in>set groups. keeps_inv I (vm_Refresh m)"
    using Cons.prems(1) by (auto simp: g)
  show ?case unfolding g refresh_groups.simps
    by (assumption | rule RefreshMount_keeps [OF m] readMountRuntimeStatus_keeps [OF assms] Cons.IH [OF rest] Cons.prems(2) keep)+
qed (simp add: kept_pair)

lemma runMounts_keeps:
  assumes "status_keeps I pb" "I s"
  shows "kept I (runMounts pb rt args s)"
proof -
  have refresh: "kept I (refresh_groups pb narrow grouped s)"
    if "groupRefreshTargetsByMount (o_VirtualMounts (rt_Ops rt)) ts = Inr grouped" for ts narrow grouped
    using group_targets_mounts [OF that [unfolded groupRefreshTargetsByMount_def]] refresh_keeps
    by (intro refresh_groups_keeps [OF assms(1)]) (auto simp: assms(2))
  show ?thesis
    unfolding runMounts_def runMountsStatus_def runMountsRefresh_def collectMountStatusRows_def
    by (assumption | rule refresh status_rows_keeps [OF assms(1)] assms(2) keep)+
qed

end

end
