(* ===== verification/Builtin_Registry.thy ===== *)
theory Builtin_Registry
  imports Builtin_Docs Builtin_Keeps_Rows Builtin_Edit Agent_Fs_Safety
begin

section \<open>The registry of the default builtins (\<open>pkg/builtin/register.go\<close>)\<close>

text \<open>
  The specification of every builtin, the list they are registered from, and the registration of all of them or of a subset.
  What the builtins take from outside the program is a \<open>builtin_env\<close>: regular expressions and case folding, the JSON library, the
  clock, what mounts report, the callback that renders rows of \<open>ls -l\<close>, the embedded manuals, and the fuel of the walks of
  ls and tree. A run that does not return in Go (fuel used up, or the panic of \<open>frontmatter print\<close>) is shown by the
  reply \<open>not_returned\<close>, which no builtin gives, in the state it was started in: nothing is claimed of what such a run leaves.
\<close>

record 'e builtin_env =
  be_fuel :: nat
  be_rows :: "'e row_format"
  be_text :: text_lib
  be_json :: json_lib
  be_now :: "bool \<Rightarrow> clock_time"
  be_probe :: "'e mount_probe"
  be_files :: embedded_files

definition not_returned :: reply where
  "not_returned = (''the builtin did not return'', -1)"

definition returning :: "('e CommandRuntime \<Rightarrow> string list \<Rightarrow> 'e sys \<Rightarrow> (reply \<times> 'e sys) option) \<Rightarrow> 'e builtin" where
  "returning run rt args s = (case run rt args s of None \<Rightarrow> (not_returned, s) | Some out \<Rightarrow> out)"

text \<open>The zero value of \<open>CommandSpec\<close>.\<close>

definition empty_spec :: "'e CommandSpec" where
  "empty_spec = \<lparr>cs_Name = [], cs_Summary = [], cs_Manual = [], cs_Tips = [], cs_Examples = [], cs_DetailedManual = [],
     cs_Capabilities = [], cs_StdinMode = [], cs_Operands = [], cs_DefaultOutput = [], cs_StructuredOutput = [],
     cs_StructuredFlags = [], cs_MutationKind = [], cs_SuccessOutput = [], cs_PipeBehavior = [], cs_ExitCodes = [],
     cs_Run = None\<rparr>"

subsection \<open>Specifications\<close>

definition specLS :: "'e builtin_env \<Rightarrow> 'e CommandSpec" where
  "specLS env = empty_spec\<lparr>
     cs_Name := ''ls'',
     cs_Manual := ''ls [-a] [-R] [-l] [--fmt text|md|json] [PATH...]'',
     cs_Tips := [''Use -l to include semantic metadata.'',
       ''Use --fmt md|json only with -l and a single non-recursive target.'',
       ''Use -R for recursive traversal.''],
     cs_Examples := ExamplesFor ''ls'',
     cs_DetailedManual := LoadEmbeddedManual (be_files env) ''ls'',
     cs_Run := Some (returning (runLS (be_fuel env) (be_rows env)))\<rparr>"

definition specMounts :: "'e builtin_env \<Rightarrow> 'e CommandSpec" where
  "specMounts env = empty_spec\<lparr>
     cs_Name := ''mounts'',
     cs_Summary := ''show mount contract status and run explicit scoped refresh actions'',
     cs_Manual := ''mounts [--fmt text|json]'' @ [newline] @ ''mounts refresh [--require-narrow] MOUNT_POINT...'',
     cs_Tips := [''mounts shows the active virtual mount contract surface visible to the runtime.'',
       ''mounts refresh is explicit and target-scoped; ordinary reads still do not trigger hidden refresh.'',
       ''Use --fmt json for machine-readable mount point/profile/status or refresh data.''],
     cs_Examples := [''mounts'',
       ''mounts --fmt json'',
       ''mounts refresh /knowledge_base'',
       ''mounts refresh --require-narrow /knowledge_base/guide.md''],
     cs_DetailedManual := LoadEmbeddedManual (be_files env) ''mounts'',
     cs_StdinMode := BuiltinStdinNone,
     cs_DefaultOutput := ''mount contract status rows or refresh result rows'',
     cs_StructuredOutput := ''mount contract records or refresh records'',
     cs_StructuredFlags := [''--fmt json''],
     cs_Run := Some (runMounts (be_probe env))\<rparr>"

definition specTree :: "'e builtin_env \<Rightarrow> 'e CommandSpec" where
  "specTree env = empty_spec\<lparr>
     cs_Name := ''tree'',
     cs_Manual := ''tree [-a] [-L N] [--fmt outline|ascii|json] [PATH...]'',
     cs_Tips := [''Default output is an outline optimized for dual readability and low token noise.'',
       ''Use --fmt ascii for classic branch rendering or --fmt json for machine-readable entries.'',
       ''Use -L to limit output depth for large directories.'',
       ''Use -a to include hidden entries.''],
     cs_Examples := ExamplesFor ''tree'',
     cs_DetailedManual := LoadEmbeddedManual (be_files env) ''tree'',
     cs_DefaultOutput := ''directory outline'',
     cs_StructuredOutput := ''tree entry records'',
     cs_StructuredFlags := [''--fmt json'',
       ''--fmt ascii''],
     cs_Run := Some (returning (runTree (be_fuel env)))\<rparr>"

definition specCd :: "'e builtin_env \<Rightarrow> 'e CommandSpec" where
  "specCd env = empty_spec\<lparr>
     cs_Name := ''cd'',
     cs_Manual := ''cd [PATH]'',
     cs_Tips := [''Changes the session-local virtual working directory.'',
       ''With no argument, cd returns to the virtual root.''],
     cs_Examples := ExamplesFor ''cd'',
     cs_DetailedManual := LoadEmbeddedManual (be_files env) ''cd'',
     cs_Run := Some runCd\<rparr>"

definition specPwd :: "'e builtin_env \<Rightarrow> 'e CommandSpec" where
  "specPwd env = empty_spec\<lparr>
     cs_Name := ''pwd'',
     cs_Manual := ''pwd'',
     cs_Tips := [''Prints the current session-local virtual working directory.''],
     cs_Examples := ExamplesFor ''pwd'',
     cs_DetailedManual := LoadEmbeddedManual (be_files env) ''pwd'',
     cs_Run := Some runPwd\<rparr>"

definition specEnv :: "'e builtin_env \<Rightarrow> 'e CommandSpec" where
  "specEnv env = empty_spec\<lparr>
     cs_Name := ''env'',
     cs_Manual := ''env [--json] [--split] [KEY]'',
     cs_Tips := [''Use env PATH to inspect command search order.'',
       ''Use --split with one key such as PATH when you want list-like values one item per line.'',
       ''Use --json for machine-readable environment output.''],
     cs_Examples := ExamplesFor ''env'',
     cs_DetailedManual := LoadEmbeddedManual (be_files env) ''env'',
     cs_StructuredOutput := ''environment snapshot'',
     cs_StructuredFlags := [''--json'',
       ''--split''],
     cs_Run := Some runEnv\<rparr>"

definition specFrontmatter :: "'e builtin_env \<Rightarrow> 'e CommandSpec" where
  "specFrontmatter env = empty_spec\<lparr>
     cs_Name := ''frontmatter'',
     cs_Manual := ''frontmatter <stat|get|print> ...'',
     cs_Tips := [''Use stat to inspect frontmatter presence across many files.'',
       ''Use get --key KEY to read a specific top-level key value.'',
       ''Use print -C N to print key/frontmatter with line context.''],
     cs_Examples := ExamplesFor ''frontmatter'',
     cs_DetailedManual := LoadEmbeddedManual (be_files env) ''frontmatter'',
     cs_Run := Some (returning runFrontmatter)\<rparr>"

definition specJSON :: "'e builtin_env \<Rightarrow> 'e CommandSpec" where
  "specJSON env = empty_spec\<lparr>
     cs_Name := ''json'',
     cs_Manual := ''json <stat|get|keys|len> ...'',
     cs_Tips := [''Use json stat to inspect JSON shape across files and directories.'',
       ''Use json get --path QUERY to extract one or a small set of JSON subtrees without dumping the whole file.'',
       ''Use json keys and json len for narrow structure-aware queries instead of re-reading full JSON into the model.''],
     cs_Examples := ExamplesFor ''json'',
     cs_DetailedManual := LoadEmbeddedManual (be_files env) ''json'',
     cs_Run := Some (runJSON (be_json env))\<rparr>"

definition specCat :: "'e builtin_env \<Rightarrow> 'e CommandSpec" where
  "specCat env = empty_spec\<lparr>
     cs_Name := ''cat'',
     cs_Manual := ''cat [-n] PATH | cat (stdin passthrough)'',
     cs_Tips := [''Use cat with no args to pass stdin through a pipeline.'',
       ''Use -n to display line numbers.''],
     cs_Examples := ExamplesFor ''cat'',
     cs_DetailedManual := LoadEmbeddedManual (be_files env) ''cat'',
     cs_Run := Some runCat\<rparr>"

definition specHead :: "'e builtin_env \<Rightarrow> 'e CommandSpec" where
  "specHead env = empty_spec\<lparr>
     cs_Name := ''head'',
     cs_Manual := ''head [-n N|-N] [PATH]'',
     cs_Tips := [''Use stdin input when no file path is provided.'',
       ''-n accepts non-negative integers only.''],
     cs_Examples := ExamplesFor ''head'',
     cs_DetailedManual := LoadEmbeddedManual (be_files env) ''head'',
     cs_Run := Some runHead\<rparr>"

definition specTail :: "'e builtin_env \<Rightarrow> 'e CommandSpec" where
  "specTail env = empty_spec\<lparr>
     cs_Name := ''tail'',
     cs_Manual := ''tail [-n N|-N] [PATH]'',
     cs_Tips := [''Use stdin input when no file path is provided.'',
       ''-n accepts non-negative integers only.''],
     cs_Examples := ExamplesFor ''tail'',
     cs_DetailedManual := LoadEmbeddedManual (be_files env) ''tail'',
     cs_Run := Some runTail\<rparr>"

definition specGrep :: "'e builtin_env \<Rightarrow> 'e CommandSpec" where
  "specGrep env = empty_spec\<lparr>
     cs_Name := ''grep'',
     cs_Manual := ''grep [-E|-F] [-r] [-l] [-A N] [-B N] [-C N] [--fmt jsonl] PATTERN [PATH]'',
     cs_Tips := [''Use -r for directory search and -l to list matched files only.'',
       ''Use --fmt jsonl when you want flat machine-readable records without changing the default text output.'',
       ''Context flags -A/-B/-C include neighboring lines around each match.''],
     cs_Examples := ExamplesFor ''grep'',
     cs_DetailedManual := LoadEmbeddedManual (be_files env) ''grep'',
     cs_StructuredOutput := ''flat search records'',
     cs_StructuredFlags := [''--fmt jsonl''],
     cs_Run := Some (runGrep (be_text env))\<rparr>"

definition specRG :: "'e builtin_env \<Rightarrow> 'e CommandSpec" where
  "specRG env = empty_spec\<lparr>
     cs_Name := ''rg'',
     cs_Manual := ''rg [-F] [-i|-S] [-l] [-g GLOB]... [-A N] [-B N] [-C N] [--fmt jsonl] PATTERN [PATH ...] | rg --files [-g GLOB]... [PATH ...]'',
     cs_Tips := [''rg searches recursively by default and falls back to the current working directory when no path is given.'',
       ''Use --files to list searchable files, optionally narrowed with one or more -g globs.'',
       ''Use --fmt jsonl as the canonical structured mode; --json is accepted only as a compatibility alias.''],
     cs_Examples := ExamplesFor ''rg'',
     cs_DetailedManual := LoadEmbeddedManual (be_files env) ''rg'',
     cs_StructuredOutput := ''flat match/context/file records'',
     cs_StructuredFlags := [''--fmt jsonl''],
     cs_Run := Some (runRG (be_text env))\<rparr>"

definition specFind :: "'e builtin_env \<Rightarrow> 'e CommandSpec" where
  "specFind env = empty_spec\<lparr>
     cs_Name := ''find'',
     cs_Manual := ''find [DIR] -name PATTERN [-o -name PATTERN ...] [--fmt jsonl] [-exec CMD {} '' @ [squote] @ '';'' @ [squote] @ ''|+]'',
     cs_Tips := [''Use -o to combine multiple -name patterns.'',
       ''Use --fmt jsonl for explicit machine-readable path records without changing the default text stream.'',
       ''-exec ... + batches matched paths in one invocation.''],
     cs_Examples := ExamplesFor ''find'',
     cs_DetailedManual := LoadEmbeddedManual (be_files env) ''find'',
     cs_StructuredOutput := ''flat path records'',
     cs_StructuredFlags := [''--fmt jsonl''],
     cs_Run := Some runFind\<rparr>"

definition specWhich :: "'e builtin_env \<Rightarrow> 'e CommandSpec" where
  "specWhich env = empty_spec\<lparr>
     cs_Name := ''which'',
     cs_Manual := ''which [--fmt json] COMMAND...'',
     cs_Tips := [''Search order is alias -> /sys/bin (system builtin) -> /bin (custom external).'',
       ''Use --fmt json when you want machine-readable lookup results without changing the default text output.''],
     cs_Examples := ExamplesFor ''which'',
     cs_DetailedManual := LoadEmbeddedManual (be_files env) ''which'',
     cs_StructuredOutput := ''lookup summary'',
     cs_StructuredFlags := [''--fmt json''],
     cs_Run := Some runWhich\<rparr>"

definition specType :: "'e builtin_env \<Rightarrow> 'e CommandSpec" where
  "specType env = empty_spec\<lparr>
     cs_Name := ''type'',
     cs_Manual := ''type [--json] COMMAND...'',
     cs_Tips := [''Reports whether a command resolves to alias, builtin, or external.'',
       ''Lookup order matches command execution: alias -> /sys/bin builtin -> /bin custom external.'',
       ''Use --json when you want machine-readable command-resolution records.''],
     cs_Examples := ExamplesFor ''type'',
     cs_DetailedManual := LoadEmbeddedManual (be_files env) ''type'',
     cs_DefaultOutput := ''name kind target rows'',
     cs_StructuredOutput := ''command-resolution records'',
     cs_StructuredFlags := [''--json''],
     cs_Run := Some runType\<rparr>"

definition specEcho :: "'e builtin_env \<Rightarrow> 'e CommandSpec" where
  "specEcho env = empty_spec\<lparr>
     cs_Name := ''echo'',
     cs_Manual := ''echo [ARGS...]'',
     cs_Tips := [''Use echo for deterministic plain text output.''],
     cs_Examples := ExamplesFor ''echo'',
     cs_DetailedManual := LoadEmbeddedManual (be_files env) ''echo'',
     cs_Run := Some runEcho\<rparr>"

definition specTee :: "'e builtin_env \<Rightarrow> 'e CommandSpec" where
  "specTee env = empty_spec\<lparr>
     cs_Name := ''tee'',
     cs_Manual := ''echo data | tee [--confirm] [--json] [-a] PATH'',
     cs_Tips := [''Use -a to append instead of replacing file content.'',
       ''Default output preserves stdin passthrough; --confirm and --json replace stdout with an explicit success summary.'',
       ''tee requires stdin, usually from a pipeline or heredoc.''],
     cs_Examples := ExamplesFor ''tee'',
     cs_DetailedManual := LoadEmbeddedManual (be_files env) ''tee'',
     cs_StructuredOutput := ''write summary'',
     cs_StructuredFlags := [''--confirm'',
       ''--json''],
     cs_Run := Some runTee\<rparr>"

definition specSed :: "'e builtin_env \<Rightarrow> 'e CommandSpec" where
  "specSed env = empty_spec\<lparr>
     cs_Name := ''sed'',
     cs_Manual := ''sed -i [--json] '' @ [squote] @ ''s/old/new/[g]'' @ [squote] @ '' PATH | sed -n '' @ [squote] @ ''Np'' @ [squote] @ ''|'' @ [squote] @ ''M,Np'' @ [squote] @ '' [PATH]'',
     cs_Tips := [''Only a focused subset of sed is supported for deterministic behavior.'',
       ''Print mode stays text-first; use --json only with -i when you want a machine-readable mutation summary.'',
       ''Use -n with Np or M,Np to print line ranges.''],
     cs_Examples := ExamplesFor ''sed'',
     cs_DetailedManual := LoadEmbeddedManual (be_files env) ''sed'',
     cs_StructuredOutput := ''in-place edit summary'',
     cs_StructuredFlags := [''-i --json''],
     cs_Run := Some runSed\<rparr>"

definition specMan :: "'e builtin_env \<Rightarrow> 'e CommandSpec" where
  "specMan env = empty_spec\<lparr>
     cs_Name := ''man'',
     cs_Manual := ''man [-v] [-l|--list] [--fmt text|json] <command>'',
     cs_Tips := [''man CMD shows summary with tips and examples.'',
       ''man -v CMD shows full documentation with command-specific details.'',
       ''man --list shows the builtin and external command catalog; add --fmt json for a machine-readable view.''],
     cs_Examples := ExamplesFor ''man'',
     cs_DetailedManual := LoadEmbeddedManual (be_files env) ''man'',
     cs_StructuredOutput := ''machine-readable command catalog'',
     cs_StructuredFlags := [''--list --fmt json''],
     cs_Run := Some runMan\<rparr>"

definition specDate :: "'e builtin_env \<Rightarrow> 'e CommandSpec" where
  "specDate env = empty_spec\<lparr>
     cs_Name := ''date'',
     cs_Manual := ''date [-u] [+%Y-%m-%d|+%F|+%T|+%s|...]'',
     cs_Tips := [''Use -u for UTC time output.'',
       ''Format specifiers follow the supported simsh subset only.''],
     cs_Examples := ExamplesFor ''date'',
     cs_DetailedManual := LoadEmbeddedManual (be_files env) ''date'',
     cs_Capabilities := [''compat:date''],
     cs_Run := Some (runDate (be_now env))\<rparr>"

definition specMkdir :: "'e builtin_env \<Rightarrow> 'e CommandSpec" where
  "specMkdir env = empty_spec\<lparr>
     cs_Name := ''mkdir'',
     cs_Manual := ''mkdir [--confirm] [--json] [-p] PATH...'',
     cs_Tips := [''Creates directories. -p creates parent directories as needed.'',
       ''Use --confirm or --json when you want explicit success feedback without changing the default silent behavior.'',
       ''Projection-backed virtual paths are immutable; only mounts that declare mutate support accept directory creation.''],
     cs_Examples := ExamplesFor ''mkdir'',
     cs_DetailedManual := LoadEmbeddedManual (be_files env) ''mkdir'',
     cs_StructuredOutput := ''path status entries'',
     cs_StructuredFlags := [''--confirm'',
       ''--json''],
     cs_Run := Some runMkdir\<rparr>"

definition specCp :: "'e builtin_env \<Rightarrow> 'e CommandSpec" where
  "specCp env = empty_spec\<lparr>
     cs_Name := ''cp'',
     cs_Manual := ''cp [--confirm] [--json] SRC_PATH DEST_PATH'',
     cs_Tips := [''Copies a file from source to destination.'',
       ''Use --confirm or --json when you want explicit success feedback without changing the default silent behavior.'',
       ''Projection-backed virtual paths are not valid copy operands; factual mounts may opt into transfer support.''],
     cs_Examples := ExamplesFor ''cp'',
     cs_DetailedManual := LoadEmbeddedManual (be_files env) ''cp'',
     cs_StructuredOutput := ''copy summary'',
     cs_StructuredFlags := [''--confirm'',
       ''--json''],
     cs_Run := Some runCp\<rparr>"

definition specMv :: "'e builtin_env \<Rightarrow> 'e CommandSpec" where
  "specMv env = empty_spec\<lparr>
     cs_Name := ''mv'',
     cs_Manual := ''mv [--confirm] [--json] SRC_PATH DEST_PATH'',
     cs_Tips := [''Moves a file from source to destination.'',
       ''Use --confirm or --json when you want explicit success feedback without changing the default silent behavior.'',
       ''Projection-backed virtual paths are not valid move operands; factual mounts may opt into transfer support.''],
     cs_Examples := ExamplesFor ''mv'',
     cs_DetailedManual := LoadEmbeddedManual (be_files env) ''mv'',
     cs_StructuredOutput := ''move summary'',
     cs_StructuredFlags := [''--confirm'',
       ''--json''],
     cs_Run := Some runMv\<rparr>"

definition specRm :: "'e builtin_env \<Rightarrow> 'e CommandSpec" where
  "specRm env = empty_spec\<lparr>
     cs_Name := ''rm'',
     cs_Manual := ''rm [--confirm] [--json] PATH...'',
     cs_Tips := [''Removes files. Does not support directory removal.'',
       ''Use --confirm or --json when you want explicit success feedback without changing the default silent behavior.'',
       ''Projection-backed virtual paths are immutable; only mounts that declare mutate support accept removals.''],
     cs_Examples := ExamplesFor ''rm'',
     cs_DetailedManual := LoadEmbeddedManual (be_files env) ''rm'',
     cs_StructuredOutput := ''path status entries'',
     cs_StructuredFlags := [''--confirm'',
       ''--json''],
     cs_Run := Some runRm\<rparr>"

definition specRmdir :: "'e builtin_env \<Rightarrow> 'e CommandSpec" where
  "specRmdir env = empty_spec\<lparr>
     cs_Name := ''rmdir'',
     cs_Manual := ''rmdir [--confirm] [--json] PATH...'',
     cs_Tips := [''Removes empty directories only.'',
       ''Use --confirm or --json when you want explicit success feedback without changing the default silent behavior.'',
       ''Use rm for files; rmdir rejects non-empty directories.''],
     cs_Examples := ExamplesFor ''rmdir'',
     cs_DetailedManual := LoadEmbeddedManual (be_files env) ''rmdir'',
     cs_StructuredOutput := ''path status entries'',
     cs_StructuredFlags := [''--confirm'',
       ''--json''],
     cs_Run := Some runRmdir\<rparr>"

definition specTouch :: "'e builtin_env \<Rightarrow> 'e CommandSpec" where
  "specTouch env = empty_spec\<lparr>
     cs_Name := ''touch'',
     cs_Manual := ''touch [--json] PATH...'',
     cs_Tips := [''Creates empty files if they do not exist.'',
       ''Use --json when you want explicit created/already_exists feedback without changing the default silent behavior.''],
     cs_Examples := ExamplesFor ''touch'',
     cs_DetailedManual := LoadEmbeddedManual (be_files env) ''touch'',
     cs_StructuredOutput := ''path status entries'',
     cs_StructuredFlags := [''--json''],
     cs_Run := Some runTouch\<rparr>"

definition specWc :: "'e builtin_env \<Rightarrow> 'e CommandSpec" where
  "specWc env = empty_spec\<lparr>
     cs_Name := ''wc'',
     cs_Manual := ''wc [--json] [-l] [-w] [-c] [PATH]'',
     cs_Tips := [''Single-metric modes keep bare numeric output for pipeline composability.'',
       ''Default multi-metric output uses compact labels, and --json provides an explicit structured mode.''],
     cs_Examples := ExamplesFor ''wc'',
     cs_DetailedManual := LoadEmbeddedManual (be_files env) ''wc'',
     cs_StructuredOutput := ''count summary object'',
     cs_StructuredFlags := [''--json''],
     cs_Run := Some runWc\<rparr>"

definition specSort :: "'e builtin_env \<Rightarrow> 'e CommandSpec" where
  "specSort env = empty_spec\<lparr>
     cs_Name := ''sort'',
     cs_Manual := ''sort [-r] [-n] [-u] [PATH]'',
     cs_Tips := [''Sorts lines. Use stdin when no file is given.'',
       ''-r reverses order, -n sorts numerically, -u removes duplicates.''],
     cs_Examples := ExamplesFor ''sort'',
     cs_DetailedManual := LoadEmbeddedManual (be_files env) ''sort'',
     cs_Run := Some runSort\<rparr>"

definition specUniq :: "'e builtin_env \<Rightarrow> 'e CommandSpec" where
  "specUniq env = empty_spec\<lparr>
     cs_Name := ''uniq'',
     cs_Manual := ''uniq [-c] [-d] [PATH]'',
     cs_Tips := [''Removes adjacent duplicate lines. Use stdin when no file is given.'',
       ''-c prefixes lines with occurrence count, -d only prints duplicates.''],
     cs_Examples := ExamplesFor ''uniq'',
     cs_DetailedManual := LoadEmbeddedManual (be_files env) ''uniq'',
     cs_Run := Some runUniq\<rparr>"

definition specDiff :: "'e builtin_env \<Rightarrow> 'e CommandSpec" where
  "specDiff env = empty_spec\<lparr>
     cs_Name := ''diff'',
     cs_Manual := ''diff PATH1 PATH2'',
     cs_Tips := [''Compares two files line by line.'',
       ''Exit code 0 if identical, 1 if different.''],
     cs_Examples := ExamplesFor ''diff'',
     cs_DetailedManual := LoadEmbeddedManual (be_files env) ''diff'',
     cs_Run := Some runDiff\<rparr>"

definition specEdit :: "'e builtin_env \<Rightarrow> 'e CommandSpec" where
  "specEdit env = empty_spec\<lparr>
     cs_Name := ''edit'',
     cs_Manual := ''edit [--json] [--confirm] [--all] [--count] --old OLD [--new NEW] [--] PATH'',
     cs_Tips := [''Default replace requires a unique OLD snippet so edits cannot silently hit the wrong copy.'',
       ''Use --all only when every match should change, and --count to inspect matches without writing.'',
       ''Use --confirm or --json for an explicit summary; default success is silent like other mutations.''],
     cs_Examples := ExamplesFor ''edit'',
     cs_DetailedManual := LoadEmbeddedManual (be_files env) ''edit'',
     cs_StructuredOutput := ''edit summary object'',
     cs_StructuredFlags := [''--json'',
       ''--confirm''],
     cs_Run := Some runEdit\<rparr>"

definition specGlob :: "'e builtin_env \<Rightarrow> 'e CommandSpec" where
  "specGlob env = empty_spec\<lparr>
     cs_Name := ''glob'',
     cs_Manual := ''glob [--fmt jsonl] [--] PATTERN [PATH ...]'',
     cs_Tips := [''A pattern without a slash matches basenames recursively, so glob '' @ [squote] @ ''*.go'' @ [squote] @ '' finds every Go file under the target.'',
       ''Use ** in a path pattern for explicit directory wildcards.'',
       ''Use --fmt jsonl for path records without changing the default path-per-line stream.''],
     cs_Examples := ExamplesFor ''glob'',
     cs_DetailedManual := LoadEmbeddedManual (be_files env) ''glob'',
     cs_StructuredOutput := ''flat path records'',
     cs_StructuredFlags := [''--fmt jsonl''],
     cs_Run := Some runGlob\<rparr>"

definition specView :: "'e builtin_env \<Rightarrow> 'e CommandSpec" where
  "specView env = empty_spec\<lparr>
     cs_Name := ''view'',
     cs_Manual := ''view [--start N] [--lines N] [--fmt jsonl] [--] PATH'',
     cs_Tips := [''view prints a numbered window so agents can inspect a slice instead of dumping the whole file.'',
       ''Line numbers are 1-based. Default window is 80 lines from the start of the file.'',
       ''Use --fmt jsonl for {line,text} records, not --json.''],
     cs_Examples := ExamplesFor ''view'',
     cs_DetailedManual := LoadEmbeddedManual (be_files env) ''view'',
     cs_StructuredOutput := ''numbered line records'',
     cs_StructuredFlags := [''--fmt jsonl''],
     cs_Run := Some runView\<rparr>"

definition specDirname :: "'e builtin_env \<Rightarrow> 'e CommandSpec" where
  "specDirname env = empty_spec\<lparr>
     cs_Name := ''dirname'',
     cs_Manual := ''dirname [--] PATH'',
     cs_Tips := [''Prints the parent of a resolved virtual path.'',
       ''Relative paths resolve against the session working directory before dirname is applied.''],
     cs_Examples := ExamplesFor ''dirname'',
     cs_DetailedManual := LoadEmbeddedManual (be_files env) ''dirname'',
     cs_Run := Some runDirname\<rparr>"

definition specBasename :: "'e builtin_env \<Rightarrow> 'e CommandSpec" where
  "specBasename env = empty_spec\<lparr>
     cs_Name := ''basename'',
     cs_Manual := ''basename [--] PATH'',
     cs_Tips := [''Prints the final component of a resolved virtual path.'',
       ''Relative paths resolve against the session working directory before basename is applied.''],
     cs_Examples := ExamplesFor ''basename'',
     cs_DetailedManual := LoadEmbeddedManual (be_files env) ''basename'',
     cs_Run := Some runBasename\<rparr>"

subsection \<open>Registration\<close>

record 'e defaultBuiltinRegistration =
  rg_Name :: string
  rg_CanonicalSource :: string
  rg_Build :: "'e CommandSpec"

definition defaultBuiltinRegistrations :: "'e builtin_env \<Rightarrow> 'e defaultBuiltinRegistration list" where
  "defaultBuiltinRegistrations env =
     [\<lparr>rg_Name = ''ls'', rg_CanonicalSource = ''pkg/builtin/op_listing.go'', rg_Build = specLS env\<rparr>,
      \<lparr>rg_Name = ''mounts'', rg_CanonicalSource = ''pkg/builtin/op_mounts.go'', rg_Build = specMounts env\<rparr>,
      \<lparr>rg_Name = ''tree'', rg_CanonicalSource = ''pkg/builtin/op_tree.go'', rg_Build = specTree env\<rparr>,
      \<lparr>rg_Name = ''cd'', rg_CanonicalSource = ''pkg/builtin/op_command_lookup.go'', rg_Build = specCd env\<rparr>,
      \<lparr>rg_Name = ''pwd'', rg_CanonicalSource = ''pkg/builtin/op_command_lookup.go'', rg_Build = specPwd env\<rparr>,
      \<lparr>rg_Name = ''env'', rg_CanonicalSource = ''pkg/builtin/op_environment.go'', rg_Build = specEnv env\<rparr>,
      \<lparr>rg_Name = ''frontmatter'', rg_CanonicalSource = ''pkg/builtin/op_frontmatter.go'', rg_Build = specFrontmatter env\<rparr>,
      \<lparr>rg_Name = ''json'', rg_CanonicalSource = ''pkg/builtin/op_json.go'', rg_Build = specJSON env\<rparr>,
      \<lparr>rg_Name = ''cat'', rg_CanonicalSource = ''pkg/builtin/op_readfile.go'', rg_Build = specCat env\<rparr>,
      \<lparr>rg_Name = ''head'', rg_CanonicalSource = ''pkg/builtin/op_window.go'', rg_Build = specHead env\<rparr>,
      \<lparr>rg_Name = ''tail'', rg_CanonicalSource = ''pkg/builtin/op_window.go'', rg_Build = specTail env\<rparr>,
      \<lparr>rg_Name = ''grep'', rg_CanonicalSource = ''pkg/builtin/op_pattern_scan.go'', rg_Build = specGrep env\<rparr>,
      \<lparr>rg_Name = ''rg'', rg_CanonicalSource = ''pkg/builtin/op_rg.go'', rg_Build = specRG env\<rparr>,
      \<lparr>rg_Name = ''find'', rg_CanonicalSource = ''pkg/builtin/op_path_discovery.go'', rg_Build = specFind env\<rparr>,
      \<lparr>rg_Name = ''which'', rg_CanonicalSource = ''pkg/builtin/op_command_lookup.go'', rg_Build = specWhich env\<rparr>,
      \<lparr>rg_Name = ''type'', rg_CanonicalSource = ''pkg/builtin/op_command_lookup.go'', rg_Build = specType env\<rparr>,
      \<lparr>rg_Name = ''echo'', rg_CanonicalSource = ''pkg/builtin/op_emit_text.go'', rg_Build = specEcho env\<rparr>,
      \<lparr>rg_Name = ''tee'', rg_CanonicalSource = ''pkg/builtin/op_mirror_write.go'', rg_Build = specTee env\<rparr>,
      \<lparr>rg_Name = ''sed'', rg_CanonicalSource = ''pkg/builtin/op_stream_edit.go'', rg_Build = specSed env\<rparr>,
      \<lparr>rg_Name = ''man'', rg_CanonicalSource = ''pkg/builtin/op_help_manual.go'', rg_Build = specMan env\<rparr>,
      \<lparr>rg_Name = ''date'', rg_CanonicalSource = ''pkg/builtin/op_clock.go'', rg_Build = specDate env\<rparr>,
      \<lparr>rg_Name = ''mkdir'', rg_CanonicalSource = ''pkg/builtin/op_mkdir.go'', rg_Build = specMkdir env\<rparr>,
      \<lparr>rg_Name = ''cp'', rg_CanonicalSource = ''pkg/builtin/op_copy.go'', rg_Build = specCp env\<rparr>,
      \<lparr>rg_Name = ''mv'', rg_CanonicalSource = ''pkg/builtin/op_move.go'', rg_Build = specMv env\<rparr>,
      \<lparr>rg_Name = ''rm'', rg_CanonicalSource = ''pkg/builtin/op_remove.go'', rg_Build = specRm env\<rparr>,
      \<lparr>rg_Name = ''rmdir'', rg_CanonicalSource = ''pkg/builtin/op_rmdir.go'', rg_Build = specRmdir env\<rparr>,
      \<lparr>rg_Name = ''touch'', rg_CanonicalSource = ''pkg/builtin/op_touch.go'', rg_Build = specTouch env\<rparr>,
      \<lparr>rg_Name = ''wc'', rg_CanonicalSource = ''pkg/builtin/op_wordcount.go'', rg_Build = specWc env\<rparr>,
      \<lparr>rg_Name = ''sort'', rg_CanonicalSource = ''pkg/builtin/op_sort.go'', rg_Build = specSort env\<rparr>,
      \<lparr>rg_Name = ''uniq'', rg_CanonicalSource = ''pkg/builtin/op_uniq.go'', rg_Build = specUniq env\<rparr>,
      \<lparr>rg_Name = ''diff'', rg_CanonicalSource = ''pkg/builtin/op_diff.go'', rg_Build = specDiff env\<rparr>,
      \<lparr>rg_Name = ''edit'', rg_CanonicalSource = ''pkg/builtin/op_edit.go'', rg_Build = specEdit env\<rparr>,
      \<lparr>rg_Name = ''glob'', rg_CanonicalSource = ''pkg/builtin/op_glob.go'', rg_Build = specGlob env\<rparr>,
      \<lparr>rg_Name = ''view'', rg_CanonicalSource = ''pkg/builtin/op_view.go'', rg_Build = specView env\<rparr>,
      \<lparr>rg_Name = ''dirname'', rg_CanonicalSource = ''pkg/builtin/op_path_names.go'', rg_Build = specDirname env\<rparr>,
      \<lparr>rg_Name = ''basename'', rg_CanonicalSource = ''pkg/builtin/op_path_names.go'', rg_Build = specBasename env\<rparr>]"

text \<open>The panics of \<open>defaultCommandSpecs\<close> are errors.\<close>

fun build_specs :: "string list \<Rightarrow> 'e defaultBuiltinRegistration list \<Rightarrow> go_error + 'e CommandSpec list" where
  "build_specs seen [] = Inr []"
| "build_specs seen (rg # rgs) =
     (let spec = applyCommandDocContract (rg_Build rg) in
      if cs_Name spec \<noteq> rg_Name rg
      then Inl (ErrText (''builtin registration '' @ go_quote (rg_Name rg) @ '' produced spec '' @ go_quote (cs_Name spec) @
             '' from '' @ rg_CanonicalSource rg))
      else if cs_Name spec \<in> set seen
      then Inl (ErrText (''duplicate builtin registration '' @ go_quote (cs_Name spec)))
      else case build_specs (cs_Name spec # seen) rgs of Inl e \<Rightarrow> Inl e | Inr specs \<Rightarrow> Inr (spec # specs))"

definition defaultCommandSpecs :: "'e builtin_env \<Rightarrow> go_error + 'e CommandSpec list" where
  "defaultCommandSpecs env = build_specs [] (defaultBuiltinRegistrations env)"

text \<open>\<open>MustRegister\<close> panics on an error.\<close>

definition RegisterDefaults :: "'e builtin_env \<Rightarrow> 'e Registry \<Rightarrow> go_error + 'e Registry" where
  "RegisterDefaults env reg =
     (case defaultCommandSpecs env of Inl e \<Rightarrow> Inl e | Inr specs \<Rightarrow> registry.register_all specs reg)"

text \<open>The names asked for, and what was registered of them when the registration stopped. \<open>visit\<close> is the order in which Go goes
  through a map.\<close>

definition allowed_names :: "string list \<Rightarrow> string list" where
  "allowed_names names = remdups (filter (\<lambda>n. n \<noteq> []) (map trim_space names))"

fun register_allowed :: "string list \<Rightarrow> 'e CommandSpec list \<Rightarrow> string list \<Rightarrow> 'e Registry \<Rightarrow>
    (go_error + string list) \<times> 'e Registry" where
  "register_allowed allowed [] registered reg = (Inr registered, reg)"
| "register_allowed allowed (spec # specs) registered reg =
     (if cs_Name spec \<notin> set allowed then register_allowed allowed specs registered reg
      else case Register spec reg of
        Inl e \<Rightarrow> (Inl e, reg)
      | Inr reg \<Rightarrow> register_allowed allowed specs (cs_Name spec # registered) reg)"

definition RegisterDefaultSubset :: "(string list \<Rightarrow> string list) \<Rightarrow> 'e builtin_env \<Rightarrow> string list \<Rightarrow> 'e Registry \<Rightarrow>
    go_error option \<times> 'e Registry" where
  "RegisterDefaultSubset visit env names reg =
     (let allowed = allowed_names names in
      if allowed = [] then (None, reg)
      else case defaultCommandSpecs env of
        Inl e \<Rightarrow> (Some e, reg)
      | Inr specs \<Rightarrow>
         (case register_allowed allowed specs [] reg of
            (Inl e, reg) \<Rightarrow> (Some e, reg)
          | (Inr registered, reg) \<Rightarrow>
             (map_option (\<lambda>n. ErrText (''unknown builtin command '' @ go_quote n))
                (find (\<lambda>n. n \<notin> set registered) (visit allowed)), reg)))"

subsection \<open>The default specifications\<close>

definition default_specs :: "'e builtin_env \<Rightarrow> 'e CommandSpec list" where
  "default_specs env = [specLS env, specMounts env, specTree env, specCd env, specPwd env, specEnv env, specFrontmatter env, specJSON env, specCat env, specHead env, specTail env, specGrep env, specRG env, specFind env, specWhich env, specType env, specEcho env, specTee env, specSed env, specMan env, specDate env, specMkdir env, specCp env, specMv env, specRm env, specRmdir env, specTouch env, specWc env, specSort env, specUniq env, specDiff env, specEdit env, specGlob env, specView env, specDirname env, specBasename env]"

definition default_names :: "string list" where
  "default_names = [''ls'', ''mounts'', ''tree'', ''cd'', ''pwd'', ''env'', ''frontmatter'', ''json'', ''cat'', ''head'', ''tail'', ''grep'', ''rg'', ''find'', ''which'', ''type'', ''echo'', ''tee'', ''sed'', ''man'', ''date'', ''mkdir'', ''cp'', ''mv'', ''rm'', ''rmdir'', ''touch'', ''wc'', ''sort'', ''uniq'', ''diff'', ''edit'', ''glob'', ''view'', ''dirname'', ''basename'']"

lemmas spec_defs = specLS_def specMounts_def specTree_def specCd_def specPwd_def specEnv_def specFrontmatter_def specJSON_def specCat_def specHead_def specTail_def specGrep_def specRG_def specFind_def specWhich_def specType_def specEcho_def specTee_def specSed_def specMan_def specDate_def specMkdir_def specCp_def specMv_def specRm_def specRmdir_def specTouch_def specWc_def specSort_def specUniq_def specDiff_def specEdit_def specGlob_def specView_def specDirname_def specBasename_def

lemma spec_names [simp]:
  "cs_Name (specLS env) = ''ls''"
  "cs_Name (specMounts env) = ''mounts''"
  "cs_Name (specTree env) = ''tree''"
  "cs_Name (specCd env) = ''cd''"
  "cs_Name (specPwd env) = ''pwd''"
  "cs_Name (specEnv env) = ''env''"
  "cs_Name (specFrontmatter env) = ''frontmatter''"
  "cs_Name (specJSON env) = ''json''"
  "cs_Name (specCat env) = ''cat''"
  "cs_Name (specHead env) = ''head''"
  "cs_Name (specTail env) = ''tail''"
  "cs_Name (specGrep env) = ''grep''"
  "cs_Name (specRG env) = ''rg''"
  "cs_Name (specFind env) = ''find''"
  "cs_Name (specWhich env) = ''which''"
  "cs_Name (specType env) = ''type''"
  "cs_Name (specEcho env) = ''echo''"
  "cs_Name (specTee env) = ''tee''"
  "cs_Name (specSed env) = ''sed''"
  "cs_Name (specMan env) = ''man''"
  "cs_Name (specDate env) = ''date''"
  "cs_Name (specMkdir env) = ''mkdir''"
  "cs_Name (specCp env) = ''cp''"
  "cs_Name (specMv env) = ''mv''"
  "cs_Name (specRm env) = ''rm''"
  "cs_Name (specRmdir env) = ''rmdir''"
  "cs_Name (specTouch env) = ''touch''"
  "cs_Name (specWc env) = ''wc''"
  "cs_Name (specSort env) = ''sort''"
  "cs_Name (specUniq env) = ''uniq''"
  "cs_Name (specDiff env) = ''diff''"
  "cs_Name (specEdit env) = ''edit''"
  "cs_Name (specGlob env) = ''glob''"
  "cs_Name (specView env) = ''view''"
  "cs_Name (specDirname env) = ''dirname''"
  "cs_Name (specBasename env) = ''basename''"
  by (simp_all add: spec_defs)

lemma spec_runs [simp]:
  "cs_Run (specLS env) = Some (returning (runLS (be_fuel env) (be_rows env)))"
  "cs_Run (specMounts env) = Some (runMounts (be_probe env))"
  "cs_Run (specTree env) = Some (returning (runTree (be_fuel env)))"
  "cs_Run (specCd env) = Some (runCd)"
  "cs_Run (specPwd env) = Some (runPwd)"
  "cs_Run (specEnv env) = Some (runEnv)"
  "cs_Run (specFrontmatter env) = Some (returning runFrontmatter)"
  "cs_Run (specJSON env) = Some (runJSON (be_json env))"
  "cs_Run (specCat env) = Some (runCat)"
  "cs_Run (specHead env) = Some (runHead)"
  "cs_Run (specTail env) = Some (runTail)"
  "cs_Run (specGrep env) = Some (runGrep (be_text env))"
  "cs_Run (specRG env) = Some (runRG (be_text env))"
  "cs_Run (specFind env) = Some (runFind)"
  "cs_Run (specWhich env) = Some (runWhich)"
  "cs_Run (specType env) = Some (runType)"
  "cs_Run (specEcho env) = Some (runEcho)"
  "cs_Run (specTee env) = Some (runTee)"
  "cs_Run (specSed env) = Some (runSed)"
  "cs_Run (specMan env) = Some (runMan)"
  "cs_Run (specDate env) = Some (runDate (be_now env))"
  "cs_Run (specMkdir env) = Some (runMkdir)"
  "cs_Run (specCp env) = Some (runCp)"
  "cs_Run (specMv env) = Some (runMv)"
  "cs_Run (specRm env) = Some (runRm)"
  "cs_Run (specRmdir env) = Some (runRmdir)"
  "cs_Run (specTouch env) = Some (runTouch)"
  "cs_Run (specWc env) = Some (runWc)"
  "cs_Run (specSort env) = Some (runSort)"
  "cs_Run (specUniq env) = Some (runUniq)"
  "cs_Run (specDiff env) = Some (runDiff)"
  "cs_Run (specEdit env) = Some (runEdit)"
  "cs_Run (specGlob env) = Some (runGlob)"
  "cs_Run (specView env) = Some (runView)"
  "cs_Run (specDirname env) = Some (runDirname)"
  "cs_Run (specBasename env) = Some (runBasename)"
  by (simp_all add: spec_defs)

lemma spec_kinds [simp]:
  "cs_MutationKind (specLS env) = []"
  "cs_MutationKind (specMounts env) = []"
  "cs_MutationKind (specTree env) = []"
  "cs_MutationKind (specCd env) = []"
  "cs_MutationKind (specPwd env) = []"
  "cs_MutationKind (specEnv env) = []"
  "cs_MutationKind (specFrontmatter env) = []"
  "cs_MutationKind (specJSON env) = []"
  "cs_MutationKind (specCat env) = []"
  "cs_MutationKind (specHead env) = []"
  "cs_MutationKind (specTail env) = []"
  "cs_MutationKind (specGrep env) = []"
  "cs_MutationKind (specRG env) = []"
  "cs_MutationKind (specFind env) = []"
  "cs_MutationKind (specWhich env) = []"
  "cs_MutationKind (specType env) = []"
  "cs_MutationKind (specEcho env) = []"
  "cs_MutationKind (specTee env) = []"
  "cs_MutationKind (specSed env) = []"
  "cs_MutationKind (specMan env) = []"
  "cs_MutationKind (specDate env) = []"
  "cs_MutationKind (specMkdir env) = []"
  "cs_MutationKind (specCp env) = []"
  "cs_MutationKind (specMv env) = []"
  "cs_MutationKind (specRm env) = []"
  "cs_MutationKind (specRmdir env) = []"
  "cs_MutationKind (specTouch env) = []"
  "cs_MutationKind (specWc env) = []"
  "cs_MutationKind (specSort env) = []"
  "cs_MutationKind (specUniq env) = []"
  "cs_MutationKind (specDiff env) = []"
  "cs_MutationKind (specEdit env) = []"
  "cs_MutationKind (specGlob env) = []"
  "cs_MutationKind (specView env) = []"
  "cs_MutationKind (specDirname env) = []"
  "cs_MutationKind (specBasename env) = []"
  by (simp_all add: spec_defs empty_spec_def)

lemma default_spec_names: "map cs_Name (default_specs env) = default_names"
  by (simp add: default_specs_def default_names_def)

lemma registration_specs:
  "map rg_Build (defaultBuiltinRegistrations env) = default_specs env" "map rg_Name (defaultBuiltinRegistrations env) = default_names"
  by (simp_all add: defaultBuiltinRegistrations_def default_specs_def default_names_def)

lemma default_names_distinct: "distinct default_names"
  by (simp add: default_names_def)

lemma default_names_plain: "n \<in> set default_names \<Longrightarrow> trim_space n = n \<and> n \<noteq> []"
proof -
  have "list_all (\<lambda>n. \<not> starts_with_space n \<and> \<not> ends_with_space n \<and> n \<noteq> []) default_names"
    by (simp add: default_names_def starts_with_space_def ends_with_space_def space_runes_def)
  then show "n \<in> set default_names \<Longrightarrow> trim_space n = n \<and> n \<noteq> []"
    by (auto simp: list_all_iff intro: trim_space_fixI)
qed

lemma build_specs_ok:
  "map (\<lambda>rg. cs_Name (rg_Build rg)) rgs = map rg_Name rgs \<Longrightarrow> distinct (map rg_Name rgs) \<Longrightarrow>
   set seen \<inter> set (map rg_Name rgs) = {} \<Longrightarrow> build_specs seen rgs = Inr (map (\<lambda>rg. applyCommandDocContract (rg_Build rg)) rgs)"
  by (induction rgs arbitrary: seen) (auto simp: Let_def)

lemma defaultCommandSpecs_ok: "defaultCommandSpecs env = Inr (map applyCommandDocContract (default_specs env))"
proof -
  have "map cs_Name (map rg_Build (defaultBuiltinRegistrations env)) = map rg_Name (defaultBuiltinRegistrations env)"
    by (simp only: registration_specs default_spec_names)
  then have "map (\<lambda>rg. cs_Name (rg_Build rg)) (defaultBuiltinRegistrations env) = map rg_Name (defaultBuiltinRegistrations env)"
    by (simp only: map_map comp_def)
  then have "build_specs [] (defaultBuiltinRegistrations env) =
      Inr (map (\<lambda>rg. applyCommandDocContract (rg_Build rg)) (defaultBuiltinRegistrations env))"
    by (rule build_specs_ok) (simp_all add: registration_specs default_names_distinct)
  also have "map (\<lambda>rg. applyCommandDocContract (rg_Build rg)) (defaultBuiltinRegistrations env) =
      map applyCommandDocContract (default_specs env)"
    by (simp only: map_map comp_def flip: registration_specs(1))
  finally show ?thesis by (simp only: defaultCommandSpecs_def)
qed

subsection \<open>Every default builtin keeps what its callbacks keep\<close>

definition env_keeps :: "('e sys \<Rightarrow> bool) \<Rightarrow> 'e builtin_env \<Rightarrow> bool" where
  "env_keeps I env \<longleftrightarrow> rows_keep I (be_rows env) \<and> status_keeps I (be_probe env)"

lemma returning_keeps: "kept_if_any I (run rt args s) \<Longrightarrow> I s \<Longrightarrow> kept I (returning run rt args s)"
  by (auto simp: returning_def kept_if_any_def kept_pair split: option.split)

context reading_contract begin

lemma env_builtins_keep:
  assumes "env_keeps I env" "I s"
  shows "kept I (returning (runLS (be_fuel env) (be_rows env)) rt args s)" "kept I (returning (runTree (be_fuel env)) rt args s)"
    "kept I (returning runFrontmatter rt args s)" "kept I (runMounts (be_probe env) rt args s)"
  using assms
  by (auto simp: env_keeps_def intro!: returning_keeps runLS_keeps runTree_keeps runFrontmatter_keeps runMounts_keeps)

lemmas readers_keep = text_builtins_keep runView_keeps search_builtins_keep runGlob_keeps runJSON_keeps command_builtins_keep

text \<open>A command documented as read-only keeps what the reading callbacks keep. \<open>find\<close> is the exception: with
  \<open>-exec\<close> it runs other commands.\<close>

lemma read_only_keeps:
  assumes "env_keeps I env" "I s" "spec \<in> set (default_specs env)" "cs_Name spec \<noteq> ''find''" "cs_Run spec = Some run"
    and "map_of documented_kinds (cs_Name spec) = Some BuiltinMutationReadOnly"
  shows "kept I (run rt args s)"
proof -
  have "\<forall>spec\<in>set (default_specs env). cs_Name spec \<noteq> ''find'' \<longrightarrow>
      map_of documented_kinds (cs_Name spec) = Some BuiltinMutationReadOnly \<longrightarrow> kept I (the (cs_Run spec) rt args s)"
    by (simp add: default_specs_def documented_kinds_code BuiltinMutationReadOnly_def BuiltinMutationMutates_def
        runHead_def runTail_def readers_keep [OF assms(2)] env_builtins_keep [OF assms(1,2)])
  then show ?thesis using assms(3-) by fastforce
qed

end

context runtime_contract begin

lemma default_keeps:
  assumes "env_keeps I env" "I s" "spec \<in> set (default_specs env)" "cs_Run spec = Some run"
  shows "kept I (run rt args s)"
proof -
  have "\<forall>spec\<in>set (default_specs env). kept I (the (cs_Run spec) rt args s)"
    by (simp add: default_specs_def runHead_def runTail_def text_builtins_keep [OF assms(2)] runView_keeps [OF assms(2)]
        search_builtins_keep [OF assms(2)] runGlob_keeps [OF assms(2)] runJSON_keeps [OF assms(2)]
        command_builtins_keep [OF assms(2)] file_builtins_keep [OF assms(2)] edit_builtins_keep [OF assms(2)]
        runFind_keeps [OF assms(2)] env_builtins_keep [OF assms(1,2)])
  then show ?thesis using assms(3-) by fastforce
qed

end

end
