(* ===== verification/Builtin_Registry_Laws.thy ===== *)
theory Builtin_Registry_Laws
  imports Builtin_Registry
begin

section \<open>What the default builtins can do\<close>

text \<open>
  The builtins act on the world through the callbacks of their runtime and in no other way; the ones documented as read-only use
  the reading callbacks only. Since the registration puts exactly these builtins into the registry, what was shown of
  executions, scripts and sessions for arbitrary builtins holds of the real ones without a condition on them.
\<close>

subsection \<open>The registration\<close>

context command_table begin

lemma register_all_ok:
  "\<forall>c\<in>set cs. usable c \<Longrightarrow> distinct (map (\<lambda>c. trim_space (name_of c)) cs) \<Longrightarrow> \<forall>c\<in>set cs. lookup t (name_of c) = None \<Longrightarrow>
   \<exists>t'. register_all cs t = Inr t'"
proof (induction cs arbitrary: t)
  case (Cons c cs)
  obtain u where u: "register c t = Inr u" using Cons.prems register_ok [of c t] by auto
  have "\<forall>d\<in>set cs. lookup u (name_of d) = None"
    using Cons.prems lookup_register [OF u] by (force simp: image_iff)
  then show ?case using Cons.IH [of u] Cons.prems u by simp
qed simp

end

lemma default_runs: "spec \<in> set (default_specs env) \<Longrightarrow> cs_Run spec \<noteq> None"
  by (auto simp: default_specs_def)

lemma default_spec_named: "spec \<in> set (default_specs env) \<Longrightarrow> cs_Name spec \<in> set default_names"
  unfolding default_spec_names [of env, symmetric] by simp

lemma default_spec_plain:
  "spec \<in> set (default_specs env) \<Longrightarrow> trim_space (cs_Name spec) = cs_Name spec" "spec \<in> set (default_specs env) \<Longrightarrow> cs_Name spec \<noteq> []"
  using default_spec_named default_names_plain by blast+

lemma default_specs_distinct: "distinct (map cs_Name (default_specs env))"
  by (simp only: default_spec_names default_names_distinct)

text \<open>Some of the specifications registered in an empty registry, and what is found there.\<close>

definition documented_spec :: "'e builtin_env \<Rightarrow> string \<Rightarrow> 'e CommandSpec option" where
  "documented_spec env n = map_of (map (\<lambda>spec. (cs_Name spec, applyCommandDocContract spec)) (default_specs env)) (trim_space n)"

lemma documented_spec_member:
  assumes "documented_spec env n = Some spec"
  obtains raw where "raw \<in> set (default_specs env)" "spec = applyCommandDocContract raw" "cs_Name raw = trim_space n"
  using map_of_SomeD [OF assms [unfolded documented_spec_def]] by auto

lemma applied_name_kept: "(applyCommandDocContract c)\<lparr>cs_Name := cs_Name c\<rparr> = applyCommandDocContract c"
  using applied_fields(1) [of c] by (cases "applyCommandDocContract c") simp

lemma find_applied:
  "\<forall>c\<in>set cs. trim_space (cs_Name c) = cs_Name c \<Longrightarrow>
   (case find (\<lambda>c. trim_space (cs_Name c) = k) (map applyCommandDocContract cs) of
      Some c \<Rightarrow> Some (c\<lparr>cs_Name := trim_space (cs_Name c)\<rparr>) | None \<Rightarrow> None) =
   map_of (map (\<lambda>c. (cs_Name c, applyCommandDocContract c)) cs) k"
  by (induction cs) (simp_all add: applied_name_kept)

lemma map_of_chosen:
  "\<forall>c\<in>set cs. P (f c) \<longleftrightarrow> Q c \<Longrightarrow>
   map_of (map (\<lambda>c. (f c, g c)) (filter Q cs)) k = (if P k then map_of (map (\<lambda>c. (f c, g c)) cs) k else None)"
  by (induction cs) auto

lemma Lookup_empty: "Lookup [] n = None"
  by (simp add: Lookup_def)

lemma register_some:
  fixes Q :: "'e CommandSpec \<Rightarrow> bool"
  assumes "\<forall>spec\<in>set (default_specs env). P (cs_Name spec) \<longleftrightarrow> Q spec"
  obtains reg where "registry.register_all (map applyCommandDocContract (filter Q (default_specs env))) [] = Inr reg"
    and "\<And>n. Lookup reg n = (if P (trim_space n) then documented_spec env n else None)"
proof -
  let ?raw = "filter Q (default_specs env)" let ?specs = "map applyCommandDocContract ?raw"
  have plain: "\<forall>spec\<in>set ?raw. trim_space (cs_Name spec) = cs_Name spec" "\<forall>spec\<in>set ?raw. cs_Name spec \<noteq> []"
    "\<forall>spec\<in>set ?raw. cs_Run spec \<noteq> None"
    using default_spec_plain default_runs by auto
  have "distinct (map cs_Name ?raw)" using default_specs_distinct [of env] by (rule distinct_map_filter)
  moreover have "map (\<lambda>c. trim_space (cs_Name c)) ?specs = map cs_Name ?raw" using plain(1) by (induction ?raw) simp_all
  ultimately have d: "distinct (map (\<lambda>c. trim_space (cs_Name c)) ?specs)" by (simp only:)
  have "\<forall>c\<in>set ?specs. trim_space (cs_Name c) \<noteq> [] \<and> cs_Run c \<noteq> None" using plain by auto
  from registry.register_all_ok [OF this d, of "[]"] obtain reg where reg: "registry.register_all ?specs [] = Inr reg"
    by (auto simp: Lookup_def)
  have "map_of (map (\<lambda>c. (cs_Name c, applyCommandDocContract c)) ?raw) k =
      (if P k then map_of (map (\<lambda>c. (cs_Name c, applyCommandDocContract c)) (default_specs env)) k else None)" for k
    by (rule map_of_chosen) (rule assms)
  then have "Lookup reg n = (if P (trim_space n) then documented_spec env n else None)" for n
    using registry.register_all_lookup [OF reg, of n, unfolded Lookup_empty] find_applied [OF plain(1), of "trim_space n"]
    by (simp add: documented_spec_def)
  with reg that show ?thesis by blast
qed

lemma RegisterDefaults_ok:
  obtains reg where "RegisterDefaults env [] = Inr reg" and "\<And>n. Lookup reg n = documented_spec env n"
proof -
  obtain reg where "registry.register_all (map applyCommandDocContract (filter (\<lambda>_. True) (default_specs env))) [] = Inr reg"
    and "\<And>n. Lookup reg n = (if True then documented_spec env n else None)"
    by (rule register_some [of env "\<lambda>_. True" "\<lambda>_. True"]) simp_all
  then show ?thesis by (intro that [of reg]) (simp_all add: RegisterDefaults_def defaultCommandSpecs_ok)
qed

lemma RegisterDefaults_lookup: "RegisterDefaults env [] = Inr reg \<Longrightarrow> Lookup reg n = documented_spec env n"
  by (rule RegisterDefaults_ok [of env]) simp

lemma register_allowed_all:
  "registry.register_all (filter (\<lambda>spec. cs_Name spec \<in> set allowed) specs) reg = Inr reg' \<Longrightarrow>
   register_allowed allowed specs seen reg =
     (Inr (rev (map cs_Name (filter (\<lambda>spec. cs_Name spec \<in> set allowed) specs)) @ seen), reg')"
  by (induction specs arbitrary: seen reg) (auto split: sum.splits if_splits)

text \<open>An environment for examples: no regular expressions, no embedded files, no mounts with a status.\<close>

definition sample_env :: "files builtin_env" where
  "sample_env =
     \<lparr>be_fuel = 4, be_rows = None, be_text = pl_text sample_platform, be_json = \<lparr>jl_num = Some, jl_error = id\<rparr>,
      be_now = (\<lambda>_. \<lparr>ct_Year = 1970, ct_Month = 1, ct_Day = 1, ct_Hour = 0, ct_Minute = 0, ct_Second = 0, ct_Offset = 0,
        ct_Zone = ''UTC'', ct_Unix = 0\<rparr>),
      be_probe = \<lparr>pb_status = (\<lambda>_. None), pb_stats = (\<lambda>_. False), pb_slo = (\<lambda>_. JNull)\<rparr>,
      be_files = \<lparr>ef_ReadFile = (\<lambda>_. None), ef_ReadDir = None\<rparr>\<rparr>"

lemma sample_env_keeps: "env_keeps I sample_env"
  by (simp add: env_keeps_def sample_env_def rows_keep_def status_keeps_def)

text \<open>C38. A subset of the builtins is registered exactly as asked for: of the names given, blank ones left out, those of builtins
  are found afterwards, with their documentation, and nothing else; an error is reported if and only if some name is no
  builtin, in whichever order the names are visited.\<close>

theorem subset_registration:
  assumes "set (visit (allowed_names names)) = set (allowed_names names)"
    and "RegisterDefaultSubset visit env names [] = (err, reg)"
  shows "(err = None \<longleftrightarrow> set (allowed_names names) \<subseteq> set default_names) \<and>
    (\<forall>n. Lookup reg n = (if trim_space n \<in> set (map trim_space names) then documented_spec env n else None))"
proof -
  let ?all = "allowed_names names" let ?Q = "\<lambda>spec. cs_Name spec \<in> set ?all"
  have P: "\<forall>spec\<in>set (default_specs env). cs_Name spec \<in> set (map trim_space names) \<longleftrightarrow> ?Q spec"
    using default_spec_plain(2) by (auto simp: allowed_names_def)
  obtain reg' where all: "registry.register_all (map applyCommandDocContract (filter ?Q (default_specs env))) [] = Inr reg'"
    and found: "\<And>n. Lookup reg' n = (if trim_space n \<in> set (map trim_space names) then documented_spec env n else None)"
    by (rule register_some [OF P]) (rule that)
  have filt: "filter ?Q (map applyCommandDocContract (default_specs env)) = map applyCommandDocContract (filter ?Q (default_specs env))"
    by (simp add: filter_map comp_def)
  have names: "set (map cs_Name (filter ?Q (map applyCommandDocContract (default_specs env)))) = set ?all \<inter> set default_names"
    unfolding filt by (auto simp flip: default_spec_names [of env])
  show ?thesis
  proof (cases "?all = []")
    case True
    then have "reg = []" "err = None" using assms(2) by (auto simp: RegisterDefaultSubset_def)
    moreover have "registry.register_all (map applyCommandDocContract (filter ?Q (default_specs env))) [] = Inr []"
      using True by simp
    ultimately show ?thesis using all found True by simp
  next
    case False
    define made where "made = rev (map cs_Name (filter ?Q (map applyCommandDocContract (default_specs env))))"
    have made: "set made = set ?all \<inter> set default_names" unfolding made_def using names by simp
    have "register_allowed ?all (map applyCommandDocContract (default_specs env)) [] [] = (Inr made, reg')"
      using register_allowed_all [OF all [folded filt], of "[]"] by (simp add: made_def)
    then have "(err, reg) = (map_option (\<lambda>n. ErrText (''unknown builtin command '' @ go_quote n)) (find (\<lambda>n. n \<notin> set made) (visit ?all)), reg')"
      unfolding assms(2) [symmetric] by (simp only: RegisterDefaultSubset_def defaultCommandSpecs_ok False Let_def if_False sum.case prod.case)
    then have reg: "reg = reg'" and err: "err = None \<longleftrightarrow> (\<forall>n\<in>set (visit ?all). n \<in> set ?all \<inter> set default_names)"
      unfolding made [symmetric] by (auto simp: find_None_iff)
    show ?thesis using found err unfolding reg assms(1) by blast
  qed
qed

theorem subset_registration_witness:
  "fst (RegisterDefaultSubset rev sample_env [''cat'', ''nope''] []) \<noteq> None \<and>
   Lookup (snd (RegisterDefaultSubset rev sample_env [''cat'', ''nope''] [])) ''cat'' = documented_spec sample_env ''cat'' \<and>
   Lookup (snd (RegisterDefaultSubset rev sample_env [''cat'', ''nope''] [])) ''rm'' = None"
proof -
  have "\<not> starts_with_space ''nope''" "\<not> ends_with_space ''nope''"
    by (simp_all add: starts_with_space_def ends_with_space_def space_runes_def)
  then have t: "trim_space ''nope'' = ''nope''" "trim_space ''cat'' = ''cat''" "trim_space ''rm'' = ''rm''"
    using default_names_plain [of "''cat''"] default_names_plain [of "''rm''"] by (simp_all add: trim_space_fixI default_names_def)
  have all: "allowed_names [''cat'', ''nope''] = [''cat'', ''nope'']" by (simp add: allowed_names_def t)
  obtain err reg where r: "RegisterDefaultSubset rev sample_env [''cat'', ''nope''] [] = (err, reg)" by (cases "RegisterDefaultSubset rev sample_env [''cat'', ''nope''] []")
  from subset_registration [of rev, OF _ r] show ?thesis by (simp add: r all t default_names_def insert_commute)
qed

subsection \<open>Effects\<close>

text \<open>One call of a callback, one call of a reading one (among them the refreshes of mounts, their status and the rows of
  \<open>ls -l\<close>), one of a changing one, one command dispatched; and sequences of such.\<close>

definition called :: "('a, 'b, 'e) op option \<Rightarrow> 'e \<Rightarrow> 'e \<Rightarrow> bool" where
  "called f w w' \<longleftrightarrow> (\<exists>x s. sy_env s = w \<and> sy_env (snd (call f x s)) = w')"

definition read_step :: "'e builtin_env \<Rightarrow> 'e Ops \<Rightarrow> 'e \<Rightarrow> 'e \<Rightarrow> bool" where
  "read_step env ops w w' \<longleftrightarrow>
     called (o_ChangeWorkingDir ops) w w' \<or> called (o_ResolvePath ops) w w' \<or> called (o_RequireAbsolutePath ops) w w' \<or>
     called (o_ListChildren ops) w w' \<or> called (o_IsDirPath ops) w w' \<or> called (o_DescribePath ops) w w' \<or>
     called (o_ListEntries ops) w w' \<or> called (o_EnumeratePaths ops) w w' \<or> called (o_ReadRawContent ops) w w' \<or>
     called (o_ReadMany ops) w w' \<or> called (o_ResolveSearchPaths ops) w w' \<or> called (o_CollectFilesUnder ops) w w' \<or>
     called (o_SearchContent ops) w w' \<or> called (o_CheckPathOp ops) w w' \<or> called (o_ListExternalCommands ops) w w' \<or>
     called (o_ReadExternalManual ops) w w' \<or> (\<exists>m\<in>set (o_VirtualMounts ops). called (vm_Refresh m) w w') \<or>
     (\<exists>m. called (pb_status (be_probe env) m) w w') \<or>
     (\<exists>f row s. be_rows env = Some f \<and> sy_env s = w \<and> sy_env (snd (f row s)) = w')"

definition change_step :: "'e Ops \<Rightarrow> 'e \<Rightarrow> 'e \<Rightarrow> bool" where
  "change_step ops w w' \<longleftrightarrow>
     called (o_WriteFile ops) w w' \<or> called (o_AppendFile ops) w w' \<or> called (o_EditFile ops) w w' \<or>
     called (o_MakeDir ops) w w' \<or> called (o_RemoveFile ops) w w' \<or> called (o_RemoveDir ops) w w' \<or>
     called (o_ApplyMutations ops) w w'"

definition dispatch_step :: "'e CommandRuntime \<Rightarrow> 'e \<Rightarrow> 'e \<Rightarrow> bool" where
  "dispatch_step rt w w' \<longleftrightarrow> (\<exists>args i h s. sy_env s = w \<and> sy_env (snd (rt_Dispatch rt args i h s)) = w')"

definition only_reads :: "'e builtin_env \<Rightarrow> 'e CommandRuntime \<Rightarrow> 'e \<Rightarrow> 'e \<Rightarrow> bool" where
  "only_reads env rt = (read_step env (rt_Ops rt))\<^sup>*\<^sup>*"

definition allowed_effects :: "'e builtin_env \<Rightarrow> 'e CommandRuntime \<Rightarrow> 'e \<Rightarrow> 'e \<Rightarrow> bool" where
  "allowed_effects env rt = (\<lambda>w w'. read_step env (rt_Ops rt) w w' \<or>
     (AllowWrite (o_Policy (rt_Ops rt)) \<and> change_step (rt_Ops rt) w w') \<or> dispatch_step rt w w')\<^sup>*\<^sup>*"

lemma closed_keeps:
  assumes "\<And>w w'. called f w w' \<Longrightarrow> R w w'"
  shows "keeps_inv (world (R\<^sup>*\<^sup>* w0)) f"
proof -
  have "R\<^sup>*\<^sup>* w0 (sy_env (snd (call f x s)))" if "R\<^sup>*\<^sup>* w0 (sy_env s)" for x s
    by (rule rtranclp.rtrancl_into_rtrancl [OF that]) (rule assms, auto simp: called_def)
  then show ?thesis by (simp add: keeps_inv_def kept_def world_def)
qed

interpretation reading: reading_contract "world (only_reads env rt w0)" rt
proof unfold_locales
  show "reads_keep (world (only_reads env rt w0)) (rt_Ops rt)"
    unfolding reads_keep_def only_reads_def
    by (intro conjI ballI closed_keeps) (auto simp: read_step_def)
qed (simp_all add: world_executionContextErr)

interpretation acting: runtime_contract "world (allowed_effects env rt w0)" rt
proof unfold_locales
  show "reads_keep (world (allowed_effects env rt w0)) (rt_Ops rt)"
    unfolding reads_keep_def allowed_effects_def
    by (intro conjI ballI closed_keeps) (auto simp: read_step_def)
  show "writes_keep (world (allowed_effects env rt w0)) (rt_Ops rt)" if "AllowWrite (o_Policy (rt_Ops rt))"
    unfolding writes_keep_def allowed_effects_def
    by (intro conjI closed_keeps) (auto simp: change_step_def that)
  show "kept (world (allowed_effects env rt w0)) (rt_Dispatch rt args i h s)" if "world (allowed_effects env rt w0) s" for args i h s
    using that unfolding kept_def world_def allowed_effects_def
    by (rule rtranclp.rtrancl_into_rtrancl) (auto simp: dispatch_step_def)
qed (simp_all add: world_executionContextErr)

lemma env_closed:
  "env_keeps (world (only_reads env rt w0)) env" "env_keeps (world (allowed_effects env rt w0)) env"
proof -
  have closed: "env_keeps (world (R\<^sup>*\<^sup>* w0)) env" if R: "\<And>w w'. read_step env (rt_Ops rt) w w' \<Longrightarrow> R w w'" for R
  proof -
    have "kept (world (R\<^sup>*\<^sup>* w0)) (f row s)" if "be_rows env = Some f" "world (R\<^sup>*\<^sup>* w0) s" for f row s
      using that(2) unfolding kept_def world_def
      by (rule rtranclp.rtrancl_into_rtrancl) (rule R, use that(1) in \<open>auto simp: read_step_def\<close>)
    moreover have "keeps_inv (world (R\<^sup>*\<^sup>* w0)) (pb_status (be_probe env) m)" for m
      by (rule closed_keeps) (rule R, auto simp: read_step_def)
    ultimately show ?thesis by (simp add: env_keeps_def rows_keep_def status_keeps_def)
  qed
  show "env_keeps (world (only_reads env rt w0)) env" "env_keeps (world (allowed_effects env rt w0)) env"
    unfolding only_reads_def allowed_effects_def by (rule closed; simp)+
qed

lemma default_spec_raw:
  assumes "defaultCommandSpecs env = Inr specs" "spec \<in> set specs"
  obtains raw where "raw \<in> set (default_specs env)" "spec = applyCommandDocContract raw"
  using assms by (auto simp: defaultCommandSpecs_ok)

lemma default_spec_undocumented: "raw \<in> set (default_specs env) \<Longrightarrow> cs_MutationKind raw = []"
  by (auto simp: default_specs_def)

text \<open>C2. A default builtin changes the world only by calls of the callbacks of its runtime and by dispatching commands; it calls a
  changing callback only if the policy allows writes. A builtin documented as read-only, find excepted, which may run
  commands, calls reading callbacks only.\<close>

theorem default_builtin_effects:
  assumes "defaultCommandSpecs env = Inr specs" and "spec \<in> set specs" and "cs_Run spec = Some run"
  shows "allowed_effects env rt (sy_env s) (sy_env (snd (run rt args s))) \<and>
    (cs_MutationKind spec = BuiltinMutationReadOnly \<and> cs_Name spec \<noteq> ''find'' \<longrightarrow>
     only_reads env rt (sy_env s) (sy_env (snd (run rt args s))))"
proof -
  obtain raw where raw: "raw \<in> set (default_specs env)" "spec = applyCommandDocContract raw"
    using assms(1,2) by (rule default_spec_raw)
  have run: "cs_Run raw = Some run" using assms(3) raw(2) by simp
  have start: "world (allowed_effects env rt (sy_env s)) s" "world (only_reads env rt (sy_env s)) s"
    by (simp_all add: world_def allowed_effects_def only_reads_def)
  have "kept (world (only_reads env rt (sy_env s))) (run rt args s)"
    if "cs_MutationKind spec = BuiltinMutationReadOnly" "cs_Name spec \<noteq> ''find''"
  proof (rule reading.read_only_keeps [OF env_closed(1) start(2) raw(1) _ run])
    show "cs_Name raw \<noteq> ''find''" using that(2) raw(2) by simp
    show "map_of documented_kinds (cs_Name raw) = Some BuiltinMutationReadOnly"
      using that(1) applied_kind [OF default_spec_undocumented [OF raw(1)]] raw(2)
      by (auto simp: BuiltinMutationReadOnly_def split: option.splits)
  qed
  then show ?thesis
    using acting.default_keeps [OF env_closed(2) start(1) raw(1) run, of args] by (simp add: kept_def world_def)
qed

theorem default_builtin_effects_witness:
  "only_reads sample_env (builtin_runtime [] files_ops (\<lambda>_ _ _ s. (([], 0), s)) [] False) [(''/a'', ''x'')]
    (sy_env (snd (runCat (builtin_runtime [] files_ops (\<lambda>_ _ _ s. (([], 0), s)) [] False) [''/a''] (live_sys [(''/a'', ''x'')]))))"
proof -
  let ?spec = "applyCommandDocContract (specCat sample_env)"
  have 1: "?spec \<in> set (map applyCommandDocContract (default_specs sample_env))" by (simp add: default_specs_def)
  have 2: "cs_Run ?spec = Some runCat" by simp
  have 3: "cs_MutationKind ?spec = BuiltinMutationReadOnly" "cs_Name ?spec \<noteq> ''find''"
    by (simp_all add: applied_kind documented_kinds_code)
  show ?thesis
    using default_builtin_effects [OF defaultCommandSpecs_ok 1 2, of "builtin_runtime [] files_ops (\<lambda>_ _ _ s. (([], 0), s)) [] False"
        "live_sys [(''/a'', ''x'')]" "[''/a'']"] 3 by (simp add: live_sys_def)
qed

subsection \<open>The default builtins in the engine\<close>

lemma default_builtin_keeps:
  fixes reg :: "'e Registry"
  assumes "RegisterDefaults env [] = Inr reg" and "reads_keep (world J) ops" and "env_keeps (world J) env"
    and "AllowWrite (o_Policy ops) \<Longrightarrow> writes_keep (world J) ops"
  shows "builtin_keeps (world J) reg ops"
  unfolding builtin_keeps_def
proof (intro allI impI)
  fix n spec run and dispatch :: "'e dispatcher" and input hasInput args s
  assume l: "Lookup reg n = Some spec" "cs_Run spec = Some run"
    and d: "\<forall>args i h s. world J s \<longrightarrow> kept (world J) (dispatch args i h s)" and s: "world J s"
  obtain raw where raw: "raw \<in> set (default_specs env)" "spec = applyCommandDocContract raw"
    using l(1) unfolding RegisterDefaults_lookup [OF assms(1)] by (rule documented_spec_member)
  have "runtime_contract (world J) (builtin_runtime reg ops dispatch input hasInput)"
    by unfold_locales (use assms d in \<open>simp_all add: builtin_runtime_def world_executionContextErr\<close>)
  from runtime_contract.default_keeps [OF this assms(3) s raw(1)]
  show "kept (world J) (run (builtin_runtime reg ops dispatch input hasInput) args s)" using l(2) raw(2) by simp
qed

lemma default_builtins_keep:
  assumes "RegisterDefaults env [] = Inr reg" and "env_keeps (world J) env"
  shows "builtins_keep J reg"
  unfolding builtins_keep_def
  by (intro allI impI default_builtin_keeps [OF assms(1) _ assms(2)])
    (simp_all add: ops_keep_def reads_keep_def writes_keep_def)

text \<open>C3. Under a policy that allows no writes, scripts over the default builtins change nothing that the reading callbacks and
  the external commands do not change: no argument, redirection, alias, pipeline or dispatched command reaches a changing callback.\<close>

theorem default_scripts_without_writes:
  assumes "RegisterDefaults env [] = Inr reg" and "reads_keep (world J) ops" and "env_keeps (world J) env"
    and "\<And>run req s. o_RunExternalCommand ops = Some run \<Longrightarrow> world J s \<Longrightarrow> kept (world J) (run req s)"
    and "\<not> AllowWrite (o_Policy ops)" and "J (sy_env s)"
  shows "J (sy_env (snd (runScript (runCommand reg ops) ops cmdline s)))"
proof -
  have "builtin_keeps (world J) reg ops" using default_builtin_keeps [OF assms(1-3)] assms(5) by blast
  then have "engine_invariant (world J) reg ops"
    using assms(2,4) by (auto simp: engine_invariant_def reads_keep_def world_executionContextErr)
  then have "script_invariant (world J) (runCommand reg ops) ops"
    by (rule engine_script_invariant) (use assms(2,5) in \<open>simp_all add: reads_keep_def\<close>)
  from runScript_inv [OF this] show ?thesis using assms(6) by (simp add: kept_def world_def)
qed

theorem default_scripts_without_writes_witness:
  "\<exists>reg. RegisterDefaults sample_env [] = Inr reg \<and>
     sy_env (snd (runScript (runCommand reg echo_ops) echo_ops ''rm /a ; echo hi > /a'' (live_sys [(''/a'', ''x'')]))) = [(''/a'', ''x'')]"
proof -
  obtain reg where reg: "RegisterDefaults sample_env [] = Inr reg" by (rule RegisterDefaults_ok)
  have "reads_keep (world (\<lambda>m. m = [(''/a'', ''x'')])) echo_ops"
    by (simp add: reads_keep_def echo_ops_def files_ops_def zero_ops_def keeps_inv_def kept_def call_def world_def
        read_file_def absolute_path_def split: option.splits)
  from default_scripts_without_writes [OF reg this sample_env_keeps _ echo_reads(4), of "live_sys [(''/a'', ''x'')]" "''rm /a ; echo hi > /a''"] reg
  show ?thesis by (auto simp: live_sys_def echo_ops_def files_ops_def zero_ops_def)
qed

text \<open>C1. Whatever scripts a session over the default builtins runs, what they cannot break by changes inside the session's two
  writable host directories holds afterwards: \<open>J\<close> is any property of the world that the operating system's changes there (and
  making the base directory) keep, as long as the mounts, external commands and rows the session is given keep it.\<close>

theorem default_sessions_confined:
  assumes "abs_lawful os" and "host_filesystem h = NewAIFilesystem os eval"
    and "host_base os (opt_HostRoot opts) (sy_env s0) = Inr base"
    and "NewRuntimeOps h opts s0 = (Inr ops, s1)"
    and "os_keeps_below os J (below base ''task_outputs'')" and "os_keeps_below os J (below base ''temp_work'')"
    and "surroundings_keep J h opts" and "RegisterDefaults env [] = Inr (en_registry en)" and "env_keeps (world J) env"
    and "cache_keeps J en" and "J (sy_env s)"
  shows "J (sy_env (snd (snd (executions pl (map (\<lambda>(ctx, cmdline, ids). (ctx, cmdline, ids, ops)) calls) en s))))"
  by (rule session_keeps [OF assms(1-7) default_builtins_keep [OF assms(8,9)] assms(10,11)])

theorem default_sessions_confined_witness:
  "\<exists>reg ops. RegisterDefaults sample_env [] = Inr reg \<and> NewRuntimeOps memory_host memory_options (live_sys []) = (Inr ops, live_sys []) \<and>
     knows_k (sy_env (snd (snd (executions sample_platform
       [(CtxLive, ''rm /knowledge_base/k'', sample_ids, ops), (CtxLive, ''echo hi > /temp_work/a'', sample_ids, ops)]
       (echo_engine\<lparr>en_registry := reg\<rparr>) (live_sys [(''/h/knowledge_base/k'', ''v'')])))))"
proof -
  obtain reg where reg: "RegisterDefaults sample_env [] = Inr reg" by (rule RegisterDefaults_ok)
  let ?en = "echo_engine\<lparr>en_registry := reg\<rparr>"
  obtain ops where ops: "NewRuntimeOps memory_host memory_options (live_sys []) = (Inr ops, live_sys [])"
    using memory_session by blast
  have h: "host_filesystem memory_host = NewAIFilesystem memory_os None" by (simp add: memory_host_def)
  have r: "RegisterDefaults sample_env [] = Inr (en_registry ?en)" by (simp add: reg)
  have c: "cache_keeps knows_k ?en" by (simp add: cache_keeps_def echo_engine_def)
  have s: "knows_k (sy_env (live_sys [(''/h/knowledge_base/k'', ''v'')]))" by (simp add: knows_k_def)
  from default_sessions_confined [OF memory_os_lawful(1) h memory_base ops memory_keeps_k memory_surroundings r sample_env_keeps c s,
      of sample_platform "[(CtxLive, ''rm /knowledge_base/k'', sample_ids), (CtxLive, ''echo hi > /temp_work/a'', sample_ids)]"]
    ops reg show ?thesis by auto
qed

end
