(* ===== verification/Local_Fs_Safety.thy ===== *)
theory Local_Fs_Safety
  imports Local_Fs Builtin_Registry_Laws
begin

section \<open>What the callbacks over one host directory guarantee\<close>

text \<open>
  \<open>guarded_change\<close> is the abstract specification of the adapter: the changes of the host that a callback may make, each at a path
  that the guard admits in the world the change is made in, and none unless the policy allows writes. Every callback keeps what
  these changes keep; with the theorems on executions and builtins, so does every script. Under \<open>os_files\<close>, which states what
  writing a file does to the files of the host, redirections change exactly the files they name.
\<close>

subsection \<open>The changes that the guard and the policy admit\<close>

definition change_at :: "'e os \<Rightarrow> ExecutionPolicy \<Rightarrow> string \<Rightarrow> 'e \<Rightarrow> 'e \<Rightarrow> bool" where
  "change_at os policy p w w' \<longleftrightarrow>
     w' = snd (os_MkdirAll os p 493 w) \<or> w' = snd (os_MkdirAll os (path_dir p) 493 w) \<or> w' = snd (os_Remove os p w) \<or>
     (\<exists>c. \<not> exceeds_cap policy c \<and>
       (w' = snd (os_WriteFile os p c 420 w) \<or>
        (let made = snd (os_MkdirAll os (path_dir p) 493 w); opened = snd (os_OpenAppend os p 420 made) in
         w' = snd (os_WriteFile os p c 420 made) \<or> w' = opened \<or> w' = snd (os_WriteString os p c opened))))"

definition guarded_change :: "'e os \<Rightarrow> ExecutionPolicy \<Rightarrow> string \<Rightarrow> 'e \<Rightarrow> 'e \<Rightarrow> bool" where
  "guarded_change os policy root w w' \<longleftrightarrow>
     AllowWrite policy \<and> (\<exists>p. pathguard_Check os root p w = None \<and> change_at os policy p w w')"

definition change_keeps :: "'e os \<Rightarrow> ('e \<Rightarrow> bool) \<Rightarrow> ExecutionPolicy \<Rightarrow> string \<Rightarrow> bool" where
  "change_keeps os J policy root \<longleftrightarrow> (\<forall>w w'. J w \<longrightarrow> guarded_change os policy root w w' \<longrightarrow> J w')"

lemma resolveAndCheckPath_Inr:
  "resolveAndCheckPath os root p w = Inr native \<longleftrightarrow> native = p \<and> pathguard_Check os root p w = None"
  by (auto simp: resolveAndCheckPath_def split: option.splits)

lemma change_keepsD:
  assumes "change_keeps os J policy root" "AllowWrite policy" "resolveAndCheckPath os root p w = Inr native" "J w"
    and "change_at os policy native w w'"
  shows "J w'"
  using assms unfolding change_keeps_def guarded_change_def resolveAndCheckPath_Inr by blast

lemma os_do_kept: "kept (world J) (os_do g s) \<longleftrightarrow> J (snd (g (sy_env s)))"
  by (cases "g (sy_env s)") (auto simp: os_do_def kept_def world_def split: option.splits)

lemma os_do_then_kept:
  assumes "J (snd (g (sy_env s)))" and "\<And>s1. sy_env s1 = snd (g (sy_env s)) \<Longrightarrow> kept (world J) (f s1)"
  shows "kept (world J) (case os_do g s of (Inl e, s) \<Rightarrow> (Inl e, s) | (Inr _, s) \<Rightarrow> f s)"
  using assms by (cases "g (sy_env s)") (auto simp: os_do_def kept_def world_def split: option.splits)

text \<open>What the changing callbacks end in, once the guard has admitted the path.\<close>

lemma guarded_keeps:
  fixes os :: "'e os"
  assumes "change_keeps os J policy root" "AllowWrite policy" "resolveAndCheckPath os root p (sy_env s) = Inr native"
    and "world J s"
  shows "kept (world J) (os_do (os_MkdirAll os native 493) s)" "kept (world J) (os_do (os_Remove os native) s)"
    "\<not> exceeds_cap policy c \<Longrightarrow> kept (world J) (os_do (os_WriteFile os native c 420) s)"
    "\<not> exceeds_cap policy c \<Longrightarrow> kept (world J) (case os_do (os_MkdirAll os (path_dir native) 493) s of
       (Inl e, s) \<Rightarrow> (Inl e, s) | (Inr _, s) \<Rightarrow> os_do (os_WriteFile os native c 420) s)"
    "\<not> exceeds_cap policy c \<Longrightarrow> kept (world J) (case os_do (os_MkdirAll os (path_dir native) 493) s of
       (Inl e, s) \<Rightarrow> (Inl e, s)
     | (Inr _, s) \<Rightarrow>
         (case os_do (os_OpenAppend os native 420) s of
            (Inl e, s) \<Rightarrow> (Inl e, s) | (Inr _, s) \<Rightarrow> os_do (os_WriteString os native c) s))"
proof -
  have step: "change_at os policy native (sy_env s) w' \<Longrightarrow> J w'" for w'
    by (rule change_keepsD [OF assms(1-3)]) (use assms(4) in \<open>simp_all add: world_def\<close>)
  show "kept (world J) (os_do (os_MkdirAll os native 493) s)" "kept (world J) (os_do (os_Remove os native) s)"
    by (simp_all add: os_do_kept step change_at_def)
  assume c: "\<not> exceeds_cap policy c"
  show "kept (world J) (os_do (os_WriteFile os native c 420) s)"
    unfolding os_do_kept by (rule step) (use c in \<open>auto simp: change_at_def\<close>)
  have made: "J (snd (os_MkdirAll os (path_dir native) 493 (sy_env s)))" by (rule step) (simp add: change_at_def)
  show "kept (world J) (case os_do (os_MkdirAll os (path_dir native) 493) s of
      (Inl e, s) \<Rightarrow> (Inl e, s) | (Inr _, s) \<Rightarrow> os_do (os_WriteFile os native c 420) s)"
  proof (rule os_do_then_kept, rule made)
    fix s1 :: "'e sys" assume s1: "sy_env s1 = snd (os_MkdirAll os (path_dir native) 493 (sy_env s))"
    show "kept (world J) (os_do (os_WriteFile os native c 420) s1)"
      unfolding os_do_kept s1 by (rule step) (use c in \<open>auto simp: change_at_def Let_def\<close>)
  qed
  show "kept (world J) (case os_do (os_MkdirAll os (path_dir native) 493) s of
      (Inl e, s) \<Rightarrow> (Inl e, s)
    | (Inr _, s) \<Rightarrow>
        (case os_do (os_OpenAppend os native 420) s of
           (Inl e, s) \<Rightarrow> (Inl e, s) | (Inr _, s) \<Rightarrow> os_do (os_WriteString os native c) s))"
  proof (rule os_do_then_kept, rule made, rule os_do_then_kept)
    fix s1 :: "'e sys" assume s1: "sy_env s1 = snd (os_MkdirAll os (path_dir native) 493 (sy_env s))"
    show "J (snd (os_OpenAppend os native 420 (sy_env s1)))"
      unfolding s1 by (rule step) (use c in \<open>auto simp: change_at_def Let_def\<close>)
    fix s2 :: "'e sys" assume s2: "sy_env s2 = snd (os_OpenAppend os native 420 (sy_env s1))"
    show "kept (world J) (os_do (os_WriteString os native c) s2)"
      unfolding os_do_kept s2 s1 by (rule step) (use c in \<open>auto simp: change_at_def Let_def\<close>)
  qed
qed

subsection \<open>The callbacks\<close>

lemma LF_reading_keep:
  "keeps_inv (world J) (Some (LF_ListChildren os root))" "keeps_inv (world J) (Some (LF_IsDirPath os root))"
  "keeps_inv (world J) (Some (LF_ReadRawContent os root))" "keeps_inv (world J) (Some (LF_CheckPathOp os policy root))"
  unfolding LF_ListChildren_def LF_IsDirPath_def LF_ReadRawContent_def LF_CheckPathOp_def
  by (rule reading_keep; auto split: sum.splits)+

lemma LF_RequireAbsolutePath_keep: "keeps_inv (world J) (Some (LF_RequireAbsolutePath os root))"
  by (auto simp: keeps_inv_Some LF_RequireAbsolutePath_def kept_def Let_def split: sum.splits)

lemma walk_local_keep: "world J s \<Longrightarrow> kept (world J) (walk_local link visits files s)"
proof (induction visits arbitrary: files s)
  case (Cons v visits)
  then show ?case
    by (cases v; simp)
      (rule keep kept_bool Cons.IH world_executionContextErr | assumption | simp add: executionContextErr_world)+
qed (simp add: kept_def)

lemma LF_CollectFilesUnder_keep: "keeps_inv (world J) (Some (LF_CollectFilesUnder os is_link root))"
  unfolding LF_CollectFilesUnder_def
  by (rule checked_keep, (rule keep kept_bool walk_local_keep | assumption)+)

lemma LF_ResolveSearchPaths_keep: "keeps_inv (world J) (Some (LF_ResolveSearchPaths os is_link root))"
  unfolding LF_ResolveSearchPaths_def
  by (rule checked_keep, clarify?,
      (rule keep kept_bool keeps_invD_some [OF LF_CollectFilesUnder_keep refl] | assumption)+)

lemma LF_DescribePath_keep: "keeps_inv (world J) (Some (LF_DescribePath os root))"
  unfolding keeps_inv_Some LF_DescribePath_def
  by (intro allI impI, (rule keep kept_bool keeps_invD_some [OF LF_reading_keep(2) refl]
        keeps_invD_some [OF LF_reading_keep(3) refl] | assumption)+)

lemma LF_writing_keep:
  assumes "change_keeps os J policy root"
  shows "keeps_inv (world J) (Some (LF_WriteFile os policy root))" "keeps_inv (world J) (Some (LF_AppendFile os policy root))"
    "keeps_inv (world J) (Some (LF_EditFile os policy root))" "keeps_inv (world J) (Some (LF_MakeDir os policy root))"
    "keeps_inv (world J) (Some (LF_RemoveFile os policy root))" "keeps_inv (world J) (Some (LF_RemoveDir os policy root))"
proof -
  note guarded = guarded_keeps [OF assms]
  show "keeps_inv (world J) (Some (LF_WriteFile os policy root))"
    unfolding LF_WriteFile_def by (rule checked_keep) (auto simp: kept_pair guarded split: sum.split)
  show "keeps_inv (world J) (Some (LF_AppendFile os policy root))"
    unfolding LF_AppendFile_def by (rule checked_keep) (auto simp: kept_pair guarded split: sum.split)
  show "keeps_inv (world J) (Some (LF_EditFile os policy root))"
    unfolding LF_EditFile_def Let_def by (rule checked_keep) (auto simp: kept_pair guarded split: sum.split)
  show "keeps_inv (world J) (Some (LF_MakeDir os policy root))"
    unfolding LF_MakeDir_def by (rule checked_keep) (auto simp: kept_pair guarded split: sum.split)
  show "keeps_inv (world J) (Some (LF_RemoveFile os policy root))"
    unfolding LF_RemoveFile_def by (rule checked_keep) (auto simp: kept_pair guarded split: sum.split bool.split)
  show "keeps_inv (world J) (Some (LF_RemoveDir os policy root))"
    unfolding LF_RemoveDir_def by (rule checked_keep) (auto simp: kept_pair guarded split: sum.split bool.split)
qed

text \<open>What the options bring along: mounts, external commands and a describing callback of the caller's own.\<close>

definition local_surroundings_keep :: "('e \<Rightarrow> bool) \<Rightarrow> 'e local_options \<Rightarrow> bool" where
  "local_surroundings_keep J opts \<longleftrightarrow>
     (\<forall>m\<in>set (lo_VirtualMounts opts). mount_keeps (world J) m) \<and> keeps_inv (world J) (lo_DescribePath opts) \<and>
     keeps_inv (world J) (xc_ListExternalCommands (lo_ExternalCallbacks opts)) \<and>
     keeps_inv (world J) (xc_ReadExternalManual (lo_ExternalCallbacks opts)) \<and>
     (\<forall>run req s. xc_RunExternalCommand (lo_ExternalCallbacks opts) = Some run \<longrightarrow> world J s \<longrightarrow> kept (world J) (run req s))"

lemma NewOps_Inr:
  assumes "NewOps os is_link opts w = Inr ops"
  obtains profile where "ops = local_ops os is_link opts (o_RootDir ops) (o_Policy ops) profile"
    "local_root os (lo_RootDir opts) w = Inr (o_RootDir ops)"
proof -
  obtain root policy profile where ops: "ops = local_ops os is_link opts root policy profile"
    and root: "local_root os (lo_RootDir opts) w = Inr root"
    using assms unfolding NewOps_def Let_def by (auto split: sum.splits)
  have "o_RootDir ops = root" "o_Policy ops = policy" by (simp_all add: ops local_ops_def)
  with ops root that [of profile] show thesis by simp
qed

lemma local_adapter_keeps:
  assumes "NewOps os is_link opts w = Inr ops" and "change_keeps os J (o_Policy ops) (o_RootDir ops)"
    and "local_surroundings_keep J opts"
  shows "adapter_keeps J ops"
proof -
  obtain profile where ops: "ops = local_ops os is_link opts (o_RootDir ops) (o_Policy ops) profile"
    by (rule NewOps_Inr [OF assms(1)])
  have "keeps_inv (world J) (Some (case lo_DescribePath opts of None \<Rightarrow> LF_DescribePath os root | Some f \<Rightarrow> f))" for root
    using assms(3) LF_DescribePath_keep by (auto simp: local_surroundings_keep_def split: option.splits)
  then have "adapter_keeps J (local_ops os is_link opts (o_RootDir ops) (o_Policy ops) profile)"
    using assms(3) LF_writing_keep [OF assms(2)]
    by (simp add: adapter_keeps_def ops_keep_def local_ops_def zero_ops_def local_surroundings_keep_def LF_reading_keep
        LF_RequireAbsolutePath_keep LF_CollectFilesUnder_keep LF_ResolveSearchPaths_keep mount_keeps_refresh)
  then show ?thesis using ops by simp
qed

text \<open>An accepted path lies in the root as spelled, the guard admits it, and the root itself is never removed.\<close>

lemma LF_RequireAbsolutePath_Inr:
  assumes "fst (LF_RequireAbsolutePath os root raw s) = Inr p"
  shows "pathWithinRoot root p" "pathguard_Check os root p (sy_env s) = None" "p = normalizeCLIPath (trim_space raw)"
  using assms by (auto simp: LF_RequireAbsolutePath_def resolveAndCheckPath_Inr Let_def split: if_splits sum.splits)

lemma LF_RemoveDir_root:
  assumes "normalizeCLIPath dirPath = root" shows "refused s (LF_RemoveDir os policy root dirPath s)"
  unfolding LF_RemoveDir_def
  by (rule checked_refuses) (use assms in \<open>auto split: sum.splits\<close>)

subsection \<open>Sessions over one host directory\<close>

text \<open>C19. Whatever scripts run over the callbacks of one host directory with the default builtins, the host changes only as the guard
  and the policy admit: a property of the world that every change at a path the guard admits under the root keeps, made only if
  the policy allows writes and within its cap, holds afterwards, as long as the mounts and external commands given keep it.\<close>

theorem local_sessions_confined:
  assumes "NewOps os is_link opts w0 = Inr ops"
    and "\<And>w w'. J w \<Longrightarrow> guarded_change os (o_Policy ops) (o_RootDir ops) w w' \<Longrightarrow> J w'"
    and "local_surroundings_keep J opts" and "RegisterDefaults env [] = Inr (en_registry en)"
    and "env_keeps (world J) env" and "cache_keeps J en" and "J (sy_env s)"
  shows "J (sy_env (snd (snd (executions pl (map (\<lambda>(ctx, cmdline, ids). (ctx, cmdline, ids, ops)) calls) en s))))"
proof (rule executions_keep [OF default_builtins_keep [OF assms(4,5)] assms(6,7)])
  have "adapter_keeps J ops"
    by (rule local_adapter_keeps [OF assms(1) _ assms(3)]) (use assms(2) in \<open>auto simp: change_keeps_def\<close>)
  then show "\<forall>(ctx, cmdline, ids, ops) \<in> set (map (\<lambda>(ctx, cmdline, ids). (ctx, cmdline, ids, ops)) calls). adapter_keeps J ops"
    by auto
qed

definition local_sample :: "files local_options" where
  "local_sample =
     \<lparr>lo_RootDir = ''/h'', lo_Profile = [], lo_Policy = DefaultPolicy\<lparr>ep_WriteMode := WriteModeFull\<rparr>, lo_CommandAliases = [],
      lo_EnvVars = [], lo_RCFiles = [], lo_PathEnv = [], lo_VirtualMounts = [],
      lo_ExternalCallbacks = \<lparr>xc_ListExternalCommands = None, xc_RunExternalCommand = None, xc_ReadExternalManual = None\<rparr>,
      lo_DescribePath = None, lo_AuditSink = False, lo_WriteLimitedMaxByte = 0\<rparr>"

lemma local_sample_ops: "\<exists>ops. NewOps memory_os (\<lambda>_ _. False) local_sample w = Inr ops \<and> o_RootDir ops = ''/h''"
proof -
  have "trim_space ''/h'' = ''/h''"
    by (rule trim_space_fixI; simp add: starts_with_space_def ends_with_space_def space_runes_def)
  then have "local_root memory_os (lo_RootDir local_sample) w = Inr ''/h''"
    by (simp add: local_root_def local_sample_def memory_os_def normalizeCLIPath_def path_clean_def clean_comps_def)
  then show ?thesis
    by (simp add: NewOps_def local_sample_def DefaultProfile_def ParseProfile_def local_ops_def Let_def)
qed

lemma local_sample_confined:
  assumes "map_of w ''/k'' = Some ''v''" and "guarded_change memory_os policy ''/h'' w w'"
  shows "map_of w' ''/k'' = Some ''v''"
proof -
  obtain p where p: "pathguard_Check memory_os ''/h'' p w = None" "change_at memory_os policy p w w'"
    using assms(2) by (auto simp: guarded_change_def)
  have "trim_space ''/h'' = ''/h''" "trim_space ''/k'' = ''/k''"
    by (rule trim_space_fixI; simp add: starts_with_space_def ends_with_space_def space_runes_def)+
  then have "p \<noteq> ''/k''"
    using p(1) by (auto simp: pathguard_Check_def Let_def withinRoot_under path_clean_def clean_comps_def canonical_code
        is_canonical_def good_comp_def under_def split: if_splits)
  then show ?thesis using p(2) assms(1) by (auto simp: change_at_def Let_def map_of_remove_key)
qed

theorem local_sessions_confined_witness:
  "\<exists>reg ops. RegisterDefaults sample_env [] = Inr reg \<and> NewOps memory_os (\<lambda>_ _. False) local_sample [] = Inr ops \<and>
     map_of (sy_env (snd (snd (executions sample_platform
       [(CtxLive, ''rm /k'', sample_ids, ops), (CtxLive, ''echo hi > /h/a'', sample_ids, ops)]
       (echo_engine\<lparr>en_registry := reg\<rparr>) (live_sys [(''/k'', ''v'')]))))) ''/k'' = Some ''v''"
proof -
  obtain reg where reg: "RegisterDefaults sample_env [] = Inr reg" by (rule RegisterDefaults_ok)
  let ?en = "echo_engine\<lparr>en_registry := reg\<rparr>" and ?J = "\<lambda>w. map_of w ''/k'' = Some ''v''"
  obtain ops where ops: "NewOps memory_os (\<lambda>_ _. False) local_sample [] = Inr ops" "o_RootDir ops = ''/h''"
    using local_sample_ops by blast
  have r: "RegisterDefaults sample_env [] = Inr (en_registry ?en)" by (simp add: reg)
  have "local_surroundings_keep ?J local_sample" by (simp add: local_surroundings_keep_def local_sample_def)
  moreover have "cache_keeps ?J ?en" by (simp add: cache_keeps_def echo_engine_def)
  moreover have "?J (sy_env (live_sys [(''/k'', ''v'')]))" by simp
  ultimately have "?J (sy_env (snd (snd (executions sample_platform (map (\<lambda>(ctx, cmdline, ids). (ctx, cmdline, ids, ops))
      [(CtxLive, ''rm /k'', sample_ids), (CtxLive, ''echo hi > /h/a'', sample_ids)]) ?en (live_sys [(''/k'', ''v'')])))))"
    by - (rule local_sessions_confined [OF ops(1) _ _ r sample_env_keeps], auto simp: ops(2) intro: local_sample_confined)
  then show ?thesis using reg ops(1) by auto
qed

subsection \<open>Redirections into the files of the host directory\<close>

text \<open>What the documentation of \<open>os\<close> says of the files, \<open>files w p\<close> being the content of the file at \<open>p\<close>, as long as no two
  paths name the same file: a call that fails may have changed the file it names, and only that one.\<close>

definition os_files :: "'e os \<Rightarrow> ('e \<Rightarrow> string \<Rightarrow> string option) \<Rightarrow> bool" where
  "os_files os files \<longleftrightarrow>
     (\<forall>p perm w. files (snd (os_MkdirAll os p perm w)) = files w) \<and>
     (\<forall>p c perm w err w'. os_WriteFile os p c perm w = (err, w') \<longrightarrow> puts_file files p (\<lambda>_. c) w (err = None) w') \<and>
     (\<forall>p perm w err w'. os_OpenAppend os p perm w = (err, w') \<longrightarrow> puts_file files p content_text w (err = None) w') \<and>
     (\<forall>p c w err w'. os_WriteString os p c w = (err, w') \<longrightarrow>
        puts_file files p (\<lambda>old. content_text old @ c) w (err = None) w')"

lemma os_filesD:
  assumes "os_files os files"
  shows "files (snd (os_MkdirAll os p perm w)) = files w"
    "os_WriteFile os p c perm w = (err, w') \<Longrightarrow> puts_file files p (\<lambda>_. c) w (err = None) w'"
    "os_OpenAppend os p perm w = (err, w') \<Longrightarrow> puts_file files p content_text w (err = None) w'"
    "os_WriteString os p c w = (err, w') \<Longrightarrow> puts_file files p (\<lambda>old. content_text old @ c) w (err = None) w'"
  using assms unfolding os_files_def by blast+

lemma puts_file_refl: "\<not> ok \<Longrightarrow> puts_file files p new w ok w"
  by (simp add: puts_file_def)

lemma os_do_env: "os_do g s = (x, s') \<Longrightarrow> sy_env s' = snd (g (sy_env s)) \<and> (x = Inr () \<longleftrightarrow> fst (g (sy_env s)) = None)"
  by (cases "g (sy_env s)") (auto simp: os_do_def split: option.splits)

definition local_name :: "string \<Rightarrow> string" where
  "local_name raw = normalizeCLIPath (trim_space raw)"

lemma LF_WriteFile_puts:
  assumes "os_files os files" and "LF_WriteFile os policy root (p, c) s = (x, s')"
  shows "puts_file files p (\<lambda>_. c) (sy_env s) (x = Inr ()) (sy_env s')"
proof -
  obtain r s0 where r: "executionContextErr s = (r, s0)" by fastforce
  note env = polled_env [OF r]
  show ?thesis
  proof (cases "r = None \<and> AllowWrite policy \<and> \<not> exceeds_cap policy c \<and> resolveAndCheckPath os root p (sy_env s0) = Inr p")
    case False
    then have "x \<noteq> Inr () \<and> s' = s0"
      using assms(2) r by (auto simp: LF_WriteFile_def checked_def resolveAndCheckPath_Inr split: option.splits if_splits sum.splits)
    then show ?thesis using env by (simp add: puts_file_refl)
  next
    case True
    obtain y s1 where y: "os_do (os_MkdirAll os (path_dir p) 493) s0 = (y, s1)" by fastforce
    have made: "files (sy_env s1) = files (sy_env s)" using os_do_env [OF y] os_filesD(1) [OF assms(1)] env by simp
    show ?thesis
    proof (cases y)
      case (Inl e)
      then show ?thesis using assms(2) r True y made by (auto simp: LF_WriteFile_def checked_def puts_file_def)
    next
      case (Inr u)
      then have w: "os_do (os_WriteFile os p c 420) s1 = (x, s')"
        using assms(2) r True y by (simp add: LF_WriteFile_def checked_def)
      obtain err w' where o: "os_WriteFile os p c 420 (sy_env s1) = (err, w')" by fastforce
      show ?thesis
        using os_filesD(2) [OF assms(1) o] os_do_env [OF w] made by (simp add: o puts_file_def)
    qed
  qed
qed

lemma LF_AppendFile_puts:
  assumes "os_files os files" and "LF_AppendFile os policy root (p, c) s = (x, s')"
  shows "puts_file files p (\<lambda>old. content_text old @ c) (sy_env s) (x = Inr ()) (sy_env s')"
proof -
  obtain r s0 where r: "executionContextErr s = (r, s0)" by fastforce
  note env = polled_env [OF r]
  show ?thesis
  proof (cases "r = None \<and> AllowWrite policy \<and> \<not> exceeds_cap policy c \<and> resolveAndCheckPath os root p (sy_env s0) = Inr p")
    case False
    then have "x \<noteq> Inr () \<and> s' = s0"
      using assms(2) r by (auto simp: LF_AppendFile_def checked_def resolveAndCheckPath_Inr split: option.splits if_splits sum.splits)
    then show ?thesis using env by (simp add: puts_file_refl)
  next
    case True
    obtain y s1 where y: "os_do (os_MkdirAll os (path_dir p) 493) s0 = (y, s1)" by fastforce
    have made: "files (sy_env s1) = files (sy_env s)" using os_do_env [OF y] os_filesD(1) [OF assms(1)] env by simp
    obtain z s2 where z: "os_do (os_OpenAppend os p 420) s1 = (z, s2)" by fastforce
    obtain err w' where o: "os_OpenAppend os p 420 (sy_env s1) = (err, w')" by fastforce
    have opened: "puts_file files p content_text (sy_env s) (z = Inr ()) (sy_env s2)"
      using os_filesD(3) [OF assms(1) o] os_do_env [OF z] made by (simp add: o puts_file_def)
    show ?thesis
    proof (cases "y = Inr () \<and> z = Inr ()")
      case False
      then have "x \<noteq> Inr () \<and> (s' = s1 \<or> s' = s2)"
        using assms(2) r True y z by (auto simp: LF_AppendFile_def checked_def split: sum.splits)
      then show ?thesis using opened made by (auto simp: puts_file_def)
    next
      case both: True
      then have w: "os_do (os_WriteString os p c) s2 = (x, s')"
        using assms(2) r True y z by (simp add: LF_AppendFile_def checked_def)
      obtain err w' where o: "os_WriteString os p c (sy_env s2) = (err, w')" by fastforce
      show ?thesis
        using os_filesD(4) [OF assms(1) o] os_do_env [OF w] opened both by (simp add: o puts_file_def) (simp add: content_text_def)
    qed
  qed
qed

lemma LF_RequireAbsolutePath_reads:
  assumes "LF_RequireAbsolutePath os root raw s = (x, s')"
  shows "s' = s" "x = Inr p \<Longrightarrow> p = local_name raw"
  using assms by (auto simp: LF_RequireAbsolutePath_def local_name_def Let_def split: if_splits sum.splits)

lemma local_file_store:
  assumes "NewOps os is_link opts w = Inr ops" and files: "os_files os files"
  shows "file_store files local_name ops"
proof -
  obtain profile where ops: "ops = local_ops os is_link opts (o_RootDir ops) (o_Policy ops) profile"
    by (rule NewOps_Inr [OF assms(1)])
  have "file_store files local_name (local_ops os is_link opts root policy profile)" for root policy
    using LF_RequireAbsolutePath_reads LF_WriteFile_puts [OF files] LF_AppendFile_puts [OF files]
    unfolding file_store_def local_ops_def by (fastforce simp: call_def)
  then show ?thesis by (subst ops)
qed

text \<open>C39. Output redirections over the callbacks of one host directory, as long as no two paths name the same file: whether they
  succeed or not, only files that a redirection names, \<open>/dev/null\<close> aside, may change. If they succeed, nothing is passed on
  to the next command (without a redirection, everything is), and each file they name holds its old content, or nothing of it
  if some redirection of the list truncates the file, followed by the output if the last redirection names the file.\<close>

theorem last_redirection_takes_output:
  assumes "NewOps os is_link opts w = Inr ops" and "os_files os files"
    and "applyOutputRedirections ops name redirs output s = (x, s')"
  shows "(\<forall>p. \<not> list_ex (redirect_names local_name p) (filter is_output redirs) \<longrightarrow>
       files (sy_env s') p = files (sy_env s) p) \<and>
    (\<forall>rest. x = Inr rest \<longrightarrow>
       rest = (if filter is_output redirs = [] then output else []) \<and>
       (\<forall>p. files (sy_env s') p =
          (if \<not> list_ex (redirect_names local_name p) (filter is_output redirs) then files (sy_env s) p
           else Some ((if list_ex (\<lambda>r. redirect_names local_name p r \<and> rd_kind r = redirectOutputWrite) (filter is_output redirs)
                       then [] else content_text (files (sy_env s) p)) @
                      (if redirect_names local_name p (last (filter is_output redirs)) then output else [])))))"
  using applyOutputRedirections_store [OF local_file_store [OF assms(1,2)] assms(3)]
  unfolding redirected_def by blast

lemma memory_os_files: "os_files memory_os map_of"
  by (simp add: os_files_def puts_file_def content_text_def file_of_def)

definition sample_redirects :: "commandRedirect list" where
  "sample_redirects = [\<lparr>rd_kind = redirectOutputWrite, rd_target = ''/h/a'', rd_hereDocBody = []\<rparr>,
     \<lparr>rd_kind = redirectOutputAppend, rd_target = ''/h/b'', rd_hereDocBody = []\<rparr>]"

lemma sample_path:
  assumes "c \<in> {CHR ''a'', CHR ''b''}"
  shows "trim_space (''/h/'' @ [c]) = ''/h/'' @ [c]" "local_name (''/h/'' @ [c]) = ''/h/'' @ [c]"
    "\<not> isNullDevice (''/h/'' @ [c])" "pathguard_Check memory_os ''/h'' (''/h/'' @ [c]) w = None"
    "LF_RequireAbsolutePath memory_os ''/h'' (''/h/'' @ [c]) s = (Inr (''/h/'' @ [c]), s)"
proof -
  have canon: "canonical (''/h/'' @ [c])" "canonical ''/h''"
    using assms by (auto simp: canonical_code is_canonical_def good_comp_def)
  show t: "trim_space (''/h/'' @ [c]) = ''/h/'' @ [c]"
    using assms by (auto intro!: trim_space_fixI simp: starts_with_space_def ends_with_space_def space_runes_def)
  have th: "trim_space ''/h'' = ''/h''"
    by (rule trim_space_fixI; simp add: starts_with_space_def ends_with_space_def space_runes_def)
  show "local_name (''/h/'' @ [c]) = ''/h/'' @ [c]"
    by (simp add: local_name_def t normalizeCLIPath_def path_clean_canonical canon [simplified] t [simplified])
  show "\<not> isNullDevice (''/h/'' @ [c])" using assms canon(1) t by (auto simp: isNullDevice_def path_clean_canonical)
  have guard: "pathguard_Check memory_os ''/h'' (''/h/'' @ [c]) w = None" for w
    using canon t th withinRoot_under [OF canon(2,1)]
    by (simp add: pathguard_Check_def resolveWithExistingPrefix_def memory_os_def Let_def path_clean_canonical under_def)
  show "pathguard_Check memory_os ''/h'' (''/h/'' @ [c]) w = None" by (rule guard)
  show "LF_RequireAbsolutePath memory_os ''/h'' (''/h/'' @ [c]) s = (Inr (''/h/'' @ [c]), s)"
    using canon t guard [of "sy_env s"]
    by (simp add: LF_RequireAbsolutePath_def Let_def normalizeCLIPath_def path_clean_canonical pathWithinRoot_def resolveAndCheckPath_def)
qed

lemma sample_writes:
  assumes "c \<in> {CHR ''a'', CHR ''b''}" and live: "sy_ctx s = CtxLive" and full: "ep_WriteMode policy = WriteModeFull"
  defines "p \<equiv> ''/h/'' @ [c]"
  shows "LF_WriteFile memory_os policy ''/h'' (p, t) s = (Inr (), s\<lparr>sy_env := map_put p t (sy_env s)\<rparr>)"
    "\<exists>w. LF_AppendFile memory_os policy ''/h'' (p, t) s = (Inr (), s\<lparr>sy_env := w\<rparr>)"
proof -
  have "AllowWrite policy" "\<not> exceeds_cap policy t" using full by (simp_all add: AllowWrite_def exceeds_cap_def)
  moreover have "resolveAndCheckPath memory_os ''/h'' p w = Inr p" for w
    using sample_path(4) [OF assms(1)] by (simp add: resolveAndCheckPath_def p_def)
  ultimately show "LF_WriteFile memory_os policy ''/h'' (p, t) s = (Inr (), s\<lparr>sy_env := map_put p t (sy_env s)\<rparr>)"
    "\<exists>w. LF_AppendFile memory_os policy ''/h'' (p, t) s = (Inr (), s\<lparr>sy_env := w\<rparr>)"
    by (auto simp: LF_WriteFile_def LF_AppendFile_def checked_def executionContextErr_live live os_do_def)
qed

theorem last_redirection_takes_output_witness:
  "\<exists>ops s'. NewOps memory_os (\<lambda>_ _. False) local_sample [] = Inr ops \<and>
     applyOutputRedirections ops ''echo'' sample_redirects ''hi'' (live_sys [(''/h/b'', ''oh ''), (''/k'', ''v'')]) = (Inr [], s') \<and>
     map_of (sy_env s') ''/h/a'' = Some [] \<and> map_of (sy_env s') ''/h/b'' = Some ''oh hi'' \<and> map_of (sy_env s') ''/k'' = Some ''v''"
proof -
  obtain ops where ops: "NewOps memory_os (\<lambda>_ _. False) local_sample [] = Inr ops" "o_RootDir ops = ''/h''"
    using local_sample_ops by blast
  obtain profile where local: "ops = local_ops memory_os (\<lambda>_ _. False) local_sample ''/h'' (o_Policy ops) profile"
    using NewOps_Inr [OF ops(1)] ops(2) by metis
  have full: "ep_WriteMode (o_Policy ops) = WriteModeFull"
    using ops(1) by (auto simp: NewOps_def Let_def local_ops_def local_policy_def local_sample_def split: sum.splits)
  have fields: "o_RequireAbsolutePath ops = Some (LF_RequireAbsolutePath memory_os ''/h'')"
    "o_WriteFile ops = Some (LF_WriteFile memory_os (o_Policy ops) ''/h'')"
    "o_AppendFile ops = Some (LF_AppendFile memory_os (o_Policy ops) ''/h'')"
    by (subst local, simp add: local_ops_def)+
  let ?s = "live_sys [(''/h/b'', ''oh ''), (''/k'', ''v'')]"
  note a = sample_path [of "CHR ''a''", simplified] and b = sample_path [of "CHR ''b''", simplified]
  obtain s' where s': "applyOutputRedirections ops ''echo'' sample_redirects ''hi'' ?s = (Inr [], s')"
    using sample_writes(1) [of "CHR ''a''" ?s "o_Policy ops" "[]"] full
      sample_writes(2) [of "CHR ''b''" "?s\<lparr>sy_env := map_put ''/h/a'' [] (sy_env ?s)\<rparr>" "o_Policy ops" "''hi''"]
    by (auto simp: applyOutputRedirections_def sample_redirects_def is_output_def executionContextErr_live a b fields call_def)
  have named: "redirect_names local_name p r \<longleftrightarrow> local_name (rd_target r) = p" if "r \<in> set sample_redirects" for p r
    using that a(3) b(3) by (auto simp: redirect_names_def sample_redirects_def)
  have outs: "filter is_output sample_redirects = sample_redirects" by (simp add: sample_redirects_def is_output_def)
  from last_redirection_takes_output [OF ops(1) memory_os_files s', unfolded outs]
  have content: "map_of (sy_env s') p =
      (if \<not> list_ex (redirect_names local_name p) sample_redirects then map_of (sy_env ?s) p
       else Some ((if list_ex (\<lambda>r. redirect_names local_name p r \<and> rd_kind r = redirectOutputWrite) sample_redirects
                   then [] else content_text (map_of (sy_env ?s) p)) @
                  (if redirect_names local_name p (last sample_redirects) then ''hi'' else [])))" for p
    by blast
  have "map_of (sy_env s') ''/h/a'' = Some []" "map_of (sy_env s') ''/h/b'' = Some ''oh hi''" "map_of (sy_env s') ''/k'' = Some ''v''"
    unfolding content by (simp_all add: redirect_names_def sample_redirects_def a b content_text_def)
  with ops(1) s' show ?thesis by blast
qed

end
