(* ===== verification/Static_Mount.thy ===== *)
theory Static_Mount
  imports Mount_Search Bin_Mounts Host_Path
begin

section \<open>Mounts of fixed files (\<open>static_tree_mount.go\<close>, \<open>regression_corpus_mount.go\<close>)\<close>

text \<open>
  A static mount holds files given when it is made, with the directories they lie in and, for each
  directory, its sorted children. The maps of the code are lists of pairs in the order an iteration visits
  them. The loop from a file to the mount point stops only there: \<open>NewStaticMount\<close> is \<^const>\<open>None\<close> where
  the code does not return, which the last part shows to be impossible for a mount point given as an
  absolute path.
\<close>

record staticMount =
  sm_point :: string
  sm_kindPrefix :: string
  sm_profile :: MountProfile
  sm_files :: "(string, string) gomap"
  sm_dirs :: "string list"
  sm_children :: "(string, string list) gomap"

definition defaultStaticMountProfile :: MountProfile where
  "defaultStaticMountProfile =
     NormalizeMountProfile (zero_profile\<lparr>mp_TruthModel := TruthProjection,
       mp_MaterializationMode := MaterializationSnapshot, mp_WriteSemantics := MountWriteReadOnly,
       mp_LatencyClass := LocalFast,
       mp_SupportedCLIClasses := [MountCLIList, MountCLITree, MountCLIFind, MountCLIRead, MountCLIBulkRead,
         MountCLIContentSearch]\<rparr>)"

subsection \<open>Building\<close>

fun normalize_files :: "string \<Rightarrow> (string, string) gomap \<Rightarrow> (string, string) gomap \<Rightarrow> go_error + (string, string) gomap" where
  "normalize_files point [] acc = Inr acc"
| "normalize_files point ((filePath, raw) # files) acc =
     (let p = normalizeAbsolutePath filePath in
      if p = point \<or> \<not> has_prefix p (point @ ''/'')
      then Inl (ErrText (''file '' @ filePath @ '' is outside mount point '' @ point))
      else normalize_files point files (map_put p raw acc))"

definition add_new :: "'a \<Rightarrow> 'a list \<Rightarrow> 'a list" where
  "add_new x xs = (if x \<in> set xs then xs else xs @ [x])"

partial_function (option) dirs_to_point :: "string \<Rightarrow> string \<Rightarrow> string list \<Rightarrow> string list option" where
  "dirs_to_point point dir dirs =
     (if dir = point then Some (add_new dir dirs) else dirs_to_point point (path_dir dir) (add_new dir dirs))"

declare dirs_to_point.simps [code]

fun collect_dirs :: "string \<Rightarrow> string list \<Rightarrow> string list \<Rightarrow> string list option" where
  "collect_dirs point [] dirs = Some dirs"
| "collect_dirs point (p # ps) dirs =
     (case dirs_to_point point (path_dir p) dirs of None \<Rightarrow> None | Some dirs \<Rightarrow> collect_dirs point ps dirs)"

definition child_key :: "string \<Rightarrow> (string, string list) gomap \<Rightarrow> (string, string list) gomap" where
  "child_key dir cs = (case map_of cs dir of None \<Rightarrow> map_put dir [] cs | Some _ \<Rightarrow> cs)"

definition child_add :: "string \<Rightarrow> (string, string list) gomap \<Rightarrow> (string, string list) gomap" where
  "child_add p cs =
     (let parent = path_dir p; cs = child_key parent cs in map_put parent (add_new p (the (map_of cs parent))) cs)"

definition child_dir :: "string \<Rightarrow> (string, string list) gomap \<Rightarrow> string \<Rightarrow> (string, string list) gomap" where
  "child_dir point cs dir = (let cs = child_key dir cs in if dir = point then cs else child_add dir cs)"

definition child_sets :: "string \<Rightarrow> string list \<Rightarrow> string list \<Rightarrow> (string, string list) gomap" where
  "child_sets point dirs files = foldl (\<lambda>cs p. child_add p cs) (foldl (child_dir point) [] dirs) files"

definition NewStaticMount :: "string \<Rightarrow> string \<Rightarrow> (string, string) gomap \<Rightarrow> (go_error + staticMount) option" where
  "NewStaticMount mountPoint kindPrefix files =
     (let point = normalizeAbsolutePath mountPoint in
      if point = ''/'' then Some (Inl (ErrText ''static mount point must not be root''))
      else (case normalize_files point files [] of
        Inl e \<Rightarrow> Some (Inl e)
      | Inr normalized \<Rightarrow>
          (if normalized = [] then Some (Inl (ErrText (''static mount '' @ point @ '' has no files'')))
           else (case collect_dirs point (map_keys normalized) [point] of
              None \<Rightarrow> None
            | Some dirs \<Rightarrow>
                Some (Inr \<lparr>sm_point = point,
                  sm_kindPrefix = (if trim_space kindPrefix = [] then ''mount'' else kindPrefix),
                  sm_profile = defaultStaticMountProfile, sm_files = normalized, sm_dirs = dirs,
                  sm_children = map (\<lambda>(d, cs). (d, sort cs)) (child_sets point dirs (map_keys normalized))\<rparr>)))))"

subsection \<open>Metadata\<close>

definition staticDirMeta :: "string \<Rightarrow> PathMeta" where
  "staticDirMeta kindPrefix = mount_meta True (kindPrefix @ ''_dir'') (- 1)"

definition staticFileMeta :: "string \<Rightarrow> string \<Rightarrow> string \<Rightarrow> PathMeta" where
  "staticFileMeta kindPrefix filePath raw =
     mount_meta False (kindPrefix @ (if has_suffix filePath ''.sh'' then ''_script'' else ''_file''))
       (int (length (splitContractRawLines raw)))"

definition mountEntry :: "string \<Rightarrow> PathMeta \<Rightarrow> MountEntry" where
  "mountEntry p meta = \<lparr>me_Path = p, me_Name = path_base p, me_Meta = meta\<rparr>"

definition no_static_file :: "string \<Rightarrow> go_error" where
  "no_static_file p = ErrText (p @ '': No such file or directory'')"

subsection \<open>The operations\<close>

definition st_stat :: "staticMount \<Rightarrow> string \<Rightarrow> go_error + MountEntry" where
  "st_stat m pathValue =
     (let p = normalizeAbsolutePath pathValue in
      if p \<in> set (sm_dirs m) then Inr (mountEntry p (staticDirMeta (sm_kindPrefix m)))
      else (case map_of (sm_files m) p of
        Some raw \<Rightarrow> Inr (mountEntry p (staticFileMeta (sm_kindPrefix m) p raw))
      | None \<Rightarrow> Inl (no_static_file p)))"

fun st_stat_all :: "staticMount \<Rightarrow> string list \<Rightarrow> go_error + MountEntry list" where
  "st_stat_all m [] = Inr []"
| "st_stat_all m (p # ps) =
     (case st_stat m p of
        Inl e \<Rightarrow> Inl e
      | Inr entry \<Rightarrow> (case st_stat_all m ps of Inl e \<Rightarrow> Inl e | Inr es \<Rightarrow> Inr (entry # es)))"

definition entry_less :: "MountEntry \<Rightarrow> MountEntry \<Rightarrow> bool" where
  "entry_less a b \<longleftrightarrow> me_Path a < me_Path b"

definition st_list :: "staticMount \<Rightarrow> ListEntriesRequest \<Rightarrow> go_error + MountEntry list" where
  "st_list m req =
     (let dir = normalizeAbsolutePath (le_Dir req) in
      if dir \<notin> set (sm_dirs m) then Inl (no_static_file dir)
      else if \<not> le_Recursive req
      then st_stat_all m (case map_of (sm_children m) dir of None \<Rightarrow> [] | Some cs \<Rightarrow> cs)
      else let below = dir @ ''/'' in
        (case st_stat_all m (filter (\<lambda>d. d \<noteq> dir \<and> has_prefix d below) (sm_dirs m)) of
           Inl e \<Rightarrow> Inl e
         | Inr entries \<Rightarrow>
             Inr (stable_sort_by entry_less (entries @
               map (\<lambda>(p, raw). mountEntry p (staticFileMeta (sm_kindPrefix m) p raw))
                 (filter (\<lambda>(p, raw). has_prefix p below) (sm_files m))))))"

definition st_enumerate :: "staticMount \<Rightarrow> EnumeratePathsRequest \<Rightarrow> go_error + MountEntry list" where
  "st_enumerate m req =
     (let target = normalizeAbsolutePath (en_Target req) in
      case map_of (sm_files m) target of
        Some raw \<Rightarrow> Inr [mountEntry target (staticFileMeta (sm_kindPrefix m) target raw)]
      | None \<Rightarrow>
          (if target \<notin> set (sm_dirs m) then Inl (no_static_file target)
           else if \<not> en_Recursive req then Inl (is_a_directory target)
           else (case st_list m \<lparr>le_Dir = en_Target req, le_Recursive = en_Recursive req, le_MaxDepth = en_MaxDepth req\<rparr> of
              Inl e \<Rightarrow> Inl e
            | Inr entries \<Rightarrow> Inr (filter (\<lambda>e. \<not> pm_IsDir (me_Meta e)) entries))))"

definition st_read :: "staticMount \<Rightarrow> string \<Rightarrow> go_error + string" where
  "st_read m pathValue =
     (let p = normalizeAbsolutePath pathValue in
      case map_of (sm_files m) p of None \<Rightarrow> Inl (no_static_file p) | Some raw \<Rightarrow> Inr raw)"

fun st_read_many :: "staticMount \<Rightarrow> string list \<Rightarrow> go_error + MountContentEntry list" where
  "st_read_many m [] = Inr []"
| "st_read_many m (p # ps) =
     (case st_read m p of
        Inl e \<Rightarrow> Inl e
      | Inr content \<Rightarrow>
          (case st_read_many m ps of
             Inl e \<Rightarrow> Inl e
           | Inr files \<Rightarrow> Inr (\<lparr>ce_Path = normalizeAbsolutePath p, ce_Content = content\<rparr> # files)))"

subsection \<open>Search\<close>

definition mountPatternHasUpper :: "string \<Rightarrow> bool" where
  "mountPatternHasUpper pattern \<longleftrightarrow> list_ex (\<lambda>c. 65 \<le> (of_char c :: nat) \<and> (of_char c :: nat) \<le> 90) pattern"

definition mountSearchMatcher :: "text_lib \<Rightarrow> string \<Rightarrow> bool \<Rightarrow> SearchCaseMode \<Rightarrow> go_error + (string \<Rightarrow> bool)" where
  "mountSearchMatcher lib = buildMountSearchMatcher (lib\<lparr>tl_has_upper := mountPatternHasUpper\<rparr>)"

definition mountSearchHasMatch :: "string \<Rightarrow> (string \<Rightarrow> bool) \<Rightarrow> bool" where
  "mountSearchHasMatch raw mat = list_ex mat (splitContractRawLines raw)"

fun st_search_files :: "staticMount \<Rightarrow> string list \<Rightarrow> string list \<Rightarrow> go_error + MountContentEntry list" where
  "st_search_files m globs [] = Inr []"
| "st_search_files m globs (t # ts) =
     (case st_enumerate m \<lparr>en_Target = t, en_Recursive = True, en_MaxDepth = 0\<rparr> of
        Inl e \<Rightarrow> Inl e
      | Inr entries \<Rightarrow>
          (case filterMountPathsByGlob (map me_Path entries) globs of
             Inl e \<Rightarrow> Inl e
           | Inr paths \<Rightarrow>
               (case st_read_many m paths of
                  Inl e \<Rightarrow> Inl e
                | Inr files \<Rightarrow>
                    (case st_search_files m globs ts of Inl e \<Rightarrow> Inl e | Inr rest \<Rightarrow> Inr (files @ rest)))))"

definition cap_records :: "int \<Rightarrow> 'a list \<Rightarrow> 'a list" where
  "cap_records n recs = (if n > 0 \<and> int (length recs) > n then take (nat n) recs else recs)"

definition st_search :: "text_lib \<Rightarrow> staticMount \<Rightarrow> SearchRequest \<Rightarrow> go_error + SearchRecord list" where
  "st_search lib m req =
     (case mountSearchMatcher lib (sr_Pattern req) (sr_Regex req) (sr_CaseMode req) of
        Inl e \<Rightarrow> Inl e
      | Inr mat \<Rightarrow>
          (let targets = (if sr_Targets req = [] then [sm_point m] else sr_Targets req) in
           case st_search_files m (sr_Globs req) targets of
             Inl e \<Rightarrow> Inl e
           | Inr files \<Rightarrow>
               (if sr_ListFiles req
                then Inr (map (\<lambda>f. \<lparr>sc_Path = ce_Path f, sc_Line = 0, sc_Kind = ''file'', sc_Text = []\<rparr>)
                       (filter (\<lambda>f. mountSearchHasMatch (ce_Content f) mat) files))
                else Inr (cap_records (sr_MaxResults req) (concat (map (\<lambda>f.
                       mountSearchRecords (ce_Content f) mat (sr_Before req) (sr_After req) (ce_Path f)) files))))))"

text \<open>The mount: no method looks at the context or changes anything.\<close>

definition pure_op :: "('a \<Rightarrow> go_error + 'b) \<Rightarrow> ('a, 'b, 'e) op" where
  "pure_op f x s = (f x, s)"

definition static_VirtualMount :: "text_lib \<Rightarrow> staticMount \<Rightarrow> 'e VirtualMount" where
  "static_VirtualMount lib m =
     \<lparr>vm_MountPoint = sm_point m, vm_Profile = sm_profile m,
      vm_Exists = pure_op (\<lambda>_. Inr (0 < length (sm_files m))), vm_StatPath = pure_op (st_stat m),
      vm_ReadContent = pure_op (st_read m), vm_ListEntries = Some (pure_op (st_list m)),
      vm_EnumeratePaths = Some (pure_op (st_enumerate m)),
      vm_ReadMany = Some (pure_op (\<lambda>req. st_read_many m (rm_Paths req))),
      vm_SearchContent = Some (pure_op (st_search lib m)), vm_ApplyMutations = None, vm_Refresh = None\<rparr>"

subsection \<open>The baseline corpus\<close>

text \<open>The embedded case files (in the order of their names) and the decoder of their JSON are parameters.\<close>

record baselineCorpusCase =
  bc_Name :: string
  bc_Script :: string
  bc_Stdout :: string
  bc_ExitCode :: int

definition virtualTestDir :: string where "virtualTestDir = ''/test''"

definition baselineProfileFromPath :: "string \<Rightarrow> string" where
  "baselineProfileFromPath pathValue =
     (let parts = split_on (CHR ''/'') (path_clean pathValue) in
      if length parts < 4 then []
      else if parts ! 0 \<noteq> ''testdata'' \<or> parts ! 1 \<noteq> ''baseline'' then []
      else trim_space (parts ! 2))"

definition unsafe_name_chars :: "char set" where
  "unsafe_name_chars = set ''/ :*?<>|'' \<union> {CHR 0x22, CHR 0x5C}"

definition sanitizeMountEntryName :: "string \<Rightarrow> string" where
  "sanitizeMountEntryName raw = map (\<lambda>c. if c \<in> unsafe_name_chars then CHR ''_'' else c) (trim_space raw)"

definition newline_text :: string where "newline_text = [CHR 0x0A]"

definition corpus_readme :: string where
  "corpus_readme = join newline_text [''# simsh baseline corpus'', [], ''This mount is generated from embedded baseline cases.'',
     ''Profiles are available under /test/<profile>/.''] @ newline_text"

definition profile_readme :: "string \<Rightarrow> string \<Rightarrow> string" where
  "profile_readme profile source =
     ''# baseline profile: '' @ profile @ newline_text @ newline_text @ ''- Source: '' @ source @ newline_text @
     ''- Cases are mirrored under ./cases/*.sh'' @ newline_text"

fun corpus_cases :: "string \<Rightarrow> baselineCorpusCase list \<Rightarrow> (string, string) gomap \<Rightarrow> (string, string) gomap" where
  "corpus_cases profile [] files = files"
| "corpus_cases profile (c # cs) files =
     (let caseName = sanitizeMountEntryName (bc_Name c) in
      if caseName = [] then corpus_cases profile cs files
      else let script = (if bc_Script c \<noteq> [] \<and> \<not> has_suffix (bc_Script c) newline_text then bc_Script c @ newline_text
                         else bc_Script c) in
        corpus_cases profile cs
          (map_put (virtualTestDir @ ''/'' @ profile @ ''/expect/'' @ caseName @ ''.txt'')
             (''exit_code='' @ show_int (bc_ExitCode c) @ newline_text @ ''stdout='' @ newline_text @ bc_Stdout c)
             (map_put (virtualTestDir @ ''/'' @ profile @ ''/cases/'' @ caseName @ ''.sh'') script files)))"

fun corpus_files :: "(string \<Rightarrow> go_error + baselineCorpusCase list) \<Rightarrow> (string \<times> string) list \<Rightarrow>
    (string, string) gomap \<Rightarrow> go_error + (string, string) gomap" where
  "corpus_files decode [] files = Inr files"
| "corpus_files decode ((path, raw) # matches) files =
     (let profile = baselineProfileFromPath path in
      if trim_space profile = [] then Inl (ErrText (''invalid baseline profile path: '' @ path))
      else let files = map_put (virtualTestDir @ ''/'' @ profile @ ''/cases.json'') raw files;
               files = map_put (virtualTestDir @ ''/'' @ profile @ ''/README.md'') (profile_readme profile path) files in
        (case decode raw of
           Inl e \<Rightarrow> Inl (ErrWrap (''parse baseline profile '' @ profile @ '' failed: '' @ error_text e) e)
         | Inr cases \<Rightarrow> corpus_files decode matches (corpus_cases profile cases files)))"

definition NewBaselineCorpusMount :: "(string \<Rightarrow> go_error + baselineCorpusCase list) \<Rightarrow> (string \<times> string) list \<Rightarrow>
    (go_error + staticMount) option" where
  "NewBaselineCorpusMount decode embedded =
     (if embedded = [] then Some (Inl (ErrText ''baseline corpus is empty''))
      else (case corpus_files decode embedded [(virtualTestDir @ ''/README.md'', corpus_readme)] of
        Inl e \<Rightarrow> Some (Inl e)
      | Inr files \<Rightarrow> NewStaticMount virtualTestDir ''test'' files))"

end
