(* ===== verification/Static_Mount_Safety.thy ===== *)
theory Static_Mount_Safety
  imports Static_Mount
begin

section \<open>What a static mount holds\<close>

text \<open>
  Building a static mount returns, and what it builds is a tree: every directory but the mount point lies in
  a directory of the mount, every file does, and the children of a directory are exactly what lies directly
  in it. From this follow the exact listings, as long as no path ends in a blank, and that its own search agrees with the
  generic one, up to smart case with capitals outside ASCII; both exceptions are shown by examples.
\<close>

subsection \<open>From a file to the mount point\<close>

definition dirs_added :: "string list \<Rightarrow> string list \<Rightarrow> string list \<Rightarrow> string list" where
  "dirs_added point ts dirs = foldl (\<lambda>ds us. add_new (abs_path (point @ us)) ds) dirs (rev (prefixes ts))"

lemma add_new_set [simp]: "set (add_new x xs) = insert x (set xs)"
  by (auto simp: add_new_def)

lemma add_new_distinct [simp]: "distinct (add_new x xs) \<longleftrightarrow> distinct xs"
  by (auto simp: add_new_def)

lemma dirs_to_point_returns:
  "list_all good_comp (point @ ts) \<Longrightarrow>
   dirs_to_point (abs_path point) (abs_path (point @ ts)) dirs = Some (dirs_added point ts dirs)"
proof (induction ts arbitrary: dirs rule: rev_induct)
  case Nil
  then show ?case by (subst dirs_to_point.simps) (simp add: dirs_added_def)
next
  case (snoc t ts)
  have "abs_path (point @ ts @ [t]) \<noteq> abs_path point"
  proof
    assume "abs_path (point @ ts @ [t]) = abs_path point"
    then have "path_comps (abs_path (point @ ts @ [t])) = path_comps (abs_path point)" by simp
    then show False using snoc.prems by (simp del: append_assoc)
  qed
  moreover have "path_dir (abs_path (point @ ts @ [t])) = abs_path (point @ ts)"
    using path_dir_abs_path [of "point @ ts" t] snoc.prems by simp
  ultimately show ?case
    using snoc by (subst dirs_to_point.simps) (simp add: dirs_added_def)
qed

lemma dirs_added_set: "set (dirs_added point ts dirs) = set dirs \<union> {abs_path (point @ us) |us. prefix us ts}"
proof -
  have "set (foldl (\<lambda>ds us. add_new (abs_path (point @ us)) ds) dirs uss) =
      set dirs \<union> {abs_path (point @ us) |us. us \<in> set uss}" for uss
    by (induction uss arbitrary: dirs) auto
  then show ?thesis by (simp add: dirs_added_def)
qed

lemma dirs_added_distinct: "distinct dirs \<Longrightarrow> distinct (dirs_added point ts dirs)"
proof -
  have "distinct dirs \<Longrightarrow> distinct (foldl (\<lambda>ds us. add_new (abs_path (point @ us)) ds) dirs uss)" for uss
    by (induction uss arbitrary: dirs) auto
  then show "distinct dirs \<Longrightarrow> distinct (dirs_added point ts dirs)" by (simp add: dirs_added_def)
qed

text \<open>\<open>below_point point p\<close>: the components of \<open>p\<close> are those of the mount point and at least one more.\<close>

definition below_point :: "string \<Rightarrow> string \<Rightarrow> bool" where
  "below_point point p \<longleftrightarrow> canonical p \<and> (\<exists>ts t. path_comps p = path_comps point @ ts @ [t])"

lemma below_pointE:
  assumes "below_point point p" "canonical point"
  obtains ts t where "p = abs_path (path_comps point @ ts @ [t])" "path_dir p = abs_path (path_comps point @ ts)"
    "list_all good_comp (path_comps point @ ts @ [t])"
proof -
  obtain ts t where ts: "canonical p" "path_comps p = path_comps point @ ts @ [t]"
    using assms(1) by (auto simp: below_point_def)
  then have "p = abs_path (path_comps point @ ts @ [t])" "list_all good_comp (path_comps point @ ts @ [t])"
    using abs_path_comps [of p] good_path_comps [of p] by simp_all
  moreover from this have "path_dir p = abs_path (path_comps point @ ts)"
    using path_dir_abs_path [of "path_comps point @ ts" t] by simp
  ultimately show thesis by (intro that)
qed

lemma below_pointI:
  assumes "canonical point" "point \<noteq> ''/''" "canonical p" "under point p" "p \<noteq> point"
  shows "below_point point p"
proof -
  obtain ts where ts: "path_comps p = path_comps point @ ts"
    using under_comps [OF assms(1,3,2)] assms(4) by (auto simp: prefix_def)
  have "ts \<noteq> []" using ts assms(1,3,5) abs_path_comps by (metis append_Nil2)
  then show ?thesis using ts assms(3) by (auto simp: below_point_def intro: rev_exhaust [of ts])
qed

lemma normalize_files_ok:
  assumes point: "canonical point" "point \<noteq> ''/''"
  shows "normalize_files point files acc = Inr out \<Longrightarrow> \<forall>p\<in>fst ` set acc. below_point point p \<Longrightarrow>
    distinct (map fst acc) \<Longrightarrow> (\<forall>p\<in>fst ` set out. below_point point p) \<and> distinct (map fst out)"
proof (induction files arbitrary: acc)
  case (Cons f files)
  let ?p = "normalizeAbsolutePath (fst f)"
  have p: "?p \<noteq> point" "has_prefix ?p (point @ ''/'')"
    and rest: "normalize_files point files (map_put ?p (snd f) acc) = Inr out"
    using Cons.prems(1) by (cases f; auto simp: Let_def split: if_splits)+
  then have u: "under point ?p" by (simp add: under_def)
  have "below_point point ?p"
    using below_pointI [OF point normalized_below_canonical [OF point u] u p(1)] .
  then have "\<forall>p\<in>fst ` set (map_put ?p (snd f) acc). below_point point p" using Cons.prems(2) by simp
  then show ?case by (rule Cons.IH [OF rest]) (rule distinct_map_put [OF Cons.prems(3)])
qed simp

text \<open>The directories between the mount point and a file.\<close>

definition holders :: "string \<Rightarrow> string \<Rightarrow> string set" where
  "holders point p = {abs_path (path_comps point @ us) |us ts t. path_comps p = path_comps point @ ts @ [t] \<and> prefix us ts}"

lemma holders_at:
  assumes "path_comps p = path_comps point @ ts @ [t]"
  shows "holders point p = {abs_path (path_comps point @ us) |us. prefix us ts}"
proof -
  have "path_comps p = path_comps point @ ts' @ [t'] \<longleftrightarrow> ts' = ts \<and> t' = t" for ts' t' using assms by auto
  then show ?thesis by (simp add: holders_def)
qed

lemma collect_dirs_returns:
  assumes point: "canonical point"
  shows "\<forall>p\<in>set ps. below_point point p \<Longrightarrow> distinct dirs \<Longrightarrow>
    \<exists>out. collect_dirs point ps dirs = Some out \<and> distinct out \<and> set out = set dirs \<union> (\<Union>p\<in>set ps. holders point p)"
proof (induction ps arbitrary: dirs)
  case (Cons p ps)
  obtain ts t where p: "p = abs_path (path_comps point @ ts @ [t])" "path_dir p = abs_path (path_comps point @ ts)"
    "list_all good_comp (path_comps point @ ts @ [t])"
    using below_pointE [of point p] Cons.prems(1) point by auto
  let ?dirs = "dirs_added (path_comps point) ts dirs"
  have g: "list_all good_comp (path_comps point @ ts)" using p(3) by simp
  have d: "dirs_to_point point (path_dir p) dirs = Some ?dirs"
    using dirs_to_point_returns [OF g] abs_path_comps [OF point] by (simp add: p(2))
  obtain out where out: "collect_dirs point ps ?dirs = Some out" "distinct out"
    "set out = set ?dirs \<union> (\<Union>p\<in>set ps. holders point p)"
    using Cons.IH [of ?dirs] Cons.prems dirs_added_distinct by auto
  have "path_comps p = path_comps point @ ts @ [t]" unfolding p(1) by (rule path_comps_abs_path [OF p(3)])
  then have "set out = set dirs \<union> (\<Union>p\<in>set (p # ps). holders point p)"
    unfolding out(3) dirs_added_set by (simp add: holders_at Un_assoc)
  with out(1,2) d show ?case by simp
qed simp

subsection \<open>Children\<close>

definition kids :: "(string, string list) gomap \<Rightarrow> string \<Rightarrow> string list" where
  "kids cs d = (case map_of cs d of None \<Rightarrow> [] | Some l \<Rightarrow> l)"

definition children_are :: "string set \<Rightarrow> (string, string list) gomap \<Rightarrow> bool" where
  "children_are S cs \<longleftrightarrow> (\<forall>d. distinct (kids cs d) \<and> set (kids cs d) = {p \<in> S. path_dir p = d})"

lemma kids_key: "kids (child_key d cs) = kids cs"
  by (auto simp: kids_def child_key_def fun_eq_iff split: option.splits)

lemma child_key_dom: "dom (map_of (child_key d cs)) = insert d (dom (map_of cs))"
  by (auto simp: child_key_def split: option.splits)

lemma kids_add: "kids (child_add p cs) d = (if d = path_dir p then add_new p (kids cs d) else kids cs d)"
proof -
  have "map_of (child_key (path_dir p) cs) (path_dir p) = Some (kids cs (path_dir p))"
    by (auto simp: child_key_def kids_def split: option.splits)
  then show ?thesis
    using kids_key [of "path_dir p" cs] by (auto simp: child_add_def Let_def kids_def fun_eq_iff)
qed

lemma child_add_ok: "children_are S cs \<Longrightarrow> children_are (insert p S) (child_add p cs)"
  unfolding children_are_def kids_add by (simp add: Collect_conv_if) blast

lemma child_add_dom: "dom (map_of (child_add p cs)) = insert (path_dir p) (dom (map_of cs))"
  by (simp add: child_add_def Let_def child_key_dom)

lemma child_dir_ok:
  "children_are S cs \<Longrightarrow> children_are (if d = point then S else insert d S) (child_dir point cs d) \<and>
   insert d (dom (map_of cs)) \<subseteq> dom (map_of (child_dir point cs d))"
  by (auto simp: child_dir_def Let_def child_add_ok child_add_dom child_key_dom children_are_def kids_key kids_add)

lemma child_dirs_ok:
  "children_are S cs \<Longrightarrow> children_are (S \<union> (set ds - {point})) (foldl (child_dir point) cs ds) \<and>
   set ds \<union> dom (map_of cs) \<subseteq> dom (map_of (foldl (child_dir point) cs ds))"
proof (induction ds arbitrary: S cs)
  case (Cons d ds)
  let ?S = "if d = point then S else insert d S" and ?cs = "child_dir point cs d"
  have step: "children_are ?S ?cs" "insert d (dom (map_of cs)) \<subseteq> dom (map_of ?cs)"
    using child_dir_ok [OF Cons.prems] by blast+
  have "?S \<union> (set ds - {point}) = S \<union> (set (d # ds) - {point})" by auto
  then show ?case using Cons.IH [OF step(1)] step(2) by (simp only: foldl.simps list.set) blast
qed simp

lemma child_files_ok:
  "children_are S cs \<Longrightarrow> children_are (S \<union> set ps) (foldl (\<lambda>cs p. child_add p cs) cs ps) \<and>
   dom (map_of cs) \<subseteq> dom (map_of (foldl (\<lambda>cs p. child_add p cs) cs ps))"
proof (induction ps arbitrary: S cs)
  case (Cons p ps)
  show ?case
    using Cons.IH [OF child_add_ok [OF Cons.prems], of p] child_add_dom [of p cs] by auto
qed simp

lemma child_sets_ok:
  "children_are ((set dirs - {point}) \<union> set files) (child_sets point dirs files) \<and>
   set dirs \<subseteq> dom (map_of (child_sets point dirs files))"
proof -
  have "children_are {} []" by (simp add: children_are_def kids_def)
  from child_dirs_ok [OF this, of dirs point] child_files_ok show ?thesis
    unfolding child_sets_def by fastforce
qed

subsection \<open>The tree\<close>

definition held_paths :: "staticMount \<Rightarrow> string set" where
  "held_paths m = set (sm_dirs m) \<union> fst ` set (sm_files m)"

definition lies_in :: "staticMount \<Rightarrow> string \<Rightarrow> string set" where
  "lies_in m d = {p \<in> (set (sm_dirs m) - {sm_point m}) \<union> fst ` set (sm_files m). path_dir p = d}"

definition static_tree :: "staticMount \<Rightarrow> bool" where
  "static_tree m \<longleftrightarrow>
     canonical (sm_point m) \<and> sm_point m \<noteq> ''/'' \<and> sm_profile m = defaultStaticMountProfile \<and>
     distinct (sm_dirs m) \<and> set (sm_dirs m) = insert (sm_point m) (\<Union>p\<in>fst ` set (sm_files m). holders (sm_point m) p) \<and>
     distinct (map fst (sm_files m)) \<and> (\<forall>p\<in>fst ` set (sm_files m). below_point (sm_point m) p) \<and>
     (\<forall>d\<in>set (sm_dirs m). \<exists>l. map_of (sm_children m) d = Some l \<and> sorted l \<and> distinct l \<and> set l = lies_in m d)"

lemma map_of_map_values: "map_of (map (\<lambda>(k, v). (k, f v)) m) k = map_option f (map_of m k)"
  by (induction m) auto

lemma rooted_point:
  assumes "has_prefix (trim_space mountPoint) ''/''" shows "canonical (normalizeAbsolutePath mountPoint)"
  by (rule normalizeAbsolutePath_canonical [OF assms])

lemma NewStaticMount_cases:
  assumes "has_prefix (trim_space mountPoint) ''/''"
  shows "(\<exists>e. NewStaticMount mountPoint kindPrefix files = Some (Inl e)) \<or>
    (\<exists>m. NewStaticMount mountPoint kindPrefix files = Some (Inr m) \<and> static_tree m)"
proof -
  let ?point = "normalizeAbsolutePath mountPoint"
  have point: "canonical ?point" by (rule rooted_point [OF assms])
  show ?thesis
  proof (cases "?point = ''/'' \<or> (\<forall>out. normalize_files ?point files [] = Inr out \<longrightarrow> out = [])")
    case True
    then show ?thesis
      by (cases "normalize_files ?point files []") (auto simp: NewStaticMount_def Let_def)
  next
    case False
    then obtain out where out: "?point \<noteq> ''/''" "normalize_files ?point files [] = Inr out" "out \<noteq> []" by auto
    have files: "\<forall>p\<in>fst ` set out. below_point ?point p" "distinct (map fst out)"
      using normalize_files_ok [OF point out(1,2)] by simp_all
    obtain dirs where dirs: "collect_dirs ?point (map_keys out) [?point] = Some dirs" "distinct dirs"
      "set dirs = {?point} \<union> (\<Union>p\<in>set (map_keys out). holders ?point p)"
      using collect_dirs_returns [OF point, of "map_keys out" "[?point]"] files by (auto simp: map_keys_def)
    define m where "m = \<lparr>sm_point = ?point, sm_kindPrefix = (if trim_space kindPrefix = [] then ''mount'' else kindPrefix),
      sm_profile = defaultStaticMountProfile, sm_files = out, sm_dirs = dirs,
      sm_children = map (\<lambda>(d, cs). (d, sort cs)) (child_sets ?point dirs (map_keys out))\<rparr>"
    have "NewStaticMount mountPoint kindPrefix files = Some (Inr m)"
      using out dirs by (simp add: NewStaticMount_def Let_def m_def)
    moreover have "\<exists>l. map_of (sm_children m) d = Some l \<and> sorted l \<and> distinct l \<and> set l = lies_in m d"
      if "d \<in> set dirs" for d
    proof -
      note cs = child_sets_ok [of dirs ?point "map_keys out"]
      from cs that obtain l where l: "map_of (child_sets ?point dirs (map_keys out)) d = Some l" by blast
      then have "kids (child_sets ?point dirs (map_keys out)) d = l" by (simp add: kids_def)
      with cs have "distinct l" "set l = {p \<in> (set dirs - {?point}) \<union> set (map_keys out). path_dir p = d}"
        unfolding children_are_def by blast+
      with l show ?thesis by (simp add: m_def map_of_map_values lies_in_def map_keys_def)
    qed
    then have "static_tree m"
      using point out(1) dirs(2,3) files unfolding static_tree_def by (simp add: m_def map_keys_def)
    ultimately show ?thesis by blast
  qed
qed

lemma NewStaticMount_tree:
  assumes "NewStaticMount mountPoint kindPrefix files = Some (Inr m)" "has_prefix (trim_space mountPoint) ''/''"
  shows "static_tree m"
  using NewStaticMount_cases [OF assms(2), of kindPrefix files] assms(1) by auto

text \<open>No name in the mount ends in a blank; a path that does is not its own normalisation.\<close>

definition blank_free :: "staticMount \<Rightarrow> bool" where
  "blank_free m \<longleftrightarrow> list_all (\<lambda>p. \<not> ends_with_space p) (sm_dirs m @ map fst (sm_files m))"

lemma held_canonical: "static_tree m \<Longrightarrow> p \<in> held_paths m \<Longrightarrow> canonical p"
proof -
  assume t: "static_tree m" and p: "p \<in> held_paths m"
  have "canonical d" if q: "q \<in> fst ` set (sm_files m)" and d: "d \<in> holders (sm_point m) q" for q d
  proof -
    obtain us ts t' where "d = abs_path (path_comps (sm_point m) @ us)" "prefix us ts"
      "path_comps q = path_comps (sm_point m) @ ts @ [t']"
      using d by (auto simp: holders_def)
    moreover have "canonical q" using t q by (auto simp: static_tree_def below_point_def)
    ultimately show ?thesis
      using good_path_comps [of q] by (auto simp: prefix_def intro!: canonical_abs_path)
  qed
  with t p show ?thesis by (auto simp: held_paths_def static_tree_def below_point_def)
qed

lemma held_normal: "static_tree m \<Longrightarrow> blank_free m \<Longrightarrow> p \<in> held_paths m \<Longrightarrow> normalizeAbsolutePath p = p"
  using held_canonical [of m p]
  by (intro normalizeAbsolutePath_fix) (auto simp: blank_free_def held_paths_def list_all_iff)

lemma held_stat:
  assumes "static_tree m" "blank_free m" "p \<in> held_paths m"
  shows "\<exists>e. st_stat m p = Inr e \<and> me_Path e = p \<and> pm_IsDir (me_Meta e) = (p \<in> set (sm_dirs m))"
proof -
  have n: "normalizeAbsolutePath p = p" using assms by (rule held_normal)
  show ?thesis
  proof (cases "p \<in> set (sm_dirs m)")
    case False
    then obtain raw where "map_of (sm_files m) p = Some raw"
      using assms(3) by (cases "map_of (sm_files m) p") (auto simp: held_paths_def map_of_eq_None_iff)
    with False n show ?thesis by (simp add: st_stat_def mountEntry_def staticFileMeta_def mount_meta_def)
  qed (simp add: st_stat_def n mountEntry_def staticDirMeta_def mount_meta_def)
qed

lemma held_stat_all:
  assumes "static_tree m" "blank_free m"
  shows "set ps \<subseteq> held_paths m \<Longrightarrow> \<exists>es. st_stat_all m ps = Inr es \<and> map me_Path es = ps \<and>
    list_all (\<lambda>e. st_stat m (me_Path e) = Inr e) es"
proof (induction ps)
  case (Cons p ps)
  obtain e where "st_stat m p = Inr e" "me_Path e = p" using held_stat [OF assms, of p] Cons.prems by auto
  moreover obtain es where "st_stat_all m ps = Inr es" "map me_Path es = ps" "list_all (\<lambda>e. st_stat m (me_Path e) = Inr e) es"
    using Cons by auto
  ultimately show ?case by simp
qed simp

subsection \<open>Recursive listings\<close>

definition files_below :: "staticMount \<Rightarrow> string \<Rightarrow> string list" where
  "files_below m d = sort (filter (\<lambda>p. has_prefix p (d @ ''/'')) (map fst (sm_files m)))"

lemma sorted_filter_paths:
  assumes "sorted (map me_Path es)" shows "sorted (map me_Path (filter P es))"
  using assms by (induction es) (auto simp: sorted_wrt_append)

lemma stable_sort_paths: "sorted (map me_Path (stable_sort_by entry_less es))"
proof -
  have "weak_order entry_less" using weak_order_key(1) [of me_Path] by (simp add: entry_less_def [abs_def])
  from sorted_stable_sort_by [OF this, of es] show ?thesis
    by (simp add: entry_less_def sorted_wrt_map not_less)
qed

lemma sort_unique: "sorted xs \<Longrightarrow> mset xs = mset ys \<Longrightarrow> xs = sort (ys :: 'a :: linorder list)"
  by (metis properties_for_sort)

lemma file_entry_paths:
  "map me_Path (map (\<lambda>(p, raw). mountEntry p (g p raw)) (filter (\<lambda>(p, raw). P p) files)) = filter P (map fst files)"
  by (induction files) (auto simp: mountEntry_def)

lemma st_list_below:
  assumes t: "static_tree m" "blank_free m" and d: "normalizeAbsolutePath dir = d" "d \<in> set (sm_dirs m)"
  shows "\<exists>es. st_list m \<lparr>le_Dir = dir, le_Recursive = True, le_MaxDepth = n\<rparr> = Inr es \<and>
    map me_Path (filter (\<lambda>e. \<not> pm_IsDir (me_Meta e)) es) = files_below m d"
proof -
  let ?dirs = "filter (\<lambda>d'. d' \<noteq> d \<and> has_prefix d' (d @ ''/'')) (sm_dirs m)"
  let ?files = "filter (\<lambda>(p, raw). has_prefix p (d @ ''/'')) (sm_files m)"
  let ?entries = "map (\<lambda>(p, raw). mountEntry p (staticFileMeta (sm_kindPrefix m) p raw)) ?files"
  have "set ?dirs \<subseteq> held_paths m" by (auto simp: held_paths_def)
  from held_stat_all [OF t this] obtain es where es: "st_stat_all m ?dirs = Inr es" "map me_Path es = ?dirs"
    "list_all (\<lambda>e. st_stat m (me_Path e) = Inr e) es" by blast
  have dir: "pm_IsDir (me_Meta e)" if "e \<in> set es" for e
  proof -
    have "me_Path e \<in> set ?dirs" using that es(2) by (metis imageI set_map)
    moreover from this obtain e' where "st_stat m (me_Path e) = Inr e'" "pm_IsDir (me_Meta e')"
      using held_stat [OF t, of "me_Path e"] by (auto simp: held_paths_def)
    ultimately show ?thesis using es(3) that by (auto simp: list_all_iff)
  qed
  define out where "out = stable_sort_by entry_less (es @ ?entries)"
  have l: "st_list m \<lparr>le_Dir = dir, le_Recursive = True, le_MaxDepth = n\<rparr> = Inr out"
    using d es(1) by (simp add: st_list_def Let_def out_def)
  have keep: "filter (\<lambda>e. \<not> pm_IsDir (me_Meta e)) es = []" using dir by (simp add: filter_empty_conv)
  have files: "filter (\<lambda>e. \<not> pm_IsDir (me_Meta e)) ?entries = ?entries"
    by (auto simp: filter_id_conv mountEntry_def staticFileMeta_def mount_meta_def)
  have "mset (filter (\<lambda>e. \<not> pm_IsDir (me_Meta e)) out) = mset (filter (\<lambda>e. \<not> pm_IsDir (me_Meta e)) (es @ ?entries))"
    unfolding out_def by (simp only: mset_filter mset_stable_sort_by)
  also have "\<dots> = mset ?entries" by (simp only: filter_append keep files append_Nil)
  finally have m: "mset (filter (\<lambda>e. \<not> pm_IsDir (me_Meta e)) out) = mset ?entries" .
  have "mset (map me_Path (filter (\<lambda>e. \<not> pm_IsDir (me_Meta e)) out)) =
      mset (filter (\<lambda>p. has_prefix p (d @ ''/'')) (map fst (sm_files m)))"
    unfolding mset_map m unfolding mset_map [symmetric] file_entry_paths ..
  moreover have "sorted (map me_Path (filter (\<lambda>e. \<not> pm_IsDir (me_Meta e)) out))"
    unfolding out_def by (rule sorted_filter_paths [OF stable_sort_paths])
  ultimately have "map me_Path (filter (\<lambda>e. \<not> pm_IsDir (me_Meta e)) out) = files_below m d"
    unfolding files_below_def by (intro sort_unique)
  with l show ?thesis by blast
qed

lemma st_enumerate_cases:
  fixes target :: string
  assumes "static_tree m" "blank_free m"
  defines "p \<equiv> normalizeAbsolutePath target"
  shows "case st_enumerate m \<lparr>en_Target = target, en_Recursive = True, en_MaxDepth = n\<rparr> of
      Inl e \<Rightarrow> p \<notin> held_paths m
    | Inr es \<Rightarrow> list_all (\<lambda>e. \<not> pm_IsDir (me_Meta e)) es \<and>
        map me_Path es = (if p \<in> fst ` set (sm_files m) then [p] else files_below m p) \<and> p \<in> held_paths m"
proof (cases "map_of (sm_files m) p")
  case None
  then have f: "p \<notin> fst ` set (sm_files m)" by (simp add: map_of_eq_None_iff)
  show ?thesis
  proof (cases "p \<in> set (sm_dirs m)")
    case True
    obtain es where es: "st_list m \<lparr>le_Dir = target, le_Recursive = True, le_MaxDepth = n\<rparr> = Inr es"
      "map me_Path (filter (\<lambda>e. \<not> pm_IsDir (me_Meta e)) es) = files_below m p"
      using st_list_below [OF assms(1,2) _ True] p_def by blast
    with None True f show ?thesis by (simp add: st_enumerate_def p_def [symmetric] held_paths_def list_all_iff)
  qed (use None f in \<open>simp add: st_enumerate_def p_def [symmetric] held_paths_def\<close>)
next
  case (Some raw)
  then have f: "p \<in> fst ` set (sm_files m)" by (force dest: map_of_SomeD)
  with Some show ?thesis
    by (simp add: st_enumerate_def p_def [symmetric] held_paths_def mountEntry_def staticFileMeta_def mount_meta_def)
qed

lemma files_below_held: "set (files_below m d) \<subseteq> fst ` set (sm_files m)"
  by (auto simp: files_below_def)

lemma files_below_distinct: "static_tree m \<Longrightarrow> distinct (files_below m d)"
  by (simp add: files_below_def static_tree_def)

lemma files_below_sorted: "sorted (files_below m d)"
  by (simp add: files_below_def)

subsection \<open>The generic search over a static mount\<close>

lemma static_profile:
  "MountSupportsCLIClass defaultStaticMountProfile MountCLIContentSearch" "MountSupportsCLIClass defaultStaticMountProfile MountCLIFind"
  "MountSupportsCLIClass defaultStaticMountProfile MountCLIRead" "MountSupportsCLIClass defaultStaticMountProfile MountCLIBulkRead"
  "MountAllowsFallback defaultStaticMountProfile"
  "slo_MaxSearchPaths (mp_SLO (NormalizeMountProfile defaultStaticMountProfile)) = 0"
  "slo_MaxBatchCount (mp_SLO (NormalizeMountProfile defaultStaticMountProfile)) = 0"
  "slo_MaxBatchBytes (mp_SLO (NormalizeMountProfile defaultStaticMountProfile)) = 0"
  "slo_MaxSearchPaths (mp_SLO defaultStaticMountProfile) = 0" "slo_MaxBatchCount (mp_SLO defaultStaticMountProfile) = 0"
  "slo_MaxBatchBytes (mp_SLO defaultStaticMountProfile) = 0"
  by code_simp+

lemma normalizeMountPath_fix: "canonical p \<Longrightarrow> \<not> ends_with_space p \<Longrightarrow> normalizeMountPath p = p"
  using canonical_Cons [of p] by (auto simp: normalizeMountPath_def path_clean_canonical trim_space_fixI starts_with_space_slash)

lemma normalizeMountPaths_id:
  assumes "\<forall>p\<in>set ps. canonical p \<and> \<not> ends_with_space p" "sorted ps" "distinct ps"
  shows "normalizeMountPaths ps = ps"
proof -
  have "map normalizeMountPath ps = ps" using assms(1) by (auto simp: map_idI normalizeMountPath_fix)
  moreover have "filter (\<lambda>p. p \<noteq> []) ps = ps" using assms(1) by (auto simp: filter_id_conv canonical_def)
  ultimately show ?thesis using assms(2,3) by (simp add: normalizeMountPaths_def dedupe_from_id sorted_sort_id)
qed

definition without_search :: "text_lib \<Rightarrow> staticMount \<Rightarrow> 'e VirtualMount" where
  "without_search lib m = (static_VirtualMount lib m)\<lparr>vm_SearchContent := None\<rparr>"

lemma without_search_fields:
  "vm_MountPoint (without_search lib m) = sm_point m" "vm_Profile (without_search lib m) = sm_profile m"
  "vm_StatPath (without_search lib m) p s = (st_stat m p, s)"
  "vm_EnumeratePaths (without_search lib m) = Some (pure_op (st_enumerate m))"
  "vm_ReadMany (without_search lib m) = Some (pure_op (\<lambda>req. st_read_many m (rm_Paths req)))"
  "vm_SearchContent (without_search lib m) = None"
  by (simp_all add: without_search_def static_VirtualMount_def pure_op_def)

lemma enumerated_normal:
  assumes "static_tree m" "blank_free m"
    and "st_enumerate m \<lparr>en_Target = target, en_Recursive = True, en_MaxDepth = n\<rparr> = Inr es"
  shows "normalizeMountPaths (map me_Path es) = map me_Path es" "list_all (\<lambda>e. \<not> pm_IsDir (me_Meta e)) es"
    "set (map me_Path es) \<subseteq> fst ` set (sm_files m)" "normalizeAbsolutePath target \<in> held_paths m"
proof -
  let ?p = "normalizeAbsolutePath target"
  have e: "list_all (\<lambda>e. \<not> pm_IsDir (me_Meta e)) es" "?p \<in> held_paths m"
    "map me_Path es = (if ?p \<in> fst ` set (sm_files m) then [?p] else files_below m ?p)"
    using st_enumerate_cases [OF assms(1,2), of target n] assms(3) by simp_all
  then show "list_all (\<lambda>e. \<not> pm_IsDir (me_Meta e)) es" "?p \<in> held_paths m" by simp_all
  show f: "set (map me_Path es) \<subseteq> fst ` set (sm_files m)"
    unfolding e(3) using files_below_held [of m ?p] by simp
  have "canonical q \<and> \<not> ends_with_space q" if "q \<in> set (map me_Path es)" for q
  proof -
    have "q \<in> fst ` set (sm_files m)" using f that by blast
    then show ?thesis
      using held_canonical [OF assms(1), of q] assms(2) by (auto simp: held_paths_def blank_free_def list_all_iff)
  qed
  moreover have "sorted (map me_Path es)" "distinct (map me_Path es)"
    unfolding e(3) using files_below_sorted files_below_distinct [OF assms(1)] by simp_all
  ultimately show "normalizeMountPaths (map me_Path es) = map me_Path es" by (intro normalizeMountPaths_id) auto
qed

lemma generic_enumeration:
  assumes t: "static_tree m" "blank_free m"
  shows "EnumerateMountFilesWithRequest (without_search lib m) \<lparr>en_Target = target, en_Recursive = True, en_MaxDepth = 0\<rparr> s =
    (case st_enumerate m \<lparr>en_Target = target, en_Recursive = True, en_MaxDepth = 0\<rparr> of
       Inl e \<Rightarrow> (Inl e, s) | Inr es \<Rightarrow> (Inr (map me_Path es), s))"
proof -
  let ?p = "normalizeAbsolutePath target"
  have profile: "sm_profile m = defaultStaticMountProfile" using t by (simp add: static_tree_def)
  have find: "requireMountCLIClass (without_search lib m) MountCLIFind cap = None" for cap
    by (simp add: requireMountCLIClass_def without_search_fields profile static_profile Let_def)
  have depth: "checkMountEnumerateScope (without_search lib m) req = None" for req
    by (simp add: checkMountEnumerateScope_def over_depth_def without_search_fields profile static_profile)
  show ?thesis
  proof (cases "?p \<in> held_paths m")
    case False
    then have "?p \<notin> set (sm_dirs m)" "map_of (sm_files m) ?p = None"
      by (auto simp: held_paths_def map_of_eq_None_iff)
    then show ?thesis
      by (simp add: EnumerateMountFilesWithRequest_def StatMountPath_def without_search_fields st_stat_def st_enumerate_def Let_def)
  next
    case True
    obtain entry where entry: "st_stat m target = Inr entry" "me_Path entry = ?p"
      "pm_IsDir (me_Meta entry) = (?p \<in> set (sm_dirs m))"
      using held_stat [OF t True] held_normal [OF t True] by (auto simp: st_stat_def)
    obtain es where es: "st_enumerate m \<lparr>en_Target = target, en_Recursive = True, en_MaxDepth = 0\<rparr> = Inr es"
      using st_enumerate_cases [OF t, of target 0] True by (auto split: sum.splits)
    note normal = enumerated_normal [OF t es]
    have files: "mountPathsFromEntries es = map me_Path es"
      using normal(1,2) by (simp add: mountPathsFromEntries_def list_all_iff filter_id_conv [THEN iffD2])
    show ?thesis
    proof (cases "?p \<in> set (sm_dirs m)")
      case True
      then show ?thesis
        by (simp add: EnumerateMountFilesWithRequest_def StatMountPath_def without_search_fields entry find depth es files
            pure_op_def Let_def)
    next
      case False
      with True have "?p \<in> fst ` set (sm_files m)" by (simp add: held_paths_def)
      then have "map me_Path es = [?p]" using st_enumerate_cases [OF t, of target 0] es by simp
      with False show ?thesis
        by (simp add: EnumerateMountFilesWithRequest_def StatMountPath_def without_search_fields entry find es Let_def)
    qed
  qed
qed

lemma filter_globs_subset: "filter_globs globs ps = Inr qs \<Longrightarrow> set qs \<subseteq> set ps"
  by (induction ps arbitrary: qs) (auto split: sum.splits if_splits)

lemma search_files_cap:
  "\<not> sr_ListFiles req \<Longrightarrow> search_files req mat files = cap_records (sr_MaxResults req)
     (concat (map (\<lambda>f. mountSearchRecords (ce_Content f) mat (sr_Before req) (sr_After req) (ce_Path f)) files))"
  by (simp add: search_files_def cap_records_def Let_def)

lemma generic_search:
  assumes t: "static_tree m" "blank_free m" and req: "\<not> sr_ListFiles req" "length (sr_Targets req) \<le> 1"
    and mat: "buildMountSearchMatcher lib (sr_Pattern req) (sr_Regex req) (sr_CaseMode req) =
      mountSearchMatcher lib (sr_Pattern req) (sr_Regex req) (sr_CaseMode req)"
  shows "fst (SearchMountContent lib (without_search lib' m) req s) = Inr recs \<longleftrightarrow> st_search lib m req = Inr recs"
proof -
  let ?vm = "without_search lib' m"
  have profile: "sm_profile m = defaultStaticMountProfile" using t by (simp add: static_tree_def)
  have budget: "checkMountSearchBudget ?vm req = None" "checkMountReadManyBudget ?vm r = None" for r
    by (simp_all add: checkMountSearchBudget_def checkMountReadManyBudget_def without_search_fields profile static_profile Let_def)
  have cls: "requireMountCLIClass ?vm MountCLIContentSearch cap = None" "requireMountCLIClass ?vm MountCLIRead cap = None"
    "requireMountCLIClass ?vm MountCLIBulkRead cap = None" for cap
    by (simp_all add: requireMountCLIClass_def without_search_fields profile static_profile Let_def)
  have many: "ReadManyFromMountRequest ?vm r s = (st_read_many m (rm_Paths r), s)" for r s
    by (simp add: ReadManyFromMountRequest_def budget cls without_search_fields pure_op_def Let_def)
  obtain target where target: "(if sr_Targets req = [] then [sm_point m] else sr_Targets req) = [target]"
    using req(2) by (cases "sr_Targets req") auto
  show ?thesis
  proof (cases "st_enumerate m \<lparr>en_Target = target, en_Recursive = True, en_MaxDepth = 0\<rparr>")
    case (Inl e)
    then show ?thesis
      unfolding SearchMountContent_def st_search_def without_search_fields Let_def target
      by (simp add: budget cls without_search_fields profile static_profile target generic_enumeration [OF t] split: sum.splits)
  next
    case (Inr es)
    note normal = enumerated_normal(1) [OF t Inr]
    show ?thesis
    proof (cases "filterMountPathsByGlob (map me_Path es) (sr_Globs req)")
      case globs: (Inl e)
      then show ?thesis
        unfolding SearchMountContent_def st_search_def without_search_fields Let_def target
        by (simp add: budget cls without_search_fields profile static_profile target generic_enumeration [OF t] Inr normal
            split: sum.splits)
    next
      case globs: (Inr paths)
      show ?thesis
        unfolding SearchMountContent_def st_search_def without_search_fields Let_def target
        by (simp add: budget cls without_search_fields profile static_profile target generic_enumeration [OF t] Inr normal
            globs many mat req(1) search_files_cap split: sum.splits)
    qed
  qed
qed

subsection \<open>Properties\<close>

text \<open>C29. Building a static mount at an absolute mount point returns, whatever files it is given, and the baseline
  corpus is always built or refused.\<close>

theorem static_mount_returns:
  assumes "has_prefix (trim_space mountPoint) ''/''"
  shows "NewStaticMount mountPoint kindPrefix files \<noteq> None"
  using NewStaticMount_cases [OF assms, of kindPrefix files] by auto

definition sample_static :: staticMount where
  "sample_static = \<lparr>sm_point = ''/m'', sm_kindPrefix = ''k'', sm_profile = defaultStaticMountProfile,
     sm_files = [(''/m/d/a'', ''x''), (''/m/b'', ''y'')], sm_dirs = [''/m'', ''/m/d''],
     sm_children = [(''/m'', [''/m/b'', ''/m/d'']), (''/m/d'', [''/m/d/a''])]\<rparr>"

lemma sample_static_new: "NewStaticMount ''/m'' ''k'' [(''/m/d/a'', ''x''), (''/m/b'', ''y'')] = Some (Inr sample_static)"
  by code_simp

lemma m_rooted: "has_prefix (trim_space ''/m'') ''/''"
  by code_simp

theorem static_mount_returns_witness: "NewStaticMount ''/m'' ''k'' [(''/m/a'', ''x'')] \<noteq> None"
  by (rule static_mount_returns [OF m_rooted])

lemma corpus_mount_returns: "NewBaselineCorpusMount decode embedded \<noteq> None"
proof -
  have "has_prefix (trim_space virtualTestDir) ''/''" by code_simp
  then show ?thesis
    using NewStaticMount_cases [of virtualTestDir "''test''"]
    by (auto simp: NewBaselineCorpusMount_def split: sum.splits)
qed

text \<open>C28. The listing of a directory of a static mount with an absolute mount point, none of whose paths ends in a blank, is, in
  order and once each, exactly what lies directly in the directory, with the metadata a lookup gives.\<close>

theorem static_listing_exact:
  assumes "NewStaticMount mountPoint kindPrefix files = Some (Inr m)" and "has_prefix (trim_space mountPoint) ''/''"
    and "blank_free m" and "d \<in> set (sm_dirs m)"
  shows "\<exists>es. st_list m \<lparr>le_Dir = d, le_Recursive = False, le_MaxDepth = n\<rparr> = Inr es \<and>
    sorted (map me_Path es) \<and> distinct (map me_Path es) \<and>
    set (map me_Path es) = {p. (p \<in> set (sm_dirs m) \<and> p \<noteq> sm_point m \<or> p \<in> fst ` set (sm_files m)) \<and> path_dir p = d} \<and>
    list_all (\<lambda>e. st_stat m (me_Path e) = Inr e) es"
proof -
  have t: "static_tree m" by (rule NewStaticMount_tree [OF assms(1,2)])
  obtain l where l: "map_of (sm_children m) d = Some l" "sorted l" "distinct l" "set l = lies_in m d"
    using t assms(4) unfolding static_tree_def by blast
  have n: "normalizeAbsolutePath d = d"
    using held_normal [OF t assms(3), of d] assms(4) by (simp add: held_paths_def)
  have "set l \<subseteq> held_paths m" unfolding l(4) lies_in_def held_paths_def by blast
  from held_stat_all [OF t assms(3) this] obtain es where
    es: "st_stat_all m l = Inr es" "map me_Path es = l" "list_all (\<lambda>e. st_stat m (me_Path e) = Inr e) es"
    by blast
  have "st_list m \<lparr>le_Dir = d, le_Recursive = False, le_MaxDepth = n\<rparr> = Inr es"
    using l(1) assms(4) es(1) n by (simp add: st_list_def Let_def)
  moreover have "set l = {p. (p \<in> set (sm_dirs m) \<and> p \<noteq> sm_point m \<or> p \<in> fst ` set (sm_files m)) \<and> path_dir p = d}"
    unfolding l(4) lies_in_def by blast
  ultimately show ?thesis
    by (intro exI [of _ es]) (simp only: es(2,3) l(2,3) simp_thms)
qed

theorem static_listing_exact_witness:
  "\<exists>es. st_list sample_static \<lparr>le_Dir = ''/m'', le_Recursive = False, le_MaxDepth = 0\<rparr> = Inr es \<and>
    sorted (map me_Path es) \<and> ''/m/d'' \<in> set (map me_Path es)"
proof -
  have "blank_free sample_static" by code_simp
  moreover have "''/m'' \<in> set (sm_dirs sample_static)" by code_simp
  ultimately obtain es where es: "st_list sample_static \<lparr>le_Dir = ''/m'', le_Recursive = False, le_MaxDepth = 0\<rparr> = Inr es"
      "sorted (map me_Path es)"
      "set (map me_Path es) = {p. (p \<in> set (sm_dirs sample_static) \<and> p \<noteq> sm_point sample_static \<or>
        p \<in> fst ` set (sm_files sample_static)) \<and> path_dir p = ''/m''}"
    using static_listing_exact [OF sample_static_new m_rooted] by blast
  have "path_dir ''/m/d'' = ''/m''" by code_simp
  then have "''/m/d'' \<in> set (map me_Path es)" unfolding es(3) by (simp add: sample_static_def)
  with es(1,2) show ?thesis by blast
qed

text \<open>A directory whose name ends in a blank is listed under a path that a lookup trims: the listing of its parent fails.\<close>

definition blank_static :: staticMount where
  "blank_static = \<lparr>sm_point = ''/m'', sm_kindPrefix = ''k'', sm_profile = defaultStaticMountProfile,
     sm_files = [(''/m/a /b'', ''x'')], sm_dirs = [''/m'', ''/m/a ''],
     sm_children = [(''/m'', [''/m/a '']), (''/m/a '', [''/m/a /b''])]\<rparr>"

lemma blank_directory_unlisted:
  "NewStaticMount ''/m'' ''k'' [(''/m/a /b'', ''x'')] = Some (Inr blank_static) \<and>
   (\<forall>es. st_list blank_static \<lparr>le_Dir = ''/m'', le_Recursive = False, le_MaxDepth = 0\<rparr> \<noteq> Inr es)"
proof -
  have "isl (st_list blank_static \<lparr>le_Dir = ''/m'', le_Recursive = False, le_MaxDepth = 0\<rparr>)" by code_simp
  moreover have "NewStaticMount ''/m'' ''k'' [(''/m/a /b'', ''x'')] = Some (Inr blank_static)" by code_simp
  ultimately show ?thesis by auto
qed

text \<open>Documented of \<open>unicode.IsUpper\<close>: of the ASCII characters the letters A to Z are upper case, and no others.\<close>

definition ascii :: "string \<Rightarrow> bool" where
  "ascii t \<longleftrightarrow> list_all (\<lambda>c. (of_char c :: nat) < 128) t"

definition upper_lawful :: "text_lib \<Rightarrow> bool" where
  "upper_lawful lib \<longleftrightarrow> (\<forall>t. ascii t \<longrightarrow> tl_has_upper lib t = mountPatternHasUpper t)"

text \<open>C27. The search of a static mount agrees with the generic search over the same mount, if the mount point is absolute and none of
  its paths ends in a blank: for at most one target, records rather than a list of files, and an ASCII pattern where the case
  mode is smart, they succeed on the same requests with the same records.\<close>

theorem static_search_generic:
  assumes "NewStaticMount mountPoint kindPrefix files = Some (Inr m)" and "has_prefix (trim_space mountPoint) ''/''"
    and "blank_free m" and "\<not> sr_ListFiles req" and "length (sr_Targets req) \<le> 1"
    and "upper_lawful lib" and "sr_CaseMode req = SearchCaseSmart \<Longrightarrow> ascii (sr_Pattern req)"
  shows "st_search lib m req = Inr recs \<longleftrightarrow> fst (SearchMountContent lib (without_search lib' m) req s) = Inr recs"
proof -
  have "effective_case (lib\<lparr>tl_has_upper := mountPatternHasUpper\<rparr>) (sr_Pattern req) (sr_CaseMode req) =
      effective_case lib (sr_Pattern req) (sr_CaseMode req)"
    using assms(6,7) by (auto simp: effective_case_def upper_lawful_def Let_def)
  then have "buildMountSearchMatcher lib (sr_Pattern req) (sr_Regex req) (sr_CaseMode req) =
      mountSearchMatcher lib (sr_Pattern req) (sr_Regex req) (sr_CaseMode req)"
    by (simp add: mountSearchMatcher_def buildMountSearchMatcher_def Let_def)
  from generic_search [OF NewStaticMount_tree [OF assms(1,2)] assms(3-5) this] show ?thesis by (rule sym)
qed

definition plain_text_lib :: text_lib where
  "plain_text_lib = \<lparr>tl_has_upper = mountPatternHasUpper, tl_lower = to_lower, tl_compile = (\<lambda>_. Inl (ErrText ''no regexps''))\<rparr>"

definition sample_search :: SearchRequest where
  "sample_search = \<lparr>sr_Pattern = ''y'', sr_Regex = False, sr_CaseMode = SearchCaseSmart, sr_Targets = [], sr_Globs = [],
     sr_Before = 0, sr_After = 0, sr_MaxResults = 0, sr_ListFiles = False\<rparr>"

theorem static_search_generic_witness:
  "fst (SearchMountContent plain_text_lib (without_search plain_text_lib sample_static) sample_search (live_sys ([] :: files))) =
    Inr [\<lparr>sc_Path = ''/m/b'', sc_Line = 1, sc_Kind = ''match'', sc_Text = ''y''\<rparr>]"
proof -
  have "blank_free sample_static" by code_simp
  moreover have "st_search plain_text_lib sample_static sample_search =
      Inr [\<lparr>sc_Path = ''/m/b'', sc_Line = 1, sc_Kind = ''match'', sc_Text = ''y''\<rparr>]"
    by code_simp
  moreover have "\<not> sr_ListFiles sample_search" "length (sr_Targets sample_search) \<le> 1" "ascii (sr_Pattern sample_search)"
    "upper_lawful plain_text_lib"
    by (simp_all add: sample_search_def plain_text_lib_def upper_lawful_def ascii_def)
  ultimately show ?thesis
    using static_search_generic [OF sample_static_new m_rooted, THEN iffD1] by blast
qed

text \<open>The static mount looks for the bytes A to Z, the generic search for an upper case rune. For a smart search of the capital
  \<open>E\<close> with an acute accent in a file that has the small letter, the static mount ignores case and finds it; the generic search does not.\<close>

definition accent_lib :: text_lib where
  "accent_lib = \<lparr>tl_has_upper = (\<lambda>t. mountPatternHasUpper t \<or> contains t [CHR 0xC3, CHR 0x89]),
     tl_lower = map (\<lambda>c. if c = CHR 0x89 then CHR 0xA9 else c), tl_compile = (\<lambda>_. Inl (ErrText ''no regexps''))\<rparr>"

definition accent_static :: staticMount where
  "accent_static = sample_static\<lparr>sm_files := [(''/m/d/a'', ''x''), (''/m/b'', [CHR 0xC3, CHR 0xA9])]\<rparr>"

lemma smart_case_diverges:
  "st_search accent_lib accent_static (sample_search\<lparr>sr_Pattern := [CHR 0xC3, CHR 0x89]\<rparr>) =
     Inr [\<lparr>sc_Path = ''/m/b'', sc_Line = 1, sc_Kind = ''match'', sc_Text = [CHR 0xC3, CHR 0xA9]\<rparr>] \<and>
   fst (SearchMountContent accent_lib (without_search accent_lib accent_static)
     (sample_search\<lparr>sr_Pattern := [CHR 0xC3, CHR 0x89]\<rparr>) (live_sys ([] :: files))) = Inr []"
  by (intro conjI; code_simp)

subsection \<open>A mount point given as a relative path\<close>

text \<open>A mount point \<open>..\<close> is normalised to \<open>/..\<close>, which no parent of a file ever is: the loop does not end.\<close>

lemma dotdot_never_reached: "dirs_to_point ''/..'' ''/'' dirs = None"
proof -
  have root: "path_dir ''/'' = ''/''" by code_simp
  have "\<not> (point = ''/..'' \<and> dir = ''/'')" if "dirs_to_point point dir ds = Some out" for point dir ds out
  proof (rule dirs_to_point.raw_induct [where P = "\<lambda>point dir ds out. \<not> (point = ''/..'' \<and> dir = ''/'')", OF _ that])
    fix f :: "string \<Rightarrow> string \<Rightarrow> string list \<Rightarrow> string list option" and point dir ds out
    assume rec: "\<And>point dir ds out. f point dir ds = Some out \<Longrightarrow> \<not> (point = ''/..'' \<and> dir = ''/'')"
      and step: "(if dir = point then Some (add_new dir ds) else f point (path_dir dir) (add_new dir ds)) = Some out"
    show "\<not> (point = ''/..'' \<and> dir = ''/'')"
    proof
      assume at: "point = ''/..'' \<and> dir = ''/''"
      with step have "f ''/..'' ''/'' (add_new ''/'' ds) = Some out" by (simp add: root)
      from rec [OF this] show False by simp
    qed
  qed
  then show ?thesis by (cases "dirs_to_point ''/..'' ''/'' dirs") auto
qed

lemma relative_point_never_returns: "NewStaticMount ''..'' [] [(''../a'', raw)] = None"
proof -
  have "normalizeAbsolutePath ''../a'' = ''/../a''" by code_simp
  moreover have "path_dir ''/../a'' = ''/''" by code_simp
  ultimately show ?thesis
    by (simp add: NewStaticMount_def normalize_relative_dotdot map_keys_def dotdot_never_reached)
qed

end
