(* ===== verification/Spec2Isabelle.thy ===== *)
theory Spec2Isabelle
  imports Engine_Safety Session_Safety Agent_Fs_Safety Local_Fs_Safety Static_Mount_Safety Builtin_Edit Builtin_Text_Laws
    Builtin_Find_Laws Builtin_Listing Builtin_Search Builtin_Json_Laws Builtin_Frontmatter_Laws
    Builtin_Commands_Laws Builtin_Mounts Builtin_Registry_Laws
begin

text \<open>
  \<^bold>\<open>simsh\<close> is a deterministic shell for agents, written in Go: scripts are parsed and run inside the process, over a virtual filesystem
  made of callbacks, mounts and host directories. This development models the program from the bytes of a script down to the
  calls of the operating system, and proves what a client relies on. Paths below are relative to \<open>src/pkg\<close>.

  \<^bold>\<open>How the parts interact.\<close> A session manager (\<open>engine/runtime/session_manager.go\<close>) keeps sessions and makes a runtime stack for each:
  a filesystem of zones over host directories (\<open>adapter/agentfs\<close>) turned into the callbacks \<open>contract.Ops\<close>, the mounts, the policy. The
  engine (\<open>engine/orchestrator.go\<close>) prepares these callbacks: defaults, mounts in front of the filesystem (\<open>mount\<close>), path
  resolution, rc files, access policy, trace. It parses the script and runs its pipelines; each command is an alias, a
  builtin of the registry (\<open>builtin\<close>) or an external command. A builtin sees its \<open>CommandRuntime\<close> only: the prepared callbacks
  and a dispatcher for further commands.

  \<^bold>\<open>State.\<close> \<open>Engine_State\<close>: everything a run may read or change is one value \<open>'e sys\<close>: the context, the working directory of the
  execution, the trace, the audit events, and the environment \<open>sy_env\<close>, whose type is a parameter: it stands for the disk and all the
  callbacks own. A callback is a function from its argument and the state to an error or a result and the state. Go errors
  are values of \<open>go_error\<close> with \<open>errors.Is\<close> as a function; a panic or a loop that does not end is \<^term>\<open>None\<close>, or an error that nothing
  else gives. A Go string is a list of bytes, an \<open>int\<close> is an integer with the wrap-around written out where it can be reached.

  \<^bold>\<open>Theories, in the order of the program.\<close>

  \<^item> \<open>Prelude\<close>, \<open>Go_Path\<close>, \<open>Go_Strings\<close>, \<open>Go_Glob\<close>, \<open>Go_Json\<close>, \<open>Go_Json_Roundtrip\<close>: what the code uses of Go's standard library (\<open>strings\<close>,
    \<open>path\<close>, \<open>path.Match\<close>, \<open>encoding/json\<close>) and lemmas on lists and maps; the decoder reads back what the encoder writes.
  \<^item> \<open>Contract_Types\<close>, \<open>Mount_Contract\<close>, \<open>Safety_Policy\<close> (\<open>contract\<close>): values, errors, profiles; policies and ceilings against what they permit.
  \<^item> \<open>Script_Parser\<close>, \<open>Script_Roundtrip\<close> (\<open>engine/script_parser_v2.go\<close>): lexer and parser, total; a printer the parser inverts.
  \<^item> \<open>Bootstrap\<close> (\<open>contract/runtime_bootstrap.go\<close>), \<open>Path_Resolution\<close>, \<open>Exec_Output\<close>, \<open>Trace_Collector\<close>, \<open>Command_Catalog\<close>: aliases and rc files,
    paths and working directory, output limits, the trace, command references and the registry.
  \<^item> \<open>Orchestrator\<close>, \<open>Script_Runner\<close>, \<open>Script_Semantics\<close> (\<open>engine/orchestrator.go\<close>, \<open>script_runner.go\<close>): one command with its dispatch; redirections,
    pipelines, lists; the runner agrees with a reference semantics.
  \<^item> \<open>Mount_Router\<close>, \<open>Mount_Dispatch\<close>, \<open>Mount_Search\<close>, \<open>Mount_Bridge\<close>, \<open>Bin_Mounts\<close> (\<open>engine/virtualfs*.go\<close>, \<open>contract/mount_dispatch.go\<close>, \<open>mount\<close>): which mount
    a path belongs to, what a mount is allowed to do, the callbacks over mounts and filesystem, \<open>/sys/bin\<close> and \<open>/bin\<close>.
  \<^item> \<open>Engine\<close>, \<open>Engine_Invariant\<close>, \<open>Engine_Safety\<close>: the layers composed, the cache of prepared callbacks, executions; an invariant that callbacks,
    mounts and builtins keep is kept by executions.
  \<^item> \<open>Host_Path\<close>, \<open>Agent_Fs\<close>, \<open>Agent_Fs_Safety\<close> (\<open>adapter/internal/pathguard\<close>, \<open>adapter/agentfs\<close>): the guard against links, the filesystem of zones, and that
    nothing outside the writable zones is changed. \<open>Local_Fs\<close>, \<open>Local_Fs_Safety\<close> (\<open>adapter/localfs\<close>): the callbacks over one host directory, and
    that scripts change it only where the guard and as the policy admits. \<open>Static_Mount\<close>, \<open>Static_Mount_Safety\<close> (\<open>mount/static_tree_mount.go\<close>, the baseline corpus).
  \<^item> \<open>Runtime_Stack\<close>, \<open>Session_Contract\<close>, \<open>Session_Manager\<close>, \<open>Session_Invariant\<close>, \<open>Session_Safety\<close>: the stack, and the manager as a step relation
    over the interleavings of concurrent calls, with its invariant and the abstract life of a session it refines.
  \<^item> \<open>Builtin_Base\<close> to \<open>Builtin_Mounts\<close> (\<open>builtin/op_*.go\<close>): every builtin command. Theories named \<open>_Laws\<close> say what some of them compute: sort,
    uniq, diff, glob, front matter, search records, type and which. \<open>Builtin_Docs\<close>, \<open>Builtin_Registry\<close>: what they document and how they are
    registered. \<open>Builtin_Keeps\<close>, \<open>Builtin_Keeps_Rows\<close>, \<open>Builtin_Registry_Laws\<close>: which callbacks a builtin can reach, and what
    this gives for scripts and sessions over the default builtins.

  \<^bold>\<open>Interfaces.\<close> Where a part relies on another, what it relies on is a locale, interpreted on the part that provides it: the table of
  commands (\<open>command_table\<close>), tables of points looked up by the longest one a path lies under (\<open>point_table\<close>, for mounts and
  zones), and what a builtin may assume of its runtime (\<open>reading_contract\<close>, \<open>runtime_contract\<close>). The relation of a session manager's steps and the reachable states is inductive.

  \<^bold>\<open>Bounds and fuel.\<close> Recursions follow the text they read. Commands dispatched by commands nest at most \<open>maxDispatchDepth\<close> (8) deep, as in the
  code, so dispatch is structural. The JSON decoder runs on \<open>2 * length text + 2\<close>, which is enough: \<open>Go_Json_Roundtrip\<close> shows that what the encoder
  writes is read, and the code's own nesting limit is modelled. The walks of ls and tree may go on forever over callbacks that
  invent directories: fuel is an argument (one unit per directory or level) and \<^term>\<open>None\<close> means that it was used up; nothing is claimed
  of such a run. \<open>NewStaticMount\<close> may loop for a mount point that is not absolute: it is a partial function, and returning is a theorem.

  \<^bold>\<open>Parameters.\<close> Code that is not in the repository is an argument: the functions of the operating system (\<open>'e os\<close>, with the laws
  \<open>abs_lawful\<close> and, for redirections into files, \<open>os_files\<close>), regular expressions and Unicode case folding (\<open>text_lib\<close>, with \<open>upper_lawful\<close> where two
  tests for upper case have to agree), the text of JSON numbers and syntax errors (\<open>json_lib\<close>, with \<open>exact_numbers\<close>), the clock, the order in which an iteration visits a map (\<open>visit\<close>), host adapters, external commands, and what a mount reports of itself (\<open>mount_probe\<close>).

  \<^bold>\<open>Not modelled.\<close> The commands under \<open>cmd\<close> and \<open>pkg/cmd\<close> (flags, a terminal interface) and \<open>service/httpapi\<close> (decoding of HTTP requests) only call
  what is modelled and are input and output. \<open>adapter/resourceset\<close> and \<open>adapter/reference\<close> are further adapters behind the same callbacks and
  adapter interface: the theorems hold for them as parameters, their code is not translated. \<open>benchmarks\<close> and \<open>adapter/internal/contracttest\<close> are measurement
  and test code. The figures of latency a mount declares, the times of executions, and the rendering of rows by an adapter are left
  out; nothing in the engine decides by them. Data races are outside the model: an operation under a lock is one step.
\<close>

end
